(* ===== verification/Prelude.thy ===== *)
theory Prelude
  imports Complex_Main "HOL-Library.Sublist"
begin

section \<open>Shared notation of the model: results, numbers, strings, optional values\<close>

text \<open>
  What every component of the model uses and no component owns: the
  \<open>Result\<close> type of \<open>packages/shared\<close>, JavaScript's numbers as far as the
  guards of the code can see them, the string operations the code calls, the
  \<open>??\<close> and truthiness idioms on optional values, and generic facts about
  lists and association lists (a JavaScript \<open>Map\<close> iterates in insertion order).
\<close>

named_theorems op_defs "unfolding equations of the operations of the components"

subsection \<open>Result values\<close>

text \<open>
  \<open>packages/shared/src/result/result.ts\<close>: a tagged union. Operations of an
  aggregate return a result together with the aggregate, because several of
  them write fields before the guard that makes them fail.
\<close>

datatype ('a, 'e) result = Ok 'a | Fail 'e

fun is_ok :: "('a, 'e) result \<Rightarrow> bool" where
  "is_ok (Ok v) = True"
| "is_ok (Fail e) = False"

lemma is_ok_iff: "is_ok r \<longleftrightarrow> (\<exists>v. r = Ok v)"
  by (cases r) auto

lemma is_ok_unit [simp]: "is_ok (r :: (unit, 'e) result) \<longleftrightarrow> r = Ok ()"
  by (cases r) auto

text \<open>Reading a property of \<open>undefined\<close> throws; a call that may do so returns \<open>Inl TypeError\<close>.\<close>

datatype js_exn = TypeError

subsection \<open>Optional values\<close>

text \<open>\<open>a ?? d\<close>, and \<open>a ?? b\<close> where \<open>b\<close> is optional itself.\<close>

fun nullish :: "'a option \<Rightarrow> 'a \<Rightarrow> 'a" where
  "nullish None d = d"
| "nullish (Some v) d = v"

fun nullish_opt :: "'a option \<Rightarrow> 'a option \<Rightarrow> 'a option" where
  "nullish_opt None d = d"
| "nullish_opt (Some v) d = Some v"

text \<open>The truth value of an optional string: \<open>undefined\<close> and \<open>''\<close> are falsy.\<close>

fun truthy :: "string option \<Rightarrow> bool" where
  "truthy None = False"
| "truthy (Some s) = (s \<noteq> [])"

lemma truthy_iff: "truthy x \<longleftrightarrow> (\<exists>s. x = Some s \<and> s \<noteq> [])"
  by (cases x) auto

subsection \<open>Numbers\<close>

text \<open>
  A JavaScript number is finite, not a number, or one of the two infinities.
  The distinction matters to the code: every comparison with \<open>NaN\<close> is false, so
  a range check written as two \<open><\<close> tests lets it through. Finite values are
  rationals: rounding of the IEEE arithmetic (and the sign of zero) is not
  modelled, so the model adds and multiplies exactly.
\<close>

datatype jsnum = Fin rat | NaN | PosInf | NegInf

fun js_lt :: "jsnum \<Rightarrow> jsnum \<Rightarrow> bool" where
  "js_lt (Fin a) (Fin b) = (a < b)"
| "js_lt NaN _ = False"
| "js_lt _ NaN = False"
| "js_lt NegInf NegInf = False"
| "js_lt NegInf _ = True"
| "js_lt PosInf _ = False"
| "js_lt (Fin a) PosInf = True"
| "js_lt (Fin a) NegInf = False"

fun js_le :: "jsnum \<Rightarrow> jsnum \<Rightarrow> bool" where
  "js_le (Fin a) (Fin b) = (a \<le> b)"
| "js_le NaN _ = False"
| "js_le _ NaN = False"
| "js_le NegInf _ = True"
| "js_le PosInf b = (b = PosInf)"
| "js_le (Fin a) PosInf = True"
| "js_le (Fin a) NegInf = False"

text \<open>\<open>a === b\<close>: the only value not equal to itself is \<open>NaN\<close>.\<close>

fun js_eq :: "jsnum \<Rightarrow> jsnum \<Rightarrow> bool" where
  "js_eq NaN _ = False"
| "js_eq _ NaN = False"
| "js_eq a b = (a = b)"

fun js_neg :: "jsnum \<Rightarrow> jsnum" where
  "js_neg (Fin a) = Fin (- a)"
| "js_neg NaN = NaN"
| "js_neg PosInf = NegInf"
| "js_neg NegInf = PosInf"

fun js_add :: "jsnum \<Rightarrow> jsnum \<Rightarrow> jsnum" where
  "js_add (Fin a) (Fin b) = Fin (a + b)"
| "js_add NaN _ = NaN"
| "js_add _ NaN = NaN"
| "js_add PosInf NegInf = NaN"
| "js_add NegInf PosInf = NaN"
| "js_add PosInf _ = PosInf"
| "js_add _ PosInf = PosInf"
| "js_add NegInf _ = NegInf"
| "js_add _ NegInf = NegInf"

definition js_sub :: "jsnum \<Rightarrow> jsnum \<Rightarrow> jsnum" where
  "js_sub a b = js_add a (js_neg b)"

fun js_abs :: "jsnum \<Rightarrow> jsnum" where
  "js_abs (Fin a) = Fin \<bar>a\<bar>"
| "js_abs NaN = NaN"
| "js_abs _ = PosInf"

definition js_inf_of_sign :: "rat \<Rightarrow> jsnum \<Rightarrow> jsnum" where
  "js_inf_of_sign a i = (if a = 0 then NaN else if a > 0 then i else js_neg i)"

fun js_mul :: "jsnum \<Rightarrow> jsnum \<Rightarrow> jsnum" where
  "js_mul (Fin a) (Fin b) = Fin (a * b)"
| "js_mul NaN _ = NaN"
| "js_mul _ NaN = NaN"
| "js_mul (Fin a) i = js_inf_of_sign a i"
| "js_mul i (Fin b) = js_inf_of_sign b i"
| "js_mul PosInf i = i"
| "js_mul NegInf i = js_neg i"

fun js_isFinite :: "jsnum \<Rightarrow> bool" where
  "js_isFinite (Fin _) = True"
| "js_isFinite _ = False"

text \<open>\<open>Number.isInteger\<close>.\<close>

fun js_isInteger :: "jsnum \<Rightarrow> bool" where
  "js_isInteger (Fin a) = (a = of_int \<lfloor>a\<rfloor>)"
| "js_isInteger _ = False"

text \<open>\<open>Math.min\<close>.\<close>

definition js_min :: "jsnum \<Rightarrow> jsnum \<Rightarrow> jsnum" where
  "js_min a b = (if a = NaN \<or> b = NaN then NaN else if js_le a b then a else b)"

lemma js_isFinite_iff: "js_isFinite a \<longleftrightarrow> (\<exists>r. a = Fin r)"
  by (cases a) auto

lemma js_le_lt: "js_le a b \<longleftrightarrow> js_lt a b \<or> js_eq a b"
  by (cases a; cases b) auto

lemma js_lt_not_le: "a \<noteq> NaN \<Longrightarrow> b \<noteq> NaN \<Longrightarrow> \<not> js_lt a b \<longleftrightarrow> js_le b a"
  by (cases a; cases b) auto

lemma js_le_trans: "js_le a b \<Longrightarrow> js_le b c \<Longrightarrow> js_le a c"
  by (cases a; cases b; cases c) auto

lemma js_le_refl: "a \<noteq> NaN \<Longrightarrow> js_le a a"
  by (cases a) auto

lemma js_NaN_cmp [simp]:
  "js_lt a NaN = False" "js_le a NaN = False" "js_eq a NaN = False"
  "js_add a NaN = NaN" "js_mul a NaN = NaN"
  by (cases a; simp)+

subsection \<open>Strings\<close>

text \<open>
  A string is a list of code units below 256. \<open>trim\<close> removes the white space
  of ECMAScript that lies in this range, \<open>toLowerCase\<close> maps the letters of
  Latin-1.
\<close>

definition js_space :: "char \<Rightarrow> bool" where
  "js_space c \<longleftrightarrow> (of_char c :: nat) \<in> {9, 10, 11, 12, 13, 32, 160}"

definition js_trim :: "string \<Rightarrow> string" where
  "js_trim s = rev (dropWhile js_space (rev (dropWhile js_space s)))"

definition js_lower_char :: "char \<Rightarrow> char" where
  "js_lower_char c =
     (let n = of_char c :: nat
      in if 65 \<le> n \<and> n \<le> 90 \<or> 192 \<le> n \<and> n \<le> 222 \<and> n \<noteq> 215
         then char_of (n + 32) else c)"

definition js_lower :: "string \<Rightarrow> string" where
  "js_lower s = map js_lower_char s"

text \<open>\<open>s.startsWith(p)\<close> and \<open>s.includes(p)\<close>.\<close>

definition js_startsWith :: "string \<Rightarrow> string \<Rightarrow> bool" where
  "js_startsWith s p \<longleftrightarrow> take (length p) s = p"

fun js_includes :: "string \<Rightarrow> string \<Rightarrow> bool" where
  "js_includes [] p = (p = [])"
| "js_includes (c # s) p = (js_startsWith (c # s) p \<or> js_includes s p)"

lemma js_startsWith_prefix: "js_startsWith s p \<longleftrightarrow> prefix p s"
  by (auto simp: js_startsWith_def prefix_def) (metis append_take_drop_id)

lemma js_includes_sublist: "js_includes s p \<longleftrightarrow> sublist p s"
  by (induction s) (auto simp: js_startsWith_prefix sublist_Cons_right)

text \<open>Decimal digits, for the template strings that embed a natural number.\<close>

fun show_nat :: "nat \<Rightarrow> string" where
  "show_nat n = (if n < 10 then [char_of (48 + n)] else show_nat (n div 10) @ [char_of (48 + n mod 10)])"

declare show_nat.simps [simp del]

definition show_int :: "int \<Rightarrow> string" where
  "show_int i = (if i < 0 then ''-'' @ show_nat (nat (- i)) else show_nat (nat i))"

text \<open>\<open>xs.join(sep)\<close>.\<close>

fun js_join :: "string \<Rightarrow> string list \<Rightarrow> string" where
  "js_join sep [] = []"
| "js_join sep [x] = x"
| "js_join sep (x # y # zs) = x @ sep @ js_join sep (y # zs)"

subsection \<open>Lists\<close>

text \<open>\<open>xs.find(p)\<close> is \<open>List.find\<close>; \<open>xs[i]\<close> is \<open>undefined\<close> out of range.\<close>

definition js_at :: "'a list \<Rightarrow> nat \<Rightarrow> 'a option" where
  "js_at xs i = (if i < length xs then Some (xs ! i) else None)"

lemma js_at_Some: "js_at xs i = Some x \<longleftrightarrow> i < length xs \<and> x = xs ! i"
  by (auto simp: js_at_def)

lemma js_at_None: "js_at xs i = None \<longleftrightarrow> length xs \<le> i"
  by (auto simp: js_at_def)

lemma find_SomeD: "List.find P xs = Some x \<Longrightarrow> x \<in> set xs \<and> P x"
  by (auto simp: find_Some_iff)

lemma find_None_iff': "List.find P xs = None \<longleftrightarrow> (\<forall>x. x \<in> set xs \<longrightarrow> \<not> P x)"
  by (auto simp: find_None_iff)

text \<open>
  A JavaScript \<open>Map\<close> as an association list in insertion order: \<open>set\<close> overwrites
  in place or appends, \<open>delete\<close> removes.
\<close>

fun am_set :: "'k \<Rightarrow> 'v \<Rightarrow> ('k \<times> 'v) list \<Rightarrow> ('k \<times> 'v) list" where
  "am_set k v [] = [(k, v)]"
| "am_set k v ((k', v') # m) = (if k' = k then (k, v) # m else (k', v') # am_set k v m)"

definition am_delete :: "'k \<Rightarrow> ('k \<times> 'v) list \<Rightarrow> ('k \<times> 'v) list" where
  "am_delete k m = filter (\<lambda>p. fst p \<noteq> k) m"

lemma map_of_am_set [simp]: "map_of (am_set k v m) = (map_of m)(k \<mapsto> v)"
  by (induction m) (auto simp: fun_upd_twist)

lemma map_of_am_delete [simp]: "map_of (am_delete k m) = (map_of m)(k := None)"
  by (induction m) (auto simp: am_delete_def)

lemma keys_am_set:
  "map fst (am_set k v m) = (if k \<in> set (map fst m) then map fst m else map fst m @ [k])"
  by (induction m) (auto simp: image_iff split: if_splits)

lemma distinct_am_set: "distinct (map fst m) \<Longrightarrow> distinct (map fst (am_set k v m))"
  by (simp only: keys_am_set) auto

lemma am_set_new: "k \<notin> fst ` set m \<Longrightarrow> am_set k v m = m @ [(k, v)]"
  by (induction m) auto

lemma distinct_am_delete: "distinct (map fst m) \<Longrightarrow> distinct (map fst (am_delete k m))"
  by (induction m) (auto simp: am_delete_def)

end
