(* ===== verification/Aggregate.thy ===== *)
theory Aggregate
  imports Prelude
begin

section \<open>The aggregate root and the contracts of its subclasses\<close>

text \<open>
  \<open>packages/domain/src/aggregate/aggregate-root.ts\<close>: every aggregate carries a
  version, the version it was loaded with, and the domain events not yet
  published. A subclass is a record extension of \<open>aggregate_root\<close>, over its own
  type of events. The two locales below are the contracts that the lifecycle
  aggregates share: a status that only moves along a transition table, and an
  event log that counts the version.
\<close>

text \<open>
  \<open>packages/domain/src/events/domain-event.ts\<close>: the envelope of an event; the
  class of the event is the constructor of its payload, so \<open>eventType\<close> is a
  function of the payload. \<open>new Date()\<close> is the clock reading \<open>now\<close> that each
  operation takes, in milliseconds.
\<close>

record 'p domain_event =
  eventId :: string
  occurredAt :: int
  evTenantId :: string
  correlationId :: string
  producer :: string
  payload :: 'p

record 'e aggregate_root =
  tenantId :: string
  aggId :: string
  version :: nat
  loadedVersion :: "nat option"
  domainEvents :: "'e list"

definition applyEvent :: "'e \<Rightarrow> ('e, 'a) aggregate_root_scheme \<Rightarrow> ('e, 'a) aggregate_root_scheme" where
  [op_defs]: "applyEvent ev a = a\<lparr>domainEvents := domainEvents a @ [ev], version := version a + 1\<rparr>"

definition clearDomainEvents :: "('e, 'a) aggregate_root_scheme \<Rightarrow> ('e, 'a) aggregate_root_scheme" where
  [op_defs]: "clearDomainEvents a = a\<lparr>domainEvents := []\<rparr>"

definition setVersion :: "nat \<Rightarrow> ('e, 'a) aggregate_root_scheme \<Rightarrow> ('e, 'a) aggregate_root_scheme" where
  [op_defs]: "setVersion v a = a\<lparr>version := v, loadedVersion := Some v\<rparr>"

text \<open>
  The version an aggregate should have: what it was loaded with plus one per
  unpublished event.
\<close>

definition version_ok :: "('e, 'a) aggregate_root_scheme \<Rightarrow> bool" where
  "version_ok a \<longleftrightarrow> version a = nullish (loadedVersion a) 0 + length (domainEvents a)"

text \<open>\<open>logs es a b\<close>: \<open>b\<close> is \<open>a\<close> after the events \<open>es\<close> were applied, as far as the root goes.\<close>

definition logs :: "'e list \<Rightarrow> ('e, 'a) aggregate_root_scheme \<Rightarrow> ('e, 'a) aggregate_root_scheme \<Rightarrow> bool" where
  "logs es a b \<longleftrightarrow> domainEvents b = domainEvents a @ es \<and> version b = version a + length es
     \<and> loadedVersion b = loadedVersion a \<and> tenantId b = tenantId a \<and> aggId b = aggId a"

lemma logs_version_ok: "logs es a b \<Longrightarrow> version_ok a \<Longrightarrow> version_ok b"
  by (simp add: logs_def version_ok_def)

lemma logs_trans: "logs es a b \<Longrightarrow> logs fs b c \<Longrightarrow> logs (es @ fs) a c"
  by (simp add: logs_def)

lemma logs_refl: "logs [] a a"
  by (simp add: logs_def)

definition extends_log :: "('e, 'a) aggregate_root_scheme \<Rightarrow> ('e, 'a) aggregate_root_scheme \<Rightarrow> bool" where
  "extends_log a b \<longleftrightarrow> (\<exists>es. logs es a b)"

lemma extends_log_refl [simp, intro]: "extends_log a a"
  using logs_refl extends_log_def by metis

lemma extends_log_trans: "extends_log a b \<Longrightarrow> extends_log b c \<Longrightarrow> extends_log a c"
  using logs_trans unfolding extends_log_def by metis

lemma extends_log_version_ok: "extends_log a b \<Longrightarrow> version_ok a \<Longrightarrow> version_ok b"
  using logs_version_ok unfolding extends_log_def by metis

lemma extends_log_frame:
  "extends_log a b \<Longrightarrow> tenantId b = tenantId a \<and> aggId b = aggId a
     \<and> loadedVersion b = loadedVersion a \<and> version a \<le> version b"
  by (auto simp: extends_log_def logs_def)

text \<open>The part of an aggregate that the root class declares.\<close>

definition root_of :: "('e, 'a) aggregate_root_scheme \<Rightarrow> 'e aggregate_root" where
  "root_of a = \<lparr>tenantId = tenantId a, aggId = aggId a, version = version a,
                loadedVersion = loadedVersion a, domainEvents = domainEvents a\<rparr>"

lemma root_of_simps [simp]:
  "version (root_of e) = version e" "loadedVersion (root_of e) = loadedVersion e"
  "domainEvents (root_of e) = domainEvents e" "tenantId (root_of e) = tenantId e"
  "aggId (root_of e) = aggId e"
  by (simp_all add: root_of_def)

lemma root_of_eqI:
  "tenantId a = tenantId b \<Longrightarrow> aggId a = aggId b \<Longrightarrow> version a = version b \<Longrightarrow>
   loadedVersion a = loadedVersion b \<Longrightarrow> domainEvents a = domainEvents b \<Longrightarrow> root_of a = root_of b"
  by (simp add: root_of_def)

lemma extends_log_applyEvent:
  "root_of a = root_of b \<Longrightarrow> extends_log (root_of b) (root_of (applyEvent ev a))"
  by (auto simp: extends_log_def logs_def root_of_def applyEvent_def)

subsection \<open>Contract: a status that moves along a table\<close>

text \<open>
  \<open>can\<close> is the transition table, \<open>step\<close> one public operation of the aggregate.
  The law is that an operation leaves the status alone or takes an edge of the
  table. What the code relies on follows for every sequence of operations.
\<close>

locale lifecycle =
  fixes status :: "'a \<Rightarrow> 's"
    and can :: "'s \<Rightarrow> 's \<Rightarrow> bool"
    and step :: "'a \<Rightarrow> 'a \<Rightarrow> bool"
  assumes step_edge: "step a b \<Longrightarrow> status b = status a \<or> can (status a) (status b)"
begin

lemma run_path: "step\<^sup>*\<^sup>* a b \<Longrightarrow> can\<^sup>*\<^sup>* (status a) (status b)"
proof (induction rule: rtranclp_induct)
  case base
  show ?case by simp
next
  case (step b c)
  then show ?case using step_edge [OF step.hyps(2)] by (metis rtranclp.rtrancl_into_rtrancl)
qed

lemma run_closed:
  assumes "step\<^sup>*\<^sup>* a b" and "status a \<in> S" and "\<And>s t. s \<in> S \<Longrightarrow> can s t \<Longrightarrow> t \<in> S"
  shows "status b \<in> S"
  using assms(1,2) by (induction rule: rtranclp_induct) (use step_edge assms(3) in metis)+

lemma terminal_stays:
  assumes "step\<^sup>*\<^sup>* a b" and "\<And>t. \<not> can (status a) t"
  shows "status b = status a"
proof -
  have "status b \<in> {status a}"
    by (rule run_closed [OF assms(1)]) (use assms(2) in auto)
  then show ?thesis by simp
qed

end

subsection \<open>Contract: an event log that counts the version\<close>

text \<open>
  The law is that an operation appends events and adds their number to the
  version, and leaves the loaded version, the tenant and the identity alone.
  Optimistic concurrency control rests on it.
\<close>

locale event_sourced =
  fixes root :: "'a \<Rightarrow> 'e aggregate_root"
    and step :: "'a \<Rightarrow> 'a \<Rightarrow> bool"
  assumes step_extends: "step a b \<Longrightarrow> extends_log (root a) (root b)"
begin

lemma run_extends: "step\<^sup>*\<^sup>* a b \<Longrightarrow> extends_log (root a) (root b)"
  by (induction rule: rtranclp_induct) (use step_extends extends_log_trans in blast)+

lemma run_version_ok: "step\<^sup>*\<^sup>* a b \<Longrightarrow> version_ok (root a) \<Longrightarrow> version_ok (root b)"
  using run_extends extends_log_version_ok by blast

lemma run_frame:
  "step\<^sup>*\<^sup>* a b \<Longrightarrow> tenantId (root b) = tenantId (root a) \<and> aggId (root b) = aggId (root a)
     \<and> loadedVersion (root b) = loadedVersion (root a) \<and> version (root a) \<le> version (root b)"
  using run_extends extends_log_frame by blast

end

end
