(* ===== verification/Contexts.thy ===== *)
theory Contexts
  imports Aggregate
begin

section \<open>Tenant context, actors and untyped values\<close>

text \<open>
  \<open>packages/domain/src/context/tenant-context.ts\<close> and \<open>tenant-enforcement.ts\<close>,
  \<open>actor/actor.ts\<close>, and the type of what the code declares as \<open>unknown\<close>: a JSON value.
\<close>

datatype json =
    JNull | JBool bool | JNum jsnum | JStr string | JArr "json list" | JObj "(string \<times> json) list"

record tenant_context =
  cx_tenantId :: string
  cx_workspaceId :: "string option"
  cx_correlationId :: string
  cx_userId :: "string option"
  cx_agentId :: "string option"
  cx_missionId :: "string option"

datatype context_error = TenantContextRequired | CrossTenantAccess

definition requireTenant :: "tenant_context option \<Rightarrow> context_error + string" where
  "requireTenant context = (case context of
     None \<Rightarrow> Inl TenantContextRequired
   | Some c \<Rightarrow> if cx_tenantId c = [] then Inl TenantContextRequired else Inr (cx_tenantId c))"

definition ensureSameTenant :: "tenant_context \<Rightarrow> string \<Rightarrow> context_error option" where
  "ensureSameTenant context tenant = (if cx_tenantId context \<noteq> tenant then Some CrossTenantAccess else None)"

datatype actor_type = HumanActor | AgentActor | SystemActor | ExternalActor

record actor =
  actorType :: actor_type
  actorId :: string
  actorTenantId :: string

text \<open>\<open>WorkspaceBindingState\<close>, shared by missions and approvals.\<close>

datatype workspace_binding = WORKSPACE_BOUND | LEGACY_UNBOUND

text \<open>A field of an untyped object, and the truth value of an untyped value.\<close>

fun member :: "string \<Rightarrow> json \<Rightarrow> json option" where
  "member k (JObj kvs) = map_of kvs k"
| "member k _ = None"

fun json_truthy :: "json \<Rightarrow> bool" where
  "json_truthy JNull = False"
| "json_truthy (JBool b) = b"
| "json_truthy (JNum n) = (n \<noteq> NaN \<and> n \<noteq> Fin 0)"
| "json_truthy (JStr s) = (s \<noteq> [])"
| "json_truthy _ = True"

end
