(* ===== verification/OutreachValues.thy ===== *)
theory OutreachValues
  imports Aggregate
begin

section \<open>Value objects of the outreach context\<close>

text \<open>
  What the three outreach aggregates share: the protected recipient snapshot and its
  checks, the channels, the classification of a provider failure, and the draft of a
  message (\<open>packages/domain/src/outreach/value-objects\<close>).
\<close>

text \<open>\<open>outreach/value-objects/protected-recipient.ts\<close>.\<close>

datatype recipient_protection_state = PROTECTED | LEGACY_UNAVAILABLE

datatype recipient_error =
    FingerprintRequired | LegacyWithFingerprint | CiphertextRequired | LegacyWithCiphertext

definition assertProtectedRecipient ::
    "recipient_protection_state \<Rightarrow> string option \<Rightarrow> recipient_error option" where
  "assertProtectedRecipient st fingerprint =
     (if st = PROTECTED \<and> \<not> truthy fingerprint then Some FingerprintRequired
      else if st = LEGACY_UNAVAILABLE \<and> truthy fingerprint then Some LegacyWithFingerprint
      else None)"

definition assertProtectedRecipientSnapshot ::
    "recipient_protection_state \<Rightarrow> string option \<Rightarrow> string option \<Rightarrow> recipient_error option" where
  "assertProtectedRecipientSnapshot st fingerprint ciphertext =
     (case assertProtectedRecipient st fingerprint of
        Some err \<Rightarrow> Some err
      | None \<Rightarrow>
          if st = PROTECTED \<and> \<not> truthy ciphertext then Some CiphertextRequired
          else if st = LEGACY_UNAVAILABLE \<and> truthy ciphertext then Some LegacyWithCiphertext
          else None)"

text \<open>\<open>outreach/value-objects/provider-contracts.ts\<close> and \<open>message-draft.ts\<close>.\<close>

datatype outreach_channel = Email | Linkedin | Calendar

datatype retry_classification = RETRYABLE | NON_RETRYABLE | RATE_LIMITED

record claim_item =
  cl_text :: string
  cl_evidenceId :: string
  cl_confidence :: jsnum

record message_draft =
  dr_subject :: "string option"
  dr_body :: string
  dr_cta :: "string option"
  dr_tone :: string
  dr_claims :: "claim_item list"
  dr_evidenceReferences :: "string list"
  dr_unsupportedClaimsRemoved :: "string list"

text \<open>The messages of the thrown errors.\<close>

fun recipient_message :: "recipient_error \<Rightarrow> string" where
  "recipient_message FingerprintRequired = ''Protected recipient fingerprint is required''"
| "recipient_message LegacyWithFingerprint = ''Legacy unavailable recipient cannot contain a fingerprint''"
| "recipient_message CiphertextRequired = ''Protected recipient ciphertext is required''"
| "recipient_message LegacyWithCiphertext = ''Legacy unavailable recipient cannot contain ciphertext''"

lemma assertProtectedRecipientSnapshot_ok:
  "assertProtectedRecipientSnapshot st f c = None \<longleftrightarrow>
     (if st = PROTECTED then truthy f \<and> truthy c else \<not> truthy f \<and> \<not> truthy c)"
  by (cases st) (auto simp: assertProtectedRecipientSnapshot_def assertProtectedRecipient_def)

end
