(* ===== verification/MessageExecution.thy ===== *)
theory MessageExecution
  imports OutreachValues
begin

section \<open>The outreach message execution\<close>

text \<open>
  \<open>packages/domain/src/outreach/message-execution.ts\<close> and its status table: the
  aggregate of one outbound message, from draft to delivery. The private method
  \<open>transition\<close> is \<open>mx_transition\<close>; each public method is a definition of its
  own, and \<open>mex_step\<close> is the relation of one successful or failing call.
  \<open>status_changes\<close> reads the history back from the event log.
\<close>

subsection \<open>Status and transition table\<close>

datatype mex_status =
    MX_PENDING | MX_DRAFTING | MX_PENDING_APPROVAL | MX_APPROVED | MX_SENDING
  | MX_PROVIDER_ACCEPTED | MX_DELIVERY_PENDING | MX_DELIVERED | MX_OPENED | MX_REPLIED
  | MX_BOUNCED | MX_FAILED_PRE_SUBMISSION | MX_DELIVERY_FAILED | MX_DELIVERY_UNKNOWN
  | MX_REQUIRES_RECONCILIATION | MX_FAILED | MX_CANCELLED

fun MESSAGE_EXECUTION_STATE_TRANSITIONS :: "mex_status \<Rightarrow> mex_status list" where
  "MESSAGE_EXECUTION_STATE_TRANSITIONS MX_PENDING = [MX_DRAFTING]"
| "MESSAGE_EXECUTION_STATE_TRANSITIONS MX_DRAFTING = [MX_PENDING_APPROVAL, MX_FAILED]"
| "MESSAGE_EXECUTION_STATE_TRANSITIONS MX_PENDING_APPROVAL = [MX_APPROVED, MX_FAILED]"
| "MESSAGE_EXECUTION_STATE_TRANSITIONS MX_APPROVED = [MX_SENDING]"
| "MESSAGE_EXECUTION_STATE_TRANSITIONS MX_SENDING =
     [MX_PROVIDER_ACCEPTED, MX_FAILED_PRE_SUBMISSION, MX_DELIVERY_UNKNOWN, MX_REQUIRES_RECONCILIATION]"
| "MESSAGE_EXECUTION_STATE_TRANSITIONS MX_PROVIDER_ACCEPTED = [MX_DELIVERY_PENDING]"
| "MESSAGE_EXECUTION_STATE_TRANSITIONS MX_DELIVERY_PENDING =
     [MX_DELIVERED, MX_DELIVERY_FAILED, MX_DELIVERY_UNKNOWN, MX_REQUIRES_RECONCILIATION]"
| "MESSAGE_EXECUTION_STATE_TRANSITIONS MX_DELIVERED = [MX_OPENED]"
| "MESSAGE_EXECUTION_STATE_TRANSITIONS MX_OPENED = [MX_REPLIED]"
| "MESSAGE_EXECUTION_STATE_TRANSITIONS MX_REPLIED = []"
| "MESSAGE_EXECUTION_STATE_TRANSITIONS MX_BOUNCED = []"
| "MESSAGE_EXECUTION_STATE_TRANSITIONS MX_FAILED_PRE_SUBMISSION = []"
| "MESSAGE_EXECUTION_STATE_TRANSITIONS MX_DELIVERY_FAILED = []"
| "MESSAGE_EXECUTION_STATE_TRANSITIONS MX_DELIVERY_UNKNOWN = []"
| "MESSAGE_EXECUTION_STATE_TRANSITIONS MX_REQUIRES_RECONCILIATION = []"
| "MESSAGE_EXECUTION_STATE_TRANSITIONS MX_FAILED = []"
| "MESSAGE_EXECUTION_STATE_TRANSITIONS MX_CANCELLED = []"

definition canTransitionMessageExecution :: "mex_status \<Rightarrow> mex_status \<Rightarrow> bool" where
  "canTransitionMessageExecution from to = (to \<in> set (MESSAGE_EXECUTION_STATE_TRANSITIONS from))"

text \<open>The status as it appears in the template strings of the messages.\<close>

fun show_mex_status :: "mex_status \<Rightarrow> string" where
  "show_mex_status MX_PENDING = ''PENDING''"
| "show_mex_status MX_DRAFTING = ''DRAFTING''"
| "show_mex_status MX_PENDING_APPROVAL = ''PENDING_APPROVAL''"
| "show_mex_status MX_APPROVED = ''APPROVED''"
| "show_mex_status MX_SENDING = ''SENDING''"
| "show_mex_status MX_PROVIDER_ACCEPTED = ''PROVIDER_ACCEPTED''"
| "show_mex_status MX_DELIVERY_PENDING = ''DELIVERY_PENDING''"
| "show_mex_status MX_DELIVERED = ''DELIVERED''"
| "show_mex_status MX_OPENED = ''OPENED''"
| "show_mex_status MX_REPLIED = ''REPLIED''"
| "show_mex_status MX_BOUNCED = ''BOUNCED''"
| "show_mex_status MX_FAILED_PRE_SUBMISSION = ''FAILED_PRE_SUBMISSION''"
| "show_mex_status MX_DELIVERY_FAILED = ''DELIVERY_FAILED''"
| "show_mex_status MX_DELIVERY_UNKNOWN = ''DELIVERY_UNKNOWN''"
| "show_mex_status MX_REQUIRES_RECONCILIATION = ''REQUIRES_RECONCILIATION''"
| "show_mex_status MX_FAILED = ''FAILED''"
| "show_mex_status MX_CANCELLED = ''CANCELLED''"

subsection \<open>Events, props and state\<close>

datatype mex_payload =
    MessageExecutionCreated (mc_executionId: string) (mc_campaignId: string) (mc_sequenceId: string)
      (mc_stepNumber: int) (mc_idempotencyKey: string)
  | MessageExecutionStatusChanged (ms_executionId: string) (ms_campaignId: string) (ms_sequenceId: string)
      (ms_from: mex_status) (ms_to: mex_status) (ms_reason: "string option")
      (ms_providerMessageId: "string option")

record mex_props =
  mp_id :: "string option"
  mp_tenantId :: string
  mp_workspaceId :: string
  mp_campaignId :: string
  mp_sequenceId :: string
  mp_stepNumber :: int
  mp_leadId :: string
  mp_contactId :: string
  mp_recipientFingerprint :: "string option"
  mp_recipientCiphertext :: "string option"
  mp_recipientProtectionState :: recipient_protection_state
  mp_channel :: outreach_channel
  mp_idempotencyKey :: string
  mp_messageId :: "string option"
  mp_draft :: "message_draft option"
  mp_status :: "mex_status option"
  mp_approvalId :: "string option"
  mp_providerId :: "string option"
  mp_providerMessageId :: "string option"
  mp_internetMessageId :: "string option"
  mp_attempts :: "nat option"
  mp_lastError :: "string option"
  mp_retryClassification :: "retry_classification option"
  mp_retryAfterMs :: "int option"
  mp_providerErrorCode :: "string option"
  mp_providerAcceptedAt :: "int option"
  mp_deliveredAt :: "int option"
  mp_deliveryFailedAt :: "int option"
  mp_failedAt :: "int option"
  mp_createdAt :: "int option"
  mp_updatedAt :: "int option"

record mex = "mex_payload domain_event aggregate_root" +
  mx_workspaceId :: string
  mx_campaignId :: string
  mx_sequenceId :: string
  mx_stepNumber :: int
  mx_leadId :: string
  mx_contactId :: string
  mx_recipientFingerprint :: "string option"
  mx_recipientCiphertext :: "string option"
  mx_recipientProtectionState :: recipient_protection_state
  mx_channel :: outreach_channel
  mx_idempotencyKey :: string
  mx_status :: mex_status
  mx_messageId :: "string option"
  mx_draft :: "message_draft option"
  mx_approvalId :: "string option"
  mx_providerId :: "string option"
  mx_providerMessageId :: "string option"
  mx_internetMessageId :: "string option"
  mx_attempts :: nat
  mx_lastError :: "string option"
  mx_retryClassification :: "retry_classification option"
  mx_retryAfterMs :: "int option"
  mx_providerErrorCode :: "string option"
  mx_providerAcceptedAt :: "int option"
  mx_deliveredAt :: "int option"
  mx_deliveryFailedAt :: "int option"
  mx_failedAt :: "int option"
  mx_createdAt :: int
  mx_updatedAt :: int

datatype mex_error =
    MxContactRequired
  | MxRecipient recipient_error
  | MxCannotTransition mex_status mex_status
  | MxDraftState | MxApproveState | MxRejectState | MxAttemptState

text \<open>The message of the error, which the services copy into their results.\<close>

fun mex_message :: "mex_error \<Rightarrow> string" where
  "mex_message MxContactRequired = ''Contact is required''"
| "mex_message (MxRecipient r) = recipient_message r"
| "mex_message (MxCannotTransition from to) =
     ''Cannot transition message execution from '' @ show_mex_status from @ '' to '' @ show_mex_status to"
| "mex_message MxDraftState = ''Draft can only be set while PENDING or DRAFTING''"
| "mex_message MxApproveState = ''Only PENDING_APPROVAL executions can be approved''"
| "mex_message MxRejectState = ''Only PENDING_APPROVAL executions can be rejected''"
| "mex_message MxAttemptState = ''Can only record provider attempt while SENDING''"

subsection \<open>Construction\<close>

text \<open>
  The private constructor: \<open>now\<close> stands for \<open>new Date()\<close>. The identity is
  asserted present (\<open>props.id!\<close>); both factories pass one, and a missing one
  becomes the empty string.
\<close>

definition mex_construct :: "int \<Rightarrow> mex_props \<Rightarrow> mex" where
  "mex_construct now p =
     \<lparr>tenantId = mp_tenantId p, aggId = nullish (mp_id p) [], version = 0, loadedVersion = None,
      domainEvents = [],
      mx_workspaceId = mp_workspaceId p, mx_campaignId = mp_campaignId p,
      mx_sequenceId = mp_sequenceId p, mx_stepNumber = mp_stepNumber p, mx_leadId = mp_leadId p,
      mx_contactId = mp_contactId p, mx_recipientFingerprint = mp_recipientFingerprint p,
      mx_recipientCiphertext = mp_recipientCiphertext p,
      mx_recipientProtectionState = mp_recipientProtectionState p, mx_channel = mp_channel p,
      mx_idempotencyKey = mp_idempotencyKey p, mx_status = nullish (mp_status p) MX_PENDING,
      mx_messageId = mp_messageId p, mx_draft = mp_draft p, mx_approvalId = mp_approvalId p,
      mx_providerId = mp_providerId p, mx_providerMessageId = mp_providerMessageId p,
      mx_internetMessageId = mp_internetMessageId p, mx_attempts = nullish (mp_attempts p) 0,
      mx_lastError = mp_lastError p, mx_retryClassification = mp_retryClassification p,
      mx_retryAfterMs = mp_retryAfterMs p, mx_providerErrorCode = mp_providerErrorCode p,
      mx_providerAcceptedAt = mp_providerAcceptedAt p, mx_deliveredAt = mp_deliveredAt p,
      mx_deliveryFailedAt = mp_deliveryFailedAt p, mx_failedAt = mp_failedAt p,
      mx_createdAt = nullish (mp_createdAt p) now, mx_updatedAt = nullish (mp_updatedAt p) now\<rparr>"

definition mex_event :: "string \<Rightarrow> int \<Rightarrow> string \<Rightarrow> string \<Rightarrow> mex_payload \<Rightarrow> mex_payload domain_event" where
  "mex_event ev now tenant corr pl =
     \<lparr>eventId = ev, occurredAt = now, evTenantId = tenant, correlationId = corr,
      producer = ''outreach'', payload = pl\<rparr>"

text \<open>\<open>fresh\<close> is what \<open>randomUUID()\<close> returns.\<close>

definition mex_create :: "string \<Rightarrow> int \<Rightarrow> mex_props \<Rightarrow> string \<Rightarrow> string \<Rightarrow> mex_error + mex" where
  "mex_create fresh now props corr ev =
     (if mp_contactId props = [] then Inl MxContactRequired
      else case assertProtectedRecipientSnapshot (mp_recipientProtectionState props)
                  (mp_recipientFingerprint props) (mp_recipientCiphertext props) of
        Some err \<Rightarrow> Inl (MxRecipient err)
      | None \<Rightarrow>
          let i = nullish (mp_id props) fresh;
              e = mex_construct now (props\<lparr>mp_id := Some i, mp_status := Some MX_PENDING\<rparr>)
          in Inr (applyEvent (mex_event ev now (mp_tenantId props) corr
                 (MessageExecutionCreated (aggId e) (mp_campaignId props) (mp_sequenceId props)
                    (mp_stepNumber props) (mp_idempotencyKey props))) e))"

definition mex_reconstitute :: "int \<Rightarrow> mex_props \<Rightarrow> nat \<Rightarrow> mex" where
  "mex_reconstitute now snapshot v = clearDomainEvents (setVersion v (mex_construct now snapshot))"

subsection \<open>Operations\<close>

definition mx_statusChanged ::
    "mex \<Rightarrow> mex_status \<Rightarrow> mex_status \<Rightarrow> string option \<Rightarrow> string \<Rightarrow> string \<Rightarrow> int \<Rightarrow> mex_payload domain_event" where
  [op_defs]: "mx_statusChanged e from to reason corr ev now =
     mex_event ev now (tenantId e) corr
       (MessageExecutionStatusChanged (aggId e) (mx_campaignId e) (mx_sequenceId e) from to reason
          (mx_providerMessageId e))"

definition mx_transition ::
    "mex_status \<Rightarrow> string \<Rightarrow> string \<Rightarrow> string option \<Rightarrow> int \<Rightarrow> mex \<Rightarrow> (unit, mex_error) result \<times> mex" where
  [op_defs]: "mx_transition to corr ev reason now e =
     (if \<not> canTransitionMessageExecution (mx_status e) to
      then (Fail (MxCannotTransition (mx_status e) to), e)
      else let from = mx_status e; e1 = e\<lparr>mx_status := to, mx_updatedAt := now\<rparr>
           in (Ok (), applyEvent (mx_statusChanged e1 from to reason corr ev now) e1))"

definition startDrafting :: "string \<Rightarrow> string \<Rightarrow> int \<Rightarrow> mex \<Rightarrow> (unit, mex_error) result \<times> mex" where
  [op_defs]: "startDrafting corr ev now e = mx_transition MX_DRAFTING corr ev (Some ''Drafting started'') now e"

definition setDraft ::
    "string \<Rightarrow> message_draft \<Rightarrow> string \<Rightarrow> string \<Rightarrow> int \<Rightarrow> mex \<Rightarrow> (unit, mex_error) result \<times> mex" where
  [op_defs]: "setDraft msgId draft corr ev now e =
     (if mx_status e \<noteq> MX_DRAFTING \<and> mx_status e \<noteq> MX_PENDING then (Fail MxDraftState, e)
      else mx_transition MX_PENDING_APPROVAL corr ev (Some ''Draft created and awaiting approval'') now
             (e\<lparr>mx_messageId := Some msgId, mx_draft := Some draft\<rparr>))"

definition mx_approve :: "string \<Rightarrow> string \<Rightarrow> string \<Rightarrow> int \<Rightarrow> mex \<Rightarrow> (unit, mex_error) result \<times> mex" where
  [op_defs]: "mx_approve approval corr ev now e =
     (if mx_status e \<noteq> MX_PENDING_APPROVAL then (Fail MxApproveState, e)
      else mx_transition MX_APPROVED corr ev (Some (''Approved via '' @ approval)) now
             (e\<lparr>mx_approvalId := Some approval\<rparr>))"

definition mx_reject :: "string \<Rightarrow> string \<Rightarrow> string \<Rightarrow> int \<Rightarrow> mex \<Rightarrow> (unit, mex_error) result \<times> mex" where
  [op_defs]: "mx_reject reason corr ev now e =
     (if mx_status e \<noteq> MX_PENDING_APPROVAL then (Fail MxRejectState, e)
      else mx_transition MX_FAILED corr ev (Some (''Rejected: '' @ reason)) now
             (e\<lparr>mx_lastError := Some reason\<rparr>))"

definition markSending :: "string \<Rightarrow> string \<Rightarrow> int \<Rightarrow> mex \<Rightarrow> (unit, mex_error) result \<times> mex" where
  [op_defs]: "markSending corr ev now e = mx_transition MX_SENDING corr ev (Some ''Sending to provider'') now e"

text \<open>The only public method that throws instead of returning a result.\<close>

definition markProviderAttempt :: "string \<Rightarrow> int \<Rightarrow> mex \<Rightarrow> mex_error + mex" where
  [op_defs]: "markProviderAttempt provider now e =
     (if mx_status e \<noteq> MX_SENDING then Inl MxAttemptState
      else Inr (e\<lparr>mx_providerId := Some provider, mx_attempts := mx_attempts e + 1, mx_updatedAt := now\<rparr>))"

definition markProviderAccepted ::
    "string option \<Rightarrow> string option \<Rightarrow> string option \<Rightarrow> string \<Rightarrow> string \<Rightarrow> int \<Rightarrow> mex
       \<Rightarrow> (unit, mex_error) result \<times> mex" where
  [op_defs]: "markProviderAccepted provMsg internetMsg code corr ev now e =
     mx_transition MX_PROVIDER_ACCEPTED corr ev
       (Some (''Provider accepted: '' @ nullish provMsg ''no message id'')) now
       (e\<lparr>mx_providerMessageId := provMsg, mx_internetMessageId := internetMsg,
          mx_providerErrorCode := code, mx_providerAcceptedAt := Some now\<rparr>)"

definition markDeliveryPending :: "string \<Rightarrow> string \<Rightarrow> int \<Rightarrow> mex \<Rightarrow> (unit, mex_error) result \<times> mex" where
  [op_defs]: "markDeliveryPending corr ev now e =
     mx_transition MX_DELIVERY_PENDING corr ev (Some ''Awaiting delivery confirmation'') now e"

definition markDelivered ::
    "string option \<Rightarrow> string \<Rightarrow> string \<Rightarrow> int \<Rightarrow> mex \<Rightarrow> (unit, mex_error) result \<times> mex" where
  [op_defs]: "markDelivered internetMsg corr ev now e =
     mx_transition MX_DELIVERED corr ev (Some ''Message delivered'') now
       (e\<lparr>mx_internetMessageId := (if truthy internetMsg then internetMsg else mx_internetMessageId e),
          mx_deliveredAt := Some now\<rparr>)"

definition markOpened :: "string \<Rightarrow> string \<Rightarrow> int \<Rightarrow> mex \<Rightarrow> (unit, mex_error) result \<times> mex" where
  [op_defs]: "markOpened corr ev now e = mx_transition MX_OPENED corr ev (Some ''Message opened'') now e"

definition markReplied :: "string \<Rightarrow> string \<Rightarrow> int \<Rightarrow> mex \<Rightarrow> (unit, mex_error) result \<times> mex" where
  [op_defs]: "markReplied corr ev now e = mx_transition MX_REPLIED corr ev (Some ''Recipient replied'') now e"

definition markBounced :: "string \<Rightarrow> string \<Rightarrow> string \<Rightarrow> int \<Rightarrow> mex \<Rightarrow> (unit, mex_error) result \<times> mex" where
  [op_defs]: "markBounced reason corr ev now e =
     mx_transition MX_BOUNCED corr ev (Some (''Bounced: '' @ reason)) now (e\<lparr>mx_lastError := Some reason\<rparr>)"

definition markFailed ::
    "retry_classification \<Rightarrow> string \<Rightarrow> string option \<Rightarrow> string \<Rightarrow> string \<Rightarrow> int \<Rightarrow> mex
       \<Rightarrow> (unit, mex_error) result \<times> mex" where
  [op_defs]: "markFailed classification reason code corr ev now e =
     (let e1 = e\<lparr>mx_retryClassification := Some classification, mx_lastError := Some reason,
                  mx_providerErrorCode := code, mx_failedAt := Some now\<rparr>;
          preSubmission = (mx_status e1 = MX_SENDING \<or> mx_status e1 = MX_APPROVED)
      in if classification = RETRYABLE \<or> classification = RATE_LIMITED then
           if preSubmission then (Ok (), e1\<lparr>mx_updatedAt := now\<rparr>)
           else mx_transition MX_REQUIRES_RECONCILIATION corr ev
                  (Some (''Post-acceptance retryable failure: '' @ reason)) now e1
         else if preSubmission then
           mx_transition MX_FAILED_PRE_SUBMISSION corr ev
             (Some (''Failed before submission: '' @ reason)) now e1
         else if mx_status e1 \<in> {MX_PROVIDER_ACCEPTED, MX_DELIVERY_PENDING, MX_DELIVERED, MX_OPENED} then
           mx_transition MX_DELIVERY_FAILED corr ev (Some (''Delivery failed: '' @ reason)) now
             (e1\<lparr>mx_deliveryFailedAt := Some now\<rparr>)
         else mx_transition MX_FAILED corr ev (Some (''Failed: '' @ reason)) now e1)"

definition markDeliveryUnknown :: "string \<Rightarrow> string \<Rightarrow> string \<Rightarrow> int \<Rightarrow> mex \<Rightarrow> (unit, mex_error) result \<times> mex" where
  [op_defs]: "markDeliveryUnknown reason corr ev now e =
     mx_transition MX_DELIVERY_UNKNOWN corr ev (Some (''Delivery outcome unknown: '' @ reason)) now
       (e\<lparr>mx_lastError := Some reason\<rparr>)"

definition markRequiresReconciliation ::
    "string \<Rightarrow> string \<Rightarrow> string \<Rightarrow> int \<Rightarrow> mex \<Rightarrow> (unit, mex_error) result \<times> mex" where
  [op_defs]: "markRequiresReconciliation reason corr ev now e =
     mx_transition MX_REQUIRES_RECONCILIATION corr ev (Some (''Requires reconciliation: '' @ reason)) now
       (e\<lparr>mx_lastError := Some reason\<rparr>)"

text \<open>The two operator decisions write the status without consulting the table.\<close>

definition markReconciledDelivered ::
    "string option \<Rightarrow> string \<Rightarrow> string \<Rightarrow> int \<Rightarrow> mex \<Rightarrow> (unit, mex_error) result \<times> mex" where
  [op_defs]: "markReconciledDelivered internetMsg corr ev now e =
     (let e1 = (if truthy internetMsg
                then e\<lparr>mx_internetMessageId := internetMsg, mx_providerMessageId := internetMsg\<rparr> else e);
          from = mx_status e1;
          e2 = e1\<lparr>mx_status := MX_DELIVERED, mx_deliveredAt := Some now, mx_updatedAt := now\<rparr>
      in (Ok (), applyEvent (mx_statusChanged e2 from MX_DELIVERED
                   (Some ''Operator reconciled as delivered'') corr ev now) e2))"

definition markReconciledFailed :: "string \<Rightarrow> string \<Rightarrow> string \<Rightarrow> int \<Rightarrow> mex \<Rightarrow> (unit, mex_error) result \<times> mex" where
  [op_defs]: "markReconciledFailed reason corr ev now e =
     (let from = mx_status e;
          e1 = e\<lparr>mx_lastError := Some reason, mx_failedAt := Some now, mx_updatedAt := now,
                 mx_status := MX_FAILED\<rparr>
      in (Ok (), applyEvent (mx_statusChanged e1 from MX_FAILED
                   (Some (''Operator reconciled as failed: '' @ reason)) corr ev now) e1))"

definition mx_cancel :: "string \<Rightarrow> string \<Rightarrow> string \<Rightarrow> int \<Rightarrow> mex \<Rightarrow> (unit, mex_error) result \<times> mex" where
  [op_defs]: "mx_cancel reason corr ev now e =
     mx_transition MX_CANCELLED corr ev (Some (''Cancelled: '' @ reason)) now e"

definition recordRetryAfter :: "int \<Rightarrow> mex \<Rightarrow> mex" where
  [op_defs]: "recordRetryAfter ms e = e\<lparr>mx_retryAfterMs := Some ms\<rparr>"

subsection \<open>One call, and the operator's decisions\<close>

text \<open>
  \<open>mex_step\<close>: one call of a public method other than the two reconciliation
  methods, whether it succeeds or fails. \<open>mex_operator_step\<close>: one of those two.
\<close>

inductive mex_step :: "mex \<Rightarrow> mex \<Rightarrow> bool" where
  startDrafting: "mex_step e (snd (startDrafting corr ev now e))"
| setDraft: "mex_step e (snd (setDraft m d corr ev now e))"
| approve: "mex_step e (snd (mx_approve a corr ev now e))"
| reject: "mex_step e (snd (mx_reject r corr ev now e))"
| sending: "mex_step e (snd (markSending corr ev now e))"
| attempt: "markProviderAttempt p now e = Inr e' \<Longrightarrow> mex_step e e'"
| accepted: "mex_step e (snd (markProviderAccepted pm im c corr ev now e))"
| pending: "mex_step e (snd (markDeliveryPending corr ev now e))"
| delivered: "mex_step e (snd (markDelivered im corr ev now e))"
| opened: "mex_step e (snd (markOpened corr ev now e))"
| replied: "mex_step e (snd (markReplied corr ev now e))"
| bounced: "mex_step e (snd (markBounced r corr ev now e))"
| failed: "mex_step e (snd (markFailed cl r c corr ev now e))"
| unknown: "mex_step e (snd (markDeliveryUnknown r corr ev now e))"
| reconciliation: "mex_step e (snd (markRequiresReconciliation r corr ev now e))"
| cancel: "mex_step e (snd (mx_cancel r corr ev now e))"
| retryAfter: "mex_step e (recordRetryAfter ms e)"

inductive mex_operator_step :: "mex \<Rightarrow> mex \<Rightarrow> bool" where
  reconciledDelivered: "mex_operator_step e (snd (markReconciledDelivered im corr ev now e))"
| reconciledFailed: "mex_operator_step e (snd (markReconciledFailed r corr ev now e))"

subsection \<open>What one transition does\<close>

lemma mx_transition_status:
  "mx_status (snd (mx_transition to corr ev reason now e)) =
     (if canTransitionMessageExecution (mx_status e) to then to else mx_status e)"
  by (simp add: mx_transition_def Let_def applyEvent_def)

lemma mx_transition_fst:
  "fst (mx_transition to corr ev reason now e) =
     (if canTransitionMessageExecution (mx_status e) to then Ok ()
      else Fail (MxCannotTransition (mx_status e) to))"
  by (simp add: mx_transition_def Let_def)

lemma mx_transition_frame [simp]:
  "mx_workspaceId (snd (mx_transition to corr ev reason now e)) = mx_workspaceId e"
  "mx_campaignId (snd (mx_transition to corr ev reason now e)) = mx_campaignId e"
  "mx_sequenceId (snd (mx_transition to corr ev reason now e)) = mx_sequenceId e"
  "mx_stepNumber (snd (mx_transition to corr ev reason now e)) = mx_stepNumber e"
  "mx_contactId (snd (mx_transition to corr ev reason now e)) = mx_contactId e"
  "mx_recipientFingerprint (snd (mx_transition to corr ev reason now e)) = mx_recipientFingerprint e"
  "mx_channel (snd (mx_transition to corr ev reason now e)) = mx_channel e"
  "mx_idempotencyKey (snd (mx_transition to corr ev reason now e)) = mx_idempotencyKey e"
  "mx_messageId (snd (mx_transition to corr ev reason now e)) = mx_messageId e"
  "mx_draft (snd (mx_transition to corr ev reason now e)) = mx_draft e"
  "mx_approvalId (snd (mx_transition to corr ev reason now e)) = mx_approvalId e"
  "mx_providerId (snd (mx_transition to corr ev reason now e)) = mx_providerId e"
  "mx_providerMessageId (snd (mx_transition to corr ev reason now e)) = mx_providerMessageId e"
  "mx_internetMessageId (snd (mx_transition to corr ev reason now e)) = mx_internetMessageId e"
  "mx_attempts (snd (mx_transition to corr ev reason now e)) = mx_attempts e"
  "mx_lastError (snd (mx_transition to corr ev reason now e)) = mx_lastError e"
  "mx_retryClassification (snd (mx_transition to corr ev reason now e)) = mx_retryClassification e"
  "mx_failedAt (snd (mx_transition to corr ev reason now e)) = mx_failedAt e"
  "mx_deliveryFailedAt (snd (mx_transition to corr ev reason now e)) = mx_deliveryFailedAt e"
  by (simp_all add: mx_transition_def Let_def applyEvent_def)

text \<open>No operation but \<open>applyEvent\<close> writes the root: field updates leave it alone.\<close>

lemma mex_root_frame [simp]:
  "root_of (mx_status_update g1 e) = root_of e"
  "root_of (mx_messageId_update g2 e) = root_of e"
  "root_of (mx_draft_update g3 e) = root_of e"
  "root_of (mx_approvalId_update g4 e) = root_of e"
  "root_of (mx_providerId_update g5 e) = root_of e"
  "root_of (mx_providerMessageId_update g6 e) = root_of e"
  "root_of (mx_internetMessageId_update g7 e) = root_of e"
  "root_of (mx_attempts_update g8 e) = root_of e"
  "root_of (mx_lastError_update g9 e) = root_of e"
  "root_of (mx_retryClassification_update g10 e) = root_of e"
  "root_of (mx_retryAfterMs_update g11 e) = root_of e"
  "root_of (mx_providerErrorCode_update g12 e) = root_of e"
  "root_of (mx_providerAcceptedAt_update g13 e) = root_of e"
  "root_of (mx_deliveredAt_update g14 e) = root_of e"
  "root_of (mx_deliveryFailedAt_update g15 e) = root_of e"
  "root_of (mx_failedAt_update g16 e) = root_of e"
  "root_of (mx_updatedAt_update g17 e) = root_of e"
  by (simp_all add: root_of_def)

lemma mx_transition_extends:
  "root_of e1 = root_of e \<Longrightarrow> extends_log (root_of e) (root_of (snd (mx_transition to corr ev reason now e1)))"
  by (auto simp: mx_transition_def Let_def intro!: extends_log_applyEvent)

lemma mx_transition_edge:
  "mx_status (snd (mx_transition to corr ev reason now e)) = mx_status e
   \<or> canTransitionMessageExecution (mx_status e) (mx_status (snd (mx_transition to corr ev reason now e)))"
  by (simp add: mx_transition_status)

subsection \<open>The contracts of the aggregate base\<close>

lemma mex_step_edge:
  "mex_step a b \<Longrightarrow> mx_status b = mx_status a \<or> canTransitionMessageExecution (mx_status a) (mx_status b)"
  by (induction rule: mex_step.induct)
    (auto simp: startDrafting_def setDraft_def mx_approve_def mx_reject_def markSending_def
      markProviderAttempt_def markProviderAccepted_def markDeliveryPending_def markDelivered_def
      markOpened_def markReplied_def markBounced_def markFailed_def markDeliveryUnknown_def
      markRequiresReconciliation_def mx_cancel_def recordRetryAfter_def Let_def mx_transition_status
      split: if_splits)

lemma mex_step_extends: "mex_step a b \<Longrightarrow> extends_log (root_of a) (root_of b)"
  by (induction rule: mex_step.induct)
    (auto simp: startDrafting_def setDraft_def mx_approve_def mx_reject_def markSending_def
      markProviderAttempt_def markProviderAccepted_def markDeliveryPending_def markDelivered_def
      markOpened_def markReplied_def markBounced_def markFailed_def markDeliveryUnknown_def
      markRequiresReconciliation_def mx_cancel_def recordRetryAfter_def Let_def
      intro!: mx_transition_extends split: if_splits)

lemma mex_operator_step_extends: "mex_operator_step a b \<Longrightarrow> extends_log (root_of a) (root_of b)"
  by (induction rule: mex_operator_step.induct)
    (auto simp: markReconciledDelivered_def markReconciledFailed_def Let_def
       intro!: extends_log_applyEvent)

interpretation mex_life: lifecycle mx_status canTransitionMessageExecution mex_step
  by unfold_locales (rule mex_step_edge)

interpretation mex_log: event_sourced root_of "\<lambda>a b. mex_step a b \<or> mex_operator_step a b"
  by unfold_locales (use mex_step_extends mex_operator_step_extends in blast)

lemmas mex_op_defs =
  startDrafting_def setDraft_def mx_approve_def mx_reject_def markSending_def
  markProviderAttempt_def markProviderAccepted_def markDeliveryPending_def markDelivered_def
  markOpened_def markReplied_def markBounced_def markFailed_def markDeliveryUnknown_def
  markRequiresReconciliation_def mx_cancel_def recordRetryAfter_def

subsection \<open>Invariants of a run\<close>

text \<open>The statuses from which the provider may still be contacted, and the others.\<close>

definition pre_submission :: "mex_status set" where
  "pre_submission = {MX_PENDING, MX_DRAFTING, MX_PENDING_APPROVAL, MX_APPROVED, MX_SENDING}"

lemma post_submission_closed:
  "s \<notin> pre_submission \<Longrightarrow> canTransitionMessageExecution s t \<Longrightarrow> t \<notin> pre_submission"
  by (cases s) (auto simp: pre_submission_def canTransitionMessageExecution_def)

lemma mex_operator_step_status: "mex_operator_step a b \<Longrightarrow> mx_status b = MX_DELIVERED \<or> mx_status b = MX_FAILED"
  by (induction rule: mex_operator_step.induct)
    (auto simp: markReconciledDelivered_def markReconciledFailed_def Let_def applyEvent_def)

lemma post_submission_step:
  assumes "mex_step a b \<or> mex_operator_step a b" and "mx_status a \<notin> pre_submission"
  shows "mx_status b \<notin> pre_submission"
  using assms mex_step_edge [of a b] mex_operator_step_status [of a b]
    post_submission_closed [of "mx_status a" "mx_status b"]
  by (auto simp: pre_submission_def)

text \<open>What must be on record before a message can be sent.\<close>

definition authorised :: "mex \<Rightarrow> bool" where
  "authorised e \<longleftrightarrow>
     (mx_status e \<notin> {MX_PENDING, MX_DRAFTING, MX_FAILED, MX_BOUNCED, MX_CANCELLED} \<longrightarrow> mx_draft e \<noteq> None) \<and>
     (mx_status e \<notin> {MX_PENDING, MX_DRAFTING, MX_PENDING_APPROVAL, MX_FAILED, MX_BOUNCED, MX_CANCELLED}
        \<longrightarrow> mx_approvalId e \<noteq> None)"

lemma authorised_transition:
  assumes "authorised e" and "mx_status e1 = mx_status e"
    and "mx_draft e \<noteq> None \<Longrightarrow> mx_draft e1 \<noteq> None" and "mx_approvalId e \<noteq> None \<Longrightarrow> mx_approvalId e1 \<noteq> None"
    and "to = MX_PENDING_APPROVAL \<Longrightarrow> mx_draft e1 \<noteq> None" and "to = MX_APPROVED \<Longrightarrow> mx_approvalId e1 \<noteq> None"
  shows "authorised (snd (mx_transition to corr ev reason now e1))"
  using assms
  by (cases "mx_status e"; cases to)
    (auto simp: authorised_def mx_transition_status canTransitionMessageExecution_def)

lemma authorised_frame [simp]:
  "authorised (mx_providerId_update h0 e) = authorised e"
  "authorised (mx_attempts_update h1 e) = authorised e"
  "authorised (mx_updatedAt_update h2 e) = authorised e"
  "authorised (mx_retryClassification_update h3 e) = authorised e"
  "authorised (mx_lastError_update h4 e) = authorised e"
  "authorised (mx_providerErrorCode_update h5 e) = authorised e"
  "authorised (mx_failedAt_update h6 e) = authorised e"
  "authorised (mx_retryAfterMs_update h7 e) = authorised e"
  by (simp_all add: authorised_def)

lemma authorised_step: "mex_step a b \<Longrightarrow> authorised a \<Longrightarrow> authorised b"
  by (induction rule: mex_step.induct)
    (auto simp: mex_op_defs Let_def split: if_splits elim!: authorised_transition)

lemma authorised_run: "mex_step\<^sup>*\<^sup>* a b \<Longrightarrow> authorised a \<Longrightarrow> authorised b"
  by (induction rule: rtranclp_induct) (use authorised_step in blast)+

text \<open>Reading the status back from the event log.\<close>

fun mex_replay_step :: "mex_status option \<Rightarrow> mex_payload domain_event \<Rightarrow> mex_status option" where
  "mex_replay_step st ev = (case payload ev of
     MessageExecutionCreated _ _ _ _ _ \<Rightarrow> (if st = None then Some MX_PENDING else None)
   | MessageExecutionStatusChanged _ _ _ from to _ _ \<Rightarrow> (if st = Some from then Some to else None))"

definition mex_replay :: "mex_payload domain_event list \<Rightarrow> mex_status option" where
  "mex_replay evs = foldl mex_replay_step None evs"

definition replays :: "mex \<Rightarrow> bool" where
  "replays e \<longleftrightarrow> mex_replay (domainEvents e) = Some (mx_status e)"

lemma replays_transition:
  assumes "replays e" and "mx_status e1 = mx_status e" and "domainEvents e1 = domainEvents e"
  shows "replays (snd (mx_transition to corr ev reason now e1))"
  using assms
  by (auto simp: replays_def mex_replay_def mx_transition_def Let_def applyEvent_def
      mx_statusChanged_def mex_event_def)

lemma replays_frame [simp]:
  "replays (mx_providerId_update h0 e) = replays e"
  "replays (mx_attempts_update h1 e) = replays e"
  "replays (mx_updatedAt_update h2 e) = replays e"
  "replays (mx_retryClassification_update h3 e) = replays e"
  "replays (mx_lastError_update h4 e) = replays e"
  "replays (mx_providerErrorCode_update h5 e) = replays e"
  "replays (mx_failedAt_update h6 e) = replays e"
  "replays (mx_retryAfterMs_update h7 e) = replays e"
  by (simp_all add: replays_def)

lemma replays_step: "mex_step a b \<Longrightarrow> replays a \<Longrightarrow> replays b"
  by (induction rule: mex_step.induct)
    (auto simp: mex_op_defs Let_def split: if_splits elim!: replays_transition)

lemma replays_operator_step: "mex_operator_step a b \<Longrightarrow> replays a \<Longrightarrow> replays b"
  by (induction rule: mex_operator_step.induct)
    (auto simp: replays_def mex_replay_def markReconciledDelivered_def markReconciledFailed_def Let_def
      applyEvent_def mx_statusChanged_def mex_event_def)

lemma replays_run:
  "(\<lambda>a b. mex_step a b \<or> mex_operator_step a b)\<^sup>*\<^sup>* a b \<Longrightarrow> replays a \<Longrightarrow> replays b"
  by (induction rule: rtranclp_induct) (use replays_step replays_operator_step in blast)+

lemma mex_create_facts:
  assumes "mex_create fresh now props corr ev = Inr e"
  shows "replays e" and "version_ok (root_of e)" and "authorised e" and "mx_status e = MX_PENDING"
    and "loadedVersion e = None"
  using assms
  by (auto simp: mex_create_def mex_construct_def applyEvent_def mex_event_def replays_def mex_replay_def
      version_ok_def root_of_def authorised_def Let_def split: if_splits option.splits)

subsection \<open>Properties\<close>

text \<open>A concrete execution for the witnesses: created, drafted, approved, handed over.\<close>

definition sample_props :: mex_props where
  "sample_props = \<lparr>mp_id = Some ''e1'', mp_tenantId = ''t'', mp_workspaceId = ''w'', mp_campaignId = ''c'',
     mp_sequenceId = ''s'', mp_stepNumber = 1, mp_leadId = ''l'', mp_contactId = ''k'',
     mp_recipientFingerprint = Some ''h1.k1.x'', mp_recipientCiphertext = Some ''z'',
     mp_recipientProtectionState = PROTECTED, mp_channel = Email, mp_idempotencyKey = ''key'',
     mp_messageId = None, mp_draft = None, mp_status = None, mp_approvalId = None,
     mp_providerId = None, mp_providerMessageId = None, mp_internetMessageId = None,
     mp_attempts = None, mp_lastError = None, mp_retryClassification = None, mp_retryAfterMs = None,
     mp_providerErrorCode = None, mp_providerAcceptedAt = None, mp_deliveredAt = None,
     mp_deliveryFailedAt = None, mp_failedAt = None, mp_createdAt = None, mp_updatedAt = None\<rparr>"

definition sample_draft :: message_draft where
  "sample_draft = \<lparr>dr_subject = None, dr_body = ''hi'', dr_cta = None, dr_tone = ''plain'',
     dr_claims = [], dr_evidenceReferences = [], dr_unsupportedClaimsRemoved = []\<rparr>"

definition sample_created :: mex where
  "sample_created = (case mex_create ''f'' 0 sample_props ''x'' ''v'' of Inr e \<Rightarrow> e)"

definition sample_sending :: mex where
  "sample_sending = snd (markSending ''x'' ''v'' 4 (snd (mx_approve ''a'' ''x'' ''v'' 3
     (snd (setDraft ''m'' sample_draft ''x'' ''v'' 2 (snd (startDrafting ''x'' ''v'' 1 sample_created)))))))"

definition sample_accepted :: mex where
  "sample_accepted = snd (markProviderAccepted None None None ''x'' ''v'' 5 sample_sending)"

lemma sample_created_eq: "mex_create ''f'' 0 sample_props ''x'' ''v'' = Inr sample_created"
  by (simp add: sample_created_def mex_create_def sample_props_def assertProtectedRecipientSnapshot_def
      assertProtectedRecipient_def Let_def)

lemma sample_created_status: "mx_status sample_created = MX_PENDING"
  using mex_create_facts(4) [OF sample_created_eq] .

lemma sample_sending_status: "mx_status sample_sending = MX_SENDING"
  by (simp add: sample_sending_def startDrafting_def setDraft_def mx_approve_def markSending_def
      mx_transition_status sample_created_status canTransitionMessageExecution_def)

lemma sample_accepted_status: "mx_status sample_accepted = MX_PROVIDER_ACCEPTED"
  by (simp add: sample_accepted_def markProviderAccepted_def mx_transition_status sample_sending_status
      canTransitionMessageExecution_def)

lemma sample_sending_run: "mex_step\<^sup>*\<^sup>* sample_created sample_sending"
  unfolding sample_sending_def by (meson mex_step.intros rtranclp.intros)

text \<open>
  (C12) A message is approved, sent, accepted or delivered only with an approval and a
  draft on record: after any calls on a freshly created execution other than the two of the
  reconciling operator (\<open>markReconciledDelivered\<close> and \<open>markReconciledFailed\<close>), both fields are set
  in every status but pending, drafting, pending approval, failed, bounced and cancelled.
\<close>

theorem mex_send_requires_approval_and_draft:
  assumes "mex_create fresh now props corr ev = Inr e0" and "mex_step\<^sup>*\<^sup>* e0 e"
    and "mx_status e \<notin> {MX_PENDING, MX_DRAFTING, MX_PENDING_APPROVAL, MX_FAILED, MX_BOUNCED, MX_CANCELLED}"
  shows "\<exists>d a. mx_draft e = Some d \<and> mx_approvalId e = Some a"
  using authorised_run [OF assms(2) mex_create_facts(3) [OF assms(1)]] assms(3)
  by (auto simp: authorised_def)

theorem mex_send_requires_approval_and_draft_witness:
  "mx_status sample_sending = MX_SENDING
   \<and> (\<exists>d a. mx_draft sample_sending = Some d \<and> mx_approvalId sample_sending = Some a)"
  using mex_send_requires_approval_and_draft [OF sample_created_eq sample_sending_run]
    sample_sending_status by simp

text \<open>
  Once an execution has left the statuses before submission, no sequence of calls,
  the operator's decisions included, lets the provider be contacted again: recording a
  provider attempt throws.
\<close>

theorem mex_no_attempt_after_submission:
  assumes "mx_status a \<notin> pre_submission"
    and "(\<lambda>x y. mex_step x y \<or> mex_operator_step x y)\<^sup>*\<^sup>* a b"
  shows "mx_status b \<notin> pre_submission \<and> markProviderAttempt p now b = Inl MxAttemptState"
proof -
  have "mx_status b \<notin> pre_submission"
    using assms(2,1) by (induction rule: rtranclp_induct) (use post_submission_step in blast)+
  then show ?thesis by (auto simp: markProviderAttempt_def pre_submission_def)
qed

theorem mex_no_attempt_after_submission_witness:
  "markProviderAttempt ''p'' 9 (snd (markReconciledFailed ''r'' ''x'' ''v'' 8 sample_accepted)) = Inl MxAttemptState"
proof -
  have "mx_status sample_accepted \<notin> pre_submission"
    by (simp add: sample_accepted_status pre_submission_def)
  moreover have "(\<lambda>x y. mex_step x y \<or> mex_operator_step x y)\<^sup>*\<^sup>* sample_accepted
      (snd (markReconciledFailed ''r'' ''x'' ''v'' 8 sample_accepted))"
    by (blast intro: mex_operator_step.intros)
  ultimately show ?thesis using mex_no_attempt_after_submission by blast
qed

text \<open>
  The event log of an execution that was created and not yet persisted determines its
  status, and its version is the number of its events: replaying the log from nothing gives
  the status the aggregate is in, after any calls, the operator's included.
\<close>

theorem mex_event_log_replays:
  assumes "mex_create fresh now props corr ev = Inr e0"
    and "(\<lambda>x y. mex_step x y \<or> mex_operator_step x y)\<^sup>*\<^sup>* e0 e"
  shows "mex_replay (domainEvents e) = Some (mx_status e) \<and> version e = length (domainEvents e)"
proof -
  note c = mex_create_facts [OF assms(1)]
  have "replays e" using replays_run [OF assms(2) c(1)] .
  moreover have "version_ok (root_of e)" using mex_log.run_version_ok [OF assms(2) c(2)] .
  moreover have "loadedVersion e = None" using mex_log.run_frame [OF assms(2)] c(5) by simp
  ultimately show ?thesis by (simp add: replays_def version_ok_def)
qed

theorem mex_event_log_replays_witness:
  "mex_replay (domainEvents sample_sending) = Some MX_SENDING"
proof -
  have "(\<lambda>x y. mex_step x y \<or> mex_operator_step x y)\<^sup>*\<^sup>* sample_created sample_sending"
    using sample_sending_run by (rule rtranclp_mono [THEN predicate2D, rotated]) auto
  then show ?thesis
    using mex_event_log_replays [OF sample_created_eq] sample_sending_status by simp
qed

text \<open>
  What a reported failure does to the status, on every branch: before submission a
  retryable failure keeps the status and a definite one ends in \<open>FAILED_PRE_SUBMISSION\<close>
  from \<open>SENDING\<close> only; while delivery is pending a retryable failure asks for
  reconciliation and a definite one ends in \<open>DELIVERY_FAILED\<close>; everywhere else the table
  has no edge to the status the code asks for (but from \<open>DRAFTING\<close> and
  \<open>PENDING_APPROVAL\<close> to \<open>FAILED\<close>), and the status stays.
\<close>

theorem markFailed_status:
  "mx_status (snd (markFailed cl reason code corr ev now e)) =
     (if cl = NON_RETRYABLE then
        (case mx_status e of
           MX_SENDING \<Rightarrow> MX_FAILED_PRE_SUBMISSION
         | MX_DELIVERY_PENDING \<Rightarrow> MX_DELIVERY_FAILED
         | MX_DRAFTING \<Rightarrow> MX_FAILED
         | MX_PENDING_APPROVAL \<Rightarrow> MX_FAILED
         | s \<Rightarrow> s)
      else if mx_status e = MX_DELIVERY_PENDING then MX_REQUIRES_RECONCILIATION
      else mx_status e)"
  by (cases cl; cases "mx_status e")
    (simp_all add: markFailed_def Let_def mx_transition_status canTransitionMessageExecution_def)

text \<open>
  \<open>cancel\<close> and \<open>markBounced\<close> never succeed, in any status: no entry of the transition
  table leads to \<open>CANCELLED\<close> or \<open>BOUNCED\<close>, so the two statuses are unreachable.
\<close>

theorem mex_cancel_and_bounce_never_succeed:
  "fst (mx_cancel reason corr ev now e) = Fail (MxCannotTransition (mx_status e) MX_CANCELLED) \<and>
   fst (markBounced reason corr ev now e) = Fail (MxCannotTransition (mx_status e) MX_BOUNCED)"
  by (cases "mx_status e")
    (simp_all add: mx_cancel_def markBounced_def mx_transition_fst canTransitionMessageExecution_def)

end
