(* ===== verification/OutreachSequence.thy ===== *)
theory OutreachSequence
  imports OutreachValues
begin

section \<open>The outreach sequence\<close>

text \<open>
  \<open>packages/domain/src/outreach/sequence.ts\<close> and its status table: the ordered steps
  of outreach to one recipient. \<open>sq_transition\<close> is the private method
  \<open>transition\<close>, \<open>seq_step\<close> one call of a public method. Two methods read
  \<open>steps[currentStepIndex]\<close> without a bounds check; their model returns
  \<open>Inl TypeError\<close> where the code would throw, and \<open>seq_ok\<close> is the invariant that
  rules it out.
\<close>

datatype seq_status =
    SQ_DRAFT | SQ_PENDING_APPROVAL | SQ_APPROVED | SQ_RUNNING | SQ_WAITING | SQ_PAUSED
  | SQ_COMPLETED | SQ_CANCELLED | SQ_FAILED

fun SEQUENCE_STATE_TRANSITIONS :: "seq_status \<Rightarrow> seq_status list" where
  "SEQUENCE_STATE_TRANSITIONS SQ_DRAFT = [SQ_PENDING_APPROVAL, SQ_CANCELLED]"
| "SEQUENCE_STATE_TRANSITIONS SQ_PENDING_APPROVAL = [SQ_APPROVED, SQ_CANCELLED]"
| "SEQUENCE_STATE_TRANSITIONS SQ_APPROVED = [SQ_RUNNING, SQ_CANCELLED]"
| "SEQUENCE_STATE_TRANSITIONS SQ_RUNNING = [SQ_WAITING, SQ_PAUSED, SQ_COMPLETED, SQ_CANCELLED, SQ_FAILED]"
| "SEQUENCE_STATE_TRANSITIONS SQ_WAITING = [SQ_RUNNING, SQ_PAUSED, SQ_COMPLETED, SQ_CANCELLED, SQ_FAILED]"
| "SEQUENCE_STATE_TRANSITIONS SQ_PAUSED = [SQ_RUNNING, SQ_CANCELLED]"
| "SEQUENCE_STATE_TRANSITIONS SQ_COMPLETED = []"
| "SEQUENCE_STATE_TRANSITIONS SQ_CANCELLED = []"
| "SEQUENCE_STATE_TRANSITIONS SQ_FAILED = []"

definition canTransitionSequence :: "seq_status \<Rightarrow> seq_status \<Rightarrow> bool" where
  "canTransitionSequence from to = (to \<in> set (SEQUENCE_STATE_TRANSITIONS from))"

text \<open>\<open>outreach/value-objects/sequence-step.ts\<close>.\<close>

record sequence_step =
  st_stepNumber :: int
  st_channel :: outreach_channel
  st_delayMs :: int
  st_requiresApproval :: bool
  st_templateRef :: "string option"
  st_objective :: "string option"

datatype seq_payload =
    OutreachSequenceCreated string string string nat
      \<comment> \<open>sequence, campaign, lead, number of steps\<close>
  | OutreachSequenceStatusChanged string string seq_status seq_status "string option" "string option"
      \<comment> \<open>sequence, campaign, from, to, reason, decided by\<close>
  | OutreachSequenceStepStarted string string int string
      \<comment> \<open>sequence, campaign, step number, execution\<close>
  | OutreachSequenceStepCompleted string string int string "int option" "int option"
      \<comment> \<open>sequence, campaign, step number, execution, next step number, next due\<close>
  | OutreachSequenceStepFailed string string int string string bool
      \<comment> \<open>sequence, campaign, step number, execution, reason, retryable\<close>
  | SequenceWorkflowLinked string string

record seq_props =
  sp_id :: "string option"
  sp_tenantId :: string
  sp_workspaceId :: string
  sp_campaignId :: string
  sp_leadId :: string
  sp_contactId :: string
  sp_recipientFingerprint :: "string option"
  sp_recipientCiphertext :: "string option"
  sp_recipientProtectionState :: recipient_protection_state
  sp_campaignRecipientFingerprint :: "string option"
  sp_steps :: "sequence_step list"
  sp_status :: "seq_status option"
  sp_currentStepIndex :: "nat option"
  sp_nextDueAt :: "int option"
  sp_responseDeadlineAt :: "int option"
  sp_workflowId :: "string option"
  sp_workflowStartedAt :: "int option"
  sp_createdAt :: "int option"
  sp_updatedAt :: "int option"

record sequence = "seq_payload domain_event aggregate_root" +
  sq_workspaceId :: string
  sq_campaignId :: string
  sq_leadId :: string
  sq_contactId :: string
  sq_recipientFingerprint :: "string option"
  sq_recipientCiphertext :: "string option"
  sq_recipientProtectionState :: recipient_protection_state
  sq_steps :: "sequence_step list"
  sq_status :: seq_status
  sq_currentStepIndex :: nat
  sq_nextDueAt :: "int option"
  sq_responseDeadlineAt :: "int option"
  sq_workflowId :: "string option"
  sq_workflowStartedAt :: "int option"
  sq_createdAt :: int
  sq_updatedAt :: int

datatype seq_error =
    SqContactRequired | SqRecipient recipient_error | SqFingerprintMismatch | SqNoSteps
  | SqCannotTransition seq_status seq_status
  | SqNotRunning | SqNoMoreSteps | SqTooEarly | SqAlreadyLinked string

subsection \<open>Construction\<close>

definition seq_construct :: "int \<Rightarrow> seq_props \<Rightarrow> sequence" where
  "seq_construct now p =
     \<lparr>tenantId = sp_tenantId p, aggId = nullish (sp_id p) [], version = 0, loadedVersion = None,
      domainEvents = [],
      sq_workspaceId = sp_workspaceId p, sq_campaignId = sp_campaignId p, sq_leadId = sp_leadId p,
      sq_contactId = sp_contactId p, sq_recipientFingerprint = sp_recipientFingerprint p,
      sq_recipientCiphertext = sp_recipientCiphertext p,
      sq_recipientProtectionState = sp_recipientProtectionState p, sq_steps = sp_steps p,
      sq_status = nullish (sp_status p) SQ_DRAFT,
      sq_currentStepIndex = nullish (sp_currentStepIndex p) 0, sq_nextDueAt = sp_nextDueAt p,
      sq_responseDeadlineAt = sp_responseDeadlineAt p, sq_workflowId = sp_workflowId p,
      sq_workflowStartedAt = sp_workflowStartedAt p,
      sq_createdAt = nullish (sp_createdAt p) now, sq_updatedAt = nullish (sp_updatedAt p) now\<rparr>"

definition sq_event :: "string \<Rightarrow> int \<Rightarrow> string \<Rightarrow> string \<Rightarrow> seq_payload \<Rightarrow> seq_payload domain_event" where
  "sq_event ev now tenant corr pl =
     \<lparr>eventId = ev, occurredAt = now, evTenantId = tenant, correlationId = corr,
      producer = ''outreach'', payload = pl\<rparr>"

definition seq_create :: "int \<Rightarrow> seq_props \<Rightarrow> string \<Rightarrow> string \<Rightarrow> seq_error + sequence" where
  "seq_create now props corr ev =
     (if sp_contactId props = [] then Inl SqContactRequired
      else case assertProtectedRecipientSnapshot (sp_recipientProtectionState props)
                  (sp_recipientFingerprint props) (sp_recipientCiphertext props) of
        Some err \<Rightarrow> Inl (SqRecipient err)
      | None \<Rightarrow>
          if sp_campaignRecipientFingerprint props \<noteq> None \<and>
             sp_campaignRecipientFingerprint props \<noteq> sp_recipientFingerprint props
          then Inl SqFingerprintMismatch
          else if sp_steps props = [] then Inl SqNoSteps
          else let s = seq_construct now (props\<lparr>sp_status := Some SQ_DRAFT\<rparr>)
               in Inr (applyEvent (sq_event ev now (sp_tenantId props) corr
                    (OutreachSequenceCreated (aggId s) (sp_campaignId props) (sp_leadId props)
                       (length (sp_steps props)))) s))"

definition seq_reconstitute :: "int \<Rightarrow> seq_props \<Rightarrow> nat \<Rightarrow> sequence" where
  "seq_reconstitute now snapshot v = clearDomainEvents (setVersion v (seq_construct now snapshot))"

subsection \<open>Operations\<close>

definition sq_transition ::
    "seq_status \<Rightarrow> string \<Rightarrow> string \<Rightarrow> string option \<Rightarrow> string option \<Rightarrow> int \<Rightarrow> sequence
       \<Rightarrow> (unit, seq_error) result \<times> sequence" where
  "sq_transition to corr ev reason decidedBy now s =
     (if \<not> canTransitionSequence (sq_status s) to then (Fail (SqCannotTransition (sq_status s) to), s)
      else let from = sq_status s; s1 = s\<lparr>sq_status := to, sq_updatedAt := now\<rparr>
           in (Ok (), applyEvent (sq_event ev now (tenantId s1) corr
                 (OutreachSequenceStatusChanged (aggId s1) (sq_campaignId s1) from to reason decidedBy)) s1))"

definition sq_submitForApproval :: "string \<Rightarrow> string \<Rightarrow> int \<Rightarrow> sequence \<Rightarrow> (unit, seq_error) result \<times> sequence" where
  "sq_submitForApproval corr ev now s =
     sq_transition SQ_PENDING_APPROVAL corr ev (Some ''Submitted for approval'') None now s"

definition sq_approve ::
    "string \<Rightarrow> string \<Rightarrow> string \<Rightarrow> string \<Rightarrow> int \<Rightarrow> sequence \<Rightarrow> (unit, seq_error) result \<times> sequence" where
  "sq_approve decidedBy reason corr ev now s =
     sq_transition SQ_APPROVED corr ev (Some reason) (Some decidedBy) now s"

definition sq_reject ::
    "string \<Rightarrow> string \<Rightarrow> string \<Rightarrow> string \<Rightarrow> int \<Rightarrow> sequence \<Rightarrow> (unit, seq_error) result \<times> sequence" where
  "sq_reject decidedBy reason corr ev now s =
     sq_transition SQ_CANCELLED corr ev (Some (''Rejected: '' @ reason)) (Some decidedBy) now s"

definition sq_start :: "string \<Rightarrow> string \<Rightarrow> int \<Rightarrow> sequence \<Rightarrow> (unit, seq_error) result \<times> sequence" where
  "sq_start corr ev now s = sq_transition SQ_RUNNING corr ev (Some ''Sequence started'') None now s"

definition sq_startStep ::
    "string \<Rightarrow> int \<Rightarrow> string \<Rightarrow> string \<Rightarrow> int \<Rightarrow> sequence \<Rightarrow> (unit, seq_error) result \<times> sequence" where
  "sq_startStep execution scheduledAt corr ev now s =
     (if sq_status s \<noteq> SQ_RUNNING then (Fail SqNotRunning, s)
      else if length (sq_steps s) \<le> sq_currentStepIndex s then (Fail SqNoMoreSteps, s)
      else if (case sq_nextDueAt s of None \<Rightarrow> False | Some due \<Rightarrow> scheduledAt < due) then (Fail SqTooEarly, s)
      else let step = sq_steps s ! sq_currentStepIndex s
           in (Ok (), applyEvent (sq_event ev now (tenantId s) corr
                (OutreachSequenceStepStarted (aggId s) (sq_campaignId s) (st_stepNumber step) execution)) s))"

text \<open>
  The index is advanced and the due date written before \<open>step.stepNumber\<close> is read, so
  the throwing branch keeps those two writes.
\<close>

definition sq_completeStep ::
    "string \<Rightarrow> int option \<Rightarrow> string \<Rightarrow> string \<Rightarrow> int \<Rightarrow> sequence
       \<Rightarrow> (js_exn + (unit, seq_error) result) \<times> sequence" where
  "sq_completeStep execution nextDueAt corr ev now s =
     (if sq_status s \<noteq> SQ_RUNNING then (Inr (Fail SqNotRunning), s)
      else let step = js_at (sq_steps s) (sq_currentStepIndex s);
               i = sq_currentStepIndex s + 1;
               hasMoreSteps = (i < length (sq_steps s));
               s1 = s\<lparr>sq_currentStepIndex := i, sq_nextDueAt := nextDueAt\<rparr>
           in case step of
                None \<Rightarrow> (Inl TypeError, s1)
              | Some st \<Rightarrow>
                  let s2 = applyEvent (sq_event ev now (tenantId s1) corr
                             (OutreachSequenceStepCompleted (aggId s1) (sq_campaignId s1) (st_stepNumber st)
                                execution
                                (if hasMoreSteps then Some (st_stepNumber (sq_steps s1 ! i)) else None)
                                nextDueAt)) s1
                  in if \<not> hasMoreSteps
                     then (case sq_transition SQ_COMPLETED corr ev (Some ''All steps completed'') None now s2 of
                             (r, s3) \<Rightarrow> (Inr r, s3))
                     else (Inr (Ok ()), s2))"

definition sq_failStep ::
    "string \<Rightarrow> string \<Rightarrow> bool \<Rightarrow> string \<Rightarrow> string \<Rightarrow> int \<Rightarrow> sequence
       \<Rightarrow> (js_exn + (unit, seq_error) result) \<times> sequence" where
  "sq_failStep execution reason retryable corr ev now s =
     (if sq_status s \<noteq> SQ_RUNNING then (Inr (Fail SqNotRunning), s)
      else case js_at (sq_steps s) (sq_currentStepIndex s) of
          None \<Rightarrow> (Inl TypeError, s)
        | Some st \<Rightarrow>
            let s1 = applyEvent (sq_event ev now (tenantId s) corr
                       (OutreachSequenceStepFailed (aggId s) (sq_campaignId s) (st_stepNumber st) execution
                          reason retryable)) s
            in if \<not> retryable
               then (case sq_transition SQ_FAILED corr ev (Some reason) None now s1 of (r, s2) \<Rightarrow> (Inr r, s2))
               else (Inr (Ok ()), s1))"

definition sq_pause :: "string \<Rightarrow> string \<Rightarrow> string \<Rightarrow> int \<Rightarrow> sequence \<Rightarrow> (unit, seq_error) result \<times> sequence" where
  "sq_pause reason corr ev now s = sq_transition SQ_PAUSED corr ev (Some reason) None now s"

definition sq_resume :: "string \<Rightarrow> string \<Rightarrow> int \<Rightarrow> sequence \<Rightarrow> (unit, seq_error) result \<times> sequence" where
  "sq_resume corr ev now s = sq_transition SQ_RUNNING corr ev (Some ''Sequence resumed'') None now s"

definition sq_waitForResponse :: "int \<Rightarrow> string \<Rightarrow> string \<Rightarrow> int \<Rightarrow> sequence \<Rightarrow> (unit, seq_error) result \<times> sequence" where
  "sq_waitForResponse deadline corr ev now s =
     (if sq_status s \<noteq> SQ_RUNNING then (Fail SqNotRunning, s)
      else sq_transition SQ_WAITING corr ev (Some ''Awaiting recipient response'') None now
             (s\<lparr>sq_responseDeadlineAt := Some deadline\<rparr>))"

definition sq_continueAfterResponse :: "string \<Rightarrow> string \<Rightarrow> int \<Rightarrow> sequence \<Rightarrow> (unit, seq_error) result \<times> sequence" where
  "sq_continueAfterResponse corr ev now s =
     sq_transition SQ_RUNNING corr ev (Some ''Response received or timeout'') None now
       (s\<lparr>sq_responseDeadlineAt := None\<rparr>)"

definition sq_linkWorkflow :: "string \<Rightarrow> string \<Rightarrow> string \<Rightarrow> int \<Rightarrow> sequence \<Rightarrow> (unit, seq_error) result \<times> sequence" where
  "sq_linkWorkflow workflowId corr ev now s =
     (if truthy (sq_workflowId s) \<and> sq_workflowId s \<noteq> Some workflowId
      then (Fail (SqAlreadyLinked (nullish (sq_workflowId s) [])), s)
      else let s1 = s\<lparr>sq_workflowId := Some workflowId, sq_workflowStartedAt := Some now, sq_updatedAt := now\<rparr>
           in (Ok (), applyEvent (sq_event ev now (tenantId s1) corr
                (SequenceWorkflowLinked (aggId s1) workflowId)) s1))"

definition sq_cancel :: "string \<Rightarrow> string \<Rightarrow> string \<Rightarrow> int \<Rightarrow> sequence \<Rightarrow> (unit, seq_error) result \<times> sequence" where
  "sq_cancel reason corr ev now s = sq_transition SQ_CANCELLED corr ev (Some reason) None now s"

lemmas seq_op_defs =
  sq_submitForApproval_def sq_approve_def sq_reject_def sq_start_def sq_startStep_def
  sq_completeStep_def sq_failStep_def sq_pause_def sq_resume_def sq_waitForResponse_def
  sq_continueAfterResponse_def sq_linkWorkflow_def sq_cancel_def

inductive seq_step :: "sequence \<Rightarrow> sequence \<Rightarrow> bool" where
  submit: "seq_step s (snd (sq_submitForApproval corr ev now s))"
| approve: "seq_step s (snd (sq_approve by r corr ev now s))"
| reject: "seq_step s (snd (sq_reject by r corr ev now s))"
| start: "seq_step s (snd (sq_start corr ev now s))"
| startStep: "seq_step s (snd (sq_startStep x t corr ev now s))"
| completeStep: "seq_step s (snd (sq_completeStep x due corr ev now s))"
| failStep: "seq_step s (snd (sq_failStep x r retry corr ev now s))"
| pause: "seq_step s (snd (sq_pause r corr ev now s))"
| resume: "seq_step s (snd (sq_resume corr ev now s))"
| wait: "seq_step s (snd (sq_waitForResponse d corr ev now s))"
| continue: "seq_step s (snd (sq_continueAfterResponse corr ev now s))"
| link: "seq_step s (snd (sq_linkWorkflow w corr ev now s))"
| cancel: "seq_step s (snd (sq_cancel r corr ev now s))"

subsection \<open>What the operations keep\<close>

lemma sq_transition_status:
  "sq_status (snd (sq_transition to corr ev reason d now s)) =
     (if canTransitionSequence (sq_status s) to then to else sq_status s)"
  by (simp add: sq_transition_def Let_def applyEvent_def)

lemma sq_transition_frame [simp]:
  "sq_steps (snd (sq_transition to corr ev reason d now s)) = sq_steps s"
  "sq_currentStepIndex (snd (sq_transition to corr ev reason d now s)) = sq_currentStepIndex s"
  by (simp_all add: sq_transition_def Let_def applyEvent_def)

lemma seq_root_frame [simp]:
  "root_of (sq_status_update g1 s) = root_of s"
  "root_of (sq_currentStepIndex_update g2 s) = root_of s"
  "root_of (sq_nextDueAt_update g3 s) = root_of s"
  "root_of (sq_responseDeadlineAt_update g4 s) = root_of s"
  "root_of (sq_workflowId_update g5 s) = root_of s"
  "root_of (sq_workflowStartedAt_update g6 s) = root_of s"
  "root_of (sq_updatedAt_update g7 s) = root_of s"
  by (simp_all add: root_of_def)

lemma seq_applyEvent_frame [simp]:
  "sq_status (applyEvent ev s) = sq_status s"
  "sq_steps (applyEvent ev s) = sq_steps s"
  "sq_currentStepIndex (applyEvent ev s) = sq_currentStepIndex s"
  by (simp_all add: applyEvent_def)

lemma sq_transition_extends:
  "extends_log (root_of s0) (root_of s) \<Longrightarrow>
   extends_log (root_of s0) (root_of (snd (sq_transition to corr ev reason d now s)))"
  by (auto simp: sq_transition_def Let_def
      intro: extends_log_trans [OF _ extends_log_applyEvent])

lemma seq_step_edge:
  "seq_step a b \<Longrightarrow> sq_status b = sq_status a \<or> canTransitionSequence (sq_status a) (sq_status b)"
  by (induction rule: seq_step.induct)
    (auto simp: seq_op_defs Let_def sq_transition_status split: if_splits option.splits prod.splits
      dest!: arg_cong [where f = snd] arg_cong [where f = sq_status])

lemma seq_step_extends: "seq_step a b \<Longrightarrow> extends_log (root_of a) (root_of b)"
  by (induction rule: seq_step.induct)
    (auto simp: seq_op_defs Let_def case_prod_beta split: if_splits option.splits
      intro!: sq_transition_extends extends_log_applyEvent)

interpretation seq_life: lifecycle sq_status canTransitionSequence seq_step
  by unfold_locales (rule seq_step_edge)

interpretation seq_log: event_sourced root_of seq_step
  by unfold_locales (rule seq_step_extends)

text \<open>
  The steps whose completion the log records, in order; and the invariant of a running
  sequence: they are exactly the steps before the current index, the index is inside the
  list unless the sequence is completed, and a completed one has no steps left.
\<close>

fun completed_step :: "seq_payload domain_event \<Rightarrow> int option" where
  "completed_step ev = (case payload ev of
     OutreachSequenceStepCompleted _ _ n _ _ _ \<Rightarrow> Some n | _ \<Rightarrow> None)"

definition completed_steps :: "seq_payload domain_event list \<Rightarrow> int list" where
  "completed_steps evs = List.map_filter completed_step evs"

lemma completed_steps_append [simp]:
  "completed_steps [] = []"
  "completed_steps (evs @ [ev]) = completed_steps evs @
     (case completed_step ev of None \<Rightarrow> [] | Some n \<Rightarrow> [n])"
  by (auto simp: completed_steps_def map_filter_def split: option.splits)

lemma completed_steps_append2 [simp]:
  "completed_steps (evs @ [ev, ev']) = completed_steps evs @
     (case completed_step ev of None \<Rightarrow> [] | Some n \<Rightarrow> [n]) @
     (case completed_step ev' of None \<Rightarrow> [] | Some n \<Rightarrow> [n])"
  by (auto simp: completed_steps_def map_filter_def split: option.splits)

definition seq_ok :: "sequence \<Rightarrow> bool" where
  "seq_ok s \<longleftrightarrow>
     completed_steps (domainEvents s) = take (sq_currentStepIndex s) (map st_stepNumber (sq_steps s)) \<and>
     (if sq_status s = SQ_COMPLETED then sq_currentStepIndex s = length (sq_steps s)
      else sq_currentStepIndex s < length (sq_steps s))"

lemma seq_ok_frame [simp]:
  "seq_ok (sq_nextDueAt_update g3 s) = seq_ok s"
  "seq_ok (sq_responseDeadlineAt_update g4 s) = seq_ok s"
  "seq_ok (sq_workflowId_update g5 s) = seq_ok s"
  "seq_ok (sq_workflowStartedAt_update g6 s) = seq_ok s"
  "seq_ok (sq_updatedAt_update g7 s) = seq_ok s"
  by (simp_all add: seq_ok_def)

lemma seq_ok_applyEvent:
  "completed_step ev = None \<Longrightarrow> seq_ok (applyEvent ev s) = seq_ok s"
  by (simp add: seq_ok_def applyEvent_def)

lemma seq_ok_transition:
  "seq_ok s \<Longrightarrow> to \<noteq> SQ_COMPLETED \<Longrightarrow> seq_ok (snd (sq_transition to corr ev reason d now s))"
  by (cases "sq_status s")
    (auto simp: sq_transition_def Let_def seq_ok_def applyEvent_def sq_event_def canTransitionSequence_def)

lemma seq_ok_completeStep:
  assumes "seq_ok s"
  shows "seq_ok (snd (sq_completeStep x due corr ev now s))"
proof (cases "sq_status s = SQ_RUNNING")
  case False
  then show ?thesis using assms by (simp add: sq_completeStep_def)
next
  case True
  have i: "sq_currentStepIndex s < length (sq_steps s)"
    and c: "completed_steps (domainEvents s) = take (sq_currentStepIndex s) (map st_stepNumber (sq_steps s))"
    using assms True by (auto simp: seq_ok_def)
  then have t: "take (Suc (sq_currentStepIndex s)) (map st_stepNumber (sq_steps s)) =
      completed_steps (domainEvents s) @ [st_stepNumber (sq_steps s ! sq_currentStepIndex s)]"
    by (simp add: take_Suc_conv_app_nth)
  from i True t show ?thesis
    by (auto simp: sq_completeStep_def Let_def js_at_def case_prod_beta seq_ok_def sq_transition_def
        applyEvent_def sq_event_def canTransitionSequence_def)
qed

lemma seq_ok_failStep: "seq_ok s \<Longrightarrow> seq_ok (snd (sq_failStep x r retry corr ev now s))"
  by (auto simp: sq_failStep_def Let_def case_prod_beta seq_ok_applyEvent sq_event_def
      intro!: seq_ok_transition split: option.splits)

lemma seq_ok_startStep: "seq_ok s \<Longrightarrow> seq_ok (snd (sq_startStep x t corr ev now s))"
  by (auto simp: sq_startStep_def Let_def seq_ok_applyEvent sq_event_def split: option.splits)

lemma seq_ok_linkWorkflow: "seq_ok s \<Longrightarrow> seq_ok (snd (sq_linkWorkflow w corr ev now s))"
  by (auto simp: sq_linkWorkflow_def Let_def seq_ok_applyEvent sq_event_def)

lemma seq_ok_step: "seq_step a b \<Longrightarrow> seq_ok a \<Longrightarrow> seq_ok b"
proof (induction rule: seq_step.induct)
  case wait then show ?case by (auto simp: sq_waitForResponse_def intro!: seq_ok_transition)
next
  case continue then show ?case by (auto simp: sq_continueAfterResponse_def intro!: seq_ok_transition)
qed (simp_all add: seq_ok_completeStep seq_ok_failStep seq_ok_startStep seq_ok_linkWorkflow
    seq_ok_transition sq_submitForApproval_def sq_approve_def sq_reject_def sq_start_def
    sq_pause_def sq_resume_def sq_cancel_def)

lemma seq_ok_run: "seq_step\<^sup>*\<^sup>* a b \<Longrightarrow> seq_ok a \<Longrightarrow> seq_ok b"
  by (induction rule: rtranclp_induct) (use seq_ok_step in blast)+

lemma seq_steps_const: "seq_step a b \<Longrightarrow> sq_steps b = sq_steps a"
  by (induction rule: seq_step.induct)
    (auto simp: seq_op_defs Let_def case_prod_beta split: option.splits)

lemma seq_steps_run: "seq_step\<^sup>*\<^sup>* a b \<Longrightarrow> sq_steps b = sq_steps a"
  by (induction rule: rtranclp_induct) (use seq_steps_const in metis)+

lemma seq_create_facts:
  assumes "seq_create now props corr ev = Inr s" and "sp_currentStepIndex props = None"
  shows "seq_ok s" and "version_ok (root_of s)" and "loadedVersion s = None"
    and "sq_steps s = sp_steps props" and "sq_status s = SQ_DRAFT"
  using assms
  by (auto simp: seq_create_def seq_construct_def applyEvent_def sq_event_def seq_ok_def
      version_ok_def root_of_def Let_def completed_steps_def map_filter_def split: if_splits option.splits)


subsection \<open>Properties\<close>

text \<open>A sequence of two e-mail steps for the witnesses.\<close>

definition sample_seq_step :: "int \<Rightarrow> sequence_step" where
  "sample_seq_step n = \<lparr>st_stepNumber = n, st_channel = Email, st_delayMs = 0, st_requiresApproval = True,
     st_templateRef = None, st_objective = None\<rparr>"

definition sample_seq_props :: seq_props where
  "sample_seq_props = \<lparr>sp_id = Some ''s1'', sp_tenantId = ''t'', sp_workspaceId = ''w'', sp_campaignId = ''c'',
     sp_leadId = ''l'', sp_contactId = ''k'', sp_recipientFingerprint = Some ''h1.k1.x'',
     sp_recipientCiphertext = Some ''z'', sp_recipientProtectionState = PROTECTED,
     sp_campaignRecipientFingerprint = Some ''h1.k1.x'',
     sp_steps = [sample_seq_step 1, sample_seq_step 2], sp_status = None, sp_currentStepIndex = None,
     sp_nextDueAt = None, sp_responseDeadlineAt = None, sp_workflowId = None, sp_workflowStartedAt = None,
     sp_createdAt = None, sp_updatedAt = None\<rparr>"

definition sample_seq :: sequence where
  "sample_seq = (case seq_create 0 sample_seq_props ''x'' ''v'' of Inr s \<Rightarrow> s)"

definition sample_seq_done :: sequence where
  "sample_seq_done = snd (sq_completeStep ''b'' None ''x'' ''v'' 5 (snd (sq_completeStep ''a'' (Some 9) ''x'' ''v'' 4
     (snd (sq_start ''x'' ''v'' 3 (snd (sq_approve ''u'' ''ok'' ''x'' ''v'' 2
       (snd (sq_submitForApproval ''x'' ''v'' 1 sample_seq)))))))))"

lemma sample_seq_eq: "seq_create 0 sample_seq_props ''x'' ''v'' = Inr sample_seq"
  by (simp add: sample_seq_def seq_create_def sample_seq_props_def assertProtectedRecipientSnapshot_def
      assertProtectedRecipient_def Let_def)

lemma sample_seq_index: "sp_currentStepIndex sample_seq_props = None"
  by (simp add: sample_seq_props_def)

lemma sample_seq_run: "seq_step\<^sup>*\<^sup>* sample_seq sample_seq_done"
  unfolding sample_seq_done_def by (meson seq_step.intros rtranclp.intros)

lemma sample_seq_done_status: "sq_status sample_seq_done = SQ_COMPLETED"
proof -
  have "sq_steps sample_seq = [sample_seq_step 1, sample_seq_step 2]"
    and "sq_status sample_seq = SQ_DRAFT"
    and "sq_currentStepIndex sample_seq = 0"
    by (simp_all add: sample_seq_def seq_create_def sample_seq_props_def assertProtectedRecipientSnapshot_def
      assertProtectedRecipient_def Let_def seq_construct_def)
  then show ?thesis
    by (simp add: sample_seq_done_def sq_completeStep_def sq_start_def sq_approve_def
        sq_submitForApproval_def Let_def sq_transition_status js_at_def case_prod_beta
        canTransitionSequence_def)
qed

text \<open>
  (C15) A sequence runs its steps in order, each once, and is completed only when all of them
  are: after any calls on a created sequence, the step numbers of its completion events are
  those of the first \<open>currentStepIndex\<close> steps in their order, and in status \<open>COMPLETED\<close> they
  are those of all steps.
\<close>

theorem seq_completes_steps_in_order:
  assumes "seq_create now props corr ev = Inr s0" and "sp_currentStepIndex props = None"
    and "seq_step\<^sup>*\<^sup>* s0 s"
  shows "completed_steps (domainEvents s) = take (sq_currentStepIndex s) (map st_stepNumber (sp_steps props)) \<and>
    (if sq_status s = SQ_COMPLETED then completed_steps (domainEvents s) = map st_stepNumber (sp_steps props)
     else sq_currentStepIndex s < length (sp_steps props))"
  using seq_ok_run [OF assms(3) seq_create_facts(1) [OF assms(1,2)]]
    seq_steps_run [OF assms(3)] seq_create_facts(4) [OF assms(1,2)]
  by (auto simp: seq_ok_def split: if_splits)

theorem seq_completes_steps_in_order_witness:
  "completed_steps (domainEvents sample_seq_done) = [1, 2]"
  using seq_completes_steps_in_order [OF sample_seq_eq sample_seq_index sample_seq_run, THEN conjunct2]
  by (simp add: sample_seq_done_status sample_seq_props_def sample_seq_step_def)

text \<open>
  The unchecked reads of the current step never throw: in any state reached from a
  created sequence, \<open>completeStep\<close> and \<open>failStep\<close> return a result, and \<open>completeStep\<close>
  succeeds exactly in status \<open>RUNNING\<close>.
\<close>

theorem seq_completeStep_never_throws:
  assumes "seq_create now props corr ev = Inr s0" and "sp_currentStepIndex props = None"
    and "seq_step\<^sup>*\<^sup>* s0 s"
  shows "fst (sq_completeStep x due corr' ev' now' s) =
           Inr (if sq_status s = SQ_RUNNING then Ok () else Fail SqNotRunning) \<and>
         fst (sq_failStep x reason retryable corr' ev' now' s) =
           Inr (if sq_status s = SQ_RUNNING then Ok () else Fail SqNotRunning)"
proof (cases "sq_status s = SQ_RUNNING")
  case True
  have "seq_ok s" using seq_ok_run [OF assms(3) seq_create_facts(1) [OF assms(1,2)]] .
  then have "sq_currentStepIndex s < length (sq_steps s)" using True by (simp add: seq_ok_def)
  then show ?thesis using True
    by (auto simp: sq_completeStep_def sq_failStep_def Let_def js_at_def sq_transition_def
        case_prod_beta canTransitionSequence_def)
next
  case False
  then show ?thesis by (simp add: sq_completeStep_def sq_failStep_def)
qed

theorem seq_completeStep_never_throws_witness:
  "fst (sq_completeStep ''c'' None ''x'' ''v'' 6 sample_seq_done) = Inr (Fail SqNotRunning)"
  using seq_completeStep_never_throws [OF sample_seq_eq sample_seq_index sample_seq_run]
  by (simp add: sample_seq_done_status)

text \<open>
  \<open>resume\<close> is not tied to a pause: \<open>start\<close>, \<open>resume\<close> and \<open>continueAfterResponse\<close> are
  the same edge of the table, so an approved sequence that was never started is started by
  \<open>resume\<close>, and a paused one by \<open>continueAfterResponse\<close>, which also clears the deadline.
\<close>

theorem seq_running_entries_agree:
  "fst (sq_resume corr ev now s) = fst (sq_start corr ev now s) \<and>
   fst (sq_continueAfterResponse corr ev now s) = fst (sq_start corr ev now s) \<and>
   (fst (sq_start corr ev now s) = Ok () \<longleftrightarrow> sq_status s \<in> {SQ_APPROVED, SQ_WAITING, SQ_PAUSED})"
  by (cases "sq_status s")
    (simp_all add: sq_resume_def sq_start_def sq_continueAfterResponse_def sq_transition_def Let_def
      canTransitionSequence_def)

end
