(* ===== verification/Campaign.thy ===== *)
theory Campaign
  imports OutreachSequence
begin

section \<open>The outreach campaign and its budget\<close>

text \<open>
  \<open>packages/domain/src/outreach/campaign.ts\<close> and its status table.
  \<open>cp_transition\<close> is the private method \<open>transition\<close>, \<open>cp_step\<close> one call of a
  public method. \<open>recordSpend\<close> is the budget check of the send path: it reserves or
  refuses, and raises no event.
\<close>

datatype cp_status =
    CP_DRAFT | CP_PENDING_APPROVAL | CP_APPROVED | CP_RUNNING | CP_PAUSED | CP_COMPLETED | CP_CANCELLED

fun CAMPAIGN_STATE_TRANSITIONS :: "cp_status \<Rightarrow> cp_status list" where
  "CAMPAIGN_STATE_TRANSITIONS CP_DRAFT = [CP_PENDING_APPROVAL, CP_CANCELLED]"
| "CAMPAIGN_STATE_TRANSITIONS CP_PENDING_APPROVAL = [CP_APPROVED, CP_CANCELLED]"
| "CAMPAIGN_STATE_TRANSITIONS CP_APPROVED = [CP_RUNNING, CP_CANCELLED]"
| "CAMPAIGN_STATE_TRANSITIONS CP_RUNNING = [CP_PAUSED, CP_COMPLETED, CP_CANCELLED]"
| "CAMPAIGN_STATE_TRANSITIONS CP_PAUSED = [CP_RUNNING, CP_CANCELLED]"
| "CAMPAIGN_STATE_TRANSITIONS CP_COMPLETED = []"
| "CAMPAIGN_STATE_TRANSITIONS CP_CANCELLED = []"

definition canTransitionCampaign :: "cp_status \<Rightarrow> cp_status \<Rightarrow> bool" where
  "canTransitionCampaign from to = (to \<in> set (CAMPAIGN_STATE_TRANSITIONS from))"

record campaign_budget =
  bu_maxSendCount :: "jsnum option"
  bu_maxCostUsd :: "jsnum option"

datatype cp_payload =
    OutreachCampaignCreated string "string option" string outreach_channel
      \<comment> \<open>campaign, mission, lead, channel\<close>
  | OutreachCampaignStatusChanged string cp_status cp_status "string option" "string option"
      \<comment> \<open>campaign, from, to, reason, decided by\<close>

record campaign_props =
  cpp_id :: "string option"
  cpp_tenantId :: string
  cpp_workspaceId :: string
  cpp_missionId :: "string option"
  cpp_leadId :: string
  cpp_contactId :: string
  cpp_recipientFingerprint :: "string option"
  cpp_recipientProtectionState :: recipient_protection_state
  cpp_channel :: outreach_channel
  cpp_steps :: "sequence_step list"
  cpp_budget :: "campaign_budget option"
  cpp_status :: "cp_status option"
  cpp_sentCount :: "jsnum option"
  cpp_spentCostUsd :: "jsnum option"
  cpp_createdAt :: "int option"
  cpp_updatedAt :: "int option"

record campaign = "cp_payload domain_event aggregate_root" +
  cp_workspaceId :: string
  cp_missionId :: "string option"
  cp_leadId :: string
  cp_contactId :: string
  cp_recipientFingerprint :: "string option"
  cp_recipientProtectionState :: recipient_protection_state
  cp_channel :: outreach_channel
  cp_steps :: "sequence_step list"
  cp_budget :: campaign_budget
  cp_status :: cp_status
  cp_sentCount :: jsnum
  cp_spentCostUsd :: jsnum
  cp_createdAt :: int
  cp_updatedAt :: int

datatype cp_error =
    CpContactRequired | CpRecipient recipient_error | CpNoSteps | CpCannotTransition cp_status cp_status

definition cp_construct :: "int \<Rightarrow> campaign_props \<Rightarrow> campaign" where
  "cp_construct now p =
     \<lparr>tenantId = cpp_tenantId p, aggId = nullish (cpp_id p) [], version = 0, loadedVersion = None,
      domainEvents = [],
      cp_workspaceId = cpp_workspaceId p, cp_missionId = cpp_missionId p, cp_leadId = cpp_leadId p,
      cp_contactId = cpp_contactId p, cp_recipientFingerprint = cpp_recipientFingerprint p,
      cp_recipientProtectionState = cpp_recipientProtectionState p, cp_channel = cpp_channel p,
      cp_steps = cpp_steps p,
      cp_budget = nullish (cpp_budget p) \<lparr>bu_maxSendCount = None, bu_maxCostUsd = None\<rparr>,
      cp_status = nullish (cpp_status p) CP_DRAFT, cp_sentCount = nullish (cpp_sentCount p) (Fin 0),
      cp_spentCostUsd = nullish (cpp_spentCostUsd p) (Fin 0),
      cp_createdAt = nullish (cpp_createdAt p) now, cp_updatedAt = nullish (cpp_updatedAt p) now\<rparr>"

definition cp_event :: "string \<Rightarrow> int \<Rightarrow> string \<Rightarrow> string \<Rightarrow> cp_payload \<Rightarrow> cp_payload domain_event" where
  "cp_event ev now tenant corr pl =
     \<lparr>eventId = ev, occurredAt = now, evTenantId = tenant, correlationId = corr,
      producer = ''outreach'', payload = pl\<rparr>"

definition cp_create :: "int \<Rightarrow> campaign_props \<Rightarrow> string \<Rightarrow> string \<Rightarrow> cp_error + campaign" where
  "cp_create now props corr ev =
     (if cpp_contactId props = [] then Inl CpContactRequired
      else case assertProtectedRecipient (cpp_recipientProtectionState props) (cpp_recipientFingerprint props) of
        Some err \<Rightarrow> Inl (CpRecipient err)
      | None \<Rightarrow>
          if cpp_steps props = [] then Inl CpNoSteps
          else let c = cp_construct now (props\<lparr>cpp_status := Some CP_DRAFT\<rparr>)
               in Inr (applyEvent (cp_event ev now (cpp_tenantId props) corr
                    (OutreachCampaignCreated (aggId c) (cpp_missionId props) (cpp_leadId props)
                       (cpp_channel props))) c))"

definition cp_reconstitute :: "int \<Rightarrow> campaign_props \<Rightarrow> nat \<Rightarrow> campaign" where
  "cp_reconstitute now snapshot v = clearDomainEvents (setVersion v (cp_construct now snapshot))"

definition cp_transition ::
    "cp_status \<Rightarrow> string \<Rightarrow> string \<Rightarrow> string option \<Rightarrow> string option \<Rightarrow> int \<Rightarrow> campaign
       \<Rightarrow> (unit, cp_error) result \<times> campaign" where
  "cp_transition to corr ev reason decidedBy now c =
     (if \<not> canTransitionCampaign (cp_status c) to then (Fail (CpCannotTransition (cp_status c) to), c)
      else let from = cp_status c; c1 = c\<lparr>cp_status := to, cp_updatedAt := now\<rparr>
           in (Ok (), applyEvent (cp_event ev now (tenantId c1) corr
                 (OutreachCampaignStatusChanged (aggId c1) from to reason decidedBy)) c1))"

definition cp_submitForApproval :: "string \<Rightarrow> string \<Rightarrow> int \<Rightarrow> campaign \<Rightarrow> (unit, cp_error) result \<times> campaign" where
  "cp_submitForApproval corr ev now c =
     cp_transition CP_PENDING_APPROVAL corr ev (Some ''Submitted for approval'') None now c"

definition cp_approve ::
    "string \<Rightarrow> string \<Rightarrow> string \<Rightarrow> string \<Rightarrow> int \<Rightarrow> campaign \<Rightarrow> (unit, cp_error) result \<times> campaign" where
  "cp_approve decidedBy reason corr ev now c =
     cp_transition CP_APPROVED corr ev (Some reason) (Some decidedBy) now c"

definition cp_reject ::
    "string \<Rightarrow> string \<Rightarrow> string \<Rightarrow> string \<Rightarrow> int \<Rightarrow> campaign \<Rightarrow> (unit, cp_error) result \<times> campaign" where
  "cp_reject decidedBy reason corr ev now c =
     cp_transition CP_CANCELLED corr ev (Some (''Rejected: '' @ reason)) (Some decidedBy) now c"

definition cp_start :: "string \<Rightarrow> string \<Rightarrow> int \<Rightarrow> campaign \<Rightarrow> (unit, cp_error) result \<times> campaign" where
  "cp_start corr ev now c = cp_transition CP_RUNNING corr ev (Some ''Campaign started'') None now c"

definition cp_pause :: "string \<Rightarrow> string \<Rightarrow> string \<Rightarrow> int \<Rightarrow> campaign \<Rightarrow> (unit, cp_error) result \<times> campaign" where
  "cp_pause reason corr ev now c = cp_transition CP_PAUSED corr ev (Some reason) None now c"

definition cp_resume :: "string \<Rightarrow> string \<Rightarrow> int \<Rightarrow> campaign \<Rightarrow> (unit, cp_error) result \<times> campaign" where
  "cp_resume corr ev now c = cp_transition CP_RUNNING corr ev (Some ''Campaign resumed'') None now c"

definition cp_complete :: "string \<Rightarrow> string \<Rightarrow> int \<Rightarrow> campaign \<Rightarrow> (unit, cp_error) result \<times> campaign" where
  "cp_complete corr ev now c = cp_transition CP_COMPLETED corr ev (Some ''Campaign completed'') None now c"

definition cp_cancel :: "string \<Rightarrow> string \<Rightarrow> string \<Rightarrow> int \<Rightarrow> campaign \<Rightarrow> (unit, cp_error) result \<times> campaign" where
  "cp_cancel reason corr ev now c = cp_transition CP_CANCELLED corr ev (Some reason) None now c"

text \<open>\<open>spent + amount > max\<close> for an optional limit.\<close>

definition over_budget :: "jsnum option \<Rightarrow> jsnum \<Rightarrow> jsnum \<Rightarrow> bool" where
  "over_budget limit spent amount = (case limit of None \<Rightarrow> False | Some m \<Rightarrow> js_lt m (js_add spent amount))"

definition recordSpend :: "jsnum \<Rightarrow> jsnum \<Rightarrow> campaign \<Rightarrow> bool \<times> campaign" where
  "recordSpend sendCount costUsd c =
     (if over_budget (bu_maxSendCount (cp_budget c)) (cp_sentCount c) sendCount then (False, c)
      else if over_budget (bu_maxCostUsd (cp_budget c)) (cp_spentCostUsd c) costUsd then (False, c)
      else (True, c\<lparr>cp_sentCount := js_add (cp_sentCount c) sendCount,
                     cp_spentCostUsd := js_add (cp_spentCostUsd c) costUsd\<rparr>))"

lemmas cp_op_defs =
  cp_submitForApproval_def cp_approve_def cp_reject_def cp_start_def cp_pause_def cp_resume_def
  cp_complete_def cp_cancel_def

text \<open>\<open>cp_move\<close>: one call of a public method but \<open>recordSpend\<close>; \<open>cp_step\<close>: one call of any.\<close>

inductive cp_move :: "campaign \<Rightarrow> campaign \<Rightarrow> bool" where
  submit: "cp_move c (snd (cp_submitForApproval corr ev now c))"
| approve: "cp_move c (snd (cp_approve by r corr ev now c))"
| reject: "cp_move c (snd (cp_reject by r corr ev now c))"
| start: "cp_move c (snd (cp_start corr ev now c))"
| pause: "cp_move c (snd (cp_pause r corr ev now c))"
| resume: "cp_move c (snd (cp_resume corr ev now c))"
| complete: "cp_move c (snd (cp_complete corr ev now c))"
| cancel: "cp_move c (snd (cp_cancel r corr ev now c))"

inductive cp_step :: "campaign \<Rightarrow> campaign \<Rightarrow> bool" where
  move: "cp_move c c' \<Longrightarrow> cp_step c c'"
| spend: "cp_step c (snd (recordSpend n usd c))"

subsection \<open>What the operations keep\<close>

lemma cp_transition_status:
  "cp_status (snd (cp_transition to corr ev reason d now c)) =
     (if canTransitionCampaign (cp_status c) to then to else cp_status c)"
  by (simp add: cp_transition_def Let_def applyEvent_def)

lemma cp_transition_frame [simp]:
  "cp_budget (snd (cp_transition to corr ev reason d now c)) = cp_budget c"
  "cp_sentCount (snd (cp_transition to corr ev reason d now c)) = cp_sentCount c"
  "cp_spentCostUsd (snd (cp_transition to corr ev reason d now c)) = cp_spentCostUsd c"
  by (simp_all add: cp_transition_def Let_def applyEvent_def)

lemma cp_root_frame [simp]:
  "root_of (cp_status_update g1 c) = root_of c"
  "root_of (cp_updatedAt_update g2 c) = root_of c"
  "root_of (cp_sentCount_update g3 c) = root_of c"
  "root_of (cp_spentCostUsd_update g4 c) = root_of c"
  by (simp_all add: root_of_def)

lemma cp_transition_extends:
  "extends_log (root_of c) (root_of (snd (cp_transition to corr ev reason d now c)))"
  by (auto simp: cp_transition_def Let_def intro!: extends_log_applyEvent)

lemma cp_move_edge:
  "cp_move a b \<Longrightarrow> cp_status b = cp_status a \<or> canTransitionCampaign (cp_status a) (cp_status b)"
  by (induction rule: cp_move.induct) (simp_all add: cp_op_defs cp_transition_status)

lemma cp_move_extends: "cp_move a b \<Longrightarrow> extends_log (root_of a) (root_of b)"
  by (induction rule: cp_move.induct) (simp_all add: cp_op_defs cp_transition_extends)

lemma cp_move_totals:
  "cp_move a b \<Longrightarrow> cp_budget b = cp_budget a \<and> cp_sentCount b = cp_sentCount a
     \<and> cp_spentCostUsd b = cp_spentCostUsd a"
  by (induction rule: cp_move.induct) (simp_all add: cp_op_defs)

lemma cp_step_edge:
  "cp_step a b \<Longrightarrow> cp_status b = cp_status a \<or> canTransitionCampaign (cp_status a) (cp_status b)"
  by (induction rule: cp_step.induct) (auto simp: recordSpend_def dest: cp_move_edge)

lemma cp_step_extends: "cp_step a b \<Longrightarrow> extends_log (root_of a) (root_of b)"
  by (induction rule: cp_step.induct) (auto simp: recordSpend_def dest: cp_move_extends)

interpretation cp_life: lifecycle cp_status canTransitionCampaign cp_step
  by unfold_locales (rule cp_step_edge)

interpretation cp_log: event_sourced root_of cp_step
  by unfold_locales (rule cp_step_extends)

subsection \<open>The budget\<close>

text \<open>A total is within its limit when there is none, or the total does not exceed it.\<close>

definition within_limit :: "jsnum option \<Rightarrow> jsnum \<Rightarrow> bool" where
  "within_limit limit tot = (case limit of None \<Rightarrow> True | Some m \<Rightarrow> js_le tot m)"

definition sane_budget :: "campaign \<Rightarrow> bool" where
  "sane_budget c \<longleftrightarrow> bu_maxSendCount (cp_budget c) \<noteq> Some NaN \<and> bu_maxCostUsd (cp_budget c) \<noteq> Some NaN
     \<and> js_isFinite (cp_sentCount c) \<and> js_isFinite (cp_spentCostUsd c)
     \<and> within_limit (bu_maxSendCount (cp_budget c)) (cp_sentCount c)
     \<and> within_limit (bu_maxCostUsd (cp_budget c)) (cp_spentCostUsd c)"

lemma not_over_within:
  "limit \<noteq> Some NaN \<Longrightarrow> js_add spent amount \<noteq> NaN \<Longrightarrow> \<not> over_budget limit spent amount \<Longrightarrow>
   within_limit limit (js_add spent amount)"
  by (auto simp: over_budget_def within_limit_def js_lt_not_le split: option.splits)

lemma finite_sum: "js_isFinite a \<Longrightarrow> js_isFinite b \<Longrightarrow> js_isFinite (js_add a b) \<and> js_add a b \<noteq> NaN"
  by (auto simp: js_isFinite_iff)

lemma recordSpend_sane:
  assumes "sane_budget c" and "js_isFinite n" and "js_isFinite usd"
  shows "sane_budget (snd (recordSpend n usd c))"
  using assms finite_sum [of "cp_sentCount c" n] finite_sum [of "cp_spentCostUsd c" usd]
  by (auto simp: recordSpend_def sane_budget_def intro!: not_over_within)

text \<open>Runs whose calls of \<open>recordSpend\<close> have finite amounts.\<close>

inductive cp_finite_step :: "campaign \<Rightarrow> campaign \<Rightarrow> bool" where
  move: "cp_move c c' \<Longrightarrow> cp_finite_step c c'"
| spend: "js_isFinite n \<Longrightarrow> js_isFinite usd \<Longrightarrow> cp_finite_step c (snd (recordSpend n usd c))"

lemma cp_finite_step_sane: "cp_finite_step a b \<Longrightarrow> sane_budget a \<Longrightarrow> sane_budget b"
proof (induction rule: cp_finite_step.induct)
  case (move c c')
  then show ?case using cp_move_totals [OF move.hyps] by (simp add: sane_budget_def)
next
  case (spend n usd c)
  then show ?case by (simp add: recordSpend_sane)
qed

lemma cp_finite_run_sane: "cp_finite_step\<^sup>*\<^sup>* a b \<Longrightarrow> sane_budget a \<Longrightarrow> sane_budget b"
  by (induction rule: rtranclp_induct) (use cp_finite_step_sane in blast)+

lemma cp_finite_step_budget: "cp_finite_step a b \<Longrightarrow> cp_budget b = cp_budget a"
  by (induction rule: cp_finite_step.induct) (auto simp: recordSpend_def dest: cp_move_totals)

lemma cp_finite_run_budget: "cp_finite_step\<^sup>*\<^sup>* a b \<Longrightarrow> cp_budget b = cp_budget a"
  by (induction rule: rtranclp_induct) (use cp_finite_step_budget in metis)+

subsection \<open>Properties\<close>

definition sample_campaign_props :: campaign_props where
  "sample_campaign_props = \<lparr>cpp_id = Some ''c1'', cpp_tenantId = ''t'', cpp_workspaceId = ''w'',
     cpp_missionId = None, cpp_leadId = ''l'', cpp_contactId = ''k'',
     cpp_recipientFingerprint = Some ''h1.k1.x'', cpp_recipientProtectionState = PROTECTED,
     cpp_channel = Email, cpp_steps = [sample_seq_step 1],
     cpp_budget = Some \<lparr>bu_maxSendCount = Some (Fin 2), bu_maxCostUsd = Some (Fin 10)\<rparr>,
     cpp_status = None, cpp_sentCount = None, cpp_spentCostUsd = None, cpp_createdAt = None,
     cpp_updatedAt = None\<rparr>"

definition sample_campaign :: campaign where
  "sample_campaign = (case cp_create 0 sample_campaign_props ''x'' ''v'' of Inr c \<Rightarrow> c)"

lemma sample_campaign_budget:
  "cp_budget sample_campaign = \<lparr>bu_maxSendCount = Some (Fin 2), bu_maxCostUsd = Some (Fin 10)\<rparr>"
  "cp_sentCount sample_campaign = Fin 0" "cp_spentCostUsd sample_campaign = Fin 0"
  by (simp_all add: sample_campaign_def cp_create_def sample_campaign_props_def
      assertProtectedRecipient_def Let_def cp_construct_def applyEvent_def)

text \<open>
  (C13) The budget is never exceeded: from a campaign whose recorded totals are finite and
  within its limits (and no limit is \<open>NaN\<close>), after any calls, each spend a finite amount,
  the send count and the cost are within the limits the campaign was created with.
\<close>

theorem campaign_budget_never_exceeded:
  assumes "sane_budget c0" and "cp_finite_step\<^sup>*\<^sup>* c0 c"
  shows "within_limit (bu_maxSendCount (cp_budget c0)) (cp_sentCount c)
       \<and> within_limit (bu_maxCostUsd (cp_budget c0)) (cp_spentCostUsd c)"
  using cp_finite_run_sane [OF assms(2,1)] cp_finite_run_budget [OF assms(2)]
  by (simp add: sane_budget_def)

theorem campaign_budget_never_exceeded_witness:
  "fst (recordSpend (Fin 1) (Fin 4) sample_campaign) = True \<and>
   within_limit (Some (Fin 2)) (cp_sentCount (snd (recordSpend (Fin 1) (Fin 4) sample_campaign)))"
proof -
  have "sane_budget sample_campaign"
    by (simp add: sane_budget_def sample_campaign_budget within_limit_def)
  moreover have "cp_finite_step\<^sup>*\<^sup>* sample_campaign (snd (recordSpend (Fin 1) (Fin 4) sample_campaign))"
    by (rule r_into_rtranclp) (simp add: cp_finite_step.spend)
  ultimately have "within_limit (bu_maxSendCount (cp_budget sample_campaign))
      (cp_sentCount (snd (recordSpend (Fin 1) (Fin 4) sample_campaign)))"
    using campaign_budget_never_exceeded by blast
  then show ?thesis by (simp add: recordSpend_def sample_campaign_budget over_budget_def)
qed

text \<open>
  A cost that is not a number switches the cost limit off for good: it is accepted
  whatever the limit when the send count allows it, and from then on no cost is refused
  by the limit.
\<close>

theorem recordSpend_NaN_disables_cost_limit:
  assumes "\<not> over_budget (bu_maxSendCount (cp_budget c)) (cp_sentCount c) n"
  shows "fst (recordSpend n NaN c) = True \<and>
         \<not> over_budget (bu_maxCostUsd (cp_budget (snd (recordSpend n NaN c))))
             (cp_spentCostUsd (snd (recordSpend n NaN c))) usd"
  using assms by (auto simp: recordSpend_def over_budget_def split: option.splits)

theorem recordSpend_NaN_disables_cost_limit_witness:
  "fst (recordSpend (Fin 1) (Fin 1000000) (snd (recordSpend (Fin 1) NaN sample_campaign))) = True"
proof -
  have "\<not> over_budget (bu_maxSendCount (cp_budget sample_campaign)) (cp_sentCount sample_campaign) (Fin 1)"
    by (simp add: over_budget_def sample_campaign_budget)
  from recordSpend_NaN_disables_cost_limit [OF this, of "Fin 1000000"] show ?thesis
    by (simp add: recordSpend_def sample_campaign_budget over_budget_def)
qed

end
