(* ===== verification/MissionGraph.thy ===== *)
theory MissionGraph
  imports Contexts
begin

section \<open>Mission tasks and the check of the task graph\<close>

text \<open>
  \<open>packages/domain/src/mission/mission-task.ts\<close>, the task table of
  \<open>mission-status.ts\<close>, and the private method \<open>validateTaskGraph\<close> of
  \<open>mission.ts\<close>: a depth-first search over the dependencies. The main result of the
  theory is that the search accepts exactly the well-formed acyclic plans.
\<close>

datatype task_status =
    TK_PENDING | TK_RUNNING | TK_AWAITING_APPROVAL | TK_PAUSED
  | TK_COMPLETED | TK_FAILED | TK_CANCELLED | TK_TIMED_OUT

fun TASK_STATE_TRANSITIONS :: "task_status \<Rightarrow> task_status list" where
  "TASK_STATE_TRANSITIONS TK_PENDING = [TK_RUNNING, TK_CANCELLED]"
| "TASK_STATE_TRANSITIONS TK_RUNNING = [TK_AWAITING_APPROVAL, TK_PAUSED, TK_COMPLETED, TK_FAILED, TK_TIMED_OUT]"
| "TASK_STATE_TRANSITIONS TK_AWAITING_APPROVAL = [TK_RUNNING, TK_CANCELLED]"
| "TASK_STATE_TRANSITIONS TK_PAUSED = [TK_RUNNING, TK_CANCELLED]"
| "TASK_STATE_TRANSITIONS TK_COMPLETED = []"
| "TASK_STATE_TRANSITIONS TK_FAILED = []"
| "TASK_STATE_TRANSITIONS TK_CANCELLED = []"
| "TASK_STATE_TRANSITIONS TK_TIMED_OUT = []"

definition canTransitionTask :: "task_status \<Rightarrow> task_status \<Rightarrow> bool" where
  "canTransitionTask from to = (to \<in> set (TASK_STATE_TRANSITIONS from))"

record task_props =
  tk_id :: string
  tk_missionId :: string
  tk_planId :: string
  tk_agentId :: string
  tk_agentVersion :: string
  tk_taskType :: string
  tk_requiredCapability :: "string option"
  tk_input :: json
  tk_dependsOn :: "string list"
  tk_deadline :: "int option"
  tk_approvalGateId :: "string option"
  tk_idempotencyKey :: string
  tk_correlationId :: string
  tk_actor :: actor

record mission_task = task_props +
  tk_status :: task_status
  tk_output :: "json option"
  tk_startedAt :: "int option"
  tk_completedAt :: "int option"

text \<open>The constructor: the properties, status \<open>PENDING\<close>, and nothing else set.\<close>

definition new_task :: "task_props \<Rightarrow> mission_task" where
  "new_task p = task_props.extend p (mission_task.fields TK_PENDING None None None)"

lemma new_task_simps [simp]:
  "tk_id (new_task p) = tk_id p" "tk_dependsOn (new_task p) = tk_dependsOn p"
  "tk_agentId (new_task p) = tk_agentId p" "tk_requiredCapability (new_task p) = tk_requiredCapability p"
  "tk_idempotencyKey (new_task p) = tk_idempotencyKey p" "tk_status (new_task p) = TK_PENDING"
  by (simp_all add: new_task_def task_props.defs mission_task.defs)

datatype ms_error =
    MsWorkspaceRequired | MsObjectiveRequired | MsIcpRequired | MsDeadlinePast
  | MsTerminalReplan | MsTerminalAddTask | MsPlanVersionNotPositive
  | MsPlanVersionNotGreater jsnum jsnum
  | MsDuplicateTaskIds | MsDuplicateTaskId | MsDuplicateIdempotencyKey
  | MsMissingAgent string | MsMissingTaskCapability string | MsMissingCapability
  | MsMissingDependency string | MsCyclicDependency
  | MsTaskNotFound | MsNotExecuting | MsDependenciesIncomplete
  | MsTaskTransition task_status task_status

definition transitionStatus :: "task_status \<Rightarrow> int \<Rightarrow> mission_task \<Rightarrow> (unit, ms_error) result \<times> mission_task" where
  "transitionStatus to now t =
     (if \<not> canTransitionTask (tk_status t) to then (Fail (MsTaskTransition (tk_status t) to), t)
      else let t1 = t\<lparr>tk_status := to\<rparr>;
               t2 = (if to = TK_RUNNING then t1\<lparr>tk_startedAt := Some now\<rparr> else t1);
               t3 = (if to = TK_COMPLETED \<or> to = TK_FAILED \<or> to = TK_CANCELLED \<or> to = TK_TIMED_OUT
                     then t2\<lparr>tk_completedAt := Some now\<rparr> else t2)
           in (Ok (), t3))"

lemma transitionStatus_simps:
  "tk_status (snd (transitionStatus to now t)) = (if canTransitionTask (tk_status t) to then to else tk_status t)"
  "tk_id (snd (transitionStatus to now t)) = tk_id t"
  "tk_dependsOn (snd (transitionStatus to now t)) = tk_dependsOn t"
  "tk_idempotencyKey (snd (transitionStatus to now t)) = tk_idempotencyKey t"
  "tk_agentId (snd (transitionStatus to now t)) = tk_agentId t"
  "tk_requiredCapability (snd (transitionStatus to now t)) = tk_requiredCapability t"
  "fst (transitionStatus to now t) = Ok () \<longleftrightarrow> canTransitionTask (tk_status t) to"
  by (simp_all add: transitionStatus_def Let_def)

subsection \<open>The depth-first search\<close>

text \<open>
  \<open>new Map(tasks.map(t => [t.id, t]))\<close>: the last task of an id wins.
\<close>

definition taskById :: "mission_task list \<Rightarrow> string \<Rightarrow> mission_task option" where
  "taskById tasks = map_of (rev (map (\<lambda>t. (tk_id t, t)) tasks))"

text \<open>
  The closure \<open>visit\<close> and its loop over the dependencies. The set \<open>stack\<close> is passed down:
  the code adds \<open>id\<close> before the loop and removes it after it, so that on a normal return it
  is what it was at the call, and on an error the search ends. The set \<open>visited\<close> is
  threaded through. \<open>Inl\<close> is the error \<open>Cyclic dependency\<close>.
\<close>

function (sequential) visit ::
      "mission_task list \<Rightarrow> string set \<Rightarrow> string \<Rightarrow> string set \<Rightarrow> ms_error + string set"
  and visit_all :: "mission_task list \<Rightarrow> string set \<Rightarrow> string list \<Rightarrow> string set \<Rightarrow> ms_error + string set" where
  "visit tasks stack i visited =
     (if i \<in> stack then Inl MsCyclicDependency
      else if i \<in> visited then Inr visited
      else case taskById tasks i of
          None \<Rightarrow> Inr (insert i visited)
        | Some t \<Rightarrow>
            (case visit_all tasks (insert i stack) (tk_dependsOn t) visited of
               Inl err \<Rightarrow> Inl err
             | Inr visited' \<Rightarrow> Inr (insert i visited')))"
| "visit_all tasks stack [] visited = Inr visited"
| "visit_all tasks stack (d # ds) visited =
     (case visit tasks stack d visited of
        Inl err \<Rightarrow> Inl err
      | Inr visited' \<Rightarrow> visit_all tasks stack ds visited')"
  by pat_completeness auto

definition open_ids :: "mission_task list \<Rightarrow> string set \<Rightarrow> nat" where
  "open_ids tasks stack = card (tk_id ` set tasks - stack)"

lemma taskById_id: "taskById tasks i = Some t \<Longrightarrow> t \<in> set tasks \<and> tk_id t = i"
  by (auto simp: taskById_def dest!: map_of_SomeD)

lemma open_ids_less:
  assumes "taskById tasks i = Some t" and "i \<notin> stack"
  shows "open_ids tasks (insert i stack) < open_ids tasks stack"
proof -
  have "i \<in> tk_id ` set tasks - stack" using taskById_id [OF assms(1)] assms(2) by auto
  moreover have "tk_id ` set tasks - insert i stack = (tk_id ` set tasks - stack) - {i}" by auto
  ultimately show ?thesis unfolding open_ids_def by (metis card_Diff1_less finite_Diff finite_imageI finite_set)
qed

termination visit
  by (relation "measures [\<lambda>x. case x of Inl (ts, s, i, v) \<Rightarrow> open_ids ts s | Inr (ts, s, ds, v) \<Rightarrow> open_ids ts s,
                          \<lambda>x. case x of Inl _ \<Rightarrow> 0 | Inr (ts, s, ds, v) \<Rightarrow> Suc (length ds)]")
    (auto simp: open_ids_less)

declare visit.simps [simp del]

text \<open>The first loop over the ids and the second one over the tasks.\<close>

fun has_duplicates :: "string list \<Rightarrow> string set \<Rightarrow> bool" where
  "has_duplicates [] seen = False"
| "has_duplicates (i # ids) seen = (i \<in> seen \<or> has_duplicates ids (insert i seen))"

definition check_task :: "string set \<Rightarrow> mission_task \<Rightarrow> ms_error option" where
  "check_task ids t =
     (if tk_agentId t = [] \<or> js_trim (tk_agentId t) = [] then Some (MsMissingAgent (tk_id t))
      else if tk_requiredCapability t \<noteq> None \<and> js_trim (nullish (tk_requiredCapability t) []) = []
      then Some (MsMissingTaskCapability (tk_id t))
      else (case List.find (\<lambda>d. d \<notin> ids) (tk_dependsOn t) of
              Some d \<Rightarrow> Some (MsMissingDependency d) | None \<Rightarrow> None))"

fun check_tasks :: "string set \<Rightarrow> mission_task list \<Rightarrow> ms_error option" where
  "check_tasks ids [] = None"
| "check_tasks ids (t # ts) = (case check_task ids t of Some err \<Rightarrow> Some err | None \<Rightarrow> check_tasks ids ts)"

definition validateTaskGraph :: "mission_task list \<Rightarrow> jsnum \<Rightarrow> ms_error option" where
  "validateTaskGraph tasks planVersion =
     (if js_le planVersion (Fin 0) then Some MsPlanVersionNotPositive
      else let ids = map tk_id tasks
           in if has_duplicates ids {} then Some MsDuplicateTaskIds
              else case check_tasks (set ids) tasks of
                  Some err \<Rightarrow> Some err
                | None \<Rightarrow> (case visit_all tasks {} ids {} of Inl err \<Rightarrow> Some err | Inr _ \<Rightarrow> None))"

subsection \<open>What the search decides\<close>

definition deps :: "mission_task list \<Rightarrow> (string \<times> string) set" where
  "deps tasks = {(i, d). \<exists>t. taskById tasks i = Some t \<and> d \<in> set (tk_dependsOn t)}"

text \<open>
  What \<open>visited\<close> means between two calls: it is closed under the dependencies, shares
  nothing with the stack, and none of its ids lies on a cycle.
\<close>

definition explored :: "mission_task list \<Rightarrow> string set \<Rightarrow> string set \<Rightarrow> bool" where
  "explored tasks stack visited \<longleftrightarrow>
     deps tasks `` visited \<subseteq> visited \<and> visited \<inter> stack = {} \<and> (\<forall>v \<in> visited. (v, v) \<notin> (deps tasks)\<^sup>+)"

lemma closed_trancl: "(a, b) \<in> r\<^sup>+ \<Longrightarrow> r `` V \<subseteq> V \<Longrightarrow> a \<in> V \<Longrightarrow> b \<in> V"
  by (induction rule: trancl_induct) auto

lemma explored_finish:
  assumes "explored tasks (insert i stack) V" and "i \<notin> stack" and "deps tasks `` {i} \<subseteq> V"
  shows "explored tasks stack (insert i V)"
proof -
  have "(i, i) \<notin> (deps tasks)\<^sup>+"
  proof
    assume "(i, i) \<in> (deps tasks)\<^sup>+"
    then obtain d where "(i, d) \<in> deps tasks" and "(d, i) \<in> (deps tasks)\<^sup>*" by (meson tranclD)
    then have "d \<in> V" and "d = i \<or> (d, i) \<in> (deps tasks)\<^sup>+" using assms(3) by (auto simp: rtrancl_eq_or_trancl)
    then have "i \<in> V" using closed_trancl assms(1) unfolding explored_def by metis
    then show False using assms(1) by (auto simp: explored_def)
  qed
  then show ?thesis using assms by (auto simp: explored_def)
qed

lemma explored_mono: "explored tasks stack V \<Longrightarrow> i \<notin> V \<Longrightarrow> explored tasks (insert i stack) V"
  by (auto simp: explored_def)

lemma visit_Inr:
  "visit tasks stack i V = Inr V' \<Longrightarrow> explored tasks stack V \<Longrightarrow> explored tasks stack V' \<and> V \<subseteq> V' \<and> i \<in> V'"
  "visit_all tasks stack ds V = Inr V' \<Longrightarrow> explored tasks stack V \<Longrightarrow>
     explored tasks stack V' \<and> V \<subseteq> V' \<and> set ds \<subseteq> V'"
proof (induction tasks stack i V and tasks stack ds V arbitrary: V' and V' rule: visit_visit_all.induct)
  case (1 tasks stack i V)
  show ?case
  proof (cases "i \<in> stack \<or> i \<in> V")
    case True
    then show ?thesis using "1.prems" by (auto simp: visit.simps [of tasks stack i V] split: if_splits)
  next
    case False
    show ?thesis
    proof (cases "taskById tasks i")
      case None
      then have "V' = insert i V" and "deps tasks `` {i} = {}" using "1.prems"(1) False by (auto simp: visit.simps [of tasks stack i V] deps_def)
      then show ?thesis using explored_finish [of tasks i stack V] explored_mono "1.prems"(2) False by auto
    next
      case (Some t)
      then obtain W where W: "visit_all tasks (insert i stack) (tk_dependsOn t) V = Inr W" "V' = insert i W"
        using "1.prems"(1) False by (auto simp: visit.simps [of tasks stack i V] split: sum.splits)
      have "explored tasks (insert i stack) W" "V \<subseteq> W" "set (tk_dependsOn t) \<subseteq> W"
        using "1.IH" [OF _ _ Some W(1)] False explored_mono [OF "1.prems"(2)] by auto
      then show ?thesis using explored_finish [of tasks i stack W] False Some W(2) by (auto simp: deps_def)
    qed
  qed
next
  case (3 tasks stack d ds V)
  then obtain W where "visit tasks stack d V = Inr W" "visit_all tasks stack ds W = Inr V'"
    by (auto split: sum.splits)
  then show ?case using "3.IH"(1) [of W] "3.IH"(2) [of W V'] "3.prems"(2) by auto
qed auto

lemma visit_Inl:
  "visit tasks stack i V = Inl err \<Longrightarrow> (\<forall>s \<in> stack. (s, i) \<in> (deps tasks)\<^sup>+) \<Longrightarrow>
     err = MsCyclicDependency \<and> (\<exists>x. (x, x) \<in> (deps tasks)\<^sup>+)"
  "visit_all tasks stack ds V = Inl err \<Longrightarrow> (\<forall>s \<in> stack. \<forall>d \<in> set ds. (s, d) \<in> (deps tasks)\<^sup>+) \<Longrightarrow>
     err = MsCyclicDependency \<and> (\<exists>x. (x, x) \<in> (deps tasks)\<^sup>+)"
proof (induction tasks stack i V and tasks stack ds V rule: visit_visit_all.induct)
  case (1 tasks stack i V)
  show ?case
  proof (cases "i \<in> stack \<or> i \<in> V")
    case True
    then show ?thesis using "1.prems" by (auto simp: visit.simps [of tasks stack i V] split: if_splits)
  next
    case False
    then obtain t where t: "taskById tasks i = Some t"
      and e: "visit_all tasks (insert i stack) (tk_dependsOn t) V = Inl err"
      using "1.prems"(1) False by (auto simp: visit.simps [of tasks stack i V] split: option.splits sum.splits)
    have "(i, d) \<in> deps tasks" if "d \<in> set (tk_dependsOn t)" for d
      using t that by (auto simp: deps_def)
    then have "\<forall>s \<in> insert i stack. \<forall>d \<in> set (tk_dependsOn t). (s, d) \<in> (deps tasks)\<^sup>+"
      using "1.prems"(2) by (auto intro: trancl.intros)
    then show ?thesis using "1.IH" [OF _ _ t e] False by blast
  qed
next
  case (3 tasks stack d ds V)
  then show ?case by (auto split: sum.splits)
qed auto

lemma has_duplicates_iff: "has_duplicates ids seen \<longleftrightarrow> \<not> distinct ids \<or> set ids \<inter> seen \<noteq> {}"
  by (induction ids arbitrary: seen) auto

lemma check_tasks_None: "check_tasks ids ts = None \<longleftrightarrow> (\<forall>t \<in> set ts. check_task ids t = None)"
  by (induction ts) (auto split: option.splits)

lemma check_task_None:
  "check_task ids t = None \<longleftrightarrow> js_trim (tk_agentId t) \<noteq> [] \<and>
     (\<forall>c. tk_requiredCapability t = Some c \<longrightarrow> js_trim c \<noteq> []) \<and> set (tk_dependsOn t) \<subseteq> ids"
proof -
  have "tk_agentId t = [] \<Longrightarrow> js_trim (tk_agentId t) = []" by (simp add: js_trim_def)
  moreover have "List.find (\<lambda>d. d \<notin> ids) (tk_dependsOn t) = None \<longleftrightarrow> set (tk_dependsOn t) \<subseteq> ids"
    by (auto simp: find_None_iff)
  ultimately show ?thesis
    by (cases "tk_requiredCapability t"; cases "List.find (\<lambda>d. d \<notin> ids) (tk_dependsOn t)")
      (auto simp: check_task_def)
qed

lemma deps_distinct:
  assumes "distinct (map tk_id tasks)"
  shows "deps tasks = {(tk_id t, d) | t d. t \<in> set tasks \<and> d \<in> set (tk_dependsOn t)}"
proof -
  have "distinct (map fst (rev (map (\<lambda>t. (tk_id t, t)) tasks)))"
    using assms by (simp add: rev_map [symmetric] comp_def)
  then have "taskById tasks (tk_id t) = Some t" if "t \<in> set tasks" for t
    using that by (simp add: taskById_def)
  then show ?thesis by (auto simp: deps_def dest: taskById_id)
qed

subsection \<open>Properties\<close>

text \<open>What a plan must satisfy, without a search.\<close>

definition task_ok :: "mission_task list \<Rightarrow> mission_task \<Rightarrow> bool" where
  "task_ok tasks t \<longleftrightarrow> js_trim (tk_agentId t) \<noteq> [] \<and>
     (\<forall>c. tk_requiredCapability t = Some c \<longrightarrow> js_trim c \<noteq> []) \<and>
     set (tk_dependsOn t) \<subseteq> tk_id ` set tasks"

definition depends_on :: "mission_task list \<Rightarrow> (string \<times> string) set" where
  "depends_on tasks = {(tk_id t, d) | t d. t \<in> set tasks \<and> d \<in> set (tk_dependsOn t)}"

definition plan_ok :: "mission_task list \<Rightarrow> jsnum \<Rightarrow> bool" where
  "plan_ok tasks v \<longleftrightarrow> \<not> js_le v (Fin 0) \<and> distinct (map tk_id tasks) \<and>
     (\<forall>t \<in> set tasks. task_ok tasks t) \<and> acyclic (depends_on tasks)"

lemma check_tasks_ok: "check_tasks (set (map tk_id tasks)) tasks = None \<longleftrightarrow> (\<forall>t \<in> set tasks. task_ok tasks t)"
  by (auto simp: check_tasks_None check_task_None task_ok_def)

lemma explored_empty: "explored tasks {} {}"
  by (simp add: explored_def)

lemma visit_ids:
  assumes "distinct (map tk_id tasks)"
  shows "(\<exists>V. visit_all tasks {} (map tk_id tasks) {} = Inr V) \<longleftrightarrow> acyclic (depends_on tasks)"
proof -
  have d: "deps tasks = depends_on tasks" using deps_distinct [OF assms] by (simp add: depends_on_def)
  show ?thesis
  proof (cases "visit_all tasks {} (map tk_id tasks) {}")
    case (Inl err)
    then show ?thesis using visit_Inl(2) [OF Inl] d by (auto simp: acyclic_def)
  next
    case (Inr V)
    note V = visit_Inr(2) [OF Inr explored_empty]
    have "(x, x) \<notin> (deps tasks)\<^sup>+" for x
    proof
      assume c: "(x, x) \<in> (deps tasks)\<^sup>+"
      then obtain y where "(x, y) \<in> deps tasks" by (meson tranclD)
      then have "x \<in> V" using V by (auto simp: deps_def dest!: taskById_id)
      then show False using V c by (auto simp: explored_def)
    qed
    then show ?thesis using Inr d by (auto simp: acyclic_def)
  qed
qed

lemma validateTaskGraph_None:
  "validateTaskGraph tasks v = None \<longleftrightarrow> plan_ok tasks v"
proof (cases "distinct (map tk_id tasks)")
  case True
  then have "\<not> has_duplicates (map tk_id tasks) {}" by (simp add: has_duplicates_iff)
  then show ?thesis
    using True visit_ids [OF True] check_tasks_ok [of tasks]
    by (auto simp: validateTaskGraph_def plan_ok_def Let_def split: option.splits sum.splits)
next
  case False
  then show ?thesis by (simp add: validateTaskGraph_def plan_ok_def Let_def has_duplicates_iff)
qed

text \<open>
  (C8) The plan check is sound and complete: \<open>validateTaskGraph\<close> accepts a list of tasks
  exactly when the plan version is not at most zero, the ids are distinct, every task names
  an agent (and its capability, if given, is not blank), every dependency is a task of the
  plan, and the dependency relation has no cycle.
\<close>

theorem validateTaskGraph_accepts_iff:
  "validateTaskGraph tasks v = None \<longleftrightarrow> plan_ok tasks v"
  by (rule validateTaskGraph_None)

text \<open>
  The error \<open>Cyclic dependency\<close> is reported exactly for the plans whose only defect is
  a cycle; a plan with an earlier defect gets the error of that defect.
\<close>

theorem validateTaskGraph_cyclic_iff:
  "validateTaskGraph tasks v = Some MsCyclicDependency \<longleftrightarrow>
     \<not> js_le v (Fin 0) \<and> distinct (map tk_id tasks) \<and> list_all (task_ok tasks) tasks
     \<and> \<not> acyclic (depends_on tasks)"
proof -
  have c: "check_tasks ids ts \<noteq> Some MsCyclicDependency" for ids ts
    by (induction ts) (auto simp: check_task_def split: option.splits if_splits)
  show ?thesis
  proof (cases "distinct (map tk_id tasks)")
    case True
    then have "\<not> has_duplicates (map tk_id tasks) {}" by (simp add: has_duplicates_iff)
    moreover have "visit_all tasks {} (map tk_id tasks) {} = Inl err \<Longrightarrow> err = MsCyclicDependency" for err
      using visit_Inl(2) [of tasks "{}" "map tk_id tasks" "{}" err] by simp
    ultimately show ?thesis
      using True visit_ids [OF True] check_tasks_ok [of tasks] c [of "set (map tk_id tasks)" tasks]
      by (auto simp: validateTaskGraph_def Let_def list_all_iff split: option.splits sum.splits)
  next
    case False
    then show ?thesis by (simp add: validateTaskGraph_def Let_def has_duplicates_iff)
  qed
qed

end
