(* ===== verification/Mission.thy ===== *)
theory Mission
  imports MissionGraph
begin

section \<open>The mission aggregate\<close>

text \<open>
  \<open>packages/domain/src/mission/mission.ts\<close>: the status machine of a mission, its plan
  and its tasks. \<open>ms_transitionTo\<close> is the private method \<open>transitionTo\<close>; its last
  argument is the event factory, which runs after the status was written and may write the
  mission itself. \<open>ms_task_op\<close> is what the six task operations share. \<open>ms_step\<close> is one
  call of a public method.
\<close>

datatype ms_status =
    MS_DRAFT | MS_APPROVED | MS_SCHEDULED | MS_PLANNING | MS_EXECUTING | MS_PAUSED
  | MS_AWAITING_APPROVAL | MS_BLOCKED | MS_COMPLETED | MS_FAILED | MS_CANCELLED | MS_ARCHIVED

fun MISSION_STATE_TRANSITIONS :: "ms_status \<Rightarrow> ms_status list" where
  "MISSION_STATE_TRANSITIONS MS_DRAFT = [MS_APPROVED, MS_CANCELLED]"
| "MISSION_STATE_TRANSITIONS MS_APPROVED = [MS_SCHEDULED, MS_PLANNING]"
| "MISSION_STATE_TRANSITIONS MS_SCHEDULED = [MS_PLANNING]"
| "MISSION_STATE_TRANSITIONS MS_PLANNING = [MS_EXECUTING, MS_PAUSED, MS_CANCELLED]"
| "MISSION_STATE_TRANSITIONS MS_EXECUTING =
     [MS_PAUSED, MS_AWAITING_APPROVAL, MS_BLOCKED, MS_COMPLETED, MS_FAILED, MS_CANCELLED]"
| "MISSION_STATE_TRANSITIONS MS_PAUSED = [MS_EXECUTING, MS_CANCELLED]"
| "MISSION_STATE_TRANSITIONS MS_AWAITING_APPROVAL = [MS_EXECUTING, MS_CANCELLED]"
| "MISSION_STATE_TRANSITIONS MS_BLOCKED = [MS_EXECUTING, MS_FAILED]"
| "MISSION_STATE_TRANSITIONS MS_COMPLETED = [MS_ARCHIVED]"
| "MISSION_STATE_TRANSITIONS MS_FAILED = [MS_ARCHIVED]"
| "MISSION_STATE_TRANSITIONS MS_CANCELLED = [MS_ARCHIVED]"
| "MISSION_STATE_TRANSITIONS MS_ARCHIVED = []"

definition canTransitionMission :: "ms_status \<Rightarrow> ms_status \<Rightarrow> bool" where
  "canTransitionMission from to = (to \<in> set (MISSION_STATE_TRANSITIONS from))"

record mission_outcomes =
  oc_meetingsBooked :: "jsnum option"
  oc_opportunitiesCreated :: "jsnum option"

record mission_budget =
  mb_maxAiCostUsd :: jsnum
  mb_maxOutreachCount :: "jsnum option"

record mission_constraints =
  mc_workingHours :: "string option"
  mc_noContactDomains :: "string list option"
  mc_minimumCompanySize :: "jsnum option"

record mission_success_criteria =
  mq_targetMeetings :: "jsnum option"
  mq_targetOpportunities :: "jsnum option"

record mission_plan =
  pl_planId :: string
  pl_version :: jsnum
  pl_objectives :: "json list"
  pl_phases :: "json list"
  pl_approvalGates :: "json list"
  pl_fallbackBranches :: "json list"

datatype ms_payload =
    MissionCreated string string string string
  | MissionApproved string string
  | MissionReplanned string jsnum
  | MissionStarted string
  | MissionPaused string string
  | MissionResumed string
  | MissionCancelled string string
  | MissionCompleted string mission_outcomes
  | MissionFailed string string
  | MissionArchived string
  | MissionTaskAdded string string string string
  | MissionTaskStatusChanged string string task_status
  | MissionBlocked string string
  | MissionUnblocked string
  | MissionTaskTimedOut string string
  | MissionTaskCancelled string string string

record mission_props =
  mi_id :: string
  mi_tenantId :: string
  mi_workspaceId :: "string option"
  mi_workspaceBindingState :: "workspace_binding option"
  mi_name :: string
  mi_objective :: string
  mi_icpId :: string
  mi_territory :: "string list"
  mi_channels :: "string list"
  mi_budget :: mission_budget
  mi_autonomyLevel :: jsnum
  mi_constraints :: mission_constraints
  mi_successCriteria :: mission_success_criteria
  mi_deadline :: "int option"
  mi_ownerUserId :: string
  mi_plan :: mission_plan
  mi_status :: "ms_status option"
  mi_tasks :: "mission_task list option"
  mi_approvals :: "json list option"
  mi_outcomes :: "mission_outcomes option"
  mi_createdAt :: "int option"
  mi_updatedAt :: "int option"

record mission = "ms_payload domain_event aggregate_root" +
  ms_workspaceId :: "string option"
  ms_workspaceBindingState :: workspace_binding
  ms_name :: string
  ms_objective :: string
  ms_icpId :: string
  ms_territory :: "string list"
  ms_channels :: "string list"
  ms_budget :: mission_budget
  ms_autonomyLevel :: jsnum
  ms_constraints :: mission_constraints
  ms_successCriteria :: mission_success_criteria
  ms_deadline :: "int option"
  ms_ownerUserId :: string
  ms_plan :: mission_plan
  ms_createdAt :: int
  ms_updatedAt :: int
  ms_status :: ms_status
  ms_tasks :: "mission_task list"
  ms_approvals :: "json list"
  ms_outcomes :: mission_outcomes

datatype ms_op_error = MsInvariant ms_error | MsInvalidTransition ms_status ms_status

subsection \<open>Construction\<close>

definition ms_construct :: "int \<Rightarrow> mission_props \<Rightarrow> mission" where
  "ms_construct now p =
     \<lparr>tenantId = mi_tenantId p, aggId = mi_id p, version = 0, loadedVersion = None, domainEvents = [],
      ms_workspaceId = mi_workspaceId p,
      ms_workspaceBindingState = nullish (mi_workspaceBindingState p) LEGACY_UNBOUND,
      ms_name = mi_name p, ms_objective = mi_objective p, ms_icpId = mi_icpId p,
      ms_territory = mi_territory p, ms_channels = mi_channels p, ms_budget = mi_budget p,
      ms_autonomyLevel = mi_autonomyLevel p, ms_constraints = mi_constraints p,
      ms_successCriteria = mi_successCriteria p, ms_deadline = mi_deadline p,
      ms_ownerUserId = mi_ownerUserId p, ms_plan = mi_plan p,
      ms_createdAt = nullish (mi_createdAt p) now, ms_updatedAt = nullish (mi_updatedAt p) now,
      ms_status = nullish (mi_status p) MS_DRAFT, ms_tasks = nullish (mi_tasks p) [],
      ms_approvals = nullish (mi_approvals p) [],
      ms_outcomes = nullish (mi_outcomes p) \<lparr>oc_meetingsBooked = None, oc_opportunitiesCreated = None\<rparr>\<rparr>"

definition ms_event :: "string \<Rightarrow> int \<Rightarrow> string \<Rightarrow> string \<Rightarrow> ms_payload \<Rightarrow> ms_payload domain_event" where
  "ms_event ev now tenant corr pl =
     \<lparr>eventId = ev, occurredAt = now, evTenantId = tenant, correlationId = corr,
      producer = ''mission-management'', payload = pl\<rparr>"

definition ms_create :: "int \<Rightarrow> mission_props \<Rightarrow> string \<Rightarrow> string \<Rightarrow> (mission, ms_error) result" where
  "ms_create now props corr ev =
     (if mi_workspaceBindingState props \<noteq> Some WORKSPACE_BOUND \<or> \<not> truthy (mi_workspaceId props)
      then Fail MsWorkspaceRequired
      else if mi_objective props = [] \<or> js_trim (mi_objective props) = [] then Fail MsObjectiveRequired
      else if mi_icpId props = [] \<or> js_trim (mi_icpId props) = [] then Fail MsIcpRequired
      else if (case mi_deadline props of None \<Rightarrow> False | Some d \<Rightarrow> d \<le> now) then Fail MsDeadlinePast
      else Ok (applyEvent (ms_event ev now (mi_tenantId props) corr
                 (MissionCreated (mi_id props) (mi_name props) (mi_objective props) (mi_icpId props)))
                 (ms_construct now props)))"

definition ms_reconstitute :: "int \<Rightarrow> mission_props \<Rightarrow> nat \<Rightarrow> mission" where
  "ms_reconstitute now snapshot v = clearDomainEvents (setVersion v (ms_construct now snapshot))"

subsection \<open>The status operations\<close>

definition ms_transitionTo ::
    "ms_status \<Rightarrow> string \<Rightarrow> string \<Rightarrow> int \<Rightarrow> (mission \<Rightarrow> ms_payload \<times> mission) \<Rightarrow> mission
       \<Rightarrow> (unit, ms_op_error) result \<times> mission" where
  "ms_transitionTo target corr ev now factory m =
     (if \<not> canTransitionMission (ms_status m) target
      then (Fail (MsInvalidTransition (ms_status m) target), m)
      else let m1 = m\<lparr>ms_status := target, ms_updatedAt := now\<rparr>; (pl, m2) = factory m1
           in (Ok (), applyEvent (ms_event ev now (tenantId m2) corr pl) m2))"

definition ms_approve :: "actor \<Rightarrow> string \<Rightarrow> string \<Rightarrow> int \<Rightarrow> mission \<Rightarrow> (unit, ms_op_error) result \<times> mission" where
  "ms_approve by corr ev now m =
     ms_transitionTo MS_APPROVED corr ev now (\<lambda>x. (MissionApproved (aggId x) (actorId by), x)) m"

definition ms_schedule :: "string \<Rightarrow> string \<Rightarrow> int \<Rightarrow> mission \<Rightarrow> (unit, ms_op_error) result \<times> mission" where
  "ms_schedule corr ev now m =
     ms_transitionTo MS_SCHEDULED corr ev now (\<lambda>x. (MissionStarted (aggId x), x)) m"

definition ms_start :: "string \<Rightarrow> string \<Rightarrow> int \<Rightarrow> mission \<Rightarrow> (unit, ms_op_error) result \<times> mission" where
  "ms_start corr ev now m =
     ms_transitionTo MS_PLANNING corr ev now (\<lambda>x. (MissionStarted (aggId x), x)) m"

definition ms_planValid :: "string \<Rightarrow> string \<Rightarrow> int \<Rightarrow> mission \<Rightarrow> (unit, ms_op_error) result \<times> mission" where
  "ms_planValid corr ev now m =
     (case validateTaskGraph (ms_tasks m) (pl_version (ms_plan m)) of
        Some err \<Rightarrow> (Fail (MsInvariant err), m)
      | None \<Rightarrow> ms_transitionTo MS_EXECUTING corr ev now (\<lambda>x. (MissionStarted (aggId x), x)) m)"

definition ms_isTerminal :: "mission \<Rightarrow> bool" where
  "ms_isTerminal m = (ms_status m \<in> set [MS_COMPLETED, MS_FAILED, MS_CANCELLED, MS_ARCHIVED])"

definition replan_task :: "(string \<rightharpoonup> mission_task) \<Rightarrow> task_props \<Rightarrow> mission_task" where
  "replan_task existingCompleted props =
     (let task = new_task props
      in case existingCompleted (tk_id props) of
           Some existing \<Rightarrow>
             if tk_status existing = TK_COMPLETED
             then task\<lparr>tk_status := tk_status existing, tk_output := tk_output existing,
                       tk_startedAt := tk_startedAt existing, tk_completedAt := tk_completedAt existing\<rparr>
             else task
         | None \<Rightarrow> task)"

definition ms_replan ::
    "mission_plan \<Rightarrow> task_props list \<Rightarrow> string \<Rightarrow> string \<Rightarrow> int \<Rightarrow> mission \<Rightarrow> (unit, ms_op_error) result \<times> mission" where
  "ms_replan newPlan newTasks corr ev now m =
     (if ms_isTerminal m then (Fail (MsInvariant MsTerminalReplan), m)
      else if js_le (pl_version newPlan) (Fin 0) then (Fail (MsInvariant MsPlanVersionNotPositive), m)
      else if js_le (pl_version newPlan) (pl_version (ms_plan m))
      then (Fail (MsInvariant (MsPlanVersionNotGreater (pl_version newPlan) (pl_version (ms_plan m)))), m)
      else let existingCompleted = taskById (filter (\<lambda>t. tk_status t = TK_COMPLETED) (ms_tasks m));
               tasks = map (replan_task existingCompleted) newTasks
           in case validateTaskGraph tasks (pl_version newPlan) of
                Some err \<Rightarrow> (Fail (MsInvariant err), m)
              | None \<Rightarrow>
                  let m1 = m\<lparr>ms_plan := newPlan, ms_tasks := tasks, ms_updatedAt := now\<rparr>
                  in (Ok (), applyEvent (ms_event ev now (tenantId m1) corr
                        (MissionReplanned (aggId m1) (pl_version newPlan))) m1))"

definition ms_pause :: "string \<Rightarrow> string \<Rightarrow> string \<Rightarrow> int \<Rightarrow> mission \<Rightarrow> (unit, ms_op_error) result \<times> mission" where
  "ms_pause reason corr ev now m =
     ms_transitionTo MS_PAUSED corr ev now (\<lambda>x. (MissionPaused (aggId x) reason, x)) m"

definition ms_resume :: "string \<Rightarrow> string \<Rightarrow> int \<Rightarrow> mission \<Rightarrow> (unit, ms_op_error) result \<times> mission" where
  "ms_resume corr ev now m =
     ms_transitionTo MS_EXECUTING corr ev now (\<lambda>x. (MissionResumed (aggId x), x)) m"

definition ms_cancel :: "string \<Rightarrow> string \<Rightarrow> string \<Rightarrow> int \<Rightarrow> mission \<Rightarrow> (unit, ms_op_error) result \<times> mission" where
  "ms_cancel reason corr ev now m =
     ms_transitionTo MS_CANCELLED corr ev now (\<lambda>x. (MissionCancelled (aggId x) reason, x)) m"

definition ms_complete ::
    "mission_outcomes \<Rightarrow> string \<Rightarrow> string \<Rightarrow> int \<Rightarrow> mission \<Rightarrow> (unit, ms_op_error) result \<times> mission" where
  "ms_complete outcomes corr ev now m =
     ms_transitionTo MS_COMPLETED corr ev now
       (\<lambda>x. (MissionCompleted (aggId x) outcomes, x\<lparr>ms_outcomes := outcomes\<rparr>)) m"

definition ms_fail :: "string \<Rightarrow> string \<Rightarrow> string \<Rightarrow> int \<Rightarrow> mission \<Rightarrow> (unit, ms_op_error) result \<times> mission" where
  "ms_fail reason corr ev now m =
     ms_transitionTo MS_FAILED corr ev now (\<lambda>x. (MissionFailed (aggId x) reason, x)) m"

definition ms_archive :: "string \<Rightarrow> string \<Rightarrow> int \<Rightarrow> mission \<Rightarrow> (unit, ms_op_error) result \<times> mission" where
  "ms_archive corr ev now m =
     ms_transitionTo MS_ARCHIVED corr ev now (\<lambda>x. (MissionArchived (aggId x), x)) m"

definition ms_block :: "string \<Rightarrow> string \<Rightarrow> string \<Rightarrow> int \<Rightarrow> mission \<Rightarrow> (unit, ms_op_error) result \<times> mission" where
  "ms_block reason corr ev now m =
     ms_transitionTo MS_BLOCKED corr ev now (\<lambda>x. (MissionBlocked (aggId x) reason, x)) m"

definition ms_unblock :: "string \<Rightarrow> string \<Rightarrow> int \<Rightarrow> mission \<Rightarrow> (unit, ms_op_error) result \<times> mission" where
  "ms_unblock corr ev now m =
     ms_transitionTo MS_EXECUTING corr ev now (\<lambda>x. (MissionUnblocked (aggId x), x)) m"

subsection \<open>The task operations\<close>

definition ms_addTask ::
    "task_props \<Rightarrow> string \<Rightarrow> string \<Rightarrow> int \<Rightarrow> mission \<Rightarrow> (mission_task, ms_op_error) result \<times> mission" where
  "ms_addTask props corr ev now m =
     (if ms_isTerminal m then (Fail (MsInvariant MsTerminalAddTask), m)
      else if list_ex (\<lambda>t. tk_id t = tk_id props) (ms_tasks m) then (Fail (MsInvariant MsDuplicateTaskId), m)
      else if list_ex (\<lambda>t. tk_idempotencyKey t = tk_idempotencyKey props) (ms_tasks m)
      then (Fail (MsInvariant MsDuplicateIdempotencyKey), m)
      else if tk_requiredCapability props \<noteq> None \<and> js_trim (nullish (tk_requiredCapability props) []) = []
      then (Fail (MsInvariant MsMissingCapability), m)
      else let task = new_task props; m1 = m\<lparr>ms_tasks := ms_tasks m @ [task]\<rparr>
           in (Ok task, applyEvent (ms_event ev now (tenantId m1) corr
                 (MissionTaskAdded (aggId m1) (tk_id props) (tk_taskType props) (tk_idempotencyKey props))) m1))"

text \<open>\<open>find\<close> gives the first task of the id, and the methods of the task change it in place.\<close>

definition findTask :: "string \<Rightarrow> mission \<Rightarrow> mission_task option" where
  "findTask taskId m = List.find (\<lambda>t. tk_id t = taskId) (ms_tasks m)"

fun put_task :: "mission_task \<Rightarrow> mission_task list \<Rightarrow> mission_task list" where
  "put_task t [] = []"
| "put_task t (x # xs) = (if tk_id x = tk_id t then t # xs else x # put_task t xs)"

text \<open>
  The common body: find the task, move its status, write further fields of it
  (\<open>extra\<close>), and raise the events.
\<close>

definition ms_task_op ::
    "string \<Rightarrow> task_status \<Rightarrow> (mission_task \<Rightarrow> mission_task) \<Rightarrow> ms_payload list \<Rightarrow> string \<Rightarrow> string \<Rightarrow> int \<Rightarrow> mission
       \<Rightarrow> (unit, ms_op_error) result \<times> mission" where
  "ms_task_op taskId to extra pls corr ev now m =
     (case findTask taskId m of
        None \<Rightarrow> (Fail (MsInvariant MsTaskNotFound), m)
      | Some task \<Rightarrow>
          (case transitionStatus to now task of
             (Fail err, _) \<Rightarrow> (Fail (MsInvariant err), m)
           | (Ok _, task1) \<Rightarrow>
               let m1 = m\<lparr>ms_tasks := put_task (extra task1) (ms_tasks m)\<rparr>
               in (Ok (), fold (\<lambda>pl. applyEvent (ms_event ev now (tenantId m1) corr pl)) pls m1)))"

definition dependencies_incomplete :: "mission_task \<Rightarrow> mission \<Rightarrow> bool" where
  "dependencies_incomplete task m =
     list_ex (\<lambda>depId. \<not> list_ex (\<lambda>t. tk_id t = depId \<and> tk_status t = TK_COMPLETED) (ms_tasks m)) (tk_dependsOn task)"

definition startTask :: "string \<Rightarrow> string \<Rightarrow> string \<Rightarrow> int \<Rightarrow> mission \<Rightarrow> (unit, ms_op_error) result \<times> mission" where
  "startTask taskId corr ev now m =
     (case findTask taskId m of
        None \<Rightarrow> (Fail (MsInvariant MsTaskNotFound), m)
      | Some task \<Rightarrow>
          if ms_status m \<noteq> MS_EXECUTING then (Fail (MsInvariant MsNotExecuting), m)
          else if dependencies_incomplete task m then (Fail (MsInvariant MsDependenciesIncomplete), m)
          else ms_task_op taskId TK_RUNNING id [MissionTaskStatusChanged (aggId m) taskId TK_RUNNING] corr ev now m)"

definition completeTask ::
    "string \<Rightarrow> json option \<Rightarrow> string \<Rightarrow> string \<Rightarrow> int \<Rightarrow> mission \<Rightarrow> (unit, ms_op_error) result \<times> mission" where
  "completeTask taskId out corr ev now m =
     ms_task_op taskId TK_COMPLETED (\<lambda>t. t\<lparr>tk_output := out\<rparr>)
       [MissionTaskStatusChanged (aggId m) taskId TK_COMPLETED] corr ev now m"

definition failTask :: "string \<Rightarrow> string \<Rightarrow> string \<Rightarrow> string \<Rightarrow> int \<Rightarrow> mission \<Rightarrow> (unit, ms_op_error) result \<times> mission" where
  "failTask taskId reason corr ev now m =
     ms_task_op taskId TK_FAILED (\<lambda>t. t\<lparr>tk_output := Some (JObj [(''reason'', JStr reason)])\<rparr>)
       [MissionTaskStatusChanged (aggId m) taskId TK_FAILED] corr ev now m"

definition timeoutTask :: "string \<Rightarrow> string \<Rightarrow> string \<Rightarrow> int \<Rightarrow> mission \<Rightarrow> (unit, ms_op_error) result \<times> mission" where
  "timeoutTask taskId corr ev now m =
     ms_task_op taskId TK_TIMED_OUT id
       [MissionTaskStatusChanged (aggId m) taskId TK_TIMED_OUT, MissionTaskTimedOut (aggId m) taskId] corr ev now m"

definition cancelTask :: "string \<Rightarrow> string \<Rightarrow> string \<Rightarrow> string \<Rightarrow> int \<Rightarrow> mission \<Rightarrow> (unit, ms_op_error) result \<times> mission" where
  "cancelTask taskId reason corr ev now m =
     ms_task_op taskId TK_CANCELLED id
       [MissionTaskStatusChanged (aggId m) taskId TK_CANCELLED, MissionTaskCancelled (aggId m) taskId reason] corr ev now m"

definition markTaskAwaitingApproval ::
    "string \<Rightarrow> string \<Rightarrow> string \<Rightarrow> string \<Rightarrow> int \<Rightarrow> mission \<Rightarrow> (unit, ms_op_error) result \<times> mission" where
  "markTaskAwaitingApproval taskId gate corr ev now m =
     ms_task_op taskId TK_AWAITING_APPROVAL (\<lambda>t. t\<lparr>tk_approvalGateId := Some gate\<rparr>)
       [MissionTaskStatusChanged (aggId m) taskId TK_AWAITING_APPROVAL] corr ev now m"

lemmas ms_status_op_defs =
  ms_approve_def ms_schedule_def ms_start_def ms_planValid_def ms_pause_def ms_resume_def
  ms_cancel_def ms_complete_def ms_fail_def ms_archive_def ms_block_def ms_unblock_def

lemmas ms_task_op_defs =
  startTask_def completeTask_def failTask_def timeoutTask_def cancelTask_def markTaskAwaitingApproval_def

inductive ms_step :: "mission \<Rightarrow> mission \<Rightarrow> bool" where
  approve: "ms_step m (snd (ms_approve by corr ev now m))"
| schedule: "ms_step m (snd (ms_schedule corr ev now m))"
| start: "ms_step m (snd (ms_start corr ev now m))"
| planValid: "ms_step m (snd (ms_planValid corr ev now m))"
| replan: "ms_step m (snd (ms_replan p ts corr ev now m))"
| pause: "ms_step m (snd (ms_pause r corr ev now m))"
| resume: "ms_step m (snd (ms_resume corr ev now m))"
| cancel: "ms_step m (snd (ms_cancel r corr ev now m))"
| complete: "ms_step m (snd (ms_complete out corr ev now m))"
| failed: "ms_step m (snd (ms_fail r corr ev now m))"
| archive: "ms_step m (snd (ms_archive corr ev now m))"
| block: "ms_step m (snd (ms_block r corr ev now m))"
| unblock: "ms_step m (snd (ms_unblock corr ev now m))"
| addTask: "ms_step m (snd (ms_addTask props corr ev now m))"
| startTask: "ms_step m (snd (startTask i corr ev now m))"
| completeTask: "ms_step m (snd (completeTask i val corr ev now m))"
| failTask: "ms_step m (snd (failTask i r corr ev now m))"
| timeoutTask: "ms_step m (snd (timeoutTask i corr ev now m))"
| cancelTask: "ms_step m (snd (cancelTask i r corr ev now m))"
| awaitApproval: "ms_step m (snd (markTaskAwaitingApproval i gate corr ev now m))"

subsection \<open>What the operations keep\<close>

text \<open>The event factories of the code write at most the outcomes.\<close>

lemma mission_root_frame [simp]:
  "root_of (ms_status_update g1 m) = root_of m"
  "root_of (ms_updatedAt_update g2 m) = root_of m"
  "root_of (ms_outcomes_update g3 m) = root_of m"
  "root_of (ms_tasks_update g4 m) = root_of m"
  "root_of (ms_plan_update g5 m) = root_of m"
  by (simp_all add: root_of_def)

definition mild :: "(mission \<Rightarrow> ms_payload \<times> mission) \<Rightarrow> bool" where
  "mild f \<longleftrightarrow> (\<forall>x. root_of (snd (f x)) = root_of x \<and> ms_status (snd (f x)) = ms_status x
     \<and> ms_tasks (snd (f x)) = ms_tasks x \<and> ms_plan (snd (f x)) = ms_plan x)"

lemma mild_simps [simp]:
  "mild (\<lambda>x. (pl x, x))" "mild (\<lambda>x. (pl x, x\<lparr>ms_outcomes := out\<rparr>))"
  by (simp_all add: mild_def)

lemma mission_applyEvent_frame [simp]:
  "ms_status (applyEvent ev m) = ms_status m"
  "ms_tasks (applyEvent ev m) = ms_tasks m"
  "ms_plan (applyEvent ev m) = ms_plan m"
  by (simp_all add: applyEvent_def)

lemma ms_transitionTo_facts:
  assumes "mild f"
  shows "ms_status (snd (ms_transitionTo to corr ev now f m)) =
           (if canTransitionMission (ms_status m) to then to else ms_status m)"
    and "ms_tasks (snd (ms_transitionTo to corr ev now f m)) = ms_tasks m"
    and "ms_plan (snd (ms_transitionTo to corr ev now f m)) = ms_plan m"
    and "extends_log (root_of m) (root_of (snd (ms_transitionTo to corr ev now f m)))"
    and "fst (ms_transitionTo to corr ev now f m) =
           (if canTransitionMission (ms_status m) to then Ok () else Fail (MsInvalidTransition (ms_status m) to))"
  using assms
  by (auto simp: mild_def ms_transitionTo_def Let_def case_prod_beta intro!: extends_log_applyEvent)

lemma fold_applyEvent_mission:
  "ms_status (fold (\<lambda>pl. applyEvent (h pl)) pls m) = ms_status m"
  "ms_tasks (fold (\<lambda>pl. applyEvent (h pl)) pls m) = ms_tasks m"
  "ms_plan (fold (\<lambda>pl. applyEvent (h pl)) pls m) = ms_plan m"
  by (induction pls arbitrary: m) simp_all

lemma fold_applyEvent_extends:
  "extends_log (root_of m0) (root_of m) \<Longrightarrow> extends_log (root_of m0) (root_of (fold (\<lambda>pl. applyEvent (h pl)) pls m))"
  by (induction pls arbitrary: m) (auto intro: extends_log_trans [OF _ extends_log_applyEvent])

lemma transitionStatus_Fail: "transitionStatus to now t = (Fail err, t') \<Longrightarrow> \<not> canTransitionTask (tk_status t) to"
  by (simp add: transitionStatus_def Let_def split: if_splits)

lemma transitionStatus_Ok: "transitionStatus to now t = (Ok u, t') \<Longrightarrow> canTransitionTask (tk_status t) to"
  by (simp add: transitionStatus_def Let_def split: if_splits)

lemma ms_task_op_facts:
  "ms_status (snd (ms_task_op i to extra pls corr ev now m)) = ms_status m"
  "ms_plan (snd (ms_task_op i to extra pls corr ev now m)) = ms_plan m"
  "extends_log (root_of m) (root_of (snd (ms_task_op i to extra pls corr ev now m)))"
  by (auto simp: ms_task_op_def Let_def fold_applyEvent_mission intro!: fold_applyEvent_extends
      split: option.splits prod.splits result.splits)

lemma ms_task_op_tasks:
  "ms_tasks (snd (ms_task_op i to extra pls corr ev now m)) =
     (case findTask i m of
        None \<Rightarrow> ms_tasks m
      | Some t \<Rightarrow> if canTransitionTask (tk_status t) to
          then put_task (extra (snd (transitionStatus to now t))) (ms_tasks m) else ms_tasks m)"
  by (auto simp: ms_task_op_def Let_def fold_applyEvent_mission dest: transitionStatus_Fail transitionStatus_Ok
      split: option.splits prod.splits result.splits)

lemma ms_step_edge:
  "ms_step a b \<Longrightarrow> ms_status b = ms_status a \<or> canTransitionMission (ms_status a) (ms_status b)"
  by (induction rule: ms_step.induct)
    (auto simp: ms_status_op_defs ms_task_op_defs ms_transitionTo_facts ms_task_op_facts ms_replan_def
      ms_addTask_def Let_def split: option.splits)

lemma ms_step_extends: "ms_step a b \<Longrightarrow> extends_log (root_of a) (root_of b)"
  by (induction rule: ms_step.induct)
    (auto simp: ms_status_op_defs ms_task_op_defs ms_transitionTo_facts ms_task_op_facts ms_replan_def
      ms_addTask_def Let_def intro!: extends_log_applyEvent split: option.splits)

interpretation ms_life: lifecycle ms_status canTransitionMission ms_step
  by unfold_locales (rule ms_step_edge)

interpretation ms_log: event_sourced root_of ms_step
  by unfold_locales (rule ms_step_extends)

subsection \<open>A task is worked on only when what it depends on is done\<close>

definition started :: "mission_task \<Rightarrow> bool" where
  "started t \<longleftrightarrow> tk_status t \<in> {TK_RUNNING, TK_AWAITING_APPROVAL, TK_PAUSED, TK_FAILED, TK_TIMED_OUT}"

definition done_in :: "mission_task list \<Rightarrow> string \<Rightarrow> bool" where
  "done_in ts d \<longleftrightarrow> (\<exists>u \<in> set ts. tk_id u = d \<and> tk_status u = TK_COMPLETED)"

definition deps_met :: "mission_task list \<Rightarrow> bool" where
  "deps_met ts \<longleftrightarrow> (\<forall>t \<in> set ts. started t \<longrightarrow> (\<forall>d \<in> set (tk_dependsOn t). done_in ts d))"

lemma put_task_set: "set (put_task t' xs) \<subseteq> insert t' (set xs)"
  by (induction xs) auto

lemma put_task_keeps:
  "List.find (\<lambda>t. tk_id t = i) xs = Some t \<Longrightarrow> tk_id t' = i \<Longrightarrow> x \<in> set xs \<Longrightarrow> x = t \<or> x \<in> set (put_task t' xs)"
  by (induction xs) (auto split: if_splits)

lemma findTask_Some: "findTask i m = Some t \<Longrightarrow> t \<in> set (ms_tasks m) \<and> tk_id t = i"
  by (auto simp: findTask_def dest: find_SomeD)

lemma deps_met_put:
  assumes "deps_met xs" and f: "List.find (\<lambda>t. tk_id t = i) xs = Some t" and "tk_status t \<noteq> TK_COMPLETED"
    and t': "tk_id t' = i" "tk_dependsOn t' = tk_dependsOn t"
    and st: "started t' \<Longrightarrow> started t \<or> (\<forall>d \<in> set (tk_dependsOn t). done_in xs d)"
  shows "deps_met (put_task t' xs)"
proof -
  have mono: "done_in xs d \<Longrightarrow> done_in (put_task t' xs) d" for d
    using put_task_keeps [OF f t'(1)] assms(3) unfolding done_in_def by metis
  have "\<forall>d \<in> set (tk_dependsOn u). done_in xs d" if u: "u \<in> set (put_task t' xs)" "started u" for u
  proof (cases "u = t'")
    case True
    then show ?thesis using u st t'(2) assms(1) find_SomeD [OF f] by (auto simp: deps_met_def)
  next
    case False
    then have "u \<in> set xs" using u(1) put_task_set by auto
    then show ?thesis using assms(1) u(2) by (auto simp: deps_met_def)
  qed
  then show ?thesis using mono by (auto simp: deps_met_def)
qed

lemma canTransitionTask_from:
  "canTransitionTask s TK_COMPLETED \<Longrightarrow> s = TK_RUNNING" "canTransitionTask s TK_FAILED \<Longrightarrow> s = TK_RUNNING"
  "canTransitionTask s TK_TIMED_OUT \<Longrightarrow> s = TK_RUNNING"
  "canTransitionTask s TK_AWAITING_APPROVAL \<Longrightarrow> s = TK_RUNNING"
  "\<not> canTransitionTask TK_COMPLETED to"
  by (cases s; simp add: canTransitionTask_def)+

lemma deps_met_task_op:
  assumes "deps_met (ms_tasks m)" and "\<And>t. tk_id (extra t) = tk_id t"
    and "\<And>t. tk_dependsOn (extra t) = tk_dependsOn t" and "\<And>t. tk_status (extra t) = tk_status t"
    and "\<And>t. findTask i m = Some t \<Longrightarrow> canTransitionTask (tk_status t) to \<Longrightarrow> to = TK_COMPLETED \<or> to = TK_CANCELLED
           \<or> tk_status t = TK_RUNNING \<or> (\<forall>d \<in> set (tk_dependsOn t). done_in (ms_tasks m) d)"
  shows "deps_met (ms_tasks (snd (ms_task_op i to extra pls corr ev now m)))"
proof (cases "findTask i m")
  case None
  then show ?thesis using assms(1) by (simp add: ms_task_op_tasks)
next
  case (Some t)
  show ?thesis
  proof (cases "canTransitionTask (tk_status t) to")
    case True
    have "deps_met (put_task (extra (snd (transitionStatus to now t))) (ms_tasks m))"
      using assms Some True canTransitionTask_from(5) findTask_Some [OF Some]
      by (intro deps_met_put [where t = t and i = i])
        (auto simp: findTask_def transitionStatus_simps started_def)
    then show ?thesis using Some True by (simp add: ms_task_op_tasks)
  next
    case False
    then show ?thesis using assms(1) Some by (simp add: ms_task_op_tasks)
  qed
qed

lemma deps_complete: "\<not> dependencies_incomplete t m \<longleftrightarrow> (\<forall>d \<in> set (tk_dependsOn t). done_in (ms_tasks m) d)"
  by (auto simp: dependencies_incomplete_def list_ex_iff done_in_def)

lemma deps_met_startTask: "deps_met (ms_tasks m) \<Longrightarrow> deps_met (ms_tasks (snd (startTask i corr ev now m)))"
  by (auto simp: startTask_def deps_complete intro!: deps_met_task_op split: option.splits)

lemma deps_met_fresh: "(\<forall>t \<in> set ts. \<not> started t) \<Longrightarrow> deps_met ts"
  by (simp add: deps_met_def)

lemma replan_task_simps:
  "tk_id (replan_task ex p) = tk_id p" "\<not> started (replan_task ex p)"
  by (auto simp: replan_task_def Let_def started_def split: option.splits)

lemma deps_met_replan: "deps_met (ms_tasks m) \<Longrightarrow> deps_met (ms_tasks (snd (ms_replan p ts corr ev now m)))"
  by (auto simp: ms_replan_def Let_def replan_task_simps intro!: deps_met_fresh split: option.splits)

lemma deps_met_append: "deps_met ts \<Longrightarrow> \<not> started t \<Longrightarrow> deps_met (ts @ [t])"
  by (auto simp: deps_met_def done_in_def)

lemma deps_met_addTask: "deps_met (ms_tasks m) \<Longrightarrow> deps_met (ms_tasks (snd (ms_addTask p corr ev now m)))"
  by (auto simp: ms_addTask_def Let_def started_def intro!: deps_met_append)

lemma deps_met_step: "ms_step a b \<Longrightarrow> deps_met (ms_tasks a) \<Longrightarrow> deps_met (ms_tasks b)"
  by (induction rule: ms_step.induct)
    (auto simp: ms_status_op_defs ms_transitionTo_facts deps_met_startTask deps_met_replan deps_met_addTask
      completeTask_def failTask_def timeoutTask_def cancelTask_def markTaskAwaitingApproval_def
      dest: canTransitionTask_from(1-4) intro!: deps_met_task_op split: option.splits)

lemma deps_met_run: "ms_step\<^sup>*\<^sup>* a b \<Longrightarrow> deps_met (ms_tasks a) \<Longrightarrow> deps_met (ms_tasks b)"
  by (induction rule: rtranclp_induct) (use deps_met_step in blast)+

lemma ms_create_facts:
  assumes "ms_create now props corr ev = Ok m"
  shows "ms_tasks m = nullish (mi_tasks props) []" and "ms_status m = nullish (mi_status props) MS_DRAFT"
    and "ms_plan m = mi_plan props"
  using assms by (auto simp: ms_create_def ms_construct_def applyEvent_def split: if_splits)

lemma plan_check_ok: "validateTaskGraph tasks v = None \<longleftrightarrow> plan_ok tasks v"
  by (rule validateTaskGraph_None)

lemma option_eq_by_Some: "(\<And>v. a = Some v \<longleftrightarrow> b = Some v) \<Longrightarrow> a = b"
  by (cases a; cases b) auto

lemma completed_lookup:
  assumes "distinct (map tk_id (ms_tasks m))"
  shows "taskById (filter (\<lambda>t. tk_status t = TK_COMPLETED) (ms_tasks m)) i =
    (case findTask i m of Some old \<Rightarrow> if tk_status old = TK_COMPLETED then Some old else None | None \<Rightarrow> None)"
proof -
  have "taskById ts i = List.find (\<lambda>t. tk_id t = i) ts" if "distinct (map tk_id ts)" for ts
  proof -
    have d: "distinct (map fst (map (\<lambda>t. (tk_id t, t)) ts))" using that by (simp add: comp_def)
    then have "distinct (map fst (rev (map (\<lambda>t. (tk_id t, t)) ts)))" by (simp only: rev_map [symmetric] distinct_rev)
    then have "map_of (rev (map (\<lambda>t. (tk_id t, t)) ts)) i = map_of (map (\<lambda>t. (tk_id t, t)) ts) i"
      by (intro option_eq_by_Some) (simp only: map_of_eq_Some_iff d set_rev)
    moreover have "map_of (map (\<lambda>t. (tk_id t, t)) ts) i = List.find (\<lambda>t. tk_id t = i) ts"
      by (induction ts) auto
    ultimately show ?thesis by (simp add: taskById_def)
  qed
  moreover have "distinct (map tk_id (filter P (ms_tasks m)))" for P
    using assms by (rule distinct_map_filter)
  moreover have "List.find (\<lambda>t. tk_id t = i) (filter P xs) =
      (case List.find (\<lambda>t. tk_id t = i) xs of Some t \<Rightarrow> if P t then Some t else None | None \<Rightarrow> None)"
    if "distinct (map tk_id xs)" for P xs
    using that by (induction xs) (auto simp: find_None_iff split: option.splits dest!: find_SomeD)
  ultimately show ?thesis using assms by (simp add: findTask_def)
qed

subsection \<open>Properties\<close>

text \<open>A mission of two tasks, the second depending on the first, for the witnesses.\<close>

definition sample_actor :: actor where
  "sample_actor = \<lparr>actorType = HumanActor, actorId = ''u'', actorTenantId = ''t''\<rparr>"

definition sample_task_props :: "string \<Rightarrow> string list \<Rightarrow> task_props" where
  "sample_task_props i ds = \<lparr>tk_id = i, tk_missionId = ''m'', tk_planId = ''p'', tk_agentId = ''a'',
     tk_agentVersion = ''1'', tk_taskType = ''research'', tk_requiredCapability = None, tk_input = JNull,
     tk_dependsOn = ds, tk_deadline = None, tk_approvalGateId = None, tk_idempotencyKey = i,
     tk_correlationId = ''x'', tk_actor = sample_actor\<rparr>"

definition sample_plan :: "jsnum \<Rightarrow> mission_plan" where
  "sample_plan v = \<lparr>pl_planId = ''p'', pl_version = v, pl_objectives = [], pl_phases = [],
     pl_approvalGates = [], pl_fallbackBranches = []\<rparr>"

definition sample_mission_props :: mission_props where
  "sample_mission_props = \<lparr>mi_id = ''m'', mi_tenantId = ''t'', mi_workspaceId = Some ''w'',
     mi_workspaceBindingState = Some WORKSPACE_BOUND, mi_name = ''n'', mi_objective = ''o'', mi_icpId = ''i'',
     mi_territory = [], mi_channels = [], mi_budget = \<lparr>mb_maxAiCostUsd = Fin 1, mb_maxOutreachCount = None\<rparr>,
     mi_autonomyLevel = Fin 1,
     mi_constraints = \<lparr>mc_workingHours = None, mc_noContactDomains = None, mc_minimumCompanySize = None\<rparr>,
     mi_successCriteria = \<lparr>mq_targetMeetings = None, mq_targetOpportunities = None\<rparr>,
     mi_deadline = None, mi_ownerUserId = ''u'', mi_plan = sample_plan (Fin 1),
     mi_status = None, mi_tasks = None, mi_approvals = None, mi_outcomes = None, mi_createdAt = None,
     mi_updatedAt = None\<rparr>"

definition sample_mission :: mission where
  "sample_mission = (case ms_create 0 sample_mission_props ''x'' ''v'' of Ok m \<Rightarrow> m)"

definition sample_planned :: mission where
  "sample_planned =
     snd (ms_addTask (sample_task_props ''b'' [''a'']) ''x'' ''v'' 4
      (snd (ms_addTask (sample_task_props ''a'' []) ''x'' ''v'' 3
       (snd (ms_start ''x'' ''v'' 2 (snd (ms_approve sample_actor ''x'' ''v'' 1 sample_mission)))))))"

definition sample_first_done :: mission where
  "sample_first_done =
     snd (completeTask ''a'' None ''x'' ''v'' 7 (snd (startTask ''a'' ''x'' ''v'' 6
       (snd (ms_resume ''x'' ''v'' 5 sample_planned)))))"

definition sample_second_started :: mission where
  "sample_second_started = snd (startTask ''b'' ''x'' ''v'' 8 sample_first_done)"

lemma sample_mission_eq: "ms_create 0 sample_mission_props ''x'' ''v'' = Ok sample_mission"
  by (simp add: sample_mission_def ms_create_def sample_mission_props_def js_trim_def js_space_def)

lemma sample_planned_facts:
  "ms_status sample_planned = MS_PLANNING"
  "ms_tasks sample_planned = [new_task (sample_task_props ''a'' []), new_task (sample_task_props ''b'' [''a''])]"
proof -
  have "ms_status sample_mission = MS_DRAFT" "ms_tasks sample_mission = []"
    using ms_create_facts [OF sample_mission_eq] by (simp_all add: sample_mission_props_def)
  then show "ms_status sample_planned = MS_PLANNING"
    "ms_tasks sample_planned = [new_task (sample_task_props ''a'' []), new_task (sample_task_props ''b'' [''a''])]"
    by (simp_all add: sample_planned_def ms_addTask_def ms_start_def ms_approve_def ms_transitionTo_facts
        ms_isTerminal_def canTransitionMission_def Let_def sample_task_props_def)
qed

lemma sample_first_done_facts:
  "ms_status sample_first_done = MS_EXECUTING"
  "map tk_status (ms_tasks sample_first_done) = [TK_COMPLETED, TK_PENDING]"
  "map tk_id (ms_tasks sample_first_done) = [''a'', ''b'']"
  "map tk_dependsOn (ms_tasks sample_first_done) = [[], [''a'']]"
  by (simp_all add: sample_first_done_def completeTask_def startTask_def ms_task_op_facts ms_task_op_tasks
      ms_resume_def ms_transitionTo_facts sample_planned_facts canTransitionMission_def findTask_def
      dependencies_incomplete_def transitionStatus_simps canTransitionTask_def sample_task_props_def)

lemma mission_run_more:
  "ms_step\<^sup>*\<^sup>* a m \<Longrightarrow> ms_step\<^sup>*\<^sup>* a (snd (ms_approve by corr ev now m))"
  "ms_step\<^sup>*\<^sup>* a m \<Longrightarrow> ms_step\<^sup>*\<^sup>* a (snd (ms_start corr ev now m))"
  "ms_step\<^sup>*\<^sup>* a m \<Longrightarrow> ms_step\<^sup>*\<^sup>* a (snd (ms_resume corr ev now m))"
  "ms_step\<^sup>*\<^sup>* a m \<Longrightarrow> ms_step\<^sup>*\<^sup>* a (snd (ms_addTask p corr ev now m))"
  "ms_step\<^sup>*\<^sup>* a m \<Longrightarrow> ms_step\<^sup>*\<^sup>* a (snd (startTask i corr ev now m))"
  "ms_step\<^sup>*\<^sup>* a m \<Longrightarrow> ms_step\<^sup>*\<^sup>* a (snd (completeTask i val corr ev now m))"
  by (erule rtranclp.rtrancl_into_rtrancl, rule ms_step.intros)+

lemma sample_second_run: "ms_step\<^sup>*\<^sup>* sample_mission sample_second_started"
  unfolding sample_second_started_def sample_first_done_def sample_planned_def
  by (rule rtranclp.rtrancl_refl mission_run_more)+

text \<open>
  (C3) A task is worked on only when what it depends on is done: after any calls on a mission
  created with tasks none of which was started, every task that is running, waiting for approval,
  paused, failed or timed out has, for each of its dependencies, a completed task of that id in the
  mission. A replan that replaces the tasks in between is included. Nothing is said of completed
  and cancelled tasks: a replan keeps a completed task and may give it dependencies that are not done.
\<close>

theorem mission_started_tasks_have_done_dependencies:
  assumes "ms_create now props corr ev = Ok m0" and "list_all (\<lambda>t. \<not> started t) (nullish (mi_tasks props) [])"
    and "ms_step\<^sup>*\<^sup>* m0 m" and "t \<in> set (ms_tasks m)" and "started t" and "d \<in> set (tk_dependsOn t)"
  shows "\<exists>u \<in> set (ms_tasks m). tk_id u = d \<and> tk_status u = TK_COMPLETED"
proof -
  have "deps_met (ms_tasks m0)" using ms_create_facts(1) [OF assms(1)] assms(2) by (simp add: deps_met_fresh list_all_iff)
  then have "deps_met (ms_tasks m)" by (rule deps_met_run [OF assms(3)])
  then show ?thesis using assms(4-6) by (auto simp: deps_met_def done_in_def)
qed

theorem mission_started_tasks_have_done_dependencies_witness:
  "list_all (\<lambda>t. started t \<longleftrightarrow> tk_id t = ''b'') (ms_tasks sample_second_started) \<and>
   (\<exists>u \<in> set (ms_tasks sample_second_started). tk_id u = ''a'' \<and> tk_status u = TK_COMPLETED)"
proof -
  obtain t u where tu: "ms_tasks sample_first_done = [t, u]"
    and f: "tk_status t = TK_COMPLETED" "tk_status u = TK_PENDING" "tk_id t = ''a''" "tk_id u = ''b''"
      "tk_dependsOn u = [''a'']"
    using sample_first_done_facts by auto
  let ?u = "snd (transitionStatus TK_RUNNING 8 u)"
  have ts: "ms_tasks sample_second_started = [t, ?u]"
    using tu f sample_first_done_facts(1)
    by (simp add: sample_second_started_def startTask_def ms_task_op_tasks findTask_def
        dependencies_incomplete_def transitionStatus_simps canTransitionTask_def)
  have n: "list_all (\<lambda>t. \<not> started t) (nullish (mi_tasks sample_mission_props) [])" by (simp add: sample_mission_props_def)
  have "\<exists>u \<in> set (ms_tasks sample_second_started). tk_id u = ''a'' \<and> tk_status u = TK_COMPLETED"
    by (rule mission_started_tasks_have_done_dependencies [OF sample_mission_eq n sample_second_run, of ?u])
      (simp_all add: ts f transitionStatus_simps canTransitionTask_def started_def)
  then show ?thesis
    by (simp add: ts f transitionStatus_simps canTransitionTask_def started_def)
qed

text \<open>
  \<open>startTask\<close> succeeds exactly when the mission is executing, the task exists, is pending,
  paused or waiting for approval, and every dependency is a completed task of the mission.
\<close>

theorem startTask_succeeds_iff:
  "fst (startTask i corr ev now m) = Ok () \<longleftrightarrow>
     ms_status m = MS_EXECUTING \<and>
     (\<exists>t. findTask i m = Some t \<and> tk_status t \<in> {TK_PENDING, TK_PAUSED, TK_AWAITING_APPROVAL} \<and>
          list_all (done_in (ms_tasks m)) (tk_dependsOn t))"
proof (cases "findTask i m")
  case None
  then show ?thesis by (simp add: startTask_def)
next
  case (Some t)
  have c: "canTransitionTask (tk_status t) TK_RUNNING \<longleftrightarrow> tk_status t \<in> {TK_PENDING, TK_PAUSED, TK_AWAITING_APPROVAL}"
    by (cases "tk_status t") (simp_all add: canTransitionTask_def)
  show ?thesis
    by (simp only: Some option.inject simp_thms ex_simps c [symmetric] list_all_iff deps_complete [symmetric])
      (auto simp: startTask_def Some ms_task_op_def Let_def
        dest: transitionStatus_Fail transitionStatus_Ok split: prod.splits result.splits)
qed

text \<open>
  The plan check guards only one of the three doors to \<open>EXECUTING\<close>: \<open>resume\<close> and
  \<open>unblock\<close> succeed from \<open>PLANNING\<close>, \<open>PAUSED\<close>, \<open>AWAITING_APPROVAL\<close> and \<open>BLOCKED\<close>
  whatever the tasks are, while \<open>planValid\<close> succeeds from the same four statuses and only
  for a plan that is well-formed and acyclic.
\<close>

theorem mission_entries_to_executing:
  "(fst (ms_resume corr ev now m) = Ok () \<longleftrightarrow>
      ms_status m \<in> {MS_PLANNING, MS_PAUSED, MS_AWAITING_APPROVAL, MS_BLOCKED}) \<and>
   (fst (ms_unblock corr ev now m) = Ok () \<longleftrightarrow>
      ms_status m \<in> {MS_PLANNING, MS_PAUSED, MS_AWAITING_APPROVAL, MS_BLOCKED}) \<and>
   (fst (ms_planValid corr ev now m) = Ok () \<longleftrightarrow>
      ms_status m \<in> {MS_PLANNING, MS_PAUSED, MS_AWAITING_APPROVAL, MS_BLOCKED}
      \<and> plan_ok (ms_tasks m) (pl_version (ms_plan m)))"
proof -
  have c: "canTransitionMission s MS_EXECUTING \<longleftrightarrow>
      s \<in> {MS_PLANNING, MS_PAUSED, MS_AWAITING_APPROVAL, MS_BLOCKED}" for s
    by (cases s) (simp_all add: canTransitionMission_def)
  show ?thesis
    unfolding plan_check_ok [symmetric]
    by (auto simp: ms_resume_def ms_unblock_def ms_planValid_def ms_transitionTo_facts c split: option.splits)
qed

text \<open>
  A finished mission is final: after any further calls on a completed, failed, cancelled
  or archived mission its status is that one or \<open>ARCHIVED\<close>, no task of it can be started,
  and it cannot be replanned.
\<close>

theorem mission_terminal_is_final:
  assumes "ms_isTerminal a" and "ms_step\<^sup>*\<^sup>* a b"
  shows "ms_status b \<in> {ms_status a, MS_ARCHIVED} \<and> fst (startTask i corr ev now b) \<noteq> Ok ()
    \<and> ms_replan p ts corr ev now b = (Fail (MsInvariant MsTerminalReplan), b)"
proof -
  have "ms_status b \<in> {ms_status a, MS_ARCHIVED}"
    by (rule ms_life.run_closed [OF assms(2)])
      (use assms(1) in \<open>auto simp: ms_isTerminal_def canTransitionMission_def\<close>)
  then have "ms_isTerminal b" using assms(1) by (auto simp: ms_isTerminal_def)
  then show ?thesis using \<open>ms_status b \<in> _\<close> assms(1)
    by (auto simp: ms_replan_def startTask_def ms_isTerminal_def split: option.splits)
qed

theorem mission_terminal_is_final_witness:
  "fst (startTask ''a'' ''x'' ''v'' 9 (snd (ms_archive ''x'' ''v'' 8 (snd (ms_cancel ''r'' ''x'' ''v'' 7 sample_planned))))) \<noteq> Ok ()"
proof -
  let ?c = "snd (ms_cancel ''r'' ''x'' ''v'' 7 sample_planned)"
  have "ms_isTerminal ?c"
    by (simp add: ms_cancel_def ms_isTerminal_def ms_transitionTo_facts sample_planned_facts canTransitionMission_def)
  moreover have "ms_step\<^sup>*\<^sup>* ?c (snd (ms_archive ''x'' ''v'' 8 ?c))" by (rule r_into_rtranclp, rule ms_step.archive)
  ultimately show ?thesis using mission_terminal_is_final by blast
qed

text \<open>
  What a successful replan does: the new plan has a version that is not at most the
  current one, its tasks pass the plan check, and each new task whose id is that of a completed
  task is completed with the output it had, so no finished work is done again; every other task
  is pending.
\<close>

theorem ms_replan_keeps_completed:
  assumes "fst (ms_replan p ts corr ev now m) = Ok ()" and "distinct (map tk_id (ms_tasks m))"
  shows "ms_plan (snd (ms_replan p ts corr ev now m)) = p \<and>
    \<not> js_le (pl_version p) (pl_version (ms_plan m)) \<and>
    plan_ok (ms_tasks (snd (ms_replan p ts corr ev now m))) (pl_version p) \<and>
    map tk_id (ms_tasks (snd (ms_replan p ts corr ev now m))) = map tk_id ts \<and>
    (\<forall>t \<in> set (ms_tasks (snd (ms_replan p ts corr ev now m))).
       case findTask (tk_id t) m of
         Some old \<Rightarrow> if tk_status old = TK_COMPLETED
                     then tk_status t = TK_COMPLETED \<and> tk_output t = tk_output old
                     else tk_status t = TK_PENDING
       | None \<Rightarrow> tk_status t = TK_PENDING)"
proof -
  let ?ex = "taskById (filter (\<lambda>t. tk_status t = TK_COMPLETED) (ms_tasks m))"
  have e: "?ex i = (case findTask i m of Some old \<Rightarrow> if tk_status old = TK_COMPLETED then Some old else None
      | None \<Rightarrow> None)" for i
    by (rule completed_lookup [OF assms(2)])
  have t: "ms_tasks (snd (ms_replan p ts corr ev now m)) = map (replan_task ?ex) ts"
    and pl: "ms_plan (snd (ms_replan p ts corr ev now m)) = p"
    and v: "\<not> js_le (pl_version p) (pl_version (ms_plan m))"
    and ok: "validateTaskGraph (map (replan_task ?ex) ts) (pl_version p) = None"
    using assms(1) by (auto simp: ms_replan_def Let_def split: if_splits option.splits)
  have "case findTask (tk_id q) m of
      Some old \<Rightarrow> if tk_status old = TK_COMPLETED
        then tk_status (replan_task ?ex q) = TK_COMPLETED \<and> tk_output (replan_task ?ex q) = tk_output old
        else tk_status (replan_task ?ex q) = TK_PENDING
    | None \<Rightarrow> tk_status (replan_task ?ex q) = TK_PENDING" for q
    by (simp add: replan_task_def Let_def e split: option.split)
  then show ?thesis using pl v ok
    by (simp add: t plan_check_ok replan_task_simps comp_def)
qed

theorem ms_replan_keeps_completed_witness:
  "fst (ms_replan (sample_plan (Fin 2)) [sample_task_props ''a'' [], sample_task_props ''c'' [''a'']]
     ''x'' ''v'' 9 sample_first_done) = Ok () \<and>
   plan_ok (ms_tasks (snd (ms_replan (sample_plan (Fin 2))
     [sample_task_props ''a'' [], sample_task_props ''c'' [''a'']] ''x'' ''v'' 9 sample_first_done))) (Fin 2)"
proof -
  let ?ts = "[sample_task_props ''a'' [], sample_task_props ''c'' [''a'']]"
  have "ms_plan (snd (ms_addTask p corr ev now m)) = ms_plan m" for p corr ev now m
    by (simp add: ms_addTask_def Let_def)
  moreover have "ms_plan (snd (startTask i corr ev now m)) = ms_plan m" for i corr ev now m
    by (simp add: startTask_def ms_task_op_facts split: option.split)
  ultimately have pl: "ms_plan sample_first_done = sample_plan (Fin 1)"
    using ms_create_facts(3) [OF sample_mission_eq]
    by (simp add: sample_first_done_def completeTask_def ms_task_op_facts ms_resume_def
        ms_transitionTo_facts sample_planned_def ms_start_def ms_approve_def sample_mission_props_def)
  have k: "map tk_id (map (replan_task ex) ?ts) = [''a'', ''c'']"
    and i: "tk_id (replan_task ex (sample_task_props i ds)) = i"
    and g: "tk_agentId (replan_task ex (sample_task_props i ds)) = ''a''"
    and c: "tk_requiredCapability (replan_task ex (sample_task_props i ds)) = None"
    and d: "tk_dependsOn (replan_task ex (sample_task_props i ds)) = ds" for ex i ds
    by (simp_all add: replan_task_def Let_def sample_task_props_def split: option.split)
  have "depends_on (map (replan_task ex) ?ts) = {(''c'', ''a'')}" for ex
  proof -
    have "depends_on ts = (\<Union>t \<in> set ts. Pair (tk_id t) ` set (tk_dependsOn t))" for ts
      by (auto simp: depends_on_def)
    then show ?thesis using d i by simp
  qed
  moreover have "acyclic {(''c'', ''a'')}" by (simp add: acyclic_insert) (simp add: acyclic_def)
  ultimately have "validateTaskGraph (map (replan_task ex) ?ts) (Fin 2) = None" for ex
    using k d by (simp add: plan_check_ok plan_ok_def task_ok_def g c js_trim_def js_space_def)
  then have r: "fst (ms_replan (sample_plan (Fin 2)) ?ts ''x'' ''v'' 9 sample_first_done) = Ok ()"
    by (simp add: ms_replan_def ms_isTerminal_def sample_first_done_facts pl Let_def sample_plan_def)
  have "distinct (map tk_id (ms_tasks sample_first_done))" by (simp add: sample_first_done_facts)
  from ms_replan_keeps_completed [OF r this] r show ?thesis by (simp add: sample_plan_def)
qed

end
