(* ===== verification/Repository.thy ===== *)
theory Repository
  imports Contexts
begin

section \<open>Tables with optimistic concurrency\<close>

text \<open>
  What the Postgres repositories of the aggregates share: a table whose primary key is the
  tenant and the id, an insert with \<open>ON CONFLICT DO NOTHING\<close> for an aggregate that was never
  loaded, and an update that compares the version the aggregate was loaded with
  (\<open>packages/domain\<close>'s \<open>loadedVersion\<close>). A row keeps the snapshot that the code writes as JSON.
  The locale states what a client relies on: of two writers that loaded the same version,
  one is refused.
\<close>

record 'p db_row =
  row_tenant :: string
  row_workspace :: "string option"
  row_id :: string
  row_payload :: 'p
  row_version :: nat

text \<open>\<open>INSERT ... ON CONFLICT DO NOTHING RETURNING id\<close>: \<open>None\<close> when no row was inserted.\<close>

definition insert_row :: "'p db_row \<Rightarrow> 'p db_row list \<Rightarrow> 'p db_row list option" where
  "insert_row r rows =
     (if list_ex (\<lambda>x. row_tenant x = row_tenant r \<and> row_id x = row_id r) rows then None
      else Some (rows @ [r]))"

text \<open>The \<open>WHERE\<close> clause on tenant, workspace and id; a missing workspace matches nothing.\<close>

definition row_is :: "string \<Rightarrow> string option \<Rightarrow> string \<Rightarrow> 'p db_row \<Rightarrow> bool" where
  "row_is tenant ws i x \<longleftrightarrow> row_tenant x = tenant \<and> ws \<noteq> None \<and> row_workspace x = ws \<and> row_id x = i"

text \<open>\<open>UPDATE ... WHERE tenant, workspace, id AND version = loaded\<close>: \<open>None\<close> when no row matched.\<close>

definition update_row ::
    "string \<Rightarrow> string option \<Rightarrow> string \<Rightarrow> nat \<Rightarrow> 'p \<Rightarrow> nat \<Rightarrow> 'p db_row list \<Rightarrow> 'p db_row list option" where
  "update_row tenant ws i loaded p v rows =
     (if list_ex (\<lambda>x. row_is tenant ws i x \<and> row_version x = loaded) rows
      then Some (map (\<lambda>x. if row_is tenant ws i x \<and> row_version x = loaded
                          then x\<lparr>row_payload := p, row_version := v\<rparr> else x) rows)
      else None)"

definition select_row :: "string \<Rightarrow> string option \<Rightarrow> string \<Rightarrow> 'p db_row list \<Rightarrow> 'p db_row option" where
  "select_row tenant ws i rows = List.find (row_is tenant ws i) rows"

text \<open>The primary key.\<close>

definition keys_ok :: "'p db_row list \<Rightarrow> bool" where
  "keys_ok rows \<longleftrightarrow> distinct (map (\<lambda>x. (row_tenant x, row_id x)) rows)"

lemma keys_ok_insert: "keys_ok rows \<Longrightarrow> insert_row r rows = Some rows' \<Longrightarrow> keys_ok rows'"
  by (auto simp: keys_ok_def insert_row_def list_ex_iff split: if_splits) (metis)

lemma keys_ok_update: "keys_ok rows \<Longrightarrow> update_row t ws i l p v rows = Some rows' \<Longrightarrow> keys_ok rows'"
  by (auto simp: keys_ok_def update_row_def comp_def if_distrib [of row_tenant] if_distrib [of row_id]
      cong: if_cong split: if_splits)

lemma select_row_unique:
  assumes "keys_ok rows" and "x \<in> set rows" and "row_is tenant ws i x"
  shows "select_row tenant ws i rows = Some x"
  using assms
proof (induction rows)
  case (Cons y ys)
  then show ?case
    by (auto simp: select_row_def keys_ok_def row_is_def image_iff)
qed simp

lemma select_row_Some:
  "select_row tenant ws i rows = Some x \<Longrightarrow> x \<in> set rows \<and> row_is tenant ws i x"
  by (auto simp: select_row_def dest: find_SomeD)

lemma select_after_insert:
  assumes "insert_row r rows = Some rows'" and "row_is tenant ws i r"
  shows "select_row tenant ws i rows = None \<and> select_row tenant ws i rows' = Some r"
proof -
  have n: "\<not> row_is tenant ws i x" if "x \<in> set rows" for x
    using assms that by (auto simp: insert_row_def row_is_def list_ex_iff split: if_splits)
  have "List.find (row_is tenant ws i) (rows @ [r]) = Some r"
    using n assms(2) by (induction rows) auto
  then show ?thesis
    using assms(1) n by (auto simp: insert_row_def select_row_def find_None_iff split: if_splits)
qed

lemma select_after_update:
  assumes "keys_ok rows" and "update_row tenant ws i l p v rows = Some rows'"
  shows "\<exists>x. select_row tenant ws i rows = Some x \<and> row_version x = l
    \<and> select_row tenant ws i rows' = Some (x\<lparr>row_payload := p, row_version := v\<rparr>)"
proof -
  from assms(2) obtain x where x: "x \<in> set rows" "row_is tenant ws i x" "row_version x = l"
    and r: "rows' = map (\<lambda>x. if row_is tenant ws i x \<and> row_version x = l
              then x\<lparr>row_payload := p, row_version := v\<rparr> else x) rows"
    by (auto simp: update_row_def list_ex_iff split: if_splits)
  have "x\<lparr>row_payload := p, row_version := v\<rparr> \<in> set rows'" using x r by force
  moreover have "row_is tenant ws i (x\<lparr>row_payload := p, row_version := v\<rparr>)" using x(2) by (simp add: row_is_def)
  ultimately show ?thesis
    using select_row_unique [OF assms(1) x(1,2)] x(3) select_row_unique [OF keys_ok_update [OF assms]] by blast
qed

lemma select_other_insert:
  "insert_row r rows = Some rows' \<Longrightarrow> \<not> row_is tenant ws i r \<Longrightarrow> select_row tenant ws i rows' = select_row tenant ws i rows"
proof -
  assume "insert_row r rows = Some rows'" and n: "\<not> row_is tenant ws i r"
  then have "rows' = rows @ [r]" by (simp add: insert_row_def split: if_splits)
  then show ?thesis using n by (induction rows arbitrary: rows') (auto simp: select_row_def)
qed

lemma select_other_update:
  assumes "update_row t ws i l p v rows = Some rows'" and "j \<noteq> i \<or> u \<noteq> t"
  shows "select_row u ws' j rows' = select_row u ws' j rows"
proof -
  have "rows' = map (\<lambda>x. if row_is t ws i x \<and> row_version x = l
          then x\<lparr>row_payload := p, row_version := v\<rparr> else x) rows"
    using assms(1) by (simp add: update_row_def split: if_splits)
  then show ?thesis using assms(2)
    by (induction rows arbitrary: rows') (auto simp: select_row_def row_is_def)
qed

text \<open>
  The body that the repositories share: insert an aggregate that was never loaded, update one
  that was; \<open>None\<close> when the database returned no row.
\<close>

definition cas_write ::
    "string \<Rightarrow> string option \<Rightarrow> string \<Rightarrow> nat option \<Rightarrow> 'p \<Rightarrow> nat \<Rightarrow> 'p db_row list \<Rightarrow> 'p db_row list option" where
  "cas_write tenant ws i loaded p v rows =
     (case loaded of
        None \<Rightarrow> insert_row \<lparr>row_tenant = tenant, row_workspace = ws, row_id = i, row_payload = p, row_version = v\<rparr> rows
      | Some l \<Rightarrow> update_row tenant ws i l p v rows)"

lemma cas_write_select:
  assumes "keys_ok rows" and "cas_write tenant ws i loaded p v rows = Some rows'" and "ws \<noteq> None"
  shows "keys_ok rows'"
    and "\<exists>r. select_row tenant ws i rows' = Some r \<and> row_payload r = p \<and> row_version r = v
           \<and> row_tenant r = tenant \<and> row_workspace r = ws \<and> row_id r = i"
    and "loaded = None \<Longrightarrow> select_row tenant ws i rows = None"
    and "loaded = Some l \<Longrightarrow> \<exists>r. select_row tenant ws i rows = Some r \<and> row_version r = l"
    and "j \<noteq> i \<Longrightarrow> select_row u ws' j rows' = select_row u ws' j rows"
proof -
  let ?r = "\<lparr>row_tenant = tenant, row_workspace = ws, row_id = i, row_payload = p, row_version = v\<rparr>"
  have is_r: "row_is tenant ws i ?r" using assms(3) by (simp add: row_is_def)
  note f = assms(2) [unfolded cas_write_def]
  show "keys_ok rows'" using f assms(1) by (auto dest: keys_ok_insert keys_ok_update split: option.splits)
  show "\<exists>r. select_row tenant ws i rows' = Some r \<and> row_payload r = p \<and> row_version r = v
      \<and> row_tenant r = tenant \<and> row_workspace r = ws \<and> row_id r = i"
  proof (cases loaded)
    case None
    then show ?thesis using f select_after_insert [OF _ is_r] by auto
  next
    case (Some l)
    then have u: "update_row tenant ws i l p v rows = Some rows'" using f by simp
    obtain x where x: "select_row tenant ws i rows' = Some (x\<lparr>row_payload := p, row_version := v\<rparr>)"
      using select_after_update [OF assms(1) u] by blast
    then show ?thesis using select_row_Some [OF x] by (auto simp: row_is_def)
  qed
  show "loaded = None \<Longrightarrow> select_row tenant ws i rows = None"
    using f select_after_insert [OF _ is_r] by auto
  show "loaded = Some l \<Longrightarrow> \<exists>r. select_row tenant ws i rows = Some r \<and> row_version r = l"
    using f select_after_update [OF assms(1)] by fastforce
  show "j \<noteq> i \<Longrightarrow> select_row u ws' j rows' = select_row u ws' j rows"
    using f by (auto simp: row_is_def intro: select_other_insert select_other_update split: option.splits)
qed

text \<open>When the version is the one that was loaded, the write changes nothing a second writer compares.\<close>

lemma cas_write_same_version:
  assumes "keys_ok rows" and "cas_write tenant ws i (Some v) p v rows = Some rows'" and "ws \<noteq> None"
  shows "\<exists>rows''. cas_write tenant ws i (Some v) q w rows' = Some rows''"
proof -
  obtain r where "select_row tenant ws i rows' = Some r" "row_version r = v"
    using cas_write_select(2) [OF assms] by blast
  then have "r \<in> set rows' \<and> row_is tenant ws i r \<and> row_version r = v" using select_row_Some by blast
  then show ?thesis by (auto simp: cas_write_def update_row_def list_ex_iff)
qed

subsection \<open>Contract: a repository of versioned aggregates\<close>

text \<open>
  \<open>find\<close> loads, \<open>save\<close> stores or refuses, \<open>ver\<close> and \<open>loaded\<close> are the version of an aggregate
  and the version it was loaded with, \<open>ok\<close> is the invariant of the store.
\<close>

locale versioned_repository =
  fixes find :: "'c \<Rightarrow> 's \<Rightarrow> string \<Rightarrow> 'a option"
    and save :: "'c \<Rightarrow> 'a \<Rightarrow> 's \<Rightarrow> 'e + 's"
    and ver :: "'a \<Rightarrow> nat"
    and loaded :: "'a \<Rightarrow> nat option"
    and ident :: "'a \<Rightarrow> string"
    and ok :: "'s \<Rightarrow> bool"
  assumes save_ok: "ok s \<Longrightarrow> save c a s = Inr s' \<Longrightarrow> ok s'"
    and save_new: "ok s \<Longrightarrow> save c a s = Inr s' \<Longrightarrow> loaded a = None \<Longrightarrow> find c s (ident a) = None"
    and save_old: "ok s \<Longrightarrow> save c a s = Inr s' \<Longrightarrow> loaded a = Some v
      \<Longrightarrow> \<exists>b. find c s (ident a) = Some b \<and> ver b = v"
    and save_find: "ok s \<Longrightarrow> save c a s = Inr s' \<Longrightarrow> \<exists>b. find c s' (ident a) = Some b \<and> ver b = ver a"
    and save_other: "ok s \<Longrightarrow> save c a s = Inr s' \<Longrightarrow> i \<noteq> ident a \<Longrightarrow> find c s' i = find c s i"
    and find_loaded: "ok s \<Longrightarrow> find c s i = Some b \<Longrightarrow> loaded b = Some (ver b) \<and> ident b = i"
begin

text \<open>A writer whose copy is as old as that of a writer that has saved since is refused.\<close>

lemma stale_writer_refused:
  assumes "ok s" and "save c a s = Inr s'" and "ident b = ident a" and "loaded b = loaded a"
    and "loaded a \<noteq> Some (ver a)"
  shows "save c b s' \<noteq> Inr s''"
proof
  assume b: "save c b s' = Inr s''"
  obtain x where x: "find c s' (ident a) = Some x" "ver x = ver a" using save_find [OF assms(1,2)] by blast
  have o: "ok s'" using save_ok [OF assms(1,2)] .
  show False
  proof (cases "loaded b")
    case None
    then show False using save_new [OF o b] x(1) assms(3) by simp
  next
    case (Some v)
    then show False using save_old [OF o b Some] x assms(3-5) by auto
  qed
qed

text \<open>
  A run of saves by any writers: every one is accepted. The version in the store never goes
  down when every writer only adds to the version it loaded.
\<close>

inductive saves :: "'c \<Rightarrow> 's \<Rightarrow> 's \<Rightarrow> bool" where
  none: "saves c s s"
| more: "saves c s s' \<Longrightarrow> save c a s' = Inr s'' \<Longrightarrow> (\<And>v. loaded a = Some v \<Longrightarrow> v \<le> ver a) \<Longrightarrow> saves c s s''"

lemma saves_ok: "saves c s s' \<Longrightarrow> ok s \<Longrightarrow> ok s'"
  by (induction rule: saves.induct) (use save_ok in blast)+

lemma saves_version:
  assumes "saves c s s'" and "ok s" and "find c s i = Some a"
  shows "\<exists>b. find c s' i = Some b \<and> ver a \<le> ver b"
  using assms
proof (induction rule: saves.induct)
  case (more c s s' x s'')
  then obtain b where b: "find c s' i = Some b" "ver a \<le> ver b" by auto
  have o: "ok s'" using saves_ok more.hyps(1) more.prems(1) by blast
  show ?case
  proof (cases "ident x = i")
    case False
    then show ?thesis using save_other [OF o more.hyps(2), of i] b by auto
  next
    case True
    have "loaded x \<noteq> None" using save_new [OF o more.hyps(2)] b True by auto
    then obtain v where "loaded x = Some v" by blast
    then have "v = ver b" "v \<le> ver x" using save_old [OF o more.hyps(2)] b True more.hyps(3) by auto
    then show ?thesis using save_find [OF o more.hyps(2)] True b(2) by auto
  qed
qed auto

end

end
