(* ===== verification/Approval.thy ===== *)
theory Approval
  imports Mission Repository
begin

section \<open>Approvals: the aggregate, its repository, its verification and its service\<close>

text \<open>
  \<open>packages/mission-orchestrator/src/domain/approval/approval.ts\<close> and its status table;
  \<open>infrastructure/postgres-approval-repository.ts\<close>;
  \<open>infrastructure/approval-verification-adapter.ts\<close> and
  \<open>infrastructure/postgres-execution-approval-binding.ts\<close>, the two readers that decide
  whether an action is approved; and \<open>application/approval-application.service.ts\<close>.
\<close>

datatype ap_status = AP_PENDING | AP_APPROVED | AP_REJECTED | AP_EXPIRED | AP_ESCALATED

fun APPROVAL_STATE_TRANSITIONS :: "ap_status \<Rightarrow> ap_status list" where
  "APPROVAL_STATE_TRANSITIONS AP_PENDING = [AP_APPROVED, AP_REJECTED, AP_EXPIRED, AP_ESCALATED]"
| "APPROVAL_STATE_TRANSITIONS AP_ESCALATED = [AP_APPROVED, AP_REJECTED, AP_EXPIRED]"
| "APPROVAL_STATE_TRANSITIONS AP_APPROVED = []"
| "APPROVAL_STATE_TRANSITIONS AP_REJECTED = []"
| "APPROVAL_STATE_TRANSITIONS AP_EXPIRED = []"

definition canTransitionApproval :: "ap_status \<Rightarrow> ap_status \<Rightarrow> bool" where
  "canTransitionApproval from to = (to \<in> set (APPROVAL_STATE_TRANSITIONS from))"

text \<open>The fields that properties, snapshots and the aggregate share.\<close>

record approval_data =
  ad_missionId :: string
  ad_sequenceId :: "string option"
  ad_taskId :: "string option"
  ad_executionId :: "string option"
  ad_actionType :: string
  ad_riskCategory :: string
  ad_proposedAction :: json
  ad_evidence :: "json list"
  ad_reasoning :: string
  ad_confidence :: jsnum
  ad_requestedBy :: string
  ad_approverRole :: string
  ad_timeoutSeconds :: jsnum
  ad_idempotencyKey :: string

record approval_props =
  app_id :: string
  app_tenantId :: string
  app_workspaceId :: "string option"
  app_workspaceBindingState :: "workspace_binding option"
  app_data :: approval_data
  app_correlationId :: string
  app_status :: "ap_status option"
  app_decidedBy :: "string option"
  app_decisionReason :: "string option"
  app_createdAt :: "int option"
  app_updatedAt :: "int option"

datatype ap_payload =
    ApprovalRequested string approval_data
  | ApprovalStatusChanged string string ap_status "string option" "string option"
      \<comment> \<open>approval, mission, status, decided by, reason\<close>

record approval = "ap_payload domain_event aggregate_root" +
  ap_workspaceId :: "string option"
  ap_workspaceBindingState :: workspace_binding
  ap_data :: approval_data
  ap_correlationId :: string
  ap_createdAt :: int
  ap_updatedAt :: int
  ap_status :: ap_status
  ap_decidedBy :: "string option"
  ap_decisionReason :: "string option"

datatype ap_error =
    ApWorkspaceRequired | ApCannotTransition ap_status ap_status
  | ApOwnershipMismatch | ApAlreadyExists | ApStale

definition ap_construct :: "int \<Rightarrow> approval_props \<Rightarrow> approval" where
  "ap_construct now p =
     \<lparr>tenantId = app_tenantId p, aggId = app_id p, version = 0, loadedVersion = None, domainEvents = [],
      ap_workspaceId = app_workspaceId p,
      ap_workspaceBindingState = nullish (app_workspaceBindingState p) LEGACY_UNBOUND,
      ap_data = app_data p, ap_correlationId = app_correlationId p,
      ap_createdAt = nullish (app_createdAt p) now, ap_updatedAt = nullish (app_updatedAt p) now,
      ap_status = nullish (app_status p) AP_PENDING, ap_decidedBy = app_decidedBy p,
      ap_decisionReason = app_decisionReason p\<rparr>"

definition ap_event :: "string \<Rightarrow> int \<Rightarrow> string \<Rightarrow> string \<Rightarrow> ap_payload \<Rightarrow> ap_payload domain_event" where
  "ap_event ev now tenant corr pl =
     \<lparr>eventId = ev, occurredAt = now, evTenantId = tenant, correlationId = corr,
      producer = ''mission-orchestrator'', payload = pl\<rparr>"

definition ap_create :: "int \<Rightarrow> approval_props \<Rightarrow> string \<Rightarrow> (approval, ap_error) result" where
  "ap_create now props ev =
     (if app_workspaceBindingState props \<noteq> Some WORKSPACE_BOUND \<or> \<not> truthy (app_workspaceId props)
      then Fail ApWorkspaceRequired
      else Ok (applyEvent (ap_event ev now (app_tenantId props) (app_correlationId props)
                 (ApprovalRequested (app_id props) (app_data props))) (ap_construct now props)))"

definition ap_reconstitute :: "int \<Rightarrow> approval_props \<Rightarrow> nat \<Rightarrow> approval" where
  "ap_reconstitute now snapshot v = clearDomainEvents (setVersion v (ap_construct now snapshot))"

definition ap_transition ::
    "ap_status \<Rightarrow> string option \<Rightarrow> string \<Rightarrow> string \<Rightarrow> string \<Rightarrow> int \<Rightarrow> approval
       \<Rightarrow> (unit, ap_error) result \<times> approval" where
  "ap_transition status decidedBy reason corr ev now a =
     (if \<not> canTransitionApproval (ap_status a) status then (Fail (ApCannotTransition (ap_status a) status), a)
      else let a1 = a\<lparr>ap_status := status, ap_decidedBy := decidedBy, ap_decisionReason := Some reason,
                      ap_updatedAt := now\<rparr>
           in (Ok (), applyEvent (ap_event ev now (tenantId a1) corr
                 (ApprovalStatusChanged (aggId a1) (ad_missionId (ap_data a1)) status decidedBy (Some reason))) a1))"

definition ap_decide ::
    "ap_status \<Rightarrow> string \<Rightarrow> string \<Rightarrow> string \<Rightarrow> string \<Rightarrow> int \<Rightarrow> approval \<Rightarrow> (unit, ap_error) result \<times> approval" where
  "ap_decide status decidedBy reason corr ev now a = ap_transition status (Some decidedBy) reason corr ev now a"

definition ap_approve ::
    "string \<Rightarrow> string \<Rightarrow> string \<Rightarrow> string \<Rightarrow> int \<Rightarrow> approval \<Rightarrow> (unit, ap_error) result \<times> approval" where
  "ap_approve decidedBy reason corr ev now a = ap_decide AP_APPROVED decidedBy reason corr ev now a"

definition ap_reject ::
    "string \<Rightarrow> string \<Rightarrow> string \<Rightarrow> string \<Rightarrow> int \<Rightarrow> approval \<Rightarrow> (unit, ap_error) result \<times> approval" where
  "ap_reject decidedBy reason corr ev now a = ap_decide AP_REJECTED decidedBy reason corr ev now a"

definition ap_expire :: "string \<Rightarrow> string \<Rightarrow> int \<Rightarrow> approval \<Rightarrow> (unit, ap_error) result \<times> approval" where
  "ap_expire corr ev now a = ap_transition AP_EXPIRED None ''Approval timeout exceeded'' corr ev now a"

definition ap_escalate :: "string \<Rightarrow> string \<Rightarrow> int \<Rightarrow> approval \<Rightarrow> (unit, ap_error) result \<times> approval" where
  "ap_escalate corr ev now a = ap_transition AP_ESCALATED None ''Approval escalated'' corr ev now a"

inductive ap_step :: "approval \<Rightarrow> approval \<Rightarrow> bool" where
  approve: "ap_step a (snd (ap_approve by r corr ev now a))"
| reject: "ap_step a (snd (ap_reject by r corr ev now a))"
| expire: "ap_step a (snd (ap_expire corr ev now a))"
| escalate: "ap_step a (snd (ap_escalate corr ev now a))"

lemmas ap_op_defs = ap_approve_def ap_reject_def ap_decide_def ap_expire_def ap_escalate_def

lemma ap_transition_status:
  "ap_status (snd (ap_transition to by r corr ev now a)) =
     (if canTransitionApproval (ap_status a) to then to else ap_status a)"
  by (simp add: ap_transition_def Let_def applyEvent_def)

lemma ap_root_frame [simp]:
  "root_of (ap_status_update g1 a) = root_of a"
  "root_of (ap_decidedBy_update g2 a) = root_of a"
  "root_of (ap_decisionReason_update g3 a) = root_of a"
  "root_of (ap_updatedAt_update g4 a) = root_of a"
  by (simp_all add: root_of_def)

lemma ap_transition_extends:
  "extends_log (root_of a) (root_of (snd (ap_transition to by r corr ev now a)))"
  by (auto simp: ap_transition_def Let_def intro!: extends_log_applyEvent)

lemma ap_step_edge:
  "ap_step a b \<Longrightarrow> ap_status b = ap_status a \<or> canTransitionApproval (ap_status a) (ap_status b)"
  by (induction rule: ap_step.induct) (auto simp: ap_op_defs ap_transition_status)

lemma ap_step_extends: "ap_step a b \<Longrightarrow> extends_log (root_of a) (root_of b)"
  by (induction rule: ap_step.induct) (simp_all add: ap_op_defs ap_transition_extends)

interpretation ap_life: lifecycle ap_status canTransitionApproval ap_step
  by unfold_locales (rule ap_step_edge)

interpretation ap_log: event_sourced root_of ap_step
  by unfold_locales (rule ap_step_extends)

subsection \<open>The repository\<close>

text \<open>
  \<open>snapshot\<close> and \<open>restore\<close>. The columns \<open>workspace_binding_state\<close> and \<open>workspace_id\<close> agree by
  a check of the table (migration 037): a bound approval has a workspace and an unbound one has
  none, so the state is read off the workspace. The dates of a snapshot are set, so restoring
  does not read the clock.
\<close>

record approval_snapshot =
  as_data :: approval_data
  as_correlationId :: string
  as_status :: ap_status
  as_decidedBy :: "string option"
  as_decisionReason :: "string option"
  as_createdAt :: int
  as_updatedAt :: int

definition ap_snapshot :: "approval \<Rightarrow> approval_snapshot" where
  "ap_snapshot a =
     \<lparr>as_data = ap_data a, as_correlationId = ap_correlationId a, as_status = ap_status a,
      as_decidedBy = ap_decidedBy a, as_decisionReason = ap_decisionReason a,
      as_createdAt = ap_createdAt a, as_updatedAt = ap_updatedAt a\<rparr>"

definition ap_restore :: "approval_snapshot db_row \<Rightarrow> approval" where
  "ap_restore row =
     (let v = row_payload row
      in ap_reconstitute 0
           \<lparr>app_id = row_id row, app_tenantId = row_tenant row, app_workspaceId = row_workspace row,
            app_workspaceBindingState =
              Some (if row_workspace row = None then LEGACY_UNBOUND else WORKSPACE_BOUND),
            app_data = as_data v, app_correlationId = as_correlationId v, app_status = Some (as_status v),
            app_decidedBy = as_decidedBy v, app_decisionReason = as_decisionReason v,
            app_createdAt = Some (as_createdAt v), app_updatedAt = Some (as_updatedAt v)\<rparr>
           (row_version row))"

type_synonym approval_table = "approval_snapshot db_row list"

definition ap_load :: "tenant_context \<Rightarrow> approval_table \<Rightarrow> string \<Rightarrow> approval option" where
  "ap_load ctx rows i =
     (if \<not> truthy (cx_workspaceId ctx) then None
      else map_option ap_restore (select_row (cx_tenantId ctx) (cx_workspaceId ctx) i rows))"

definition ap_save :: "tenant_context \<Rightarrow> approval \<Rightarrow> approval_table \<Rightarrow> ap_error + approval_table" where
  "ap_save ctx a rows =
     (if \<not> truthy (cx_workspaceId ctx) \<or> ap_workspaceBindingState a \<noteq> WORKSPACE_BOUND
         \<or> ap_workspaceId a \<noteq> cx_workspaceId ctx \<or> tenantId a \<noteq> cx_tenantId ctx
      then Inl ApOwnershipMismatch
      else case cas_write (cx_tenantId ctx) (cx_workspaceId ctx) (aggId a) (loadedVersion a)
                  (ap_snapshot a) (version a) rows of
          None \<Rightarrow> Inl (if loadedVersion a = None then ApAlreadyExists else ApStale)
        | Some rows' \<Rightarrow> Inr rows')"

lemma ap_restore_simps [simp]:
  "version (ap_restore r) = row_version r" "loadedVersion (ap_restore r) = Some (row_version r)"
  "aggId (ap_restore r) = row_id r" "tenantId (ap_restore r) = row_tenant r"
  "ap_data (ap_restore r) = as_data (row_payload r)" "ap_status (ap_restore r) = as_status (row_payload r)"
  "ap_createdAt (ap_restore r) = as_createdAt (row_payload r)"
  "ap_workspaceId (ap_restore r) = row_workspace r" "domainEvents (ap_restore r) = []"
  "ap_decisionReason (ap_restore r) = as_decisionReason (row_payload r)"
  "ap_decidedBy (ap_restore r) = as_decidedBy (row_payload r)"
  by (simp_all add: ap_restore_def Let_def ap_reconstitute_def ap_construct_def clearDomainEvents_def setVersion_def)

lemma ap_save_Inr:
  assumes "ap_save ctx a rows = Inr rows'"
  shows "truthy (cx_workspaceId ctx) \<and> ap_workspaceId a = cx_workspaceId ctx \<and> tenantId a = cx_tenantId ctx \<and>
    cas_write (cx_tenantId ctx) (cx_workspaceId ctx) (aggId a) (loadedVersion a) (ap_snapshot a) (version a) rows
      = Some rows'"
  using assms by (auto simp: ap_save_def split: if_splits option.splits)

lemma truthy_not_None: "truthy x \<Longrightarrow> x \<noteq> None"
  by (cases x) auto

lemmas ap_save_select =
  cas_write_select [OF _ ap_save_Inr [THEN conjunct2, THEN conjunct2, THEN conjunct2] truthy_not_None [OF ap_save_Inr [THEN conjunct1]]]

interpretation ap_repo: versioned_repository ap_load ap_save version loadedVersion aggId keys_ok
proof unfold_locales
  fix s s' :: approval_table and c :: tenant_context and a b :: approval and v :: nat and i :: string
  assume k: "keys_ok s"
  {
    assume sv: "ap_save c a s = Inr s'"
    note f = ap_save_select [OF k sv sv]
    have t: "truthy (cx_workspaceId c)" using ap_save_Inr [OF sv] by simp
    show "keys_ok s'" by (rule f(1))
    show "loadedVersion a = None \<Longrightarrow> ap_load c s (aggId a) = None" using f(3) by (simp add: ap_load_def)
    show "loadedVersion a = Some v \<Longrightarrow> \<exists>b. ap_load c s (aggId a) = Some b \<and> version b = v"
      using f(4) [of v] t by (auto simp: ap_load_def)
    show "\<exists>b. ap_load c s' (aggId a) = Some b \<and> version b = version a" using f(2) t by (auto simp: ap_load_def)
    show "i \<noteq> aggId a \<Longrightarrow> ap_load c s' i = ap_load c s i" using f(5) by (simp add: ap_load_def)
  }
  show "ap_load c s i = Some b \<Longrightarrow> loadedVersion b = Some (version b) \<and> aggId b = i"
    by (auto simp: ap_load_def row_is_def split: if_splits dest!: select_row_Some)
qed

subsection \<open>Verification\<close>

text \<open>\<open>ApprovalVerificationAdapter.verify\<close>; \<open>load\<close> is the repository of the adapter.\<close>

record approval_request =
  vr_approvalId :: string
  vr_campaignId :: string
  vr_sequenceId :: string
  vr_executionId :: string
  vr_idempotencyKey :: string
  vr_recipientFingerprint :: string
  vr_actionType :: string
  vr_correlationId :: string

datatype approval_outcome =
    AV_APPROVED | AV_NOT_FOUND | AV_WRONG_TENANT | AV_WRONG_TARGET | AV_EXPIRED | AV_REJECTED
  | AV_CANCELLED | AV_PENDING | AV_INVALID_ACTION_TYPE

definition approval_expiresAt :: "int \<Rightarrow> jsnum \<Rightarrow> jsnum" where
  "approval_expiresAt createdAt timeoutSeconds = js_add (Fin (of_int createdAt)) (js_mul timeoutSeconds (Fin 1000))"

definition ap_verify ::
    "(tenant_context \<Rightarrow> string \<Rightarrow> approval option) \<Rightarrow> int \<Rightarrow> tenant_context \<Rightarrow> approval_request \<Rightarrow> approval_outcome" where
  "ap_verify load now ctx req =
     (case load ctx (vr_approvalId req) of
        None \<Rightarrow> AV_NOT_FOUND
      | Some a \<Rightarrow>
          if tenantId a \<noteq> cx_tenantId ctx then AV_WRONG_TENANT
          else if ad_executionId (ap_data a) \<noteq> None \<and> ad_executionId (ap_data a) \<noteq> Some (vr_executionId req)
          then AV_WRONG_TARGET
          else if ad_sequenceId (ap_data a) \<noteq> None \<and> ad_sequenceId (ap_data a) \<noteq> Some (vr_sequenceId req)
          then AV_WRONG_TARGET
          else if ad_idempotencyKey (ap_data a) \<noteq> vr_idempotencyKey req then AV_WRONG_TARGET
          else if ad_actionType (ap_data a) \<noteq> vr_actionType req then AV_INVALID_ACTION_TYPE
          else if ap_status a = AP_REJECTED then AV_REJECTED
          else if ap_status a = AP_ESCALATED \<or> ap_status a = AP_PENDING then AV_PENDING
          else if ap_status a = AP_EXPIRED then AV_EXPIRED
          else if ap_status a = AP_APPROVED \<and>
                  js_lt (approval_expiresAt (ap_createdAt a) (ad_timeoutSeconds (ap_data a))) (Fin (of_int now))
          then AV_EXPIRED
          else if ap_status a \<noteq> AP_APPROVED then AV_CANCELLED
          else AV_APPROVED)"

text \<open>
  \<open>PostgresExecutionApprovalBinding\<close>. The query names no tenant and no workspace: row level
  security shows it the rows of the current tenant. \<open>LIMIT 1\<close> without an order may return any
  match; the model takes the first.
\<close>

record approval_binding =
  bd_executionId :: string
  bd_idempotencyKey :: string
  bd_actionType :: "string option"

definition binding_matches :: "int \<Rightarrow> tenant_context \<Rightarrow> approval_binding \<Rightarrow> approval_snapshot db_row \<Rightarrow> bool" where
  "binding_matches now ctx b r \<longleftrightarrow>
     row_tenant r = cx_tenantId ctx \<and>
     ad_executionId (as_data (row_payload r)) = Some (bd_executionId b) \<and>
     ad_idempotencyKey (as_data (row_payload r)) = bd_idempotencyKey b \<and>
     as_status (row_payload r) = AP_APPROVED \<and>
     (bd_actionType b = None \<or> bd_actionType b = Some (ad_actionType (as_data (row_payload r)))) \<and>
     js_lt (Fin (of_int now))
       (approval_expiresAt (as_createdAt (row_payload r)) (ad_timeoutSeconds (as_data (row_payload r))))"

definition resolveValidApproval ::
    "approval_table \<Rightarrow> int \<Rightarrow> tenant_context \<Rightarrow> approval_binding \<Rightarrow> (string \<times> ap_status) option" where
  "resolveValidApproval rows now ctx b =
     (case List.find (binding_matches now ctx b) rows of
        None \<Rightarrow> None
      | Some r \<Rightarrow> Some (row_id r, as_status (row_payload r)))"

definition hasValidApproval :: "approval_table \<Rightarrow> int \<Rightarrow> tenant_context \<Rightarrow> approval_binding \<Rightarrow> bool" where
  "hasValidApproval rows now ctx b \<longleftrightarrow> resolveValidApproval rows now ctx b \<noteq> None"

subsection \<open>The application service\<close>

text \<open>
  \<open>shared/src/workflow/workflow-id-factory.ts\<close>. The world of the service: the table, the
  signals sent to workflows and the approvals whose approvers were notified. The mission
  repository is the parameter \<open>findMission\<close>; the workflow client and the notification port
  record what they were asked.
\<close>

definition forOutreachSequence :: "string \<Rightarrow> string \<Rightarrow> string" where
  "forOutreachSequence tenant i = ''outreach-sequence-v1-'' @ tenant @ ''-'' @ i"

definition forMission :: "string \<Rightarrow> string \<Rightarrow> string" where
  "forMission tenant i = ''mission-v1-'' @ tenant @ ''-'' @ i"

datatype signal_payload =
    GrantSignal "string option" string \<comment> \<open>execution, approval\<close>
  | DecisionSignal string ap_status string \<comment> \<open>approval, decision, reason\<close>

record workflow_signal =
  sg_workflowId :: string
  sg_tenantId :: string
  sg_correlationId :: string
  sg_name :: string
  sg_payload :: signal_payload

record approval_world =
  aw_rows :: approval_table
  aw_signals :: "workflow_signal list"
  aw_notified :: "string list"

datatype ap_service_error =
    AsWorkspaceAccessDenied | AsMissionAccessDenied | AsApprovalAccessDenied | AsCrossTenant
  | AsCannotCreate ap_error | AsCannotDecide ap_error | AsSave ap_error

definition requestApproval ::
    "(tenant_context \<Rightarrow> string \<Rightarrow> mission option) \<Rightarrow> int \<Rightarrow> string \<Rightarrow> string \<Rightarrow> tenant_context \<Rightarrow> approval_data
       \<Rightarrow> approval_world \<Rightarrow> (string, ap_service_error) result \<times> approval_world" where
  "requestApproval findMission now approvalId ev ctx input w =
     (if \<not> truthy (cx_workspaceId ctx) then (Fail AsWorkspaceAccessDenied, w)
      else case findMission ctx (ad_missionId input) of
          None \<Rightarrow> (Fail AsMissionAccessDenied, w)
        | Some m \<Rightarrow>
            if ms_workspaceBindingState m \<noteq> WORKSPACE_BOUND \<or> ms_workspaceId m \<noteq> cx_workspaceId ctx
            then (Fail AsMissionAccessDenied, w)
            else let props = \<lparr>app_id = approvalId, app_tenantId = tenantId m, app_workspaceId = ms_workspaceId m,
                       app_workspaceBindingState = Some WORKSPACE_BOUND,
                       app_data = input\<lparr>ad_missionId := aggId m\<rparr>, app_correlationId = cx_correlationId ctx,
                       app_status = None, app_decidedBy = None, app_decisionReason = None,
                       app_createdAt = None, app_updatedAt = None\<rparr>
                 in (case ap_create now props ev of
                       Fail err \<Rightarrow> (Fail (AsCannotCreate err), w)
                     | Ok a \<Rightarrow>
                         (case ap_save ctx a (aw_rows w) of
                            Inl err \<Rightarrow> (Fail (AsSave err), w)
                          | Inr rows \<Rightarrow> (Ok approvalId,
                              w\<lparr>aw_rows := rows, aw_notified := aw_notified w @ [approvalId]\<rparr>))))"

definition loadApproval :: "tenant_context \<Rightarrow> string \<Rightarrow> approval_world \<Rightarrow> (approval, ap_service_error) result" where
  "loadApproval ctx i w =
     (if \<not> truthy (cx_workspaceId ctx) then Fail AsWorkspaceAccessDenied
      else case ap_load ctx (aw_rows w) i of
          None \<Rightarrow> Fail AsApprovalAccessDenied
        | Some a \<Rightarrow>
            if ap_workspaceBindingState a \<noteq> WORKSPACE_BOUND \<or> ap_workspaceId a \<noteq> cx_workspaceId ctx
            then Fail AsApprovalAccessDenied
            else if ensureSameTenant ctx (tenantId a) \<noteq> None then Fail AsCrossTenant
            else Ok a)"

definition signalWorkflow :: "tenant_context \<Rightarrow> approval \<Rightarrow> ap_status \<Rightarrow> string \<Rightarrow> approval_world \<Rightarrow> approval_world" where
  "signalWorkflow ctx a decision reason w =
     (let seqId = ad_sequenceId (ap_data a);
          workflowId = (if truthy seqId then forOutreachSequence (tenantId a) (nullish seqId [])
                        else forMission (tenantId a) (ad_missionId (ap_data a)));
          sig = \<lparr>sg_workflowId = workflowId, sg_tenantId = tenantId a, sg_correlationId = cx_correlationId ctx,
                 sg_name = (if truthy seqId then ''outreachApprovalGranted'' else ''approvalDecision''),
                 sg_payload = (if truthy seqId then GrantSignal (ad_executionId (ap_data a)) (aggId a)
                               else DecisionSignal (aggId a) decision reason)\<rparr>
      in w\<lparr>aw_signals := aw_signals w @ [sig]\<rparr>)"

text \<open>The common part of \<open>decide\<close> and \<open>timeout\<close>: load, act, save, signal.\<close>

definition act_and_signal ::
    "(approval \<Rightarrow> (unit, ap_error) result \<times> approval) \<Rightarrow> ap_status \<Rightarrow> string \<Rightarrow> tenant_context \<Rightarrow> string
       \<Rightarrow> approval_world \<Rightarrow> (unit, ap_service_error) result \<times> approval_world" where
  "act_and_signal act decision reason ctx approvalId w =
     (case loadApproval ctx approvalId w of
        Fail err \<Rightarrow> (Fail err, w)
      | Ok a \<Rightarrow>
          (case act a of
             (Fail err, _) \<Rightarrow> (Fail (AsCannotDecide err), w)
           | (Ok _, a1) \<Rightarrow>
               (case ap_save ctx a1 (aw_rows w) of
                  Inl err \<Rightarrow> (Fail (AsSave err), w)
                | Inr rows \<Rightarrow> (Ok (), signalWorkflow ctx a1 decision reason (w\<lparr>aw_rows := rows\<rparr>)))))"

definition svc_approve ::
    "string \<Rightarrow> string \<Rightarrow> string \<Rightarrow> string \<Rightarrow> int \<Rightarrow> tenant_context \<Rightarrow> approval_world
       \<Rightarrow> (unit, ap_service_error) result \<times> approval_world" where
  "svc_approve approvalId actor reason ev now ctx w =
     act_and_signal (ap_approve actor reason (cx_correlationId ctx) ev now) AP_APPROVED reason ctx approvalId w"

definition svc_reject ::
    "string \<Rightarrow> string \<Rightarrow> string \<Rightarrow> string \<Rightarrow> int \<Rightarrow> tenant_context \<Rightarrow> approval_world
       \<Rightarrow> (unit, ap_service_error) result \<times> approval_world" where
  "svc_reject approvalId actor reason ev now ctx w =
     act_and_signal (ap_reject actor reason (cx_correlationId ctx) ev now) AP_REJECTED reason ctx approvalId w"

definition svc_timeout ::
    "string \<Rightarrow> string \<Rightarrow> int \<Rightarrow> tenant_context \<Rightarrow> approval_world \<Rightarrow> (unit, ap_service_error) result \<times> approval_world" where
  "svc_timeout approvalId ev now ctx w =
     act_and_signal (ap_expire (cx_correlationId ctx) ev now) AP_EXPIRED ''Approval timeout exceeded'' ctx approvalId w"

subsection \<open>What the operations of the service do\<close>

lemma ap_terminal_step:
  "ap_step a b \<Longrightarrow> ap_status a \<in> {AP_APPROVED, AP_REJECTED, AP_EXPIRED} \<Longrightarrow> b = a"
  by (induction rule: ap_step.induct) (auto simp: ap_op_defs ap_transition_def canTransitionApproval_def)

lemma ap_terminal_run:
  "ap_step\<^sup>*\<^sup>* a b \<Longrightarrow> ap_status a \<in> {AP_APPROVED, AP_REJECTED, AP_EXPIRED} \<Longrightarrow> b = a"
  by (induction rule: rtranclp_induct) (use ap_terminal_step in blast)+

lemma ap_transition_Ok:
  assumes "ap_transition to by r corr ev now a = (Ok u, a1)"
  shows "canTransitionApproval (ap_status a) to \<and> ap_status a1 = to \<and> aggId a1 = aggId a \<and> tenantId a1 = tenantId a
    \<and> ap_data a1 = ap_data a \<and> loadedVersion a1 = loadedVersion a \<and> version a1 = Suc (version a)
    \<and> ap_decidedBy a1 = by \<and> ap_workspaceId a1 = ap_workspaceId a"
  using assms by (auto simp: ap_transition_def Let_def applyEvent_def split: if_splits)

lemma act_and_signal_Ok:
  assumes "act_and_signal act decision reason ctx i w = (Ok u, w')"
  shows "\<exists>a a1 v rows. loadApproval ctx i w = Ok a \<and> act a = (Ok v, a1) \<and> ap_save ctx a1 (aw_rows w) = Inr rows
    \<and> w' = signalWorkflow ctx a1 decision reason (w\<lparr>aw_rows := rows\<rparr>)"
  using assms by (auto simp: act_and_signal_def split: result.splits prod.splits sum.splits)

lemma act_and_signal_Fail:
  "act_and_signal act decision reason ctx i w = (Fail e, w') \<Longrightarrow> w' = w"
  by (auto simp: act_and_signal_def split: result.splits prod.splits sum.splits)

lemma loadApproval_Ok:
  "loadApproval ctx i w = Ok a \<Longrightarrow> ap_load ctx (aw_rows w) i = Some a \<and> aggId a = i \<and> tenantId a = cx_tenantId ctx
     \<and> ap_workspaceId a = cx_workspaceId ctx"
  by (auto simp: loadApproval_def ensureSameTenant_def ap_load_def row_is_def
      split: if_splits option.splits dest!: select_row_Some)

lemma signalWorkflow_rows [simp]: "aw_rows (signalWorkflow ctx a d r w) = aw_rows w"
  by (simp add: signalWorkflow_def Let_def)

subsection \<open>Properties\<close>

text \<open>A world with one pending approval of a sequence step, for the witnesses.\<close>

definition sample_ctx :: tenant_context where
  "sample_ctx = \<lparr>cx_tenantId = ''t'', cx_workspaceId = Some ''w'', cx_correlationId = ''x'', cx_userId = None,
     cx_agentId = None, cx_missionId = None\<rparr>"

definition sample_approval_data :: approval_data where
  "sample_approval_data = \<lparr>ad_missionId = ''m'', ad_sequenceId = Some ''s'', ad_taskId = None,
     ad_executionId = Some ''e'', ad_actionType = ''send'', ad_riskCategory = ''low'', ad_proposedAction = JNull,
     ad_evidence = [], ad_reasoning = [], ad_confidence = Fin 1, ad_requestedBy = ''a'', ad_approverRole = ''r'',
     ad_timeoutSeconds = Fin 60, ad_idempotencyKey = ''k''\<rparr>"

definition empty_world :: approval_world where
  "empty_world = \<lparr>aw_rows = [], aw_signals = [], aw_notified = []\<rparr>"

definition sample_world :: approval_world where
  "sample_world = snd (requestApproval (\<lambda>_ _. Some sample_mission) 0 ''ap'' ''v'' sample_ctx sample_approval_data empty_world)"

definition sample_row :: "ap_status \<Rightarrow> approval_snapshot db_row" where
  "sample_row st = \<lparr>row_tenant = ''t'', row_workspace = Some ''w'', row_id = ''ap'',
     row_payload = \<lparr>as_data = sample_approval_data, as_correlationId = ''x'', as_status = st,
       as_decidedBy = None, as_decisionReason = None, as_createdAt = 0, as_updatedAt = 0\<rparr>, row_version = 1\<rparr>"

lemma sample_world_rows: "aw_rows sample_world = [sample_row AP_PENDING]" "aw_signals sample_world = []"
proof -
  have "ms_workspaceBindingState sample_mission = WORKSPACE_BOUND" "ms_workspaceId sample_mission = Some ''w''"
    "tenantId sample_mission = ''t''" "aggId sample_mission = ''m''"
    by (simp_all add: sample_mission_def ms_create_def ms_construct_def applyEvent_def sample_mission_props_def
        js_trim_def js_space_def)
  then show "aw_rows sample_world = [sample_row AP_PENDING]" "aw_signals sample_world = []"
    by (simp_all add: sample_world_def requestApproval_def sample_ctx_def sample_approval_data_def empty_world_def
        ap_create_def ap_construct_def ap_save_def cas_write_def insert_row_def applyEvent_def ap_snapshot_def sample_row_def Let_def)
qed

lemma sample_world_keys: "keys_ok (aw_rows sample_world)"
  by (simp add: sample_world_rows keys_ok_def)

lemma sample_world_load:
  "ap_load sample_ctx [sample_row st] ''ap'' = Some (ap_restore (sample_row st))"
  by (simp add: ap_load_def sample_ctx_def select_row_def row_is_def sample_row_def)

text \<open>
  (C10) When an action counts as approved: whatever the repository is, the verification answers
  \<open>APPROVED\<close> exactly when \<open>load\<close> answers the approval of that id for the caller's context, and this
  approval is of the caller's tenant, is not bound to another execution or to another sequence (it
  may be bound to none), carries the execution's idempotency key and the action type, is approved,
  and its timeout has not passed.
\<close>

theorem ap_verify_approved_iff:
  "ap_verify load now ctx req = AV_APPROVED \<longleftrightarrow>
     (\<exists>a. load ctx (vr_approvalId req) = Some a \<and> tenantId a = cx_tenantId ctx \<and>
        ad_executionId (ap_data a) \<in> {None, Some (vr_executionId req)} \<and>
        ad_sequenceId (ap_data a) \<in> {None, Some (vr_sequenceId req)} \<and>
        ad_idempotencyKey (ap_data a) = vr_idempotencyKey req \<and> ad_actionType (ap_data a) = vr_actionType req \<and>
        ap_status a = AP_APPROVED \<and>
        \<not> js_lt (approval_expiresAt (ap_createdAt a) (ad_timeoutSeconds (ap_data a))) (Fin (of_int now)))"
proof (cases "load ctx (vr_approvalId req)")
  case None
  then show ?thesis by (simp add: ap_verify_def)
next
  case (Some a)
  show ?thesis by (cases "ap_status a") (auto simp: ap_verify_def Some)
qed

text \<open>
  (C14) A decision is final: once an approval is approved, rejected or expired, no sequence of
  calls changes anything of it, and a rejected or expired one is not verified as approved.
\<close>

theorem approval_decision_is_final:
  assumes "ap_status a \<in> {AP_APPROVED, AP_REJECTED, AP_EXPIRED}" and "ap_step\<^sup>*\<^sup>* a b"
  shows "b = a \<and> (ap_status a \<noteq> AP_APPROVED \<longrightarrow> ap_verify (\<lambda>_ _. Some b) now ctx req \<noteq> AV_APPROVED)"
  using ap_terminal_run [OF assms(2,1)] assms(1) by (auto simp: ap_verify_def)

theorem approval_decision_is_final_witness:
  "ap_verify (\<lambda>_ _. Some (snd (ap_approve ''u'' ''r'' ''x'' ''v'' 2 (ap_restore (sample_row AP_REJECTED))))) 3 sample_ctx
     \<lparr>vr_approvalId = ''ap'', vr_campaignId = ''c'', vr_sequenceId = ''s'', vr_executionId = ''e'',
      vr_idempotencyKey = ''k'', vr_recipientFingerprint = ''f'', vr_actionType = ''send'',
      vr_correlationId = ''x''\<rparr> \<noteq> AV_APPROVED"
proof -
  have st: "ap_status (ap_restore (sample_row AP_REJECTED)) = AP_REJECTED" by (simp add: sample_row_def)
  then have m: "ap_status (ap_restore (sample_row AP_REJECTED)) \<in> {AP_APPROVED, AP_REJECTED, AP_EXPIRED}" by simp
  have "ap_step\<^sup>*\<^sup>* (ap_restore (sample_row AP_REJECTED))
      (snd (ap_approve ''u'' ''r'' ''x'' ''v'' 2 (ap_restore (sample_row AP_REJECTED))))"
    by (rule r_into_rtranclp, rule ap_step.approve)
  from approval_decision_is_final [OF m this, THEN conjunct2] st show ?thesis by simp
qed

text \<open>
  Of two decisions taken on the same loaded approval, one is stored: when a writer that
  decided has saved, a second writer that had loaded the same version is refused, whatever it
  decided.
\<close>

theorem approval_concurrent_decision_refused:
  assumes "keys_ok rows" and "ap_load ctx rows i = Some a"
    and "ap_transition to by r corr ev now a = (Ok (), a1)" and "ap_save ctx a1 rows = Inr rows'"
    and "ap_step\<^sup>*\<^sup>* a a2"
  shows "\<exists>e. ap_save ctx a2 rows' = Inl e"
proof -
  have l: "loadedVersion a = Some (version a)" using ap_repo.find_loaded [OF assms(1,2)] by simp
  note t = ap_transition_Ok [OF assms(3)]
  have "ap_save ctx a2 rows' \<noteq> Inr rows''" for rows''
    using ap_repo.stale_writer_refused [OF assms(1,4)] ap_log.run_frame [OF assms(5)] t l by simp
  then show ?thesis by (cases "ap_save ctx a2 rows'") auto
qed

theorem approval_concurrent_decision_refused_witness:
  "\<exists>rows' e.
     ap_save sample_ctx (snd (ap_approve ''u'' ''yes'' ''x'' ''v'' 1 (ap_restore (sample_row AP_PENDING)))) (aw_rows sample_world)
       = Inr rows'
   \<and> ap_save sample_ctx (snd (ap_reject ''u2'' ''no'' ''x'' ''v2'' 1 (ap_restore (sample_row AP_PENDING)))) rows' = Inl e"
proof -
  let ?a = "ap_restore (sample_row AP_PENDING)"
  have l: "ap_load sample_ctx (aw_rows sample_world) ''ap'' = Some ?a"
    by (simp add: sample_world_rows sample_world_load)
  have t: "ap_transition AP_APPROVED (Some ''u'') ''yes'' ''x'' ''v'' 1 ?a
      = (Ok (), snd (ap_approve ''u'' ''yes'' ''x'' ''v'' 1 ?a))"
    by (simp add: ap_approve_def ap_decide_def ap_transition_def canTransitionApproval_def sample_row_def Let_def)
  have "ap_workspaceBindingState (snd (ap_transition st d r c ev now ?a)) = WORKSPACE_BOUND" for st d r c ev now
    by (simp add: ap_transition_def Let_def applyEvent_def ap_restore_def ap_reconstitute_def clearDomainEvents_def
        setVersion_def ap_construct_def sample_row_def)
  then obtain rows' where s: "ap_save sample_ctx (snd (ap_approve ''u'' ''yes'' ''x'' ''v'' 1 ?a)) (aw_rows sample_world) = Inr rows'"
    using ap_transition_Ok [OF t]
    by (simp add: ap_save_def sample_world_rows sample_ctx_def cas_write_def update_row_def row_is_def ap_approve_def ap_decide_def sample_row_def)
  have "ap_step\<^sup>*\<^sup>* ?a (snd (ap_reject ''u2'' ''no'' ''x'' ''v2'' 1 ?a))" by (rule r_into_rtranclp, rule ap_step.reject)
  from approval_concurrent_decision_refused [OF sample_world_keys l t s this] s show ?thesis by blast
qed

text \<open>
  A decision through the service concerns one approval of the caller's own tenant and
  workspace and is all or nothing: when it fails the world is as before, and when it succeeds
  the stored approval was undecided and now has the decision, and every other row of the table
  is as before.
\<close>

theorem svc_approve_all_or_nothing:
  assumes "keys_ok (aw_rows w)" and "svc_approve i actor reason ev now ctx w = (r, w')"
  shows "(case r of
      Fail e \<Rightarrow> w' = w
    | Ok _ \<Rightarrow>
        (\<exists>a b. ap_load ctx (aw_rows w) i = Some a \<and> tenantId a = cx_tenantId ctx \<and> ap_workspaceId a = cx_workspaceId ctx
             \<and> ap_status a \<in> {AP_PENDING, AP_ESCALATED}
             \<and> ap_load ctx (aw_rows w') i = Some b \<and> ap_status b = AP_APPROVED \<and> ap_decidedBy b = Some actor
             \<and> version b = Suc (version a))
      \<and> (\<forall>u ws j. j \<noteq> i \<longrightarrow> select_row u ws j (aw_rows w') = select_row u ws j (aw_rows w)))"
proof (cases r)
  case (Fail e)
  then show ?thesis using assms(2) act_and_signal_Fail by (simp add: svc_approve_def)
next
  case (Ok u)
  then obtain a a1 v rows where l: "loadApproval ctx i w = Ok a"
    and t: "ap_transition AP_APPROVED (Some actor) reason (cx_correlationId ctx) ev now a = (Ok v, a1)"
    and s: "ap_save ctx a1 (aw_rows w) = Inr rows" and w': "aw_rows w' = rows"
    using assms(2) act_and_signal_Ok
    by (fastforce simp: svc_approve_def ap_approve_def ap_decide_def)
  note a = loadApproval_Ok [OF l] and b = ap_transition_Ok [OF t] and f = ap_save_select [OF assms(1) s s]
  obtain x where x: "select_row (cx_tenantId ctx) (cx_workspaceId ctx) (aggId a1) rows = Some x"
    "row_payload x = ap_snapshot a1" "row_version x = version a1" using f(2) by blast
  have "truthy (cx_workspaceId ctx)" using ap_save_Inr [OF s] by simp
  then have "ap_load ctx rows i = Some (ap_restore x)" using x(1) a b by (simp add: ap_load_def)
  moreover have "ap_status a \<in> {AP_PENDING, AP_ESCALATED}"
    using b by (cases "ap_status a") (auto simp: canTransitionApproval_def)
  ultimately show ?thesis
    using Ok a b x f(5) w' by (auto simp: ap_snapshot_def)
qed

theorem svc_approve_all_or_nothing_witness:
  "\<exists>b. fst (svc_approve ''ap'' ''u'' ''yes'' ''v'' 1 sample_ctx sample_world) = Ok ()
     \<and> ap_load sample_ctx (aw_rows (snd (svc_approve ''ap'' ''u'' ''yes'' ''v'' 1 sample_ctx sample_world))) ''ap'' = Some b
     \<and> ap_status b = AP_APPROVED"
proof -
  let ?p = "svc_approve ''ap'' ''u'' ''yes'' ''v'' 1 sample_ctx sample_world"
  have r: "fst ?p = Ok ()"
    by (simp add: svc_approve_def act_and_signal_def loadApproval_def sample_world_rows sample_world_load
        ap_approve_def ap_decide_def ap_transition_def canTransitionApproval_def sample_row_def sample_ctx_def
        ensureSameTenant_def ap_restore_def ap_reconstitute_def clearDomainEvents_def setVersion_def
        ap_construct_def applyEvent_def ap_save_def cas_write_def update_row_def row_is_def ap_load_def select_row_def Let_def)
  have "?p = (Ok (), snd ?p)" using r by (metis prod.collapse)
  from svc_approve_all_or_nothing [OF sample_world_keys this] r show ?thesis by auto
qed

text \<open>
  The signal does not carry the decision of a sequence step: a rejection sends the workflow
  of the sequence the signal \<open>outreachApprovalGranted\<close> with the execution and the approval id
  and nothing else, which is the same signal that an approval of the same step sends.
\<close>

theorem svc_reject_signals_granted:
  assumes "svc_reject i actor reason ev now ctx w = (Ok (), w')"
    and "loadApproval ctx i w = Ok a" and "truthy (ad_sequenceId (ap_data a))"
  shows "\<exists>sig. aw_signals w' = aw_signals w @ [sig] \<and> sg_name sig = ''outreachApprovalGranted''
    \<and> sg_payload sig = GrantSignal (ad_executionId (ap_data a)) i
    \<and> aw_signals (signalWorkflow ctx a AP_APPROVED reason w) = aw_signals w @ [sig]"
proof -
  obtain a1 v rows where t: "ap_transition AP_REJECTED (Some actor) reason (cx_correlationId ctx) ev now a = (Ok v, a1)"
    and w': "w' = signalWorkflow ctx a1 AP_REJECTED reason (w\<lparr>aw_rows := rows\<rparr>)"
    using assms(1,2) act_and_signal_Ok
    by (fastforce simp: svc_reject_def ap_reject_def ap_decide_def)
  show ?thesis
    using ap_transition_Ok [OF t] assms(3) loadApproval_Ok [OF assms(2)]
    by (simp add: w' signalWorkflow_def Let_def)
qed

theorem svc_reject_signals_granted_witness:
  "\<exists>sig. aw_signals (snd (svc_reject ''ap'' ''u'' ''no'' ''v'' 1 sample_ctx sample_world)) = [sig]
     \<and> sg_name sig = ''outreachApprovalGranted''"
proof -
  let ?p = "svc_reject ''ap'' ''u'' ''no'' ''v'' 1 sample_ctx sample_world"
  have r: "fst ?p = Ok ()"
    by (simp add: svc_reject_def act_and_signal_def loadApproval_def sample_world_rows sample_world_load
        ap_reject_def ap_decide_def ap_transition_def canTransitionApproval_def sample_row_def sample_ctx_def
        ensureSameTenant_def ap_restore_def ap_reconstitute_def clearDomainEvents_def setVersion_def
        ap_construct_def applyEvent_def ap_save_def cas_write_def update_row_def row_is_def ap_load_def select_row_def Let_def)
  have p: "?p = (Ok (), snd ?p)" using r by (metis prod.collapse)
  have l: "loadApproval sample_ctx ''ap'' sample_world = Ok (ap_restore (sample_row AP_PENDING))"
    by (simp add: loadApproval_def sample_world_rows sample_world_load sample_row_def sample_ctx_def
        ensureSameTenant_def ap_restore_def ap_reconstitute_def clearDomainEvents_def setVersion_def
        ap_construct_def ap_load_def select_row_def row_is_def Let_def)
  have "truthy (ad_sequenceId (ap_data (ap_restore (sample_row AP_PENDING))))"
    by (simp add: sample_row_def sample_approval_data_def)
  from svc_reject_signals_granted [OF p l this] show ?thesis by (auto simp: sample_world_rows)
qed

text \<open>
  The second reader of approvals is no laxer than the first on what it checks: when the
  executor's binding finds an approval, the verification of a request with the same execution,
  key and action type, for a sequence the approval is not bound against, answers \<open>APPROVED\<close> for
  that row.
\<close>

theorem binding_implies_verified:
  assumes "resolveValidApproval rows now ctx b = Some (i, st)"
    and "vr_executionId req = bd_executionId b" and "vr_idempotencyKey req = bd_idempotencyKey b"
    and "bd_actionType b = Some (vr_actionType req)"
  shows "st = AP_APPROVED \<and> (\<exists>r \<in> set rows. row_id r = i \<and> row_tenant r = cx_tenantId ctx \<and>
    (ad_sequenceId (as_data (row_payload r)) \<in> {None, Some (vr_sequenceId req)} \<longrightarrow>
       ap_verify (\<lambda>_ _. Some (ap_restore r)) now ctx req = AV_APPROVED))"
proof -
  from assms(1) obtain r where r: "List.find (binding_matches now ctx b) rows = Some r"
    and i: "i = row_id r" "st = as_status (row_payload r)"
    by (auto simp: resolveValidApproval_def split: option.splits)
  have m: "r \<in> set rows" "binding_matches now ctx b r" using find_SomeD [OF r] by auto
  have "\<not> js_lt e (Fin n)" if "js_lt (Fin n) e" for e n using that by (cases e) auto
  then show ?thesis using m i assms(2-4)
    by (auto simp: binding_matches_def ap_verify_def intro!: bexI [of _ r])
qed

theorem binding_implies_verified_witness:
  "resolveValidApproval [sample_row AP_APPROVED] 1 sample_ctx
     \<lparr>bd_executionId = ''e'', bd_idempotencyKey = ''k'', bd_actionType = Some ''send''\<rparr> = Some (''ap'', AP_APPROVED)"
proof -
  let ?b = "\<lparr>bd_executionId = ''e'', bd_idempotencyKey = ''k'', bd_actionType = Some ''send''\<rparr>"
  let ?q = "\<lparr>vr_approvalId = ''ap'', vr_campaignId = ''c'', vr_sequenceId = ''s'', vr_executionId = ''e'',
      vr_idempotencyKey = ''k'', vr_recipientFingerprint = ''f'', vr_actionType = ''send'', vr_correlationId = ''x''\<rparr>"
  have "binding_matches 1 sample_ctx ?b (sample_row AP_APPROVED)"
    by (simp add: binding_matches_def sample_row_def sample_ctx_def sample_approval_data_def approval_expiresAt_def)
  then have "resolveValidApproval [sample_row AP_APPROVED] 1 sample_ctx ?b = Some (''ap'', as_status (row_payload (sample_row AP_APPROVED)))"
    by (simp add: resolveValidApproval_def sample_row_def)
  moreover from binding_implies_verified [OF this, of ?q] have "as_status (row_payload (sample_row AP_APPROVED)) = AP_APPROVED"
    by simp
  ultimately show ?thesis by simp
qed

end
