(* ===== verification/Idempotency.thy ===== *)
theory Idempotency
  imports Contexts
begin

section \<open>Idempotency stores\<close>

text \<open>
  \<open>packages/infrastructure/src/idempotency/postgres-idempotency-store.ts\<close> and
  \<open>testing/in-memory-idempotency-store.ts\<close>, the two implementations of
  \<open>IIdempotencyStore\<close>, and the contract that their clients rely on: a claim is won only on
  a key that is free or provably not submitted, and winning it makes the key taken.
\<close>

datatype idem_status = ID_PENDING | ID_COMPLETED | ID_FAILED

record idem_record =
  id_status :: idem_status
  id_result :: json
  id_createdAt :: int
  id_expiresAt :: "int option"

text \<open>
  \<open>(result->>'submitted')::boolean = false\<close>, and its counterpart in memory. The results that
  the code stores carry a boolean there or nothing.
\<close>

definition submitted_false :: "json \<Rightarrow> bool" where
  "submitted_false r = (case r of JObj kvs \<Rightarrow> map_of kvs ''submitted'' = Some (JBool False) | _ \<Rightarrow> False)"

definition NEVER_EXPIRE_SECONDS :: int where
  "NEVER_EXPIRE_SECONDS = 100 * 365 * 24 * 60 * 60"

subsection \<open>The Postgres store\<close>

text \<open>
  The table \<open>idempotency.keys\<close>, keyed by tenant, scope and key. The default of the column
  \<open>created_at\<close> is the time of the insert; an update keeps it.
\<close>

type_synonym idem_key = "string \<times> string \<times> string"
type_synonym idem_table = "(idem_key \<times> idem_record) list"

definition pg_get :: "tenant_context \<Rightarrow> string \<Rightarrow> string \<Rightarrow> idem_table \<Rightarrow> idem_record option" where
  "pg_get ctx scope key t = map_of t (cx_tenantId ctx, scope, key)"

text \<open>\<open>INSERT ... ON CONFLICT DO UPDATE SET status, result, expires_at\<close>.\<close>

definition pg_upsert :: "idem_key \<Rightarrow> idem_status \<Rightarrow> json \<Rightarrow> int \<Rightarrow> int \<Rightarrow> idem_table \<Rightarrow> idem_table" where
  "pg_upsert k st r now expires t =
     am_set k \<lparr>id_status = st, id_result = r,
               id_createdAt = (case map_of t k of None \<Rightarrow> now | Some old \<Rightarrow> id_createdAt old),
               id_expiresAt = Some expires\<rparr> t"

definition pg_set ::
    "int \<Rightarrow> int \<Rightarrow> tenant_context \<Rightarrow> string \<Rightarrow> string \<Rightarrow> json \<Rightarrow> int option \<Rightarrow> idem_status option \<Rightarrow> idem_table \<Rightarrow> idem_table" where
  "pg_set defaultTtl now ctx scope key r ttlSeconds status t =
     (let st = nullish status ID_COMPLETED;
          ttl = (if st = ID_PENDING then NEVER_EXPIRE_SECONDS else nullish ttlSeconds defaultTtl)
      in pg_upsert (cx_tenantId ctx, scope, key) st r now (now + ttl * 1000) t)"

text \<open>
  The single statement of \<open>claim\<close>: the insert, or on a conflict the update guarded by
  \<open>status = 'FAILED' AND submitted = false\<close>; then whether a row came back, and the existing
  record when none did.
\<close>

definition pg_claim ::
    "int \<Rightarrow> tenant_context \<Rightarrow> string \<Rightarrow> string \<Rightarrow> idem_table \<Rightarrow> (bool \<times> idem_record option) \<times> idem_table" where
  "pg_claim now ctx scope key t =
     (let k = (cx_tenantId ctx, scope, key); expires = now + NEVER_EXPIRE_SECONDS * 1000
      in case map_of t k of
           None \<Rightarrow> ((True, None), pg_upsert k ID_PENDING JNull now expires t)
         | Some old \<Rightarrow>
             if id_status old = ID_FAILED \<and> submitted_false (id_result old)
             then ((True, None), pg_upsert k ID_PENDING JNull now expires t)
             else ((False, pg_get ctx scope key t), t))"

subsection \<open>The in-memory store\<close>

text \<open>
  Two maps keyed by \<open>tenant:scope:key\<close>. \<open>JNull\<close> stands for the \<open>undefined\<close> result of a claimed key.
\<close>

record mem_idem =
  mi_entries :: "(string \<times> idem_record) list"
  mi_expiries :: "(string \<times> int) list"

definition mem_key :: "tenant_context \<Rightarrow> string \<Rightarrow> string \<Rightarrow> string" where
  "mem_key ctx scope key = cx_tenantId ctx @ '':'' @ scope @ '':'' @ key"

definition mem_get :: "tenant_context \<Rightarrow> string \<Rightarrow> string \<Rightarrow> mem_idem \<Rightarrow> idem_record option" where
  "mem_get ctx scope key s =
     (let k = mem_key ctx scope key
      in case map_of (mi_entries s) k of
           None \<Rightarrow> None
         | Some r \<Rightarrow> (case map_of (mi_expiries s) k of
             None \<Rightarrow> Some r | Some e \<Rightarrow> Some (r\<lparr>id_expiresAt := Some e\<rparr>)))"

definition mem_write :: "string \<Rightarrow> idem_status \<Rightarrow> json \<Rightarrow> int \<Rightarrow> int \<Rightarrow> mem_idem \<Rightarrow> mem_idem" where
  "mem_write k st r now expires s =
     s\<lparr>mi_entries := am_set k \<lparr>id_status = st, id_result = r, id_createdAt = now, id_expiresAt = Some expires\<rparr>
                       (mi_entries s),
       mi_expiries := am_set k expires (mi_expiries s)\<rparr>"

definition mem_set ::
    "int \<Rightarrow> tenant_context \<Rightarrow> string \<Rightarrow> string \<Rightarrow> json \<Rightarrow> int option \<Rightarrow> idem_status option \<Rightarrow> mem_idem \<Rightarrow> mem_idem" where
  "mem_set now ctx scope key r ttlSeconds status s =
     (let st = nullish status ID_COMPLETED;
          ttlMs = (case ttlSeconds of Some ttl \<Rightarrow> ttl * 1000
                   | None \<Rightarrow> if st = ID_PENDING then NEVER_EXPIRE_SECONDS * 1000 else 86400 * 1000)
      in mem_write (mem_key ctx scope key) st r now (now + ttlMs) s)"

definition mem_claim ::
    "int \<Rightarrow> tenant_context \<Rightarrow> string \<Rightarrow> string \<Rightarrow> mem_idem \<Rightarrow> (bool \<times> idem_record option) \<times> mem_idem" where
  "mem_claim now ctx scope key s =
     (let k = mem_key ctx scope key; expires = now + NEVER_EXPIRE_SECONDS * 1000
      in case map_of (mi_entries s) k of
           None \<Rightarrow> ((True, None), mem_write k ID_PENDING JNull now expires s)
         | Some old \<Rightarrow>
             if id_status old = ID_FAILED \<and> submitted_false (id_result old)
             then ((True, None), mem_write k ID_PENDING JNull now expires s)
             else ((False, Some (case map_of (mi_expiries s) k of
                                   None \<Rightarrow> old | Some e \<Rightarrow> old\<lparr>id_expiresAt := Some e\<rparr>)), s))"

subsection \<open>Contract: claims are exclusive\<close>

text \<open>
  \<open>entry\<close> reads the record of a key, \<open>claim\<close> and \<open>put\<close> are the two writes, at a time the
  caller does not choose. A key is open when it is free or its record proves that nothing was
  submitted.
\<close>

definition open_entry :: "idem_record option \<Rightarrow> bool" where
  "open_entry e = (case e of None \<Rightarrow> True | Some r \<Rightarrow> id_status r = ID_FAILED \<and> submitted_false (id_result r))"

datatype 'k idem_op =
    Claim 'k int
  | Put 'k idem_status json "int option" int

text \<open>The write that says nothing was submitted, and so opens the key again.\<close>

fun reopens :: "'k \<Rightarrow> 'k idem_op \<Rightarrow> bool" where
  "reopens k (Claim k' now) = False"
| "reopens k (Put k' st r ttl now) = (k' = k \<and> st = ID_FAILED \<and> submitted_false r)"

locale idempotency_store =
  fixes entry :: "'s \<Rightarrow> 'k \<Rightarrow> idem_record option"
    and claim :: "'k \<Rightarrow> int \<Rightarrow> 's \<Rightarrow> bool \<times> 's"
    and put :: "'k \<Rightarrow> idem_status \<Rightarrow> json \<Rightarrow> int option \<Rightarrow> int \<Rightarrow> 's \<Rightarrow> 's"
  assumes claim_won_iff: "fst (claim k now s) \<longleftrightarrow> open_entry (entry s k)"
    and claim_takes: "open_entry (entry s k) \<Longrightarrow> \<exists>r. entry (snd (claim k now s)) k = Some r \<and> id_status r = ID_PENDING"
    and claim_lost: "\<not> open_entry (entry s k) \<Longrightarrow> snd (claim k now s) = s"
    and claim_other: "k' \<noteq> k \<Longrightarrow> entry (snd (claim k now s)) k' = entry s k'"
    and put_entry: "\<exists>x. entry (put k st r ttl now s) k = Some x \<and> id_status x = st \<and> id_result x = r"
    and put_other: "k' \<noteq> k \<Longrightarrow> entry (put k st r ttl now s) k' = entry s k'"
begin

fun exec :: "'k idem_op \<Rightarrow> 's \<Rightarrow> 's" where
  "exec (Claim k now) s = snd (claim k now s)"
| "exec (Put k st r ttl now) s = put k st r ttl now s"

fun won :: "'k \<Rightarrow> 'k idem_op list \<Rightarrow> 's \<Rightarrow> nat" where
  "won k [] s = 0"
| "won k (Claim k' now # ops) s = (if k' = k \<and> fst (claim k' now s) then 1 else 0) + won k ops (exec (Claim k' now) s)"
| "won k (Put k' st r ttl now # ops) s = won k ops (exec (Put k' st r ttl now) s)"

lemma taken_stays: "\<not> open_entry (entry s k) \<Longrightarrow> \<not> reopens k opn \<Longrightarrow> \<not> open_entry (entry (exec opn s) k)"
proof (cases opn)
  case (Claim k' now)
  then show "\<not> open_entry (entry s k) \<Longrightarrow> ?thesis"
    using claim_lost [of s k now] claim_other [of k k' now s] by (cases "k' = k") auto
next
  case (Put k' st r ttl now)
  then show "\<not> open_entry (entry s k) \<Longrightarrow> \<not> reopens k opn \<Longrightarrow> ?thesis"
    using put_entry [of k st r ttl now s] put_other [of k k' st r ttl now s]
    by (cases "k' = k") (auto simp: open_entry_def)
qed

lemma taken_no_win:
  "\<not> open_entry (entry s k) \<Longrightarrow> list_all (\<lambda>opn. \<not> reopens k opn) ops \<Longrightarrow> won k ops s = 0"
proof (induction ops arbitrary: s)
  case (Cons opn ops)
  have t: "\<not> open_entry (entry (exec opn s) k)" using taken_stays [of s k opn] Cons.prems by simp
  show ?case
  proof (cases opn)
    case (Claim k' now)
    then show ?thesis using Cons.IH [OF t] Cons.prems claim_won_iff [of k now s] by auto
  next
    case (Put k' st r ttl now)
    then show ?thesis using Cons.IH [OF t] Cons.prems by simp
  qed
qed simp

text \<open>Without a write that opens the key again, at most one claim of it is won, by anyone.\<close>

lemma at_most_one_win:
  "list_all (\<lambda>opn. \<not> reopens k opn) ops \<Longrightarrow> won k ops s \<le> 1"
proof (induction ops arbitrary: s)
  case (Cons opn ops)
  show ?case
  proof (cases opn)
    case (Claim k' now)
    show ?thesis
    proof (cases "k' = k \<and> fst (claim k' now s)")
      case True
      then have "open_entry (entry s k)" using claim_won_iff by blast
      then have "\<not> open_entry (entry (exec opn s) k)"
        using claim_takes [of s k now] Claim True by (auto simp: open_entry_def)
      then show ?thesis using taken_no_win [of "exec opn s" k ops] Cons.prems Claim True by simp
    next
      case False
      then show ?thesis using Cons.IH [of "exec opn s"] Cons.prems Claim by auto
    qed
  next
    case (Put k' st r ttl now)
    then show ?thesis using Cons.IH [of "exec opn s"] Cons.prems by simp
  qed
qed simp

lemma pending_never_claimed: "entry s k = Some r \<Longrightarrow> id_status r \<noteq> ID_FAILED \<Longrightarrow> \<not> fst (claim k now s)"
  by (simp add: claim_won_iff open_entry_def)

end

text \<open>The Postgres table, for the callers of one tenant and any scope and key.\<close>

definition key_ctx :: "idem_key \<Rightarrow> tenant_context" where
  "key_ctx k = \<lparr>cx_tenantId = fst k, cx_workspaceId = None, cx_correlationId = [], cx_userId = None,
     cx_agentId = None, cx_missionId = None\<rparr>"

definition pg_claim_key :: "idem_key \<Rightarrow> int \<Rightarrow> idem_table \<Rightarrow> bool \<times> idem_table" where
  "pg_claim_key k now t = (case pg_claim now (key_ctx k) (fst (snd k)) (snd (snd k)) t of ((b, _), t') \<Rightarrow> (b, t'))"

definition pg_put_key :: "idem_key \<Rightarrow> idem_status \<Rightarrow> json \<Rightarrow> int option \<Rightarrow> int \<Rightarrow> idem_table \<Rightarrow> idem_table" where
  "pg_put_key k st r ttl now t = pg_set 86400 now (key_ctx k) (fst (snd k)) (snd (snd k)) r ttl (Some st) t"

lemma pg_claim_facts:
  "fst (fst (pg_claim now ctx scope key t)) \<longleftrightarrow> open_entry (map_of t (cx_tenantId ctx, scope, key))"
  "open_entry (map_of t (cx_tenantId ctx, scope, key)) \<Longrightarrow>
     \<exists>r. map_of (snd (pg_claim now ctx scope key t)) (cx_tenantId ctx, scope, key) = Some r
       \<and> id_status r = ID_PENDING \<and> id_result r = JNull"
  "\<not> open_entry (map_of t (cx_tenantId ctx, scope, key)) \<Longrightarrow> snd (pg_claim now ctx scope key t) = t"
  "k \<noteq> (cx_tenantId ctx, scope, key) \<Longrightarrow> map_of (snd (pg_claim now ctx scope key t)) k = map_of t k"
  by (auto simp: pg_claim_def open_entry_def pg_upsert_def Let_def split: option.splits)

lemma pg_set_facts:
  "\<exists>x. map_of (pg_set d now ctx scope key r ttl (Some st) t) (cx_tenantId ctx, scope, key) = Some x
     \<and> id_status x = st \<and> id_result x = r"
  "k \<noteq> (cx_tenantId ctx, scope, key) \<Longrightarrow> map_of (pg_set d now ctx scope key r ttl st' t) k = map_of t k"
  by (auto simp: pg_set_def pg_upsert_def Let_def)

lemma key_ctx_key [simp]: "(cx_tenantId (key_ctx k), fst (snd k), snd (snd k)) = k"
  by (simp add: key_ctx_def)

lemmas pg_claim_key_facts =
  pg_claim_facts [where ctx = "key_ctx q" and scope = "fst (snd q)" and key = "snd (snd q)" for q, unfolded key_ctx_key]

lemmas pg_set_key_facts =
  pg_set_facts [where ctx = "key_ctx q" and scope = "fst (snd q)" and key = "snd (snd q)" for q, unfolded key_ctx_key]

interpretation pg_idem: idempotency_store map_of pg_claim_key pg_put_key
proof unfold_locales
  fix k k' :: idem_key and now :: int and s :: idem_table and st r ttl
  have c: "fst (pg_claim_key k now s) = fst (fst (pg_claim now (key_ctx k) (fst (snd k)) (snd (snd k)) s))"
    "snd (pg_claim_key k now s) = snd (pg_claim now (key_ctx k) (fst (snd k)) (snd (snd k)) s)"
    by (simp_all add: pg_claim_key_def case_prod_beta)
  show "fst (pg_claim_key k now s) \<longleftrightarrow> open_entry (map_of s k)" by (simp add: c pg_claim_key_facts)
  show "open_entry (map_of s k) \<Longrightarrow> \<exists>r. map_of (snd (pg_claim_key k now s)) k = Some r \<and> id_status r = ID_PENDING"
    using pg_claim_key_facts(2) [where q = k and now = now and t = s] by (auto simp: c)
  show "\<not> open_entry (map_of s k) \<Longrightarrow> snd (pg_claim_key k now s) = s" by (simp add: c pg_claim_key_facts)
  show "k' \<noteq> k \<Longrightarrow> map_of (snd (pg_claim_key k now s)) k' = map_of s k'" by (simp add: c pg_claim_key_facts)
  show "\<exists>x. map_of (pg_put_key k st r ttl now s) k = Some x \<and> id_status x = st \<and> id_result x = r"
    using pg_set_key_facts(1) [where q = k and d = 86400 and now = now and r = r and ttl = ttl and st = st and t = s] by (simp add: pg_put_key_def)
  show "k' \<noteq> k \<Longrightarrow> map_of (pg_put_key k st r ttl now s) k' = map_of s k'"
    using pg_set_key_facts(2) [where q = k and k = k' and d = 86400 and now = now and r = r and ttl = ttl and st' = "Some st" and t = s] by (simp add: pg_put_key_def)
qed

text \<open>The in-memory store, for the keys of one tenant and scope.\<close>

definition mem_entry :: "tenant_context \<Rightarrow> string \<Rightarrow> mem_idem \<Rightarrow> string \<Rightarrow> idem_record option" where
  "mem_entry ctx scope s key = map_of (mi_entries s) (mem_key ctx scope key)"

definition mem_claim_key :: "tenant_context \<Rightarrow> string \<Rightarrow> string \<Rightarrow> int \<Rightarrow> mem_idem \<Rightarrow> bool \<times> mem_idem" where
  "mem_claim_key ctx scope key now s = (case mem_claim now ctx scope key s of ((b, _), s') \<Rightarrow> (b, s'))"

definition mem_put_key ::
    "tenant_context \<Rightarrow> string \<Rightarrow> string \<Rightarrow> idem_status \<Rightarrow> json \<Rightarrow> int option \<Rightarrow> int \<Rightarrow> mem_idem \<Rightarrow> mem_idem" where
  "mem_put_key ctx scope key st r ttl now s = mem_set now ctx scope key r ttl (Some st) s"

lemma mem_key_inj: "mem_key ctx scope k = mem_key ctx scope k' \<longleftrightarrow> k = k'"
  by (simp add: mem_key_def)

interpretation mem_idem: idempotency_store "mem_entry ctx scope" "mem_claim_key ctx scope" "mem_put_key ctx scope"
  for ctx scope
  by unfold_locales
    (auto simp: mem_entry_def mem_claim_key_def mem_claim_def mem_put_key_def mem_set_def mem_write_def
      mem_key_inj open_entry_def Let_def split: option.splits)

subsection \<open>Properties\<close>

text \<open>
  (C11) At most one of any number of callers reserves a key: in every sequence of claims and
  writes, one after the other, by any callers and at any times, in which no write records a
  failure without submission for the key, at most one claim of the key is won. This holds on the
  Postgres store, for operations on the keys of all tenants and scopes, and on the in-memory store,
  for operations on the keys of one tenant and scope.
\<close>

theorem claims_are_exclusive:
  "(list_all (\<lambda>opn. \<not> reopens k opn) ops \<longrightarrow> pg_idem.won k ops t \<le> 1) \<and>
   (list_all (\<lambda>opn. \<not> reopens key opn) key_ops \<longrightarrow> mem_idem.won ctx scope key key_ops m \<le> 1)"
  using pg_idem.at_most_one_win mem_idem.at_most_one_win by blast

theorem claims_are_exclusive_witness:
  "pg_idem.won (''t'', ''s'', ''k'') [Claim (''t'', ''s'', ''k'') 0, Claim (''t'', ''s'', ''k'') 1,
     Put (''t'', ''s'', ''k'') ID_COMPLETED JNull None 2, Claim (''t'', ''s'', ''k'') 3] [] \<le> 1 \<and>
   mem_idem.won (key_ctx (''t'', ''s'', ''k'')) ''s'' ''k'' [Claim ''k'' 0, Claim ''k'' 1] \<lparr>mi_entries = [], mi_expiries = []\<rparr> \<le> 1"
  using claims_are_exclusive [of "(''t'', ''s'', ''k'')" "[Claim (''t'', ''s'', ''k'') 0, Claim (''t'', ''s'', ''k'') 1,
     Put (''t'', ''s'', ''k'') ID_COMPLETED JNull None 2, Claim (''t'', ''s'', ''k'') 3]" "[]"
     "''k''" "[Claim ''k'' 0, Claim ''k'' 1]" "key_ctx (''t'', ''s'', ''k'')" "''s''" "\<lparr>mi_entries = [], mi_expiries = []\<rparr>"]
  by simp

text \<open>
  A pending or completed record is never reclaimed, however old it is: on both stores a
  claim at any time fails on it and leaves the store as it is.
\<close>

theorem pending_and_completed_never_reclaimed:
  assumes "pg_get ctx scope key t = Some r" and "mem_get ctx scope key m = Some r'"
    and "id_status r \<noteq> ID_FAILED" and "id_status r' \<noteq> ID_FAILED"
  shows "pg_claim now ctx scope key t = ((False, Some r), t) \<and>
    fst (fst (mem_claim now ctx scope key m)) = False \<and> snd (mem_claim now ctx scope key m) = m"
  using assms
  by (auto simp: pg_claim_def pg_get_def mem_claim_def mem_get_def Let_def split: option.splits)

theorem pending_and_completed_never_reclaimed_witness:
  "let c = key_ctx (''t'', ''s'', ''k'');
       t = snd (pg_claim 0 c ''s'' ''k'' []);
       m = snd (mem_claim 0 c ''s'' ''k'' \<lparr>mi_entries = [], mi_expiries = []\<rparr>)
   in snd (pg_claim 4000000000000 c ''s'' ''k'' t) = t \<and> snd (mem_claim 4000000000000 c ''s'' ''k'' m) = m"
proof -
  let ?c = "key_ctx (''t'', ''s'', ''k'')"
  let ?t = "snd (pg_claim 0 ?c ''s'' ''k'' [])"
  let ?m = "snd (mem_claim 0 ?c ''s'' ''k'' \<lparr>mi_entries = [], mi_expiries = []\<rparr>)"
  have "\<exists>r. pg_get ?c ''s'' ''k'' ?t = Some r \<and> id_status r \<noteq> ID_FAILED"
    by (simp add: pg_claim_def pg_get_def pg_upsert_def Let_def)
  then obtain r where r: "pg_get ?c ''s'' ''k'' ?t = Some r" "id_status r \<noteq> ID_FAILED" by blast
  have "\<exists>r. mem_get ?c ''s'' ''k'' ?m = Some r \<and> id_status r \<noteq> ID_FAILED"
    by (simp add: mem_claim_def mem_get_def mem_write_def Let_def)
  then obtain r' where r': "mem_get ?c ''s'' ''k'' ?m = Some r'" "id_status r' \<noteq> ID_FAILED" by blast
  show ?thesis
    using pending_and_completed_never_reclaimed [OF r(1) r'(1) r(2) r'(2), of 4000000000000]
    by (simp only: Let_def snd_conv)
qed

text \<open>
  The two stores keep a pending record for different times: written with a time to live,
  it expires after that time in memory and after a hundred years in Postgres.
\<close>

theorem pending_ttl_divergence:
  "id_expiresAt (the (mem_get ctx scope key (mem_set now ctx scope key r (Some ttl) (Some ID_PENDING) m))) = Some (now + ttl * 1000)
   \<and> id_expiresAt (the (pg_get ctx scope key (pg_set d now ctx scope key r (Some ttl) (Some ID_PENDING) t)))
       = Some (now + NEVER_EXPIRE_SECONDS * 1000)"
  by (simp add: mem_get_def mem_set_def mem_write_def pg_get_def pg_set_def pg_upsert_def Let_def)

end
