(* ===== verification/SafetyGate.thy ===== *)
theory SafetyGate
  imports Campaign MessageExecution Approval Idempotency
begin

section \<open>The send safety gate and its rate limiters\<close>

text \<open>
  \<open>packages/outreach/src/safety/send-safety-gate.ts\<close> with \<open>safety-decision.ts\<close>, and the two
  rate limiters it can be given (\<open>infrastructure/src/cache/redis-cache.ts\<close>,
  \<open>testing/in-memory-rate-limiter.ts\<close>). The ports of the gate are arguments, gathered in
  \<open>gate_deps\<close>; the campaign is returned because the gate spends its budget, the state of the
  stores is \<open>gate_world\<close>. The conversion of a number to a string is the argument
  \<open>gd_show\<close>.
\<close>

subsection \<open>Rate limiters\<close>

record limit_result =
  lr_allowed :: bool
  lr_remaining :: jsnum
  lr_resetAt :: jsnum

text \<open>
  Redis is the argument \<open>run\<close>: it runs the commands of a transaction and returns their replies.
\<close>

datatype redis_cmd = Incr string | Expire string int

definition redis_rate_key :: "tenant_context \<Rightarrow> string \<Rightarrow> string \<Rightarrow> string" where
  "redis_rate_key ctx scope key = ''tenant:'' @ cx_tenantId ctx @ '':rate:'' @ scope @ '':'' @ key"

definition redis_isAllowed ::
    "(redis_cmd list \<Rightarrow> 'r \<Rightarrow> jsnum list \<times> 'r) \<Rightarrow> int \<Rightarrow> tenant_context \<Rightarrow> string \<Rightarrow> string \<Rightarrow> jsnum \<Rightarrow> int \<Rightarrow> 'r
       \<Rightarrow> limit_result \<times> 'r" where
  "redis_isAllowed run now ctx scope key limit windowSeconds r =
     (let fullKey = redis_rate_key ctx scope key;
          (results, r') = run [Incr fullKey, Expire fullKey windowSeconds] r;
          count = (case results of [] \<Rightarrow> Fin 0 | c # _ \<Rightarrow> c)
      in (\<lparr>lr_allowed = js_le count limit,
           lr_remaining = (let d = js_sub limit count in if d = NaN then NaN else if js_lt d (Fin 0) then Fin 0 else d),
           lr_resetAt = Fin (of_int (now + windowSeconds * 1000))\<rparr>, r'))"

text \<open>The fixed-window counter in memory: count and end of the window, by key.\<close>

type_synonym mem_windows = "(string \<times> (nat \<times> int)) list"

definition mem_isAllowed ::
    "int \<Rightarrow> tenant_context \<Rightarrow> string \<Rightarrow> string \<Rightarrow> jsnum \<Rightarrow> int \<Rightarrow> mem_windows \<Rightarrow> limit_result \<times> mem_windows" where
  "mem_isAllowed now ctx scope key limit windowSeconds s =
     (let fullKey = cx_tenantId ctx @ '':'' @ scope @ '':'' @ key;
          (c, resetAt) = (case map_of s fullKey of
             None \<Rightarrow> (0, now + windowSeconds * 1000)
           | Some (c, e) \<Rightarrow> if e \<le> now then (0, now + windowSeconds * 1000) else (c, e));
          count = Fin (of_nat (Suc c));
          d = js_sub limit count
      in (\<lparr>lr_allowed = js_le count limit,
           lr_remaining = (if d = NaN then NaN else if js_lt d (Fin 0) then Fin 0 else d),
           lr_resetAt = Fin (of_int resetAt)\<rparr>, am_set fullKey (Suc c, resetAt) s))"

subsection \<open>Decisions\<close>

datatype denial_code =
    INVALID_TENANT_CONTEXT | NOT_ALLOWLISTED | SUPPRESSED | APPROVAL_NOT_FOUND | APPROVAL_WRONG_TENANT
  | APPROVAL_WRONG_TARGET | APPROVAL_EXPIRED | APPROVAL_REJECTED | APPROVAL_CANCELLED | APPROVAL_PENDING
  | APPROVAL_INVALID_ACTION_TYPE | RATE_LIMIT_EXCEEDED | REDIS_UNAVAILABLE | BUDGET_SEND_COUNT_EXCEEDED
  | BUDGET_COST_EXCEEDED | DUPLICATE_SEND | INVALID_CONTENT

datatype safety_decision =
    ALLOW | DENY denial_code string | RETRY denial_code string jsnum

fun approvalDenialCode :: "approval_outcome \<Rightarrow> denial_code option" where
  "approvalDenialCode AV_APPROVED = None"
| "approvalDenialCode AV_NOT_FOUND = Some APPROVAL_NOT_FOUND"
| "approvalDenialCode AV_WRONG_TENANT = Some APPROVAL_WRONG_TENANT"
| "approvalDenialCode AV_WRONG_TARGET = Some APPROVAL_WRONG_TARGET"
| "approvalDenialCode AV_EXPIRED = Some APPROVAL_EXPIRED"
| "approvalDenialCode AV_REJECTED = Some APPROVAL_REJECTED"
| "approvalDenialCode AV_CANCELLED = Some APPROVAL_CANCELLED"
| "approvalDenialCode AV_PENDING = Some APPROVAL_PENDING"
| "approvalDenialCode AV_INVALID_ACTION_TYPE = Some APPROVAL_INVALID_ACTION_TYPE"

record rate_config =
  rc_perSecond :: "jsnum option"
  rc_perMinute :: "jsnum option"
  rc_perHour :: "jsnum option"
  rc_perDay :: "jsnum option"

record suppression =
  sp_type :: string
  sp_source :: string

text \<open>
  The ports: allowlist and suppression are reads; \<open>gd_limiter\<close> returns \<open>None\<close> when it throws.
\<close>

record 'r gate_deps =
  gd_allowlisted :: "tenant_context \<Rightarrow> outreach_channel \<Rightarrow> string \<Rightarrow> bool"
  gd_suppressed :: "tenant_context \<Rightarrow> string \<Rightarrow> suppression option"
  gd_verify :: "tenant_context \<Rightarrow> approval_request \<Rightarrow> approval_outcome \<times> string"
  gd_limiter :: "tenant_context \<Rightarrow> string \<Rightarrow> string \<Rightarrow> jsnum \<Rightarrow> int \<Rightarrow> 'r \<Rightarrow> limit_result option \<times> 'r"
  gd_rateConfig :: "rate_config option"
  gd_show :: "jsnum \<Rightarrow> string"

record 'r gate_world =
  gw_idem :: idem_table
  gw_limiter :: 'r
  gw_audit :: "(string \<times> safety_decision) list"  \<comment> \<open>execution and decision, in order\<close>

record gate_input =
  gi_ctx :: tenant_context
  gi_campaign :: campaign
  gi_execution :: mex
  gi_recipient :: string
  gi_approvalId :: string
  gi_actionType :: string
  gi_cost :: jsnum

fun channel_name :: "outreach_channel \<Rightarrow> string" where
  "channel_name Email = ''email''"
| "channel_name Linkedin = ''linkedin''"
| "channel_name Calendar = ''calendar''"

definition SEND_SCOPE :: string where
  "SEND_SCOPE = ''outreach:send''"

definition gate_windows :: "rate_config \<Rightarrow> (jsnum option \<times> int \<times> string) list" where
  "gate_windows c =
     [(rc_perSecond c, 1, ''per-second''), (rc_perMinute c, 60, ''per-minute''),
      (rc_perHour c, 3600, ''per-hour''), (rc_perDay c, 86400, ''per-day'')]"

text \<open>The loop over the windows; \<open>Math.max(0, resetAt - now)\<close> is the time to wait.\<close>

fun check_windows ::
    "'r gate_deps \<Rightarrow> int \<Rightarrow> tenant_context \<Rightarrow> outreach_channel \<Rightarrow> (jsnum option \<times> int \<times> string) list \<Rightarrow> 'r
       \<Rightarrow> (denial_code \<times> string \<times> jsnum) option \<times> 'r" where
  "check_windows dp now ctx ch [] r = (None, r)"
| "check_windows dp now ctx ch ((None, w, label) # ws) r = check_windows dp now ctx ch ws r"
| "check_windows dp now ctx ch ((Some limit, w, label) # ws) r =
     (case gd_limiter dp ctx ''outreach-send'' (channel_name ch) limit w r of
        (None, r') \<Rightarrow>
          (Some (REDIS_UNAVAILABLE,
                 ''Redis rate limiter is unavailable; cannot verify rate limit ('' @ label @ '')'', Fin 0), r')
      | (Some res, r') \<Rightarrow>
          if \<not> lr_allowed res
          then (let d = js_sub (lr_resetAt res) (Fin (of_int now))
                in (Some (RATE_LIMIT_EXCEEDED,
                     ''Rate limit exceeded ('' @ label @ '': '' @ gd_show dp limit @ '')'',
                     if d = NaN then NaN else if js_lt d (Fin 0) then Fin 0 else d), r'))
          else check_windows dp now ctx ch ws r')"

definition checkRateLimits ::
    "'r gate_deps \<Rightarrow> int \<Rightarrow> tenant_context \<Rightarrow> outreach_channel \<Rightarrow> 'r \<Rightarrow> (denial_code \<times> string \<times> jsnum) option \<times> 'r" where
  "checkRateLimits dp now ctx ch r =
     (case gd_rateConfig dp of None \<Rightarrow> (None, r) | Some c \<Rightarrow> check_windows dp now ctx ch (gate_windows c) r)"

definition checkBudget :: "'r gate_deps \<Rightarrow> campaign \<Rightarrow> jsnum \<Rightarrow> (denial_code \<times> string) option" where
  "checkBudget dp c cost =
     (if over_budget (bu_maxSendCount (cp_budget c)) (cp_sentCount c) (Fin 1)
      then Some (BUDGET_SEND_COUNT_EXCEEDED,
             ''Budget exceeded: campaign '' @ aggId c @ '' would exceed maxSendCount ''
               @ gd_show dp (nullish (bu_maxSendCount (cp_budget c)) NaN))
      else if over_budget (bu_maxCostUsd (cp_budget c)) (cp_spentCostUsd c) cost
      then Some (BUDGET_COST_EXCEEDED,
             ''Budget exceeded: campaign '' @ aggId c @ '' would exceed maxCostUsd ''
               @ gd_show dp (nullish (bu_maxCostUsd (cp_budget c)) NaN))
      else None)"

text \<open>\<open>audit\<close>, and the two helpers that record a decision and return it.\<close>

definition gate_audit :: "gate_input \<Rightarrow> safety_decision \<Rightarrow> 'r gate_world \<Rightarrow> 'r gate_world" where
  "gate_audit inp d w = w\<lparr>gw_audit := gw_audit w @ [(aggId (gi_execution inp), d)]\<rparr>"

definition gate_deny ::
    "gate_input \<Rightarrow> denial_code \<Rightarrow> string \<Rightarrow> campaign \<Rightarrow> 'r gate_world \<Rightarrow> safety_decision \<times> campaign \<times> 'r gate_world" where
  "gate_deny inp code reason c w = (DENY code reason, c, gate_audit inp (DENY code reason) w)"

definition gate_request :: "gate_input \<Rightarrow> approval_request" where
  "gate_request inp =
     \<lparr>vr_approvalId = gi_approvalId inp, vr_campaignId = aggId (gi_campaign inp),
      vr_sequenceId = mx_sequenceId (gi_execution inp), vr_executionId = aggId (gi_execution inp),
      vr_idempotencyKey = mx_idempotencyKey (gi_execution inp),
      vr_recipientFingerprint = nullish (mx_recipientFingerprint (gi_execution inp)) [],
      vr_actionType = gi_actionType inp, vr_correlationId = cx_correlationId (gi_ctx inp)\<rparr>"

definition blank_draft :: "message_draft option \<Rightarrow> bool" where
  "blank_draft d = (case d of None \<Rightarrow> True | Some x \<Rightarrow> dr_body x = [] \<or> js_trim (dr_body x) = [])"

definition gate_evaluate ::
    "'r gate_deps \<Rightarrow> int \<Rightarrow> gate_input \<Rightarrow> 'r gate_world \<Rightarrow> safety_decision \<times> campaign \<times> 'r gate_world" where
  "gate_evaluate dp now inp w =
     (let ctx = gi_ctx inp; c = gi_campaign inp; e = gi_execution inp
      in if cx_tenantId ctx \<noteq> tenantId c \<or> cx_tenantId ctx \<noteq> tenantId e
         then gate_deny inp INVALID_TENANT_CONTEXT ''Tenant context does not match campaign/execution tenant'' c w
         else if \<not> gd_allowlisted dp ctx (mx_channel e) (gi_recipient inp)
         then gate_deny inp NOT_ALLOWLISTED ''Recipient is not on the tenant allowlist'' c w
         else case gd_suppressed dp ctx (gi_recipient inp) of
             Some s \<Rightarrow> gate_deny inp SUPPRESSED
                         (''Recipient is suppressed ('' @ sp_type s @ '' via '' @ sp_source s @ '')'') c w
           | None \<Rightarrow>
               let (outcome, reason) = gd_verify dp ctx (gate_request inp)
               in case approvalDenialCode outcome of
                   Some code \<Rightarrow> gate_deny inp code reason c w
                 | None \<Rightarrow>
                     let (limited, r) = checkRateLimits dp now ctx (mx_channel e) (gw_limiter w);
                         w1 = w\<lparr>gw_limiter := r\<rparr>
                     in case limited of
                         Some (code, why, wait) \<Rightarrow> (RETRY code why wait, c, gate_audit inp (RETRY code why wait) w1)
                       | None \<Rightarrow>
                           (case checkBudget dp c (gi_cost inp) of
                              Some (code, why) \<Rightarrow> gate_deny inp code why c w1
                            | None \<Rightarrow>
                                let c1 = snd (recordSpend (Fin 1) (gi_cost inp) c)
                                in if blank_draft (mx_draft e)
                                   then gate_deny inp INVALID_CONTENT
                                          ''Execution has no validated draft content to send'' c1 w1
                                   else let ((claimed, _), t) = pg_claim now ctx SEND_SCOPE (mx_idempotencyKey e) (gw_idem w1);
                                            w2 = w1\<lparr>gw_idem := t\<rparr>
                                        in if \<not> claimed
                                           then gate_deny inp DUPLICATE_SEND
                                                  (''Execution '' @ aggId e @ '' already has an in-flight or completed send reserved for this idempotency key'') c1 w2
                                           else (ALLOW, c1, gate_audit inp ALLOW w2)))"

subsection \<open>What an evaluation does\<close>

lemma gate_deny_simps [simp]:
  "fst (gate_deny inp code reason c w) = DENY code reason"
  "fst (snd (gate_deny inp code reason c w)) = c"
  "snd (snd (gate_deny inp code reason c w)) = gate_audit inp (DENY code reason) w"
  by (simp_all add: gate_deny_def)

lemma gate_audit_simps [simp]:
  "gw_idem (gate_audit inp d w) = gw_idem w" "gw_limiter (gate_audit inp d w) = gw_limiter w"
  "gw_audit (gate_audit inp d w) = gw_audit w @ [(aggId (gi_execution inp), d)]"
  by (simp_all add: gate_audit_def)

lemma approvalDenialCode_None: "approvalDenialCode ap = None \<longleftrightarrow> ap = AV_APPROVED"
  by (cases ap) auto

lemma checkBudget_None:
  "checkBudget dp c cost = None \<longleftrightarrow> fst (recordSpend (Fin 1) cost c)"
  by (simp add: checkBudget_def recordSpend_def)

definition gate_passes :: "'r gate_deps \<Rightarrow> int \<Rightarrow> gate_input \<Rightarrow> 'r gate_world \<Rightarrow> bool" where
  "gate_passes dp now inp w \<longleftrightarrow>
     cx_tenantId (gi_ctx inp) = tenantId (gi_campaign inp) \<and> cx_tenantId (gi_ctx inp) = tenantId (gi_execution inp) \<and>
     gd_allowlisted dp (gi_ctx inp) (mx_channel (gi_execution inp)) (gi_recipient inp) \<and>
     gd_suppressed dp (gi_ctx inp) (gi_recipient inp) = None \<and>
     fst (gd_verify dp (gi_ctx inp) (gate_request inp)) = AV_APPROVED \<and>
     fst (checkRateLimits dp now (gi_ctx inp) (mx_channel (gi_execution inp)) (gw_limiter w)) = None \<and>
     fst (recordSpend (Fin 1) (gi_cost inp) (gi_campaign inp)) \<and>
     \<not> blank_draft (mx_draft (gi_execution inp)) \<and>
     open_entry (map_of (gw_idem w) (cx_tenantId (gi_ctx inp), SEND_SCOPE, mx_idempotencyKey (gi_execution inp)))"

lemma gate_allow_passes: "fst (gate_evaluate dp now inp w) = ALLOW \<longleftrightarrow> gate_passes dp now inp w"
  using checkBudget_None [of dp "gi_campaign inp" "gi_cost inp"]
  by (auto simp: gate_evaluate_def gate_passes_def Let_def case_prod_beta approvalDenialCode_None
      pg_claim_facts(1) split: option.splits if_splits)

lemma gate_passes_open:
  "gate_passes dp now inp w \<Longrightarrow>
   open_entry (map_of (gw_idem w) (cx_tenantId (gi_ctx inp), SEND_SCOPE, mx_idempotencyKey (gi_execution inp)))"
  unfolding gate_passes_def by blast

lemma gate_audited:
  "gw_audit (snd (snd (gate_evaluate dp now inp w))) =
     gw_audit w @ [(aggId (gi_execution inp), fst (gate_evaluate dp now inp w))]"
  by (auto simp: gate_evaluate_def Let_def case_prod_beta split: option.splits)

lemma gate_idem:
  "gw_idem (snd (snd (gate_evaluate dp now inp w))) =
     (if gate_passes dp now inp w
      then snd (pg_claim now (gi_ctx inp) SEND_SCOPE (mx_idempotencyKey (gi_execution inp)) (gw_idem w))
      else gw_idem w)"
  unfolding gate_allow_passes [symmetric]
  by (auto simp: gate_evaluate_def Let_def case_prod_beta pg_claim_facts split: option.splits)

lemma gate_campaign:
  "fst (snd (gate_evaluate dp now inp w)) \<in> {gi_campaign inp, snd (recordSpend (Fin 1) (gi_cost inp) (gi_campaign inp))}"
  by (auto simp: gate_evaluate_def Let_def case_prod_beta split: option.splits)

subsection \<open>Properties\<close>

text \<open>Ports that let a send through, and the message of the earlier samples.\<close>

definition sample_gate_deps :: "unit gate_deps" where
  "sample_gate_deps = \<lparr>gd_allowlisted = (\<lambda>_ _ _. True), gd_suppressed = (\<lambda>_ _. None),
     gd_verify = (\<lambda>_ _. (AV_APPROVED, [])), gd_limiter = (\<lambda>_ _ _ _ _ u. (None, u)), gd_rateConfig = None,
     gd_show = (\<lambda>_. [])\<rparr>"

definition sample_gate_input :: gate_input where
  "sample_gate_input = \<lparr>gi_ctx = sample_ctx, gi_campaign = sample_campaign, gi_execution = sample_sending,
     gi_recipient = ''r'', gi_approvalId = ''a'', gi_actionType = ''OUTREACH_EMAIL_SEND'', gi_cost = Fin 1\<rparr>"

definition sample_gate_world :: "unit gate_world" where
  "sample_gate_world = \<lparr>gw_idem = [], gw_limiter = (), gw_audit = []\<rparr>"

lemma sample_created_fields:
  "tenantId sample_created = ''t''" "mx_draft sample_created = None" "mx_idempotencyKey sample_created = ''key''"
  "mx_channel sample_created = Email" "aggId sample_created = ''e1''"
  by (simp_all add: sample_created_def mex_create_def sample_props_def assertProtectedRecipientSnapshot_def
      assertProtectedRecipient_def Let_def mex_construct_def applyEvent_def)

lemma sample_sending_fields:
  "tenantId sample_sending = ''t''" "mx_draft sample_sending = Some sample_draft"
  "mx_idempotencyKey sample_sending = ''key''"
proof -
  show "tenantId sample_sending = ''t''"
    using mex_log.run_frame [of sample_created sample_sending]
      rtranclp_mono [THEN predicate2D, OF _ sample_sending_run, of "\<lambda>a b. mex_step a b \<or> mex_operator_step a b"]
    by (auto simp: sample_created_fields)
  have "mx_status (snd (startDrafting ''x'' ''v'' 1 sample_created)) = MX_DRAFTING"
    by (simp add: startDrafting_def mx_transition_status sample_created_status canTransitionMessageExecution_def)
  then show "mx_draft sample_sending = Some sample_draft" "mx_idempotencyKey sample_sending = ''key''"
    by (simp_all add: sample_sending_def markSending_def mx_approve_def setDraft_def startDrafting_def
        sample_created_fields)
qed

lemma sample_campaign_tenant: "tenantId sample_campaign = ''t''"
  by (simp add: sample_campaign_def cp_create_def sample_campaign_props_def assertProtectedRecipient_def Let_def
      cp_construct_def applyEvent_def)

lemma sample_gate_passes: "gate_passes sample_gate_deps now sample_gate_input sample_gate_world"
  by (simp add: gate_passes_def sample_gate_input_def sample_gate_world_def sample_gate_deps_def sample_ctx_def
      sample_campaign_tenant sample_sending_fields checkRateLimits_def recordSpend_def over_budget_def
      sample_campaign_budget blank_draft_def sample_draft_def js_trim_def js_space_def open_entry_def)

text \<open>
  (C9) The gate allows a send exactly when every check passes: the tenants agree, the recipient
  is on the allowlist and not suppressed, the approval is verified, no rate window is exceeded,
  the campaign's budget has room for one more message at this cost, the execution has a draft
  with a body, and its idempotency key is free or provably not submitted.
\<close>

theorem gate_allows_iff:
  "fst (gate_evaluate dp now inp w) = ALLOW \<longleftrightarrow>
     cx_tenantId (gi_ctx inp) = tenantId (gi_campaign inp) \<and> cx_tenantId (gi_ctx inp) = tenantId (gi_execution inp) \<and>
     gd_allowlisted dp (gi_ctx inp) (mx_channel (gi_execution inp)) (gi_recipient inp) \<and>
     gd_suppressed dp (gi_ctx inp) (gi_recipient inp) = None \<and>
     fst (gd_verify dp (gi_ctx inp) (gate_request inp)) = AV_APPROVED \<and>
     fst (checkRateLimits dp now (gi_ctx inp) (mx_channel (gi_execution inp)) (gw_limiter w)) = None \<and>
     fst (recordSpend (Fin 1) (gi_cost inp) (gi_campaign inp)) \<and>
     \<not> blank_draft (mx_draft (gi_execution inp)) \<and>
     open_entry (map_of (gw_idem w) (cx_tenantId (gi_ctx inp), SEND_SCOPE, mx_idempotencyKey (gi_execution inp)))"
  using gate_allow_passes unfolding gate_passes_def .

text \<open>
  The gate fails closed and leaves a trace: every evaluation appends one audit entry with
  its decision; a decision other than \<open>ALLOW\<close> leaves the idempotency table as it was, and
  \<open>ALLOW\<close> leaves a pending record for the key; the campaign is as before or charged for one
  message.
\<close>

theorem gate_effects:
  "gw_audit (snd (snd (gate_evaluate dp now inp w))) =
     gw_audit w @ [(aggId (gi_execution inp), fst (gate_evaluate dp now inp w))] \<and>
   (if fst (gate_evaluate dp now inp w) = ALLOW
    then (\<exists>r. map_of (gw_idem (snd (snd (gate_evaluate dp now inp w))))
                (cx_tenantId (gi_ctx inp), SEND_SCOPE, mx_idempotencyKey (gi_execution inp)) = Some r
              \<and> id_status r = ID_PENDING)
         \<and> fst (snd (gate_evaluate dp now inp w)) = snd (recordSpend (Fin 1) (gi_cost inp) (gi_campaign inp))
    else gw_idem (snd (snd (gate_evaluate dp now inp w))) = gw_idem w \<and>
         fst (snd (gate_evaluate dp now inp w)) \<in>
           {gi_campaign inp, snd (recordSpend (Fin 1) (gi_cost inp) (gi_campaign inp))})"
proof -
  have "fst (snd (gate_evaluate dp now inp w)) = snd (recordSpend (Fin 1) (gi_cost inp) (gi_campaign inp))"
    if "fst (gate_evaluate dp now inp w) = ALLOW"
    using that by (auto simp: gate_evaluate_def Let_def case_prod_beta split: option.splits if_splits)
  moreover have "open_entry (map_of (gw_idem w) (cx_tenantId (gi_ctx inp), SEND_SCOPE, mx_idempotencyKey (gi_execution inp)))"
    if "gate_passes dp now inp w" using gate_passes_open [OF that] .
  ultimately show ?thesis
    using pg_claim_facts(2) [of "gw_idem w" "gi_ctx inp" SEND_SCOPE "mx_idempotencyKey (gi_execution inp)" now]
      gate_campaign [of dp now inp w]
    by (auto simp: gate_audited gate_idem gate_allow_passes [symmetric] simp flip: gate_allow_passes)
qed

text \<open>
  A send is allowed once: after an evaluation that allowed a send, no evaluation for the
  same tenant and idempotency key allows one, whatever the other ports answer by then, as long
  as the idempotency record is not written in between.
\<close>

theorem gate_allows_once:
  assumes "fst (gate_evaluate dp now inp w) = ALLOW"
    and "gw_idem w' = gw_idem (snd (snd (gate_evaluate dp now inp w)))"
    and "cx_tenantId (gi_ctx inp') = cx_tenantId (gi_ctx inp)"
    and "mx_idempotencyKey (gi_execution inp') = mx_idempotencyKey (gi_execution inp)"
  shows "fst (gate_evaluate dp' now' inp' w') \<noteq> ALLOW"
proof -
  have p: "gate_passes dp now inp w" using assms(1) gate_allow_passes by blast
  then have "open_entry (map_of (gw_idem w) (cx_tenantId (gi_ctx inp), SEND_SCOPE, mx_idempotencyKey (gi_execution inp)))"
    by (rule gate_passes_open)
  from pg_claim_facts(2) [OF this, of now] have
    "\<not> open_entry (map_of (gw_idem w') (cx_tenantId (gi_ctx inp'), SEND_SCOPE, mx_idempotencyKey (gi_execution inp')))"
    using assms(2-4) p by (auto simp: gate_idem open_entry_def)
  then show ?thesis using gate_passes_open by (auto simp: gate_allow_passes)
qed

theorem gate_allows_once_witness:
  "fst (gate_evaluate sample_gate_deps 0 sample_gate_input sample_gate_world) = ALLOW \<and>
   fst (gate_evaluate sample_gate_deps 9 sample_gate_input
     (snd (snd (gate_evaluate sample_gate_deps 0 sample_gate_input sample_gate_world)))) \<noteq> ALLOW"
proof -
  have a: "fst (gate_evaluate sample_gate_deps 0 sample_gate_input sample_gate_world) = ALLOW"
    using gate_allow_passes sample_gate_passes by blast
  from gate_allows_once [OF a refl refl refl] a show ?thesis by blast
qed

text \<open>
  With the Redis limiter the four windows share one counter: an evaluation that passes
  increments the same key once per configured window and resets its expiry to each window in
  turn, so that the counter compared with the limit per second counts up to a day and four
  times per message. Redis itself is the function \<open>reply\<close> of the commands run so far.
\<close>

theorem rate_windows_share_one_counter:
  assumes "gd_rateConfig dp = Some \<lparr>rc_perSecond = Some a, rc_perMinute = Some b, rc_perHour = Some c, rc_perDay = Some d\<rparr>"
    and "gd_limiter dp = (\<lambda>ctx scope key limit w l.
           (case redis_isAllowed (\<lambda>cmds l. (reply (l @ cmds), l @ cmds)) now ctx scope key limit w l of
              (res, l') \<Rightarrow> (Some res, l')))"
    and "checkRateLimits dp now ctx ch l = (None, l')"
  shows "let k = redis_rate_key ctx ''outreach-send'' (channel_name ch)
    in l' = l @ [Incr k, Expire k 1, Incr k, Expire k 60, Incr k, Expire k 3600, Incr k, Expire k 86400]"
  using assms(3)
  by (simp add: checkRateLimits_def assms(1,2) gate_windows_def redis_isAllowed_def Let_def split: if_splits)

theorem rate_windows_share_one_counter_witness:
  "redis_rate_key sample_ctx ''outreach-send'' (channel_name Email) = ''tenant:t:rate:outreach-send:email'' \<and>
   snd (check_windows
     \<lparr>gd_allowlisted = (\<lambda>_ _ _. True), gd_suppressed = (\<lambda>_ _. None), gd_verify = (\<lambda>_ _. (AV_APPROVED, [])),
      gd_limiter = (\<lambda>ctx scope key limit w l.
        (case redis_isAllowed (\<lambda>cmds l. ([Fin 1], l @ cmds)) 0 ctx scope key limit w l of (res, l') \<Rightarrow> (Some res, l'))),
      gd_rateConfig = None, gd_show = (\<lambda>_. [])\<rparr>
     0 sample_ctx Email
     (gate_windows \<lparr>rc_perSecond = Some (Fin 5), rc_perMinute = Some (Fin 5), rc_perHour = Some (Fin 5), rc_perDay = Some (Fin 5)\<rparr>) [])
   = (let k = redis_rate_key sample_ctx ''outreach-send'' (channel_name Email)
      in [Incr k, Expire k 1, Incr k, Expire k 60, Incr k, Expire k 3600, Incr k, Expire k 86400])"
proof -
  let ?dp = "\<lparr>gd_allowlisted = (\<lambda>_ _ _. True), gd_suppressed = (\<lambda>_ _. None), gd_verify = (\<lambda>_ _. (AV_APPROVED, [])),
      gd_limiter = (\<lambda>ctx scope key limit w l.
        (case redis_isAllowed (\<lambda>cmds l. ([Fin 1], l @ cmds)) 0 ctx scope key limit w l of (res, l') \<Rightarrow> (Some res, l'))),
      gd_rateConfig = Some \<lparr>rc_perSecond = Some (Fin 5), rc_perMinute = Some (Fin 5), rc_perHour = Some (Fin 5), rc_perDay = Some (Fin 5)\<rparr>,
      gd_show = (\<lambda>_. [])\<rparr>"
  obtain l' where l: "checkRateLimits ?dp 0 sample_ctx Email [] = (None, l')"
    by (simp add: checkRateLimits_def gate_windows_def redis_isAllowed_def Let_def)
  have "let k = redis_rate_key sample_ctx ''outreach-send'' (channel_name Email)
      in l' = [] @ [Incr k, Expire k 1, Incr k, Expire k 60, Incr k, Expire k 3600, Incr k, Expire k 86400]"
    by (rule rate_windows_share_one_counter [OF _ _ l, of _ _ _ _ "\<lambda>_. [Fin 1]"]) simp_all
  with l show ?thesis
    by (simp add: checkRateLimits_def gate_windows_def redis_isAllowed_def redis_rate_key_def sample_ctx_def Let_def)
qed

end
