(* ===== verification/OutreachRepositories.thy ===== *)
theory OutreachRepositories
  imports Campaign MessageExecution Repository
begin

section \<open>The Postgres repositories of the outreach aggregates\<close>

text \<open>
  \<open>packages/outreach/src/infrastructure/postgres-campaign-repository.ts\<close>,
  \<open>postgres-sequence-repository.ts\<close> and \<open>postgres-message-execution-repository.ts\<close>. A snapshot
  is the properties record that \<open>reconstitute\<close> takes; the columns that \<open>restore\<close> reads beside
  the JSON payload hold what the insert wrote there. \<open>save\<close> returns the aggregate too, because
  it sets its loaded version.
\<close>

datatype repo_error = TenantMismatch | WorkspaceMismatch | ConcurrencyConflict

text \<open>The checks and the write that the three \<open>save\<close> methods share.\<close>

definition guarded_save ::
    "tenant_context \<Rightarrow> string \<Rightarrow> string \<Rightarrow> string \<Rightarrow> nat option \<Rightarrow> 'p \<Rightarrow> nat \<Rightarrow> 'p db_row list \<Rightarrow> repo_error + 'p db_row list" where
  "guarded_save ctx tenant ws i loaded p v rows =
     (if tenant \<noteq> cx_tenantId ctx then Inl TenantMismatch
      else if Some ws \<noteq> cx_workspaceId ctx then Inl WorkspaceMismatch
      else case cas_write (cx_tenantId ctx) (cx_workspaceId ctx) i loaded p v rows of
          None \<Rightarrow> Inl ConcurrencyConflict
        | Some rows' \<Rightarrow> Inr rows')"

lemma guarded_save_Inr:
  "guarded_save ctx tenant ws i loaded p v rows = Inr rows' \<Longrightarrow>
     tenant = cx_tenantId ctx \<and> cx_workspaceId ctx = Some ws
     \<and> cas_write (cx_tenantId ctx) (cx_workspaceId ctx) i loaded p v rows = Some rows'"
  by (auto simp: guarded_save_def split: if_splits option.splits)

subsection \<open>Campaigns\<close>

type_synonym campaign_table = "campaign_props db_row list"

definition cp_snapshot :: "campaign \<Rightarrow> campaign_props" where
  "cp_snapshot c =
     \<lparr>cpp_id = Some (aggId c), cpp_tenantId = tenantId c, cpp_workspaceId = cp_workspaceId c,
      cpp_missionId = cp_missionId c, cpp_leadId = cp_leadId c, cpp_contactId = cp_contactId c,
      cpp_recipientFingerprint = cp_recipientFingerprint c,
      cpp_recipientProtectionState = cp_recipientProtectionState c, cpp_channel = cp_channel c,
      cpp_steps = cp_steps c, cpp_budget = Some (cp_budget c), cpp_status = Some (cp_status c),
      cpp_sentCount = Some (cp_sentCount c), cpp_spentCostUsd = Some (cp_spentCostUsd c),
      cpp_createdAt = Some (cp_createdAt c), cpp_updatedAt = Some (cp_updatedAt c)\<rparr>"

definition cp_restore :: "campaign_props db_row \<Rightarrow> campaign" where
  "cp_restore r = cp_reconstitute 0
     ((row_payload r)\<lparr>cpp_id := Some (row_id r), cpp_tenantId := row_tenant r,
        cpp_workspaceId := nullish (row_workspace r) []\<rparr>) (row_version r)"

definition cp_load :: "tenant_context \<Rightarrow> campaign_table \<Rightarrow> string \<Rightarrow> campaign option" where
  "cp_load ctx rows i = map_option cp_restore (select_row (cx_tenantId ctx) (cx_workspaceId ctx) i rows)"

definition cp_save :: "tenant_context \<Rightarrow> campaign \<Rightarrow> campaign_table \<Rightarrow> repo_error + (campaign \<times> campaign_table)" where
  "cp_save ctx c rows =
     (case guarded_save ctx (tenantId c) (cp_workspaceId c) (aggId c) (loadedVersion c) (cp_snapshot c) (version c) rows of
        Inl err \<Rightarrow> Inl err
      | Inr rows' \<Rightarrow> Inr (setVersion (version c) c, rows'))"

subsection \<open>Sequences\<close>

type_synonym sequence_table = "seq_props db_row list"

definition sq_snapshot :: "sequence \<Rightarrow> seq_props" where
  "sq_snapshot s =
     \<lparr>sp_id = Some (aggId s), sp_tenantId = tenantId s, sp_workspaceId = sq_workspaceId s,
      sp_campaignId = sq_campaignId s, sp_leadId = sq_leadId s, sp_contactId = sq_contactId s,
      sp_recipientFingerprint = sq_recipientFingerprint s, sp_recipientCiphertext = sq_recipientCiphertext s,
      sp_recipientProtectionState = sq_recipientProtectionState s, sp_campaignRecipientFingerprint = None,
      sp_steps = sq_steps s, sp_status = Some (sq_status s), sp_currentStepIndex = Some (sq_currentStepIndex s),
      sp_nextDueAt = sq_nextDueAt s, sp_responseDeadlineAt = sq_responseDeadlineAt s,
      sp_workflowId = sq_workflowId s, sp_workflowStartedAt = sq_workflowStartedAt s,
      sp_createdAt = Some (sq_createdAt s), sp_updatedAt = Some (sq_updatedAt s)\<rparr>"

definition sq_restore :: "seq_props db_row \<Rightarrow> sequence" where
  "sq_restore r = seq_reconstitute 0
     ((row_payload r)\<lparr>sp_id := Some (row_id r), sp_tenantId := row_tenant r,
        sp_workspaceId := nullish (row_workspace r) []\<rparr>) (row_version r)"

definition sq_load :: "tenant_context \<Rightarrow> sequence_table \<Rightarrow> string \<Rightarrow> sequence option" where
  "sq_load ctx rows i = map_option sq_restore (select_row (cx_tenantId ctx) (cx_workspaceId ctx) i rows)"

definition sq_save :: "tenant_context \<Rightarrow> sequence \<Rightarrow> sequence_table \<Rightarrow> repo_error + (sequence \<times> sequence_table)" where
  "sq_save ctx s rows =
     (case guarded_save ctx (tenantId s) (sq_workspaceId s) (aggId s) (loadedVersion s) (sq_snapshot s) (version s) rows of
        Inl err \<Rightarrow> Inl err
      | Inr rows' \<Rightarrow> Inr (setVersion (version s) s, rows'))"

subsection \<open>Message executions\<close>

type_synonym execution_table = "mex_props db_row list"

definition mx_snapshot :: "mex \<Rightarrow> mex_props" where
  "mx_snapshot e =
     \<lparr>mp_id = Some (aggId e), mp_tenantId = tenantId e, mp_workspaceId = mx_workspaceId e,
      mp_campaignId = mx_campaignId e, mp_sequenceId = mx_sequenceId e, mp_stepNumber = mx_stepNumber e,
      mp_leadId = mx_leadId e, mp_contactId = mx_contactId e,
      mp_recipientFingerprint = mx_recipientFingerprint e, mp_recipientCiphertext = mx_recipientCiphertext e,
      mp_recipientProtectionState = mx_recipientProtectionState e, mp_channel = mx_channel e,
      mp_idempotencyKey = mx_idempotencyKey e, mp_messageId = mx_messageId e, mp_draft = mx_draft e,
      mp_status = Some (mx_status e), mp_approvalId = mx_approvalId e, mp_providerId = mx_providerId e,
      mp_providerMessageId = mx_providerMessageId e, mp_internetMessageId = mx_internetMessageId e,
      mp_attempts = Some (mx_attempts e), mp_lastError = mx_lastError e,
      mp_retryClassification = mx_retryClassification e, mp_retryAfterMs = mx_retryAfterMs e,
      mp_providerErrorCode = mx_providerErrorCode e, mp_providerAcceptedAt = mx_providerAcceptedAt e,
      mp_deliveredAt = mx_deliveredAt e, mp_deliveryFailedAt = mx_deliveryFailedAt e,
      mp_failedAt = mx_failedAt e, mp_createdAt = Some (mx_createdAt e), mp_updatedAt = Some (mx_updatedAt e)\<rparr>"

definition mx_restore :: "mex_props db_row \<Rightarrow> mex" where
  "mx_restore r = mex_reconstitute 0
     ((row_payload r)\<lparr>mp_id := Some (row_id r), mp_tenantId := row_tenant r,
        mp_workspaceId := nullish (row_workspace r) []\<rparr>) (row_version r)"

definition mx_load :: "tenant_context \<Rightarrow> execution_table \<Rightarrow> string \<Rightarrow> mex option" where
  "mx_load ctx rows i = map_option mx_restore (select_row (cx_tenantId ctx) (cx_workspaceId ctx) i rows)"

definition mx_findByIdempotencyKey :: "tenant_context \<Rightarrow> execution_table \<Rightarrow> string \<Rightarrow> mex option" where
  "mx_findByIdempotencyKey ctx rows key =
     map_option mx_restore
       (List.find (\<lambda>r. row_tenant r = cx_tenantId ctx \<and> cx_workspaceId ctx \<noteq> None
                     \<and> row_workspace r = cx_workspaceId ctx \<and> mp_idempotencyKey (row_payload r) = key) rows)"

definition mx_findByStatus :: "tenant_context \<Rightarrow> execution_table \<Rightarrow> mex_status list \<Rightarrow> mex list" where
  "mx_findByStatus ctx rows sts =
     map mx_restore
       (filter (\<lambda>r. row_tenant r = cx_tenantId ctx \<and> cx_workspaceId ctx \<noteq> None
                  \<and> row_workspace r = cx_workspaceId ctx \<and> mx_status (mx_restore r) \<in> set sts) rows)"

text \<open>
  The insert is also refused by the unique index on tenant, workspace and idempotency key
  (migration 034); the update leaves that column alone.
\<close>

definition mx_save :: "tenant_context \<Rightarrow> mex \<Rightarrow> execution_table \<Rightarrow> repo_error + (mex \<times> execution_table)" where
  "mx_save ctx e rows =
     (case guarded_save ctx (tenantId e) (mx_workspaceId e) (aggId e) (loadedVersion e) (mx_snapshot e) (version e) rows of
        Inl err \<Rightarrow> Inl err
      | Inr rows' \<Rightarrow>
          if loadedVersion e = None \<and>
             list_ex (\<lambda>r. row_tenant r = tenantId e \<and> row_workspace r = Some (mx_workspaceId e)
                        \<and> mp_idempotencyKey (row_payload r) = mx_idempotencyKey e) rows
          then Inl ConcurrencyConflict
          else Inr (setVersion (version e) e, rows'))"

subsection \<open>The repositories keep the contract\<close>

definition cp_save_rows :: "tenant_context \<Rightarrow> campaign \<Rightarrow> campaign_table \<Rightarrow> repo_error + campaign_table" where
  "cp_save_rows ctx c rows = map_sum id snd (cp_save ctx c rows)"

definition sq_save_rows :: "tenant_context \<Rightarrow> sequence \<Rightarrow> sequence_table \<Rightarrow> repo_error + sequence_table" where
  "sq_save_rows ctx s rows = map_sum id snd (sq_save ctx s rows)"

definition mx_save_rows :: "tenant_context \<Rightarrow> mex \<Rightarrow> execution_table \<Rightarrow> repo_error + execution_table" where
  "mx_save_rows ctx e rows = map_sum id snd (mx_save ctx e rows)"

lemma cp_restore_root [simp]:
  "version (cp_restore r) = row_version r" "loadedVersion (cp_restore r) = Some (row_version r)"
  "aggId (cp_restore r) = row_id r" "tenantId (cp_restore r) = row_tenant r"
  by (simp_all add: cp_restore_def cp_reconstitute_def cp_construct_def clearDomainEvents_def setVersion_def)

lemma sq_restore_root [simp]:
  "version (sq_restore r) = row_version r" "loadedVersion (sq_restore r) = Some (row_version r)"
  "aggId (sq_restore r) = row_id r" "tenantId (sq_restore r) = row_tenant r"
  by (simp_all add: sq_restore_def seq_reconstitute_def seq_construct_def clearDomainEvents_def setVersion_def)

lemma mx_restore_root [simp]:
  "version (mx_restore r) = row_version r" "loadedVersion (mx_restore r) = Some (row_version r)"
  "aggId (mx_restore r) = row_id r" "tenantId (mx_restore r) = row_tenant r"
  by (simp_all add: mx_restore_def mex_reconstitute_def mex_construct_def clearDomainEvents_def setVersion_def)

lemma cp_save_rows_Inr:
  "cp_save_rows ctx c rows = Inr rows' \<Longrightarrow> cx_workspaceId ctx = Some (cp_workspaceId c) \<and> tenantId c = cx_tenantId ctx \<and>
     cas_write (cx_tenantId ctx) (cx_workspaceId ctx) (aggId c) (loadedVersion c) (cp_snapshot c) (version c) rows = Some rows'"
  by (auto simp: cp_save_rows_def cp_save_def split: sum.splits dest!: guarded_save_Inr)

lemma sq_save_rows_Inr:
  "sq_save_rows ctx c rows = Inr rows' \<Longrightarrow> cx_workspaceId ctx = Some (sq_workspaceId c) \<and> tenantId c = cx_tenantId ctx \<and>
     cas_write (cx_tenantId ctx) (cx_workspaceId ctx) (aggId c) (loadedVersion c) (sq_snapshot c) (version c) rows = Some rows'"
  by (auto simp: sq_save_rows_def sq_save_def split: sum.splits dest!: guarded_save_Inr)

lemma mx_save_rows_Inr:
  "mx_save_rows ctx c rows = Inr rows' \<Longrightarrow> cx_workspaceId ctx = Some (mx_workspaceId c) \<and> tenantId c = cx_tenantId ctx \<and>
     cas_write (cx_tenantId ctx) (cx_workspaceId ctx) (aggId c) (loadedVersion c) (mx_snapshot c) (version c) rows = Some rows'"
  by (auto simp: mx_save_rows_def mx_save_def split: sum.splits if_splits dest!: guarded_save_Inr)

interpretation cp_repo: versioned_repository cp_load cp_save_rows version loadedVersion aggId keys_ok
proof unfold_locales
  fix s s' :: campaign_table and c :: tenant_context and a b :: campaign and v :: nat and i :: string
  assume k: "keys_ok s"
  {
    assume "cp_save_rows c a s = Inr s'"
    note w = cp_save_rows_Inr [OF this]
    note f = cas_write_select [OF k w [THEN conjunct2, THEN conjunct2]]
    show "keys_ok s'" using f(1) w by simp
    show "loadedVersion a = None \<Longrightarrow> cp_load c s (aggId a) = None" using f(3) w by (simp add: cp_load_def)
    show "loadedVersion a = Some v \<Longrightarrow> \<exists>b. cp_load c s (aggId a) = Some b \<and> version b = v"
      using f(4) [of v] w by (auto simp: cp_load_def)
    show "\<exists>b. cp_load c s' (aggId a) = Some b \<and> version b = version a" using f(2) w by (auto simp: cp_load_def)
    show "i \<noteq> aggId a \<Longrightarrow> cp_load c s' i = cp_load c s i" using f(5) w by (simp add: cp_load_def)
  }
  show "cp_load c s i = Some b \<Longrightarrow> loadedVersion b = Some (version b) \<and> aggId b = i"
    by (auto simp: cp_load_def row_is_def dest!: select_row_Some)
qed

interpretation sq_repo: versioned_repository sq_load sq_save_rows version loadedVersion aggId keys_ok
proof unfold_locales
  fix s s' :: sequence_table and c :: tenant_context and a b :: sequence and v :: nat and i :: string
  assume k: "keys_ok s"
  {
    assume "sq_save_rows c a s = Inr s'"
    note w = sq_save_rows_Inr [OF this]
    note f = cas_write_select [OF k w [THEN conjunct2, THEN conjunct2]]
    show "keys_ok s'" using f(1) w by simp
    show "loadedVersion a = None \<Longrightarrow> sq_load c s (aggId a) = None" using f(3) w by (simp add: sq_load_def)
    show "loadedVersion a = Some v \<Longrightarrow> \<exists>b. sq_load c s (aggId a) = Some b \<and> version b = v"
      using f(4) [of v] w by (auto simp: sq_load_def)
    show "\<exists>b. sq_load c s' (aggId a) = Some b \<and> version b = version a" using f(2) w by (auto simp: sq_load_def)
    show "i \<noteq> aggId a \<Longrightarrow> sq_load c s' i = sq_load c s i" using f(5) w by (simp add: sq_load_def)
  }
  show "sq_load c s i = Some b \<Longrightarrow> loadedVersion b = Some (version b) \<and> aggId b = i"
    by (auto simp: sq_load_def row_is_def dest!: select_row_Some)
qed

interpretation mx_repo: versioned_repository mx_load mx_save_rows version loadedVersion aggId keys_ok
proof unfold_locales
  fix s s' :: execution_table and c :: tenant_context and a b :: mex and v :: nat and i :: string
  assume k: "keys_ok s"
  {
    assume "mx_save_rows c a s = Inr s'"
    note w = mx_save_rows_Inr [OF this]
    note f = cas_write_select [OF k w [THEN conjunct2, THEN conjunct2]]
    show "keys_ok s'" using f(1) w by simp
    show "loadedVersion a = None \<Longrightarrow> mx_load c s (aggId a) = None" using f(3) w by (simp add: mx_load_def)
    show "loadedVersion a = Some v \<Longrightarrow> \<exists>b. mx_load c s (aggId a) = Some b \<and> version b = v"
      using f(4) [of v] w by (auto simp: mx_load_def)
    show "\<exists>b. mx_load c s' (aggId a) = Some b \<and> version b = version a" using f(2) w by (auto simp: mx_load_def)
    show "i \<noteq> aggId a \<Longrightarrow> mx_load c s' i = mx_load c s i" using f(5) w by (simp add: mx_load_def)
  }
  show "mx_load c s i = Some b \<Longrightarrow> loadedVersion b = Some (version b) \<and> aggId b = i"
    by (auto simp: mx_load_def row_is_def dest!: select_row_Some)
qed

subsection \<open>Properties\<close>

text \<open>An empty table with the sample campaign in it.\<close>

definition sample_outreach_ctx :: tenant_context where
  "sample_outreach_ctx = \<lparr>cx_tenantId = ''t'', cx_workspaceId = Some ''w'', cx_correlationId = ''x'', cx_userId = None,
     cx_agentId = None, cx_missionId = None\<rparr>"

definition sample_campaign_rows :: campaign_table where
  "sample_campaign_rows = (case cp_save_rows sample_outreach_ctx sample_campaign [] of Inr rows \<Rightarrow> rows)"

lemma sample_campaign_root:
  "tenantId sample_campaign = ''t''" "aggId sample_campaign = ''c1''" "loadedVersion sample_campaign = None"
  "version sample_campaign = 1" "cp_workspaceId sample_campaign = ''w''"
  by (simp_all add: sample_campaign_def cp_create_def sample_campaign_props_def assertProtectedRecipient_def Let_def
      cp_construct_def applyEvent_def)

lemma sample_campaign_rows_eq:
  "sample_campaign_rows = [\<lparr>row_tenant = ''t'', row_workspace = Some ''w'', row_id = ''c1'',
     row_payload = cp_snapshot sample_campaign, row_version = 1\<rparr>]"
  by (simp add: sample_campaign_rows_def cp_save_rows_def cp_save_def guarded_save_def cas_write_def insert_row_def
      sample_campaign_root sample_outreach_ctx_def)

lemma mx_restore_snapshot:
  "mx_restore \<lparr>row_tenant = tenantId e, row_workspace = Some (mx_workspaceId e), row_id = aggId e,
     row_payload = mx_snapshot e, row_version = v\<rparr> = clearDomainEvents (setVersion v e)"
  by (cases e) (simp add: mx_restore_def mx_snapshot_def mex_reconstitute_def mex_construct_def clearDomainEvents_def
      setVersion_def)

lemma cp_restore_snapshot:
  "cp_restore \<lparr>row_tenant = tenantId e, row_workspace = Some (cp_workspaceId e), row_id = aggId e,
     row_payload = cp_snapshot e, row_version = v\<rparr> = clearDomainEvents (setVersion v e)"
  by (cases e) (simp add: cp_restore_def cp_snapshot_def cp_reconstitute_def cp_construct_def clearDomainEvents_def
      setVersion_def)

lemma cp_save_rows_load:
  assumes "keys_ok rows" and "cp_save_rows ctx c rows = Inr rows'"
  shows "cp_load ctx rows' (aggId c) = Some (clearDomainEvents (setVersion (version c) c))"
proof -
  note w = cp_save_rows_Inr [OF assms(2)]
  obtain r where r: "select_row (cx_tenantId ctx) (cx_workspaceId ctx) (aggId c) rows' = Some r"
    "row_payload r = cp_snapshot c" "row_version r = version c" "row_tenant r = cx_tenantId ctx"
    "row_workspace r = cx_workspaceId ctx" "row_id r = aggId c"
    using cas_write_select(2) [OF assms(1) w [THEN conjunct2, THEN conjunct2]] w by auto
  then have "r = \<lparr>row_tenant = tenantId c, row_workspace = Some (cp_workspaceId c), row_id = aggId c,
     row_payload = cp_snapshot c, row_version = version c\<rparr>" using w by simp
  then show ?thesis using r(1) by (simp add: cp_load_def cp_restore_snapshot)
qed

text \<open>
  Saving and loading loses nothing: an execution that was saved is loaded back with every
  field it had, its version as the loaded version, and no pending events.
\<close>

theorem mx_save_load_roundtrip:
  assumes "keys_ok rows" and "mx_save ctx e rows = Inr (e', rows')"
  shows "mx_load ctx rows' (aggId e) = Some (clearDomainEvents e') \<and> e' = setVersion (version e) e"
proof -
  have s: "mx_save_rows ctx e rows = Inr rows'" by (simp add: mx_save_rows_def assms(2))
  note w = mx_save_rows_Inr [OF s]
  have e': "e' = setVersion (version e) e" using assms(2) by (auto simp: mx_save_def split: sum.splits if_splits)
  obtain r where r: "select_row (cx_tenantId ctx) (cx_workspaceId ctx) (aggId e) rows' = Some r"
    "row_payload r = mx_snapshot e" "row_version r = version e" "row_tenant r = cx_tenantId ctx"
    "row_workspace r = cx_workspaceId ctx" "row_id r = aggId e"
    using cas_write_select(2) [OF assms(1) w [THEN conjunct2, THEN conjunct2]] w by auto
  then have "r = \<lparr>row_tenant = tenantId e, row_workspace = Some (mx_workspaceId e), row_id = aggId e,
     row_payload = mx_snapshot e, row_version = version e\<rparr>" using w by simp
  then show ?thesis using r(1) e' by (simp add: mx_load_def mx_restore_snapshot)
qed

theorem mx_save_load_roundtrip_witness:
  "\<exists>rows. mx_save sample_outreach_ctx sample_created [] = Inr (setVersion 1 sample_created, rows)
     \<and> mx_load sample_outreach_ctx rows ''e1'' = Some (clearDomainEvents (setVersion 1 sample_created))"
proof -
  have f: "tenantId sample_created = ''t''" "aggId sample_created = ''e1''" "loadedVersion sample_created = None"
    "version sample_created = 1" "mx_workspaceId sample_created = ''w''"
    by (simp_all add: sample_created_def mex_create_def sample_props_def assertProtectedRecipientSnapshot_def
        assertProtectedRecipient_def Let_def mex_construct_def applyEvent_def)
  obtain rows where s: "mx_save sample_outreach_ctx sample_created [] = Inr (setVersion 1 sample_created, rows)"
    by (simp add: mx_save_def guarded_save_def cas_write_def insert_row_def f sample_outreach_ctx_def)
  have k: "keys_ok ([] :: execution_table)" by (simp add: keys_ok_def)
  from mx_save_load_roundtrip [OF k s] s show ?thesis by (auto simp: f)
qed

text \<open>
  Of two workers that loaded the same execution, one can store a change of status: when the
  first has saved a transition, any save of the second is refused as a concurrency conflict.
\<close>

theorem execution_transition_conflict_detected:
  assumes "keys_ok rows" and "mx_load ctx rows i = Some e"
    and "fst (mx_transition to corr ev reason now e) = Ok ()"
    and "mx_save_rows ctx (snd (mx_transition to corr ev reason now e)) rows = Inr rows'"
    and "mex_step\<^sup>*\<^sup>* e e2"
  shows "\<exists>err. mx_save_rows ctx e2 rows' = Inl err"
proof -
  let ?e1 = "snd (mx_transition to corr ev reason now e)"
  have l: "loadedVersion e = Some (version e)" using mx_repo.find_loaded [OF assms(1,2)] by simp
  have t: "version ?e1 = Suc (version e)" "loadedVersion ?e1 = loadedVersion e" "aggId ?e1 = aggId e"
    using assms(3) by (auto simp: mx_transition_def Let_def applyEvent_def split: if_splits)
  have "(\<lambda>a b. mex_step a b \<or> mex_operator_step a b)\<^sup>*\<^sup>* e e2"
    using assms(5) by (rule rtranclp_mono [THEN predicate2D, rotated]) auto
  then have "mx_save_rows ctx e2 rows' \<noteq> Inr rows''" for rows''
    using mx_repo.stale_writer_refused [OF assms(1,4)] mex_log.run_frame [of e e2] t l by simp
  then show ?thesis by (cases "mx_save_rows ctx e2 rows'") auto
qed

theorem execution_transition_conflict_detected_witness:
  "\<exists>rows rows' e err. mx_load sample_outreach_ctx rows ''e1'' = Some e
     \<and> mx_save_rows sample_outreach_ctx (snd (mx_transition MX_DRAFTING ''x'' ''v'' None 1 e)) rows = Inr rows'
     \<and> mx_save_rows sample_outreach_ctx (snd (startDrafting ''y'' ''v2'' 2 e)) rows' = Inl err"
proof -
  let ?rows = "[\<lparr>row_tenant = ''t'', row_workspace = Some ''w'', row_id = ''e1'',
     row_payload = mx_snapshot sample_created, row_version = 1\<rparr>]"
  define e where "e = clearDomainEvents (setVersion 1 sample_created)"
  have f: "tenantId sample_created = ''t''" "aggId sample_created = ''e1''"
    "version sample_created = 1" "mx_workspaceId sample_created = ''w''"
    by (simp_all add: sample_created_def mex_create_def sample_props_def assertProtectedRecipientSnapshot_def
        assertProtectedRecipient_def Let_def mex_construct_def applyEvent_def)
  have l: "mx_load sample_outreach_ctx ?rows ''e1'' = Some e"
    using mx_restore_snapshot [of sample_created 1]
    by (simp add: e_def mx_load_def select_row_def row_is_def sample_outreach_ctx_def f)
  have st: "mx_status e = MX_PENDING" by (simp add: e_def clearDomainEvents_def setVersion_def sample_created_status)
  have t: "fst (mx_transition MX_DRAFTING ''x'' ''v'' None 1 e) = Ok ()"
    by (simp add: mx_transition_fst st canTransitionMessageExecution_def)
  have k: "keys_ok ?rows" by (simp add: keys_ok_def)
  let ?e1 = "snd (mx_transition MX_DRAFTING ''x'' ''v'' None 1 e)"
  have r: "tenantId ?e1 = ''t''" "aggId ?e1 = ''e1''" "loadedVersion ?e1 = Some 1"
    using f by (simp_all add: e_def mx_transition_def Let_def applyEvent_def clearDomainEvents_def setVersion_def)
  have w: "mx_workspaceId e = ''w''" using f by (simp add: e_def clearDomainEvents_def setVersion_def)
  obtain rows' where s: "mx_save_rows sample_outreach_ctx ?e1 ?rows = Inr rows'"
    by (simp add: mx_save_rows_def mx_save_def guarded_save_def cas_write_def update_row_def row_is_def r w sample_outreach_ctx_def)
  have "mex_step\<^sup>*\<^sup>* e (snd (startDrafting ''y'' ''v2'' 2 e))" by (rule r_into_rtranclp, rule mex_step.startDrafting)
  from execution_transition_conflict_detected [OF k l t s this] l s show ?thesis by blast
qed

text \<open>
  A charge can be lost: \<open>recordSpend\<close> raises no event, so the version does not move and the
  compare-and-swap of the repository does not see it. When two workers load the same campaign
  and each charges it, both saves succeed, and the campaign loaded afterwards has the totals of
  the second charge alone.
\<close>

theorem campaign_charge_lost_update:
  assumes "keys_ok rows" and "cp_load ctx rows i = Some c"
    and "cp_save_rows ctx (snd (recordSpend n usd c)) rows = Inr rows1"
  shows "\<exists>rows2 c2. cp_save_rows ctx (snd (recordSpend n' usd' c)) rows1 = Inr rows2 \<and>
    cp_load ctx rows2 i = Some c2 \<and>
    cp_sentCount c2 = cp_sentCount (snd (recordSpend n' usd' c)) \<and>
    cp_spentCostUsd c2 = cp_spentCostUsd (snd (recordSpend n' usd' c))"
proof -
  have l: "loadedVersion c = Some (version c)" "aggId c = i" using cp_repo.find_loaded [OF assms(1,2)] by auto
  have f: "loadedVersion (snd (recordSpend m u c)) = loadedVersion c" "version (snd (recordSpend m u c)) = version c"
    "aggId (snd (recordSpend m u c)) = aggId c" "tenantId (snd (recordSpend m u c)) = tenantId c"
    "cp_workspaceId (snd (recordSpend m u c)) = cp_workspaceId c" for m u
    by (simp_all add: recordSpend_def)
  note w = cp_save_rows_Inr [OF assms(3)]
  have k: "keys_ok rows1" using cp_repo.save_ok [OF assms(1,3)] .
  have cw: "cas_write (cx_tenantId ctx) (cx_workspaceId ctx) i (Some (version c))
      (cp_snapshot (snd (recordSpend n usd c))) (version c) rows = Some rows1"
    using w [THEN conjunct2, THEN conjunct2] by (simp only: f l)
  have "cx_workspaceId ctx \<noteq> None" using w by simp
  then obtain rows2 where "cas_write (cx_tenantId ctx) (cx_workspaceId ctx) i (Some (version c))
      (cp_snapshot (snd (recordSpend n' usd' c))) (version c) rows1 = Some rows2"
    using cas_write_same_version [OF assms(1) cw] by blast
  then have s: "cp_save_rows ctx (snd (recordSpend n' usd' c)) rows1 = Inr rows2"
    using w l f by (simp add: cp_save_rows_def cp_save_def guarded_save_def)
  from cp_save_rows_load [OF k s] s show ?thesis
    by (simp add: f l clearDomainEvents_def setVersion_def)
qed

theorem campaign_charge_lost_update_witness:
  "\<exists>c rows1 rows2 c2. cp_load sample_outreach_ctx sample_campaign_rows ''c1'' = Some c \<and>
     cp_save_rows sample_outreach_ctx (snd (recordSpend (Fin 1) (Fin 3) c)) sample_campaign_rows = Inr rows1 \<and>
     cp_save_rows sample_outreach_ctx (snd (recordSpend (Fin 1) (Fin 4) c)) rows1 = Inr rows2 \<and>
     cp_load sample_outreach_ctx rows2 ''c1'' = Some c2 \<and> cp_sentCount c2 = Fin 1 \<and> cp_spentCostUsd c2 = Fin 4"
proof -
  define c where "c = clearDomainEvents (setVersion 1 sample_campaign)"
  have l: "cp_load sample_outreach_ctx sample_campaign_rows ''c1'' = Some c"
    using cp_restore_snapshot [of sample_campaign 1]
    by (simp add: c_def cp_load_def sample_campaign_rows_eq select_row_def row_is_def sample_outreach_ctx_def sample_campaign_root)
  have k: "keys_ok sample_campaign_rows" by (simp add: keys_ok_def sample_campaign_rows_eq)
  have b: "cp_budget c = cp_budget sample_campaign" "cp_sentCount c = Fin 0" "cp_spentCostUsd c = Fin 0"
    by (simp_all add: c_def clearDomainEvents_def setVersion_def sample_campaign_budget)
  have f: "loadedVersion (snd (recordSpend m u c)) = Some 1" "version (snd (recordSpend m u c)) = 1"
    "aggId (snd (recordSpend m u c)) = ''c1''" "tenantId (snd (recordSpend m u c)) = ''t''"
    "cp_workspaceId (snd (recordSpend m u c)) = ''w''" for m u
    by (simp_all add: c_def recordSpend_def clearDomainEvents_def setVersion_def sample_campaign_root)
  obtain rows1 where s: "cp_save_rows sample_outreach_ctx (snd (recordSpend (Fin 1) (Fin 3) c)) sample_campaign_rows = Inr rows1"
    by (simp add: cp_save_rows_def cp_save_def guarded_save_def cas_write_def update_row_def row_is_def f
        sample_outreach_ctx_def sample_campaign_rows_eq)
  have "cp_sentCount (snd (recordSpend (Fin 1) (Fin 4) c)) = Fin 1" "cp_spentCostUsd (snd (recordSpend (Fin 1) (Fin 4) c)) = Fin 4"
    by (simp_all add: recordSpend_def b sample_campaign_budget over_budget_def)
  with campaign_charge_lost_update [OF k l s, of "Fin 1" "Fin 4"] l s show ?thesis by auto
qed

end
