(* ===== verification/OutreachExecution.thy ===== *)
theory OutreachExecution
  imports SafetyGate OutreachRepositories
begin

section \<open>Preparing and sending outreach messages\<close>

text \<open>
  \<open>packages/outreach/src/application/outreach-execution.service.ts\<close> and
  \<open>reconciliation.service.ts\<close>, over the repositories, the safety gate and the Postgres
  idempotency store of the earlier theories. What lies outside the repository's code is an
  argument in \<open>send_deps\<close>: the choice of a provider, the provider's answer (\<open>None\<close> when the call
  throws) as a function of the requests it has seen, the recovery of the protected recipient,
  costs and the schedule. A call runs at one clock reading \<open>now\<close> and gives all its events the
  id \<open>ev\<close>. A thrown exception is \<open>Inl\<close>; the writes made before it stay in the world.
\<close>

record send_request =
  rq_idempotencyKey :: string
  rq_correlationId :: string
  rq_executionId :: string
  rq_tenantId :: string
  rq_campaignId :: string
  rq_sequenceId :: string
  rq_messageId :: string
  rq_recipientAddress :: string
  rq_subject :: "string option"
  rq_body :: string
  rq_cta :: "string option"
  rq_channel :: outreach_channel

datatype provider_status =
    PS_PROVIDER_ACCEPTED | PS_ACCEPTED | PS_DELIVERED | PS_FAILED | PS_RATE_LIMITED | PS_AMBIGUOUS

record send_answer =
  an_providerMessageId :: "string option"
  an_internetMessageId :: "string option"
  an_status :: provider_status
  an_retryClassification :: "retry_classification option"
  an_retryAfterMs :: "jsnum option"
  an_providerErrorCode :: "string option"
  an_providerErrorMessage :: "string option"
  an_costUsd :: jsnum

record 'r send_deps =
  sd_gate :: "'r gate_deps"
  sd_select :: "tenant_context \<Rightarrow> outreach_channel \<Rightarrow> string option"
  sd_send :: "send_request list \<Rightarrow> send_request \<Rightarrow> send_answer option"
  sd_recover :: "string \<Rightarrow> string \<Rightarrow> string option"
  sd_fingerprint :: "string \<Rightarrow> string \<Rightarrow> string \<Rightarrow> string option"
  sd_cost :: "outreach_channel \<Rightarrow> jsnum"
  sd_nextDue :: "int \<Rightarrow> int \<Rightarrow> int"

datatype reconciliation_decision = RD_DELIVERED | RD_FAILED

record 'r send_world =
  sw_execs :: execution_table
  sw_seqs :: sequence_table
  sw_camps :: campaign_table
  sw_gate :: "'r gate_world"
  sw_sends :: "send_request list"
  sw_decisions :: "(string \<times> reconciliation_decision \<times> string) list"

datatype send_exn = ConflictExn | OtherExn

datatype send_result =
    SR_COMPLETED string "int option"
  | SR_RETRYABLE string "jsnum option"
  | SR_FAILED string string

type_synonym ('r, 'a) call = "(send_exn + 'a) \<times> 'r send_world"

text \<open>\<open>await\<close> and go on, unless it threw.\<close>

definition andThen :: "('r, 'a) call \<Rightarrow> ('a \<Rightarrow> 'r send_world \<Rightarrow> ('r, 'b) call) \<Rightarrow> ('r, 'b) call" where
  "andThen m k = (case m of (Inl x, w) \<Rightarrow> (Inl x, w) | (Inr a, w) \<Rightarrow> k a w)"

lemma andThen_simps [simp]:
  "andThen (Inl x, w) k = (Inl x, w)" "andThen (Inr a, w) k = k a w"
  by (simp_all add: andThen_def)

definition exn_of :: "repo_error \<Rightarrow> send_exn" where
  "exn_of err = (if err = ConcurrencyConflict then ConflictExn else OtherExn)"

definition save_exec :: "tenant_context \<Rightarrow> mex \<Rightarrow> 'r send_world \<Rightarrow> ('r, mex) call" where
  "save_exec ctx e w =
     (case mx_save ctx e (sw_execs w) of
        Inl err \<Rightarrow> (Inl (exn_of err), w)
      | Inr (e', rows) \<Rightarrow> (Inr e', w\<lparr>sw_execs := rows\<rparr>))"

definition save_camp :: "tenant_context \<Rightarrow> campaign \<Rightarrow> 'r send_world \<Rightarrow> ('r, campaign) call" where
  "save_camp ctx c w =
     (case cp_save ctx c (sw_camps w) of
        Inl err \<Rightarrow> (Inl (exn_of err), w)
      | Inr (c', rows) \<Rightarrow> (Inr c', w\<lparr>sw_camps := rows\<rparr>))"

definition save_seq :: "tenant_context \<Rightarrow> sequence \<Rightarrow> 'r send_world \<Rightarrow> ('r, sequence) call" where
  "save_seq ctx s w =
     (case sq_save ctx s (sw_seqs w) of
        Inl err \<Rightarrow> (Inl (exn_of err), w)
      | Inr (s', rows) \<Rightarrow> (Inr s', w\<lparr>sw_seqs := rows\<rparr>))"

definition set_idem :: "int \<Rightarrow> tenant_context \<Rightarrow> string \<Rightarrow> json \<Rightarrow> idem_status \<Rightarrow> 'r send_world \<Rightarrow> 'r send_world" where
  "set_idem now ctx key r st w =
     w\<lparr>sw_gate := (sw_gate w)\<lparr>gw_idem := pg_set 86400 now ctx SEND_SCOPE key r None (Some st) (gw_idem (sw_gate w))\<rparr>\<rparr>"

text \<open>\<open>JSON.stringify\<close> leaves out the properties that are undefined.\<close>

definition opt_field :: "string \<Rightarrow> string option \<Rightarrow> (string \<times> json) list" where
  "opt_field k v = (case v of None \<Rightarrow> [] | Some s \<Rightarrow> [(k, JStr s)])"

definition field_str :: "string \<Rightarrow> json \<Rightarrow> string option" where
  "field_str k r = (case r of JObj kvs \<Rightarrow> (case map_of kvs k of Some (JStr s) \<Rightarrow> Some s | _ \<Rightarrow> None) | _ \<Rightarrow> None)"

definition markIdempotencyCompleted ::
    "int \<Rightarrow> tenant_context \<Rightarrow> mex \<Rightarrow> string option \<Rightarrow> string option \<Rightarrow> 'r send_world \<Rightarrow> 'r send_world" where
  "markIdempotencyCompleted now ctx e pm im w =
     set_idem now ctx (mx_idempotencyKey e)
       (JObj ((''submitted'', JBool True) # opt_field ''providerMessageId'' pm @ opt_field ''internetMessageId'' im))
       ID_COMPLETED w"

definition markIdempotencyFailed ::
    "int \<Rightarrow> tenant_context \<Rightarrow> mex \<Rightarrow> bool \<Rightarrow> string option \<Rightarrow> 'r send_world \<Rightarrow> 'r send_world" where
  "markIdempotencyFailed now ctx e submitted reason w =
     set_idem now ctx (mx_idempotencyKey e)
       (JObj ((''submitted'', JBool submitted) # opt_field ''reason'' reason)) ID_FAILED w"

fun actionTypeForChannel :: "outreach_channel \<Rightarrow> string" where
  "actionTypeForChannel Email = ''OUTREACH_EMAIL_SEND''"
| "actionTypeForChannel Linkedin = ''OUTREACH_LINKEDIN_SEND''"
| "actionTypeForChannel Calendar = ''OUTREACH_CALENDAR_CREATE''"

definition isTerminalFailure :: "mex_status \<Rightarrow> bool" where
  "isTerminalFailure st \<longleftrightarrow> st \<in> set [MX_FAILED_PRE_SUBMISSION, MX_DELIVERY_FAILED, MX_DELIVERY_UNKNOWN,
     MX_REQUIRES_RECONCILIATION, MX_FAILED, MX_CANCELLED, MX_BOUNCED]"

definition isPositiveTerminal :: "mex_status \<Rightarrow> bool" where
  "isPositiveTerminal st \<longleftrightarrow> st \<in> set [MX_PROVIDER_ACCEPTED, MX_DELIVERY_PENDING, MX_DELIVERED, MX_OPENED, MX_REPLIED]"

definition shouldRecoverToDeliveryPending :: "mex_status \<Rightarrow> bool" where
  "shouldRecoverToDeliveryPending st \<longleftrightarrow>
     \<not> isPositiveTerminal st \<and> \<not> isTerminalFailure st \<and> st \<noteq> MX_DELIVERY_UNKNOWN \<and> st \<noteq> MX_REQUIRES_RECONCILIATION"

definition isExpiredIdempotency :: "int \<Rightarrow> idem_record \<Rightarrow> bool" where
  "isExpiredIdempotency now r = (case id_expiresAt r of None \<Rightarrow> False | Some e \<Rightarrow> e \<le> now)"

subsection \<open>The protected recipient\<close>

text \<open>\<open>s.split('.')\<close>.\<close>

fun split_dot :: "string \<Rightarrow> string list" where
  "split_dot [] = [[]]"
| "split_dot (c # s) =
     (if c = CHR ''.'' then [] # split_dot s
      else case split_dot s of p # ps \<Rightarrow> (c # p) # ps | [] \<Rightarrow> [[c]])"

definition key_version_char :: "char \<Rightarrow> bool" where
  "key_version_char c \<longleftrightarrow> (let n = of_char c :: nat
     in 65 \<le> n \<and> n \<le> 90 \<or> 97 \<le> n \<and> n \<le> 122 \<or> 48 \<le> n \<and> n \<le> 57 \<or> n = 95 \<or> n = 45)"

definition key_version_ok :: "string \<Rightarrow> bool" where
  "key_version_ok v \<longleftrightarrow> 1 \<le> length v \<and> length v \<le> 64 \<and> list_all key_version_char v"

definition recoverAndVerifyRecipient :: "'r send_deps \<Rightarrow> mex \<Rightarrow> string option" where
  "recoverAndVerifyRecipient dp e =
     (if mx_recipientProtectionState e \<noteq> PROTECTED \<or> \<not> truthy (mx_recipientCiphertext e)
         \<or> \<not> truthy (mx_recipientFingerprint e) then None
      else let fp = nullish (mx_recipientFingerprint e) []; parts = split_dot fp
           in if length parts \<noteq> 3 \<or> parts ! 0 \<noteq> ''h1'' \<or> \<not> key_version_ok (parts ! 1) then None
              else case sd_recover dp (tenantId e) (nullish (mx_recipientCiphertext e) []) of
                  None \<Rightarrow> None
                | Some recovered \<Rightarrow>
                    (case sd_fingerprint dp (tenantId e) recovered (parts ! 1) of
                       None \<Rightarrow> None
                     | Some verified \<Rightarrow> if verified = fp then Some recovered else None))"

subsection \<open>Resolving a duplicate\<close>

definition resultFromExecution :: "mex option \<Rightarrow> string \<Rightarrow> send_result" where
  "resultFromExecution eo i =
     (case eo of
        None \<Rightarrow> SR_FAILED i ''Execution not found''
      | Some e \<Rightarrow>
          if isPositiveTerminal (mx_status e) then SR_COMPLETED i None
          else if mx_status e = MX_SENDING \<or> mx_status e = MX_APPROVED
          then SR_FAILED i (nullish (mx_lastError e)
                 ''Delivery outcome unknown after prior attempt; reconciliation required'')
          else if mx_status e = MX_REQUIRES_RECONCILIATION
          then SR_FAILED i ''Reconciliation required before retry''
          else SR_FAILED i (nullish (mx_lastError e) (''Execution is '' @ show_mex_status (mx_status e))))"

text \<open>Each step looks at the status that the step before it left.\<close>

definition advanceToDeliveryPending ::
    "string option \<Rightarrow> string option \<Rightarrow> string \<Rightarrow> string \<Rightarrow> int \<Rightarrow> mex \<Rightarrow> mex" where
  "advanceToDeliveryPending pm im corr ev now e =
     (let e1 = (if mx_status e = MX_APPROVED then snd (markSending corr ev now e) else e);
          e2 = (if mx_status e1 = MX_SENDING then snd (markProviderAccepted pm im None corr ev now e1) else e1)
      in if mx_status e2 = MX_PROVIDER_ACCEPTED then snd (markDeliveryPending corr ev now e2) else e2)"

text \<open>A conflict is swallowed: what is stored is newer. The aggregate returned is not used.\<close>

definition saveAuthoritative :: "tenant_context \<Rightarrow> mex \<Rightarrow> 'r send_world \<Rightarrow> ('r, unit) call" where
  "saveAuthoritative ctx e w =
     (case save_exec ctx e w of
        (Inl ConflictExn, w') \<Rightarrow> (Inr (), w')
      | (Inl OtherExn, w') \<Rightarrow> (Inl OtherExn, w')
      | (Inr _, w') \<Rightarrow> (Inr (), w'))"

definition no_proof_reason :: string where
  "no_proof_reason = ''Idempotency record exists but does not prove the submission was not sent''"

definition ask_reconciliation ::
    "string \<Rightarrow> int \<Rightarrow> tenant_context \<Rightarrow> string option \<Rightarrow> mex \<Rightarrow> string \<Rightarrow> 'r send_world \<Rightarrow> ('r, send_result) call" where
  "ask_reconciliation ev now ctx reason reloaded i w =
     (if isTerminalFailure (mx_status reloaded) \<or> isPositiveTerminal (mx_status reloaded)
      then (Inr (resultFromExecution (Some reloaded) i), w)
      else let e = snd (markRequiresReconciliation (nullish reason no_proof_reason) (cx_correlationId ctx) ev now reloaded)
           in andThen (saveAuthoritative ctx e w) (\<lambda>_ w'. (Inr (resultFromExecution (Some e) i), w')))"

definition handleDuplicateSendIdempotency ::
    "string \<Rightarrow> int \<Rightarrow> tenant_context \<Rightarrow> mex \<Rightarrow> string \<Rightarrow> 'r send_world \<Rightarrow> ('r, send_result) call" where
  "handleDuplicateSendIdempotency ev now ctx localExec i w =
     (let existing = pg_get ctx SEND_SCOPE (mx_idempotencyKey localExec) (gw_idem (sw_gate w));
          corr = cx_correlationId ctx
      in case mx_load ctx (sw_execs w) i of
           None \<Rightarrow> (Inr (SR_FAILED i ''Execution not found after duplicate send''), w)
         | Some reloaded \<Rightarrow>
             (case existing of
                None \<Rightarrow> ask_reconciliation ev now ctx None reloaded i w
              | Some r \<Rightarrow>
                  (case id_status r of
                     ID_COMPLETED \<Rightarrow>
                       if shouldRecoverToDeliveryPending (mx_status reloaded)
                       then let e = advanceToDeliveryPending (field_str ''providerMessageId'' (id_result r))
                                      (field_str ''internetMessageId'' (id_result r)) corr ev now reloaded
                            in andThen (saveAuthoritative ctx e w) (\<lambda>_ w'. (Inr (resultFromExecution (Some e) i), w'))
                       else (Inr (resultFromExecution (Some reloaded) i), w)
                   | ID_PENDING \<Rightarrow>
                       if isPositiveTerminal (mx_status reloaded) then (Inr (resultFromExecution (Some reloaded) i), w)
                       else if \<not> isExpiredIdempotency now r
                       then (Inr (SR_FAILED i ''Delivery outcome unknown after prior attempt; reconciliation required''), w)
                       else if (mx_status reloaded = MX_SENDING \<or> mx_status reloaded = MX_APPROVED)
                               \<and> (mx_attempts reloaded > 0 \<or> mx_providerId reloaded \<noteq> None)
                       then let e = snd (markDeliveryUnknown
                                  ''Prior submission attempt reached the provider before the idempotency claim expired; outcome unknown''
                                  corr ev now reloaded)
                            in andThen (saveAuthoritative ctx e w) (\<lambda>_ w'. (Inr (resultFromExecution (Some e) i), w'))
                       else (Inr (resultFromExecution (Some reloaded) i), w)
                   | ID_FAILED \<Rightarrow> ask_reconciliation ev now ctx (field_str ''reason'' (id_result r)) reloaded i w)))"

subsection \<open>Sending an approved message\<close>

fun show_seq_status :: "seq_status \<Rightarrow> string" where
  "show_seq_status SQ_DRAFT = ''DRAFT''"
| "show_seq_status SQ_PENDING_APPROVAL = ''PENDING_APPROVAL''"
| "show_seq_status SQ_APPROVED = ''APPROVED''"
| "show_seq_status SQ_RUNNING = ''RUNNING''"
| "show_seq_status SQ_WAITING = ''WAITING''"
| "show_seq_status SQ_PAUSED = ''PAUSED''"
| "show_seq_status SQ_COMPLETED = ''COMPLETED''"
| "show_seq_status SQ_CANCELLED = ''CANCELLED''"
| "show_seq_status SQ_FAILED = ''FAILED''"

text \<open>The messages of the two errors that \<open>completeStep\<close> returns; it returns no other.\<close>

fun completeStep_message :: "seq_error \<Rightarrow> string" where
  "completeStep_message SqNotRunning = ''Sequence must be RUNNING to complete a step''"
| "completeStep_message (SqCannotTransition from to) =
     ''Cannot transition sequence from '' @ show_seq_status from @ '' to '' @ show_seq_status to"
| "completeStep_message _ = []"

fun show_denial_code :: "denial_code \<Rightarrow> string" where
  "show_denial_code INVALID_TENANT_CONTEXT = ''INVALID_TENANT_CONTEXT''"
| "show_denial_code NOT_ALLOWLISTED = ''NOT_ALLOWLISTED''"
| "show_denial_code SUPPRESSED = ''SUPPRESSED''"
| "show_denial_code APPROVAL_NOT_FOUND = ''APPROVAL_NOT_FOUND''"
| "show_denial_code APPROVAL_WRONG_TENANT = ''APPROVAL_WRONG_TENANT''"
| "show_denial_code APPROVAL_WRONG_TARGET = ''APPROVAL_WRONG_TARGET''"
| "show_denial_code APPROVAL_EXPIRED = ''APPROVAL_EXPIRED''"
| "show_denial_code APPROVAL_REJECTED = ''APPROVAL_REJECTED''"
| "show_denial_code APPROVAL_CANCELLED = ''APPROVAL_CANCELLED''"
| "show_denial_code APPROVAL_PENDING = ''APPROVAL_PENDING''"
| "show_denial_code APPROVAL_INVALID_ACTION_TYPE = ''APPROVAL_INVALID_ACTION_TYPE''"
| "show_denial_code RATE_LIMIT_EXCEEDED = ''RATE_LIMITED''"
| "show_denial_code REDIS_UNAVAILABLE = ''REDIS_UNAVAILABLE''"
| "show_denial_code BUDGET_SEND_COUNT_EXCEEDED = ''BUDGET_SEND_COUNT_EXCEEDED''"
| "show_denial_code BUDGET_COST_EXCEEDED = ''BUDGET_COST_EXCEEDED''"
| "show_denial_code DUPLICATE_SEND = ''DUPLICATE_SEND''"
| "show_denial_code INVALID_CONTENT = ''INVALID_CONTENT''"

definition advanceSequence ::
    "'r send_deps \<Rightarrow> string \<Rightarrow> int \<Rightarrow> tenant_context \<Rightarrow> sequence \<Rightarrow> mex \<Rightarrow> 'r send_world \<Rightarrow> ('r, send_result) call" where
  "advanceSequence dp ev now ctx s e w =
     (let corr = cx_correlationId ctx;
          hasMoreSteps = (sq_currentStepIndex s + 1 < length (sq_steps s));
          nextDueAt = (if hasMoreSteps
                       then Some (sd_nextDue dp now (st_delayMs (sq_steps s ! (sq_currentStepIndex s + 1)))) else None);
          campaign = cp_load ctx (sw_camps w) (sq_campaignId s)
      in case sq_completeStep (aggId e) nextDueAt corr ev now s of
           (Inl TypeError, _) \<Rightarrow> (Inl OtherExn, w)
         | (Inr (Fail err), _) \<Rightarrow> (Inr (SR_FAILED (aggId e) (completeStep_message err)), w)
         | (Inr (Ok _), s1) \<Rightarrow>
             andThen (save_seq ctx s1 w) (\<lambda>_ w1.
               if \<not> hasMoreSteps \<and> campaign \<noteq> None
               then andThen (save_camp ctx (snd (cp_complete corr ev now (the campaign))) w1)
                      (\<lambda>_ w2. (Inr (SR_COMPLETED (aggId e) nextDueAt), w2))
               else (Inr (SR_COMPLETED (aggId e) nextDueAt), w1)))"

text \<open>What follows the provider's answer; \<open>e\<close> was saved after its attempt was recorded.\<close>

definition handleAnswer ::
    "'r send_deps \<Rightarrow> string \<Rightarrow> int \<Rightarrow> tenant_context \<Rightarrow> sequence \<Rightarrow> campaign \<Rightarrow> mex \<Rightarrow> send_answer \<Rightarrow> 'r send_world
       \<Rightarrow> ('r, send_result) call" where
  "handleAnswer dp ev now ctx s c e a w =
     (let corr = cx_correlationId ctx; i = aggId e
      in if an_status a \<in> {PS_PROVIDER_ACCEPTED, PS_ACCEPTED, PS_DELIVERED} then
           (case markProviderAccepted (an_providerMessageId a) (an_internetMessageId a) (an_providerErrorCode a)
                   corr ev now e of
              (Fail err, _) \<Rightarrow> (Inr (SR_FAILED i (mex_message err)), w)
            | (Ok _, e1) \<Rightarrow>
                let e2 = snd (markDeliveryPending corr ev now e1)
                in andThen (save_exec ctx e2 w) (\<lambda>e3 w1.
                     andThen (save_camp ctx c w1) (\<lambda>_ w2.
                       advanceSequence dp ev now ctx s e3
                         (markIdempotencyCompleted now ctx e3 (an_providerMessageId a) (an_internetMessageId a) w2))))
         else if an_status a = PS_FAILED then
           let cl = nullish (an_retryClassification a) NON_RETRYABLE;
               e1 = snd (markFailed cl (nullish (an_providerErrorMessage a) ''Provider reported failure'')
                           (an_providerErrorCode a) corr ev now e)
           in andThen (save_exec ctx e1 w) (\<lambda>e2 w1.
                let w2 = markIdempotencyFailed now ctx e2 False None w1
                in if cl = RETRYABLE \<or> cl = RATE_LIMITED
                   then (Inr (SR_RETRYABLE i (an_retryAfterMs a)), w2)
                   else (Inr (SR_FAILED i (nullish (an_providerErrorMessage a) ''Provider failure'')), w2))
         else if an_status a = PS_RATE_LIMITED then
           let e1 = snd (markFailed RATE_LIMITED ''Rate limited'' (an_providerErrorCode a) corr ev now e)
           in andThen (save_exec ctx e1 w) (\<lambda>e2 w1.
                (Inr (SR_RETRYABLE i (Some (nullish (an_retryAfterMs a) (Fin 60000)))),
                 markIdempotencyFailed now ctx e2 False None w1))
         else
           let e1 = snd (markDeliveryUnknown
                  (nullish (an_providerErrorMessage a) ''Provider submission outcome is ambiguous'') corr ev now e)
           in andThen (save_exec ctx e1 w) (\<lambda>_ w1.
                (Inr (SR_FAILED i (nullish (an_providerErrorMessage a)
                   ''Provider submission outcome is ambiguous; reconciliation required'')), w1)))"

definition send_request_of :: "tenant_context \<Rightarrow> campaign \<Rightarrow> mex \<Rightarrow> string \<Rightarrow> outreach_channel \<Rightarrow> send_request" where
  "send_request_of ctx c e address ch =
     \<lparr>rq_idempotencyKey = mx_idempotencyKey e, rq_correlationId = cx_correlationId ctx,
      rq_executionId = aggId e, rq_tenantId = cx_tenantId ctx, rq_campaignId = aggId c,
      rq_sequenceId = mx_sequenceId e, rq_messageId = nullish (mx_messageId e) (aggId e),
      rq_recipientAddress = address,
      rq_subject = (case mx_draft e of None \<Rightarrow> None | Some d \<Rightarrow> dr_subject d),
      rq_body = (case mx_draft e of None \<Rightarrow> [] | Some d \<Rightarrow> dr_body d),
      rq_cta = (case mx_draft e of None \<Rightarrow> None | Some d \<Rightarrow> dr_cta d), rq_channel = ch\<rparr>"

text \<open>From the choice of the provider on, after the gate allowed the send.\<close>

definition sendAllowed ::
    "'r send_deps \<Rightarrow> string \<Rightarrow> int \<Rightarrow> tenant_context \<Rightarrow> sequence \<Rightarrow> campaign \<Rightarrow> mex \<Rightarrow> sequence_step \<Rightarrow> string \<Rightarrow> jsnum
       \<Rightarrow> 'r send_world \<Rightarrow> ('r, send_result) call" where
  "sendAllowed dp ev now ctx s c e step address cost w =
     (let corr = cx_correlationId ctx; i = aggId e
      in case sd_select dp ctx (st_channel step) of
           None \<Rightarrow>
             let e1 = snd (markFailed NON_RETRYABLE ''No provider available for channel'' (Some ''NO_PROVIDER'') corr ev now e)
             in andThen (save_exec ctx e1 w) (\<lambda>e2 w1.
                  (Inr (SR_FAILED i ''No provider available''), markIdempotencyFailed now ctx e2 False None w1))
         | Some provider \<Rightarrow>
             (case markProviderAttempt provider now e of
                Inl _ \<Rightarrow> (Inl OtherExn, w)
              | Inr e1 \<Rightarrow>
                  andThen (save_exec ctx e1 w) (\<lambda>e2 w1.
                    let req = send_request_of ctx c e2 address (st_channel step);
                        w2 = w1\<lparr>sw_sends := sw_sends w1 @ [req]\<rparr>
                    in case sd_send dp (sw_sends w1) req of
                         None \<Rightarrow> (Inl OtherExn, w2)
                       | Some a \<Rightarrow>
                           handleAnswer dp ev now ctx s
                             (c\<lparr>cp_spentCostUsd := js_add (cp_spentCostUsd c) (js_sub (an_costUsd a) cost)\<rparr>) e2 a w2)))"

text \<open>The gate and what is done with a refusal.\<close>

definition gatedSend ::
    "'r send_deps \<Rightarrow> string \<Rightarrow> int \<Rightarrow> tenant_context \<Rightarrow> sequence \<Rightarrow> campaign \<Rightarrow> mex \<Rightarrow> sequence_step \<Rightarrow> string \<Rightarrow> string
       \<Rightarrow> 'r send_world \<Rightarrow> ('r, send_result) call" where
  "gatedSend dp ev now ctx s c e step address approvalId w =
     (let corr = cx_correlationId ctx; i = aggId e; cost = sd_cost dp (st_channel step);
          (decision, c1, g) = gate_evaluate (sd_gate dp) now
             \<lparr>gi_ctx = ctx, gi_campaign = c, gi_execution = e, gi_recipient = address, gi_approvalId = approvalId,
              gi_actionType = actionTypeForChannel (st_channel step), gi_cost = cost\<rparr> (sw_gate w);
          w1 = w\<lparr>sw_gate := g\<rparr>
      in case decision of
           DENY code reason \<Rightarrow>
             if code = DUPLICATE_SEND then handleDuplicateSendIdempotency ev now ctx e i w1
             else let e1 = snd (markFailed NON_RETRYABLE (''Safety gate denied: '' @ reason)
                               (Some (show_denial_code code)) corr ev now e)
                  in andThen (save_exec ctx e1 w1) (\<lambda>e2 w2.
                       (Inr (SR_FAILED i reason), markIdempotencyFailed now ctx e2 False None w2))
         | RETRY code reason wait \<Rightarrow>
             let e1 = snd (markFailed RATE_LIMITED reason None corr ev now e)
             in andThen (save_exec ctx e1 w1) (\<lambda>e2 w2.
                  (Inr (SR_RETRYABLE i (Some wait)), markIdempotencyFailed now ctx e2 False None w2))
         | ALLOW \<Rightarrow> sendAllowed dp ev now ctx s c1 e step address cost w1)"

definition doExecuteApprovedSend ::
    "'r send_deps \<Rightarrow> string \<Rightarrow> int \<Rightarrow> tenant_context \<Rightarrow> string \<Rightarrow> string \<Rightarrow> 'r send_world \<Rightarrow> ('r, send_result) call" where
  "doExecuteApprovedSend dp ev now ctx i approvalId w =
     (case mx_load ctx (sw_execs w) i of
        None \<Rightarrow> (Inr (SR_FAILED i ''Execution not found''), w)
      | Some e \<Rightarrow>
          if ensureSameTenant ctx (tenantId e) \<noteq> None then (Inl OtherExn, w)
          else case sq_load ctx (sw_seqs w) (mx_sequenceId e) of
              None \<Rightarrow> (Inr (SR_FAILED i ''Sequence not found''), w)
            | Some s \<Rightarrow>
                if ensureSameTenant ctx (tenantId s) \<noteq> None then (Inl OtherExn, w)
                else case cp_load ctx (sw_camps w) (mx_campaignId e) of
                    None \<Rightarrow> (Inr (SR_FAILED i ''Campaign not found''), w)
                  | Some c \<Rightarrow>
                      if ensureSameTenant ctx (tenantId c) \<noteq> None then (Inl OtherExn, w)
                      else if isPositiveTerminal (mx_status e) then (Inr (SR_COMPLETED i None), w)
                      else if isTerminalFailure (mx_status e)
                      then (Inr (SR_FAILED i (nullish (mx_lastError e)
                              (''Execution is '' @ show_mex_status (mx_status e)))), w)
                      else
                        let corr = cx_correlationId ctx;
                            (r1, e1) = (if mx_status e = MX_PENDING_APPROVAL
                                        then mx_approve approvalId corr ev now e else (Ok (), e));
                            (r2, e2) = (if mx_status e1 = MX_APPROVED
                                        then markSending corr ev now e1 else (Ok (), e1))
                        in case r1 of
                             Fail err \<Rightarrow> (Inr (SR_FAILED i (mex_message err)), w)
                           | Ok _ \<Rightarrow>
                               (case r2 of
                                  Fail err \<Rightarrow> (Inr (SR_FAILED i (mex_message err)), w)
                                | Ok _ \<Rightarrow>
                                    if mx_status e2 \<noteq> MX_SENDING
                                    then (Inr (SR_FAILED i (''Execution not ready to send: ''
                                            @ show_mex_status (mx_status e2))), w)
                                    else case List.find (\<lambda>st. st_stepNumber st = mx_stepNumber e2) (sq_steps s) of
                                        None \<Rightarrow> (Inr (SR_FAILED i ''Step not found''), w)
                                      | Some step \<Rightarrow>
                                          (case recoverAndVerifyRecipient dp e2 of
                                             None \<Rightarrow> (Inr (SR_FAILED i ''Protected recipient recovery failed''), w)
                                           | Some address \<Rightarrow>
                                               gatedSend dp ev now ctx s c e2 step address approvalId w)))"

definition resolveFromAuthoritativeState ::
    "string \<Rightarrow> int \<Rightarrow> tenant_context \<Rightarrow> string \<Rightarrow> 'r send_world \<Rightarrow> ('r, send_result) call" where
  "resolveFromAuthoritativeState ev now ctx i w =
     (case mx_load ctx (sw_execs w) i of
        None \<Rightarrow> (Inr (SR_FAILED i ''Execution not found after concurrency conflict''), w)
      | Some e \<Rightarrow>
          (case handleDuplicateSendIdempotency ev now ctx e i w of
             (Inl ConflictExn, w') \<Rightarrow>
               (Inr (SR_FAILED i ''Concurrent execution conflict persisted after reload''), w')
           | r \<Rightarrow> r))"

definition executeApprovedSend ::
    "'r send_deps \<Rightarrow> string \<Rightarrow> int \<Rightarrow> tenant_context \<Rightarrow> string \<Rightarrow> string \<Rightarrow> 'r send_world \<Rightarrow> ('r, send_result) call" where
  "executeApprovedSend dp ev now ctx i approvalId w =
     (case doExecuteApprovedSend dp ev now ctx i approvalId w of
        (Inl ConflictExn, w') \<Rightarrow> resolveFromAuthoritativeState ev now ctx i w'
      | r \<Rightarrow> r)"

subsection \<open>Preparing a draft, recording a response, reconciling\<close>

datatype draft_result = DR_AWAITING_APPROVAL string string | DR_FAILED string

definition makeSendIdempotencyKey :: "tenant_context \<Rightarrow> campaign \<Rightarrow> sequence \<Rightarrow> sequence_step \<Rightarrow> string option" where
  "makeSendIdempotencyKey ctx c s step =
     (if \<not> truthy (sq_recipientFingerprint s) then None
      else Some (''outreach:v2:'' @ cx_tenantId ctx @ '':'' @ aggId c @ '':'' @ aggId s @ '':''
        @ show_int (st_stepNumber step) @ '':'' @ nullish (sq_recipientFingerprint s) [] @ '':''
        @ channel_name (st_channel step)))"

definition draft_props :: "tenant_context \<Rightarrow> sequence \<Rightarrow> campaign \<Rightarrow> sequence_step \<Rightarrow> string \<Rightarrow> mex_props" where
  "draft_props ctx s c step key =
     \<lparr>mp_id = None, mp_tenantId = cx_tenantId ctx, mp_workspaceId = sq_workspaceId s,
      mp_campaignId = aggId c, mp_sequenceId = aggId s,
      mp_stepNumber = st_stepNumber step, mp_leadId = sq_leadId s,
      mp_contactId = sq_contactId s, mp_recipientFingerprint = sq_recipientFingerprint s,
      mp_recipientCiphertext = sq_recipientCiphertext s,
      mp_recipientProtectionState = sq_recipientProtectionState s,
      mp_channel = st_channel step, mp_idempotencyKey = key, mp_messageId = None,
      mp_draft = None, mp_status = None, mp_approvalId = None, mp_providerId = None,
      mp_providerMessageId = None, mp_internetMessageId = None, mp_attempts = None,
      mp_lastError = None, mp_retryClassification = None, mp_retryAfterMs = None,
      mp_providerErrorCode = None, mp_providerAcceptedAt = None,
      mp_deliveredAt = None, mp_deliveryFailedAt = None, mp_failedAt = None,
      mp_createdAt = None, mp_updatedAt = None\<rparr>"

text \<open>
  \<open>personalized\<close> is the answer of the personalization service to the plan, the lead and the
  evidence, which the method only passes on; \<open>fresh\<close> is the id that \<open>create\<close> generates.
\<close>

definition prepareDraft ::
    "(string \<times> message_draft, string) result \<Rightarrow> string \<Rightarrow> string \<Rightarrow> int \<Rightarrow> tenant_context \<Rightarrow> string \<Rightarrow> 'r send_world
       \<Rightarrow> ('r, draft_result) call" where
  "prepareDraft personalized fresh ev now ctx sequenceId w =
     (let corr = cx_correlationId ctx
      in case sq_load ctx (sw_seqs w) sequenceId of
           None \<Rightarrow> (Inr (DR_FAILED ''Sequence not found''), w)
         | Some s \<Rightarrow>
             if ensureSameTenant ctx (tenantId s) \<noteq> None then (Inl OtherExn, w)
             else case cp_load ctx (sw_camps w) (sq_campaignId s) of
                 None \<Rightarrow> (Inr (DR_FAILED ''Campaign not found''), w)
               | Some c \<Rightarrow>
                   (case js_at (sq_steps s) (sq_currentStepIndex s) of
                      None \<Rightarrow> (Inr (DR_FAILED ''No current step''), w)
                    | Some step \<Rightarrow>
                        (case makeSendIdempotencyKey ctx c s step of
                           None \<Rightarrow> (Inl OtherExn, w)
                         | Some key \<Rightarrow>
                             (case mx_findByIdempotencyKey ctx (sw_execs w) key of
                                Some existing \<Rightarrow>
                                  (Inr (DR_AWAITING_APPROVAL (aggId existing) (actionTypeForChannel (st_channel step))), w)
                              | None \<Rightarrow>
                                  (case mex_create fresh now (draft_props ctx s c step key) corr ev of
                                     Inl _ \<Rightarrow> (Inl OtherExn, w)
                                   | Inr e0 \<Rightarrow>
                                       let e1 = snd (startDrafting corr ev now e0)
                                       in (case personalized of
                                             Fail msg \<Rightarrow>
                                               let e2 = snd (mx_reject (''Personalization failed: '' @ msg) corr ev now e1)
                                               in andThen (save_exec ctx e2 w) (\<lambda>_ w1. (Inr (DR_FAILED msg), w1))
                                           | Ok (msgId, draft) \<Rightarrow>
                                               (case setDraft msgId draft corr ev now e1 of
                                                  (Fail err, _) \<Rightarrow> (Inr (DR_FAILED (mex_message err)), w)
                                                | (Ok _, e2) \<Rightarrow>
                                                    andThen (save_exec ctx e2 w) (\<lambda>e3 w1.
                                                      (Inr (DR_AWAITING_APPROVAL (aggId e3)
                                                         (actionTypeForChannel (st_channel step))), w1)))))))))"

datatype response_type = RT_OPENED | RT_REPLIED

definition recordResponse ::
    "string \<Rightarrow> int \<Rightarrow> tenant_context \<Rightarrow> string \<Rightarrow> response_type \<Rightarrow> 'r send_world \<Rightarrow> ('r, unit) call" where
  "recordResponse ev now ctx i rt w =
     (let corr = cx_correlationId ctx
      in case mx_load ctx (sw_execs w) i of
           None \<Rightarrow> (Inr (), w)
         | Some e \<Rightarrow>
             if ensureSameTenant ctx (tenantId e) \<noteq> None then (Inl OtherExn, w)
             else let e1 = (if mx_status e = MX_PROVIDER_ACCEPTED \<or> mx_status e = MX_DELIVERY_PENDING
                            then snd (markDelivered None corr ev now e) else e);
                      e2 = (if mx_status e1 = MX_DELIVERED then snd (markOpened corr ev now e1) else e1);
                      e3 = (if rt = RT_REPLIED then snd (markReplied corr ev now e2) else e2)
                  in andThen (save_exec ctx e3 w) (\<lambda>_ w1. (Inr (), w1)))"

text \<open>\<open>ReconciliationService.reconcile\<close>: \<open>None\<close> is success. The audit keeps the decisions that were made.\<close>

definition reconcile ::
    "string \<Rightarrow> int \<Rightarrow> tenant_context \<Rightarrow> string \<Rightarrow> reconciliation_decision \<Rightarrow> string \<Rightarrow> string \<Rightarrow> string option \<Rightarrow> 'r send_world
       \<Rightarrow> ('r, string option) call" where
  "reconcile ev now ctx i decision operator reason pm w =
     (let corr = cx_correlationId ctx
      in case mx_load ctx (sw_execs w) i of
           None \<Rightarrow> (Inr (Some ''Execution not found''), w)
         | Some e \<Rightarrow>
             if mx_status e \<noteq> MX_DELIVERY_UNKNOWN \<and> mx_status e \<noteq> MX_REQUIRES_RECONCILIATION
             then (Inr (Some (''Execution is not in a reconcilable state (status: ''
                      @ show_mex_status (mx_status e) @ '')'')), w)
             else let e1 = (case decision of
                              RD_DELIVERED \<Rightarrow> snd (markReconciledDelivered pm corr ev now e)
                            | RD_FAILED \<Rightarrow> snd (markReconciledFailed reason corr ev now e));
                      (r, st) = (case decision of
                              RD_DELIVERED \<Rightarrow> (JObj ((''submitted'', JBool True) # opt_field ''providerMessageId'' pm), ID_COMPLETED)
                            | RD_FAILED \<Rightarrow> (JObj [(''submitted'', JBool True),
                                 (''reason'', JStr (''Operator reconciled as failed: '' @ reason))], ID_FAILED))
                  in andThen (save_exec ctx e1 w) (\<lambda>e2 w1.
                       (Inr None, (set_idem now ctx (mx_idempotencyKey e2) r st w1)
                          \<lparr>sw_decisions := sw_decisions w1 @ [(i, decision, operator)]\<rparr>)))"

subsection \<open>What the calls keep\<close>

lemma save_frames [simp]:
  "sw_sends (snd (save_exec ctx e w)) = sw_sends w" "sw_gate (snd (save_exec ctx e w)) = sw_gate w"
  "sw_sends (snd (save_camp ctx c w)) = sw_sends w" "sw_gate (snd (save_camp ctx c w)) = sw_gate w"
  "sw_sends (snd (save_seq ctx s w)) = sw_sends w" "sw_gate (snd (save_seq ctx s w)) = sw_gate w"
  by (simp_all add: save_exec_def save_camp_def save_seq_def split: sum.split prod.split)

lemma set_idem_frames [simp]:
  "sw_sends (set_idem now ctx key r st w) = sw_sends w" "sw_execs (set_idem now ctx key r st w) = sw_execs w"
  by (simp_all add: set_idem_def)

lemma set_idem_entry:
  "\<exists>x. map_of (gw_idem (sw_gate (set_idem now ctx key r st w))) (cx_tenantId ctx, SEND_SCOPE, key) = Some x
     \<and> id_status x = st \<and> id_result x = r"
  using pg_set_facts(1) [of 86400 now ctx SEND_SCOPE key r None st "gw_idem (sw_gate w)"] by (simp add: set_idem_def)

lemma markIdempotency_frames [simp]:
  "sw_sends (markIdempotencyCompleted now ctx e pm im w) = sw_sends w"
  "sw_sends (markIdempotencyFailed now ctx e b reason w) = sw_sends w"
  by (simp_all add: markIdempotencyCompleted_def markIdempotencyFailed_def)

text \<open>A property of the world that a call and its continuation both keep.\<close>

lemma andThen_sends:
  "sw_sends (snd m) = x \<Longrightarrow> (\<And>a w. sw_sends w = x \<Longrightarrow> sw_sends (snd (k a w)) = x) \<Longrightarrow> sw_sends (snd (andThen m k)) = x"
  by (cases m; cases "fst m") (auto simp: andThen_def)

lemma saveAuthoritative_frames [simp]:
  "sw_sends (snd (saveAuthoritative ctx e w)) = sw_sends w" "sw_gate (snd (saveAuthoritative ctx e w)) = sw_gate w"
proof -
  obtain r w1 where s: "save_exec ctx e w = (r, w1)" by (cases "save_exec ctx e w")
  then have "sw_sends w1 = sw_sends w" "sw_gate w1 = sw_gate w" using save_frames(1,2) [of ctx e w] by simp_all
  then show "sw_sends (snd (saveAuthoritative ctx e w)) = sw_sends w"
    "sw_gate (snd (saveAuthoritative ctx e w)) = sw_gate w"
    using s by (auto simp: saveAuthoritative_def split: sum.split send_exn.split)
qed

lemma andThen_gate:
  "sw_gate (snd m) = x \<Longrightarrow> (\<And>a w. sw_gate w = x \<Longrightarrow> sw_gate (snd (k a w)) = x) \<Longrightarrow> sw_gate (snd (andThen m k)) = x"
  by (cases m; cases "fst m") (auto simp: andThen_def)

lemma ask_frames [simp]:
  "sw_sends (snd (ask_reconciliation ev now ctx reason e i w)) = sw_sends w"
  "sw_gate (snd (ask_reconciliation ev now ctx reason e i w)) = sw_gate w"
  by (simp_all add: ask_reconciliation_def Let_def andThen_sends andThen_gate)

lemma duplicate_frames [simp]:
  "sw_sends (snd (handleDuplicateSendIdempotency ev now ctx e i w)) = sw_sends w"
  "sw_gate (snd (handleDuplicateSendIdempotency ev now ctx e i w)) = sw_gate w"
  by (simp_all add: handleDuplicateSendIdempotency_def Let_def andThen_sends andThen_gate
      split: option.split idem_status.split)

lemma resolve_frames [simp]:
  "sw_sends (snd (resolveFromAuthoritativeState ev now ctx i w)) = sw_sends w"
  "sw_gate (snd (resolveFromAuthoritativeState ev now ctx i w)) = sw_gate w"
proof -
  have "sw_sends (snd (resolveFromAuthoritativeState ev now ctx i w)) = sw_sends w
      \<and> sw_gate (snd (resolveFromAuthoritativeState ev now ctx i w)) = sw_gate w"
  proof (cases "mx_load ctx (sw_execs w) i")
    case None
    then show ?thesis by (simp add: resolveFromAuthoritativeState_def)
  next
    case (Some e)
    obtain r w1 where h: "handleDuplicateSendIdempotency ev now ctx e i w = (r, w1)"
      by (cases "handleDuplicateSendIdempotency ev now ctx e i w")
    then have "sw_sends w1 = sw_sends w" "sw_gate w1 = sw_gate w" using duplicate_frames [of ev now ctx e i w] by simp_all
    then show ?thesis using Some h
      by (auto simp: resolveFromAuthoritativeState_def split: sum.split send_exn.split)
  qed
  then show "sw_sends (snd (resolveFromAuthoritativeState ev now ctx i w)) = sw_sends w"
    "sw_gate (snd (resolveFromAuthoritativeState ev now ctx i w)) = sw_gate w" by simp_all
qed

lemma advanceSequence_frames [simp]:
  "sw_sends (snd (advanceSequence dp ev now ctx s e w)) = sw_sends w"
  "sw_gate (snd (advanceSequence dp ev now ctx s e w)) = sw_gate w"
  by (simp_all add: advanceSequence_def Let_def andThen_sends andThen_gate
      split: sum.split prod.split js_exn.split result.split)

lemma handleAnswer_sends [simp]: "sw_sends (snd (handleAnswer dp ev now ctx s c e a w)) = sw_sends w"
  by (simp add: handleAnswer_def Let_def andThen_sends split: prod.split result.split)

lemma save_exec_key:
  "save_exec ctx e w = (Inr e2, w1) \<Longrightarrow> mx_idempotencyKey e2 = mx_idempotencyKey e \<and> aggId e2 = aggId e \<and> mx_status e2 = mx_status e
     \<and> mx_draft e2 = mx_draft e"
  by (auto simp: save_exec_def mx_save_def guarded_save_def setVersion_def Let_def split: sum.splits if_splits)

text \<open>A send contacts the provider at most once.\<close>

definition sent_one :: "'r send_deps \<Rightarrow> tenant_context \<Rightarrow> mex \<Rightarrow> string \<Rightarrow> 'r send_world \<Rightarrow> 'r send_world \<Rightarrow> bool" where
  "sent_one dp ctx e address w w' \<longleftrightarrow>
     (\<exists>req. sw_sends w' = sw_sends w @ [req] \<and> rq_idempotencyKey req = mx_idempotencyKey e \<and>
        rq_executionId req = aggId e \<and> rq_recipientAddress req = address \<and> rq_tenantId req = cx_tenantId ctx \<and>
        (open_entry (map_of (gw_idem (sw_gate w')) (cx_tenantId ctx, SEND_SCOPE, mx_idempotencyKey e))
           \<longrightarrow> (\<exists>a. sd_send dp (sw_sends w) req = Some a \<and> an_status a \<in> {PS_FAILED, PS_RATE_LIMITED})))"

lemma send_request_of_simps [simp]:
  "rq_idempotencyKey (send_request_of ctx c e address ch) = mx_idempotencyKey e"
  "rq_executionId (send_request_of ctx c e address ch) = aggId e"
  "rq_recipientAddress (send_request_of ctx c e address ch) = address"
  "rq_tenantId (send_request_of ctx c e address ch) = cx_tenantId ctx"
  by (simp_all add: send_request_of_def)

lemma completed_not_open:
  "\<not> open_entry (map_of (gw_idem (sw_gate (markIdempotencyCompleted now ctx e pm im w))) (cx_tenantId ctx, SEND_SCOPE, mx_idempotencyKey e))"
  using set_idem_entry [of now ctx "mx_idempotencyKey e"
      "JObj ((''submitted'', JBool True) # opt_field ''providerMessageId'' pm @ opt_field ''internetMessageId'' im)" ID_COMPLETED w]
  unfolding markIdempotencyCompleted_def by (auto simp: open_entry_def)

lemma failed_opens:
  "open_entry (map_of (gw_idem (sw_gate (markIdempotencyFailed now ctx e False reason w))) (cx_tenantId ctx, SEND_SCOPE, mx_idempotencyKey e))"
  using set_idem_entry [of now ctx "mx_idempotencyKey e" "JObj ((''submitted'', JBool False) # opt_field ''reason'' reason)" ID_FAILED w]
  unfolding markIdempotencyFailed_def by (auto simp: open_entry_def submitted_false_def)

lemma andThen_cases:
  obtains (threw) x w where "m = (Inl x, w)" "andThen m k = (Inl x, w)"
  | (went_on) a w where "m = (Inr a, w)" "andThen m k = k a w"
  by (cases m; cases "fst m") auto

lemma save_exec_gate: "save_exec ctx e w = (r, w1) \<Longrightarrow> sw_gate w1 = sw_gate w \<and> sw_sends w1 = sw_sends w"
  using save_frames(1,2) [of ctx e w] by simp

lemma save_camp_gate: "save_camp ctx c w = (r, w1) \<Longrightarrow> sw_gate w1 = sw_gate w \<and> sw_sends w1 = sw_sends w"
  using save_frames(3,4) [of ctx c w] by simp

lemma accepted_keeps_closed:
  assumes "\<not> open_entry (map_of (gw_idem (sw_gate w)) (cx_tenantId ctx, SEND_SCOPE, mx_idempotencyKey e2))"
  shows "\<not> open_entry (map_of (gw_idem (sw_gate (snd (andThen (save_exec ctx e2 w) (\<lambda>e3 w1.
      andThen (save_camp ctx c w1) (\<lambda>_ w2. advanceSequence dp ev now ctx s e3 (markIdempotencyCompleted now ctx e3 pm im w2)))))))
      (cx_tenantId ctx, SEND_SCOPE, mx_idempotencyKey e2))"
proof (cases "save_exec ctx e2 w")
  case (Pair r w1)
  note g = save_exec_gate [OF Pair]
  show ?thesis
  proof (cases r)
    case (Inl x)
    then show ?thesis using Pair g assms by simp
  next
    case (Inr e3)
    then have k: "mx_idempotencyKey e3 = mx_idempotencyKey e2" using Pair save_exec_key by blast
    obtain q w2 where q: "save_camp ctx c w1 = (q, w2)" by (cases "save_camp ctx c w1")
    note g2 = save_camp_gate [OF q]
    show ?thesis using assms g g2 k q Pair Inr completed_not_open [of now ctx e3 pm im w2] by (cases q) simp_all
  qed
qed

lemma handleAnswer_keeps_closed:
  assumes "\<not> open_entry (map_of (gw_idem (sw_gate w)) (cx_tenantId ctx, SEND_SCOPE, mx_idempotencyKey e))"
    and "an_status a \<notin> {PS_FAILED, PS_RATE_LIMITED}"
  shows "\<not> open_entry (map_of (gw_idem (sw_gate (snd (handleAnswer dp ev now ctx s c e a w)))) (cx_tenantId ctx, SEND_SCOPE, mx_idempotencyKey e))"
proof (cases "an_status a \<in> {PS_PROVIDER_ACCEPTED, PS_ACCEPTED, PS_DELIVERED}")
  case True
  obtain r e1 where m: "markProviderAccepted (an_providerMessageId a) (an_internetMessageId a) (an_providerErrorCode a)
      (cx_correlationId ctx) ev now e = (r, e1)" by fastforce
  have k: "mx_idempotencyKey (snd (markDeliveryPending (cx_correlationId ctx) ev now e1)) = mx_idempotencyKey e"
    using arg_cong [OF m, of "\<lambda>x. mx_idempotencyKey (snd x)"] by (simp add: markProviderAccepted_def markDeliveryPending_def)
  show ?thesis using True m assms(1)
      accepted_keeps_closed [of w ctx "snd (markDeliveryPending (cx_correlationId ctx) ev now e1)" c dp ev now s
         "an_providerMessageId a" "an_internetMessageId a"]
    unfolding handleAnswer_def Let_def k by (auto split: result.split)
next
  case False
  have "sw_gate (snd (handleAnswer dp ev now ctx s c e a w)) = sw_gate w"
    using assms(2) False by (simp add: handleAnswer_def Let_def andThen_gate)
  then show ?thesis using assms(1) by simp
qed

lemma sendAllowed_sends:
  assumes "\<not> open_entry (map_of (gw_idem (sw_gate w)) (cx_tenantId ctx, SEND_SCOPE, mx_idempotencyKey e))"
  shows "sw_sends (snd (sendAllowed dp ev now ctx s c e step address cost w)) = sw_sends w \<or>
     sent_one dp ctx e address w (snd (sendAllowed dp ev now ctx s c e step address cost w))"
proof (cases "sd_select dp ctx (st_channel step)")
  case None
  then show ?thesis by (simp add: sendAllowed_def Let_def andThen_sends)
next
  case (Some provider)
  show ?thesis
  proof (cases "markProviderAttempt provider now e")
    case (Inl x)
    then show ?thesis using Some by (simp add: sendAllowed_def)
  next
    case (Inr e1)
    then have k1: "mx_idempotencyKey e1 = mx_idempotencyKey e \<and> aggId e1 = aggId e"
      by (auto simp: markProviderAttempt_def split: if_splits)
    obtain r w1 where q: "save_exec ctx e1 w = (r, w1)" by (cases "save_exec ctx e1 w")
    note g = save_exec_gate [OF q]
    show ?thesis
    proof (cases r)
      case (Inl x)
      then show ?thesis using Some Inr q g by (simp add: sendAllowed_def)
    next
      case r: (Inr e2)
      then have k2: "mx_idempotencyKey e2 = mx_idempotencyKey e \<and> aggId e2 = aggId e" using q save_exec_key k1 by metis
      let ?req = "send_request_of ctx c e2 address (st_channel step)"
      let ?w2 = "w1\<lparr>sw_sends := sw_sends w1 @ [?req]\<rparr>"
      show ?thesis
      proof (cases "sd_send dp (sw_sends w1) ?req")
        case None
        then show ?thesis using Some Inr q r g k2 assms by (simp add: sendAllowed_def sent_one_def)
      next
        case a: (Some a)
        let ?c = "c\<lparr>cp_spentCostUsd := js_add (cp_spentCostUsd c) (js_sub (an_costUsd a) cost)\<rparr>"
        have "\<not> open_entry (map_of (gw_idem (sw_gate (snd (handleAnswer dp ev now ctx s ?c e2 a ?w2))))
                (cx_tenantId ctx, SEND_SCOPE, mx_idempotencyKey e2))"
          if "an_status a \<notin> {PS_FAILED, PS_RATE_LIMITED}"
          using handleAnswer_keeps_closed [of ?w2 ctx e2 a dp ev now s ?c] assms g k2 that by simp
        then show ?thesis using Some Inr q r g k2 a by (auto simp: sendAllowed_def sent_one_def)
      qed
    qed
  qed
qed

text \<open>The gate input of a call, from what it loaded.\<close>

definition send_input :: "'r send_deps \<Rightarrow> tenant_context \<Rightarrow> campaign \<Rightarrow> mex \<Rightarrow> sequence_step \<Rightarrow> string \<Rightarrow> string \<Rightarrow> gate_input" where
  "send_input dp ctx c e step address approvalId =
     \<lparr>gi_ctx = ctx, gi_campaign = c, gi_execution = e, gi_recipient = address, gi_approvalId = approvalId,
      gi_actionType = actionTypeForChannel (st_channel step), gi_cost = sd_cost dp (st_channel step)\<rparr>"

lemma send_input_simps [simp]:
  "gi_ctx (send_input dp ctx c e step address approvalId) = ctx"
  "gi_execution (send_input dp ctx c e step address approvalId) = e"
  by (simp_all add: send_input_def)

lemma gatedSend_sends:
  "sw_sends (snd (gatedSend dp ev now ctx s c e step address approvalId w)) = sw_sends w \<or>
   gate_passes (sd_gate dp) now (send_input dp ctx c e step address approvalId) (sw_gate w) \<and>
   sent_one dp ctx e address w (snd (gatedSend dp ev now ctx s c e step address approvalId w))"
proof -
  let ?inp = "send_input dp ctx c e step address approvalId"
  obtain d c1 g where h: "gate_evaluate (sd_gate dp) now ?inp (sw_gate w) = (d, c1, g)" by (metis prod_cases3)
  note h' = h [unfolded send_input_def]
  show ?thesis
  proof (cases d)
    case ALLOW
    then have p: "gate_passes (sd_gate dp) now ?inp (sw_gate w)" using h gate_allow_passes by (metis fst_conv)
    have closed: "\<not> open_entry (map_of (gw_idem g) (cx_tenantId ctx, SEND_SCOPE, mx_idempotencyKey e))"
      using gate_idem [of "sd_gate dp" now ?inp "sw_gate w"] h p
        pg_claim_facts(2) [OF gate_passes_open [OF p], of now] by (auto simp: open_entry_def)
    let ?w = "w\<lparr>sw_gate := g\<rparr>"
    have e: "gatedSend dp ev now ctx s c e step address approvalId w
        = sendAllowed dp ev now ctx s c1 e step address (sd_cost dp (st_channel step)) ?w"
      using h' ALLOW by (simp add: gatedSend_def Let_def)
    show ?thesis
      using sendAllowed_sends [of ?w ctx e dp ev now s c1 step address "sd_cost dp (st_channel step)"] closed p
      unfolding e by (auto simp: sent_one_def)
  next
    case (DENY code reason)
    then show ?thesis using h' by (simp add: gatedSend_def Let_def andThen_sends)
  next
    case (RETRY code reason wait)
    then show ?thesis using h' by (simp add: gatedSend_def Let_def andThen_sends)
  qed
qed

text \<open>The record at the gate is the loaded one, approved and in \<open>SENDING\<close>.\<close>

definition ready_to_send :: "mex \<Rightarrow> mex \<Rightarrow> bool" where
  "ready_to_send e e2 \<longleftrightarrow> mx_status e \<in> set [MX_PENDING_APPROVAL, MX_APPROVED, MX_SENDING] \<and> mx_status e2 = MX_SENDING \<and>
     mx_idempotencyKey e2 = mx_idempotencyKey e \<and> aggId e2 = aggId e \<and> tenantId e2 = tenantId e \<and>
     mx_draft e2 = mx_draft e \<and> mx_channel e2 = mx_channel e \<and> mx_stepNumber e2 = mx_stepNumber e"

lemma mx_transition_id [simp]:
  "aggId (snd (mx_transition to corr ev reason now e)) = aggId e"
  "tenantId (snd (mx_transition to corr ev reason now e)) = tenantId e"
  by (simp_all add: mx_transition_def applyEvent_def Let_def)

lemma prepared_ready:
  assumes "(if mx_status e = MX_PENDING_APPROVAL then mx_approve ap corr ev now e else (Ok (), e)) = (r1, e1)"
    and "(if mx_status e1 = MX_APPROVED then markSending corr ev now e1 else (Ok (), e1)) = (r2, e2)"
    and "mx_status e2 = MX_SENDING"
  shows "ready_to_send e e2"
proof -
  have 1: "mx_idempotencyKey e1 = mx_idempotencyKey e \<and> aggId e1 = aggId e \<and> tenantId e1 = tenantId e \<and> mx_draft e1 = mx_draft e
      \<and> mx_channel e1 = mx_channel e \<and> mx_stepNumber e1 = mx_stepNumber e
      \<and> (mx_status e1 \<in> {MX_APPROVED, MX_SENDING} \<longrightarrow> mx_status e \<in> set [MX_PENDING_APPROVAL, MX_APPROVED, MX_SENDING])"
    using arg_cong [OF assms(1), of snd] by (auto simp: mx_approve_def split: if_splits)
  have "mx_idempotencyKey e2 = mx_idempotencyKey e1 \<and> aggId e2 = aggId e1 \<and> tenantId e2 = tenantId e1 \<and> mx_draft e2 = mx_draft e1
      \<and> mx_channel e2 = mx_channel e1 \<and> mx_stepNumber e2 = mx_stepNumber e1
      \<and> (mx_status e2 = MX_SENDING \<longrightarrow> mx_status e1 \<in> {MX_APPROVED, MX_SENDING})"
    using arg_cong [OF assms(2), of snd] by (auto simp: markSending_def split: if_splits)
  with 1 assms(3) show ?thesis unfolding ready_to_send_def by auto
qed

lemma doExecute_sends:
  assumes "sw_sends (snd (doExecuteApprovedSend dp ev now ctx i ap w)) \<noteq> sw_sends w"
  obtains e e2 s c step address where "mx_load ctx (sw_execs w) i = Some e" "sq_load ctx (sw_seqs w) (mx_sequenceId e) = Some s"
    "cp_load ctx (sw_camps w) (mx_campaignId e) = Some c" "ready_to_send e e2"
    "List.find (\<lambda>st. st_stepNumber st = mx_stepNumber e2) (sq_steps s) = Some step"
    "recoverAndVerifyRecipient dp e2 = Some address"
    "doExecuteApprovedSend dp ev now ctx i ap w = gatedSend dp ev now ctx s c e2 step address ap w"
proof -
  let ?do = "doExecuteApprovedSend dp ev now ctx i ap w"
  obtain e where e: "mx_load ctx (sw_execs w) i = Some e" "ensureSameTenant ctx (tenantId e) = None"
    using assms by (auto simp: doExecuteApprovedSend_def split: option.splits if_splits)
  obtain s where s: "sq_load ctx (sw_seqs w) (mx_sequenceId e) = Some s" "ensureSameTenant ctx (tenantId s) = None"
    using assms e by (auto simp: doExecuteApprovedSend_def split: option.splits if_splits)
  obtain c where c: "cp_load ctx (sw_camps w) (mx_campaignId e) = Some c" "ensureSameTenant ctx (tenantId c) = None"
    using assms e s by (auto simp: doExecuteApprovedSend_def split: option.splits if_splits)
  have t: "\<not> isPositiveTerminal (mx_status e)" "\<not> isTerminalFailure (mx_status e)"
    using assms e s c by (auto simp: doExecuteApprovedSend_def split: if_splits)
  obtain r1 e1 where 1: "(if mx_status e = MX_PENDING_APPROVAL then mx_approve ap (cx_correlationId ctx) ev now e else (Ok (), e)) = (r1, e1)"
    by fastforce
  obtain r2 e2 where 2: "(if mx_status e1 = MX_APPROVED then markSending (cx_correlationId ctx) ev now e1 else (Ok (), e1)) = (r2, e2)"
    by fastforce
  have d: "?do = (case r1 of
         Fail err \<Rightarrow> (Inr (SR_FAILED i (mex_message err)), w)
       | Ok _ \<Rightarrow> (case r2 of
            Fail err \<Rightarrow> (Inr (SR_FAILED i (mex_message err)), w)
          | Ok _ \<Rightarrow>
              if mx_status e2 \<noteq> MX_SENDING
              then (Inr (SR_FAILED i (''Execution not ready to send: '' @ show_mex_status (mx_status e2))), w)
              else case List.find (\<lambda>st. st_stepNumber st = mx_stepNumber e2) (sq_steps s) of
                  None \<Rightarrow> (Inr (SR_FAILED i ''Step not found''), w)
                | Some step \<Rightarrow>
                    (case recoverAndVerifyRecipient dp e2 of
                       None \<Rightarrow> (Inr (SR_FAILED i ''Protected recipient recovery failed''), w)
                     | Some address \<Rightarrow> gatedSend dp ev now ctx s c e2 step address ap w)))"
    by (simp only: doExecuteApprovedSend_def e s c t 1 2 Let_def option.case prod.case simp_thms if_False)
  have st: "mx_status e2 = MX_SENDING" using assms unfolding d by (auto split: result.splits if_splits)
  obtain step where step: "List.find (\<lambda>st. st_stepNumber st = mx_stepNumber e2) (sq_steps s) = Some step"
    using assms unfolding d by (auto split: result.splits if_splits option.splits)
  obtain address where a: "recoverAndVerifyRecipient dp e2 = Some address"
    using assms unfolding d by (auto split: result.splits if_splits option.splits)
  have "?do = gatedSend dp ev now ctx s c e2 step address ap w"
    using assms unfolding d by (auto simp: st step a split: result.splits)
  with that e(1) s(1) c(1) prepared_ready [OF 1 2 st] step a show ?thesis by blast
qed

lemma execute_sends:
  assumes "sw_sends (snd (executeApprovedSend dp ev now ctx i ap w)) \<noteq> sw_sends w"
  obtains e e2 c step address where "mx_load ctx (sw_execs w) i = Some e"
    "cp_load ctx (sw_camps w) (mx_campaignId e) = Some c" "ready_to_send e e2"
    "recoverAndVerifyRecipient dp e2 = Some address"
    "gate_passes (sd_gate dp) now (send_input dp ctx c e2 step address ap) (sw_gate w)"
    "sent_one dp ctx e2 address w (snd (executeApprovedSend dp ev now ctx i ap w))"
proof -
  obtain r w1 where d: "doExecuteApprovedSend dp ev now ctx i ap w = (r, w1)" by fastforce
  have keep: "sw_sends (snd (executeApprovedSend dp ev now ctx i ap w)) = sw_sends w1 \<and>
      sw_gate (snd (executeApprovedSend dp ev now ctx i ap w)) = sw_gate w1"
    using d by (auto simp: executeApprovedSend_def split: sum.split send_exn.split)
  then have "sw_sends (snd (doExecuteApprovedSend dp ev now ctx i ap w)) \<noteq> sw_sends w" using assms d by simp
  then obtain e e2 s c step address where x: "mx_load ctx (sw_execs w) i = Some e"
    "cp_load ctx (sw_camps w) (mx_campaignId e) = Some c" "ready_to_send e e2"
    "recoverAndVerifyRecipient dp e2 = Some address"
    "doExecuteApprovedSend dp ev now ctx i ap w = gatedSend dp ev now ctx s c e2 step address ap w"
    by (rule doExecute_sends)
  have g: "gatedSend dp ev now ctx s c e2 step address ap w = (r, w1)" using x(5) d by (rule subst)
  have ne: "sw_sends w1 \<noteq> sw_sends w" using assms keep by simp
  from gatedSend_sends [of dp ev now ctx s c e2 step address ap w]
  have "gate_passes (sd_gate dp) now (send_input dp ctx c e2 step address ap) (sw_gate w)" "sent_one dp ctx e2 address w w1"
    unfolding g using ne by simp_all
  with that x keep show ?thesis unfolding sent_one_def by metis
qed

subsection \<open>Properties\<close>

text \<open>
  (C1) Nothing is sent unchecked: when \<open>executeApprovedSend\<close> hands a request to the provider, it
  hands over exactly one; its execution was stored, ready (awaiting approval, approved or
  sending) and belongs to the request; the address is the recovered recipient whose
  fingerprint was verified; and every check of the safety gate passed in the world before the
  call, among them the approval, the budget and the idempotency key being open.
\<close>

theorem send_requires_every_check:
  assumes "executeApprovedSend dp ev now ctx i ap w = (r, w')" and "sw_sends w' \<noteq> sw_sends w"
  shows "\<exists>e e2 c step req. mx_load ctx (sw_execs w) i = Some e \<and> ready_to_send e e2 \<and>
     cp_load ctx (sw_camps w) (mx_campaignId e) = Some c \<and>
     sw_sends w' = sw_sends w @ [req] \<and> rq_executionId req = aggId e \<and>
     rq_idempotencyKey req = mx_idempotencyKey e \<and> rq_tenantId req = cx_tenantId ctx \<and>
     recoverAndVerifyRecipient dp e2 = Some (rq_recipientAddress req) \<and>
     gate_passes (sd_gate dp) now (send_input dp ctx c e2 step (rq_recipientAddress req) ap) (sw_gate w)"
proof -
  have "sw_sends (snd (executeApprovedSend dp ev now ctx i ap w)) \<noteq> sw_sends w" using assms by simp
  then obtain e e2 c step address where x: "mx_load ctx (sw_execs w) i = Some e"
    "cp_load ctx (sw_camps w) (mx_campaignId e) = Some c" "ready_to_send e e2"
    "recoverAndVerifyRecipient dp e2 = Some address"
    "gate_passes (sd_gate dp) now (send_input dp ctx c e2 step address ap) (sw_gate w)"
    "sent_one dp ctx e2 address w w'"
    by (rule execute_sends) (use assms(1) in simp)
  moreover have "mx_idempotencyKey e2 = mx_idempotencyKey e" "aggId e2 = aggId e"
    using x(3) by (simp_all add: ready_to_send_def)
  ultimately show ?thesis unfolding sent_one_def by metis
qed

text \<open>
  (C2) With no other writer while the call runs, the idempotency key is taken after a call that
  sent, unless the provider itself answered that it failed or was rate limited. In particular it
  is taken when the answer is lost (the call throws), ambiguous or positive.
\<close>

theorem sent_key_reopens_only_on_refusal:
  assumes "executeApprovedSend dp ev now ctx i ap w = (r, w')" and "sw_sends w' = sw_sends w @ [req]"
    and "open_entry (map_of (gw_idem (sw_gate w')) (cx_tenantId ctx, SEND_SCOPE, rq_idempotencyKey req))"
  shows "\<exists>a. sd_send dp (sw_sends w) req = Some a \<and> an_status a \<in> {PS_FAILED, PS_RATE_LIMITED}"
proof -
  have "sw_sends (snd (executeApprovedSend dp ev now ctx i ap w)) \<noteq> sw_sends w" using assms by simp
  then obtain e2 address where "sent_one dp ctx e2 address w w'"
    by (rule execute_sends) (use assms(1) in simp)
  with assms(2,3) show ?thesis unfolding sent_one_def by force
qed

text \<open>
  A rate limited retry forgets a send in flight: when the gate answers \<open>RETRYABLE\<close>, the
  call overwrites the idempotency record of the key, whatever it was (a pending claim of
  an earlier attempt whose answer was lost included), with one that says nothing was
  submitted, and keeps the execution in \<open>SENDING\<close>: the key is open again for the next call.
\<close>

theorem rate_limited_retry_reopens_key:
  assumes "gate_evaluate (sd_gate dp) now (send_input dp ctx c e step address ap) (sw_gate w) = (RETRY code reason wait, c1, g)"
    and "mx_status e = MX_SENDING"
    and "gatedSend dp ev now ctx s c e step address ap w = (Inr res, w')"
  shows "res = SR_RETRYABLE (aggId e) (Some wait) \<and>
     open_entry (map_of (gw_idem (sw_gate w')) (cx_tenantId ctx, SEND_SCOPE, mx_idempotencyKey e)) \<and>
     (\<exists>e2 w1. save_exec ctx (snd (markFailed RATE_LIMITED reason None (cx_correlationId ctx) ev now e)) (w\<lparr>sw_gate := g\<rparr>)
          = (Inr e2, w1) \<and> mx_status e2 = MX_SENDING)"
proof -
  let ?e1 = "snd (markFailed RATE_LIMITED reason None (cx_correlationId ctx) ev now e)"
  have m: "mx_status ?e1 = MX_SENDING" "mx_idempotencyKey ?e1 = mx_idempotencyKey e" "aggId ?e1 = aggId e"
    using assms(2) by (simp_all add: markFailed_def Let_def)
  obtain q w1 where q: "save_exec ctx ?e1 (w\<lparr>sw_gate := g\<rparr>) = (q, w1)" by fastforce
  have d: "andThen (q, w1) (\<lambda>e2 w2. (Inr (SR_RETRYABLE (aggId e) (Some wait)), markIdempotencyFailed now ctx e2 False None w2)) = (Inr res, w')"
    using assms(3) assms(1) [unfolded send_input_def] q by (simp add: gatedSend_def Let_def)
  then obtain e2 where e2: "q = Inr e2" "res = SR_RETRYABLE (aggId e) (Some wait)" "w' = markIdempotencyFailed now ctx e2 False None w1"
    by (cases q) auto
  then have "mx_idempotencyKey e2 = mx_idempotencyKey e \<and> mx_status e2 = MX_SENDING" using q m save_exec_key by metis
  then show ?thesis using e2 q failed_opens [of now ctx e2 None w1] by auto
qed

subsection \<open>A message on its way, for the witnesses\<close>

definition sample_send_world :: "idem_table \<Rightarrow> unit send_world" where
  "sample_send_world t =
     \<lparr>sw_execs = [\<lparr>row_tenant = ''t'', row_workspace = Some ''w'', row_id = ''e1'',
        row_payload = sample_props\<lparr>mp_status := Some MX_SENDING, mp_draft := Some sample_draft\<rparr>, row_version = 4\<rparr>],
      sw_seqs = [\<lparr>row_tenant = ''t'', row_workspace = Some ''w'', row_id = ''s'',
        row_payload = sample_seq_props\<lparr>sp_status := Some SQ_RUNNING\<rparr>, row_version = 2\<rparr>],
      sw_camps = [\<lparr>row_tenant = ''t'', row_workspace = Some ''w'', row_id = ''c'',
        row_payload = sample_campaign_props, row_version = 1\<rparr>],
      sw_gate = \<lparr>gw_idem = t, gw_limiter = (), gw_audit = []\<rparr>, sw_sends = [], sw_decisions = []\<rparr>"

definition sample_send_deps :: "bool \<Rightarrow> send_answer option \<Rightarrow> unit send_deps" where
  "sample_send_deps limited a =
     \<lparr>sd_gate = sample_gate_deps\<lparr>gd_rateConfig :=
        (if limited then Some \<lparr>rc_perSecond = Some (Fin 1), rc_perMinute = None, rc_perHour = None, rc_perDay = None\<rparr> else None)\<rparr>,
      sd_select = (\<lambda>_ _. Some ''p''), sd_send = (\<lambda>_ _. a), sd_recover = (\<lambda>_ _. Some ''r''),
      sd_fingerprint = (\<lambda>_ _ _. Some ''h1.k1.x''), sd_cost = (\<lambda>_. Fin 1), sd_nextDue = (\<lambda>n d. n + d)\<rparr>"

definition sample_send_exec :: mex where
  "sample_send_exec = clearDomainEvents (setVersion 4 (mex_construct 0
     (sample_props\<lparr>mp_status := Some MX_SENDING, mp_draft := Some sample_draft\<rparr>)))"

definition sample_send_campaign :: campaign where
  "sample_send_campaign = clearDomainEvents (setVersion 1 (cp_construct 0 (sample_campaign_props\<lparr>cpp_id := Some ''c''\<rparr>)))"

lemma sample_send_exec_fields:
  "tenantId sample_send_exec = ''t''" "aggId sample_send_exec = ''e1''" "version sample_send_exec = 4"
  "loadedVersion sample_send_exec = Some 4" "mx_workspaceId sample_send_exec = ''w''"
  "mx_campaignId sample_send_exec = ''c''" "mx_sequenceId sample_send_exec = ''s''" "mx_stepNumber sample_send_exec = 1"
  "mx_status sample_send_exec = MX_SENDING" "mx_draft sample_send_exec = Some sample_draft"
  "mx_idempotencyKey sample_send_exec = ''key''" "mx_channel sample_send_exec = Email"
  "mx_recipientFingerprint sample_send_exec = Some ''h1.k1.x''" "mx_recipientCiphertext sample_send_exec = Some ''z''"
  "mx_recipientProtectionState sample_send_exec = PROTECTED" "mx_attempts sample_send_exec = 0"
  by (simp_all add: sample_send_exec_def mex_construct_def sample_props_def clearDomainEvents_def setVersion_def)

lemma sample_send_campaign_fields:
  "tenantId sample_send_campaign = ''t''" "cp_sentCount sample_send_campaign = Fin 0"
  "cp_spentCostUsd sample_send_campaign = Fin 0"
  "cp_budget sample_send_campaign = \<lparr>bu_maxSendCount = Some (Fin 2), bu_maxCostUsd = Some (Fin 10)\<rparr>"
  by (simp_all add: sample_send_campaign_def cp_construct_def sample_campaign_props_def clearDomainEvents_def setVersion_def)

lemma sample_loads:
  "mx_load sample_outreach_ctx (sw_execs (sample_send_world t)) ''e1'' = Some sample_send_exec"
  "cp_load sample_outreach_ctx (sw_camps (sample_send_world t)) ''c'' = Some sample_send_campaign"
  by (simp_all add: mx_load_def cp_load_def select_row_def sample_outreach_ctx_def row_is_def sample_send_world_def
      mx_restore_def mex_reconstitute_def sample_send_exec_def sample_props_def mex_construct_def
      cp_restore_def cp_reconstitute_def sample_send_campaign_def sample_campaign_props_def cp_construct_def
      clearDomainEvents_def setVersion_def)

lemma sample_recover: "recoverAndVerifyRecipient (sample_send_deps l a) sample_send_exec = Some ''r''"
  by (simp add: recoverAndVerifyRecipient_def sample_send_exec_fields sample_send_deps_def key_version_ok_def
      key_version_char_def Let_def)

lemma sample_do:
  "doExecuteApprovedSend (sample_send_deps l a) ev now sample_outreach_ctx ''e1'' ap (sample_send_world t) =
   gatedSend (sample_send_deps l a) ev now sample_outreach_ctx
     (the (sq_load sample_outreach_ctx (sw_seqs (sample_send_world t)) ''s'')) sample_send_campaign sample_send_exec
     (sample_seq_step 1) ''r'' ap (sample_send_world t)"
proof -
  obtain s where s: "sq_load sample_outreach_ctx (sw_seqs (sample_send_world t)) ''s'' = Some s" "tenantId s = ''t''"
      "sq_steps s = [sample_seq_step 1, sample_seq_step 2]"
    by (simp add: sq_load_def select_row_def sample_outreach_ctx_def row_is_def sample_send_world_def
      sq_restore_def seq_reconstitute_def seq_construct_def sample_seq_props_def clearDomainEvents_def setVersion_def)
  show ?thesis
    by (simp add: doExecuteApprovedSend_def sample_loads s sample_send_exec_fields sample_send_campaign_fields
        ensureSameTenant_def sample_outreach_ctx_def [THEN arg_cong, of cx_tenantId]
        isPositiveTerminal_def isTerminalFailure_def sample_recover Let_def sample_seq_step_def)
qed

lemma sample_deps_fields:
  "sd_cost (sample_send_deps l a) ch = Fin 1" "sd_select (sample_send_deps l a) ctx ch = Some ''p''"
  "sd_send (sample_send_deps l a) rs rq = a"
  by (simp_all add: sample_send_deps_def)

lemma sample_save:
  assumes "root_of e = root_of sample_send_exec" and "mx_workspaceId e = ''w''"
    and "sw_execs w = [\<lparr>row_tenant = ''t'', row_workspace = Some ''w'', row_id = ''e1'', row_payload = p, row_version = 4\<rparr>]"
  shows "save_exec sample_outreach_ctx e w = (Inr (setVersion 4 e), w\<lparr>sw_execs :=
    [\<lparr>row_tenant = ''t'', row_workspace = Some ''w'', row_id = ''e1'', row_payload = mx_snapshot e, row_version = 4\<rparr>]\<rparr>)"
proof -
  have "tenantId e = ''t''" "aggId e = ''e1''" "version e = 4" "loadedVersion e = Some 4"
    using assms(1) sample_send_exec_fields by (simp_all add: root_of_def)
  then show ?thesis using assms(2,3)
    by (simp add: save_exec_def mx_save_def guarded_save_def cas_write_def update_row_def row_is_def sample_outreach_ctx_def)
qed

lemma sample_passes:
  assumes "open_entry (map_of t (''t'', SEND_SCOPE, ''key''))"
  shows "gate_passes (sd_gate (sample_send_deps False a)) now
    (send_input (sample_send_deps False a) sample_outreach_ctx sample_send_campaign sample_send_exec (sample_seq_step 1) ''r'' ap)
    (sw_gate (sample_send_world t))"
  using assms
  by (simp add: gate_passes_def send_input_def sample_send_world_def sample_send_deps_def sample_gate_deps_def
      sample_outreach_ctx_def sample_send_campaign_fields sample_send_exec_fields checkRateLimits_def recordSpend_def
      over_budget_def blank_draft_def sample_draft_def js_trim_def js_space_def)

lemma sample_limited:
  "\<exists>reason g. gate_evaluate (sd_gate (sample_send_deps True a)) now
    (send_input (sample_send_deps True a) sample_outreach_ctx sample_send_campaign sample_send_exec (sample_seq_step 1) ''r'' ap)
    (sw_gate (sample_send_world t)) = (RETRY REDIS_UNAVAILABLE reason (Fin 0), sample_send_campaign, g)"
  by (simp add: gate_evaluate_def send_input_def sample_send_world_def sample_send_deps_def sample_gate_deps_def
      sample_outreach_ctx_def sample_send_campaign_fields sample_send_exec_fields checkRateLimits_def gate_windows_def Let_def)

lemma sample_attempt:
  assumes "open_entry (map_of t (''t'', SEND_SCOPE, ''key''))"
  shows "\<exists>s c e2 w1 req. root_of e2 = root_of sample_send_exec \<and> mx_workspaceId e2 = ''w'' \<and> mx_idempotencyKey e2 = ''key'' \<and>
     mx_status e2 = MX_SENDING \<and> sw_sends w1 = [req] \<and> rq_idempotencyKey req = ''key'' \<and>
     (\<exists>p. sw_execs w1 = [\<lparr>row_tenant = ''t'', row_workspace = Some ''w'', row_id = ''e1'', row_payload = p, row_version = 4\<rparr>]) \<and>
     doExecuteApprovedSend (sample_send_deps False a) ev now sample_outreach_ctx ''e1'' ap (sample_send_world t) =
       (case a of None \<Rightarrow> (Inl OtherExn, w1)
        | Some x \<Rightarrow> handleAnswer (sample_send_deps False a) ev now sample_outreach_ctx s c e2 x w1)"
proof -
  let ?dp = "sample_send_deps False a" and ?ctx = sample_outreach_ctx
  obtain c1 g where g: "gate_evaluate (sd_gate ?dp) now
      (send_input ?dp ?ctx sample_send_campaign sample_send_exec (sample_seq_step 1) ''r'' ap) (sw_gate (sample_send_world t))
      = (ALLOW, c1, g)"
    using sample_passes [OF assms, of a now ap] gate_allow_passes by (metis prod.collapse)
  obtain s where s: "the (sq_load ?ctx (sw_seqs (sample_send_world t)) ''s'') = s" by blast
  define e1 where "e1 = sample_send_exec\<lparr>mx_providerId := Some ''p'', mx_attempts := mx_attempts sample_send_exec + 1, mx_updatedAt := now\<rparr>"
  have a: "markProviderAttempt ''p'' now sample_send_exec = Inr e1"
    by (simp add: markProviderAttempt_def sample_send_exec_fields e1_def)
  let ?w = "(sample_send_world t)\<lparr>sw_gate := g\<rparr>"
  have r: "root_of e1 = root_of sample_send_exec" "mx_workspaceId e1 = ''w''" "mx_idempotencyKey e1 = ''key''" "mx_status e1 = MX_SENDING"
    by (simp_all add: e1_def sample_send_exec_fields)
  obtain p where x: "sw_execs ?w = [\<lparr>row_tenant = ''t'', row_workspace = Some ''w'', row_id = ''e1'', row_payload = p, row_version = 4\<rparr>]"
    by (simp add: sample_send_world_def)
  note v = sample_save [OF r(1,2) x]
  have e2: "setVersion 4 e1 = e1" using r(1) sample_send_exec_fields by (simp add: root_of_def setVersion_def)
  define w1 where "w1 = ?w\<lparr>sw_execs := [\<lparr>row_tenant = ''t'', row_workspace = Some ''w'', row_id = ''e1'',
      row_payload = mx_snapshot e1, row_version = 4\<rparr>]\<rparr>"
  have w1: "sw_sends w1 = []" by (simp add: w1_def sample_send_world_def)
  let ?req = "send_request_of ?ctx c1 e1 ''r'' Email"
  let ?w2 = "w1\<lparr>sw_sends := [?req]\<rparr>"
  have "doExecuteApprovedSend ?dp ev now ?ctx ''e1'' ap (sample_send_world t)
      = sendAllowed ?dp ev now ?ctx s c1 sample_send_exec (sample_seq_step 1) ''r'' (Fin 1) ?w"
    using g [unfolded send_input_def] by (simp add: sample_do s gatedSend_def Let_def sample_deps_fields)
  also have "\<dots> = (case a of None \<Rightarrow> (Inl OtherExn, ?w2)
      | Some x \<Rightarrow> handleAnswer ?dp ev now ?ctx s
          (c1\<lparr>cp_spentCostUsd := js_add (cp_spentCostUsd c1) (js_sub (an_costUsd x) (Fin 1))\<rparr>) e1 x ?w2)"
    using v a w1
    by (simp add: sendAllowed_def Let_def sample_deps_fields sample_seq_step_def e2 w1_def [symmetric] split: option.split)
  finally show ?thesis using r
    by (intro exI [of _ s] exI [of _ "c1\<lparr>cp_spentCostUsd := js_add (cp_spentCostUsd c1) (js_sub (an_costUsd (the a)) (Fin 1))\<rparr>"]
        exI [of _ e1] exI [of _ ?w2] exI [of _ ?req]) (auto simp: w1_def split: option.split)
qed

lemma sample_lost_send:
  "\<exists>w' req. executeApprovedSend (sample_send_deps False None) ''v'' 9 sample_outreach_ctx ''e1'' ''a'' (sample_send_world [])
     = (Inl OtherExn, w') \<and> sw_sends w' = [req] \<and> rq_idempotencyKey req = ''key''"
  using sample_attempt [of "[]" None "''v''" 9 "''a''"] by (auto simp: open_entry_def executeApprovedSend_def)

definition sample_refused :: send_answer where
  "sample_refused = \<lparr>an_providerMessageId = None, an_internetMessageId = None, an_status = PS_RATE_LIMITED,
     an_retryClassification = None, an_retryAfterMs = None, an_providerErrorCode = None, an_providerErrorMessage = None,
     an_costUsd = Fin 0\<rparr>"

lemma retryable_failure_save:
  assumes "root_of e = root_of sample_send_exec" and "mx_workspaceId e = ''w''" and "mx_status e = MX_SENDING"
    and "sw_execs w = [\<lparr>row_tenant = ''t'', row_workspace = Some ''w'', row_id = ''e1'', row_payload = p, row_version = 4\<rparr>]"
  shows "\<exists>e2 w1. save_exec sample_outreach_ctx (snd (markFailed RATE_LIMITED reason code corr ev now e)) w = (Inr e2, w1)
     \<and> mx_idempotencyKey e2 = mx_idempotencyKey e \<and> sw_sends w1 = sw_sends w"
proof -
  define e1 where "e1 = snd (markFailed RATE_LIMITED reason code corr ev now e)"
  have "root_of e1 = root_of sample_send_exec" "mx_workspaceId e1 = ''w''" "mx_idempotencyKey e1 = mx_idempotencyKey e"
    using assms(1-3) by (simp_all add: e1_def markFailed_def Let_def)
  then show ?thesis using sample_save [of e1 w, OF _ _ assms(4)] by (auto simp: e1_def [symmetric] setVersion_def)
qed

lemma sample_refused_send:
  "\<exists>res w' req. executeApprovedSend (sample_send_deps False (Some sample_refused)) ''v'' 9 sample_outreach_ctx ''e1'' ''a'' (sample_send_world [])
     = (Inr res, w') \<and> sw_sends w' = [req] \<and> rq_idempotencyKey req = ''key''
       \<and> open_entry (map_of (gw_idem (sw_gate w')) (''t'', SEND_SCOPE, ''key''))"
proof -
  let ?dp = "sample_send_deps False (Some sample_refused)" and ?ctx = sample_outreach_ctx
  have o: "open_entry (map_of [] (''t'', SEND_SCOPE, ''key''))" by (simp add: open_entry_def)
  obtain s c e w1 req p where x: "root_of e = root_of sample_send_exec" "mx_workspaceId e = ''w''" "mx_idempotencyKey e = ''key''"
    "mx_status e = MX_SENDING" "sw_sends w1 = [req]" "rq_idempotencyKey req = ''key''"
    "sw_execs w1 = [\<lparr>row_tenant = ''t'', row_workspace = Some ''w'', row_id = ''e1'', row_payload = p, row_version = 4\<rparr>]"
    "doExecuteApprovedSend ?dp ''v'' 9 ?ctx ''e1'' ''a'' (sample_send_world []) = handleAnswer ?dp ''v'' 9 ?ctx s c e sample_refused w1"
    using sample_attempt [OF o, of "Some sample_refused" "''v''" 9 "''a''"] by auto
  obtain e2 w2 where s: "save_exec ?ctx (snd (markFailed RATE_LIMITED ''Rate limited'' None (cx_correlationId ?ctx) ''v'' 9 e)) w1 = (Inr e2, w2)"
    "mx_idempotencyKey e2 = ''key''" "sw_sends w2 = [req]"
    using retryable_failure_save [OF x(1,2,4,7)] x(3,5) by metis
  have "handleAnswer ?dp ''v'' 9 ?ctx s c e sample_refused w1
      = (Inr (SR_RETRYABLE (aggId e) (Some (Fin 60000))), markIdempotencyFailed 9 ?ctx e2 False None w2)"
    using s(1) by (simp add: handleAnswer_def sample_refused_def Let_def)
  moreover have "open_entry (map_of (gw_idem (sw_gate (markIdempotencyFailed 9 ?ctx e2 False None w2))) (''t'', SEND_SCOPE, ''key''))"
    using failed_opens [of 9 ?ctx e2 None w2] s(2) by (simp add: sample_outreach_ctx_def)
  ultimately show ?thesis using x(6,8) s(3) by (simp add: executeApprovedSend_def)
qed

definition sample_pending :: idem_table where
  "sample_pending = snd (pg_claim 0 sample_outreach_ctx SEND_SCOPE ''key'' [])"

lemma sample_pending_retry:
  "\<exists>reason g res w'. gate_evaluate (sd_gate (sample_send_deps True None)) 9
      (send_input (sample_send_deps True None) sample_outreach_ctx sample_send_campaign sample_send_exec (sample_seq_step 1) ''r'' ''a'')
      (sw_gate (sample_send_world sample_pending)) = (RETRY REDIS_UNAVAILABLE reason (Fin 0), sample_send_campaign, g)
    \<and> gatedSend (sample_send_deps True None) ''v'' 9 sample_outreach_ctx s sample_send_campaign sample_send_exec
        (sample_seq_step 1) ''r'' ''a'' (sample_send_world sample_pending) = (Inr res, w')"
proof -
  let ?dp = "sample_send_deps True None" and ?w = "sample_send_world sample_pending"
  obtain reason g where g: "gate_evaluate (sd_gate ?dp) 9
      (send_input ?dp sample_outreach_ctx sample_send_campaign sample_send_exec (sample_seq_step 1) ''r'' ''a'') (sw_gate ?w)
      = (RETRY REDIS_UNAVAILABLE reason (Fin 0), sample_send_campaign, g)"
    using sample_limited by blast
  obtain p where x: "sw_execs (?w\<lparr>sw_gate := g\<rparr>) = [\<lparr>row_tenant = ''t'', row_workspace = Some ''w'', row_id = ''e1'', row_payload = p, row_version = 4\<rparr>]"
    by (simp add: sample_send_world_def)
  obtain e2 w1 where "save_exec sample_outreach_ctx
      (snd (markFailed RATE_LIMITED reason None (cx_correlationId sample_outreach_ctx) ''v'' 9 sample_send_exec)) (?w\<lparr>sw_gate := g\<rparr>) = (Inr e2, w1)"
    using retryable_failure_save [OF refl sample_send_exec_fields(5,9) x] by metis
  then show ?thesis using g g [unfolded send_input_def] by (simp add: gatedSend_def Let_def)
qed

theorem send_requires_every_check_witness:
  "\<exists>w' e2 c step req. executeApprovedSend (sample_send_deps False None) ''v'' 9 sample_outreach_ctx ''e1'' ''a'' (sample_send_world [])
     = (Inl OtherExn, w') \<and> ready_to_send sample_send_exec e2 \<and> sw_sends w' = [req] \<and> rq_idempotencyKey req = ''key'' \<and>
     gate_passes (sd_gate (sample_send_deps False None)) 9
       (send_input (sample_send_deps False None) sample_outreach_ctx c e2 step (rq_recipientAddress req) ''a'')
       (sw_gate (sample_send_world []))"
proof -
  obtain w' req where s: "executeApprovedSend (sample_send_deps False None) ''v'' 9 sample_outreach_ctx ''e1'' ''a'' (sample_send_world [])
     = (Inl OtherExn, w')" "sw_sends w' = [req]"
    using sample_lost_send by blast
  have n: "sw_sends (sample_send_world []) = []" by (simp add: sample_send_world_def)
  from send_requires_every_check [OF s(1)] show ?thesis
    using s n sample_send_exec_fields by (auto simp: sample_loads)
qed

theorem sent_key_reopens_only_on_refusal_witness:
  "\<exists>res w' req a. executeApprovedSend (sample_send_deps False (Some sample_refused)) ''v'' 9 sample_outreach_ctx ''e1'' ''a'' (sample_send_world [])
     = (Inr res, w') \<and> sw_sends w' = [req] \<and>
     sd_send (sample_send_deps False (Some sample_refused)) [] req = Some a \<and> an_status a \<in> {PS_FAILED, PS_RATE_LIMITED}"
proof -
  obtain res w' req where s: "executeApprovedSend (sample_send_deps False (Some sample_refused)) ''v'' 9 sample_outreach_ctx ''e1'' ''a''
      (sample_send_world []) = (Inr res, w')" "sw_sends w' = [req]" "rq_idempotencyKey req = ''key''"
      "open_entry (map_of (gw_idem (sw_gate w')) (''t'', SEND_SCOPE, ''key''))"
    using sample_refused_send by blast
  have n: "sw_sends (sample_send_world []) = []" by (simp add: sample_send_world_def)
  have t: "cx_tenantId sample_outreach_ctx = ''t''" by (simp add: sample_outreach_ctx_def)
  from sent_key_reopens_only_on_refusal [OF s(1), of req] show ?thesis
    using s n t by simp
qed

theorem rate_limited_retry_reopens_key_witness:
  "\<exists>s reason g res w' r. map_of sample_pending (''t'', SEND_SCOPE, ''key'') = Some r \<and> id_status r = ID_PENDING \<and>
     gatedSend (sample_send_deps True None) ''v'' 9 sample_outreach_ctx s sample_send_campaign sample_send_exec
        (sample_seq_step 1) ''r'' ''a'' (sample_send_world sample_pending) = (Inr res, w') \<and>
     open_entry (map_of (gw_idem (sw_gate w')) (''t'', SEND_SCOPE, ''key''))"
proof -
  obtain q :: sequence and reason g res w' where s: "gate_evaluate (sd_gate (sample_send_deps True None)) 9
      (send_input (sample_send_deps True None) sample_outreach_ctx sample_send_campaign sample_send_exec (sample_seq_step 1) ''r'' ''a'')
      (sw_gate (sample_send_world sample_pending)) = (RETRY REDIS_UNAVAILABLE reason (Fin 0), sample_send_campaign, g)"
    "gatedSend (sample_send_deps True None) ''v'' 9 sample_outreach_ctx q sample_send_campaign sample_send_exec
        (sample_seq_step 1) ''r'' ''a'' (sample_send_world sample_pending) = (Inr res, w')"
    using sample_pending_retry by blast
  have t: "cx_tenantId sample_outreach_ctx = ''t''" by (simp add: sample_outreach_ctx_def)
  have "\<exists>r. map_of sample_pending (''t'', SEND_SCOPE, ''key'') = Some r \<and> id_status r = ID_PENDING"
    using pg_claim_facts(2) [of "[]" sample_outreach_ctx SEND_SCOPE "''key''" 0] by (auto simp: sample_pending_def open_entry_def t)
  moreover have "open_entry (map_of (gw_idem (sw_gate w')) (''t'', SEND_SCOPE, ''key''))"
    using rate_limited_retry_reopens_key [OF s(1) sample_send_exec_fields(9) s(2)] by (simp add: t sample_send_exec_fields)
  ultimately show ?thesis using s(2) by blast
qed

text \<open>
  Calling again on an execution that has left the outbox changes nothing: when the stored
  status is past submission or a failure, \<open>executeApprovedSend\<close> leaves the tables, the
  idempotency records and the requests as they were.
\<close>

theorem finished_execution_not_touched:
  assumes "mx_load ctx (sw_execs w) i = Some e"
    and "mx_status e \<notin> {MX_PENDING, MX_DRAFTING, MX_PENDING_APPROVAL, MX_APPROVED, MX_SENDING}"
  shows "snd (executeApprovedSend dp ev now ctx i ap w) = w"
proof -
  have "isPositiveTerminal (mx_status e) \<or> isTerminalFailure (mx_status e)"
    using assms(2) by (cases "mx_status e") (simp_all add: isPositiveTerminal_def isTerminalFailure_def)
  then have "\<exists>r. doExecuteApprovedSend dp ev now ctx i ap w = (r, w) \<and> r \<noteq> Inl ConflictExn"
    using assms(1) by (auto simp: doExecuteApprovedSend_def split: option.split)
  then show ?thesis by (auto simp: executeApprovedSend_def split: sum.split send_exn.split)
qed

theorem finished_execution_not_touched_witness:
  "\<exists>e. mx_load sample_outreach_ctx [\<lparr>row_tenant = ''t'', row_workspace = Some ''w'', row_id = ''e1'',
       row_payload = sample_props\<lparr>mp_status := Some MX_DELIVERED\<rparr>, row_version = 4\<rparr>] ''e1'' = Some e \<and>
     mx_status e = MX_DELIVERED \<and>
     snd (executeApprovedSend (sample_send_deps False None) ''v'' 9 sample_outreach_ctx ''e1'' ''a''
       ((sample_send_world [])\<lparr>sw_execs := [\<lparr>row_tenant = ''t'', row_workspace = Some ''w'', row_id = ''e1'',
          row_payload = sample_props\<lparr>mp_status := Some MX_DELIVERED\<rparr>, row_version = 4\<rparr>]\<rparr>))
     = (sample_send_world [])\<lparr>sw_execs := [\<lparr>row_tenant = ''t'', row_workspace = Some ''w'', row_id = ''e1'',
          row_payload = sample_props\<lparr>mp_status := Some MX_DELIVERED\<rparr>, row_version = 4\<rparr>]\<rparr>"
proof -
  let ?r = "[\<lparr>row_tenant = ''t'', row_workspace = Some ''w'', row_id = ''e1'',
       row_payload = sample_props\<lparr>mp_status := Some MX_DELIVERED\<rparr>, row_version = 4\<rparr>]"
  obtain e where e: "mx_load sample_outreach_ctx ?r ''e1'' = Some e" "mx_status e = MX_DELIVERED"
    by (simp add: mx_load_def select_row_def sample_outreach_ctx_def row_is_def mx_restore_def mex_reconstitute_def
        mex_construct_def clearDomainEvents_def setVersion_def)
  then show ?thesis
    using finished_execution_not_touched [of sample_outreach_ctx "(sample_send_world [])\<lparr>sw_execs := ?r\<rparr>" "''e1''" e] by simp
qed

text \<open>
  Reconciliation decides only what is undecided, and finally: \<open>reconcile\<close> changes nothing
  unless the stored execution is in \<open>DELIVERY_UNKNOWN\<close> or \<open>REQUIRES_RECONCILIATION\<close>; when it
  succeeds the idempotency key is taken for good and the decision is recorded, and it never
  contacts the provider.
\<close>

theorem reconcile_final:
  "(case reconcile ev now ctx i d operator reason pm w of
      (Inr None, w') \<Rightarrow>
        \<exists>e. mx_load ctx (sw_execs w) i = Some e \<and> mx_status e \<in> {MX_DELIVERY_UNKNOWN, MX_REQUIRES_RECONCILIATION} \<and>
          \<not> open_entry (map_of (gw_idem (sw_gate w')) (cx_tenantId ctx, SEND_SCOPE, mx_idempotencyKey e)) \<and>
          sw_decisions w' = sw_decisions w @ [(i, d, operator)] \<and> sw_sends w' = sw_sends w
    | (_, w') \<Rightarrow> w' = w)"
proof (cases "mx_load ctx (sw_execs w) i")
  case None
  then show ?thesis by (simp add: reconcile_def)
next
  case (Some e)
  show ?thesis
  proof (cases "mx_status e \<in> {MX_DELIVERY_UNKNOWN, MX_REQUIRES_RECONCILIATION}")
    case False
    then show ?thesis using Some by (simp add: reconcile_def)
  next
    case True
    define e1 where "e1 = (case d of RD_DELIVERED \<Rightarrow> snd (markReconciledDelivered pm (cx_correlationId ctx) ev now e)
        | RD_FAILED \<Rightarrow> snd (markReconciledFailed reason (cx_correlationId ctx) ev now e))"
    define r where "r = (case d of
        RD_DELIVERED \<Rightarrow> (JObj ((''submitted'', JBool True) # opt_field ''providerMessageId'' pm), ID_COMPLETED)
      | RD_FAILED \<Rightarrow> (JObj [(''submitted'', JBool True), (''reason'', JStr (''Operator reconciled as failed: '' @ reason))], ID_FAILED))"
    have k: "mx_idempotencyKey e1 = mx_idempotencyKey e"
      by (simp add: e1_def markReconciledDelivered_def markReconciledFailed_def applyEvent_def Let_def split: reconciliation_decision.split)
    obtain q w1 where q: "save_exec ctx e1 w = (q, w1)" by fastforce
    have w1: "q = Inl x \<Longrightarrow> w1 = w" for x using q by (auto simp: save_exec_def split: sum.splits)
    have f: "sw_sends w1 = sw_sends w" "sw_decisions w1 = sw_decisions w"
      using q by (auto simp: save_exec_def split: sum.splits)
    have d: "reconcile ev now ctx i d operator reason pm w =
        andThen (q, w1) (\<lambda>e2 w1. (Inr None, (set_idem now ctx (mx_idempotencyKey e2) (fst r) (snd r) w1)
          \<lparr>sw_decisions := sw_decisions w1 @ [(i, d, operator)]\<rparr>))"
      using Some True q by (auto simp: reconcile_def e1_def r_def Let_def case_prod_beta)
    show ?thesis
    proof (cases q)
      case (Inl x)
      then show ?thesis using d w1 by simp
    next
      case (Inr e2)
      have "\<not> open_entry (map_of (gw_idem (sw_gate (set_idem now ctx (mx_idempotencyKey e2) (fst r) (snd r) w1)))
          (cx_tenantId ctx, SEND_SCOPE, mx_idempotencyKey e2))"
        using set_idem_entry [of now ctx "mx_idempotencyKey e2" "fst r" "snd r" w1]
        by (cases d) (auto simp: open_entry_def r_def submitted_false_def)
      moreover have "mx_idempotencyKey e2 = mx_idempotencyKey e" using q Inr k save_exec_key by metis
      ultimately show ?thesis using d Inr Some True f by simp
    qed
  qed
qed

text \<open>
  A failed personalization is never retried: \<open>reject\<close> is refused in \<open>DRAFTING\<close> and its
  refusal is ignored, so the execution is stored in \<open>DRAFTING\<close> without a draft; every later
  \<open>prepareDraft\<close> for the step finds it by its key and reports \<open>AWAITING_APPROVAL\<close>, whatever
  the personalization would answer.
\<close>

theorem failed_draft_awaits_approval:
  assumes "prepareDraft (Fail msg) fresh ev now ctx sid w = (res, w')" and "w' \<noteq> w"
  shows "res = Inr (DR_FAILED msg) \<and>
     (\<exists>e action. e \<in> set (map mx_restore (sw_execs w')) \<and> mx_status e = MX_DRAFTING \<and> mx_draft e = None \<and>
        prepareDraft p fresh' ev' now' ctx sid w' = (Inr (DR_AWAITING_APPROVAL (aggId e) action), w'))"
proof -
  obtain s where s: "sq_load ctx (sw_seqs w) sid = Some s" "ensureSameTenant ctx (tenantId s) = None"
    using assms by (auto simp: prepareDraft_def Let_def split: option.splits if_splits)
  obtain c where c: "cp_load ctx (sw_camps w) (sq_campaignId s) = Some c"
    using assms s by (auto simp: prepareDraft_def Let_def split: option.splits)
  obtain step where st: "js_at (sq_steps s) (sq_currentStepIndex s) = Some step"
    using assms s c by (auto simp: prepareDraft_def Let_def split: option.splits)
  obtain key where k: "makeSendIdempotencyKey ctx c s step = Some key"
    using assms s c st by (auto simp: prepareDraft_def Let_def split: option.splits)
  have n: "mx_findByIdempotencyKey ctx (sw_execs w) key = None"
    using assms s c st k by (auto simp: prepareDraft_def Let_def split: option.splits)
  have "mex_create fresh now (draft_props ctx s c step key) (cx_correlationId ctx) ev \<noteq> Inl x" for x
    using assms s c st k n by (auto simp: prepareDraft_def Let_def)
  then obtain e0 where e0: "mex_create fresh now (draft_props ctx s c step key) (cx_correlationId ctx) ev = Inr e0"
    by (metis obj_sumE)
  have run: "andThen (save_exec ctx (snd (mx_reject (''Personalization failed: '' @ msg) (cx_correlationId ctx) ev now
         (snd (startDrafting (cx_correlationId ctx) ev now e0)))) w) (\<lambda>_ w1. (Inr (DR_FAILED msg), w1)) = (res, w')"
    using assms(1) s c st k n e0 by (simp add: prepareDraft_def Let_def)
  define e1 where "e1 = snd (startDrafting (cx_correlationId ctx) ev now e0)"
  have f: "mx_status e1 = MX_DRAFTING \<and> mx_draft e1 = None \<and> mx_idempotencyKey e1 = key \<and> loadedVersion e1 = None"
  proof -
    have "mx_status e0 = MX_PENDING" "loadedVersion e0 = None" using mex_create_facts(4,5) [OF e0] by simp_all
    moreover have "mx_draft e0 = None" "mx_idempotencyKey e0 = key"
      using e0 by (auto simp: mex_create_def draft_props_def mex_construct_def applyEvent_def Let_def split: if_splits option.splits)
    ultimately show ?thesis
      by (simp add: e1_def startDrafting_def mx_transition_def canTransitionMessageExecution_def applyEvent_def Let_def)
  qed
  have rj: "snd (mx_reject r corr ev now e1) = e1" for r corr using f by (simp add: mx_reject_def)
  have run': "andThen (save_exec ctx e1 w) (\<lambda>_ w1. (Inr (DR_FAILED msg), w1)) = (res, w')"
    using run rj by (simp add: e1_def)
  obtain e2 rows where sv: "mx_save ctx e1 (sw_execs w) = Inr (e2, rows)" "w' = w\<lparr>sw_execs := rows\<rparr>" "res = Inr (DR_FAILED msg)"
    using run' assms(2) by (auto simp: save_exec_def split: sum.splits)
  define row where "row = \<lparr>row_tenant = cx_tenantId ctx, row_workspace = cx_workspaceId ctx, row_id = aggId e1,
      row_payload = mx_snapshot e1, row_version = version e1\<rparr>"
  have rows: "rows = sw_execs w @ [row]" "Some (mx_workspaceId e1) = cx_workspaceId ctx"
    using sv(1) f by (auto simp: mx_save_def guarded_save_def cas_write_def insert_row_def row_def split: sum.splits if_splits option.splits)
  have r: "mx_status (mx_restore row) = MX_DRAFTING" "mx_draft (mx_restore row) = None"
    using f by (simp_all add: row_def mx_restore_def mx_snapshot_def mex_reconstitute_def mex_construct_def
        clearDomainEvents_def setVersion_def)
  have key: "mp_idempotencyKey (mx_snapshot e1) = key" using f by (simp add: mx_snapshot_def)
  have "mx_findByIdempotencyKey ctx rows key = Some (mx_restore row)"
  proof -
    have "List.find P (xs @ [x]) = Some x" if "List.find P xs = None" "P x" for P and xs :: "mex_props db_row list" and x
      using that by (induction xs) (auto split: if_splits)
    then show ?thesis using n rows(1) rows(2) [symmetric] key by (simp add: mx_findByIdempotencyKey_def row_def)
  qed
  then have "prepareDraft p fresh' ev' now' ctx sid w'
      = (Inr (DR_AWAITING_APPROVAL (aggId (mx_restore row)) (actionTypeForChannel (st_channel step))), w')"
    using s c st k sv(2) by (simp add: prepareDraft_def Let_def)
  moreover have "mx_restore row \<in> set (map mx_restore (sw_execs w'))" using sv(2) rows(1) by simp
  ultimately show ?thesis using r sv(3) by blast
qed

lemma sample_failed_draft:
  "\<exists>w'. prepareDraft (Fail ''down'') ''f'' ''v'' 9 sample_outreach_ctx ''s'' ((sample_send_world [])\<lparr>sw_execs := []\<rparr>)
      = (Inr (DR_FAILED ''down''), w') \<and> w' \<noteq> (sample_send_world [])\<lparr>sw_execs := []\<rparr>"
  by (simp add: prepareDraft_def sample_send_world_def sample_outreach_ctx_def sq_load_def cp_load_def select_row_def
      row_is_def sq_restore_def seq_reconstitute_def seq_construct_def sample_seq_props_def clearDomainEvents_def
      setVersion_def ensureSameTenant_def cp_restore_def cp_reconstitute_def cp_construct_def sample_campaign_props_def
      js_at_def makeSendIdempotencyKey_def mx_findByIdempotencyKey_def Let_def mex_create_def draft_props_def
      assertProtectedRecipientSnapshot_def assertProtectedRecipient_def mex_construct_def applyEvent_def
      startDrafting_def mx_reject_def mx_transition_def canTransitionMessageExecution_def save_exec_def mx_save_def
      guarded_save_def cas_write_def insert_row_def)

theorem failed_draft_awaits_approval_witness:
  "\<exists>w' i action. prepareDraft (Fail ''down'') ''f'' ''v'' 9 sample_outreach_ctx ''s'' ((sample_send_world [])\<lparr>sw_execs := []\<rparr>)
      = (Inr (DR_FAILED ''down''), w') \<and>
     prepareDraft (Ok (''m'', sample_draft)) ''f2'' ''v2'' 10 sample_outreach_ctx ''s'' w'
      = (Inr (DR_AWAITING_APPROVAL i action), w')"
proof -
  obtain w' where w': "prepareDraft (Fail ''down'') ''f'' ''v'' 9 sample_outreach_ctx ''s'' ((sample_send_world [])\<lparr>sw_execs := []\<rparr>)
      = (Inr (DR_FAILED ''down''), w')" "w' \<noteq> (sample_send_world [])\<lparr>sw_execs := []\<rparr>"
    using sample_failed_draft by blast
  from failed_draft_awaits_approval [OF w', of "Ok (''m'', sample_draft)" "''f2''" "''v2''" 10] w'(1)
  show ?thesis by blast
qed

end
