(* ===== verification/BudgetLedger.thy ===== *)
theory BudgetLedger
  imports Prelude
begin

section \<open>The execution budget ledger\<close>

text \<open>
  \<open>packages/llm-gateway/src/execution-budget-ledger.ts\<close>: charges per execution and attempt, held
  against a budget of money and tokens. The interface \<open>IExecutionBudgetLedger\<close> is the locale
  \<open>budget_ledger\<close>: what is held, and how each operation changes it. In it, a run of attempts
  is proved to stay within the budget as long as what providers report stays within what was
  estimated. \<open>InMemoryExecutionBudgetLedger\<close> is its interpretation.
\<close>

record charge =
  ch_costUsd :: jsnum
  ch_tokens :: jsnum

record budget_limit =
  bl_maxCostUsd :: jsnum
  bl_maxTokens :: jsnum

type_synonym ledger = "(string \<times> (string \<times> charge) list) list"

definition lg_bucket :: "string \<Rightarrow> ledger \<Rightarrow> (string \<times> charge) list" where
  "lg_bucket ex l = nullish (map_of l ex) []"

text \<open>The two loops of \<open>getAccumulated\<close> over the charges.\<close>

definition add_charge :: "charge \<Rightarrow> charge \<Rightarrow> charge" where
  "add_charge a c = \<lparr>ch_costUsd = js_add (ch_costUsd a) (ch_costUsd c), ch_tokens = js_add (ch_tokens a) (ch_tokens c)\<rparr>"

definition sum_charges :: "charge list \<Rightarrow> charge" where
  "sum_charges cs = foldl add_charge \<lparr>ch_costUsd = Fin 0, ch_tokens = Fin 0\<rparr> cs"

definition getAccumulated :: "string \<Rightarrow> ledger \<Rightarrow> charge" where
  "getAccumulated ex l = sum_charges (map snd (lg_bucket ex l))"

definition set_charge :: "string \<Rightarrow> string \<Rightarrow> charge \<Rightarrow> ledger \<Rightarrow> ledger" where
  "set_charge ex key c l = am_set ex (am_set key c (lg_bucket ex l)) l"

definition fits :: "charge \<Rightarrow> charge \<Rightarrow> budget_limit \<Rightarrow> bool" where
  "fits acc est b \<longleftrightarrow> \<not> js_lt (bl_maxCostUsd b) (js_add (ch_costUsd acc) (ch_costUsd est)) \<and>
     \<not> js_lt (bl_maxTokens b) (js_add (ch_tokens acc) (ch_tokens est))"

definition tryReserve :: "string \<Rightarrow> string \<Rightarrow> charge \<Rightarrow> budget_limit \<Rightarrow> ledger \<Rightarrow> bool \<times> ledger" where
  "tryReserve ex key est b l =
     (if \<not> fits (getAccumulated ex l) est b then (False, l) else (True, set_charge ex key est l))"

definition commitActual :: "string \<Rightarrow> string \<Rightarrow> charge \<Rightarrow> ledger \<Rightarrow> ledger" where
  "commitActual ex key c l = set_charge ex key c l"

definition release :: "string \<Rightarrow> string \<Rightarrow> ledger \<Rightarrow> ledger" where
  "release ex key l = (case map_of l ex of None \<Rightarrow> l | Some b \<Rightarrow> am_set ex (am_delete key b) l)"

definition retain :: "string \<Rightarrow> string \<Rightarrow> ledger \<Rightarrow> ledger" where
  "retain ex key l = l"

subsection \<open>The contract\<close>

text \<open>A charge as two exact numbers, for charges that are finite.\<close>

fun fin :: "jsnum \<Rightarrow> rat" where
  "fin (Fin a) = a"
| "fin _ = 0"

definition sane :: "charge \<Rightarrow> bool" where
  "sane c \<longleftrightarrow> js_isFinite (ch_costUsd c) \<and> js_isFinite (ch_tokens c) \<and> 0 \<le> fin (ch_costUsd c) \<and> 0 \<le> fin (ch_tokens c)"

definition below :: "charge \<Rightarrow> charge \<Rightarrow> bool" where
  "below a b \<longleftrightarrow> js_le (ch_costUsd a) (ch_costUsd b) \<and> js_le (ch_tokens a) (ch_tokens b)"

definition within_limit :: "charge \<Rightarrow> budget_limit \<Rightarrow> bool" where
  "within_limit c b \<longleftrightarrow> js_le (ch_costUsd c) (bl_maxCostUsd b) \<and> js_le (ch_tokens c) (bl_maxTokens b)"

text \<open>How an attempt ends: with its usage known, not submitted, or submitted with unknown usage.\<close>

datatype attempt_end = Commit charge | Release | Retain

locale budget_ledger =
  fixes inv :: "'s \<Rightarrow> bool"
    and held :: "'s \<Rightarrow> string \<Rightarrow> string \<Rightarrow> charge option"
    and total :: "'s \<Rightarrow> string \<Rightarrow> charge"
    and reserve :: "string \<Rightarrow> string \<Rightarrow> charge \<Rightarrow> budget_limit \<Rightarrow> 's \<Rightarrow> bool \<times> 's"
    and settle :: "string \<Rightarrow> string \<Rightarrow> attempt_end \<Rightarrow> 's \<Rightarrow> 's"
  assumes reserve_iff: "fst (reserve ex k e b s) \<longleftrightarrow> fits (total s ex) e b"
    and refused_same: "\<not> fits (total s ex) e b \<Longrightarrow> snd (reserve ex k e b s) = s"
    and reserve_held: "fits (total s ex) e b \<Longrightarrow> held (snd (reserve ex k e b s)) = (held s)(ex := (held s ex)(k \<mapsto> e))"
    and settle_held: "held (settle ex k x s) = (held s)(ex := (case x of
          Commit c \<Rightarrow> (held s ex)(k \<mapsto> c) | Release \<Rightarrow> (held s ex)(k := None) | Retain \<Rightarrow> held s ex))"
    and held_finite: "finite (dom (held s ex))"
    and total_held: "inv s \<Longrightarrow> \<forall>c \<in> ran (held s ex). sane c \<Longrightarrow> sane (total s ex) \<and>
          fin (ch_costUsd (total s ex)) = (\<Sum>k \<in> dom (held s ex). fin (ch_costUsd (the (held s ex k)))) \<and>
          fin (ch_tokens (total s ex)) = (\<Sum>k \<in> dom (held s ex). fin (ch_tokens (the (held s ex k))))"
    and inv_reserve: "inv s \<Longrightarrow> inv (snd (reserve ex k e b s))"
    and inv_settle: "inv s \<Longrightarrow> inv (settle ex k x s)"
begin

text \<open>Attempts of one execution, one after the other; a refused one is not made.\<close>

fun run :: "string \<Rightarrow> budget_limit \<Rightarrow> (string \<times> charge \<times> attempt_end) list \<Rightarrow> 's \<Rightarrow> 's" where
  "run ex b [] s = s"
| "run ex b ((k, e, x) # as) s =
     (if fst (reserve ex k e b s) then run ex b as (settle ex k x (snd (reserve ex k e b s)))
      else run ex b as (snd (reserve ex k e b s)))"

definition clean :: "'s \<Rightarrow> string \<Rightarrow> bool" where
  "clean s ex \<longleftrightarrow> inv s \<and> (\<forall>c \<in> ran (held s ex). sane c)"

end

text \<open>What an attempt may cost more than was estimated for it.\<close>

fun sane_end :: "attempt_end \<Rightarrow> bool" where
  "sane_end (Commit c) = sane c"
| "sane_end _ = True"

fun over_estimate :: "(charge \<Rightarrow> jsnum) \<Rightarrow> charge \<Rightarrow> attempt_end \<Rightarrow> rat" where
  "over_estimate f e (Commit c) = max 0 (fin (f c) - fin (f e))"
| "over_estimate f e _ = 0"

lemma over_estimate_nonneg: "0 \<le> over_estimate f e x"
  by (cases x) auto

text \<open>Changing one entry of a finite map of nonnegative numbers.\<close>

lemma sum_dom_at:
  fixes g :: "charge \<Rightarrow> rat"
  assumes "finite (dom m)"
  shows "(\<Sum>k' \<in> dom m. g (the (m k'))) = (case m k of None \<Rightarrow> 0 | Some d \<Rightarrow> g d) + (\<Sum>k' \<in> dom m - {k}. g (the (m k')))"
proof (cases "m k")
  case None
  then have "dom m - {k} = dom m" by auto
  then show ?thesis using None by simp
next
  case (Some d)
  then have "k \<in> dom m" by auto
  then show ?thesis using sum.remove [OF assms, of k "\<lambda>k'. g (the (m k'))"] Some by simp
qed

lemma sum_dom_upd:
  fixes g :: "charge \<Rightarrow> rat"
  assumes "finite (dom m)"
  shows "(\<Sum>k' \<in> dom (m(k \<mapsto> c)). g (the ((m(k \<mapsto> c)) k'))) =
     (\<Sum>k' \<in> dom m. g (the (m k'))) - (case m k of None \<Rightarrow> 0 | Some d \<Rightarrow> g d) + g c"
proof -
  have "(\<Sum>k' \<in> dom m - {k}. g (the ((m(k \<mapsto> c)) k'))) = (\<Sum>k' \<in> dom m - {k}. g (the (m k')))"
    by (rule sum.cong) auto
  then have "(\<Sum>k' \<in> dom (m(k \<mapsto> c)). g (the ((m(k \<mapsto> c)) k'))) = g c + (\<Sum>k' \<in> dom m - {k}. g (the (m k')))"
    using assms by (simp add: sum.insert_remove)
  moreover have "(\<Sum>k' \<in> dom m. g (the (m k'))) = (case m k of None \<Rightarrow> 0 | Some d \<Rightarrow> g d) + (\<Sum>k' \<in> dom m - {k}. g (the (m k')))"
    using assms by (rule sum_dom_at)
  ultimately show ?thesis by simp
qed

lemma sum_dom_delete:
  fixes g :: "charge \<Rightarrow> rat"
  assumes "finite (dom m)"
  shows "(\<Sum>k' \<in> dom (m(k := None)). g (the ((m(k := None)) k'))) =
     (\<Sum>k' \<in> dom m. g (the (m k'))) - (case m k of None \<Rightarrow> 0 | Some d \<Rightarrow> g d)"
proof -
  have "(\<Sum>k' \<in> dom m - {k}. g (the ((m(k := None)) k'))) = (\<Sum>k' \<in> dom m - {k}. g (the (m k')))"
    by (rule sum.cong) auto
  moreover have "(\<Sum>k' \<in> dom m. g (the (m k'))) = (case m k of None \<Rightarrow> 0 | Some d \<Rightarrow> g d) + (\<Sum>k' \<in> dom m - {k}. g (the (m k')))"
    using assms by (rule sum_dom_at)
  ultimately show ?thesis by simp
qed

lemma ran_upd_all: "(\<forall>c \<in> ran m. P c) \<Longrightarrow> P d \<Longrightarrow> (\<forall>c \<in> ran (m(k \<mapsto> d)). P c)"
  by (auto simp: ran_def split: if_splits)

lemma ran_delete_all: "(\<forall>c \<in> ran m. P c) \<Longrightarrow> (\<forall>c \<in> ran (m(k := None)). P c)"
  by (auto simp: ran_def split: if_splits)

definition costs_or_tokens :: "(charge \<Rightarrow> jsnum) \<Rightarrow> (budget_limit \<Rightarrow> jsnum) \<Rightarrow> bool" where
  "costs_or_tokens f m \<longleftrightarrow> f = ch_costUsd \<and> m = bl_maxCostUsd \<or> f = ch_tokens \<and> m = bl_maxTokens"

lemma sane_measure: "costs_or_tokens f m \<Longrightarrow> sane c \<Longrightarrow> f c = Fin (fin (f c)) \<and> 0 \<le> fin (f c)"
  by (auto simp: costs_or_tokens_def sane_def js_isFinite_iff)

context budget_ledger
begin

lemma spent_held:
  "costs_or_tokens f m \<Longrightarrow> clean s ex \<Longrightarrow> fin (f (total s ex)) = (\<Sum>k \<in> dom (held s ex). fin (f (the (held s ex k))))"
  using total_held [of s ex] by (auto simp: clean_def costs_or_tokens_def)

lemma clean_reserve:
  "clean s ex \<Longrightarrow> sane e \<Longrightarrow> clean (snd (reserve ex k e b s)) ex"
proof (cases "fits (total s ex) e b")
  case True
  assume "clean s ex" and "sane e"
  then show ?thesis using True ran_upd_all [of "held s ex" sane e k] by (simp add: clean_def reserve_held inv_reserve)
next
  case False
  assume "clean s ex"
  then show ?thesis using False by (simp add: refused_same)
qed

lemma clean_settle:
  assumes "clean s ex" and "sane_end x"
  shows "clean (settle ex k x s) ex"
  using assms ran_upd_all [of "held s ex" sane] ran_delete_all [of "held s ex" sane]
  by (cases x) (auto simp: clean_def settle_held inv_settle)

text \<open>An accepted attempt leaves at most the limit and what it cost more than estimated.\<close>

lemma accepted_within:
  assumes fm: "costs_or_tokens f m" and c: "clean s ex" and e: "sane e" and x: "sane_end x"
    and a: "fst (reserve ex k e b s)" and L: "m b = Fin L"
  shows "fin (f (total (settle ex k x (snd (reserve ex k e b s))) ex)) \<le> L + over_estimate f e x"
proof -
  let ?s = "snd (reserve ex k e b s)" and ?g = "\<lambda>c. fin (f c)"
  let ?old = "case held s ex k of None \<Rightarrow> 0 | Some d \<Rightarrow> ?g d"
  have ft: "fits (total s ex) e b" using a reserve_iff by blast
  have ts: "sane (total s ex)" using total_held c by (simp add: clean_def)
  have room: "?g (total s ex) + ?g e \<le> L"
  proof -
    have "f (total s ex) = Fin (?g (total s ex))" "f e = Fin (?g e)" using sane_measure [OF fm] ts e by blast+
    then show ?thesis using ft L fm unfolding fits_def costs_or_tokens_def
      by (metis js_add.simps(1) js_lt.simps(1) not_le)
  qed
  have old: "0 \<le> ?old"
    using c sane_measure [OF fm] by (auto simp: clean_def ranI split: option.split)
  have cs: "clean ?s ex" using clean_reserve [OF c e] .
  have h: "held ?s ex = (held s ex)(k \<mapsto> e)" using reserve_held [OF ft] by simp
  have r: "?g (total ?s ex) = ?g (total s ex) - ?old + ?g e"
    using spent_held [OF fm cs] spent_held [OF fm c] sum_dom_upd [OF held_finite [of s ex], of ?g k e] h by simp
  have ct: "clean (settle ex k x ?s) ex" using clean_settle [OF cs x] .
  have e0: "0 \<le> ?g e" using sane_measure [OF fm e] by blast
  show ?thesis
  proof (cases x)
    case (Commit d)
    have "?g (total (settle ex k x ?s) ex) = ?g (total ?s ex) - ?g e + ?g d"
      using spent_held [OF fm ct] spent_held [OF fm cs] sum_dom_upd [OF held_finite [of ?s ex], of ?g k d] h
        settle_held [of ex k x ?s] Commit by simp
    then show ?thesis using r room old Commit by simp
  next
    case Release
    have "?g (total (settle ex k x ?s) ex) = ?g (total ?s ex) - ?g e"
      using spent_held [OF fm ct] spent_held [OF fm cs] sum_dom_delete [OF held_finite [of ?s ex], of ?g k] h
        settle_held [of ex k x ?s] Release by simp
    then show ?thesis using r room old e0 Release by simp
  next
    case Retain
    have "?g (total (settle ex k x ?s) ex) = ?g (total ?s ex)"
      using spent_held [OF fm ct] spent_held [OF fm cs] settle_held [of ex k x ?s] Retain by simp
    then show ?thesis using r room old Retain by simp
  qed
qed

lemma run_within:
  assumes fm: "costs_or_tokens f m" and L: "m b = Fin L"
  shows "clean s ex \<Longrightarrow> list_all (\<lambda>(k, e, x). sane e \<and> sane_end x \<and> over_estimate f e x \<le> M) as \<Longrightarrow> 0 \<le> M \<Longrightarrow>
    clean (run ex b as s) ex \<and> fin (f (total (run ex b as s) ex)) \<le> max (fin (f (total s ex))) (L + M)"
proof (induction as arbitrary: s)
  case (Cons a as)
  obtain k e x where a: "a = (k, e, x)" by (cases a)
  have p: "sane e" "sane_end x" "over_estimate f e x \<le> M" using Cons.prems(2) a by auto
  show ?case
  proof (cases "fst (reserve ex k e b s)")
    case True
    let ?t = "settle ex k x (snd (reserve ex k e b s))"
    have "clean ?t ex" using clean_settle [OF clean_reserve] Cons.prems(1) p by blast
    moreover have "fin (f (total ?t ex)) \<le> L + M"
      using accepted_within [OF fm Cons.prems(1) p(1,2) True L] p(3) by linarith
    ultimately show ?thesis using Cons.IH [of ?t] Cons.prems(2,3) True a by auto
  next
    case False
    then have "snd (reserve ex k e b s) = s" using refused_same reserve_iff by blast
    then show ?thesis using Cons.IH [of s] Cons.prems False a by simp
  qed
qed simp

end

subsection \<open>The in-memory ledger keeps the contract\<close>

text \<open>The keys of both maps are distinct.\<close>

definition lg_ok :: "ledger \<Rightarrow> bool" where
  "lg_ok l \<longleftrightarrow> list_all (\<lambda>(ex, b). distinct (map fst b)) l"

definition lg_held :: "ledger \<Rightarrow> string \<Rightarrow> string \<Rightarrow> charge option" where
  "lg_held l ex = map_of (lg_bucket ex l)"

definition lg_total :: "ledger \<Rightarrow> string \<Rightarrow> charge" where
  "lg_total l ex = getAccumulated ex l"

fun lg_settle :: "string \<Rightarrow> string \<Rightarrow> attempt_end \<Rightarrow> ledger \<Rightarrow> ledger" where
  "lg_settle ex key (Commit c) l = commitActual ex key c l"
| "lg_settle ex key Release l = release ex key l"
| "lg_settle ex key Retain l = retain ex key l"

lemma sane_foldl:
  "list_all sane cs \<Longrightarrow> sane acc \<Longrightarrow> sane (foldl add_charge acc cs) \<and>
     fin (ch_costUsd (foldl add_charge acc cs)) = fin (ch_costUsd acc) + (\<Sum>c \<leftarrow> cs. fin (ch_costUsd c)) \<and>
     fin (ch_tokens (foldl add_charge acc cs)) = fin (ch_tokens acc) + (\<Sum>c \<leftarrow> cs. fin (ch_tokens c))"
proof (induction cs arbitrary: acc)
  case (Cons c cs)
  then have "sane (add_charge acc c)" "fin (ch_costUsd (add_charge acc c)) = fin (ch_costUsd acc) + fin (ch_costUsd c)"
    "fin (ch_tokens (add_charge acc c)) = fin (ch_tokens acc) + fin (ch_tokens c)"
    by (auto simp: add_charge_def sane_def js_isFinite_iff)
  then show ?case using Cons.IH [of "add_charge acc c"] Cons.prems by simp
qed simp

lemma sum_dom_map_of:
  fixes g :: "charge \<Rightarrow> rat"
  shows "distinct (map fst xs) \<Longrightarrow> (\<Sum>k \<in> dom (map_of xs). g (the (map_of xs k))) = (\<Sum>c \<leftarrow> map snd xs. g c)"
proof (induction xs)
  case (Cons x xs)
  have n: "map_of xs (fst x) = None" using Cons.prems by (simp add: map_of_eq_None_iff)
  show ?case using Cons.IH Cons.prems n sum_dom_upd [OF finite_dom_map_of [of xs], of g "fst x" "snd x"]
    by (cases x) (simp del: fun_upd_apply add: comp_def)
qed simp

lemma list_all_am_set: "list_all P m \<Longrightarrow> P (k, v) \<Longrightarrow> list_all P (am_set k v m)"
  by (induction m) auto

lemma lg_ok_bucket: "lg_ok l \<Longrightarrow> distinct (map fst (lg_bucket ex l))"
  by (cases "map_of l ex") (auto simp: lg_ok_def lg_bucket_def list_all_iff dest!: map_of_SomeD)

lemma lg_ok_set: "lg_ok l \<Longrightarrow> lg_ok (set_charge ex k c l)"
  using lg_ok_bucket [of l ex] distinct_am_set [of "lg_bucket ex l" k c]
  by (auto simp: lg_ok_def set_charge_def intro!: list_all_am_set)

lemma lg_ok_release: "lg_ok l \<Longrightarrow> lg_ok (release ex k l)"
  using lg_ok_bucket [of l ex] distinct_am_delete [of "lg_bucket ex l" k]
  by (auto simp: lg_ok_def release_def lg_bucket_def intro!: list_all_am_set split: option.split)

lemma lg_held_set: "lg_held (set_charge ex k c l) = (lg_held l)(ex := (lg_held l ex)(k \<mapsto> c))"
  by (rule ext) (simp add: lg_held_def lg_bucket_def set_charge_def)

lemma lg_held_release: "lg_held (release ex k l) = (lg_held l)(ex := (lg_held l ex)(k := None))"
  by (rule ext) (auto simp: lg_held_def lg_bucket_def release_def split: option.split)

interpretation lg: budget_ledger lg_ok lg_held lg_total tryReserve lg_settle
proof unfold_locales
  fix ex k :: string and e :: charge and b :: budget_limit and s :: ledger and x :: attempt_end
  show "fst (tryReserve ex k e b s) \<longleftrightarrow> fits (lg_total s ex) e b"
    by (simp add: tryReserve_def lg_total_def)
  show "\<not> fits (lg_total s ex) e b \<Longrightarrow> snd (tryReserve ex k e b s) = s"
    by (simp add: tryReserve_def lg_total_def)
  show "fits (lg_total s ex) e b \<Longrightarrow> lg_held (snd (tryReserve ex k e b s)) = (lg_held s)(ex := (lg_held s ex)(k \<mapsto> e))"
    by (simp add: tryReserve_def lg_total_def lg_held_set)
  show "lg_held (lg_settle ex k x s) = (lg_held s)(ex := (case x of
          Commit c \<Rightarrow> (lg_held s ex)(k \<mapsto> c) | Release \<Rightarrow> (lg_held s ex)(k := None) | Retain \<Rightarrow> lg_held s ex))"
    by (cases x) (simp_all add: commitActual_def lg_held_set lg_held_release retain_def)
  show "finite (dom (lg_held s ex))" by (simp add: lg_held_def finite_dom_map_of)
  show "lg_ok s \<Longrightarrow> \<forall>c \<in> ran (lg_held s ex). sane c \<Longrightarrow> sane (lg_total s ex) \<and>
          fin (ch_costUsd (lg_total s ex)) = (\<Sum>k \<in> dom (lg_held s ex). fin (ch_costUsd (the (lg_held s ex k)))) \<and>
          fin (ch_tokens (lg_total s ex)) = (\<Sum>k \<in> dom (lg_held s ex). fin (ch_tokens (the (lg_held s ex k))))"
  proof -
    assume o: "lg_ok s" and a: "\<forall>c \<in> ran (lg_held s ex). sane c"
    note d = lg_ok_bucket [OF o, of ex]
    have "list_all sane (map snd (lg_bucket ex s))"
      using a d by (auto simp: list_all_iff lg_held_def ran_distinct)
    moreover have "sane \<lparr>ch_costUsd = Fin 0, ch_tokens = Fin 0\<rparr>" by (simp add: sane_def)
    ultimately show ?thesis
      using sane_foldl [of "map snd (lg_bucket ex s)" "\<lparr>ch_costUsd = Fin 0, ch_tokens = Fin 0\<rparr>"]
        sum_dom_map_of [OF d, of "\<lambda>c. fin (ch_costUsd c)"] sum_dom_map_of [OF d, of "\<lambda>c. fin (ch_tokens c)"]
      by (simp add: lg_total_def getAccumulated_def sum_charges_def lg_held_def)
  qed
  show "lg_ok s \<Longrightarrow> lg_ok (snd (tryReserve ex k e b s))" by (simp add: tryReserve_def lg_ok_set)
  show "lg_ok s \<Longrightarrow> lg_ok (lg_settle ex k x s)"
    by (cases x) (simp_all add: commitActual_def lg_ok_set lg_ok_release retain_def)
qed

subsection \<open>Properties\<close>

text \<open>
  (C25) Spending is bounded, in cost and in tokens: for an execution whose held charges are finite and not
  negative, any sequence of attempts with finite charges that are not negative, each reserved and then committed, released or
  retained before the following one, holds at most the larger of what was held before and the limit plus
  \<open>M\<close> (\<open>N\<close> for the tokens), where \<open>M\<close> bounds what one attempt may cost more than its estimate. The
  overshoots do not add up. Reservations that overlap are not covered.
\<close>

theorem ledger_spending_bounded:
  assumes "lg_ok l" and "list_all sane (map snd (lg_bucket ex l))" and "bl_maxCostUsd b = Fin L" and "bl_maxTokens b = Fin T"
    and "list_all (\<lambda>(k, e, x). sane e \<and> sane_end x \<and> over_estimate ch_costUsd e x \<le> M \<and> over_estimate ch_tokens e x \<le> N) as"
    and "0 \<le> M" and "0 \<le> N"
  shows "fin (ch_costUsd (getAccumulated ex (lg.run ex b as l))) \<le> max (fin (ch_costUsd (getAccumulated ex l))) (L + M) \<and>
    fin (ch_tokens (getAccumulated ex (lg.run ex b as l))) \<le> max (fin (ch_tokens (getAccumulated ex l))) (T + N)"
proof -
  have c: "lg.clean l ex" using assms(1,2) lg_ok_bucket [OF assms(1), of ex]
    by (auto simp: lg.clean_def lg_held_def ran_distinct list_all_iff)
  have a: "list_all (\<lambda>(k, e, x). sane e \<and> sane_end x \<and> over_estimate ch_costUsd e x \<le> M) as"
    "list_all (\<lambda>(k, e, x). sane e \<and> sane_end x \<and> over_estimate ch_tokens e x \<le> N) as"
    using assms(5) by (auto simp: list_all_iff)
  show ?thesis
    using lg.run_within [where f = ch_costUsd and m = bl_maxCostUsd and s = l and ex = ex and b = b, OF _ assms(3) c a(1) assms(6)] 
      lg.run_within [where f = ch_tokens and m = bl_maxTokens and s = l and ex = ex and b = b, OF _ assms(4) c a(2) assms(7)]
    by (simp add: costs_or_tokens_def lg_total_def)
qed

theorem ledger_spending_bounded_witness:
  "let l = lg.run ''e'' \<lparr>bl_maxCostUsd = Fin 5, bl_maxTokens = Fin 100\<rparr>
      [(''a'', \<lparr>ch_costUsd = Fin 3, ch_tokens = Fin 10\<rparr>, Commit \<lparr>ch_costUsd = Fin 4, ch_tokens = Fin 12\<rparr>),
       (''b'', \<lparr>ch_costUsd = Fin 3, ch_tokens = Fin 10\<rparr>, Retain)] []
   in fin (ch_costUsd (getAccumulated ''e'' l)) \<le> 6 \<and> fin (ch_tokens (getAccumulated ''e'' l)) \<le> 102"
  using ledger_spending_bounded [of "[]" "''e''" "\<lparr>bl_maxCostUsd = Fin 5, bl_maxTokens = Fin 100\<rparr>" 5 100 1 2
      "[(''a'', \<lparr>ch_costUsd = Fin 3, ch_tokens = Fin 10\<rparr>, Commit \<lparr>ch_costUsd = Fin 4, ch_tokens = Fin 12\<rparr>),
       (''b'', \<lparr>ch_costUsd = Fin 3, ch_tokens = Fin 10\<rparr>, Retain)]"]
  by (simp add: lg_ok_def lg_bucket_def sane_def getAccumulated_def sum_charges_def)

text \<open>
  A charge of unknown usage can be forgotten: the reservation of a submitted attempt whose
  usage is unknown is retained, but a later attempt under the same key (the router builds keys
  from a call id that its caller may repeat) overwrites it, and when that attempt is released
  the execution holds what it held before the first one.
\<close>

theorem repeated_key_forgets_retained_charge:
  assumes "map_of (lg_bucket ex l) key = None" and "fits (getAccumulated ex l) est b"
    and "fits (getAccumulated ex (snd (tryReserve ex key est b l))) est' b"
  shows "getAccumulated ex (release ex key (snd (tryReserve ex key est' b
      (retain ex key (snd (tryReserve ex key est b l)))))) = getAccumulated ex l"
proof -
  have n: "key \<notin> fst ` set (lg_bucket ex l)" using assms(1) by (simp add: map_of_eq_None_iff)
  have s: "am_set key y (xs @ [(key, x)]) = xs @ [(key, y)]" if "key \<notin> fst ` set xs"
    for x y :: charge and xs
    using that by (induction xs) auto
  have "am_delete key (lg_bucket ex l @ [(key, est')]) = lg_bucket ex l"
    using n by (induction "lg_bucket ex l") (auto simp: am_delete_def filter_id_conv)
  then show ?thesis
    using assms(2,3) am_set_new [OF n, of est] s [OF n, of est' est]
    by (simp add: tryReserve_def retain_def set_charge_def lg_bucket_def release_def getAccumulated_def)
qed

theorem repeated_key_forgets_retained_charge_witness:
  "getAccumulated ''e'' (snd (tryReserve ''e'' ''c:1'' \<lparr>ch_costUsd = Fin 3, ch_tokens = Fin 10\<rparr>
      \<lparr>bl_maxCostUsd = Fin 9, bl_maxTokens = Fin 100\<rparr> [])) = \<lparr>ch_costUsd = Fin 3, ch_tokens = Fin 10\<rparr> \<and>
   getAccumulated ''e'' (release ''e'' ''c:1'' (snd (tryReserve ''e'' ''c:1'' \<lparr>ch_costUsd = Fin 1, ch_tokens = Fin 1\<rparr>
      \<lparr>bl_maxCostUsd = Fin 9, bl_maxTokens = Fin 100\<rparr>
      (retain ''e'' ''c:1'' (snd (tryReserve ''e'' ''c:1'' \<lparr>ch_costUsd = Fin 3, ch_tokens = Fin 10\<rparr>
         \<lparr>bl_maxCostUsd = Fin 9, bl_maxTokens = Fin 100\<rparr> []))))))
   = \<lparr>ch_costUsd = Fin 0, ch_tokens = Fin 0\<rparr>"
  using repeated_key_forgets_retained_charge [of "''e''" "[]" "''c:1''" "\<lparr>ch_costUsd = Fin 3, ch_tokens = Fin 10\<rparr>"
      "\<lparr>bl_maxCostUsd = Fin 9, bl_maxTokens = Fin 100\<rparr>" "\<lparr>ch_costUsd = Fin 1, ch_tokens = Fin 1\<rparr>"]
  by (simp add: lg_bucket_def getAccumulated_def sum_charges_def fits_def tryReserve_def set_charge_def add_charge_def)

end
