(* ===== verification/LlmRouter.thy ===== *)
theory LlmRouter
  imports BudgetLedger Contexts "HOL-Library.Multiset"
begin

section \<open>The LLM router\<close>

text \<open>
  \<open>packages/llm-gateway/src/llm-router.ts\<close>: which models are eligible and in which order they are
  tried, and the loop over the attempts with its budget reservations, usage events and errors.
  The catalog and the request give finite numbers (rationals); what a provider reports is a
  \<open>jsnum\<close>. Providers, the catalog, the listener of usage events and \<open>localeCompare\<close> are
  arguments. A provider answers as a function of the requests it has seen.
  The two clock readings of a usage event are left out.
\<close>

datatype lifecycle_state = LM_ACTIVE | LM_DEPRECATED | LM_RETIRED | LM_DRAFT | LM_TESTING

record llm_model =
  md_modelId :: string
  md_providerId :: string
  md_family :: "string option"
  md_capabilities :: "string list"
  md_maxContextTokens :: rat
  md_costPerInputTokenUsd :: rat
  md_costPerOutputTokenUsd :: rat
  md_supportsStructuredOutput :: bool
  md_latencyClass :: string
  md_lifecycle :: lifecycle_state
  md_priority :: rat

record token_budget =
  tb_maxCostUsd :: rat
  tb_maxTokens :: rat

record model_query =
  mq_capability :: string
  mq_maxTokens :: rat
  mq_structuredOutputRequired :: bool
  mq_budget :: "token_budget option"
  mq_latencyClass :: "string option"
  mq_modelFamily :: "string option"
  mq_modelId :: "string option"

record llm_request =
  lr_tenantId :: string
  lr_missionId :: string
  lr_executionId :: string
  lr_agentId :: string
  lr_agentVersion :: string
  lr_capability :: string
  lr_modelId :: "string option"
  lr_modelFamily :: "string option"
  lr_messages :: "(string \<times> string) list"  \<comment> \<open>role and content\<close>
  lr_structuredOutputSchema :: "json option"
  lr_maxTokens :: rat
  lr_temperature :: "rat option"
  lr_deadline :: "int option"
  lr_costPerInputTokenUsd :: "rat option"
  lr_costPerOutputTokenUsd :: "rat option"
  lr_budget :: "token_budget option"
  lr_latencyClass :: "string option"  \<comment> \<open>\<open>metadata.latencyClass\<close>\<close>
  lr_correlationId :: string
  lr_idempotencyKey :: "string option"
  lr_llmCallId :: "string option"
  lr_metadata :: json

record llm_result =
  lt_providerId :: string
  lt_modelId :: string
  lt_providerRequestId :: string
  lt_content :: string
  lt_structured :: "json option"
  lt_inputTokens :: jsnum
  lt_outputTokens :: jsnum
  lt_totalTokens :: jsnum
  lt_costUsd :: jsnum
  lt_latencyMs :: jsnum
  lt_finishReason :: string
  lt_startedAt :: int
  lt_completedAt :: int

record llm_usage =
  us_inputTokens :: jsnum
  us_outputTokens :: jsnum
  us_totalTokens :: jsnum

record llm_error =
  le_message :: string
  le_providerId :: string
  le_code :: string
  le_retryable :: bool
  le_submitted :: bool
  le_usage :: "llm_usage option"

datatype attempt_status = AT_SUCCESS | AT_FAILED | AT_BLOCKED_BUDGET

record usage_event =
  ue_tenantId :: string
  ue_missionId :: string
  ue_executionId :: string
  ue_llmCallId :: string
  ue_attempt :: nat
  ue_providerId :: string
  ue_modelId :: string
  ue_providerRequestId :: "string option"
  ue_capability :: string
  ue_status :: attempt_status
  ue_submitted :: bool
  ue_usageKnown :: bool
  ue_failureClassification :: "string option"
  ue_retryable :: "bool option"
  ue_inputTokens :: "jsnum option"
  ue_outputTokens :: "jsnum option"
  ue_totalTokens :: "jsnum option"
  ue_costUsd :: "jsnum option"
  ue_estimatedCostUsd :: "jsnum option"
  ue_latencyMs :: "jsnum option"
  ue_correlationId :: string
  ue_idempotencyKey :: "string option"

text \<open>What a port throws, and what \<open>invoke\<close> throws.\<close>

datatype port_exn = PX_Provider llm_error | PX_Other string

datatype llm_exn = NoEligibleModel string | AmbiguousRouting "string list" | Thrown port_exn

abbreviation "ProviderError err \<equiv> Thrown (PX_Provider err)"

text \<open>
  A provider: its readiness check (\<open>None\<close>: it returned) and its answer, given the requests that all
  providers got before.
\<close>

record llm_provider =
  lp_ready :: "port_exn option"
  lp_invoke :: "(string \<times> llm_request) list \<Rightarrow> llm_request \<Rightarrow> port_exn + llm_result"

record router_deps =
  rd_catalog :: "string \<Rightarrow> model_query \<Rightarrow> llm_model list"
  rd_registry :: "string \<Rightarrow> llm_provider option"
  rd_listener :: "(usage_event \<Rightarrow> port_exn option) option"
  rd_defaultCapability :: "string option"
  rd_maxAttempts :: "nat option"
  rd_hasLedger :: bool
  rd_localeCompare :: "string \<Rightarrow> string \<Rightarrow> int"

record router_world =
  rw_ledger :: ledger
  rw_calls :: "(string \<times> llm_request) list"  \<comment> \<open>provider and request, in order\<close>
  rw_events :: "usage_event list"

subsection \<open>Ranking\<close>

definition PER_CALL_TOKEN_ESTIMATE :: rat where
  "PER_CALL_TOKEN_ESTIMATE = 1024"

definition latency_rank :: "string \<Rightarrow> rat" where
  "latency_rank s = (if s = ''interactive'' then 1 else if s = ''background'' then 2 else if s = ''batch'' then 3 else 9)"

record model_score =
  sc_priority :: rat
  sc_cost :: rat
  sc_latency :: rat

definition score :: "llm_model \<Rightarrow> model_query \<Rightarrow> model_score" where
  "score m q =
     \<lparr>sc_priority = md_priority m + (if mq_capability q \<in> set (md_capabilities m) then 0 else 1000)
        + (if \<not> mq_structuredOutputRequired q \<or> md_supportsStructuredOutput m then 0 else 1000),
      sc_cost = md_costPerOutputTokenUsd m,
      sc_latency = \<bar>latency_rank (md_latencyClass m) - latency_rank (nullish (mq_latencyClass q) ''background'')\<bar>\<rparr>"

definition eligible :: "model_query \<Rightarrow> llm_model \<Rightarrow> bool" where
  "eligible q m \<longleftrightarrow>
     md_lifecycle m = LM_ACTIVE \<and> \<not> md_maxContextTokens m < mq_maxTokens q \<and>
     \<not> (mq_structuredOutputRequired q \<and> \<not> md_supportsStructuredOutput m) \<and>
     (case mq_budget q of None \<Rightarrow> True
      | Some b \<Rightarrow>
          \<not> (if md_costPerOutputTokenUsd m > 0 then md_costPerOutputTokenUsd m * mq_maxTokens q else 0) > tb_maxCostUsd b \<and>
          \<not> mq_maxTokens q > tb_maxTokens b) \<and>
     \<not> (truthy (mq_modelFamily q) \<and> md_family m \<noteq> mq_modelFamily q) \<and>
     \<not> (truthy (mq_modelId q) \<and> Some (md_modelId m) \<noteq> mq_modelId q)"

text \<open>The comparator of \<open>sort\<close>: a pair is in order when it is not positive.\<close>

definition in_order :: "router_deps \<Rightarrow> model_query \<Rightarrow> llm_model \<Rightarrow> llm_model \<Rightarrow> bool" where
  "in_order dp q a b =
     (let s = score a q; t = score b q
      in if sc_priority s \<noteq> sc_priority t then sc_priority s \<le> sc_priority t
         else if sc_cost s \<noteq> sc_cost t then sc_cost s \<le> sc_cost t
         else if sc_latency s \<noteq> sc_latency t then sc_latency s \<le> sc_latency t
         else rd_localeCompare dp (md_modelId a) (md_modelId b) \<le> 0)"

text \<open>A stable sort: \<open>Array.prototype.sort\<close> is stable.\<close>

fun place :: "('a \<Rightarrow> 'a \<Rightarrow> bool) \<Rightarrow> 'a \<Rightarrow> 'a list \<Rightarrow> 'a list" where
  "place le x [] = [x]"
| "place le x (y # ys) = (if le x y then x # y # ys else y # place le x ys)"

definition stable_sort :: "('a \<Rightarrow> 'a \<Rightarrow> bool) \<Rightarrow> 'a list \<Rightarrow> 'a list" where
  "stable_sort le xs = foldr (place le) xs []"

definition rankCandidates :: "router_deps \<Rightarrow> llm_model list \<Rightarrow> model_query \<Rightarrow> llm_exn + llm_model list" where
  "rankCandidates dp models q =
     (let active = filter (eligible q) models
      in if active = [] then Inr []
         else let scored = stable_sort (in_order dp q) active;
                  tied = filter (\<lambda>m. score m q = score (hd scored) q) scored
              in if length tied > 1 then Inl (AmbiguousRouting (map md_modelId tied)) else Inr scored)"

subsection \<open>The attempts\<close>

definition usage_event_of :: "llm_request \<Rightarrow> string \<Rightarrow> nat \<Rightarrow> llm_model \<Rightarrow> attempt_status \<Rightarrow> bool \<Rightarrow> bool \<Rightarrow> usage_event" where
  "usage_event_of rq call n m st submitted known =
     \<lparr>ue_tenantId = lr_tenantId rq, ue_missionId = lr_missionId rq, ue_executionId = lr_executionId rq,
      ue_llmCallId = call, ue_attempt = n, ue_providerId = md_providerId m, ue_modelId = md_modelId m,
      ue_providerRequestId = None, ue_capability = lr_capability rq, ue_status = st, ue_submitted = submitted,
      ue_usageKnown = known, ue_failureClassification = None, ue_retryable = None, ue_inputTokens = None,
      ue_outputTokens = None, ue_totalTokens = None, ue_costUsd = None, ue_estimatedCostUsd = None,
      ue_latencyMs = None, ue_correlationId = lr_correlationId rq, ue_idempotencyKey = lr_idempotencyKey rq\<rparr>"

definition emitAttempt :: "router_deps \<Rightarrow> usage_event \<Rightarrow> router_world \<Rightarrow> port_exn option \<times> router_world" where
  "emitAttempt dp e w =
     (case rd_listener dp of None \<Rightarrow> (None, w) | Some f \<Rightarrow> (f e, w\<lparr>rw_events := rw_events w @ [e]\<rparr>))"

definition with_ledger :: "router_deps \<Rightarrow> (ledger \<Rightarrow> ledger) \<Rightarrow> router_world \<Rightarrow> router_world" where
  "with_ledger dp f w = (if rd_hasLedger dp then w\<lparr>rw_ledger := f (rw_ledger w)\<rparr> else w)"

definition attempt_key :: "string \<Rightarrow> nat \<Rightarrow> string" where
  "attempt_key call n = call @ '':'' @ show_nat n"

definition simple_error :: "string \<Rightarrow> string \<Rightarrow> string \<Rightarrow> bool \<Rightarrow> llm_error" where
  "simple_error msg provider code retryable =
     \<lparr>le_message = msg, le_providerId = provider, le_code = code, le_retryable = retryable,
      le_submitted = False, le_usage = None\<rparr>"

definition unexpected :: "string \<Rightarrow> llm_exn" where
  "unexpected msg = ProviderError (simple_error msg ''router'' ''ROUTER_UNEXPECTED_ERROR'' False)"

text \<open>The request as the provider gets it, and the charge reserved for it.\<close>

definition provider_request :: "llm_request \<Rightarrow> llm_model \<Rightarrow> llm_request" where
  "provider_request rq m =
     rq\<lparr>lr_modelId := Some (nullish (lr_modelId rq) (md_modelId m)),
        lr_costPerInputTokenUsd := Some (nullish (lr_costPerInputTokenUsd rq) (md_costPerInputTokenUsd m)),
        lr_costPerOutputTokenUsd := Some (nullish (lr_costPerOutputTokenUsd rq) (md_costPerOutputTokenUsd m))\<rparr>"

definition estimate :: "llm_request \<Rightarrow> llm_model \<Rightarrow> charge" where
  "estimate rq m =
     \<lparr>ch_costUsd = Fin (nullish (lr_costPerOutputTokenUsd (provider_request rq m)) 0 * lr_maxTokens rq),
      ch_tokens = Fin (min (lr_maxTokens rq) PER_CALL_TOKEN_ESTIMATE)\<rparr>"

definition limit_of :: "token_budget \<Rightarrow> budget_limit" where
  "limit_of b = \<lparr>bl_maxCostUsd = Fin (tb_maxCostUsd b), bl_maxTokens = Fin (tb_maxTokens b)\<rparr>"

definition usage_cost :: "llm_request \<Rightarrow> llm_usage \<Rightarrow> jsnum" where
  "usage_cost prq u =
     js_add (js_mul (us_inputTokens u) (Fin (nullish (lr_costPerInputTokenUsd prq) 0)))
            (js_mul (us_outputTokens u) (Fin (nullish (lr_costPerOutputTokenUsd prq) 0)))"

text \<open>How the ledger settles an attempt that failed.\<close>

definition failed_end :: "llm_request \<Rightarrow> llm_error \<Rightarrow> attempt_end" where
  "failed_end prq err =
     (if \<not> le_submitted err then Release
      else case le_usage err of
          Some u \<Rightarrow> Commit \<lparr>ch_costUsd = usage_cost prq u, ch_tokens = us_totalTokens u\<rparr>
        | None \<Rightarrow> Retain)"

text \<open>
  One attempt, from the dispatch on: \<open>Inl\<close> is a thrown exception, \<open>Inr (Inl err)\<close> a retryable failure,
  \<open>Inr (Inr r)\<close> the result. An exception of the listener inside the \<open>try\<close> is caught there.
\<close>

definition dispatch ::
    "router_deps \<Rightarrow> llm_request \<Rightarrow> string \<Rightarrow> nat \<Rightarrow> llm_model \<Rightarrow> llm_provider \<Rightarrow> router_world
       \<Rightarrow> (llm_exn + (llm_error + llm_result)) \<times> router_world" where
  "dispatch dp rq call n m p w =
     (let prq = provider_request rq m; key = attempt_key call n; ex = lr_executionId rq;
          w1 = w\<lparr>rw_calls := rw_calls w @ [(md_providerId m, prq)]\<rparr>;
          fails = (\<lambda>err w.
            let wl = with_ledger dp (lg_settle ex key (failed_end prq err)) w;
                (x, w2) = emitAttempt dp
                  ((usage_event_of rq call n m AT_FAILED (le_submitted err) (\<not> le_submitted err \<or> le_usage err \<noteq> None))
                     \<lparr>ue_failureClassification := Some (le_code err), ue_retryable := Some (le_retryable err),
                      ue_inputTokens := map_option us_inputTokens (le_usage err), ue_outputTokens := map_option us_outputTokens (le_usage err),
                      ue_totalTokens := map_option us_totalTokens (le_usage err),
                      ue_costUsd := map_option (usage_cost prq) (le_usage err),
                      ue_estimatedCostUsd := (if le_submitted err \<and> le_usage err = None
                                              then Some (ch_costUsd (estimate rq m)) else None)\<rparr>) wl
            in case x of Some y \<Rightarrow> (Inl (Thrown y), w2)
               | None \<Rightarrow> if \<not> le_retryable err then (Inl (ProviderError err), w2) else (Inr (Inl err), w2))
      in case lp_invoke p (rw_calls w) prq of
           Inl (PX_Other msg) \<Rightarrow> (Inl (unexpected msg), w1)
         | Inl (PX_Provider err) \<Rightarrow> fails err w1
         | Inr r \<Rightarrow>
             let w2 = with_ledger dp (lg_settle ex key (Commit \<lparr>ch_costUsd = lt_costUsd r, ch_tokens = lt_totalTokens r\<rparr>)) w1;
                 (x, w3) = emitAttempt dp
                   ((usage_event_of rq call n m AT_SUCCESS True True)
                      \<lparr>ue_providerRequestId := Some (lt_providerRequestId r), ue_inputTokens := Some (lt_inputTokens r),
                       ue_outputTokens := Some (lt_outputTokens r), ue_totalTokens := Some (lt_totalTokens r),
                       ue_costUsd := Some (lt_costUsd r), ue_latencyMs := Some (lt_latencyMs r)\<rparr>) w2
             in (case x of
                   None \<Rightarrow> (Inr (Inr r), w3)
                 | Some (PX_Provider err) \<Rightarrow> fails err w3
                 | Some (PX_Other msg) \<Rightarrow> (Inl (unexpected msg), w3)))"

definition reserve_attempt :: "router_deps \<Rightarrow> llm_request \<Rightarrow> string \<Rightarrow> llm_model \<Rightarrow> router_world \<Rightarrow> bool \<times> router_world" where
  "reserve_attempt dp rq key m w =
     (case lr_budget rq of
        Some b \<Rightarrow>
          if rd_hasLedger dp
          then let (allowed, l) = tryReserve (lr_executionId rq) key (estimate rq m) (limit_of b) (rw_ledger w)
               in (allowed, w\<lparr>rw_ledger := l\<rparr>)
          else (True, w)
      | None \<Rightarrow> (True, w))"

definition all_failed :: "model_query \<Rightarrow> llm_error list \<Rightarrow> llm_exn" where
  "all_failed q errors =
     ProviderError (simple_error
       (''All providers failed for capability '' @ mq_capability q @ '': ''
         @ js_join ''; '' (map (\<lambda>e. le_providerId e @ '': '' @ le_message e) errors))
       ''router'' ''ALL_PROVIDERS_FAILED'' (list_ex le_retryable errors))"

text \<open>The loop over the models that may be tried; \<open>n\<close> is the index of the next attempt.\<close>

fun attempt_loop ::
    "router_deps \<Rightarrow> llm_request \<Rightarrow> model_query \<Rightarrow> string \<Rightarrow> nat \<Rightarrow> llm_error list \<Rightarrow> llm_model list \<Rightarrow> router_world
       \<Rightarrow> (llm_exn + llm_result) \<times> router_world" where
  "attempt_loop dp rq q call n errors [] w = (Inl (all_failed q errors), w)"
| "attempt_loop dp rq q call n errors (m # ms) w =
     (case rd_registry dp (md_providerId m) of
        None \<Rightarrow>
          attempt_loop dp rq q call (Suc n)
            (errors @ [simple_error (''Provider '' @ md_providerId m @ '' not registered'') (md_providerId m)
               ''PROVIDER_NOT_REGISTERED'' False]) ms w
      | Some p \<Rightarrow>
          (case lp_ready p of
             Some x \<Rightarrow> (Inl (Thrown x), w)
           | None \<Rightarrow>
               let (allowed, w1) = reserve_attempt dp rq (attempt_key call n) m w
               in if \<not> allowed
                  then (case emitAttempt dp
                          ((usage_event_of rq call n m AT_BLOCKED_BUDGET False True)
                             \<lparr>ue_failureClassification := Some ''BUDGET_EXHAUSTED'', ue_retryable := Some False,
                              ue_estimatedCostUsd := Some (ch_costUsd (estimate rq m))\<rparr>) w1 of
                          (Some x, w2) \<Rightarrow> (Inl (Thrown x), w2)
                        | (None, w2) \<Rightarrow>
                            (Inl (ProviderError (simple_error
                               (''Execution budget exhausted for capability '' @ mq_capability q)
                               ''router'' ''BUDGET_EXHAUSTED'' False)), w2))
                  else (case dispatch dp rq call n m p w1 of
                          (Inl x, w2) \<Rightarrow> (Inl x, w2)
                        | (Inr (Inr r), w2) \<Rightarrow> (Inr r, w2)
                        | (Inr (Inl err), w2) \<Rightarrow> attempt_loop dp rq q call (Suc n) (errors @ [err]) ms w2)))"

definition query_of :: "router_deps \<Rightarrow> llm_request \<Rightarrow> model_query" where
  "query_of dp rq =
     \<lparr>mq_capability = (if lr_capability rq \<noteq> [] then lr_capability rq
                       else if truthy (rd_defaultCapability dp) then nullish (rd_defaultCapability dp) [] else ''chat''),
      mq_maxTokens = lr_maxTokens rq, mq_structuredOutputRequired = (lr_structuredOutputSchema rq \<noteq> None),
      mq_budget = lr_budget rq, mq_latencyClass = Some (nullish (lr_latencyClass rq) ''background''),
      mq_modelFamily = lr_modelFamily rq, mq_modelId = lr_modelId rq\<rparr>"

text \<open>\<open>fresh\<close> is what \<open>randomUUID()\<close> returns.\<close>

definition router_invoke ::
    "router_deps \<Rightarrow> string \<Rightarrow> llm_request \<Rightarrow> router_world \<Rightarrow> (llm_exn + llm_result) \<times> router_world" where
  "router_invoke dp fresh rq w =
     (let q = query_of dp rq; candidates = rd_catalog dp (lr_tenantId rq) q
      in if candidates = [] then (Inl (NoEligibleModel (''No eligible model for capability '' @ mq_capability q)), w)
         else case rankCandidates dp candidates q of
             Inl x \<Rightarrow> (Inl x, w)
           | Inr ordered \<Rightarrow>
               if ordered = []
               then (Inl (NoEligibleModel (''No eligible model after ranking for capability '' @ mq_capability q)), w)
               else attempt_loop dp rq q (nullish (lr_llmCallId rq) fresh) 1 []
                      (take (nullish (rd_maxAttempts dp) (length ordered)) ordered) w)"

subsection \<open>The ranking is a stable sort by score\<close>

definition better :: "model_score \<Rightarrow> model_score \<Rightarrow> bool" where
  "better s t \<longleftrightarrow> sc_priority s < sc_priority t \<or> sc_priority s = sc_priority t \<and>
     (sc_cost s < sc_cost t \<or> sc_cost s = sc_cost t \<and> sc_latency s < sc_latency t)"

definition no_worse :: "model_query \<Rightarrow> llm_model \<Rightarrow> llm_model \<Rightarrow> bool" where
  "no_worse q a b \<longleftrightarrow> \<not> better (score b q) (score a q)"

lemma no_worse_trans: "no_worse q a b \<Longrightarrow> no_worse q b c \<Longrightarrow> no_worse q a c"
  unfolding no_worse_def better_def by (smt (verit, best) less_trans not_less_iff_gr_or_eq)

lemma in_order_no_worse: "in_order dp q a b \<Longrightarrow> no_worse q a b" "\<not> in_order dp q a b \<Longrightarrow> no_worse q b a"
  unfolding in_order_def no_worse_def better_def Let_def by (auto split: if_splits)

lemma mset_place [simp]: "mset (place le x ys) = {#x#} + mset ys"
  by (induction ys) auto

lemma mset_stable_sort [simp]: "mset (stable_sort le xs) = mset xs"
  by (induction xs) (auto simp: stable_sort_def)

lemma set_place: "set (place le x ys) = insert x (set ys)"
  by (induction ys) auto

lemma sorted_place:
  "sorted_wrt (no_worse q) ys \<Longrightarrow> sorted_wrt (no_worse q) (place (in_order dp q) x ys)"
proof (induction ys)
  case (Cons y ys)
  show ?case
  proof (cases "in_order dp q x y")
    case True
    then show ?thesis using Cons.prems in_order_no_worse(1) [OF True] by (auto intro: no_worse_trans)
  next
    case False
    then show ?thesis using Cons in_order_no_worse(2) [OF False] by (auto simp: set_place)
  qed
qed simp

lemma sorted_stable_sort: "sorted_wrt (no_worse q) (stable_sort (in_order dp q) xs)"
  by (induction xs) (auto simp: stable_sort_def intro: sorted_place)

lemma score_eqI:
  "no_worse q a b \<Longrightarrow> no_worse q b a \<Longrightarrow> score a q = score b q"
  unfolding no_worse_def better_def by (intro model_score.equality) auto

lemma rankCandidates_mset:
  "rankCandidates dp models q = Inr ms \<Longrightarrow> mset ms = mset (filter (eligible q) models)"
  by (cases "filter (eligible q) models = []") (auto simp: rankCandidates_def Let_def simp del: mset_filter split: if_splits)

text \<open>
  Routing is deterministic: the ranking keeps exactly the eligible models, orders them by
  priority, then cost, then latency distance, and yields an order only when its first model is
  strictly better than every other; otherwise it reports the models that share the best score.
\<close>

theorem rankCandidates_spec:
  "(case rankCandidates dp models q of
      Inr ordered \<Rightarrow>
        mset ordered = mset (filter (eligible q) models) \<and> sorted_wrt (no_worse q) ordered \<and>
        (case ordered of [] \<Rightarrow> True | m # ms \<Rightarrow> list_all (\<lambda>m'. better (score m q) (score m' q)) ms)
    | Inl x \<Rightarrow>
        \<exists>best others. mset (best @ others) = mset (filter (eligible q) models) \<and> 1 < length best \<and>
          list_all (\<lambda>m. score m q = score (hd best) q) best \<and>
          list_all (\<lambda>m. better (score (hd best) q) (score m q)) others \<and>
          x = AmbiguousRouting (map md_modelId best))"
proof -
  define active where "active = filter (eligible q) models"
  define scored where "scored = stable_sort (in_order dp q) active"
  define best where "best = filter (\<lambda>m. score m q = score (hd scored) q) scored"
  define others where "others = filter (\<lambda>m. score m q \<noteq> score (hd scored) q) scored"
  have ms: "mset scored = mset active" by (simp add: scored_def)
  have srt: "sorted_wrt (no_worse q) scored" by (simp add: scored_def sorted_stable_sort)
  show ?thesis
  proof (cases scored)
    case Nil
    then have "active = []" using ms by simp
    then show ?thesis by (simp add: rankCandidates_def active_def)
  next
    case (Cons m rest)
    then have a: "active \<noteq> []" using ms by auto
    have nw: "no_worse q m m'" if "m' \<in> set rest" for m' using srt Cons that by simp
    have lt: "better (score m q) (score m' q)" if "m' \<in> set rest" "score m' q \<noteq> score m q" for m'
      using nw [OF that(1)] score_eqI [of q m m'] that(2) by (auto simp: no_worse_def)
    have b: "best = m # filter (\<lambda>m'. score m' q = score m q) rest" by (simp add: best_def Cons)
    have r: "rankCandidates dp models q
        = (if 1 < length best then Inl (AmbiguousRouting (map md_modelId best)) else Inr scored)"
      using a by (simp add: rankCandidates_def Let_def active_def scored_def best_def)
    show ?thesis
    proof (cases "1 < length best")
      case True
      have "mset (best @ others) = mset active" using ms by (simp add: best_def others_def)
      moreover have "list_all (\<lambda>m. score m q = score (hd best) q) best" using b by (auto simp: list_all_iff)
      moreover have "list_all (\<lambda>m. better (score (hd best) q) (score m q)) others"
        using b lt Cons by (auto simp: list_all_iff others_def)
      ultimately have "\<exists>bs os. mset (bs @ os) = mset (filter (eligible q) models) \<and> 1 < length bs \<and>
          list_all (\<lambda>m. score m q = score (hd bs) q) bs \<and> list_all (\<lambda>m. better (score (hd bs) q) (score m q)) os \<and>
          AmbiguousRouting (map md_modelId best) = AmbiguousRouting (map md_modelId bs)"
        using True active_def by blast
      then show ?thesis using r True by simp
    next
      case False
      then have "filter (\<lambda>m'. score m' q = score m q) rest = []" using b by simp
      then have "list_all (\<lambda>m'. better (score m q) (score m' q)) rest"
        using lt by (auto simp: list_all_iff filter_empty_conv)
      then show ?thesis using r False ms srt Cons by (simp add: active_def)
    qed
  qed
qed

subsection \<open>What the attempts do\<close>

text \<open>How the ledger settles an answer of a provider.\<close>

fun answer_end :: "llm_request \<Rightarrow> port_exn + llm_result \<Rightarrow> attempt_end" where
  "answer_end prq (Inr r) = Commit \<lparr>ch_costUsd = lt_costUsd r, ch_tokens = lt_totalTokens r\<rparr>"
| "answer_end prq (Inl (PX_Provider err)) = failed_end prq err"
| "answer_end prq (Inl (PX_Other msg)) = Retain"

text \<open>A listener that may throw, but no \<open>LLMProviderError\<close>.\<close>

definition quiet_listener :: "router_deps \<Rightarrow> bool" where
  "quiet_listener dp \<longleftrightarrow> (\<forall>f e err. rd_listener dp = Some f \<longrightarrow> f e \<noteq> Some (PX_Provider err))"

lemma emitAttempt_keeps [simp]:
  "rw_calls (snd (emitAttempt dp e w)) = rw_calls w" "rw_ledger (snd (emitAttempt dp e w)) = rw_ledger w"
  by (simp_all add: emitAttempt_def split: option.split)

lemma emitAttempt_quiet: "quiet_listener dp \<Longrightarrow> fst (emitAttempt dp e w) \<noteq> Some (PX_Provider err)"
  by (auto simp: emitAttempt_def quiet_listener_def split: option.split)

lemma with_ledger_simps [simp]:
  "rw_calls (with_ledger dp f w) = rw_calls w"
  "rw_ledger (with_ledger dp f w) = (if rd_hasLedger dp then f (rw_ledger w) else rw_ledger w)"
  by (simp_all add: with_ledger_def)

lemma dispatch_effect:
  assumes "dispatch dp rq call n m p w = (r, w')" and "quiet_listener dp"
  shows "rw_calls w' = rw_calls w @ [(md_providerId m, provider_request rq m)] \<and>
    (rd_hasLedger dp \<longrightarrow> rw_ledger w' = lg_settle (lr_executionId rq) (attempt_key call n)
      (answer_end (provider_request rq m) (lp_invoke p (rw_calls w) (provider_request rq m))) (rw_ledger w)) \<and>
    (case r of
       Inl x \<Rightarrow> True
     | Inr (Inl err) \<Rightarrow> lp_invoke p (rw_calls w) (provider_request rq m) = Inl (PX_Provider err) \<and> le_retryable err
     | Inr (Inr res) \<Rightarrow> lp_invoke p (rw_calls w) (provider_request rq m) = Inr res)"
proof (cases "lp_invoke p (rw_calls w) (provider_request rq m)")
  case (Inl x)
  show ?thesis
  proof (cases x)
    case (PX_Provider err)
    obtain y w2 where e: "emitAttempt dp
        ((usage_event_of rq call n m AT_FAILED (le_submitted err) (\<not> le_submitted err \<or> le_usage err \<noteq> None))
           \<lparr>ue_failureClassification := Some (le_code err), ue_retryable := Some (le_retryable err),
            ue_inputTokens := map_option us_inputTokens (le_usage err), ue_outputTokens := map_option us_outputTokens (le_usage err),
                      ue_totalTokens := map_option us_totalTokens (le_usage err),
            ue_costUsd := map_option (usage_cost (provider_request rq m)) (le_usage err),
            ue_estimatedCostUsd := (if le_submitted err \<and> le_usage err = None
                                    then Some (ch_costUsd (estimate rq m)) else None)\<rparr>)
        (with_ledger dp (lg_settle (lr_executionId rq) (attempt_key call n) (failed_end (provider_request rq m) err))
           (w\<lparr>rw_calls := rw_calls w @ [(md_providerId m, provider_request rq m)]\<rparr>)) = (y, w2)" by fastforce
    have "rw_calls w2 = rw_calls w @ [(md_providerId m, provider_request rq m)]"
      "rd_hasLedger dp \<longrightarrow> rw_ledger w2 = lg_settle (lr_executionId rq) (attempt_key call n) (failed_end (provider_request rq m) err) (rw_ledger w)"
      using arg_cong [OF e, of "\<lambda>z. rw_calls (snd z)"] arg_cong [OF e, of "\<lambda>z. rw_ledger (snd z)", symmetric] by auto
    then show ?thesis using assms(1) Inl PX_Provider e by (auto simp: dispatch_def Let_def split: option.splits if_splits)
  next
    case (PX_Other msg)
    then show ?thesis using assms(1) Inl by (auto simp: dispatch_def Let_def retain_def)
  qed
next
  case (Inr res)
  obtain y w3 where e: "emitAttempt dp ((usage_event_of rq call n m AT_SUCCESS True True)
      \<lparr>ue_providerRequestId := Some (lt_providerRequestId res), ue_inputTokens := Some (lt_inputTokens res),
                       ue_outputTokens := Some (lt_outputTokens res), ue_totalTokens := Some (lt_totalTokens res),
                       ue_costUsd := Some (lt_costUsd res), ue_latencyMs := Some (lt_latencyMs res)\<rparr>)
      (with_ledger dp (lg_settle (lr_executionId rq) (attempt_key call n)
          (Commit \<lparr>ch_costUsd = lt_costUsd res, ch_tokens = lt_totalTokens res\<rparr>))
         (w\<lparr>rw_calls := rw_calls w @ [(md_providerId m, provider_request rq m)]\<rparr>)) = (y, w3)" by fastforce
  have "rw_calls w3 = rw_calls w @ [(md_providerId m, provider_request rq m)]"
    "rd_hasLedger dp \<longrightarrow> rw_ledger w3 = lg_settle (lr_executionId rq) (attempt_key call n)
       (Commit \<lparr>ch_costUsd = lt_costUsd res, ch_tokens = lt_totalTokens res\<rparr>) (rw_ledger w)"
    using arg_cong [OF e, of "\<lambda>z. rw_calls (snd z)"] arg_cong [OF e, of "\<lambda>z. rw_ledger (snd z)", symmetric] by auto
  moreover have "y \<noteq> Some (PX_Provider err)" for err
    using arg_cong [OF e, of fst] emitAttempt_quiet [OF assms(2)] by auto
  ultimately show ?thesis using assms(1) Inr e
    by (auto simp: dispatch_def Let_def split: option.splits port_exn.splits)
qed

text \<open>Every call but the last was answered with a retryable failure.\<close>

definition call_answer :: "router_deps \<Rightarrow> (string \<times> llm_request) list \<Rightarrow> string \<times> llm_request \<Rightarrow> (port_exn + llm_result) option" where
  "call_answer dp before c = map_option (\<lambda>p. lp_invoke p before (snd c)) (rd_registry dp (fst c))"

fun retry_chain :: "router_deps \<Rightarrow> (string \<times> llm_request) list \<Rightarrow> (string \<times> llm_request) list \<Rightarrow> bool" where
  "retry_chain dp before (c # c' # cs) \<longleftrightarrow>
     (\<exists>err. call_answer dp before c = Some (Inl (PX_Provider err)) \<and> le_retryable err) \<and> retry_chain dp (before @ [c]) (c' # cs)"
| "retry_chain dp before _ \<longleftrightarrow> True"

lemma retry_chain_Cons:
  "call_answer dp before c = Some (Inl (PX_Provider err)) \<Longrightarrow> le_retryable err \<Longrightarrow> retry_chain dp (before @ [c]) cs
     \<Longrightarrow> retry_chain dp before (c # cs)"
  by (cases cs) auto

lemma loop_calls:
  assumes "quiet_listener dp"
  shows "attempt_loop dp rq q call n errors ms w = (r, w') \<Longrightarrow>
    \<exists>new. rw_calls w' = rw_calls w @ new \<and> length new \<le> length ms \<and> retry_chain dp (rw_calls w) new \<and>
      (\<forall>res. r = Inr res \<longrightarrow> new \<noteq> [] \<and> call_answer dp (rw_calls w @ butlast new) (last new) = Some (Inr res))"
proof (induction ms arbitrary: n errors w)
  case (Cons m ms)
  show ?case
  proof (cases "rd_registry dp (md_providerId m)")
    case None
    then show ?thesis using Cons.IH Cons.prems by (fastforce intro: le_SucI)
  next
    case (Some p)
    show ?thesis
    proof (cases "lp_ready p")
      case (Some x)
      then show ?thesis using Cons.prems \<open>rd_registry dp (md_providerId m) = Some p\<close>
        by (intro exI [of _ "[]"]) auto
    next
      case None
      obtain al w1 where rs: "reserve_attempt dp rq (attempt_key call n) m w = (al, w1)" by fastforce
      have c1: "rw_calls w1 = rw_calls w"
        using rs by (auto simp: reserve_attempt_def Let_def split: option.splits if_splits prod.splits)
      note step = Cons.prems [simplified attempt_loop.simps Some None rs option.case prod.case Let_def]
      show ?thesis
      proof (cases al)
        case False
        then show ?thesis using step c1
          by (intro exI [of _ "[]"]) (auto split: prod.splits option.splits dest!: arg_cong [of _ _ "\<lambda>z. rw_calls (snd z)"])
      next
        case True
        obtain d w2 where d: "dispatch dp rq call n m p w1 = (d, w2)" by fastforce
        note e = dispatch_effect [OF d assms]
        let ?c = "(md_providerId m, provider_request rq m)"
        have a: "call_answer dp (rw_calls w) ?c = Some (lp_invoke p (rw_calls w1) (provider_request rq m))"
          using Some c1 by (simp add: call_answer_def)
        show ?thesis
        proof (cases d)
          case (Inl x)
          then show ?thesis using step True d e c1 by (intro exI [of _ "[?c]"]) auto
        next
          case (Inr y)
          show ?thesis
          proof (cases y)
            case (Inl err)
            then have l: "attempt_loop dp rq q call (Suc n) (errors @ [err]) ms w2 = (r, w')"
              and re: "lp_invoke p (rw_calls w1) (provider_request rq m) = Inl (PX_Provider err)" "le_retryable err"
              using step True d e Inr by auto
            from Cons.IH [OF l] obtain new where "rw_calls w' = rw_calls w2 @ new" "length new \<le> length ms"
              "retry_chain dp (rw_calls w2) new"
              "\<forall>res. r = Inr res \<longrightarrow> new \<noteq> [] \<and> call_answer dp (rw_calls w2 @ butlast new) (last new) = Some (Inr res)" by blast
            moreover have "rw_calls w2 = rw_calls w @ [?c]" using e c1 by simp
            ultimately show ?thesis using a re retry_chain_Cons [of dp "rw_calls w" ?c err new]
              by (intro exI [of _ "?c # new"]) auto
          next
            case (Inr res)
            then show ?thesis using step True d e c1 a \<open>d = Inr y\<close> by (intro exI [of _ "[?c]"]) auto
          qed
        qed
      qed
    qed
  qed
qed (auto intro: exI [of _ "[]"])

text \<open>The attempts of the loop are attempts of the ledger's contract.\<close>

definition estimated_attempt :: "router_deps \<Rightarrow> llm_request \<Rightarrow> llm_model list \<Rightarrow> string \<times> charge \<times> attempt_end \<Rightarrow> bool" where
  "estimated_attempt dp rq ms = (\<lambda>(k, e, x). \<exists>m p before. m \<in> set ms \<and> rd_registry dp (md_providerId m) = Some p \<and>
     e = estimate rq m \<and> (x = Retain \<or> x = answer_end (provider_request rq m) (lp_invoke p before (provider_request rq m))))"

lemma loop_ledger:
  assumes "quiet_listener dp" and "rd_hasLedger dp" and b: "lr_budget rq = Some b"
  shows "attempt_loop dp rq q call n errors ms w = (r, w') \<Longrightarrow>
    \<exists>as. rw_ledger w' = lg.run (lr_executionId rq) (limit_of b) as (rw_ledger w) \<and> list_all (estimated_attempt dp rq ms) as"
proof (induction ms arbitrary: n errors w)
  case (Cons m ms)
  have mono: "list_all (estimated_attempt dp rq ms) as \<Longrightarrow> list_all (estimated_attempt dp rq (m # ms)) as" for as
    by (induction as) (auto simp: estimated_attempt_def)
  show ?case
  proof (cases "rd_registry dp (md_providerId m)")
    case None
    then show ?thesis using Cons.IH Cons.prems mono by (simp split: option.splits) blast
  next
    case (Some p)
    show ?thesis
    proof (cases "lp_ready p")
      case (Some x)
      then show ?thesis using Cons.prems \<open>rd_registry dp (md_providerId m) = Some p\<close>
        by (intro exI [of _ "[]"]) auto
    next
      case None
      let ?ex = "lr_executionId rq" and ?k = "attempt_key call n" and ?e = "estimate rq m"
      obtain al l where tr: "tryReserve ?ex ?k ?e (limit_of b) (rw_ledger w) = (al, l)" by fastforce
      have rs: "reserve_attempt dp rq ?k m w = (al, w\<lparr>rw_ledger := l\<rparr>)"
        using assms(2) b tr by (simp add: reserve_attempt_def)
      note step = Cons.prems [simplified attempt_loop.simps Some None rs option.case prod.case Let_def]
      show ?thesis
      proof (cases al)
        case False
        have "rw_ledger w' = l" using step False
          by (auto split: prod.splits option.splits dest!: arg_cong [of _ _ "\<lambda>z. rw_ledger (snd z)"])
        then show ?thesis using tr False Some
          by (intro exI [of _ "[(?k, ?e, Retain)]"]) (auto simp: estimated_attempt_def)
      next
        case True
        obtain d w2 where d: "dispatch dp rq call n m p (w\<lparr>rw_ledger := l\<rparr>) = (d, w2)" by fastforce
        let ?x = "answer_end (provider_request rq m) (lp_invoke p (rw_calls w) (provider_request rq m))"
        have l2: "rw_ledger w2 = lg_settle ?ex ?k ?x l"
          using dispatch_effect [OF d assms(1)] assms(2) by simp
        have ea: "estimated_attempt dp rq (m # ms) (?k, ?e, ?x)" using Some by (auto simp: estimated_attempt_def)
        show ?thesis
        proof (cases "\<exists>err. d = Inr (Inl err)")
          case False
          then have "w' = w2" using step True d by (auto split: sum.splits)
          then show ?thesis using l2 tr True ea by (intro exI [of _ "[(?k, ?e, ?x)]"]) simp
        next
          case re: True
          then obtain err where "d = Inr (Inl err)" by blast
          then have "attempt_loop dp rq q call (Suc n) (errors @ [err]) ms w2 = (r, w')" using step True d by simp
          from Cons.IH [OF this] obtain as where "rw_ledger w' = lg.run ?ex (limit_of b) as (rw_ledger w2)"
            "list_all (estimated_attempt dp rq ms) as" by blast
          then show ?thesis using l2 tr True ea mono by (intro exI [of _ "(?k, ?e, ?x) # as"]) simp
        qed
      qed
    qed
  qed
qed (auto intro: exI [of _ "[]"])

lemma rankCandidates_subset: "rankCandidates dp models q = Inr ms \<Longrightarrow> set ms \<subseteq> set models"
  using rankCandidates_mset [of dp models q ms] by (metis filter_is_subset set_mset_mset)

text \<open>What \<open>invoke\<close> does: it ends at once, or runs the loop over a prefix of the ranked models.\<close>

lemma router_invoke_cases:
  assumes "router_invoke dp fresh rq w = (r, w')"
  obtains x where "r = Inl x" "w' = w"
  | ms where "rankCandidates dp (rd_catalog dp (lr_tenantId rq) (query_of dp rq)) (query_of dp rq) = Inr ms"
      "attempt_loop dp rq (query_of dp rq) (nullish (lr_llmCallId rq) fresh) 1 []
         (take (nullish (rd_maxAttempts dp) (length ms)) ms) w = (r, w')"
  using assms by (auto simp: router_invoke_def Let_def split: if_splits sum.splits)

subsection \<open>Properties of \<open>invoke\<close>\<close>

text \<open>
  The router makes at most \<open>maxAttempts\<close> provider calls, goes on to the next model only after
  a retryable provider failure, and a result it returns is the answer to its last call. The
  listener of usage events may throw, but no \<open>LLMProviderError\<close>.
\<close>

theorem router_calls_bounded:
  assumes "quiet_listener dp" and "rd_maxAttempts dp = Some k" and "router_invoke dp fresh rq w = (r, w')"
  shows "\<exists>new. rw_calls w' = rw_calls w @ new \<and> length new \<le> k \<and> retry_chain dp (rw_calls w) new \<and>
    (case r of Inr res \<Rightarrow> new \<noteq> [] \<and> call_answer dp (rw_calls w @ butlast new) (last new) = Some (Inr res) | Inl x \<Rightarrow> True)"
  using assms(3)
proof (cases rule: router_invoke_cases)
  case (1 x)
  then show ?thesis by (intro exI [of _ "[]"]) simp
next
  case (2 ms)
  from loop_calls [OF assms(1) 2(2)] obtain new where "rw_calls w' = rw_calls w @ new"
    "length new \<le> length (take (nullish (rd_maxAttempts dp) (length ms)) ms)" "retry_chain dp (rw_calls w) new"
    "\<forall>res. r = Inr res \<longrightarrow> new \<noteq> [] \<and> call_answer dp (rw_calls w @ butlast new) (last new) = Some (Inr res)" by blast
  then show ?thesis using assms(2) by (intro exI [of _ new]) (auto split: sum.split)
qed

text \<open>A model whose estimates are sound and whose provider reports at most \<open>M\<close> more than estimated.\<close>

definition honest :: "router_deps \<Rightarrow> llm_request \<Rightarrow> rat \<Rightarrow> llm_model \<Rightarrow> bool" where
  "honest dp rq M m \<longleftrightarrow> sane (estimate rq m) \<and>
     (case rd_registry dp (md_providerId m) of None \<Rightarrow> True
      | Some p \<Rightarrow> \<forall>before. let x = answer_end (provider_request rq m) (lp_invoke p before (provider_request rq m))
          in sane_end x \<and> over_estimate ch_costUsd (estimate rq m) x \<le> M)"

lemma estimated_honest:
  "list_all (estimated_attempt dp rq ms) as \<Longrightarrow> list_all (honest dp rq M) ms \<Longrightarrow> 0 \<le> M \<Longrightarrow>
     list_all (\<lambda>(k, e, x). sane e \<and> sane_end x \<and> over_estimate ch_costUsd e x \<le> M) as"
  by (induction as) (fastforce simp: estimated_attempt_def honest_def list_all_iff Let_def)+

text \<open>
  (C24) A request with a budget and a ledger leaves the execution's accumulated cost at most at the
  larger of what it was and the budget plus \<open>M\<close>, whatever the number of attempts, when a provider
  reports at most \<open>M\<close> more than was estimated for the call.
\<close>

theorem router_spending_bounded:
  assumes "quiet_listener dp" and "rd_hasLedger dp" and "lr_budget rq = Some b"
    and "lg_ok (rw_ledger w)" and "list_all sane (map snd (lg_bucket (lr_executionId rq) (rw_ledger w)))"
    and "list_all (honest dp rq M) (rd_catalog dp (lr_tenantId rq) (query_of dp rq))" and "0 \<le> M"
  shows "fin (ch_costUsd (getAccumulated (lr_executionId rq) (rw_ledger (snd (router_invoke dp fresh rq w)))))
    \<le> max (fin (ch_costUsd (getAccumulated (lr_executionId rq) (rw_ledger w)))) (tb_maxCostUsd b + M)"
proof -
  obtain r w' where i: "router_invoke dp fresh rq w = (r, w')" by fastforce
  have c: "lg.clean (rw_ledger w) (lr_executionId rq)"
    using assms(4,5) lg_ok_bucket [OF assms(4)] by (auto simp: lg.clean_def lg_held_def ran_distinct list_all_iff)
  from i show ?thesis
  proof (cases rule: router_invoke_cases)
    case (1 x)
    then show ?thesis using i by simp
  next
    case (2 ms)
    let ?ms = "take (nullish (rd_maxAttempts dp) (length ms)) ms"
    obtain as where as: "rw_ledger w' = lg.run (lr_executionId rq) (limit_of b) as (rw_ledger w)"
      "list_all (estimated_attempt dp rq ?ms) as" using loop_ledger [OF assms(1-3) 2(2)] by blast
    have "list_all (honest dp rq M) ?ms"
      using rankCandidates_subset [OF 2(1)] assms(6) by (auto simp: list_all_iff dest: in_set_takeD)
    from estimated_honest [OF as(2) this assms(7)]
      lg.run_within [where f = ch_costUsd and m = bl_maxCostUsd and b = "limit_of b" and L = "tb_maxCostUsd b"
        and s = "rw_ledger w" and ex = "lr_executionId rq" and M = M and as = as]
    show ?thesis using c assms(7) as(1) i by (simp add: costs_or_tokens_def limit_of_def lg_total_def)
  qed
qed

subsection \<open>Witnesses\<close>

text \<open>Two models; the provider of the first one always fails, retryably and before submission.\<close>

definition ex_model :: "string \<Rightarrow> string \<Rightarrow> rat \<Rightarrow> llm_model" where
  "ex_model i p prio =
     \<lparr>md_modelId = i, md_providerId = p, md_family = None, md_capabilities = [''chat''], md_maxContextTokens = 8000,
      md_costPerInputTokenUsd = 0, md_costPerOutputTokenUsd = 1 / 1000, md_supportsStructuredOutput = True,
      md_latencyClass = ''background'', md_lifecycle = LM_ACTIVE, md_priority = prio\<rparr>"

definition ex_result :: llm_result where
  "ex_result = \<lparr>lt_providerId = ''q'', lt_modelId = ''m2'', lt_providerRequestId = ''r'', lt_content = ''hi'', lt_structured = None, lt_inputTokens = Fin 10,
     lt_outputTokens = Fin 20, lt_totalTokens = Fin 30, lt_costUsd = Fin 2, lt_latencyMs = Fin 5,
     lt_finishReason = ''stop'', lt_startedAt = 0, lt_completedAt = 5\<rparr>"

definition ex_registry :: "string \<Rightarrow> llm_provider option" where
  "ex_registry i =
     (if i = ''p'' then Some \<lparr>lp_ready = None, lp_invoke = (\<lambda>before rq. Inl (PX_Provider (simple_error ''x'' ''p'' ''RATE_LIMIT'' True)))\<rparr>
      else if i = ''q'' then Some \<lparr>lp_ready = None, lp_invoke = (\<lambda>before rq. Inr ex_result)\<rparr> else None)"

definition ex_deps :: router_deps where
  "ex_deps = \<lparr>rd_catalog = (\<lambda>t q. [ex_model ''m2'' ''q'' 2, ex_model ''m1'' ''p'' 1]), rd_registry = ex_registry,
     rd_listener = None, rd_defaultCapability = None, rd_maxAttempts = Some 2, rd_hasLedger = True,
     rd_localeCompare = (\<lambda>a b. 0)\<rparr>"

definition ex_request :: llm_request where
  "ex_request = \<lparr>lr_tenantId = ''t'', lr_missionId = ''m'', lr_executionId = ''e'', lr_agentId = ''a'', lr_agentVersion = ''1'', lr_capability = ''chat'',
     lr_modelId = None, lr_modelFamily = None, lr_messages = [], lr_structuredOutputSchema = None, lr_maxTokens = 1000, lr_temperature = None, lr_deadline = None,
     lr_costPerInputTokenUsd = None, lr_costPerOutputTokenUsd = None,
     lr_budget = Some \<lparr>tb_maxCostUsd = 5, tb_maxTokens = 4000\<rparr>, lr_latencyClass = None, lr_correlationId = ''c'',
     lr_idempotencyKey = None, lr_llmCallId = Some ''call'', lr_metadata = JNull\<rparr>"

abbreviation "ex_world \<equiv> \<lparr>rw_ledger = [], rw_calls = [], rw_events = []\<rparr>"

lemmas ex_defs = ex_model_def ex_result_def ex_registry_def ex_deps_def ex_request_def simple_error_def

lemma ex_rank:
  "rankCandidates ex_deps (rd_catalog ex_deps ''t'' (query_of ex_deps ex_request)) (query_of ex_deps ex_request) =
     Inr [ex_model ''m1'' ''p'' 1, ex_model ''m2'' ''q'' 2]"
  by (simp add: rankCandidates_def query_of_def eligible_def stable_sort_def in_order_def score_def ex_defs)

lemma ex_invoke:
  "router_invoke ex_deps ''f'' ex_request ex_world =
     (Inr ex_result, \<lparr>rw_ledger = [(''e'', [(''call:2'', \<lparr>ch_costUsd = Fin 2, ch_tokens = Fin 30\<rparr>)])],
        rw_calls = [(''p'', provider_request ex_request (ex_model ''m1'' ''p'' 1)),
                    (''q'', provider_request ex_request (ex_model ''m2'' ''q'' 2))], rw_events = []\<rparr>)"
proof -
  have t: "lr_tenantId ex_request = ''t''" "rd_catalog ex_deps t q \<noteq> []" for t q by (simp_all add: ex_defs)
  have p: "rd_registry ex_deps = ex_registry" by (simp add: ex_deps_def)
  have l: "rd_hasLedger ex_deps" "rd_listener ex_deps = None" "nullish (lr_llmCallId ex_request) ''f'' = ''call''"
    "nullish (rd_maxAttempts ex_deps) 2 = 2" "lr_executionId ex_request = ''e''"
    "lr_budget ex_request = Some \<lparr>tb_maxCostUsd = 5, tb_maxTokens = 4000\<rparr>" "md_providerId (ex_model i p x) = p"
    "estimate ex_request (ex_model i p x) = \<lparr>ch_costUsd = Fin 1, ch_tokens = Fin 1000\<rparr>" for i p x
    by (simp_all add: ex_deps_def ex_request_def estimate_def provider_request_def ex_model_def PER_CALL_TOKEN_ESTIMATE_def)
  have k: "attempt_key ''call'' (Suc 0) = ''call:1''" "attempt_key ''call'' (Suc (Suc 0)) = ''call:2''" by code_simp+
  show ?thesis unfolding router_invoke_def t(1) ex_rank Let_def
    using t(2) l k
    by (simp add: p ex_registry_def dispatch_def reserve_attempt_def tryReserve_def fits_def getAccumulated_def sum_charges_def
        lg_bucket_def limit_of_def set_charge_def add_charge_def emitAttempt_def with_ledger_def failed_end_def simple_error_def
        commitActual_def release_def am_delete_def ex_result_def Let_def eval_nat_numeral)
qed

theorem router_calls_bounded_witness:
  "length (rw_calls (snd (router_invoke ex_deps ''f'' ex_request ex_world))) \<le> 2 \<and>
   retry_chain ex_deps [] (rw_calls (snd (router_invoke ex_deps ''f'' ex_request ex_world)))"
  using router_calls_bounded [of ex_deps 2, OF _ _ ex_invoke] by (simp add: quiet_listener_def ex_invoke) (simp add: ex_deps_def)

theorem router_spending_bounded_witness:
  "fin (ch_costUsd (getAccumulated ''e'' (rw_ledger (snd (router_invoke ex_deps ''f'' ex_request ex_world))))) \<le> 6"
  using router_spending_bounded [of ex_deps ex_request "\<lparr>tb_maxCostUsd = 5, tb_maxTokens = 4000\<rparr>" ex_world 1 "''f''"]
  by (simp add: quiet_listener_def ex_defs lg_ok_def lg_bucket_def honest_def sane_def estimate_def failed_end_def
      provider_request_def PER_CALL_TOKEN_ESTIMATE_def getAccumulated_def sum_charges_def)

end
