(* ===== verification/ToolSchema.thy ===== *)
theory ToolSchema
  imports Contexts
begin

section \<open>Validation of tool input and output\<close>

text \<open>
  \<open>packages/shared/src/validation/strict-tool-schema-validator.ts\<close>: the validator that the tool
  gateway runs on the input before a call and on the output after it. It collects violations in
  one list that all nodes share. Objects are lists of distinct keys with their values; names that
  a plain object inherits from \<open>Object.prototype\<close> are not members of it in the model.
\<close>

datatype schema_type = ST_Object | ST_Array | ST_String | ST_Number | ST_Boolean | ST_Unknown

datatype tool_schema =
  ToolSchema (sd_type: schema_type) (sd_required: "string list option")
    (sd_properties: "(string \<times> tool_schema) list option") (sd_items: "tool_schema option")
    (sd_allowedValues: "json list option")

lemma size_member:
  "x \<in> set xs \<Longrightarrow> size x < Suc (size_list size xs)"
  "(k, x) \<in> set kvs \<Longrightarrow> size x < Suc (size_list (size_prod (\<lambda>_. 0) size) kvs)"
  by (simp add: less_Suc_eq_le size_list_estimation', induction kvs) auto

text \<open>\<open>deepEqual\<close>: equality up to the order of keys; \<open>NaN\<close> equals nothing.\<close>

function (sequential) deepEqual :: "json \<Rightarrow> json \<Rightarrow> bool" where
  "deepEqual JNull JNull = True"
| "deepEqual (JBool a) (JBool b) = (a = b)"
| "deepEqual (JNum a) (JNum b) = js_eq a b"
| "deepEqual (JStr a) (JStr b) = (a = b)"
| "deepEqual (JArr xs) (JArr ys) = (length xs = length ys \<and> list_all (\<lambda>(x, y). deepEqual x y) (zip xs ys))"
| "deepEqual (JObj xs) (JObj ys) =
     (length xs = length ys \<and>
      list_all (\<lambda>(k, x). case map_of ys k of None \<Rightarrow> False | Some y \<Rightarrow> deepEqual x y) xs)"
| "deepEqual _ _ = False"
  by pat_completeness auto
termination deepEqual
  by (relation "measure (\<lambda>(a, b). size a)")
    (auto dest!: set_zip_leftD intro: size_member)

subsection \<open>The validator\<close>

definition allowedCheck :: "json \<Rightarrow> tool_schema \<Rightarrow> string \<Rightarrow> string list \<Rightarrow> string list" where
  "allowedCheck v s path vs =
     (case sd_allowedValues s of
        None \<Rightarrow> vs
      | Some allowed \<Rightarrow>
          if vs = [] \<and> \<not> list_ex (\<lambda>a. deepEqual a v) allowed
          then vs @ [path @ '': value not in allowedValues''] else vs)"

definition leafCheck :: "json \<Rightarrow> schema_type \<Rightarrow> string \<Rightarrow> string list \<Rightarrow> string list" where
  "leafCheck v t path vs =
     (case t of
        ST_String \<Rightarrow> (case v of JStr _ \<Rightarrow> vs | _ \<Rightarrow> vs @ [path @ '': expected string''])
      | ST_Number \<Rightarrow> (case v of JNum n \<Rightarrow> if n = NaN then vs @ [path @ '': expected number''] else vs
                      | _ \<Rightarrow> vs @ [path @ '': expected number''])
      | ST_Boolean \<Rightarrow> (case v of JBool _ \<Rightarrow> vs | _ \<Rightarrow> vs @ [path @ '': expected boolean''])
      | _ \<Rightarrow> vs @ [path @ '': unknown schema type''])"

definition requiredCheck :: "(string \<times> json) list \<Rightarrow> tool_schema \<Rightarrow> string \<Rightarrow> string list \<Rightarrow> string list" where
  "requiredCheck obj s path vs =
     vs @ map (\<lambda>r. path @ ''.'' @ r @ '': required field missing'')
       (filter (\<lambda>r. map_of obj r = None) (nullish (sd_required s) []))"

function (sequential)
  validateNode :: "json \<Rightarrow> tool_schema \<Rightarrow> string \<Rightarrow> string list \<Rightarrow> string list" and
  validateProps :: "(string \<times> json) list \<Rightarrow> (string \<times> tool_schema) list \<Rightarrow> string \<Rightarrow> string list \<Rightarrow> string list" and
  validateItems :: "json list \<Rightarrow> tool_schema \<Rightarrow> nat \<Rightarrow> string \<Rightarrow> string list \<Rightarrow> string list"
where
  "validateNode v (ToolSchema t req props items allowed) path vs =
     (case t of
        ST_Object \<Rightarrow>
          (case v of
             JObj obj \<Rightarrow>
               let vs1 = requiredCheck obj (ToolSchema t req props items allowed) path vs
               in (case props of None \<Rightarrow> vs1 | Some ps \<Rightarrow> validateProps obj ps path vs1)
           | _ \<Rightarrow> vs @ [path @ '': expected object''])
      | ST_Array \<Rightarrow>
          (case v of
             JArr xs \<Rightarrow> (case items of None \<Rightarrow> vs | Some s \<Rightarrow> validateItems xs s 0 path vs)
           | _ \<Rightarrow> vs @ [path @ '': expected array''])
      | _ \<Rightarrow> allowedCheck v (ToolSchema t req props items allowed) path (leafCheck v t path vs))"
| "validateProps obj [] path vs = vs"
| "validateProps obj ((k, s) # ps) path vs =
     (case map_of obj k of
        None \<Rightarrow> validateProps obj ps path vs
      | Some v \<Rightarrow> validateProps obj ps path (validateNode v s (path @ ''.'' @ k) vs))"
| "validateItems [] s i path vs = vs"
| "validateItems (v # xs) s i path vs =
     validateItems xs s (Suc i) path (validateNode v s (path @ ''['' @ show_nat i @ '']'') vs)"
  by pat_completeness auto
termination validateNode
  by (relation "measures [\<lambda>x. case x of Inl (v, s, p, vs) \<Rightarrow> size s | Inr (Inl (ob, ps, p, vs)) \<Rightarrow> size_list (size_prod (\<lambda>_. 0) size) ps
        | Inr (Inr (xs, s, i, p, vs)) \<Rightarrow> size s,
      \<lambda>x. case x of Inr (Inr (xs, s, i, p, vs)) \<Rightarrow> Suc (length xs) | _ \<Rightarrow> 0]")
    auto

text \<open>\<open>validate\<close>: the violations; the value is valid when there are none. An absent value has no type.\<close>

definition validate :: "json option \<Rightarrow> tool_schema \<Rightarrow> string list" where
  "validate value s =
     (case value of
        Some v \<Rightarrow> validateNode v s ''$'' []
      | None \<Rightarrow> [''$: '' @ (case sd_type s of
            ST_Object \<Rightarrow> ''expected object'' | ST_Array \<Rightarrow> ''expected array'' | ST_String \<Rightarrow> ''expected string''
          | ST_Number \<Rightarrow> ''expected number'' | ST_Boolean \<Rightarrow> ''expected boolean'' | ST_Unknown \<Rightarrow> ''unknown schema type'')])"

subsection \<open>What a valid value is\<close>

text \<open>
  The values that a schema describes. Allowed values count for strings, numbers and booleans only:
  the code returns before it looks at them for objects and arrays.
\<close>

fun has_type :: "json \<Rightarrow> schema_type \<Rightarrow> bool" where
  "has_type (JStr _) t = (t = ST_String)"
| "has_type (JNum n) t = (t = ST_Number \<and> n \<noteq> NaN)"
| "has_type (JBool _) t = (t = ST_Boolean)"
| "has_type _ t = False"

inductive conforms :: "json \<Rightarrow> tool_schema \<Rightarrow> bool" where
  conforms_object:
    "\<forall>r. r \<in> set (nullish req []) \<longrightarrow> map_of obj r \<noteq> None \<Longrightarrow>
     \<forall>k s v. (k, s) \<in> set (nullish props []) \<longrightarrow> map_of obj k = Some v \<longrightarrow> conforms v s \<Longrightarrow>
     conforms (JObj obj) (ToolSchema ST_Object req props items allowed)"
| conforms_array:
    "\<forall>s v. items = Some s \<longrightarrow> v \<in> set xs \<longrightarrow> conforms v s \<Longrightarrow>
     conforms (JArr xs) (ToolSchema ST_Array req props items allowed)"
| conforms_leaf:
    "has_type v t \<Longrightarrow> (case allowed of None \<Rightarrow> True | Some vs \<Rightarrow> list_ex (\<lambda>a. deepEqual a v) vs) \<Longrightarrow>
     conforms v (ToolSchema t req props items allowed)"

inductive_simps conforms_simps: "conforms v (ToolSchema t req props items allowed)"

lemma leafCheck_empty:
  "t \<noteq> ST_Object \<Longrightarrow> t \<noteq> ST_Array \<Longrightarrow> leafCheck v t path vs = [] \<longleftrightarrow> vs = [] \<and> has_type v t"
  by (cases t; cases v; auto simp: leafCheck_def)

lemma allowedCheck_empty:
  "allowedCheck v s path vs = [] \<longleftrightarrow>
     vs = [] \<and> (case sd_allowedValues s of None \<Rightarrow> True | Some as \<Rightarrow> list_ex (\<lambda>a. deepEqual a v) as)"
  by (auto simp: allowedCheck_def split: option.split)

lemma requiredCheck_empty:
  "requiredCheck obj s path vs = [] \<longleftrightarrow>
     vs = [] \<and> (\<forall>r. r \<in> set (nullish (sd_required s) []) \<longrightarrow> map_of obj r \<noteq> None)"
  by (auto simp: requiredCheck_def filter_empty_conv)

lemma has_type_leaf: "has_type v t \<Longrightarrow> t \<noteq> ST_Object \<and> t \<noteq> ST_Array"
  by (cases v) auto

lemma conforms_at:
  "conforms v (ToolSchema ST_Object req props items allowed) \<longleftrightarrow>
     (\<exists>obj. v = JObj obj \<and> (\<forall>r. r \<in> set (nullish req []) \<longrightarrow> map_of obj r \<noteq> None) \<and>
        (\<forall>k s w. (k, s) \<in> set (nullish props []) \<longrightarrow> map_of obj k = Some w \<longrightarrow> conforms w s))"
  "conforms v (ToolSchema ST_Array req props items allowed) \<longleftrightarrow>
     (\<exists>xs. v = JArr xs \<and> (\<forall>s w. items = Some s \<longrightarrow> w \<in> set xs \<longrightarrow> conforms w s))"
  "t \<noteq> ST_Object \<Longrightarrow> t \<noteq> ST_Array \<Longrightarrow> conforms v (ToolSchema t req props items allowed) \<longleftrightarrow>
     has_type v t \<and> (case allowed of None \<Rightarrow> True | Some vs \<Rightarrow> list_ex (\<lambda>a. deepEqual a v) vs)"
  by (auto simp: conforms_simps [of v] dest: has_type_leaf)

lemma validate_empty:
  "validateNode v s path vs = [] \<longleftrightarrow> vs = [] \<and> conforms v s"
  "validateProps obj ps path vs = [] \<longleftrightarrow>
     vs = [] \<and> (\<forall>k s w. (k, s) \<in> set ps \<longrightarrow> map_of obj k = Some w \<longrightarrow> conforms w s)"
  "validateItems xs s i path vs = [] \<longleftrightarrow> vs = [] \<and> (\<forall>w. w \<in> set xs \<longrightarrow> conforms w s)"
proof (induction v s path vs and obj ps path vs and xs s i path vs
    rule: validateNode_validateProps_validateItems.induct)
  case (1 v t req props items allowed path vs)
  show ?case
  proof (cases t)
    case ST_Object
    then show ?thesis using 1
      by (cases v; cases props; auto simp: conforms_at requiredCheck_empty Let_def)
  next
    case ST_Array
    then show ?thesis using 1 by (cases v; cases items; auto simp: conforms_at)
  qed (auto simp: conforms_at allowedCheck_empty leafCheck_empty)
next
  case (3 obj k s ps path vs)
  then show ?case by (cases "map_of obj k") auto
qed auto

text \<open>
  (C22) The validator is correct: it reports no violation exactly for the values that conform to the
  schema, in particular no call passes with a missing required field, a member of the wrong type
  at any depth, or a scalar that is not among the allowed values.
\<close>

theorem validate_iff_conforms:
  "validate w s = [] \<longleftrightarrow> (case w of None \<Rightarrow> False | Some v \<Rightarrow> conforms v s)"
  by (cases w) (simp_all add: validate_def validate_empty)

end
