(* ===== verification/ToolRegistry.thy ===== *)
theory ToolRegistry
  imports ToolSchema
begin

section \<open>The tool registry\<close>

text \<open>
  \<open>packages/tool-gateway/src/tool-resolution.ts\<close>, \<open>in-memory-tool-registry.ts\<close> and
  \<open>postgres-tool-registry.ts\<close>: definitions of tools by scope (a tenant or global) and version,
  which of them a reference resolves to, and which ones are offered to agents. The row level
  security of the table (own and global rows are readable, own rows writable), its unique
  indexes and its trigger are those of \<open>infra/database/migrations/021_slice6_tool_registry.sql\<close>.
\<close>

datatype tool_lifecycle = TL_DRAFT | TL_ACTIVE | TL_DEPRECATED | TL_RETIRED

datatype side_effect_class = READ_ONLY | REVERSIBLE_WRITE | IRREVERSIBLE_EXTERNAL

datatype risk_category = RC_LOW | RC_MEDIUM | RC_HIGH | RC_CRITICAL

record tool_definition =
  td_toolDefinitionId :: string
  td_toolId :: string
  td_version :: string
  td_tenantId :: "string option"  \<comment> \<open>\<open>None\<close>: global\<close>
  td_description :: string
  td_inputSchema :: "tool_schema option"
  td_outputSchema :: "tool_schema option"
  td_requiredCapabilities :: "string list"
  td_riskCategory :: risk_category
  td_sideEffectClass :: side_effect_class
  td_requiredApproval :: bool
  td_providerId :: string
  td_enabled :: bool
  td_timeoutSeconds :: int
  td_maxRetries :: int
  td_idempotencyRequired :: bool
  td_costMetadata :: "json option"
  td_config :: "json option"
  td_lifecycle :: tool_lifecycle
  td_createdAt :: "int option"
  td_updatedAt :: "int option"

record tool_ref =
  tr_toolDefinitionId :: "string option"
  tr_toolId :: "string option"
  tr_version :: "string option"

datatype tool_resolution =
    Resolved tool_definition
  | NotFound string
  | Shadowed string
  | NotExecutable string tool_definition
  | VersionRequired string
  | Ambiguous string

subsection \<open>Resolution\<close>

definition lifecycle_name :: "tool_lifecycle \<Rightarrow> string" where
  "lifecycle_name l = (case l of TL_DRAFT \<Rightarrow> ''DRAFT'' | TL_ACTIVE \<Rightarrow> ''ACTIVE'' | TL_DEPRECATED \<Rightarrow> ''DEPRECATED'' | TL_RETIRED \<Rightarrow> ''RETIRED'')"

text \<open>\<open>isExecutable\<close>: \<open>None\<close> is \<open>ok\<close>, otherwise the reason.\<close>

definition isExecutable :: "tool_definition \<Rightarrow> string option" where
  "isExecutable d =
     (if td_lifecycle d \<noteq> TL_ACTIVE then Some (''lifecycle='' @ lifecycle_name (td_lifecycle d))
      else if \<not> td_enabled d then Some ''disabled'' else None)"

definition resolveToolDefinition :: "tool_ref \<Rightarrow> tool_definition list \<Rightarrow> string \<Rightarrow> tool_resolution" where
  "resolveToolDefinition ref candidates tenant =
     (let own = List.find (\<lambda>d. td_tenantId d = Some tenant) candidates
      in if truthy (tr_toolDefinitionId ref)
         then (case List.find (\<lambda>d. Some (td_toolDefinitionId d) = tr_toolDefinitionId ref) candidates of
             None \<Rightarrow> NotFound (''tool_definition_id '' @ nullish (tr_toolDefinitionId ref) [] @ '' not found'')
           | Some exact \<Rightarrow>
               if td_tenantId exact \<noteq> None \<and> td_tenantId exact \<noteq> Some tenant
               then NotFound ''definition not visible to tenant''
               else case own of
                   Some t \<Rightarrow>
                     if td_toolDefinitionId t \<noteq> td_toolDefinitionId exact
                     then Shadowed ''tenant-specific definition shadows the requested global tool_definition_id''
                     else (case isExecutable t of
                         Some reason \<Rightarrow> NotExecutable (''tenant override not executable: '' @ reason) t
                       | None \<Rightarrow> Resolved t)
                 | None \<Rightarrow>
                     (case isExecutable exact of Some reason \<Rightarrow> NotExecutable reason exact | None \<Rightarrow> Resolved exact))
         else if truthy (tr_toolId ref) \<and> \<not> truthy (tr_version ref)
         then VersionRequired ''version-less execution is not permitted''
         else if truthy (tr_toolId ref) \<and> truthy (tr_version ref)
         then (let scoped = filter (\<lambda>d. Some (td_toolId d) = tr_toolId ref \<and> Some (td_version d) = tr_version ref) candidates
               in case List.find (\<lambda>d. td_tenantId d = Some tenant) scoped of
                 Some t \<Rightarrow>
                   (case isExecutable t of
                      Some reason \<Rightarrow> Shadowed (''tenant override not executable: '' @ reason)
                    | None \<Rightarrow> Resolved t)
               | None \<Rightarrow>
                   (case List.find (\<lambda>d. td_tenantId d = None) scoped of
                      Some g \<Rightarrow> (case isExecutable g of Some reason \<Rightarrow> NotExecutable reason g | None \<Rightarrow> Resolved g)
                    | None \<Rightarrow> NotFound (''no definition for '' @ nullish (tr_toolId ref) [] @ ''@'' @ nullish (tr_version ref) [])))
         else Ambiguous ''no resolvable tool reference supplied'')"

subsection \<open>The in-memory registry\<close>

text \<open>A map from ids to definitions, in the order of their registration.\<close>

type_synonym registry = "(string \<times> tool_definition) list"

datatype registry_error =
    AlreadyRegistered string
  | DuplicateDefinition string string "string option"
  | DefinitionNotFound string
  | NotTenantMutable string
  | InvalidLifecycle tool_lifecycle tool_lifecycle

definition FORWARD :: "tool_lifecycle \<Rightarrow> tool_lifecycle option" where
  "FORWARD l = (case l of TL_DRAFT \<Rightarrow> Some TL_ACTIVE | TL_ACTIVE \<Rightarrow> Some TL_DEPRECATED | TL_DEPRECATED \<Rightarrow> Some TL_RETIRED | TL_RETIRED \<Rightarrow> None)"

definition same_slot :: "tool_definition \<Rightarrow> tool_definition \<Rightarrow> bool" where
  "same_slot d e \<longleftrightarrow> td_tenantId d = td_tenantId e \<and> td_toolId d = td_toolId e \<and> td_version d = td_version e"

definition reg_register :: "tool_definition \<Rightarrow> registry \<Rightarrow> (registry_error + tool_definition) \<times> registry" where
  "reg_register d r =
     (let key = td_toolDefinitionId d
      in if map_of r key \<noteq> None then (Inl (AlreadyRegistered key), r)
         else if list_ex (\<lambda>(k, e). same_slot e d) r
         then (Inl (DuplicateDefinition (td_toolId d) (td_version d) (td_tenantId d)), r)
         else (Inr d, am_set key d r))"

definition visible :: "string \<Rightarrow> tool_definition \<Rightarrow> bool" where
  "visible tenant d \<longleftrightarrow> td_tenantId d = None \<or> td_tenantId d = Some tenant"

definition reg_getById :: "tenant_context \<Rightarrow> string \<Rightarrow> registry \<Rightarrow> tool_definition option" where
  "reg_getById ctx i r =
     (case map_of r i of None \<Rightarrow> None
      | Some d \<Rightarrow> if td_tenantId d \<noteq> None \<and> td_tenantId d \<noteq> Some (cx_tenantId ctx) then None else Some d)"

definition reg_findByToolVersion :: "tenant_context \<Rightarrow> string \<Rightarrow> string \<Rightarrow> registry \<Rightarrow> tool_definition list" where
  "reg_findByToolVersion ctx tool ver r =
     filter (\<lambda>d. td_toolId d = tool \<and> td_version d = ver \<and> visible (cx_tenantId ctx) d) (map snd r)"

definition reg_listCatalog :: "tenant_context \<Rightarrow> registry \<Rightarrow> tool_definition list" where
  "reg_listCatalog ctx r = filter (visible (cx_tenantId ctx)) (map snd r)"

text \<open>The grouping by the string \<open>toolId@version\<close>, and what is offered of each group.\<close>

definition tool_key :: "tool_definition \<Rightarrow> string" where
  "tool_key d = td_toolId d @ ''@'' @ td_version d"

definition group_tools :: "tool_definition list \<Rightarrow> (string \<times> tool_definition list) list" where
  "group_tools ds = fold (\<lambda>d m. am_set (tool_key d) (nullish (map_of m (tool_key d)) [] @ [d]) m) ds []"

definition effective :: "string \<Rightarrow> tool_definition list \<Rightarrow> tool_definition option" where
  "effective tenant grp =
     nullish_opt (List.find (\<lambda>d. td_tenantId d = Some tenant) grp) (List.find (\<lambda>d. td_tenantId d = None) grp)"

definition offered :: "string \<Rightarrow> string list \<Rightarrow> tool_definition list \<Rightarrow> tool_definition option" where
  "offered tenant capabilities grp =
     (case effective tenant grp of None \<Rightarrow> None
      | Some d \<Rightarrow>
          if td_lifecycle d \<noteq> TL_ACTIVE \<or> \<not> td_enabled d then None
          else if filter (\<lambda>c. c \<notin> set capabilities) (td_requiredCapabilities d) \<noteq> [] then None
          else Some d)"

definition reg_discoverExecutable :: "tenant_context \<Rightarrow> string list \<Rightarrow> registry \<Rightarrow> tool_definition list" where
  "reg_discoverExecutable ctx capabilities r =
     List.map_filter (\<lambda>(k, grp). offered (cx_tenantId ctx) capabilities grp) (group_tools (reg_listCatalog ctx r))"

definition reg_resolveExecutable :: "tenant_context \<Rightarrow> tool_ref \<Rightarrow> registry \<Rightarrow> tool_resolution" where
  "reg_resolveExecutable ctx ref r =
     resolveToolDefinition ref
       (if truthy (tr_toolDefinitionId ref)
        then (case reg_getById ctx (nullish (tr_toolDefinitionId ref) []) r of None \<Rightarrow> []
              | Some exact \<Rightarrow> reg_findByToolVersion ctx (td_toolId exact) (td_version exact) r)
        else if truthy (tr_toolId ref) \<and> truthy (tr_version ref)
        then reg_findByToolVersion ctx (nullish (tr_toolId ref) []) (nullish (tr_version ref) []) r
        else []) (cx_tenantId ctx)"

definition getMutableOwn :: "tenant_context \<Rightarrow> string \<Rightarrow> registry \<Rightarrow> registry_error + tool_definition" where
  "getMutableOwn ctx i r =
     (case map_of r i of None \<Rightarrow> Inl (DefinitionNotFound i)
      | Some d \<Rightarrow> if td_tenantId d \<noteq> Some (cx_tenantId ctx) then Inl (NotTenantMutable i) else Inr d)"

definition reg_transitionLifecycle ::
    "int \<Rightarrow> tenant_context \<Rightarrow> string \<Rightarrow> tool_lifecycle \<Rightarrow> registry \<Rightarrow> (registry_error + tool_definition) \<times> registry" where
  "reg_transitionLifecycle now ctx i to r =
     (case getMutableOwn ctx i r of
        Inl e \<Rightarrow> (Inl e, r)
      | Inr d \<Rightarrow>
          if FORWARD (td_lifecycle d) \<noteq> Some to then (Inl (InvalidLifecycle (td_lifecycle d) to), r)
          else let updated = d\<lparr>td_lifecycle := to, td_updatedAt := Some now\<rparr> in (Inr updated, am_set i updated r))"

definition reg_setEnabled ::
    "int \<Rightarrow> tenant_context \<Rightarrow> string \<Rightarrow> bool \<Rightarrow> registry \<Rightarrow> (registry_error + tool_definition) \<times> registry" where
  "reg_setEnabled now ctx i enabled r =
     (case getMutableOwn ctx i r of
        Inl e \<Rightarrow> (Inl e, r)
      | Inr d \<Rightarrow> let updated = d\<lparr>td_enabled := enabled, td_updatedAt := Some now\<rparr> in (Inr updated, am_set i updated r))"

subsection \<open>The invariant of the registry\<close>

definition reg_ok :: "registry \<Rightarrow> bool" where
  "reg_ok r \<longleftrightarrow> distinct (map fst r) \<and> list_all (\<lambda>(k, d). td_toolDefinitionId d = k) r \<and>
     list_all (\<lambda>(k, d). list_all (\<lambda>(k', d'). same_slot d d' \<longrightarrow> k = k') r) r"

datatype registry_op =
    Register tenant_context tool_definition
  | TransitionLifecycle int tenant_context string tool_lifecycle
  | SetEnabled int tenant_context string bool

fun op_tenant :: "registry_op \<Rightarrow> string" where
  "op_tenant (Register ctx d) = cx_tenantId ctx"
| "op_tenant (TransitionLifecycle now ctx i to) = cx_tenantId ctx"
| "op_tenant (SetEnabled now ctx i b) = cx_tenantId ctx"

fun reg_step :: "registry_op \<Rightarrow> registry \<Rightarrow> registry" where
  "reg_step (Register ctx d) r = snd (reg_register d r)"
| "reg_step (TransitionLifecycle now ctx i to) r = snd (reg_transitionLifecycle now ctx i to r)"
| "reg_step (SetEnabled now ctx i b) r = snd (reg_setEnabled now ctx i b r)"

definition reg_run :: "registry_op list \<Rightarrow> registry \<Rightarrow> registry" where
  "reg_run ops r = fold reg_step ops r"

lemma reg_ok_lookup: "reg_ok r \<Longrightarrow> (k, d) \<in> set r \<longleftrightarrow> map_of r k = Some d"
  by (auto simp: reg_ok_def)

definition map_ok :: "(string \<rightharpoonup> tool_definition) \<Rightarrow> bool" where
  "map_ok m \<longleftrightarrow> (\<forall>k d. m k = Some d \<longrightarrow> td_toolDefinitionId d = k) \<and>
     (\<forall>k d k' d'. m k = Some d \<longrightarrow> m k' = Some d' \<longrightarrow> same_slot d d' \<longrightarrow> k = k')"

lemma reg_ok_iff: "reg_ok r \<longleftrightarrow> distinct (map fst r) \<and> map_ok (map_of r)"
proof (cases "distinct (map fst r)")
  case True
  then have "(x \<in> set r) = (map_of r (fst x) = Some (snd x))" for x by (cases x) simp
  then show ?thesis using True by (auto simp: reg_ok_def map_ok_def list_all_iff)
qed (simp add: reg_ok_def)

lemma same_slot_equiv: "same_slot d d" "same_slot d e \<Longrightarrow> same_slot e d" "same_slot d e \<Longrightarrow> same_slot e f \<Longrightarrow> same_slot d f"
  by (auto simp: same_slot_def)

text \<open>A definition with the identity of the stored one, or in a free slot, keeps the invariant.\<close>

lemma map_ok_update:
  assumes "map_ok m" and "td_toolDefinitionId d' = i" and "m i = Some d \<and> same_slot d d' \<or> (\<forall>k e. m k = Some e \<longrightarrow> \<not> same_slot e d')"
  shows "map_ok (m(i \<mapsto> d'))"
proof -
  have "k = i" if "m k = Some e" "same_slot e d'" for k e
    using assms(1,3) that same_slot_equiv unfolding map_ok_def by meson
  then show ?thesis using assms(1,2) same_slot_equiv(2) unfolding map_ok_def by auto
qed

lemma reg_ok_update:
  assumes "reg_ok r" and "map_of r i = Some d" and "same_slot d d'" and "td_toolDefinitionId d' = td_toolDefinitionId d"
  shows "reg_ok (am_set i d' r)"
proof -
  have "td_toolDefinitionId d' = i" using assms unfolding reg_ok_iff map_ok_def by metis
  then show ?thesis using assms map_ok_update [of "map_of r" d' i d] distinct_am_set [of r i d']
    by (simp add: reg_ok_iff del: map_of_eq_Some_iff)
qed

lemma reg_ok_register: "reg_ok r \<Longrightarrow> reg_ok (snd (reg_register d r))"
proof (cases "map_of r (td_toolDefinitionId d) = None \<and> \<not> list_ex (\<lambda>(k, e). same_slot e d) r")
  case True
  assume ok: "reg_ok r"
  have n: "\<not> same_slot e d" if "map_of r k = Some e" for k e
    using True map_of_SomeD [OF that] by (auto simp: list_ex_iff)
  have "map_ok ((map_of r)(td_toolDefinitionId d \<mapsto> d))"
    using ok n by (intro map_ok_update) (auto simp: reg_ok_iff simp del: map_of_eq_Some_iff)
  then show ?thesis using ok True distinct_am_set [of r "td_toolDefinitionId d" d]
    by (simp add: reg_register_def Let_def reg_ok_iff)
qed (auto simp: reg_register_def Let_def)

lemma getMutableOwn_Inr:
  "getMutableOwn ctx i r = Inr d \<longleftrightarrow> map_of r i = Some d \<and> td_tenantId d = Some (cx_tenantId ctx)"
  by (auto simp: getMutableOwn_def split: option.split)

lemma reg_ok_step: "reg_ok r \<Longrightarrow> reg_ok (reg_step op r)"
proof (cases op)
  case (TransitionLifecycle now ctx i to)
  assume "reg_ok r"
  then show ?thesis using TransitionLifecycle
    by (auto simp: reg_transitionLifecycle_def getMutableOwn_Inr Let_def same_slot_def split: sum.split intro!: reg_ok_update)
next
  case (SetEnabled now ctx i b)
  assume "reg_ok r"
  then show ?thesis using SetEnabled
    by (auto simp: reg_setEnabled_def getMutableOwn_Inr Let_def same_slot_def split: sum.split intro!: reg_ok_update)
qed (simp add: reg_ok_register)

lemma reg_ok_run: "reg_ok r \<Longrightarrow> reg_ok (reg_run ops r)"
  unfolding reg_run_def by (induction ops arbitrary: r) (auto simp: reg_ok_step)

subsection \<open>What changes in a stored definition\<close>

definition stage :: "tool_lifecycle \<Rightarrow> nat" where
  "stage l = (case l of TL_DRAFT \<Rightarrow> 0 | TL_ACTIVE \<Rightarrow> 1 | TL_DEPRECATED \<Rightarrow> 2 | TL_RETIRED \<Rightarrow> 3)"

text \<open>\<open>d'\<close> is \<open>d\<close> up to its lifecycle, which did not go back, its switch and its time of update.\<close>

definition same_contract :: "tool_definition \<Rightarrow> tool_definition \<Rightarrow> bool" where
  "same_contract d d' \<longleftrightarrow> d' = d\<lparr>td_lifecycle := td_lifecycle d', td_enabled := td_enabled d', td_updatedAt := td_updatedAt d'\<rparr> \<and>
     stage (td_lifecycle d) \<le> stage (td_lifecycle d')"

lemma same_contract_refl: "same_contract d d"
  by (simp add: same_contract_def)

lemma same_contract_trans: "same_contract a b \<Longrightarrow> same_contract b c \<Longrightarrow> same_contract a c"
  unfolding same_contract_def by (cases a; cases b; cases c) auto

lemma FORWARD_stage: "FORWARD l = Some l' \<Longrightarrow> stage l' = Suc (stage l)"
  by (cases l) (auto simp: FORWARD_def stage_def)

lemma reg_step_stored:
  assumes "map_of r i = Some d"
  shows "\<exists>d'. map_of (reg_step op r) i = Some d' \<and> same_contract d d' \<and> (Some (op_tenant op) \<noteq> td_tenantId d \<longrightarrow> d' = d)"
proof (cases op)
  case (Register ctx e)
  then show ?thesis using assms by (auto simp: reg_register_def Let_def same_contract_refl)
next
  case (TransitionLifecycle now ctx j to)
  then show ?thesis using assms FORWARD_stage [of "td_lifecycle d" to]
    by (auto simp: reg_transitionLifecycle_def getMutableOwn_def Let_def same_contract_def split: option.splits)
next
  case (SetEnabled now ctx j b)
  then show ?thesis using assms
    by (auto simp: reg_setEnabled_def getMutableOwn_def Let_def same_contract_def split: option.splits)
qed

text \<open>
  A registered tool keeps its contract: whatever is registered, switched or moved in its
  lifecycle afterwards, a definition stays in the registry with the same identity, schemas,
  capabilities, provider and limits; its lifecycle never goes back; and it does not change at
  all unless a call of its own tenant is among the operations, so a global one never does.
\<close>

theorem registered_contract_kept:
  assumes "map_of r i = Some d"
  shows "\<exists>d'. map_of (reg_run ops r) i = Some d' \<and> same_contract d d' \<and>
    (Some ` op_tenant ` set ops \<inter> {td_tenantId d} = {} \<longrightarrow> d' = d)"
  using assms
proof (induction ops arbitrary: r d)
  case Nil
  then show ?case by (simp add: reg_run_def same_contract_refl)
next
  case (Cons op ops)
  from reg_step_stored [OF Cons.prems, of op] obtain e where e: "map_of (reg_step op r) i = Some e" "same_contract d e"
    "Some (op_tenant op) \<noteq> td_tenantId d \<longrightarrow> e = d" by blast
  have t: "td_tenantId e = td_tenantId d" using e(2) unfolding same_contract_def by (cases d; cases e) auto
  from Cons.IH [OF e(1)] obtain d' where "map_of (reg_run ops (reg_step op r)) i = Some d'" "same_contract e d'"
    "Some ` op_tenant ` set ops \<inter> {td_tenantId e} = {} \<longrightarrow> d' = e" by blast
  then show ?case using e(2,3) t same_contract_trans [of d e d'] by (auto simp: reg_run_def)
qed

subsection \<open>Which definition is in force\<close>

text \<open>A visible, active, enabled definition that no definition of the tenant itself shadows.\<close>

definition in_force :: "string \<Rightarrow> registry \<Rightarrow> tool_definition \<Rightarrow> bool" where
  "in_force tenant r d \<longleftrightarrow> map_of r (td_toolDefinitionId d) = Some d \<and> visible tenant d \<and>
     td_lifecycle d = TL_ACTIVE \<and> td_enabled d \<and>
     (td_tenantId d = None \<longrightarrow> \<not> (\<exists>k e. map_of r k = Some e \<and> td_tenantId e = Some tenant \<and>
        td_toolId e = td_toolId d \<and> td_version e = td_version d))"

definition refers :: "tool_ref \<Rightarrow> tool_definition \<Rightarrow> bool" where
  "refers ref d \<longleftrightarrow>
     (if truthy (tr_toolDefinitionId ref) then tr_toolDefinitionId ref = Some (td_toolDefinitionId d)
      else truthy (tr_toolId ref) \<and> truthy (tr_version ref) \<and>
           tr_toolId ref = Some (td_toolId d) \<and> tr_version ref = Some (td_version d))"

lemma find_iff_unique:
  "(\<And>x y. x \<in> set xs \<Longrightarrow> y \<in> set xs \<Longrightarrow> P x \<Longrightarrow> P y \<Longrightarrow> x = y) \<Longrightarrow> List.find P xs = Some d \<longleftrightarrow> d \<in> set xs \<and> P d"
  by (induction xs) auto

lemma isExecutable_None: "isExecutable d = None \<longleftrightarrow> td_lifecycle d = TL_ACTIVE \<and> td_enabled d"
  by (simp add: isExecutable_def)

lemma reg_ok_values:
  "reg_ok r \<Longrightarrow> d \<in> snd ` set r \<longleftrightarrow> map_of r (td_toolDefinitionId d) = Some d"
  "reg_ok r \<Longrightarrow> map_of r k = Some d \<Longrightarrow> td_toolDefinitionId d = k"
  "reg_ok r \<Longrightarrow> map_of r k = Some d \<Longrightarrow> map_of r k' = Some d' \<Longrightarrow> same_slot d d' \<Longrightarrow> d = d'"
proof -
  assume ok: "reg_ok r"
  show i: "map_of r k = Some d \<Longrightarrow> td_toolDefinitionId d = k"
    using ok unfolding reg_ok_iff map_ok_def by blast
  show "d \<in> snd ` set r \<longleftrightarrow> map_of r (td_toolDefinitionId d) = Some d" (is "?l \<longleftrightarrow> ?r")
  proof
    assume ?l
    then obtain k' where "(k', d) \<in> set r" by auto
    then have "map_of r k' = Some d" using reg_ok_lookup [OF ok] by blast
    then show ?r using ok unfolding reg_ok_iff map_ok_def by metis
  next
    assume ?r
    then show ?l using map_of_SomeD by force
  qed
  show "map_of r k = Some d \<Longrightarrow> map_of r k' = Some d' \<Longrightarrow> same_slot d d' \<Longrightarrow> d = d'"
    using ok unfolding reg_ok_iff map_ok_def by (metis option.inject)
qed

lemma in_findByToolVersion:
  assumes "reg_ok r"
  shows "d \<in> set (reg_findByToolVersion ctx tool ver r) \<longleftrightarrow>
    map_of r (td_toolDefinitionId d) = Some d \<and> td_toolId d = tool \<and> td_version d = ver \<and> visible (cx_tenantId ctx) d"
proof -
  have "d \<in> set (reg_findByToolVersion ctx tool ver r) \<longleftrightarrow>
    d \<in> snd ` set r \<and> td_toolId d = tool \<and> td_version d = ver \<and> visible (cx_tenantId ctx) d"
    by (auto simp: reg_findByToolVersion_def)
  then show ?thesis using reg_ok_values(1) [OF assms, of d] by simp
qed

lemma find_scope:
  assumes "reg_ok r" and "s = None \<or> s = Some (cx_tenantId ctx)"
  shows "List.find (\<lambda>d. td_tenantId d = s) (reg_findByToolVersion ctx tool ver r) = Some d \<longleftrightarrow>
    map_of r (td_toolDefinitionId d) = Some d \<and> td_tenantId d = s \<and> td_toolId d = tool \<and> td_version d = ver"
proof -
  have "x = y" if "x \<in> set (reg_findByToolVersion ctx tool ver r)" "y \<in> set (reg_findByToolVersion ctx tool ver r)"
    "td_tenantId x = s" "td_tenantId y = s" for x y
    using that reg_ok_values(3) [OF assms(1), of "td_toolDefinitionId x" x "td_toolDefinitionId y" y]
    unfolding in_findByToolVersion [OF assms(1)] same_slot_def by metis
  then have u: "List.find (\<lambda>d. td_tenantId d = s) (reg_findByToolVersion ctx tool ver r) = Some d \<longleftrightarrow>
      d \<in> set (reg_findByToolVersion ctx tool ver r) \<and> td_tenantId d = s" by (rule find_iff_unique)
  show ?thesis unfolding u in_findByToolVersion [OF assms(1)] visible_def using assms(2) by blast
qed

lemma find_scope_None:
  assumes "reg_ok r" and "s = None \<or> s = Some (cx_tenantId ctx)"
  shows "List.find (\<lambda>d. td_tenantId d = s) (reg_findByToolVersion ctx tool ver r) = None \<longleftrightarrow>
    \<not> (\<exists>k e. map_of r k = Some e \<and> td_tenantId e = s \<and> td_toolId e = tool \<and> td_version e = ver)"
  unfolding find_None_iff' in_findByToolVersion [OF assms(1)] visible_def
  using assms(2) reg_ok_values(2) [OF assms(1)] by blast

lemma find_id:
  assumes "reg_ok r"
  shows "List.find (\<lambda>d. Some (td_toolDefinitionId d) = Some i) (reg_findByToolVersion ctx tool ver r) = Some d \<longleftrightarrow>
    map_of r i = Some d \<and> visible (cx_tenantId ctx) d \<and> td_toolId d = tool \<and> td_version d = ver"
proof -
  have "x = y" if "x \<in> set (reg_findByToolVersion ctx tool ver r)" "y \<in> set (reg_findByToolVersion ctx tool ver r)"
    "Some (td_toolDefinitionId x) = Some i" "Some (td_toolDefinitionId y) = Some i" for x y
    using that unfolding in_findByToolVersion [OF assms] by simp
  then have u: "List.find (\<lambda>d. Some (td_toolDefinitionId d) = Some i) (reg_findByToolVersion ctx tool ver r) = Some d \<longleftrightarrow>
      d \<in> set (reg_findByToolVersion ctx tool ver r) \<and> Some (td_toolDefinitionId d) = Some i" by (rule find_iff_unique)
  show ?thesis unfolding u in_findByToolVersion [OF assms] using reg_ok_values(2) [OF assms, of i d] by blast
qed

lemma scoped_same:
  "filter (\<lambda>d. Some (td_toolId d) = Some tool \<and> Some (td_version d) = Some ver) (reg_findByToolVersion ctx tool ver r)
     = reg_findByToolVersion ctx tool ver r"
  by (rule filter_id_conv [THEN iffD2]) (auto simp: reg_findByToolVersion_def)

text \<open>A reference by tool and version.\<close>

lemma resolve_by_version:
  assumes ok: "reg_ok r" and "\<not> truthy (tr_toolDefinitionId ref)" and t: "tr_toolId ref = Some tool" "tr_version ref = Some ver"
    and ne: "tool \<noteq> []" "ver \<noteq> []"
  shows "reg_resolveExecutable ctx ref r = Resolved d \<longleftrightarrow> in_force (cx_tenantId ctx) r d \<and> td_toolId d = tool \<and> td_version d = ver"
proof -
  let ?find = "\<lambda>s. List.find (\<lambda>d. td_tenantId d = s) (reg_findByToolVersion ctx tool ver r)"
  have e: "reg_resolveExecutable ctx ref r = (case ?find (Some (cx_tenantId ctx)) of
      Some t \<Rightarrow> (case isExecutable t of Some reason \<Rightarrow> Shadowed (''tenant override not executable: '' @ reason) | None \<Rightarrow> Resolved t)
    | None \<Rightarrow> (case ?find None of Some g \<Rightarrow> (case isExecutable g of Some reason \<Rightarrow> NotExecutable reason g | None \<Rightarrow> Resolved g)
               | None \<Rightarrow> NotFound (''no definition for '' @ tool @ ''@'' @ ver)))"
    using assms(2) ne unfolding reg_resolveExecutable_def resolveToolDefinition_def Let_def t nullish.simps
    by (simp add: scoped_same [simplified] cong: option.case_cong)
  note own = find_scope [OF ok, of "Some (cx_tenantId ctx)" ctx tool ver] and glob = find_scope [OF ok, of None ctx tool ver]
  show ?thesis
  proof (cases "?find (Some (cx_tenantId ctx))")
    case (Some t)
    then have t: "map_of r (td_toolDefinitionId t) = Some t \<and> td_tenantId t = Some (cx_tenantId ctx) \<and> td_toolId t = tool \<and> td_version t = ver"
      using own by simp
    have "d = t" if "in_force (cx_tenantId ctx) r d" "td_toolId d = tool" "td_version d = ver"
      using t that reg_ok_values(3) [OF ok, of "td_toolDefinitionId d" d "td_toolDefinitionId t" t]
      unfolding in_force_def visible_def same_slot_def by metis
    moreover have "in_force (cx_tenantId ctx) r t \<longleftrightarrow> isExecutable t = None"
      using t by (simp add: in_force_def visible_def isExecutable_None)
    moreover have "reg_resolveExecutable ctx ref r = Resolved d \<longleftrightarrow> isExecutable t = None \<and> d = t"
      using e Some by (cases "isExecutable t") auto
    ultimately show ?thesis using t by metis
  next
    case None
    then have n: "\<not> (\<exists>k e. map_of r k = Some e \<and> td_tenantId e = Some (cx_tenantId ctx) \<and> td_toolId e = tool \<and> td_version e = ver)"
      using find_scope_None [OF ok, of "Some (cx_tenantId ctx)" ctx tool ver] by simp
    show ?thesis
    proof (cases "?find None")
      case None
      then have "\<not> (\<exists>k e. map_of r k = Some e \<and> td_tenantId e = None \<and> td_toolId e = tool \<and> td_version e = ver)"
        using find_scope_None [OF ok, of None ctx tool ver] by simp
      then show ?thesis using e None \<open>?find (Some (cx_tenantId ctx)) = None\<close> n by (auto simp: in_force_def visible_def)
    next
      case (Some g)
      then have g: "map_of r (td_toolDefinitionId g) = Some g \<and> td_tenantId g = None \<and> td_toolId g = tool \<and> td_version g = ver"
        using glob by simp
      have "d = g" if "in_force (cx_tenantId ctx) r d" "td_toolId d = tool" "td_version d = ver"
        using g that n reg_ok_values(3) [OF ok, of "td_toolDefinitionId d" d "td_toolDefinitionId g" g]
        unfolding in_force_def visible_def same_slot_def by metis
      moreover have "in_force (cx_tenantId ctx) r g \<longleftrightarrow> isExecutable g = None"
        using g n by (auto simp: in_force_def visible_def isExecutable_None)
      moreover have "reg_resolveExecutable ctx ref r = Resolved d \<longleftrightarrow> isExecutable g = None \<and> d = g"
        using e Some None by (cases "isExecutable g") auto
      ultimately show ?thesis using g by metis
    qed
  qed
qed

text \<open>A reference by id: the definition has to be in force, whatever scope the caller asked for.\<close>

lemma resolve_by_id:
  assumes ok: "reg_ok r" and i: "tr_toolDefinitionId ref = Some i" "i \<noteq> []"
  shows "reg_resolveExecutable ctx ref r = Resolved d \<longleftrightarrow> in_force (cx_tenantId ctx) r d \<and> td_toolDefinitionId d = i"
proof (cases "reg_getById ctx i r")
  case None
  then have "\<not> (in_force (cx_tenantId ctx) r d \<and> td_toolDefinitionId d = i)"
    by (auto simp: reg_getById_def in_force_def visible_def split: option.splits if_splits)
  then show ?thesis using i None by (simp add: reg_resolveExecutable_def resolveToolDefinition_def)
next
  case (Some x)
  then have x: "map_of r i = Some x" "visible (cx_tenantId ctx) x"
    by (auto simp: reg_getById_def visible_def split: option.splits if_splits)
  have xi: "td_toolDefinitionId x = i" using reg_ok_values(2) [OF ok x(1)] .
  let ?cs = "reg_findByToolVersion ctx (td_toolId x) (td_version x) r"
  have fx: "List.find (\<lambda>d. Some (td_toolDefinitionId d) = Some i) ?cs = Some x" using find_id [OF ok] x by blast
  have e: "reg_resolveExecutable ctx ref r = (case List.find (\<lambda>d. td_tenantId d = Some (cx_tenantId ctx)) ?cs of
      Some t \<Rightarrow>
        if td_toolDefinitionId t \<noteq> td_toolDefinitionId x
        then Shadowed ''tenant-specific definition shadows the requested global tool_definition_id''
        else (case isExecutable t of Some reason \<Rightarrow> NotExecutable (''tenant override not executable: '' @ reason) t | None \<Rightarrow> Resolved t)
    | None \<Rightarrow> (case isExecutable x of Some reason \<Rightarrow> NotExecutable reason x | None \<Rightarrow> Resolved x))"
    unfolding reg_resolveExecutable_def resolveToolDefinition_def Let_def i truthy.simps nullish.simps Some option.case fx
    using x(2) i(2) by (auto simp: fx [unfolded option.inject] visible_def)
  have d: "in_force (cx_tenantId ctx) r d \<and> td_toolDefinitionId d = i \<longleftrightarrow> in_force (cx_tenantId ctx) r x \<and> d = x"
    using x(1) xi unfolding in_force_def by (metis option.inject)
  note own = find_scope [OF ok, of "Some (cx_tenantId ctx)" ctx "td_toolId x" "td_version x"]
  show ?thesis
  proof (cases "List.find (\<lambda>d. td_tenantId d = Some (cx_tenantId ctx)) ?cs")
    case None
    then have "in_force (cx_tenantId ctx) r x \<longleftrightarrow> isExecutable x = None"
      using find_scope_None [OF ok, of "Some (cx_tenantId ctx)" ctx "td_toolId x" "td_version x"] x xi
      by (auto simp: in_force_def isExecutable_None)
    then show ?thesis unfolding d using e None by (cases "isExecutable x") auto
  next
    case (Some t)
    then have t: "map_of r (td_toolDefinitionId t) = Some t" "td_tenantId t = Some (cx_tenantId ctx)"
      "td_toolId t = td_toolId x" "td_version t = td_version x" using own by auto
    show ?thesis
    proof (cases "td_toolDefinitionId t = td_toolDefinitionId x")
      case True
      then have "t = x" using t(1) x(1) xi by simp
      then have "in_force (cx_tenantId ctx) r x \<longleftrightarrow> isExecutable x = None"
        using t x by (auto simp: in_force_def isExecutable_None)
      then show ?thesis unfolding d using e Some \<open>t = x\<close> by (cases "isExecutable x") auto
    next
      case False
      then have "td_tenantId x = None"
        using reg_ok_values(3) [OF ok x(1) t(1)] t x(2) by (auto simp: visible_def same_slot_def)
      then have "\<not> in_force (cx_tenantId ctx) r x" using t by (auto simp: in_force_def)
      then show ?thesis unfolding d using e Some False by auto
    qed
  qed
qed

text \<open>
  Resolution is exact and fails closed: over every registry that registrations and changes can
  reach, a reference resolves to a definition exactly when it names it (by id, or by tool and
  version) and the definition is visible to the tenant, active, enabled, and not shadowed by a
  definition of the tenant for the same tool and version.
\<close>

theorem resolveExecutable_iff:
  "reg_resolveExecutable ctx ref (reg_run ops []) = Resolved d \<longleftrightarrow>
     in_force (cx_tenantId ctx) (reg_run ops []) d \<and> refers ref d"
proof -
  let ?r = "reg_run ops []"
  have ok: "reg_ok ?r" by (rule reg_ok_run) (simp add: reg_ok_def)
  show ?thesis
  proof (cases "truthy (tr_toolDefinitionId ref)")
    case True
    then show ?thesis using resolve_by_id [OF ok, of ref _ ctx d] by (auto simp: truthy_iff refers_def)
  next
    case n: False
    show ?thesis
    proof (cases "truthy (tr_toolId ref) \<and> truthy (tr_version ref)")
      case True
      then show ?thesis using n resolve_by_version [OF ok n, of _ _ ctx d] by (auto simp: truthy_iff refers_def)
    next
      case False
      then show ?thesis using n by (auto simp: reg_resolveExecutable_def resolveToolDefinition_def refers_def)
    qed
  qed
qed

subsection \<open>What agents are offered\<close>

lemma group_tools_map:
  "distinct (map fst (group_tools ds)) \<and>
   map_of (group_tools ds) k = (if filter (\<lambda>d. tool_key d = k) ds = [] then None else Some (filter (\<lambda>d. tool_key d = k) ds))"
proof (induction ds arbitrary: k rule: rev_induct)
  case (snoc d ds)
  have e: "group_tools (ds @ [d]) = am_set (tool_key d) (nullish (map_of (group_tools ds) (tool_key d)) [] @ [d]) (group_tools ds)"
    by (simp add: group_tools_def)
  show ?case unfolding e using snoc [of k] snoc [of "tool_key d"] by (auto simp: distinct_am_set simp del: map_of_eq_Some_iff map_of_eq_None_iff)
qed (simp add: group_tools_def)

lemma tool_key_inj:
  "CHR ''@'' \<notin> set (td_toolId d) \<Longrightarrow> CHR ''@'' \<notin> set (td_toolId e) \<Longrightarrow>
     tool_key d = tool_key e \<longleftrightarrow> td_toolId d = td_toolId e \<and> td_version d = td_version e"
proof -
  have "takeWhile (\<lambda>c. c \<noteq> CHR ''@'') (a @ ''@'' @ b) = a" if "CHR ''@'' \<notin> set a" for a b
    using that by (induction a) auto
  moreover assume "CHR ''@'' \<notin> set (td_toolId d)" "CHR ''@'' \<notin> set (td_toolId e)"
  ultimately show ?thesis unfolding tool_key_def by (metis append_Cons append_Nil append_same_eq list.inject same_append_eq)
qed

definition plain_ids :: "registry \<Rightarrow> bool" where
  "plain_ids r \<longleftrightarrow> list_all (\<lambda>(k, d). CHR ''@'' \<notin> set (td_toolId d)) r"

lemma effective_in_force:
  assumes ok: "reg_ok r" and p: "plain_ids r" and k: "CHR ''@'' \<notin> set (td_toolId d)"
  shows "effective (cx_tenantId ctx) (filter (\<lambda>e. tool_key e = tool_key d) (reg_listCatalog ctx r)) = Some d \<and>
      td_lifecycle d = TL_ACTIVE \<and> td_enabled d \<longleftrightarrow> in_force (cx_tenantId ctx) r d"
proof -
  have at: "CHR ''@'' \<notin> set (td_toolId e)" if "e \<in> set (map snd r)" for e
    using p that by (auto simp: plain_ids_def list_all_iff)
  have "filter (\<lambda>e. tool_key e = tool_key d) (reg_listCatalog ctx r) = reg_findByToolVersion ctx (td_toolId d) (td_version d) r"
    unfolding reg_listCatalog_def reg_findByToolVersion_def filter_filter
    using tool_key_inj [OF at k] by (intro filter_cong) auto
  then have e: "effective (cx_tenantId ctx) (filter (\<lambda>e. tool_key e = tool_key d) (reg_listCatalog ctx r)) =
     nullish_opt (List.find (\<lambda>e. td_tenantId e = Some (cx_tenantId ctx)) (reg_findByToolVersion ctx (td_toolId d) (td_version d) r))
       (List.find (\<lambda>e. td_tenantId e = None) (reg_findByToolVersion ctx (td_toolId d) (td_version d) r))"
    by (simp add: effective_def)
  note own = find_scope [OF ok, of "Some (cx_tenantId ctx)" ctx "td_toolId d" "td_version d"]
    and glob = find_scope [OF ok, of None ctx "td_toolId d" "td_version d" d, simplified]
    and none = find_scope_None [OF ok, of "Some (cx_tenantId ctx)" ctx "td_toolId d" "td_version d", simplified]
  show ?thesis
  proof (cases "List.find (\<lambda>e. td_tenantId e = Some (cx_tenantId ctx)) (reg_findByToolVersion ctx (td_toolId d) (td_version d) r)")
    case None
    then show ?thesis unfolding e using glob none by (auto simp: in_force_def visible_def)
  next
    case (Some t)
    then have t: "map_of r (td_toolDefinitionId t) = Some t" "td_tenantId t = Some (cx_tenantId ctx)"
      "td_toolId t = td_toolId d" "td_version t = td_version d" using own by auto
    then have "d = t" if "in_force (cx_tenantId ctx) r d"
      using that reg_ok_values(3) [OF ok, of "td_toolDefinitionId d" d "td_toolDefinitionId t" t]
      unfolding in_force_def visible_def same_slot_def by metis
    then show ?thesis unfolding e Some using t by (auto simp: in_force_def visible_def)
  qed
qed

lemma in_map_filter: "y \<in> set (List.map_filter f xs) \<longleftrightarrow> (\<exists>x. x \<in> set xs \<and> f x = Some y)"
  by (induction xs) (auto simp: map_filter_simps split: option.split)

text \<open>
  Agents are offered exactly what they can call: when no tool id contains an at sign, a
  definition is among those discovered for some capabilities exactly when a reference to its
  tool and version resolves to it and its required capabilities are among them.
\<close>

theorem discovery_agrees_with_resolution:
  assumes "plain_ids (reg_run ops [])" and "CHR ''@'' \<notin> set (td_toolId d)" and "td_toolId d \<noteq> []" and "td_version d \<noteq> []"
  shows "d \<in> set (reg_discoverExecutable ctx capabilities (reg_run ops [])) \<longleftrightarrow>
    reg_resolveExecutable ctx \<lparr>tr_toolDefinitionId = None, tr_toolId = Some (td_toolId d), tr_version = Some (td_version d)\<rparr>
      (reg_run ops []) = Resolved d \<and> set (td_requiredCapabilities d) \<subseteq> set capabilities"
proof -
  let ?r = "reg_run ops []" and ?t = "cx_tenantId ctx"
  let ?g = "\<lambda>k. filter (\<lambda>e. tool_key e = k) (reg_listCatalog ctx ?r)"
  have ok: "reg_ok ?r" by (rule reg_ok_run) (simp add: reg_ok_def)
  have m: "(k, grp) \<in> set (group_tools (reg_listCatalog ctx ?r)) \<longleftrightarrow> grp = ?g k \<and> grp \<noteq> []" for k grp
    using group_tools_map [of "reg_listCatalog ctx ?r" k] by (metis map_of_SomeD map_of_is_SomeI option.distinct(1) option.inject)
  have o: "offered ?t capabilities grp = Some d \<longleftrightarrow> effective ?t grp = Some d \<and> td_lifecycle d = TL_ACTIVE \<and> td_enabled d \<and>
      set (td_requiredCapabilities d) \<subseteq> set capabilities" for grp
    by (auto simp: offered_def filter_empty_conv split: option.split)
  have k: "k = tool_key d" if "effective ?t (?g k) = Some d" for k
    using that find_SomeD [of _ "?g k" d] unfolding effective_def
    by (cases "List.find (\<lambda>d. td_tenantId d = Some ?t) (?g k)") auto
  have ne: "effective ?t [] \<noteq> Some d" by (simp add: effective_def)
  have "d \<in> set (reg_discoverExecutable ctx capabilities ?r) \<longleftrightarrow> (\<exists>k. offered ?t capabilities (?g k) = Some d)"
  proof -
    have "d \<in> set (reg_discoverExecutable ctx capabilities ?r) \<longleftrightarrow>
        (\<exists>k grp. (k, grp) \<in> set (group_tools (reg_listCatalog ctx ?r)) \<and> offered ?t capabilities grp = Some d)"
      unfolding reg_discoverExecutable_def in_map_filter by auto
    also have "\<dots> \<longleftrightarrow> (\<exists>k. ?g k \<noteq> [] \<and> offered ?t capabilities (?g k) = Some d)" unfolding m by metis
    also have "\<dots> \<longleftrightarrow> (\<exists>k. offered ?t capabilities (?g k) = Some d)" unfolding o using ne by metis
    finally show ?thesis .
  qed
  also have "\<dots> \<longleftrightarrow> offered ?t capabilities (?g (tool_key d)) = Some d" using o k by blast
  also have "\<dots> \<longleftrightarrow> in_force ?t ?r d \<and> set (td_requiredCapabilities d) \<subseteq> set capabilities"
    unfolding o using effective_in_force [OF ok assms(1,2), of ctx] by blast
  also have "\<dots> \<longleftrightarrow> reg_resolveExecutable ctx \<lparr>tr_toolDefinitionId = None, tr_toolId = Some (td_toolId d), tr_version = Some (td_version d)\<rparr>
      ?r = Resolved d \<and> set (td_requiredCapabilities d) \<subseteq> set capabilities"
    using resolve_by_version [OF ok, of "\<lparr>tr_toolDefinitionId = None, tr_toolId = Some (td_toolId d), tr_version = Some (td_version d)\<rparr>"
        "td_toolId d" "td_version d" ctx d] assms(3,4) by simp
  finally show ?thesis .
qed

subsection \<open>The Postgres registry\<close>

text \<open>
  The rows of \<open>tool_definitions\<close> in the order a query returns them. Row level security hides
  foreign rows from reads and refuses writes of rows that are not the tenant's own; the unique
  indexes refuse a second definition of a slot, the primary key a second use of an id. The
  trigger sets \<open>updated_at\<close>. A refused statement is an exception of the database.
\<close>

datatype pg_registry_error = RegistryError registry_error | DatabaseError string

definition pr_rows :: "tenant_context \<Rightarrow> tool_definition list \<Rightarrow> tool_definition list" where
  "pr_rows ctx rows = filter (visible (cx_tenantId ctx)) rows"

definition pr_register ::
    "tenant_context \<Rightarrow> tool_definition \<Rightarrow> tool_definition list \<Rightarrow> (pg_registry_error + tool_definition) \<times> tool_definition list" where
  "pr_register ctx d rows =
     (if td_tenantId d \<noteq> Some (cx_tenantId ctx) then (Inl (DatabaseError ''row-level security''), rows)
      else if list_ex (\<lambda>e. td_toolDefinitionId e = td_toolDefinitionId d \<or> same_slot e d) rows
      then (Inl (DatabaseError ''unique violation''), rows)
      else (Inr d, rows @ [d]))"

definition pr_getById :: "tenant_context \<Rightarrow> string \<Rightarrow> tool_definition list \<Rightarrow> tool_definition option" where
  "pr_getById ctx i rows = List.find (\<lambda>d. td_toolDefinitionId d = i) (pr_rows ctx rows)"

definition pr_findByToolVersion :: "tenant_context \<Rightarrow> string \<Rightarrow> string \<Rightarrow> tool_definition list \<Rightarrow> tool_definition list" where
  "pr_findByToolVersion ctx tool ver rows = filter (\<lambda>d. td_toolId d = tool \<and> td_version d = ver) (pr_rows ctx rows)"

definition pr_resolveExecutable :: "tenant_context \<Rightarrow> tool_ref \<Rightarrow> tool_definition list \<Rightarrow> tool_resolution" where
  "pr_resolveExecutable ctx ref rows =
     resolveToolDefinition ref
       (if truthy (tr_toolDefinitionId ref)
        then (case pr_getById ctx (nullish (tr_toolDefinitionId ref) []) rows of None \<Rightarrow> []
              | Some exact \<Rightarrow> pr_findByToolVersion ctx (td_toolId exact) (td_version exact) rows)
        else if truthy (tr_toolId ref) \<and> truthy (tr_version ref)
        then pr_findByToolVersion ctx (nullish (tr_toolId ref) []) (nullish (tr_version ref) []) rows
        else []) (cx_tenantId ctx)"

definition pr_update :: "string \<Rightarrow> (tool_definition \<Rightarrow> tool_definition) \<Rightarrow> tool_definition list \<Rightarrow> tool_definition list" where
  "pr_update i f rows = map (\<lambda>d. if td_toolDefinitionId d = i then f d else d) rows"

definition pr_transitionLifecycle ::
    "int \<Rightarrow> tenant_context \<Rightarrow> string \<Rightarrow> tool_lifecycle \<Rightarrow> tool_definition list
       \<Rightarrow> (pg_registry_error + tool_definition) \<times> tool_definition list" where
  "pr_transitionLifecycle now ctx i to rows =
     (case pr_getById ctx i rows of
        None \<Rightarrow> (Inl (RegistryError (DefinitionNotFound i)), rows)
      | Some d \<Rightarrow>
          if td_tenantId d \<noteq> Some (cx_tenantId ctx) then (Inl (RegistryError (NotTenantMutable i)), rows)
          else if FORWARD (td_lifecycle d) \<noteq> Some to then (Inl (RegistryError (InvalidLifecycle (td_lifecycle d) to)), rows)
          else let f = (\<lambda>d. d\<lparr>td_lifecycle := to, td_updatedAt := Some now\<rparr>) in (Inr (f d), pr_update i f rows))"

definition pr_setEnabled ::
    "int \<Rightarrow> tenant_context \<Rightarrow> string \<Rightarrow> bool \<Rightarrow> tool_definition list \<Rightarrow> (pg_registry_error + tool_definition) \<times> tool_definition list" where
  "pr_setEnabled now ctx i enabled rows =
     (case pr_getById ctx i rows of
        None \<Rightarrow> (Inl (RegistryError (DefinitionNotFound i)), rows)
      | Some d \<Rightarrow>
          if td_tenantId d \<noteq> Some (cx_tenantId ctx) then (Inl (RegistryError (NotTenantMutable i)), rows)
          else let f = (\<lambda>d. d\<lparr>td_enabled := enabled, td_updatedAt := Some now\<rparr>) in (Inr (f d), pr_update i f rows))"

text \<open>The two registries resolve alike.\<close>

lemma pr_findByToolVersion_map: "pr_findByToolVersion ctx tool ver (map snd r) = reg_findByToolVersion ctx tool ver r"
  by (simp add: pr_findByToolVersion_def pr_rows_def reg_findByToolVersion_def conj_ac cong: filter_cong)

lemma pr_getById_map:
  assumes "reg_ok r"
  shows "pr_getById ctx i (map snd r) = reg_getById ctx i r"
proof -
  have "List.find (\<lambda>d. td_toolDefinitionId d = i) (pr_rows ctx (map snd r)) = Some d \<longleftrightarrow> reg_getById ctx i r = Some d" for d
  proof -
    have "x = y" if "x \<in> set (pr_rows ctx (map snd r))" "y \<in> set (pr_rows ctx (map snd r))"
      "td_toolDefinitionId x = i" "td_toolDefinitionId y = i" for x y
    proof -
      have "x \<in> snd ` set r" "y \<in> snd ` set r" using that(1,2) by (auto simp: pr_rows_def)
      then show ?thesis using reg_ok_values(1) [OF assms] that(3,4) by (metis option.inject)
    qed
    then have "List.find (\<lambda>d. td_toolDefinitionId d = i) (pr_rows ctx (map snd r)) = Some d \<longleftrightarrow>
        d \<in> snd ` set r \<and> visible (cx_tenantId ctx) d \<and> td_toolDefinitionId d = i"
      by (subst find_iff_unique) (auto simp: pr_rows_def)
    then show ?thesis using reg_ok_values(1) [OF assms, of d] reg_ok_values(2) [OF assms, of i d]
      by (auto simp: reg_getById_def visible_def split: option.split)
  qed
  then show ?thesis unfolding pr_getById_def by (metis not_None_eq)
qed

lemma pr_resolveExecutable_map:
  assumes "reg_ok r"
  shows "pr_resolveExecutable ctx ref (map snd r) = reg_resolveExecutable ctx ref r"
  unfolding pr_resolveExecutable_def reg_resolveExecutable_def pr_getById_map [OF assms] pr_findByToolVersion_map ..

lemma pr_update_am_set:
  "distinct (map fst r) \<Longrightarrow> (\<And>k e. (k, e) \<in> set r \<Longrightarrow> td_toolDefinitionId e = k) \<Longrightarrow> map_of r i = Some d \<Longrightarrow>
     map snd (am_set i (f d) r) = pr_update i f (map snd r)"
proof (induction r)
  case (Cons x r)
  obtain k e where x: "x = (k, e)" by (cases x)
  have k: "td_toolDefinitionId e = k" using Cons.prems(2) x by simp
  show ?case
  proof (cases "k = i")
    case True
    have "td_toolDefinitionId e' \<noteq> i" if "e' \<in> set (map snd r)" for e'
    proof -
      from that obtain k' where "(k', e') \<in> set r" by auto
      then show ?thesis using Cons.prems(1) Cons.prems(2) [of k' e'] x True by (force simp: image_iff)
    qed
    then have "pr_update i f (map snd r) = map snd r" unfolding pr_update_def by (intro map_idI) auto
    then show ?thesis using Cons.prems(3) x True k by (simp add: pr_update_def)
  next
    case False
    have "map snd (am_set i (f d) r) = pr_update i f (map snd r)"
    proof (rule Cons.IH)
      show "td_toolDefinitionId e' = k'" if "(k', e') \<in> set r" for k' e'
        using that by (intro Cons.prems(2)) simp
      show "distinct (map fst r)" "map_of r i = Some d" using Cons.prems(1,3) x False by simp_all
    qed
    then show ?thesis using x k False by (simp add: pr_update_def)
  qed
qed simp

lemma pr_update_stored:
  assumes "reg_ok r" and "map_of r i = Some d"
  shows "map snd (am_set i (f d) r) = pr_update i f (map snd r)"
proof (rule pr_update_am_set)
  show "distinct (map fst r)" using assms(1) by (simp add: reg_ok_def)
  show "td_toolDefinitionId e = k" if "(k, e) \<in> set r" for k e
    by (rule reg_ok_values(2) [OF assms(1) reg_ok_lookup [OF assms(1), THEN iffD1, OF that]])
qed (rule assms(2))

text \<open>
  (C23) Three operations of the two registries agree: on the rows of a reachable in-memory registry the
  Postgres one resolves every reference alike, and a lifecycle change or a switch succeeds in one
  exactly when it does in the other, with the same definition, and leaves the same rows. Registering,
  discovering, listing and the errors of a refused change are not compared.
\<close>

theorem postgres_registry_agrees:
  assumes "r = reg_run ops []"
  shows "pr_resolveExecutable ctx ref (map snd r) = reg_resolveExecutable ctx ref r \<and>
    snd (pr_transitionLifecycle now ctx i to (map snd r)) = map snd (snd (reg_transitionLifecycle now ctx i to r)) \<and>
    snd (pr_setEnabled now ctx i b (map snd r)) = map snd (snd (reg_setEnabled now ctx i b r)) \<and>
    (\<forall>d. fst (pr_transitionLifecycle now ctx i to (map snd r)) = Inr d \<longleftrightarrow> fst (reg_transitionLifecycle now ctx i to r) = Inr d) \<and>
    (\<forall>d. fst (pr_setEnabled now ctx i b (map snd r)) = Inr d \<longleftrightarrow> fst (reg_setEnabled now ctx i b r) = Inr d)"
proof -
  have ok: "reg_ok r" unfolding assms by (rule reg_ok_run) (simp add: reg_ok_def)
  note u = pr_update_stored [OF ok]
  have "snd (pr_transitionLifecycle now ctx i to (map snd r)) = map snd (snd (reg_transitionLifecycle now ctx i to r)) \<and>
      (\<forall>d. fst (pr_transitionLifecycle now ctx i to (map snd r)) = Inr d \<longleftrightarrow> fst (reg_transitionLifecycle now ctx i to r) = Inr d)"
    unfolding pr_transitionLifecycle_def reg_transitionLifecycle_def getMutableOwn_def pr_getById_map [OF ok] reg_getById_def
    using u [of i _ "\<lambda>d. d\<lparr>td_lifecycle := to, td_updatedAt := Some now\<rparr>"]
    by (cases "map_of r i") (auto simp: Let_def)
  moreover have "snd (pr_setEnabled now ctx i b (map snd r)) = map snd (snd (reg_setEnabled now ctx i b r)) \<and>
      (\<forall>d. fst (pr_setEnabled now ctx i b (map snd r)) = Inr d \<longleftrightarrow> fst (reg_setEnabled now ctx i b r) = Inr d)"
    unfolding pr_setEnabled_def reg_setEnabled_def getMutableOwn_def pr_getById_map [OF ok] reg_getById_def
    using u [of i _ "\<lambda>d. d\<lparr>td_enabled := b, td_updatedAt := Some now\<rparr>"]
    by (cases "map_of r i") (auto simp: Let_def)
  ultimately show ?thesis using pr_resolveExecutable_map [OF ok] by blast
qed

subsection \<open>Witnesses\<close>

definition ex_tool :: "string \<Rightarrow> string option \<Rightarrow> tool_definition" where
  "ex_tool i tenant = \<lparr>td_toolDefinitionId = i, td_toolId = ''crm'', td_version = ''1'', td_tenantId = tenant,
     td_description = [], td_inputSchema = None, td_outputSchema = None, td_requiredCapabilities = [''crm:read''],
     td_riskCategory = RC_LOW, td_sideEffectClass = READ_ONLY, td_requiredApproval = False, td_providerId = ''p'',
     td_enabled = True, td_timeoutSeconds = 30, td_maxRetries = 1, td_idempotencyRequired = False,
     td_costMetadata = None, td_config = None, td_lifecycle = TL_DRAFT, td_createdAt = None, td_updatedAt = None\<rparr>"

definition ex_tool_ctx :: tenant_context where
  "ex_tool_ctx = \<lparr>cx_tenantId = ''t'', cx_workspaceId = None, cx_correlationId = ''c'', cx_userId = None,
     cx_agentId = None, cx_missionId = None\<rparr>"

abbreviation "ex_tool_ops \<equiv>
  [Register ex_tool_ctx (ex_tool ''d1'' (Some ''t'')), TransitionLifecycle 5 ex_tool_ctx ''d1'' TL_ACTIVE]"

lemma ex_tool_run: "reg_run ex_tool_ops [] = [(''d1'', (ex_tool ''d1'' (Some ''t''))\<lparr>td_lifecycle := TL_ACTIVE, td_updatedAt := Some 5\<rparr>)]"
  by (simp add: reg_run_def reg_register_def reg_transitionLifecycle_def getMutableOwn_def ex_tool_def ex_tool_ctx_def
      FORWARD_def Let_def)

theorem registered_contract_kept_witness:
  "\<exists>d'. map_of (reg_run [SetEnabled 9 ex_tool_ctx ''d1'' False] (reg_run ex_tool_ops [])) ''d1'' = Some d' \<and>
     same_contract ((ex_tool ''d1'' (Some ''t''))\<lparr>td_lifecycle := TL_ACTIVE, td_updatedAt := Some 5\<rparr>) d'"
  using registered_contract_kept [of "reg_run ex_tool_ops []" "''d1''" _ "[SetEnabled 9 ex_tool_ctx ''d1'' False]"]
  by (auto simp: ex_tool_run)

theorem discovery_agrees_with_resolution_witness:
  "\<exists>d. d \<in> set (reg_discoverExecutable ex_tool_ctx [''crm:read''] (reg_run ex_tool_ops [])) \<and>
     reg_resolveExecutable ex_tool_ctx \<lparr>tr_toolDefinitionId = None, tr_toolId = Some ''crm'', tr_version = Some ''1''\<rparr>
       (reg_run ex_tool_ops []) = Resolved d"
proof -
  let ?d = "(ex_tool ''d1'' (Some ''t''))\<lparr>td_lifecycle := TL_ACTIVE, td_updatedAt := Some 5\<rparr>"
  have "reg_resolveExecutable ex_tool_ctx \<lparr>tr_toolDefinitionId = None, tr_toolId = Some ''crm'', tr_version = Some ''1''\<rparr>
       (reg_run ex_tool_ops []) = Resolved ?d"
    unfolding ex_tool_run
    by (simp add: reg_resolveExecutable_def resolveToolDefinition_def reg_findByToolVersion_def visible_def isExecutable_def
        ex_tool_def ex_tool_ctx_def Let_def)
  moreover have "td_toolId ?d = ''crm''" "td_version ?d = ''1''" "td_requiredCapabilities ?d = [''crm:read'']"
    by (simp_all add: ex_tool_def)
  moreover have "plain_ids (reg_run ex_tool_ops [])" unfolding ex_tool_run by (simp add: plain_ids_def ex_tool_def)
  ultimately have "?d \<in> set (reg_discoverExecutable ex_tool_ctx [''crm:read''] (reg_run ex_tool_ops []))"
    using discovery_agrees_with_resolution [of ex_tool_ops ?d ex_tool_ctx "[''crm:read'']"] by simp
  then show ?thesis using \<open>reg_resolveExecutable _ _ _ = Resolved ?d\<close> by blast
qed

theorem postgres_registry_agrees_witness:
  "map snd (snd (reg_setEnabled 9 ex_tool_ctx ''d1'' False (reg_run ex_tool_ops []))) =
     snd (pr_setEnabled 9 ex_tool_ctx ''d1'' False (map snd (reg_run ex_tool_ops [])))"
  using postgres_registry_agrees [OF refl, of ex_tool_ctx _ ex_tool_ops 9 "''d1''" TL_RETIRED False] by simp

end
