(* ===== verification/ToolGateway.thy ===== *)
theory ToolGateway
  imports ToolRegistry Idempotency
begin

section \<open>The tool gateway\<close>

text \<open>
  \<open>packages/tool-gateway/src/tool-gateway.ts\<close>, the one path to every tool, over the registry, the
  Postgres idempotency store and \<open>postgres-tool-invocation-repository.ts\<close> with the keys and
  indexes of its tables. Policy, approval binding, readiness, providers, the audit sink, the
  hash of the input and the text of dates are arguments. A provider answers as a function of the
  calls it has seen; \<open>now\<close> is the one clock reading of a call. What the store keeps is the JSON
  of a result.
\<close>

datatype tool_status =
    TS_SUCCESS | TS_VALIDATION_ERROR | TS_PROVIDER_ERROR | TS_TIMEOUT | TS_UNAUTHORIZED | TS_POLICY_DENIED
  | TS_OUTCOME_UNKNOWN | TS_FAILED

definition status_name :: "tool_status \<Rightarrow> string" where
  "status_name s = (case s of
     TS_SUCCESS \<Rightarrow> ''SUCCESS'' | TS_VALIDATION_ERROR \<Rightarrow> ''VALIDATION_ERROR'' | TS_PROVIDER_ERROR \<Rightarrow> ''PROVIDER_ERROR''
   | TS_TIMEOUT \<Rightarrow> ''TIMEOUT'' | TS_UNAUTHORIZED \<Rightarrow> ''UNAUTHORIZED'' | TS_POLICY_DENIED \<Rightarrow> ''POLICY_DENIED''
   | TS_OUTCOME_UNKNOWN \<Rightarrow> ''OUTCOME_UNKNOWN'' | TS_FAILED \<Rightarrow> ''FAILED'')"

record tool_request =
  tq_toolCallId :: string
  tq_toolId :: string
  tq_toolVersion :: string
  tq_tenantId :: string
  tq_missionId :: "string option"
  tq_agentId :: "string option"
  tq_agentVersion :: "string option"
  tq_executionId :: "string option"
  tq_taskId :: "string option"
  tq_correlationId :: string
  tq_idempotencyKey :: "string option"
  tq_authorization :: json
  tq_riskCategory :: risk_category
  tq_input :: "json option"
  tq_timeoutSeconds :: int
  tq_metaToolDefinitionId :: "string option"  \<comment> \<open>\<open>metadata.toolDefinitionId\<close>\<close>
  tq_metaAction :: "string option"  \<comment> \<open>\<open>metadata.action\<close>\<close>

record tool_error =
  te_code :: string
  te_message :: string
  te_retryable :: bool

record tool_result =
  tx_toolCallId :: string
  tx_status :: tool_status
  tx_output :: "json option"
  tx_error :: "tool_error option"
  tx_schemaValid :: bool  \<comment> \<open>the two other members of \<open>validation\<close> are constants\<close>
  tx_provider :: string
  tx_startedAt :: int
  tx_completedAt :: int
  tx_retryCount :: nat
  tx_auditId :: string

record provider_outcome =
  po_submitted :: bool
  po_resultKnown :: bool
  po_retryable :: bool
  po_failureClassification :: "string option"
  po_providerRequestId :: "string option"
  po_output :: "json option"
  po_errorCode :: "string option"
  po_errorMessage :: "string option"

datatype policy_verdict = PV_ALLOW | PV_REQUIRE_APPROVAL | PV_DENY

definition verdict_name :: "policy_verdict \<Rightarrow> string" where
  "verdict_name v = (case v of PV_ALLOW \<Rightarrow> ''ALLOW'' | PV_REQUIRE_APPROVAL \<Rightarrow> ''REQUIRE_APPROVAL'' | PV_DENY \<Rightarrow> ''DENY'')"

record policy_decision =
  pd_decision :: policy_verdict
  pd_policyDecisionId :: string
  pd_capabilities :: "string list"
  pd_autonomyAllowed :: bool
  pd_reason :: "string option"

record approval_answer =
  aa_approved :: bool
  aa_reason :: "string option"

record audit_entry =
  ae_toolCallId :: string
  ae_toolDefinitionId :: string
  ae_toolId :: string
  ae_version :: string
  ae_tenantId :: string
  ae_decision :: string
  ae_status :: tool_status
  ae_attempts :: nat
  ae_correlationId :: string

text \<open>A provider throws (\<open>Inl\<close>, the message) or returns an outcome.\<close>

type_synonym tool_provider = "(string \<times> tool_request) list \<Rightarrow> tenant_context \<Rightarrow> tool_request \<Rightarrow> string + provider_outcome"

record gateway_deps =
  gd_policy :: "tenant_context \<Rightarrow> tool_request \<Rightarrow> tool_definition \<Rightarrow> policy_decision"
  gd_approval :: "tenant_context \<Rightarrow> tool_request \<Rightarrow> tool_definition \<Rightarrow> string \<Rightarrow> approval_answer"
  gd_isReady :: "string \<Rightarrow> tool_definition \<Rightarrow> bool"
  gd_provider :: "string \<Rightarrow> tool_definition \<Rightarrow> tool_provider option"
  gd_hash :: "json option \<Rightarrow> string"
  gd_audit :: "(audit_entry \<Rightarrow> string) option"
  gd_newId :: string  \<comment> \<open>what \<open>idFactory\<close> returns\<close>
  gd_dateText :: "int \<Rightarrow> string"
  gd_defaultTtl :: int

subsection \<open>The invocation tables\<close>

record invocation_row =
  iv_toolCallId :: string
  iv_toolDefinitionId :: string
  iv_toolId :: string
  iv_version :: string
  iv_providerId :: string
  iv_tenantId :: string
  iv_missionId :: "string option"
  iv_executionId :: "string option"
  iv_taskId :: "string option"
  iv_agentId :: "string option"
  iv_correlationId :: string
  iv_action :: "string option"
  iv_idempotencyKey :: "string option"
  iv_decision :: "string option"
  iv_status :: string
  iv_auditId :: "string option"
  iv_startedAt :: int
  iv_completedAt :: "int option"
  iv_error :: "(string \<times> string) option"  \<comment> \<open>code and message or violations\<close>

datatype attempt_state = AS_STARTED | AS_COMPLETED | AS_FAILED | AS_OUTCOME_UNKNOWN

record attempt_row =
  at_tenantId :: string
  at_toolCallId :: string
  at_attempt :: nat
  at_toolDefinitionId :: string
  at_providerId :: string
  at_status :: attempt_state
  at_submitted :: "bool option"
  at_resultKnown :: "bool option"
  at_failureClassification :: "string option"
  at_retryable :: "bool option"
  at_providerRequestId :: "string option"
  at_startedAt :: int
  at_completedAt :: "int option"

record tool_world =
  tw_definitions :: "tool_definition list"
  tw_invocations :: "invocation_row list"
  tw_attempts :: "attempt_row list"
  tw_idem :: idem_table
  tw_calls :: "(string \<times> tool_request) list"  \<comment> \<open>provider and request, in order\<close>
  tw_audits :: "audit_entry list"

datatype tool_exn = UniqueViolation string

text \<open>The primary key, and the unique index on tenant, tool, action and key; a null action equals nothing.\<close>

definition same_invocation :: "invocation_row \<Rightarrow> invocation_row \<Rightarrow> bool" where
  "same_invocation a b \<longleftrightarrow> iv_idempotencyKey a \<noteq> None \<and> iv_action a \<noteq> None \<and> iv_tenantId a = iv_tenantId b \<and>
     iv_toolId a = iv_toolId b \<and> iv_action a = iv_action b \<and> iv_idempotencyKey a = iv_idempotencyKey b"

definition createInvocation :: "invocation_row \<Rightarrow> tool_world \<Rightarrow> tool_exn option \<times> tool_world" where
  "createInvocation r w =
     (if list_ex (\<lambda>r'. iv_toolCallId r' = iv_toolCallId r) (tw_invocations w)
      then (Some (UniqueViolation ''tool_invocations_pkey''), w)
      else if list_ex (\<lambda>r'. same_invocation r' r) (tw_invocations w)
      then (Some (UniqueViolation ''tool_invocations_idempotency_unique''), w)
      else (None, w\<lparr>tw_invocations := tw_invocations w @ [r]\<rparr>))"

definition completeInvocation ::
    "int \<Rightarrow> tenant_context \<Rightarrow> string \<Rightarrow> string \<Rightarrow> (string \<times> string) option \<Rightarrow> tool_world \<Rightarrow> tool_world" where
  "completeInvocation now ctx callId status err w =
     w\<lparr>tw_invocations := map (\<lambda>r.
         if iv_toolCallId r = callId \<and> iv_tenantId r = cx_tenantId ctx
         then r\<lparr>iv_status := status, iv_completedAt := Some now, iv_error := nullish_opt err (iv_error r)\<rparr> else r)
       (tw_invocations w)\<rparr>"

definition createAttempt :: "attempt_row \<Rightarrow> tool_world \<Rightarrow> tool_exn option \<times> tool_world" where
  "createAttempt r w =
     (if list_ex (\<lambda>r'. at_tenantId r' = at_tenantId r \<and> at_toolCallId r' = at_toolCallId r \<and> at_attempt r' = at_attempt r)
           (tw_attempts w)
      then (Some (UniqueViolation ''tool_invocation_attempts_pkey''), w)
      else (None, w\<lparr>tw_attempts := tw_attempts w @ [r]\<rparr>))"

definition completeAttempt ::
    "int \<Rightarrow> tenant_context \<Rightarrow> string \<Rightarrow> nat \<Rightarrow> attempt_state \<Rightarrow> provider_outcome \<Rightarrow> tool_world \<Rightarrow> tool_world" where
  "completeAttempt now ctx callId attempt st oc w =
     w\<lparr>tw_attempts := map (\<lambda>r.
         if at_toolCallId r = callId \<and> at_attempt r = attempt \<and> at_tenantId r = cx_tenantId ctx
         then r\<lparr>at_status := st, at_submitted := Some (po_submitted oc), at_resultKnown := Some (po_resultKnown oc),
                at_failureClassification := nullish_opt (po_failureClassification oc) (at_failureClassification r),
                at_retryable := Some (po_retryable oc),
                at_providerRequestId := nullish_opt (po_providerRequestId oc) (at_providerRequestId r),
                at_completedAt := Some now\<rparr> else r)
       (tw_attempts w)\<rparr>"

subsection \<open>The gateway\<close>

definition toContext :: "tool_request \<Rightarrow> tenant_context" where
  "toContext rq = \<lparr>cx_tenantId = tq_tenantId rq, cx_workspaceId = None, cx_correlationId = tq_correlationId rq,
     cx_userId = None, cx_agentId = tq_agentId rq, cx_missionId = tq_missionId rq\<rparr>"

definition terminal :: "int \<Rightarrow> tool_request \<Rightarrow> tool_status \<Rightarrow> string \<Rightarrow> string \<Rightarrow> bool \<Rightarrow> tool_result" where
  "terminal now rq st code msg retryable =
     \<lparr>tx_toolCallId = tq_toolCallId rq, tx_status = st, tx_output = None,
      tx_error = Some \<lparr>te_code = code, te_message = msg, te_retryable = retryable\<rparr>,
      tx_schemaValid = (st \<noteq> TS_VALIDATION_ERROR), tx_provider = ''tool-gateway'', tx_startedAt = now, tx_completedAt = now,
      tx_retryCount = 0, tx_auditId = []\<rparr>"

definition buildResult ::
    "int \<Rightarrow> tool_request \<Rightarrow> tool_definition \<Rightarrow> tool_status \<Rightarrow> tool_error \<Rightarrow> nat \<Rightarrow> json option \<Rightarrow> tool_result" where
  "buildResult now rq d st err retries output =
     \<lparr>tx_toolCallId = tq_toolCallId rq, tx_status = st, tx_output = output,
      tx_error = (if st = TS_SUCCESS then None else Some err), tx_schemaValid = True, tx_provider = td_providerId d,
      tx_startedAt = now, tx_completedAt = now, tx_retryCount = retries, tx_auditId = []\<rparr>"

definition resolutionStatus :: "tool_resolution \<Rightarrow> tool_status" where
  "resolutionStatus r = (case r of
     VersionRequired _ \<Rightarrow> TS_VALIDATION_ERROR | NotFound _ \<Rightarrow> TS_VALIDATION_ERROR
   | Shadowed _ \<Rightarrow> TS_POLICY_DENIED | Ambiguous _ \<Rightarrow> TS_POLICY_DENIED | _ \<Rightarrow> TS_FAILED)"

definition resolution_code :: "tool_resolution \<Rightarrow> string" where
  "resolution_code r = ''RESOLUTION_'' @ (case r of
     Resolved _ \<Rightarrow> ''RESOLVED'' | NotFound _ \<Rightarrow> ''NOT_FOUND'' | Shadowed _ \<Rightarrow> ''SHADOWED'' | NotExecutable _ _ \<Rightarrow> ''NOT_EXECUTABLE''
   | VersionRequired _ \<Rightarrow> ''VERSION_REQUIRED'' | Ambiguous _ \<Rightarrow> ''AMBIGUOUS'')"

definition resolution_reason :: "tool_resolution \<Rightarrow> string" where
  "resolution_reason r = (case r of
     Resolved _ \<Rightarrow> [] | NotFound m \<Rightarrow> m | Shadowed m \<Rightarrow> m | NotExecutable m _ \<Rightarrow> m | VersionRequired m \<Rightarrow> m | Ambiguous m \<Rightarrow> m)"

definition tool_scope :: "tool_request \<Rightarrow> tool_definition \<Rightarrow> string" where
  "tool_scope rq d = ''tool:'' @ td_toolId d @ '':'' @ nullish (tq_metaAction rq) ''execute''"

definition mapOutcomeStatus :: "provider_outcome \<Rightarrow> bool \<Rightarrow> tool_status" where
  "mapOutcomeStatus oc threw =
     (if po_resultKnown oc \<and> po_submitted oc \<and> \<not> truthy (po_errorCode oc) then TS_SUCCESS
      else if po_submitted oc \<and> \<not> po_resultKnown oc then TS_OUTCOME_UNKNOWN
      else if threw \<and> po_submitted oc then TS_OUTCOME_UNKNOWN
      else if po_errorCode oc = Some ''TIMEOUT'' \<and> po_submitted oc \<and> \<not> po_resultKnown oc then TS_OUTCOME_UNKNOWN
      else if po_errorCode oc = Some ''TIMEOUT'' then TS_TIMEOUT
      else if po_errorCode oc = Some ''VALIDATION_ERROR'' then TS_VALIDATION_ERROR
      else if po_errorCode oc = Some ''UNAUTHORIZED'' then TS_UNAUTHORIZED
      else if po_errorCode oc = Some ''POLICY_DENIED'' then TS_POLICY_DENIED
      else if truthy (po_errorCode oc) then TS_PROVIDER_ERROR else TS_FAILED)"

definition canRetry :: "provider_outcome \<Rightarrow> tool_definition \<Rightarrow> nat \<Rightarrow> nat \<Rightarrow> bool" where
  "canRetry oc d attempt maxAttempts =
     (if attempt \<ge> maxAttempts then False
      else if \<not> po_retryable oc then False
      else if td_sideEffectClass d = READ_ONLY then True
      else \<not> po_submitted oc)"

text \<open>The outcome that stands for an exception of the provider.\<close>

definition thrown_outcome :: "tool_definition \<Rightarrow> string \<Rightarrow> provider_outcome" where
  "thrown_outcome d msg =
     \<lparr>po_submitted = (td_sideEffectClass d \<noteq> READ_ONLY), po_resultKnown = False, po_retryable = False,
      po_failureClassification = Some ''PROVIDER_EXCEPTION'', po_providerRequestId = None, po_output = None,
      po_errorCode = Some ''PROVIDER_EXCEPTION'', po_errorMessage = Some msg\<rparr>"

definition maxAttempts :: "tool_definition \<Rightarrow> nat" where
  "maxAttempts d = nat (max 1 (td_maxRetries d + 1))"

definition outcome_of :: "tool_definition \<Rightarrow> string + provider_outcome \<Rightarrow> provider_outcome" where
  "outcome_of d answer = (case answer of Inl msg \<Rightarrow> thrown_outcome d msg | Inr oc \<Rightarrow> oc)"

definition attempt_result ::
    "int \<Rightarrow> tool_request \<Rightarrow> tool_definition \<Rightarrow> nat \<Rightarrow> string + provider_outcome \<Rightarrow> tool_result" where
  "attempt_result now rq d attempt answer =
     (let oc = outcome_of d answer; st = mapOutcomeStatus oc (isl answer)
      in buildResult now rq d st
           \<lparr>te_code = nullish (po_errorCode oc) (if st = TS_SUCCESS then ''OK'' else ''PROVIDER_ERROR''),
            te_message = nullish (po_errorMessage oc) [], te_retryable = po_retryable oc\<rparr> (attempt - 1) (po_output oc))"

definition started_attempt :: "int \<Rightarrow> tool_request \<Rightarrow> tool_definition \<Rightarrow> nat \<Rightarrow> attempt_row" where
  "started_attempt now rq d attempt =
     \<lparr>at_tenantId = tq_tenantId rq, at_toolCallId = tq_toolCallId rq, at_attempt = attempt,
      at_toolDefinitionId = td_toolDefinitionId d, at_providerId = td_providerId d, at_status = AS_STARTED,
      at_submitted = None, at_resultKnown = None, at_failureClassification = None, at_retryable = None,
      at_providerRequestId = None, at_startedAt = now, at_completedAt = None\<rparr>"

text \<open>One attempt: \<open>attempt\<close> is its number; the outcome, the result built from it, and the world.\<close>

definition tool_attempt ::
    "int \<Rightarrow> tool_request \<Rightarrow> tool_definition \<Rightarrow> tool_provider \<Rightarrow> nat \<Rightarrow> tool_world
       \<Rightarrow> (tool_exn + provider_outcome \<times> tool_result) \<times> tool_world" where
  "tool_attempt now rq d p attempt w =
     (case createAttempt (started_attempt now rq d attempt) w of
        (Some x, w1) \<Rightarrow> (Inl x, w1)
      | (None, w1) \<Rightarrow>
          let answer = p (tw_calls w1) (toContext rq) rq;
              w2 = w1\<lparr>tw_calls := tw_calls w1 @ [(td_providerId d, rq)]\<rparr>;
              result = attempt_result now rq d attempt answer
          in (Inr (outcome_of d answer, result),
              completeAttempt now (toContext rq) (tq_toolCallId rq) attempt
                (if tx_status result = TS_OUTCOME_UNKNOWN then AS_OUTCOME_UNKNOWN
                 else if tx_status result = TS_SUCCESS then AS_COMPLETED else AS_FAILED)
                (outcome_of d answer) w2))"

function retry_loop ::
    "int \<Rightarrow> tool_request \<Rightarrow> tool_definition \<Rightarrow> tool_provider \<Rightarrow> nat \<Rightarrow> tool_result option \<Rightarrow> tool_world
       \<Rightarrow> (tool_exn + tool_result option) \<times> tool_world" where
  "retry_loop now rq d p attempt last_result w =
     (if attempt < maxAttempts d
      then case tool_attempt now rq d p (Suc attempt) w of
          (Inl x, w1) \<Rightarrow> (Inl x, w1)
        | (Inr (oc, result), w1) \<Rightarrow>
            if tx_status result = TS_SUCCESS then (Inr (Some result), w1)
            else if \<not> canRetry oc d (Suc attempt) (maxAttempts d) then (Inr (Some result), w1)
            else retry_loop now rq d p (Suc attempt) (Some result) w1
      else (Inr last_result, w))"
  by pat_completeness auto
termination retry_loop
  by (relation "measure (\<lambda>(now, rq, d, p, attempt, l, w). maxAttempts d - attempt)") auto

declare retry_loop.simps [simp del]

definition executeWithRetry ::
    "int \<Rightarrow> tool_request \<Rightarrow> tool_definition \<Rightarrow> tool_provider \<Rightarrow> tool_world \<Rightarrow> (tool_exn + tool_result) \<times> tool_world" where
  "executeWithRetry now rq d p w =
     (case retry_loop now rq d p 0 None w of
        (Inl x, w1) \<Rightarrow> (Inl x, w1)
      | (Inr last_result, w1) \<Rightarrow>
          let final = nullish last_result (buildResult now rq d TS_FAILED
                \<lparr>te_code = ''NO_ATTEMPT'', te_message = ''no attempt executed'', te_retryable = False\<rparr> 0 None)
          in (Inr final, completeInvocation now (toContext rq) (tq_toolCallId rq) (status_name (tx_status final))
                (map_option (\<lambda>e. (te_code e, te_message e)) (tx_error final)) w1))"

subsection \<open>Stored outcomes\<close>

text \<open>\<open>JSON.stringify\<close> of a result, as the store keeps it.\<close>

definition opt_member :: "string \<Rightarrow> json option \<Rightarrow> (string \<times> json) list" where
  "opt_member k v = (case v of None \<Rightarrow> [] | Some j \<Rightarrow> [(k, j)])"

definition error_json :: "tool_error \<Rightarrow> json" where
  "error_json e = JObj [(''code'', JStr (te_code e)), (''message'', JStr (te_message e)), (''retryable'', JBool (te_retryable e))]"

definition result_json :: "(int \<Rightarrow> string) \<Rightarrow> tool_result \<Rightarrow> json" where
  "result_json dateText x = JObj
     ([(''toolCallId'', JStr (tx_toolCallId x)), (''status'', JStr (status_name (tx_status x)))]
      @ opt_member ''output'' (tx_output x) @ opt_member ''error'' (map_option error_json (tx_error x))
      @ [(''validation'', JObj [(''schemaValid'', JBool (tx_schemaValid x)), (''tenantIsolationCheck'', JBool True),
                               (''piiCheck'', JStr ''NOT_RUN'')]),
         (''provider'', JStr (tx_provider x)), (''startedAt'', JStr (dateText (tx_startedAt x))),
         (''completedAt'', JStr (dateText (tx_completedAt x))),
         (''retryCount'', JNum (Fin (of_nat (tx_retryCount x)))), (''auditId'', JStr (tx_auditId x))])"

definition stored_outcome :: "(int \<Rightarrow> string) \<Rightarrow> bool \<Rightarrow> tool_result \<Rightarrow> json" where
  "stored_outcome dateText submitted x = JObj [(''submitted'', JBool submitted), (''callResult'', result_json dateText x)]"

definition persistClaimOutcome ::
    "gateway_deps \<Rightarrow> int \<Rightarrow> tenant_context \<Rightarrow> string \<Rightarrow> string \<Rightarrow> tool_result \<Rightarrow> tool_world \<Rightarrow> tool_world" where
  "persistClaimOutcome dp now ctx scope key x w =
     (if tx_status x = TS_OUTCOME_UNKNOWN then w
      else let submitted = (tx_status x = TS_SUCCESS \<or> map_option te_code (tx_error x) \<noteq> Some ''NOT_SUBMITTED'');
               payload = stored_outcome (gd_dateText dp) submitted x
           in w\<lparr>tw_idem := pg_set (gd_defaultTtl dp) now ctx scope key payload None
                  (Some (if tx_status x = TS_SUCCESS then ID_COMPLETED else ID_FAILED)) (tw_idem w)\<rparr>)"

text \<open>\<open>existing.result?.callResult\<close>, when it is truthy.\<close>

definition callResult_of :: "json \<Rightarrow> json option" where
  "callResult_of j = (case member ''callResult'' j of Some c \<Rightarrow> if json_truthy c then Some c else None | None \<Rightarrow> None)"

text \<open>What a call returns: a new result, or the stored object with the id of this call.\<close>

datatype tool_answer = Fresh tool_result | Repeated json

definition with_call_id :: "string \<Rightarrow> json \<Rightarrow> json" where
  "with_call_id i j = JObj (am_set ''toolCallId'' (JStr i) (case j of JObj kvs \<Rightarrow> kvs | _ \<Rightarrow> []))"

definition handleExistingClaim ::
    "int \<Rightarrow> tool_request \<Rightarrow> tool_definition \<Rightarrow> idem_record option \<Rightarrow> tool_world \<Rightarrow> tool_answer \<times> tool_world" where
  "handleExistingClaim now rq d existing w =
     (let unresolved =
        (Fresh (buildResult now rq d TS_OUTCOME_UNKNOWN
           \<lparr>te_code = ''DUPLICATE_IN_FLIGHT'',
            te_message = ''an existing logical side effect is unresolved; reconciliation required'', te_retryable = False\<rparr> 0 None),
         completeInvocation now (toContext rq) (tq_toolCallId rq) (status_name TS_OUTCOME_UNKNOWN)
           (Some (''DUPLICATE_IN_FLIGHT'', ''prior side-effect claim unresolved'')) w)
      in case existing of
           None \<Rightarrow> unresolved
         | Some r \<Rightarrow>
             (case (if id_status r = ID_COMPLETED then callResult_of (id_result r) else None) of
                Some c \<Rightarrow>
                  (Repeated (with_call_id (tq_toolCallId rq) c),
                   completeInvocation now (toContext rq) (tq_toolCallId rq)
                     (case member ''status'' c of Some (JStr s) \<Rightarrow> s | _ \<Rightarrow> []) None w)
              | None \<Rightarrow> unresolved))"

definition recordAudit ::
    "gateway_deps \<Rightarrow> tool_request \<Rightarrow> tool_definition \<Rightarrow> policy_verdict \<Rightarrow> tool_result \<Rightarrow> tool_world \<Rightarrow> string \<times> tool_world" where
  "recordAudit dp rq d verdict x w =
     (case gd_audit dp of
        None \<Rightarrow> (gd_newId dp, w)
      | Some sink \<Rightarrow>
          let e = \<lparr>ae_toolCallId = tq_toolCallId rq, ae_toolDefinitionId = td_toolDefinitionId d, ae_toolId = td_toolId d,
                   ae_version = td_version d, ae_tenantId = tq_tenantId rq, ae_decision = verdict_name verdict,
                   ae_status = tx_status x, ae_attempts = tx_retryCount x + 1, ae_correlationId = tq_correlationId rq\<rparr>
          in (sink e, w\<lparr>tw_audits := tw_audits w @ [e]\<rparr>))"

subsection \<open>\<open>execute\<close>\<close>

text \<open>The checks before anything is written: the answer that ends the call, or what to call.\<close>

definition admit ::
    "gateway_deps \<Rightarrow> int \<Rightarrow> tool_request \<Rightarrow> tool_definition list \<Rightarrow> tool_result + (tool_definition \<times> policy_verdict \<times> tool_provider)" where
  "admit dp now rq defs =
     (let ctx = toContext rq; end = terminal now rq;
          resolution = pr_resolveExecutable ctx \<lparr>tr_toolDefinitionId = tq_metaToolDefinitionId rq,
             tr_toolId = Some (tq_toolId rq), tr_version = Some (tq_toolVersion rq)\<rparr> defs
      in case resolution of
           Resolved d \<Rightarrow>
             let decision = gd_policy dp ctx rq d;
                 missing = filter (\<lambda>c. c \<notin> set (pd_capabilities decision)) (td_requiredCapabilities d);
                 approval = gd_approval dp ctx rq d (gd_hash dp (tq_input rq));
                 violations = (case td_inputSchema d of None \<Rightarrow> [] | Some s \<Rightarrow> validate (tq_input rq) s)
             in if pd_decision decision = PV_DENY
                then Inl (end TS_POLICY_DENIED ''POLICY_DENIED'' (nullish (pd_reason decision) ''denied by policy'') False)
                else if missing \<noteq> []
                then Inl (end TS_UNAUTHORIZED ''CAPABILITY_DENIED'' (''missing capabilities: '' @ js_join '','' missing) False)
                else if \<not> pd_autonomyAllowed decision
                then Inl (end TS_POLICY_DENIED ''AUTONOMY_DENIED'' ''autonomous invocation not permitted'' False)
                else if (td_requiredApproval d \<or> pd_decision decision = PV_REQUIRE_APPROVAL) \<and> \<not> aa_approved approval
                then Inl (end TS_POLICY_DENIED ''APPROVAL_REQUIRED''
                       (nullish (aa_reason approval) ''exact approval binding not satisfied'') False)
                else if violations \<noteq> []
                then Inl (end TS_VALIDATION_ERROR ''INPUT_SCHEMA_VIOLATION'' (js_join ''; '' violations) False)
                else case gd_provider dp (td_providerId d) d of
                    None \<Rightarrow> Inl (end TS_FAILED ''NO_PROVIDER'' (''no provider adapter for '' @ td_providerId d) False)
                  | Some p \<Rightarrow>
                      if \<not> gd_isReady dp (td_providerId d) d
                      then Inl (end TS_FAILED ''PROVIDER_NOT_READY'' (''provider '' @ td_providerId d @ '' not ready'') True)
                      else Inr (d, pd_decision decision, p)
         | _ \<Rightarrow> Inl (end (resolutionStatus resolution) (resolution_code resolution) (resolution_reason resolution) False))"

definition invocation_of :: "int \<Rightarrow> tool_request \<Rightarrow> tool_definition \<Rightarrow> policy_verdict \<Rightarrow> invocation_row" where
  "invocation_of now rq d verdict =
     \<lparr>iv_toolCallId = tq_toolCallId rq, iv_toolDefinitionId = td_toolDefinitionId d, iv_toolId = td_toolId d,
      iv_version = td_version d, iv_providerId = td_providerId d, iv_tenantId = tq_tenantId rq,
      iv_missionId = tq_missionId rq, iv_executionId = tq_executionId rq, iv_taskId = tq_taskId rq,
      iv_agentId = tq_agentId rq, iv_correlationId = tq_correlationId rq, iv_action = tq_metaAction rq,
      iv_idempotencyKey = tq_idempotencyKey rq, iv_decision = Some (verdict_name verdict), iv_status = ''IN_PROGRESS'',
      iv_auditId = None, iv_startedAt = now, iv_completedAt = None, iv_error = None\<rparr>"

text \<open>Steps 9 to 15: the attempts, the outcome of the claim, the check of the output, the audit entry.\<close>

definition perform ::
    "gateway_deps \<Rightarrow> int \<Rightarrow> tool_request \<Rightarrow> tool_definition \<Rightarrow> policy_verdict \<Rightarrow> tool_provider \<Rightarrow> tool_world
       \<Rightarrow> (tool_exn + tool_answer) \<times> tool_world" where
  "perform dp now rq d verdict p w =
     (case executeWithRetry now rq d p w of
        (Inl x, w1) \<Rightarrow> (Inl x, w1)
      | (Inr result, w1) \<Rightarrow>
          let w2 = (if td_idempotencyRequired d \<and> truthy (tq_idempotencyKey rq)
                    then persistClaimOutcome dp now (toContext rq) (tool_scope rq d) (nullish (tq_idempotencyKey rq) []) result w1
                    else w1);
              violations = (case td_outputSchema d of
                  Some s \<Rightarrow> if tx_status result = TS_SUCCESS then validate (tx_output result) s else []
                | None \<Rightarrow> [])
          in if violations \<noteq> []
             then (Inr (Fresh (buildResult now rq d TS_VALIDATION_ERROR
                     \<lparr>te_code = ''OUTPUT_SCHEMA_VIOLATION'', te_message = js_join ''; '' violations, te_retryable = False\<rparr>
                     (tx_retryCount result) None)),
                   completeInvocation now (toContext rq) (tq_toolCallId rq) (status_name TS_VALIDATION_ERROR)
                     (Some (''OUTPUT_SCHEMA_VIOLATION'', js_join ''; '' violations)) w2)
             else case recordAudit dp rq d verdict result w2 of
                 (auditId, w3) \<Rightarrow> (Inr (Fresh (result\<lparr>tx_auditId := auditId\<rparr>)), w3))"

definition gateway_execute ::
    "gateway_deps \<Rightarrow> int \<Rightarrow> tool_request \<Rightarrow> tool_world \<Rightarrow> (tool_exn + tool_answer) \<times> tool_world" where
  "gateway_execute dp now rq w =
     (case admit dp now rq (tw_definitions w) of
        Inl x \<Rightarrow> (Inr (Fresh x), w)
      | Inr (d, verdict, p) \<Rightarrow>
          (case createInvocation (invocation_of now rq d verdict) w of
             (Some x, w1) \<Rightarrow> (Inl x, w1)
           | (None, w1) \<Rightarrow>
               if td_idempotencyRequired d \<and> truthy (tq_idempotencyKey rq)
               then (case pg_claim now (toContext rq) (tool_scope rq d) (nullish (tq_idempotencyKey rq) []) (tw_idem w1) of
                       ((True, _), t) \<Rightarrow> perform dp now rq d verdict p (w1\<lparr>tw_idem := t\<rparr>)
                     | ((False, existing), t) \<Rightarrow>
                         (case handleExistingClaim now rq d existing (w1\<lparr>tw_idem := t\<rparr>) of (a, w2) \<Rightarrow> (Inr a, w2)))
               else perform dp now rq d verdict p w1))"

subsection \<open>Admission\<close>

text \<open>
  (C19) The governance of a tool call: \<open>admit\<close>, the checks of the gateway before the claim of the key,
  lets a request through exactly when the registry resolves it, the policy does not deny it, grants
  every capability the tool requires and allows autonomy, the exact approval is there when the tool or
  the policy asks for one, the input conforms to the schema, and the provider exists and is ready.
\<close>

theorem admit_iff:
  "admit dp now rq defs = Inr (d, verdict, p) \<longleftrightarrow>
     pr_resolveExecutable (toContext rq) \<lparr>tr_toolDefinitionId = tq_metaToolDefinitionId rq,
        tr_toolId = Some (tq_toolId rq), tr_version = Some (tq_toolVersion rq)\<rparr> defs = Resolved d \<and>
     verdict = pd_decision (gd_policy dp (toContext rq) rq d) \<and> verdict \<noteq> PV_DENY \<and>
     set (td_requiredCapabilities d) \<subseteq> set (pd_capabilities (gd_policy dp (toContext rq) rq d)) \<and>
     pd_autonomyAllowed (gd_policy dp (toContext rq) rq d) \<and>
     (if td_requiredApproval d \<or> verdict = PV_REQUIRE_APPROVAL
      then aa_approved (gd_approval dp (toContext rq) rq d (gd_hash dp (tq_input rq))) else True) \<and>
     (case (td_inputSchema d, tq_input rq) of
        (None, _) \<Rightarrow> True | (Some s, None) \<Rightarrow> False | (Some s, Some v) \<Rightarrow> conforms v s) \<and>
     gd_provider dp (td_providerId d) d = Some p \<and> gd_isReady dp (td_providerId d) d"
proof -
  have v: "validate (tq_input rq) s = [] \<longleftrightarrow> (case tq_input rq of None \<Rightarrow> False | Some v \<Rightarrow> conforms v s)" for s
    by (cases "tq_input rq") (simp_all add: validate_def validate_empty)
  show ?thesis
  proof (cases "pr_resolveExecutable (toContext rq) \<lparr>tr_toolDefinitionId = tq_metaToolDefinitionId rq,
        tr_toolId = Some (tq_toolId rq), tr_version = Some (tq_toolVersion rq)\<rparr> defs")
    case (Resolved d')
    then show ?thesis using v
      by (cases "d' = d")
        (auto simp: admit_def Let_def filter_empty_conv split: option.splits if_splits)
  qed (simp_all add: admit_def Let_def)
qed

subsection \<open>The attempts\<close>

lemma table_writes_keep [simp]:
  "tw_calls (completeInvocation now ctx i st e w) = tw_calls w" "tw_idem (completeInvocation now ctx i st e w) = tw_idem w"
  "tw_definitions (completeInvocation now ctx i st e w) = tw_definitions w"
  "tw_calls (completeAttempt now ctx i n a oc w) = tw_calls w" "tw_idem (completeAttempt now ctx i n a oc w) = tw_idem w"
  "tw_invocations (completeAttempt now ctx i n a oc w) = tw_invocations w"
  "tw_definitions (completeAttempt now ctx i n a oc w) = tw_definitions w"
  "tw_calls (snd (createInvocation r w)) = tw_calls w" "tw_idem (snd (createInvocation r w)) = tw_idem w"
  by (simp_all add: completeInvocation_def completeAttempt_def createInvocation_def)

text \<open>Whether another attempt may follow an answer.\<close>

definition safe_to_repeat :: "tool_definition \<Rightarrow> string + provider_outcome \<Rightarrow> bool" where
  "safe_to_repeat d answer \<longleftrightarrow>
     (case answer of Inl msg \<Rightarrow> False
      | Inr oc \<Rightarrow> po_retryable oc \<and> (td_sideEffectClass d = READ_ONLY \<or> \<not> po_submitted oc))"

lemma tool_attempt_cases:
  assumes "tool_attempt now rq d p n w = (r, w')"
  obtains x where "r = Inl x" "w' = w"
  | "r = Inr (outcome_of d (p (tw_calls w) (toContext rq) rq), attempt_result now rq d n (p (tw_calls w) (toContext rq) rq))"
      "tw_calls w' = tw_calls w @ [(td_providerId d, rq)]" "tw_idem w' = tw_idem w"
      "tw_invocations w' = tw_invocations w" "tw_definitions w' = tw_definitions w"
proof (cases "createAttempt (started_attempt now rq d n) w")
  case (Pair x w1)
  show thesis
  proof (cases x)
    case None
    then have c: "tw_calls w1 = tw_calls w" "tw_idem w1 = tw_idem w" "tw_invocations w1 = tw_invocations w"
      "tw_definitions w1 = tw_definitions w" using Pair by (auto simp: createAttempt_def split: if_splits)
    show thesis using that(2) assms [unfolded tool_attempt_def Pair None prod.case option.case Let_def] c by auto
  next
    case (Some y)
    then have "w1 = w" using Pair by (auto simp: createAttempt_def split: if_splits)
    then show thesis using that(1) [of y] assms Pair Some by (auto simp: tool_attempt_def)
  qed
qed

lemma canRetry_safe:
  "canRetry (outcome_of d a) d n m \<Longrightarrow> safe_to_repeat d a \<and> n < m"
  by (auto simp: canRetry_def safe_to_repeat_def outcome_of_def thrown_outcome_def split: sum.splits if_splits)

text \<open>The calls of the loop: as many as the limit allows, each but the last safe to repeat.\<close>

lemma retry_loop_calls:
  "retry_loop now rq d p n l w = (r, w') \<Longrightarrow>
    \<exists>k. tw_calls w' = tw_calls w @ replicate k (td_providerId d, rq) \<and> k \<le> maxAttempts d - n \<and>
      (\<forall>i. Suc i < k \<longrightarrow> safe_to_repeat d (p (tw_calls w @ replicate i (td_providerId d, rq)) (toContext rq) rq)) \<and>
      tw_idem w' = tw_idem w \<and> tw_invocations w' = tw_invocations w \<and> tw_definitions w' = tw_definitions w"
proof (induction now rq d p n l w arbitrary: r w' rule: retry_loop.induct)
  case (1 now rq d p n l w)
  let ?c = "(td_providerId d, rq)"
  note step = "1.prems" [unfolded retry_loop.simps [of now rq d p n l w]]
  show ?case
  proof (cases "n < maxAttempts d")
    case False
    then show ?thesis using step by (intro exI [of _ 0]) simp
  next
    case True
    obtain a w1 where a: "tool_attempt now rq d p (Suc n) w = (a, w1)" by fastforce
    from a show ?thesis
    proof (cases rule: tool_attempt_cases)
      case (1 x)
      then show ?thesis using step True a by (intro exI [of _ 0]) simp
    next
      case 2
      let ?x = "attempt_result now rq d (Suc n) (p (tw_calls w) (toContext rq) rq)"
      let ?oc = "outcome_of d (p (tw_calls w) (toContext rq) rq)"
      show ?thesis
      proof (cases "tx_status ?x \<noteq> TS_SUCCESS \<and> canRetry ?oc d (Suc n) (maxAttempts d)")
        case False
        then have "w' = w1" using step True a 2(1) by (auto split: if_splits)
        then show ?thesis using 2 True by (intro exI [of _ 1]) simp
      next
        case re: True
        then have l: "retry_loop now rq d p (Suc n) (Some ?x) w1 = (r, w')" using step True a 2(1) by simp
        from re have s: "safe_to_repeat d (p (tw_calls w) (toContext rq) rq)" "Suc n < maxAttempts d"
          using canRetry_safe by blast+
        from "1.IH" [OF True a [symmetric] 2(1) refl _ _ l] re obtain k where k:
          "tw_calls w' = tw_calls w1 @ replicate k ?c" "k \<le> maxAttempts d - Suc n"
          "\<forall>i. Suc i < k \<longrightarrow> safe_to_repeat d (p (tw_calls w1 @ replicate i ?c) (toContext rq) rq)"
          "tw_idem w' = tw_idem w1" "tw_invocations w' = tw_invocations w1" "tw_definitions w' = tw_definitions w1" by blast
        have "safe_to_repeat d (p (tw_calls w @ replicate i ?c) (toContext rq) rq)" if "Suc i < Suc k" for i
        proof (cases i)
          case 0
          then show ?thesis using s(1) by simp
        next
          case (Suc j)
          have "safe_to_repeat d (p (tw_calls w1 @ replicate j ?c) (toContext rq) rq)" using that k(3) Suc by simp
          then show ?thesis using 2(2) Suc by simp
        qed
        then show ?thesis using k 2 True s(2) by (intro exI [of _ "Suc k"]) auto
      qed
    qed
  qed
qed

lemma executeWithRetry_calls:
  assumes "executeWithRetry now rq d p w = (r, w')"
  shows "\<exists>k. tw_calls w' = tw_calls w @ replicate k (td_providerId d, rq) \<and> k \<le> maxAttempts d \<and>
      (\<forall>i. Suc i < k \<longrightarrow> safe_to_repeat d (p (tw_calls w @ replicate i (td_providerId d, rq)) (toContext rq) rq)) \<and>
      tw_idem w' = tw_idem w \<and> tw_definitions w' = tw_definitions w"
proof -
  obtain r1 w1 where l: "retry_loop now rq d p 0 None w = (r1, w1)" by fastforce
  have "tw_calls w' = tw_calls w1" "tw_idem w' = tw_idem w1" "tw_definitions w' = tw_definitions w1"
    using assms l by (auto simp: executeWithRetry_def Let_def split: sum.splits)
  then show ?thesis using retry_loop_calls [OF l] by auto
qed

lemma perform_calls:
  assumes "perform dp now rq d verdict p w = (r, w')"
  obtains r1 w1 where "executeWithRetry now rq d p w = (r1, w1)" "tw_calls w' = tw_calls w1" "tw_definitions w' = tw_definitions w1"
proof -
  obtain r1 w1 where e: "executeWithRetry now rq d p w = (r1, w1)" by fastforce
  have "tw_calls w' = tw_calls w1 \<and> tw_definitions w' = tw_definitions w1"
    using assms e by (auto simp: perform_def Let_def persistClaimOutcome_def recordAudit_def split: sum.splits if_splits option.splits prod.splits)
  then show thesis using that e by blast
qed

lemma createInvocation_cases:
  assumes "createInvocation r w = (x, w')"
  obtains e where "x = Some e" "w' = w" | "x = None" "w' = w\<lparr>tw_invocations := tw_invocations w @ [r]\<rparr>"
  using assms by (auto simp: createInvocation_def split: if_splits)

text \<open>A call that got past admission: refused by the table, by the claim, or performed.\<close>

lemma gateway_execute_cases:
  assumes "gateway_execute dp now rq w = (r, w')"
  obtains x where "admit dp now rq (tw_definitions w) = Inl x" "r = Inr (Fresh x)" "w' = w"
  | d v p e where "admit dp now rq (tw_definitions w) = Inr (d, v, p)" "r = Inl e" "w' = w"
      "fst (createInvocation (invocation_of now rq d v) w) = Some e"
  | d v p existing a where "admit dp now rq (tw_definitions w) = Inr (d, v, p)"
      "td_idempotencyRequired d" "truthy (tq_idempotencyKey rq)"
      "fst (pg_claim now (toContext rq) (tool_scope rq d) (nullish (tq_idempotencyKey rq) []) (tw_idem w)) = (False, existing)"
      "handleExistingClaim now rq d existing
         (w\<lparr>tw_invocations := tw_invocations w @ [invocation_of now rq d v],
            tw_idem := snd (pg_claim now (toContext rq) (tool_scope rq d) (nullish (tq_idempotencyKey rq) []) (tw_idem w))\<rparr>) = (a, w')"
      "r = Inr a"
  | d v p t where "admit dp now rq (tw_definitions w) = Inr (d, v, p)"
      "perform dp now rq d v p (w\<lparr>tw_invocations := tw_invocations w @ [invocation_of now rq d v], tw_idem := t\<rparr>) = (r, w')"
      "if td_idempotencyRequired d \<and> truthy (tq_idempotencyKey rq)
       then fst (fst (pg_claim now (toContext rq) (tool_scope rq d) (nullish (tq_idempotencyKey rq) []) (tw_idem w))) \<and>
         t = snd (pg_claim now (toContext rq) (tool_scope rq d) (nullish (tq_idempotencyKey rq) []) (tw_idem w))
       else t = tw_idem w"
proof (cases "admit dp now rq (tw_definitions w)")
  case (Inl x)
  then show thesis using that(1) assms by (simp add: gateway_execute_def)
next
  case (Inr y)
  then obtain d v p where ad: "admit dp now rq (tw_definitions w) = Inr (d, v, p)" by (cases y) auto
  obtain x w1 where c: "createInvocation (invocation_of now rq d v) w = (x, w1)" by fastforce
  from c show thesis
  proof (cases rule: createInvocation_cases)
    case (1 e)
    then show thesis using that(2) [OF ad, of e] assms ad c by (auto simp: gateway_execute_def)
  next
    case 2
    obtain cl ex t where pc: "pg_claim now (toContext rq) (tool_scope rq d) (nullish (tq_idempotencyKey rq) []) (tw_idem w) = ((cl, ex), t)"
      by (metis prod.collapse)
    note step = assms [unfolded gateway_execute_def ad sum.case prod.case c option.case 2]
    show thesis
    proof (cases "td_idempotencyRequired d \<and> truthy (tq_idempotencyKey rq)")
      case False
      then show thesis using that(4) [OF ad, of "tw_idem w"] step by (auto split: if_splits)
    next
      case req: True
      show thesis
      proof (cases cl)
        case True
        then have "perform dp now rq d v p (w\<lparr>tw_invocations := tw_invocations w @ [invocation_of now rq d v], tw_idem := t\<rparr>) = (r, w')"
          using step pc req by simp
        then show thesis by (rule that(4) [OF ad]) (simp add: pc True req)
      next
        case False
        then show thesis using that(3) [OF ad, of ex] step pc req by (auto split: prod.splits)
      qed
    qed
  qed
qed

lemma handleExistingClaim_keeps:
  assumes "handleExistingClaim now rq d existing w = (a, w')"
  shows "tw_calls w' = tw_calls w" "tw_idem w' = tw_idem w"
  using assms by (auto simp: handleExistingClaim_def Let_def split: option.splits)

text \<open>
  (C21) Retries are bounded and safe: one call of the gateway reaches one provider at most
  \<open>max(1, maxRetries + 1)\<close> times, and every answer but the last was a retryable one of a read-only
  tool or of a request that was not submitted. An exception is never followed by another attempt.
\<close>

theorem tool_retries_bounded:
  "\<exists>k c. tw_calls (snd (gateway_execute dp now rq w)) = tw_calls w @ replicate k c \<and>
     (k = 0 \<or> (\<exists>d v p. admit dp now rq (tw_definitions w) = Inr (d, v, p) \<and> c = (td_providerId d, rq) \<and>
        int k \<le> max 1 (td_maxRetries d + 1) \<and>
        list_all (\<lambda>i. safe_to_repeat d (p (tw_calls w @ replicate i c) (toContext rq) rq)) [0..<k - 1]))"
proof -
  obtain r w' where g: "gateway_execute dp now rq w = (r, w')" by fastforce
  from g show ?thesis
  proof (cases rule: gateway_execute_cases)
    case (4 d v p t)
    let ?w = "w\<lparr>tw_invocations := tw_invocations w @ [invocation_of now rq d v], tw_idem := t\<rparr>"
    from 4(2) obtain r1 w1 where e: "executeWithRetry now rq d p ?w = (r1, w1)" "tw_calls w' = tw_calls w1"
      by (rule perform_calls)
    from executeWithRetry_calls [OF e(1)] obtain k where
      "tw_calls w1 = tw_calls w @ replicate k (td_providerId d, rq)" "k \<le> maxAttempts d"
      "\<forall>i. Suc i < k \<longrightarrow> safe_to_repeat d (p (tw_calls w @ replicate i (td_providerId d, rq)) (toContext rq) rq)" by auto
    then show ?thesis using g e(2) 4(1)
      by (intro exI [of _ k] exI [of _ "(td_providerId d, rq)"]) (auto simp: maxAttempts_def list_all_iff)
  qed (use g handleExistingClaim_keeps in \<open>auto intro!: exI [of _ 0]\<close>)
qed

subsection \<open>One side effect per key\<close>

definition request_key :: "tool_definition \<Rightarrow> tool_request \<Rightarrow> idem_key" where
  "request_key d rq = (tq_tenantId rq, tool_scope rq d, nullish (tq_idempotencyKey rq) [])"

definition keyed :: "tool_definition \<Rightarrow> tool_request \<Rightarrow> bool" where
  "keyed d rq \<longleftrightarrow> td_idempotencyRequired d \<and> truthy (tq_idempotencyKey rq)"

lemma request_key_ctx: "(cx_tenantId (toContext rq), tool_scope rq d, nullish (tq_idempotencyKey rq) []) = request_key d rq"
  by (simp add: request_key_def toContext_def)

lemmas claim_facts = pg_claim_facts [where ctx = "toContext rq" and scope = "tool_scope rq d" and key = "nullish (tq_idempotencyKey rq) []"
    for rq d, unfolded request_key_ctx]

lemma submitted_false_stored: "submitted_false (stored_outcome f b x) \<longleftrightarrow> \<not> b"
  by (simp add: submitted_false_def stored_outcome_def)

lemma persist_table:
  "q \<noteq> request_key d rq \<Longrightarrow>
     map_of (tw_idem (persistClaimOutcome dp now (toContext rq) (tool_scope rq d) (nullish (tq_idempotencyKey rq) []) x w)) q = map_of (tw_idem w) q"
  "\<not> open_entry (map_of (tw_idem w) (request_key d rq)) \<Longrightarrow> tx_status x = TS_SUCCESS \<or> map_option te_code (tx_error x) \<noteq> Some ''NOT_SUBMITTED'' \<Longrightarrow>
     \<not> open_entry (map_of (tw_idem (persistClaimOutcome dp now (toContext rq) (tool_scope rq d) (nullish (tq_idempotencyKey rq) []) x w)) (request_key d rq))"
proof -
  assume "q \<noteq> request_key d rq"
  then show "map_of (tw_idem (persistClaimOutcome dp now (toContext rq) (tool_scope rq d) (nullish (tq_idempotencyKey rq) []) x w)) q = map_of (tw_idem w) q"
    by (simp add: persistClaimOutcome_def Let_def pg_set_facts(2) request_key_def toContext_def)
next
  assume o: "\<not> open_entry (map_of (tw_idem w) (request_key d rq))"
    and s: "tx_status x = TS_SUCCESS \<or> map_option te_code (tx_error x) \<noteq> Some ''NOT_SUBMITTED''"
  show "\<not> open_entry (map_of (tw_idem (persistClaimOutcome dp now (toContext rq) (tool_scope rq d) (nullish (tq_idempotencyKey rq) []) x w)) (request_key d rq))"
  proof (cases "tx_status x = TS_OUTCOME_UNKNOWN")
    case True
    then show ?thesis using o by (simp add: persistClaimOutcome_def)
  next
    case False
    let ?st = "if tx_status x = TS_SUCCESS then ID_COMPLETED else ID_FAILED"
    obtain e where "map_of (pg_set (gd_defaultTtl dp) now (toContext rq) (tool_scope rq d) (nullish (tq_idempotencyKey rq) [])
        (stored_outcome (gd_dateText dp) True x) None (Some ?st) (tw_idem w)) (request_key d rq) = Some e"
      "id_result e = stored_outcome (gd_dateText dp) True x"
      using pg_set_facts(1) [of "gd_defaultTtl dp" now "toContext rq" "tool_scope rq d" "nullish (tq_idempotencyKey rq) []"
          "stored_outcome (gd_dateText dp) True x" None ?st "tw_idem w"] unfolding request_key_ctx by blast
    then show ?thesis using False s by (auto simp: persistClaimOutcome_def Let_def open_entry_def submitted_false_stored)
  qed
qed

definition refused_unsubmitted :: "tool_exn + tool_answer \<Rightarrow> bool" where
  "refused_unsubmitted r \<longleftrightarrow> (case r of
     Inr (Fresh x) \<Rightarrow> tx_status x \<noteq> TS_SUCCESS \<and> map_option te_code (tx_error x) = Some ''NOT_SUBMITTED'' | _ \<Rightarrow> False)"

lemma perform_table:
  assumes p: "perform dp now rq d verdict p w = (r, w')"
  shows "\<not> keyed d rq \<or> q \<noteq> request_key d rq \<Longrightarrow> map_of (tw_idem w') q = map_of (tw_idem w) q"
    and "\<not> open_entry (map_of (tw_idem w) (request_key d rq)) \<Longrightarrow> \<not> refused_unsubmitted r \<Longrightarrow>
      \<not> open_entry (map_of (tw_idem w') (request_key d rq))"
proof -
  obtain r1 w1 where e: "executeWithRetry now rq d p w = (r1, w1)" by fastforce
  have k: "tw_idem w1 = tw_idem w" using executeWithRetry_calls [OF e] by blast
  have a: "tw_idem (snd (recordAudit dp rq d verdict x v)) = tw_idem v" for x v
    by (simp add: recordAudit_def Let_def split: option.split)
  show "\<not> keyed d rq \<or> q \<noteq> request_key d rq \<Longrightarrow> map_of (tw_idem w') q = map_of (tw_idem w) q"
    and "\<not> open_entry (map_of (tw_idem w) (request_key d rq)) \<Longrightarrow> \<not> refused_unsubmitted r \<Longrightarrow>
      \<not> open_entry (map_of (tw_idem w') (request_key d rq))"
  proof -
    let ?s = "\<lambda>x. if td_idempotencyRequired d \<and> truthy (tq_idempotencyKey rq)
       then persistClaimOutcome dp now (toContext rq) (tool_scope rq d) (nullish (tq_idempotencyKey rq) []) x w1 else w1"
    show "map_of (tw_idem w') q = map_of (tw_idem w) q" if n: "\<not> keyed d rq \<or> q \<noteq> request_key d rq"
    proof (cases r1)
      case (Inl x)
      then show ?thesis using p e k by (simp add: perform_def)
    next
      case (Inr x)
      then have "tw_idem w' = tw_idem (?s x)" using p e a [of x "?s x"]
        by (auto simp: perform_def Let_def split: if_splits prod.splits)
      then show ?thesis using n k persist_table(1) [of q d rq dp now x w1] by (auto simp: keyed_def)
    qed
    show "\<not> open_entry (map_of (tw_idem w') (request_key d rq))"
      if o: "\<not> open_entry (map_of (tw_idem w) (request_key d rq))" and nr: "\<not> refused_unsubmitted r"
    proof (cases r1)
      case (Inl x)
      then show ?thesis using p e k o by (simp add: perform_def)
    next
      case (Inr x)
      then have i: "tw_idem w' = tw_idem (?s x)" using p e a [of x "?s x"]
        by (auto simp: perform_def Let_def split: if_splits prod.splits)
      have "tx_status x = TS_SUCCESS \<or> map_option te_code (tx_error x) \<noteq> Some ''NOT_SUBMITTED''"
      proof (rule ccontr)
        assume c: "\<not> ?thesis"
        obtain i w3 where "recordAudit dp rq d verdict x (?s x) = (i, w3)" by fastforce
        then have "r = Inr (Fresh (x\<lparr>tx_auditId := i\<rparr>))" using p e Inr c
          by (auto simp: perform_def Let_def split: option.splits)
        then show False using nr c by (simp add: refused_unsubmitted_def)
      qed
      then show ?thesis unfolding i using o k persist_table(2) [of w1 d rq x dp now] by simp
    qed
  qed
qed

lemma closed_key_kept:
  assumes "gateway_execute dp now rq w = (r, w')" and "\<not> open_entry (map_of (tw_idem w) q)"
  shows "map_of (tw_idem w') q = map_of (tw_idem w) q"
  using assms(1)
proof (cases rule: gateway_execute_cases)
  case (3 d v p existing a)
  then have "\<not> open_entry (map_of (tw_idem w) (request_key d rq))" using claim_facts(1) [of now rq d "tw_idem w"] by simp
  then have "snd (pg_claim now (toContext rq) (tool_scope rq d) (nullish (tq_idempotencyKey rq) []) (tw_idem w)) = tw_idem w"
    by (rule claim_facts(3))
  then show ?thesis using handleExistingClaim_keeps(2) [OF 3(5)] by simp
next
  case (4 d v p t)
  show ?thesis
  proof (cases "keyed d rq")
    case True
    then have c: "fst (fst (pg_claim now (toContext rq) (tool_scope rq d) (nullish (tq_idempotencyKey rq) []) (tw_idem w)))"
      "t = snd (pg_claim now (toContext rq) (tool_scope rq d) (nullish (tq_idempotencyKey rq) []) (tw_idem w))"
      using 4(3) by (auto simp: keyed_def)
    then have n: "q \<noteq> request_key d rq" using claim_facts(1) assms(2) by blast
    show ?thesis using perform_table(1) [OF 4(2), of q] n claim_facts(4) [OF n, of now "tw_idem w"] c(2) by simp
  next
    case False
    then show ?thesis using perform_table(1) [OF 4(2), of q] 4(3) by (auto simp: keyed_def)
  qed
qed auto

lemma keyed_call_closes:
  assumes "gateway_execute dp now rq w = (r, w')" and "admit dp now rq (tw_definitions w) = Inr (d, v, p)" and "keyed d rq"
    and "tw_calls w' \<noteq> tw_calls w" and "\<not> refused_unsubmitted r"
  shows "\<not> open_entry (map_of (tw_idem w') (request_key d rq))"
  using assms(1)
proof (cases rule: gateway_execute_cases)
  case (3 d' v' p' existing a)
  then show ?thesis using assms(4) handleExistingClaim_keeps(1) [OF 3(5)] by simp
next
  case (4 d' v' p' t)
  then have d: "d' = d" using assms(2) by simp
  have t: "t = snd (pg_claim now (toContext rq) (tool_scope rq d) (nullish (tq_idempotencyKey rq) []) (tw_idem w))"
    "open_entry (map_of (tw_idem w) (request_key d rq))"
    using 4(3) assms(3) d claim_facts(1) [of now rq d "tw_idem w"] by (auto simp: keyed_def)
  obtain e where "map_of t (request_key d rq) = Some e" "id_status e = ID_PENDING"
    using claim_facts(2) [OF t(2), of now] t(1) by auto
  then have "\<not> open_entry (map_of t (request_key d rq))" by (simp add: open_entry_def)
  then show ?thesis using perform_table(2) [OF 4(2)] assms(5) d by simp
qed (use assms(4) in auto)

lemma closed_key_not_called:
  assumes "gateway_execute dp now rq w = (r, w')" and "admit dp now rq (tw_definitions w) = Inr (d, v, p)" and "keyed d rq"
    and "\<not> open_entry (map_of (tw_idem w) (request_key d rq))"
  shows "tw_calls w' = tw_calls w"
  using assms(1)
proof (cases rule: gateway_execute_cases)
  case (3 d' v' p' existing a)
  then show ?thesis using handleExistingClaim_keeps(1) [OF 3(5)] by simp
next
  case (4 d' v' p' t)
  then show ?thesis using assms(2-4) claim_facts(1) [of now rq d "tw_idem w"] by (auto simp: keyed_def)
qed auto

text \<open>Any calls, each with its own ports, clock and definitions.\<close>

fun gateway_run :: "(gateway_deps \<times> int \<times> tool_definition list \<times> tool_request) list \<Rightarrow> tool_world \<Rightarrow> tool_world" where
  "gateway_run [] w = w"
| "gateway_run ((dp, now, defs, rq) # calls) w =
     gateway_run calls (snd (gateway_execute dp now rq (w\<lparr>tw_definitions := defs\<rparr>)))"

lemma closed_key_run:
  "\<not> open_entry (map_of (tw_idem w) q) \<Longrightarrow> map_of (tw_idem (gateway_run calls w)) q = map_of (tw_idem w) q"
proof (induction calls arbitrary: w)
  case (Cons c calls)
  obtain dp now defs rq where c: "c = (dp, now, defs, rq)" by (cases c)
  obtain r w' where g: "gateway_execute dp now rq (w\<lparr>tw_definitions := defs\<rparr>) = (r, w')" by fastforce
  have "map_of (tw_idem w') q = map_of (tw_idem w) q" using closed_key_kept [OF g, of q] Cons.prems by simp
  then show ?case using Cons.IH [of w'] Cons.prems c g by simp
qed simp

text \<open>
  (C20) A keyed tool call has its side effect at most once: after a call that reached the provider,
  no later call with the same tenant, tool, action and key reaches a provider, whatever is called
  in between, at whatever time and with whatever policies and definitions, unless the first one
  ended with the error NOT_SUBMITTED.
\<close>

theorem tool_side_effect_at_most_once:
  assumes "gateway_execute dp now rq w = (r, w1)" and "tw_calls w1 \<noteq> tw_calls w"
    and "admit dp now rq (tw_definitions w) = Inr (d, v, p)" and "keyed d rq" and "\<not> refused_unsubmitted r"
    and "w2 = gateway_run calls w1"
    and "admit dp' now' rq' (tw_definitions w2) = Inr (d', v', p')" and "keyed d' rq'" and "request_key d' rq' = request_key d rq"
  shows "tw_calls (snd (gateway_execute dp' now' rq' w2)) = tw_calls w2"
proof -
  have "\<not> open_entry (map_of (tw_idem w1) (request_key d rq))"
    using keyed_call_closes [OF assms(1,3,4,2,5)] .
  then have "\<not> open_entry (map_of (tw_idem w2) (request_key d' rq'))"
    using closed_key_run [of w1 "request_key d rq" calls] assms(6,9) by simp
  then show ?thesis using closed_key_not_called [OF _ assms(7,8)] by (metis prod.collapse)
qed

subsection \<open>What repeated calls return\<close>

definition logged :: "invocation_row \<Rightarrow> tool_world \<Rightarrow> bool" where
  "logged row w \<longleftrightarrow> list_ex (\<lambda>x. same_invocation x row) (tw_invocations w)"

lemma logged_completeInvocation [simp]: "logged row (completeInvocation now ctx i st err w) = logged row w"
proof -
  have "same_invocation (if b then x\<lparr>iv_status := s, iv_completedAt := t, iv_error := e\<rparr> else x) row = same_invocation x row"
    for b x s t e by (simp add: same_invocation_def)
  then have "list_ex (\<lambda>x. same_invocation x row) (map (\<lambda>x. if P x then x\<lparr>iv_status := s, iv_completedAt := t, iv_error := e x\<rparr> else x) xs)
      = list_ex (\<lambda>x. same_invocation x row) xs" for P s t e and xs :: "invocation_row list"
    by (induction xs) simp_all
  then show ?thesis by (cases w) (simp add: logged_def completeInvocation_def)
qed

lemma logged_keeps [simp]:
  "logged row (persistClaimOutcome dp now ctx scope key x w) = logged row w"
  "logged row (snd (recordAudit dp rq d v x w)) = logged row w"
  "logged row (w\<lparr>tw_idem := t\<rparr>) = logged row w"
  "logged row (w\<lparr>tw_definitions := defs\<rparr>) = logged row w"
  by (simp_all add: persistClaimOutcome_def recordAudit_def logged_def Let_def split: option.split)

lemma logged_perform:
  assumes "perform dp now rq d v p w = (r, w')"
  shows "logged row w' = logged row w"
proof -
  obtain l w1 where rl: "retry_loop now rq d p 0 None w = (l, w1)" by fastforce
  have l: "logged row w1 = logged row w" using retry_loop_calls [OF rl] by (auto simp: logged_def)
  obtain e w2 where e: "executeWithRetry now rq d p w = (e, w2)" by fastforce
  then have 2: "logged row w2 = logged row w" using rl l by (cases l) (auto simp: executeWithRetry_def Let_def)
  show ?thesis
  proof (cases e)
    case (Inl x)
    then show ?thesis using 2 assms e by (simp add: perform_def)
  next
    case (Inr x)
    have "logged row (snd (perform dp now rq d v p w)) = logged row w2"
      unfolding perform_def e prod.case Inr sum.case Let_def case_prod_beta by simp
    then show ?thesis using assms 2 by simp
  qed
qed

text \<open>
  A repeated call that names an action is never answered: the invocation is inserted before
  the claim is looked at, and the unique index on tenant, tool, action and key refuses a second
  row, so the repeat throws; it gets neither the stored result nor OUTCOME_UNKNOWN, and a call
  that was provably not submitted cannot be made again.
\<close>

theorem repeated_action_throws:
  assumes "gateway_execute dp now rq w = (Inr a, w1)" and "admit dp now rq (tw_definitions w) = Inr (d, v, p)"
    and "admit dp' now' rq' (tw_definitions w1) = Inr (d', v', p')"
    and "td_toolId d' = td_toolId d" and "tq_tenantId rq' = tq_tenantId rq"
    and "tq_metaAction rq = Some act" and "tq_metaAction rq' = Some act"
    and "tq_idempotencyKey rq = Some key" and "tq_idempotencyKey rq' = Some key"
  shows "\<exists>index. gateway_execute dp' now' rq' w1 = (Inl (UniqueViolation index), w1)"
proof -
  let ?row = "invocation_of now' rq' d' v'"
  have s: "same_invocation (invocation_of now rq d v) ?row"
    using assms(4-9) by (simp add: same_invocation_def invocation_of_def)
  have l: "logged ?row (w\<lparr>tw_invocations := tw_invocations w @ [invocation_of now rq d v], tw_idem := t\<rparr>)" for t
    using s by (simp add: logged_def)
  have "logged ?row w1" using assms(1)
  proof (cases rule: gateway_execute_cases)
    case (3 d2 v2 p2 existing b)
    have "logged ?row w1 = logged ?row (w\<lparr>tw_invocations := tw_invocations w @ [invocation_of now rq d v],
        tw_idem := snd (pg_claim now (toContext rq) (tool_scope rq d) (nullish (tq_idempotencyKey rq) []) (tw_idem w))\<rparr>)"
      using 3(1,5) assms(2) by (auto simp: handleExistingClaim_def Let_def simp del: logged_keeps split: option.splits)
    then show ?thesis using l by blast
  next
    case (4 d2 v2 p2 t)
    then show ?thesis using logged_perform [OF 4(2), of ?row] l [of t] assms(2) by auto
  qed (use assms(2) in auto)
  then have "\<exists>index. createInvocation ?row w1 = (Some (UniqueViolation index), w1)"
    by (auto simp: createInvocation_def logged_def)
  then show ?thesis using assms(3) by (auto simp: gateway_execute_def)
qed

lemma call_ids_completeInvocation:
  "map iv_toolCallId (tw_invocations (completeInvocation now ctx i st err w)) = map iv_toolCallId (tw_invocations w)"
  by (simp add: completeInvocation_def)

lemma with_call_id_member: "k \<noteq> ''toolCallId'' \<Longrightarrow> member k (with_call_id i (JObj kvs)) = map_of kvs k"
  by (simp add: with_call_id_def)

text \<open>
  The output check does not reach the store: when a keyed tool answers with an output that
  violates its schema, the call fails with VALIDATION_ERROR, but the claim was completed with the
  result before the check, so every repeat of the call (without an action) returns that result
  with status SUCCESS and the invalid output.
\<close>

theorem invalid_output_returned_on_repeat:
  assumes "admit dp now rq (tw_definitions w) = Inr (d, v, p)" and "keyed d rq" and "tq_metaAction rq = None"
    and "p (tw_calls w) (toContext rq) rq = Inr oc" and "mapOutcomeStatus oc False = TS_SUCCESS"
    and "po_output oc = Some out" and "td_outputSchema d = Some s" and "\<not> conforms out s"
    and "open_entry (map_of (tw_idem w) (request_key d rq))"
    and "list_all (\<lambda>r. iv_toolCallId r \<noteq> tq_toolCallId rq) (tw_invocations w)"
    and "list_all (\<lambda>r. iv_toolCallId r \<noteq> again) (tw_invocations w)" and "again \<noteq> tq_toolCallId rq"
    and "list_all (\<lambda>r. at_toolCallId r \<noteq> tq_toolCallId rq) (tw_attempts w)"
    and "gateway_execute dp now rq w = (r, w1)"
    and "admit dp now' (rq\<lparr>tq_toolCallId := again\<rparr>) (tw_definitions w1) = Inr (d, v', p')"
  shows "(\<exists>x. r = Inr (Fresh x) \<and> tx_status x = TS_VALIDATION_ERROR) \<and>
    (\<exists>j. fst (gateway_execute dp now' (rq\<lparr>tq_toolCallId := again\<rparr>) w1) = Inr (Repeated j) \<and>
       member ''status'' j = Some (JStr ''SUCCESS'') \<and> member ''output'' j = Some out)"
proof -
  let ?ctx = "toContext rq" and ?scope = "tool_scope rq d" and ?key = "nullish (tq_idempotencyKey rq) []"
  obtain t where cl: "pg_claim now ?ctx ?scope ?key (tw_idem w) = ((True, None), t)"
    using assms(9) unfolding request_key_ctx [symmetric]
    by (auto simp: pg_claim_def open_entry_def Let_def split: option.splits)
  let ?w = "w\<lparr>tw_invocations := tw_invocations w @ [invocation_of now rq d v], tw_idem := t\<rparr>"
  let ?x = "attempt_result now rq d (Suc 0) (Inr oc)"
  have ci: "createInvocation (invocation_of now rq d v) w = (None, w\<lparr>tw_invocations := tw_invocations w @ [invocation_of now rq d v]\<rparr>)"
    using assms(3,10) by (auto simp: createInvocation_def invocation_of_def same_invocation_def list_ex_iff list_all_iff)
  have st: "tx_status ?x = TS_SUCCESS" "tx_output ?x = Some out" "tx_error ?x = None"
    using assms(5,6) by (simp_all add: attempt_result_def outcome_of_def buildResult_def Let_def)
  have ca: "createAttempt (started_attempt now rq d (Suc 0)) ?w = (None, ?w\<lparr>tw_attempts := tw_attempts w @ [started_attempt now rq d (Suc 0)]\<rparr>)"
    using assms(13) by (auto simp: createAttempt_def started_attempt_def list_ex_iff list_all_iff)
  have m: "0 < maxAttempts d" by (simp add: maxAttempts_def)
  obtain w2 where ta: "tool_attempt now rq d p (Suc 0) ?w = (Inr (oc, ?x), w2)"
    using ca assms(4) by (auto simp: tool_attempt_def Let_def outcome_of_def)
  have rl: "retry_loop now rq d p 0 None ?w = (Inr (Some ?x), w2)"
    by (subst retry_loop.simps) (simp add: m ta st)
  define w3 where "w3 = completeInvocation now ?ctx (tq_toolCallId rq) (status_name TS_SUCCESS) None w2"
  have ex: "executeWithRetry now rq d p ?w = (Inr ?x, w3)" using rl st by (simp add: executeWithRetry_def w3_def Let_def)
  have viol: "validate (Some out) s \<noteq> []" using assms(8) by (simp add: validate_def validate_empty)
  define w4 where "w4 = persistClaimOutcome dp now ?ctx ?scope ?key ?x w3"
  have pf: "perform dp now rq d v p ?w =
    (Inr (Fresh (buildResult now rq d TS_VALIDATION_ERROR
        \<lparr>te_code = ''OUTPUT_SCHEMA_VIOLATION'', te_message = js_join ''; '' (validate (Some out) s), te_retryable = False\<rparr>
        (tx_retryCount ?x) None)),
     completeInvocation now ?ctx (tq_toolCallId rq) (status_name TS_VALIDATION_ERROR)
       (Some (''OUTPUT_SCHEMA_VIOLATION'', js_join ''; '' (validate (Some out) s))) w4)"
    using assms(2,7) viol st by (simp add: perform_def ex keyed_def w4_def Let_def)
  have g: "gateway_execute dp now rq w = perform dp now rq d v p ?w"
    using assms(1,2) ci cl by (simp add: gateway_execute_def keyed_def)
  then have r: "r = Inr (Fresh (buildResult now rq d TS_VALIDATION_ERROR
        \<lparr>te_code = ''OUTPUT_SCHEMA_VIOLATION'', te_message = js_join ''; '' (validate (Some out) s), te_retryable = False\<rparr>
        (tx_retryCount ?x) None))"
    and w1: "w1 = completeInvocation now ?ctx (tq_toolCallId rq) (status_name TS_VALIDATION_ERROR)
       (Some (''OUTPUT_SCHEMA_VIOLATION'', js_join ''; '' (validate (Some out) s))) w4"
    using assms(14) pf by simp_all
  have ids: "map iv_toolCallId (tw_invocations w1) = map iv_toolCallId (tw_invocations w) @ [tq_toolCallId rq]"
  proof -
    have "tw_invocations w2 = tw_invocations ?w" using ta by (rule tool_attempt_cases) auto
    moreover have "tw_invocations w4 = tw_invocations w3" by (simp add: w4_def persistClaimOutcome_def Let_def)
    ultimately show ?thesis unfolding w1 w3_def by (simp add: call_ids_completeInvocation invocation_of_def)
  qed
  let ?rq = "rq\<lparr>tq_toolCallId := again\<rparr>"
  have same: "toContext ?rq = ?ctx" "tool_scope ?rq d = ?scope" by (simp_all add: toContext_def tool_scope_def)
  have "again \<notin> set (map iv_toolCallId (tw_invocations w1))"
    unfolding ids using assms(11,12) by (auto simp: list_all_iff)
  then have c2: "createInvocation (invocation_of now' ?rq d v') w1 = (None, w1\<lparr>tw_invocations := tw_invocations w1 @ [invocation_of now' ?rq d v']\<rparr>)"
    using assms(3) by (auto simp: createInvocation_def invocation_of_def same_invocation_def list_ex_iff)
  obtain e where e: "map_of (tw_idem w1) (request_key d rq) = Some e" "id_status e = ID_COMPLETED"
      "id_result e = stored_outcome (gd_dateText dp) True ?x"
    using pg_set_facts(1) [of "gd_defaultTtl dp" now ?ctx ?scope ?key "stored_outcome (gd_dateText dp) True ?x" None ID_COMPLETED "tw_idem w3"]
    unfolding w1 w4_def request_key_ctx using st by (auto simp: persistClaimOutcome_def)
  have "pg_claim now' ?ctx ?scope ?key (tw_idem w1) = ((False, Some e), tw_idem w1)"
    using e unfolding request_key_ctx [symmetric] by (simp add: pg_claim_def pg_get_def)
  moreover have "callResult_of (id_result e) = Some (result_json (gd_dateText dp) ?x)"
    by (simp add: e(3) callResult_of_def stored_outcome_def result_json_def)
  ultimately have "fst (gateway_execute dp now' ?rq w1) = Inr (Repeated (with_call_id again (result_json (gd_dateText dp) ?x)))"
    using assms(2,15) c2 e(2) same by (simp add: gateway_execute_def keyed_def handleExistingClaim_def Let_def)
  moreover have "member ''status'' (with_call_id again (result_json (gd_dateText dp) ?x)) = Some (JStr ''SUCCESS'')"
    "member ''output'' (with_call_id again (result_json (gd_dateText dp) ?x)) = Some out"
    unfolding result_json_def using st by (simp_all add: with_call_id_member opt_member_def status_name_def)
  moreover have "\<exists>x. r = Inr (Fresh x) \<and> tx_status x = TS_VALIDATION_ERROR" unfolding r by (simp add: buildResult_def)
  ultimately show ?thesis by blast
qed

subsection \<open>Witnesses\<close>

text \<open>An irreversible tool with an output schema, and a provider that answers with a boolean.\<close>

definition ex_mail_tool :: tool_definition where
  "ex_mail_tool = \<lparr>td_toolDefinitionId = ''d1'', td_toolId = ''mail'', td_version = ''1'', td_tenantId = Some ''t'',
     td_description = [], td_inputSchema = None, td_outputSchema = Some (ToolSchema ST_String None None None None),
     td_requiredCapabilities = [], td_riskCategory = RC_HIGH, td_sideEffectClass = IRREVERSIBLE_EXTERNAL,
     td_requiredApproval = False, td_providerId = ''p'', td_enabled = True, td_timeoutSeconds = 30, td_maxRetries = 2,
     td_idempotencyRequired = True, td_costMetadata = None, td_config = None, td_lifecycle = TL_ACTIVE,
     td_createdAt = None, td_updatedAt = None\<rparr>"

definition ex_mail_outcome :: provider_outcome where
  "ex_mail_outcome = \<lparr>po_submitted = True, po_resultKnown = True, po_retryable = False, po_failureClassification = None,
     po_providerRequestId = Some ''r'', po_output = Some (JBool True), po_errorCode = None, po_errorMessage = None\<rparr>"

definition ex_mail_provider :: tool_provider where
  "ex_mail_provider = (\<lambda>calls ctx rq. Inr ex_mail_outcome)"

definition ex_gateway :: gateway_deps where
  "ex_gateway = \<lparr>gd_policy = (\<lambda>ctx rq d. \<lparr>pd_decision = PV_ALLOW, pd_policyDecisionId = ''x'', pd_capabilities = [],
       pd_autonomyAllowed = True, pd_reason = None\<rparr>),
     gd_approval = (\<lambda>ctx rq d h. \<lparr>aa_approved = False, aa_reason = None\<rparr>), gd_isReady = (\<lambda>i d. True),
     gd_provider = (\<lambda>i d. Some ex_mail_provider), gd_hash = (\<lambda>i. []), gd_audit = None, gd_newId = ''a'',
     gd_dateText = (\<lambda>t. []), gd_defaultTtl = 86400\<rparr>"

definition ex_mail_request :: "string \<Rightarrow> string option \<Rightarrow> tool_request" where
  "ex_mail_request i act = \<lparr>tq_toolCallId = i, tq_toolId = ''mail'', tq_toolVersion = ''1'', tq_tenantId = ''t'',
     tq_missionId = None, tq_agentId = None, tq_agentVersion = None, tq_executionId = None, tq_taskId = None,
     tq_correlationId = ''c'', tq_idempotencyKey = Some ''k'', tq_authorization = JNull, tq_riskCategory = RC_HIGH,
     tq_input = None, tq_timeoutSeconds = 30, tq_metaToolDefinitionId = None, tq_metaAction = act\<rparr>"

definition ex_tool_world :: tool_world where
  "ex_tool_world = \<lparr>tw_definitions = [ex_mail_tool], tw_invocations = [], tw_attempts = [], tw_idem = [], tw_calls = [], tw_audits = []\<rparr>"

lemma ex_mail_admit: "admit ex_gateway now (ex_mail_request i act) [ex_mail_tool] = Inr (ex_mail_tool, PV_ALLOW, ex_mail_provider)"
  unfolding admit_iff
  by (simp add: pr_resolveExecutable_def pr_findByToolVersion_def pr_rows_def visible_def resolveToolDefinition_def isExecutable_def
      ex_mail_request_def ex_mail_tool_def ex_gateway_def toContext_def Let_def)

lemma ex_mail_facts:
  "tw_definitions ex_tool_world = [ex_mail_tool]" "keyed ex_mail_tool (ex_mail_request i act)"
  "request_key ex_mail_tool (ex_mail_request i act) = request_key ex_mail_tool (ex_mail_request j act)"
  "\<not> conforms (JBool True) (ToolSchema ST_String None None None None)"
  by (simp_all add: ex_tool_world_def keyed_def request_key_def tool_scope_def ex_mail_request_def ex_mail_tool_def conforms_at)

lemma gateway_definitions:
  "tw_definitions (snd (gateway_execute dp now rq w)) = tw_definitions w"
proof -
  obtain r w' where g: "gateway_execute dp now rq w = (r, w')" by fastforce
  from g show ?thesis
  proof (cases rule: gateway_execute_cases)
    case (3 d v p existing a)
    then show ?thesis using g by (auto simp: handleExistingClaim_def Let_def split: option.splits)
  next
    case (4 d v p t)
    then obtain r1 w1 where "executeWithRetry now rq d p
        (w\<lparr>tw_invocations := tw_invocations w @ [invocation_of now rq d v], tw_idem := t\<rparr>) = (r1, w1)"
      "tw_definitions w' = tw_definitions w1" by (metis perform_calls)
    then show ?thesis using executeWithRetry_calls g by fastforce
  qed (use g in auto)
qed

theorem invalid_output_returned_on_repeat_witness:
  "\<exists>j. fst (gateway_execute ex_gateway 9 ((ex_mail_request ''c1'' None)\<lparr>tq_toolCallId := ''c2''\<rparr>)
       (snd (gateway_execute ex_gateway 5 (ex_mail_request ''c1'' None) ex_tool_world))) = Inr (Repeated j) \<and>
     member ''status'' j = Some (JStr ''SUCCESS'') \<and> member ''output'' j = Some (JBool True)"
proof -
  obtain r w1 where g: "gateway_execute ex_gateway 5 (ex_mail_request ''c1'' None) ex_tool_world = (r, w1)" by fastforce
  have "tw_definitions w1 = [ex_mail_tool]" using gateway_definitions [of ex_gateway 5 "ex_mail_request ''c1'' None" ex_tool_world] g
    by (simp add: ex_mail_facts)
  moreover have "(ex_mail_request ''c1'' None)\<lparr>tq_toolCallId := ''c2''\<rparr> = ex_mail_request ''c2'' None" by (simp add: ex_mail_request_def)
  ultimately have "admit ex_gateway 9 ((ex_mail_request ''c1'' None)\<lparr>tq_toolCallId := ''c2''\<rparr>) (tw_definitions w1) =
      Inr (ex_mail_tool, PV_ALLOW, ex_mail_provider)" using ex_mail_admit by simp
  moreover have "td_outputSchema ex_mail_tool = Some (ToolSchema ST_String None None None None)"
    "ex_mail_provider c x q = Inr ex_mail_outcome" "mapOutcomeStatus ex_mail_outcome False = TS_SUCCESS"
    "po_output ex_mail_outcome = Some (JBool True)" for c x q
    by (simp_all add: ex_mail_tool_def ex_mail_provider_def mapOutcomeStatus_def ex_mail_outcome_def)
  moreover have "tq_metaAction (ex_mail_request ''c1'' None) = None" "tq_toolCallId (ex_mail_request ''c1'' None) = ''c1''"
    "tw_invocations ex_tool_world = []" "tw_attempts ex_tool_world = []" "tw_idem ex_tool_world = []"
    by (simp_all add: ex_mail_request_def ex_tool_world_def)
  ultimately show ?thesis
    using invalid_output_returned_on_repeat [OF _ _ _ _ _ _ _ _ _ _ _ _ _ g, of ex_mail_tool PV_ALLOW ex_mail_provider ex_mail_outcome
        "JBool True" "ToolSchema ST_String None None None None" "''c2''" 9 PV_ALLOW ex_mail_provider]
      ex_mail_admit [of 5 "''c1''" None] ex_mail_facts g by (simp add: open_entry_def)
qed

text \<open>A first call with an action: the provider is reached once.\<close>

lemma ex_mail_first:
  "\<exists>x w1. gateway_execute ex_gateway 5 (ex_mail_request ''c1'' act) ex_tool_world = (Inr (Fresh x), w1) \<and>
     tx_status x = TS_VALIDATION_ERROR \<and> map_option te_code (tx_error x) = Some ''OUTPUT_SCHEMA_VIOLATION'' \<and>
     tw_calls w1 = [(''p'', ex_mail_request ''c1'' act)]"
proof -
  let ?rq = "ex_mail_request ''c1'' act" and ?d = ex_mail_tool
  have w: "tw_invocations ex_tool_world = []" "tw_attempts ex_tool_world = []" "tw_idem ex_tool_world = []" "tw_calls ex_tool_world = []"
    by (simp_all add: ex_tool_world_def)
  have ci: "createInvocation (invocation_of 5 ?rq ?d PV_ALLOW) ex_tool_world =
      (None, ex_tool_world\<lparr>tw_invocations := [invocation_of 5 ?rq ?d PV_ALLOW]\<rparr>)" by (simp add: createInvocation_def w)
  obtain t where cl: "pg_claim 5 (toContext ?rq) (tool_scope ?rq ?d) (nullish (tq_idempotencyKey ?rq) []) [] = ((True, None), t)"
    by (simp add: pg_claim_def Let_def)
  let ?w = "ex_tool_world\<lparr>tw_invocations := [invocation_of 5 ?rq ?d PV_ALLOW], tw_idem := t\<rparr>"
  let ?x = "attempt_result 5 ?rq ?d (Suc 0) (Inr ex_mail_outcome)"
  have ca: "createAttempt (started_attempt 5 ?rq ?d (Suc 0)) ?w = (None, ?w\<lparr>tw_attempts := [started_attempt 5 ?rq ?d (Suc 0)]\<rparr>)"
    by (simp add: createAttempt_def w)
  obtain w2 where ta: "tool_attempt 5 ?rq ?d ex_mail_provider (Suc 0) ?w = (Inr (ex_mail_outcome, ?x), w2)"
    "tw_calls w2 = [(''p'', ?rq)]"
    using ca by (auto simp: tool_attempt_def Let_def outcome_of_def ex_mail_provider_def w ex_mail_tool_def)
  have st: "tx_status ?x = TS_SUCCESS" "tx_output ?x = Some (JBool True)"
    by (simp_all add: attempt_result_def outcome_of_def buildResult_def Let_def mapOutcomeStatus_def ex_mail_outcome_def)
  have m: "0 < maxAttempts ?d" by (simp add: maxAttempts_def)
  have rl: "retry_loop 5 ?rq ?d ex_mail_provider 0 None ?w = (Inr (Some ?x), w2)"
    by (subst retry_loop.simps) (simp add: m ta(1) st)
  obtain w3 where ex: "executeWithRetry 5 ?rq ?d ex_mail_provider ?w = (Inr ?x, w3)" "tw_calls w3 = [(''p'', ?rq)]"
    using rl ta(2) by (auto simp: executeWithRetry_def Let_def)
  have k: "tw_calls (persistClaimOutcome dp now ctx s key x u) = tw_calls u" for dp now ctx s key x u
    by (simp add: persistClaimOutcome_def Let_def)
  have o: "td_outputSchema ?d = Some (ToolSchema ST_String None None None None)" by (simp add: ex_mail_tool_def)
  have v: "validate (Some (JBool True)) (ToolSchema ST_String None None None None) \<noteq> []"
    using ex_mail_facts(4) by (simp add: validate_def validate_empty del: validateNode.simps)
  obtain y w4 where pf: "perform ex_gateway 5 ?rq ?d PV_ALLOW ex_mail_provider ?w = (Inr (Fresh y), w4)"
    "tx_status y = TS_VALIDATION_ERROR" "map_option te_code (tx_error y) = Some ''OUTPUT_SCHEMA_VIOLATION''" "tw_calls w4 = tw_calls w3"
    using v st by (auto simp: perform_def ex(1) o Let_def buildResult_def k)
  have "gateway_execute ex_gateway 5 ?rq ex_tool_world = perform ex_gateway 5 ?rq ?d PV_ALLOW ex_mail_provider ?w"
    using ex_mail_facts(2) [of "''c1''" act] ci cl w
    by (simp add: gateway_execute_def ex_mail_facts(1) ex_mail_admit keyed_def)
  then show ?thesis using pf ex(2) by auto
qed

theorem tool_side_effect_at_most_once_witness:
  "\<exists>w1. tw_calls w1 \<noteq> [] \<and> tw_calls (snd (gateway_execute ex_gateway 9 (ex_mail_request ''c2'' None) w1)) = tw_calls w1"
proof -
  obtain x w1 where f: "gateway_execute ex_gateway 5 (ex_mail_request ''c1'' None) ex_tool_world = (Inr (Fresh x), w1)"
    "tx_status x = TS_VALIDATION_ERROR" "map_option te_code (tx_error x) = Some ''OUTPUT_SCHEMA_VIOLATION''"
    "tw_calls w1 = [(''p'', ex_mail_request ''c1'' None)]" using ex_mail_first by blast
  have d: "tw_definitions w1 = [ex_mail_tool]" using gateway_definitions [of ex_gateway 5 "ex_mail_request ''c1'' None" ex_tool_world] f(1)
    by (simp add: ex_mail_facts)
  have "tw_calls (snd (gateway_execute ex_gateway 9 (ex_mail_request ''c2'' None) w1)) = tw_calls w1"
  proof (rule tool_side_effect_at_most_once [OF f(1), of ex_mail_tool PV_ALLOW ex_mail_provider w1 "[]"])
    show "tw_calls w1 \<noteq> tw_calls ex_tool_world" using f(4) by (simp add: ex_tool_world_def)
    show "\<not> refused_unsubmitted (Inr (Fresh x))" using f(3) by (auto simp: refused_unsubmitted_def)
    show "admit ex_gateway 9 (ex_mail_request ''c2'' None) (tw_definitions w1) = Inr (ex_mail_tool, PV_ALLOW, ex_mail_provider)"
      unfolding d by (rule ex_mail_admit)
    show "request_key ex_mail_tool (ex_mail_request ''c2'' None) = request_key ex_mail_tool (ex_mail_request ''c1'' None)"
      by (rule ex_mail_facts(3))
  qed (simp_all add: ex_mail_facts ex_mail_admit)
  then show ?thesis using f(4) by (intro exI [of _ w1]) simp
qed

theorem repeated_action_throws_witness:
  "\<exists>w1 index. gateway_execute ex_gateway 9 (ex_mail_request ''c2'' (Some ''send'')) w1 = (Inl (UniqueViolation index), w1)"
proof -
  obtain x w1 where f: "gateway_execute ex_gateway 5 (ex_mail_request ''c1'' (Some ''send'')) ex_tool_world = (Inr (Fresh x), w1)"
    using ex_mail_first by blast
  have d: "tw_definitions w1 = [ex_mail_tool]"
    using gateway_definitions [of ex_gateway 5 "ex_mail_request ''c1'' (Some ''send'')" ex_tool_world] f by (simp add: ex_mail_facts)
  have "\<exists>index. gateway_execute ex_gateway 9 (ex_mail_request ''c2'' (Some ''send'')) w1 = (Inl (UniqueViolation index), w1)"
    by (rule repeated_action_throws [OF f, of ex_mail_tool PV_ALLOW ex_mail_provider _ _ _ ex_mail_tool PV_ALLOW ex_mail_provider "''send''" "''k''"])
      (simp_all add: d ex_mail_facts(1) ex_mail_admit, simp_all add: ex_mail_request_def)
  then show ?thesis by blast
qed

end
