(* ===== verification/MissionRepository.thy ===== *)
theory MissionRepository
  imports Mission
begin

section \<open>The Postgres repository of missions\<close>

text \<open>
  \<open>packages/mission-orchestrator/src/infrastructure/postgres-mission-repository.ts\<close> on the five
  tables that migration \<open>014a\<close> creates: missions, plans, tasks, dependencies and execution states.
  A transaction is one atomic step, and a transaction that throws leaves the tables as they were.
  \<open>SELECT\<close> without \<open>ORDER BY\<close> is taken to return rows in insertion order. The ids are texts
  of UUIDs, so casts do not fail, and JSON columns give back what was written (\<open>NaN\<close> in a budget
  aside). The version of a plan is an \<open>INT\<close> column: another number makes the statement throw.
\<close>

record mission_row =
  mr_id :: string
  mr_tenant :: string
  mr_workspace :: "string option"
  mr_binding :: workspace_binding
  mr_owner :: string
  mr_name :: string
  mr_objective :: string
  mr_icp :: string
  mr_territory :: "string list"
  mr_channels :: "string list"
  mr_budget :: mission_budget
  mr_autonomy :: jsnum
  mr_constraints :: mission_constraints
  mr_criteria :: mission_success_criteria
  mr_deadline :: "int option"
  mr_status :: ms_status
  mr_planVersion :: int
  mr_outcomes :: mission_outcomes
  mr_version :: nat
  mr_createdAt :: int
  mr_updatedAt :: int

record plan_row =
  plr_mission :: string
  plr_version :: int
  plr_planId :: string
  plr_isCurrent :: bool
  plr_objectives :: "json list"
  plr_phases :: "json list"
  plr_gates :: "json list"
  plr_fallbacks :: "json list"

record task_row =
  tkr_mission :: string
  tkr_planVersion :: int
  tkr_taskId :: string
  tkr_agentId :: string
  tkr_agentVersion :: string
  tkr_taskType :: string
  tkr_capability :: "string option"
  tkr_input :: json
  tkr_gate :: "string option"
  tkr_deadline :: "int option"

record dep_row =
  dpr_mission :: string
  dpr_planVersion :: int
  dpr_taskId :: string
  dpr_dependsOn :: string

record state_row =
  ter_mission :: string
  ter_planVersion :: int
  ter_taskId :: string
  ter_status :: task_status
  ter_output :: json
  ter_startedAt :: "int option"
  ter_completedAt :: "int option"

record mission_db =
  db_missions :: "mission_row list"
  db_plans :: "plan_row list"
  db_tasks :: "task_row list"
  db_deps :: "dep_row list"
  db_states :: "state_row list"

text \<open>\<open>INSERT ... ON CONFLICT DO NOTHING\<close> and \<open>ON CONFLICT DO UPDATE\<close> on a unique key.\<close>

definition insert_new :: "('r \<Rightarrow> 'k) \<Rightarrow> 'r \<Rightarrow> 'r list \<Rightarrow> 'r list" where
  "insert_new key r rows = (if list_ex (\<lambda>x. key x = key r) rows then rows else rows @ [r])"

definition upsert_row :: "('r \<Rightarrow> 'k) \<Rightarrow> 'r \<Rightarrow> 'r list \<Rightarrow> 'r list" where
  "upsert_row key r rows =
     (if list_ex (\<lambda>x. key x = key r) rows then map (\<lambda>x. if key x = key r then r else x) rows else rows @ [r])"

definition plan_key :: "plan_row \<Rightarrow> string \<times> int" where
  "plan_key r = (plr_mission r, plr_version r)"

definition task_key :: "task_row \<Rightarrow> string \<times> int \<times> string" where
  "task_key r = (tkr_mission r, tkr_planVersion r, tkr_taskId r)"

definition dep_key :: "dep_row \<Rightarrow> string \<times> int \<times> string \<times> string" where
  "dep_key r = (dpr_mission r, dpr_planVersion r, dpr_taskId r, dpr_dependsOn r)"

definition state_key :: "state_row \<Rightarrow> string \<times> int \<times> string" where
  "state_key r = (ter_mission r, ter_planVersion r, ter_taskId r)"

subsection \<open>\<open>findById\<close>\<close>

definition bound_row :: "tenant_context \<Rightarrow> string \<Rightarrow> mission_row \<Rightarrow> bool" where
  "bound_row ctx i r \<longleftrightarrow> mr_tenant r = cx_tenantId ctx \<and> mr_workspace r = cx_workspaceId ctx
     \<and> mr_id r = i \<and> mr_binding r = WORKSPACE_BOUND"

definition system_actor :: "string \<Rightarrow> string \<Rightarrow> actor" where
  "system_actor i tenant = \<lparr>actorType = SystemActor, actorId = i, actorTenantId = tenant\<rparr>"

text \<open>\<open>s.output ? s.output : undefined\<close>\<close>

definition json_or_undefined :: "json \<Rightarrow> json option" where
  "json_or_undefined j = (if json_truthy j then Some j else None)"

definition load_task :: "mission_row \<Rightarrow> mission_plan \<Rightarrow> dep_row list \<Rightarrow> state_row list \<Rightarrow> task_row \<Rightarrow> mission_task" where
  "load_task r plan ds ss t =
     (let task = new_task \<lparr>tk_id = tkr_taskId t, tk_missionId = mr_id r, tk_planId = pl_planId plan,
            tk_agentId = tkr_agentId t, tk_agentVersion = tkr_agentVersion t, tk_taskType = tkr_taskType t,
            tk_requiredCapability = tkr_capability t, tk_input = tkr_input t,
            tk_dependsOn = map dpr_dependsOn (filter (\<lambda>d. dpr_taskId d = tkr_taskId t) ds),
            tk_deadline = tkr_deadline t, tk_approvalGateId = tkr_gate t, tk_idempotencyKey = tkr_taskId t,
            tk_correlationId = ''reconstituted'', tk_actor = system_actor ''mission-orchestrator'' (mr_tenant r)\<rparr>
      in case List.find (\<lambda>s. ter_taskId s = tkr_taskId t) (rev ss) of
           None \<Rightarrow> task
         | Some s \<Rightarrow> task\<lparr>tk_status := ter_status s, tk_output := json_or_undefined (ter_output s),
                           tk_startedAt := ter_startedAt s, tk_completedAt := ter_completedAt s\<rparr>)"

definition load_plan :: "string \<Rightarrow> int \<Rightarrow> plan_row list \<Rightarrow> mission_plan" where
  "load_plan missionId v rows =
     (case rows of
        [] \<Rightarrow> \<lparr>pl_planId = missionId @ ''-plan'', pl_version = Fin (of_int v), pl_objectives = [], pl_phases = [],
               pl_approvalGates = [], pl_fallbackBranches = []\<rparr>
      | p # _ \<Rightarrow> \<lparr>pl_planId = plr_planId p, pl_version = Fin (of_int v), pl_objectives = plr_objectives p,
               pl_phases = plr_phases p, pl_approvalGates = plr_gates p, pl_fallbackBranches = plr_fallbacks p\<rparr>)"

definition load_mission :: "string \<Rightarrow> mission_row \<Rightarrow> mission_db \<Rightarrow> mission" where
  "load_mission missionId row db =
     (let v = mr_planVersion row;
          plan = load_plan missionId v
            (filter (\<lambda>p. plr_mission p = missionId \<and> plr_version p = v \<and> plr_isCurrent p) (db_plans db));
          taskRows = filter (\<lambda>t. tkr_mission t = missionId \<and> tkr_planVersion t = v) (db_tasks db);
          depRows = filter (\<lambda>d. dpr_mission d = missionId \<and> dpr_planVersion d = v) (db_deps db);
          stateRows = filter (\<lambda>s. ter_mission s = missionId \<and> ter_planVersion s = v) (db_states db)
      in ms_reconstitute 0
           \<lparr>mi_id = mr_id row, mi_tenantId = mr_tenant row, mi_workspaceId = mr_workspace row,
            mi_workspaceBindingState = Some (mr_binding row), mi_name = mr_name row, mi_objective = mr_objective row,
            mi_icpId = mr_icp row, mi_territory = mr_territory row, mi_channels = mr_channels row,
            mi_budget = mr_budget row, mi_autonomyLevel = mr_autonomy row, mi_constraints = mr_constraints row,
            mi_successCriteria = mr_criteria row, mi_deadline = mr_deadline row, mi_ownerUserId = mr_owner row,
            mi_plan = plan, mi_status = Some (mr_status row),
            mi_tasks = Some (map (load_task row plan depRows stateRows) taskRows), mi_approvals = Some [],
            mi_outcomes = Some (mr_outcomes row), mi_createdAt = Some (mr_createdAt row),
            mi_updatedAt = Some (mr_updatedAt row)\<rparr> (mr_version row))"

definition mr_findById :: "tenant_context \<Rightarrow> string \<Rightarrow> mission_db \<Rightarrow> mission option" where
  "mr_findById ctx missionId db =
     (if \<not> truthy (cx_workspaceId ctx) then None
      else case List.find (bound_row ctx missionId) (db_missions db) of
          None \<Rightarrow> None
        | Some row \<Rightarrow> Some (load_mission missionId row db))"

subsection \<open>\<open>save\<close>\<close>

datatype save_error = SaveOwnership | SaveConflict | SaveDatabase

definition upsertTaskDefinition :: "string \<Rightarrow> int \<Rightarrow> mission_db \<Rightarrow> mission_task \<Rightarrow> mission_db" where
  "upsertTaskDefinition missionId v db t =
     db\<lparr>db_tasks := insert_new task_key
          \<lparr>tkr_mission = missionId, tkr_planVersion = v, tkr_taskId = tk_id t, tkr_agentId = tk_agentId t,
           tkr_agentVersion = tk_agentVersion t, tkr_taskType = tk_taskType t, tkr_capability = tk_requiredCapability t,
           tkr_input = tk_input t, tkr_gate = tk_approvalGateId t, tkr_deadline = tk_deadline t\<rparr> (db_tasks db),
        db_deps := foldl (\<lambda>rows dep. insert_new dep_key
          \<lparr>dpr_mission = missionId, dpr_planVersion = v, dpr_taskId = tk_id t, dpr_dependsOn = dep\<rparr> rows)
          (db_deps db) (tk_dependsOn t)\<rparr>"

definition upsertTaskExecutionState :: "string \<Rightarrow> int \<Rightarrow> mission_db \<Rightarrow> mission_task \<Rightarrow> mission_db" where
  "upsertTaskExecutionState missionId v db t =
     db\<lparr>db_states := upsert_row state_key
          \<lparr>ter_mission = missionId, ter_planVersion = v, ter_taskId = tk_id t, ter_status = tk_status t,
           ter_output = nullish (tk_output t) JNull, ter_startedAt = tk_startedAt t,
           ter_completedAt = tk_completedAt t\<rparr> (db_states db)\<rparr>"

text \<open>
  The row of the mission. The column \<open>autonomy_level\<close> is an \<open>INT\<close> and refuses a level that is not an
  integer of 32 bits; levels are taken to be integers here and every level is stored.
\<close>

definition insert_mission_row :: "tenant_context \<Rightarrow> int \<Rightarrow> int \<Rightarrow> mission \<Rightarrow> mission_db \<Rightarrow> mission_db option" where
  "insert_mission_row ctx now v m db =
     (if list_ex (\<lambda>r. mr_id r = aggId m) (db_missions db) then None
      else Some (db\<lparr>db_missions := db_missions db @
        [\<lparr>mr_id = aggId m, mr_tenant = cx_tenantId ctx, mr_workspace = cx_workspaceId ctx,
          mr_binding = ms_workspaceBindingState m, mr_owner = ms_ownerUserId m, mr_name = ms_name m,
          mr_objective = ms_objective m, mr_icp = ms_icpId m, mr_territory = ms_territory m,
          mr_channels = ms_channels m, mr_budget = ms_budget m, mr_autonomy = ms_autonomyLevel m,
          mr_constraints = ms_constraints m, mr_criteria = ms_successCriteria m, mr_deadline = ms_deadline m,
          mr_status = ms_status m, mr_planVersion = v, mr_outcomes = ms_outcomes m, mr_version = version m,
          mr_createdAt = now, mr_updatedAt = now\<rparr>]\<rparr>))"

definition same_mission :: "tenant_context \<Rightarrow> string \<Rightarrow> mission_row \<Rightarrow> bool" where
  "same_mission ctx i r \<longleftrightarrow> mr_tenant r = cx_tenantId ctx \<and> mr_workspace r = cx_workspaceId ctx \<and> mr_id r = i"

definition update_mission_row :: "tenant_context \<Rightarrow> int \<Rightarrow> int \<Rightarrow> nat \<Rightarrow> mission \<Rightarrow> mission_db \<Rightarrow> mission_db option" where
  "update_mission_row ctx now v expected m db =
     (let hit = (\<lambda>r. same_mission ctx (aggId m) r \<and> mr_version r = expected)
      in if \<not> list_ex hit (db_missions db) then None
         else Some (db\<lparr>db_missions := map (\<lambda>r. if hit r
           then r\<lparr>mr_owner := ms_ownerUserId m, mr_name := ms_name m, mr_objective := ms_objective m,
                  mr_icp := ms_icpId m, mr_territory := ms_territory m, mr_channels := ms_channels m,
                  mr_budget := ms_budget m, mr_autonomy := ms_autonomyLevel m, mr_constraints := ms_constraints m,
                  mr_criteria := ms_successCriteria m, mr_deadline := ms_deadline m, mr_status := ms_status m,
                  mr_planVersion := v, mr_outcomes := ms_outcomes m, mr_version := version m, mr_updatedAt := now\<rparr>
           else r) (db_missions db)\<rparr>))"

text \<open>The new current plan and the definitions of its tasks.\<close>

definition write_plan :: "int \<Rightarrow> mission \<Rightarrow> mission_db \<Rightarrow> mission_db" where
  "write_plan v m db =
     (let plans = map (\<lambda>p. if plr_mission p = aggId m then p\<lparr>plr_isCurrent := False\<rparr> else p) (db_plans db);
          db1 = db\<lparr>db_plans := insert_new plan_key
            \<lparr>plr_mission = aggId m, plr_version = v, plr_planId = pl_planId (ms_plan m), plr_isCurrent = True,
             plr_objectives = pl_objectives (ms_plan m), plr_phases = pl_phases (ms_plan m),
             plr_gates = pl_approvalGates (ms_plan m), plr_fallbacks = pl_fallbackBranches (ms_plan m)\<rparr> plans\<rparr>
      in foldl (upsertTaskDefinition (aggId m) v) db1 (ms_tasks m))"

text \<open>The integer that an \<open>INT\<close> column takes.\<close>

fun int_column :: "jsnum \<Rightarrow> int option" where
  "int_column (Fin q) =
     (if q = of_int \<lfloor>q\<rfloor> \<and> - (2 ^ 31) \<le> \<lfloor>q\<rfloor> \<and> \<lfloor>q\<rfloor> < 2 ^ 31 then Some \<lfloor>q\<rfloor> else None)"
| "int_column _ = None"

definition mr_save :: "tenant_context \<Rightarrow> int \<Rightarrow> mission \<Rightarrow> mission_db \<Rightarrow> save_error + (mission \<times> mission_db)" where
  "mr_save ctx now m db =
     (if \<not> truthy (cx_workspaceId ctx) \<or> ms_workspaceBindingState m \<noteq> WORKSPACE_BOUND
         \<or> ms_workspaceId m \<noteq> cx_workspaceId ctx \<or> tenantId m \<noteq> cx_tenantId ctx
      then Inl SaveOwnership
      else let existing = List.find (same_mission ctx (aggId m)) (db_missions db);
               dbVersion = map_option mr_version existing;
               expected = nullish_opt (loadedVersion m) dbVersion
           in case int_column (pl_version (ms_plan m)) of
                None \<Rightarrow> Inl SaveDatabase
              | Some v \<Rightarrow>
                  (case (case expected of
                           None \<Rightarrow> insert_mission_row ctx now v m db
                         | Some e \<Rightarrow> if dbVersion \<noteq> None \<and> dbVersion \<noteq> Some e then None
                                     else update_mission_row ctx now v e m db) of
                     None \<Rightarrow> Inl SaveConflict
                   | Some db1 \<Rightarrow>
                       let db2 = (if map_option mr_planVersion existing \<noteq> Some v then write_plan v m db1 else db1);
                           db3 = foldl (upsertTaskExecutionState (aggId m) v) db2 (ms_tasks m)
                       in Inr (setVersion (version m) m, db3)))"

subsection \<open>The tables under writes\<close>

lemma list_ex_key: "list_ex (\<lambda>x. key x = key r) rows \<longleftrightarrow> key r \<in> set (map key rows)"
  by (induction rows) auto

lemma map_key_insert_new: "map key (insert_new key r rows) = (if key r \<in> set (map key rows) then map key rows else map key rows @ [key r])"
  unfolding insert_new_def list_ex_key [of key r rows] by auto

lemma map_key_upsert_row: "map key (upsert_row key r rows) = (if key r \<in> set (map key rows) then map key rows else map key rows @ [key r])"
proof -
  have "map key (map (\<lambda>x. if key x = key r then r else x) rows) = map key rows" by (induction rows) auto
  then show ?thesis unfolding upsert_row_def list_ex_key [of key r rows] by auto
qed

lemma distinct_insert_new: "distinct (map key rows) \<Longrightarrow> distinct (map key (insert_new key r rows))"
  by (simp only: map_key_insert_new) auto

lemma distinct_upsert_row: "distinct (map key rows) \<Longrightarrow> distinct (map key (upsert_row key r rows))"
  by (simp only: map_key_upsert_row) auto

lemma upsert_row_in: "r \<in> set (upsert_row key r rows)"
  by (auto simp: upsert_row_def list_ex_iff)

lemma upsert_row_other: "x \<in> set rows \<Longrightarrow> key x \<noteq> key r \<Longrightarrow> x \<in> set (upsert_row key r rows)"
  by (auto simp: upsert_row_def)

lemma filter_insert_new:
  assumes "\<And>x. P x = Q (key x)" and "\<not> (\<exists>x \<in> set rows. key x = key r)"
  shows "filter P (insert_new key r rows) = filter P rows @ (if Q (key r) then [r] else [])"
  using assms by (auto simp: insert_new_def list_ex_iff)

lemma find_unique:
  assumes "x \<in> set xs" and "P x" and "\<And>y. y \<in> set xs \<Longrightarrow> P y \<Longrightarrow> y = x"
  shows "List.find P xs = Some x"
proof (cases "List.find P xs")
  case None
  then show ?thesis using assms(1,2) unfolding find_None_iff by blast
next
  case (Some y)
  then have "y = x" using assms(3) find_SomeD by metis
  then show ?thesis using Some by simp
qed

definition db_ok :: "mission_db \<Rightarrow> bool" where
  "db_ok db \<longleftrightarrow> distinct (map mr_id (db_missions db)) \<and> distinct (map plan_key (db_plans db))
     \<and> distinct (map task_key (db_tasks db)) \<and> distinct (map dep_key (db_deps db))
     \<and> distinct (map state_key (db_states db))
     \<and> list_all (\<lambda>r. int_column (Fin (of_int (mr_planVersion r))) = Some (mr_planVersion r)) (db_missions db)"

text \<open>What one task writes.\<close>

definition task_row_of :: "string \<Rightarrow> int \<Rightarrow> mission_task \<Rightarrow> task_row" where
  "task_row_of i v t = \<lparr>tkr_mission = i, tkr_planVersion = v, tkr_taskId = tk_id t, tkr_agentId = tk_agentId t,
     tkr_agentVersion = tk_agentVersion t, tkr_taskType = tk_taskType t, tkr_capability = tk_requiredCapability t,
     tkr_input = tk_input t, tkr_gate = tk_approvalGateId t, tkr_deadline = tk_deadline t\<rparr>"

definition dep_row_of :: "string \<Rightarrow> int \<Rightarrow> string \<Rightarrow> string \<Rightarrow> dep_row" where
  "dep_row_of i v t d = \<lparr>dpr_mission = i, dpr_planVersion = v, dpr_taskId = t, dpr_dependsOn = d\<rparr>"

definition state_row_of :: "string \<Rightarrow> int \<Rightarrow> mission_task \<Rightarrow> state_row" where
  "state_row_of i v t = \<lparr>ter_mission = i, ter_planVersion = v, ter_taskId = tk_id t, ter_status = tk_status t,
     ter_output = nullish (tk_output t) JNull, ter_startedAt = tk_startedAt t, ter_completedAt = tk_completedAt t\<rparr>"

lemma upsertTaskExecutionState_alt:
  "upsertTaskExecutionState i v db t = db\<lparr>db_states := upsert_row state_key (state_row_of i v t) (db_states db)\<rparr>"
  by (simp add: upsertTaskExecutionState_def state_row_of_def)

lemma foldl_states:
  "foldl (upsertTaskExecutionState i v) db ts =
     db\<lparr>db_states := foldl (\<lambda>rows t. upsert_row state_key (state_row_of i v t) rows) (db_states db) ts\<rparr>"
  by (induction ts arbitrary: db) (simp_all add: upsertTaskExecutionState_alt)

lemma foldl_upsert_distinct:
  "distinct (map key rows) \<Longrightarrow> distinct (map key (foldl (\<lambda>rows t. upsert_row key (f t) rows) rows ts))"
  by (induction ts arbitrary: rows) (simp_all add: distinct_upsert_row)

lemma foldl_upsert_keeps:
  "x \<in> set rows \<Longrightarrow> key x \<notin> key ` f ` set ts \<Longrightarrow> x \<in> set (foldl (\<lambda>rows t. upsert_row key (f t) rows) rows ts)"
  by (induction ts arbitrary: rows) (auto intro: upsert_row_other)

lemma foldl_upsert_in:
  "distinct (map (key \<circ> f) ts) \<Longrightarrow> t \<in> set ts \<Longrightarrow> f t \<in> set (foldl (\<lambda>rows t. upsert_row key (f t) rows) rows ts)"
proof (induction ts arbitrary: rows)
  case (Cons u us)
  show ?case
  proof (cases "t = u")
    case True
    then show ?thesis using Cons.prems(1)
      by (auto intro!: foldl_upsert_keeps upsert_row_in)
  qed (use Cons in auto)
qed simp

text \<open>The state that is read back for a task that was written.\<close>

lemma state_found:
  assumes "distinct (map state_key rows)" and "distinct (map tk_id ts)" and "t \<in> set ts"
  shows "List.find (\<lambda>s. ter_taskId s = tk_id t)
     (rev (filter (\<lambda>s. ter_mission s = i \<and> ter_planVersion s = v)
        (foldl (\<lambda>rows t. upsert_row state_key (state_row_of i v t) rows) rows ts))) = Some (state_row_of i v t)"
    (is "List.find _ (rev (filter _ ?rows)) = _")
proof (rule find_unique)
  have d: "distinct (map (state_key \<circ> state_row_of i v) ts)"
    using assms(2) by (auto simp: distinct_map inj_on_def state_key_def state_row_of_def)
  have i: "state_row_of i v t \<in> set ?rows" using foldl_upsert_in [OF d assms(3)] .
  then show "state_row_of i v t \<in> set (rev (filter (\<lambda>s. ter_mission s = i \<and> ter_planVersion s = v) ?rows))"
    by (simp add: state_row_of_def)
  show "ter_taskId (state_row_of i v t) = tk_id t" by (simp add: state_row_of_def)
  fix y
  assume y: "y \<in> set (rev (filter (\<lambda>s. ter_mission s = i \<and> ter_planVersion s = v) ?rows))" "ter_taskId y = tk_id t"
  then have "state_key y = state_key (state_row_of i v t)" by (simp add: state_key_def state_row_of_def)
  then show "y = state_row_of i v t"
    using y(1) i foldl_upsert_distinct [OF assms(1), of "state_row_of i v" ts] by (auto simp: distinct_map inj_on_def)
qed

lemma foldl_insert_new_fresh:
  "distinct (map (key \<circ> f) ts) \<Longrightarrow> (\<And>t. t \<in> set ts \<Longrightarrow> key (f t) \<notin> key ` set rows) \<Longrightarrow>
     foldl (\<lambda>rows t. insert_new key (f t) rows) rows ts = rows @ map f ts"
proof (induction ts arbitrary: rows)
  case (Cons u us)
  have "insert_new key (f u) rows = rows @ [f u]"
    using Cons.prems(2) [of u] unfolding insert_new_def list_ex_key [of key "f u" rows] by simp
  moreover have "foldl (\<lambda>rows t. insert_new key (f t) rows) (rows @ [f u]) us = (rows @ [f u]) @ map f us"
    by (rule Cons.IH) (use Cons.prems in \<open>auto simp: image_iff\<close>)
  ultimately show ?case by simp
qed simp

lemma foldl_insert_new_distinct:
  "distinct (map key rows) \<Longrightarrow> distinct (map key (foldl (\<lambda>rows t. insert_new key (f t) rows) rows ts))"
  by (induction ts arbitrary: rows) (simp_all add: distinct_insert_new)

definition dep_pairs :: "mission_task list \<Rightarrow> (string \<times> string) list" where
  "dep_pairs ts = concat (map (\<lambda>t. map (Pair (tk_id t)) (tk_dependsOn t)) ts)"

lemma upsertTaskDefinition_alt:
  "upsertTaskDefinition i v db t =
     db\<lparr>db_tasks := insert_new task_key (task_row_of i v t) (db_tasks db),
        db_deps := foldl (\<lambda>rows p. insert_new dep_key (dep_row_of i v (fst p) (snd p)) rows) (db_deps db)
          (map (Pair (tk_id t)) (tk_dependsOn t))\<rparr>"
proof -
  have "foldl (\<lambda>rows p. insert_new dep_key (dep_row_of i v (fst p) (snd p)) rows) rows (map (Pair (tk_id t)) ds) =
      foldl (\<lambda>rows dep. insert_new dep_key (dep_row_of i v (tk_id t) dep) rows) rows ds" for rows ds
    by (induction ds arbitrary: rows) simp_all
  then show ?thesis by (simp add: upsertTaskDefinition_def task_row_of_def dep_row_of_def)
qed

lemma foldl_definitions:
  "foldl (upsertTaskDefinition i v) db ts =
     db\<lparr>db_tasks := foldl (\<lambda>rows t. insert_new task_key (task_row_of i v t) rows) (db_tasks db) ts,
        db_deps := foldl (\<lambda>rows p. insert_new dep_key (dep_row_of i v (fst p) (snd p)) rows) (db_deps db) (dep_pairs ts)\<rparr>"
  by (induction ts arbitrary: db) (simp_all add: upsertTaskDefinition_alt dep_pairs_def)

definition deps_distinct :: "mission_task list \<Rightarrow> bool" where
  "deps_distinct ts \<longleftrightarrow> list_all (\<lambda>t. distinct (tk_dependsOn t)) ts"

lemma set_dep_pairs: "set (dep_pairs ts) = {(tk_id t, d) |t d. t \<in> set ts \<and> d \<in> set (tk_dependsOn t)}"
  by (auto simp: dep_pairs_def)

lemma distinct_dep_pairs: "distinct (map tk_id ts) \<Longrightarrow> deps_distinct ts \<Longrightarrow> distinct (dep_pairs ts)"
proof (induction ts)
  case (Cons t ts)
  have "set (map (Pair (tk_id t)) (tk_dependsOn t)) \<inter> set (dep_pairs ts) = {}"
    using Cons.prems(1) by (auto simp: set_dep_pairs)
  moreover have "distinct (map (Pair (tk_id t)) (tk_dependsOn t))"
    using Cons.prems(2) by (simp add: deps_distinct_def distinct_map inj_on_def)
  moreover have "distinct (dep_pairs ts)" using Cons by (simp add: deps_distinct_def)
  ultimately show ?case by (simp add: dep_pairs_def)
qed (simp add: dep_pairs_def)

lemma deps_of_pairs:
  assumes "distinct (map tk_id ts)" and "t \<in> set ts"
  shows "map snd (filter (\<lambda>p. fst p = tk_id t) (dep_pairs ts)) = tk_dependsOn t"
  using assms
proof (induction ts)
  case (Cons u us)
  have n: "filter (\<lambda>p. fst p = tk_id x) (dep_pairs us) = []" if "tk_id x \<notin> tk_id ` set us" for x
    using that by (force simp: filter_empty_conv set_dep_pairs)
  have s: "dep_pairs (u # us) = map (Pair (tk_id u)) (tk_dependsOn u) @ dep_pairs us" by (simp add: dep_pairs_def)
  have e: "filter (\<lambda>p. fst p = tk_id u) (map (Pair (tk_id u)) ds) = map (Pair (tk_id u)) ds" for ds
    by (induction ds) simp_all
  have m: "map snd (map (Pair (tk_id u)) ds) = ds" for ds by (induction ds) simp_all
  show ?case
  proof (cases "t = u")
    case True
    then show ?thesis using Cons.prems(1) n [of u] unfolding s by (simp only: filter_append e map_append m) simp
  next
    case False
    then have "t \<in> set us" "tk_id u \<noteq> tk_id t" using Cons.prems by auto
    moreover from this have "filter (\<lambda>p. fst p = tk_id t) (map (Pair (tk_id u)) ds) = []" for ds by (induction ds) simp_all
    ultimately show ?thesis using Cons.IH Cons.prems(1) unfolding s by simp
  qed
qed simp

text \<open>No rows of a plan version.\<close>

definition version_unused :: "string \<Rightarrow> int \<Rightarrow> mission_db \<Rightarrow> bool" where
  "version_unused i v db \<longleftrightarrow> \<not> list_ex (\<lambda>p. plr_mission p = i \<and> plr_version p = v) (db_plans db)
     \<and> \<not> list_ex (\<lambda>t. tkr_mission t = i \<and> tkr_planVersion t = v) (db_tasks db)
     \<and> \<not> list_ex (\<lambda>d. dpr_mission d = i \<and> dpr_planVersion d = v) (db_deps db)"

lemma write_plan_rows:
  assumes "version_unused (aggId m) v db" and "distinct (map tk_id (ms_tasks m))" and "deps_distinct (ms_tasks m)"
  shows "filter (\<lambda>t. tkr_mission t = aggId m \<and> tkr_planVersion t = v) (db_tasks (write_plan v m db)) =
      map (task_row_of (aggId m) v) (ms_tasks m)"
    and "filter (\<lambda>d. dpr_mission d = aggId m \<and> dpr_planVersion d = v) (db_deps (write_plan v m db)) =
      map (\<lambda>p. dep_row_of (aggId m) v (fst p) (snd p)) (dep_pairs (ms_tasks m))"
    and "\<exists>p. filter (\<lambda>p. plr_mission p = aggId m \<and> plr_version p = v \<and> plr_isCurrent p) (db_plans (write_plan v m db)) = [p]
      \<and> plr_planId p = pl_planId (ms_plan m) \<and> plr_objectives p = pl_objectives (ms_plan m)
      \<and> plr_phases p = pl_phases (ms_plan m) \<and> plr_gates p = pl_approvalGates (ms_plan m)
      \<and> plr_fallbacks p = pl_fallbackBranches (ms_plan m)"
proof -
  let ?i = "aggId m" and ?ts = "ms_tasks m"
  have "distinct (map (task_key \<circ> task_row_of ?i v) ?ts)"
    using assms(2) by (auto simp: distinct_map inj_on_def task_key_def task_row_of_def)
  then have t: "foldl (\<lambda>rows t. insert_new task_key (task_row_of ?i v t) rows) (db_tasks db) ?ts
      = db_tasks db @ map (task_row_of ?i v) ?ts"
    by (rule foldl_insert_new_fresh) (use assms(1) in \<open>auto simp: version_unused_def list_ex_iff task_key_def task_row_of_def\<close>)
  have "distinct (map (dep_key \<circ> (\<lambda>p. dep_row_of ?i v (fst p) (snd p))) (dep_pairs ?ts))"
    using distinct_dep_pairs [OF assms(2,3)] by (auto simp: distinct_map inj_on_def dep_key_def dep_row_of_def)
  then have d: "foldl (\<lambda>rows p. insert_new dep_key (dep_row_of ?i v (fst p) (snd p)) rows) (db_deps db) (dep_pairs ?ts)
      = db_deps db @ map (\<lambda>p. dep_row_of ?i v (fst p) (snd p)) (dep_pairs ?ts)"
    by (rule foldl_insert_new_fresh) (use assms(1) in \<open>auto simp: version_unused_def list_ex_iff dep_key_def dep_row_of_def\<close>)
  have tf: "filter (\<lambda>t. tkr_mission t = ?i \<and> tkr_planVersion t = v) (map (task_row_of ?i v) ts) = map (task_row_of ?i v) ts" for ts
    by (induction ts) (simp_all add: task_row_of_def)
  show "filter (\<lambda>t. tkr_mission t = ?i \<and> tkr_planVersion t = v) (db_tasks (write_plan v m db)) = map (task_row_of ?i v) ?ts"
    using assms(1) by (auto simp: write_plan_def Let_def foldl_definitions t tf version_unused_def list_ex_iff filter_empty_conv)
  have df: "filter (\<lambda>d. dpr_mission d = ?i \<and> dpr_planVersion d = v) (map (\<lambda>p. dep_row_of ?i v (fst p) (snd p)) ps) =
      map (\<lambda>p. dep_row_of ?i v (fst p) (snd p)) ps" for ps
    by (induction ps) (simp_all add: dep_row_of_def)
  show "filter (\<lambda>d. dpr_mission d = ?i \<and> dpr_planVersion d = v) (db_deps (write_plan v m db)) =
      map (\<lambda>p. dep_row_of ?i v (fst p) (snd p)) (dep_pairs ?ts)"
    using assms(1) by (auto simp: write_plan_def Let_def foldl_definitions d df version_unused_def list_ex_iff filter_empty_conv)
  show "\<exists>p. filter (\<lambda>p. plr_mission p = ?i \<and> plr_version p = v \<and> plr_isCurrent p) (db_plans (write_plan v m db)) = [p]
      \<and> plr_planId p = pl_planId (ms_plan m) \<and> plr_objectives p = pl_objectives (ms_plan m)
      \<and> plr_phases p = pl_phases (ms_plan m) \<and> plr_gates p = pl_approvalGates (ms_plan m)
      \<and> plr_fallbacks p = pl_fallbackBranches (ms_plan m)"
    using assms(1) by (auto simp: write_plan_def Let_def foldl_definitions version_unused_def list_ex_iff
        insert_new_def plan_key_def filter_empty_conv)
qed

subsection \<open>The mission row\<close>

definition row_of :: "tenant_context \<Rightarrow> int \<Rightarrow> int \<Rightarrow> int \<Rightarrow> mission \<Rightarrow> mission_row" where
  "row_of ctx created now v m =
     \<lparr>mr_id = aggId m, mr_tenant = cx_tenantId ctx, mr_workspace = cx_workspaceId ctx,
      mr_binding = WORKSPACE_BOUND, mr_owner = ms_ownerUserId m, mr_name = ms_name m,
      mr_objective = ms_objective m, mr_icp = ms_icpId m, mr_territory = ms_territory m,
      mr_channels = ms_channels m, mr_budget = ms_budget m, mr_autonomy = ms_autonomyLevel m,
      mr_constraints = ms_constraints m, mr_criteria = ms_successCriteria m, mr_deadline = ms_deadline m,
      mr_status = ms_status m, mr_planVersion = v, mr_outcomes = ms_outcomes m, mr_version = version m,
      mr_createdAt = created, mr_updatedAt = now\<rparr>"

text \<open>No row of the mission waits to be bound to a workspace.\<close>

definition no_legacy :: "string \<Rightarrow> mission_db \<Rightarrow> bool" where
  "no_legacy i db \<longleftrightarrow> list_all (\<lambda>r. mr_id r = i \<longrightarrow> mr_binding r = WORKSPACE_BOUND) (db_missions db)"

definition write_row :: "tenant_context \<Rightarrow> int \<Rightarrow> int \<Rightarrow> nat option \<Rightarrow> nat option \<Rightarrow> mission \<Rightarrow> mission_db \<Rightarrow> mission_db option" where
  "write_row ctx now v dbVersion expected m db =
     (case expected of
        None \<Rightarrow> insert_mission_row ctx now v m db
      | Some e \<Rightarrow> if dbVersion \<noteq> None \<and> dbVersion \<noteq> Some e then None else update_mission_row ctx now v e m db)"

lemma mission_of_id:
  "distinct (map mr_id rows) \<Longrightarrow> x \<in> set rows \<Longrightarrow> y \<in> set rows \<Longrightarrow> mr_id x = mr_id y \<Longrightarrow> x = y"
  by (auto simp: distinct_map inj_on_def)

lemma inserted_row:
  assumes "insert_mission_row ctx now v m db = Some db'" and "ms_workspaceBindingState m = WORKSPACE_BOUND"
    and "distinct (map mr_id (db_missions db))"
  shows "List.find (bound_row ctx (aggId m)) (db_missions db') = Some (row_of ctx now now v m)"
    and "db' = db\<lparr>db_missions := db_missions db'\<rparr>" and "distinct (map mr_id (db_missions db'))"
    and "no_legacy (aggId m) db'"
proof -
  have n: "r \<in> set (db_missions db) \<Longrightarrow> mr_id r \<noteq> aggId m" for r
    using assms(1) by (auto simp: insert_mission_row_def list_ex_iff split: if_splits)
  have d: "db' = db\<lparr>db_missions := db_missions db @ [row_of ctx now now v m]\<rparr>"
    using assms(1,2) by (simp add: insert_mission_row_def row_of_def split: if_splits)
  show "List.find (bound_row ctx (aggId m)) (db_missions db') = Some (row_of ctx now now v m)"
    unfolding d by (rule find_unique) (use n in \<open>auto simp: bound_row_def row_of_def\<close>)
  show "db' = db\<lparr>db_missions := db_missions db'\<rparr>" unfolding d by simp
  have "aggId m \<notin> mr_id ` set (db_missions db)" using n image_iff by metis
  then show "distinct (map mr_id (db_missions db'))" using assms(3) unfolding d by (simp add: row_of_def)
  show "no_legacy (aggId m) db'" using n unfolding d by (auto simp: no_legacy_def list_all_iff row_of_def)
qed

lemma updated_row:
  assumes "update_mission_row ctx now v e m db = Some db'" and "distinct (map mr_id (db_missions db))"
    and "no_legacy (aggId m) db"
  shows "\<exists>r. List.find (same_mission ctx (aggId m)) (db_missions db) = Some r \<and> mr_version r = e
      \<and> List.find (bound_row ctx (aggId m)) (db_missions db') = Some (row_of ctx (mr_createdAt r) now v m)"
    and "db' = db\<lparr>db_missions := db_missions db'\<rparr>" and "distinct (map mr_id (db_missions db'))"
    and "no_legacy (aggId m) db'"
proof -
  let ?hit = "\<lambda>r. same_mission ctx (aggId m) r \<and> mr_version r = e"
  let ?new = "\<lambda>r. r\<lparr>mr_owner := ms_ownerUserId m, mr_name := ms_name m, mr_objective := ms_objective m,
                  mr_icp := ms_icpId m, mr_territory := ms_territory m, mr_channels := ms_channels m,
                  mr_budget := ms_budget m, mr_autonomy := ms_autonomyLevel m, mr_constraints := ms_constraints m,
                  mr_criteria := ms_successCriteria m, mr_deadline := ms_deadline m, mr_status := ms_status m,
                  mr_planVersion := v, mr_outcomes := ms_outcomes m, mr_version := version m, mr_updatedAt := now\<rparr>"
  from assms(1) obtain r where r: "r \<in> set (db_missions db)" "?hit r"
    and d: "db' = db\<lparr>db_missions := map (\<lambda>r. if ?hit r then ?new r else r) (db_missions db)\<rparr>"
    by (auto simp: update_mission_row_def Let_def list_ex_iff split: if_splits)
  have ids: "map mr_id (map (\<lambda>r. if ?hit r then ?new r else r) rows) = map mr_id rows" for rows
    by (induction rows) auto
  have f: "List.find (same_mission ctx (aggId m)) (db_missions db) = Some r"
    by (rule find_unique) (use r mission_of_id [OF assms(2)] in \<open>auto simp: same_mission_def\<close>)
  have "mr_binding r = WORKSPACE_BOUND" using assms(3) r by (simp add: no_legacy_def list_all_iff same_mission_def)
  then have new: "?new r = row_of ctx (mr_createdAt r) now v m"
    using r(2) by (simp add: row_of_def same_mission_def)
  have rows: "db_missions db' = map (\<lambda>r. if ?hit r then ?new r else r) (db_missions db)" unfolding d by simp
  show di: "distinct (map mr_id (db_missions db'))" using assms(2) by (simp only: rows ids)
  have in': "row_of ctx (mr_createdAt r) now v m \<in> set (db_missions db')"
    using r new unfolding d by force
  have "List.find (bound_row ctx (aggId m)) (db_missions db') = Some (row_of ctx (mr_createdAt r) now v m)"
    by (rule find_unique [OF in']) (use mission_of_id [OF di _ in'] in \<open>auto simp: bound_row_def row_of_def\<close>)
  then show "\<exists>r. List.find (same_mission ctx (aggId m)) (db_missions db) = Some r \<and> mr_version r = e
      \<and> List.find (bound_row ctx (aggId m)) (db_missions db') = Some (row_of ctx (mr_createdAt r) now v m)"
    using f r(2) by blast
  show "db' = db\<lparr>db_missions := db_missions db'\<rparr>" unfolding d by simp
  show "no_legacy (aggId m) db'" using assms(3) unfolding d by (auto simp: no_legacy_def list_all_iff)
qed

lemma written_row:
  assumes "write_row ctx now v dbVersion expected m db = Some db'" and "ms_workspaceBindingState m = WORKSPACE_BOUND"
    and "distinct (map mr_id (db_missions db))" and "no_legacy (aggId m) db"
  shows "\<exists>c. List.find (bound_row ctx (aggId m)) (db_missions db') = Some (row_of ctx c now v m)"
    and "db' = db\<lparr>db_missions := db_missions db'\<rparr>" and "distinct (map mr_id (db_missions db'))"
    and "no_legacy (aggId m) db'"
proof -
  have c: "insert_mission_row ctx now v m db = Some db' \<or> (\<exists>e. update_mission_row ctx now v e m db = Some db')"
    using assms(1) by (auto simp: write_row_def split: option.splits if_splits)
  show "\<exists>c. List.find (bound_row ctx (aggId m)) (db_missions db') = Some (row_of ctx c now v m)"
    using c inserted_row(1) [OF _ assms(2,3)] updated_row(1) [OF _ assms(3,4)] by metis
  show "db' = db\<lparr>db_missions := db_missions db'\<rparr>"
    using c inserted_row(2) [OF _ assms(2,3)] updated_row(2) [OF _ assms(3,4)] by metis
  show "distinct (map mr_id (db_missions db'))"
    using c inserted_row(3) [OF _ assms(2,3)] updated_row(3) [OF _ assms(3,4)] by metis
  show "no_legacy (aggId m) db'"
    using c inserted_row(4) [OF _ assms(2,3)] updated_row(4) [OF _ assms(3,4)] by metis
qed

lemma mr_save_Inr:
  assumes "mr_save ctx now m db = Inr (m1, db1)"
  obtains v db' where "int_column (pl_version (ms_plan m)) = Some v"
    and "truthy (cx_workspaceId ctx)" and "ms_workspaceBindingState m = WORKSPACE_BOUND"
    and "ms_workspaceId m = cx_workspaceId ctx" and "tenantId m = cx_tenantId ctx"
    and "m1 = setVersion (version m) m"
    and "write_row ctx now v (map_option mr_version (List.find (same_mission ctx (aggId m)) (db_missions db)))
       (nullish_opt (loadedVersion m) (map_option mr_version (List.find (same_mission ctx (aggId m)) (db_missions db)))) m db
       = Some db'"
    and "db1 = foldl (upsertTaskExecutionState (aggId m) v)
       (if map_option mr_planVersion (List.find (same_mission ctx (aggId m)) (db_missions db)) \<noteq> Some v
        then write_plan v m db' else db') (ms_tasks m)"
  using assms unfolding mr_save_def Let_def write_row_def [symmetric]
  by (auto split: if_splits option.splits)

lemma int_column_Some: "int_column x = Some v \<Longrightarrow> x = Fin (of_int v)"
  by (cases x) (auto split: if_splits)

lemma missions_only:
  assumes "db' = db\<lparr>db_missions := rows\<rparr>"
  shows "db_plans db' = db_plans db" "db_tasks db' = db_tasks db" "db_deps db' = db_deps db" "db_states db' = db_states db"
    "version_unused i v db' = version_unused i v db"
  using assms by (simp_all add: version_unused_def)

subsection \<open>What is read back\<close>

definition stored_task :: "mission \<Rightarrow> mission_task \<Rightarrow> mission_task" where
  "stored_task m t = t\<lparr>tk_missionId := aggId m, tk_planId := pl_planId (ms_plan m), tk_idempotencyKey := tk_id t,
     tk_correlationId := ''reconstituted'', tk_actor := system_actor ''mission-orchestrator'' (tenantId m),
     tk_output := json_or_undefined (nullish (tk_output t) JNull)\<rparr>"

definition with_state :: "mission_task \<Rightarrow> mission_task \<Rightarrow> mission_task" where
  "with_state t0 t = t0\<lparr>tk_status := tk_status t, tk_output := json_or_undefined (nullish (tk_output t) JNull),
     tk_startedAt := tk_startedAt t, tk_completedAt := tk_completedAt t\<rparr>"

lemma with_state_simps [simp]:
  "tk_id (with_state t0 t) = tk_id t0" "tk_dependsOn (with_state t0 t) = tk_dependsOn t0"
  "tk_status (with_state t0 t) = tk_status t" "tk_agentId (with_state t0 t) = tk_agentId t0"
  by (simp_all add: with_state_def)

lemma load_task_frame [simp]:
  "tk_id (load_task r plan ds ss t) = tkr_taskId t"
  "tk_dependsOn (load_task r plan ds ss t) = map dpr_dependsOn (filter (\<lambda>d. dpr_taskId d = tkr_taskId t) ds)"
  by (simp_all add: load_task_def Let_def split: option.split)

lemma load_task_written:
  assumes "List.find (\<lambda>s. ter_taskId s = tkr_taskId t) (rev ss') = Some (state_row_of i v u)"
    and "mr_id r' = mr_id r" and "mr_tenant r' = mr_tenant r"
  shows "load_task r' plan ds ss' t = with_state (load_task r plan ds ss t) u"
  using assms by (simp add: load_task_def Let_def with_state_def state_row_of_def split: option.split)

lemma load_task_new:
  assumes "List.find (\<lambda>s. ter_taskId s = tk_id t) (rev ss) = Some (state_row_of i v t)"
    and "map dpr_dependsOn (filter (\<lambda>d. dpr_taskId d = tk_id t) ds) = tk_dependsOn t"
    and "mr_id r = aggId m" and "mr_tenant r = tenantId m" and "pl_planId plan = pl_planId (ms_plan m)"
  shows "load_task r plan ds ss (task_row_of i v t) = stored_task m t"
  using assms by (simp add: load_task_def Let_def stored_task_def state_row_of_def task_row_of_def
      new_task_def task_props.defs mission_task.defs)

text \<open>The plan version of the row that \<open>save\<close> finds.\<close>

definition current_plan :: "tenant_context \<Rightarrow> string \<Rightarrow> mission_db \<Rightarrow> int option" where
  "current_plan ctx i db = map_option mr_planVersion (List.find (same_mission ctx i) (db_missions db))"

lemma foldl_states_frame [simp]:
  "db_missions (foldl (upsertTaskExecutionState i v) db ts) = db_missions db"
  "db_plans (foldl (upsertTaskExecutionState i v) db ts) = db_plans db"
  "db_tasks (foldl (upsertTaskExecutionState i v) db ts) = db_tasks db"
  "db_deps (foldl (upsertTaskExecutionState i v) db ts) = db_deps db"
  "db_states (foldl (upsertTaskExecutionState i v) db ts) =
     foldl (\<lambda>rows t. upsert_row state_key (state_row_of i v t) rows) (db_states db) ts"
  by (simp_all add: foldl_states)

lemma write_plan_frame [simp]:
  "db_missions (write_plan v m db) = db_missions db" "db_states (write_plan v m db) = db_states db"
  by (simp_all add: write_plan_def Let_def foldl_definitions)

lemma load_mission_fields:
  "load_mission i (row_of ctx c now v m) db =
     (let plan = load_plan i v (filter (\<lambda>p. plr_mission p = i \<and> plr_version p = v \<and> plr_isCurrent p) (db_plans db))
      in \<lparr>tenantId = cx_tenantId ctx, aggId = aggId m, version = version m, loadedVersion = Some (version m), domainEvents = [],
       ms_workspaceId = cx_workspaceId ctx, ms_workspaceBindingState = WORKSPACE_BOUND, ms_name = ms_name m,
       ms_objective = ms_objective m, ms_icpId = ms_icpId m, ms_territory = ms_territory m, ms_channels = ms_channels m,
       ms_budget = ms_budget m, ms_autonomyLevel = ms_autonomyLevel m, ms_constraints = ms_constraints m,
       ms_successCriteria = ms_successCriteria m, ms_deadline = ms_deadline m, ms_ownerUserId = ms_ownerUserId m,
       ms_plan = plan, ms_createdAt = c, ms_updatedAt = now, ms_status = ms_status m,
       ms_tasks = map (load_task (row_of ctx c now v m) plan
          (filter (\<lambda>d. dpr_mission d = i \<and> dpr_planVersion d = v) (db_deps db))
          (filter (\<lambda>s. ter_mission s = i \<and> ter_planVersion s = v) (db_states db)))
          (filter (\<lambda>t. tkr_mission t = i \<and> tkr_planVersion t = v) (db_tasks db)),
       ms_approvals = [], ms_outcomes = ms_outcomes m\<rparr>)"
  by (simp add: load_mission_def row_of_def ms_reconstitute_def ms_construct_def setVersion_def clearDomainEvents_def Let_def)

text \<open>Saving a mission under a plan version that was not stored before.\<close>

lemma save_new_plan:
  assumes ok: "db_ok db" "no_legacy (aggId m) db" and fresh: "version_unused (aggId m) v db" "current_plan ctx (aggId m) db \<noteq> Some v"
    and v: "pl_version (ms_plan m) = Fin (of_int v)"
    and ts: "distinct (map tk_id (ms_tasks m))" "deps_distinct (ms_tasks m)"
    and save: "mr_save ctx now m db = Inr (m1, db1)"
  shows "\<exists>c. mr_findById ctx (aggId m) db1 = Some (m\<lparr>ms_tasks := map (stored_task m) (ms_tasks m), ms_approvals := [],
     ms_createdAt := c, ms_updatedAt := now, loadedVersion := Some (version m), domainEvents := []\<rparr>)"
proof -
  let ?i = "aggId m" and ?ts = "ms_tasks m"
  from save obtain v' db' where s: "int_column (pl_version (ms_plan m)) = Some v'" "truthy (cx_workspaceId ctx)"
      "ms_workspaceBindingState m = WORKSPACE_BOUND" "ms_workspaceId m = cx_workspaceId ctx" "tenantId m = cx_tenantId ctx"
    and w: "write_row ctx now v' (map_option mr_version (List.find (same_mission ctx ?i) (db_missions db)))
       (nullish_opt (loadedVersion m) (map_option mr_version (List.find (same_mission ctx ?i) (db_missions db)))) m db = Some db'"
    and d1: "db1 = foldl (upsertTaskExecutionState ?i v')
       (if map_option mr_planVersion (List.find (same_mission ctx ?i) (db_missions db)) \<noteq> Some v' then write_plan v' m db' else db') ?ts"
    by (rule mr_save_Inr)
  have v': "v' = v" using int_column_Some [OF s(1)] v by simp
  have d1: "db1 = foldl (upsertTaskExecutionState ?i v) (write_plan v m db') ?ts"
    using d1 v' fresh(2) by (simp add: current_plan_def)
  note row = written_row [OF w s(3) ok(1) [unfolded db_ok_def, THEN conjunct1] ok(2)]
  from row(1) obtain c where c: "List.find (bound_row ctx ?i) (db_missions db') = Some (row_of ctx c now v m)" using v' by blast
  have un: "version_unused ?i v db'" using fresh(1) missions_only(5) [OF row(2)] by simp
  note wp = write_plan_rows [OF un ts]
  from wp(3) obtain p where p: "filter (\<lambda>p. plr_mission p = ?i \<and> plr_version p = v \<and> plr_isCurrent p) (db_plans (write_plan v m db')) = [p]"
    "plr_planId p = pl_planId (ms_plan m)" "plr_objectives p = pl_objectives (ms_plan m)"
    "plr_phases p = pl_phases (ms_plan m)" "plr_gates p = pl_approvalGates (ms_plan m)"
    "plr_fallbacks p = pl_fallbackBranches (ms_plan m)" by blast
  have plan: "load_plan ?i v [p] = ms_plan m" using p(2-) v by (simp add: load_plan_def)
  have deps: "map dpr_dependsOn (filter (\<lambda>d. dpr_taskId d = tk_id t) (map (\<lambda>p. dep_row_of ?i v (fst p) (snd p)) (dep_pairs ?ts))) = tk_dependsOn t"
    if "t \<in> set ?ts" for t
  proof -
    have "map dpr_dependsOn (filter (\<lambda>d. dpr_taskId d = tk_id t) (map (\<lambda>p. dep_row_of ?i v (fst p) (snd p)) ps)) =
        map snd (filter (\<lambda>p. fst p = tk_id t) ps)" for ps by (induction ps) (auto simp: dep_row_of_def)
    then show ?thesis using deps_of_pairs [OF ts(1) that] by simp
  qed
  have ds: "distinct (map state_key (db_states (write_plan v m db')))"
    using ok(1) missions_only(4) [OF row(2)] by (simp add: db_ok_def)
  have tasks: "map (load_task (row_of ctx c now v m) (ms_plan m) (map (\<lambda>p. dep_row_of ?i v (fst p) (snd p)) (dep_pairs ?ts))
      (filter (\<lambda>s. ter_mission s = ?i \<and> ter_planVersion s = v) (db_states db1))) (map (task_row_of ?i v) ?ts) = map (stored_task m) ?ts"
    unfolding map_map comp_def d1 foldl_states_frame
    by (intro map_cong refl load_task_new state_found [OF ds ts(1)] deps) (simp_all add: row_of_def s(5))
  have "load_mission ?i (row_of ctx c now v m) db1 = m\<lparr>ms_tasks := map (stored_task m) ?ts, ms_approvals := [],
     ms_createdAt := c, ms_updatedAt := now, loadedVersion := Some (version m), domainEvents := []\<rparr>"
    using tasks s(3,4,5) unfolding load_mission_fields d1 Let_def foldl_states_frame wp(1,2) p(1) plan by simp
  moreover have "List.find (bound_row ctx ?i) (db_missions db1) = Some (row_of ctx c now v m)"
    using c unfolding d1 by simp
  ultimately show ?thesis using s(2) by (auto simp: mr_findById_def)
qed

lemma int_column_back: "int_column x = Some v \<Longrightarrow> int_column (Fin (of_int v)) = Some v"
  using int_column_Some by fastforce

lemma write_plan_ok:
  assumes "db_ok db"
  shows "db_ok (write_plan v m db)"
proof -
  have "map plan_key (map (\<lambda>p. if plr_mission p = aggId m then p\<lparr>plr_isCurrent := False\<rparr> else p) rows) = map plan_key rows" for rows
    by (induction rows) (auto simp: plan_key_def)
  then have "distinct (map plan_key (db_plans (write_plan v m db)))"
    using assms unfolding db_ok_def write_plan_def Let_def foldl_definitions
    by (simp del: map_map add: distinct_insert_new)
  then show ?thesis
    using assms unfolding db_ok_def write_plan_frame
    by (simp add: write_plan_def Let_def foldl_definitions foldl_insert_new_distinct)
qed

lemma mr_save_ok:
  assumes "mr_save ctx now m db = Inr (m1, db1)" and "db_ok db" and "no_legacy (aggId m) db"
  shows "db_ok db1 \<and> no_legacy (aggId m) db1"
proof -
  from assms(1) obtain v db' where v: "int_column (pl_version (ms_plan m)) = Some v" "ms_workspaceBindingState m = WORKSPACE_BOUND"
    and w: "write_row ctx now v (map_option mr_version (List.find (same_mission ctx (aggId m)) (db_missions db)))
       (nullish_opt (loadedVersion m) (map_option mr_version (List.find (same_mission ctx (aggId m)) (db_missions db)))) m db = Some db'"
    and d1: "db1 = foldl (upsertTaskExecutionState (aggId m) v)
       (if map_option mr_planVersion (List.find (same_mission ctx (aggId m)) (db_missions db)) \<noteq> Some v then write_plan v m db' else db') (ms_tasks m)"
    by (rule mr_save_Inr)
  note row = written_row [OF w v(2) assms(2) [unfolded db_ok_def, THEN conjunct1] assms(3)]
  have range: "list_all (\<lambda>r. int_column (Fin (of_int (mr_planVersion r))) = Some (mr_planVersion r)) (db_missions db')"
    using w assms(2) int_column_back [OF v(1)]
    by (auto simp: write_row_def insert_mission_row_def update_mission_row_def Let_def list_all_iff db_ok_def
        simp del: int_column.simps split: option.splits if_splits)
  have "db_ok db'" using assms(2) row(3) range missions_only [OF row(2)] unfolding db_ok_def by simp
  then have "db_ok (if c then write_plan v m db' else db')" for c by (simp add: write_plan_ok)
  then have "db_ok db1" unfolding d1 db_ok_def foldl_states_frame by (simp add: foldl_upsert_distinct)
  moreover have "no_legacy (aggId m) db1" using row(4) unfolding d1 no_legacy_def by simp
  ultimately show ?thesis ..
qed

lemma mr_findById_Some:
  assumes "mr_findById ctx i db = Some m"
  obtains row where "truthy (cx_workspaceId ctx)" and "List.find (bound_row ctx i) (db_missions db) = Some row"
    and "row \<in> set (db_missions db)" and "bound_row ctx i row" and "m = load_mission i row db"
  using assms find_SomeD unfolding mr_findById_def by (force split: if_splits option.splits)

lemma load_mission_simps [simp]:
  "version (load_mission i r db) = mr_version r" "loadedVersion (load_mission i r db) = Some (mr_version r)"
  "domainEvents (load_mission i r db) = []" "aggId (load_mission i r db) = mr_id r" "tenantId (load_mission i r db) = mr_tenant r"
  "ms_workspaceId (load_mission i r db) = mr_workspace r" "ms_workspaceBindingState (load_mission i r db) = mr_binding r"
  "ms_status (load_mission i r db) = mr_status r" "ms_createdAt (load_mission i r db) = mr_createdAt r"
  by (simp_all add: load_mission_def ms_reconstitute_def ms_construct_def setVersion_def clearDomainEvents_def Let_def)

lemma load_mission_plan:
  "ms_plan (load_mission i r db) = load_plan i (mr_planVersion r)
     (filter (\<lambda>p. plr_mission p = i \<and> plr_version p = mr_planVersion r \<and> plr_isCurrent p) (db_plans db))"
  "ms_tasks (load_mission i r db) = map (load_task r (ms_plan (load_mission i r db))
     (filter (\<lambda>d. dpr_mission d = i \<and> dpr_planVersion d = mr_planVersion r) (db_deps db))
     (filter (\<lambda>s. ter_mission s = i \<and> ter_planVersion s = mr_planVersion r) (db_states db)))
     (filter (\<lambda>t. tkr_mission t = i \<and> tkr_planVersion t = mr_planVersion r) (db_tasks db))"
  by (simp_all add: load_mission_def ms_reconstitute_def ms_construct_def setVersion_def clearDomainEvents_def Let_def)

lemma load_plan_version [simp]: "pl_version (load_plan i v ps) = Fin (of_int v)"
  by (simp add: load_plan_def split: list.split)

lemma tasks_distinct:
  assumes "db_ok db" and "mr_findById ctx i db = Some m"
  shows "distinct (map tk_id (ms_tasks m))"
proof -
  from assms(2) obtain row where m: "m = load_mission i row db" by (rule mr_findById_Some)
  have "distinct (map tkr_taskId (filter (\<lambda>t. tkr_mission t = i \<and> tkr_planVersion t = v) (db_tasks db)))" for v
    using assms(1) by (auto simp: db_ok_def distinct_map inj_on_def task_key_def)
  then show ?thesis unfolding m load_mission_plan(2) by (simp add: comp_def)
qed

text \<open>The same mission as \<open>m0\<close> as far as identity, plan version and task ids go: what a save compares.\<close>

definition same_plan :: "mission \<Rightarrow> mission \<Rightarrow> bool" where
  "same_plan m0 m \<longleftrightarrow> aggId m = aggId m0 \<and> tenantId m = tenantId m0 \<and> ms_workspaceId m = ms_workspaceId m0
     \<and> ms_workspaceBindingState m = ms_workspaceBindingState m0 \<and> loadedVersion m = loadedVersion m0
     \<and> pl_version (ms_plan m) = pl_version (ms_plan m0) \<and> map tk_id (ms_tasks m) = map tk_id (ms_tasks m0)"

lemma map_zip_ids:
  assumes "map f xs = map g ys" and "\<And>x y. x \<in> set xs \<Longrightarrow> y \<in> set ys \<Longrightarrow> f x = g y \<Longrightarrow> h x = k (h0 x) y"
  shows "map h xs = map (\<lambda>(x, y). k x y) (zip (map h0 xs) ys)"
  using assms
proof (induction xs arbitrary: ys)
  case (Cons x xs)
  then obtain y zs where "ys = y # zs" by (cases ys) auto
  then show ?case using Cons by simp
qed simp

lemma save_same_plan:
  assumes ok: "db_ok db" "no_legacy i db" and found: "mr_findById ctx i db = Some m0" and same: "same_plan m0 m"
  shows "\<exists>db1. mr_save ctx now m db = Inr (setVersion (version m) m, db1) \<and> db_ok db1 \<and> no_legacy i db1
    \<and> mr_findById ctx i db1 = Some (m\<lparr>ms_plan := ms_plan m0,
         ms_tasks := map (\<lambda>(t0, t). with_state t0 t) (zip (ms_tasks m0) (ms_tasks m)), ms_approvals := [],
         ms_createdAt := ms_createdAt m0, ms_updatedAt := now, loadedVersion := Some (version m), domainEvents := []\<rparr>)"
proof -
  from found obtain r where r: "truthy (cx_workspaceId ctx)" "r \<in> set (db_missions db)" "bound_row ctx i r"
    and m0: "m0 = load_mission i r db" by (rule mr_findById_Some)
  let ?v = "mr_planVersion r"
  have i: "aggId m = i" "tenantId m = cx_tenantId ctx" "ms_workspaceId m = cx_workspaceId ctx"
    "ms_workspaceBindingState m = WORKSPACE_BOUND" "loadedVersion m = Some (mr_version r)"
    "pl_version (ms_plan m) = Fin (of_int ?v)"
    using same r(3) unfolding same_plan_def m0 by (simp_all add: bound_row_def load_mission_plan)
  have dm: "distinct (map mr_id (db_missions db))" using ok(1) by (simp add: db_ok_def)
  have sm: "List.find (same_mission ctx i) (db_missions db) = Some r"
    by (rule find_unique [OF r(2)])
      (use r(3) mission_of_id [OF dm _ r(2)] in \<open>auto simp: bound_row_def same_mission_def\<close>)
  have ic: "int_column (pl_version (ms_plan m)) = Some ?v"
    using ok(1) r(2) i(6) by (auto simp: db_ok_def list_all_iff simp del: int_column.simps)
  have "list_ex (\<lambda>x. same_mission ctx i x \<and> mr_version x = mr_version r) (db_missions db)"
    using r(2,3) by (auto simp: list_ex_iff bound_row_def same_mission_def)
  then obtain db' where w: "update_mission_row ctx now ?v (mr_version r) m db = Some db'"
    using i(1) by (simp add: update_mission_row_def Let_def)
  define db1 where "db1 = foldl (upsertTaskExecutionState i ?v) db' (ms_tasks m)"
  have s: "mr_save ctx now m db = Inr (setVersion (version m) m, db1)"
    using r(1) i(1-5) w by (simp add: mr_save_def sm ic Let_def db1_def)
  note u = updated_row [OF w dm ok(2) [folded i(1)], unfolded i(1)]
  have c: "List.find (bound_row ctx i) (db_missions db') = Some (row_of ctx (mr_createdAt r) now ?v m)"
    using u(1) sm by auto
  note other = missions_only(1-4) [OF u(2)]
  have td: "distinct (map tk_id (ms_tasks m))" using tasks_distinct [OF ok(1) found] same by (simp add: same_plan_def)
  let ?T = "filter (\<lambda>t. tkr_mission t = i \<and> tkr_planVersion t = ?v) (db_tasks db)"
  let ?ds = "filter (\<lambda>d. dpr_mission d = i \<and> dpr_planVersion d = ?v) (db_deps db)"
  let ?ss = "\<lambda>db. filter (\<lambda>s. ter_mission s = i \<and> ter_planVersion s = ?v) (db_states db)"
  have ids: "map tkr_taskId ?T = map tk_id (ms_tasks m)"
    using same unfolding same_plan_def m0 load_mission_plan(2) by (simp add: comp_def)
  have "map (load_task (row_of ctx (mr_createdAt r) now ?v m) (ms_plan m0) ?ds (?ss db1)) ?T =
      map (\<lambda>(t0, t). with_state t0 t) (zip (map (load_task r (ms_plan m0) ?ds (?ss db)) ?T) (ms_tasks m))"
  proof (rule map_zip_ids [OF ids])
    fix t y assume t: "t \<in> set ?T" "y \<in> set (ms_tasks m)" "tkr_taskId t = tk_id y"
    have f: "List.find (\<lambda>s. ter_taskId s = tkr_taskId t) (rev (?ss db1)) = Some (state_row_of i ?v y)"
      using state_found [OF _ td t(2), of "db_states db'" i ?v] ok(1) other(4) t(3) unfolding db1_def db_ok_def by simp
    show "load_task (row_of ctx (mr_createdAt r) now ?v m) (ms_plan m0) ?ds (?ss db1) t =
        with_state (load_task r (ms_plan m0) ?ds (?ss db) t) y"
      by (rule load_task_written [OF f]) (use r(3) i(1) in \<open>simp_all add: row_of_def bound_row_def\<close>)
  qed
  then have tasks: "map (load_task (row_of ctx (mr_createdAt r) now ?v m) (ms_plan m0) ?ds (?ss db1)) ?T =
      map (\<lambda>(t0, t). with_state t0 t) (zip (ms_tasks m0) (ms_tasks m))" unfolding m0 load_mission_plan(2) by simp
  have plan: "load_plan i ?v (filter (\<lambda>p. plr_mission p = i \<and> plr_version p = ?v \<and> plr_isCurrent p) (db_plans db1)) = ms_plan m0"
    unfolding m0 load_mission_plan(1) db1_def using other(1) by simp
  have "load_mission i (row_of ctx (mr_createdAt r) now ?v m) db1 = m\<lparr>ms_plan := ms_plan m0,
         ms_tasks := map (\<lambda>(t0, t). with_state t0 t) (zip (ms_tasks m0) (ms_tasks m)), ms_approvals := [],
         ms_createdAt := ms_createdAt m0, ms_updatedAt := now, loadedVersion := Some (version m), domainEvents := []\<rparr>"
    using tasks i other unfolding load_mission_fields Let_def plan by (simp add: db1_def m0)
  moreover have "List.find (bound_row ctx i) (db_missions db1) = Some (row_of ctx (mr_createdAt r) now ?v m)"
    using c unfolding db1_def by simp
  ultimately have "mr_findById ctx i db1 = Some (m\<lparr>ms_plan := ms_plan m0,
         ms_tasks := map (\<lambda>(t0, t). with_state t0 t) (zip (ms_tasks m0) (ms_tasks m)), ms_approvals := [],
         ms_createdAt := ms_createdAt m0, ms_updatedAt := now, loadedVersion := Some (version m), domainEvents := []\<rparr>)"
    using r(1) by (simp add: mr_findById_def)
  then show ?thesis using s mr_save_ok [OF s ok(1)] ok(2) i(1) by blast
qed

lemma save_stale:
  assumes "mr_findById ctx i db = Some m0" and "db_ok db" and "aggId m = i" and "loadedVersion m = Some l" and "l \<noteq> version m0"
    and "ms_workspaceBindingState m = WORKSPACE_BOUND" and "ms_workspaceId m = cx_workspaceId ctx"
    and "tenantId m = cx_tenantId ctx" and "pl_version (ms_plan m) = pl_version (ms_plan m0)"
  shows "mr_save ctx now m db = Inl SaveConflict"
proof -
  from assms(1) obtain r where r: "truthy (cx_workspaceId ctx)" "r \<in> set (db_missions db)" "bound_row ctx i r"
    and m0: "m0 = load_mission i r db" by (rule mr_findById_Some)
  have dm: "distinct (map mr_id (db_missions db))" using assms(2) by (simp add: db_ok_def)
  have sm: "List.find (same_mission ctx i) (db_missions db) = Some r"
    by (rule find_unique [OF r(2)])
      (use r(3) mission_of_id [OF dm _ r(2)] in \<open>auto simp: bound_row_def same_mission_def\<close>)
  have "int_column (pl_version (ms_plan m)) = Some (mr_planVersion r)"
    using assms(2,9) r(2) by (auto simp: m0 load_mission_plan db_ok_def list_all_iff simp del: int_column.simps)
  then show ?thesis using r(1) sm assms(3-8) by (simp add: mr_save_def m0 Let_def)
qed

subsection \<open>Properties\<close>

text \<open>The sample mission with two tasks, never stored, and the tables before it.\<close>

definition stored_sample :: mission where
  "stored_sample = (ms_construct 0 sample_mission_props)
     \<lparr>ms_status := MS_EXECUTING, version := 3,
      ms_tasks := [new_task (sample_task_props ''a'' []), new_task (sample_task_props ''b'' [''a''])]\<rparr>"

definition no_rows :: mission_db where
  "no_rows = \<lparr>db_missions = [], db_plans = [], db_tasks = [], db_deps = [], db_states = []\<rparr>"

lemma stored_sample_simps:
  "aggId stored_sample = ''m''" "tenantId stored_sample = ''t''" "loadedVersion stored_sample = None"
  "version stored_sample = 3" "ms_status stored_sample = MS_EXECUTING" "ms_plan stored_sample = sample_plan (Fin 1)"
  "ms_workspaceId stored_sample = Some ''w''" "ms_workspaceBindingState stored_sample = WORKSPACE_BOUND"
  "ms_tasks stored_sample = [new_task (sample_task_props ''a'' []), new_task (sample_task_props ''b'' [''a''])]"
  by (simp_all add: stored_sample_def ms_construct_def sample_mission_props_def)

definition mission_ctx :: tenant_context where
  "mission_ctx = \<lparr>cx_tenantId = ''t'', cx_workspaceId = Some ''w'', cx_correlationId = ''x'', cx_userId = None,
     cx_agentId = None, cx_missionId = None\<rparr>"

lemma no_rows_ok: "db_ok no_rows" "no_legacy i no_rows" "version_unused i v no_rows" "current_plan ctx i no_rows \<noteq> Some v"
  by (simp_all add: db_ok_def no_rows_def no_legacy_def version_unused_def current_plan_def)

lemma sample_saved: "\<exists>db1. mr_save mission_ctx 9 stored_sample no_rows = Inr (setVersion 3 stored_sample, db1)"
  by (simp add: mr_save_def stored_sample_simps mission_ctx_def no_rows_def insert_mission_row_def sample_plan_def Let_def)



text \<open>
  The version check is skipped for a mission that was never loaded: when a new mission has the
  id of a stored one of the same workspace and plan version, \<open>save\<close> compares the stored version with
  itself and overwrites the stored mission, its status and its version included, instead of refusing.
\<close>

theorem unloaded_save_overwrites:
  assumes "db_ok db" and "no_legacy (aggId m) db" and "mr_findById ctx (aggId m) db = Some m0"
    and "loadedVersion m = None" and "ms_workspaceBindingState m = WORKSPACE_BOUND"
    and "ms_workspaceId m = cx_workspaceId ctx" and "tenantId m = cx_tenantId ctx"
    and "pl_version (ms_plan m) = pl_version (ms_plan m0)"
  shows "\<exists>db1 m2. mr_save ctx now m db = Inr (setVersion (version m) m, db1)
     \<and> mr_findById ctx (aggId m) db1 = Some m2 \<and> ms_status m2 = ms_status m \<and> version m2 = version m
     \<and> map tk_id (ms_tasks m2) = map tk_id (ms_tasks m0)"
proof -
  from assms(3) obtain r where r: "truthy (cx_workspaceId ctx)" "r \<in> set (db_missions db)" "bound_row ctx (aggId m) r"
    and m0: "m0 = load_mission (aggId m) r db" by (rule mr_findById_Some)
  have dm: "distinct (map mr_id (db_missions db))" using assms(1) by (simp add: db_ok_def)
  have sm: "List.find (same_mission ctx (aggId m)) (db_missions db) = Some r"
    by (rule find_unique [OF r(2)])
      (use r(3) mission_of_id [OF dm _ r(2)] in \<open>auto simp: bound_row_def same_mission_def\<close>)
  have ic: "int_column (pl_version (ms_plan m)) = Some (mr_planVersion r)"
    using assms(1,8) r(2) by (auto simp: m0 load_mission_plan db_ok_def list_all_iff simp del: int_column.simps)
  have "list_ex (\<lambda>x. same_mission ctx (aggId m) x \<and> mr_version x = mr_version r) (db_missions db)"
    using r(2,3) by (auto simp: list_ex_iff bound_row_def same_mission_def)
  then obtain db' where w: "update_mission_row ctx now (mr_planVersion r) (mr_version r) m db = Some db'"
    by (simp add: update_mission_row_def Let_def)
  define db1 where "db1 = foldl (upsertTaskExecutionState (aggId m) (mr_planVersion r)) db' (ms_tasks m)"
  have s: "mr_save ctx now m db = Inr (setVersion (version m) m, db1)"
    using r(1) assms(4-7) w by (simp add: mr_save_def sm ic Let_def db1_def)
  note u = updated_row [OF w dm assms(2)]
  have c: "List.find (bound_row ctx (aggId m)) (db_missions db1) =
      Some (row_of ctx (mr_createdAt r) now (mr_planVersion r) m)" using u(1) sm by (auto simp: db1_def)
  then have f: "mr_findById ctx (aggId m) db1 =
      Some (load_mission (aggId m) (row_of ctx (mr_createdAt r) now (mr_planVersion r) m) db1)"
    using r(1) by (simp add: mr_findById_def)
  have "map tk_id (ms_tasks (load_mission (aggId m) (row_of ctx (mr_createdAt r) now (mr_planVersion r) m) db1)) =
      map tk_id (ms_tasks m0)"
    unfolding m0 load_mission_plan(2) using missions_only(2) [OF u(2)] by (simp add: row_of_def db1_def comp_def)
  then show ?thesis using s f by (simp add: row_of_def)
qed

theorem unloaded_save_overwrites_witness:
  "\<exists>db db1 m2. mr_save mission_ctx 9 stored_sample no_rows = Inr (setVersion 3 stored_sample, db)
     \<and> mr_save mission_ctx 10 (stored_sample\<lparr>ms_status := MS_DRAFT, version := 1\<rparr>) db
        = Inr (setVersion 1 (stored_sample\<lparr>ms_status := MS_DRAFT, version := 1\<rparr>), db1)
     \<and> mr_findById mission_ctx ''m'' db1 = Some m2 \<and> ms_status m2 = MS_DRAFT \<and> version m2 = 1"
proof -
  let ?m = "stored_sample\<lparr>ms_status := MS_DRAFT, version := 1\<rparr>"
  obtain db where s: "mr_save mission_ctx 9 stored_sample no_rows = Inr (setVersion 3 stored_sample, db)"
    using sample_saved by blast
  have ok: "db_ok db \<and> no_legacy ''m'' db"
    using mr_save_ok [OF s no_rows_ok(1,2)] by (simp add: stored_sample_simps)
  obtain c where f: "mr_findById mission_ctx (aggId stored_sample) db = Some (stored_sample\<lparr>
       ms_tasks := map (stored_task stored_sample) (ms_tasks stored_sample), ms_approvals := [], ms_createdAt := c,
       ms_updatedAt := 9, loadedVersion := Some (version stored_sample), domainEvents := []\<rparr>)"
    using save_new_plan [where v = 1, OF no_rows_ok(1,2,3,4) _ _ _ s]
    by (auto simp: stored_sample_simps sample_plan_def sample_task_props_def deps_distinct_def)
  have "\<exists>db1 m2. mr_save mission_ctx 10 ?m db = Inr (setVersion (version ?m) ?m, db1)
     \<and> mr_findById mission_ctx (aggId ?m) db1 = Some m2 \<and> ms_status m2 = ms_status ?m \<and> version m2 = version ?m
     \<and> map tk_id (ms_tasks m2) = map tk_id (ms_tasks (stored_sample\<lparr>
       ms_tasks := map (stored_task stored_sample) (ms_tasks stored_sample), ms_approvals := [], ms_createdAt := c,
       ms_updatedAt := 9, loadedVersion := Some (version stored_sample), domainEvents := []\<rparr>))"
    by (rule unloaded_save_overwrites) (use ok f in \<open>simp_all add: stored_sample_simps mission_ctx_def\<close>)
  then show ?thesis using s by (auto simp: stored_sample_simps)
qed

end
