(* ===== verification/MissionPlanning.thy ===== *)
theory MissionPlanning
  imports Mission
begin

section \<open>Plan contracts and the two planners\<close>

text \<open>
  \<open>packages/shared/src/contracts/task-contract.ts\<close> and \<open>mission-contract.ts\<close>;
  \<open>workflow/mission-mapper.ts\<close> of \<open>packages/mission-orchestrator\<close>; and the planners
  \<open>planning/outreach-mission-planner.ts\<close> of that package and \<open>planner/mission-planner.ts\<close> of
  \<open>packages/ai-runtime\<close>. Of an agent contract the model has the fields that are read. The text
  that a value has as JSON (\<open>unknown\<close> fields that hold a whole mission) is an argument \<open>encode\<close>.
\<close>

record task_contract =
  tc_taskId :: string
  tc_missionId :: string
  tc_planId :: string
  tc_agentId :: string
  tc_agentVersion :: string
  tc_taskType :: string
  tc_requiredCapability :: "string option"
  tc_status :: task_status
  tc_input :: json
  tc_output :: "json option"
  tc_dependsOn :: "string list"
  tc_deadline :: "int option"
  tc_approvalGateId :: "string option"

record plan_phase =
  ph_phaseId :: string
  ph_name :: string
  ph_tasks :: "task_contract list"
  ph_approvalGate :: "json option"
  ph_fallback :: "json option"

record plan_contract =
  pc_planId :: string
  pc_missionId :: string
  pc_version :: jsnum
  pc_objectives :: "json list"
  pc_phases :: "plan_phase list"
  pc_approvalGates :: "json list"
  pc_fallbackBranches :: "json list"

text \<open>The plan inside a mission contract keeps the untyped phases of the aggregate.\<close>

record mission_contract =
  mk_missionId :: string
  mk_tenantId :: string
  mk_name :: string
  mk_objective :: string
  mk_icpId :: string
  mk_territory :: "string list"
  mk_channels :: "string list"
  mk_budget :: mission_budget
  mk_autonomyLevel :: jsnum
  mk_constraints :: mission_constraints
  mk_successCriteria :: mission_success_criteria
  mk_deadline :: "int option"
  mk_ownerUserId :: string
  mk_status :: ms_status
  mk_plan :: mission_plan
  mk_planMissionId :: string
  mk_tasks :: "task_contract list"
  mk_approvals :: "json list"
  mk_outcomes :: mission_outcomes
  mk_createdAt :: int
  mk_updatedAt :: int

record agent_contract =
  ac_agentId :: string
  ac_version :: string
  ac_capabilities :: "string list"

record planning_request =
  pq_mission :: mission_contract
  pq_availableAgents :: "agent_contract list"
  pq_correlationId :: string
  pq_idempotencyKey :: "string option"

subsection \<open>The mapper\<close>

definition mapMissionTaskToContract :: "mission_task \<Rightarrow> task_contract" where
  "mapMissionTaskToContract t =
     \<lparr>tc_taskId = tk_id t, tc_missionId = tk_missionId t, tc_planId = tk_planId t, tc_agentId = tk_agentId t,
      tc_agentVersion = tk_agentVersion t, tc_taskType = tk_taskType t, tc_requiredCapability = tk_requiredCapability t,
      tc_status = tk_status t, tc_input = tk_input t, tc_output = tk_output t, tc_dependsOn = tk_dependsOn t,
      tc_deadline = tk_deadline t, tc_approvalGateId = tk_approvalGateId t\<rparr>"

definition mapMissionToContract :: "mission \<Rightarrow> mission_contract" where
  "mapMissionToContract m =
     \<lparr>mk_missionId = aggId m, mk_tenantId = tenantId m, mk_name = ms_name m, mk_objective = ms_objective m,
      mk_icpId = ms_icpId m, mk_territory = ms_territory m, mk_channels = ms_channels m, mk_budget = ms_budget m,
      mk_autonomyLevel = ms_autonomyLevel m, mk_constraints = ms_constraints m,
      mk_successCriteria = ms_successCriteria m, mk_deadline = ms_deadline m, mk_ownerUserId = ms_ownerUserId m,
      mk_status = ms_status m, mk_plan = ms_plan m, mk_planMissionId = aggId m,
      mk_tasks = map mapMissionTaskToContract (ms_tasks m), mk_approvals = [], mk_outcomes = ms_outcomes m,
      mk_createdAt = ms_createdAt m, mk_updatedAt = ms_updatedAt m\<rparr>"

definition flattenTasks :: "plan_contract \<Rightarrow> task_contract list" where
  "flattenTasks plan = concat (map ph_tasks (pc_phases plan))"

datatype planner_error =
    PlannerTenantMismatch | NoPhaseTemplates | MissingCapabilities "string list" | NoAgentFor string
  | NotAnOutreachMission | NoOutreachAgent

subsection \<open>\<open>OutreachMissionPlanner\<close>\<close>

definition OUTREACH_CHANNELS :: "string set" where
  "OUTREACH_CHANNELS = {''email'', ''linkedin'', ''calendar''}"

definition OUTREACH_OBJECTIVE_PREFIXES :: "string list" where
  "OUTREACH_OBJECTIVE_PREFIXES = [''outreach'', ''sequence'', ''campaign'', ''prospect'']"

definition isOutreachMission :: "mission_contract \<Rightarrow> bool" where
  "isOutreachMission m \<longleftrightarrow>
     list_ex (\<lambda>c. js_lower c \<in> OUTREACH_CHANNELS) (mk_channels m)
     \<or> list_ex (\<lambda>p. js_startsWith (js_lower (mk_objective m)) p) OUTREACH_OBJECTIVE_PREFIXES"

definition buildTask ::
    "mission_contract \<Rightarrow> agent_contract \<Rightarrow> string \<Rightarrow> string \<Rightarrow> string list \<Rightarrow> json \<Rightarrow> string option \<Rightarrow> task_contract" where
  "buildTask m agent taskType taskId dependsOn input gate =
     \<lparr>tc_taskId = taskId, tc_missionId = mk_missionId m, tc_planId = ''plan-'' @ mk_missionId m,
      tc_agentId = ac_agentId agent, tc_agentVersion = ac_version agent, tc_taskType = taskType,
      tc_requiredCapability = None, tc_status = TK_PENDING, tc_input = input, tc_output = None,
      tc_dependsOn = dependsOn, tc_deadline = mk_deadline m, tc_approvalGateId = gate\<rparr>"

definition outreach_gate :: json where
  "outreach_gate = JObj [(''gateId'', JStr ''outreach-approval''), (''actionType'', JStr ''OUTREACH_EMAIL_SEND''),
     (''approverRole'', JStr ''mission-owner'')]"

definition outreach_plan ::
    "(mission_contract \<Rightarrow> json) \<Rightarrow> tenant_context \<Rightarrow> planning_request \<Rightarrow> planner_error + plan_contract" where
  "outreach_plan encode ctx request =
     (let m = pq_mission request
      in if \<not> isOutreachMission m then Inl NotAnOutreachMission
         else case List.find (\<lambda>a. ''plan-outreach'' \<in> set (ac_capabilities a)) (pq_availableAgents request) of
             None \<Rightarrow> Inl NoOutreachAgent
           | Some agent \<Rightarrow>
               let planId = ''plan-'' @ mk_missionId m;
                   phase = (\<lambda>i n t g. \<lparr>ph_phaseId = planId @ i, ph_name = n, ph_tasks = [t],
                     ph_approvalGate = g, ph_fallback = None\<rparr>)
               in Inr \<lparr>pc_planId = planId, pc_missionId = mk_missionId m, pc_version = Fin 1,
                    pc_objectives = [JObj [(''objectiveId'', JStr ''outreach-execution''),
                      (''description'', JStr ''Execute tenant-isolated outreach sequence with approval gates'')]],
                    pc_phases =
                      [phase ''-planning'' ''Outreach Planning''
                         (buildTask m agent ''plan-outreach'' (planId @ ''-plan'') []
                            (JObj [(''mission'', encode m), (''leadId'', JStr (mk_icpId m)), (''evidenceIds'', JArr [])]) None) None,
                       phase ''-personalization'' ''Message Personalization''
                         (buildTask m agent ''draft-message'' (planId @ ''-draft'') [planId @ ''-plan'']
                            (JObj [(''stepInput'', JStr ''plan-output'')]) None) None,
                       phase ''-execution'' ''Execution''
                         (buildTask m agent ''execute-send'' (planId @ ''-send'') [planId @ ''-draft'']
                            (JObj [(''stepInput'', JStr ''draft-output'')]) (Some ''outreach-approval'')) (Some outreach_gate),
                       phase ''-advance'' ''Sequence Advancement''
                         (buildTask m agent ''advance-sequence'' (planId @ ''-advance'') [planId @ ''-send'']
                            (JObj [(''stepInput'', JStr ''send-output'')]) None) None],
                    pc_approvalGates = [outreach_gate], pc_fallbackBranches = []\<rparr>)"

subsection \<open>\<open>MissionPlanner\<close>\<close>

record phase_template =
  pt_phaseId :: string
  pt_name :: string
  pt_capability :: string
  pt_requiredWhen :: "mission_contract \<Rightarrow> bool"
  pt_dependencies :: "string list"
  pt_taskType :: string

definition selectAgent :: "agent_contract list \<Rightarrow> string \<Rightarrow> agent_contract option" where
  "selectAgent agents capability = List.find (\<lambda>a. capability \<in> set (ac_capabilities a)) agents"

definition template_task :: "mission_contract \<Rightarrow> agent_contract \<Rightarrow> phase_template \<Rightarrow> task_contract" where
  "template_task m agent t =
     \<lparr>tc_taskId = mk_missionId m @ ''-'' @ pt_phaseId t @ ''-task'', tc_missionId = mk_missionId m,
      tc_planId = mk_missionId m @ ''-plan'', tc_agentId = ac_agentId agent, tc_agentVersion = ac_version agent,
      tc_taskType = pt_taskType t, tc_requiredCapability = None, tc_status = TK_PENDING,
      tc_input = JObj [(''objective'', JStr (mk_objective m)), (''channel'', JStr (pt_phaseId t))], tc_output = None,
      tc_dependsOn = map (\<lambda>d. mk_missionId m @ ''-'' @ d @ ''-task'') (pt_dependencies t),
      tc_deadline = None, tc_approvalGateId = None\<rparr>"

fun template_phases ::
    "mission_contract \<Rightarrow> agent_contract list \<Rightarrow> phase_template list \<Rightarrow> planner_error + plan_phase list" where
  "template_phases m agents [] = Inr []"
| "template_phases m agents (t # ts) =
     (case selectAgent agents (pt_capability t) of
        None \<Rightarrow> Inl (NoAgentFor (pt_capability t))
      | Some agent \<Rightarrow>
          (case template_phases m agents ts of
             Inl err \<Rightarrow> Inl err
           | Inr phases \<Rightarrow> Inr (\<lparr>ph_phaseId = mk_missionId m @ ''-'' @ pt_phaseId t, ph_name = pt_name t,
               ph_tasks = [template_task m agent t], ph_approvalGate = None, ph_fallback = None\<rparr> # phases)))"

text \<open>\<open>[...new Set(xs)]\<close>\<close>

definition js_unique :: "'a list \<Rightarrow> 'a list" where
  "js_unique xs = rev (remdups (rev xs))"

definition planner_plan ::
    "phase_template list \<Rightarrow> tenant_context \<Rightarrow> planning_request \<Rightarrow> planner_error + plan_contract" where
  "planner_plan templates ctx request =
     (let m = pq_mission request; agents = pq_availableAgents request
      in if mk_tenantId m \<noteq> cx_tenantId ctx then Inl PlannerTenantMismatch
         else let selected = filter (\<lambda>t. pt_requiredWhen t m) templates;
                  available = concat (map ac_capabilities agents);
                  missing = filter (\<lambda>c. c \<notin> set available) (map pt_capability selected)
              in if selected = [] then Inl NoPhaseTemplates
                 else if missing \<noteq> [] then Inl (MissingCapabilities (js_unique missing))
                 else case template_phases m agents selected of
                     Inl err \<Rightarrow> Inl err
                   | Inr phases \<Rightarrow> Inr \<lparr>pc_planId = mk_missionId m @ ''-plan'', pc_missionId = mk_missionId m,
                       pc_version = Fin 1, pc_objectives = [JStr (mk_objective m)], pc_phases = phases,
                       pc_approvalGates = [], pc_fallbackBranches = []\<rparr>)"

end
