(* ===== verification/MissionEngine.thy ===== *)
theory MissionEngine
  imports MissionRepository MissionPlanning Approval
begin

section \<open>The mission execution engine\<close>

text \<open>
  \<open>packages/mission-orchestrator/src/workflow/mission-execution-engine.ts\<close>: planning, the loop
  over the tasks, what the result of an agent does to the mission, and the save that reloads and
  applies a change again when another writer was faster. The repository, the agent executor, the
  planner, the agent registry, the workspace resolver and the compensation port are functions of
  \<open>engine_deps\<close>; publishing an event is taken to succeed. \<open>ed_meanwhile\<close> is what other processes
  store while an agent works. The clock and the identifiers of one call are a \<open>tick\<close>.
\<close>

datatype exec_status =
    XS_PENDING | XS_RUNNING | XS_AWAITING_APPROVAL | XS_PAUSED | XS_COMPLETED | XS_FAILED | XS_CANCELLED
  | XS_TIMED_OUT | XS_REQUIRES_RECONCILIATION

record exec_request =
  xq_executionId :: string
  xq_tenantId :: string
  xq_missionId :: string
  xq_agentId :: string
  xq_agentVersion :: string
  xq_taskId :: string
  xq_taskType :: string
  xq_correlationId :: string
  xq_mission :: mission_contract
  xq_target :: json
  xq_workspaceId :: string
  xq_capabilities :: "string list"
  xq_autonomyLevel :: jsnum
  xq_maxTokens :: nat
  xq_maxCostUsd :: jsnum
  xq_maxDurationSeconds :: jsnum
  xq_deadline :: "int option"
  xq_idempotencyKey :: string

record exec_outcome =
  eo_summary :: string
  eo_decisions :: "json list"
  eo_actions :: "json list"
  eo_evidence :: "json list"

text \<open>Of a result the engine reads these fields.\<close>

record exec_result =
  er_executionId :: string
  er_status :: exec_status
  er_outcome :: exec_outcome

record compensation =
  cn_compensationId :: string
  cn_missionId :: string
  cn_taskId :: string
  cn_actionType :: string

record tick =
  ti_corr :: string
  ti_ev :: string
  ti_now :: int
  ti_execution :: string
  ti_approval :: string

datatype engine_exn =
    MissionNotFound string | MissionCrossTenant | NotInPlanning | CannotAddTask string ms_op_error
  | CannotMarkPlanValid ms_op_error | CannotReplanTerminal | CannotReplan ms_op_error
  | CannotStartTask ms_op_error | CannotCompleteTask ms_op_error | CannotFailTask ms_op_error
  | CannotBlock ms_op_error | CannotAwaitApproval ms_op_error | CannotPause ms_op_error
  | CannotCompleteMission ms_op_error | CannotFailMission ms_op_error
  | MissingAgent string | UnsupportedCapability string string | PlannerThrew planner_error
  | AgentThrew | WorkspaceUnresolved | ApprovalThrew ap_service_error | CompensationThrew
  | SaveThrew save_error

record 'db engine_deps =
  ed_find :: "tenant_context \<Rightarrow> string \<Rightarrow> 'db \<Rightarrow> mission option"
  ed_save :: "tenant_context \<Rightarrow> int \<Rightarrow> mission \<Rightarrow> 'db \<Rightarrow> save_error + (mission \<times> 'db)"
  ed_execute :: "exec_request list \<Rightarrow> exec_request \<Rightarrow> exec_result option"
  ed_meanwhile :: "exec_request \<Rightarrow> 'db \<Rightarrow> 'db"
  ed_planner :: "tenant_context \<Rightarrow> planning_request \<Rightarrow> planner_error + plan_contract"
  ed_getAgent :: "tenant_context \<Rightarrow> string \<Rightarrow> string option \<Rightarrow> agent_contract option"
  ed_workspace :: "tenant_context \<Rightarrow> string \<Rightarrow> 'db \<Rightarrow> string option"
  ed_compensate :: "compensation \<Rightarrow> bool"
  ed_key :: "string \<Rightarrow> string"
  ed_encodePhase :: "plan_phase \<Rightarrow> json"
  ed_taskTimeoutSeconds :: jsnum

record 'db engine_world =
  ew_db :: 'db
  ew_calls :: "exec_request list"
  ew_published :: "ms_payload domain_event list"
  ew_approvals :: approval_world
  ew_compensations :: "compensation list"

type_synonym ('db, 'a) engine_call = "(engine_exn + 'a) \<times> 'db engine_world"

fun eng_bind :: "('db, 'a) engine_call \<Rightarrow> ('a \<Rightarrow> 'db engine_world \<Rightarrow> ('db, 'b) engine_call) \<Rightarrow> ('db, 'b) engine_call" where
  "eng_bind (Inl x, w) f = (Inl x, w)"
| "eng_bind (Inr a, w) f = f a w"

text \<open>
  A change of the mission object in memory: what it threw, and the object after it (an exception
  between two operations leaves the first one done).
\<close>

type_synonym change = "mission \<Rightarrow> engine_exn option \<times> mission"

definition or_throw :: "(mission \<Rightarrow> ('a, ms_op_error) result \<times> mission) \<Rightarrow> (ms_op_error \<Rightarrow> engine_exn) \<Rightarrow> change" where
  "or_throw f err m = (case f m of (Ok _, m') \<Rightarrow> (None, m') | (Fail e, m') \<Rightarrow> (Some (err e), m'))"

definition and_then :: "change \<Rightarrow> change \<Rightarrow> change" where
  "and_then c1 c2 m = (case c1 m of (None, m') \<Rightarrow> c2 m' | (Some x, m') \<Rightarrow> (Some x, m'))"

subsection \<open>Loading and saving\<close>

definition loadMission :: "'db engine_deps \<Rightarrow> tenant_context \<Rightarrow> string \<Rightarrow> 'db \<Rightarrow> engine_exn + mission" where
  "loadMission dp ctx i db =
     (case ed_find dp ctx i db of
        None \<Rightarrow> Inl (MissionNotFound i)
      | Some m \<Rightarrow> if ensureSameTenant ctx (tenantId m) \<noteq> None then Inl MissionCrossTenant else Inr m)"

text \<open>The attempts that are left: \<open>attempt < 2\<close> says that one more is.\<close>

fun save_attempts ::
    "'db engine_deps \<Rightarrow> tick \<Rightarrow> tenant_context \<Rightarrow> change \<Rightarrow> nat \<Rightarrow> mission \<Rightarrow> 'db engine_world \<Rightarrow> ('db, mission) engine_call" where
  "save_attempts dp k ctx reapply 0 current w = (Inr current, w)"
| "save_attempts dp k ctx reapply (Suc n) current w =
     (case ed_save dp ctx (ti_now k) current (ew_db w) of
        Inr (m1, db1) \<Rightarrow>
          (Inr (clearDomainEvents m1), w\<lparr>ew_db := db1, ew_published := ew_published w @ domainEvents m1\<rparr>)
      | Inl err \<Rightarrow>
          if err = SaveConflict \<and> 0 < n
          then (case loadMission dp ctx (aggId current) (ew_db w) of
                  Inl x \<Rightarrow> (Inl x, w)
                | Inr latest \<Rightarrow>
                    (case reapply latest of
                       (Some _, latest') \<Rightarrow> (Inr latest', w)
                     | (None, latest') \<Rightarrow> save_attempts dp k ctx reapply n latest' w))
          else (Inl (SaveThrew err), w))"

definition saveAndPublish ::
    "'db engine_deps \<Rightarrow> tick \<Rightarrow> tenant_context \<Rightarrow> mission \<Rightarrow> change \<Rightarrow> 'db engine_world \<Rightarrow> ('db, mission) engine_call" where
  "saveAndPublish dp k ctx m reapply w = save_attempts dp k ctx reapply 3 m w"

subsection \<open>Planning\<close>

definition loadAvailableAgents :: "'db engine_deps \<Rightarrow> tenant_context \<Rightarrow> agent_contract list" where
  "loadAvailableAgents dp ctx =
     concat (map (\<lambda>i. case ed_getAgent dp ctx i None of None \<Rightarrow> [] | Some a \<Rightarrow> [a]) [''agent-1'', ''outreach-orchestrator''])"

definition buildPlan :: "'db engine_deps \<Rightarrow> tick \<Rightarrow> tenant_context \<Rightarrow> mission \<Rightarrow> engine_exn + plan_contract" where
  "buildPlan dp k ctx m =
     (case ed_planner dp ctx \<lparr>pq_mission = mapMissionToContract m, pq_availableAgents = loadAvailableAgents dp ctx,
             pq_correlationId = ti_corr k, pq_idempotencyKey = Some (ed_key dp (''plan:'' @ aggId m))\<rparr> of
        Inl err \<Rightarrow> Inl (PlannerThrew err)
      | Inr plan \<Rightarrow> Inr plan)"

definition validateCapability :: "'db engine_deps \<Rightarrow> tenant_context \<Rightarrow> task_contract \<Rightarrow> engine_exn option" where
  "validateCapability dp ctx t =
     (case ed_getAgent dp ctx (tc_agentId t) (Some (tc_agentVersion t)) of
        None \<Rightarrow> Some (MissingAgent (tc_taskId t))
      | Some a \<Rightarrow>
          if truthy (tc_requiredCapability t) \<and> nullish (tc_requiredCapability t) [] \<notin> set (ac_capabilities a)
          then Some (UnsupportedCapability (ac_agentId a) (nullish (tc_requiredCapability t) []))
          else None)"

definition mapTaskContractToProps ::
    "'db engine_deps \<Rightarrow> string \<Rightarrow> mission \<Rightarrow> task_contract \<Rightarrow> string \<Rightarrow> task_props" where
  "mapTaskContractToProps dp corr m t planId =
     \<lparr>tk_id = tc_taskId t, tk_missionId = aggId m, tk_planId = tc_planId t, tk_agentId = tc_agentId t,
      tk_agentVersion = tc_agentVersion t, tk_taskType = tc_taskType t,
      tk_requiredCapability = tc_requiredCapability t, tk_input = tc_input t, tk_dependsOn = tc_dependsOn t,
      tk_deadline = tc_deadline t, tk_approvalGateId = tc_approvalGateId t,
      tk_idempotencyKey = ed_key dp (''task:'' @ tc_taskId t @ '':'' @ planId), tk_correlationId = corr,
      tk_actor = system_actor ''mission-planner'' (tenantId m)\<rparr>"

fun add_tasks :: "'db engine_deps \<Rightarrow> tick \<Rightarrow> tenant_context \<Rightarrow> string \<Rightarrow> task_contract list \<Rightarrow> change" where
  "add_tasks dp k ctx planId [] m = (None, m)"
| "add_tasks dp k ctx planId (t # ts) m =
     (case validateCapability dp ctx t of
        Some x \<Rightarrow> (Some x, m)
      | None \<Rightarrow>
          and_then (or_throw (\<lambda>m. ms_addTask (mapTaskContractToProps dp (ti_corr k) m t planId) (ti_corr k) (ti_ev k) (ti_now k) m)
              (CannotAddTask (tc_taskId t)))
            (add_tasks dp k ctx planId ts) m)"

text \<open>\<open>plan as unknown as MissionPlan\<close>\<close>

definition as_mission_plan :: "'db engine_deps \<Rightarrow> plan_contract \<Rightarrow> mission_plan" where
  "as_mission_plan dp plan = \<lparr>pl_planId = pc_planId plan, pl_version = pc_version plan, pl_objectives = pc_objectives plan,
     pl_phases = map (ed_encodePhase dp) (pc_phases plan), pl_approvalGates = pc_approvalGates plan,
     pl_fallbackBranches = pc_fallbackBranches plan\<rparr>"

definition apply_plan :: "'db engine_deps \<Rightarrow> tick \<Rightarrow> tenant_context \<Rightarrow> plan_contract \<Rightarrow> change" where
  "apply_plan dp k ctx plan =
     and_then (add_tasks dp k ctx (pc_planId plan) (flattenTasks plan))
       (\<lambda>m. or_throw (ms_planValid (ti_corr k) (ti_ev k) (ti_now k)) CannotMarkPlanValid (m\<lparr>ms_plan := as_mission_plan dp plan\<rparr>))"

text \<open>Run a change on a mission in memory, and save it with the same change as what is applied again.\<close>

definition change_and_save ::
    "'db engine_deps \<Rightarrow> tick \<Rightarrow> tenant_context \<Rightarrow> change \<Rightarrow> mission \<Rightarrow> 'db engine_world \<Rightarrow> ('db, mission) engine_call" where
  "change_and_save dp k ctx c m w =
     (case c m of
        (Some x, _) \<Rightarrow> (Inl x, w)
      | (None, m') \<Rightarrow> saveAndPublish dp k ctx m' c w)"

definition planMission :: "'db engine_deps \<Rightarrow> tick \<Rightarrow> tenant_context \<Rightarrow> string \<Rightarrow> 'db engine_world \<Rightarrow> ('db, unit) engine_call" where
  "planMission dp k ctx i w =
     (case loadMission dp ctx i (ew_db w) of
        Inl x \<Rightarrow> (Inl x, w)
      | Inr m \<Rightarrow>
          if ms_status m \<noteq> MS_PLANNING then (Inl NotInPlanning, w)
          else case buildPlan dp k ctx m of
              Inl x \<Rightarrow> (Inl x, w)
            | Inr plan \<Rightarrow> eng_bind (change_and_save dp k ctx (apply_plan dp k ctx plan) m w) (\<lambda>_ w. (Inr (), w)))"

fun plan_props :: "'db engine_deps \<Rightarrow> tick \<Rightarrow> tenant_context \<Rightarrow> mission \<Rightarrow> string \<Rightarrow> task_contract list \<Rightarrow> engine_exn + task_props list" where
  "plan_props dp k ctx m planId [] = Inr []"
| "plan_props dp k ctx m planId (t # ts) =
     (case validateCapability dp ctx t of
        Some x \<Rightarrow> Inl x
      | None \<Rightarrow> (case plan_props dp k ctx m planId ts of
            Inl x \<Rightarrow> Inl x
          | Inr ps \<Rightarrow> Inr (mapTaskContractToProps dp (ti_corr k) m t planId # ps)))"

definition replanMission ::
    "'db engine_deps \<Rightarrow> tick \<Rightarrow> tenant_context \<Rightarrow> string \<Rightarrow> plan_contract option \<Rightarrow> 'db engine_world \<Rightarrow> ('db, unit) engine_call" where
  "replanMission dp k ctx i newPlan w =
     (case loadMission dp ctx i (ew_db w) of
        Inl x \<Rightarrow> (Inl x, w)
      | Inr m \<Rightarrow>
          if ms_isTerminal m then (Inl CannotReplanTerminal, w)
          else case (case newPlan of Some p \<Rightarrow> Inr p | None \<Rightarrow> buildPlan dp k ctx m) of
              Inl x \<Rightarrow> (Inl x, w)
            | Inr plan \<Rightarrow>
                (case plan_props dp k ctx m (pc_planId plan) (flattenTasks plan) of
                   Inl x \<Rightarrow> (Inl x, w)
                 | Inr props \<Rightarrow>
                     eng_bind (change_and_save dp k ctx
                         (or_throw (ms_replan (as_mission_plan dp plan) props (ti_corr k) (ti_ev k) (ti_now k)) CannotReplan) m w)
                       (\<lambda>_ w. (Inr (), w))))"

subsection \<open>Running a task\<close>

definition selectNextTask :: "mission \<Rightarrow> mission_task option" where
  "selectNextTask m =
     (let completedIds = map tk_id (filter (\<lambda>t. tk_status t = TK_COMPLETED) (ms_tasks m))
      in List.find (\<lambda>t. tk_status t = TK_PENDING \<and> list_all (\<lambda>d. d \<in> set completedIds) (tk_dependsOn t)) (ms_tasks m))"

definition pausedResult :: "tick \<Rightarrow> exec_result" where
  "pausedResult k = \<lparr>er_executionId = ti_execution k, er_status = XS_PAUSED,
     er_outcome = \<lparr>eo_summary = ''Mission is no longer executing; aborting task execution'',
       eo_decisions = [], eo_actions = [], eo_evidence = []\<rparr>\<rparr>"

text \<open>The check that \<open>runTask\<close> makes before the start and after the save.\<close>

definition no_longer_executing :: "mission \<Rightarrow> string \<Rightarrow> bool" where
  "no_longer_executing m taskId \<longleftrightarrow> ms_status m \<noteq> MS_EXECUTING \<and>
     (case findTask taskId m of None \<Rightarrow> True | Some t \<Rightarrow> tk_status t \<noteq> TK_RUNNING)"

definition buildExecutionRequest ::
    "'db engine_deps \<Rightarrow> tick \<Rightarrow> tenant_context \<Rightarrow> mission \<Rightarrow> mission_task \<Rightarrow> string \<Rightarrow> exec_request" where
  "buildExecutionRequest dp k ctx m t workspaceId =
     \<lparr>xq_executionId = ti_execution k, xq_tenantId = cx_tenantId ctx, xq_missionId = aggId m,
      xq_agentId = tk_agentId t, xq_agentVersion = tk_agentVersion t, xq_taskId = tk_id t, xq_taskType = tk_taskType t,
      xq_correlationId = cx_correlationId ctx, xq_mission = mapMissionToContract m, xq_target = tk_input t,
      xq_workspaceId = workspaceId,
      xq_capabilities = (if truthy (tk_requiredCapability t) then [nullish (tk_requiredCapability t) []] else [''research'']),
      xq_autonomyLevel = ms_autonomyLevel m, xq_maxTokens = 10000, xq_maxCostUsd = mb_maxAiCostUsd (ms_budget m),
      xq_maxDurationSeconds = ed_taskTimeoutSeconds dp, xq_deadline = nullish_opt (tk_deadline t) (ms_deadline m),
      xq_idempotencyKey = ed_key dp (''exec:'' @ ti_execution k)\<rparr>"

definition start_change :: "tick \<Rightarrow> string \<Rightarrow> change" where
  "start_change k taskId = or_throw (startTask taskId (ti_corr k) (ti_ev k) (ti_now k)) CannotStartTask"

definition runTask ::
    "'db engine_deps \<Rightarrow> tick \<Rightarrow> tenant_context \<Rightarrow> mission \<Rightarrow> mission_task \<Rightarrow> 'db engine_world \<Rightarrow> ('db, exec_result) engine_call" where
  "runTask dp k ctx m t w =
     (if no_longer_executing m (tk_id t) then (Inr (pausedResult k), w)
      else eng_bind (change_and_save dp k ctx (start_change k (tk_id t)) m w) (\<lambda>m1 w1.
        if no_longer_executing m1 (tk_id t) then (Inr (pausedResult k), w1)
        else case ed_workspace dp ctx (aggId m1) (ew_db w1) of
            None \<Rightarrow> (Inl WorkspaceUnresolved, w1)
          | Some ws \<Rightarrow>
              let rq = buildExecutionRequest dp k ctx m1 t ws;
                  w2 = w1\<lparr>ew_calls := ew_calls w1 @ [rq], ew_db := ed_meanwhile dp rq (ew_db w1)\<rparr>
              in case ed_execute dp (ew_calls w1) rq of
                   None \<Rightarrow> (Inl AgentThrew, w2)
                 | Some r \<Rightarrow> (Inr r, w2)))"

subsection \<open>What a result does\<close>

definition outcome_json :: "exec_outcome \<Rightarrow> json" where
  "outcome_json x = JObj [(''summary'', JStr (eo_summary x)), (''decisions'', JArr (eo_decisions x)),
     (''actions'', JArr (eo_actions x)), (''evidence'', JArr (eo_evidence x))]"

definition complete_change :: "tick \<Rightarrow> string \<Rightarrow> exec_result \<Rightarrow> change" where
  "complete_change k i r =
     or_throw (completeTask i (Some (outcome_json (er_outcome r))) (ti_corr k) (ti_ev k) (ti_now k)) CannotCompleteTask"

definition await_change :: "tick \<Rightarrow> string \<Rightarrow> change" where
  "await_change k i = or_throw (markTaskAwaitingApproval i (''approval:'' @ i) (ti_corr k) (ti_ev k) (ti_now k)) CannotAwaitApproval"

definition pause_change :: "tick \<Rightarrow> string \<Rightarrow> change" where
  "pause_change k i = or_throw (ms_pause (''Awaiting approval for task '' @ i) (ti_corr k) (ti_ev k) (ti_now k)) CannotPause"

definition fail_change :: "tick \<Rightarrow> string \<Rightarrow> exec_result \<Rightarrow> change" where
  "fail_change k i r = or_throw (failTask i (eo_summary (er_outcome r)) (ti_corr k) (ti_ev k) (ti_now k)) CannotFailTask"

definition block_change :: "tick \<Rightarrow> string \<Rightarrow> exec_result \<Rightarrow> change" where
  "block_change k i r m =
     (if ms_status m = MS_EXECUTING
      then or_throw (ms_block (''Task '' @ i @ '' failed: '' @ eo_summary (er_outcome r)) (ti_corr k) (ti_ev k) (ti_now k)) CannotBlock m
      else (None, m))"

definition failing :: "exec_status \<Rightarrow> bool" where
  "failing s \<longleftrightarrow> s = XS_FAILED \<or> s = XS_TIMED_OUT \<or> s = XS_CANCELLED"

text \<open>The change that is applied again after a conflict.\<close>

definition result_change :: "tick \<Rightarrow> string \<Rightarrow> exec_result \<Rightarrow> change" where
  "result_change k i r =
     (if er_status r = XS_COMPLETED then complete_change k i r
      else if er_status r = XS_AWAITING_APPROVAL then and_then (await_change k i) (pause_change k i)
      else if failing (er_status r) then and_then (fail_change k i r) (block_change k i r)
      else (\<lambda>m. (None, m)))"

definition approval_input :: "'db engine_deps \<Rightarrow> mission \<Rightarrow> mission_task \<Rightarrow> exec_result \<Rightarrow> approval_data" where
  "approval_input dp m t r =
     \<lparr>ad_missionId = aggId m, ad_sequenceId = None, ad_taskId = Some (tk_id t), ad_executionId = Some (er_executionId r),
      ad_actionType = tk_taskType t, ad_riskCategory = ''MEDIUM'', ad_proposedAction = JArr (eo_actions (er_outcome r)),
      ad_evidence = eo_evidence (er_outcome r), ad_reasoning = eo_summary (er_outcome r), ad_confidence = Fin (9 / 10),
      ad_requestedBy = tk_agentId t, ad_approverRole = ''mission-owner'', ad_timeoutSeconds = ed_taskTimeoutSeconds dp,
      ad_idempotencyKey = ed_key dp (''approval:'' @ tk_id t)\<rparr>"

text \<open>The private \<open>requestApproval\<close> of the engine: mark the task, ask for the approval, pause the mission.\<close>

definition engine_requestApproval ::
    "'db engine_deps \<Rightarrow> tick \<Rightarrow> tenant_context \<Rightarrow> mission \<Rightarrow> mission_task \<Rightarrow> exec_result \<Rightarrow> 'db engine_world \<Rightarrow> ('db, mission) engine_call" where
  "engine_requestApproval dp k ctx m t r w =
     (case await_change k (tk_id t) m of
        (Some x, _) \<Rightarrow> (Inl x, w)
      | (None, m1) \<Rightarrow>
          (case requestApproval (\<lambda>c i. ed_find dp c i (ew_db w)) (ti_now k) (ti_approval k) (ti_ev k) ctx
                  (approval_input dp m1 t r) (ew_approvals w) of
             (Fail err, aw) \<Rightarrow> (Inl (ApprovalThrew err), w\<lparr>ew_approvals := aw\<rparr>)
           | (Ok _, aw) \<Rightarrow>
               (case pause_change k (tk_id t) m1 of
                  (Some x, _) \<Rightarrow> (Inl x, w\<lparr>ew_approvals := aw\<rparr>)
                | (None, m2) \<Rightarrow> (Inr m2, w\<lparr>ew_approvals := aw\<rparr>))))"

definition compensateIfNeeded ::
    "'db engine_deps \<Rightarrow> mission \<Rightarrow> mission_task \<Rightarrow> 'db engine_world \<Rightarrow> ('db, unit) engine_call" where
  "compensateIfNeeded dp m t w =
     (let c = \<lparr>cn_compensationId = ''comp:'' @ aggId m @ '':'' @ tk_id t, cn_missionId = aggId m,
               cn_taskId = tk_id t, cn_actionType = tk_taskType t\<rparr>;
          w1 = w\<lparr>ew_compensations := ew_compensations w @ [c]\<rparr>
      in if ed_compensate dp c then (Inr (), w1) else (Inl CompensationThrew, w1))"

text \<open>The first half of \<open>handleTaskResult\<close>: the change with its effects.\<close>

definition apply_result ::
    "'db engine_deps \<Rightarrow> tick \<Rightarrow> tenant_context \<Rightarrow> mission \<Rightarrow> mission_task \<Rightarrow> exec_result \<Rightarrow> 'db engine_world \<Rightarrow> ('db, mission) engine_call" where
  "apply_result dp k ctx m t r w =
     (if er_status r = XS_COMPLETED
      then (case complete_change k (tk_id t) r m of (Some x, _) \<Rightarrow> (Inl x, w) | (None, m1) \<Rightarrow> (Inr m1, w))
      else if er_status r = XS_AWAITING_APPROVAL then engine_requestApproval dp k ctx m t r w
      else if failing (er_status r)
      then (case fail_change k (tk_id t) r m of
              (Some x, _) \<Rightarrow> (Inl x, w)
            | (None, m1) \<Rightarrow> eng_bind (compensateIfNeeded dp m1 t w) (\<lambda>_ w1.
                (case block_change k (tk_id t) r m1 of (Some x, _) \<Rightarrow> (Inl x, w1) | (None, m2) \<Rightarrow> (Inr m2, w1))))
      else (Inr m, w))"

definition handleTaskResult ::
    "'db engine_deps \<Rightarrow> tick \<Rightarrow> tenant_context \<Rightarrow> mission \<Rightarrow> mission_task \<Rightarrow> exec_result \<Rightarrow> 'db engine_world \<Rightarrow> ('db, unit) engine_call" where
  "handleTaskResult dp k ctx m t r w =
     (if ensureSameTenant ctx (tenantId m) \<noteq> None then (Inl MissionCrossTenant, w)
      else eng_bind (apply_result dp k ctx m t r w) (\<lambda>m1 w1.
        eng_bind (saveAndPublish dp k ctx m1 (result_change k (tk_id t) r) w1) (\<lambda>_ w2. (Inr (), w2))))"

definition executeTask ::
    "'db engine_deps \<Rightarrow> tick \<Rightarrow> tenant_context \<Rightarrow> mission \<Rightarrow> mission_task \<Rightarrow> 'db engine_world \<Rightarrow> ('db, unit) engine_call" where
  "executeTask dp k ctx m t w =
     eng_bind (runTask dp k ctx m t w) (\<lambda>r w1.
       (case loadMission dp ctx (aggId m) (ew_db w1) of
          Inl x \<Rightarrow> (Inl x, w1)
        | Inr latest \<Rightarrow> handleTaskResult dp k ctx latest (nullish (findTask (tk_id t) latest) t) r w1))"

subsection \<open>The loop\<close>

definition completion_change :: "tick \<Rightarrow> change" where
  "completion_change k m =
     (if list_all (\<lambda>t. tk_status t = TK_COMPLETED) (ms_tasks m)
      then or_throw (ms_complete \<lparr>oc_meetingsBooked = Some (Fin 0), oc_opportunitiesCreated = Some (Fin 0)\<rparr>
             (ti_corr k) (ti_ev k) (ti_now k)) CannotCompleteMission m
      else or_throw (ms_fail ''No runnable tasks remain and not all tasks completed'' (ti_corr k) (ti_ev k) (ti_now k))
             CannotFailMission m)"

text \<open>It changes the mission object of the caller, which reads its status afterwards.\<close>

definition evaluateCompletion ::
    "'db engine_deps \<Rightarrow> tick \<Rightarrow> tenant_context \<Rightarrow> mission \<Rightarrow> 'db engine_world \<Rightarrow> ('db, mission) engine_call" where
  "evaluateCompletion dp k ctx m w =
     eng_bind (change_and_save dp k ctx (completion_change k) m w) (\<lambda>_ w1. (Inr (snd (completion_change k m)), w1))"

record step_answer =
  sa_status :: ms_status
  sa_completedTaskId :: "string option"

definition executeMissionStep ::
    "'db engine_deps \<Rightarrow> tick \<Rightarrow> tenant_context \<Rightarrow> string \<Rightarrow> 'db engine_world \<Rightarrow> ('db, step_answer) engine_call" where
  "executeMissionStep dp k ctx i w =
     (case loadMission dp ctx i (ew_db w) of
        Inl x \<Rightarrow> (Inl x, w)
      | Inr m \<Rightarrow>
          if ms_isTerminal m \<or> ms_status m \<noteq> MS_EXECUTING
          then (Inr \<lparr>sa_status = ms_status m, sa_completedTaskId = None\<rparr>, w)
          else case selectNextTask m of
              None \<Rightarrow> eng_bind (evaluateCompletion dp k ctx m w) (\<lambda>m1 w1.
                (Inr \<lparr>sa_status = ms_status m1, sa_completedTaskId = None\<rparr>, w1))
            | Some t \<Rightarrow> eng_bind (executeTask dp k ctx m t w) (\<lambda>_ w1.
                (case loadMission dp ctx i (ew_db w1) of
                   Inl x \<Rightarrow> (Inl x, w1)
                 | Inr latest \<Rightarrow> (Inr \<lparr>sa_status = ms_status latest, sa_completedTaskId = Some (tk_id t)\<rparr>, w1))))"

text \<open>The loop of \<open>executeMission\<close> with the iterations that are left; \<open>ks\<close> gives the tick of each.\<close>

fun execute_loop ::
    "'db engine_deps \<Rightarrow> (nat \<Rightarrow> tick) \<Rightarrow> tenant_context \<Rightarrow> string \<Rightarrow> nat \<Rightarrow> 'db engine_world \<Rightarrow> ('db, unit) engine_call" where
  "execute_loop dp ks ctx i 0 w = (Inr (), w)"
| "execute_loop dp ks ctx i (Suc n) w =
     (case loadMission dp ctx i (ew_db w) of
        Inl x \<Rightarrow> (Inl x, w)
      | Inr m \<Rightarrow>
          if ms_isTerminal m then (Inr (), w)
          else if ms_status m \<noteq> MS_EXECUTING then (Inr (), w)
          else case selectNextTask m of
              None \<Rightarrow> eng_bind (evaluateCompletion dp (ks n) ctx m w) (\<lambda>_ w1. (Inr (), w1))
            | Some t \<Rightarrow> eng_bind (executeTask dp (ks n) ctx m t w) (\<lambda>_ w1. execute_loop dp ks ctx i n w1))"

definition MAX_ITERATIONS :: nat where "MAX_ITERATIONS = 1000"

definition executeMission ::
    "'db engine_deps \<Rightarrow> (nat \<Rightarrow> tick) \<Rightarrow> tenant_context \<Rightarrow> string \<Rightarrow> 'db engine_world \<Rightarrow> ('db, unit) engine_call" where
  "executeMission dp ks ctx i w =
     eng_bind (planMission dp (ks MAX_ITERATIONS) ctx i w) (\<lambda>_ w1. execute_loop dp ks ctx i MAX_ITERATIONS w1)"

subsection \<open>The workspace resolver\<close>

text \<open>
  \<open>postgres-mission-workspace-resolver.ts\<close>: the rows of the join of missions and memberships
  (tenant, workspace, user). Another number of rows than one throws.
\<close>

definition resolveAuthorizedWorkspace ::
    "(string \<times> string \<times> string) list \<Rightarrow> tenant_context \<Rightarrow> string \<Rightarrow> mission_db \<Rightarrow> string option" where
  "resolveAuthorizedWorkspace memberships ctx missionId db =
     (if \<not> truthy (cx_userId ctx) \<or> \<not> truthy (cx_workspaceId ctx) then None
      else case concat (map (\<lambda>m. map (\<lambda>(t, ws, u). ws) (filter (\<lambda>(t, ws, u).
             t = mr_tenant m \<and> Some ws = mr_workspace m \<and> Some u = cx_userId ctx) memberships))
             (filter (bound_row ctx missionId) (db_missions db))) of
          [ws] \<Rightarrow> Some ws
        | _ \<Rightarrow> None)"

subsection \<open>Contract: a store of missions\<close>

text \<open>
  What the engine relies on: a mission that is found is the tenant's own, clean and with distinct
  task ids; a mission that was loaded and changed under the same plan is stored, with its status
  and the statuses of its tasks; a mission loaded at an older version is refused.
\<close>

locale mission_store =
  fixes find :: "tenant_context \<Rightarrow> string \<Rightarrow> 'db \<Rightarrow> mission option"
    and save :: "tenant_context \<Rightarrow> int \<Rightarrow> mission \<Rightarrow> 'db \<Rightarrow> save_error + (mission \<times> 'db)"
    and ok :: "string \<Rightarrow> 'db \<Rightarrow> bool"
  assumes find_own: "ok i db \<Longrightarrow> find ctx i db = Some m \<Longrightarrow> aggId m = i \<and> tenantId m = cx_tenantId ctx
      \<and> ms_workspaceId m = cx_workspaceId ctx \<and> truthy (cx_workspaceId ctx) \<and> ms_workspaceBindingState m = WORKSPACE_BOUND"
    and find_clean: "ok i db \<Longrightarrow> find ctx i db = Some m \<Longrightarrow>
      loadedVersion m = Some (version m) \<and> domainEvents m = [] \<and> distinct (map tk_id (ms_tasks m))"
    and save_loaded: "ok i db \<Longrightarrow> find ctx i db = Some m0 \<Longrightarrow> same_plan m0 m \<Longrightarrow>
      \<exists>db1 m2. save ctx now m db = Inr (setVersion (version m) m, db1) \<and> ok i db1 \<and> find ctx i db1 = Some m2
        \<and> ms_status m2 = ms_status m \<and> version m2 = version m \<and> pl_version (ms_plan m2) = pl_version (ms_plan m)
        \<and> map tk_id (ms_tasks m2) = map tk_id (ms_tasks m) \<and> map tk_status (ms_tasks m2) = map tk_status (ms_tasks m)
        \<and> map tk_dependsOn (ms_tasks m2) = map tk_dependsOn (ms_tasks m0)"
    and save_refused: "ok i db \<Longrightarrow> find ctx i db = Some m0 \<Longrightarrow> same_plan (m0\<lparr>loadedVersion := Some l\<rparr>) m \<Longrightarrow>
      l \<noteq> version m0 \<Longrightarrow> save ctx now m db = Inl SaveConflict"

text \<open>The state of the tasks as the engine sees it.\<close>

definition tasks_view :: "mission \<Rightarrow> (string \<times> string list \<times> task_status) list" where
  "tasks_view m = map (\<lambda>t. (tk_id t, tk_dependsOn t, tk_status t)) (ms_tasks m)"

definition set_status :: "string \<Rightarrow> task_status \<Rightarrow> (string \<times> string list \<times> task_status) list
    \<Rightarrow> (string \<times> string list \<times> task_status) list" where
  "set_status i s ts = map (\<lambda>(j, ds, x). (j, ds, if j = i then s else x)) ts"

lemma tasks_viewI:
  "map tk_id (ms_tasks a) = map tk_id (ms_tasks b) \<Longrightarrow> map tk_dependsOn (ms_tasks a) = map tk_dependsOn (ms_tasks b) \<Longrightarrow>
     map tk_status (ms_tasks a) = map tk_status (ms_tasks b) \<Longrightarrow> tasks_view a = tasks_view b"
proof -
  assume a: "map tk_id (ms_tasks a) = map tk_id (ms_tasks b)" "map tk_dependsOn (ms_tasks a) = map tk_dependsOn (ms_tasks b)"
    "map tk_status (ms_tasks a) = map tk_status (ms_tasks b)"
  have z: "tasks_view m = zip (map tk_id (ms_tasks m)) (zip (map tk_dependsOn (ms_tasks m)) (map tk_status (ms_tasks m)))" for m
    by (simp add: tasks_view_def zip_map_map zip_same_conv_map)
  show ?thesis unfolding z a by simp
qed

lemma tasks_view_parts:
  "map fst (tasks_view m) = map tk_id (ms_tasks m)" "map (fst \<circ> snd) (tasks_view m) = map tk_dependsOn (ms_tasks m)"
  by (simp_all add: tasks_view_def comp_def)

lemma set_status_simps [simp]:
  "map fst (set_status i s ts) = map fst ts" "map (fst \<circ> snd) (set_status i s ts) = map (fst \<circ> snd) ts"
  by (simp_all add: set_status_def comp_def case_prod_beta)

definition pending :: "(string \<times> string list \<times> task_status) list \<Rightarrow> nat" where
  "pending ts = length (filter (\<lambda>(i, ds, s). s = TK_PENDING) ts)"

lemma pending_set_status_le: "s \<noteq> TK_PENDING \<Longrightarrow> pending (set_status i s ts) \<le> pending ts"
  by (induction ts) (auto simp: pending_def set_status_def split: if_splits)

lemma pending_set_status:
  "(i, ds, TK_PENDING) \<in> set ts \<Longrightarrow> s \<noteq> TK_PENDING \<Longrightarrow> pending (set_status i s ts) < pending ts"
proof (induction ts)
  case (Cons x xs)
  have "pending (set_status i s (x # xs)) = (if snd (snd x) = TK_PENDING \<and> fst x \<noteq> i then 1 else 0) + pending (set_status i s xs)"
    "pending (x # xs) = (if snd (snd x) = TK_PENDING then 1 else 0) + pending xs"
    using Cons.prems(2) by (auto simp: pending_def set_status_def split: prod.splits)
  then show ?case using Cons pending_set_status_le [OF Cons.prems(2), of i xs] by (cases "x = (i, ds, TK_PENDING)") auto
qed simp

text \<open>A task operation as a change of the view.\<close>

lemma put_task_view:
  "distinct (map tk_id ts) \<Longrightarrow> t \<in> set ts \<Longrightarrow> tk_id t' = tk_id t \<Longrightarrow> tk_dependsOn t' = tk_dependsOn t \<Longrightarrow>
     map (\<lambda>t. (tk_id t, tk_dependsOn t, tk_status t)) (put_task t' ts) =
     set_status (tk_id t) (tk_status t') (map (\<lambda>t. (tk_id t, tk_dependsOn t, tk_status t)) ts)"
proof (induction ts)
  case (Cons x xs)
  have n: "tk_id x \<notin> tk_id ` set xs \<Longrightarrow> set_status (tk_id x) s (map (\<lambda>t. (tk_id t, tk_dependsOn t, tk_status t)) xs) =
      map (\<lambda>t. (tk_id t, tk_dependsOn t, tk_status t)) xs" for s
    by (induction xs) (auto simp: set_status_def)
  have c: "set_status i s (y # ys) = (fst y, fst (snd y), if fst y = i then s else snd (snd y)) # set_status i s ys" for i s y ys
    by (simp add: set_status_def case_prod_beta)
  show ?case using Cons n by (cases "t = x") (auto simp: c)
qed simp

lemma fold_applyEvent_workspace:
  "ms_workspaceId (fold (\<lambda>pl. applyEvent (h pl)) pls m) = ms_workspaceId m"
  "ms_workspaceBindingState (fold (\<lambda>pl. applyEvent (h pl)) pls m) = ms_workspaceBindingState m"
  by (induction pls arbitrary: m) (simp_all add: applyEvent_def)

lemma ms_task_op_ok:
  assumes "findTask i m = Some t" and "canTransitionTask (tk_status t) to" and "distinct (map tk_id (ms_tasks m))"
    and "\<And>u. tk_id (extra u) = tk_id u" "\<And>u. tk_dependsOn (extra u) = tk_dependsOn u" "\<And>u. tk_status (extra u) = tk_status u"
  shows "fst (ms_task_op i to extra pls corr ev now m) = Ok ()"
    and "tasks_view (snd (ms_task_op i to extra pls corr ev now m)) = set_status i to (tasks_view m)"
    and "same_plan m (snd (ms_task_op i to extra pls corr ev now m))"
proof -
  have t: "t \<in> set (ms_tasks m)" "tk_id t = i" using assms(1) find_SomeD by (fastforce simp: findTask_def)+
  show f: "fst (ms_task_op i to extra pls corr ev now m) = Ok ()"
    using assms(1,2) by (auto simp: ms_task_op_def Let_def dest: transitionStatus_Fail split: prod.splits result.splits)
  let ?t' = "extra (snd (transitionStatus to now t))"
  have ts: "ms_tasks (snd (ms_task_op i to extra pls corr ev now m)) = put_task ?t' (ms_tasks m)"
    using assms(1,2) by (simp add: ms_task_op_tasks)
  show v: "tasks_view (snd (ms_task_op i to extra pls corr ev now m)) = set_status i to (tasks_view m)"
    unfolding tasks_view_def ts using put_task_view [OF assms(3) t(1), of ?t'] t(2) assms(2,4,5,6)
    by (simp add: transitionStatus_simps)
  have ids: "map tk_id (ms_tasks (snd (ms_task_op i to extra pls corr ev now m))) = map tk_id (ms_tasks m)"
    using v by (metis set_status_simps(1) tasks_view_parts(1))
  have "ms_workspaceId (snd (ms_task_op i to extra pls corr ev now m)) = ms_workspaceId m"
    "ms_workspaceBindingState (snd (ms_task_op i to extra pls corr ev now m)) = ms_workspaceBindingState m"
    by (auto simp: ms_task_op_def Let_def fold_applyEvent_workspace split: option.splits prod.splits result.splits)
  then show "same_plan m (snd (ms_task_op i to extra pls corr ev now m))"
    using extends_log_frame [OF ms_task_op_facts(3) [of m i to extra pls corr ev now]] ids
    by (simp add: same_plan_def ms_task_op_facts(2))
qed

definition keeps_tasks :: "mission \<Rightarrow> mission \<Rightarrow> bool" where
  "keeps_tasks a b \<longleftrightarrow> same_plan a b \<and> tasks_view b = tasks_view a"

lemma status_op_ok:
  "canTransitionMission (ms_status m) MS_PAUSED \<Longrightarrow> fst (ms_pause r corr ev now m) = Ok ()
     \<and> ms_status (snd (ms_pause r corr ev now m)) = MS_PAUSED \<and> keeps_tasks m (snd (ms_pause r corr ev now m))"
  "canTransitionMission (ms_status m) MS_BLOCKED \<Longrightarrow> fst (ms_block r corr ev now m) = Ok ()
     \<and> ms_status (snd (ms_block r corr ev now m)) = MS_BLOCKED \<and> keeps_tasks m (snd (ms_block r corr ev now m))"
  "canTransitionMission (ms_status m) MS_COMPLETED \<Longrightarrow> fst (ms_complete oc corr ev now m) = Ok ()
     \<and> ms_status (snd (ms_complete oc corr ev now m)) = MS_COMPLETED \<and> keeps_tasks m (snd (ms_complete oc corr ev now m))"
  "canTransitionMission (ms_status m) MS_FAILED \<Longrightarrow> fst (ms_fail r corr ev now m) = Ok ()
     \<and> ms_status (snd (ms_fail r corr ev now m)) = MS_FAILED \<and> keeps_tasks m (snd (ms_fail r corr ev now m))"
  by (simp_all add: ms_pause_def ms_block_def ms_complete_def ms_fail_def ms_transitionTo_def applyEvent_def
      keeps_tasks_def same_plan_def tasks_view_def)

lemma same_plan_trans: "same_plan a b \<Longrightarrow> same_plan b c \<Longrightarrow> same_plan a c"
  by (simp add: same_plan_def)

lemma keeps_tasks_after: "same_plan a b \<Longrightarrow> keeps_tasks b c \<Longrightarrow> same_plan a c \<and> tasks_view c = tasks_view b"
  by (auto simp: keeps_tasks_def intro: same_plan_trans)

text \<open>The task operations of the engine, on a task whose status allows them.\<close>

lemma or_throw_ok: "fst (f m) = Ok v \<Longrightarrow> or_throw f err m = (None, snd (f m))"
  by (cases "f m") (simp add: or_throw_def)

lemma start_change_ok:
  assumes "findTask i m = Some t" and "tk_status t = TK_PENDING" and "ms_status m = MS_EXECUTING"
    and "\<not> dependencies_incomplete t m" and "distinct (map tk_id (ms_tasks m))"
  shows "\<exists>m1. start_change k i m = (None, m1) \<and> same_plan m m1 \<and> ms_status m1 = MS_EXECUTING
    \<and> tasks_view m1 = set_status i TK_RUNNING (tasks_view m) \<and> version m < version m1"
proof -
  let ?op = "ms_task_op i TK_RUNNING id [MissionTaskStatusChanged (aggId m) i TK_RUNNING] (ti_corr k) (ti_ev k) (ti_now k) m"
  have c: "canTransitionTask (tk_status t) TK_RUNNING" using assms(2) by (simp add: canTransitionTask_def)
  note f = ms_task_op_ok [OF assms(1) c assms(5), of id "[MissionTaskStatusChanged (aggId m) i TK_RUNNING]" "ti_corr k" "ti_ev k" "ti_now k"]
  have s: "startTask i (ti_corr k) (ti_ev k) (ti_now k) m = ?op" using assms by (simp add: startTask_def)
  have "version m < version (snd ?op)"
    using assms(1) c by (auto simp: ms_task_op_def Let_def applyEvent_def dest: transitionStatus_Fail split: prod.splits result.splits)
  moreover have "start_change k i m = (None, snd ?op)"
    unfolding start_change_def s [symmetric] by (rule or_throw_ok) (simp add: s f(1))
  ultimately show ?thesis using f(2,3) assms(3) ms_task_op_facts(1)
    by (intro exI [of _ "snd ?op"]) simp
qed

definition changes_task :: "change \<Rightarrow> string \<Rightarrow> task_status \<Rightarrow> mission \<Rightarrow> bool" where
  "changes_task c i s m \<longleftrightarrow> (\<exists>m1. c m = (None, m1) \<and> same_plan m m1 \<and> ms_status m1 = ms_status m
      \<and> tasks_view m1 = set_status i s (tasks_view m))"

lemma task_op_changes:
  assumes "findTask i m = Some t" and "canTransitionTask (tk_status t) to" and "distinct (map tk_id (ms_tasks m))"
    and "\<And>u. tk_id (extra u) = tk_id u" "\<And>u. tk_dependsOn (extra u) = tk_dependsOn u" "\<And>u. tk_status (extra u) = tk_status u"
    and "c = or_throw (\<lambda>m. ms_task_op i to extra (pls m) corr ev now m) err"
  shows "changes_task c i to m"
proof -
  note f = ms_task_op_ok [OF assms(1-6), of "pls m" corr ev now]
  have "c m = (None, snd (ms_task_op i to extra (pls m) corr ev now m))" unfolding assms(7) by (rule or_throw_ok) (rule f(1))
  then show ?thesis using f(2,3) ms_task_op_facts(1) unfolding changes_task_def by metis
qed

lemma task_change_ok:
  assumes "findTask i m = Some t" and "tk_status t = TK_RUNNING" and "distinct (map tk_id (ms_tasks m))"
  shows "changes_task (complete_change k i r) i TK_COMPLETED m" and "changes_task (fail_change k i r) i TK_FAILED m"
    and "changes_task (await_change k i) i TK_AWAITING_APPROVAL m"
proof -
  have c: "canTransitionTask (tk_status t) TK_COMPLETED" "canTransitionTask (tk_status t) TK_FAILED"
    "canTransitionTask (tk_status t) TK_AWAITING_APPROVAL" using assms(2) by (simp_all add: canTransitionTask_def)
  show "changes_task (complete_change k i r) i TK_COMPLETED m"
    by (rule task_op_changes [OF assms(1) c(1) assms(3) _ _ _
        complete_change_def [unfolded completeTask_def, of k i r]]) simp_all
  show "changes_task (fail_change k i r) i TK_FAILED m"
    by (rule task_op_changes [OF assms(1) c(2) assms(3) _ _ _ fail_change_def [unfolded failTask_def, of k i r]]) simp_all
  show "changes_task (await_change k i) i TK_AWAITING_APPROVAL m"
    by (rule task_op_changes [OF assms(1) c(3) assms(3) _ _ _
        await_change_def [unfolded markTaskAwaitingApproval_def, of k i]]) simp_all
qed

lemma completion_change_ok:
  assumes "ms_status m = MS_EXECUTING"
  shows "\<exists>m1. completion_change k m = (None, m1) \<and> same_plan m m1 \<and> tasks_view m1 = tasks_view m
    \<and> ms_status m1 = (if list_all (\<lambda>t. tk_status t = TK_COMPLETED) (ms_tasks m) then MS_COMPLETED else MS_FAILED)"
proof -
  have c: "canTransitionMission (ms_status m) MS_COMPLETED" "canTransitionMission (ms_status m) MS_FAILED"
    using assms by (simp_all add: canTransitionMission_def)
  show ?thesis using status_op_ok(3) [OF c(1)] status_op_ok(4) [OF c(2)]
    by (simp add: completion_change_def or_throw_ok keeps_tasks_def)
qed

subsection \<open>One task\<close>

text \<open>What a result does to the task and to the mission.\<close>

definition task_after :: "exec_status \<Rightarrow> task_status" where
  "task_after s = (if s = XS_COMPLETED then TK_COMPLETED else if s = XS_AWAITING_APPROVAL then TK_AWAITING_APPROVAL
     else if failing s then TK_FAILED else TK_RUNNING)"

definition mission_after :: "exec_status \<Rightarrow> ms_status" where
  "mission_after s = (if s = XS_AWAITING_APPROVAL then MS_PAUSED else if failing s then MS_BLOCKED else MS_EXECUTING)"

lemma set_status_twice [simp]: "set_status i a (set_status i b ts) = set_status i a ts"
  by (simp add: set_status_def case_prod_beta comp_def)

lemma view_task:
  assumes "tasks_view m = set_status (tk_id t) s ts" and "(tk_id t, ds, x) \<in> set ts" and "distinct (map tk_id (ms_tasks m))"
  shows "\<exists>u. findTask (tk_id t) m = Some u \<and> tk_status u = s \<and> tk_id u = tk_id t"
proof -
  have "(tk_id t, ds, s) \<in> set (tasks_view m)" using assms(1,2) by (force simp: set_status_def)
  then obtain u where u: "u \<in> set (ms_tasks m)" "tk_id u = tk_id t" "tk_status u = s" by (auto simp: tasks_view_def)
  have "List.find (\<lambda>v. tk_id v = tk_id t) (ms_tasks m) = Some u"
    by (rule find_unique [OF u(1)]) (use u assms(3) in \<open>auto simp: distinct_map inj_on_def\<close>)
  then show ?thesis using u by (auto simp: findTask_def)
qed

lemma find_by_id: "distinct (map tk_id (ms_tasks m)) \<Longrightarrow> t \<in> set (ms_tasks m) \<Longrightarrow> findTask (tk_id t) m = Some t"
  unfolding findTask_def by (rule find_unique) (auto simp: distinct_map inj_on_def)

lemma selected:
  assumes "selectNextTask m = Some t"
  shows "t \<in> set (ms_tasks m)" and "tk_status t = TK_PENDING" and "\<not> dependencies_incomplete t m"
proof -
  have f: "t \<in> set (ms_tasks m) \<and> tk_status t = TK_PENDING
      \<and> list_all (\<lambda>d. d \<in> set (map tk_id (filter (\<lambda>t. tk_status t = TK_COMPLETED) (ms_tasks m)))) (tk_dependsOn t)"
    using assms find_SomeD unfolding selectNextTask_def Let_def by fast
  then show "t \<in> set (ms_tasks m)" and "tk_status t = TK_PENDING" by simp_all
  show "\<not> dependencies_incomplete t m" using f by (fastforce simp: dependencies_incomplete_def list_ex_iff list_all_iff)
qed

lemma selected_view: "selectNextTask m = Some t \<Longrightarrow> (tk_id t, tk_dependsOn t, TK_PENDING) \<in> set (tasks_view m)"
  using selected [of m t] by (force simp: tasks_view_def)

text \<open>Nobody else writes while an agent works; compensation and agents answer.\<close>

definition quiet :: "'db engine_deps \<Rightarrow> bool" where
  "quiet dp \<longleftrightarrow> (\<forall>rq db. ed_meanwhile dp rq db = db)"

definition compensates :: "'db engine_deps \<Rightarrow> bool" where
  "compensates dp \<longleftrightarrow> (\<forall>c. ed_compensate dp c)"

definition agents_answer :: "'db engine_deps \<Rightarrow> bool" where
  "agents_answer dp \<longleftrightarrow> (\<forall>cs rq. ed_execute dp cs rq \<noteq> None)"

lemma requestApproval_Ok:
  assumes "findMission ctx (ad_missionId input) = Some m" and "truthy (cx_workspaceId ctx)"
    and "ms_workspaceId m = cx_workspaceId ctx" and "ms_workspaceBindingState m = WORKSPACE_BOUND"
    and "tenantId m = cx_tenantId ctx" and "\<not> list_ex (\<lambda>r. row_id r = approvalId) (aw_rows w)"
  shows "\<exists>aw. requestApproval findMission now approvalId ev ctx input w = (Ok approvalId, aw)"
proof -
  have n: "\<not> list_ex (\<lambda>x. row_tenant x = t \<and> row_id x = approvalId) (aw_rows w)" for t
    using assms(6) by (auto simp: list_ex_iff)
  show ?thesis
    using assms(1-5) n
    by (simp add: requestApproval_def ap_create_def ap_save_def cas_write_def insert_row_def applyEvent_def ap_construct_def)
qed

lemma returned_view [simp]:
  "ms_status (clearDomainEvents (setVersion v m)) = ms_status m" "ms_tasks (clearDomainEvents (setVersion v m)) = ms_tasks m"
  "aggId (clearDomainEvents (setVersion v m)) = aggId m" "tenantId (clearDomainEvents (setVersion v m)) = tenantId m"
  by (simp_all add: clearDomainEvents_def setVersion_def)

lemma running_not_aborted: "ms_status m = MS_EXECUTING \<Longrightarrow> \<not> no_longer_executing m i"
  by (simp add: no_longer_executing_def)

context mission_store begin

definition over :: "'db engine_deps \<Rightarrow> bool" where
  "over dp \<longleftrightarrow> ed_find dp = find \<and> ed_save dp = save"

definition resolves :: "'db engine_deps \<Rightarrow> tenant_context \<Rightarrow> string \<Rightarrow> bool" where
  "resolves dp ctx i \<longleftrightarrow> (\<forall>db m. ok i db \<longrightarrow> find ctx i db = Some m \<longrightarrow> ed_workspace dp ctx i db \<noteq> None)"

lemma load_ok: "over dp \<Longrightarrow> ok i db \<Longrightarrow> find ctx i db = Some m \<Longrightarrow> loadMission dp ctx i db = Inr m"
  using find_own by (simp add: over_def loadMission_def ensureSameTenant_def)

lemma save_ok:
  assumes "over dp" and "ok i (ew_db w)" and "find ctx i (ew_db w) = Some m0" and "same_plan m0 m"
    and "map (fst \<circ> snd) (tasks_view m) = map (fst \<circ> snd) (tasks_view m0)"
  shows "\<exists>db1 m2. saveAndPublish dp k ctx m c w =
       (Inr (clearDomainEvents (setVersion (version m) m)), w\<lparr>ew_db := db1, ew_published := ew_published w @ domainEvents m\<rparr>)
     \<and> ok i db1 \<and> find ctx i db1 = Some m2 \<and> ms_status m2 = ms_status m \<and> version m2 = version m
     \<and> tasks_view m2 = tasks_view m \<and> pl_version (ms_plan m2) = pl_version (ms_plan m)"
proof -
  obtain db1 m2 where s: "save ctx (ti_now k) m (ew_db w) = Inr (setVersion (version m) m, db1)" "ok i db1" "find ctx i db1 = Some m2"
    "ms_status m2 = ms_status m" "version m2 = version m" "pl_version (ms_plan m2) = pl_version (ms_plan m)"
    "map tk_id (ms_tasks m2) = map tk_id (ms_tasks m)" "map tk_status (ms_tasks m2) = map tk_status (ms_tasks m)"
    "map tk_dependsOn (ms_tasks m2) = map tk_dependsOn (ms_tasks m0)"
    using save_loaded [OF assms(2-4), of "ti_now k"] by blast
  have "tasks_view m2 = tasks_view m" using s(7-9) assms(5) unfolding tasks_view_parts by (intro tasks_viewI) simp_all
  moreover have "saveAndPublish dp k ctx m c w =
      (Inr (clearDomainEvents (setVersion (version m) m)), w\<lparr>ew_db := db1, ew_published := ew_published w @ domainEvents m\<rparr>)"
    using assms(1) s(1) by (simp add: saveAndPublish_def over_def numeral_3_eq_3 setVersion_def)
  ultimately show ?thesis using s(2-6) by blast
qed

lemma runTask_ok:
  assumes "over dp" and "quiet dp" and "ok i (ew_db w)" and "find ctx i (ew_db w) = Some m"
    and "ms_status m = MS_EXECUTING" and "selectNextTask m = Some t"
    and "resolves dp ctx i"
  shows "\<exists>w1 m1 rq. ok i (ew_db w1) \<and> find ctx i (ew_db w1) = Some m1 \<and> ms_status m1 = MS_EXECUTING
     \<and> tasks_view m1 = set_status (tk_id t) TK_RUNNING (tasks_view m)
     \<and> ew_calls w1 = ew_calls w @ [rq] \<and> xq_taskId rq = tk_id t \<and> ew_approvals w1 = ew_approvals w
     \<and> ew_compensations w1 = ew_compensations w \<and> version m < version m1 \<and> pl_version (ms_plan m1) = pl_version (ms_plan m)
     \<and> runTask dp k ctx m t w = (case ed_execute dp (ew_calls w) rq of None \<Rightarrow> (Inl AgentThrew, w1) | Some r \<Rightarrow> (Inr r, w1))"
proof -
  have d: "distinct (map tk_id (ms_tasks m))" using find_clean [OF assms(3,4)] by simp
  have own: "aggId m = i" using find_own [OF assms(3,4)] by simp
  note s = selected [OF assms(6)]
  obtain m1 where m1: "start_change k (tk_id t) m = (None, m1)" "same_plan m m1" "ms_status m1 = MS_EXECUTING"
    "tasks_view m1 = set_status (tk_id t) TK_RUNNING (tasks_view m)" "version m < version m1"
    using start_change_ok [OF find_by_id [OF d s(1)] s(2) assms(5) s(3) d, of k] by blast
  obtain db1 m2 where sv: "saveAndPublish dp k ctx m1 (start_change k (tk_id t)) w =
       (Inr (clearDomainEvents (setVersion (version m1) m1)), w\<lparr>ew_db := db1, ew_published := ew_published w @ domainEvents m1\<rparr>)"
    "ok i db1" "find ctx i db1 = Some m2" "ms_status m2 = ms_status m1" "tasks_view m2 = tasks_view m1"
    "version m2 = version m1" "pl_version (ms_plan m2) = pl_version (ms_plan m1)"
    using save_ok [OF assms(1,3,4) m1(2), of k "start_change k (tk_id t)"] m1(4) by auto
  obtain ws where ws: "ed_workspace dp ctx i db1 = Some ws" using assms(7) sv(2,3) by (auto simp: resolves_def)
  have a: "aggId m1 = i" using m1(2) own by (simp add: same_plan_def)
  let ?m = "clearDomainEvents (setVersion (version m1) m1)"
  let ?rq = "buildExecutionRequest dp k ctx ?m t ws"
  let ?w = "w\<lparr>ew_db := db1, ew_published := ew_published w @ domainEvents m1, ew_calls := ew_calls w @ [?rq]\<rparr>"
  have "runTask dp k ctx m t w = (case ed_execute dp (ew_calls w) ?rq of None \<Rightarrow> (Inl AgentThrew, ?w) | Some r \<Rightarrow> (Inr r, ?w))"
    using assms(2) m1(1,3) sv(1) ws a
    by (simp add: quiet_def runTask_def running_not_aborted assms(5) change_and_save_def Let_def split: option.split)
  then show ?thesis using sv(2-7) m1(2-5)
    by (intro exI [of _ ?w] exI [of _ m2] exI [of _ ?rq]) (simp add: buildExecutionRequest_def same_plan_def)
qed

end

text \<open>The change in memory when the task is running: every kind of result goes through.\<close>

lemma apply_result_ok:
  assumes "findTask (tk_id t) m = Some u" and "tk_status u = TK_RUNNING" and "distinct (map tk_id (ms_tasks m))"
    and "ms_status m = MS_EXECUTING" and "compensates dp"
    and "\<And>m1. same_plan m m1 \<Longrightarrow> er_status r = XS_AWAITING_APPROVAL \<Longrightarrow>
      \<exists>aw. requestApproval (\<lambda>c j. ed_find dp c j (ew_db w)) (ti_now k) (ti_approval k) (ti_ev k) ctx
        (approval_input dp m1 t r) (ew_approvals w) = (Ok (ti_approval k), aw)"
  shows "\<exists>m1 w1. apply_result dp k ctx m t r w = (Inr m1, w1) \<and> same_plan m m1
    \<and> ms_status m1 = mission_after (er_status r) \<and> tasks_view m1 =
        (if task_after (er_status r) = TK_RUNNING then tasks_view m else set_status (tk_id t) (task_after (er_status r)) (tasks_view m))
    \<and> ew_db w1 = ew_db w \<and> ew_calls w1 = ew_calls w
    \<and> (er_status r \<noteq> XS_AWAITING_APPROVAL \<longrightarrow> ew_approvals w1 = ew_approvals w)"
proof -
  note c = task_change_ok [OF assms(1,2,3)]
  consider (good) "er_status r = XS_COMPLETED" | (wait) "er_status r = XS_AWAITING_APPROVAL"
    | (bad) "failing (er_status r)" "er_status r \<noteq> XS_COMPLETED" "er_status r \<noteq> XS_AWAITING_APPROVAL"
    | (other) "er_status r \<noteq> XS_COMPLETED" "er_status r \<noteq> XS_AWAITING_APPROVAL" "\<not> failing (er_status r)"
    by blast
  then show ?thesis
  proof cases
    case good
    then obtain m1 where "complete_change k (tk_id t) r m = (None, m1)" "same_plan m m1" "ms_status m1 = ms_status m"
      "tasks_view m1 = set_status (tk_id t) TK_COMPLETED (tasks_view m)" using c(1) by (auto simp: changes_task_def)
    then show ?thesis using good assms(4) by (simp add: apply_result_def task_after_def mission_after_def failing_def)
  next
    case wait
    obtain m1 where m1: "await_change k (tk_id t) m = (None, m1)" "same_plan m m1" "ms_status m1 = MS_EXECUTING"
      "tasks_view m1 = set_status (tk_id t) TK_AWAITING_APPROVAL (tasks_view m)" using c(3) assms(4) by (auto simp: changes_task_def)
    have "canTransitionMission (ms_status m1) MS_PAUSED" using m1(3) by (simp add: canTransitionMission_def)
    note p = status_op_ok(1) [OF this, of "''Awaiting approval for task '' @ tk_id t" "ti_corr k" "ti_ev k" "ti_now k"]
    let ?m2 = "snd (ms_pause (''Awaiting approval for task '' @ tk_id t) (ti_corr k) (ti_ev k) (ti_now k) m1)"
    have p2: "pause_change k (tk_id t) m1 = (None, ?m2)" unfolding pause_change_def by (rule or_throw_ok) (use p in simp)
    obtain aw where "requestApproval (\<lambda>c j. ed_find dp c j (ew_db w)) (ti_now k) (ti_approval k) (ti_ev k) ctx
        (approval_input dp m1 t r) (ew_approvals w) = (Ok (ti_approval k), aw)" using assms(6) [OF m1(2) wait] by blast
    then have "apply_result dp k ctx m t r w = (Inr ?m2, w\<lparr>ew_approvals := aw\<rparr>)"
      using wait m1(1) p2 by (simp add: apply_result_def engine_requestApproval_def)
    then show ?thesis using wait p keeps_tasks_after [OF m1(2), of ?m2] m1(4)
      by (simp add: task_after_def mission_after_def)
  next
    case bad
    obtain m1 where m1: "fail_change k (tk_id t) r m = (None, m1)" "same_plan m m1" "ms_status m1 = MS_EXECUTING"
      "tasks_view m1 = set_status (tk_id t) TK_FAILED (tasks_view m)" using c(2) assms(4) by (auto simp: changes_task_def)
    have "canTransitionMission (ms_status m1) MS_BLOCKED" using m1(3) by (simp add: canTransitionMission_def)
    note p = status_op_ok(2) [OF this, of "''Task '' @ tk_id t @ '' failed: '' @ eo_summary (er_outcome r)" "ti_corr k" "ti_ev k" "ti_now k"]
    let ?m2 = "snd (ms_block (''Task '' @ tk_id t @ '' failed: '' @ eo_summary (er_outcome r)) (ti_corr k) (ti_ev k) (ti_now k) m1)"
    have p2: "block_change k (tk_id t) r m1 = (None, ?m2)"
      using m1(3) p by (simp add: block_change_def or_throw_ok)
    have "\<exists>w1. apply_result dp k ctx m t r w = (Inr ?m2, w1) \<and> ew_db w1 = ew_db w \<and> ew_calls w1 = ew_calls w
        \<and> ew_approvals w1 = ew_approvals w"
      using bad m1(1) p2 assms(5) by (simp add: compensates_def apply_result_def compensateIfNeeded_def Let_def)
    then show ?thesis using bad p keeps_tasks_after [OF m1(2), of ?m2] m1(4)
      by (auto simp: task_after_def mission_after_def)
  next
    case other
    then show ?thesis using assms(4) by (simp add: apply_result_def task_after_def mission_after_def same_plan_def)
  qed
qed

context mission_store begin

text \<open>The approval a result may ask for has an id that no stored approval has.\<close>

definition new_approval :: "tick \<Rightarrow> 'db engine_world \<Rightarrow> bool" where
  "new_approval k w \<longleftrightarrow> \<not> list_ex (\<lambda>r. row_id r = ti_approval k) (aw_rows (ew_approvals w))"

lemma handleTaskResult_ok:
  assumes "over dp" and "ok i (ew_db w)" and "find ctx i (ew_db w) = Some m" and "ms_status m = MS_EXECUTING"
    and "findTask (tk_id t) m = Some u" and "tk_status u = TK_RUNNING" and "compensates dp"
    and "new_approval k w"
  shows "\<exists>w1 m1. handleTaskResult dp k ctx m t r w = (Inr (), w1) \<and> ok i (ew_db w1) \<and> find ctx i (ew_db w1) = Some m1
    \<and> ms_status m1 = mission_after (er_status r) \<and> tasks_view m1 =
        (if task_after (er_status r) = TK_RUNNING then tasks_view m else set_status (tk_id t) (task_after (er_status r)) (tasks_view m))
    \<and> ew_calls w1 = ew_calls w \<and> (er_status r \<noteq> XS_AWAITING_APPROVAL \<longrightarrow> ew_approvals w1 = ew_approvals w)"
proof -
  note own = find_own [OF assms(2,3)]
  have d: "distinct (map tk_id (ms_tasks m))" using find_clean [OF assms(2,3)] by simp
  have ap: "\<exists>aw. requestApproval (\<lambda>c j. ed_find dp c j (ew_db w)) (ti_now k) (ti_approval k) (ti_ev k) ctx
        (approval_input dp m1 t r) (ew_approvals w) = (Ok (ti_approval k), aw)" if "same_plan m m1" for m1
    by (rule requestApproval_Ok [where m = m])
      (use assms(1,3,8) own that in \<open>simp_all add: over_def approval_input_def same_plan_def new_approval_def\<close>)
  obtain m1 w1 where a: "apply_result dp k ctx m t r w = (Inr m1, w1)" "same_plan m m1"
    "ms_status m1 = mission_after (er_status r)"
    "tasks_view m1 = (if task_after (er_status r) = TK_RUNNING then tasks_view m
       else set_status (tk_id t) (task_after (er_status r)) (tasks_view m))"
    "ew_db w1 = ew_db w" "ew_calls w1 = ew_calls w" "er_status r \<noteq> XS_AWAITING_APPROVAL \<longrightarrow> ew_approvals w1 = ew_approvals w"
    using apply_result_ok [OF assms(5,6) d assms(4,7) ap] by blast
  have v: "map (fst \<circ> snd) (tasks_view m1) = map (fst \<circ> snd) (tasks_view m)" using a(4) by simp
  have q: "ok i (ew_db w1)" "find ctx i (ew_db w1) = Some m" using assms(2,3) a(5) by simp_all
  obtain db1 m2 where s: "saveAndPublish dp k ctx m1 (result_change k (tk_id t) r) w1 =
       (Inr (clearDomainEvents (setVersion (version m1) m1)), w1\<lparr>ew_db := db1, ew_published := ew_published w1 @ domainEvents m1\<rparr>)"
    "ok i db1" "find ctx i db1 = Some m2" "ms_status m2 = ms_status m1" "tasks_view m2 = tasks_view m1"
    using save_ok [OF assms(1) q a(2) v, where k = k and c = "result_change k (tk_id t) r"] by blast
  have "handleTaskResult dp k ctx m t r w = (Inr (), w1\<lparr>ew_db := db1, ew_published := ew_published w1 @ domainEvents m1\<rparr>)"
    using own a(1) s(1) by (simp add: handleTaskResult_def ensureSameTenant_def)
  then show ?thesis using s a by auto
qed

lemma executeTask_ok:
  assumes "over dp" and "quiet dp" and "ok i (ew_db w)" and "find ctx i (ew_db w) = Some m"
    and "ms_status m = MS_EXECUTING" and "selectNextTask m = Some t"
    and "resolves dp ctx i"
    and "compensates dp" and "new_approval k w" and "agents_answer dp"
  shows "\<exists>w1 m1 rq. executeTask dp k ctx m t w = (Inr (), w1) \<and> ok i (ew_db w1) \<and> find ctx i (ew_db w1) = Some m1
    \<and> ew_calls w1 = ew_calls w @ [rq] \<and> xq_taskId rq = tk_id t
    \<and> ms_status m1 = mission_after (er_status (the (ed_execute dp (ew_calls w) rq)))
    \<and> tasks_view m1 = set_status (tk_id t) (task_after (er_status (the (ed_execute dp (ew_calls w) rq)))) (tasks_view m)
    \<and> (ms_status m1 \<noteq> MS_PAUSED \<longrightarrow> ew_approvals w1 = ew_approvals w)"
proof -
  obtain w1 m1 rq where r: "ok i (ew_db w1)" "find ctx i (ew_db w1) = Some m1" "ms_status m1 = MS_EXECUTING"
    "tasks_view m1 = set_status (tk_id t) TK_RUNNING (tasks_view m)" "ew_calls w1 = ew_calls w @ [rq]" "xq_taskId rq = tk_id t"
    "ew_approvals w1 = ew_approvals w"
    "runTask dp k ctx m t w = (case ed_execute dp (ew_calls w) rq of None \<Rightarrow> (Inl AgentThrew, w1) | Some r \<Rightarrow> (Inr r, w1))"
    using runTask_ok [OF assms(1-7), where k = k] by (elim exE conjE) (rule that)
  obtain x where x: "ed_execute dp (ew_calls w) rq = Some x" using assms(10) by (auto simp: agents_answer_def)
  have d: "distinct (map tk_id (ms_tasks m1))" using find_clean [OF r(1,2)] by simp
  obtain u where u: "findTask (tk_id t) m1 = Some u" "tk_status u = TK_RUNNING" "tk_id u = tk_id t"
    using view_task [OF r(4) selected_view [OF assms(6)] d] by blast
  have n: "new_approval k w1" using assms(9) r(7) by (simp add: new_approval_def)
  obtain w2 m2 where h: "handleTaskResult dp k ctx m1 u x w1 = (Inr (), w2)" "ok i (ew_db w2)" "find ctx i (ew_db w2) = Some m2"
    "ms_status m2 = mission_after (er_status x)" "tasks_view m2 = (if task_after (er_status x) = TK_RUNNING then tasks_view m1
       else set_status (tk_id u) (task_after (er_status x)) (tasks_view m1))"
    "ew_calls w2 = ew_calls w1" "er_status x \<noteq> XS_AWAITING_APPROVAL \<longrightarrow> ew_approvals w2 = ew_approvals w1"
    using handleTaskResult_ok [OF assms(1) r(1,2,3) _ u(2) assms(8) n, where t = u and r = x] u(1,3) by auto
  have "executeTask dp k ctx m t w = (Inr (), w2)"
    using r(8) x h(1) u(1) load_ok [OF assms(1) r(1,2)] find_own [OF assms(3,4)] by (simp add: executeTask_def)
  moreover have "tasks_view m2 = set_status (tk_id t) (task_after (er_status x)) (tasks_view m)"
    using h(5) r(4) u(3) by simp
  moreover have "ms_status m2 \<noteq> MS_PAUSED \<longrightarrow> ew_approvals w2 = ew_approvals w"
    using h(4,7) r(7) by (auto simp: mission_after_def)
  ultimately show ?thesis using h r(5,6) x by (intro exI [of _ w2] exI [of _ m2] exI [of _ rq]) simp
qed

end

subsection \<open>The loop ends, and calls agents in the order of the dependencies\<close>

definition finished :: "(string \<times> string list \<times> task_status) list \<Rightarrow> string set" where
  "finished ts = set (map fst (filter (\<lambda>(i, ds, s). s = TK_COMPLETED) ts))"

text \<open>
  A sequence of calls, made after the calls \<open>before\<close>: each for a task that was pending and whose
  dependencies are in \<open>fin\<close>, the tasks that were completed or that an earlier call completed.
\<close>

fun calls_ordered ::
    "'db engine_deps \<Rightarrow> (string \<times> string list \<times> task_status) list \<Rightarrow> string set \<Rightarrow> exec_request list \<Rightarrow> exec_request list \<Rightarrow> bool" where
  "calls_ordered dp ts fin before [] = True"
| "calls_ordered dp ts fin before (c # cs) =
     (list_ex (\<lambda>(i, ds, s). i = xq_taskId c \<and> s = TK_PENDING \<and> set ds \<subseteq> fin) ts
      \<and> calls_ordered dp ts
          (if map_option er_status (ed_execute dp before c) = Some XS_COMPLETED then insert (xq_taskId c) fin else fin)
          (before @ [c]) cs)"

definition pending_ids :: "(string \<times> string list \<times> task_status) list \<Rightarrow> string set" where
  "pending_ids ts = set (map fst (filter (\<lambda>(i, ds, s). s = TK_PENDING) ts))"

lemma pending_after: "s \<noteq> TK_PENDING \<Longrightarrow> pending_ids (set_status i s ts) = pending_ids ts - {i}"
  by (force simp: pending_ids_def set_status_def split: if_splits)

lemma calls_ordered_before:
  "calls_ordered dp (set_status i s ts) fin before cs \<Longrightarrow> s \<noteq> TK_PENDING \<Longrightarrow> calls_ordered dp ts fin before cs"
proof (induction cs arbitrary: fin before)
  case (Cons c cs)
  have "list_ex (\<lambda>(i, ds, s). i = xq_taskId c \<and> s = TK_PENDING \<and> set ds \<subseteq> fin) ts"
    using Cons.prems by (auto simp: list_ex_iff set_status_def split: if_splits)
  then show ?case using Cons by simp
qed simp

lemma finished_after:
  assumes "(i, ds, TK_PENDING) \<in> set ts" and "distinct (map fst ts)"
  shows "finished (set_status i s ts) = finished ts \<union> (if s = TK_COMPLETED then {i} else {})"
proof -
  have n: "(i, ds', x) \<in> set ts \<Longrightarrow> ds' = ds \<and> x = TK_PENDING" for ds' x
    using assms by (metis eq_key_imp_eq_value Pair_inject)
  have "j \<in> finished (set_status i s ts) \<longleftrightarrow> j \<in> finished ts \<union> (if s = TK_COMPLETED then {i} else {})" for j
    using n assms(1) by (cases "j = i") (force simp: finished_def set_status_def split: if_splits)+
  then show ?thesis by blast
qed

lemma selected_ready:
  assumes "selectNextTask m = Some t"
  shows "set (tk_dependsOn t) \<subseteq> finished (tasks_view m)"
proof -
  have "list_all (\<lambda>d. d \<in> set (map tk_id (filter (\<lambda>t. tk_status t = TK_COMPLETED) (ms_tasks m)))) (tk_dependsOn t)"
    using assms find_SomeD unfolding selectNextTask_def Let_def by fast
  then show ?thesis by (force simp: finished_def tasks_view_def list_all_iff)
qed

lemma all_completed_view:
  "list_all (\<lambda>t. tk_status t = TK_COMPLETED) (ms_tasks m) \<longleftrightarrow> list_all (\<lambda>(i, ds, s). s = TK_COMPLETED) (tasks_view m)"
  by (simp add: tasks_view_def list_all_iff)

lemma not_completed_after:
  "(i, ds, x) \<in> set ts \<Longrightarrow> s \<noteq> TK_COMPLETED \<Longrightarrow> \<not> list_all (\<lambda>(i, ds, s). s = TK_COMPLETED) (set_status i s ts)"
  by (force simp: set_status_def list_all_iff)

lemma task_after_cases: "task_after s \<noteq> TK_PENDING" "task_after s = TK_COMPLETED \<longleftrightarrow> s = XS_COMPLETED"
  "mission_after s \<noteq> MS_EXECUTING \<Longrightarrow> task_after s \<noteq> TK_COMPLETED"
  "mission_after s \<in> {MS_EXECUTING, MS_PAUSED, MS_BLOCKED}"
  by (auto simp: task_after_def mission_after_def failing_def)

context mission_store begin

lemma evaluate_ok:
  assumes "over dp" and "ok i (ew_db w)" and "find ctx i (ew_db w) = Some m" and "ms_status m = MS_EXECUTING"
  shows "\<exists>w1 m1 m2. evaluateCompletion dp k ctx m w = (Inr m2, w1) \<and> ok i (ew_db w1) \<and> find ctx i (ew_db w1) = Some m1
    \<and> ms_status m2 = ms_status m1 \<and> tasks_view m1 = tasks_view m \<and> ew_calls w1 = ew_calls w
    \<and> ms_status m1 = (if list_all (\<lambda>t. tk_status t = TK_COMPLETED) (ms_tasks m) then MS_COMPLETED else MS_FAILED)"
proof -
  obtain m2 where c: "completion_change k m = (None, m2)" "same_plan m m2" "tasks_view m2 = tasks_view m"
    "ms_status m2 = (if list_all (\<lambda>t. tk_status t = TK_COMPLETED) (ms_tasks m) then MS_COMPLETED else MS_FAILED)"
    using completion_change_ok [OF assms(4)] by blast
  have v: "map (fst \<circ> snd) (tasks_view m2) = map (fst \<circ> snd) (tasks_view m)" using c(3) by simp
  obtain db1 m1 where s: "saveAndPublish dp k ctx m2 (completion_change k) w =
       (Inr (clearDomainEvents (setVersion (version m2) m2)), w\<lparr>ew_db := db1, ew_published := ew_published w @ domainEvents m2\<rparr>)"
    "ok i db1" "find ctx i db1 = Some m1" "ms_status m1 = ms_status m2" "tasks_view m1 = tasks_view m2"
    using save_ok [OF assms(1-3) c(2) v, where k = k and c = "completion_change k"] by blast
  have "evaluateCompletion dp k ctx m w = (Inr m2, w\<lparr>ew_db := db1, ew_published := ew_published w @ domainEvents m2\<rparr>)"
    using c(1) s(1) by (simp add: evaluateCompletion_def change_and_save_def)
  then show ?thesis using s c(3,4)
    by (intro exI [of _ "w\<lparr>ew_db := db1, ew_published := ew_published w @ domainEvents m2\<rparr>"] exI [of _ m1] exI [of _ m2]) simp
qed

definition stops_well :: "'db engine_deps \<Rightarrow> tenant_context \<Rightarrow> string \<Rightarrow> mission \<Rightarrow> 'db engine_world \<Rightarrow> ('db, unit) engine_call \<Rightarrow> bool" where
  "stops_well dp ctx i m w r \<longleftrightarrow> (\<exists>w' m' new. r = (Inr (), w') \<and> ok i (ew_db w') \<and> find ctx i (ew_db w') = Some m'
     \<and> ms_status m' \<in> {MS_PAUSED, MS_BLOCKED, MS_COMPLETED, MS_FAILED}
     \<and> (ms_status m' = MS_COMPLETED \<longleftrightarrow> list_all (\<lambda>t. tk_status t = TK_COMPLETED) (ms_tasks m'))
     \<and> ew_calls w' = ew_calls w @ new \<and> distinct (map xq_taskId new)
     \<and> set (map xq_taskId new) \<subseteq> pending_ids (tasks_view m)
     \<and> calls_ordered dp (tasks_view m) (finished (tasks_view m)) (ew_calls w) new)"

lemma execute_loop_ok:
  assumes "over dp" and "quiet dp" and "resolves dp ctx i" and "compensates dp" and "agents_answer dp"
    and "ok i (ew_db w)" and "find ctx i (ew_db w) = Some m" and "ms_status m = MS_EXECUTING"
    and "pending (tasks_view m) < n" and "\<forall>j. new_approval (ks j) w"
  shows "stops_well dp ctx i m w (execute_loop dp ks ctx i n w)"
  using assms(6-10)
proof (induction n arbitrary: w m)
  case (Suc n)
  note l = load_ok [OF assms(1) Suc.prems(1,2)]
  have nt: "\<not> ms_isTerminal m" using Suc.prems(3) by (simp add: ms_isTerminal_def)
  show ?case
  proof (cases "selectNextTask m")
    case None
    obtain w1 m1 m2 where e: "evaluateCompletion dp (ks n) ctx m w = (Inr m2, w1)" "ok i (ew_db w1)" "find ctx i (ew_db w1) = Some m1"
      "tasks_view m1 = tasks_view m" "ew_calls w1 = ew_calls w"
      "ms_status m1 = (if list_all (\<lambda>t. tk_status t = TK_COMPLETED) (ms_tasks m) then MS_COMPLETED else MS_FAILED)"
      using evaluate_ok [OF assms(1) Suc.prems(1-3), where k = "ks n"] by blast
    have "execute_loop dp ks ctx i (Suc n) w = (Inr (), w1)" using l nt Suc.prems(3) None e(1) by simp
    then show ?thesis using e(2-6) unfolding stops_well_def
      by (intro exI [of _ w1] exI [of _ m1] exI [of _ "[]"]) (simp add: all_completed_view)
  next
    case (Some t)
    have na: "new_approval (ks n) w" using Suc.prems(5) by simp
    obtain w1 m1 rq where e: "executeTask dp (ks n) ctx m t w = (Inr (), w1)" "ok i (ew_db w1)" "find ctx i (ew_db w1) = Some m1"
      "ew_calls w1 = ew_calls w @ [rq]" "xq_taskId rq = tk_id t"
      "ms_status m1 = mission_after (er_status (the (ed_execute dp (ew_calls w) rq)))"
      "tasks_view m1 = set_status (tk_id t) (task_after (er_status (the (ed_execute dp (ew_calls w) rq)))) (tasks_view m)"
      "ms_status m1 \<noteq> MS_PAUSED \<longrightarrow> ew_approvals w1 = ew_approvals w"
      using executeTask_ok [OF assms(1,2) Suc.prems(1-3) Some assms(3,4) na assms(5)] by blast
    let ?s = "er_status (the (ed_execute dp (ew_calls w) rq))"
    have lo: "execute_loop dp ks ctx i (Suc n) w = execute_loop dp ks ctx i n w1" using l nt Suc.prems(3) Some e(1) by simp
    note sv = selected_view [OF Some]
    have dv: "distinct (map fst (tasks_view m))" using find_clean [OF Suc.prems(1,2)] by (simp add: tasks_view_parts)
    have p: "pending (tasks_view m1) < pending (tasks_view m)" unfolding e(7) by (rule pending_set_status [OF sv task_after_cases(1)])
    obtain n' where n': "n = Suc n'" using p Suc.prems(4) by (cases n) simp_all
    have o: "list_ex (\<lambda>(i, ds, s). i = xq_taskId rq \<and> s = TK_PENDING \<and> set ds \<subseteq> finished (tasks_view m)) (tasks_view m)"
      using sv selected_ready [OF Some] e(5) by (force simp: list_ex_iff)
    have pi: "tk_id t \<in> pending_ids (tasks_view m)" using sv by (force simp: pending_ids_def)
    show ?thesis
    proof (cases "ms_status m1 = MS_EXECUTING")
      case False
      then have f: "task_after ?s \<noteq> TK_COMPLETED" "ms_status m1 \<in> {MS_PAUSED, MS_BLOCKED}"
        using task_after_cases(3,4) [of ?s] e(6) by auto
      have "execute_loop dp ks ctx i (Suc n) w = (Inr (), w1)"
        using lo n' load_ok [OF assms(1) e(2,3)] False by simp
      then show ?thesis
        using e(2,3,4) f o e(5) pi not_completed_after [OF sv f(1)] unfolding stops_well_def
        by (intro exI [of _ w1] exI [of _ m1] exI [of _ "[rq]"]) (auto simp: all_completed_view e(7))
    next
      case True
      then have aw: "ew_approvals w1 = ew_approvals w" using e(8) by simp
      have pn: "pending (tasks_view m1) < n" using p Suc.prems(4) by simp
      have ap: "\<forall>j. new_approval (ks j) w1" using Suc.prems(5) aw by (simp add: new_approval_def)
      obtain w' m' new where r: "execute_loop dp ks ctx i n w1 = (Inr (), w')" "ok i (ew_db w')" "find ctx i (ew_db w') = Some m'"
        "ms_status m' \<in> {MS_PAUSED, MS_BLOCKED, MS_COMPLETED, MS_FAILED}"
        "ms_status m' = MS_COMPLETED \<longleftrightarrow> list_all (\<lambda>t. tk_status t = TK_COMPLETED) (ms_tasks m')"
        "ew_calls w' = ew_calls w1 @ new" "distinct (map xq_taskId new)"
        "set (map xq_taskId new) \<subseteq> pending_ids (tasks_view m1)"
        "calls_ordered dp (tasks_view m1) (finished (tasks_view m1)) (ew_calls w1) new"
        using Suc.IH [OF e(2,3) True pn ap] unfolding stops_well_def by blast
      have pa: "pending_ids (tasks_view m1) = pending_ids (tasks_view m) - {tk_id t}"
        unfolding e(7) by (rule pending_after [OF task_after_cases(1)])
      have fi: "finished (tasks_view m1) = (if map_option er_status (ed_execute dp (ew_calls w) rq) = Some XS_COMPLETED
          then insert (xq_taskId rq) (finished (tasks_view m)) else finished (tasks_view m))"
        using assms(5) finished_after [OF sv dv, of "task_after ?s"] e(5) task_after_cases(2) [of ?s]
        unfolding e(7) agents_answer_def by auto
      have co: "calls_ordered dp (tasks_view m) (finished (tasks_view m)) (ew_calls w) (rq # new)"
        using o calls_ordered_before [OF r(9) [unfolded e(7)] task_after_cases(1)] fi
        unfolding e(4) e(7) [symmetric] by simp
      have di: "distinct (map xq_taskId (rq # new))" using r(7,8) pa e(5) by auto
      have su: "set (map xq_taskId (rq # new)) \<subseteq> pending_ids (tasks_view m)" using r(8) pa pi e(5) by auto
      show ?thesis using r(1-6) e(4) co di su lo unfolding stops_well_def
        by (intro exI [of _ w'] exI [of _ m'] exI [of _ "rq # new"]) simp
    qed
  qed
qed simp

end

subsection \<open>The Postgres repository as the store\<close>

lemma zip_views:
  assumes "map tk_id xs = map tk_id ys"
  shows "map tk_id (map (\<lambda>(t0, t). with_state t0 t) (zip xs ys)) = map tk_id ys"
    and "map tk_status (map (\<lambda>(t0, t). with_state t0 t) (zip xs ys)) = map tk_status ys"
    and "map tk_dependsOn (map (\<lambda>(t0, t). with_state t0 t) (zip xs ys)) = map tk_dependsOn xs"
proof -
  have "map tk_id (map (\<lambda>(t0, t). with_state t0 t) (zip xs ys)) = map tk_id ys
      \<and> map tk_status (map (\<lambda>(t0, t). with_state t0 t) (zip xs ys)) = map tk_status ys
      \<and> map tk_dependsOn (map (\<lambda>(t0, t). with_state t0 t) (zip xs ys)) = map tk_dependsOn xs"
    using assms
  proof (induction xs arbitrary: ys)
    case (Cons x xs)
    then show ?case by (cases ys) auto
  qed simp
  then show "map tk_id (map (\<lambda>(t0, t). with_state t0 t) (zip xs ys)) = map tk_id ys"
    and "map tk_status (map (\<lambda>(t0, t). with_state t0 t) (zip xs ys)) = map tk_status ys"
    and "map tk_dependsOn (map (\<lambda>(t0, t). with_state t0 t) (zip xs ys)) = map tk_dependsOn xs" by blast+
qed

interpretation pg: mission_store mr_findById mr_save "\<lambda>i db. db_ok db \<and> no_legacy i db"
proof unfold_locales
  fix i db ctx m m0 now l
  assume ok: "db_ok db \<and> no_legacy i db"
  {
    assume f: "mr_findById ctx i db = Some m"
    then obtain r where r: "truthy (cx_workspaceId ctx)" "bound_row ctx i r" "m = load_mission i r db"
      by (rule mr_findById_Some)
    show "aggId m = i \<and> tenantId m = cx_tenantId ctx
      \<and> ms_workspaceId m = cx_workspaceId ctx \<and> truthy (cx_workspaceId ctx) \<and> ms_workspaceBindingState m = WORKSPACE_BOUND"
      using r by (simp add: bound_row_def)
    show "loadedVersion m = Some (version m) \<and> domainEvents m = [] \<and> distinct (map tk_id (ms_tasks m))"
      using r tasks_distinct [OF conjunct1 [OF ok] f] by simp
  }
  assume f: "mr_findById ctx i db = Some m0"
  {
    assume s: "same_plan m0 m"
    obtain db1 where d: "mr_save ctx now m db = Inr (setVersion (version m) m, db1)" "db_ok db1" "no_legacy i db1"
      "mr_findById ctx i db1 = Some (m\<lparr>ms_plan := ms_plan m0,
         ms_tasks := map (\<lambda>(t0, t). with_state t0 t) (zip (ms_tasks m0) (ms_tasks m)), ms_approvals := [],
         ms_createdAt := ms_createdAt m0, ms_updatedAt := now, loadedVersion := Some (version m), domainEvents := []\<rparr>)"
      using save_same_plan [OF conjunct1 [OF ok] conjunct2 [OF ok] f s] by blast
    have ids: "map tk_id (ms_tasks m0) = map tk_id (ms_tasks m)" "pl_version (ms_plan m0) = pl_version (ms_plan m)"
      using s by (simp_all add: same_plan_def)
    show "\<exists>db1 m2. mr_save ctx now m db = Inr (setVersion (version m) m, db1) \<and> (db_ok db1 \<and> no_legacy i db1)
      \<and> mr_findById ctx i db1 = Some m2 \<and> ms_status m2 = ms_status m \<and> version m2 = version m
      \<and> pl_version (ms_plan m2) = pl_version (ms_plan m)
      \<and> map tk_id (ms_tasks m2) = map tk_id (ms_tasks m) \<and> map tk_status (ms_tasks m2) = map tk_status (ms_tasks m)
      \<and> map tk_dependsOn (ms_tasks m2) = map tk_dependsOn (ms_tasks m0)"
      using d zip_views [OF ids(1)] ids(2) by (simp del: map_map)
  }
  assume s: "same_plan (m0\<lparr>loadedVersion := Some l\<rparr>) m" and l: "l \<noteq> version m0"
  obtain r where r: "truthy (cx_workspaceId ctx)" "bound_row ctx i r" "m0 = load_mission i r db"
    using f by (rule mr_findById_Some)
  show "mr_save ctx now m db = Inl SaveConflict"
    by (rule save_stale [OF f conjunct1 [OF ok] _ _ l])
      (use s r in \<open>simp_all add: same_plan_def bound_row_def\<close>)
qed

text \<open>The user is a member of the workspace, once.\<close>

definition sole_member :: "(string \<times> string \<times> string) list \<Rightarrow> tenant_context \<Rightarrow> bool" where
  "sole_member memberships ctx \<longleftrightarrow> truthy (cx_userId ctx) \<and>
     length (filter (\<lambda>(t, ws, u). t = cx_tenantId ctx \<and> Some ws = cx_workspaceId ctx \<and> Some u = cx_userId ctx) memberships) = 1"

lemma filter_single:
  assumes "distinct xs" and "x \<in> set xs" and "P x" and "\<And>y. y \<in> set xs \<Longrightarrow> P y \<Longrightarrow> y = x"
  shows "filter P xs = [x]"
proof -
  have "set (filter P xs) = {x}" using assms(2,3) by (auto dest: assms(4))
  moreover have "distinct (filter P xs)" using assms(1) by simp
  ultimately show ?thesis by (metis distinct_card card_1_singleton_iff One_nat_def length_Suc_conv length_0_conv list.set_intros(1) singletonD)
qed

lemma pg_resolves:
  assumes "ed_workspace dp = resolveAuthorizedWorkspace memberships" and "sole_member memberships ctx"
  shows "pg.resolves dp ctx i"
  unfolding pg.resolves_def
proof (intro allI impI)
  fix db m assume ok: "db_ok db \<and> no_legacy i db" and f: "mr_findById ctx i db = Some m"
  from f obtain r where r: "truthy (cx_workspaceId ctx)" "r \<in> set (db_missions db)" "bound_row ctx i r" by (rule mr_findById_Some)
  have one: "filter (bound_row ctx i) (db_missions db) = [r]"
  proof (rule filter_single [OF _ r(2)])
    have d: "distinct (map mr_id (db_missions db))" using ok by (simp add: db_ok_def)
    then show "distinct (db_missions db)" by (simp add: distinct_map)
    show "bound_row ctx i r" by (rule r(3))
    fix y assume "y \<in> set (db_missions db)" "bound_row ctx i y"
    then show "y = r" using mission_of_id [OF d _ r(2)] r(3) by (simp add: bound_row_def)
  qed
  have "(\<lambda>(t, ws, u). t = mr_tenant r \<and> Some ws = mr_workspace r \<and> Some u = cx_userId ctx) =
      (\<lambda>(t, ws, u). t = cx_tenantId ctx \<and> Some ws = cx_workspaceId ctx \<and> Some u = cx_userId ctx)"
    using r(3) by (simp add: bound_row_def)
  moreover obtain x where "filter (\<lambda>(t, ws, u). t = cx_tenantId ctx \<and> Some ws = cx_workspaceId ctx \<and> Some u = cx_userId ctx) memberships = [x]"
    using assms(2) unfolding sole_member_def by (auto simp: length_Suc_conv)
  ultimately show "ed_workspace dp ctx i db \<noteq> None"
    using assms r(1) one by (simp add: resolveAuthorizedWorkspace_def sole_member_def)
qed

end
