(* ===== verification/MissionExecution.thy ===== *)
theory MissionExecution
  imports MissionEngine
begin

section \<open>What the mission engine guarantees on the Postgres repository\<close>

text \<open>
  The properties of the execution engine, with the store of \<open>MissionRepository\<close> and the workspace
  resolver of the same package: the loop ends, agents are called in the order of the dependencies,
  a plan that was accepted is what is stored; and what the engine does not do: it never takes up a
  task that is not pending, it does not retry a task whose agent threw, and a worker that lost the
  race to start a task runs it all the same.
\<close>

text \<open>An engine on the tables, with a member and an agent that completes every task.\<close>

definition engine_ctx :: tenant_context where
  "engine_ctx = \<lparr>cx_tenantId = ''t'', cx_workspaceId = Some ''w'', cx_correlationId = ''x'', cx_userId = Some ''u'',
     cx_agentId = None, cx_missionId = None\<rparr>"

definition sample_result :: "exec_status \<Rightarrow> exec_result" where
  "sample_result s = \<lparr>er_executionId = ''e'', er_status = s,
     er_outcome = \<lparr>eo_summary = ''ok'', eo_decisions = [], eo_actions = [], eo_evidence = []\<rparr>\<rparr>"

definition sample_agent :: agent_contract where
  "sample_agent = \<lparr>ac_agentId = ''agent-1'', ac_version = ''1'', ac_capabilities = [''plan-outreach'']\<rparr>"

definition sample_engine :: "(exec_request \<Rightarrow> exec_result option) \<Rightarrow> mission_db engine_deps" where
  "sample_engine answer = \<lparr>ed_find = mr_findById, ed_save = mr_save, ed_execute = (\<lambda>cs. answer),
     ed_meanwhile = (\<lambda>rq db. db), ed_planner = outreach_plan (\<lambda>m. JNull), ed_getAgent = (\<lambda>ctx i v. Some sample_agent),
     ed_workspace = resolveAuthorizedWorkspace [(''t'', ''w'', ''u'')], ed_compensate = (\<lambda>c. True), ed_key = id,
     ed_encodePhase = (\<lambda>p. JNull), ed_taskTimeoutSeconds = Fin 60\<rparr>"

definition sample_tick :: "nat \<Rightarrow> tick" where
  "sample_tick n = \<lparr>ti_corr = ''x'', ti_ev = ''v'', ti_now = int n, ti_execution = ''e'', ti_approval = ''ap''\<rparr>"

text \<open>The sample mission with the two tasks in the given statuses, as it is stored.\<close>

definition sample_tasks :: "task_status \<Rightarrow> task_status \<Rightarrow> mission" where
  "sample_tasks x y = stored_sample\<lparr>ms_tasks :=
     [(new_task (sample_task_props ''a'' []))\<lparr>tk_status := x\<rparr>, (new_task (sample_task_props ''b'' [''a'']))\<lparr>tk_status := y\<rparr>]\<rparr>"

definition sample_db :: "task_status \<Rightarrow> task_status \<Rightarrow> mission_db" where
  "sample_db x y = (case mr_save engine_ctx 9 (sample_tasks x y) no_rows of Inr (m, db) \<Rightarrow> db | Inl x \<Rightarrow> no_rows)"

definition sample_run :: "task_status \<Rightarrow> task_status \<Rightarrow> mission_db engine_world" where
  "sample_run x y = \<lparr>ew_db = sample_db x y, ew_calls = [], ew_published = [],
     ew_approvals = \<lparr>aw_rows = [], aw_signals = [], aw_notified = []\<rparr>, ew_compensations = []\<rparr>"

lemma sample_engine_simps [simp]:
  "ed_find (sample_engine f) = mr_findById" "ed_save (sample_engine f) = mr_save"
  "ed_workspace (sample_engine f) = resolveAuthorizedWorkspace [(''t'', ''w'', ''u'')]"
  "quiet (sample_engine f)" "compensates (sample_engine f)" "ed_execute (sample_engine f) cs = f"
  by (simp_all add: sample_engine_def quiet_def compensates_def)

lemma sample_member: "sole_member [(''t'', ''w'', ''u'')] engine_ctx"
  by (simp add: sole_member_def engine_ctx_def)

lemma sample_tasks_simps:
  "aggId (sample_tasks x y) = ''m''" "tenantId (sample_tasks x y) = ''t''" "loadedVersion (sample_tasks x y) = None"
  "version (sample_tasks x y) = 3" "ms_status (sample_tasks x y) = MS_EXECUTING" "ms_plan (sample_tasks x y) = sample_plan (Fin 1)"
  "ms_workspaceId (sample_tasks x y) = Some ''w''" "ms_workspaceBindingState (sample_tasks x y) = WORKSPACE_BOUND"
  "ms_tasks (sample_tasks x y) =
     [(new_task (sample_task_props ''a'' []))\<lparr>tk_status := x\<rparr>, (new_task (sample_task_props ''b'' [''a'']))\<lparr>tk_status := y\<rparr>]"
  by (simp_all add: sample_tasks_def stored_sample_simps)

lemma sample_db_facts:
  "db_ok (sample_db x y)" "no_legacy ''m'' (sample_db x y)"
  "\<exists>m. mr_findById engine_ctx ''m'' (sample_db x y) = Some m \<and> ms_status m = MS_EXECUTING \<and> pl_version (ms_plan m) = Fin 1
     \<and> tasks_view m = [(''a'', [], x), (''b'', [''a''], y)]"
proof -
  have "\<exists>db1. mr_save engine_ctx 9 (sample_tasks x y) no_rows = Inr (setVersion 3 (sample_tasks x y), db1)"
    by (simp add: mr_save_def sample_tasks_simps engine_ctx_def no_rows_def insert_mission_row_def sample_plan_def Let_def)
  then obtain db where s: "mr_save engine_ctx 9 (sample_tasks x y) no_rows = Inr (setVersion 3 (sample_tasks x y), db)" by blast
  have d: "sample_db x y = db" by (simp add: sample_db_def s)
  show "db_ok (sample_db x y)" "no_legacy ''m'' (sample_db x y)"
    using mr_save_ok [OF s no_rows_ok(1,2)] by (simp_all add: d sample_tasks_simps)
  have "\<exists>c. mr_findById engine_ctx (aggId (sample_tasks x y)) db = Some ((sample_tasks x y)\<lparr>
       ms_tasks := map (stored_task (sample_tasks x y)) (ms_tasks (sample_tasks x y)), ms_approvals := [], ms_createdAt := c,
       ms_updatedAt := 9, loadedVersion := Some (version (sample_tasks x y)), domainEvents := []\<rparr>)"
    by (rule save_new_plan [where v = 1, OF no_rows_ok(1,2,3,4) _ _ _ s])
      (simp_all add: sample_tasks_simps sample_plan_def sample_task_props_def deps_distinct_def)
  then show "\<exists>m. mr_findById engine_ctx ''m'' (sample_db x y) = Some m \<and> ms_status m = MS_EXECUTING \<and> pl_version (ms_plan m) = Fin 1
     \<and> tasks_view m = [(''a'', [], x), (''b'', [''a''], y)]"
    by (auto simp: d sample_tasks_simps tasks_view_def stored_task_def sample_task_props_def sample_plan_def)
qed

text \<open>The view determines what is selected.\<close>

lemma selected_of_view:
  "tasks_view m = (i, [], TK_PENDING) # ts \<Longrightarrow> \<exists>t. selectNextTask m = Some t \<and> tk_id t = i"
  by (cases "ms_tasks m") (auto simp: tasks_view_def selectNextTask_def Let_def)

lemma sample_run_simps [simp]:
  "ew_db (sample_run x y) = sample_db x y" "ew_calls (sample_run x y) = []" "aw_rows (ew_approvals (sample_run x y)) = []"
  by (simp_all add: sample_run_def)

lemma pg_over: "ed_find dp = mr_findById \<Longrightarrow> ed_save dp = mr_save \<Longrightarrow> pg.over dp"
  by (simp add: pg.over_def)

subsection \<open>The loop\<close>

text \<open>
  (C6) One worker calls agents in the order of the dependencies, and for each task at most once: of the
  calls that one run of the loop of \<open>executeMission\<close> adds, every one is for a task that was pending at the
  start and whose dependencies were completed, before the run or by an earlier call of it. This is for
  Postgres tables with unique keys, a stored mission that is bound to its workspace and executes with fewer
  pending tasks than iterations, a user who is the only member of that name in the workspace, agents that
  answer, compensations that succeed, new approval ids and no other writer during the run
  (\<open>task_runs_twice\<close> shows what a second worker does).
\<close>

theorem agents_called_in_order:
  assumes "ed_find dp = mr_findById" and "ed_save dp = mr_save" and "quiet dp" and "compensates dp" and "agents_answer dp"
    and "ed_workspace dp = resolveAuthorizedWorkspace memberships" and "sole_member memberships ctx"
    and "db_ok (ew_db w)" and "no_legacy i (ew_db w)" and "mr_findById ctx i (ew_db w) = Some m"
    and "ms_status m = MS_EXECUTING" and "pending (tasks_view m) < n"
    and "\<forall>j. \<not> list_ex (\<lambda>r. row_id r = ti_approval (ks j)) (aw_rows (ew_approvals w))"
  shows "\<exists>new. ew_calls (snd (execute_loop dp ks ctx i n w)) = ew_calls w @ new \<and> distinct (map xq_taskId new)
    \<and> calls_ordered dp (tasks_view m) (finished (tasks_view m)) (ew_calls w) new"
proof -
  have "pg.stops_well dp ctx i m w (execute_loop dp ks ctx i n w)"
    by (rule pg.execute_loop_ok [OF pg_over [OF assms(1,2)] assms(3) pg_resolves [OF assms(6,7)] assms(4,5) _ assms(10-12)])
      (use assms(8,9,13) in \<open>simp_all add: pg.new_approval_def\<close>)
  then show ?thesis unfolding pg.stops_well_def by auto
qed

theorem agents_called_in_order_witness:
  "\<exists>new. ew_calls (snd (execute_loop (sample_engine (\<lambda>rq. Some (sample_result XS_COMPLETED))) sample_tick engine_ctx ''m'' 3 (sample_run TK_PENDING TK_PENDING)))
       = new \<and> distinct (map xq_taskId new)
    \<and> calls_ordered (sample_engine (\<lambda>rq. Some (sample_result XS_COMPLETED)))
        [(''a'', [], TK_PENDING), (''b'', [''a''], TK_PENDING)] {} [] new"
proof -
  obtain m where m: "mr_findById engine_ctx ''m'' (sample_db TK_PENDING TK_PENDING) = Some m" "ms_status m = MS_EXECUTING"
    "tasks_view m = [(''a'', [], TK_PENDING), (''b'', [''a''], TK_PENDING)]" using sample_db_facts(3) by blast
  have p: "pending (tasks_view m) < 3" by (simp add: m(3) pending_def)
  have f: "finished [(''a'', [], TK_PENDING), (''b'', [''a''], TK_PENDING)] = {}" by (simp add: finished_def)
  have "\<exists>new. ew_calls (snd (execute_loop (sample_engine (\<lambda>rq. Some (sample_result XS_COMPLETED))) sample_tick engine_ctx ''m'' 3 (sample_run TK_PENDING TK_PENDING)))
       = ew_calls (sample_run TK_PENDING TK_PENDING) @ new \<and> distinct (map xq_taskId new)
    \<and> calls_ordered (sample_engine (\<lambda>rq. Some (sample_result XS_COMPLETED))) (tasks_view m) (finished (tasks_view m))
        (ew_calls (sample_run TK_PENDING TK_PENDING)) new"
    by (rule agents_called_in_order [OF _ _ _ _ _ _ sample_member _ _ _ m(2) p])
      (simp_all add: sample_db_facts(1,2) m(1) agents_answer_def)
  then show ?thesis by (simp only: m(3) f) simp
qed

subsection \<open>What is never picked up again\<close>

lemma none_selected: "list_all (\<lambda>(i, ds, s). s \<noteq> TK_PENDING) (tasks_view m) \<Longrightarrow> selectNextTask m = None"
  by (auto simp: selectNextTask_def Let_def find_None_iff list_all_iff tasks_view_def)

lemma step_without_pending:
  assumes "pg.over dp" and "db_ok (ew_db w) \<and> no_legacy i (ew_db w)" and "mr_findById ctx i (ew_db w) = Some m"
    and "ms_status m = MS_EXECUTING" and "list_all (\<lambda>(i, ds, s). s \<noteq> TK_PENDING) (tasks_view m)"
  shows "\<exists>w1 m1. executeMissionStep dp k ctx i w = (Inr \<lparr>sa_status = ms_status m1, sa_completedTaskId = None\<rparr>, w1)
    \<and> mr_findById ctx i (ew_db w1) = Some m1 \<and> ew_calls w1 = ew_calls w \<and> tasks_view m1 = tasks_view m
    \<and> ms_status m1 = (if list_all (\<lambda>t. tk_status t = TK_COMPLETED) (ms_tasks m) then MS_COMPLETED else MS_FAILED)"
proof -
  obtain w1 m1 m2 where e: "evaluateCompletion dp k ctx m w = (Inr m2, w1)" "mr_findById ctx i (ew_db w1) = Some m1"
    "ms_status m2 = ms_status m1" "tasks_view m1 = tasks_view m" "ew_calls w1 = ew_calls w"
    "ms_status m1 = (if list_all (\<lambda>t. tk_status t = TK_COMPLETED) (ms_tasks m) then MS_COMPLETED else MS_FAILED)"
    using pg.evaluate_ok [OF assms(1-4), where k = k] by blast
  have "executeMissionStep dp k ctx i w = (Inr \<lparr>sa_status = ms_status m1, sa_completedTaskId = None\<rparr>, w1)"
    using pg.load_ok [OF assms(1-3)] assms(4) none_selected [OF assms(5)] e(1,3)
    by (simp add: executeMissionStep_def ms_isTerminal_def)
  then show ?thesis using e by blast
qed

text \<open>
  A task that is not pending is never taken up again: when a mission executes whose tasks are all
  past pending, but not all completed, as after the approval of a task and the resume of the mission,
  the next step calls no agent and marks the mission failed; the approved task stays as it is.
\<close>

theorem approved_task_fails_mission:
  assumes "ed_find dp = mr_findById" and "ed_save dp = mr_save"
    and "db_ok (ew_db w)" and "no_legacy i (ew_db w)" and "mr_findById ctx i (ew_db w) = Some m"
    and "ms_status m = MS_EXECUTING" and "list_all (\<lambda>(i, ds, s). s \<noteq> TK_PENDING) (tasks_view m)"
    and "(t, ds, TK_AWAITING_APPROVAL) \<in> set (tasks_view m)"
  shows "\<exists>w1 m1. executeMissionStep dp k ctx i w = (Inr \<lparr>sa_status = MS_FAILED, sa_completedTaskId = None\<rparr>, w1)
    \<and> mr_findById ctx i (ew_db w1) = Some m1 \<and> ms_status m1 = MS_FAILED \<and> ew_calls w1 = ew_calls w
    \<and> tasks_view m1 = tasks_view m"
proof -
  have "\<not> list_all (\<lambda>t. tk_status t = TK_COMPLETED) (ms_tasks m)"
    using assms(8) unfolding all_completed_view by (force simp: list_all_iff)
  then show ?thesis
    using step_without_pending [OF pg_over [OF assms(1,2)] conjI [OF assms(3,4)] assms(5-7), where k = k] by auto
qed

theorem approved_task_fails_mission_witness:
  "\<exists>w1 m1. executeMissionStep (sample_engine (\<lambda>rq. None)) (sample_tick 0) engine_ctx ''m'' (sample_run TK_COMPLETED TK_AWAITING_APPROVAL)
       = (Inr \<lparr>sa_status = MS_FAILED, sa_completedTaskId = None\<rparr>, w1)
    \<and> mr_findById engine_ctx ''m'' (ew_db w1) = Some m1 \<and> ms_status m1 = MS_FAILED \<and> ew_calls w1 = []
    \<and> tasks_view m1 = [(''a'', [], TK_COMPLETED), (''b'', [''a''], TK_AWAITING_APPROVAL)]"
proof -
  obtain m where m: "mr_findById engine_ctx ''m'' (sample_db TK_COMPLETED TK_AWAITING_APPROVAL) = Some m" "ms_status m = MS_EXECUTING"
    "tasks_view m = [(''a'', [], TK_COMPLETED), (''b'', [''a''], TK_AWAITING_APPROVAL)]" using sample_db_facts(3) by blast
  show ?thesis
    using approved_task_fails_mission [where dp = "sample_engine (\<lambda>rq. None)" and w = "sample_run TK_COMPLETED TK_AWAITING_APPROVAL"
        and i = "''m''" and ctx = engine_ctx and m = m and t = "''b''" and ds = "[''a'']" and k = "sample_tick 0"]
      m sample_db_facts(1,2) by simp
qed

text \<open>
  A task whose agent threw is not retried: the step leaves it running, and the next step, which
  the workflow makes as a retry, calls no agent for it and marks the mission failed when no other task
  is pending.
\<close>

theorem agent_error_not_retried:
  assumes "ed_find dp = mr_findById" and "ed_save dp = mr_save" and "quiet dp"
    and "ed_workspace dp = resolveAuthorizedWorkspace memberships" and "sole_member memberships ctx"
    and "db_ok (ew_db w)" and "no_legacy i (ew_db w)" and "mr_findById ctx i (ew_db w) = Some m"
    and "ms_status m = MS_EXECUTING" and "selectNextTask m = Some t" and "pending (tasks_view m) = 1"
    and "ed_execute dp (ew_calls w) = (\<lambda>rq. None)"
  shows "\<exists>w1 w2 rq m2. executeMissionStep dp k1 ctx i w = (Inl AgentThrew, w1) \<and> ew_calls w1 = ew_calls w @ [rq]
    \<and> executeMissionStep dp k2 ctx i w1 = (Inr \<lparr>sa_status = MS_FAILED, sa_completedTaskId = None\<rparr>, w2)
    \<and> ew_calls w2 = ew_calls w1 \<and> mr_findById ctx i (ew_db w2) = Some m2 \<and> ms_status m2 = MS_FAILED
    \<and> list_ex (\<lambda>(j, ds, s). j = tk_id t \<and> s = TK_RUNNING) (tasks_view m2)"
proof -
  note ov = pg_over [OF assms(1,2)]
  note ok = conjI [OF assms(6,7)]
  obtain w1 m1 rq where r: "db_ok (ew_db w1) \<and> no_legacy i (ew_db w1)" "mr_findById ctx i (ew_db w1) = Some m1"
    "ms_status m1 = MS_EXECUTING" "tasks_view m1 = set_status (tk_id t) TK_RUNNING (tasks_view m)"
    "ew_calls w1 = ew_calls w @ [rq]"
    "runTask dp k1 ctx m t w = (case ed_execute dp (ew_calls w) rq of None \<Rightarrow> (Inl AgentThrew, w1) | Some r \<Rightarrow> (Inr r, w1))"
    using pg.runTask_ok [OF ov assms(3) ok assms(8-10) pg_resolves [OF assms(4,5)], where k = k1] by (elim exE conjE) (rule that; blast)
  have s1: "executeMissionStep dp k1 ctx i w = (Inl AgentThrew, w1)"
    using pg.load_ok [OF ov ok assms(8)] assms(9,10,12) r(6) by (simp add: executeMissionStep_def ms_isTerminal_def executeTask_def)
  have "pending (tasks_view m1) < 1"
    using pending_set_status [OF selected_view [OF assms(10)], of TK_RUNNING] assms(11) r(4) by simp
  then have np: "list_all (\<lambda>(i, ds, s). s \<noteq> TK_PENDING) (tasks_view m1)"
    by (auto simp: pending_def list_all_iff filter_empty_conv)
  have "(tk_id t, tk_dependsOn t, TK_RUNNING) \<in> set (tasks_view m1)"
    using selected_view [OF assms(10)] r(4) by (force simp: set_status_def)
  then have run: "list_ex (\<lambda>(j, ds, s). j = tk_id t \<and> s = TK_RUNNING) (tasks_view m1)"
    "\<not> list_all (\<lambda>t. tk_status t = TK_COMPLETED) (ms_tasks m1)"
    unfolding all_completed_view by (force simp: list_ex_iff list_all_iff)+
  show ?thesis using step_without_pending [OF ov r(1-3) np, where k = k2] s1 r(5) run by auto
qed

theorem agent_error_not_retried_witness:
  "\<exists>w1 w2 rq m2. executeMissionStep (sample_engine (\<lambda>rq. None)) (sample_tick 0) engine_ctx ''m'' (sample_run TK_PENDING TK_CANCELLED)
       = (Inl AgentThrew, w1) \<and> ew_calls w1 = [rq]
    \<and> executeMissionStep (sample_engine (\<lambda>rq. None)) (sample_tick 1) engine_ctx ''m'' w1
       = (Inr \<lparr>sa_status = MS_FAILED, sa_completedTaskId = None\<rparr>, w2)
    \<and> ew_calls w2 = [rq] \<and> mr_findById engine_ctx ''m'' (ew_db w2) = Some m2 \<and> ms_status m2 = MS_FAILED
    \<and> list_ex (\<lambda>(j, ds, s). j = ''a'' \<and> s = TK_RUNNING) (tasks_view m2)"
proof -
  obtain m where m: "mr_findById engine_ctx ''m'' (sample_db TK_PENDING TK_CANCELLED) = Some m" "ms_status m = MS_EXECUTING"
    "tasks_view m = [(''a'', [], TK_PENDING), (''b'', [''a''], TK_CANCELLED)]" using sample_db_facts(3) by blast
  obtain t where t: "selectNextTask m = Some t" "tk_id t = ''a''" using selected_of_view [OF m(3)] by blast
  have p: "pending (tasks_view m) = 1" by (simp add: m(3) pending_def)
  show ?thesis
    using agent_error_not_retried [where dp = "sample_engine (\<lambda>rq. None)" and w = "sample_run TK_PENDING TK_CANCELLED"
        and i = "''m''" and ctx = engine_ctx and m = m and t = t and ?k1.0 = "sample_tick 0" and ?k2.0 = "sample_tick 1"
        and memberships = "[(''t'', ''w'', ''u'')]"]
      m t p sample_db_facts(1,2) sample_member by auto
qed

subsection \<open>Two workers\<close>

text \<open>
  The version check does not keep a task from running twice: when two workers loaded the same
  mission and both run the same pending task, the second save is refused, the start cannot be applied
  again because the task is running already, and the second worker takes that for its own start and
  calls the agent too.
\<close>

theorem task_runs_twice:
  assumes "ed_find dp = mr_findById" and "ed_save dp = mr_save" and "quiet dp" and "agents_answer dp"
    and "ed_workspace dp = resolveAuthorizedWorkspace memberships" and "sole_member memberships ctx"
    and "db_ok (ew_db w)" and "no_legacy i (ew_db w)" and "mr_findById ctx i (ew_db w) = Some m"
    and "ms_status m = MS_EXECUTING" and "selectNextTask m = Some t"
  shows "\<exists>w1 w2 r1 r2 a b. runTask dp k1 ctx m t w = (Inr r1, w1) \<and> runTask dp k2 ctx m t w1 = (Inr r2, w2)
    \<and> ew_calls w2 = ew_calls w @ [a, b] \<and> xq_taskId a = tk_id t \<and> xq_taskId b = tk_id t"
proof -
  note ov = pg_over [OF assms(1,2)]
  note ok = conjI [OF assms(7,8)]
  note rs = pg_resolves [OF assms(5,6)]
  obtain w1 m1 rq where r: "db_ok (ew_db w1) \<and> no_legacy i (ew_db w1)" "mr_findById ctx i (ew_db w1) = Some m1"
    "ms_status m1 = MS_EXECUTING" "tasks_view m1 = set_status (tk_id t) TK_RUNNING (tasks_view m)"
    "ew_calls w1 = ew_calls w @ [rq]" "xq_taskId rq = tk_id t"
    "version m < version m1" "pl_version (ms_plan m1) = pl_version (ms_plan m)"
    "runTask dp k1 ctx m t w = (case ed_execute dp (ew_calls w) rq of None \<Rightarrow> (Inl AgentThrew, w1) | Some r \<Rightarrow> (Inr r, w1))"
    using pg.runTask_ok [OF ov assms(3) ok assms(9-11) rs, where k = k1] by (elim exE conjE) (rule that; blast)
  have ans: "\<exists>x. ed_execute dp cs rq = Some x" for cs rq using assms(4) by (simp add: agents_answer_def)
  obtain x1 where x1: "runTask dp k1 ctx m t w = (Inr x1, w1)" using r(9) ans [of "ew_calls w" rq] by auto
  have own: "aggId m = i" "loadedVersion m = Some (version m)" "distinct (map tk_id (ms_tasks m))"
    using pg.find_own [OF ok assms(9)] pg.find_clean [OF ok assms(9)] by simp_all
  have d1: "distinct (map tk_id (ms_tasks m1))" using pg.find_clean [OF r(1,2)] by simp
  note s = selected [OF assms(11)]
  obtain n where n: "start_change k2 (tk_id t) m = (None, n)" "same_plan m n" "ms_status n = MS_EXECUTING"
    using start_change_ok [OF find_by_id [OF own(3) s(1)] s(2) assms(10) s(3) own(3), of k2] by blast
  have "map tk_id (ms_tasks m1) = map tk_id (ms_tasks m)" using r(4) by (metis set_status_simps(1) tasks_view_parts(1))
  then have "same_plan (m1\<lparr>loadedVersion := Some (version m)\<rparr>) n"
    using n(2) own r(8) pg.find_own [OF ok assms(9)] pg.find_own [OF r(1,2)] by (simp add: same_plan_def)
  then have conflict: "mr_save ctx (ti_now k2) n (ew_db w1) = Inl SaveConflict"
    using pg.save_refused [OF r(1,2)] r(7) by simp
  obtain u where u: "findTask (tk_id t) m1 = Some u" "tk_status u = TK_RUNNING"
    using view_task [OF r(4) selected_view [OF assms(11)] d1] by blast
  have "fst (start_change k2 (tk_id t) m1) \<noteq> None \<and> snd (start_change k2 (tk_id t) m1) = m1"
    using u r(3) by (simp add: start_change_def or_throw_def startTask_def ms_task_op_def transitionStatus_def canTransitionTask_def)
  then obtain e where st: "start_change k2 (tk_id t) m1 = (Some e, m1)" by (cases "start_change k2 (tk_id t) m1") auto
  have n_id: "aggId n = i" using n(2) own by (simp add: same_plan_def)
  have sv: "saveAndPublish dp k2 ctx n (start_change k2 (tk_id t)) w1 = (Inr m1, w1)"
    using assms(2) conflict st pg.load_ok [OF ov r(1,2)] n_id by (simp add: saveAndPublish_def numeral_3_eq_3)
  obtain ws where ws: "ed_workspace dp ctx i (ew_db w1) = Some ws" using rs r(1,2) by (auto simp: pg.resolves_def)
  have m1_id: "aggId m1 = i" using pg.find_own [OF r(1,2)] by simp
  let ?rq = "buildExecutionRequest dp k2 ctx m1 t ws"
  obtain x2 where x2: "ed_execute dp (ew_calls w1) ?rq = Some x2" using ans by blast
  have q: "ed_meanwhile dp = (\<lambda>rq db. db)" using assms(3) by (auto simp: quiet_def)
  have "\<exists>w2. runTask dp k2 ctx m t w1 = (Inr x2, w2) \<and> ew_calls w2 = ew_calls w1 @ [?rq]"
    using n(1) sv x2 ws assms(10) r(3) m1_id q
    by (simp add: runTask_def running_not_aborted change_and_save_def Let_def)
  then show ?thesis using x1 r(5,6) by (auto simp: buildExecutionRequest_def)
qed

theorem task_runs_twice_witness:
  "\<exists>m t w1 w2 r1 r2 a b. mr_findById engine_ctx ''m'' (sample_db TK_PENDING TK_PENDING) = Some m \<and> tk_id t = ''a''
    \<and> runTask (sample_engine (\<lambda>rq. Some (sample_result XS_COMPLETED))) (sample_tick 0) engine_ctx m t (sample_run TK_PENDING TK_PENDING)
       = (Inr r1, w1)
    \<and> runTask (sample_engine (\<lambda>rq. Some (sample_result XS_COMPLETED))) (sample_tick 1) engine_ctx m t w1 = (Inr r2, w2)
    \<and> ew_calls w2 = [a, b] \<and> xq_taskId a = ''a'' \<and> xq_taskId b = ''a''"
proof -
  obtain m where m: "mr_findById engine_ctx ''m'' (sample_db TK_PENDING TK_PENDING) = Some m" "ms_status m = MS_EXECUTING"
    "tasks_view m = [(''a'', [], TK_PENDING), (''b'', [''a''], TK_PENDING)]" using sample_db_facts(3) by blast
  obtain t where t: "selectNextTask m = Some t" "tk_id t = ''a''" using selected_of_view [OF m(3)] by blast
  have "\<exists>w1 w2 r1 r2 a b.
     runTask (sample_engine (\<lambda>rq. Some (sample_result XS_COMPLETED))) (sample_tick 0) engine_ctx m t (sample_run TK_PENDING TK_PENDING)
       = (Inr r1, w1)
    \<and> runTask (sample_engine (\<lambda>rq. Some (sample_result XS_COMPLETED))) (sample_tick 1) engine_ctx m t w1 = (Inr r2, w2)
    \<and> ew_calls w2 = ew_calls (sample_run TK_PENDING TK_PENDING) @ [a, b] \<and> xq_taskId a = tk_id t \<and> xq_taskId b = tk_id t"
    by (rule task_runs_twice [where i = "''m''" and memberships = "[(''t'', ''w'', ''u'')]"])
      (use m t sample_db_facts(1,2) sample_member in \<open>simp_all add: agents_answer_def\<close>)
  then show ?thesis using m(1) t(2) by auto
qed

subsection \<open>Planning\<close>

text \<open>The plan check reads id, agent, capability and dependencies of a task.\<close>

definition same_node :: "(mission_task \<Rightarrow> mission_task) \<Rightarrow> bool" where
  "same_node f \<longleftrightarrow> (\<forall>t. tk_id (f t) = tk_id t \<and> tk_agentId (f t) = tk_agentId t
     \<and> tk_requiredCapability (f t) = tk_requiredCapability t \<and> tk_dependsOn (f t) = tk_dependsOn t)"

lemma taskById_map:
  assumes "same_node f"
  shows "taskById (map f ts) i = map_option f (taskById ts i)"
proof -
  have "map_of (map (\<lambda>t. (tk_id t, t)) (map f xs)) i = map_option f (map_of (map (\<lambda>t. (tk_id t, t)) xs) i)" for xs
    using assms by (induction xs) (simp_all add: same_node_def)
  from this [of "rev ts"] show ?thesis by (simp add: taskById_def rev_map)
qed

lemma visit_map:
  "same_node f \<Longrightarrow> visit (map f ts) stack i V = visit ts stack i V"
  "same_node f \<Longrightarrow> visit_all (map f ts) stack ds V = visit_all ts stack ds V"
proof (induction ts stack i V and ts stack ds V rule: visit_visit_all.induct)
  case (1 ts stack i V)
  show ?case
  proof (cases "i \<in> stack \<or> i \<in> V")
    case True
    then show ?thesis by (auto simp: visit.simps [of _ stack i V])
  next
    case False
    show ?thesis
    proof (cases "taskById ts i")
      case None
      then show ?thesis using "1.prems" False by (simp add: visit.simps [of _ stack i V] taskById_map)
    next
      case (Some t)
      have "tk_dependsOn (f t) = tk_dependsOn t" using "1.prems" by (simp add: same_node_def)
      moreover have "visit_all (map f ts) (insert i stack) (tk_dependsOn t) V = visit_all ts (insert i stack) (tk_dependsOn t) V"
        using "1.IH" [OF _ _ Some "1.prems"] False by simp
      ultimately show ?thesis using "1.prems" False Some by (simp add: visit.simps [of _ stack i V] taskById_map)
    qed
  qed
next
  case (3 ts stack d ds V)
  then show ?case by (auto split: sum.split)
qed auto

lemma validateTaskGraph_map:
  assumes "same_node f"
  shows "validateTaskGraph (map f ts) v = validateTaskGraph ts v"
proof -
  have i: "map tk_id (map f ts) = map tk_id ts" using assms by (simp add: same_node_def)
  have "check_task ids (f t) = check_task ids t" for ids t using assms by (simp add: same_node_def check_task_def)
  then have c: "check_tasks ids (map f xs) = check_tasks ids xs" for ids xs by (induction xs) (simp_all split: option.split)
  show ?thesis unfolding validateTaskGraph_def Let_def i c visit_map(2) [OF assms] ..
qed

lemma stored_task_node: "same_node (stored_task m)"
  by (simp add: same_node_def stored_task_def)

lemma validateTaskGraph_distinct: "validateTaskGraph ts v = None \<Longrightarrow> distinct (map tk_id ts)"
proof -
  have "\<not> has_duplicates is seen \<Longrightarrow> distinct is \<and> set is \<inter> seen = {}" for "is" :: "string list" and seen
    by (induction "is" arbitrary: seen) auto
  then show "validateTaskGraph ts v = None \<Longrightarrow> distinct (map tk_id ts)"
    by (auto simp: validateTaskGraph_def Let_def split: if_splits)
qed

text \<open>What a change that only adds tasks and raises events keeps.\<close>

definition same_identity :: "mission \<Rightarrow> mission \<Rightarrow> bool" where
  "same_identity a b \<longleftrightarrow> aggId b = aggId a \<and> tenantId b = tenantId a \<and> ms_workspaceId b = ms_workspaceId a
     \<and> ms_workspaceBindingState b = ms_workspaceBindingState a \<and> loadedVersion b = loadedVersion a"

lemma ms_addTask_Ok:
  "ms_addTask p corr ev now m = (Ok x, m') \<Longrightarrow> same_identity m m' \<and> ms_status m' = ms_status m \<and> ms_plan m' = ms_plan m
     \<and> ms_tasks m' = ms_tasks m @ [new_task p]"
  by (auto simp: ms_addTask_def Let_def applyEvent_def same_identity_def split: if_splits)

lemma add_tasks_None:
  "add_tasks dp k ctx planId ts m = (None, m') \<Longrightarrow> same_identity m m' \<and> ms_status m' = ms_status m \<and> ms_plan m' = ms_plan m
     \<and> ms_tasks m' = ms_tasks m @ map (\<lambda>t. new_task (mapTaskContractToProps dp (ti_corr k) m t planId)) ts
     \<and> list_all (\<lambda>t. validateCapability dp ctx t = None) ts"
proof (induction ts arbitrary: m)
  case (Cons t ts)
  let ?p = "mapTaskContractToProps dp (ti_corr k) m t planId"
  from Cons.prems obtain x m1 where c: "validateCapability dp ctx t = None"
    "ms_addTask ?p (ti_corr k) (ti_ev k) (ti_now k) m = (Ok x, m1)" "add_tasks dp k ctx planId ts m1 = (None, m')"
    by (auto simp: and_then_def or_throw_def split: option.splits prod.splits result.splits)
  note a = ms_addTask_Ok [OF c(2)]
  have "mapTaskContractToProps dp (ti_corr k) m1 = mapTaskContractToProps dp (ti_corr k) m"
    using a by (intro ext) (simp add: mapTaskContractToProps_def same_identity_def)
  then show ?case using Cons.IH [OF c(3)] a c(1) by (simp add: same_identity_def)
qed (simp add: same_identity_def)

lemma apply_plan_None:
  assumes "apply_plan dp k ctx plan m = (None, m')"
  shows "same_identity m m'" and "ms_status m' = MS_EXECUTING" and "ms_plan m' = as_mission_plan dp plan"
    and "validateTaskGraph (ms_tasks m') (pc_version plan) = None"
    and "ms_tasks m' = ms_tasks m @ map (\<lambda>t. new_task (mapTaskContractToProps dp (ti_corr k) m t (pc_planId plan))) (flattenTasks plan)"
    and "list_all (\<lambda>t. validateCapability dp ctx t = None) (flattenTasks plan)"
proof -
  from assms obtain ma where a: "add_tasks dp k ctx (pc_planId plan) (flattenTasks plan) m = (None, ma)"
    and b: "or_throw (ms_planValid (ti_corr k) (ti_ev k) (ti_now k)) CannotMarkPlanValid (ma\<lparr>ms_plan := as_mission_plan dp plan\<rparr>) = (None, m')"
    by (auto simp: apply_plan_def and_then_def split: prod.splits option.splits)
  note f = add_tasks_None [OF a]
  have v: "validateTaskGraph (ms_tasks ma) (pc_version plan) = None \<and> ms_status m' = MS_EXECUTING \<and> ms_tasks m' = ms_tasks ma
      \<and> ms_plan m' = as_mission_plan dp plan \<and> same_identity ma m'"
    using b by (auto simp: or_throw_def ms_planValid_def ms_transitionTo_def as_mission_plan_def same_identity_def applyEvent_def Let_def
        split: prod.splits result.splits option.splits if_splits)
  then show "ms_status m' = MS_EXECUTING" "ms_plan m' = as_mission_plan dp plan"
    "validateTaskGraph (ms_tasks m') (pc_version plan) = None" by simp_all
  show "same_identity m m'" using v f by (simp add: same_identity_def)
  show "ms_tasks m' = ms_tasks m @ map (\<lambda>t. new_task (mapTaskContractToProps dp (ti_corr k) m t (pc_planId plan))) (flattenTasks plan)"
    "list_all (\<lambda>t. validateCapability dp ctx t = None) (flattenTasks plan)" using v f by simp_all
qed

text \<open>A mission whose stored version is the one it was loaded at is stored, whatever its plan.\<close>

lemma save_current:
  assumes "db_ok db" and "mr_findById ctx i db = Some m0" and "same_identity m0 m" and "int_column (pl_version (ms_plan m)) = Some v"
  shows "\<exists>db1. mr_save ctx now m db = Inr (setVersion (version m) m, db1)"
proof -
  from assms(2) obtain r where r: "truthy (cx_workspaceId ctx)" "r \<in> set (db_missions db)" "bound_row ctx i r"
    and m0: "m0 = load_mission i r db" by (rule mr_findById_Some)
  have dm: "distinct (map mr_id (db_missions db))" using assms(1) by (simp add: db_ok_def)
  have sm: "List.find (same_mission ctx i) (db_missions db) = Some r"
    by (rule find_unique [OF r(2)])
      (use r(3) mission_of_id [OF dm _ r(2)] in \<open>auto simp: bound_row_def same_mission_def\<close>)
  have "list_ex (\<lambda>x. same_mission ctx i x \<and> mr_version x = mr_version r) (db_missions db)"
    using r(2,3) by (auto simp: list_ex_iff bound_row_def same_mission_def)
  then show ?thesis
    using r(1,3) sm assms(3,4) by (auto simp: mr_save_def m0 same_identity_def bound_row_def update_mission_row_def Let_def)
qed

text \<open>A call of \<open>planMission\<close> that returns has stored the planned mission, in one attempt.\<close>

lemma planMission_Inr:
  assumes "ed_find dp = mr_findById" and "ed_save dp = mr_save" and "db_ok (ew_db w)" and "no_legacy i (ew_db w)"
    and "mr_findById ctx i (ew_db w) = Some m" and "planMission dp k ctx i w = (Inr (), w')"
  obtains plan m1 v where "buildPlan dp k ctx m = Inr plan" and "apply_plan dp k ctx plan m = (None, m1)" and "aggId m1 = i"
    and "pl_version (ms_plan m1) = Fin (of_int v)"
    and "mr_save ctx (ti_now k) m1 (ew_db w) = Inr (setVersion (version m1) m1, ew_db w')"
    and "ew_approvals w' = ew_approvals w" and "ew_calls w' = ew_calls w"
proof -
  note ok = conjI [OF assms(3,4)]
  note ld = pg.load_ok [OF pg_over [OF assms(1,2)] ok assms(5)]
  obtain plan where b: "buildPlan dp k ctx m = Inr plan"
    using assms(6) ld by (cases "buildPlan dp k ctx m") (auto simp: planMission_def split: if_splits)
  obtain r w1 where cs: "change_and_save dp k ctx (apply_plan dp k ctx plan) m w = (r, w1)" by (rule prod.exhaust)
  then obtain y where y: "r = Inr y" "w1 = w'" using assms(6) ld b by (cases r) (auto simp: planMission_def split: if_splits)
  obtain m1 where a: "apply_plan dp k ctx plan m = (None, m1)"
    and sv: "saveAndPublish dp k ctx m1 (apply_plan dp k ctx plan) w = (Inr y, w')"
    using cs y by (auto simp: change_and_save_def split: prod.splits option.splits)
  note f = apply_plan_None [OF a]
  have i1: "aggId m1 = i" using f(1) pg.find_own [OF ok assms(5)] by (simp add: same_identity_def)
  show thesis
  proof (cases "int_column (pl_version (ms_plan m1))")
    case None
    then have "mr_save ctx (ti_now k) m1 (ew_db w) = Inl SaveOwnership \<or> mr_save ctx (ti_now k) m1 (ew_db w) = Inl SaveDatabase"
      by (auto simp: mr_save_def)
    then show ?thesis using sv assms(2) by (auto simp: saveAndPublish_def numeral_3_eq_3)
  next
    case (Some v)
    obtain db1 where s: "mr_save ctx (ti_now k) m1 (ew_db w) = Inr (setVersion (version m1) m1, db1)"
      using save_current [OF assms(3,5) f(1) Some] by blast
    then have "ew_db w' = db1" "ew_approvals w' = ew_approvals w" "ew_calls w' = ew_calls w"
      using sv assms(2) by (auto simp: saveAndPublish_def numeral_3_eq_3)
    then show ?thesis using that b a i1 int_column_Some [OF Some] s by blast
  qed
qed

text \<open>What a load finds after a save, whatever becomes of the plan: the row of the mission, and no new task of the current plan.\<close>

lemma saved_is_found:
  assumes "mr_save ctx now m db = Inr (m1, db1)" and "db_ok db" and "no_legacy (aggId m) db"
    and "pl_version (ms_plan m) = Fin (of_int v)"
  shows "\<exists>c. mr_findById ctx (aggId m) db1 = Some (load_mission (aggId m) (row_of ctx c now v m) db1)"
    and "current_plan ctx (aggId m) db = Some v \<Longrightarrow> db_tasks db1 = db_tasks db"
proof -
  from assms(1) obtain v' db' where v: "int_column (pl_version (ms_plan m)) = Some v'" "ms_workspaceBindingState m = WORKSPACE_BOUND"
      "truthy (cx_workspaceId ctx)"
    and w: "write_row ctx now v' (map_option mr_version (List.find (same_mission ctx (aggId m)) (db_missions db)))
       (nullish_opt (loadedVersion m) (map_option mr_version (List.find (same_mission ctx (aggId m)) (db_missions db)))) m db = Some db'"
    and d1: "db1 = foldl (upsertTaskExecutionState (aggId m) v')
       (if map_option mr_planVersion (List.find (same_mission ctx (aggId m)) (db_missions db)) \<noteq> Some v' then write_plan v' m db' else db') (ms_tasks m)"
    by (rule mr_save_Inr)
  have v': "v' = v" using int_column_Some [OF v(1)] assms(4) by simp
  note row = written_row [OF w v(2) assms(2) [unfolded db_ok_def, THEN conjunct1] assms(3)]
  obtain c where c: "List.find (bound_row ctx (aggId m)) (db_missions db') = Some (row_of ctx c now v' m)" using row(1) by blast
  have "db_missions db1 = db_missions db'" unfolding d1 by simp
  then show "\<exists>c. mr_findById ctx (aggId m) db1 = Some (load_mission (aggId m) (row_of ctx c now v m) db1)"
    using c v(3) v' by (auto simp: mr_findById_def)
  show "db_tasks db1 = db_tasks db" if "current_plan ctx (aggId m) db = Some v"
    using that v' missions_only(2) [OF row(2)] unfolding d1 by (simp add: current_plan_def)
qed

lemma no_task_rows:
  assumes "db_ok db" and "mr_findById ctx i db = Some m" and "ms_tasks m = []" and "current_plan ctx i db = Some v"
  shows "filter (\<lambda>t. tkr_mission t = i \<and> tkr_planVersion t = v) (db_tasks db) = []"
proof -
  from assms(2) obtain r where r: "r \<in> set (db_missions db)" "bound_row ctx i r" "m = load_mission i r db" by (rule mr_findById_Some)
  have "List.find (same_mission ctx i) (db_missions db) = Some r"
    by (rule find_unique [OF r(1)])
      (use r(2) mission_of_id [OF _ _ r(1)] assms(1) in \<open>auto simp: bound_row_def same_mission_def db_ok_def\<close>)
  then have "mr_planVersion r = v" using assms(4) by (simp add: current_plan_def)
  then show ?thesis using assms(3) unfolding r(3) load_mission_plan(2) by simp
qed

lemma plan_new_version:
  assumes "db_ok db" and "no_legacy (aggId m1) db" and "apply_plan dp k ctx plan m = (None, m1)" and "ms_tasks m = []"
    and "pl_version (ms_plan m1) = Fin (of_int v)" and "version_unused (aggId m1) v db" and "current_plan ctx (aggId m1) db \<noteq> Some v"
    and "list_all (\<lambda>t. distinct (tc_dependsOn t)) (flattenTasks plan)" and "mr_save ctx now m1 db = Inr (m2, db1)"
  shows "\<exists>m'. mr_findById ctx (aggId m1) db1 = Some m' \<and> map tk_id (ms_tasks m') = map tc_taskId (flattenTasks plan)
    \<and> validateTaskGraph (ms_tasks m') (pl_version (ms_plan m')) = None"
proof -
  note f = apply_plan_None [OF assms(3)]
  have ty: "deps_distinct (ms_tasks m1)"
    using f(5) assms(4,8) by (simp add: deps_distinct_def list_all_iff mapTaskContractToProps_def)
  obtain c where c: "mr_findById ctx (aggId m1) db1 = Some (m1\<lparr>ms_tasks := map (stored_task m1) (ms_tasks m1), ms_approvals := [],
       ms_createdAt := c, ms_updatedAt := now, loadedVersion := Some (version m1), domainEvents := []\<rparr>)"
    using save_new_plan [OF assms(1,2,6,7,5) validateTaskGraph_distinct [OF f(4)] ty assms(9)] by blast
  have "map tk_id (ms_tasks m1) = map tc_taskId (flattenTasks plan)" "pc_version plan = pl_version (ms_plan m1)"
    using f(3,5) assms(4) by (simp_all add: comp_def mapTaskContractToProps_def as_mission_plan_def)
  then show ?thesis
    using c f(4) validateTaskGraph_map [OF stored_task_node [of m1], of "ms_tasks m1"]
    by (auto simp: comp_def stored_task_def)
qed

text \<open>
  (C7) What planning stores. When \<open>planMission\<close> returns for a mission without tasks, on Postgres tables
  with unique keys, the mission bound to its workspace, with no other writer
  and a plan in which no task lists a dependency twice, the stored mission executes, every task of the
  plan passed the check for its agent and the capability it asks for, and the tasks that are stored are
  those of the plan, accepted by the plan check, when the tables hold nothing yet of the plan's version.
  When the mission was created with a plan of that same version, which both planners give as 1, the
  executing mission is stored without any task.
\<close>

theorem planned_mission_is_valid:
  assumes "ed_find dp = mr_findById" and "ed_save dp = mr_save" and "db_ok (ew_db w)" and "no_legacy i (ew_db w)"
    and "mr_findById ctx i (ew_db w) = Some m" and "ms_tasks m = []"
    and "buildPlan dp k ctx m = Inr plan" and "pc_version plan = Fin (of_int v)"
    and "list_all (\<lambda>t. distinct (tc_dependsOn t)) (flattenTasks plan)"
    and "planMission dp k ctx i w = (Inr (), w')"
  shows "\<exists>m'. mr_findById ctx i (ew_db w') = Some m' \<and> ms_status m' = MS_EXECUTING
    \<and> list_all (\<lambda>t. validateCapability dp ctx t = None) (flattenTasks plan)
    \<and> (version_unused i v (ew_db w) \<and> current_plan ctx i (ew_db w) \<noteq> Some v
       \<longrightarrow> map tk_id (ms_tasks m') = map tc_taskId (flattenTasks plan)
         \<and> validateTaskGraph (ms_tasks m') (pl_version (ms_plan m')) = None)
    \<and> (current_plan ctx i (ew_db w) = Some v \<longrightarrow> ms_tasks m' = [])"
proof -
  obtain pl m1 v1 where b: "buildPlan dp k ctx m = Inr pl" and a0: "apply_plan dp k ctx pl m = (None, m1)" and i: "aggId m1 = i"
    and pv1: "pl_version (ms_plan m1) = Fin (of_int v1)"
    and s: "mr_save ctx (ti_now k) m1 (ew_db w) = Inr (setVersion (version m1) m1, ew_db w')"
    by (rule planMission_Inr [OF assms(1-5,10)])
  have a: "apply_plan dp k ctx plan m = (None, m1)" using a0 b assms(7) by simp
  note f = apply_plan_None [OF a]
  have v1: "v1 = v" using f(3) pv1 assms(8) by (simp add: as_mission_plan_def)
  note pv = pv1 [unfolded v1]
  note sf = saved_is_found [OF s assms(3) _ pv, unfolded i, OF assms(4)]
  obtain c where c: "mr_findById ctx i (ew_db w') = Some (load_mission i (row_of ctx c (ti_now k) v m1) (ew_db w'))" using sf(1) by blast
  let ?m = "load_mission i (row_of ctx c (ti_now k) v m1) (ew_db w')"
  have "ms_status ?m = MS_EXECUTING" using f(2) by (simp add: row_of_def)
  moreover have "ms_tasks ?m = []" if "current_plan ctx i (ew_db w) = Some v"
    using sf(2) [OF that] no_task_rows [OF assms(3,5,6) that] unfolding load_mission_plan(2) by (simp add: row_of_def)
  moreover have "map tk_id (ms_tasks ?m) = map tc_taskId (flattenTasks plan) \<and> validateTaskGraph (ms_tasks ?m) (pl_version (ms_plan ?m)) = None"
    if "version_unused i v (ew_db w) \<and> current_plan ctx i (ew_db w) \<noteq> Some v"
    using plan_new_version [OF assms(3) _ a assms(6) pv _ _ assms(9) s, unfolded i, OF assms(4)] that c by auto
  ultimately show ?thesis using c f(6) by blast
qed

text \<open>A mission that waits to be planned, and a planner with a plan of one task.\<close>

definition unplanned_sample :: "int \<Rightarrow> mission" where
  "unplanned_sample v = (ms_construct 0 (sample_mission_props\<lparr>mi_plan := sample_plan (Fin (of_int v))\<rparr>))\<lparr>ms_status := MS_PLANNING, version := 3\<rparr>"

definition unplanned_db :: "int \<Rightarrow> mission_db" where
  "unplanned_db v = (case mr_save engine_ctx 9 (unplanned_sample v) no_rows of Inr (m, db) \<Rightarrow> db | Inl x \<Rightarrow> no_rows)"

definition one_task_plan :: plan_contract where
  "one_task_plan = \<lparr>pc_planId = ''p'', pc_missionId = ''m'', pc_version = Fin 1, pc_objectives = [],
     pc_phases = [\<lparr>ph_phaseId = ''h'', ph_name = ''n'', ph_tasks = [\<lparr>tc_taskId = ''a'', tc_missionId = ''m'', tc_planId = ''p'',
        tc_agentId = ''agent-1'', tc_agentVersion = ''1'', tc_taskType = ''research'', tc_requiredCapability = None,
        tc_status = TK_PENDING, tc_input = JNull, tc_output = None, tc_dependsOn = [], tc_deadline = None, tc_approvalGateId = None\<rparr>],
        ph_approvalGate = None, ph_fallback = None\<rparr>],
     pc_approvalGates = [], pc_fallbackBranches = []\<rparr>"

definition planning_engine :: "(exec_request \<Rightarrow> exec_result option) \<Rightarrow> mission_db engine_deps" where
  "planning_engine answer = (sample_engine answer)\<lparr>ed_planner := (\<lambda>ctx rq. Inr one_task_plan)\<rparr>"

lemma planning_engine_simps [simp]:
  "ed_find (planning_engine f) = mr_findById" "ed_save (planning_engine f) = mr_save"
  "ed_workspace (planning_engine f) = resolveAuthorizedWorkspace [(''t'', ''w'', ''u'')]"
  "quiet (planning_engine f)" "compensates (planning_engine f)" "ed_execute (planning_engine f) cs = f"
  "ed_planner (planning_engine f) = (\<lambda>ctx rq. Inr one_task_plan)" "ed_getAgent (planning_engine f) = (\<lambda>ctx i v. Some sample_agent)"
  by (simp_all add: planning_engine_def sample_engine_def quiet_def compensates_def)

lemma unplanned_simps:
  "aggId (unplanned_sample v) = ''m''" "tenantId (unplanned_sample v) = ''t''" "loadedVersion (unplanned_sample v) = None"
  "version (unplanned_sample v) = 3" "ms_status (unplanned_sample v) = MS_PLANNING" "ms_plan (unplanned_sample v) = sample_plan (Fin (of_int v))"
  "ms_workspaceId (unplanned_sample v) = Some ''w''" "ms_workspaceBindingState (unplanned_sample v) = WORKSPACE_BOUND"
  "ms_tasks (unplanned_sample v) = []"
  by (simp_all add: unplanned_sample_def ms_construct_def sample_mission_props_def)

lemma unplanned_db_facts:
  assumes "v \<in> {0, 1}"
  shows "db_ok (unplanned_db v)" "no_legacy ''m'' (unplanned_db v)" "v = 0 \<Longrightarrow> version_unused ''m'' 1 (unplanned_db v)"
    "current_plan engine_ctx ''m'' (unplanned_db v) = Some v"
    "\<exists>m. mr_findById engine_ctx ''m'' (unplanned_db v) = Some m \<and> ms_status m = MS_PLANNING \<and> ms_tasks m = [] \<and> aggId m = ''m''"
proof -
  have "\<exists>db1. mr_save engine_ctx 9 (unplanned_sample v) no_rows = Inr (setVersion 3 (unplanned_sample v), db1)
      \<and> (v = 0 \<longrightarrow> version_unused ''m'' 1 db1) \<and> current_plan engine_ctx ''m'' db1 = Some v"
    using assms by (auto simp: mr_save_def unplanned_simps engine_ctx_def no_rows_def insert_mission_row_def sample_plan_def Let_def
        write_plan_def insert_new_def version_unused_def current_plan_def same_mission_def)
  then obtain db where s: "mr_save engine_ctx 9 (unplanned_sample v) no_rows = Inr (setVersion 3 (unplanned_sample v), db)"
    and u: "v = 0 \<longrightarrow> version_unused ''m'' 1 db" "current_plan engine_ctx ''m'' db = Some v" by blast
  have d: "unplanned_db v = db" by (simp add: unplanned_db_def s)
  show "db_ok (unplanned_db v)" "no_legacy ''m'' (unplanned_db v)"
    using mr_save_ok [OF s no_rows_ok(1,2)] by (simp_all add: d unplanned_simps)
  show "v = 0 \<Longrightarrow> version_unused ''m'' 1 (unplanned_db v)" "current_plan engine_ctx ''m'' (unplanned_db v) = Some v" using u d by simp_all
  have "\<exists>c. mr_findById engine_ctx (aggId (unplanned_sample v)) db = Some ((unplanned_sample v)\<lparr>
       ms_tasks := map (stored_task (unplanned_sample v)) (ms_tasks (unplanned_sample v)), ms_approvals := [], ms_createdAt := c,
       ms_updatedAt := 9, loadedVersion := Some (version (unplanned_sample v)), domainEvents := []\<rparr>)"
    by (rule save_new_plan [where v = v, OF no_rows_ok(1,2,3,4) _ _ _ s])
      (simp_all add: unplanned_simps sample_plan_def deps_distinct_def)
  then show "\<exists>m. mr_findById engine_ctx ''m'' (unplanned_db v) = Some m \<and> ms_status m = MS_PLANNING \<and> ms_tasks m = [] \<and> aggId m = ''m''"
    by (auto simp: d unplanned_simps)
qed

lemma one_task_applied:
  assumes "ms_status m = MS_PLANNING" and "ms_tasks m = []"
  shows "\<exists>m'. apply_plan (planning_engine f) k ctx one_task_plan m = (None, m')"
proof -
  let ?t = "hd (flattenTasks one_task_plan)"
  let ?p = "mapTaskContractToProps (planning_engine f) (ti_corr k) m ?t ''p''"
  let ?add = "\<lambda>m. ms_addTask (mapTaskContractToProps (planning_engine f) (ti_corr k) m ?t ''p'') (ti_corr k) (ti_ev k) (ti_now k) m"
  have t: "flattenTasks one_task_plan = [?t]" "tc_taskId ?t = ''a''" "tc_agentId ?t = ''agent-1''" "tc_requiredCapability ?t = None"
    "tc_dependsOn ?t = []" "pc_planId one_task_plan = ''p''" "pc_version one_task_plan = Fin 1"
    by (simp_all add: flattenTasks_def one_task_plan_def)
  have p: "tk_id ?p = ''a''" "tk_agentId ?p = ''agent-1''" "tk_requiredCapability ?p = None" "tk_dependsOn ?p = []"
    using t by (simp_all add: mapTaskContractToProps_def)
  have "fst (?add m) = Ok (new_task ?p)"
    using assms p by (simp add: ms_addTask_def ms_isTerminal_def Let_def)
  then obtain ma where ma: "?add m = (Ok (new_task ?p), ma)" by (cases "?add m") auto
  note fa = ms_addTask_Ok [OF ma]
  have add: "add_tasks (planning_engine f) k ctx ''p'' [?t] m = (None, ma)"
    using ma t(4) by (simp add: validateCapability_def and_then_def or_throw_def)
  have add2: "add_tasks (planning_engine f) k ctx ''p'' (flattenTasks one_task_plan) m = (None, ma)"
    by (subst t(1)) (rule add)
  have "validateTaskGraph [new_task ?p] (Fin 1) = None"
    using p by (simp add: validateTaskGraph_def check_task_def js_trim_def js_space_def visit.simps taskById_def)
  then have "fst (ms_planValid (ti_corr k) (ti_ev k) (ti_now k) (ma\<lparr>ms_plan := as_mission_plan (planning_engine f) one_task_plan\<rparr>)) = Ok ()"
    using fa assms t(7) by (simp add: ms_planValid_def ms_transitionTo_def canTransitionMission_def as_mission_plan_def)
  from or_throw_ok [where f = "ms_planValid (ti_corr k) (ti_ev k) (ti_now k)", OF this, of CannotMarkPlanValid] show ?thesis
    by (simp add: apply_plan_def and_then_def t(6) add2)
qed

abbreviation unplanned_world :: "int \<Rightarrow> mission_db engine_world" where
  "unplanned_world v \<equiv> (sample_run TK_PENDING TK_PENDING)\<lparr>ew_db := unplanned_db v\<rparr>"

lemma unplanned_is_planned:
  assumes "v \<in> {0, 1}"
  shows "\<exists>w' m'. planMission (planning_engine f) (sample_tick n) engine_ctx ''m'' (unplanned_world v) = (Inr (), w')
    \<and> mr_findById engine_ctx ''m'' (ew_db w') = Some m' \<and> (v = 0 \<longrightarrow> map tk_id (ms_tasks m') = [''a''])"
proof -
  let ?k = "sample_tick n"
  note u = unplanned_db_facts [OF assms]
  obtain m where m: "mr_findById engine_ctx ''m'' (unplanned_db v) = Some m" "ms_status m = MS_PLANNING" "ms_tasks m = []" "aggId m = ''m''"
    using u(5) by blast
  obtain m1 where a: "apply_plan (planning_engine f) ?k engine_ctx one_task_plan m = (None, m1)"
    using one_task_applied [OF m(2,3)] by blast
  note pf = apply_plan_None [OF a]
  have pv: "int_column (pl_version (ms_plan m1)) = Some 1" using pf(3) by (simp add: as_mission_plan_def one_task_plan_def)
  note pv1 = int_column_Some [OF pv]
  have i: "aggId m1 = ''m''" using pf(1) m(4) by (simp add: same_identity_def)
  obtain db1 where s: "mr_save engine_ctx (int n) m1 (unplanned_db v) = Inr (setVersion (version m1) m1, db1)"
    using save_current [OF u(1) m(1) pf(1) pv] by blast
  have b: "buildPlan (planning_engine f) ?k engine_ctx m = Inr one_task_plan" by (simp add: buildPlan_def)
  have ld: "loadMission (planning_engine f) engine_ctx ''m'' (unplanned_db v) = Inr m"
    by (rule pg.load_ok [OF pg_over conjI]) (use u(1,2) m(1) in simp_all)
  have "\<exists>w'. planMission (planning_engine f) ?k engine_ctx ''m'' (unplanned_world v) = (Inr (), w') \<and> ew_db w' = db1"
    using ld m(2) b a s
    by (simp add: planMission_def change_and_save_def saveAndPublish_def numeral_3_eq_3 sample_tick_def)
  moreover have "\<exists>m'. mr_findById engine_ctx (aggId m1) db1 = Some m' \<and> map tk_id (ms_tasks m') = map tc_taskId (flattenTasks one_task_plan)
      \<and> validateTaskGraph (ms_tasks m') (pl_version (ms_plan m')) = None" if "v = 0"
    by (rule plan_new_version [where v = 1, OF u(1) _ a m(3) _ _ _ _ s])
      (use u(2-4) that pv1 in \<open>simp_all add: i flattenTasks_def one_task_plan_def\<close>)
  moreover have "\<exists>m'. mr_findById engine_ctx (aggId m1) db1 = Some m'"
    using saved_is_found(1) [OF s u(1) _ pv1] u(2) i by auto
  ultimately show ?thesis unfolding i by (auto simp: flattenTasks_def one_task_plan_def)
qed

lemma one_task_plan_facts:
  "buildPlan (planning_engine f) k engine_ctx m = Inr one_task_plan" "pc_version one_task_plan = Fin (of_int 1)"
  "list_all (\<lambda>t. distinct (tc_dependsOn t)) (flattenTasks one_task_plan)" "map tc_taskId (flattenTasks one_task_plan) = [''a'']"
  by (simp_all add: buildPlan_def flattenTasks_def one_task_plan_def)

theorem planned_mission_is_valid_witness:
  "(\<exists>w' m'. planMission (planning_engine (\<lambda>rq. None)) (sample_tick 0) engine_ctx ''m'' (unplanned_world 0) = (Inr (), w')
    \<and> mr_findById engine_ctx ''m'' (ew_db w') = Some m' \<and> ms_status m' = MS_EXECUTING \<and> map tk_id (ms_tasks m') = [''a'']
    \<and> validateTaskGraph (ms_tasks m') (pl_version (ms_plan m')) = None) \<and>
   (\<exists>w' m'. planMission (planning_engine (\<lambda>rq. None)) (sample_tick 0) engine_ctx ''m'' (unplanned_world 1) = (Inr (), w')
    \<and> mr_findById engine_ctx ''m'' (ew_db w') = Some m' \<and> ms_status m' = MS_EXECUTING \<and> ms_tasks m' = [])"
proof -
  have case_of: "\<exists>w' m'. planMission (planning_engine (\<lambda>rq. None)) (sample_tick 0) engine_ctx ''m'' (unplanned_world v) = (Inr (), w')
    \<and> mr_findById engine_ctx ''m'' (ew_db w') = Some m' \<and> ms_status m' = MS_EXECUTING
    \<and> (v = 0 \<longrightarrow> map tk_id (ms_tasks m') = [''a''] \<and> validateTaskGraph (ms_tasks m') (pl_version (ms_plan m')) = None)
    \<and> (v = 1 \<longrightarrow> ms_tasks m' = [])" if v: "v \<in> {0, 1}" for v
  proof -
    note u = unplanned_db_facts [OF v]
    obtain m where m: "mr_findById engine_ctx ''m'' (unplanned_db v) = Some m" "ms_tasks m = []" using u(5) by blast
    obtain w' where p: "planMission (planning_engine (\<lambda>rq. None)) (sample_tick 0) engine_ctx ''m'' (unplanned_world v) = (Inr (), w')"
      using unplanned_is_planned [OF v] by blast
    show ?thesis
      using planned_mission_is_valid [OF _ _ _ _ _ m(2) one_task_plan_facts(1-3) p] p m(1) u(1-4) one_task_plan_facts(4)
      by (auto simp del: of_int_1)
  qed
  show ?thesis using case_of [of 0] case_of [of 1] by simp
qed

text \<open>
  (C5) \<open>executeMission\<close> ends by itself. On Postgres tables with unique keys, for a mission bound to its
  workspace and a user who is the only member of that
  name in the workspace, with agents that answer, compensations that succeed, approval ids that are new and
  no other writer during the call: when planning returns and stores fewer pending tasks than the bound on
  iterations, the call returns with the stored mission paused, blocked, completed or failed, never still
  executing because the bound was reached; and it is completed exactly when all of its tasks are.
\<close>

theorem mission_execution_ends:
  assumes "ed_find dp = mr_findById" and "ed_save dp = mr_save" and "quiet dp" and "compensates dp" and "agents_answer dp"
    and "ed_workspace dp = resolveAuthorizedWorkspace memberships" and "sole_member memberships ctx"
    and "db_ok (ew_db w)" and "no_legacy i (ew_db w)" and "mr_findById ctx i (ew_db w) = Some m"
    and "\<forall>j. \<not> list_ex (\<lambda>r. row_id r = ti_approval (ks j)) (aw_rows (ew_approvals w))"
    and "planMission dp (ks MAX_ITERATIONS) ctx i w = (Inr (), w1)"
    and "mr_findById ctx i (ew_db w1) = Some m1" and "pending (tasks_view m1) < MAX_ITERATIONS"
  shows "\<exists>w' m'. executeMission dp ks ctx i w = (Inr (), w') \<and> mr_findById ctx i (ew_db w') = Some m'
    \<and> ms_status m' \<in> {MS_PAUSED, MS_BLOCKED, MS_COMPLETED, MS_FAILED}
    \<and> (ms_status m' = MS_COMPLETED \<longleftrightarrow> list_all (\<lambda>t. tk_status t = TK_COMPLETED) (ms_tasks m'))"
proof -
  obtain plan mp v where a: "apply_plan dp (ks MAX_ITERATIONS) ctx plan m = (None, mp)" and i: "aggId mp = i"
    and pv: "pl_version (ms_plan mp) = Fin (of_int v)"
    and s: "mr_save ctx (ti_now (ks MAX_ITERATIONS)) mp (ew_db w) = Inr (setVersion (version mp) mp, ew_db w1)"
    and aw: "ew_approvals w1 = ew_approvals w"
    by (rule planMission_Inr [OF assms(1,2,8-10,12)])
  have ok: "db_ok (ew_db w1) \<and> no_legacy i (ew_db w1)" using mr_save_ok [OF s assms(8)] assms(9) i by simp
  have "ms_status m1 = MS_EXECUTING"
    using saved_is_found(1) [OF s assms(8) _ pv] assms(9,13) i apply_plan_None(2) [OF a] by (auto simp: row_of_def)
  then have "pg.stops_well dp ctx i m1 w1 (execute_loop dp ks ctx i MAX_ITERATIONS w1)"
    by (intro pg.execute_loop_ok [OF pg_over [OF assms(1,2)] assms(3) pg_resolves [OF assms(6,7)] assms(4,5) ok assms(13)])
      (use assms(11,14) aw in \<open>simp_all add: pg.new_approval_def\<close>)
  then show ?thesis unfolding pg.stops_well_def executeMission_def by (auto simp: assms(12))
qed

theorem mission_execution_ends_witness:
  "\<exists>w' m'. executeMission (planning_engine (\<lambda>rq. Some (sample_result XS_COMPLETED))) sample_tick engine_ctx ''m'' (unplanned_world 0) = (Inr (), w')
    \<and> mr_findById engine_ctx ''m'' (ew_db w') = Some m' \<and> ms_status m' \<in> {MS_PAUSED, MS_BLOCKED, MS_COMPLETED, MS_FAILED}
    \<and> (ms_status m' = MS_COMPLETED \<longleftrightarrow> list_all (\<lambda>t. tk_status t = TK_COMPLETED) (ms_tasks m'))"
proof -
  let ?dp = "planning_engine (\<lambda>rq. Some (sample_result XS_COMPLETED))"
  obtain m where m: "mr_findById engine_ctx ''m'' (unplanned_db 0) = Some m" using unplanned_db_facts(5) [of 0] by auto
  obtain w1 m1 where p: "planMission ?dp (sample_tick MAX_ITERATIONS) engine_ctx ''m'' (unplanned_world 0) = (Inr (), w1)"
    "mr_findById engine_ctx ''m'' (ew_db w1) = Some m1" "map tk_id (ms_tasks m1) = [''a'']"
    using unplanned_is_planned [of 0 "\<lambda>rq. Some (sample_result XS_COMPLETED)" MAX_ITERATIONS] by auto
  have "length (tasks_view m1) = length (map tk_id (ms_tasks m1))" by (simp add: tasks_view_def)
  then have "length (tasks_view m1) = 1" by (simp only: p(3)) simp
  moreover have "pending (tasks_view m1) \<le> length (tasks_view m1)" by (simp add: pending_def)
  ultimately have "pending (tasks_view m1) < MAX_ITERATIONS" by (simp add: MAX_ITERATIONS_def)
  then show ?thesis
    by (intro mission_execution_ends [where ks = sample_tick, OF _ _ _ _ _ _ sample_member _ _ _ _ p(1,2)])
      (use m unplanned_db_facts(1,2) [of 0] in \<open>simp_all add: agents_answer_def\<close>)
qed

text \<open>
  A mission that was created with a plan of the version that the planner gives (both planners give 1, and
  the integration tests create their missions with a plan of version 1) is stored by the Postgres repository
  without its tasks, and then completes without a call of any agent: every task of an empty list is completed.
\<close>

theorem plan_of_same_version_does_nothing:
  assumes "ed_find dp = mr_findById" and "ed_save dp = mr_save" and "db_ok (ew_db w)" and "no_legacy i (ew_db w)"
    and "mr_findById ctx i (ew_db w) = Some m" and "ms_tasks m = []"
    and "buildPlan dp (ks MAX_ITERATIONS) ctx m = Inr plan" and "pc_version plan = Fin (of_int v)"
    and "current_plan ctx i (ew_db w) = Some v" and "planMission dp (ks MAX_ITERATIONS) ctx i w = (Inr (), w1)"
  shows "\<exists>w' m'. executeMission dp ks ctx i w = (Inr (), w') \<and> mr_findById ctx i (ew_db w') = Some m'
    \<and> ms_status m' = MS_COMPLETED \<and> ms_tasks m' = [] \<and> ew_calls w' = ew_calls w"
proof -
  let ?k = "ks MAX_ITERATIONS"
  obtain pl mp v1 where b: "buildPlan dp ?k ctx m = Inr pl" and a: "apply_plan dp ?k ctx pl m = (None, mp)" and i: "aggId mp = i"
    and pv1: "pl_version (ms_plan mp) = Fin (of_int v1)"
    and s: "mr_save ctx (ti_now ?k) mp (ew_db w) = Inr (setVersion (version mp) mp, ew_db w1)" and calls: "ew_calls w1 = ew_calls w"
    by (rule planMission_Inr [OF assms(1-5,10)])
  have "v1 = v" using apply_plan_None(3) [OF a] b assms(7,8) pv1 by (simp add: as_mission_plan_def)
  note sf = saved_is_found [OF s assms(3) _ pv1 [unfolded this], unfolded i, OF assms(4)]
  obtain c where f: "mr_findById ctx i (ew_db w1) = Some (load_mission i (row_of ctx c (ti_now ?k) v mp) (ew_db w1))" using sf(1) by blast
  let ?m = "load_mission i (row_of ctx c (ti_now ?k) v mp) (ew_db w1)"
  have st: "ms_status ?m = MS_EXECUTING" "ms_tasks ?m = []"
    using apply_plan_None(2) [OF a] sf(2) [OF assms(9)] no_task_rows [OF assms(3,5,6,9)] unfolding load_mission_plan(2)
    by (simp_all add: row_of_def)
  have ok: "db_ok (ew_db w1) \<and> no_legacy i (ew_db w1)" using mr_save_ok [OF s assms(3)] assms(4) i by simp
  note ov = pg_over [OF assms(1,2)]
  obtain n where n: "MAX_ITERATIONS = Suc n" by (simp add: MAX_ITERATIONS_def numeral_eq_Suc)
  obtain w' m' m2 where e: "evaluateCompletion dp (ks n) ctx ?m w1 = (Inr m2, w')" "mr_findById ctx i (ew_db w') = Some m'"
    "tasks_view m' = tasks_view ?m" "ew_calls w' = ew_calls w1" "ms_status m' = MS_COMPLETED"
    using pg.evaluate_ok [OF ov ok f st(1), where k = "ks n"] st(2) by auto
  have "execute_loop dp ks ctx i MAX_ITERATIONS w1 = (Inr (), w')"
    using pg.load_ok [OF ov ok f] st e(1) by (simp add: n ms_isTerminal_def selectNextTask_def Let_def del: load_mission_simps)
  then show ?thesis using e st(2) calls assms(10) by (auto simp: executeMission_def tasks_view_def)
qed

theorem plan_of_same_version_does_nothing_witness:
  "\<exists>w' m'. executeMission (planning_engine (\<lambda>rq. None)) sample_tick engine_ctx ''m'' (unplanned_world 1) = (Inr (), w')
    \<and> mr_findById engine_ctx ''m'' (ew_db w') = Some m' \<and> ms_status m' = MS_COMPLETED \<and> ms_tasks m' = [] \<and> ew_calls w' = []"
proof -
  let ?dp = "planning_engine (\<lambda>rq. None)"
  have one: "(1 :: int) \<in> {0, 1}" by simp
  note u = unplanned_db_facts [OF one]
  obtain m where m: "mr_findById engine_ctx ''m'' (unplanned_db 1) = Some m" "ms_tasks m = []" using u(5) by blast
  obtain w1 where p: "planMission ?dp (sample_tick MAX_ITERATIONS) engine_ctx ''m'' (unplanned_world 1) = (Inr (), w1)"
    using unplanned_is_planned [OF one] by blast
  show ?thesis
    using plan_of_same_version_does_nothing [where ks = sample_tick, OF _ _ _ _ _ m(2) one_task_plan_facts(1,2) _ p] m(1) u(1,2,4) by simp
qed

lemma planners_give_version_one:
  "outreach_plan encode ctx rq = Inr plan \<Longrightarrow> pc_version plan = Fin 1"
  "planner_plan templates ctx rq = Inr plan \<Longrightarrow> pc_version plan = Fin 1"
  by (auto simp: outreach_plan_def planner_plan_def Let_def split: if_splits option.splits sum.splits)

lemma replan_low_version:
  assumes "js_le (pl_version newPlan) (pl_version (ms_plan m))"
  shows "\<exists>err. ms_replan newPlan props corr ev now m = (Fail err, m)"
  using assms by (auto simp: ms_replan_def)

lemma replan_of_planner_throws:
  assumes "ed_find dp ctx i (ew_db w) = Some m" and "js_le (Fin 1) (pl_version (ms_plan m))"
    and "ed_planner dp = outreach_plan encode \<or> ed_planner dp = planner_plan templates"
  shows "\<exists>x. replanMission dp k ctx i None w = (Inl x, w)"
proof -
  have v: "pc_version plan = Fin 1" if "buildPlan dp k ctx m = Inr plan" for plan
    using that assms(3) planners_give_version_one by (auto simp: buildPlan_def split: sum.splits)
  have "\<exists>x. change_and_save dp k ctx (or_throw (ms_replan (as_mission_plan dp plan) props (ti_corr k) (ti_ev k) (ti_now k)) CannotReplan) m w
      = (Inl x, w)" if "buildPlan dp k ctx m = Inr plan" for plan props
  proof -
    have "js_le (pl_version (as_mission_plan dp plan)) (pl_version (ms_plan m))"
      using v [OF that] assms(2) by (simp add: as_mission_plan_def)
    then obtain err where "ms_replan (as_mission_plan dp plan) props (ti_corr k) (ti_ev k) (ti_now k) m = (Fail err, m)"
      using replan_low_version by blast
    then show ?thesis by (simp add: change_and_save_def or_throw_def)
  qed
  then have c: "\<exists>x. eng_bind (change_and_save dp k ctx (or_throw (ms_replan (as_mission_plan dp plan) props (ti_corr k) (ti_ev k) (ti_now k)) CannotReplan) m w)
      (\<lambda>_ w. (Inr (), w)) = (Inl x, w)" if "buildPlan dp k ctx m = Inr plan" for plan props
    using that by (metis eng_bind.simps(1))
  show ?thesis
  proof (cases "loadMission dp ctx i (ew_db w)")
    case (Inl x)
    then show ?thesis by (simp add: replanMission_def)
  next
    case (Inr m')
    then have "m' = m" using assms(1) by (simp add: loadMission_def split: if_splits)
    then show ?thesis using Inr c by (auto simp: replanMission_def split: sum.split)
  qed
qed

text \<open>
  A mission whose plan is in use cannot be replanned by the planners of the repository: both give
  every plan the version 1, which is never greater than that of the plan, so \<open>replanMission\<close> without
  a plan of the caller throws and stores nothing, for every mission and every configuration of phases.
\<close>

theorem replan_by_planner_refused:
  assumes "ed_find dp ctx i (ew_db w) = Some m" and "js_le (Fin 1) (pl_version (ms_plan m))"
    and "ed_planner dp = outreach_plan encode \<or> ed_planner dp = planner_plan templates"
  shows "\<exists>x. replanMission dp k ctx i None w = (Inl x, w)"
  by (rule replan_of_planner_throws [OF assms])

theorem replan_by_planner_refused_witness:
  "\<exists>x. replanMission (sample_engine (\<lambda>rq. None)) (sample_tick 0) engine_ctx ''m'' None (sample_run TK_PENDING TK_PENDING)
     = (Inl x, sample_run TK_PENDING TK_PENDING)"
proof -
  obtain m where m: "mr_findById engine_ctx ''m'' (sample_db TK_PENDING TK_PENDING) = Some m" "pl_version (ms_plan m) = Fin 1"
    using sample_db_facts(3) by blast
  show ?thesis
    by (rule replan_by_planner_refused [where m = m and encode = "\<lambda>m. JNull"])
      (use m in \<open>simp_all add: sample_engine_def\<close>)
qed

end
