(* ===== verification/MissionControl.thy ===== *)
theory MissionControl
  imports MissionExecution
begin

section \<open>Controlling a mission: the orchestrator service and the mission workflow\<close>

text \<open>
  \<open>application/mission-orchestrator.service.ts\<close> of \<open>packages/mission-orchestrator\<close>, which starts, pauses,
  resumes and cancels stored missions and tells their workflows, and the loop of
  \<open>apps/temporal-worker/src/workflows/mission-workflow.ts\<close>, which runs the engine step by step until the
  mission is done. \<open>cd_meanwhile\<close> is what other writers do to the tables between the load and the save
  of an attempt (the argument is the number of attempts left after it); \<open>cd_start\<close> and \<open>cd_signal\<close> say
  whether the workflow client accepts a call or throws.
\<close>

datatype mission_control = PauseSignal string | ResumeSignal | CancelSignal string | ReplanSignal string

text \<open>The commands of \<open>application/contracts.ts\<close>, without the mission id, and the signals they send.\<close>

datatype mission_command = PauseMission string | ResumeMission | CancelMission string | ReplanMission

fun command_signal :: "mission_command \<Rightarrow> mission_control" where
  "command_signal (PauseMission r) = PauseSignal r"
| "command_signal ResumeMission = ResumeSignal"
| "command_signal (CancelMission r) = CancelSignal r"
| "command_signal ReplanMission = ReplanSignal ''Dynamic replan''"

record workflow_start =
  ws_type :: string
  ws_workflowId :: string
  ws_taskQueue :: string
  ws_tenantId :: string
  ws_workspaceId :: "string option"
  ws_userId :: string
  ws_missionId :: string
  ws_correlationId :: string

datatype control_exn =
    ControlNotFound string | ControlCrossTenant | ControlWrongStatus ms_status | ControlRefused ms_op_error
  | ControlSave save_error | WorkflowStartThrew | SignalThrew

record 'db control_deps =
  cd_find :: "tenant_context \<Rightarrow> string \<Rightarrow> 'db \<Rightarrow> mission option"
  cd_save :: "tenant_context \<Rightarrow> int \<Rightarrow> mission \<Rightarrow> 'db \<Rightarrow> save_error + (mission \<times> 'db)"
  cd_meanwhile :: "nat \<Rightarrow> 'db \<Rightarrow> 'db"
  cd_start :: "workflow_start \<Rightarrow> bool"
  cd_signal :: "string \<Rightarrow> mission_control \<Rightarrow> bool"
  cd_workflowType :: "string option"
  cd_taskQueue :: "string option"

record 'db control_world =
  cw_db :: 'db
  cw_published :: "ms_payload domain_event list"
  cw_starts :: "workflow_start list"
  cw_signals :: "(string \<times> mission_control) list"

type_synonym ('db, 'a) control_call = "(control_exn + 'a) \<times> 'db control_world"

subsection \<open>The service\<close>

definition control_load :: "'db control_deps \<Rightarrow> tenant_context \<Rightarrow> string \<Rightarrow> 'db \<Rightarrow> control_exn + mission" where
  "control_load dp ctx i db =
     (case cd_find dp ctx i db of
        None \<Rightarrow> Inl (ControlNotFound i)
      | Some m \<Rightarrow> if ensureSameTenant ctx (tenantId m) \<noteq> None then Inl ControlCrossTenant else Inr m)"

definition control_save ::
    "'db control_deps \<Rightarrow> nat \<Rightarrow> tick \<Rightarrow> tenant_context \<Rightarrow> mission \<Rightarrow> 'db control_world \<Rightarrow> (save_error + unit) \<times> 'db control_world" where
  "control_save dp n k ctx m w =
     (let db = cd_meanwhile dp n (cw_db w)
      in case cd_save dp ctx (ti_now k) m db of
           Inl err \<Rightarrow> (Inl err, w\<lparr>cw_db := db\<rparr>)
         | Inr (m1, db1) \<Rightarrow> (Inr (), w\<lparr>cw_db := db1, cw_published := cw_published w @ domainEvents m1\<rparr>))"

definition control_signal ::
    "'db control_deps \<Rightarrow> tenant_context \<Rightarrow> string \<Rightarrow> mission_control \<Rightarrow> 'db control_world \<Rightarrow> ('db, unit) control_call" where
  "control_signal dp ctx i c w =
     (let ref = forMission (cx_tenantId ctx) i
      in if cd_signal dp ref c then (Inr (), w\<lparr>cw_signals := cw_signals w @ [(ref, c)]\<rparr>) else (Inl SignalThrew, w))"

text \<open>What a method makes of the status it finds: go on, return because it is done already, or throw.\<close>

datatype control_guard = Proceed | AlreadyDone | WrongStatus

text \<open>
  The loop that \<open>pauseMission\<close>, \<open>resumeMission\<close> and \<open>cancelMission\<close> share, with the attempts that are
  left; it gives whether the method goes on to the signal.
\<close>

fun control_attempts ::
    "'db control_deps \<Rightarrow> tick \<Rightarrow> tenant_context \<Rightarrow> string \<Rightarrow> (ms_status \<Rightarrow> control_guard)
       \<Rightarrow> (mission \<Rightarrow> (unit, ms_op_error) result \<times> mission) \<Rightarrow> nat \<Rightarrow> 'db control_world \<Rightarrow> ('db, bool) control_call" where
  "control_attempts dp k ctx i guard op 0 w = (Inr True, w)"
| "control_attempts dp k ctx i guard op (Suc n) w =
     (case control_load dp ctx i (cw_db w) of
        Inl x \<Rightarrow> (Inl x, w)
      | Inr m \<Rightarrow>
          (case guard (ms_status m) of
             AlreadyDone \<Rightarrow> (Inr False, w)
           | WrongStatus \<Rightarrow> (Inl (ControlWrongStatus (ms_status m)), w)
           | Proceed \<Rightarrow>
               (case op m of
                  (Fail err, _) \<Rightarrow> (Inl (ControlRefused err), w)
                | (Ok _, m1) \<Rightarrow>
                    (case control_save dp n k ctx m1 w of
                       (Inr _, w1) \<Rightarrow> (Inr True, w1)
                     | (Inl err, w1) \<Rightarrow>
                         if err = SaveConflict \<and> 0 < n then control_attempts dp k ctx i guard op n w1
                         else (Inl (ControlSave err), w1)))))"

definition control_then_signal ::
    "'db control_deps \<Rightarrow> tenant_context \<Rightarrow> string \<Rightarrow> mission_control \<Rightarrow> ('db, bool) control_call \<Rightarrow> ('db, unit) control_call" where
  "control_then_signal dp ctx i c r =
     (case r of
        (Inl x, w) \<Rightarrow> (Inl x, w)
      | (Inr go, w) \<Rightarrow> if go then control_signal dp ctx i c w else (Inr (), w))"

definition pause_guard :: "ms_status \<Rightarrow> control_guard" where
  "pause_guard s = (if s = MS_PAUSED then AlreadyDone
     else if s \<noteq> MS_PLANNING \<and> s \<noteq> MS_EXECUTING then WrongStatus else Proceed)"

definition resume_guard :: "ms_status \<Rightarrow> control_guard" where
  "resume_guard s = (if s = MS_EXECUTING then AlreadyDone else if s \<noteq> MS_PAUSED then WrongStatus else Proceed)"

definition cancel_guard :: "ms_status \<Rightarrow> control_guard" where
  "cancel_guard s = (if s \<in> set [MS_COMPLETED, MS_FAILED, MS_CANCELLED, MS_ARCHIVED] then AlreadyDone else Proceed)"

definition pauseMission :: "'db control_deps \<Rightarrow> tick \<Rightarrow> tenant_context \<Rightarrow> string \<Rightarrow> string \<Rightarrow> 'db control_world \<Rightarrow> ('db, unit) control_call" where
  "pauseMission dp k ctx i reason w =
     control_then_signal dp ctx i (command_signal (PauseMission reason))
       (control_attempts dp k ctx i pause_guard (ms_pause reason (ti_corr k) (ti_ev k) (ti_now k)) 3 w)"

definition resumeMission :: "'db control_deps \<Rightarrow> tick \<Rightarrow> tenant_context \<Rightarrow> string \<Rightarrow> 'db control_world \<Rightarrow> ('db, unit) control_call" where
  "resumeMission dp k ctx i w =
     control_then_signal dp ctx i (command_signal ResumeMission)
       (control_attempts dp k ctx i resume_guard (ms_resume (ti_corr k) (ti_ev k) (ti_now k)) 3 w)"

definition cancelMission :: "'db control_deps \<Rightarrow> tick \<Rightarrow> tenant_context \<Rightarrow> string \<Rightarrow> string \<Rightarrow> 'db control_world \<Rightarrow> ('db, unit) control_call" where
  "cancelMission dp k ctx i reason w =
     control_then_signal dp ctx i (command_signal (CancelMission reason))
       (control_attempts dp k ctx i cancel_guard (ms_cancel reason (ti_corr k) (ti_ev k) (ti_now k)) 3 w)"

definition svc_replanMission :: "'db control_deps \<Rightarrow> tenant_context \<Rightarrow> string \<Rightarrow> 'db control_world \<Rightarrow> ('db, unit) control_call" where
  "svc_replanMission dp ctx i w =
     (case control_load dp ctx i (cw_db w) of
        Inl x \<Rightarrow> (Inl x, w)
      | Inr m \<Rightarrow> if ms_isTerminal m then (Inr (), w) else control_signal dp ctx i (command_signal ReplanMission) w)"

text \<open>\<open>startMission\<close> answers with the workflow id and the correlation id.\<close>

definition startMission ::
    "'db control_deps \<Rightarrow> tick \<Rightarrow> tenant_context \<Rightarrow> string \<Rightarrow> 'db control_world \<Rightarrow> ('db, string \<times> string) control_call" where
  "startMission dp k ctx i w =
     (case control_load dp ctx i (cw_db w) of
        Inl x \<Rightarrow> (Inl x, w)
      | Inr m \<Rightarrow>
          let workflowId = forMission (cx_tenantId ctx) i
          in if ms_status m = MS_PLANNING \<or> ms_status m = MS_EXECUTING then (Inr (workflowId, cx_correlationId ctx), w)
             else case ms_start (ti_corr k) (ti_ev k) (ti_now k) m of
                 (Fail err, _) \<Rightarrow> (Inl (ControlRefused err), w)
               | (Ok _, m1) \<Rightarrow>
                   (case control_save dp 0 k ctx m1 w of
                      (Inl err, w1) \<Rightarrow> (Inl (ControlSave err), w1)
                    | (Inr _, w1) \<Rightarrow>
                        let s = \<lparr>ws_type = nullish (cd_workflowType dp) ''MissionWorkflow'', ws_workflowId = workflowId,
                              ws_taskQueue = nullish (cd_taskQueue dp) ''mission-execution'', ws_tenantId = cx_tenantId ctx,
                              ws_workspaceId = ms_workspaceId m1, ws_userId = nullish (cx_userId ctx) (ms_ownerUserId m1),
                              ws_missionId = i, ws_correlationId = ti_corr k\<rparr>
                        in if cd_start dp s then (Inr (workflowId, ti_corr k), w1\<lparr>cw_starts := cw_starts w1 @ [s]\<rparr>)
                           else (Inl WorkflowStartThrew, w1)))"

subsection \<open>The workflow\<close>

text \<open>
  The variables of \<open>MissionWorkflow\<close>, and the point it is at: the planning before the loop, the head
  of the loop, a pause, one of the two activities whose answer it awaits, or its end (returned, or failed with what an activity threw).
  Signals arrive between these points and overwrite \<open>controlRequest\<close>.
\<close>

datatype wf_point = WfPlanning | WfHead | WfPaused | WfReplanning | WfStepping | WfReturned | WfFailed engine_exn

record workflow_state =
  wf_point :: wf_point
  wf_status :: ms_status
  wf_task :: "string option"
  wf_control :: "mission_control option"
  wf_approval :: "(string \<times> ap_status \<times> string) option"

definition workflow_initial :: workflow_state where
  "workflow_initial = \<lparr>wf_point = WfPlanning, wf_status = MS_PLANNING, wf_task = None, wf_control = None, wf_approval = None\<rparr>"

text \<open>An activity is run up to three times (\<open>maximumAttempts\<close>), each time from the state it finds.\<close>

fun activity_attempts :: "nat \<Rightarrow> (nat \<Rightarrow> 'db engine_world \<Rightarrow> ('db, 'a) engine_call) \<Rightarrow> 'db engine_world \<Rightarrow> ('db, 'a) engine_call" where
  "activity_attempts n run w =
     (case n of
        0 \<Rightarrow> run 0 w
      | Suc n' \<Rightarrow> (case run n w of (Inr a, w1) \<Rightarrow> (Inr a, w1) | (Inl x, w1) \<Rightarrow> activity_attempts n' run w1))"

declare activity_attempts.simps [simp del]

definition activity :: "(nat \<Rightarrow> 'db engine_world \<Rightarrow> ('db, 'a) engine_call) \<Rightarrow> 'db engine_world \<Rightarrow> ('db, 'a) engine_call" where
  "activity run w = activity_attempts 2 run w"

definition workflow_begin ::
    "'db engine_deps \<Rightarrow> (nat \<Rightarrow> tick) \<Rightarrow> tenant_context \<Rightarrow> string \<Rightarrow> workflow_state \<times> 'db engine_world \<Rightarrow> workflow_state \<times> 'db engine_world" where
  "workflow_begin dp ks ctx i = (\<lambda>(s, w).
     (case activity (\<lambda>n. planMission dp (ks n) ctx i) w of
        (Inl x, w1) \<Rightarrow> (s\<lparr>wf_point := WfFailed x\<rparr>, w1)
      | (Inr _, w1) \<Rightarrow> (s\<lparr>wf_point := WfHead, wf_status := MS_EXECUTING\<rparr>, w1)))"

definition workflow_head :: "workflow_state \<Rightarrow> workflow_state" where
  "workflow_head s =
     (case wf_control s of
        Some (CancelSignal r) \<Rightarrow> s\<lparr>wf_status := MS_CANCELLED, wf_point := WfReturned\<rparr>
      | Some (PauseSignal r) \<Rightarrow> s\<lparr>wf_status := MS_PAUSED, wf_control := None, wf_point := WfPaused\<rparr>
      | Some (ReplanSignal r) \<Rightarrow> s\<lparr>wf_point := WfReplanning\<rparr>
      | Some ResumeSignal \<Rightarrow> s\<lparr>wf_status := MS_EXECUTING, wf_control := None\<rparr>
      | None \<Rightarrow> s\<lparr>wf_approval := None, wf_point := WfStepping\<rparr>)"

definition workflow_replan ::
    "'db engine_deps \<Rightarrow> (nat \<Rightarrow> tick) \<Rightarrow> tenant_context \<Rightarrow> string \<Rightarrow> workflow_state \<times> 'db engine_world \<Rightarrow> workflow_state \<times> 'db engine_world" where
  "workflow_replan dp ks ctx i = (\<lambda>(s, w).
     (case activity (\<lambda>n. replanMission dp (ks n) ctx i None) w of
        (Inl x, w1) \<Rightarrow> (s\<lparr>wf_point := WfFailed x\<rparr>, w1)
      | (Inr _, w1) \<Rightarrow> (s\<lparr>wf_point := WfHead, wf_status := MS_EXECUTING, wf_control := None\<rparr>, w1)))"

definition step_point :: "ms_status \<Rightarrow> wf_point" where
  "step_point s = (if s \<in> set [MS_COMPLETED, MS_FAILED, MS_CANCELLED, MS_ARCHIVED] then WfReturned else WfHead)"

definition workflow_execute ::
    "'db engine_deps \<Rightarrow> (nat \<Rightarrow> tick) \<Rightarrow> tenant_context \<Rightarrow> string \<Rightarrow> workflow_state \<times> 'db engine_world \<Rightarrow> workflow_state \<times> 'db engine_world" where
  "workflow_execute dp ks ctx i = (\<lambda>(s, w).
     (case activity (\<lambda>n. executeMissionStep dp (ks n) ctx i) w of
        (Inl x, w1) \<Rightarrow> (s\<lparr>wf_point := WfFailed x\<rparr>, w1)
      | (Inr a, w1) \<Rightarrow>
          (s\<lparr>wf_status := sa_status a, wf_task := sa_completedTaskId a, wf_point := step_point (sa_status a)\<rparr>, w1)))"

text \<open>One step of the workflow by itself, and its run without signals.\<close>

definition workflow_next ::
    "'db engine_deps \<Rightarrow> (nat \<Rightarrow> tick) \<Rightarrow> tenant_context \<Rightarrow> string \<Rightarrow> workflow_state \<times> 'db engine_world \<Rightarrow> workflow_state \<times> 'db engine_world" where
  "workflow_next dp ks ctx i = (\<lambda>(s, w).
     (case wf_point s of
        WfPlanning \<Rightarrow> workflow_begin dp ks ctx i (s, w)
      | WfHead \<Rightarrow> (workflow_head s, w)
      | WfPaused \<Rightarrow> (if wf_control s \<noteq> None then s\<lparr>wf_point := WfHead\<rparr> else s, w)
      | WfReplanning \<Rightarrow> workflow_replan dp ks ctx i (s, w)
      | WfStepping \<Rightarrow> workflow_execute dp ks ctx i (s, w)
      | WfReturned \<Rightarrow> (s, w)
      | WfFailed x \<Rightarrow> (s, w)))"

fun workflow_run ::
    "'db engine_deps \<Rightarrow> (nat \<Rightarrow> nat \<Rightarrow> tick) \<Rightarrow> tenant_context \<Rightarrow> string \<Rightarrow> nat \<Rightarrow> workflow_state \<times> 'db engine_world
       \<Rightarrow> workflow_state \<times> 'db engine_world" where
  "workflow_run dp ks ctx i 0 sw = sw"
| "workflow_run dp ks ctx i (Suc n) sw = workflow_run dp ks ctx i n (workflow_next dp (ks n) ctx i sw)"

subsection \<open>What a call of the service does\<close>

definition control_call ::
    "'db control_deps \<Rightarrow> tick \<Rightarrow> tenant_context \<Rightarrow> string \<Rightarrow> mission_command \<Rightarrow> 'db control_world \<Rightarrow> ('db, unit) control_call" where
  "control_call dp k ctx i c w =
     (case c of
        PauseMission r \<Rightarrow> pauseMission dp k ctx i r w
      | ResumeMission \<Rightarrow> resumeMission dp k ctx i w
      | CancelMission r \<Rightarrow> cancelMission dp k ctx i r w
      | ReplanMission \<Rightarrow> svc_replanMission dp ctx i w)"

text \<open>
  The contract: the status after the call and whether the workflow is told, for the statuses in which
  the call is accepted.
\<close>

fun control_effect :: "mission_command \<Rightarrow> ms_status \<Rightarrow> (ms_status \<times> bool) option" where
  "control_effect (PauseMission r) s =
     (if s = MS_PAUSED then Some (s, False) else if s \<in> {MS_PLANNING, MS_EXECUTING} then Some (MS_PAUSED, True) else None)"
| "control_effect ResumeMission s =
     (if s = MS_EXECUTING then Some (s, False) else if s = MS_PAUSED then Some (MS_EXECUTING, True) else None)"
| "control_effect (CancelMission r) s =
     (if s \<in> {MS_COMPLETED, MS_FAILED, MS_CANCELLED, MS_ARCHIVED} then Some (s, False)
      else if s \<in> {MS_APPROVED, MS_SCHEDULED, MS_BLOCKED} then None else Some (MS_CANCELLED, True))"
| "control_effect ReplanMission s =
     Some (s, s \<notin> {MS_COMPLETED, MS_FAILED, MS_CANCELLED, MS_ARCHIVED})"

lemma control_ops_ok:
  "canTransitionMission (ms_status m) MS_PAUSED \<Longrightarrow> \<exists>m1. ms_pause r corr ev now m = (Ok (), m1) \<and> ms_status m1 = MS_PAUSED
     \<and> keeps_tasks m m1"
  "canTransitionMission (ms_status m) MS_EXECUTING \<Longrightarrow> \<exists>m1. ms_resume corr ev now m = (Ok (), m1) \<and> ms_status m1 = MS_EXECUTING
     \<and> keeps_tasks m m1"
  "canTransitionMission (ms_status m) MS_CANCELLED \<Longrightarrow> \<exists>m1. ms_cancel r corr ev now m = (Ok (), m1) \<and> ms_status m1 = MS_CANCELLED
     \<and> keeps_tasks m m1"
  "canTransitionMission (ms_status m) MS_PLANNING \<Longrightarrow> \<exists>m1. ms_start corr ev now m = (Ok (), m1) \<and> ms_status m1 = MS_PLANNING
     \<and> keeps_tasks m m1"
  by (simp_all add: ms_pause_def ms_resume_def ms_cancel_def ms_start_def ms_transitionTo_def applyEvent_def
      keeps_tasks_def same_plan_def tasks_view_def)

lemma control_ops_refused:
  "\<not> canTransitionMission (ms_status m) MS_CANCELLED \<Longrightarrow> ms_cancel r corr ev now m = (Fail (MsInvalidTransition (ms_status m) MS_CANCELLED), m)"
  "\<not> canTransitionMission (ms_status m) MS_PLANNING \<Longrightarrow> ms_start corr ev now m = (Fail (MsInvalidTransition (ms_status m) MS_PLANNING), m)"
  by (simp_all add: ms_cancel_def ms_start_def ms_transitionTo_def)

context mission_store begin

definition drives :: "'db control_deps \<Rightarrow> bool" where
  "drives dp \<longleftrightarrow> cd_find dp = find \<and> cd_save dp = save"

lemma control_load_ok: "drives dp \<Longrightarrow> ok i db \<Longrightarrow> find ctx i db = Some m \<Longrightarrow> control_load dp ctx i db = Inr m"
  using find_own by (simp add: drives_def control_load_def ensureSameTenant_def)

lemma control_save_ok:
  assumes "drives dp" and "cd_meanwhile dp n = (\<lambda>db. db)" and "ok i (cw_db w)" and "find ctx i (cw_db w) = Some m" and "keeps_tasks m m1"
  shows "\<exists>db1 m2. control_save dp n k ctx m1 w = (Inr (), w\<lparr>cw_db := db1, cw_published := cw_published w @ domainEvents m1\<rparr>)
    \<and> ok i db1 \<and> find ctx i db1 = Some m2 \<and> ms_status m2 = ms_status m1 \<and> tasks_view m2 = tasks_view m
    \<and> version m2 = version m1 \<and> pl_version (ms_plan m2) = pl_version (ms_plan m)"
proof -
  obtain db1 m2 where s: "save ctx (ti_now k) m1 (cw_db w) = Inr (setVersion (version m1) m1, db1)" "ok i db1" "find ctx i db1 = Some m2"
    "ms_status m2 = ms_status m1" "map tk_id (ms_tasks m2) = map tk_id (ms_tasks m1)" "version m2 = version m1"
    "pl_version (ms_plan m2) = pl_version (ms_plan m1)"
    "map tk_status (ms_tasks m2) = map tk_status (ms_tasks m1)" "map tk_dependsOn (ms_tasks m2) = map tk_dependsOn (ms_tasks m)"
    using save_loaded [OF assms(3,4), of m1 "ti_now k"] assms(5) by (auto simp: keeps_tasks_def)
  have v: "tasks_view m1 = tasks_view m" using assms(5) by (simp add: keeps_tasks_def)
  have "map tk_dependsOn (ms_tasks m1) = map tk_dependsOn (ms_tasks m)" using v tasks_view_parts(2) by metis
  then have "tasks_view m2 = tasks_view m1" using s by (intro tasks_viewI) simp_all
  moreover have "pl_version (ms_plan m1) = pl_version (ms_plan m)" using assms(5) by (simp add: keeps_tasks_def same_plan_def)
  moreover have "control_save dp n k ctx m1 w = (Inr (), w\<lparr>cw_db := db1, cw_published := cw_published w @ domainEvents m1\<rparr>)"
    using assms(1,2) s(1) by (simp add: control_save_def drives_def Let_def setVersion_def)
  ultimately show ?thesis using s v by (intro exI [of _ db1] exI [of _ m2]) simp
qed

lemma control_attempt_ok:
  assumes "drives dp" and "cd_meanwhile dp n = (\<lambda>db. db)" and "ok i (cw_db w)" and "find ctx i (cw_db w) = Some m"
    and "guard (ms_status m) = Proceed" and "op m = (Ok (), m1)" and "keeps_tasks m m1"
  shows "\<exists>db1 m2. control_attempts dp k ctx i guard op (Suc n) w =
       (Inr True, w\<lparr>cw_db := db1, cw_published := cw_published w @ domainEvents m1\<rparr>)
    \<and> ok i db1 \<and> find ctx i db1 = Some m2 \<and> ms_status m2 = ms_status m1 \<and> tasks_view m2 = tasks_view m
    \<and> version m2 = version m1 \<and> pl_version (ms_plan m2) = pl_version (ms_plan m)"
  using control_save_ok [OF assms(1-4,7), where k = k] control_load_ok [OF assms(1,3,4)] assms(5,6) by auto

text \<open>An attempt whose mission was saved by another writer meanwhile is as if it had not been made.\<close>

lemma control_attempt_lost:
  assumes "drives dp" and "ok i (cw_db w)" and "find ctx i (cw_db w) = Some m"
    and "guard (ms_status m) = Proceed" and "op m = (Ok (), m1)" and "keeps_tasks m m1"
    and "ok i (cd_meanwhile dp n (cw_db w))" and "find ctx i (cd_meanwhile dp n (cw_db w)) = Some m'"
    and "version m' \<noteq> version m" and "pl_version (ms_plan m') = pl_version (ms_plan m)" and "map tk_id (ms_tasks m') = map tk_id (ms_tasks m)"
  shows "control_attempts dp k ctx i guard op (Suc n) w =
     (if 0 < n then control_attempts dp k ctx i guard op n (w\<lparr>cw_db := cd_meanwhile dp n (cw_db w)\<rparr>)
      else (Inl (ControlSave SaveConflict), w\<lparr>cw_db := cd_meanwhile dp n (cw_db w)\<rparr>))"
proof -
  have "same_plan (m'\<lparr>loadedVersion := Some (version m)\<rparr>) m1"
    using assms(6,10,11) find_own [OF assms(2,3)] find_own [OF assms(7,8)] find_clean [OF assms(2,3)]
    by (simp add: keeps_tasks_def same_plan_def)
  then have "save ctx (ti_now k) m1 (cd_meanwhile dp n (cw_db w)) = Inl SaveConflict"
    by (rule save_refused [OF assms(7,8)]) (use assms(9) in simp)
  then show ?thesis using control_load_ok [OF assms(1-3)] assms(1,4,5) by (simp add: control_save_def drives_def Let_def)
qed

end

text \<open>The three calls with a retry, by their guard, operation and signal.\<close>

definition control_guard_of :: "mission_command \<Rightarrow> ms_status \<Rightarrow> control_guard" where
  "control_guard_of c = (case c of PauseMission r \<Rightarrow> pause_guard | ResumeMission \<Rightarrow> resume_guard | _ \<Rightarrow> cancel_guard)"

definition control_op_of :: "tick \<Rightarrow> mission_command \<Rightarrow> mission \<Rightarrow> (unit, ms_op_error) result \<times> mission" where
  "control_op_of k c =
     (case c of
        PauseMission r \<Rightarrow> ms_pause r (ti_corr k) (ti_ev k) (ti_now k)
      | ResumeMission \<Rightarrow> ms_resume (ti_corr k) (ti_ev k) (ti_now k)
      | CancelMission r \<Rightarrow> ms_cancel r (ti_corr k) (ti_ev k) (ti_now k)
      | ReplanMission \<Rightarrow> (\<lambda>m. (Ok (), m)))"

definition is_replan :: "mission_command \<Rightarrow> bool" where
  "is_replan c \<longleftrightarrow> c = ReplanMission"

lemma control_call_attempts:
  "\<not> is_replan c \<Longrightarrow> control_call dp k ctx i c w =
     control_then_signal dp ctx i (command_signal c) (control_attempts dp k ctx i (control_guard_of c) (control_op_of k c) 3 w)"
  by (cases c) (simp_all add: is_replan_def control_call_def control_guard_of_def control_op_of_def
      pauseMission_def resumeMission_def cancelMission_def)

lemma control_effect_cases:
  assumes "\<not> is_replan c"
  shows "control_effect c (ms_status m) = None \<Longrightarrow>
      control_guard_of c (ms_status m) = WrongStatus
      \<or> control_guard_of c (ms_status m) = Proceed \<and> (\<exists>err. control_op_of k c m = (Fail err, m))"
    and "control_effect c (ms_status m) = Some (s, False) \<Longrightarrow> control_guard_of c (ms_status m) = AlreadyDone \<and> s = ms_status m"
    and "control_effect c (ms_status m) = Some (s, True) \<Longrightarrow> control_guard_of c (ms_status m) = Proceed
      \<and> (\<exists>m1. control_op_of k c m = (Ok (), m1) \<and> ms_status m1 = s \<and> keeps_tasks m m1)"
proof -
  note d = control_guard_of_def control_op_of_def pause_guard_def resume_guard_def cancel_guard_def
  have p: "ms_status m \<in> {MS_PLANNING, MS_EXECUTING} \<Longrightarrow> canTransitionMission (ms_status m) MS_PAUSED"
    and r: "ms_status m = MS_PAUSED \<Longrightarrow> canTransitionMission (ms_status m) MS_EXECUTING"
    and c: "ms_status m \<notin> {MS_COMPLETED, MS_FAILED, MS_CANCELLED, MS_ARCHIVED} \<Longrightarrow>
      canTransitionMission (ms_status m) MS_CANCELLED \<longleftrightarrow> ms_status m \<notin> {MS_APPROVED, MS_SCHEDULED, MS_BLOCKED}"
    by (cases "ms_status m"; simp add: canTransitionMission_def)+
  show "control_effect c (ms_status m) = None \<Longrightarrow>
      control_guard_of c (ms_status m) = WrongStatus
      \<or> control_guard_of c (ms_status m) = Proceed \<and> (\<exists>err. control_op_of k c m = (Fail err, m))"
    using assms c control_ops_refused(1) by (cases c) (auto simp: d is_replan_def split: if_splits)
  show "control_effect c (ms_status m) = Some (s, False) \<Longrightarrow> control_guard_of c (ms_status m) = AlreadyDone \<and> s = ms_status m"
    using assms by (cases c) (auto simp: d is_replan_def split: if_splits)
  show "control_effect c (ms_status m) = Some (s, True) \<Longrightarrow> control_guard_of c (ms_status m) = Proceed
      \<and> (\<exists>m1. control_op_of k c m = (Ok (), m1) \<and> ms_status m1 = s \<and> keeps_tasks m m1)"
    using assms p r c control_ops_ok by (cases c) (auto simp: d is_replan_def split: if_splits)
qed

context mission_store begin

definition follows :: "'db control_deps \<Rightarrow> tenant_context \<Rightarrow> string \<Rightarrow> mission_command \<Rightarrow> mission \<Rightarrow> 'db control_world
    \<Rightarrow> ('db, unit) control_call \<Rightarrow> bool" where
  "follows dp ctx i c m w r \<longleftrightarrow>
     (case control_effect c (ms_status m) of
        None \<Rightarrow> (\<exists>x. r = (Inl x, w))
      | Some (s, tells) \<Rightarrow> \<exists>w1 m1.
          r = (if tells \<and> \<not> cd_signal dp (forMission (cx_tenantId ctx) i) (command_signal c) then Inl SignalThrew else Inr (), w1)
          \<and> ok i (cw_db w1) \<and> find ctx i (cw_db w1) = Some m1 \<and> ms_status m1 = s \<and> tasks_view m1 = tasks_view m
          \<and> (\<not> tells \<longrightarrow> w1 = w)
          \<and> cw_signals w1 = (if tells \<and> cd_signal dp (forMission (cx_tenantId ctx) i) (command_signal c)
              then cw_signals w @ [(forMission (cx_tenantId ctx) i, command_signal c)] else cw_signals w))"

lemma control_call_follows:
  assumes "drives dp" and "cd_meanwhile dp = (\<lambda>n db. db)" and "ok i (cw_db w)" and "find ctx i (cw_db w) = Some m"
  shows "follows dp ctx i c m w (control_call dp k ctx i c w)"
proof (cases "is_replan c")
  case True
  then have c: "c = ReplanMission" by (simp add: is_replan_def)
  show ?thesis using control_load_ok [OF assms(1,3,4)] assms(3,4)
    by (auto simp: c follows_def control_call_def svc_replanMission_def control_signal_def ms_isTerminal_def Let_def)
next
  case False
  note l = control_load_ok [OF assms(1,3,4)]
  note call = control_call_attempts [OF False] control_then_signal_def numeral_3_eq_3
  show ?thesis
  proof (cases "control_effect c (ms_status m)")
    case None
    then show ?thesis using control_effect_cases(1) [OF False, of m k] l by (auto simp: follows_def call)
  next
    case (Some e)
    obtain s tells where e: "e = (s, tells)" by (cases e)
    show ?thesis
    proof (cases tells)
      case False
      then show ?thesis using control_effect_cases(2) [OF \<open>\<not> is_replan c\<close>, of m s] Some e l assms(3,4) by (auto simp: follows_def call)
    next
      case True
      obtain m1 where m1: "control_guard_of c (ms_status m) = Proceed" "control_op_of k c m = (Ok (), m1)" "ms_status m1 = s" "keeps_tasks m m1"
        using control_effect_cases(3) [OF \<open>\<not> is_replan c\<close>, of m s k] Some e True by auto
      have q: "cd_meanwhile dp (Suc (Suc 0)) = (\<lambda>db. db)" using assms(2) by simp
      obtain db1 m2 where a: "control_attempts dp k ctx i (control_guard_of c) (control_op_of k c) (Suc (Suc (Suc 0))) w =
           (Inr True, w\<lparr>cw_db := db1, cw_published := cw_published w @ domainEvents m1\<rparr>)"
        "ok i db1" "find ctx i db1 = Some m2" "ms_status m2 = ms_status m1" "tasks_view m2 = tasks_view m"
        using control_attempt_ok [where k = k and guard = "control_guard_of c" and op = "control_op_of k c", OF assms(1) q assms(3,4) m1(1,2,4)] by blast
      show ?thesis using a m1(3) Some e True by (auto simp: follows_def call control_signal_def Let_def)
    qed
  qed
qed

end

subsection \<open>Properties of the service\<close>

text \<open>The stored sample mission in a given status, and a client that accepts every call.\<close>

definition control_mission :: "ms_status \<Rightarrow> mission" where
  "control_mission s = (sample_tasks TK_PENDING TK_PENDING)\<lparr>ms_status := s\<rparr>"

definition control_db :: "ms_status \<Rightarrow> mission_db" where
  "control_db s = (case mr_save engine_ctx 9 (control_mission s) no_rows of Inr (m, db) \<Rightarrow> db | Inl x \<Rightarrow> no_rows)"

definition sample_control :: "(nat \<Rightarrow> mission_db \<Rightarrow> mission_db) \<Rightarrow> bool \<Rightarrow> mission_db control_deps" where
  "sample_control meanwhile accepts = \<lparr>cd_find = mr_findById, cd_save = mr_save, cd_meanwhile = meanwhile, cd_start = (\<lambda>s. accepts),
     cd_signal = (\<lambda>i c. accepts), cd_workflowType = None, cd_taskQueue = None\<rparr>"

definition control_state :: "ms_status \<Rightarrow> mission_db control_world" where
  "control_state s = \<lparr>cw_db = control_db s, cw_published = [], cw_starts = [], cw_signals = []\<rparr>"

lemma control_mission_simps:
  "aggId (control_mission s) = ''m''" "tenantId (control_mission s) = ''t''" "loadedVersion (control_mission s) = None"
  "version (control_mission s) = 3" "ms_status (control_mission s) = s" "ms_plan (control_mission s) = sample_plan (Fin 1)"
  "ms_workspaceId (control_mission s) = Some ''w''" "ms_workspaceBindingState (control_mission s) = WORKSPACE_BOUND"
  "ms_tasks (control_mission s) = ms_tasks (sample_tasks TK_PENDING TK_PENDING)"
  by (simp_all add: control_mission_def sample_tasks_simps)

lemma sample_graph_valid:
  "validateTaskGraph [new_task (sample_task_props ''a'' []), new_task (sample_task_props ''b'' [''a''])] (Fin 1) = None"
proof -
  let ?ts = "[new_task (sample_task_props ''a'' []), new_task (sample_task_props ''b'' [''a''])]"
  have "depends_on ts = (\<Union>t \<in> set ts. {tk_id t} \<times> set (tk_dependsOn t))" for ts by (auto simp: depends_on_def)
  then have "depends_on ?ts = {(''b'', ''a'')}" by (simp add: sample_task_props_def)
  then have "acyclic (depends_on ?ts)" by (simp add: acyclic_insert) (simp add: acyclic_def)
  moreover have "task_ok ?ts t" if "t \<in> set ?ts" for t
    using that by (auto simp: task_ok_def sample_task_props_def js_trim_def js_space_def)
  moreover have "distinct (map tk_id ?ts)" by (simp add: sample_task_props_def)
  ultimately show ?thesis unfolding validateTaskGraph_None plan_ok_def by simp
qed

lemma control_db_facts:
  "db_ok (control_db s)" "no_legacy ''m'' (control_db s)"
  "\<exists>m. mr_findById engine_ctx ''m'' (control_db s) = Some m \<and> ms_status m = s \<and> pl_version (ms_plan m) = Fin 1
     \<and> tasks_view m = [(''a'', [], TK_PENDING), (''b'', [''a''], TK_PENDING)] \<and> validateTaskGraph (ms_tasks m) (pl_version (ms_plan m)) = None"
proof -
  have "\<exists>db1. mr_save engine_ctx 9 (control_mission s) no_rows = Inr (setVersion 3 (control_mission s), db1)"
    by (simp add: mr_save_def control_mission_simps engine_ctx_def no_rows_def insert_mission_row_def sample_plan_def Let_def)
  then obtain db where sv: "mr_save engine_ctx 9 (control_mission s) no_rows = Inr (setVersion 3 (control_mission s), db)" by blast
  have d: "control_db s = db" by (simp add: control_db_def sv)
  show "db_ok (control_db s)" "no_legacy ''m'' (control_db s)"
    using mr_save_ok [OF sv no_rows_ok(1,2)] by (simp_all add: d control_mission_simps)
  have "\<exists>c. mr_findById engine_ctx (aggId (control_mission s)) db = Some ((control_mission s)\<lparr>
       ms_tasks := map (stored_task (control_mission s)) (ms_tasks (control_mission s)), ms_approvals := [], ms_createdAt := c,
       ms_updatedAt := 9, loadedVersion := Some (version (control_mission s)), domainEvents := []\<rparr>)"
    by (rule save_new_plan [where v = 1, OF no_rows_ok(1,2,3,4) _ _ _ sv])
      (simp_all add: control_mission_simps sample_tasks_simps sample_plan_def sample_task_props_def deps_distinct_def)
  moreover have "map tk_id (map (stored_task (control_mission s)) ts) = map tk_id ts" for ts
    by (simp add: stored_task_def)
  moreover have "validateTaskGraph (map (stored_task (control_mission s)) (ms_tasks (control_mission s))) (Fin 1) = None"
    unfolding validateTaskGraph_map [OF stored_task_node]
    using sample_graph_valid validateTaskGraph_map [of "\<lambda>t. t\<lparr>tk_status := TK_PENDING\<rparr>", of "[new_task (sample_task_props ''a'' []), new_task (sample_task_props ''b'' [''a''])]"]
    by (simp add: control_mission_simps sample_tasks_simps same_node_def)
  ultimately show "\<exists>m. mr_findById engine_ctx ''m'' (control_db s) = Some m \<and> ms_status m = s \<and> pl_version (ms_plan m) = Fin 1
     \<and> tasks_view m = [(''a'', [], TK_PENDING), (''b'', [''a''], TK_PENDING)] \<and> validateTaskGraph (ms_tasks m) (pl_version (ms_plan m)) = None"
    by (auto simp: d control_mission_simps sample_tasks_simps tasks_view_def stored_task_def sample_task_props_def sample_plan_def)
qed

lemma pg_drives: "cd_find dp = mr_findById \<Longrightarrow> cd_save dp = mr_save \<Longrightarrow> pg.drives dp"
  by (simp add: pg.drives_def)

lemma sample_control_simps [simp]:
  "cd_find (sample_control f a) = mr_findById" "cd_save (sample_control f a) = mr_save" "cd_meanwhile (sample_control f a) = f"
  "cd_start (sample_control f a) x = a" "cd_signal (sample_control f a) j c = a"
  "cw_db (control_state s) = control_db s" "cw_starts (control_state s) = []" "cw_signals (control_state s) = []"
  by (simp_all add: sample_control_def control_state_def)



text \<open>
  A failed start strands the mission: when the workflow client refuses the start, \<open>startMission\<close>
  throws after the mission was stored as planning; every later start finds it so, answers with the
  workflow id and starts nothing, whether the client would accept it or not.
\<close>

theorem failed_start_strands_mission:
  assumes "cd_find dp = mr_findById" and "cd_save dp = mr_save" and "cd_meanwhile dp = (\<lambda>n db. db)" and "cd_start dp = (\<lambda>s. False)"
    and "db_ok (cw_db w)" and "no_legacy i (cw_db w)" and "mr_findById ctx i (cw_db w) = Some m"
    and "ms_status m \<in> {MS_APPROVED, MS_SCHEDULED}"
    and "cd_find dp' = mr_findById" and "cd_save dp' = mr_save"
  shows "\<exists>w1. startMission dp k ctx i w = (Inl WorkflowStartThrew, w1) \<and> cw_starts w1 = cw_starts w
    \<and> startMission dp' k' ctx i w1 = (Inr (forMission (cx_tenantId ctx) i, cx_correlationId ctx), w1)"
proof -
  note ok = conjI [OF assms(5,6)]
  have "canTransitionMission (ms_status m) MS_PLANNING" using assms(8) by (auto simp: canTransitionMission_def)
  then obtain m1 where m1: "ms_start (ti_corr k) (ti_ev k) (ti_now k) m = (Ok (), m1)" "ms_status m1 = MS_PLANNING" "keeps_tasks m m1"
    using control_ops_ok(4) by blast
  have q: "cd_meanwhile dp 0 = (\<lambda>db. db)" using assms(3) by simp
  obtain db1 m2 where s: "control_save dp 0 k ctx m1 w = (Inr (), w\<lparr>cw_db := db1, cw_published := cw_published w @ domainEvents m1\<rparr>)"
    "db_ok db1 \<and> no_legacy i db1" "mr_findById ctx i db1 = Some m2" "ms_status m2 = ms_status m1"
    using pg.control_save_ok [OF pg_drives [OF assms(1,2)] q ok assms(7) m1(3)] by blast
  show ?thesis
    using pg.control_load_ok [OF pg_drives [OF assms(1,2)] ok assms(7)] pg.control_load_ok [OF pg_drives [OF assms(9,10)] s(2,3)]
      assms(4,8) m1(1,2) s(1,4) by (auto simp: startMission_def Let_def)
qed

theorem failed_start_strands_mission_witness:
  "\<exists>w1. startMission (sample_control (\<lambda>n db. db) False) (sample_tick 0) engine_ctx ''m'' (control_state MS_APPROVED) = (Inl WorkflowStartThrew, w1)
     \<and> cw_starts w1 = []
     \<and> startMission (sample_control (\<lambda>n db. db) True) (sample_tick 1) engine_ctx ''m'' w1 = (Inr (forMission ''t'' ''m'', ''x''), w1)"
proof -
  obtain m where m: "mr_findById engine_ctx ''m'' (control_db MS_APPROVED) = Some m" "ms_status m = MS_APPROVED"
    using control_db_facts(3) by blast
  have t: "cx_tenantId engine_ctx = ''t''" "cx_correlationId engine_ctx = ''x''" by (simp_all add: engine_ctx_def)
  have r: "cd_start (sample_control (\<lambda>n db. db) False) = (\<lambda>s. False)" by (simp add: sample_control_def)
  show ?thesis
    using failed_start_strands_mission [where dp = "sample_control (\<lambda>n db. db) False" and dp' = "sample_control (\<lambda>n db. db) True"
        and w = "control_state MS_APPROVED" and i = "''m''" and ctx = engine_ctx and m = m and k = "sample_tick 0" and k' = "sample_tick 1"]
      m control_db_facts(1,2) t r by simp
qed

text \<open>One call of the service, or one activity of the workflow, on the tables.\<close>

inductive mission_call ::
    "mission_db control_deps \<Rightarrow> mission_db engine_deps \<Rightarrow> tenant_context \<Rightarrow> string \<Rightarrow> mission_db \<Rightarrow> mission_db \<Rightarrow> bool"
  for dp en ctx i where
  mc_control: "cw_db w = db \<Longrightarrow> mission_call dp en ctx i db (cw_db (snd (control_call dp k ctx i c w)))"
| mc_start: "cw_db w = db \<Longrightarrow> mission_call dp en ctx i db (cw_db (snd (startMission dp k ctx i w)))"
| mc_plan: "ew_db v = db \<Longrightarrow> mission_call dp en ctx i db (ew_db (snd (planMission en k ctx i v)))"
| mc_replan: "ew_db v = db \<Longrightarrow> mission_call dp en ctx i db (ew_db (snd (replanMission en k ctx i None v)))"
| mc_step: "ew_db v = db \<Longrightarrow> mission_call dp en ctx i db (ew_db (snd (executeMissionStep en k ctx i v)))"

lemma pg_blocked_call:
  assumes "cd_find dp = mr_findById" and "cd_save dp = mr_save" and "cd_meanwhile dp = (\<lambda>n db. db)"
    and "ed_find en = mr_findById" and "ed_planner en = outreach_plan encode \<or> ed_planner en = planner_plan templates"
    and "db_ok db" and "no_legacy i db" and "mr_findById ctx i db = Some m" and "ms_status m = MS_BLOCKED"
    and "js_le (Fin 1) (pl_version (ms_plan m))" and "mission_call dp en ctx i db db'"
  shows "db' = db"
  using assms(11)
proof (cases rule: mission_call.cases)
  case (mc_control w k c)
  have "pg.follows dp ctx i c m w (control_call dp k ctx i c w)"
    by (rule pg.control_call_follows [OF pg_drives [OF assms(1,2)] assms(3)]) (use mc_control assms(6-8) in simp_all)
  moreover have "cw_db (snd (svc_replanMission dp ctx i w)) = cw_db w"
    by (simp add: svc_replanMission_def control_signal_def Let_def split: sum.split)
  ultimately show ?thesis using mc_control assms(9) by (cases c) (auto simp: pg.follows_def control_call_def)
next
  case (mc_start w k)
  have nt: "\<not> canTransitionMission MS_BLOCKED MS_PLANNING" by (simp add: canTransitionMission_def)
  have "control_load dp ctx i (cw_db w) = Inr m"
    by (rule pg.control_load_ok [OF pg_drives [OF assms(1,2)]]) (use mc_start assms(6-8) in simp_all)
  then have "startMission dp k ctx i w = (Inl (ControlRefused (MsInvalidTransition MS_BLOCKED MS_PLANNING)), w)"
    using nt assms(9) control_ops_refused(2) [of m] by (simp add: startMission_def Let_def)
  then show ?thesis using mc_start by simp
next
  case (mc_plan v k)
  have "planMission en k ctx i v = (Inl NotInPlanning, v) \<or> (\<exists>x. planMission en k ctx i v = (Inl x, v))"
    using mc_plan assms(4,8,9) by (auto simp: planMission_def loadMission_def split: if_splits)
  then show ?thesis using mc_plan by auto
next
  case (mc_replan v k)
  have "\<exists>x. replanMission en k ctx i None v = (Inl x, v)"
    by (rule replan_of_planner_throws [OF _ assms(10,5)]) (use mc_replan assms(4,8) in simp)
  then show ?thesis using mc_replan by auto
next
  case (mc_step v k)
  then show ?thesis using assms(4,8,9) by (auto simp: executeMissionStep_def loadMission_def split: if_splits)
qed

text \<open>
  Nothing moves a blocked mission, and the engine blocks a mission whenever a task fails: whatever
  is called on the service, and whatever activity its workflow runs, in any number and order, with the
  planners of the repository, the tables stay as they are.
\<close>

theorem blocked_mission_is_stuck:
  assumes "cd_find dp = mr_findById" and "cd_save dp = mr_save" and "cd_meanwhile dp = (\<lambda>n db. db)"
    and "ed_find en = mr_findById" and "ed_planner en = outreach_plan encode \<or> ed_planner en = planner_plan templates"
    and "db_ok db" and "no_legacy i db" and "mr_findById ctx i db = Some m" and "ms_status m = MS_BLOCKED"
    and "js_le (Fin 1) (pl_version (ms_plan m))" and "(mission_call dp en ctx i)\<^sup>*\<^sup>* db db'"
  shows "db' = db"
  using assms(11)
proof (induction rule: rtranclp_induct)
  case (step y z)
  then show ?case using pg_blocked_call [OF assms(1-10)] by blast
qed simp

theorem blocked_mission_is_stuck_witness:
  "cw_db (snd (cancelMission (sample_control (\<lambda>n db. db) True) (sample_tick 0) engine_ctx ''m'' ''r'' (control_state MS_BLOCKED))) = control_db MS_BLOCKED"
proof -
  obtain m where m: "mr_findById engine_ctx ''m'' (control_db MS_BLOCKED) = Some m" "ms_status m = MS_BLOCKED" "pl_version (ms_plan m) = Fin 1"
    using control_db_facts(3) by blast
  have "mission_call (sample_control (\<lambda>n db. db) True) (sample_engine (\<lambda>rq. None)) engine_ctx ''m'' (control_db MS_BLOCKED)
      (cw_db (snd (control_call (sample_control (\<lambda>n db. db) True) (sample_tick 0) engine_ctx ''m'' (CancelMission ''r'') (control_state MS_BLOCKED))))"
    by (rule mc_control) simp
  then have "mission_call (sample_control (\<lambda>n db. db) True) (sample_engine (\<lambda>rq. None)) engine_ctx ''m'' (control_db MS_BLOCKED)
      (cw_db (snd (cancelMission (sample_control (\<lambda>n db. db) True) (sample_tick 0) engine_ctx ''m'' ''r'' (control_state MS_BLOCKED))))"
    by (simp add: control_call_def)
  from blocked_mission_is_stuck [OF _ _ _ _ _ control_db_facts(1,2) m(1,2) _ r_into_rtranclp [where r = "mission_call (sample_control (\<lambda>n db. db) True) (sample_engine (\<lambda>rq. None)) engine_ctx ''m''", OF this], of "\<lambda>m. JNull"] m(3)
  show ?thesis by (simp add: sample_engine_def)
qed

subsection \<open>Properties of the workflow\<close>

lemma activity_throws: "(\<And>n. \<exists>x. run n w = (Inl x, w)) \<Longrightarrow> \<exists>x. activity run w = (Inl x, w)"
proof -
  assume t: "\<And>n. \<exists>x. run n w = (Inl x, w)"
  have "\<exists>x. activity_attempts n run w = (Inl x, w)" for n
  proof (induction n)
    case 0
    then show ?case using t [of 0] by (simp add: activity_attempts.simps)
  next
    case (Suc n)
    then show ?case using t [of "Suc n"] by (auto simp: activity_attempts.simps [of "Suc n"])
  qed
  then show ?thesis by (simp add: activity_def)
qed

lemma activity_returns: "run 2 w = (Inr a, w1) \<Longrightarrow> activity run w = (Inr a, w1)"
  by (simp add: activity_def activity_attempts.simps [of "Suc (Suc 0)"] numeral_2_eq_2)

lemma workflow_at_head:
  "wf_point s = WfHead \<Longrightarrow> wf_control s = None \<Longrightarrow>
     workflow_next dp k1 ctx i (s, w) = (s\<lparr>wf_approval := None, wf_point := WfStepping\<rparr>, w)"
  by (simp add: workflow_next_def workflow_head_def)

lemma workflow_at_step:
  assumes "wf_point s = WfStepping" and "executeMissionStep dp (k1 2) ctx i w = (Inr a, w1)"
  shows "workflow_next dp k1 ctx i (s, w) =
     (s\<lparr>wf_status := sa_status a, wf_task := sa_completedTaskId a, wf_point := step_point (sa_status a)\<rparr>, w1)"
  using activity_returns [where run = "\<lambda>n. executeMissionStep dp (k1 n) ctx i", OF assms(2)] assms(1)
  by (simp add: workflow_next_def workflow_execute_def)

lemma workflow_round:
  assumes "wf_point s = WfHead" and "wf_control s = None" and "executeMissionStep dp (ks n 2) ctx i w = (Inr a, w1)"
  shows "workflow_run dp ks ctx i (Suc (Suc n)) (s, w) = workflow_run dp ks ctx i n (s\<lparr>wf_approval := None, wf_status := sa_status a,
     wf_task := sa_completedTaskId a, wf_point := step_point (sa_status a)\<rparr>, w1)"
proof -
  let ?s = "s\<lparr>wf_approval := None, wf_point := WfStepping\<rparr>"
  have "workflow_next dp (ks n) ctx i (?s, w) =
     (?s\<lparr>wf_status := sa_status a, wf_task := sa_completedTaskId a, wf_point := step_point (sa_status a)\<rparr>, w1)"
    by (rule workflow_at_step) (use assms(3) in simp_all)
  then show ?thesis by (simp add: workflow_at_head [OF assms(1,2)])
qed

text \<open>The graph of a mission, from the view of its tasks.\<close>

definition view_rel :: "(string \<times> string list \<times> task_status) list \<Rightarrow> (string \<times> string) set" where
  "view_rel ts = {(i, d). \<exists>ds s. (i, ds, s) \<in> set ts \<and> d \<in> set ds}"

lemma view_rel_tasks: "view_rel (tasks_view m) = depends_on (ms_tasks m)"
  by (force simp: view_rel_def depends_on_def tasks_view_def)

lemma view_rel_set_status [simp]: "view_rel (set_status i s ts) = view_rel ts"
  by (force simp: view_rel_def set_status_def)

lemma finite_view_rel: "finite (view_rel ts)"
proof -
  have "view_rel ts = (\<Union>(i, ds, s) \<in> set ts. (\<lambda>d. (i, d)) ` set ds)" by (force simp: view_rel_def)
  then show ?thesis by auto
qed

definition in_progress :: "(string \<times> string list \<times> task_status) list \<Rightarrow> bool" where
  "in_progress ts \<longleftrightarrow> distinct (map fst ts) \<and> acyclic (view_rel ts) \<and> list_all (\<lambda>(i, ds, s). set ds \<subseteq> fst ` set ts) ts
     \<and> list_all (\<lambda>(i, ds, s). s = TK_PENDING \<or> s = TK_COMPLETED) ts"

lemma in_progress_complete:
  assumes "in_progress ts"
  shows "in_progress (set_status i TK_COMPLETED ts)"
proof -
  have ids: "fst ` set (set_status i TK_COMPLETED ts) = fst ` set ts" by (metis set_map set_status_simps(1))
  have mem: "\<exists>s0. (j, ds, s0) \<in> set ts \<and> (s = s0 \<or> s = TK_COMPLETED)"
    if "(j, ds, s) \<in> set (set_status i TK_COMPLETED ts)" for j ds s
    using that by (auto simp: set_status_def split: if_splits)
  show ?thesis using assms mem unfolding in_progress_def ids list_all_iff by simp fast
qed

lemma plan_in_progress:
  assumes "plan_ok (ms_tasks m) v" and "list_all (\<lambda>t. tk_status t = TK_PENDING \<or> tk_status t = TK_COMPLETED) (ms_tasks m)"
  shows "in_progress (tasks_view m)"
proof -
  have ids: "fst ` set (tasks_view m) = tk_id ` set (ms_tasks m)" by (metis set_map tasks_view_parts(1))
  have "list_all (\<lambda>(i, ds, s). set ds \<subseteq> tk_id ` set (ms_tasks m)) (tasks_view m)"
    using assms(1) by (auto simp: plan_ok_def task_ok_def tasks_view_def list_all_iff)
  moreover have "list_all (\<lambda>(i, ds, s). s = TK_PENDING \<or> s = TK_COMPLETED) (tasks_view m)"
    using assms(2) by (auto simp: tasks_view_def list_all_iff)
  ultimately show ?thesis
    using assms(1) unfolding in_progress_def ids by (simp add: plan_ok_def view_rel_tasks tasks_view_parts)
qed

lemma none_ready:
  assumes "selectNextTask m = None" and "(i, ds, TK_PENDING) \<in> set (tasks_view m)"
  shows "\<not> set ds \<subseteq> finished (tasks_view m)"
proof -
  have "finished (tasks_view m) = set (map tk_id (filter (\<lambda>t. tk_status t = TK_COMPLETED) (ms_tasks m)))"
    by (force simp: finished_def tasks_view_def)
  moreover obtain t where "t \<in> set (ms_tasks m)" "tk_status t = TK_PENDING" "tk_dependsOn t = ds"
    using assms(2) by (auto simp: tasks_view_def)
  moreover have "\<not> (tk_status t = TK_PENDING \<and>
      list_all (\<lambda>d. d \<in> set (map tk_id (filter (\<lambda>t. tk_status t = TK_COMPLETED) (ms_tasks m)))) (tk_dependsOn t))"
    if "t \<in> set (ms_tasks m)" for t
    using assms(1) that unfolding selectNextTask_def Let_def find_None_iff by blast
  ultimately show ?thesis by (auto simp only: list_all_iff subset_iff)
qed

lemma ready_exists:
  assumes "in_progress ts" and "(j, es, TK_PENDING) \<in> set ts"
  shows "\<exists>i ds. (i, ds, TK_PENDING) \<in> set ts \<and> set ds \<subseteq> finished ts"
proof -
  have "wf ((view_rel ts)\<inverse>)" by (rule finite_acyclic_wf_converse) (use assms(1) finite_view_rel in \<open>simp_all add: in_progress_def\<close>)
  moreover have "j \<in> pending_ids ts" using assms(2) by (force simp: pending_ids_def)
  ultimately obtain i where i: "i \<in> pending_ids ts" "\<And>d. (i, d) \<in> view_rel ts \<Longrightarrow> d \<notin> pending_ids ts"
    using wfE_min [of "(view_rel ts)\<inverse>" j "pending_ids ts"] by (metis converse_iff)
  then obtain ds where ds: "(i, ds, TK_PENDING) \<in> set ts" by (force simp: pending_ids_def)
  have "d \<in> finished ts" if d: "d \<in> set ds" for d
  proof -
    have "d \<notin> pending_ids ts" using i(2) d ds by (force simp: view_rel_def)
    moreover have sub: "list_all (\<lambda>(i, ds, s). set ds \<subseteq> fst ` set ts) ts" "list_all (\<lambda>(i, ds, s). s = TK_PENDING \<or> s = TK_COMPLETED) ts"
      using assms(1) by (simp_all add: in_progress_def)
    moreover have "set ds \<subseteq> fst ` set ts" using sub(1) ds unfolding list_all_iff by fast
    then obtain x y where xy: "(d, x, y) \<in> set ts" using d by auto
    ultimately have "y = TK_COMPLETED" by (force simp: list_all_iff pending_ids_def)
    then show ?thesis using xy by (force simp: finished_def)
  qed
  then show ?thesis using ds by blast
qed

lemma pending_card: "distinct (map fst ts) \<Longrightarrow> pending ts = card (pending_ids ts)"
proof -
  assume "distinct (map fst ts)"
  then have "distinct (map fst (filter (\<lambda>(i, ds, s). s = TK_PENDING) ts))" by (simp add: distinct_map_filter)
  from distinct_card [OF this] show ?thesis by (simp add: pending_def pending_ids_def)
qed

lemma pending_one_less:
  assumes "distinct (map fst ts)" and "(i, ds, TK_PENDING) \<in> set ts" and "s \<noteq> TK_PENDING"
  shows "pending ts = Suc (pending (set_status i s ts))"
proof -
  have "card (pending_ids ts) = Suc (card (pending_ids ts - {i}))"
    by (rule card.remove) (use assms(2) in \<open>force simp: pending_ids_def\<close>)+
  moreover have "pending (set_status i s ts) = card (pending_ids ts - {i})"
    using pending_card [of "set_status i s ts"] assms(1) pending_after [OF assms(3), of i ts] by simp
  ultimately show ?thesis using pending_card [OF assms(1)] by simp
qed

definition agents_complete :: "'db engine_deps \<Rightarrow> bool" where
  "agents_complete dp \<longleftrightarrow> (\<forall>cs rq. \<exists>r. ed_execute dp cs rq = Some r \<and> er_status r = XS_COMPLETED)"

lemma pending_pos: "0 < pending ts \<Longrightarrow> \<exists>j es. (j, es, TK_PENDING) \<in> set ts"
  by (auto simp: pending_def filter_empty_conv)

lemma workflow_returned: "wf_point s = WfReturned \<Longrightarrow> workflow_run dp ks ctx i n (s, w) = (s, w)"
  by (induction n) (simp_all add: workflow_next_def)

context mission_store begin

lemma step_of_ready:
  assumes "over dp" and "quiet dp" and "ok i (ew_db w)" and "find ctx i (ew_db w) = Some m" and "ms_status m = MS_EXECUTING"
    and "selectNextTask m = Some t" and "resolves dp ctx i" and "compensates dp" and "new_approval k w" and "agents_complete dp"
  shows "\<exists>w1 m1 rq. executeMissionStep dp k ctx i w = (Inr \<lparr>sa_status = MS_EXECUTING, sa_completedTaskId = Some (tk_id t)\<rparr>, w1)
    \<and> ok i (ew_db w1) \<and> find ctx i (ew_db w1) = Some m1 \<and> ew_calls w1 = ew_calls w @ [rq] \<and> ms_status m1 = MS_EXECUTING
    \<and> tasks_view m1 = set_status (tk_id t) TK_COMPLETED (tasks_view m) \<and> ew_approvals w1 = ew_approvals w"
proof -
  have aa: "agents_answer dp" using assms(10) unfolding agents_answer_def agents_complete_def by blast
  obtain w1 m1 rq where e: "executeTask dp k ctx m t w = (Inr (), w1)" "ok i (ew_db w1)" "find ctx i (ew_db w1) = Some m1"
    "ew_calls w1 = ew_calls w @ [rq]" "ms_status m1 = mission_after (er_status (the (ed_execute dp (ew_calls w) rq)))"
    "tasks_view m1 = set_status (tk_id t) (task_after (er_status (the (ed_execute dp (ew_calls w) rq)))) (tasks_view m)"
    "ms_status m1 \<noteq> MS_PAUSED \<longrightarrow> ew_approvals w1 = ew_approvals w"
    using executeTask_ok [OF assms(1-9) aa] by blast
  have c: "er_status (the (ed_execute dp (ew_calls w) rq)) = XS_COMPLETED"
    using assms(10) unfolding agents_complete_def by (metis option.sel)
  have s: "ms_status m1 = MS_EXECUTING" "tasks_view m1 = set_status (tk_id t) TK_COMPLETED (tasks_view m)"
    using e(5,6) unfolding c by (simp_all add: mission_after_def task_after_def failing_def)
  have "executeMissionStep dp k ctx i w = (Inr \<lparr>sa_status = MS_EXECUTING, sa_completedTaskId = Some (tk_id t)\<rparr>, w1)"
    using load_ok [OF assms(1,3,4)] load_ok [OF assms(1) e(2,3)] assms(5,6) e(1) s(1)
    by (simp add: executeMissionStep_def ms_isTerminal_def)
  moreover have "ew_approvals w1 = ew_approvals w" using e(7) s(1) by simp
  ultimately show ?thesis using e(2-4) s by blast
qed

lemma step_of_done:
  assumes "over dp" and "ok i (ew_db w)" and "find ctx i (ew_db w) = Some m" and "ms_status m = MS_EXECUTING"
    and "selectNextTask m = None"
  shows "\<exists>w1 m1. executeMissionStep dp k ctx i w = (Inr \<lparr>sa_status = ms_status m1, sa_completedTaskId = None\<rparr>, w1)
    \<and> find ctx i (ew_db w1) = Some m1 \<and> ew_calls w1 = ew_calls w \<and> tasks_view m1 = tasks_view m
    \<and> ms_status m1 = (if list_all (\<lambda>t. tk_status t = TK_COMPLETED) (ms_tasks m) then MS_COMPLETED else MS_FAILED)"
proof -
  obtain w1 m1 m2 where e: "evaluateCompletion dp k ctx m w = (Inr m2, w1)" "find ctx i (ew_db w1) = Some m1"
    "ms_status m2 = ms_status m1" "tasks_view m1 = tasks_view m" "ew_calls w1 = ew_calls w"
    "ms_status m1 = (if list_all (\<lambda>t. tk_status t = TK_COMPLETED) (ms_tasks m) then MS_COMPLETED else MS_FAILED)"
    using evaluate_ok [OF assms(1-4), where k = k] by blast
  have "executeMissionStep dp k ctx i w = (Inr \<lparr>sa_status = ms_status m1, sa_completedTaskId = None\<rparr>, w1)"
    using load_ok [OF assms(1-3)] assms(4,5) e(1,3) by (simp add: executeMissionStep_def ms_isTerminal_def)
  then show ?thesis using e by blast
qed

lemma workflow_completes:
  assumes "over dp" and "quiet dp" and "resolves dp ctx i" and "compensates dp" and "agents_complete dp"
    and "wf_point s = WfHead" and "wf_control s = None"
    and "ok i (ew_db w)" and "find ctx i (ew_db w) = Some m" and "ms_status m = MS_EXECUTING"
    and "in_progress (tasks_view m)" and "pending (tasks_view m) = p" and "\<forall>j l. new_approval (ks j l) w"
  shows "\<exists>s' w' m' new. workflow_run dp ks ctx i (2 * p + 2) (s, w) = (s', w') \<and> wf_point s' = WfReturned \<and> wf_status s' = MS_COMPLETED
    \<and> find ctx i (ew_db w') = Some m' \<and> ms_status m' = MS_COMPLETED \<and> list_all (\<lambda>t. tk_status t = TK_COMPLETED) (ms_tasks m')
    \<and> ew_calls w' = ew_calls w @ new \<and> length new = p"
  using assms(6-13)
proof (induction p arbitrary: s w m)
  case 0
  have np: "(j, es, TK_PENDING) \<notin> set (tasks_view m)" for j es
    using Suc_leI [OF pending_set_status [of j es "tasks_view m" TK_COMPLETED]] "0.prems"(7) by auto
  then have all: "list_all (\<lambda>t. tk_status t = TK_COMPLETED) (ms_tasks m)"
    using "0.prems"(6) unfolding all_completed_view by (fastforce simp: in_progress_def list_all_iff)
  have none: "selectNextTask m = None"
    using np selected_view by (cases "selectNextTask m") blast+
  obtain w1 m1 where e: "executeMissionStep dp (ks 0 2) ctx i w = (Inr \<lparr>sa_status = ms_status m1, sa_completedTaskId = None\<rparr>, w1)"
    "find ctx i (ew_db w1) = Some m1" "ew_calls w1 = ew_calls w" "tasks_view m1 = tasks_view m" "ms_status m1 = MS_COMPLETED"
    using step_of_done [OF assms(1) "0.prems"(3-5) none, where k = "ks 0 2"] all by auto
  have "list_all (\<lambda>t. tk_status t = TK_COMPLETED) (ms_tasks m1)" using all e(4) unfolding all_completed_view by simp
  moreover have "2 * 0 + 2 = Suc (Suc 0)" by simp
  ultimately show ?case
    using workflow_round [where ks = ks and n = 0, OF "0.prems"(1,2) e(1)] e(2-5) by (simp add: step_point_def)
next
  case (Suc p)
  obtain j es where "(j, es, TK_PENDING) \<in> set (tasks_view m)"
    using Suc.prems(7) pending_pos [of "tasks_view m"] by auto
  from ready_exists [OF Suc.prems(6) this] obtain t where t: "selectNextTask m = Some t"
    using none_ready by (cases "selectNextTask m") blast+
  note sv = selected_view [OF t]
  let ?n = "2 * p + 2"
  have na: "new_approval (ks ?n 2) w" using Suc.prems(8) by blast
  obtain w1 m1 rq where e: "executeMissionStep dp (ks ?n 2) ctx i w = (Inr \<lparr>sa_status = MS_EXECUTING, sa_completedTaskId = Some (tk_id t)\<rparr>, w1)"
    "ok i (ew_db w1)" "find ctx i (ew_db w1) = Some m1" "ew_calls w1 = ew_calls w @ [rq]" "ms_status m1 = MS_EXECUTING"
    "tasks_view m1 = set_status (tk_id t) TK_COMPLETED (tasks_view m)" "ew_approvals w1 = ew_approvals w"
    using step_of_ready [OF assms(1,2) Suc.prems(3-5) t assms(3,4) na assms(5)] by blast
  have ip: "in_progress (tasks_view m1)" unfolding e(6) by (rule in_progress_complete [OF Suc.prems(6)])
  have d: "distinct (map fst (tasks_view m))" using Suc.prems(6) by (simp add: in_progress_def)
  have pe: "pending (tasks_view m1) = p" using pending_one_less [OF d sv, of TK_COMPLETED] Suc.prems(7) e(6) by simp
  have ap: "\<forall>j l. new_approval (ks j l) w1" using Suc.prems(8) e(7) by (simp add: new_approval_def)
  let ?s = "s\<lparr>wf_approval := None, wf_status := MS_EXECUTING, wf_task := Some (tk_id t), wf_point := WfHead\<rparr>"
  have hd: "wf_point ?s = WfHead" "wf_control ?s = None" using Suc.prems(2) by simp_all
  have "workflow_run dp ks ctx i (Suc (Suc ?n)) (s, w) = workflow_run dp ks ctx i ?n (?s, w1)"
    using workflow_round [where ks = ks and n = ?n, OF Suc.prems(1,2) e(1)] by (simp add: step_point_def del: workflow_run.simps)
  moreover have "2 * Suc p + 2 = Suc (Suc ?n)" by simp
  ultimately show ?case using Suc.IH [OF hd e(2,3,5) ip pe ap] e(4) by (force simp del: workflow_run.simps)
qed

end

text \<open>
  (C4) A planned mission gets done. On Postgres tables with unique keys, for a mission bound to its workspace
  and a user who is the only member of that name
  in the workspace: when the workflow is at the head of its loop without a control signal and none arrives,
  the stored mission executes a plan that the plan check accepts and whose tasks are pending or completed,
  every agent completes what it is asked for, compensations succeed, the approval ids are new and nobody
  else writes, then the workflow returns after two steps for each pending task and two more, the mission
  is stored as completed with all of its tasks, and the calls are as many as the pending tasks.
\<close>

theorem workflow_completes_mission:
  assumes "ed_find dp = mr_findById" and "ed_save dp = mr_save" and "quiet dp" and "compensates dp" and "agents_complete dp"
    and "ed_workspace dp = resolveAuthorizedWorkspace memberships" and "sole_member memberships ctx"
    and "wf_point s = WfHead" and "wf_control s = None"
    and "db_ok (ew_db w)" and "no_legacy i (ew_db w)" and "mr_findById ctx i (ew_db w) = Some m" and "ms_status m = MS_EXECUTING"
    and "validateTaskGraph (ms_tasks m) (pl_version (ms_plan m)) = None"
    and "list_all (\<lambda>t. tk_status t = TK_PENDING \<or> tk_status t = TK_COMPLETED) (ms_tasks m)"
    and "\<forall>j l. \<not> list_ex (\<lambda>r. row_id r = ti_approval (ks j l)) (aw_rows (ew_approvals w))"
  shows "\<exists>s' w' m' new. workflow_run dp ks ctx i (2 * pending (tasks_view m) + 2) (s, w) = (s', w')
    \<and> wf_point s' = WfReturned \<and> wf_status s' = MS_COMPLETED
    \<and> mr_findById ctx i (ew_db w') = Some m' \<and> ms_status m' = MS_COMPLETED
    \<and> list_all (\<lambda>t. tk_status t = TK_COMPLETED) (ms_tasks m')
    \<and> ew_calls w' = ew_calls w @ new \<and> length new = pending (tasks_view m)"
  by (rule pg.workflow_completes [OF pg_over [OF assms(1,2)] assms(3) pg_resolves [OF assms(6,7)] assms(4,5,8,9) conjI [OF assms(10,11)]
        assms(12,13) plan_in_progress [OF assms(14) [unfolded validateTaskGraph_None] assms(15)] refl])
    (use assms(16) in \<open>simp add: pg.new_approval_def\<close>)

lemma sample_planner: "ed_planner (sample_engine f) = outreach_plan (\<lambda>m. JNull)"
  by (simp add: sample_engine_def)

definition workflow_head_state :: "mission_control option \<Rightarrow> workflow_state" where
  "workflow_head_state c = workflow_initial\<lparr>wf_point := WfHead, wf_status := MS_EXECUTING, wf_control := c\<rparr>"

definition control_run :: "ms_status \<Rightarrow> mission_db engine_world" where
  "control_run s = (sample_run TK_PENDING TK_PENDING)\<lparr>ew_db := control_db s\<rparr>"

lemma control_run_simps [simp]:
  "ew_db (control_run s) = control_db s" "ew_calls (control_run s) = []" "aw_rows (ew_approvals (control_run s)) = []"
  "wf_point (workflow_head_state c) = WfHead" "wf_control (workflow_head_state c) = c"
  by (simp_all add: control_run_def workflow_head_state_def)

theorem workflow_completes_mission_witness:
  "\<exists>s' w' m' new. workflow_run (sample_engine (\<lambda>rq. Some (sample_result XS_COMPLETED))) (\<lambda>j. sample_tick) engine_ctx ''m'' 6
       (workflow_head_state None, control_run MS_EXECUTING) = (s', w')
    \<and> wf_point s' = WfReturned \<and> wf_status s' = MS_COMPLETED \<and> mr_findById engine_ctx ''m'' (ew_db w') = Some m' \<and> ms_status m' = MS_COMPLETED
    \<and> list_all (\<lambda>t. tk_status t = TK_COMPLETED) (ms_tasks m') \<and> ew_calls w' = new \<and> length new = 2"
proof -
  let ?dp = "sample_engine (\<lambda>rq. Some (sample_result XS_COMPLETED))"
  obtain m where m: "mr_findById engine_ctx ''m'' (control_db MS_EXECUTING) = Some m" "ms_status m = MS_EXECUTING"
    "tasks_view m = [(''a'', [], TK_PENDING), (''b'', [''a''], TK_PENDING)]" "validateTaskGraph (ms_tasks m) (pl_version (ms_plan m)) = None"
    using control_db_facts(3) by blast
  have p: "2 * pending (tasks_view m) + 2 = 6" "pending (tasks_view m) = 2" by (simp_all add: m(3) pending_def)
  have st: "list_all (\<lambda>t. tk_status t = TK_PENDING \<or> tk_status t = TK_COMPLETED) (ms_tasks m)"
    using m(3) by (auto simp: tasks_view_def)
  have ag: "agents_complete ?dp" by (simp add: agents_complete_def sample_result_def)
  have "\<exists>s' w' m' new. workflow_run ?dp (\<lambda>j. sample_tick) engine_ctx ''m'' (2 * pending (tasks_view m) + 2)
       (workflow_head_state None, control_run MS_EXECUTING) = (s', w')
    \<and> wf_point s' = WfReturned \<and> wf_status s' = MS_COMPLETED \<and> mr_findById engine_ctx ''m'' (ew_db w') = Some m' \<and> ms_status m' = MS_COMPLETED
    \<and> list_all (\<lambda>t. tk_status t = TK_COMPLETED) (ms_tasks m') \<and> ew_calls w' = ew_calls (control_run MS_EXECUTING) @ new
    \<and> length new = pending (tasks_view m)"
    by (rule workflow_completes_mission [OF _ _ _ _ ag _ sample_member _ _ _ _ _ m(2,4) st])
      (use m(1) control_db_facts(1,2) in simp_all)
  then show ?thesis unfolding p by simp
qed

text \<open>
  A mission that waits keeps its workflow busy: while the stored mission is neither executing nor at
  an end, as when the engine paused it for an approval or blocked it, and no signal arrives, the
  workflow goes round its loop for ever; it never waits, never returns and changes nothing.
\<close>

theorem waiting_mission_spins:
  assumes "ed_find dp = mr_findById" and "mr_findById ctx i (ew_db w) = Some m"
    and "ms_status m \<notin> {MS_EXECUTING, MS_COMPLETED, MS_FAILED, MS_CANCELLED, MS_ARCHIVED}"
    and "wf_point s \<in> {WfHead, WfStepping}" and "wf_control s = None"
  shows "snd (workflow_run dp ks ctx i n (s, w)) = w \<and> wf_point (fst (workflow_run dp ks ctx i n (s, w))) \<in> {WfHead, WfStepping}
    \<and> wf_control (fst (workflow_run dp ks ctx i n (s, w))) = None"
  using assms(4,5)
proof (induction n arbitrary: s)
  case (Suc n)
  have l: "loadMission dp ctx i (ew_db w) = Inr m \<or> (\<exists>x. loadMission dp ctx i (ew_db w) = Inl x)"
    using assms(1,2) by (simp add: loadMission_def)
  have own: "tenantId m = cx_tenantId ctx" using assms(2) by (rule mr_findById_Some) (auto simp: bound_row_def)
  then have ex: "executeMissionStep dp k ctx i w = (Inr \<lparr>sa_status = ms_status m, sa_completedTaskId = None\<rparr>, w)" for k
    using assms(1-3) by (simp add: executeMissionStep_def loadMission_def ensureSameTenant_def)
  consider (h) "wf_point s = WfHead" | (e) "wf_point s = WfStepping" using Suc.prems(1) by blast
  then obtain s' where s': "workflow_next dp (ks n) ctx i (s, w) = (s', w)" "wf_point s' \<in> {WfHead, WfStepping}" "wf_control s' = None"
  proof cases
    case h
    then show ?thesis using that [OF workflow_at_head [OF h Suc.prems(2)]] Suc.prems(2) by simp
  next
    case e
    have "step_point (ms_status m) = WfHead" using assms(3) by (simp add: step_point_def)
    then show ?thesis using that [OF workflow_at_step [where ?k1.0 = "ks n", OF e ex]] Suc.prems(2) by simp
  qed
  show ?case using Suc.IH [OF s'(2,3)] by (simp add: s'(1))
qed simp

theorem waiting_mission_spins_witness:
  "snd (workflow_run (sample_engine (\<lambda>rq. None)) (\<lambda>j. sample_tick) engine_ctx ''m'' 1000 (workflow_head_state None, control_run MS_PAUSED))
     = control_run MS_PAUSED"
proof -
  obtain m where m: "mr_findById engine_ctx ''m'' (control_db MS_PAUSED) = Some m" "ms_status m = MS_PAUSED" using control_db_facts(3) by blast
  show ?thesis
    using waiting_mission_spins [where dp = "sample_engine (\<lambda>rq. None)" and ctx = engine_ctx and i = "''m''" and w = "control_run MS_PAUSED"
        and m = m and s = "workflow_head_state None" and ks = "\<lambda>j. sample_tick" and n = 1000] m by simp
qed

text \<open>
  Asking for a new plan ends the workflow: the planners give no plan that the mission accepts, so
  when the signal is taken up the activity throws in each of its attempts, the workflow fails, and the
  mission stays stored as executing with nobody who runs it.
\<close>

theorem replan_request_fails_workflow:
  assumes "ed_find dp ctx i (ew_db w) = Some m" and "js_le (Fin 1) (pl_version (ms_plan m))"
    and "ed_planner dp = outreach_plan encode \<or> ed_planner dp = planner_plan templates"
    and "wf_point s = WfHead" and "wf_control s = Some (command_signal ReplanMission)"
  shows "\<exists>x. workflow_run dp ks ctx i (n + 2) (s, w) = (s\<lparr>wf_point := WfFailed x\<rparr>, w)"
proof -
  have "\<exists>x. activity (\<lambda>n. replanMission dp (k n) ctx i None) w = (Inl x, w)" for k
    by (rule activity_throws) (rule replan_of_planner_throws [OF assms(1-3)])
  then obtain x where x: "activity (\<lambda>j. replanMission dp (ks n j) ctx i None) w = (Inl x, w)" by blast
  have f: "workflow_run dp ks ctx i n (s\<lparr>wf_point := WfFailed x\<rparr>, w) = (s\<lparr>wf_point := WfFailed x\<rparr>, w)" for n
    by (induction n) (simp_all add: workflow_next_def)
  have "workflow_run dp ks ctx i (n + 2) (s, w) = workflow_run dp ks ctx i n (s\<lparr>wf_point := WfFailed x\<rparr>, w)"
    using x assms(4,5) by (simp add: numeral_2_eq_2 workflow_next_def workflow_head_def workflow_replan_def)
  then show ?thesis using f by auto
qed

theorem replan_request_fails_workflow_witness:
  "\<exists>x. workflow_run (sample_engine (\<lambda>rq. None)) (\<lambda>j. sample_tick) engine_ctx ''m'' 2
       (workflow_head_state (Some (command_signal ReplanMission)), control_run MS_EXECUTING)
     = ((workflow_head_state (Some (command_signal ReplanMission)))\<lparr>wf_point := WfFailed x\<rparr>, control_run MS_EXECUTING)"
proof -
  obtain m where m: "mr_findById engine_ctx ''m'' (control_db MS_EXECUTING) = Some m" "pl_version (ms_plan m) = Fin 1"
    using control_db_facts(3) by blast
  show ?thesis
    using replan_request_fails_workflow [where dp = "sample_engine (\<lambda>rq. None)" and ctx = engine_ctx and i = "''m''"
        and w = "control_run MS_EXECUTING" and m = m and encode = "\<lambda>m. JNull" and n = 0 and ks = "\<lambda>j. sample_tick"
        and s = "workflow_head_state (Some (command_signal ReplanMission))"] m
    by (simp add: sample_planner numeral_2_eq_2 del: workflow_run.simps)
qed

subsection \<open>A lost race\<close>

context mission_store begin

text \<open>An attempt that nobody disturbs is the last one, so the number of attempts left does not matter.\<close>

lemma attempt_decides:
  assumes "drives dp" and "drives dp'" and "cd_meanwhile dp n = (\<lambda>db. db)" and "cd_meanwhile dp' n' = (\<lambda>db. db)"
    and "ok i (cw_db w)" and "find ctx i (cw_db w) = Some m" and "\<not> is_replan c"
  shows "control_attempts dp k ctx i (control_guard_of c) (control_op_of k c) (Suc n) w =
    control_attempts dp' k ctx i (control_guard_of c) (control_op_of k c) (Suc n') w"
proof -
  note l = control_load_ok [OF assms(1,5,6)] control_load_ok [OF assms(2,5,6)]
  have sv: "control_save dp n k ctx m1 w = control_save dp' n' k ctx m1 w" for m1
    using assms(1-4) by (simp add: control_save_def drives_def)
  show ?thesis
  proof (cases "control_effect c (ms_status m)")
    case None
    then show ?thesis using control_effect_cases(1) [OF assms(7) None, where k = k] l by auto
  next
    case (Some e)
    then obtain s tells where e: "control_effect c (ms_status m) = Some (s, tells)" by (cases e) simp
    show ?thesis
    proof (cases tells)
      case False
      then show ?thesis using control_effect_cases(2) [OF assms(7)] e l by simp
    next
      case True
      obtain m1 where m1: "control_guard_of c (ms_status m) = Proceed" "control_op_of k c m = (Ok (), m1)" "keeps_tasks m m1"
        using control_effect_cases(3) [OF assms(7), of m s k] e True by auto
      obtain w1 where "control_save dp n k ctx m1 w = (Inr (), w1)"
        using control_save_ok [OF assms(1,3,5,6) m1(3), where k = k] by blast
      then show ?thesis using l m1(1,2) sv [of m1] by simp
    qed
  qed
qed

end





end
