(* ===== verification/Leads.thy ===== *)
theory Leads
  imports Contexts
begin

section \<open>Leads and their qualification\<close>

text \<open>
  \<open>packages/domain/src/intelligence/lead.ts\<close>: a lead is evaluated once, from its scores and the hard
  filters of the profile, and the snapshot of that evaluation is kept; a person decides the leads that
  need a review, and a conversation may decide any lead that was not disqualified. Dates are
  milliseconds, with \<open>None\<close> for an invalid date; \<open>isoText\<close> is \<open>toISOString\<close>. Values are trees, so a cycle
  cannot be written, and freezing and cloning change nothing.
\<close>

record lead_scores =
  sc_icpMatch :: jsnum
  sc_signalScore :: jsnum
  sc_intentScore :: jsnum
  sc_evidenceConfidence :: jsnum
  sc_overall :: jsnum

datatype qualification_outcome = QO_QUALIFIED | QO_NEEDS_REVIEW | QO_NOT_QUALIFIED

definition HARD_FILTER_CODES :: "string list" where
  "HARD_FILTER_CODES = [''INDUSTRY'', ''GEOGRAPHY'', ''COMPANY_SIZE'', ''TERRITORY'', ''EXCLUDED_INDUSTRY'']"

record filter_result =
  hf_filter :: string
  hf_passed :: bool

record qualification_snapshot =
  qs_snapshotSchemaVersion :: string
  qs_scoringPolicyVersion :: string
  qs_algorithmVersion :: string
  qs_evaluatedAt :: string
  qs_icpProfileId :: string
  qs_icpProfileVersionId :: string
  qs_normalizedFeatures :: json
  qs_hardFilterResults :: "filter_result list"
  qs_scores :: lead_scores
  qs_qualification :: jsnum
  qs_review :: jsnum
  qs_evidenceIds :: "string list"
  qs_signalIds :: "string list"
  qs_reasonCodes :: "string list"
  qs_finalOutcome :: qualification_outcome
  qs_reasoningArtifactId :: "string option"

record evaluation_input =
  ei_scores :: lead_scores
  ei_qualificationThreshold :: jsnum
  ei_reviewThreshold :: jsnum
  ei_hardFilterResults :: "filter_result list"
  ei_evidenceIds :: "string list"
  ei_signalIds :: "string list"
  ei_normalizedFeatures :: json
  ei_snapshotSchemaVersion :: string
  ei_scoringPolicyVersion :: string
  ei_algorithmVersion :: string
  ei_evaluatedAt :: "int option"
  ei_reasoningArtifactId :: "string option"

datatype lead_status = LD_PENDING | LD_EVALUATING | LD_QUALIFIED | LD_NOT_QUALIFIED | LD_NEEDS_REVIEW

datatype lead_payload =
    LeadQualified string string string jsnum
  | LeadRequiresReview string string string string
  | LeadDisqualified string string string string

record lead_props =
  lp_id :: string
  lp_tenantId :: string
  lp_workspaceId :: string
  lp_missionId :: "string option"
  lp_accountId :: string
  lp_contactId :: string
  lp_icpProfileId :: string
  lp_icpProfileVersionId :: string
  lp_scores :: "lead_scores option"
  lp_status :: "lead_status option"
  lp_decisionReason :: "string option"
  lp_reasonCodes :: "string list option"
  lp_qualificationSnapshot :: "qualification_snapshot option"
  lp_evidenceReferences :: "string list option"
  lp_createdAt :: "int option"
  lp_updatedAt :: "int option"

record lead = "lead_payload domain_event aggregate_root" +
  ld_workspaceId :: string
  ld_missionId :: "string option"
  ld_accountId :: string
  ld_contactId :: string
  ld_icpProfileId :: string
  ld_icpProfileVersionId :: string
  ld_scores :: lead_scores
  ld_status :: lead_status
  ld_decisionReason :: "string option"
  ld_reasonCodes :: "string list"
  ld_qualificationSnapshot :: "qualification_snapshot option"
  ld_evidenceReferences :: "string list"
  ld_createdAt :: int
  ld_updatedAt :: int

datatype lead_error =
    LeadAlreadyEvaluated | LeadNotPending lead_status | LeadOverallOutOfRange | LeadScoreNotFinite string
  | LeadThresholdsNotFinite | LeadThresholdsInverted | LeadInvalidDate | LeadNoSchemaVersion | LeadNoPolicyVersion
  | LeadNoAlgorithmVersion | LeadFeaturesNotJson | LeadInvalidFilter string | LeadRequalification

subsection \<open>The operations\<close>

fun isJsonSafe :: "json \<Rightarrow> bool" where
  "isJsonSafe JNull = True"
| "isJsonSafe (JBool b) = True"
| "isJsonSafe (JStr s) = True"
| "isJsonSafe (JNum n) = js_isFinite n"
| "isJsonSafe (JArr vs) = list_all isJsonSafe vs"
| "isJsonSafe (JObj kvs) = list_all (\<lambda>(k, v). isJsonSafe v) kvs"

definition ld_construct :: "int \<Rightarrow> lead_props \<Rightarrow> lead" where
  "ld_construct now p =
     \<lparr>tenantId = lp_tenantId p, aggId = lp_id p, version = 0, loadedVersion = None, domainEvents = [],
      ld_workspaceId = lp_workspaceId p, ld_missionId = lp_missionId p, ld_accountId = lp_accountId p,
      ld_contactId = lp_contactId p, ld_icpProfileId = lp_icpProfileId p, ld_icpProfileVersionId = lp_icpProfileVersionId p,
      ld_scores = nullish (lp_scores p) \<lparr>sc_icpMatch = Fin 0, sc_signalScore = Fin 0, sc_intentScore = Fin 0,
        sc_evidenceConfidence = Fin 0, sc_overall = Fin 0\<rparr>,
      ld_status = nullish (lp_status p) LD_PENDING, ld_decisionReason = lp_decisionReason p,
      ld_reasonCodes = nullish (lp_reasonCodes p) [], ld_qualificationSnapshot = lp_qualificationSnapshot p,
      ld_evidenceReferences = nullish (lp_evidenceReferences p) [],
      ld_createdAt = nullish (lp_createdAt p) now, ld_updatedAt = nullish (lp_updatedAt p) now\<rparr>"

definition ld_create :: "int \<Rightarrow> lead_props \<Rightarrow> lead" where
  "ld_create now props = ld_construct now (props\<lparr>lp_status := Some LD_PENDING\<rparr>)"

definition ld_reconstitute :: "int \<Rightarrow> lead_props \<Rightarrow> nat \<Rightarrow> lead" where
  "ld_reconstitute now snapshot v = clearDomainEvents (setVersion v (ld_construct now snapshot))"

definition ld_event :: "string \<Rightarrow> int \<Rightarrow> string \<Rightarrow> string \<Rightarrow> lead_payload \<Rightarrow> lead_payload domain_event" where
  "ld_event ev now tenant corr pl =
     \<lparr>eventId = ev, occurredAt = now, evTenantId = tenant, correlationId = corr, producer = ''intelligence'', payload = pl\<rparr>"

text \<open>The guards of \<open>evaluate\<close> on its input, in their order.\<close>

definition score_components :: "lead_scores \<Rightarrow> (string \<times> jsnum) list" where
  "score_components s =
     [(''icpMatch'', sc_icpMatch s), (''signalScore'', sc_signalScore s), (''intentScore'', sc_intentScore s),
      (''evidenceConfidence'', sc_evidenceConfidence s), (''overall'', sc_overall s)]"

definition check_input :: "evaluation_input \<Rightarrow> lead_error option" where
  "check_input inp =
     (if js_lt (sc_overall (ei_scores inp)) (Fin 0) \<or> js_lt (Fin 1) (sc_overall (ei_scores inp)) then Some LeadOverallOutOfRange
      else case List.find (\<lambda>(key, v). \<not> js_isFinite v) (score_components (ei_scores inp)) of
          Some (key, v) \<Rightarrow> Some (LeadScoreNotFinite key)
        | None \<Rightarrow>
            if \<not> js_isFinite (ei_qualificationThreshold inp) \<or> \<not> js_isFinite (ei_reviewThreshold inp) then Some LeadThresholdsNotFinite
            else if js_lt (ei_qualificationThreshold inp) (ei_reviewThreshold inp) then Some LeadThresholdsInverted
            else if ei_evaluatedAt inp = None then Some LeadInvalidDate
            else if ei_snapshotSchemaVersion inp = [] then Some LeadNoSchemaVersion
            else if ei_scoringPolicyVersion inp = [] then Some LeadNoPolicyVersion
            else if ei_algorithmVersion inp = [] then Some LeadNoAlgorithmVersion
            else if \<not> isJsonSafe (ei_normalizedFeatures inp) then Some LeadFeaturesNotJson
            else (case List.find (\<lambda>hf. hf_filter hf \<notin> set HARD_FILTER_CODES) (ei_hardFilterResults inp) of
                    Some hf \<Rightarrow> Some (LeadInvalidFilter (hf_filter hf))
                  | None \<Rightarrow> None))"

text \<open>The outcome and the reason codes.\<close>

definition decide_outcome :: "evaluation_input \<Rightarrow> qualification_outcome \<times> string list" where
  "decide_outcome inp =
     (let failed = filter (\<lambda>hf. \<not> hf_passed hf) (ei_hardFilterResults inp);
          overall = sc_overall (ei_scores inp)
      in if failed \<noteq> [] then (QO_NOT_QUALIFIED, map (\<lambda>hf. ''HARD_FILTER_FAIL:'' @ hf_filter hf) failed)
         else if js_le (ei_qualificationThreshold inp) overall then (QO_QUALIFIED, [''SCORE_ABOVE_QUALIFICATION_THRESHOLD''])
         else if js_le (ei_reviewThreshold inp) overall then (QO_NEEDS_REVIEW, [''SCORE_BETWEEN_REVIEW_AND_QUALIFICATION''])
         else (QO_NOT_QUALIFIED, [''SCORE_BELOW_REVIEW_THRESHOLD'']))"

definition outcome_status :: "qualification_outcome \<Rightarrow> lead_status" where
  "outcome_status q = (case q of QO_NEEDS_REVIEW \<Rightarrow> LD_NEEDS_REVIEW | QO_QUALIFIED \<Rightarrow> LD_QUALIFIED | QO_NOT_QUALIFIED \<Rightarrow> LD_NOT_QUALIFIED)"

definition take_snapshot :: "(int \<Rightarrow> string) \<Rightarrow> evaluation_input \<Rightarrow> int \<Rightarrow> lead \<Rightarrow> qualification_snapshot" where
  "take_snapshot isoText inp evaluatedAt l =
     (let (outcome, codes) = decide_outcome inp
      in \<lparr>qs_snapshotSchemaVersion = ei_snapshotSchemaVersion inp, qs_scoringPolicyVersion = ei_scoringPolicyVersion inp,
          qs_algorithmVersion = ei_algorithmVersion inp, qs_evaluatedAt = isoText evaluatedAt, qs_icpProfileId = ld_icpProfileId l,
          qs_icpProfileVersionId = ld_icpProfileVersionId l, qs_normalizedFeatures = ei_normalizedFeatures inp,
          qs_hardFilterResults = ei_hardFilterResults inp, qs_scores = ei_scores inp,
          qs_qualification = ei_qualificationThreshold inp, qs_review = ei_reviewThreshold inp,
          qs_evidenceIds = ei_evidenceIds inp, qs_signalIds = ei_signalIds inp, qs_reasonCodes = codes,
          qs_finalOutcome = outcome,
          qs_reasoningArtifactId = (if truthy (ei_reasoningArtifactId inp) then ei_reasoningArtifactId inp else None)\<rparr>)"

definition ld_evaluate ::
    "(int \<Rightarrow> string) \<Rightarrow> evaluation_input \<Rightarrow> string \<Rightarrow> string \<Rightarrow> int \<Rightarrow> lead \<Rightarrow> (unit, lead_error) result \<times> lead" where
  "ld_evaluate isoText inp corr ev now l =
     (if ld_qualificationSnapshot l \<noteq> None then (Fail LeadAlreadyEvaluated, l)
      else if ld_status l \<noteq> LD_PENDING then (Fail (LeadNotPending (ld_status l)), l)
      else case check_input inp of
          Some err \<Rightarrow> (Fail err, l)
        | None \<Rightarrow>
            let (outcome, codes) = decide_outcome inp;
                reason = js_join ''; '' codes;
                l1 = l\<lparr>ld_qualificationSnapshot := Some (take_snapshot isoText inp (nullish (ei_evaluatedAt inp) 0) l),
                       ld_scores := ei_scores inp, ld_reasonCodes := codes, ld_status := outcome_status outcome,
                       ld_decisionReason := Some reason, ld_evidenceReferences := ld_evidenceReferences l @ ei_evidenceIds inp,
                       ld_updatedAt := now\<rparr>;
                pl = (case outcome of
                        QO_QUALIFIED \<Rightarrow> LeadQualified (aggId l) (ld_accountId l) (ld_contactId l) (sc_overall (ei_scores inp))
                      | QO_NEEDS_REVIEW \<Rightarrow> LeadRequiresReview (aggId l) (ld_accountId l) (ld_contactId l) reason
                      | QO_NOT_QUALIFIED \<Rightarrow> LeadDisqualified (aggId l) (ld_accountId l) (ld_contactId l) reason)
            in (Ok (), applyEvent (ld_event ev now (tenantId l) corr pl) l1))"

definition ld_approve :: "string \<Rightarrow> string \<Rightarrow> int \<Rightarrow> lead \<Rightarrow> lead" where
  "ld_approve corr ev now l =
     (if ld_status l \<noteq> LD_NEEDS_REVIEW then l
      else applyEvent (ld_event ev now (tenantId l) corr
             (LeadQualified (aggId l) (ld_accountId l) (ld_contactId l) (sc_overall (ld_scores l))))
             (l\<lparr>ld_status := LD_QUALIFIED, ld_updatedAt := now\<rparr>))"

definition ld_reject :: "string \<Rightarrow> string \<Rightarrow> string \<Rightarrow> int \<Rightarrow> lead \<Rightarrow> lead" where
  "ld_reject reason corr ev now l =
     (if ld_status l \<noteq> LD_NEEDS_REVIEW then l
      else applyEvent (ld_event ev now (tenantId l) corr (LeadDisqualified (aggId l) (ld_accountId l) (ld_contactId l) reason))
             (l\<lparr>ld_status := LD_NOT_QUALIFIED, ld_decisionReason := Some reason, ld_updatedAt := now\<rparr>))"

text \<open>The outcome of a conversation is one of the two final ones: \<open>True\<close> for \<open>QUALIFIED\<close>.\<close>

definition recordConversationOutcome ::
    "bool \<Rightarrow> string \<Rightarrow> string \<Rightarrow> string \<Rightarrow> int \<Rightarrow> lead \<Rightarrow> (unit, lead_error) result \<times> lead" where
  "recordConversationOutcome qualified reason corr ev now l =
     (if ld_status l = LD_NOT_QUALIFIED \<and> qualified then (Fail LeadRequalification, l)
      else let pl = (if qualified then LeadQualified (aggId l) (ld_accountId l) (ld_contactId l) (sc_overall (ld_scores l))
                     else LeadDisqualified (aggId l) (ld_accountId l) (ld_contactId l) reason)
           in (Ok (), applyEvent (ld_event ev now (tenantId l) corr pl)
                (l\<lparr>ld_status := (if qualified then LD_QUALIFIED else LD_NOT_QUALIFIED), ld_decisionReason := Some reason,
                   ld_updatedAt := now\<rparr>)))"

subsection \<open>Runs of calls\<close>

inductive lead_step :: "(int \<Rightarrow> string) \<Rightarrow> lead \<Rightarrow> lead \<Rightarrow> bool" for isoText where
  ls_evaluate: "lead_step isoText l (snd (ld_evaluate isoText inp corr ev now l))"
| ls_approve: "lead_step isoText l (ld_approve corr ev now l)"
| ls_reject: "lead_step isoText l (ld_reject reason corr ev now l)"
| ls_conversation: "lead_step isoText l (snd (recordConversationOutcome q reason corr ev now l))"

definition can_lead :: "lead_status \<Rightarrow> lead_status \<Rightarrow> bool" where
  "can_lead a b \<longleftrightarrow> (case a of
      LD_PENDING \<Rightarrow> b \<in> {LD_QUALIFIED, LD_NOT_QUALIFIED, LD_NEEDS_REVIEW}
    | LD_NEEDS_REVIEW \<Rightarrow> b \<in> {LD_QUALIFIED, LD_NOT_QUALIFIED}
    | LD_QUALIFIED \<Rightarrow> b = LD_NOT_QUALIFIED
    | LD_EVALUATING \<Rightarrow> b \<in> {LD_QUALIFIED, LD_NOT_QUALIFIED}
    | LD_NOT_QUALIFIED \<Rightarrow> False)"

lemma evaluate_cases:
  "ld_evaluate isoText inp corr ev now l = (r, l') \<Longrightarrow>
     (\<exists>e. r = Fail e \<and> l' = l) \<or>
     r = Ok () \<and> ld_qualificationSnapshot l = None \<and> ld_status l = LD_PENDING \<and> check_input inp = None
       \<and> ld_status l' = outcome_status (fst (decide_outcome inp))
       \<and> ld_qualificationSnapshot l' = Some (take_snapshot isoText inp (nullish (ei_evaluatedAt inp) 0) l)
       \<and> version l' = Suc (version l) \<and> tenantId l' = tenantId l \<and> aggId l' = aggId l \<and> ld_scores l' = ei_scores inp"
  by (auto simp: ld_evaluate_def applyEvent_def Let_def split: if_splits option.splits prod.splits)

lemmas lead_op_defs = ld_approve_def ld_reject_def recordConversationOutcome_def applyEvent_def Let_def

interpretation lead_life: lifecycle ld_status can_lead "lead_step isoText"
proof unfold_locales
  fix a b assume "lead_step isoText a b"
  then show "ld_status b = ld_status a \<or> can_lead (ld_status a) (ld_status b)"
  proof cases
    case (ls_evaluate inp corr ev now)
    then show ?thesis using evaluate_cases [of isoText inp corr ev now a "fst (ld_evaluate isoText inp corr ev now a)" b]
      by (auto simp: can_lead_def outcome_status_def split: qualification_outcome.splits)
  next
    case (ls_conversation q reason corr ev now)
    then show ?thesis by (cases "ld_status a"; auto simp: lead_op_defs can_lead_def split: if_splits)
  qed (auto simp: lead_op_defs can_lead_def)
qed

interpretation lead_log: event_sourced root_of "lead_step isoText"
proof unfold_locales
  fix a b assume "lead_step isoText a b"
  then show "extends_log (root_of a) (root_of b)"
    by cases (auto simp: ld_evaluate_def ld_approve_def ld_reject_def recordConversationOutcome_def Let_def
        intro!: extends_log_applyEvent root_of_eqI split: option.split prod.split)
qed

subsection \<open>What evaluation decides\<close>

text \<open>The inputs that \<open>evaluate\<close> accepts, without the order of its checks.\<close>

definition valid_evaluation :: "evaluation_input \<Rightarrow> bool" where
  "valid_evaluation inp \<longleftrightarrow>
     list_all (\<lambda>(key, v). js_isFinite v) (score_components (ei_scores inp))
     \<and> js_le (Fin 0) (sc_overall (ei_scores inp)) \<and> js_le (sc_overall (ei_scores inp)) (Fin 1)
     \<and> js_isFinite (ei_qualificationThreshold inp) \<and> js_isFinite (ei_reviewThreshold inp)
     \<and> js_le (ei_reviewThreshold inp) (ei_qualificationThreshold inp)
     \<and> ei_evaluatedAt inp \<noteq> None \<and> ei_snapshotSchemaVersion inp \<noteq> [] \<and> ei_scoringPolicyVersion inp \<noteq> []
     \<and> ei_algorithmVersion inp \<noteq> [] \<and> isJsonSafe (ei_normalizedFeatures inp)
     \<and> list_all (\<lambda>hf. hf_filter hf \<in> set HARD_FILTER_CODES) (ei_hardFilterResults inp)"

lemma not_finite_find: "(List.find (\<lambda>(key, v). \<not> js_isFinite v) xs = None) = list_all (\<lambda>(key, v). js_isFinite v) xs"
  by (auto simp: find_None_iff list_all_iff)

lemma code_find: "(List.find (\<lambda>hf. hf_filter hf \<notin> set HARD_FILTER_CODES) xs = None)
    = list_all (\<lambda>hf. hf_filter hf \<in> set HARD_FILTER_CODES) xs"
  by (auto simp: find_None_iff list_all_iff)

lemma finite_range: "js_isFinite v \<Longrightarrow> (\<not> js_lt v (Fin 0) \<and> \<not> js_lt (Fin 1) v) = (js_le (Fin 0) v \<and> js_le v (Fin 1))"
  by (cases v) auto

lemma finite_order: "js_isFinite a \<Longrightarrow> js_isFinite b \<Longrightarrow> (\<not> js_lt a b) = js_le b a"
  by (cases a; cases b) auto

lemma scores_finite_overall: "list_all (\<lambda>(key, v). js_isFinite v) (score_components s) \<Longrightarrow> js_isFinite (sc_overall s)"
  by (simp add: score_components_def)

lemma check_input_valid: "check_input inp = None \<longleftrightarrow> valid_evaluation inp"
proof (cases "list_all (\<lambda>(key, v). js_isFinite v) (score_components (ei_scores inp))")
  case True
  note fin = scores_finite_overall [OF True]
  have none: "List.find (\<lambda>(key, v). \<not> js_isFinite v) (score_components (ei_scores inp)) = None"
    using True by (simp add: not_finite_find)
  show ?thesis
    unfolding check_input_def valid_evaluation_def none option.case
    using finite_range [OF fin] finite_order code_find [of "ei_hardFilterResults inp"] True
    by (auto split: option.splits)
next
  case False
  then have "List.find (\<lambda>(key, v). \<not> js_isFinite v) (score_components (ei_scores inp)) \<noteq> None"
    by (simp add: not_finite_find)
  then show ?thesis using False by (auto simp: check_input_def valid_evaluation_def)
qed

lemma evaluate_ok_iff:
  "fst (ld_evaluate isoText inp corr ev now l) = Ok () \<longleftrightarrow>
     ld_qualificationSnapshot l = None \<and> ld_status l = LD_PENDING \<and> valid_evaluation inp"
  unfolding check_input_valid [symmetric]
  by (auto simp: ld_evaluate_def Let_def split: option.splits prod.splits)

lemma outcome_qualified_iff:
  "fst (decide_outcome inp) = QO_QUALIFIED \<longleftrightarrow>
     list_all hf_passed (ei_hardFilterResults inp) \<and> js_le (ei_qualificationThreshold inp) (sc_overall (ei_scores inp))"
  by (auto simp: decide_outcome_def Let_def list_all_iff filter_empty_conv)

subsection \<open>What the calls keep\<close>

lemma lead_step_snapshot:
  assumes "lead_step isoText a b"
  shows "ld_qualificationSnapshot b = ld_qualificationSnapshot a
    \<or> ld_qualificationSnapshot a = None \<and> ld_status a = LD_PENDING
      \<and> (\<exists>s. ld_qualificationSnapshot b = Some s \<and> ld_status b = outcome_status (qs_finalOutcome s))"
  using assms
proof cases
  case (ls_evaluate inp corr ev now)
  then show ?thesis using evaluate_cases [of isoText inp corr ev now a "fst (ld_evaluate isoText inp corr ev now a)" b]
    by (auto simp: take_snapshot_def split: prod.splits)
qed (auto simp: lead_op_defs)

lemma snapshot_kept:
  assumes "(lead_step isoText)\<^sup>*\<^sup>* a b" "ld_qualificationSnapshot a = Some s"
  shows "ld_qualificationSnapshot b = Some s"
  using assms by (induction rule: rtranclp_induct) (auto dest: lead_step_snapshot)

text \<open>
  (C26) A lead is evaluated at most once, only while pending and only on a valid input; the evaluation
  qualifies it exactly when every hard filter passed and the overall score reaches the qualification
  threshold, and the status, the event and the snapshot that it stores agree on that.
\<close>

theorem lead_evaluation_decides:
  assumes "ld_evaluate isoText inp corr ev now l = (r, l')"
  shows "(r = Ok () \<longleftrightarrow> ld_qualificationSnapshot l = None \<and> ld_status l = LD_PENDING \<and> valid_evaluation inp)
    \<and> (r \<noteq> Ok () \<longrightarrow> l' = l)
    \<and> (r = Ok () \<longrightarrow> (ld_status l' = LD_QUALIFIED \<longleftrightarrow>
           list_all hf_passed (ei_hardFilterResults inp) \<and> js_le (ei_qualificationThreshold inp) (sc_overall (ei_scores inp))))
    \<and> (r = Ok () \<longrightarrow> (\<exists>s. ld_qualificationSnapshot l' = Some s \<and> qs_scores s = ei_scores inp
           \<and> ld_status l' = outcome_status (qs_finalOutcome s)))"
  using evaluate_ok_iff [of isoText inp corr ev now l] evaluate_cases [OF assms] assms outcome_qualified_iff [of inp]
  by (auto simp: take_snapshot_def outcome_status_def split: prod.splits qualification_outcome.splits)

definition sample_scores :: lead_scores where
  "sample_scores = \<lparr>sc_icpMatch = Fin 1, sc_signalScore = Fin 1, sc_intentScore = Fin 0, sc_evidenceConfidence = Fin 1,
     sc_overall = Fin (3/4)\<rparr>"

definition sample_evaluation :: evaluation_input where
  "sample_evaluation =
     \<lparr>ei_scores = sample_scores, ei_qualificationThreshold = Fin (7/10), ei_reviewThreshold = Fin (1/2),
      ei_hardFilterResults = [\<lparr>hf_filter = ''INDUSTRY'', hf_passed = True\<rparr>], ei_evidenceIds = [''e1''], ei_signalIds = [],
      ei_normalizedFeatures = JObj [], ei_snapshotSchemaVersion = ''1'', ei_scoringPolicyVersion = ''1'', ei_algorithmVersion = ''1'',
      ei_evaluatedAt = Some 5, ei_reasoningArtifactId = None\<rparr>"

definition sample_lead :: lead where
  "sample_lead = ld_create 1 \<lparr>lp_id = ''l'', lp_tenantId = ''t'', lp_workspaceId = ''w'', lp_missionId = None, lp_accountId = ''a'',
     lp_contactId = ''c'', lp_icpProfileId = ''p'', lp_icpProfileVersionId = ''v'', lp_scores = None, lp_status = None,
     lp_decisionReason = None, lp_reasonCodes = None, lp_qualificationSnapshot = None, lp_evidenceReferences = None,
     lp_createdAt = None, lp_updatedAt = None\<rparr>"

lemma sample_valid: "valid_evaluation sample_evaluation"
  by (simp add: valid_evaluation_def sample_evaluation_def sample_scores_def score_components_def HARD_FILTER_CODES_def)

lemma sample_lead_fields: "ld_status sample_lead = LD_PENDING" "ld_qualificationSnapshot sample_lead = None"
  by (simp_all add: sample_lead_def ld_create_def ld_construct_def)

theorem lead_evaluation_decides_witness:
  "ld_status (snd (ld_evaluate (\<lambda>t. ''d'') sample_evaluation ''k'' ''e'' 7 sample_lead)) = LD_QUALIFIED
   \<and> (\<exists>s. ld_qualificationSnapshot (snd (ld_evaluate (\<lambda>t. ''d'') sample_evaluation ''k'' ''e'' 7 sample_lead)) = Some s
        \<and> qs_scores s = sample_scores)"
proof -
  obtain r l' where run: "ld_evaluate (\<lambda>t. ''d'') sample_evaluation ''k'' ''e'' 7 sample_lead = (r, l')"
    by (rule prod.exhaust)
  note decides = lead_evaluation_decides [OF run]
  have ok: "r = Ok ()" using decides sample_valid sample_lead_fields by blast
  have above: "list_all hf_passed (ei_hardFilterResults sample_evaluation)
      \<and> js_le (ei_qualificationThreshold sample_evaluation) (sc_overall (ei_scores sample_evaluation))"
    by (simp add: sample_evaluation_def sample_scores_def)
  have scores: "ei_scores sample_evaluation = sample_scores" by (simp add: sample_evaluation_def)
  show ?thesis using decides ok above unfolding run snd_conv scores by blast
qed

text \<open>
  (C27) A decision against a lead is final: whatever is called, in whatever order, a disqualified lead
  stays disqualified, and the snapshot of an evaluated lead stays the one of its only evaluation, a
  further one being refused without any effect.
\<close>

theorem lead_verdict_is_final:
  assumes "(lead_step isoText)\<^sup>*\<^sup>* a b"
  shows "(ld_status a = LD_NOT_QUALIFIED \<longrightarrow> ld_status b = LD_NOT_QUALIFIED)
    \<and> (\<forall>s inp corr ev now. ld_qualificationSnapshot a = Some s \<longrightarrow> ld_qualificationSnapshot b = Some s
           \<and> ld_evaluate isoText inp corr ev now b = (Fail LeadAlreadyEvaluated, b))"
  using lead_life.terminal_stays [OF assms] snapshot_kept [OF assms]
  by (auto simp: can_lead_def ld_evaluate_def)

definition rejected_lead :: lead where
  "rejected_lead = snd (recordConversationOutcome False ''no budget'' ''k'' ''e2'' 8
     (snd (ld_evaluate (\<lambda>t. ''d'') sample_evaluation ''k'' ''e'' 7 sample_lead)))"

theorem lead_verdict_is_final_witness:
  "ld_status (snd (recordConversationOutcome True ''again'' ''k'' ''e3'' 9 rejected_lead)) = LD_NOT_QUALIFIED
   \<and> (\<exists>s. ld_evaluate (\<lambda>t. ''d'') sample_evaluation ''k'' ''e4'' 10
            (snd (recordConversationOutcome True ''again'' ''k'' ''e3'' 9 rejected_lead))
          = (Fail LeadAlreadyEvaluated, snd (recordConversationOutcome True ''again'' ''k'' ''e3'' 9 rejected_lead)))"
proof -
  have step: "(lead_step (\<lambda>t. ''d''))\<^sup>*\<^sup>* rejected_lead (snd (recordConversationOutcome True ''again'' ''k'' ''e3'' 9 rejected_lead))"
    by (rule r_into_rtranclp, rule ls_conversation)
  have rejected: "ld_status rejected_lead = LD_NOT_QUALIFIED"
    by (simp add: rejected_lead_def recordConversationOutcome_def Let_def applyEvent_def)
  obtain s where snap: "ld_qualificationSnapshot rejected_lead = Some s"
    using evaluate_ok_iff [of "\<lambda>t. ''d''" sample_evaluation "''k''" "''e''" 7 sample_lead] sample_valid sample_lead_fields
    by (auto simp: rejected_lead_def recordConversationOutcome_def ld_evaluate_def Let_def applyEvent_def
        split: option.splits prod.splits)
  show ?thesis using lead_verdict_is_final [OF step] rejected snap by blast
qed

end
