(* ===== verification/Accounts.thy ===== *)
theory Accounts
  imports Contexts
begin

section \<open>Accounts and contacts\<close>

text \<open>
  \<open>packages/domain/src/intelligence/account.ts\<close> and \<open>contact.ts\<close>: the companies and the people that
  research finds. The updates of \<open>enrich\<close> are records of optional fields, one level deeper where the
  field itself is optional: \<open>None\<close> is an absent key and \<open>Some None\<close> the value \<open>undefined\<close>. A key of a
  field that the class requires carries a value when it is present.
\<close>

subsection \<open>Normalised domains\<close>

text \<open>\<open>s.indexOf(p)\<close>, \<open>None\<close> for \<open>-1\<close>.\<close>

fun js_indexOf :: "string \<Rightarrow> string \<Rightarrow> nat option" where
  "js_indexOf [] p = (if p = [] then Some 0 else None)"
| "js_indexOf (c # s) p = (if js_startsWith (c # s) p then Some 0 else map_option Suc (js_indexOf s p))"

text \<open>The steps of the cleaning: \<open>slice(0, indexOf(c))\<close> and \<open>slice(0, lastIndexOf(c))\<close> when found.\<close>

definition cut_first :: "char \<Rightarrow> string \<Rightarrow> string" where
  "cut_first c s = takeWhile (\<lambda>x. x \<noteq> c) s"

definition cut_last :: "char \<Rightarrow> string \<Rightarrow> string" where
  "cut_last c s = (if c \<in> set s then rev (tl (dropWhile (\<lambda>x. x \<noteq> c) (rev s))) else s)"

definition cut_scheme :: "string \<Rightarrow> string" where
  "cut_scheme s = (case js_indexOf s ''://'' of Some i \<Rightarrow> drop (i + 3) s | None \<Rightarrow> s)"

definition cut_dot :: "string \<Rightarrow> string" where
  "cut_dot s = (if s \<noteq> [] \<and> last s = CHR ''.'' then butlast s else s)"

definition cut_www :: "string \<Rightarrow> string" where
  "cut_www s = (if js_startsWith s ''www.'' then drop 4 s else s)"

definition normalizeDomain :: "string option \<Rightarrow> string option" where
  "normalizeDomain raw = (case raw of
     None \<Rightarrow> None
   | Some s \<Rightarrow>
       if js_trim s = [] then None
       else let cleaned = cut_www (cut_dot (cut_last CHR '':'' (cut_first CHR ''#'' (cut_first CHR ''?'' (cut_first CHR ''/''
                  (cut_scheme (js_lower (js_trim s))))))))
            in if cleaned \<noteq> [] then Some cleaned else None)"

subsection \<open>Accounts\<close>

datatype company_size = SIZE_STARTUP | SIZE_SMB | SIZE_MID_MARKET | SIZE_ENTERPRISE

datatype enrichment_state = ENRICHMENT_NONE | ENRICHMENT_PARTIAL | ENRICHMENT_COMPLETE

datatype account_status = AC_DISCOVERED | AC_ENRICHED | AC_QUALIFIED | AC_DISQUALIFIED | AC_DUPLICATE

record account_props =
  ap_id :: string
  ap_tenantId :: string
  ap_workspaceId :: string
  ap_name :: string
  ap_domain :: "string option"
  ap_normalizedDomain :: "string option"
  ap_aliases :: "string list option"
  ap_industry :: "string option"
  ap_geography :: "string option"
  ap_companySizeBand :: "company_size option"
  ap_employeeCount :: "jsnum option"
  ap_annualRevenueUsd :: "jsnum option"
  ap_territories :: "string list option"
  ap_techStack :: "string list option"
  ap_enrichmentState :: "enrichment_state option"
  ap_status :: "account_status option"
  ap_duplicateOf :: "string option"
  ap_evidenceReferences :: "string list option"
  ap_accountVersion :: "jsnum option"
  ap_createdAt :: "int option"
  ap_updatedAt :: "int option"

datatype account_payload =
    AccountDiscovered string string string
  | AccountEnriched string "string list"
  | AccountMarkedDuplicate string string string
  | AccountDisqualified string string

record account = "account_payload domain_event aggregate_root" +
  ac_workspaceId :: string
  ac_name :: string
  ac_domain :: "string option"
  ac_normalizedDomain :: "string option"
  ac_aliases :: "string list"
  ac_industry :: "string option"
  ac_geography :: "string option"
  ac_companySizeBand :: "company_size option"
  ac_employeeCount :: "jsnum option"
  ac_annualRevenueUsd :: "jsnum option"
  ac_territories :: "string list"
  ac_techStack :: "string list"
  ac_enrichmentState :: enrichment_state
  ac_status :: account_status
  ac_duplicateOf :: "string option"
  ac_evidenceReferences :: "string list"
  ac_accountVersion :: jsnum
  ac_createdAt :: int
  ac_updatedAt :: int

datatype account_error = AccountVersionInvalid

definition ac_construct :: "int \<Rightarrow> account_props \<Rightarrow> account" where
  "ac_construct now p =
     \<lparr>tenantId = ap_tenantId p, aggId = ap_id p, version = 0, loadedVersion = None, domainEvents = [],
      ac_workspaceId = ap_workspaceId p, ac_name = ap_name p, ac_domain = ap_domain p,
      ac_normalizedDomain = nullish_opt (ap_normalizedDomain p) (normalizeDomain (ap_domain p)),
      ac_aliases = nullish (ap_aliases p) [], ac_industry = ap_industry p, ac_geography = ap_geography p,
      ac_companySizeBand = ap_companySizeBand p, ac_employeeCount = ap_employeeCount p,
      ac_annualRevenueUsd = ap_annualRevenueUsd p, ac_territories = nullish (ap_territories p) [],
      ac_techStack = nullish (ap_techStack p) [], ac_enrichmentState = nullish (ap_enrichmentState p) ENRICHMENT_NONE,
      ac_status = nullish (ap_status p) AC_DISCOVERED, ac_duplicateOf = ap_duplicateOf p,
      ac_evidenceReferences = nullish (ap_evidenceReferences p) [], ac_accountVersion = nullish (ap_accountVersion p) (Fin 1),
      ac_createdAt = nullish (ap_createdAt p) now, ac_updatedAt = nullish (ap_updatedAt p) now\<rparr>"

definition validateAccountVersion :: "jsnum \<Rightarrow> account_error option" where
  "validateAccountVersion v =
     (if \<not> js_isFinite v \<or> \<not> js_isInteger v \<or> js_lt v (Fin 1) then Some AccountVersionInvalid else None)"

definition computeDedupIdentity :: "account \<Rightarrow> string option" where
  "computeDedupIdentity a =
     (if \<not> truthy (ac_normalizedDomain a) then None
      else Some (tenantId a @ '':'' @ ac_workspaceId a @ '':'' @ nullish (ac_normalizedDomain a) []))"

definition intel_event :: "string \<Rightarrow> int \<Rightarrow> string \<Rightarrow> string \<Rightarrow> 'p \<Rightarrow> 'p domain_event" where
  "intel_event ev now tenant corr pl =
     \<lparr>eventId = ev, occurredAt = now, evTenantId = tenant, correlationId = corr, producer = ''intelligence'', payload = pl\<rparr>"

definition ac_discover :: "account_props \<Rightarrow> string \<Rightarrow> string \<Rightarrow> string \<Rightarrow> int \<Rightarrow> account_error + account" where
  "ac_discover props source corr ev now =
     (case validateAccountVersion (nullish (ap_accountVersion props) (Fin 1)) of
        Some e \<Rightarrow> Inl e
      | None \<Rightarrow>
          let a = ac_construct now (props\<lparr>ap_status := Some AC_DISCOVERED\<rparr>)
          in Inr (applyEvent (intel_event ev now (ap_tenantId props) corr (AccountDiscovered (aggId a) (ac_name a) source)) a))"

definition ac_create :: "account_props \<Rightarrow> string \<Rightarrow> string \<Rightarrow> int \<Rightarrow> account_error + account" where
  "ac_create props corr ev now =
     (case validateAccountVersion (nullish (ap_accountVersion props) (Fin 1)) of
        Some e \<Rightarrow> Inl e
      | None \<Rightarrow>
          let a = ac_construct now props
          in Inr (applyEvent (intel_event ev now (ap_tenantId props) corr (AccountDiscovered (aggId a) (ac_name a) ''manual'')) a))"

definition ac_reconstitute :: "int \<Rightarrow> account_props \<Rightarrow> nat \<Rightarrow> account" where
  "ac_reconstitute now props v = clearDomainEvents (setVersion v (ac_construct now props))"

record account_updates =
  au_name :: "string option"
  au_domain :: "string option option"
  au_normalizedDomain :: "string option option"
  au_aliases :: "string list option"
  au_industry :: "string option option"
  au_geography :: "string option option"
  au_companySizeBand :: "company_size option option"
  au_employeeCount :: "jsnum option option"
  au_annualRevenueUsd :: "jsnum option option"
  au_territories :: "string list option"
  au_techStack :: "string list option"
  au_enrichmentState :: "enrichment_state option"
  au_status :: "account_status option"
  au_duplicateOf :: "string option option"
  au_evidenceReferences :: "string list option"
  au_createdAt :: "int option"
  au_updatedAt :: "int option"

definition ac_assign :: "account_updates \<Rightarrow> account \<Rightarrow> account" where
  "ac_assign u a = a\<lparr>
     ac_name := nullish (au_name u) (ac_name a), ac_domain := nullish (au_domain u) (ac_domain a),
     ac_normalizedDomain := nullish (au_normalizedDomain u) (ac_normalizedDomain a),
     ac_aliases := nullish (au_aliases u) (ac_aliases a), ac_industry := nullish (au_industry u) (ac_industry a),
     ac_geography := nullish (au_geography u) (ac_geography a),
     ac_companySizeBand := nullish (au_companySizeBand u) (ac_companySizeBand a),
     ac_employeeCount := nullish (au_employeeCount u) (ac_employeeCount a),
     ac_annualRevenueUsd := nullish (au_annualRevenueUsd u) (ac_annualRevenueUsd a),
     ac_territories := nullish (au_territories u) (ac_territories a), ac_techStack := nullish (au_techStack u) (ac_techStack a),
     ac_enrichmentState := nullish (au_enrichmentState u) (ac_enrichmentState a),
     ac_status := nullish (au_status u) (ac_status a), ac_duplicateOf := nullish (au_duplicateOf u) (ac_duplicateOf a),
     ac_evidenceReferences := nullish (au_evidenceReferences u) (ac_evidenceReferences a),
     ac_createdAt := nullish (au_createdAt u) (ac_createdAt a), ac_updatedAt := nullish (au_updatedAt u) (ac_updatedAt a)\<rparr>"

text \<open>\<open>enrich\<close> recomputes the normalised domain when the update carries another domain.\<close>

definition with_domain :: "account_updates \<Rightarrow> account \<Rightarrow> account_updates" where
  "with_domain u a = (case nullish (au_domain u) None of
     Some d \<Rightarrow> if Some d \<noteq> ac_domain a then u\<lparr>au_normalizedDomain := Some (normalizeDomain (Some d))\<rparr> else u
   | None \<Rightarrow> u)"

definition incrementVersion :: "account \<Rightarrow> account" where
  "incrementVersion a = a\<lparr>ac_accountVersion := js_add (ac_accountVersion a) (Fin 1)\<rparr>"

definition ac_enrich :: "account_updates \<Rightarrow> string list \<Rightarrow> string \<Rightarrow> string \<Rightarrow> int \<Rightarrow> account \<Rightarrow> account" where
  "ac_enrich updates evidenceIds corr ev now a =
     (let b = ac_assign (with_domain updates a) a;
          c = incrementVersion (b\<lparr>ac_evidenceReferences := ac_evidenceReferences b @ evidenceIds, ac_status := AC_ENRICHED,
                                  ac_updatedAt := now\<rparr>)
      in applyEvent (intel_event ev now (tenantId a) corr (AccountEnriched (aggId a) evidenceIds)) c)"

definition ac_markDuplicate :: "string \<Rightarrow> string \<Rightarrow> string \<Rightarrow> string \<Rightarrow> int \<Rightarrow> account \<Rightarrow> account" where
  "ac_markDuplicate canonicalAccountId reason corr ev now a =
     applyEvent (intel_event ev now (tenantId a) corr (AccountMarkedDuplicate (aggId a) canonicalAccountId reason))
       (incrementVersion (a\<lparr>ac_status := AC_DUPLICATE, ac_duplicateOf := Some canonicalAccountId, ac_updatedAt := now\<rparr>))"

definition ac_disqualify :: "string \<Rightarrow> string \<Rightarrow> string \<Rightarrow> int \<Rightarrow> account \<Rightarrow> account" where
  "ac_disqualify reason corr ev now a =
     applyEvent (intel_event ev now (tenantId a) corr (AccountDisqualified (aggId a) reason))
       (incrementVersion (a\<lparr>ac_status := AC_DISQUALIFIED, ac_updatedAt := now\<rparr>))"

definition ac_qualify :: "string \<Rightarrow> string \<Rightarrow> int \<Rightarrow> account \<Rightarrow> account" where
  "ac_qualify corr ev now a =
     applyEvent (intel_event ev now (tenantId a) corr (AccountEnriched (aggId a) []))
       (incrementVersion (a\<lparr>ac_status := AC_QUALIFIED, ac_updatedAt := now\<rparr>))"

subsection \<open>Every spelling of a host has one identity\<close>

lemma takeWhile_takeWhile_conj: "takeWhile P (takeWhile Q xs) = takeWhile (\<lambda>x. P x \<and> Q x) xs"
  by (induction xs) auto

lemma cut_path: "cut_first CHR ''#'' (cut_first CHR ''?'' (cut_first CHR ''/'' s))
    = takeWhile (\<lambda>x. x \<noteq> CHR ''#'' \<and> x \<noteq> CHR ''?'' \<and> x \<noteq> CHR ''/'') s"
  by (simp add: cut_first_def takeWhile_takeWhile_conj)

lemma indexOf_none: "\<not> js_includes s p \<Longrightarrow> js_indexOf s p = None"
  by (induction s) auto

lemma indexOf_scheme: "CHR '':'' \<notin> set sch \<Longrightarrow> js_indexOf (sch @ ''://'' @ r) ''://'' = Some (length sch)"
  by (induction sch) (auto simp: js_startsWith_def)

lemma cut_scheme_found: "CHR '':'' \<notin> set sch \<Longrightarrow> cut_scheme (sch @ ''://'' @ r) = r"
  using indexOf_scheme [of sch r] by (simp add: cut_scheme_def)

lemma cut_last_port: "CHR '':'' \<notin> set p \<Longrightarrow> cut_last CHR '':'' (h @ CHR '':'' # p) = h"
proof -
  assume "CHR '':'' \<notin> set p"
  then have "dropWhile (\<lambda>x. x \<noteq> CHR '':'') (rev p @ CHR '':'' # rev h) = CHR '':'' # rev h"
    by (subst dropWhile_append2) auto
  then show ?thesis by (simp add: cut_last_def)
qed

text \<open>A host as the identity keeps it, and the parts that may surround it in what a provider delivers.\<close>

definition clean_host :: "string \<Rightarrow> bool" where
  "clean_host d \<longleftrightarrow> d \<noteq> [] \<and> set d \<inter> {CHR ''/'', CHR ''?'', CHR ''#'', CHR '':''} = {} \<and> last d \<noteq> CHR ''.'' \<and> \<not> js_startsWith d ''www.''"

definition url_scheme :: "string \<Rightarrow> bool" where
  "url_scheme p \<longleftrightarrow> p = [] \<or> (\<exists>sch. p = sch @ ''://'' \<and> CHR '':'' \<notin> set sch)"

definition url_port :: "string \<Rightarrow> bool" where
  "url_port p \<longleftrightarrow> p = [] \<or> hd p = CHR '':'' \<and> set (tl p) \<inter> {CHR ''/'', CHR ''?'', CHR ''#'', CHR '':''} = {}"

definition url_path :: "string \<Rightarrow> bool" where
  "url_path p \<longleftrightarrow> p = [] \<or> hd p \<in> {CHR ''/'', CHR ''?'', CHR ''#''}"

lemma cut_host:
  assumes "clean_host d" "url_port port" "url_path path" "w \<in> {'''', ''www.''}" "dot \<in> {'''', ''.''}"
  shows "cut_www (cut_dot (cut_last CHR '':'' (cut_first CHR ''#'' (cut_first CHR ''?'' (cut_first CHR ''/''
           (w @ d @ dot @ port @ path)))))) = d"
proof -
  let ?host = "w @ d @ dot" and ?ok = "\<lambda>x. x \<noteq> CHR ''#'' \<and> x \<noteq> CHR ''?'' \<and> x \<noteq> CHR ''/''"
  have port: "set port \<inter> {CHR ''/'', CHR ''?'', CHR ''#''} = {}"
    using assms(2) by (cases port) (auto simp: url_port_def)
  have front: "\<forall>x\<in>set (?host @ port). ?ok x"
    using assms(1,4,5) port by (auto simp: clean_host_def)
  have "takeWhile ?ok ((?host @ port) @ path) = ?host @ port"
    using takeWhile_append2 [of "?host @ port" ?ok path] front assms(3)
    by (cases path) (auto simp: url_path_def)
  moreover have "cut_last CHR '':'' (?host @ port) = ?host"
  proof (cases port)
    case Nil
    then show ?thesis using assms(1,4,5) by (auto simp: cut_last_def clean_host_def)
  next
    case (Cons c p)
    then have "c = CHR '':''" "CHR '':'' \<notin> set p" using assms(2) by (auto simp: url_port_def)
    then show ?thesis using cut_last_port [of p ?host] Cons by simp
  qed
  moreover have "cut_dot ?host = w @ d"
    using assms(1,5) by (auto simp: cut_dot_def clean_host_def butlast_append)
  moreover have "cut_www (w @ d) = d"
    using assms(1,4) by (auto simp: cut_www_def clean_host_def js_startsWith_def)
  ultimately show ?thesis unfolding cut_path by simp
qed

text \<open>
  Every spelling of a host, with or without scheme, \<open>www.\<close>, trailing dot, port, path, query or
  fragment, in any case and with surrounding white space, normalises to that host, provided that a
  spelling without scheme has no \<open>://\<close> further on; so the accounts found under these spellings have one
  deduplication identity in their workspace.
\<close>

theorem domain_spellings_agree:
  assumes "clean_host d" and "url_scheme scheme" and "url_port port" and "url_path path"
    and "w \<in> {'''', ''www.''}" and "dot \<in> {'''', ''.''}"
    and "scheme = [] \<longrightarrow> \<not> js_includes (w @ d @ dot @ port @ path) ''://''"
    and "js_lower (js_trim raw) = scheme @ w @ d @ dot @ port @ path"
  shows "normalizeDomain (Some raw) = Some d"
proof -
  have scheme: "cut_scheme (js_lower (js_trim raw)) = w @ d @ dot @ port @ path"
  proof (cases "scheme = []")
    case True
    then show ?thesis using assms(7,8) indexOf_none [of "w @ d @ dot @ port @ path" "''://''"] by (simp add: cut_scheme_def)
  next
    case False
    then obtain sch where "scheme = sch @ ''://''" "CHR '':'' \<notin> set sch" using assms(2) by (auto simp: url_scheme_def)
    then show ?thesis using assms(8) cut_scheme_found [of sch "w @ d @ dot @ port @ path"] by simp
  qed
  have "d \<noteq> []" using assms(1) by (simp add: clean_host_def)
  moreover from this have "js_trim raw \<noteq> []" using assms(8) by (auto simp: js_lower_def)
  ultimately show ?thesis using cut_host [OF assms(1,3,4,5,6)] by (simp add: normalizeDomain_def scheme Let_def)
qed

theorem domain_spellings_agree_witness:
  "normalizeDomain (Some '' HTTPS://www.Acme.IO:443/jobs?next=http://x.y '') = Some ''acme.io''"
proof (rule domain_spellings_agree)
  show "clean_host ''acme.io''" by (simp add: clean_host_def js_startsWith_def)
  show "url_scheme (''https'' @ ''://'')" unfolding url_scheme_def by (rule disjI2, rule exI [of _ "''https''"]) simp
  show "url_port '':443''" by (simp add: url_port_def)
  show "url_path ''/jobs?next=http://x.y''" by (simp add: url_path_def)
  show "''www.'' \<in> {'''', ''www.''}" by simp
  show "'''' \<in> {'''', ''.''}" by simp
  show "''https'' @ ''://'' = [] \<longrightarrow> \<not> js_includes (''www.'' @ ''acme.io'' @ '''' @ '':443'' @ ''/jobs?next=http://x.y'') ''://''"
    by simp
  show "js_lower (js_trim '' HTTPS://www.Acme.IO:443/jobs?next=http://x.y '')
      = (''https'' @ ''://'') @ ''www.'' @ ''acme.io'' @ '''' @ '':443'' @ ''/jobs?next=http://x.y''"
    by code_simp
qed

end
