(* ===== verification/Contacts.thy ===== *)
theory Contacts
  imports Accounts
begin

section \<open>Contacts\<close>

text \<open>
  \<open>packages/domain/src/intelligence/contact.ts\<close>: a person of an account. A suppressed contact may not be
  changed: every operation but \<open>suppress\<close> throws on it, which is \<open>Inl\<close>. The updates of \<open>enrich\<close> are
  modelled as those of an account.
\<close>

datatype verification_state = CT_UNVERIFIED | CT_VERIFIED | CT_BOUNCED

datatype contact_status = CT_DISCOVERED | CT_ENRICHED | CT_VALIDATED | CT_SUPPRESSED

datatype consent_status = CONSENT_GRANTED | CONSENT_WITHHELD | CONSENT_UNKNOWN

record contact_props =
  np_id :: string
  np_tenantId :: string
  np_workspaceId :: string
  np_accountId :: string
  np_name :: "string option"
  np_title :: "string option"
  np_role :: "string option"
  np_seniority :: "string option"
  np_department :: "string option"
  np_functionRole :: "string option"
  np_emailFingerprint :: "string option"
  np_encryptedEmail :: "string option"
  np_phoneFingerprint :: "string option"
  np_encryptedPhone :: "string option"
  np_linkedInUrl :: "string option"
  np_channels :: "string list option"
  np_consentStatus :: "consent_status option"
  np_verificationState :: "verification_state option"
  np_status :: "contact_status option"
  np_suppressionReason :: "string option"
  np_suppressionReference :: "string option"
  np_suppressedAt :: "int option"
  np_evidenceReferences :: "string list option"
  np_createdAt :: "int option"
  np_updatedAt :: "int option"

datatype contact_payload =
    ContactDiscovered string string string
  | ContactEnriched string "string list"
  | ContactValidated string
  | ContactSuppressed string string

record contact = "contact_payload domain_event aggregate_root" +
  ct_workspaceId :: string
  ct_accountId :: string
  ct_name :: "string option"
  ct_title :: "string option"
  ct_role :: "string option"
  ct_seniority :: "string option"
  ct_department :: "string option"
  ct_functionRole :: "string option"
  ct_emailFingerprint :: "string option"
  ct_encryptedEmail :: "string option"
  ct_phoneFingerprint :: "string option"
  ct_encryptedPhone :: "string option"
  ct_linkedInUrl :: "string option"
  ct_channels :: "string list"
  ct_consentStatus :: consent_status
  ct_verificationState :: verification_state
  ct_status :: contact_status
  ct_suppressionReason :: "string option"
  ct_suppressionReference :: "string option"
  ct_suppressedAt :: "int option"
  ct_evidenceReferences :: "string list"
  ct_createdAt :: int
  ct_updatedAt :: int

datatype contact_error = ContactIsSuppressed

definition ct_construct :: "int \<Rightarrow> contact_props \<Rightarrow> contact" where
  "ct_construct now p =
     \<lparr>tenantId = np_tenantId p, aggId = np_id p, version = 0, loadedVersion = None, domainEvents = [],
      ct_workspaceId = np_workspaceId p, ct_accountId = np_accountId p, ct_name = np_name p, ct_title = np_title p,
      ct_role = np_role p, ct_seniority = np_seniority p, ct_department = np_department p, ct_functionRole = np_functionRole p,
      ct_emailFingerprint = np_emailFingerprint p, ct_encryptedEmail = np_encryptedEmail p,
      ct_phoneFingerprint = np_phoneFingerprint p, ct_encryptedPhone = np_encryptedPhone p, ct_linkedInUrl = np_linkedInUrl p,
      ct_channels = nullish (np_channels p) [], ct_consentStatus = nullish (np_consentStatus p) CONSENT_UNKNOWN,
      ct_verificationState = nullish (np_verificationState p) CT_UNVERIFIED, ct_status = nullish (np_status p) CT_DISCOVERED,
      ct_suppressionReason = np_suppressionReason p, ct_suppressionReference = np_suppressionReference p,
      ct_suppressedAt = np_suppressedAt p, ct_evidenceReferences = nullish (np_evidenceReferences p) [],
      ct_createdAt = nullish (np_createdAt p) now, ct_updatedAt = nullish (np_updatedAt p) now\<rparr>"

definition assertNotSuppressed :: "contact \<Rightarrow> contact \<Rightarrow> contact_error + contact" where
  "assertNotSuppressed a b = (if ct_status a = CT_SUPPRESSED then Inl ContactIsSuppressed else Inr b)"

definition ct_discover :: "contact_props \<Rightarrow> string \<Rightarrow> string \<Rightarrow> string \<Rightarrow> int \<Rightarrow> contact" where
  "ct_discover props source corr ev now =
     (let c = ct_construct now (props\<lparr>np_status := Some CT_DISCOVERED\<rparr>)
      in applyEvent (intel_event ev now (np_tenantId props) corr (ContactDiscovered (aggId c) (ct_accountId c) source)) c)"

definition ct_reconstitute :: "int \<Rightarrow> contact_props \<Rightarrow> nat \<Rightarrow> contact" where
  "ct_reconstitute now props v = clearDomainEvents (setVersion v (ct_construct now props))"

record contact_updates =
  nu_name :: "string option option"
  nu_title :: "string option option"
  nu_role :: "string option option"
  nu_seniority :: "string option option"
  nu_department :: "string option option"
  nu_functionRole :: "string option option"
  nu_emailFingerprint :: "string option option"
  nu_encryptedEmail :: "string option option"
  nu_phoneFingerprint :: "string option option"
  nu_encryptedPhone :: "string option option"
  nu_linkedInUrl :: "string option option"
  nu_channels :: "string list option"
  nu_consentStatus :: "consent_status option"
  nu_verificationState :: "verification_state option"
  nu_status :: "contact_status option"
  nu_suppressionReason :: "string option option"
  nu_suppressionReference :: "string option option"
  nu_suppressedAt :: "int option option"
  nu_evidenceReferences :: "string list option"
  nu_createdAt :: "int option"
  nu_updatedAt :: "int option"

definition ct_assign :: "contact_updates \<Rightarrow> contact \<Rightarrow> contact" where
  "ct_assign u c = c\<lparr>
     ct_name := nullish (nu_name u) (ct_name c), ct_title := nullish (nu_title u) (ct_title c),
     ct_role := nullish (nu_role u) (ct_role c), ct_seniority := nullish (nu_seniority u) (ct_seniority c),
     ct_department := nullish (nu_department u) (ct_department c),
     ct_functionRole := nullish (nu_functionRole u) (ct_functionRole c),
     ct_emailFingerprint := nullish (nu_emailFingerprint u) (ct_emailFingerprint c),
     ct_encryptedEmail := nullish (nu_encryptedEmail u) (ct_encryptedEmail c),
     ct_phoneFingerprint := nullish (nu_phoneFingerprint u) (ct_phoneFingerprint c),
     ct_encryptedPhone := nullish (nu_encryptedPhone u) (ct_encryptedPhone c),
     ct_linkedInUrl := nullish (nu_linkedInUrl u) (ct_linkedInUrl c), ct_channels := nullish (nu_channels u) (ct_channels c),
     ct_consentStatus := nullish (nu_consentStatus u) (ct_consentStatus c),
     ct_verificationState := nullish (nu_verificationState u) (ct_verificationState c),
     ct_status := nullish (nu_status u) (ct_status c),
     ct_suppressionReason := nullish (nu_suppressionReason u) (ct_suppressionReason c),
     ct_suppressionReference := nullish (nu_suppressionReference u) (ct_suppressionReference c),
     ct_suppressedAt := nullish (nu_suppressedAt u) (ct_suppressedAt c),
     ct_evidenceReferences := nullish (nu_evidenceReferences u) (ct_evidenceReferences c),
     ct_createdAt := nullish (nu_createdAt u) (ct_createdAt c), ct_updatedAt := nullish (nu_updatedAt u) (ct_updatedAt c)\<rparr>"

definition ct_enrich :: "contact_updates \<Rightarrow> string list \<Rightarrow> string \<Rightarrow> string \<Rightarrow> int \<Rightarrow> contact \<Rightarrow> contact_error + contact" where
  "ct_enrich updates evidenceIds corr ev now c =
     (let d = ct_assign updates c;
          e = d\<lparr>ct_evidenceReferences := ct_evidenceReferences d @ evidenceIds,
                ct_status := (if ct_status d = CT_DISCOVERED then CT_ENRICHED else ct_status d), ct_updatedAt := now\<rparr>
      in assertNotSuppressed c
           (applyEvent (intel_event ev now (tenantId c) corr (ContactEnriched (aggId c) evidenceIds)) e))"

definition contact_validated :: "string \<Rightarrow> string \<Rightarrow> int \<Rightarrow> contact \<Rightarrow> contact" where
  "contact_validated corr ev now c = applyEvent (intel_event ev now (tenantId c) corr (ContactValidated (aggId c))) c"

definition ct_validate :: "string \<Rightarrow> string \<Rightarrow> int \<Rightarrow> contact \<Rightarrow> contact_error + contact" where
  "ct_validate corr ev now c =
     assertNotSuppressed c (contact_validated corr ev now (c\<lparr>ct_status := CT_VALIDATED, ct_updatedAt := now\<rparr>))"

definition ct_verify :: "string \<Rightarrow> string \<Rightarrow> int \<Rightarrow> contact \<Rightarrow> contact_error + contact" where
  "ct_verify corr ev now c =
     assertNotSuppressed c (contact_validated corr ev now (c\<lparr>ct_verificationState := CT_VERIFIED, ct_updatedAt := now\<rparr>))"

definition ct_markBounced :: "string \<Rightarrow> string \<Rightarrow> int \<Rightarrow> contact \<Rightarrow> contact_error + contact" where
  "ct_markBounced corr ev now c =
     assertNotSuppressed c (contact_validated corr ev now (c\<lparr>ct_verificationState := CT_BOUNCED, ct_updatedAt := now\<rparr>))"

definition ct_suppress :: "string \<Rightarrow> string option \<Rightarrow> string \<Rightarrow> string \<Rightarrow> int \<Rightarrow> contact \<Rightarrow> contact" where
  "ct_suppress reason reference corr ev now c =
     applyEvent (intel_event ev now (tenantId c) corr (ContactSuppressed (aggId c) reason))
       (c\<lparr>ct_status := CT_SUPPRESSED, ct_suppressionReason := Some reason, ct_suppressionReference := reference,
          ct_suppressedAt := Some now, ct_updatedAt := now\<rparr>)"

definition isOutreachEligible :: "contact \<Rightarrow> bool" where
  "isOutreachEligible c = (if ct_status c = CT_SUPPRESSED then False else ct_verificationState c \<noteq> CT_BOUNCED)"

subsection \<open>Runs of calls\<close>

inductive contact_step :: "contact \<Rightarrow> contact \<Rightarrow> bool" where
  cs_enrich: "ct_enrich updates evidenceIds corr ev now c = Inr d \<Longrightarrow> contact_step c d"
| cs_validate: "ct_validate corr ev now c = Inr d \<Longrightarrow> contact_step c d"
| cs_verify: "ct_verify corr ev now c = Inr d \<Longrightarrow> contact_step c d"
| cs_bounced: "ct_markBounced corr ev now c = Inr d \<Longrightarrow> contact_step c d"
| cs_suppress: "contact_step c (ct_suppress reason reference corr ev now c)"

lemmas contact_op_defs = ct_enrich_def ct_validate_def ct_verify_def ct_markBounced_def ct_suppress_def contact_validated_def
  assertNotSuppressed_def Let_def

definition can_contact :: "contact_status \<Rightarrow> contact_status \<Rightarrow> bool" where
  "can_contact a b \<longleftrightarrow> a \<noteq> CT_SUPPRESSED"

interpretation contact_life: lifecycle ct_status can_contact contact_step
proof unfold_locales
  fix a b assume "contact_step a b"
  then show "ct_status b = ct_status a \<or> can_contact (ct_status a) (ct_status b)"
    by cases (auto simp: contact_op_defs can_contact_def applyEvent_def split: if_splits)
qed

interpretation contact_log: event_sourced root_of contact_step
proof unfold_locales
  fix a b assume "contact_step a b"
  then show "extends_log (root_of a) (root_of b)"
    by cases (auto simp: contact_op_defs ct_assign_def intro!: extends_log_applyEvent root_of_eqI split: if_splits)
qed

text \<open>
  A suppressed contact stays suppressed under every sequence of calls and is never eligible for
  outreach again, and each attempt to enrich, validate, verify or bounce it throws.
\<close>

theorem suppressed_contact_is_final:
  assumes "contact_step\<^sup>*\<^sup>* (ct_suppress reason reference corr ev now c) d"
  shows "ct_status d = CT_SUPPRESSED \<and> \<not> isOutreachEligible d
    \<and> ct_enrich updates evidenceIds corr' ev' now' d = Inl ContactIsSuppressed
    \<and> ct_validate corr' ev' now' d = Inl ContactIsSuppressed
    \<and> ct_verify corr' ev' now' d = Inl ContactIsSuppressed
    \<and> ct_markBounced corr' ev' now' d = Inl ContactIsSuppressed"
  using contact_life.terminal_stays [OF assms]
  by (auto simp: can_contact_def ct_suppress_def applyEvent_def isOutreachEligible_def ct_enrich_def ct_validate_def
      ct_verify_def ct_markBounced_def assertNotSuppressed_def Let_def)

definition sample_contact :: contact where
  "sample_contact = ct_discover \<lparr>np_id = ''c'', np_tenantId = ''t'', np_workspaceId = ''w'', np_accountId = ''a'',
     np_name = None, np_title = None, np_role = None, np_seniority = None, np_department = None, np_functionRole = None,
     np_emailFingerprint = None, np_encryptedEmail = None, np_phoneFingerprint = None, np_encryptedPhone = None,
     np_linkedInUrl = None, np_channels = None, np_consentStatus = Some CONSENT_WITHHELD, np_verificationState = None,
     np_status = None, np_suppressionReason = None, np_suppressionReference = None, np_suppressedAt = None,
     np_evidenceReferences = None, np_createdAt = None, np_updatedAt = None\<rparr> ''research'' ''k'' ''e0'' 1"

theorem suppressed_contact_is_final_witness:
  "isOutreachEligible sample_contact
   \<and> \<not> isOutreachEligible (ct_suppress ''spam'' None ''k'' ''e2'' 3 (ct_suppress ''asked'' (Some ''r'') ''k'' ''e1'' 2 sample_contact))"
proof
  show "isOutreachEligible sample_contact"
    by (simp add: sample_contact_def ct_discover_def ct_construct_def applyEvent_def isOutreachEligible_def Let_def)
  have "contact_step\<^sup>*\<^sup>* (ct_suppress ''asked'' (Some ''r'') ''k'' ''e1'' 2 sample_contact)
      (ct_suppress ''spam'' None ''k'' ''e2'' 3 (ct_suppress ''asked'' (Some ''r'') ''k'' ''e1'' 2 sample_contact))"
    by (rule r_into_rtranclp, rule cs_suppress)
  then show "\<not> isOutreachEligible (ct_suppress ''spam'' None ''k'' ''e2'' 3
      (ct_suppress ''asked'' (Some ''r'') ''k'' ''e1'' 2 sample_contact))"
    using suppressed_contact_is_final by blast
qed

end
