(* ===== verification/Signals.thy ===== *)
theory Signals
  imports Accounts "HOL-Library.Word"
begin

section \<open>Signals and their deduplication\<close>

text \<open>
  \<open>packages/domain/src/intelligence/signal.ts\<close>: what research observes about an account. The identity
  under which a signal is deduplicated ends in a hash of its text, computed on 32-bit integers. Dates
  are milliseconds, with \<open>None\<close> for an invalid date, of which every comparison is false.
\<close>

subsection \<open>The hash\<close>

text \<open>\<open>((hash << 5) - hash + chr) | 0\<close>: the shift and the final \<open>| 0\<close> are on 32 bits, and so is their result.\<close>

fun hash_chars :: "32 word \<Rightarrow> string \<Rightarrow> 32 word" where
  "hash_chars h [] = h"
| "hash_chars h (c # s) = hash_chars (push_bit 5 h - h + of_nat (of_char c)) s"

text \<open>\<open>n.toString(36)\<close>.\<close>

definition digit36 :: "nat \<Rightarrow> char" where
  "digit36 d = char_of (if d < 10 then 48 + d else 87 + d)"

fun show36 :: "nat \<Rightarrow> string" where
  "show36 n = (if n < 36 then [digit36 n] else show36 (n div 36) @ [digit36 (n mod 36)])"

declare show36.simps [simp del]

definition hashString :: "string \<Rightarrow> string" where
  "hashString s = show36 (nat \<bar>sint (hash_chars 0 s)\<bar>)"

text \<open>\<open>s.replace(/\s+/g, ' ')\<close>: \<open>b\<close> says that the character before was white space.\<close>

fun collapse_spaces :: "bool \<Rightarrow> string \<Rightarrow> string" where
  "collapse_spaces b [] = []"
| "collapse_spaces b (c # s) =
     (if js_space c then if b then [] else '' '' else [c]) @ collapse_spaces (js_space c) s"

definition normalizedSignal :: "string \<Rightarrow> string" where
  "normalizedSignal s = js_lower (collapse_spaces False (js_trim s))"

subsection \<open>Signals\<close>

definition SIGNAL_CATEGORIES :: "string list" where
  "SIGNAL_CATEGORIES = [''Growth'', ''Funding'', ''Leadership'', ''Technology'', ''DigitalTransformation'', ''BusinessChange'',
     ''PainIndicators'', ''CompetitivePressure'', ''IndustryTailwinds'']"

datatype signal_status = SG_ACTIVE | SG_EXPIRED | SG_RETRACTED

definition MAX_SIGNAL_SOURCE_LENGTH :: nat where "MAX_SIGNAL_SOURCE_LENGTH = 512"
definition MAX_SIGNAL_SOURCE_URI_LENGTH :: nat where "MAX_SIGNAL_SOURCE_URI_LENGTH = 2048"
definition MAX_OBSERVED_SIGNAL_LENGTH :: nat where "MAX_OBSERVED_SIGNAL_LENGTH = 4096"
definition MAX_INTERPRETED_SIGNAL_LENGTH :: nat where "MAX_INTERPRETED_SIGNAL_LENGTH = 4096"

record signal_props =
  gp_id :: string
  gp_tenantId :: string
  gp_workspaceId :: string
  gp_accountId :: string
  gp_contactId :: "string option"
  gp_signalType :: string
  gp_observedAt :: "int option"
  gp_effectiveFrom :: "int option"
  gp_effectiveUntil :: "int option"
  gp_source :: string
  gp_sourceUri :: "string option"
  gp_confidence :: jsnum
  gp_relevance :: jsnum
  gp_observedSignal :: string
  gp_interpretedSignal :: string
  gp_evidenceIds :: "string list option"
  gp_status :: "signal_status option"
  gp_dedupIdentity :: "string option"
  gp_createdAt :: "int option"

datatype signal_payload =
    SignalDetected string string string jsnum jsnum
  | SignalExpired string string string
  | SignalRetracted string string string

record signal = "signal_payload domain_event aggregate_root" +
  sg_workspaceId :: string
  sg_accountId :: string
  sg_contactId :: "string option"
  sg_signalType :: string
  sg_observedAt :: "int option"
  sg_effectiveFrom :: "int option"
  sg_effectiveUntil :: "int option"
  sg_source :: string
  sg_sourceUri :: "string option"
  sg_confidence :: jsnum
  sg_relevance :: jsnum
  sg_observedSignal :: string
  sg_interpretedSignal :: string
  sg_evidenceIds :: "string list"
  sg_status :: signal_status
  sg_dedupIdentity :: string
  sg_createdAt :: int

datatype signal_error =
    SignalConfidenceRange | SignalRelevanceRange | SignalNoWorkspace | SignalSourceLength | SignalSourceUriLength
  | SignalObservedLength | SignalInterpretedLength | SignalCategoryInvalid string | SignalDatesInvalid | SignalDatesInverted

definition sg_dedup :: "string \<Rightarrow> string \<Rightarrow> string \<Rightarrow> string \<Rightarrow> string \<Rightarrow> string" where
  "sg_dedup tenant workspace account category observed =
     tenant @ '':'' @ workspace @ '':'' @ account @ '':'' @ category @ '':'' @ hashString (normalizedSignal observed)"

definition sg_construct :: "int \<Rightarrow> signal_props \<Rightarrow> signal" where
  "sg_construct now p =
     \<lparr>tenantId = gp_tenantId p, aggId = gp_id p, version = 0, loadedVersion = None, domainEvents = [],
      sg_workspaceId = gp_workspaceId p, sg_accountId = gp_accountId p, sg_contactId = gp_contactId p,
      sg_signalType = gp_signalType p, sg_observedAt = gp_observedAt p, sg_effectiveFrom = gp_effectiveFrom p,
      sg_effectiveUntil = gp_effectiveUntil p, sg_source = gp_source p, sg_sourceUri = gp_sourceUri p,
      sg_confidence = gp_confidence p, sg_relevance = gp_relevance p, sg_observedSignal = gp_observedSignal p,
      sg_interpretedSignal = gp_interpretedSignal p, sg_evidenceIds = nullish (gp_evidenceIds p) [],
      sg_status = nullish (gp_status p) SG_ACTIVE,
      sg_dedupIdentity = nullish (gp_dedupIdentity p)
        (sg_dedup (gp_tenantId p) (gp_workspaceId p) (gp_accountId p) (gp_signalType p) (gp_observedSignal p)),
      sg_createdAt = nullish (gp_createdAt p) now\<rparr>"

definition outside_unit :: "jsnum \<Rightarrow> bool" where
  "outside_unit v \<longleftrightarrow> js_lt v (Fin 0) \<or> js_lt (Fin 1) v"

definition bad_text :: "nat \<Rightarrow> string \<Rightarrow> bool" where
  "bad_text limit s \<longleftrightarrow> s = [] \<or> js_trim s = [] \<or> length s > limit"

definition check_signal :: "signal_props \<Rightarrow> signal_error option" where
  "check_signal p =
     (if outside_unit (gp_confidence p) then Some SignalConfidenceRange
      else if outside_unit (gp_relevance p) then Some SignalRelevanceRange
      else if gp_workspaceId p = [] then Some SignalNoWorkspace
      else if gp_source p = [] \<or> length (gp_source p) > MAX_SIGNAL_SOURCE_LENGTH then Some SignalSourceLength
      else if truthy (gp_sourceUri p) \<and> length (nullish (gp_sourceUri p) []) > MAX_SIGNAL_SOURCE_URI_LENGTH
        then Some SignalSourceUriLength
      else if bad_text MAX_OBSERVED_SIGNAL_LENGTH (gp_observedSignal p) then Some SignalObservedLength
      else if bad_text MAX_INTERPRETED_SIGNAL_LENGTH (gp_interpretedSignal p) then Some SignalInterpretedLength
      else if gp_signalType p \<notin> set SIGNAL_CATEGORIES then Some (SignalCategoryInvalid (gp_signalType p))
      else case (gp_observedAt p, gp_effectiveFrom p, gp_effectiveUntil p) of
          (Some observed, Some from, Some until) \<Rightarrow> if until \<le> from then Some SignalDatesInverted else None
        | _ \<Rightarrow> Some SignalDatesInvalid)"

definition sg_detect :: "signal_props \<Rightarrow> string \<Rightarrow> string \<Rightarrow> int \<Rightarrow> signal_error + signal" where
  "sg_detect props corr ev now =
     (case check_signal props of
        Some e \<Rightarrow> Inl e
      | None \<Rightarrow>
          let s = sg_construct now (props\<lparr>gp_status := Some SG_ACTIVE\<rparr>)
          in Inr (applyEvent (intel_event ev now (gp_tenantId props) corr
               (SignalDetected (aggId s) (sg_accountId s) (sg_signalType s) (sg_confidence s) (sg_relevance s))) s))"

definition sg_reconstitute :: "int \<Rightarrow> signal_props \<Rightarrow> nat \<Rightarrow> signal" where
  "sg_reconstitute now snapshot v = clearDomainEvents (setVersion v (sg_construct now snapshot))"

definition sg_isActive :: "int \<Rightarrow> signal \<Rightarrow> bool" where
  "sg_isActive t s = (sg_status s = SG_ACTIVE \<and> (case sg_effectiveUntil s of Some until \<Rightarrow> t < until | None \<Rightarrow> False))"

definition sg_isExpired :: "int \<Rightarrow> signal \<Rightarrow> bool" where
  "sg_isExpired t s = (sg_status s = SG_ACTIVE \<and> (case sg_effectiveUntil s of Some until \<Rightarrow> until \<le> t | None \<Rightarrow> False))"

definition sg_expire :: "string \<Rightarrow> string \<Rightarrow> int \<Rightarrow> signal \<Rightarrow> signal" where
  "sg_expire corr ev now s =
     (if sg_status s \<noteq> SG_ACTIVE then s
      else applyEvent (intel_event ev now (tenantId s) corr (SignalExpired (aggId s) (sg_accountId s) (sg_signalType s)))
             (s\<lparr>sg_status := SG_EXPIRED\<rparr>))"

definition sg_retract :: "string \<Rightarrow> string \<Rightarrow> string \<Rightarrow> int \<Rightarrow> signal \<Rightarrow> signal" where
  "sg_retract reason corr ev now s =
     (if sg_status s = SG_RETRACTED then s
      else applyEvent (intel_event ev now (tenantId s) corr (SignalRetracted (aggId s) (sg_accountId s) reason))
             (s\<lparr>sg_status := SG_RETRACTED\<rparr>))"

inductive signal_step :: "signal \<Rightarrow> signal \<Rightarrow> bool" where
  gs_expire: "signal_step s (sg_expire corr ev now s)"
| gs_retract: "signal_step s (sg_retract reason corr ev now s)"

definition can_signal :: "signal_status \<Rightarrow> signal_status \<Rightarrow> bool" where
  "can_signal a b \<longleftrightarrow> a \<noteq> SG_RETRACTED \<and> (b = SG_RETRACTED \<or> a = SG_ACTIVE \<and> b = SG_EXPIRED)"

interpretation signal_life: lifecycle sg_status can_signal signal_step
proof unfold_locales
  fix a b assume "signal_step a b"
  then show "sg_status b = sg_status a \<or> can_signal (sg_status a) (sg_status b)"
    by cases (auto simp: sg_expire_def sg_retract_def can_signal_def applyEvent_def)
qed

interpretation signal_log: event_sourced root_of signal_step
proof unfold_locales
  fix a b assume "signal_step a b"
  then show "extends_log (root_of a) (root_of b)"
    by cases (auto simp: sg_expire_def sg_retract_def intro!: extends_log_applyEvent root_of_eqI)
qed

subsection \<open>What the hash is\<close>

text \<open>The reference: a polynomial in 31 over the characters, with its value taken modulo \<open>2 ^ 32\<close>.\<close>

definition hash_value :: "string \<Rightarrow> nat" where
  "hash_value s = fold (\<lambda>c v. 31 * v + of_char c) s 0"

lemma hash_step: "push_bit 5 h - h + of_nat c = 31 * h + of_nat c" for h :: "32 word"
  by (simp add: push_bit_eq_mult)

lemma hash_chars_value: "hash_chars (of_nat v) s = of_nat (fold (\<lambda>c v. 31 * v + of_char c) s v)"
proof (induction s arbitrary: v)
  case (Cons c s)
  show ?case using Cons [of "31 * v + of_char c"] by (simp add: hash_step)
qed simp

lemma hash_chars_reference: "hash_chars 0 s = of_nat (hash_value s)"
  using hash_chars_value [of 0 s] by (simp add: hash_value_def)

lemma fold_hash_shift: "fold (\<lambda>c v. 31 * v + of_char c) s v = 31 ^ length s * v + (hash_value s :: nat)"
proof (induction s arbitrary: v)
  case (Cons c s)
  have "hash_value (c # s) = 31 ^ length s * of_char c + hash_value s"
    using Cons [of "of_char c"] by (simp add: hash_value_def)
  moreover have "fold (\<lambda>c v. 31 * v + of_char c) (c # s) v = 31 ^ length s * (31 * v + of_char c) + hash_value s"
    using Cons [of "31 * v + of_char c"] by simp
  ultimately show ?case by (simp add: algebra_simps)
qed (simp add: hash_value_def)

lemma hash_value_append: "hash_value (s @ t) = 31 ^ length t * hash_value s + hash_value t"
  using fold_hash_shift [of t "hash_value s"] by (simp add: hash_value_def)

lemma hash_value_pair: "hash_value (u @ x @ v) = hash_value (u @ y @ v)"
  if "hash_value x = hash_value y" "length x = length y"
  using that by (simp add: hash_value_append)

lemma hashString_cong: "hash_value s = hash_value t \<Longrightarrow> hashString s = hashString t"
  by (simp add: hashString_def hash_chars_reference)

text \<open>
  The identity of a signal does not tell all texts apart: two observed texts of one account and
  category that differ only where one has \<open>az\<close> and the other \<open>b[\<close> have the same identity, whatever
  stands before and after it.
\<close>

theorem different_signals_share_identity:
  assumes "normalizedSignal (u @ ''az'' @ v) = u @ ''az'' @ v" and "normalizedSignal (u @ ''b['' @ v) = u @ ''b['' @ v"
  shows "sg_dedup tenant workspace account category (u @ ''az'' @ v) = sg_dedup tenant workspace account category (u @ ''b['' @ v)"
proof -
  have "hash_value (u @ ''az'' @ v) = hash_value (u @ ''b['' @ v)"
    by (rule hash_value_pair) (simp_all add: hash_value_def)
  then have "hashString (u @ ''az'' @ v) = hashString (u @ ''b['' @ v)" by (rule hashString_cong)
  then show ?thesis by (simp only: sg_dedup_def assms)
qed

theorem different_signals_share_identity_witness:
  "sg_dedup ''t'' ''w'' ''a'' ''Funding'' ''series az closed'' = sg_dedup ''t'' ''w'' ''a'' ''Funding'' ''series b[ closed''"
proof -
  have "normalizedSignal (''series '' @ ''az'' @ '' closed'') = ''series '' @ ''az'' @ '' closed''"
    "normalizedSignal (''series '' @ ''b['' @ '' closed'') = ''series '' @ ''b['' @ '' closed''"
    by (simp_all add: normalizedSignal_def js_trim_def js_space_def js_lower_def js_lower_char_def)
  from different_signals_share_identity [OF this] show ?thesis by simp
qed

text \<open>
  A signal that \<open>detect\<close> accepts has a period that ends after it began; until then it is active,
  from then on expired, and once it was expired or retracted by a call no sequence of calls makes it
  active again.
\<close>

theorem detected_signal_period:
  assumes "sg_detect props corr ev now = Inr s"
  shows "\<exists>start stop. gp_effectiveFrom props = Some start \<and> gp_effectiveUntil props = Some stop \<and> start < stop
    \<and> (\<forall>t. sg_isActive t s = (t < stop) \<and> sg_isExpired t s = (stop \<le> t))
    \<and> (\<forall>s'. signal_step\<^sup>*\<^sup>* s s' \<longrightarrow> sg_status s' \<noteq> SG_ACTIVE \<longrightarrow>
         (\<forall>s'' t. signal_step\<^sup>*\<^sup>* s' s'' \<longrightarrow> \<not> sg_isActive t s'' \<and> \<not> sg_isExpired t s''))"
proof -
  obtain start stop where dates: "gp_effectiveFrom props = Some start" "gp_effectiveUntil props = Some stop" "start < stop"
    using assms by (auto simp: sg_detect_def check_signal_def split: option.splits if_splits prod.splits)
  have state: "sg_status s = SG_ACTIVE" "sg_effectiveUntil s = Some stop"
    using assms dates by (auto simp: sg_detect_def sg_construct_def applyEvent_def Let_def split: option.splits)
  have "sg_status s'' \<noteq> SG_ACTIVE" if "sg_status s' \<noteq> SG_ACTIVE" "signal_step\<^sup>*\<^sup>* s' s''" for s' s''
    using signal_life.run_closed [OF that(2), of "{SG_EXPIRED, SG_RETRACTED}"] that(1)
    by (cases "sg_status s'") (auto simp: can_signal_def)
  then show ?thesis using dates state by (auto simp: sg_isActive_def sg_isExpired_def)
qed

definition sample_signal_props :: signal_props where
  "sample_signal_props =
     \<lparr>gp_id = ''s'', gp_tenantId = ''t'', gp_workspaceId = ''w'', gp_accountId = ''a'', gp_contactId = None,
      gp_signalType = ''Funding'', gp_observedAt = Some 10, gp_effectiveFrom = Some 10, gp_effectiveUntil = Some 20,
      gp_source = ''news'', gp_sourceUri = None, gp_confidence = NaN, gp_relevance = Fin 1, gp_observedSignal = ''raised a round'',
      gp_interpretedSignal = ''budget'', gp_evidenceIds = None, gp_status = None, gp_dedupIdentity = None, gp_createdAt = None\<rparr>"

theorem detected_signal_period_witness:
  "\<exists>s. sg_detect sample_signal_props ''k'' ''e'' 11 = Inr s \<and> sg_isActive 19 s \<and> sg_isExpired 20 s"
proof -
  have "check_signal sample_signal_props = None"
    by (simp add: check_signal_def sample_signal_props_def outside_unit_def bad_text_def SIGNAL_CATEGORIES_def
        MAX_SIGNAL_SOURCE_LENGTH_def MAX_OBSERVED_SIGNAL_LENGTH_def MAX_INTERPRETED_SIGNAL_LENGTH_def js_trim_def js_space_def)
  then obtain s where s: "sg_detect sample_signal_props ''k'' ''e'' 11 = Inr s"
    by (simp add: sg_detect_def Let_def)
  show ?thesis using detected_signal_period [OF s] s by (auto simp: sample_signal_props_def)
qed

end
