(* ===== verification/IcpProfiles.thy ===== *)
theory IcpProfiles
  imports Accounts
begin

section \<open>Ideal customer profiles and their versions\<close>

text \<open>
  \<open>packages/domain/src/intelligence/icp-profile.ts\<close> and
  \<open>packages/intelligence/src/infrastructure/postgres-icp-profile-repository.ts\<close>: a profile is never
  changed in place, a change is a new version, and the table takes inserts only. The sum of the weights
  is exact here. Row level security and the foreign key to the workspaces are left out.
\<close>

record hard_filter =
  hd_industries :: "string list option"
  hd_minEmployees :: "jsnum option"
  hd_maxEmployees :: "jsnum option"
  hd_territories :: "string list option"
  hd_excludedIndustries :: "string list option"

record scoring_weights =
  sw_icpMatch :: jsnum
  sw_signal :: jsnum
  sw_intent :: jsnum
  sw_evidenceConfidence :: jsnum

record soft_criterion =
  cr_criterion :: string
  cr_weight :: jsnum

datatype icp_status = ICP_ACTIVE | ICP_ARCHIVED

record icp_props =
  pp_id :: "string option"
  pp_versionId :: string
  pp_version :: jsnum
  pp_tenantId :: string
  pp_workspaceId :: string
  pp_name :: string
  pp_hardFilters :: hard_filter
  pp_softCriteria :: "soft_criterion list"
  pp_positiveSignals :: "string list"
  pp_negativeSignals :: "string list"
  pp_disqualifiers :: "string list"
  pp_scoringWeights :: scoring_weights
  pp_qualificationThreshold :: jsnum
  pp_reviewThreshold :: jsnum
  pp_minimumConfidence :: jsnum
  pp_status :: "icp_status option"
  pp_createdAt :: "int option"

datatype icp_payload =
    ICPProfileCreated string string jsnum string
  | ICPProfileVersionCreated string string jsnum string string
  | ICPProfileUpdated string string jsnum string

record icp_profile = "icp_payload domain_event aggregate_root" +
  ip_workspaceId :: string
  ip_versionId :: string
  ip_versionNumber :: jsnum
  ip_name :: string
  ip_hardFilters :: hard_filter
  ip_softCriteria :: "soft_criterion list"
  ip_positiveSignals :: "string list"
  ip_negativeSignals :: "string list"
  ip_disqualifiers :: "string list"
  ip_scoringWeights :: scoring_weights
  ip_qualificationThreshold :: jsnum
  ip_reviewThreshold :: jsnum
  ip_minimumConfidence :: jsnum
  ip_status :: icp_status
  ip_createdAt :: int

datatype icp_error = IcpNameRequired | IcpQualificationRange | IcpReviewRange | IcpWeightSum | IcpVersionInvalid

definition ip_construct :: "int \<Rightarrow> icp_props \<Rightarrow> icp_profile" where
  "ip_construct now p =
     \<lparr>tenantId = pp_tenantId p, aggId = nullish (pp_id p) ''icp-unknown'', version = 0, loadedVersion = None, domainEvents = [],
      ip_workspaceId = pp_workspaceId p, ip_versionId = pp_versionId p, ip_versionNumber = pp_version p, ip_name = pp_name p,
      ip_hardFilters = pp_hardFilters p, ip_softCriteria = pp_softCriteria p, ip_positiveSignals = pp_positiveSignals p,
      ip_negativeSignals = pp_negativeSignals p, ip_disqualifiers = pp_disqualifiers p, ip_scoringWeights = pp_scoringWeights p,
      ip_qualificationThreshold = pp_qualificationThreshold p, ip_reviewThreshold = pp_reviewThreshold p,
      ip_minimumConfidence = pp_minimumConfidence p, ip_status = nullish (pp_status p) ICP_ACTIVE,
      ip_createdAt = nullish (pp_createdAt p) now\<rparr>"

definition total_weight :: "scoring_weights \<Rightarrow> jsnum" where
  "total_weight w = fold (\<lambda>x sum. js_add sum x) [sw_icpMatch w, sw_signal w, sw_intent w, sw_evidenceConfidence w] (Fin 0)"

definition validateVersion :: "jsnum \<Rightarrow> icp_error option" where
  "validateVersion v = (if \<not> js_isFinite v \<or> \<not> js_isInteger v \<or> js_lt v (Fin 1) then Some IcpVersionInvalid else None)"

definition validateProps :: "icp_props \<Rightarrow> icp_error option" where
  "validateProps p =
     (if pp_name p = [] \<or> js_trim (pp_name p) = [] then Some IcpNameRequired
      else if js_lt (pp_qualificationThreshold p) (Fin 0) \<or> js_lt (Fin 1) (pp_qualificationThreshold p) then Some IcpQualificationRange
      else if js_lt (pp_reviewThreshold p) (Fin 0) \<or> js_lt (Fin 1) (pp_reviewThreshold p)
          \<or> js_lt (pp_qualificationThreshold p) (pp_reviewThreshold p) then Some IcpReviewRange
      else if js_lt (Fin (1/1000)) (js_abs (js_sub (total_weight (pp_scoringWeights p)) (Fin 1))) then Some IcpWeightSum
      else validateVersion (pp_version p))"

definition ip_create :: "icp_props \<Rightarrow> string \<Rightarrow> string \<Rightarrow> int \<Rightarrow> (icp_profile, icp_error) result" where
  "ip_create props corr ev now =
     (case validateProps props of
        Some e \<Rightarrow> Fail e
      | None \<Rightarrow>
          let p = ip_construct now props
          in Ok (applyEvent (intel_event ev now (pp_tenantId props) corr
               (ICPProfileCreated (aggId p) (ip_versionId p) (ip_versionNumber p) (ip_name p))) p))"

record icp_changes =
  pc_name :: "string option"
  pc_hardFilters :: "hard_filter option"
  pc_softCriteria :: "soft_criterion list option"
  pc_positiveSignals :: "string list option"
  pc_negativeSignals :: "string list option"
  pc_disqualifiers :: "string list option"
  pc_scoringWeights :: "scoring_weights option"
  pc_qualificationThreshold :: "jsnum option"
  pc_reviewThreshold :: "jsnum option"
  pc_minimumConfidence :: "jsnum option"
  pc_status :: "icp_status option"
  pc_createdAt :: "int option"

definition next_props :: "icp_changes \<Rightarrow> string \<Rightarrow> icp_profile \<Rightarrow> icp_props" where
  "next_props c nextVersionId p =
     \<lparr>pp_id = Some (aggId p), pp_versionId = nextVersionId, pp_version = js_add (ip_versionNumber p) (Fin 1),
      pp_tenantId = tenantId p, pp_workspaceId = ip_workspaceId p, pp_name = nullish (pc_name c) (ip_name p),
      pp_hardFilters = nullish (pc_hardFilters c) (ip_hardFilters p),
      pp_softCriteria = nullish (pc_softCriteria c) (ip_softCriteria p),
      pp_positiveSignals = nullish (pc_positiveSignals c) (ip_positiveSignals p),
      pp_negativeSignals = nullish (pc_negativeSignals c) (ip_negativeSignals p),
      pp_disqualifiers = nullish (pc_disqualifiers c) (ip_disqualifiers p),
      pp_scoringWeights = nullish (pc_scoringWeights c) (ip_scoringWeights p),
      pp_qualificationThreshold = nullish (pc_qualificationThreshold c) (ip_qualificationThreshold p),
      pp_reviewThreshold = nullish (pc_reviewThreshold c) (ip_reviewThreshold p),
      pp_minimumConfidence = nullish (pc_minimumConfidence c) (ip_minimumConfidence p), pp_status = None, pp_createdAt = None\<rparr>"

definition createNextVersion :: "icp_changes \<Rightarrow> string \<Rightarrow> string \<Rightarrow> string \<Rightarrow> int \<Rightarrow> icp_profile \<Rightarrow> (icp_profile, icp_error) result" where
  "createNextVersion changes nextVersionId corr ev now p =
     (case validateProps (next_props changes nextVersionId p) of
        Some e \<Rightarrow> Fail e
      | None \<Rightarrow>
          let q = ip_construct now (next_props changes nextVersionId p)
          in Ok (applyEvent (intel_event ev now (tenantId p) corr
               (ICPProfileVersionCreated (aggId q) (ip_versionId q) (ip_versionNumber q) (ip_versionId p) (ip_name q))) q))"

definition ip_reconstitute :: "int \<Rightarrow> icp_props \<Rightarrow> nat \<Rightarrow> icp_profile" where
  "ip_reconstitute now props v = clearDomainEvents (setVersion v (ip_construct now props))"

definition ip_archive :: "string \<Rightarrow> string \<Rightarrow> int \<Rightarrow> icp_profile \<Rightarrow> icp_profile" where
  "ip_archive corr ev now p =
     applyEvent (intel_event ev now (tenantId p) corr (ICPProfileUpdated (aggId p) (ip_versionId p) (ip_versionNumber p) (ip_name p)))
       (p\<lparr>ip_status := ICP_ARCHIVED\<rparr>)"

subsection \<open>The table\<close>

text \<open>
  A row of \<open>intelligence.icp_profiles\<close> has the columns of the properties, with id, status and time set and
  the version an integer. The table checks the version and the three numbers, so that reading them back
  never fails.
\<close>

record icp_row =
  ir_versionId :: string
  ir_id :: string
  ir_versionNumber :: int
  ir_tenant :: string
  ir_workspace :: string
  ir_props :: icp_props

definition ip_row_find :: "(icp_row \<Rightarrow> bool) \<Rightarrow> icp_row list \<Rightarrow> icp_row option" where
  "ip_row_find P rows =
     fold (\<lambda>r best. if \<not> P r then best
        else case best of None \<Rightarrow> Some r | Some b \<Rightarrow> if ir_versionNumber b < ir_versionNumber r then Some r else best) rows None"

definition rowToICPProfile :: "int \<Rightarrow> icp_row \<Rightarrow> icp_profile" where
  "rowToICPProfile now r = ip_reconstitute now (ir_props r) (nat (ir_versionNumber r))"

definition ip_own :: "string \<Rightarrow> string \<Rightarrow> icp_row \<Rightarrow> bool" where
  "ip_own tenant ws r \<longleftrightarrow> ir_tenant r = tenant \<and> ir_workspace r = ws"

definition ip_findById :: "int \<Rightarrow> string \<Rightarrow> string \<Rightarrow> string \<Rightarrow> icp_row list \<Rightarrow> icp_profile option" where
  "ip_findById now tenant ws i rows = map_option (rowToICPProfile now) (ip_row_find (\<lambda>r. ip_own tenant ws r \<and> ir_id r = i) rows)"

definition ip_findByVersionId :: "int \<Rightarrow> string \<Rightarrow> string \<Rightarrow> string \<Rightarrow> icp_row list \<Rightarrow> icp_profile option" where
  "ip_findByVersionId now tenant ws v rows =
     map_option (rowToICPProfile now) (List.find (\<lambda>r. ip_own tenant ws r \<and> ir_versionId r = v) rows)"

definition ip_findActiveByWorkspace :: "int \<Rightarrow> string \<Rightarrow> string \<Rightarrow> icp_row list \<Rightarrow> icp_profile option" where
  "ip_findActiveByWorkspace now tenant ws rows =
     map_option (rowToICPProfile now) (ip_row_find (\<lambda>r. ip_own tenant ws r \<and> pp_status (ir_props r) = Some ICP_ACTIVE) rows)"

datatype icp_save_error = IcpTenantIsolation | IcpAuthorization | IcpConflict | IcpPersistence

definition props_of_icp :: "icp_profile \<Rightarrow> icp_props" where
  "props_of_icp p =
     \<lparr>pp_id = Some (aggId p), pp_versionId = ip_versionId p, pp_version = ip_versionNumber p, pp_tenantId = tenantId p,
      pp_workspaceId = ip_workspaceId p, pp_name = ip_name p, pp_hardFilters = ip_hardFilters p,
      pp_softCriteria = ip_softCriteria p, pp_positiveSignals = ip_positiveSignals p,
      pp_negativeSignals = ip_negativeSignals p, pp_disqualifiers = ip_disqualifiers p,
      pp_scoringWeights = ip_scoringWeights p, pp_qualificationThreshold = ip_qualificationThreshold p,
      pp_reviewThreshold = ip_reviewThreshold p, pp_minimumConfidence = ip_minimumConfidence p,
      pp_status = Some (ip_status p), pp_createdAt = Some (ip_createdAt p)\<rparr>"

definition unit_range :: "jsnum \<Rightarrow> bool" where
  "unit_range v \<longleftrightarrow> js_le (Fin 0) v \<and> js_le v (Fin 1)"

text \<open>The value of an \<open>INTEGER\<close> column, and the row that the \<open>INSERT\<close> writes when the checks pass.\<close>

fun integer_value :: "jsnum \<Rightarrow> int option" where
  "integer_value (Fin a) = (if a = of_int \<lfloor>a\<rfloor> then Some \<lfloor>a\<rfloor> else None)"
| "integer_value _ = None"

definition ip_insert :: "icp_profile \<Rightarrow> icp_row list \<Rightarrow> icp_save_error + icp_row list" where
  "ip_insert p rows =
     (case integer_value (ip_versionNumber p) of
        None \<Rightarrow> Inl IcpPersistence
      | Some v \<Rightarrow>
          if v < 1 \<or> \<not> unit_range (ip_qualificationThreshold p) \<or> \<not> unit_range (ip_reviewThreshold p)
             \<or> \<not> unit_range (ip_minimumConfidence p) then Inl IcpPersistence
          else if list_ex (\<lambda>r. ir_versionId r = ip_versionId p
                 \<or> ip_own (tenantId p) (ip_workspaceId p) r \<and> ir_id r = aggId p \<and> ir_versionNumber r = v) rows then Inl IcpConflict
          else Inr (rows @ [\<lparr>ir_versionId = ip_versionId p, ir_id = aggId p, ir_versionNumber = v, ir_tenant = tenantId p,
                             ir_workspace = ip_workspaceId p, ir_props = props_of_icp p\<rparr>]))"

definition ip_save :: "int \<Rightarrow> string \<Rightarrow> string \<Rightarrow> icp_profile \<Rightarrow> icp_row list \<Rightarrow> icp_save_error + icp_row list" where
  "ip_save now tenant ws p rows =
     (if tenant \<noteq> tenantId p then Inl IcpTenantIsolation
      else if ws \<noteq> ip_workspaceId p then Inl IcpAuthorization
      else case ip_findById now tenant ws (aggId p) rows of
          Some current \<Rightarrow>
            if ip_versionNumber p \<noteq> js_add (ip_versionNumber current) (Fin 1) then Inl IcpConflict else ip_insert p rows
        | None \<Rightarrow> ip_insert p rows)"

subsection \<open>The history of a profile\<close>

inductive icp_saves :: "icp_row list \<Rightarrow> icp_row list \<Rightarrow> bool" where
  is_none: "icp_saves rows rows"
| is_more: "icp_saves rows rows' \<Longrightarrow> ip_save now tenant ws p rows' = Inr rows'' \<Longrightarrow> icp_saves rows rows''"

definition icp_history :: "string \<Rightarrow> string \<Rightarrow> string \<Rightarrow> icp_row list \<Rightarrow> int list" where
  "icp_history tenant ws i rows = map ir_versionNumber (filter (\<lambda>r. ip_own tenant ws r \<and> ir_id r = i) rows)"

fun consecutive :: "int list \<Rightarrow> bool" where
  "consecutive (x # y # xs) = (y = x + 1 \<and> consecutive (y # xs))"
| "consecutive _ = True"

lemma consecutive_snoc: "consecutive (xs @ [v]) \<longleftrightarrow> consecutive xs \<and> (xs = [] \<or> v = last xs + 1)"
  by (induction xs rule: consecutive.induct) auto

definition icp_row_ok :: "icp_row \<Rightarrow> bool" where
  "icp_row_ok r \<longleftrightarrow> pp_version (ir_props r) = Fin (of_int (ir_versionNumber r)) \<and> pp_id (ir_props r) = Some (ir_id r)
     \<and> pp_tenantId (ir_props r) = ir_tenant r \<and> pp_workspaceId (ir_props r) = ir_workspace r"

definition icp_table :: "icp_row list \<Rightarrow> bool" where
  "icp_table rows \<longleftrightarrow> list_all icp_row_ok rows \<and> (\<forall>tenant ws i. consecutive (icp_history tenant ws i rows))"

lemma row_find_last:
  "consecutive (map ir_versionNumber (filter P rows)) \<Longrightarrow>
     ip_row_find P rows = (if filter P rows = [] then None else Some (last (filter P rows)))"
proof (induction rows rule: rev_induct)
  case (snoc r rows)
  show ?case
  proof (cases "P r")
    case True
    then have "consecutive (map ir_versionNumber (filter P rows))"
      "filter P rows = [] \<or> ir_versionNumber r = ir_versionNumber (last (filter P rows)) + 1"
      using snoc.prems by (cases "filter P rows = []"; simp add: consecutive_snoc last_map)+
    then show ?thesis using snoc.IH True by (auto simp: ip_row_find_def split: if_splits)
  next
    case False
    then show ?thesis using snoc by (simp add: ip_row_find_def)
  qed
qed (simp add: ip_row_find_def)

lemma findById_last:
  assumes "icp_table rows"
  shows "ip_findById now tenant ws i rows =
    (let own = filter (\<lambda>r. ip_own tenant ws r \<and> ir_id r = i) rows
     in if own = [] then None else Some (rowToICPProfile now (last own)))"
  using row_find_last [of "\<lambda>r. ip_own tenant ws r \<and> ir_id r = i" rows] assms
  by (auto simp: ip_findById_def icp_table_def icp_history_def Let_def)

lemma icp_profile_of_row:
  "icp_row_ok r \<Longrightarrow> ip_versionNumber (rowToICPProfile now r) = Fin (of_int (ir_versionNumber r))
     \<and> tenantId (rowToICPProfile now r) = ir_tenant r \<and> ip_workspaceId (rowToICPProfile now r) = ir_workspace r
     \<and> aggId (rowToICPProfile now r) = ir_id r"
  by (simp add: icp_row_ok_def rowToICPProfile_def ip_reconstitute_def ip_construct_def clearDomainEvents_def setVersion_def)

lemma integer_value_Some: "integer_value v = Some n \<Longrightarrow> v = Fin (of_int n)"
  by (cases v) (auto split: if_splits)

lemma ip_insert_row:
  "ip_insert p rows = Inr rows' \<Longrightarrow> \<exists>r. rows' = rows @ [r] \<and> icp_row_ok r \<and> ir_tenant r = tenantId p
     \<and> ir_workspace r = ip_workspaceId p \<and> ir_id r = aggId p \<and> Fin (of_int (ir_versionNumber r)) = ip_versionNumber p"
  by (auto simp: ip_insert_def icp_row_ok_def props_of_icp_def dest: integer_value_Some split: option.splits if_splits)

lemma ip_save_table:
  assumes "icp_table rows" and "ip_save now tenant ws p rows = Inr rows'"
  shows "icp_table rows' \<and> prefix rows rows'"
proof -
  let ?own = "filter (\<lambda>r. ip_own tenant ws r \<and> ir_id r = aggId p) rows"
  have own: "tenantId p = tenant" "ip_workspaceId p = ws" and ins: "ip_insert p rows = Inr rows'"
    and follows: "ip_findById now tenant ws (aggId p) rows = Some c \<Longrightarrow> ip_versionNumber p = js_add (ip_versionNumber c) (Fin 1)" for c
    using assms(2) by (auto simp: ip_save_def split: if_splits option.splits)
  obtain r where r: "rows' = rows @ [r]" "icp_row_ok r" "ir_tenant r = tenant" "ir_workspace r = ws" "ir_id r = aggId p"
      "Fin (of_int (ir_versionNumber r)) = ip_versionNumber p"
    using ip_insert_row [OF ins] own by auto
  have step: "?own = [] \<or> ir_versionNumber r = ir_versionNumber (last ?own) + 1"
  proof (cases "?own = []")
    case False
    then have c: "ip_findById now tenant ws (aggId p) rows = Some (rowToICPProfile now (last ?own))"
      using findById_last [OF assms(1)] by (simp add: Let_def)
    have "last ?own \<in> set rows" using last_in_set [OF False] by simp
    then have "icp_row_ok (last ?own)" using assms(1) by (simp add: icp_table_def list_all_iff)
    then have "(of_int (ir_versionNumber r) :: rat) = of_int (ir_versionNumber (last ?own)) + 1"
      using follows [OF c] icp_profile_of_row r(6) by simp
    also have "\<dots> = of_int (ir_versionNumber (last ?own) + 1)" by simp
    finally have "ir_versionNumber r = ir_versionNumber (last ?own) + 1" by (simp only: of_int_eq_iff)
    then show ?thesis by simp
  qed simp
  have "consecutive (icp_history t w i rows')" for t w i
  proof (cases "t = tenant \<and> w = ws \<and> i = aggId p")
    case True
    have "consecutive (map ir_versionNumber ?own)" using assms(1) by (simp add: icp_table_def icp_history_def)
    then have "consecutive (map ir_versionNumber ?own @ [ir_versionNumber r])"
      using step by (cases "?own = []") (simp_all add: consecutive_snoc last_map)
    then show ?thesis using True r by (simp add: icp_history_def ip_own_def)
  next
    case False
    then show ?thesis using assms(1) r by (auto simp: icp_table_def icp_history_def ip_own_def)
  qed
  then show ?thesis using assms(1) r by (simp add: icp_table_def)
qed

lemma icp_saves_table: "icp_saves rows rows' \<Longrightarrow> icp_table rows \<Longrightarrow> icp_table rows' \<and> prefix rows rows'"
  by (induction rule: icp_saves.induct) (auto dest: ip_save_table prefix_order.trans)

lemma icp_table_empty: "icp_table []"
  by (simp add: icp_table_def icp_history_def)

text \<open>
  A stored version of a profile is never changed or lost, and the versions stored for a profile
  are consecutive, in the order of the saves, whatever is saved and by whomever.
\<close>

theorem icp_versions_append_only:
  assumes "icp_saves [] rows" and "icp_saves rows rows'"
  shows "prefix rows rows' \<and> consecutive (icp_history tenant ws i rows')"
  using icp_saves_table [OF assms(1) icp_table_empty] icp_saves_table [OF assms(2)]
  by (auto simp: icp_table_def)

text \<open>
  Archiving has no lasting effect: a stored profile that is archived is refused by the repository,
  and the next version of an archived profile is active again.
\<close>

theorem archived_profile_not_stored:
  assumes "icp_saves [] rows" and "ip_findById now tenant ws i rows = Some p"
  shows "ip_save now' tenant ws (ip_archive corr ev now'' p) rows = Inl IcpConflict
    \<and> (\<forall>changes v q. createNextVersion changes v corr ev now'' (ip_archive corr ev now'' p) = Ok q \<longrightarrow> ip_status q = ICP_ACTIVE)"
proof -
  let ?own = "filter (\<lambda>r. ip_own tenant ws r \<and> ir_id r = i) rows" and ?a = "ip_archive corr ev now'' p"
  have table: "icp_table rows" using icp_saves_table [OF assms(1) icp_table_empty] by simp
  have ne: "?own \<noteq> []" and p: "p = rowToICPProfile now (last ?own)"
    using assms(2) by (auto simp: findById_last [OF table] Let_def split: if_splits)
  have own: "last ?own \<in> set ?own" using last_in_set [OF ne] .
  then have r: "icp_row_ok (last ?own)" "ip_own tenant ws (last ?own)" "ir_id (last ?own) = i"
    using table by (auto simp: icp_table_def list_all_iff)
  have same: "tenantId ?a = tenantId p" "ip_workspaceId ?a = ip_workspaceId p" "aggId ?a = aggId p"
    "ip_versionNumber ?a = ip_versionNumber p"
    by (simp_all add: ip_archive_def applyEvent_def)
  have current: "ip_findById now' tenant ws i rows = Some (rowToICPProfile now' (last ?own))"
    using ne by (simp add: findById_last [OF table] Let_def)
  have ids: "tenantId p = tenant" "ip_workspaceId p = ws" "aggId p = i"
    using r icp_profile_of_row [OF r(1)] by (auto simp: p ip_own_def)
  have number: "ip_versionNumber p = Fin (of_int (ir_versionNumber (last ?own)))"
    "ip_versionNumber (rowToICPProfile now' (last ?own)) = Fin (of_int (ir_versionNumber (last ?own)))"
    using icp_profile_of_row [OF r(1)] by (simp_all add: p)
  have "ip_save now' tenant ws ?a rows = Inl IcpConflict"
    unfolding ip_save_def same ids current option.case number by simp
  then show ?thesis
    by (auto simp: createNextVersion_def Let_def applyEvent_def ip_construct_def next_props_def split: option.splits)
qed

definition sample_icp_props :: icp_props where
  "sample_icp_props =
     \<lparr>pp_id = Some ''icp'', pp_versionId = ''v1'', pp_version = Fin 1, pp_tenantId = ''t'', pp_workspaceId = ''w'', pp_name = ''mid'',
      pp_hardFilters = \<lparr>hd_industries = Some [''Retail''], hd_minEmployees = Some (Fin 50), hd_maxEmployees = None, hd_territories = None,
        hd_excludedIndustries = Some [''Gambling'']\<rparr>, pp_softCriteria = [], pp_positiveSignals = [], pp_negativeSignals = [],
      pp_disqualifiers = [], pp_scoringWeights = \<lparr>sw_icpMatch = Fin (2/5), sw_signal = Fin (3/10), sw_intent = Fin (1/5),
        sw_evidenceConfidence = Fin (1/10)\<rparr>, pp_qualificationThreshold = Fin (7/10), pp_reviewThreshold = Fin (1/2),
      pp_minimumConfidence = Fin (1/2), pp_status = None, pp_createdAt = None\<rparr>"

definition sample_icp :: icp_profile where
  "sample_icp = ip_construct 1 sample_icp_props"

definition sample_icp_row :: icp_row where
  "sample_icp_row = \<lparr>ir_versionId = ''v1'', ir_id = ''icp'', ir_versionNumber = 1, ir_tenant = ''t'', ir_workspace = ''w'',
     ir_props = props_of_icp sample_icp\<rparr>"

lemma sample_icp_saved: "icp_saves [] [sample_icp_row]"
proof -
  have "ip_save 2 ''t'' ''w'' sample_icp [] = Inr [sample_icp_row]"
    by (simp add: ip_save_def ip_insert_def ip_findById_def ip_row_find_def sample_icp_def sample_icp_props_def ip_construct_def
        sample_icp_row_def unit_range_def)
  then show ?thesis by (rule is_more [OF is_none])
qed

theorem icp_versions_append_only_witness:
  "prefix [sample_icp_row] [sample_icp_row] \<and> consecutive (icp_history ''t'' ''w'' ''icp'' [sample_icp_row])"
  by (rule icp_versions_append_only [OF sample_icp_saved is_none])

theorem archived_profile_not_stored_witness:
  "ip_save 3 ''t'' ''w'' (ip_archive ''k'' ''e'' 3 (rowToICPProfile 2 sample_icp_row)) [sample_icp_row] = Inl IcpConflict"
proof -
  have "ip_findById 2 ''t'' ''w'' ''icp'' [sample_icp_row] = Some (rowToICPProfile 2 sample_icp_row)"
    by (simp add: ip_findById_def ip_row_find_def ip_own_def sample_icp_row_def)
  from archived_profile_not_stored [OF sample_icp_saved this] show ?thesis by blast
qed

end
