(* ===== verification/ResearchRecords.thy ===== *)
theory ResearchRecords
  imports Leads Accounts
begin

section \<open>Research requests, runs and evidence\<close>

text \<open>
  \<open>packages/domain/src/intelligence/research-request.ts\<close> and \<open>research-evidence.ts\<close>. Timestamps are texts
  here; which texts \<open>new Date\<close> can read depends on the implementation of JavaScript beyond the ISO format,
  so \<open>parses\<close> is an argument. Constructors throw, which is \<open>Inl\<close>. The rows that the Postgres repositories
  of \<open>packages/intelligence\<close> keep are these records.
\<close>

subsection \<open>Texts\<close>

text \<open>\<open>a < b\<close> on strings, by code units.\<close>

fun js_str_lt :: "string \<Rightarrow> string \<Rightarrow> bool" where
  "js_str_lt [] t = (t \<noteq> [])"
| "js_str_lt (c # s) [] = False"
| "js_str_lt (c # s) (d # t) = ((of_char c :: nat) < of_char d \<or> c = d \<and> js_str_lt s t)"

definition opaque_char :: "char \<Rightarrow> bool" where
  "opaque_char c \<longleftrightarrow> (let n = of_char c :: nat in 65 \<le> n \<and> n \<le> 90 \<or> 97 \<le> n \<and> n \<le> 122 \<or> 48 \<le> n \<and> n \<le> 57 \<or> n = 95 \<or> n = 45)"

text \<open>\<open>/^[A-Za-z0-9_-]+$/\<close>.\<close>

definition OPAQUE_HASH_PATTERN :: "string \<Rightarrow> bool" where
  "OPAQUE_HASH_PATTERN s \<longleftrightarrow> s \<noteq> [] \<and> list_all opaque_char s"

text \<open>\<open>//user:password@\<close>: from two slashes on, a part without \<open>@\<close> and \<open>/\<close> that contains a colon, and an \<open>@\<close>.\<close>

fun URI_CREDENTIALS_PATTERN :: "string \<Rightarrow> bool" where
  "URI_CREDENTIALS_PATTERN [] = False"
| "URI_CREDENTIALS_PATTERN (c # s) =
     (js_startsWith (c # s) ''//''
        \<and> (let authority = takeWhile (\<lambda>x. x \<noteq> CHR ''@'' \<and> x \<noteq> CHR ''/'') (drop 2 (c # s)); rest = drop (2 + length authority) (c # s)
           in CHR '':'' \<in> set authority \<and> rest \<noteq> [] \<and> hd rest = CHR ''@'')
      \<or> URI_CREDENTIALS_PATTERN s)"

datatype research_error =
    RE_workspace | RE_hashEmpty | RE_hashTooLong | RE_hashFormat | RE_timestamp string | RE_status string
  | RE_order | RE_codeEmpty | RE_codeTooLong | RE_messageTooLong

definition MAX_QUERY_HASH_LENGTH :: nat where "MAX_QUERY_HASH_LENGTH = 256"
definition MAX_FAILURE_MESSAGE_LENGTH :: nat where "MAX_FAILURE_MESSAGE_LENGTH = 1024"
definition MAX_FAILURE_CODE_LENGTH :: nat where "MAX_FAILURE_CODE_LENGTH = 128"

definition validateOpaqueHash :: "string \<Rightarrow> nat \<Rightarrow> research_error option" where
  "validateOpaqueHash v limit =
     (if v = [] then Some RE_hashEmpty else if length v > limit then Some RE_hashTooLong
      else if \<not> OPAQUE_HASH_PATTERN v then Some RE_hashFormat else None)"

definition validateIsoTimestamp :: "(string \<Rightarrow> bool) \<Rightarrow> string \<Rightarrow> string \<Rightarrow> research_error option" where
  "validateIsoTimestamp parses v field = (if v = [] \<or> \<not> parses v then Some (RE_timestamp field) else None)"

subsection \<open>Requests and runs\<close>

record research_request =
  rq_id :: string
  rq_tenantId :: string
  rq_workspaceId :: string
  rq_missionId :: "string option"
  rq_queryHash :: string
  rq_requestedAt :: string

definition rq_create :: "(string \<Rightarrow> bool) \<Rightarrow> research_request \<Rightarrow> research_error + research_request" where
  "rq_create parses p =
     (if rq_workspaceId p = [] then Inl RE_workspace
      else case validateOpaqueHash (rq_queryHash p) MAX_QUERY_HASH_LENGTH of
          Some e \<Rightarrow> Inl e
        | None \<Rightarrow> (case validateIsoTimestamp parses (rq_requestedAt p) ''requestedAt'' of Some e \<Rightarrow> Inl e | None \<Rightarrow> Inr p))"

datatype run_status = RR_PENDING | RR_RUNNING | RR_SUCCEEDED | RR_FAILED

record research_run =
  rr_id :: string
  rr_tenantId :: string
  rr_workspaceId :: string
  rr_requestId :: string
  rr_status :: run_status
  rr_startedAt :: "string option"
  rr_completedAt :: "string option"
  rr_failureCode :: "string option"
  rr_failureMessage :: "string option"

definition rr_create :: "string \<Rightarrow> string \<Rightarrow> string \<Rightarrow> string \<Rightarrow> research_error + research_run" where
  "rr_create i tenant workspace request =
     (if workspace = [] then Inl RE_workspace
      else Inr \<lparr>rr_id = i, rr_tenantId = tenant, rr_workspaceId = workspace, rr_requestId = request, rr_status = RR_PENDING,
                rr_startedAt = None, rr_completedAt = None, rr_failureCode = None, rr_failureMessage = None\<rparr>)"

definition rr_start :: "(string \<Rightarrow> bool) \<Rightarrow> string \<Rightarrow> research_run \<Rightarrow> research_error + research_run" where
  "rr_start parses t r =
     (if rr_status r \<noteq> RR_PENDING then Inl (RE_status ''start'')
      else case validateIsoTimestamp parses t ''startedAt'' of
          Some e \<Rightarrow> Inl e
        | None \<Rightarrow> Inr (r\<lparr>rr_status := RR_RUNNING, rr_startedAt := Some t\<rparr>))"

definition precedes_start :: "string \<Rightarrow> research_run \<Rightarrow> bool" where
  "precedes_start t r \<longleftrightarrow> truthy (rr_startedAt r) \<and> js_str_lt t (nullish (rr_startedAt r) [])"

definition rr_succeed :: "(string \<Rightarrow> bool) \<Rightarrow> string \<Rightarrow> research_run \<Rightarrow> research_error + research_run" where
  "rr_succeed parses t r =
     (if rr_status r \<noteq> RR_RUNNING then Inl (RE_status ''succeed'')
      else case validateIsoTimestamp parses t ''completedAt'' of
          Some e \<Rightarrow> Inl e
        | None \<Rightarrow> if precedes_start t r then Inl RE_order else Inr (r\<lparr>rr_status := RR_SUCCEEDED, rr_completedAt := Some t\<rparr>))"

definition rr_fail :: "(string \<Rightarrow> bool) \<Rightarrow> string \<Rightarrow> string \<Rightarrow> string \<Rightarrow> research_run \<Rightarrow> research_error + research_run" where
  "rr_fail parses code message t r =
     (if rr_status r \<noteq> RR_RUNNING then Inl (RE_status ''fail'')
      else if code = [] then Inl RE_codeEmpty
      else if length code > MAX_FAILURE_CODE_LENGTH then Inl RE_codeTooLong
      else if length message > MAX_FAILURE_MESSAGE_LENGTH then Inl RE_messageTooLong
      else case validateIsoTimestamp parses t ''completedAt'' of
          Some e \<Rightarrow> Inl e
        | None \<Rightarrow>
            if precedes_start t r then Inl RE_order
            else Inr (r\<lparr>rr_status := RR_FAILED, rr_completedAt := Some t, rr_failureCode := Some code, rr_failureMessage := Some message\<rparr>))"

inductive run_step :: "(string \<Rightarrow> bool) \<Rightarrow> research_run \<Rightarrow> research_run \<Rightarrow> bool" for parses where
  rs_start: "rr_start parses t r = Inr r' \<Longrightarrow> run_step parses r r'"
| rs_succeed: "rr_succeed parses t r = Inr r' \<Longrightarrow> run_step parses r r'"
| rs_fail: "rr_fail parses code message t r = Inr r' \<Longrightarrow> run_step parses r r'"

definition can_run :: "run_status \<Rightarrow> run_status \<Rightarrow> bool" where
  "can_run a b \<longleftrightarrow> a = RR_PENDING \<and> b = RR_RUNNING \<or> a = RR_RUNNING \<and> (b = RR_SUCCEEDED \<or> b = RR_FAILED)"

interpretation run_life: lifecycle rr_status can_run "run_step parses"
proof unfold_locales
  fix a b assume "run_step parses a b"
  then show "rr_status b = rr_status a \<or> can_run (rr_status a) (rr_status b)"
    by cases (auto simp: rr_start_def rr_succeed_def rr_fail_def can_run_def split: if_splits option.splits)
qed

subsection \<open>Evidence\<close>

definition MAX_SOURCE_LENGTH :: nat where "MAX_SOURCE_LENGTH = 512"
definition MAX_SOURCE_URI_LENGTH :: nat where "MAX_SOURCE_URI_LENGTH = 2048"
definition MAX_FINGERPRINT_LENGTH :: nat where "MAX_FINGERPRINT_LENGTH = 256"
definition MAX_CLAIM_TYPE_LENGTH :: nat where "MAX_CLAIM_TYPE_LENGTH = 128"

datatype reliability_tier = OFFICIAL | PREMIUM_PROVIDER | PUBLIC_RECORD | DERIVED | USER_PROVIDED

record provenance_entry =
  pe_step :: string
  pe_agentId :: "string option"
  pe_toolCallId :: "string option"
  pe_inputSummary :: string
  pe_outputSummary :: "string option"
  pe_occurredAt :: string

datatype contradiction_resolution = FAVOR_THIS | FAVOR_OTHER | UNRESOLVED

record contradiction_entry =
  ce_conflictingEvidenceId :: string
  ce_reason :: string
  ce_resolution :: contradiction_resolution

record confidence_breakdown =
  cb_sourceReliability :: jsnum
  cb_extractionConfidence :: jsnum
  cb_corroboration :: jsnum

record research_evidence =
  re_evidenceId :: string
  re_tenantId :: string
  re_workspaceId :: string
  re_requestId :: string
  re_runId :: string
  re_accountId :: "string option"
  re_contactId :: "string option"
  re_missionId :: "string option"
  re_claimType :: string
  re_normalizedValue :: json
  re_source :: string
  re_sourceUri :: "string option"
  re_reliabilityTier :: reliability_tier
  re_observedAt :: string
  re_freshnessExpiry :: string
  re_confidence :: jsnum
  re_confidenceBreakdown :: confidence_breakdown
  re_provenance :: "provenance_entry list"
  re_contradictions :: "contradiction_entry list option"
  re_evidenceFingerprint :: string

datatype evidence_error =
    EV_workspace | EV_claimType | EV_source | EV_sourceUriLength | EV_sourceUriCredentials | EV_valueNotJson
  | EV_fingerprintEmpty | EV_fingerprintTooLong | EV_fingerprintFormat | EV_notFinite string | EV_outOfRange string
  | EV_observedAt | EV_freshnessExpiry

definition validateFiniteInRange :: "jsnum \<Rightarrow> string \<Rightarrow> evidence_error option" where
  "validateFiniteInRange v field =
     (if \<not> js_isFinite v then Some (EV_notFinite field)
      else if js_lt v (Fin 0) \<or> js_lt (Fin 1) v then Some (EV_outOfRange field) else None)"

fun first_error :: "'e option list \<Rightarrow> 'e option" where
  "first_error [] = None"
| "first_error (Some e # cs) = Some e"
| "first_error (None # cs) = first_error cs"

definition reject_if :: "bool \<Rightarrow> 'e \<Rightarrow> 'e option" where
  "reject_if b e = (if b then Some e else None)"

definition re_checks :: "(string \<Rightarrow> bool) \<Rightarrow> research_evidence \<Rightarrow> evidence_error option list" where
  "re_checks parses p =
     [reject_if (re_workspaceId p = []) EV_workspace,
      reject_if (re_claimType p = [] \<or> length (re_claimType p) > MAX_CLAIM_TYPE_LENGTH) EV_claimType,
      reject_if (re_source p = [] \<or> length (re_source p) > MAX_SOURCE_LENGTH) EV_source,
      reject_if (re_sourceUri p \<noteq> None \<and> length (nullish (re_sourceUri p) []) > MAX_SOURCE_URI_LENGTH) EV_sourceUriLength,
      reject_if (re_sourceUri p \<noteq> None \<and> URI_CREDENTIALS_PATTERN (nullish (re_sourceUri p) [])) EV_sourceUriCredentials,
      reject_if (\<not> isJsonSafe (re_normalizedValue p)) EV_valueNotJson,
      reject_if (re_evidenceFingerprint p = []) EV_fingerprintEmpty,
      reject_if (length (re_evidenceFingerprint p) > MAX_FINGERPRINT_LENGTH) EV_fingerprintTooLong,
      reject_if (\<not> OPAQUE_HASH_PATTERN (re_evidenceFingerprint p)) EV_fingerprintFormat,
      validateFiniteInRange (re_confidence p) ''confidence'',
      validateFiniteInRange (cb_sourceReliability (re_confidenceBreakdown p)) ''sourceReliability'',
      validateFiniteInRange (cb_extractionConfidence (re_confidenceBreakdown p)) ''extractionConfidence'',
      validateFiniteInRange (cb_corroboration (re_confidenceBreakdown p)) ''corroboration'',
      reject_if (re_observedAt p = [] \<or> \<not> parses (re_observedAt p)) EV_observedAt,
      reject_if (re_freshnessExpiry p = [] \<or> \<not> parses (re_freshnessExpiry p)) EV_freshnessExpiry]"

definition re_construct :: "(string \<Rightarrow> bool) \<Rightarrow> research_evidence \<Rightarrow> evidence_error + research_evidence" where
  "re_construct parses p = (case first_error (re_checks parses p) of Some e \<Rightarrow> Inl e | None \<Rightarrow> Inr p)"

definition re_isFresh :: "string \<Rightarrow> research_evidence \<Rightarrow> bool" where
  "re_isFresh now e = js_str_lt now (re_freshnessExpiry e)"

lemma first_error_None: "first_error cs = None \<longleftrightarrow> list_all (\<lambda>c. c = None) cs"
  by (induction cs rule: first_error.induct) auto

lemma reject_if_None [simp]: "reject_if b e = None \<longleftrightarrow> \<not> b"
  by (simp add: reject_if_def)

lemma js_str_lt_irrefl: "\<not> js_str_lt s s"
  by (induction s) auto

lemma js_str_lt_Nil [simp]: "\<not> js_str_lt s []"
  by (cases s) auto

lemma js_str_lt_trans: "js_str_lt a b \<Longrightarrow> js_str_lt b c \<Longrightarrow> js_str_lt a c"
proof (induction a b arbitrary: c rule: js_str_lt.induct)
  case (1 t)
  then show ?case by (cases c) auto
next
  case (3 x s y t)
  then show ?case by (cases c) auto
qed auto

end
