(* ===== verification/Scoring.thy ===== *)
theory Scoring
  imports Leads IcpProfiles
begin

section \<open>Scoring of leads\<close>

text \<open>
  \<open>packages/intelligence/src/services/scoring.ts\<close>: the match of an account with a profile, the score of its
  signals, the confidence of its evidence and the score of a lead. Numbers are exact. The text of a number
  inside a reason is the argument \<open>numText\<close>.
\<close>

fun js_div :: "jsnum \<Rightarrow> jsnum \<Rightarrow> jsnum" where
  "js_div (Fin a) (Fin b) = (if b = 0 then js_inf_of_sign a PosInf else Fin (a / b))"
| "js_div NaN _ = NaN"
| "js_div _ NaN = NaN"
| "js_div (Fin a) _ = Fin 0"
| "js_div i (Fin b) = (if b < 0 then js_neg i else i)"
| "js_div _ _ = NaN"

text \<open>\<open>Math.round\<close> rounds halves up.\<close>

fun js_round :: "jsnum \<Rightarrow> jsnum" where
  "js_round (Fin a) = Fin (of_int \<lfloor>a + 1/2\<rfloor>)"
| "js_round x = x"

definition round2 :: "jsnum \<Rightarrow> jsnum" where
  "round2 x = js_div (js_round (js_mul x (Fin 100))) (Fin 100)"

subsection \<open>The match with a profile\<close>

record icp_score =
  is_score :: jsnum
  is_passed :: bool
  is_reasons :: "string list"

definition criterionMatches :: "soft_criterion \<Rightarrow> account \<Rightarrow> bool" where
  "criterionMatches criterion a =
     (let term = js_lower (cr_criterion criterion);
          stack = list_ex (\<lambda>t. js_includes term (js_lower t)) (ac_techStack a)
      in if js_includes term ''tech'' \<or> js_includes term ''stack'' then stack
         else if js_includes term ''growth'' \<and> js_lt (Fin 50) (nullish (ac_employeeCount a) NaN) then True
         else if js_includes term ''dynamics'' \<or> js_includes term ''erp'' then stack
         else False)"

definition named :: "string list option \<Rightarrow> string list option" where
  "named xs = (if nullish xs [] = [] then None else xs)"

definition not_in :: "string \<Rightarrow> string \<Rightarrow> string list \<Rightarrow> string" where
  "not_in what v xs = what @ '' '' @ v @ '' not in '' @ js_join '', '' xs"

definition hard_reason :: "(jsnum \<Rightarrow> string) \<Rightarrow> account \<Rightarrow> hard_filter \<Rightarrow> string option" where
  "hard_reason numText a hard =
     (let industry = nullish (ac_industry a) ''undefined''; count = nullish (ac_employeeCount a) NaN
      in if (case named (hd_industries hard) of Some xs \<Rightarrow> \<not> truthy (ac_industry a) \<or> industry \<notin> set xs | None \<Rightarrow> False)
         then Some (not_in ''Industry'' industry (nullish (hd_industries hard) []))
         else if (case named (hd_territories hard) of Some xs \<Rightarrow> \<not> list_ex (\<lambda>t. t \<in> set xs) (ac_territories a) | None \<Rightarrow> False)
         then Some (not_in ''Territory'' (js_join '', '' (ac_territories a)) (nullish (hd_territories hard) []))
         else if hd_minEmployees hard \<noteq> None \<and> ac_employeeCount a \<noteq> None \<and> js_lt count (nullish (hd_minEmployees hard) NaN)
         then Some (''Employee count '' @ numText count @ '' below minimum '' @ numText (nullish (hd_minEmployees hard) NaN))
         else if hd_maxEmployees hard \<noteq> None \<and> ac_employeeCount a \<noteq> None \<and> js_lt (nullish (hd_maxEmployees hard) NaN) count
         then Some (''Employee count '' @ numText count @ '' above maximum '' @ numText (nullish (hd_maxEmployees hard) NaN))
         else None)"

definition soft_sums :: "account \<Rightarrow> soft_criterion list \<Rightarrow> jsnum \<times> jsnum" where
  "soft_sums a cs =
     fold (\<lambda>c (weight, score). (js_add weight (cr_weight c), if criterionMatches c a then js_add score (cr_weight c) else score))
       cs (Fin 0, Fin 0)"

definition soft_score :: "account \<Rightarrow> soft_criterion list \<Rightarrow> jsnum" where
  "soft_score a cs =
     (let (softWeight, softScore) = soft_sums a cs;
          normalizedSoft = (if js_lt (Fin 0) softWeight then js_div softScore softWeight else Fin (1/2))
      in js_min (Fin (95/100)) (round2 (js_add (Fin (6/10)) (js_mul normalizedSoft (Fin (35/100))))))"

definition match_reasons :: "(jsnum \<Rightarrow> string) \<Rightarrow> account \<Rightarrow> icp_profile \<Rightarrow> string list" where
  "match_reasons numText a p =
     (if named (hd_industries (ip_hardFilters p)) = None then [] else [''Industry '' @ nullish (ac_industry a) [] @ '' matches ICP''])
     @ (if named (hd_territories (ip_hardFilters p)) = None then [] else [''Territory matches ICP''])
     @ map (\<lambda>c. ''Soft criterion \"'' @ cr_criterion c @ ''\" matched (+'' @ numText (cr_weight c) @ '')'')
         (filter (\<lambda>c. criterionMatches c a) (ip_softCriteria p))"

definition icp_score :: "(jsnum \<Rightarrow> string) \<Rightarrow> account \<Rightarrow> icp_profile \<Rightarrow> icp_score" where
  "icp_score numText a p =
     (case hard_reason numText a (ip_hardFilters p) of
        Some reason \<Rightarrow> \<lparr>is_score = Fin 0, is_passed = False, is_reasons = [reason]\<rparr>
      | None \<Rightarrow> \<lparr>is_score = soft_score a (ip_softCriteria p), is_passed = True, is_reasons = match_reasons numText a p\<rparr>)"

subsection \<open>Signals, evidence and the lead\<close>

text \<open>A scored signal: relevance, confidence and the optional weight of its age.\<close>

definition signal_score :: "(jsnum \<times> jsnum \<times> jsnum option) list \<Rightarrow> jsnum" where
  "signal_score signals =
     (if signals = [] then Fin 0
      else let (total, weightSum) =
             fold (\<lambda>(relevance, confidence, recencyWeight) (total, weightSum).
                let recency = nullish recencyWeight (Fin 1)
                in (js_add total (js_mul (js_mul relevance confidence) recency), js_add weightSum recency))
               signals (Fin 0, Fin 0)
           in js_min (Fin 1) (round2 (if js_lt (Fin 0) weightSum then js_div total weightSum else Fin 0)))"

definition computeEvidenceConfidence :: "(jsnum \<times> bool) list \<Rightarrow> jsnum" where
  "computeEvidenceConfidence evidence =
     (if evidence = [] then Fin 0
      else let values = map (\<lambda>(confidence, fresh). js_mul confidence (if fresh then Fin 1 else Fin (7/10))) evidence;
               avg = js_div (fold (\<lambda>b a. js_add a b) values (Fin 0)) (Fin (of_nat (length values)))
           in js_min (Fin 1) (round2 avg))"

definition lead_score :: "jsnum \<Rightarrow> jsnum \<Rightarrow> jsnum \<Rightarrow> scoring_weights \<Rightarrow> lead_scores" where
  "lead_score icpMatch signalScore evidenceConfidence w =
     (let intentScore = js_min (Fin 1) (js_div (js_add icpMatch signalScore) (Fin 2));
          overall = js_add (js_add (js_add (js_mul (sw_icpMatch w) icpMatch) (js_mul (sw_signal w) signalScore))
                      (js_mul (sw_intent w) intentScore)) (js_mul (sw_evidenceConfidence w) evidenceConfidence)
      in \<lparr>sc_icpMatch = icpMatch, sc_signalScore = signalScore, sc_intentScore = round2 intentScore,
          sc_evidenceConfidence = evidenceConfidence, sc_overall = js_min (Fin 1) (round2 overall)\<rparr>)"

subsection \<open>The scores stay in range\<close>

definition in_unit :: "jsnum \<Rightarrow> bool" where
  "in_unit v \<longleftrightarrow> (\<exists>r. v = Fin r \<and> 0 \<le> r \<and> r \<le> 1)"

definition non_negative :: "jsnum \<Rightarrow> bool" where
  "non_negative v \<longleftrightarrow> (\<exists>r. v = Fin r \<and> 0 \<le> r)"

lemma range_Fin [simp]: "in_unit (Fin r) \<longleftrightarrow> 0 \<le> r \<and> r \<le> 1" "non_negative (Fin r) \<longleftrightarrow> 0 \<le> r"
  by (simp_all add: in_unit_def non_negative_def)

lemma in_unit_non_negative: "in_unit v \<Longrightarrow> non_negative v"
  by (auto simp: in_unit_def non_negative_def)

lemma non_negative_ops:
  "non_negative v \<Longrightarrow> non_negative w \<Longrightarrow> non_negative (js_add v w)"
  "non_negative v \<Longrightarrow> non_negative w \<Longrightarrow> non_negative (js_mul v w)"
  by (auto simp: non_negative_def)

lemma in_unit_mul: "in_unit v \<Longrightarrow> in_unit w \<Longrightarrow> in_unit (js_mul v w)"
  by (auto simp: in_unit_def intro: mult_le_one)

lemma round2_Fin: "round2 (Fin a) = Fin (of_int \<lfloor>a * 100 + 1/2\<rfloor> / 100)"
  by (simp add: round2_def)

lemma round2_non_negative: "non_negative v \<Longrightarrow> non_negative (round2 v)"
proof -
  assume "non_negative v"
  then obtain r where "v = Fin r" "0 \<le> r" by (auto simp: non_negative_def)
  then show ?thesis by (simp add: round2_Fin)
qed

lemma round2_unit: "in_unit v \<Longrightarrow> in_unit (round2 v)"
proof -
  assume "in_unit v"
  then obtain r where r: "v = Fin r" "0 \<le> r" "r \<le> 1" by (auto simp: in_unit_def)
  have "\<lfloor>r * 100 + 1/2\<rfloor> \<le> 100" "0 \<le> \<lfloor>r * 100 + 1/2\<rfloor>" using r by (simp_all add: floor_le_iff le_floor_iff)
  then have "(of_int \<lfloor>r * 100 + 1/2\<rfloor> :: rat) \<le> 100" "0 \<le> (of_int \<lfloor>r * 100 + 1/2\<rfloor> :: rat)" by simp_all
  then show ?thesis using r(1) by (simp add: round2_Fin)
qed

lemma min_unit: "in_unit v \<Longrightarrow> non_negative w \<Longrightarrow> in_unit (js_min v w)"
  by (auto simp: in_unit_def non_negative_def js_min_def)

lemma soft_sums_le:
  assumes "list_all (\<lambda>c. non_negative (cr_weight c)) cs" and "0 \<le> s" and "s \<le> w"
  shows "\<exists>w' s'. fold (\<lambda>c (weight, score). (js_add weight (cr_weight c), if criterionMatches c a then js_add score (cr_weight c) else score))
    cs (Fin w, Fin s) = (Fin w', Fin s') \<and> 0 \<le> s' \<and> s' \<le> w'"
  using assms
proof (induction cs arbitrary: w s)
  case (Cons c cs)
  then obtain r where r: "cr_weight c = Fin r" "0 \<le> r" by (auto simp: non_negative_def)
  show ?case
    using Cons.IH [of "if criterionMatches c a then s + r else s" "w + r"] Cons.prems r by (auto split: if_splits)
qed simp

lemma soft_score_range:
  assumes "list_all (\<lambda>c. non_negative (cr_weight c)) cs"
  shows "in_unit (soft_score a cs)"
proof -
  obtain w s where ws: "soft_sums a cs = (Fin w, Fin s)" "0 \<le> s" "s \<le> w"
    using soft_sums_le [OF assms, of 0 0 a] by (auto simp: soft_sums_def)
  have "in_unit (if js_lt (Fin 0) (Fin w) then js_div (Fin s) (Fin w) else Fin (1/2))"
    using ws by auto
  then have "non_negative (js_add (Fin (6/10)) (js_mul (if js_lt (Fin 0) (Fin w) then js_div (Fin s) (Fin w) else Fin (1/2)) (Fin (35/100))))"
    by (intro non_negative_ops in_unit_non_negative) simp_all
  then show ?thesis
    by (auto simp: soft_score_def ws(1) Let_def intro!: min_unit round2_non_negative)
qed

lemma icp_score_range:
  assumes "list_all (\<lambda>c. non_negative (cr_weight c)) (ip_softCriteria p)"
  shows "in_unit (is_score (icp_score numText a p))"
  using soft_score_range [OF assms] by (simp add: icp_score_def in_unit_def split: option.split)

lemma signal_sums_le:
  assumes "list_all (\<lambda>(r, c, w). in_unit r \<and> in_unit c \<and> non_negative (nullish w (Fin 1))) signals" and "0 \<le> t" and "t \<le> w"
  shows "\<exists>t' w'. fold (\<lambda>(relevance, confidence, recencyWeight) (total, weightSum).
      let recency = nullish recencyWeight (Fin 1)
      in (js_add total (js_mul (js_mul relevance confidence) recency), js_add weightSum recency)) signals (Fin t, Fin w)
    = (Fin t', Fin w') \<and> 0 \<le> t' \<and> t' \<le> w'"
  using assms
proof (induction signals arbitrary: t w)
  case (Cons x signals)
  obtain r c k where x: "x = (r, c, k)" by (cases x)
  then have "in_unit (js_mul r c)" "non_negative (nullish k (Fin 1))" using Cons.prems(1) by (auto intro: in_unit_mul)
  then obtain v n where v: "js_mul r c = Fin v" "0 \<le> v" "v \<le> 1" and n: "nullish k (Fin 1) = Fin n" "0 \<le> n"
    by (auto simp: in_unit_def non_negative_def)
  have le: "v * n \<le> n" using v n by (simp add: mult_left_le_one_le)
  show ?case
    using Cons.IH [of "t + v * n" "w + n"] Cons.prems v n le by (simp add: x Let_def)
qed simp

lemma signal_score_range:
  assumes "list_all (\<lambda>(r, c, w). in_unit r \<and> in_unit c \<and> non_negative (nullish w (Fin 1))) signals"
  shows "in_unit (signal_score signals)"
proof (cases "signals = []")
  case True
  then show ?thesis by (simp add: signal_score_def in_unit_def)
next
  case False
  obtain t w where tw: "fold (\<lambda>(relevance, confidence, recencyWeight) (total, weightSum).
      let recency = nullish recencyWeight (Fin 1)
      in (js_add total (js_mul (js_mul relevance confidence) recency), js_add weightSum recency)) signals (Fin 0, Fin 0)
    = (Fin t, Fin w)" "0 \<le> t" "t \<le> w"
    using signal_sums_le [OF assms, of 0 0] by auto
  have "in_unit (if js_lt (Fin 0) (Fin w) then js_div (Fin t) (Fin w) else Fin 0)" using tw(2,3) by auto
  then have "in_unit (js_min (Fin 1) (round2 (if js_lt (Fin 0) (Fin w) then js_div (Fin t) (Fin w) else Fin 0)))"
    by (intro min_unit in_unit_non_negative [OF round2_unit]) simp_all
  then show ?thesis using False tw(1) by (simp add: signal_score_def)
qed

lemma evidence_confidence_range:
  assumes "list_all (\<lambda>(c, fresh). in_unit c) evidence"
  shows "in_unit (computeEvidenceConfidence evidence)"
proof (cases "evidence = []")
  case True
  then show ?thesis by (simp add: computeEvidenceConfidence_def in_unit_def)
next
  case False
  let ?vals = "map (\<lambda>(c, fresh). js_mul c (if fresh then Fin 1 else Fin (7/10))) evidence"
  have sum: "non_negative (fold (\<lambda>b a. js_add a b) vs v)" if "list_all non_negative vs" "non_negative v" for vs v
    using that by (induction vs arbitrary: v) (auto intro: non_negative_ops)
  have "list_all non_negative ?vals"
    using assms by (auto simp: list_all_iff intro!: non_negative_ops dest!: bspec in_unit_non_negative split: prod.splits)
  then obtain s where s: "fold (\<lambda>b a. js_add a b) ?vals (Fin 0) = Fin s" "0 \<le> s"
    using sum [of ?vals "Fin 0"] by (auto simp: non_negative_def)
  have "non_negative (js_div (fold (\<lambda>b a. js_add a b) ?vals (Fin 0)) (Fin (of_nat (length ?vals))))"
    using s False by (simp add: non_negative_def)
  then show ?thesis using False
    by (auto simp: computeEvidenceConfidence_def Let_def intro!: min_unit round2_non_negative)
qed

definition weights_non_negative :: "scoring_weights \<Rightarrow> bool" where
  "weights_non_negative w \<longleftrightarrow> non_negative (sw_icpMatch w) \<and> non_negative (sw_signal w) \<and> non_negative (sw_intent w)
     \<and> non_negative (sw_evidenceConfidence w)"

lemma intent_unit: "in_unit a \<Longrightarrow> in_unit b \<Longrightarrow> in_unit (js_min (Fin 1) (js_div (js_add a b) (Fin 2)))"
  by (auto simp: in_unit_def intro!: min_unit [unfolded in_unit_def])

lemma lead_scores_unit:
  assumes "weights_non_negative (ip_scoringWeights p)"
    and "list_all (\<lambda>c. non_negative (cr_weight c)) (ip_softCriteria p)"
    and "list_all (\<lambda>(r, c, w). in_unit r \<and> in_unit c \<and> non_negative (nullish w (Fin 1))) signals"
    and "list_all (\<lambda>(c, fresh). in_unit c) evidence"
  shows "list_all (\<lambda>(key, v). in_unit v)
    (score_components (lead_score (is_score (icp_score numText a p)) (signal_score signals) (computeEvidenceConfidence evidence)
       (ip_scoringWeights p)))"
proof -
  let ?i = "is_score (icp_score numText a p)" and ?s = "signal_score signals" and ?e = "computeEvidenceConfidence evidence"
  let ?n = "js_min (Fin 1) (js_div (js_add ?i ?s) (Fin 2))"
  note range = icp_score_range [OF assms(2), of numText a] signal_score_range [OF assms(3)] evidence_confidence_range [OF assms(4)]
  have intent: "in_unit ?n" using range by (intro intent_unit)
  have "non_negative (js_add (js_add (js_add (js_mul (sw_icpMatch (ip_scoringWeights p)) ?i) (js_mul (sw_signal (ip_scoringWeights p)) ?s))
      (js_mul (sw_intent (ip_scoringWeights p)) ?n)) (js_mul (sw_evidenceConfidence (ip_scoringWeights p)) ?e))"
    using assms(1) range [THEN in_unit_non_negative] intent [THEN in_unit_non_negative]
    by (intro non_negative_ops) (simp_all add: weights_non_negative_def)
  then have "in_unit (sc_overall (lead_score ?i ?s ?e (ip_scoringWeights p)))"
    by (auto simp: lead_score_def Let_def intro!: min_unit round2_non_negative)
  then show ?thesis using range round2_unit [OF intent] by (simp add: score_components_def lead_score_def Let_def)
qed

text \<open>
  With weights that are not negative, and signals and evidence whose confidence and relevance lie
  between 0 and 1, every component of the score of a lead and the overall score lie between 0 and 1; so
  the evaluation of the lead is never refused because of its scores.
\<close>

theorem research_scores_in_range:
  assumes "weights_non_negative (ip_scoringWeights p)"
    and "list_all (\<lambda>c. non_negative (cr_weight c)) (ip_softCriteria p)"
    and "list_all (\<lambda>(r, c, w). in_unit r \<and> in_unit c \<and> non_negative (nullish w (Fin 1))) signals"
    and "list_all (\<lambda>(c, fresh). in_unit c) evidence"
  shows "list_all (\<lambda>(key, v). in_unit v)
    (score_components (lead_score (is_score (icp_score numText a p)) (signal_score signals) (computeEvidenceConfidence evidence)
       (ip_scoringWeights p)))"
  by (rule lead_scores_unit [OF assms])

definition sample_account :: account where
  "sample_account = ac_construct 1
     \<lparr>ap_id = ''a'', ap_tenantId = ''t'', ap_workspaceId = ''w'', ap_name = ''Acme'', ap_domain = Some ''acme.io'', ap_normalizedDomain = None,
      ap_aliases = None, ap_industry = Some ''Retail'', ap_geography = None, ap_companySizeBand = None, ap_employeeCount = Some (Fin 80),
      ap_annualRevenueUsd = None, ap_territories = None, ap_techStack = None, ap_enrichmentState = None, ap_status = None,
      ap_duplicateOf = None, ap_evidenceReferences = None, ap_accountVersion = None, ap_createdAt = None, ap_updatedAt = None\<rparr>"

theorem research_scores_in_range_witness:
  "list_all (\<lambda>(key, v). in_unit v)
    (score_components (lead_score (is_score (icp_score (\<lambda>n. ''0'') sample_account sample_icp)) (signal_score [(Fin 1, Fin (1/2), None)])
       (computeEvidenceConfidence [(Fin (4/5), True), (Fin (3/5), False)]) (ip_scoringWeights sample_icp)))"
proof (rule research_scores_in_range)
  show "weights_non_negative (ip_scoringWeights sample_icp)"
    by (simp add: weights_non_negative_def sample_icp_def sample_icp_props_def ip_construct_def)
  show "list_all (\<lambda>c. non_negative (cr_weight c)) (ip_softCriteria sample_icp)"
    by (simp add: sample_icp_def sample_icp_props_def ip_construct_def)
qed simp_all

end
