(* ===== verification/IntelligenceStores.thy ===== *)
theory IntelligenceStores
  imports Contacts Signals Leads IcpProfiles ResearchRecords
begin

section \<open>The tables of the intelligence domain\<close>

text \<open>
  The Postgres repositories of accounts, contacts, leads, signals, research records and the research cache
  (\<open>packages/intelligence/src/infrastructure\<close>, and \<open>postgres-lead-repository.ts\<close> of
  \<open>packages/conversation\<close>), on tables with the unique keys and checks of the migrations 025 to 033. A row is
  the aggregate as it is loaded: without events, its version that of the row. Row level security, foreign
  keys and the bounds of integer columns are left out; an operation is one step.
\<close>

datatype store_error =
    ST_tenant | ST_workspace | ST_conflict | ST_duplicate string | ST_persistence | ST_rehydrate | ST_invalidDate

subsection \<open>What the repositories of aggregates share\<close>

definition ag_stored :: "nat \<Rightarrow> ('e, 'a) aggregate_root_scheme \<Rightarrow> ('e, 'a) aggregate_root_scheme" where
  "ag_stored v a = clearDomainEvents (setVersion v a)"

definition ag_find :: "(('e, 'a) aggregate_root_scheme \<Rightarrow> bool) \<Rightarrow> string \<Rightarrow> ('e, 'a) aggregate_root_scheme list
    \<Rightarrow> ('e, 'a) aggregate_root_scheme option" where
  "ag_find mine i rows = List.find (\<lambda>r. mine r \<and> aggId r = i) rows"

text \<open>
  \<open>save\<close> after its ownership checks: an \<open>INSERT\<close> of an aggregate that was never loaded, otherwise an
  \<open>UPDATE\<close> of the row with the loaded version. \<open>clash a r\<close> is the unique key that the rows \<open>a\<close> and \<open>r\<close>
  would share, \<open>valid a\<close> the checks of the columns, \<open>merge r a\<close> the row after the update.
\<close>

definition ag_save ::
    "(('e, 'a) aggregate_root_scheme \<Rightarrow> bool) \<Rightarrow> (('e, 'a) aggregate_root_scheme \<Rightarrow> bool)
     \<Rightarrow> (('e, 'a) aggregate_root_scheme \<Rightarrow> ('e, 'a) aggregate_root_scheme \<Rightarrow> store_error option)
     \<Rightarrow> (('e, 'a) aggregate_root_scheme \<Rightarrow> bool)
     \<Rightarrow> (('e, 'a) aggregate_root_scheme \<Rightarrow> ('e, 'a) aggregate_root_scheme \<Rightarrow> ('e, 'a) aggregate_root_scheme)
     \<Rightarrow> nat \<Rightarrow> ('e, 'a) aggregate_root_scheme \<Rightarrow> ('e, 'a) aggregate_root_scheme list
     \<Rightarrow> store_error + ('e, 'a) aggregate_root_scheme \<times> ('e, 'a) aggregate_root_scheme list" where
  "ag_save mine same clash valid merge v a rows =
     (case loadedVersion a of
        None \<Rightarrow>
          if \<not> valid a then Inl ST_persistence
          else (case first_error (map (clash a) rows) of
                  Some e \<Rightarrow> Inl e
                | None \<Rightarrow> Inr (setVersion v a, rows @ [ag_stored v a]))
      | Some l \<Rightarrow>
          let target = (\<lambda>r. mine r \<and> same r \<and> version r = l)
          in if \<not> list_ex target rows then Inl ST_conflict
             else if \<not> valid a then Inl ST_persistence
             else (case first_error (map (clash a) (filter (\<lambda>r. \<not> target r) rows)) of
                     Some e \<Rightarrow> Inl e
                   | None \<Rightarrow> Inr (setVersion v a, map (\<lambda>r. if target r then merge r (ag_stored v a) else r) rows)))"

text \<open>The checks of tenant and workspace.\<close>

definition owned :: "string \<Rightarrow> string \<Rightarrow> string \<Rightarrow> string \<Rightarrow> (store_error + 'r) \<Rightarrow> store_error + 'r" where
  "owned ctxTenant ctxWorkspace tenant workspace r =
     (if ctxTenant \<noteq> tenant then Inl ST_tenant else if ctxWorkspace \<noteq> workspace then Inl ST_workspace else r)"

definition same_some :: "'k option \<Rightarrow> 'k option \<Rightarrow> bool" where
  "same_some x y \<longleftrightarrow> x \<noteq> None \<and> x = y"

subsection \<open>Accounts\<close>

definition acc_version :: "account \<Rightarrow> nat" where
  "acc_version a = nat (nullish (integer_value (ac_accountVersion a)) 0)"

definition acc_mine :: "string \<Rightarrow> string \<Rightarrow> account \<Rightarrow> bool" where
  "acc_mine tenant ws r \<longleftrightarrow> tenantId r = tenant \<and> ac_workspaceId r = ws"

text \<open>Reading a number that is not finite or too large throws.\<close>

fun toOptionalNumber :: "jsnum option \<Rightarrow> bool" where
  "toOptionalNumber None = True"
| "toOptionalNumber (Some (Fin r)) = (\<bar>r\<bar> \<le> 9007199254740991)"
| "toOptionalNumber (Some v) = False"

definition rowToAccount :: "account \<Rightarrow> store_error + account" where
  "rowToAccount r =
     (if toOptionalNumber (ac_employeeCount r) \<and> toOptionalNumber (ac_annualRevenueUsd r) then Inr r else Inl ST_rehydrate)"

definition acc_findById :: "string \<Rightarrow> string \<Rightarrow> string \<Rightarrow> account list \<Rightarrow> store_error + account option" where
  "acc_findById tenant ws i rows =
     (case ag_find (acc_mine tenant ws) i rows of
        None \<Rightarrow> Inr None
      | Some r \<Rightarrow> map_sum id Some (rowToAccount r))"

fun all_or_error :: "('e + 'a) list \<Rightarrow> 'e + 'a list" where
  "all_or_error [] = Inr []"
| "all_or_error (Inl e # rs) = Inl e"
| "all_or_error (Inr a # rs) = map_sum id (\<lambda>as. a # as) (all_or_error rs)"

definition acc_findQualified :: "string \<Rightarrow> string \<Rightarrow> account list \<Rightarrow> store_error + account list" where
  "acc_findQualified tenant ws rows =
     all_or_error (map rowToAccount (filter (\<lambda>r. acc_mine tenant ws r \<and> ac_status r = AC_QUALIFIED) rows))"

definition acc_clash :: "account \<Rightarrow> account \<Rightarrow> store_error option" where
  "acc_clash a r =
     (if aggId r = aggId a then Some ST_conflict
      else if acc_mine (tenantId a) (ac_workspaceId a) r \<and> same_some (ac_normalizedDomain a) (ac_normalizedDomain r)
      then Some (ST_duplicate ''normalized_domain'') else None)"

definition acc_valid :: "account \<Rightarrow> bool" where
  "acc_valid a \<longleftrightarrow> (case ac_employeeCount a of None \<Rightarrow> True | Some v \<Rightarrow> js_isInteger v)
     \<and> js_isInteger (ac_accountVersion a) \<and> js_le (Fin 1) (ac_accountVersion a)"

definition acc_save :: "string \<Rightarrow> string \<Rightarrow> account \<Rightarrow> account list \<Rightarrow> store_error + account \<times> account list" where
  "acc_save tenant ws a rows =
     owned tenant ws (tenantId a) (ac_workspaceId a)
       (ag_save (acc_mine tenant ws) (\<lambda>r. aggId r = aggId a) acc_clash acc_valid
          (\<lambda>r b. b\<lparr>ac_createdAt := ac_createdAt r\<rparr>) (acc_version a) a rows)"

subsection \<open>Contacts\<close>

definition con_mine :: "string \<Rightarrow> string \<Rightarrow> contact \<Rightarrow> bool" where
  "con_mine tenant ws r \<longleftrightarrow> tenantId r = tenant \<and> ct_workspaceId r = ws"

definition con_findById :: "string \<Rightarrow> string \<Rightarrow> string \<Rightarrow> contact list \<Rightarrow> contact option" where
  "con_findById tenant ws i rows = ag_find (con_mine tenant ws) i rows"

definition con_findByAccount :: "string \<Rightarrow> string \<Rightarrow> string \<Rightarrow> contact list \<Rightarrow> contact list" where
  "con_findByAccount tenant ws i rows = filter (\<lambda>r. con_mine tenant ws r \<and> ct_accountId r = i) rows"

definition con_clash :: "contact \<Rightarrow> contact \<Rightarrow> store_error option" where
  "con_clash c r =
     (let beside = con_mine (tenantId c) (ct_workspaceId c) r \<and> ct_accountId r = ct_accountId c
      in if aggId r = aggId c then Some ST_conflict
         else if beside \<and> same_some (ct_emailFingerprint c) (ct_emailFingerprint r) then Some (ST_duplicate ''email_fingerprint'')
         else if beside \<and> same_some (ct_phoneFingerprint c) (ct_phoneFingerprint r) then Some (ST_duplicate ''phone_fingerprint'')
         else None)"

definition con_save :: "string \<Rightarrow> string \<Rightarrow> contact \<Rightarrow> contact list \<Rightarrow> store_error + contact \<times> contact list" where
  "con_save tenant ws c rows =
     owned tenant ws (tenantId c) (ct_workspaceId c)
       (ag_save (con_mine tenant ws) (\<lambda>r. aggId r = aggId c) con_clash (\<lambda>c. 1 \<le> version c)
          (\<lambda>r d. d\<lparr>ct_accountId := ct_accountId r, ct_createdAt := ct_createdAt r\<rparr>) (version c) c rows)"

subsection \<open>Leads\<close>

definition lead_mine :: "string \<Rightarrow> string \<Rightarrow> lead \<Rightarrow> bool" where
  "lead_mine tenant ws r \<longleftrightarrow> tenantId r = tenant \<and> ld_workspaceId r = ws"

definition lead_load :: "string \<Rightarrow> string \<Rightarrow> lead list \<Rightarrow> lead option" where
  "lead_load tenant i rows = ag_find (\<lambda>r. tenantId r = tenant) i rows"

definition lead_findById :: "string \<Rightarrow> string \<Rightarrow> string \<Rightarrow> lead list \<Rightarrow> lead option" where
  "lead_findById tenant ws i rows = ag_find (lead_mine tenant ws) i rows"

definition lead_findByMission :: "string \<Rightarrow> string \<Rightarrow> string \<Rightarrow> lead list \<Rightarrow> lead list" where
  "lead_findByMission tenant ws mission rows = filter (\<lambda>r. lead_mine tenant ws r \<and> ld_missionId r = Some mission) rows"

definition lead_findQualified :: "string \<Rightarrow> string \<Rightarrow> lead list \<Rightarrow> lead list" where
  "lead_findQualified tenant ws rows = filter (\<lambda>r. lead_mine tenant ws r \<and> ld_status r = LD_QUALIFIED) rows"

definition lead_clash :: "lead \<Rightarrow> lead \<Rightarrow> store_error option" where
  "lead_clash l r = (if tenantId r = tenantId l \<and> aggId r = aggId l then Some ST_conflict else None)"

definition lead_save :: "string \<Rightarrow> lead \<Rightarrow> lead list \<Rightarrow> store_error + lead \<times> lead list" where
  "lead_save tenant l rows =
     (if tenant \<noteq> tenantId l then Inl ST_tenant
      else ag_save (\<lambda>r. tenantId r = tenant) (\<lambda>r. aggId r = aggId l) lead_clash (\<lambda>l. True)
             (\<lambda>r b. b\<lparr>ld_workspaceId := ld_workspaceId r, ld_createdAt := ld_createdAt r\<rparr>) (version l) l rows)"

subsection \<open>Signals\<close>

definition sig_mine :: "string \<Rightarrow> string \<Rightarrow> signal \<Rightarrow> bool" where
  "sig_mine tenant ws r \<longleftrightarrow> tenantId r = tenant \<and> sg_workspaceId r = ws"

definition sig_findById :: "string \<Rightarrow> string \<Rightarrow> string \<Rightarrow> signal list \<Rightarrow> signal option" where
  "sig_findById tenant ws i rows = ag_find (sig_mine tenant ws) i rows"

definition sig_findByDedupIdentity :: "string \<Rightarrow> string \<Rightarrow> string \<Rightarrow> signal list \<Rightarrow> signal option" where
  "sig_findByDedupIdentity tenant ws d rows = List.find (\<lambda>r. sig_mine tenant ws r \<and> sg_dedupIdentity r = d) rows"

definition sig_findActiveByAccount ::
    "string \<Rightarrow> string \<Rightarrow> string \<Rightarrow> int option \<Rightarrow> signal list \<Rightarrow> store_error + signal list" where
  "sig_findActiveByAccount tenant ws account evaluatedAt rows =
     (case evaluatedAt of
        None \<Rightarrow> Inl ST_invalidDate
      | Some t \<Rightarrow> Inr (filter (\<lambda>r. sig_mine tenant ws r \<and> sg_accountId r = account \<and> sg_status r = SG_ACTIVE
            \<and> (case sg_effectiveFrom r of Some start \<Rightarrow> start \<le> t | None \<Rightarrow> False)
            \<and> (case sg_effectiveUntil r of Some stop \<Rightarrow> t < stop | None \<Rightarrow> False)) rows))"

definition sig_clash :: "signal \<Rightarrow> signal \<Rightarrow> store_error option" where
  "sig_clash s r =
     (if aggId r = aggId s then Some ST_conflict
      else if sig_mine (tenantId s) (sg_workspaceId s) r \<and> sg_dedupIdentity r = sg_dedupIdentity s
      then Some (ST_duplicate ''dedup_identity'') else None)"

definition sig_valid :: "signal \<Rightarrow> bool" where
  "sig_valid s \<longleftrightarrow> sg_signalType s \<in> set SIGNAL_CATEGORIES \<and> sg_observedAt s \<noteq> None
     \<and> (case (sg_effectiveFrom s, sg_effectiveUntil s) of (Some start, Some stop) \<Rightarrow> start < stop | _ \<Rightarrow> False)
     \<and> sg_source s \<noteq> [] \<and> length (sg_source s) \<le> 512 \<and> length (nullish (sg_sourceUri s) []) \<le> 2048
     \<and> unit_range (sg_confidence s) \<and> unit_range (sg_relevance s)
     \<and> sg_observedSignal s \<noteq> [] \<and> length (sg_observedSignal s) \<le> 4096
     \<and> sg_interpretedSignal s \<noteq> [] \<and> length (sg_interpretedSignal s) \<le> 4096"

text \<open>The update writes the status and the version only, so the checks of the other columns hold as before.\<close>

definition sig_save :: "string \<Rightarrow> string \<Rightarrow> signal \<Rightarrow> signal list \<Rightarrow> store_error + signal \<times> signal list" where
  "sig_save tenant ws s rows =
     owned tenant ws (tenantId s) (sg_workspaceId s)
       (ag_save (sig_mine tenant ws) (\<lambda>r. aggId r = aggId s) (\<lambda>a r. if loadedVersion a = None then sig_clash a r else None)
          (\<lambda>a. loadedVersion a = None \<longrightarrow> sig_valid a)
          (\<lambda>r b. r\<lparr>sg_status := sg_status b, version := version b, loadedVersion := loadedVersion b\<rparr>) (version s) s rows)"

subsection \<open>Requests, runs and evidence\<close>

text \<open>
  A request is inserted once; a run is written over the row of its id in the same workspace, and nothing is
  written when the row belongs to another one; an evidence has a unique id and a unique fingerprint in its
  workspace, and any clash of keys is reported as the one of the fingerprint.
\<close>

definition res_saveRequest :: "string \<Rightarrow> string \<Rightarrow> research_request \<Rightarrow> research_request list \<Rightarrow> store_error + research_request list" where
  "res_saveRequest tenant ws q rows =
     owned tenant ws (rq_tenantId q) (rq_workspaceId q)
       (if list_ex (\<lambda>r. rq_id r = rq_id q) rows then Inl ST_persistence else Inr (rows @ [q]))"

definition res_findRequest ::
    "(string \<Rightarrow> bool) \<Rightarrow> string \<Rightarrow> string \<Rightarrow> string \<Rightarrow> research_request list \<Rightarrow> research_error + research_request option" where
  "res_findRequest parses tenant ws i rows =
     (case List.find (\<lambda>r. rq_tenantId r = tenant \<and> rq_workspaceId r = ws \<and> rq_id r = i) rows of
        None \<Rightarrow> Inr None
      | Some r \<Rightarrow> map_sum id Some (rq_create parses r))"

definition res_saveRun :: "string \<Rightarrow> string \<Rightarrow> research_run \<Rightarrow> research_run list \<Rightarrow> store_error + research_run list" where
  "res_saveRun tenant ws run rows =
     owned tenant ws (rr_tenantId run) (rr_workspaceId run)
       (if list_ex (\<lambda>r. rr_id r = rr_id run) rows
        then Inr (map (\<lambda>r. if rr_id r = rr_id run \<and> rr_tenantId r = tenant \<and> rr_workspaceId r = ws
                           then run\<lparr>rr_requestId := rr_requestId r\<rparr> else r) rows)
        else Inr (rows @ [run]))"

definition res_findRun :: "string \<Rightarrow> string \<Rightarrow> string \<Rightarrow> research_run list \<Rightarrow> research_run option" where
  "res_findRun tenant ws i rows = List.find (\<lambda>r. rr_tenantId r = tenant \<and> rr_workspaceId r = ws \<and> rr_id r = i) rows"

definition ev_mine :: "string \<Rightarrow> string \<Rightarrow> research_evidence \<Rightarrow> bool" where
  "ev_mine tenant ws r \<longleftrightarrow> re_tenantId r = tenant \<and> re_workspaceId r = ws"

definition ev_save :: "string \<Rightarrow> string \<Rightarrow> research_evidence \<Rightarrow> research_evidence list \<Rightarrow> store_error + research_evidence list" where
  "ev_save tenant ws e rows =
     owned tenant ws (re_tenantId e) (re_workspaceId e)
       (if list_ex (\<lambda>r. re_evidenceId r = re_evidenceId e
              \<or> ev_mine tenant ws r \<and> re_evidenceFingerprint r = re_evidenceFingerprint e) rows
        then Inl (ST_duplicate ''evidence_fingerprint'') else Inr (rows @ [e]))"

text \<open>Reading a row builds the record again, with the checks of its constructor.\<close>

definition rowToEvidence :: "(string \<Rightarrow> bool) \<Rightarrow> research_evidence \<Rightarrow> evidence_error + research_evidence" where
  "rowToEvidence parses r = re_construct parses r"

definition ev_findOne ::
    "(string \<Rightarrow> bool) \<Rightarrow> (research_evidence \<Rightarrow> bool) \<Rightarrow> research_evidence list \<Rightarrow> evidence_error + research_evidence option" where
  "ev_findOne parses P rows = (case List.find P rows of None \<Rightarrow> Inr None | Some r \<Rightarrow> map_sum id Some (rowToEvidence parses r))"

definition ev_findById ::
    "(string \<Rightarrow> bool) \<Rightarrow> string \<Rightarrow> string \<Rightarrow> string \<Rightarrow> research_evidence list \<Rightarrow> evidence_error + research_evidence option" where
  "ev_findById parses tenant ws i rows = ev_findOne parses (\<lambda>r. ev_mine tenant ws r \<and> re_evidenceId r = i) rows"

definition ev_findByFingerprint ::
    "(string \<Rightarrow> bool) \<Rightarrow> string \<Rightarrow> string \<Rightarrow> string \<Rightarrow> research_evidence list \<Rightarrow> evidence_error + research_evidence option" where
  "ev_findByFingerprint parses tenant ws f rows =
     ev_findOne parses (\<lambda>r. ev_mine tenant ws r \<and> re_evidenceFingerprint r = f) rows"

definition ev_findMany ::
    "(string \<Rightarrow> bool) \<Rightarrow> (research_evidence \<Rightarrow> bool) \<Rightarrow> research_evidence list \<Rightarrow> evidence_error + research_evidence list" where
  "ev_findMany parses P rows = all_or_error (map (rowToEvidence parses) (filter P rows))"

definition ev_findByAccount ::
    "(string \<Rightarrow> bool) \<Rightarrow> string \<Rightarrow> string \<Rightarrow> string \<Rightarrow> research_evidence list \<Rightarrow> evidence_error + research_evidence list" where
  "ev_findByAccount parses tenant ws a rows = ev_findMany parses (\<lambda>r. ev_mine tenant ws r \<and> re_accountId r = Some a) rows"

definition ev_findByContact ::
    "(string \<Rightarrow> bool) \<Rightarrow> string \<Rightarrow> string \<Rightarrow> string \<Rightarrow> research_evidence list \<Rightarrow> evidence_error + research_evidence list" where
  "ev_findByContact parses tenant ws c rows = ev_findMany parses (\<lambda>r. ev_mine tenant ws r \<and> re_contactId r = Some c) rows"

definition ev_findByMission ::
    "(string \<Rightarrow> bool) \<Rightarrow> string \<Rightarrow> string \<Rightarrow> string \<Rightarrow> research_evidence list \<Rightarrow> evidence_error + research_evidence list" where
  "ev_findByMission parses tenant ws m rows = ev_findMany parses (\<lambda>r. ev_mine tenant ws r \<and> re_missionId r = Some m) rows"

subsection \<open>The research cache\<close>

text \<open>
  \<open>postgres-intelligence-cache.ts\<close>: the primary key is the tenant and the hash, the workspace a column that
  a write overwrites. A value goes through JSON; \<open>via_json\<close> is what comes back.
\<close>

record 'v cache_row =
  kr_tenant :: string
  kr_queryHash :: string
  kr_workspace :: string
  kr_value :: 'v
  kr_providerId :: string
  kr_cachedAt :: int
  kr_expiresAt :: int

definition cache_get :: "int \<Rightarrow> string \<Rightarrow> string \<Rightarrow> string \<Rightarrow> 'v cache_row list \<Rightarrow> 'v cache_row option" where
  "cache_get now tenant ws h rows =
     List.find (\<lambda>r. kr_tenant r = tenant \<and> kr_queryHash r = h \<and> kr_workspace r = ws \<and> now < kr_expiresAt r) rows"

definition cache_set :: "('v \<Rightarrow> 'v) \<Rightarrow> 'v cache_row \<Rightarrow> 'v cache_row list \<Rightarrow> 'v cache_row list" where
  "cache_set via_json e rows =
     (let row = e\<lparr>kr_value := via_json (kr_value e)\<rparr>; same = (\<lambda>r. kr_tenant r = kr_tenant e \<and> kr_queryHash r = kr_queryHash e)
      in if list_ex same rows then map (\<lambda>r. if same r then row else r) rows else rows @ [row])"

definition cache_invalidate :: "(string \<Rightarrow> bool) \<Rightarrow> string \<Rightarrow> string \<Rightarrow> 'v cache_row list \<Rightarrow> 'v cache_row list" where
  "cache_invalidate like tenant ws rows = filter (\<lambda>r. \<not> (kr_tenant r = tenant \<and> kr_workspace r = ws \<and> like (kr_queryHash r))) rows"

text \<open>\<open>in-memory-intelligence-cache.ts\<close>: one text joins the tenant, the key and the workspace.\<close>

definition mem_cache_key :: "string \<Rightarrow> string \<Rightarrow> string \<Rightarrow> string" where
  "mem_cache_key tenant ws k = tenant @ '':'' @ k @ '':'' @ ws"

definition mem_cache_get ::
    "int \<Rightarrow> string \<Rightarrow> string \<Rightarrow> string \<Rightarrow> (string \<times> 'v cache_row) list \<Rightarrow> 'v cache_row option \<times> (string \<times> 'v cache_row) list" where
  "mem_cache_get now tenant ws k m =
     (case map_of m (mem_cache_key tenant ws k) of
        None \<Rightarrow> (None, m)
      | Some e \<Rightarrow> if kr_expiresAt e < now then (None, am_delete (mem_cache_key tenant ws k) m) else (Some e, m))"

definition mem_cache_set :: "string \<Rightarrow> string \<Rightarrow> string \<Rightarrow> 'v cache_row \<Rightarrow> (string \<times> 'v cache_row) list \<Rightarrow> (string \<times> 'v cache_row) list" where
  "mem_cache_set tenant ws k e m = am_set (mem_cache_key tenant ws k) e m"

definition mem_cache_invalidate :: "string \<Rightarrow> string \<Rightarrow> string \<Rightarrow> (string \<times> 'v cache_row) list \<Rightarrow> (string \<times> 'v cache_row) list" where
  "mem_cache_invalidate tenant ws pattern m = filter (\<lambda>(k, e). \<not> js_startsWith k (mem_cache_key tenant ws pattern)) m"

subsection \<open>Quotas of the providers\<close>

text \<open>\<open>in-memory-rate-limit-store.ts\<close>.\<close>

record rate_store =
  rs_usage :: "(string \<times> jsnum) list"
  rs_quota :: "(string \<times> jsnum) list"

definition rate_key :: "string \<Rightarrow> string \<Rightarrow> string" where
  "rate_key tenant provider = tenant @ '':'' @ provider"

definition rl_setQuota :: "string \<Rightarrow> string \<Rightarrow> jsnum \<Rightarrow> rate_store \<Rightarrow> rate_store" where
  "rl_setQuota tenant provider quota s = s\<lparr>rs_quota := am_set (rate_key tenant provider) quota (rs_quota s)\<rparr>"

definition rl_used :: "string \<Rightarrow> string \<Rightarrow> rate_store \<Rightarrow> jsnum" where
  "rl_used tenant provider s = nullish (map_of (rs_usage s) (rate_key tenant provider)) (Fin 0)"

definition rl_check :: "string \<Rightarrow> string \<Rightarrow> rate_store \<Rightarrow> bool" where
  "rl_check tenant provider s =
     js_lt (rl_used tenant provider s) (nullish (map_of (rs_quota s) (rate_key tenant provider)) (Fin 9007199254740991))"

definition rl_recordUsage :: "string \<Rightarrow> string \<Rightarrow> jsnum \<Rightarrow> rate_store \<Rightarrow> rate_store" where
  "rl_recordUsage tenant provider cost s =
     s\<lparr>rs_usage := am_set (rate_key tenant provider) (js_add (rl_used tenant provider s) cost) (rs_usage s)\<rparr>"

text \<open>\<open>in-memory-provider-registry.ts\<close>: the preferred provider if there is one, or the first; the capability is not looked at.\<close>

definition select_provider :: "('p \<Rightarrow> string) \<Rightarrow> string list option \<Rightarrow> 'p list \<Rightarrow> 'p option" where
  "select_provider providerId preferred ps =
     (case List.find (\<lambda>p. providerId p \<in> set (nullish preferred [])) ps of Some p \<Rightarrow> Some p | None \<Rightarrow> js_at ps 0)"

end
