(* ===== verification/ResearchEngine.thy ===== *)
theory ResearchEngine
  imports IntelligenceStores Scoring
begin

section \<open>The research engine\<close>

text \<open>
  \<open>packages/intelligence/src/services/research-engine.ts\<close> on the Postgres repositories and the Postgres cache,
  with the quotas of the in-memory store. A method is a function on the world that throws (\<open>Inl\<close>) or
  returns; every generated id and every reading of the clock takes the next tick. Providers, the adapter of
  the business system, the hashes and the text of a date (\<open>rd_iso\<close>) are arguments; publishing an event
  and writing the audit log always succeed.
\<close>

subsection \<open>What providers deliver\<close>

text \<open>A date that came back from the JSON column of the cache is a text.\<close>

datatype js_date = DateObj "int option" | DateText string

record account_candidate =
  ak_providerAccountId :: string
  ak_name :: string
  ak_domain :: "string option"
  ak_industry :: "string option"
  ak_employeeCount :: "jsnum option"
  ak_annualRevenueUsd :: "jsnum option"

record buying_signal =
  bs_signalId :: string
  bs_signalType :: string
  bs_observedSignal :: string
  bs_interpretedSignal :: string
  bs_observedAt :: js_date
  bs_source :: string
  bs_confidence :: jsnum
  bs_relevance :: jsnum

record company_intelligence =
  ci_industry :: "string option"
  ci_employeeCount :: "jsnum option"
  ci_annualRevenueUsd :: "jsnum option"
  ci_territories :: "string list option"
  ci_technographics :: "string list"

record contact_candidate =
  cc_providerContactId :: string
  cc_accountId :: string
  cc_name :: "string option"
  cc_title :: "string option"
  cc_role :: "string option"
  cc_seniority :: "string option"
  cc_email :: "string option"
  cc_phone :: "string option"
  cc_linkedInUrl :: "string option"
  cc_channels :: "string list option"

datatype validation_status = VS_VALID | VS_INVALID | VS_UNCERTAIN

record enriched_contact = contact_candidate +
  ec_confidence :: jsnum
  ec_validationStatus :: validation_status

record discovery_query =
  dq_icpProfileId :: string
  dq_territories :: "string list option"
  dq_industries :: "string list option"
  dq_maxResults :: nat

datatype cached_value =
    CV_accounts "account_candidate list"
  | CV_intelligence company_intelligence
  | CV_contacts "contact_candidate list"
  | CV_enriched enriched_contact
  | CV_signals "buying_signal list"

text \<open>JSON turns a number that is not finite into \<open>null\<close>, and a date into its text.\<close>

definition json_num :: "jsnum \<Rightarrow> jsnum" where
  "json_num v = (if js_isFinite v then v else NaN)"

definition json_opt_num :: "jsnum option \<Rightarrow> jsnum option" where
  "json_opt_num v = (case v of Some x \<Rightarrow> if js_isFinite x then v else None | None \<Rightarrow> None)"

definition json_date :: "(int \<Rightarrow> string) \<Rightarrow> js_date \<Rightarrow> js_date" where
  "json_date isoText d = (case d of DateObj (Some t) \<Rightarrow> DateText (isoText t) | DateObj None \<Rightarrow> DateText '''' | DateText s \<Rightarrow> DateText s)"

fun via_json :: "(int \<Rightarrow> string) \<Rightarrow> cached_value \<Rightarrow> cached_value" where
  "via_json isoText (CV_accounts cs) = CV_accounts (map (\<lambda>c. c\<lparr>ak_employeeCount := json_opt_num (ak_employeeCount c),
      ak_annualRevenueUsd := json_opt_num (ak_annualRevenueUsd c)\<rparr>) cs)"
| "via_json isoText (CV_intelligence c) = CV_intelligence (c\<lparr>ci_employeeCount := json_opt_num (ci_employeeCount c),
      ci_annualRevenueUsd := json_opt_num (ci_annualRevenueUsd c)\<rparr>)"
| "via_json isoText (CV_contacts cs) = CV_contacts cs"
| "via_json isoText (CV_enriched c) = CV_enriched (c\<lparr>ec_confidence := json_num (ec_confidence c)\<rparr>)"
| "via_json isoText (CV_signals ss) = CV_signals (map (\<lambda>s. s\<lparr>bs_observedAt := json_date isoText (bs_observedAt s),
      bs_confidence := json_num (bs_confidence s), bs_relevance := json_num (bs_relevance s)\<rparr>) ss)"

subsection \<open>The world and the dependencies\<close>

datatype research_exn =
    RX_noProfile | RX_noProvider | RX_research research_error | RX_store store_error | RX_icp icp_save_error
  | RX_evidence evidence_error | RX_contact contact_error | RX_account account_error | RX_signal signal_error
  | RX_rateLimit string | RX_provider string | RX_type

datatype research_event =
    RV_account "account_payload domain_event" | RV_contact "contact_payload domain_event" | RV_lead "lead_payload domain_event"

record research_world =
  rw_icps :: "icp_row list"
  rw_accounts :: "account list"
  rw_contacts :: "contact list"
  rw_leads :: "lead list"
  rw_signals :: "signal list"
  rw_evidence :: "research_evidence list"
  rw_requests :: "research_request list"
  rw_runs :: "research_run list"
  rw_cache :: "cached_value cache_row list"
  rw_rate :: rate_store
  rw_audit :: "(string \<times> string option \<times> string) list"
  rw_events :: "research_event list"
  rw_tick :: nat

type_synonym 'a research = "research_world \<Rightarrow> (research_exn + 'a) \<times> research_world"

record research_provider =
  pv_providerId :: string
  pv_discoverAccounts :: "nat \<Rightarrow> discovery_query \<Rightarrow> string + account_candidate list"
  pv_getCompanyIntelligence :: "nat \<Rightarrow> string \<Rightarrow> string + company_intelligence"
  pv_discoverContacts :: "nat \<Rightarrow> string \<Rightarrow> string + contact_candidate list"
  pv_enrichContact :: "nat \<Rightarrow> contact_candidate \<Rightarrow> string + enriched_contact"
  pv_detectSignals :: "nat \<Rightarrow> string \<Rightarrow> string + buying_signal list"

record research_deps =
  rd_providers :: "research_provider list"
  rd_findDuplicateAccount :: "nat \<Rightarrow> account_candidate \<Rightarrow> string + string option"
  rd_findDuplicateContact :: "nat \<Rightarrow> contact_candidate \<Rightarrow> string + string option"
  rd_fresh :: "string \<Rightarrow> nat \<Rightarrow> string"
  rd_clock :: "nat \<Rightarrow> int"
  rd_iso :: "int \<Rightarrow> string"
  rd_parses :: "string \<Rightarrow> bool"
  rd_queryHash :: "string \<Rightarrow> string list option \<Rightarrow> nat option \<Rightarrow> string \<Rightarrow> string"
  rd_fingerprint :: "string \<Rightarrow> json \<Rightarrow> string \<Rightarrow> string"
  rd_jsonText :: "json \<Rightarrow> string"
  rd_numText :: "jsnum \<Rightarrow> string"

record research_job =
  jb_tenant :: string
  jb_missionId :: string
  jb_workspaceId :: string
  jb_icpProfileId :: string
  jb_objective :: string
  jb_territories :: "string list option"
  jb_maxResults :: "nat option"

record research_summary =
  rm_accountsDiscovered :: nat
  rm_contactsDiscovered :: nat
  rm_leadsQualified :: nat
  rm_leadsNeedReview :: nat

subsection \<open>Sequencing\<close>

definition rx_return :: "'a \<Rightarrow> 'a research" where
  "rx_return x w = (Inr x, w)"

definition rx_throw :: "research_exn \<Rightarrow> 'a research" where
  "rx_throw e w = (Inl e, w)"

definition rx_bind :: "'a research \<Rightarrow> ('a \<Rightarrow> 'b research) \<Rightarrow> 'b research" where
  "rx_bind m f w = (case m w of (Inl e, w') \<Rightarrow> (Inl e, w') | (Inr x, w') \<Rightarrow> f x w')"

definition rx_lift :: "('e \<Rightarrow> research_exn) \<Rightarrow> ('e + 'a) \<Rightarrow> 'a research" where
  "rx_lift wrap r = (case r of Inl e \<Rightarrow> rx_throw (wrap e) | Inr x \<Rightarrow> rx_return x)"

fun rx_collect :: "('a \<Rightarrow> 'b research) \<Rightarrow> 'a list \<Rightarrow> 'b list research" where
  "rx_collect f [] = rx_return []"
| "rx_collect f (x # xs) = rx_bind (f x) (\<lambda>y. rx_bind (rx_collect f xs) (\<lambda>ys. rx_return (y # ys)))"

definition rx_get :: "(research_world \<Rightarrow> 'a) \<Rightarrow> 'a research" where
  "rx_get f w = (Inr (f w), w)"

definition rx_put :: "(research_world \<Rightarrow> research_world) \<Rightarrow> unit research" where
  "rx_put f w = (Inr (), f w)"

definition rx_tick :: "nat research" where
  "rx_tick w = (Inr (rw_tick w), w\<lparr>rw_tick := Suc (rw_tick w)\<rparr>)"

definition rx_fresh :: "research_deps \<Rightarrow> string \<Rightarrow> string research" where
  "rx_fresh dp what = rx_bind rx_tick (\<lambda>n. rx_return (rd_fresh dp what n))"

definition rx_now :: "research_deps \<Rightarrow> int research" where
  "rx_now dp = rx_bind rx_tick (\<lambda>n. rx_return (rd_clock dp n))"

definition record_audit :: "string \<Rightarrow> string option \<Rightarrow> string \<Rightarrow> unit research" where
  "record_audit action provider res = rx_put (\<lambda>w. w\<lparr>rw_audit := rw_audit w @ [(action, provider, res)]\<rparr>)"

text \<open>A write of one table, whose refusal is thrown.\<close>

definition save_accounts :: "string \<Rightarrow> string \<Rightarrow> account \<Rightarrow> account research" where
  "save_accounts tenant ws a w =
     (case acc_save tenant ws a (rw_accounts w) of
        Inl e \<Rightarrow> (Inl (RX_store e), w) | Inr (b, rows) \<Rightarrow> (Inr b, w\<lparr>rw_accounts := rows\<rparr>))"

definition save_contacts :: "string \<Rightarrow> string \<Rightarrow> contact \<Rightarrow> contact research" where
  "save_contacts tenant ws c w =
     (case con_save tenant ws c (rw_contacts w) of
        Inl e \<Rightarrow> (Inl (RX_store e), w) | Inr (d, rows) \<Rightarrow> (Inr d, w\<lparr>rw_contacts := rows\<rparr>))"

definition save_leads :: "string \<Rightarrow> lead \<Rightarrow> lead research" where
  "save_leads tenant l w =
     (case lead_save tenant l (rw_leads w) of
        Inl e \<Rightarrow> (Inl (RX_store e), w) | Inr (k, rows) \<Rightarrow> (Inr k, w\<lparr>rw_leads := rows\<rparr>))"

definition save_signals :: "string \<Rightarrow> string \<Rightarrow> signal \<Rightarrow> signal research" where
  "save_signals tenant ws s w =
     (case sig_save tenant ws s (rw_signals w) of
        Inl e \<Rightarrow> (Inl (RX_store e), w) | Inr (t, rows) \<Rightarrow> (Inr t, w\<lparr>rw_signals := rows\<rparr>))"

definition save_evidence :: "string \<Rightarrow> string \<Rightarrow> research_evidence \<Rightarrow> unit research" where
  "save_evidence tenant ws e w =
     (case ev_save tenant ws e (rw_evidence w) of
        Inl x \<Rightarrow> (Inl (RX_store x), w) | Inr rows \<Rightarrow> (Inr (), w\<lparr>rw_evidence := rows\<rparr>))"

definition save_request :: "string \<Rightarrow> string \<Rightarrow> research_request \<Rightarrow> unit research" where
  "save_request tenant ws q w =
     (case res_saveRequest tenant ws q (rw_requests w) of
        Inl e \<Rightarrow> (Inl (RX_store e), w) | Inr rows \<Rightarrow> (Inr (), w\<lparr>rw_requests := rows\<rparr>))"

definition save_run :: "string \<Rightarrow> string \<Rightarrow> research_run \<Rightarrow> unit research" where
  "save_run tenant ws r w =
     (case res_saveRun tenant ws r (rw_runs w) of
        Inl e \<Rightarrow> (Inl (RX_store e), w) | Inr rows \<Rightarrow> (Inr (), w\<lparr>rw_runs := rows\<rparr>))"

subsection \<open>Calls through the cache\<close>

definition checkRateLimit :: "string \<Rightarrow> string \<Rightarrow> unit research" where
  "checkRateLimit tenant provider w =
     (if rl_check tenant provider (rw_rate w)
      then (Inr (), w\<lparr>rw_rate := rl_recordUsage tenant provider (Fin 1) (rw_rate w)\<rparr>)
      else (Inl (RX_rateLimit provider), w\<lparr>rw_audit := rw_audit w @ [(''DISCOVER_ACCOUNTS'', Some provider, ''RATE_LIMITED'')]\<rparr>))"

text \<open>What the five methods that ask a provider share; only \<open>discoverAccounts\<close> records a hit.\<close>

definition cached_call ::
    "research_deps \<Rightarrow> string \<Rightarrow> string \<Rightarrow> string \<Rightarrow> string \<Rightarrow> bool \<Rightarrow> string \<Rightarrow> (nat \<Rightarrow> string + cached_value) \<Rightarrow> cached_value research" where
  "cached_call dp tenant ws provider key audit_hit action call =
     rx_bind (rx_now dp) (\<lambda>now.
     rx_bind (rx_get (\<lambda>w. cache_get now tenant ws key (rw_cache w))) (\<lambda>hit.
     case hit of
       Some row \<Rightarrow>
         rx_bind (if audit_hit then record_audit ''CACHE_HIT'' None ''SUCCESS'' else rx_return ()) (\<lambda>_. rx_return (kr_value row))
     | None \<Rightarrow>
         rx_bind (checkRateLimit tenant provider) (\<lambda>_.
         rx_bind rx_tick (\<lambda>n.
         rx_bind (rx_lift RX_provider (call n)) (\<lambda>v.
         rx_bind (rx_now dp) (\<lambda>t.
         rx_bind (rx_put (\<lambda>w. w\<lparr>rw_cache := cache_set (via_json (rd_iso dp))
             \<lparr>kr_tenant = tenant, kr_queryHash = key, kr_workspace = ws, kr_value = v, kr_providerId = provider,
              kr_cachedAt = t, kr_expiresAt = t + 86400000\<rparr> (rw_cache w)\<rparr>)) (\<lambda>_.
         rx_bind (record_audit action (Some provider) ''SUCCESS'') (\<lambda>_. rx_return v))))))))"

text \<open>The keys of the five calls start differently, so a value of another kind is never found.\<close>

definition as_accounts :: "cached_value \<Rightarrow> account_candidate list research" where
  "as_accounts v = (case v of CV_accounts cs \<Rightarrow> rx_return cs | _ \<Rightarrow> rx_throw RX_type)"

definition as_intelligence :: "cached_value \<Rightarrow> company_intelligence research" where
  "as_intelligence v = (case v of CV_intelligence c \<Rightarrow> rx_return c | _ \<Rightarrow> rx_throw RX_type)"

definition as_contacts :: "cached_value \<Rightarrow> contact_candidate list research" where
  "as_contacts v = (case v of CV_contacts cs \<Rightarrow> rx_return cs | _ \<Rightarrow> rx_throw RX_type)"

definition as_enriched :: "cached_value \<Rightarrow> enriched_contact research" where
  "as_enriched v = (case v of CV_enriched c \<Rightarrow> rx_return c | _ \<Rightarrow> rx_throw RX_type)"

definition as_signals :: "cached_value \<Rightarrow> buying_signal list research" where
  "as_signals v = (case v of CV_signals ss \<Rightarrow> rx_return ss | _ \<Rightarrow> rx_throw RX_type)"

definition selectProvider :: "research_deps \<Rightarrow> research_provider option" where
  "selectProvider dp = select_provider pv_providerId None (rd_providers dp)"

definition discoverAccounts :: "research_deps \<Rightarrow> research_provider \<Rightarrow> research_job \<Rightarrow> icp_profile \<Rightarrow> account_candidate list research" where
  "discoverAccounts dp pv job profile =
     rx_bind (cached_call dp (jb_tenant job) (jb_workspaceId job) (pv_providerId pv)
        (''accounts:'' @ jb_icpProfileId job @ '':'' @ js_join '','' (nullish (jb_territories job) []) @ '':'' @ show_nat (nullish (jb_maxResults job) 10))
        True ''DISCOVER_ACCOUNTS''
        (\<lambda>n. map_sum id CV_accounts (pv_discoverAccounts pv n
           \<lparr>dq_icpProfileId = jb_icpProfileId job, dq_territories = jb_territories job,
            dq_industries = hd_industries (ip_hardFilters profile), dq_maxResults = nullish (jb_maxResults job) 10\<rparr>)))
       as_accounts"

definition getCompanyIntelligence ::
    "research_deps \<Rightarrow> string \<Rightarrow> string \<Rightarrow> research_provider \<Rightarrow> string \<Rightarrow> company_intelligence research" where
  "getCompanyIntelligence dp tenant ws pv i =
     rx_bind (cached_call dp tenant ws (pv_providerId pv) (''intelligence:'' @ i) False ''GET_COMPANY_INTELLIGENCE''
        (\<lambda>n. map_sum id CV_intelligence (pv_getCompanyIntelligence pv n i)))
       as_intelligence"

definition discoverContacts ::
    "research_deps \<Rightarrow> string \<Rightarrow> string \<Rightarrow> research_provider \<Rightarrow> string \<Rightarrow> contact_candidate list research" where
  "discoverContacts dp tenant ws pv i =
     rx_bind (cached_call dp tenant ws (pv_providerId pv) (''contacts:'' @ i) False ''DISCOVER_CONTACTS''
        (\<lambda>n. map_sum id CV_contacts (pv_discoverContacts pv n i)))
       as_contacts"

definition enrichContact ::
    "research_deps \<Rightarrow> string \<Rightarrow> string \<Rightarrow> research_provider \<Rightarrow> contact_candidate \<Rightarrow> enriched_contact research" where
  "enrichContact dp tenant ws pv c =
     rx_bind (cached_call dp tenant ws (pv_providerId pv) (''enriched-contact:'' @ cc_providerContactId c) False ''ENRICH_CONTACT''
        (\<lambda>n. map_sum id CV_enriched (pv_enrichContact pv n c)))
       as_enriched"

definition detected_signals ::
    "research_deps \<Rightarrow> string \<Rightarrow> string \<Rightarrow> research_provider \<Rightarrow> string \<Rightarrow> buying_signal list research" where
  "detected_signals dp tenant ws pv i =
     rx_bind (cached_call dp tenant ws (pv_providerId pv) (''signals:'' @ i) False ''DETECT_SIGNALS''
        (\<lambda>n. map_sum id CV_signals (pv_detectSignals pv n i)))
       as_signals"

subsection \<open>Evidence\<close>

record research_claim =
  cl_claimType :: string
  cl_normalizedValue :: "json option"
  cl_source :: string
  cl_confidence :: jsnum

definition num_json :: "jsnum option \<Rightarrow> json option" where
  "num_json v = map_option JNum v"

definition text_json :: "string option \<Rightarrow> json option" where
  "text_json v = map_option JStr v"

definition extractAccountClaims :: "account_candidate \<Rightarrow> company_intelligence \<Rightarrow> research_claim list" where
  "extractAccountClaims c ci =
     filter (\<lambda>k. cl_normalizedValue k \<noteq> None)
       [\<lparr>cl_claimType = ''EMPLOYEE_COUNT'', cl_normalizedValue = num_json (nullish_opt (ci_employeeCount ci) (ak_employeeCount c)),
         cl_source = ''provider'', cl_confidence = Fin (8/10)\<rparr>,
        \<lparr>cl_claimType = ''INDUSTRY'', cl_normalizedValue = text_json (nullish_opt (ak_industry c) (ci_industry ci)),
         cl_source = ''provider'', cl_confidence = Fin (85/100)\<rparr>,
        \<lparr>cl_claimType = ''ANNUAL_REVENUE'',
         cl_normalizedValue = num_json (nullish_opt (ak_annualRevenueUsd c) (ci_annualRevenueUsd ci)),
         cl_source = ''provider'', cl_confidence = Fin (7/10)\<rparr>]"

definition claim_value :: "research_claim \<Rightarrow> json" where
  "claim_value k = nullish (cl_normalizedValue k) JNull"

definition createEvidence ::
    "research_deps \<Rightarrow> string \<Rightarrow> string \<Rightarrow> string \<Rightarrow> string \<Rightarrow> string option \<Rightarrow> research_claim \<Rightarrow> string \<Rightarrow> research_evidence research" where
  "createEvidence dp tenant ws request run mission claim account =
     rx_bind (rx_now dp) (\<lambda>now.
     rx_bind (rx_fresh dp ''evidence'') (\<lambda>i.
     rx_bind (rx_now dp) (\<lambda>later.
     rx_lift RX_evidence (re_construct (rd_parses dp)
       \<lparr>re_evidenceId = i, re_tenantId = tenant, re_workspaceId = ws, re_requestId = request, re_runId = run,
        re_accountId = Some account, re_contactId = None, re_missionId = mission, re_claimType = cl_claimType claim,
        re_normalizedValue = claim_value claim, re_source = cl_source claim, re_sourceUri = None,
        re_reliabilityTier = PREMIUM_PROVIDER, re_observedAt = rd_iso dp now, re_freshnessExpiry = rd_iso dp (later + 604800000),
        re_confidence = cl_confidence claim,
        re_confidenceBreakdown = \<lparr>cb_sourceReliability = Fin (8/10), cb_extractionConfidence = cl_confidence claim, cb_corroboration = Fin 0\<rparr>,
        re_provenance = [\<lparr>pe_step = ''provider-extract'', pe_agentId = None, pe_toolCallId = None, pe_inputSummary = cl_claimType claim,
          pe_outputSummary = map_option (rd_jsonText dp) (cl_normalizedValue claim), pe_occurredAt = rd_iso dp now\<rparr>],
        re_contradictions = None,
        re_evidenceFingerprint = rd_fingerprint dp (cl_claimType claim) (claim_value claim) (cl_source claim)\<rparr>))))"

definition new_evidence ::
    "research_deps \<Rightarrow> string \<Rightarrow> string \<Rightarrow> string \<Rightarrow> string \<Rightarrow> string \<Rightarrow> research_claim \<Rightarrow> string research" where
  "new_evidence dp tenant ws request run account claim =
     rx_bind (createEvidence dp tenant ws request run None claim account) (\<lambda>e.
     rx_bind (save_evidence tenant ws e) (\<lambda>_. rx_return (re_evidenceId e)))"

subsection \<open>Accounts\<close>

definition publish_account :: "account \<Rightarrow> account research" where
  "publish_account a = rx_bind (rx_put (\<lambda>w. w\<lparr>rw_events := rw_events w @ map RV_account (domainEvents a)\<rparr>)) (\<lambda>_. rx_return (clearDomainEvents a))"

definition publish_contact :: "contact \<Rightarrow> contact research" where
  "publish_contact c = rx_bind (rx_put (\<lambda>w. w\<lparr>rw_events := rw_events w @ map RV_contact (domainEvents c)\<rparr>)) (\<lambda>_. rx_return (clearDomainEvents c))"

definition publish_lead :: "lead \<Rightarrow> lead research" where
  "publish_lead l = rx_bind (rx_put (\<lambda>w. w\<lparr>rw_events := rw_events w @ map RV_lead (domainEvents l)\<rparr>)) (\<lambda>_. rx_return (clearDomainEvents l))"

definition candidate_account :: "string \<Rightarrow> string \<Rightarrow> account_candidate \<Rightarrow> account_props" where
  "candidate_account tenant ws c =
     \<lparr>ap_id = ak_providerAccountId c, ap_tenantId = tenant, ap_workspaceId = ws, ap_name = ak_name c, ap_domain = ak_domain c,
      ap_normalizedDomain = None, ap_aliases = None, ap_industry = ak_industry c, ap_geography = None, ap_companySizeBand = None,
      ap_employeeCount = ak_employeeCount c, ap_annualRevenueUsd = ak_annualRevenueUsd c, ap_territories = None, ap_techStack = None,
      ap_enrichmentState = None, ap_status = None, ap_duplicateOf = None, ap_evidenceReferences = None, ap_accountVersion = None,
      ap_createdAt = None, ap_updatedAt = None\<rparr>"

definition no_account_updates :: account_updates where
  "no_account_updates = \<lparr>au_name = None, au_domain = None, au_normalizedDomain = None, au_aliases = None, au_industry = None,
     au_geography = None, au_companySizeBand = None, au_employeeCount = None, au_annualRevenueUsd = None, au_territories = None,
     au_techStack = None, au_enrichmentState = None, au_status = None, au_duplicateOf = None, au_evidenceReferences = None,
     au_createdAt = None, au_updatedAt = None\<rparr>"

definition new_account :: "research_deps \<Rightarrow> account_props \<Rightarrow> account research" where
  "new_account dp props =
     rx_bind (rx_fresh dp ''correlation'') (\<lambda>corr. rx_bind (rx_fresh dp ''event'') (\<lambda>ev. rx_bind (rx_now dp) (\<lambda>now.
       rx_lift RX_account (ac_create props corr ev now))))"

definition processAccount ::
    "research_deps \<Rightarrow> string \<Rightarrow> research_provider \<Rightarrow> account_candidate \<Rightarrow> string \<Rightarrow> string \<Rightarrow> string \<Rightarrow> account research" where
  "processAccount dp tenant pv c ws request run =
     rx_bind rx_tick (\<lambda>n.
     rx_bind (rx_lift RX_provider (rd_findDuplicateAccount dp n c)) (\<lambda>dup.
     case dup of
       Some known \<Rightarrow>
         rx_bind (new_account dp (candidate_account tenant ws c)) (\<lambda>a.
         rx_bind (rx_fresh dp ''correlation'') (\<lambda>corr. rx_bind (rx_fresh dp ''event'') (\<lambda>ev. rx_bind (rx_now dp) (\<lambda>now.
         rx_bind (save_accounts tenant ws (ac_markDuplicate known ''Business system duplicate'' corr ev now a)) (\<lambda>b.
         publish_account b)))))
     | None \<Rightarrow>
         rx_bind (getCompanyIntelligence dp tenant ws pv (ak_providerAccountId c)) (\<lambda>ci.
         rx_bind (new_account dp ((candidate_account tenant ws c)\<lparr>
             ap_employeeCount := nullish_opt (ak_employeeCount c) (ci_employeeCount ci),
             ap_annualRevenueUsd := nullish_opt (ak_annualRevenueUsd c) (ci_annualRevenueUsd ci),
             ap_territories := ci_territories ci, ap_techStack := Some (ci_technographics ci)\<rparr>)) (\<lambda>a.
         rx_bind (save_accounts tenant ws a) (\<lambda>b.
         rx_bind (rx_collect (new_evidence dp tenant ws request run (ak_providerAccountId c)) (extractAccountClaims c ci)) (\<lambda>evidenceIds.
         rx_bind (rx_fresh dp ''correlation'') (\<lambda>corr. rx_bind (rx_fresh dp ''event'') (\<lambda>ev. rx_bind (rx_now dp) (\<lambda>now.
         rx_bind (save_accounts tenant ws (ac_enrich no_account_updates evidenceIds corr ev now b)) (\<lambda>d.
         publish_account d))))))))))"

subsection \<open>Contacts\<close>

definition no_contact_updates :: contact_updates where
  "no_contact_updates = \<lparr>nu_name = None, nu_title = None, nu_role = None, nu_seniority = None, nu_department = None,
     nu_functionRole = None, nu_emailFingerprint = None, nu_encryptedEmail = None, nu_phoneFingerprint = None,
     nu_encryptedPhone = None, nu_linkedInUrl = None, nu_channels = None, nu_consentStatus = None, nu_verificationState = None,
     nu_status = None, nu_suppressionReason = None, nu_suppressionReference = None, nu_suppressedAt = None,
     nu_evidenceReferences = None, nu_createdAt = None, nu_updatedAt = None\<rparr>"

definition enriched_props :: "string \<Rightarrow> string \<Rightarrow> string \<Rightarrow> string \<Rightarrow> string \<Rightarrow> enriched_contact \<Rightarrow> contact_props" where
  "enriched_props i tenant ws account evidence ec =
     \<lparr>np_id = i, np_tenantId = tenant, np_workspaceId = ws, np_accountId = account, np_name = cc_name ec, np_title = cc_title ec,
      np_role = cc_role ec, np_seniority = cc_seniority ec, np_department = None, np_functionRole = None, np_emailFingerprint = None,
      np_encryptedEmail = None, np_phoneFingerprint = None, np_encryptedPhone = None, np_linkedInUrl = None,
      np_channels = cc_channels ec, np_consentStatus = None, np_verificationState = None, np_status = None,
      np_suppressionReason = None, np_suppressionReference = None, np_suppressedAt = None,
      np_evidenceReferences = Some [evidence], np_createdAt = None, np_updatedAt = None\<rparr>"

definition process_contact ::
    "research_deps \<Rightarrow> string \<Rightarrow> research_provider \<Rightarrow> account \<Rightarrow> string \<Rightarrow> string \<Rightarrow> contact_candidate \<Rightarrow> contact list research" where
  "process_contact dp tenant pv a request run c =
     (let ws = ac_workspaceId a in
      rx_bind rx_tick (\<lambda>n.
      rx_bind (rx_lift RX_provider (rd_findDuplicateContact dp n c)) (\<lambda>dup.
      if dup \<noteq> None then rx_return []
      else
        rx_bind (enrichContact dp tenant ws pv c) (\<lambda>ec.
        rx_bind (new_evidence dp tenant ws request run (aggId a)
          \<lparr>cl_claimType = ''CONTACT_ROLE'', cl_normalizedValue = text_json (nullish_opt (cc_role ec) (cc_title ec)),
           cl_source = ''provider'', cl_confidence = ec_confidence ec\<rparr>) (\<lambda>evidence.
        rx_bind (rx_fresh dp ''correlation'') (\<lambda>k1. rx_bind (rx_fresh dp ''event'') (\<lambda>e1. rx_bind (rx_now dp) (\<lambda>t1.
        rx_bind (rx_fresh dp ''correlation'') (\<lambda>k2. rx_bind (rx_fresh dp ''event'') (\<lambda>e2. rx_bind (rx_now dp) (\<lambda>t2.
        rx_bind (rx_lift RX_contact (ct_enrich no_contact_updates [evidence] k2 e2 t2
            (ct_discover (enriched_props (cc_providerContactId c) tenant ws (aggId a) evidence ec) ''provider'' k1 e1 t1))) (\<lambda>d.
        rx_bind (if ec_validationStatus ec = VS_VALID
                 then rx_bind (rx_fresh dp ''correlation'') (\<lambda>k3. rx_bind (rx_fresh dp ''event'') (\<lambda>e3. rx_bind (rx_now dp) (\<lambda>t3.
                        rx_lift RX_contact (ct_validate k3 e3 t3 d))))
                 else rx_return d) (\<lambda>v.
        rx_bind (save_contacts tenant ws v) (\<lambda>s.
        rx_bind (publish_contact s) (\<lambda>q. rx_return [q])))))))))))))))"

definition processContacts ::
    "research_deps \<Rightarrow> string \<Rightarrow> research_provider \<Rightarrow> account \<Rightarrow> string \<Rightarrow> string \<Rightarrow> contact list research" where
  "processContacts dp tenant pv a request run =
     rx_bind (discoverContacts dp tenant (ac_workspaceId a) pv (aggId a)) (\<lambda>cs.
     rx_bind (rx_collect (process_contact dp tenant pv a request run) cs) (\<lambda>found. rx_return (concat found)))"

subsection \<open>Signals\<close>

text \<open>\<open>/<[^>]*>/g\<close>: a tag reaches to the next closing bracket, if there is one; \<open>b\<close> says that one is being skipped.\<close>

fun strip_tags :: "bool \<Rightarrow> string \<Rightarrow> string" where
  "strip_tags b [] = []"
| "strip_tags True (c # s) = strip_tags (c \<noteq> CHR ''>'') s"
| "strip_tags False (c # s) =
     (if c = CHR ''<'' \<and> CHR ''>'' \<in> set s then CHR '' '' # strip_tags True s else c # strip_tags False s)"

definition blank_control :: "char \<Rightarrow> char" where
  "blank_control c = (let n = of_char c :: nat in if n < 32 \<or> n = 127 then CHR '' '' else c)"

definition sanitizeExternalText :: "string \<Rightarrow> string" where
  "sanitizeExternalText s = js_trim (collapse_spaces False (map blank_control (strip_tags False s)))"

definition signal_evidence ::
    "research_deps \<Rightarrow> string \<Rightarrow> account \<Rightarrow> string \<Rightarrow> string \<Rightarrow> string \<Rightarrow> research_claim \<Rightarrow> research_evidence research" where
  "signal_evidence dp tenant a request run mission claim =
     (let ws = ac_workspaceId a in
      rx_bind (rx_get (\<lambda>w. ev_findByFingerprint (rd_parses dp) tenant ws
          (rd_fingerprint dp (cl_claimType claim) (claim_value claim) (cl_source claim)) (rw_evidence w))) (\<lambda>r.
      rx_bind (rx_lift RX_evidence r) (\<lambda>found.
      case found of
        Some e \<Rightarrow> rx_return e
      | None \<Rightarrow>
          rx_bind (createEvidence dp tenant ws request run (Some mission) claim (aggId a)) (\<lambda>e.
          rx_bind (save_evidence tenant ws e) (\<lambda>_. rx_return e)))))"

definition signal_props_of ::
    "string \<Rightarrow> account \<Rightarrow> buying_signal \<Rightarrow> int option \<Rightarrow> string \<Rightarrow> string \<Rightarrow> string \<Rightarrow> signal_props" where
  "signal_props_of tenant a b observedAt observed interpreted evidence =
     \<lparr>gp_id = bs_signalId b, gp_tenantId = tenant, gp_workspaceId = ac_workspaceId a, gp_accountId = aggId a, gp_contactId = None,
      gp_signalType = (if bs_signalType b \<in> set SIGNAL_CATEGORIES then bs_signalType b else ''BusinessChange''),
      gp_observedAt = observedAt, gp_effectiveFrom = observedAt, gp_effectiveUntil = map_option (\<lambda>t. t + 2592000000) observedAt,
      gp_source = bs_source b, gp_sourceUri = None, gp_confidence = bs_confidence b, gp_relevance = bs_relevance b,
      gp_observedSignal = observed, gp_interpretedSignal = interpreted, gp_evidenceIds = Some [evidence], gp_status = None,
      gp_dedupIdentity = None, gp_createdAt = None\<rparr>"

definition detect_signal ::
    "research_deps \<Rightarrow> string \<Rightarrow> account \<Rightarrow> string \<Rightarrow> string \<Rightarrow> string \<Rightarrow> buying_signal \<Rightarrow> unit research" where
  "detect_signal dp tenant a request run mission b =
     (let ws = ac_workspaceId a; observed = sanitizeExternalText (bs_observedSignal b);
          interpreted = sanitizeExternalText (bs_interpretedSignal b) in
      rx_bind (signal_evidence dp tenant a request run mission
        \<lparr>cl_claimType = ''BUYING_SIGNAL'', cl_normalizedValue = Some (JStr observed), cl_source = bs_source b,
         cl_confidence = bs_confidence b\<rparr>) (\<lambda>e.
      case bs_observedAt b of
        DateText _ \<Rightarrow> rx_throw RX_type
      | DateObj t \<Rightarrow>
          let props = signal_props_of tenant a b t observed interpreted (re_evidenceId e);
              dedup = sg_dedup tenant ws (aggId a) (gp_signalType props) observed in
          rx_bind (rx_get (\<lambda>w. sig_findByDedupIdentity tenant ws dedup (rw_signals w))) (\<lambda>known.
          if known \<noteq> None then rx_return ()
          else
            rx_bind (rx_fresh dp ''correlation'') (\<lambda>corr. rx_bind (rx_fresh dp ''event'') (\<lambda>ev. rx_bind (rx_now dp) (\<lambda>now.
            rx_bind (rx_lift RX_signal (sg_detect props corr ev now)) (\<lambda>s.
            rx_bind (save_signals tenant ws s) (\<lambda>_. rx_return ()))))))))"

definition detectSignalsForAccount ::
    "research_deps \<Rightarrow> string \<Rightarrow> account \<Rightarrow> string \<Rightarrow> string \<Rightarrow> string \<Rightarrow> int \<Rightarrow> signal list research" where
  "detectSignalsForAccount dp tenant a request run mission evaluatedAt =
     (case selectProvider dp of
        None \<Rightarrow> rx_return []
      | Some pv \<Rightarrow>
          rx_bind (detected_signals dp tenant (ac_workspaceId a) pv (aggId a)) (\<lambda>bs.
          rx_bind (rx_collect (detect_signal dp tenant a request run mission) bs) (\<lambda>_.
          rx_bind (rx_get (\<lambda>w. sig_findActiveByAccount tenant (ac_workspaceId a) (aggId a) (Some evaluatedAt) (rw_signals w))) (\<lambda>r.
          rx_lift RX_store r))))"

subsection \<open>Leads\<close>

definition reason_filter :: "string \<Rightarrow> filter_result" where
  "reason_filter reason =
     (let lower = js_lower reason
      in \<lparr>hf_filter = (if js_includes lower ''industry'' then ''INDUSTRY''
                      else if js_includes lower ''territory'' then ''TERRITORY''
                      else if js_includes lower ''employee'' then ''COMPANY_SIZE'' else ''INDUSTRY''), hf_passed = False\<rparr>)"

definition deriveHardFilterResults :: "icp_score \<Rightarrow> filter_result list" where
  "deriveHardFilterResults r = (if is_passed r then [] else map reason_filter (is_reasons r))"

definition lead_scores_of ::
    "research_deps \<Rightarrow> account \<Rightarrow> icp_profile \<Rightarrow> signal list \<Rightarrow> research_evidence list \<Rightarrow> string \<Rightarrow> lead_scores" where
  "lead_scores_of dp a profile signals evidence nowText =
     lead_score (is_score (icp_score (rd_numText dp) a profile))
       (signal_score (map (\<lambda>s. (sg_relevance s, sg_confidence s, None)) signals))
       (computeEvidenceConfidence (map (\<lambda>e. (re_confidence e, re_isFresh nowText e)) evidence))
       (ip_scoringWeights profile)"

definition research_evaluation ::
    "research_deps \<Rightarrow> account \<Rightarrow> icp_profile \<Rightarrow> signal list \<Rightarrow> research_evidence list \<Rightarrow> string \<Rightarrow> int \<Rightarrow> evaluation_input" where
  "research_evaluation dp a profile signals evidence nowText evaluatedAt =
     \<lparr>ei_scores = lead_scores_of dp a profile signals evidence nowText,
      ei_qualificationThreshold = ip_qualificationThreshold profile, ei_reviewThreshold = ip_reviewThreshold profile,
      ei_hardFilterResults = deriveHardFilterResults (icp_score (rd_numText dp) a profile),
      ei_evidenceIds = map re_evidenceId evidence, ei_signalIds = map aggId signals,
      ei_normalizedFeatures = JObj [(''industry'', case ac_industry a of Some s \<Rightarrow> JStr s | None \<Rightarrow> JNull),
        (''employeeCount'', case ac_employeeCount a of Some n \<Rightarrow> JNum n | None \<Rightarrow> JNull),
        (''territories'', JArr (map JStr (ac_territories a)))],
      ei_snapshotSchemaVersion = ''1.0'', ei_scoringPolicyVersion = ''1.0'', ei_algorithmVersion = ''1.0'',
      ei_evaluatedAt = Some evaluatedAt, ei_reasoningArtifactId = None\<rparr>"

definition research_lead :: "string \<Rightarrow> account \<Rightarrow> contact \<Rightarrow> icp_profile \<Rightarrow> string \<Rightarrow> lead_props" where
  "research_lead tenant a c profile mission =
     \<lparr>lp_id = ''lead-'' @ aggId a @ ''-'' @ aggId c, lp_tenantId = tenant, lp_workspaceId = ac_workspaceId a, lp_missionId = Some mission,
      lp_accountId = aggId a, lp_contactId = aggId c, lp_icpProfileId = aggId profile, lp_icpProfileVersionId = ip_versionId profile,
      lp_scores = None, lp_status = None, lp_decisionReason = None, lp_reasonCodes = None, lp_qualificationSnapshot = None,
      lp_evidenceReferences = None, lp_createdAt = None, lp_updatedAt = None\<rparr>"

text \<open>The result of \<open>lead.evaluate\<close> is not looked at.\<close>

definition evaluateLead ::
    "research_deps \<Rightarrow> string \<Rightarrow> account \<Rightarrow> icp_profile \<Rightarrow> string \<Rightarrow> string \<Rightarrow> string \<Rightarrow> contact \<Rightarrow> lead research" where
  "evaluateLead dp tenant a profile mission request run c =
     (let ws = ac_workspaceId a in
      rx_bind (rx_now dp) (\<lambda>evaluatedAt.
      rx_bind (detectSignalsForAccount dp tenant a request run mission evaluatedAt) (\<lambda>signals.
      rx_bind (rx_get (\<lambda>w. ev_findByAccount (rd_parses dp) tenant ws (aggId a) (rw_evidence w))) (\<lambda>r.
      rx_bind (rx_lift RX_evidence r) (\<lambda>evidence.
      rx_bind (rx_now dp) (\<lambda>t0.
      rx_bind (rx_fresh dp ''correlation'') (\<lambda>_. rx_bind (rx_fresh dp ''event'') (\<lambda>_. rx_bind (rx_now dp) (\<lambda>t1.
      rx_bind (rx_fresh dp ''correlation'') (\<lambda>corr. rx_bind (rx_fresh dp ''event'') (\<lambda>ev. rx_bind (rx_now dp) (\<lambda>t2.
      rx_bind (save_leads tenant (snd (ld_evaluate (rd_iso dp)
          (research_evaluation dp a profile signals evidence (rd_iso dp t0) evaluatedAt) corr ev t2
          (ld_create t1 (research_lead tenant a c profile mission))))) (\<lambda>l.
      publish_lead l)))))))))))))"

subsection \<open>A run\<close>

definition research_account ::
    "research_deps \<Rightarrow> research_job \<Rightarrow> research_provider \<Rightarrow> icp_profile \<Rightarrow> string \<Rightarrow> string \<Rightarrow> account_candidate \<Rightarrow> (nat \<times> nat) research" where
  "research_account dp job pv profile request run c =
     rx_bind (processAccount dp (jb_tenant job) pv c (jb_workspaceId job) request run) (\<lambda>a.
     if ac_status a = AC_DUPLICATE \<or> ac_status a = AC_DISQUALIFIED then rx_return (0, 0)
     else
       rx_bind (processContacts dp (jb_tenant job) pv a request run) (\<lambda>cs.
       rx_bind (rx_collect (evaluateLead dp (jb_tenant job) a profile (jb_missionId job) request run) cs) (\<lambda>_.
       rx_return (1, length cs))))"

text \<open>The body of the \<open>try\<close> up to the end of the run.\<close>

definition research_body :: "research_deps \<Rightarrow> research_job \<Rightarrow> research_provider \<Rightarrow> icp_profile \<Rightarrow> string \<Rightarrow> string \<Rightarrow> research_summary research" where
  "research_body dp job pv profile request run =
     rx_bind (discoverAccounts dp pv job profile) (\<lambda>candidates.
     rx_bind (rx_collect (research_account dp job pv profile request run) candidates) (\<lambda>counts.
     rx_bind (rx_get rw_leads) (\<lambda>leads.
     rx_return \<lparr>rm_accountsDiscovered = sum_list (map fst counts), rm_contactsDiscovered = sum_list (map snd counts),
        rm_leadsQualified = length (lead_findQualified (jb_tenant job) (jb_workspaceId job) leads),
        rm_leadsNeedReview = length (filter (\<lambda>l. ld_status l = LD_NEEDS_REVIEW)
          (lead_findByMission (jb_tenant job) (jb_workspaceId job) (jb_missionId job) leads))\<rparr>)))"

text \<open>The \<open>catch\<close>: the run is failed and saved, and the error thrown again, unless one of these throws itself.\<close>

definition fail_run :: "research_deps \<Rightarrow> research_job \<Rightarrow> research_run \<Rightarrow> research_exn \<Rightarrow> research_summary research" where
  "fail_run dp job run e =
     rx_bind (rx_now dp) (\<lambda>t.
     rx_bind (rx_lift RX_research (rr_fail (rd_parses dp) ''RESEARCH_RUN_FAILED''
         ''Research run encountered an error during execution'' (rd_iso dp t) run)) (\<lambda>failed.
     rx_bind (save_run (jb_tenant job) (jb_workspaceId job) failed) (\<lambda>_. rx_throw e)))"

text \<open>
  The whole \<open>try\<close> and \<open>catch\<close>. The run object is changed by \<open>succeed\<close> before it is saved, so a save that
  throws then reaches the \<open>catch\<close> with a run that has already succeeded.
\<close>

definition finish_run :: "research_deps \<Rightarrow> research_job \<Rightarrow> research_run \<Rightarrow> research_summary research \<Rightarrow> research_summary research" where
  "finish_run dp job run body w =
     (case body w of
        (Inl e, w1) \<Rightarrow> fail_run dp job run e w1
      | (Inr summary, w1) \<Rightarrow>
          (case rx_bind (rx_now dp) (\<lambda>t. rx_lift RX_research (rr_succeed (rd_parses dp) (rd_iso dp t) run)) w1 of
             (Inl e, w2) \<Rightarrow> fail_run dp job run e w2
           | (Inr done, w2) \<Rightarrow>
               (case save_run (jb_tenant job) (jb_workspaceId job) done w2 of
                  (Inl e, w3) \<Rightarrow> fail_run dp job done e w3
                | (Inr _, w3) \<Rightarrow> (Inr summary, w3))))"

definition begin_run :: "research_deps \<Rightarrow> research_job \<Rightarrow> research_run research" where
  "begin_run dp job =
     rx_bind (rx_now dp) (\<lambda>t.
     rx_bind (rx_fresh dp ''request'') (\<lambda>q.
     rx_bind (rx_lift RX_research (rq_create (rd_parses dp)
         \<lparr>rq_id = q, rq_tenantId = jb_tenant job, rq_workspaceId = jb_workspaceId job, rq_missionId = Some (jb_missionId job),
          rq_queryHash = rd_queryHash dp (jb_icpProfileId job) (jb_territories job) (jb_maxResults job) (jb_objective job),
          rq_requestedAt = rd_iso dp t\<rparr>)) (\<lambda>request.
     rx_bind (rx_fresh dp ''run'') (\<lambda>r.
     rx_bind (rx_lift RX_research (rr_create r (jb_tenant job) (jb_workspaceId job) (rq_id request))) (\<lambda>pending.
     rx_bind (rx_lift RX_research (rr_start (rd_parses dp) (rd_iso dp t) pending)) (\<lambda>running.
     rx_bind (save_request (jb_tenant job) (jb_workspaceId job) request) (\<lambda>_.
     rx_bind (save_run (jb_tenant job) (jb_workspaceId job) running) (\<lambda>_. rx_return running))))))))"

definition run_research :: "research_deps \<Rightarrow> research_job \<Rightarrow> research_summary research" where
  "run_research dp job =
     rx_bind (rx_now dp) (\<lambda>now.
     rx_bind (rx_get (\<lambda>w. ip_findById now (jb_tenant job) (jb_workspaceId job) (jb_icpProfileId job) (rw_icps w))) (\<lambda>profile.
     case profile of
       None \<Rightarrow> rx_throw RX_noProfile
     | Some p \<Rightarrow>
         (case selectProvider dp of
            None \<Rightarrow> rx_throw RX_noProvider
          | Some pv \<Rightarrow>
              rx_bind (begin_run dp job) (\<lambda>run.
              finish_run dp job run (research_body dp job pv p (rr_requestId run) (rr_id run))))))"

subsection \<open>Contract: what every operation of the engine keeps\<close>

text \<open>
  \<open>R\<close> relates a world to the world after an operation. Whatever is reflexive, transitive and holds of each
  single write holds of every operation of the body, by composition.
\<close>

definition keeps :: "(research_world \<Rightarrow> research_world \<Rightarrow> bool) \<Rightarrow> 'a research \<Rightarrow> bool" where
  "keeps R m \<longleftrightarrow> (\<forall>w. R w (snd (m w)))"

lemma keepsD: "keeps R m \<Longrightarrow> m w = (r, w') \<Longrightarrow> R w w'"
  unfolding keeps_def by (metis snd_conv)

lemmas engine_steps = discoverAccounts_def getCompanyIntelligence_def discoverContacts_def enrichContact_def detected_signals_def
  createEvidence_def new_evidence_def publish_account_def publish_contact_def publish_lead_def new_account_def processAccount_def
  process_contact_def processContacts_def signal_evidence_def detect_signal_def detectSignalsForAccount_def evaluateLead_def
  research_account_def research_body_def

locale engine_frame =
  fixes R :: "research_world \<Rightarrow> research_world \<Rightarrow> bool"
  assumes R_refl: "R w w"
    and R_trans: "R u v \<Longrightarrow> R v w \<Longrightarrow> R u w"
    and R_tick: "R w (w\<lparr>rw_tick := Suc (rw_tick w)\<rparr>)"
    and R_log: "R w (w\<lparr>rw_audit := entries\<rparr>)" "R w (w\<lparr>rw_events := events\<rparr>)" "R w (w\<lparr>rw_rate := rate\<rparr>)" "R w (w\<lparr>rw_cache := cache\<rparr>)"
    and R_rows: "R w (w\<lparr>rw_accounts := accounts\<rparr>)" "R w (w\<lparr>rw_contacts := contacts\<rparr>)" "R w (w\<lparr>rw_leads := leads\<rparr>)"
      "R w (w\<lparr>rw_evidence := evidence\<rparr>)"
    and R_signals: "sig_save tenant ws s (rw_signals w) = Inr (t, rows) \<Longrightarrow> R w (w\<lparr>rw_signals := rows\<rparr>)"
begin

lemma keeps_bind: "keeps R m \<Longrightarrow> (\<And>x. keeps R (f x)) \<Longrightarrow> keeps R (rx_bind m f)"
  unfolding keeps_def rx_bind_def by (auto split: prod.split sum.split) (metis R_trans snd_conv)+

lemma keeps_basic: "keeps R (rx_return x)" "keeps R (rx_throw e)" "keeps R (rx_get g)" "keeps R rx_tick" "keeps R (rx_lift wrap r)"
  by (auto simp: keeps_def rx_return_def rx_throw_def rx_get_def rx_tick_def rx_lift_def R_refl R_tick split: sum.split)

lemma keeps_collect: "(\<And>x. keeps R (f x)) \<Longrightarrow> keeps R (rx_collect f xs)"
  by (induction xs) (simp_all add: keeps_bind keeps_basic)

lemma keeps_cases:
  "keeps R a \<Longrightarrow> (\<And>x. keeps R (b x)) \<Longrightarrow> keeps R (case r of None \<Rightarrow> a | Some x \<Rightarrow> b x)"
  "keeps R a \<Longrightarrow> keeps R a' \<Longrightarrow> keeps R (if c then a else a')"
  "(\<And>t. keeps R (h t)) \<Longrightarrow> (\<And>s. keeps R (k s)) \<Longrightarrow> keeps R (case d of DateObj t \<Rightarrow> h t | DateText s \<Rightarrow> k s)"
  by (simp_all split: option.split js_date.split)

lemma keeps_put: "(\<And>w. R w (f w)) \<Longrightarrow> keeps R (rx_put f)"
  by (simp add: keeps_def rx_put_def)

lemma keeps_fresh: "keeps R (rx_fresh dp what)" "keeps R (rx_now dp)"
  by (simp_all add: rx_fresh_def rx_now_def keeps_bind keeps_basic)

lemma keeps_as:
  "keeps R (as_accounts v)" "keeps R (as_intelligence v)" "keeps R (as_contacts v)" "keeps R (as_enriched v)" "keeps R (as_signals v)"
  by (cases v; simp add: as_accounts_def as_intelligence_def as_contacts_def as_enriched_def as_signals_def keeps_basic)+

lemma keeps_saves:
  "keeps R (save_accounts tenant ws a)" "keeps R (save_contacts tenant ws c)" "keeps R (save_leads tenant l)"
  "keeps R (save_signals tenant ws s)" "keeps R (save_evidence tenant ws e)"
  by (auto simp: keeps_def save_accounts_def save_contacts_def save_leads_def save_signals_def save_evidence_def R_refl R_rows
      intro: R_signals split: sum.split prod.split)

lemma keeps_audit: "keeps R (record_audit action by res)" "keeps R (checkRateLimit tenant provider)"
  by (simp_all add: keeps_def record_audit_def rx_put_def checkRateLimit_def R_log)

lemmas keeps_rules = keeps_bind keeps_basic keeps_collect keeps_cases keeps_put keeps_fresh keeps_as keeps_saves keeps_audit R_log

lemma keeps_cached: "keeps R (cached_call dp tenant ws provider key audit_hit action call)"
  unfolding cached_call_def by (intro keeps_rules)

lemma keeps_signals: "keeps R (detectSignalsForAccount dp tenant a request run mission t)"
  unfolding engine_steps Let_def by (intro keeps_rules keeps_cached)

lemma keeps_body: "keeps R (research_body dp job pv profile request run)"
  unfolding engine_steps Let_def by (intro keeps_rules keeps_cached)

end

text \<open>The table of the runs is left alone and the ticks go on.\<close>

definition runs_kept :: "research_world \<Rightarrow> research_world \<Rightarrow> bool" where
  "runs_kept w w' \<longleftrightarrow> rw_runs w' = rw_runs w \<and> rw_tick w \<le> rw_tick w'"

interpretation runs: engine_frame runs_kept
  by unfold_locales (auto simp: runs_kept_def)

text \<open>Signals with a confidence or a relevance outside the unit interval are refused by the table.\<close>

definition signals_in_unit :: "research_world \<Rightarrow> bool" where
  "signals_in_unit w \<longleftrightarrow> list_all (\<lambda>s. in_unit (sg_confidence s) \<and> in_unit (sg_relevance s)) (rw_signals w)"

definition signals_kept :: "research_world \<Rightarrow> research_world \<Rightarrow> bool" where
  "signals_kept w w' \<longleftrightarrow> (signals_in_unit w \<longrightarrow> signals_in_unit w')"

lemma unit_range_in_unit: "unit_range v = in_unit v"
  by (cases v) (auto simp: unit_range_def in_unit_def)

lemma sig_save_in_unit:
  assumes "sig_save tenant ws s rows = Inr (t, rows')" and "list_all (\<lambda>s. in_unit (sg_confidence s) \<and> in_unit (sg_relevance s)) rows"
  shows "list_all (\<lambda>s. in_unit (sg_confidence s) \<and> in_unit (sg_relevance s)) rows'"
  using assms
  by (auto simp: sig_save_def owned_def ag_save_def Let_def sig_valid_def unit_range_in_unit list_all_iff ag_stored_def
      clearDomainEvents_def setVersion_def split: option.splits if_splits)

interpretation sigs: engine_frame signals_kept
  by unfold_locales (auto simp: signals_kept_def signals_in_unit_def dest: sig_save_in_unit)

subsection \<open>Every run is closed\<close>

text \<open>
  What the clock and the texts of dates have to do with it: ticks do not go back in time, the text of
  a date is a date, and texts are ordered as the dates (true of ISO texts of the years up to 9999).
\<close>

definition sound_time :: "research_deps \<Rightarrow> bool" where
  "sound_time dp \<longleftrightarrow> (\<forall>m n. m \<le> n \<longrightarrow> \<not> js_str_lt (rd_iso dp (rd_clock dp n)) (rd_iso dp (rd_clock dp m)))
     \<and> (\<forall>t. rd_iso dp t \<noteq> [] \<and> rd_parses dp (rd_iso dp t))"

definition new_run_ids :: "research_deps \<Rightarrow> research_run list \<Rightarrow> bool" where
  "new_run_ids dp rows \<longleftrightarrow> (\<forall>n. rd_fresh dp ''run'' n \<notin> rr_id ` set rows)"

text \<open>A run that was started and stored in the last row of the table, at some earlier tick.\<close>

definition open_run :: "research_deps \<Rightarrow> research_job \<Rightarrow> research_run list \<Rightarrow> research_run \<Rightarrow> nat \<Rightarrow> bool" where
  "open_run dp job rows run n \<longleftrightarrow> rr_tenantId run = jb_tenant job \<and> rr_workspaceId run = jb_workspaceId job
     \<and> rr_id run \<notin> rr_id ` set rows \<and> rr_status run = RR_RUNNING
     \<and> (\<exists>m\<le>n. rr_startedAt run = Some (rd_iso dp (rd_clock dp m)))"

lemmas rx_defs = rx_bind_def rx_lift_def rx_return_def rx_throw_def rx_get_def rx_tick_def rx_fresh_def rx_now_def

lemma save_run_last:
  assumes "rw_runs w = rows @ [r0]" and "rr_id r0 = rr_id r" and "rr_tenantId r0 = tenant" and "rr_workspaceId r0 = ws"
    and "rr_requestId r0 = rr_requestId r" and "rr_tenantId r = tenant" and "rr_workspaceId r = ws" and "rr_id r \<notin> rr_id ` set rows"
  shows "save_run tenant ws r w = (Inr (), w\<lparr>rw_runs := rows @ [r]\<rparr>)"
proof -
  have "map (\<lambda>x. if rr_id x = rr_id r \<and> rr_tenantId x = tenant \<and> rr_workspaceId x = ws then r\<lparr>rr_requestId := rr_requestId x\<rparr> else x) rows = rows"
    using assms(8) by (intro map_idI) (auto simp: image_iff)
  moreover have "r\<lparr>rr_requestId := rr_requestId r\<rparr> = r" by simp
  ultimately show ?thesis using assms by (simp add: save_run_def res_saveRun_def owned_def)
qed

lemma save_run_new:
  assumes "rr_id r \<notin> rr_id ` set (rw_runs w)" and "rr_tenantId r = tenant" and "rr_workspaceId r = ws"
  shows "save_run tenant ws r w = (Inr (), w\<lparr>rw_runs := rw_runs w @ [r]\<rparr>)"
  using assms by (auto simp: save_run_def res_saveRun_def owned_def list_ex_iff image_iff)

lemma begin_run_cases:
  assumes "begin_run dp job w = (r, w')" and "new_run_ids dp (rw_runs w)"
  shows "(\<exists>e. r = Inl e) \<and> rw_runs w' = rw_runs w
    \<or> (\<exists>run. r = Inr run \<and> rw_runs w' = rw_runs w @ [run] \<and> open_run dp job (rw_runs w) run (rw_tick w'))"
proof -
  let ?t = "rd_iso dp (rd_clock dp (rw_tick w))"
  let ?w = "w\<lparr>rw_tick := Suc (Suc (Suc (rw_tick w)))\<rparr>"
  show ?thesis
  proof (cases "(\<exists>e. r = Inl e) \<and> rw_runs w' = rw_runs w")
    case False
    then obtain run w1 where run: "save_run (jb_tenant job) (jb_workspaceId job) run w1 = (Inr (), w')" "r = Inr run"
        "rr_id run = rd_fresh dp ''run'' (Suc (Suc (rw_tick w)))" "rr_tenantId run = jb_tenant job"
        "rr_workspaceId run = jb_workspaceId job" "rr_status run = RR_RUNNING" "rr_startedAt run = Some ?t"
        "rw_runs w1 = rw_runs w" "rw_tick w1 = rw_tick ?w"
      using assms
      by (auto simp: begin_run_def rx_defs rq_create_def rr_create_def rr_start_def save_request_def res_saveRequest_def owned_def
          save_run_new new_run_ids_def split: sum.splits if_splits option.splits)
    have new: "rr_id run \<notin> rr_id ` set (rw_runs w)" using assms(2) run(3) by (simp add: new_run_ids_def)
    then have "w' = w1\<lparr>rw_runs := rw_runs w @ [run]\<rparr>" using run save_run_new [of run w1 "jb_tenant job" "jb_workspaceId job"] by simp
    then have "rw_runs w' = rw_runs w @ [run] \<and> open_run dp job (rw_runs w) run (rw_tick w')"
      using run new by (auto simp: open_run_def intro!: exI [of _ "rw_tick w"])
    then show ?thesis using run(2) by blast
  qed simp
qed

lemma not_precedes:
  assumes "sound_time dp" and "open_run dp job rows run m" and "m \<le> n"
  shows "\<not> precedes_start (rd_iso dp (rd_clock dp n)) run"
  using assms by (auto simp: sound_time_def open_run_def precedes_start_def)

lemma fail_run_closes:
  assumes "sound_time dp" and "open_run dp job rows run n" and "rw_runs w = rows @ [run]" and "n \<le> rw_tick w"
  shows "\<exists>failed. fst (fail_run dp job run e w) = Inl e \<and> rw_runs (snd (fail_run dp job run e w)) = rows @ [failed]
    \<and> rr_id failed = rr_id run \<and> rr_status failed = RR_FAILED"
proof -
  let ?t = "rd_iso dp (rd_clock dp (rw_tick w))" and ?w = "w\<lparr>rw_tick := Suc (rw_tick w)\<rparr>"
  let ?f = "run\<lparr>rr_status := RR_FAILED, rr_completedAt := Some ?t, rr_failureCode := Some ''RESEARCH_RUN_FAILED'',
    rr_failureMessage := Some ''Research run encountered an error during execution''\<rparr>"
  have "rr_fail (rd_parses dp) ''RESEARCH_RUN_FAILED'' ''Research run encountered an error during execution'' ?t run = Inr ?f"
    using assms(1,2) not_precedes [OF assms(1,2,4)]
    by (simp add: rr_fail_def validateIsoTimestamp_def sound_time_def open_run_def MAX_FAILURE_CODE_LENGTH_def MAX_FAILURE_MESSAGE_LENGTH_def)
  moreover have "save_run (jb_tenant job) (jb_workspaceId job) ?f ?w = (Inr (), ?w\<lparr>rw_runs := rows @ [?f]\<rparr>)"
    using assms(2,3) by (intro save_run_last [where ?r0.0 = run]) (simp_all add: open_run_def)
  ultimately show ?thesis by (simp add: fail_run_def rx_defs)
qed

lemma finish_run_closes:
  assumes "sound_time dp" and "open_run dp job rows run (rw_tick w)" and "rw_runs w = rows @ [run]" and "keeps runs_kept body"
    and "finish_run dp job run body w = (r, w')"
  shows "\<exists>row. rw_runs w' = rows @ [row] \<and> rr_id row = rr_id run
    \<and> rr_status row = (case r of Inl e \<Rightarrow> RR_FAILED | Inr s \<Rightarrow> RR_SUCCEEDED)"
proof -
  obtain b w1 where b: "body w = (b, w1)" by (rule prod.exhaust)
  then have w1: "rw_runs w1 = rows @ [run]" "rw_tick w \<le> rw_tick w1"
    using assms(3) keepsD [OF assms(4) b] by (auto simp: runs_kept_def)
  show ?thesis
  proof (cases b)
    case (Inl e)
    then show ?thesis using assms(5) b fail_run_closes [OF assms(1,2) w1, of e] by (auto simp: finish_run_def)
  next
    case (Inr s)
    let ?t = "rd_iso dp (rd_clock dp (rw_tick w1))" and ?w = "w1\<lparr>rw_tick := Suc (rw_tick w1)\<rparr>"
    let ?d = "run\<lparr>rr_status := RR_SUCCEEDED, rr_completedAt := Some ?t\<rparr>"
    have "rr_succeed (rd_parses dp) ?t run = Inr ?d"
      using assms(1,2) not_precedes [OF assms(1,2) w1(2)]
      by (simp add: rr_succeed_def validateIsoTimestamp_def sound_time_def open_run_def)
    moreover have "save_run (jb_tenant job) (jb_workspaceId job) ?d ?w = (Inr (), ?w\<lparr>rw_runs := rows @ [?d]\<rparr>)"
      using assms(2) w1(1) by (intro save_run_last [where ?r0.0 = run]) (simp_all add: open_run_def)
    ultimately show ?thesis using assms(5) b Inr by (auto simp: finish_run_def rx_defs)
  qed
qed

text \<open>
  (C28) A research run that was started is closed: with a clock whose texts parse and do not run backwards,
  run ids that are not in use, and a table of the runs that refuses a write only for its tenant or
  workspace, whatever the providers, the adapter and the lookups of duplicates answer the call leaves at
  most one new row in the table of the runs, which is SUCCEEDED when the call returned and FAILED when it
  threw; when there is no new row the call threw.
\<close>

theorem research_run_is_closed:
  assumes "sound_time dp" and "new_run_ids dp (rw_runs w)" and "run_research dp job w = (r, w')"
  shows "(\<exists>e. r = Inl e) \<and> rw_runs w' = rw_runs w
    \<or> (\<exists>row. rw_runs w' = rw_runs w @ [row] \<and> rr_status row = (case r of Inl e \<Rightarrow> RR_FAILED | Inr s \<Rightarrow> RR_SUCCEEDED))"
proof -
  let ?w = "w\<lparr>rw_tick := Suc (rw_tick w)\<rparr>"
  show ?thesis
  proof (cases "ip_findById (rd_clock dp (rw_tick w)) (jb_tenant job) (jb_workspaceId job) (jb_icpProfileId job) (rw_icps w) = None
      \<or> selectProvider dp = None")
    case True
    then show ?thesis using assms(3) by (auto simp: run_research_def rx_defs split: option.splits)
  next
    case False
    then obtain p pv where p: "ip_findById (rd_clock dp (rw_tick w)) (jb_tenant job) (jb_workspaceId job) (jb_icpProfileId job) (rw_icps w) = Some p"
        "selectProvider dp = Some pv" by auto
    obtain b w1 where b: "begin_run dp job ?w = (b, w1)" by (rule prod.exhaust)
    from begin_run_cases [OF b] assms(2) consider e where "b = Inl e" "rw_runs w1 = rw_runs w"
      | run where "b = Inr run" "rw_runs w1 = rw_runs w @ [run]" "open_run dp job (rw_runs w) run (rw_tick w1)"
      by auto
    then show ?thesis
    proof cases
      case 1
      then show ?thesis using assms(3) b by (auto simp: run_research_def rx_defs p)
    next
      case 2
      then have "finish_run dp job run (research_body dp job pv p (rr_requestId run) (rr_id run)) w1 = (r, w')"
        using assms(3) b by (simp add: run_research_def rx_defs p)
      from finish_run_closes [OF assms(1) 2(3,2) runs.keeps_body this] show ?thesis by blast
    qed
  qed
qed

definition sample_provider :: research_provider where
  "sample_provider = \<lparr>pv_providerId = ''stub'', pv_discoverAccounts = (\<lambda>n q. Inl ''unavailable''),
     pv_getCompanyIntelligence = (\<lambda>n i. Inl ''unavailable''), pv_discoverContacts = (\<lambda>n i. Inr []),
     pv_enrichContact = (\<lambda>n c. Inl ''unavailable''), pv_detectSignals = (\<lambda>n i. Inr [])\<rparr>"

definition sample_deps :: research_deps where
  "sample_deps = \<lparr>rd_providers = [sample_provider], rd_findDuplicateAccount = (\<lambda>n c. Inr None), rd_findDuplicateContact = (\<lambda>n c. Inr None),
     rd_fresh = (\<lambda>what n. what @ show_nat n), rd_clock = int, rd_iso = (\<lambda>t. ''2026-01-01T00:00:00.000Z''), rd_parses = (\<lambda>s. True),
     rd_queryHash = (\<lambda>p ts n g. ''hash''), rd_fingerprint = (\<lambda>k v s. ''print''), rd_jsonText = (\<lambda>v. ''{}''), rd_numText = (\<lambda>n. ''0'')\<rparr>"

definition sample_job :: research_job where
  "sample_job = \<lparr>jb_tenant = ''t'', jb_missionId = ''m'', jb_workspaceId = ''w'', jb_icpProfileId = ''icp'', jb_objective = ''leads'',
     jb_territories = None, jb_maxResults = None\<rparr>"

definition sample_world :: research_world where
  "sample_world = \<lparr>rw_icps = [sample_icp_row], rw_accounts = [], rw_contacts = [], rw_leads = [], rw_signals = [], rw_evidence = [],
     rw_requests = [], rw_runs = [], rw_cache = [], rw_rate = \<lparr>rs_usage = [], rs_quota = []\<rparr>, rw_audit = [], rw_events = [], rw_tick = 0\<rparr>"

lemma sample_time: "sound_time sample_deps"
  by (simp add: sound_time_def sample_deps_def js_str_lt_irrefl)

theorem research_run_is_closed_witness:
  "(\<exists>e. fst (run_research sample_deps sample_job sample_world) = Inl e)
   \<and> list_all (\<lambda>row. rr_status row = RR_FAILED) (rw_runs (snd (run_research sample_deps sample_job sample_world)))"
proof -
  obtain r w' where run: "run_research sample_deps sample_job sample_world = (r, w')" by (rule prod.exhaust)
  have profile: "ip_findById 0 ''t'' ''w'' ''icp'' [sample_icp_row] = Some (rowToICPProfile 0 sample_icp_row)"
    by (simp add: ip_findById_def ip_row_find_def ip_own_def sample_icp_row_def)
  have provider: "selectProvider sample_deps = Some sample_provider"
    by (simp add: selectProvider_def select_provider_def sample_deps_def js_at_def)
  obtain b w1 where b: "begin_run sample_deps sample_job (sample_world\<lparr>rw_tick := Suc 0\<rparr>) = (b, w1)" by (rule prod.exhaust)
  have started: "\<exists>r1. b = Inr r1 \<and> rw_cache w1 = []"
    using b by (auto simp: begin_run_def rx_defs rq_create_def validateOpaqueHash_def validateIsoTimestamp_def rr_create_def rr_start_def
        save_request_def res_saveRequest_def save_run_def res_saveRun_def owned_def sample_deps_def sample_job_def sample_world_def
        MAX_QUERY_HASH_LENGTH_def OPAQUE_HASH_PATTERN_def opaque_char_def Let_def)
  have fails: "\<exists>e. fst (research_body sample_deps sample_job sample_provider p q k w) = Inl e" if "rw_cache w = []" for p q k w
    using that by (auto simp: research_body_def discoverAccounts_def cached_call_def rx_defs cache_get_def checkRateLimit_def
        sample_provider_def)
  have "\<exists>e. r = Inl e"
  proof -
    obtain r1 where r1: "b = Inr r1" "rw_cache w1 = []" using started by blast
    let ?body = "research_body sample_deps sample_job sample_provider (rowToICPProfile 0 sample_icp_row) (rr_requestId r1) (rr_id r1)"
    obtain e w2 where w2: "?body w1 = (Inl e, w2)" using fails [OF r1(2)] by (metis prod.collapse)
    have clock: "rd_clock sample_deps 0 = 0" by (simp add: sample_deps_def)
    have "r = fst (fail_run sample_deps sample_job r1 e w2)"
      using run b r1 w2 profile provider
      by (auto simp: run_research_def rx_defs finish_run_def sample_world_def sample_job_def clock)
    then show ?thesis by (auto simp: fail_run_def rx_defs split: prod.split sum.split)
  qed
  moreover have "new_run_ids sample_deps (rw_runs sample_world)" by (simp add: new_run_ids_def sample_world_def)
  moreover have "rw_runs sample_world = []" by (simp add: sample_world_def)
  ultimately show ?thesis
    using research_run_is_closed [OF sample_time _ run] by (auto simp: run)
qed

lemma rx_bind_throws: "m w = (Inl e, w') \<Longrightarrow> rx_bind m f w = (Inl e, w')"
  by (simp add: rx_bind_def)

lemma rx_bind_now: "rx_bind (rx_now dp) f w = f (rd_clock dp (rw_tick w)) (w\<lparr>rw_tick := Suc (rw_tick w)\<rparr>)"
  by (simp add: rx_defs)

text \<open>
  A second look at the signals of an account fails: when the cache answers with the signals that an
  earlier call stored, their dates are texts, and every evaluation of a lead of that account throws, so
  the second contact of an account with a signal fails the whole run.
\<close>

theorem cached_signals_fail_evaluation:
  assumes "selectProvider dp = Some pv" and "rw_cache w = cache_set (via_json (rd_iso dp)) entry rows"
    and "kr_value entry = CV_signals (b # bs)" and "kr_queryHash entry = ''signals:'' @ aggId a" and "kr_tenant entry = tenant"
    and "kr_workspace entry = ac_workspaceId a" and "rd_clock dp (Suc (rw_tick w)) < kr_expiresAt entry"
  shows "\<exists>e w'. evaluateLead dp tenant a profile mission request run c w = (Inl e, w')"
proof -
  let ?key = "''signals:'' @ aggId a" and ?row = "entry\<lparr>kr_value := via_json (rd_iso dp) (kr_value entry)\<rparr>"
  let ?P = "\<lambda>r. kr_tenant r = tenant \<and> kr_queryHash r = ?key \<and> kr_workspace r = ac_workspaceId a
    \<and> rd_clock dp (Suc (rw_tick w)) < kr_expiresAt r"
  let ?same = "\<lambda>r. kr_tenant r = kr_tenant entry \<and> kr_queryHash r = kr_queryHash entry"
  have row: "?P ?row" using assms(4-7) by simp
  have "List.find ?P (map (\<lambda>r. if ?same r then ?row else r) rows) = Some ?row" if "list_ex ?same rows"
    using that row assms(4,5) by (induction rows) auto
  moreover have "List.find ?P (rows @ [?row]) = Some ?row" if "\<not> list_ex ?same rows"
    using that row assms(4,5) by (induction rows) auto
  ultimately have hit: "cache_get (rd_clock dp (Suc (rw_tick w))) tenant (ac_workspaceId a) ?key (rw_cache w) = Some ?row"
    unfolding cache_get_def assms(2) cache_set_def Let_def by simp
  obtain s ss where stored: "kr_value ?row = CV_signals (s # ss)" "\<exists>t. bs_observedAt s = DateText t"
    using assms(3) by (auto simp: json_date_def split: js_date.splits option.splits)
  have throws: "\<exists>e w'. detect_signal dp tenant a request run mission s v = (Inl e, w')" for v
    using stored(2) by (auto simp: detect_signal_def Let_def rx_bind_def rx_throw_def split: prod.split sum.split)
  have "\<exists>e w'. detectSignalsForAccount dp tenant a request run mission t (w\<lparr>rw_tick := Suc (rw_tick w)\<rparr>) = (Inl e, w')" for t
    using hit stored(1) throws [of "w\<lparr>rw_tick := Suc (Suc (rw_tick w))\<rparr>"]
    by (auto simp: detectSignalsForAccount_def assms(1) detected_signals_def cached_call_def as_signals_def rx_defs)
  then obtain e w' where "detectSignalsForAccount dp tenant a request run mission (rd_clock dp (rw_tick w))
      (w\<lparr>rw_tick := Suc (rw_tick w)\<rparr>) = (Inl e, w')" by blast
  then have "evaluateLead dp tenant a profile mission request run c w = (Inl e, w')"
    unfolding evaluateLead_def Let_def rx_bind_now by (rule rx_bind_throws)
  then show ?thesis by blast
qed

definition sample_signal :: buying_signal where
  "sample_signal = \<lparr>bs_signalId = ''s'', bs_signalType = ''Funding'', bs_observedSignal = ''raised'', bs_interpretedSignal = ''budget'',
     bs_observedAt = DateObj (Some 5), bs_source = ''news'', bs_confidence = Fin 1, bs_relevance = Fin 1\<rparr>"

definition sample_entry :: "cached_value cache_row" where
  "sample_entry = \<lparr>kr_tenant = ''t'', kr_queryHash = ''signals:a'', kr_workspace = ''w'', kr_value = CV_signals [sample_signal],
     kr_providerId = ''stub'', kr_cachedAt = 0, kr_expiresAt = 86400000\<rparr>"

theorem cached_signals_fail_evaluation_witness:
  "\<exists>e w'. evaluateLead sample_deps ''t'' sample_account sample_icp ''m'' ''q'' ''r'' sample_contact
     (sample_world\<lparr>rw_cache := cache_set (via_json (rd_iso sample_deps)) sample_entry []\<rparr>) = (Inl e, w')"
  by (rule cached_signals_fail_evaluation [where pv = sample_provider and entry = sample_entry and rows = "[]" and b = sample_signal
        and bs = "[]"])
    (simp_all add: selectProvider_def select_provider_def sample_deps_def js_at_def sample_entry_def sample_account_def ac_construct_def
      sample_world_def)

subsection \<open>The leads of a run are decided\<close>

lemma rx_bind_Inr: "rx_bind m f w = (Inr y, w') \<longleftrightarrow> (\<exists>x v. m w = (Inr x, v) \<and> f x v = (Inr y, w'))"
  by (auto simp: rx_bind_def split: prod.split sum.split)

lemma all_or_error_Inr: "all_or_error rs = Inr xs \<Longrightarrow> x \<in> set xs \<Longrightarrow> Inr x \<in> set rs"
proof (induction rs arbitrary: xs rule: all_or_error.induct)
  case (3 a rs)
  then show ?case by (cases "all_or_error rs") auto
qed auto

lemma re_construct_unit: "re_construct parses p = Inr e \<Longrightarrow> in_unit (re_confidence e)"
proof -
  assume "re_construct parses p = Inr e"
  then have "e = p" "validateFiniteInRange (re_confidence p) ''confidence'' = None"
    by (auto simp: re_construct_def first_error_None re_checks_def split: option.splits)
  then show ?thesis
    by (cases "re_confidence p") (auto simp: validateFiniteInRange_def split: if_splits)
qed

lemma found_evidence_unit:
  assumes "ev_findByAccount parses tenant ws i rows = Inr es"
  shows "list_all (\<lambda>e. in_unit (re_confidence e)) es"
  using all_or_error_Inr [OF assms [unfolded ev_findByAccount_def ev_findMany_def]]
  by (auto simp: list_all_iff rowToEvidence_def dest: re_construct_unit [OF sym])

lemma detected_signals_unit:
  assumes "detectSignalsForAccount dp tenant a request run mission t w = (Inr ss, w')" and "signals_in_unit w"
  shows "list_all (\<lambda>s. in_unit (sg_confidence s) \<and> in_unit (sg_relevance s)) ss"
proof (cases "selectProvider dp")
  case None
  then show ?thesis using assms(1) by (auto simp: detectSignalsForAccount_def rx_return_def)
next
  case (Some pv)
  have "signals_in_unit w'" using keepsD [OF sigs.keeps_signals assms(1)] assms(2) by (simp add: signals_kept_def)
  moreover have "set ss \<subseteq> set (rw_signals w')"
    using assms(1) Some
    by (auto simp: detectSignalsForAccount_def rx_bind_Inr rx_get_def rx_lift_def rx_return_def sig_findActiveByAccount_def)
  ultimately show ?thesis by (auto simp: signals_in_unit_def list_all_iff)
qed

lemma derived_filters:
  "list_all (\<lambda>hf. hf_filter hf \<in> set HARD_FILTER_CODES) (deriveHardFilterResults r)"
  "list_all hf_passed (deriveHardFilterResults (icp_score numText a p)) \<longleftrightarrow> is_passed (icp_score numText a p)"
  by (auto simp: deriveHardFilterResults_def list_all_iff reason_filter_def HARD_FILTER_CODES_def Let_def icp_score_def split: option.splits)

lemma range_finite: "in_unit v \<Longrightarrow> js_isFinite v \<and> js_le (Fin 0) v \<and> js_le v (Fin 1)"
  by (auto simp: in_unit_def)

text \<open>What a profile and an account need for an evaluation to be accepted.\<close>

definition scorable :: "account \<Rightarrow> icp_profile \<Rightarrow> bool" where
  "scorable a p \<longleftrightarrow> weights_non_negative (ip_scoringWeights p) \<and> list_all (\<lambda>c. non_negative (cr_weight c)) (ip_softCriteria p)
     \<and> js_isFinite (ip_qualificationThreshold p) \<and> js_isFinite (ip_reviewThreshold p)
     \<and> js_le (ip_reviewThreshold p) (ip_qualificationThreshold p)
     \<and> (case ac_employeeCount a of Some n \<Rightarrow> js_isFinite n | None \<Rightarrow> True)"

lemma scores_of_run_in_range:
  assumes "scorable a p" and "list_all (\<lambda>s. in_unit (sg_confidence s) \<and> in_unit (sg_relevance s)) ss"
    and "list_all (\<lambda>e. in_unit (re_confidence e)) es"
  shows "list_all (\<lambda>(key, v). in_unit v) (score_components (lead_scores_of dp a p ss es nowText))"
  unfolding lead_scores_of_def
  by (rule lead_scores_unit) (use assms in \<open>auto simp: scorable_def list_all_iff\<close>)

lemma research_evaluation_valid:
  assumes "scorable a p" and "list_all (\<lambda>s. in_unit (sg_confidence s) \<and> in_unit (sg_relevance s)) ss"
    and "list_all (\<lambda>e. in_unit (re_confidence e)) es"
  shows "valid_evaluation (research_evaluation dp a p ss es nowText t)"
proof -
  let ?s = "lead_scores_of dp a p ss es nowText"
  have "list_all (\<lambda>(key, v). js_isFinite v) (score_components ?s)" "in_unit (sc_overall ?s)"
    using scores_of_run_in_range [OF assms, of dp nowText] by (auto simp: score_components_def dest: range_finite)
  then show ?thesis using assms(1) derived_filters(1) range_finite [of "sc_overall ?s"]
    by (auto simp: valid_evaluation_def research_evaluation_def scorable_def list_all_iff split: option.splits)
qed

text \<open>What an accepted evaluation leaves on the lead.\<close>

lemma evaluate_accepted:
  assumes "ld_evaluate isoText inp corr ev now l = (Ok (), l')"
  shows "ld_status l' = outcome_status (fst (decide_outcome inp))" "ld_scores l' = ei_scores inp"
    "ld_qualificationSnapshot l' = Some (take_snapshot isoText inp (nullish (ei_evaluatedAt inp) 0) l)"
    "loadedVersion l' = loadedVersion l"
  using assms by (auto simp: ld_evaluate_def applyEvent_def Let_def split: if_splits option.splits prod.splits)

text \<open>
  (C29) A lead that the engine stores was evaluated: for a profile with finite ordered thresholds and
  weights that are not negative, an account whose count of employees is finite or unknown, and stored
  signals with confidences and relevances between 0 and 1, when \<open>evaluateLead\<close> returns, the lead is stored,
  carries the snapshot of its evaluation and is not pending, and it is qualified exactly when the account
  passes the hard filters of the profile and the overall score reaches its threshold.
\<close>

theorem research_leads_are_decided:
  assumes "evaluateLead dp tenant a p mission request run c w = (Inr l, w')" and "scorable a p" and "signals_in_unit w"
  shows "l \<in> set (rw_leads w') \<and> ld_status l \<noteq> LD_PENDING
    \<and> (\<exists>s. ld_qualificationSnapshot l = Some s \<and> qs_icpProfileVersionId s = ip_versionId p \<and> qs_scores s = ld_scores l)
    \<and> (ld_status l = LD_QUALIFIED \<longleftrightarrow>
         is_passed (icp_score (rd_numText dp) a p) \<and> js_le (ip_qualificationThreshold p) (sc_overall (ld_scores l)))"
proof -
  obtain ss w1 where ss: "detectSignalsForAccount dp tenant a request run mission (rd_clock dp (rw_tick w)) (w\<lparr>rw_tick := Suc (rw_tick w)\<rparr>)
      = (Inr ss, w1)"
    using assms(1) unfolding evaluateLead_def Let_def rx_bind_now by (auto simp: rx_bind_Inr)
  obtain es w2 where es: "ev_findByAccount (rd_parses dp) tenant (ac_workspaceId a) (aggId a) (rw_evidence w1) = Inr es"
    using assms(1) ss unfolding evaluateLead_def Let_def rx_bind_now
    by (auto simp: rx_bind_Inr rx_get_def rx_lift_def rx_return_def rx_throw_def split: sum.splits)
  have unit: "list_all (\<lambda>s. in_unit (sg_confidence s) \<and> in_unit (sg_relevance s)) ss" "list_all (\<lambda>e. in_unit (re_confidence e)) es"
    using detected_signals_unit [OF ss] found_evidence_unit [OF es] assms(3) by (simp_all add: signals_in_unit_def)
  obtain nowText corr ev t1 t2 w3 w4 k where save: "save_leads tenant (snd (ld_evaluate (rd_iso dp)
        (research_evaluation dp a p ss es nowText (rd_clock dp (rw_tick w))) corr ev t2
        (ld_create t1 (research_lead tenant a c p mission)))) w3 = (Inr k, w4)" and l: "publish_lead k w4 = (Inr l, w')"
    using assms(1) ss es unfolding evaluateLead_def Let_def rx_bind_now
    by (auto simp: rx_bind_Inr rx_get_def rx_lift_def rx_return_def rx_throw_def)
  let ?new = "ld_create t1 (research_lead tenant a c p mission)" and ?inp = "research_evaluation dp a p ss es nowText (rd_clock dp (rw_tick w))"
  let ?done = "snd (ld_evaluate (rd_iso dp) ?inp corr ev t2 ?new)"
  have fresh: "ld_status ?new = LD_PENDING" "ld_qualificationSnapshot ?new = None" "loadedVersion ?new = None"
    "ld_icpProfileVersionId ?new = ip_versionId p"
    by (simp_all add: ld_create_def ld_construct_def research_lead_def)
  have ok: "fst (ld_evaluate (rd_iso dp) ?inp corr ev t2 ?new) = Ok ()"
    using fresh(1,2) research_evaluation_valid [OF assms(2) unit] by (simp add: evaluate_ok_iff)
  have run: "ld_evaluate (rd_iso dp) ?inp corr ev t2 ?new = (Ok (), ?done)" using ok by (metis prod.collapse)
  have at_time: "nullish (ei_evaluatedAt ?inp) 0 = rd_clock dp (rw_tick w)" by (simp add: research_evaluation_def)
  note evaluated = evaluate_accepted [OF run, unfolded at_time fresh(3)]
  have stored: "l = ag_stored (version ?done) ?done" "l \<in> set (rw_leads w')"
    using save l evaluated(4)
    by (auto simp: save_leads_def lead_save_def ag_save_def ag_stored_def publish_lead_def rx_defs rx_put_def split: sum.splits if_splits option.splits)
  have same: "ld_status l = ld_status ?done" "ld_scores l = ld_scores ?done" "ld_qualificationSnapshot l = ld_qualificationSnapshot ?done"
    by (simp_all add: stored(1) ag_stored_def clearDomainEvents_def setVersion_def)
  have "ld_status l = LD_QUALIFIED \<longleftrightarrow> fst (decide_outcome ?inp) = QO_QUALIFIED" "ld_status l \<noteq> LD_PENDING"
    by (simp_all add: same evaluated(1) outcome_status_def split: qualification_outcome.splits)
  then show ?thesis using stored(2) evaluated(2,3) fresh(4) derived_filters(2) outcome_qualified_iff [of ?inp]
    by (auto simp: same take_snapshot_def research_evaluation_def split: prod.splits)
qed

definition quiet_deps :: research_deps where
  "quiet_deps = sample_deps\<lparr>rd_providers := []\<rparr>"

lemma sample_evaluation_runs:
  "\<exists>l w'. evaluateLead quiet_deps ''t'' sample_account sample_icp ''m'' ''q'' ''r'' sample_contact sample_world = (Inr l, w')"
proof -
  have none: "selectProvider quiet_deps = None"
    by (simp add: selectProvider_def select_provider_def quiet_deps_def js_at_def)
  have idle: "detectSignalsForAccount quiet_deps ''t'' a request run mission t w = (Inr [], w)" for a request run mission t w
    by (simp add: detectSignalsForAccount_def none rx_return_def)
  have no_evidence: "ev_findByAccount (rd_parses quiet_deps) ''t'' ws i [] = Inr []" for ws i
    by (simp add: ev_findByAccount_def ev_findMany_def)
  have new: "loadedVersion (snd (ld_evaluate isoText inp corr ev now l)) = loadedVersion l"
    "tenantId (snd (ld_evaluate isoText inp corr ev now l)) = tenantId l" for isoText inp corr ev now l
    by (auto simp: ld_evaluate_def applyEvent_def Let_def split: prod.splits option.splits)
  have born: "loadedVersion (ld_create t (research_lead ''t'' a c p m)) = None" "tenantId (ld_create t (research_lead ''t'' a c p m)) = ''t''"
    for t a c p m by (simp_all add: ld_create_def ld_construct_def research_lead_def)
  have saved: "\<exists>k rows. lead_save ''t'' l [] = Inr (k, rows)" if "loadedVersion l = None" "tenantId l = ''t''" for l
    using that by (simp add: lead_save_def ag_save_def)
  show ?thesis
    unfolding evaluateLead_def Let_def
    by (simp add: rx_defs idle no_evidence sample_world_def save_leads_def publish_lead_def rx_put_def split: prod.split sum.split)
      (metis saved new born sum.distinct(1))
qed

theorem research_leads_are_decided_witness:
  "\<exists>l w'. evaluateLead quiet_deps ''t'' sample_account sample_icp ''m'' ''q'' ''r'' sample_contact sample_world = (Inr l, w')
     \<and> l \<in> set (rw_leads w') \<and> ld_status l \<noteq> LD_PENDING"
proof -
  obtain l w' where run: "evaluateLead quiet_deps ''t'' sample_account sample_icp ''m'' ''q'' ''r'' sample_contact sample_world = (Inr l, w')"
    using sample_evaluation_runs by blast
  have "scorable sample_account sample_icp"
    by (simp add: scorable_def sample_account_def ac_construct_def sample_icp_def sample_icp_props_def ip_construct_def
        weights_non_negative_def)
  moreover have "signals_in_unit sample_world" by (simp add: signals_in_unit_def sample_world_def)
  ultimately show ?thesis using research_leads_are_decided [OF run] run by blast
qed

end
