(* ===== verification/Conversation.thy ===== *)
theory Conversation
  imports Aggregate
begin

section \<open>The conversation with a prospect\<close>

text \<open>
  \<open>packages/domain/src/conversation\<close>: the aggregate of the replies of one lead on one channel, its status
  table, its events, and the two predicates on a classification. An operation returns its result and the
  conversation after it, which some operations change before they fail.
\<close>

subsection \<open>Status, intent and action\<close>

datatype conv_status =
    CONV_PENDING | CONV_AWAITING_REPLY | CONV_CLASSIFIED | CONV_FOLLOW_UP_SCHEDULED | CONV_ESCALATED
  | CONV_DISQUALIFIED | CONV_OPTED_OUT | CONV_CLOSED | CONV_FAILED

fun CONVERSATION_STATE_TRANSITIONS :: "conv_status \<Rightarrow> conv_status list" where
  "CONVERSATION_STATE_TRANSITIONS CONV_PENDING = [CONV_AWAITING_REPLY, CONV_CLASSIFIED, CONV_OPTED_OUT, CONV_FAILED]"
| "CONVERSATION_STATE_TRANSITIONS CONV_AWAITING_REPLY = [CONV_CLASSIFIED, CONV_OPTED_OUT, CONV_FAILED]"
| "CONVERSATION_STATE_TRANSITIONS CONV_CLASSIFIED =
     [CONV_CLASSIFIED, CONV_FOLLOW_UP_SCHEDULED, CONV_ESCALATED, CONV_DISQUALIFIED, CONV_OPTED_OUT, CONV_CLOSED]"
| "CONVERSATION_STATE_TRANSITIONS CONV_FOLLOW_UP_SCHEDULED = [CONV_AWAITING_REPLY, CONV_ESCALATED, CONV_CLOSED, CONV_FAILED]"
| "CONVERSATION_STATE_TRANSITIONS CONV_ESCALATED = [CONV_CLOSED, CONV_FAILED]"
| "CONVERSATION_STATE_TRANSITIONS CONV_DISQUALIFIED = []"
| "CONVERSATION_STATE_TRANSITIONS CONV_OPTED_OUT = []"
| "CONVERSATION_STATE_TRANSITIONS CONV_CLOSED = []"
| "CONVERSATION_STATE_TRANSITIONS CONV_FAILED = []"

definition canTransitionConversation :: "conv_status \<Rightarrow> conv_status \<Rightarrow> bool" where
  "canTransitionConversation from to \<longleftrightarrow> to \<in> set (CONVERSATION_STATE_TRANSITIONS from)"

datatype reply_intent = RI_POSITIVE | RI_NEGATIVE | RI_QUESTION | RI_OPT_OUT | RI_MEETING_REQUEST | RI_UNCERTAIN

record intent_classification =
  cl_intent :: reply_intent
  cl_certainty :: jsnum
  cl_because :: string
  cl_references :: "string list option"

text \<open>The defaults of the two thresholds are 0.85 and 0.6.\<close>

definition isHighConfidence :: "jsnum \<Rightarrow> jsnum \<Rightarrow> bool" where
  "isHighConfidence confidence threshold \<longleftrightarrow> js_le threshold confidence"

definition requiresEscalation :: "reply_intent \<Rightarrow> jsnum \<Rightarrow> jsnum \<Rightarrow> bool" where
  "requiresEscalation intent confidence threshold \<longleftrightarrow> js_lt confidence threshold \<or> intent = RI_OPT_OUT"

datatype next_action = NA_FOLLOW_UP | NA_ESCALATE | NA_DISQUALIFY | NA_SCHEDULE_MEETING_DEFERRED | NA_CLOSE

record next_best_action =
  nb_actionType :: next_action
  nb_reason :: string
  nb_requiresApproval :: bool
  nb_suggestedFollowUp :: "string option"

record reply_message =
  rm_id :: string
  rm_providerMessageId :: string
  rm_channel :: string
  rm_content :: string
  rm_receivedAt :: int
  rm_messageIdHeader :: "string option"
  rm_sender :: "string option"
  rm_recipientAddress :: "string option"
  rm_subject :: "string option"
  rm_htmlBody :: "string option"
  rm_inReplyTo :: "string option"
  rm_references :: "string list option"

datatype close_disposition = CD_QUALIFIED | CD_DISQUALIFIED | CD_OPTED_OUT | CD_NO_ACTION

subsection \<open>Events and state\<close>

datatype conv_payload =
    ConversationStarted string string string "string option"
  | ReplyReceived string string string string string
  | IntentClassified string reply_intent jsnum string
  | FollowUpScheduled string next_action string
  | ConversationClosed string close_disposition string
  | OptOutRecorded string string string

record conv_props =
  vp_id :: string
  vp_tenantId :: string
  vp_workspaceId :: string
  vp_leadId :: string
  vp_channel :: string
  vp_recipientAddress :: "string option"
  vp_campaignId :: "string option"
  vp_sequenceId :: "string option"
  vp_executionId :: "string option"
  vp_status :: "conv_status option"
  vp_messages :: "reply_message list option"
  vp_latestIntent :: "reply_intent option"
  vp_latestConfidence :: "jsnum option"
  vp_nextAction :: "next_action option"
  vp_escalatedReason :: "string option"
  vp_optedOut :: "bool option"
  vp_createdAt :: "int option"
  vp_updatedAt :: "int option"

record conversation = "conv_payload domain_event aggregate_root" +
  cv_workspaceId :: string
  cv_leadId :: string
  cv_channel :: string
  cv_recipientAddress :: "string option"
  cv_campaignId :: "string option"
  cv_sequenceId :: "string option"
  cv_executionId :: "string option"
  cv_createdAt :: int
  cv_updatedAt :: int
  cv_status :: conv_status
  cv_messages :: "reply_message list"
  cv_latestIntent :: "reply_intent option"
  cv_latestConfidence :: "jsnum option"
  cv_nextAction :: "next_action option"
  cv_escalatedReason :: "string option"
  cv_optedOut :: bool

datatype conv_error =
    CvReplyOptedOut | CvActionOptedOut | CvClassifyState conv_status | CvTransition conv_status conv_status

definition cv_construct :: "int \<Rightarrow> conv_props \<Rightarrow> conversation" where
  "cv_construct now p =
     \<lparr>tenantId = vp_tenantId p, aggId = vp_id p, version = 0, loadedVersion = None, domainEvents = [],
      cv_workspaceId = vp_workspaceId p, cv_leadId = vp_leadId p, cv_channel = vp_channel p,
      cv_recipientAddress = vp_recipientAddress p, cv_campaignId = vp_campaignId p, cv_sequenceId = vp_sequenceId p,
      cv_executionId = vp_executionId p, cv_createdAt = nullish (vp_createdAt p) now, cv_updatedAt = nullish (vp_updatedAt p) now,
      cv_status = nullish (vp_status p) CONV_PENDING, cv_messages = nullish (vp_messages p) [],
      cv_latestIntent = vp_latestIntent p, cv_latestConfidence = vp_latestConfidence p, cv_nextAction = vp_nextAction p,
      cv_escalatedReason = vp_escalatedReason p, cv_optedOut = nullish (vp_optedOut p) False\<rparr>"

definition conv_event :: "string \<Rightarrow> int \<Rightarrow> string \<Rightarrow> string \<Rightarrow> conv_payload \<Rightarrow> conv_payload domain_event" where
  "conv_event ev now tenant corr pl =
     \<lparr>eventId = ev, occurredAt = now, evTenantId = tenant, correlationId = corr, producer = ''conversation'', payload = pl\<rparr>"

definition cv_create :: "conv_props \<Rightarrow> string \<Rightarrow> string \<Rightarrow> int \<Rightarrow> conversation" where
  "cv_create p corr ev now =
     applyEvent (conv_event ev now (vp_tenantId p) corr
       (ConversationStarted (vp_id p) (vp_leadId p) (vp_channel p) (vp_executionId p))) (cv_construct now p)"

definition cv_reconstitute :: "int \<Rightarrow> conv_props \<Rightarrow> nat \<Rightarrow> conversation" where
  "cv_reconstitute now p v = clearDomainEvents (setVersion v (cv_construct now p))"

subsection \<open>Operations\<close>

definition cv_transitionTo ::
    "conv_status \<Rightarrow> conv_payload domain_event \<Rightarrow> conversation \<Rightarrow> (unit, conv_error) result \<times> conversation" where
  "cv_transitionTo to event c =
     (if \<not> canTransitionConversation (cv_status c) to then (Fail (CvTransition (cv_status c) to), c)
      else (Ok (), applyEvent event (c\<lparr>cv_status := to\<rparr>)))"

definition asks_opt_out :: "string \<Rightarrow> bool" where
  "asks_opt_out content \<longleftrightarrow> js_includes (js_lower content) ''unsubscribe'' \<or> js_includes (js_lower content) ''opt out''"

text \<open>The result of the transition to \<open>OPTED_OUT\<close> is not looked at.\<close>

definition recordReply :: "reply_message \<Rightarrow> string \<Rightarrow> string \<Rightarrow> int \<Rightarrow> conversation \<Rightarrow> (unit, conv_error) result \<times> conversation" where
  "recordReply r corr ev now c =
     (if cv_optedOut c then (Fail CvReplyOptedOut, c)
      else if asks_opt_out (rm_content r)
      then let c1 = snd (cv_transitionTo CONV_OPTED_OUT
                      (conv_event ev now (tenantId c) corr (OptOutRecorded (aggId c) (cv_leadId c) (cv_channel c))) c)
           in (Ok (), c1\<lparr>cv_optedOut := True, cv_messages := cv_messages c1 @ [r], cv_updatedAt := now\<rparr>)
      else case cv_transitionTo CONV_CLASSIFIED (conv_event ev now (tenantId c) corr
                  (ReplyReceived (aggId c) (rm_id r) (rm_providerMessageId r) (rm_channel r) (take 200 (rm_content r)))) c of
          (Fail e, c1) \<Rightarrow> (Fail e, c1)
        | (Ok u, c1) \<Rightarrow> (Ok (), c1\<lparr>cv_messages := cv_messages c1 @ [r], cv_updatedAt := now\<rparr>))"

definition classifyIntent ::
    "intent_classification \<Rightarrow> string \<Rightarrow> string \<Rightarrow> int \<Rightarrow> conversation \<Rightarrow> (unit, conv_error) result \<times> conversation" where
  "classifyIntent k corr ev now c =
     (if cv_status c = CONV_OPTED_OUT \<or> cv_status c = CONV_DISQUALIFIED then (Fail (CvClassifyState (cv_status c)), c)
      else case cv_transitionTo CONV_CLASSIFIED (conv_event ev now (tenantId c) corr
                  (IntentClassified (aggId c) (cl_intent k) (cl_certainty k) (cl_because k))) c of
          (Fail e, c1) \<Rightarrow> (Fail e, c1)
        | (Ok u, c1) \<Rightarrow> (Ok (), c1\<lparr>cv_latestIntent := Some (cl_intent k), cv_latestConfidence := Some (cl_certainty k),
                                     cv_updatedAt := now\<rparr>))"

fun action_status :: "next_action \<Rightarrow> conv_status" where
  "action_status NA_FOLLOW_UP = CONV_FOLLOW_UP_SCHEDULED"
| "action_status NA_ESCALATE = CONV_ESCALATED"
| "action_status NA_DISQUALIFY = CONV_DISQUALIFIED"
| "action_status NA_CLOSE = CONV_CLOSED"
| "action_status NA_SCHEDULE_MEETING_DEFERRED = CONV_FOLLOW_UP_SCHEDULED"

definition decideAction :: "next_best_action \<Rightarrow> string \<Rightarrow> string \<Rightarrow> int \<Rightarrow> conversation \<Rightarrow> (unit, conv_error) result \<times> conversation" where
  "decideAction a corr ev now c =
     (if cv_optedOut c then (Fail CvActionOptedOut, c)
      else let c0 = (if nb_actionType a = NA_ESCALATE then c\<lparr>cv_escalatedReason := Some (nb_reason a)\<rparr> else c)
           in case cv_transitionTo (action_status (nb_actionType a)) (conv_event ev now (tenantId c) corr
                     (FollowUpScheduled (aggId c) (nb_actionType a) (nb_reason a))) c0 of
                (Fail e, c1) \<Rightarrow> (Fail e, c1)
              | (Ok u, c1) \<Rightarrow> (Ok (), c1\<lparr>cv_nextAction := Some (nb_actionType a), cv_updatedAt := now\<rparr>))"

definition cv_close ::
    "close_disposition \<Rightarrow> string \<Rightarrow> string \<Rightarrow> string \<Rightarrow> int \<Rightarrow> conversation \<Rightarrow> (unit, conv_error) result \<times> conversation" where
  "cv_close disposition reason corr ev now c =
     (case cv_transitionTo CONV_CLOSED (conv_event ev now (tenantId c) corr (ConversationClosed (aggId c) disposition reason)) c of
        (Fail e, c1) \<Rightarrow> (Fail e, c1)
      | (Ok u, c1) \<Rightarrow> (Ok (), c1\<lparr>cv_updatedAt := now\<rparr>))"

lemmas conv_op_defs = cv_transitionTo_def recordReply_def classifyIntent_def decideAction_def cv_close_def applyEvent_def Let_def

subsection \<open>Runs of calls\<close>

inductive conv_step :: "conversation \<Rightarrow> conversation \<Rightarrow> bool" where
  vs_reply: "conv_step c (snd (recordReply r corr ev now c))"
| vs_classify: "conv_step c (snd (classifyIntent k corr ev now c))"
| vs_decide: "conv_step c (snd (decideAction a corr ev now c))"
| vs_close: "conv_step c (snd (cv_close d reason corr ev now c))"

interpretation conv_life: lifecycle cv_status canTransitionConversation conv_step
proof unfold_locales
  fix a b assume "conv_step a b"
  then show "cv_status b = cv_status a \<or> canTransitionConversation (cv_status a) (cv_status b)"
    by cases (auto simp: conv_op_defs split: if_splits)
qed

interpretation conv_log: event_sourced root_of conv_step
proof unfold_locales
  fix a b assume "conv_step a b"
  then show "extends_log (root_of a) (root_of b)"
    by cases (auto simp: cv_transitionTo_def recordReply_def classifyIntent_def decideAction_def cv_close_def Let_def
        extends_log_def logs_def root_of_def applyEvent_def)
qed

subsection \<open>Opting out\<close>

text \<open>A reply that asks for it sets the flag in every status, also where the status cannot follow.\<close>

lemma opt_out_recorded:
  assumes "asks_opt_out (rm_content r)"
  shows "cv_optedOut (snd (recordReply r corr ev now c))"
  using assms by (auto simp: conv_op_defs)

lemma step_opt_out:
  assumes "conv_step a b" and "cv_optedOut a"
  shows "cv_optedOut b \<and> cv_messages b = cv_messages a \<and> cv_nextAction b = cv_nextAction a
    \<and> cv_escalatedReason b = cv_escalatedReason a"
  using assms by cases (auto simp: conv_op_defs)

lemma run_opt_out:
  assumes "conv_step\<^sup>*\<^sup>* a b" and "cv_optedOut a"
  shows "cv_optedOut b \<and> cv_messages b = cv_messages a \<and> cv_nextAction b = cv_nextAction a
    \<and> cv_escalatedReason b = cv_escalatedReason a"
  using assms by (induction rule: rtranclp_induct) (auto dest: step_opt_out)

text \<open>What the flag and the status have to do with each other: a conversation that is \<open>OPTED_OUT\<close> has opted out.\<close>

lemma step_status_flag:
  assumes "conv_step a b" and "cv_status a = CONV_OPTED_OUT \<longrightarrow> cv_optedOut a"
  shows "cv_status b = CONV_OPTED_OUT \<longrightarrow> cv_optedOut b"
  using assms
proof cases
  case (vs_decide x corr ev now)
  then show ?thesis using assms(2) by (cases "nb_actionType x") (auto simp: conv_op_defs)
qed (auto simp: conv_op_defs)

end
