(* ===== verification/ConversationHandling.thy ===== *)
theory ConversationHandling
  imports Conversation OutreachRepositories IntelligenceStores
begin

section \<open>Replies: from the message to the next action\<close>

text \<open>
  \<open>packages/conversation\<close>: the Postgres repository of conversations, the deterministic classifier, the policy
  of the next action, \<open>conversation-handling.service.ts\<close>, the agent executor around it, the helper that makes
  an opt-out durable, and the activity \<open>interpretReply\<close> of the worker, which composes them. The classifier and the scrubber of personal data are
  arguments of the service.
\<close>

subsection \<open>The repository\<close>

type_synonym conversation_table = "conv_props db_row list"

text \<open>A number as JSON keeps it: what is not finite is written as null.\<close>

definition json_number :: "jsnum option \<Rightarrow> jsnum option" where
  "json_number v = (case v of Some (Fin r) \<Rightarrow> Some (Fin r) | _ \<Rightarrow> None)"

definition cv_snapshot :: "conversation \<Rightarrow> conv_props" where
  "cv_snapshot c =
     \<lparr>vp_id = aggId c, vp_tenantId = tenantId c, vp_workspaceId = cv_workspaceId c, vp_leadId = cv_leadId c,
      vp_channel = cv_channel c, vp_recipientAddress = cv_recipientAddress c, vp_campaignId = cv_campaignId c,
      vp_sequenceId = cv_sequenceId c, vp_executionId = cv_executionId c, vp_status = Some (cv_status c),
      vp_messages = Some (cv_messages c), vp_latestIntent = cv_latestIntent c, vp_latestConfidence = json_number (cv_latestConfidence c),
      vp_nextAction = cv_nextAction c, vp_escalatedReason = cv_escalatedReason c, vp_optedOut = Some (cv_optedOut c),
      vp_createdAt = Some (cv_createdAt c), vp_updatedAt = Some (cv_updatedAt c)\<rparr>"

definition cv_restore :: "conv_props db_row \<Rightarrow> conversation" where
  "cv_restore r = cv_reconstitute 0
     ((row_payload r)\<lparr>vp_id := row_id r, vp_tenantId := row_tenant r, vp_workspaceId := nullish (row_workspace r) []\<rparr>) (row_version r)"

definition cv_load :: "tenant_context \<Rightarrow> conversation_table \<Rightarrow> string \<Rightarrow> conversation option" where
  "cv_load ctx rows i = map_option cv_restore (select_row (cx_tenantId ctx) (cx_workspaceId ctx) i rows)"

definition findByLeadAndChannel :: "tenant_context \<Rightarrow> conversation_table \<Rightarrow> string \<Rightarrow> string \<Rightarrow> conversation option" where
  "findByLeadAndChannel ctx rows lead channel =
     map_option cv_restore (List.find (\<lambda>r. row_tenant r = cx_tenantId ctx \<and> cx_workspaceId ctx \<noteq> None
        \<and> row_workspace r = cx_workspaceId ctx \<and> vp_leadId (row_payload r) = lead \<and> vp_channel (row_payload r) = channel) rows)"

definition cv_save :: "tenant_context \<Rightarrow> conversation \<Rightarrow> conversation_table \<Rightarrow> repo_error + conversation \<times> conversation_table" where
  "cv_save ctx c rows =
     (case guarded_save ctx (tenantId c) (cv_workspaceId c) (aggId c) (loadedVersion c) (cv_snapshot c) (version c) rows of
        Inl err \<Rightarrow> Inl err
      | Inr rows' \<Rightarrow> Inr (setVersion (version c) c, rows'))"

subsection \<open>Classification and policy\<close>

definition classified :: "reply_intent \<Rightarrow> rat \<Rightarrow> string \<Rightarrow> intent_classification" where
  "classified i c why = \<lparr>cl_intent = i, cl_certainty = Fin c, cl_because = why, cl_references = None\<rparr>"

definition deterministic_classify :: "string \<Rightarrow> intent_classification" where
  "deterministic_classify content =
     (let lower = js_lower content; has = (\<lambda>ws. list_ex (js_includes lower) ws) in
      if has [''unsubscribe'', ''opt out'', ''stop''] then classified RI_OPT_OUT (99/100) ''Explicit opt-out language detected''
      else if has [''meeting'', ''book a time'', ''calendar'']
      then classified RI_MEETING_REQUEST (92/100) ''Meeting scheduling language detected''
      else if has [''not interested'', ''no thanks'', ''wrong'', ''remove'']
      then classified RI_NEGATIVE (9/10) ''Negative/disqualifying language detected''
      else if has [''interested'', ''yes'', ''tell me more'', ''pricing'']
      then classified RI_POSITIVE (88/100) ''Positive engagement language detected''
      else if has [''?'', ''how'', ''what'', ''question''] then classified RI_QUESTION (82/100) ''Question language detected''
      else classified RI_UNCERTAIN (55/100) ''Unable to classify deterministically'')"

definition best_action :: "next_action \<Rightarrow> string \<Rightarrow> bool \<Rightarrow> string option \<Rightarrow> next_best_action" where
  "best_action a why approval follow =
     \<lparr>nb_actionType = a, nb_reason = why, nb_requiresApproval = approval, nb_suggestedFollowUp = follow\<rparr>"

definition policy_decide :: "conversation \<Rightarrow> jsnum \<Rightarrow> next_best_action" where
  "policy_decide c autonomyLevel =
     (let intent = cv_latestIntent c; confidence = nullish (cv_latestConfidence c) (Fin 0) in
      if intent = Some RI_OPT_OUT then best_action NA_CLOSE ''Prospect opted out'' False None
      else if requiresEscalation (nullish intent RI_UNCERTAIN) confidence (Fin (6/10))
      then best_action NA_ESCALATE ''Low confidence reply classification'' True None
      else if js_lt autonomyLevel (Fin 2) then best_action NA_ESCALATE ''Autonomy level requires human review'' True None
      else case intent of
        Some RI_MEETING_REQUEST \<Rightarrow> best_action NA_SCHEDULE_MEETING_DEFERRED
          ''Prospect requested a meeting; scheduling is deferred to a later phase'' True None
      | Some RI_POSITIVE \<Rightarrow> best_action NA_FOLLOW_UP ''Positive reply; continue nurture sequence'' False
          (Some ''Send a follow-up with more details'')
      | Some RI_NEGATIVE \<Rightarrow> best_action NA_DISQUALIFY ''Negative reply'' False None
      | Some RI_QUESTION \<Rightarrow> best_action NA_FOLLOW_UP ''Answer the question and continue'' False
          (Some ''Draft an answer to the question'')
      | _ \<Rightarrow> if \<not> isHighConfidence confidence (Fin (85/100))
             then best_action NA_ESCALATE ''Intent confidence below autonomous threshold'' True None
             else best_action NA_ESCALATE ''Unhandled intent'' True None)"

subsection \<open>The suppression table\<close>

record suppression_row =
  su_tenant :: string
  su_address :: string
  su_type :: string
  su_source :: string
  su_reason :: "string option"
  su_createdAt :: int

definition isSuppressed :: "string \<Rightarrow> string \<Rightarrow> suppression_row list \<Rightarrow> suppression_row option" where
  "isSuppressed tenant address rows = List.find (\<lambda>r. su_tenant r = tenant \<and> su_address r = address) rows"

text \<open>\<open>INSERT ... ON CONFLICT (tenant_id, email_address) DO UPDATE\<close>.\<close>

definition suppress ::
    "string \<Rightarrow> string \<Rightarrow> string \<Rightarrow> string \<Rightarrow> string option \<Rightarrow> int \<Rightarrow> suppression_row list \<Rightarrow> suppression_row list" where
  "suppress tenant address kind source reason now rows =
     (let row = \<lparr>su_tenant = tenant, su_address = address, su_type = kind, su_source = source, su_reason = reason, su_createdAt = now\<rparr>;
          same = (\<lambda>r. su_tenant r = tenant \<and> su_address r = address)
      in if list_ex same rows then map (\<lambda>r. if same r then row else r) rows else rows @ [row])"

definition suppressions_of :: "string \<Rightarrow> suppression_row list \<Rightarrow> suppression_row list" where
  "suppressions_of tenant rows = filter (\<lambda>r. su_tenant r = tenant) rows"

subsection \<open>The service\<close>

record reply_event =
  re_leadId :: string
  re_channel :: string
  re_providerMessageId :: string
  re_content :: string
  re_receivedAt :: int
  re_campaignId :: "string option"
  re_sequenceId :: "string option"
  re_executionId :: "string option"
  re_messageIdHeader :: "string option"
  re_sender :: "string option"
  re_recipientAddress :: "string option"
  re_subject :: "string option"
  re_htmlBody :: "string option"
  re_inReplyTo :: "string option"
  re_references :: "string list option"

record conv_deps =
  kd_classify :: "string \<Rightarrow> string \<Rightarrow> string + intent_classification"
  kd_policy :: "conversation \<Rightarrow> jsnum \<Rightarrow> next_best_action"
  kd_scrub :: "string \<Rightarrow> string"

record conv_world =
  kw_conversations :: conversation_table
  kw_leads :: "lead list"
  kw_suppressed :: "suppression_row list"

datatype conv_exn =
    CX_repo repo_error | CX_lead store_error | CX_classifier string | CX_classify conv_error | CX_decide conv_error

record reply_result =
  hr_conversationId :: string
  hr_status :: conv_status
  hr_isOptOut :: bool

record act_result =
  ca_conversationId :: string
  ca_status :: conv_status
  ca_actionType :: "next_action option"
  ca_requiresApproval :: bool
  ca_reason :: string
  ca_leadStatusChanged :: bool

text \<open>The ids that the service draws in a call.\<close>

record call_ids =
  id_conversation :: string
  id_reply :: string
  id_event :: "nat \<Rightarrow> string"

definition new_conversation :: "tenant_context \<Rightarrow> call_ids \<Rightarrow> int \<Rightarrow> reply_event \<Rightarrow> conversation" where
  "new_conversation ctx ids now e =
     cv_create \<lparr>vp_id = id_conversation ids, vp_tenantId = cx_tenantId ctx, vp_workspaceId = nullish (cx_workspaceId ctx) [],
       vp_leadId = re_leadId e, vp_channel = re_channel e, vp_recipientAddress = None, vp_campaignId = re_campaignId e,
       vp_sequenceId = re_sequenceId e, vp_executionId = re_executionId e, vp_status = None, vp_messages = None,
       vp_latestIntent = None, vp_latestConfidence = None, vp_nextAction = None, vp_escalatedReason = None, vp_optedOut = None,
       vp_createdAt = None, vp_updatedAt = None\<rparr> (cx_correlationId ctx) (id_event ids 0) now"

definition reply_of :: "conv_deps \<Rightarrow> call_ids \<Rightarrow> reply_event \<Rightarrow> reply_message" where
  "reply_of dp ids e =
     \<lparr>rm_id = id_reply ids, rm_providerMessageId = re_providerMessageId e, rm_channel = re_channel e,
      rm_content = kd_scrub dp (re_content e), rm_receivedAt = re_receivedAt e, rm_messageIdHeader = re_messageIdHeader e,
      rm_sender = None, rm_recipientAddress = None,
      rm_subject = (if truthy (re_subject e) then map_option (kd_scrub dp) (re_subject e) else re_subject e),
      rm_htmlBody = re_htmlBody e, rm_inReplyTo = re_inReplyTo e, rm_references = re_references e\<rparr>"

text \<open>The result of \<open>recordReply\<close> is not looked at.\<close>

definition handleReply ::
    "conv_deps \<Rightarrow> tenant_context \<Rightarrow> call_ids \<Rightarrow> int \<Rightarrow> reply_event \<Rightarrow> conv_world \<Rightarrow> (conv_exn + reply_result) \<times> conv_world" where
  "handleReply dp ctx ids now e w =
     (let c = (case findByLeadAndChannel ctx (kw_conversations w) (re_leadId e) (re_channel e) of
                 Some c \<Rightarrow> c | None \<Rightarrow> new_conversation ctx ids now e);
          c1 = snd (recordReply (reply_of dp ids e) (cx_correlationId ctx) (id_event ids 1) now c)
      in case cv_save ctx c1 (kw_conversations w) of
           Inl err \<Rightarrow> (Inl (CX_repo err), w)
         | Inr (c2, rows) \<Rightarrow>
             (Inr \<lparr>hr_conversationId = aggId c2, hr_status = cv_status c2, hr_isOptOut = cv_optedOut c2\<rparr>,
              w\<lparr>kw_conversations := rows\<rparr>))"

definition updateLeadStatus ::
    "tenant_context \<Rightarrow> string \<Rightarrow> bool \<Rightarrow> string \<Rightarrow> string \<Rightarrow> int \<Rightarrow> lead list \<Rightarrow> conv_exn + bool \<times> lead list" where
  "updateLeadStatus ctx leadId qualified reason ev now leads =
     (case lead_load (cx_tenantId ctx) leadId leads of
        None \<Rightarrow> Inr (False, leads)
      | Some l \<Rightarrow>
          (case recordConversationOutcome qualified reason (cx_correlationId ctx) ev now l of
             (Fail e, l1) \<Rightarrow> Inr (False, leads)
           | (Ok u, l1) \<Rightarrow>
               (case lead_save (cx_tenantId ctx) l1 leads of
                  Inl err \<Rightarrow> Inl (CX_lead err)
                | Inr (l2, rows) \<Rightarrow> Inr (True, rows))))"

text \<open>The content of the last message, or nothing.\<close>

definition latest_content :: "conversation \<Rightarrow> string" where
  "latest_content c = (if cv_messages c = [] then [] else rm_content (last (cv_messages c)))"

definition ensure_intent ::
    "conv_deps \<Rightarrow> tenant_context \<Rightarrow> call_ids \<Rightarrow> int \<Rightarrow> conversation \<Rightarrow> conv_exn + conversation" where
  "ensure_intent dp ctx ids now c =
     (if cv_latestIntent c \<noteq> None then Inr c
      else case kd_classify dp (latest_content c) (cv_channel c) of
          Inl err \<Rightarrow> Inl (CX_classifier err)
        | Inr k \<Rightarrow>
            (case classifyIntent k (cx_correlationId ctx) (id_event ids 2) now c of
               (Fail e, c1) \<Rightarrow> Inl (CX_classify e)
             | (Ok u, c1) \<Rightarrow> Inr c1))"

text \<open>What an action that was decided does to the lead and to the conversation.\<close>

definition act_on ::
    "tenant_context \<Rightarrow> call_ids \<Rightarrow> int \<Rightarrow> next_best_action \<Rightarrow> conversation \<Rightarrow> lead list
     \<Rightarrow> conv_exn + bool \<times> conversation \<times> lead list" where
  "act_on ctx ids now a c leads =
     (if nb_actionType a = NA_DISQUALIFY \<or> cv_optedOut c
      then (case updateLeadStatus ctx (cv_leadId c) False (nb_reason a) (id_event ids 4) now leads of
              Inl err \<Rightarrow> Inl err
            | Inr (changed, rows) \<Rightarrow>
                Inr (changed,
                  if cv_status c \<noteq> CONV_OPTED_OUT
                  then snd (cv_close CD_DISQUALIFIED (nb_reason a) (cx_correlationId ctx) (id_event ids 5) now c) else c,
                  rows))
      else if (nb_actionType a = NA_SCHEDULE_MEETING_DEFERRED \<or> nb_actionType a = NA_FOLLOW_UP)
              \<and> (cv_latestIntent c = Some RI_POSITIVE \<or> cv_latestIntent c = Some RI_MEETING_REQUEST)
      then (case updateLeadStatus ctx (cv_leadId c) True ''Positive conversation outcome'' (id_event ids 4) now leads of
              Inl err \<Rightarrow> Inl err
            | Inr (changed, rows) \<Rightarrow> Inr (changed, c, rows))
      else Inr (False, c, leads))"

definition classifyAndAct ::
    "conv_deps \<Rightarrow> tenant_context \<Rightarrow> call_ids \<Rightarrow> int \<Rightarrow> conversation \<Rightarrow> jsnum \<Rightarrow> conv_world \<Rightarrow> (conv_exn + act_result) \<times> conv_world" where
  "classifyAndAct dp ctx ids now c autonomyLevel w =
     (if cv_optedOut c \<or> cv_status c = CONV_DISQUALIFIED \<or> cv_status c = CONV_CLOSED
      then (Inr \<lparr>ca_conversationId = aggId c, ca_status = cv_status c, ca_actionType = None, ca_requiresApproval = False,
                 ca_reason = ''Conversation already terminal'', ca_leadStatusChanged = False\<rparr>, w)
      else case ensure_intent dp ctx ids now c of
          Inl err \<Rightarrow> (Inl err, w)
        | Inr c1 \<Rightarrow>
            let a = kd_policy dp c1 autonomyLevel in
            (case decideAction a (cx_correlationId ctx) (id_event ids 3) now c1 of
               (Fail e, c2) \<Rightarrow> (Inl (CX_decide e), w)
             | (Ok u, c2) \<Rightarrow>
                 (case act_on ctx ids now a c2 (kw_leads w) of
                    Inl err \<Rightarrow> (Inl err, w)
                  | Inr (changed, c3, leads) \<Rightarrow>
                      (case cv_save ctx c3 (kw_conversations w) of
                         Inl err \<Rightarrow> (Inl (CX_repo err), w\<lparr>kw_leads := leads\<rparr>)
                       | Inr (c4, rows) \<Rightarrow>
                           (Inr \<lparr>ca_conversationId = aggId c4, ca_status = cv_status c4, ca_actionType = Some (nb_actionType a),
                                 ca_requiresApproval = nb_requiresApproval a, ca_reason = nb_reason a,
                                 ca_leadStatusChanged = changed\<rparr>,
                            w\<lparr>kw_leads := leads, kw_conversations := rows\<rparr>)))))"

subsection \<open>The callers of the service\<close>

definition persistReplyBasedOptOut :: "tenant_context \<Rightarrow> int \<Rightarrow> reply_event \<Rightarrow> conv_world \<Rightarrow> conv_world" where
  "persistReplyBasedOptOut ctx now e w =
     (if \<not> truthy (re_sender e) then w
      else w\<lparr>kw_suppressed := suppress (cx_tenantId ctx) (nullish (re_sender e) []) ''OPT_OUT'' ''conversation-reply-handler''
                                (Some ''Prospect opted out via reply'') now (kw_suppressed w)\<rparr>)"

record interpret_result =
  ir_completed :: bool
  ir_conversationId :: "string option"
  ir_actionType :: "next_action option"
  ir_requiresApproval :: "bool option"
  ir_reason :: "string option"

text \<open>\<open>wired\<close>: the worker was started with the two repositories that a durable opt-out needs.\<close>

definition interpretReply ::
    "conv_deps \<Rightarrow> bool \<Rightarrow> tenant_context \<Rightarrow> call_ids \<Rightarrow> int \<Rightarrow> reply_event \<Rightarrow> jsnum \<Rightarrow> conv_world
     \<Rightarrow> (conv_exn + interpret_result) \<times> conv_world" where
  "interpretReply dp wired ctx ids now e autonomyLevel w =
     (case handleReply dp ctx ids now e w of
        (Inl err, w1) \<Rightarrow> (Inl err, w1)
      | (Inr h, w1) \<Rightarrow>
          if hr_isOptOut h
          then (Inr \<lparr>ir_completed = True, ir_conversationId = Some (hr_conversationId h), ir_actionType = Some NA_CLOSE,
                     ir_requiresApproval = Some False, ir_reason = Some ''Prospect opted out''\<rparr>,
                if wired then persistReplyBasedOptOut ctx now e w1 else w1)
          else case cv_load ctx (kw_conversations w1) (hr_conversationId h) of
              None \<Rightarrow> (Inr \<lparr>ir_completed = False, ir_conversationId = None, ir_actionType = None, ir_requiresApproval = None,
                            ir_reason = Some ''Conversation not found after ingestion''\<rparr>, w1)
            | Some c \<Rightarrow>
                (case classifyAndAct dp ctx ids now c autonomyLevel w1 of
                   (Inl err, w2) \<Rightarrow> (Inl err, w2)
                 | (Inr a, w2) \<Rightarrow>
                     (Inr \<lparr>ir_completed = True, ir_conversationId = Some (ca_conversationId a), ir_actionType = ca_actionType a,
                           ir_requiresApproval = Some (ca_requiresApproval a), ir_reason = Some (ca_reason a)\<rparr>, w2)))"

text \<open>
  The executor: a task carries its target, which the branch of its type reads as a reply or as the id of a
  conversation and a level of autonomy. An exception becomes the summary of a failed execution.
\<close>

datatype conv_task = TK_handle_reply reply_event | TK_classify_and_act string "jsnum option" | TK_other string
datatype conv_outcome = CO_reply reply_result | CO_acted act_result
datatype conv_failure = CF_noWorkspace | CF_unsupported string | CF_notFound string | CF_threw conv_exn

definition conversation_execute ::
    "conv_deps \<Rightarrow> tenant_context \<Rightarrow> call_ids \<Rightarrow> int \<Rightarrow> conv_task \<Rightarrow> conv_world \<Rightarrow> (conv_failure + conv_outcome) \<times> conv_world" where
  "conversation_execute dp ctx ids now task w =
     (if \<not> truthy (cx_workspaceId ctx) then (Inl CF_noWorkspace, w)
      else case task of
          TK_handle_reply e \<Rightarrow>
            (case handleReply dp ctx ids now e w of
               (Inl err, w1) \<Rightarrow> (Inl (CF_threw err), w1) | (Inr r, w1) \<Rightarrow> (Inr (CO_reply r), w1))
        | TK_classify_and_act i level \<Rightarrow>
            (case cv_load ctx (kw_conversations w) i of
               None \<Rightarrow> (Inl (CF_notFound i), w)
             | Some c \<Rightarrow>
                 (case classifyAndAct dp ctx ids now c (nullish level (Fin 2)) w of
                    (Inl err, w1) \<Rightarrow> (Inl (CF_threw err), w1) | (Inr r, w1) \<Rightarrow> (Inr (CO_acted r), w1)))
        | TK_other kind \<Rightarrow> (Inl (CF_unsupported kind), w))"

subsection \<open>The repository is versioned\<close>

definition cv_save_rows :: "tenant_context \<Rightarrow> conversation \<Rightarrow> conversation_table \<Rightarrow> repo_error + conversation_table" where
  "cv_save_rows ctx c rows = map_sum id snd (cv_save ctx c rows)"

lemma cv_save_Inr:
  "cv_save ctx c rows = Inr (c', rows') \<Longrightarrow> c' = setVersion (version c) c \<and> tenantId c = cx_tenantId ctx
     \<and> cx_workspaceId ctx = Some (cv_workspaceId c)
     \<and> cas_write (cx_tenantId ctx) (cx_workspaceId ctx) (aggId c) (loadedVersion c) (cv_snapshot c) (version c) rows = Some rows'"
  by (auto simp: cv_save_def split: sum.splits dest!: guarded_save_Inr)

lemma cv_save_rows_Inr:
  "cv_save_rows ctx c rows = Inr rows' \<Longrightarrow> tenantId c = cx_tenantId ctx \<and> cx_workspaceId ctx \<noteq> None
     \<and> cas_write (cx_tenantId ctx) (cx_workspaceId ctx) (aggId c) (loadedVersion c) (cv_snapshot c) (version c) rows = Some rows'"
  by (cases "cv_save ctx c rows") (auto simp: cv_save_rows_def dest!: cv_save_Inr)

lemma cv_restore_root [simp]:
  "version (cv_restore r) = row_version r" "loadedVersion (cv_restore r) = Some (row_version r)"
  "aggId (cv_restore r) = row_id r" "tenantId (cv_restore r) = row_tenant r" "domainEvents (cv_restore r) = []"
  by (simp_all add: cv_restore_def cv_reconstitute_def cv_construct_def setVersion_def clearDomainEvents_def)

interpretation cv_repo: versioned_repository cv_load cv_save_rows version loadedVersion aggId keys_ok
proof unfold_locales
  fix s s' :: conversation_table and c :: tenant_context and a b :: conversation and v :: nat and i :: string
  assume k: "keys_ok s"
  {
    assume "cv_save_rows c a s = Inr s'"
    note w = cv_save_rows_Inr [OF this]
    note f = cas_write_select [OF k w [THEN conjunct2, THEN conjunct2]]
    show "keys_ok s'" using f(1) w by simp
    show "loadedVersion a = None \<Longrightarrow> cv_load c s (aggId a) = None" using f(3) w by (simp add: cv_load_def)
    show "loadedVersion a = Some v \<Longrightarrow> \<exists>b. cv_load c s (aggId a) = Some b \<and> version b = v"
      using f(4) [of v] w by (auto simp: cv_load_def)
    show "\<exists>b. cv_load c s' (aggId a) = Some b \<and> version b = version a" using f(2) w by (auto simp: cv_load_def)
    show "i \<noteq> aggId a \<Longrightarrow> cv_load c s' i = cv_load c s i" using f(5) w by (simp add: cv_load_def)
  }
  show "cv_load c s i = Some b \<Longrightarrow> loadedVersion b = Some (version b) \<and> aggId b = i"
    by (auto simp: cv_load_def row_is_def dest!: select_row_Some)
qed

text \<open>What a conversation is after it was stored and loaded again: itself, without events and with the confidence that JSON keeps.\<close>

definition cv_stored :: "conversation \<Rightarrow> conversation" where
  "cv_stored c = (clearDomainEvents (setVersion (version c) c))\<lparr>cv_latestConfidence := json_number (cv_latestConfidence c)\<rparr>"

lemma restore_snapshot:
  "cv_restore \<lparr>row_tenant = tenantId c, row_workspace = Some (cv_workspaceId c), row_id = aggId c, row_payload = cv_snapshot c,
     row_version = version c\<rparr> = cv_stored c"
  by (cases c) (simp add: cv_stored_def cv_restore_def cv_reconstitute_def cv_construct_def cv_snapshot_def setVersion_def clearDomainEvents_def)

lemma save_then_load:
  assumes "keys_ok rows" and "cv_save ctx c rows = Inr (c', rows')"
  shows "keys_ok rows' \<and> cv_load ctx rows' (aggId c) = Some (cv_stored c)"
proof -
  note w = cv_save_Inr [OF assms(2)]
  note f = cas_write_select [OF assms(1) w [THEN conjunct2, THEN conjunct2, THEN conjunct2]]
  obtain r where r: "select_row (cx_tenantId ctx) (cx_workspaceId ctx) (aggId c) rows' = Some r" "row_payload r = cv_snapshot c"
    "row_version r = version c" "row_tenant r = cx_tenantId ctx" "row_workspace r = cx_workspaceId ctx" "row_id r = aggId c"
    using f(2) w by auto
  have "r = \<lparr>row_tenant = tenantId c, row_workspace = Some (cv_workspaceId c), row_id = aggId c, row_payload = cv_snapshot c,
     row_version = version c\<rparr>" using r w by (cases r) auto
  then show ?thesis using f(1) w r(1) restore_snapshot [of c] by (simp add: cv_load_def)
qed

subsection \<open>Opt-outs\<close>

text \<open>A conversation found by lead and channel is a row of the context, loaded.\<close>

lemma found_row:
  assumes "findByLeadAndChannel ctx rows lead channel = Some c"
  shows "\<exists>r \<in> set rows. c = cv_restore r \<and> row_tenant r = cx_tenantId ctx \<and> row_workspace r = cx_workspaceId ctx"
  using assms by (auto simp: findByLeadAndChannel_def dest!: find_SomeD)

lemma handleReply_Inr:
  assumes "handleReply dp ctx ids now e w = (Inr h, w')"
  shows "\<exists>c c1 c2 rows. c1 = snd (recordReply (reply_of dp ids e) (cx_correlationId ctx) (id_event ids 1) now c)
    \<and> (findByLeadAndChannel ctx (kw_conversations w) (re_leadId e) (re_channel e) = Some c
       \<or> findByLeadAndChannel ctx (kw_conversations w) (re_leadId e) (re_channel e) = None \<and> c = new_conversation ctx ids now e)
    \<and> cv_save ctx c1 (kw_conversations w) = Inr (c2, rows) \<and> w' = w\<lparr>kw_conversations := rows\<rparr>
    \<and> h = \<lparr>hr_conversationId = aggId c1, hr_status = cv_status c1, hr_isOptOut = cv_optedOut c1\<rparr>"
proof -
  let ?f = "findByLeadAndChannel ctx (kw_conversations w) (re_leadId e) (re_channel e)"
  define c where "c = (case ?f of Some c \<Rightarrow> c | None \<Rightarrow> new_conversation ctx ids now e)"
  define c1 where "c1 = snd (recordReply (reply_of dp ids e) (cx_correlationId ctx) (id_event ids 1) now c)"
  note run = assms [unfolded handleReply_def Let_def, folded c_def, folded c1_def]
  obtain c2 rows where save: "cv_save ctx c1 (kw_conversations w) = Inr (c2, rows)"
    using run by (auto split: sum.splits)
  have "c2 = setVersion (version c1) c1" using cv_save_Inr [OF save] by simp
  then have "w' = w\<lparr>kw_conversations := rows\<rparr>"
    "h = \<lparr>hr_conversationId = aggId c1, hr_status = cv_status c1, hr_isOptOut = cv_optedOut c1\<rparr>"
    using run save by (simp_all add: setVersion_def)
  moreover have "?f = Some c \<or> ?f = None \<and> c = new_conversation ctx ids now e" by (cases ?f) (simp_all add: c_def)
  ultimately show ?thesis using save c1_def by blast
qed

lemma recordReply_root: "aggId (snd (recordReply r corr ev now c)) = aggId c" "tenantId (snd (recordReply r corr ev now c)) = tenantId c"
  "loadedVersion (snd (recordReply r corr ev now c)) = loadedVersion c"
  using extends_log_frame [OF conv_log.step_extends [OF vs_reply]] by (simp_all add: root_of_def)

lemma suppress_found: "isSuppressed t a (suppress t a k src why n rs) \<noteq> None"
proof -
  let ?row = "\<lparr>su_tenant = t, su_address = a, su_type = k, su_source = src, su_reason = why, su_createdAt = n\<rparr>"
  have "?row \<in> set (suppress t a k src why n rs)" by (force simp: suppress_def Let_def list_ex_iff)
  then show ?thesis unfolding isSuppressed_def find_None_iff
    by (metis (mono_tags, lifting) suppression_row.select_convs(1,2))
qed

text \<open>
  (C30) A reply that asks to opt out is honoured whatever the state of the conversation: when the activity
  \<open>interpretReply\<close> returns it answers CLOSE, the stored conversation has opted out and the leads are as
  before. With both repositories wired, a known sender and no execution id on the reply, where the code and
  its documentation agree on the address, the address of the sender is suppressed for the tenant.
\<close>

theorem opt_out_reply_is_durable:
  assumes "keys_ok (kw_conversations w)" and "interpretReply dp wired ctx ids now e level w = (Inr r, w')"
    and "asks_opt_out (kd_scrub dp (re_content e))"
  shows "ir_actionType r = Some NA_CLOSE \<and> kw_leads w' = kw_leads w
    \<and> (\<exists>i c. ir_conversationId r = Some i \<and> cv_load ctx (kw_conversations w') i = Some c \<and> cv_optedOut c)
    \<and> (wired \<and> re_executionId e = None \<and> re_sender e = Some s \<and> s \<noteq> []
        \<longrightarrow> isSuppressed (cx_tenantId ctx) s (kw_suppressed w') \<noteq> None)"
proof -
  obtain h w1 where h: "handleReply dp ctx ids now e w = (Inr h, w1)"
    using assms(2) by (auto simp: interpretReply_def split: prod.splits sum.splits)
  obtain c c1 c2 rows where c1: "c1 = snd (recordReply (reply_of dp ids e) (cx_correlationId ctx) (id_event ids 1) now c)"
    and save: "cv_save ctx c1 (kw_conversations w) = Inr (c2, rows)" and w1: "w1 = w\<lparr>kw_conversations := rows\<rparr>"
    and res: "h = \<lparr>hr_conversationId = aggId c1, hr_status = cv_status c1, hr_isOptOut = cv_optedOut c1\<rparr>"
    using handleReply_Inr [OF h] by blast
  have opted: "cv_optedOut c1" using opt_out_recorded [of "reply_of dp ids e"] assms(3) c1 by (simp add: reply_of_def)
  have loaded: "cv_load ctx rows (aggId c1) = Some (cv_stored c1)"
    using save_then_load [OF assms(1) save] by simp
  have sup: "isSuppressed t a (suppress t a k src why n rs) \<noteq> None" for t a k src why n rs
    using suppress_found .
  show ?thesis using assms(2) h res w1 opted loaded sup
    by (auto simp: interpretReply_def persistReplyBasedOptOut_def cv_stored_def clearDomainEvents_def setVersion_def)
qed

text \<open>A stored conversation that has opted out, read as it is loaded.\<close>

definition stored_opt_out :: "conversation \<Rightarrow> conversation_table \<Rightarrow> bool" where
  "stored_opt_out c rows \<longleftrightarrow> (\<exists>r \<in> set rows. cv_restore r = c) \<and> cv_optedOut c \<and> json_number (cv_latestConfidence c) = cv_latestConfidence c"

lemma save_keeps_opt_out:
  assumes "cv_save ctx d rows = Inr (d', rows')" and "stored_opt_out c rows"
    and "tenantId d = tenantId c \<Longrightarrow> aggId d = aggId c \<Longrightarrow> loadedVersion d \<noteq> None \<Longrightarrow> d = c"
  shows "stored_opt_out c rows'"
proof -
  obtain r where r: "r \<in> set rows" "cv_restore r = c" and c: "cv_optedOut c" "json_number (cv_latestConfidence c) = cv_latestConfidence c"
    using assms(2) by (auto simp: stored_opt_out_def)
  have root: "row_tenant r = tenantId c" "row_id r = aggId c" "loadedVersion c = Some (version c)" "domainEvents c = []"
    unfolding r(2) [symmetric] by simp_all
  note w = cv_save_Inr [OF assms(1)]
  have "\<exists>r' \<in> set rows'. cv_restore r' = c"
  proof (cases "loadedVersion d")
    case None
    then have "r \<in> set rows'" using w r(1) by (auto simp: cas_write_def insert_row_def split: if_splits)
    then show ?thesis using r(2) by blast
  next
    case (Some l)
    define hit where "hit = (\<lambda>x :: conv_props db_row. row_is (cx_tenantId ctx) (cx_workspaceId ctx) (aggId d) x \<and> row_version x = l)"
    have rows': "rows' = map (\<lambda>x. if hit x then x\<lparr>row_payload := cv_snapshot d, row_version := version d\<rparr> else x) rows"
      using w Some by (auto simp: cas_write_def update_row_def hit_def split: if_splits)
    let ?r = "if hit r then r\<lparr>row_payload := cv_snapshot d, row_version := version d\<rparr> else r"
    have "cv_restore ?r = c"
    proof (cases "hit r")
      case True
      then have "tenantId d = tenantId c" "aggId d = aggId c" using w root(1,2) by (simp_all add: hit_def row_is_def)
      then have d: "d = c" using assms(3) Some by blast
      have "row_workspace r = Some (cv_workspaceId c)" using True w d by (simp add: hit_def row_is_def)
      then have "?r = \<lparr>row_tenant = tenantId c, row_workspace = Some (cv_workspaceId c), row_id = aggId c, row_payload = cv_snapshot c,
          row_version = version c\<rparr>"
        using True root(1,2) d by (cases r) simp
      then have "cv_restore ?r = cv_stored c" by (simp only: restore_snapshot)
      also have "\<dots> = c" using c(2) root(3,4) by (cases c) (simp add: cv_stored_def clearDomainEvents_def setVersion_def)
      finally show ?thesis .
    qed (simp add: r(2))
    moreover have "?r \<in> set rows'" using r(1) rows' by auto
    ultimately show ?thesis by blast
  qed
  then show ?thesis using c by (simp add: stored_opt_out_def)
qed

text \<open>A conversation of the table, read as the row it is.\<close>

lemma row_of_opt_out:
  assumes "keys_ok rows" and "stored_opt_out c rows" and "r \<in> set rows" and "row_tenant r = tenantId c" and "row_id r = aggId c"
  shows "cv_restore r = c"
proof -
  obtain r' where r': "r' \<in> set rows" "cv_restore r' = c" using assms(2) by (auto simp: stored_opt_out_def)
  then have "row_tenant r' = tenantId c" "row_id r' = aggId c" by (simp_all flip: r'(2))
  then have "r = r'" using assms(1,3-5) r'(1) unfolding keys_ok_def by (metis (mono_tags, lifting) distinct_map inj_onD)
  then show ?thesis using r'(2) by simp
qed

lemma handleReply_keeps_opt_out:
  assumes "keys_ok (kw_conversations w)" and "stored_opt_out k (kw_conversations w)"
    and "handleReply dp ctx ids now e w = (r, w')"
  shows "keys_ok (kw_conversations w') \<and> stored_opt_out k (kw_conversations w')"
proof (cases r)
  case (Inl err)
  then show ?thesis using assms by (auto simp: handleReply_def Let_def split: sum.splits)
next
  case (Inr h)
  obtain c c1 c2 rows where c1: "c1 = snd (recordReply (reply_of dp ids e) (cx_correlationId ctx) (id_event ids 1) now c)"
    and c: "findByLeadAndChannel ctx (kw_conversations w) (re_leadId e) (re_channel e) = Some c \<or> c = new_conversation ctx ids now e"
    and save: "cv_save ctx c1 (kw_conversations w) = Inr (c2, rows)" and w': "w' = w\<lparr>kw_conversations := rows\<rparr>"
    using handleReply_Inr [OF assms(3) [unfolded Inr]] by blast
  have "c1 = k" if t: "tenantId c1 = tenantId k" "aggId c1 = aggId k" "loadedVersion c1 \<noteq> None"
  proof -
    have "loadedVersion (new_conversation ctx ids now e) = None"
      by (simp add: new_conversation_def cv_create_def cv_construct_def applyEvent_def)
    then obtain x where x: "x \<in> set (kw_conversations w)" "c = cv_restore x"
      using c found_row t(3) recordReply_root(3) c1 by metis
    then have "c = k" using row_of_opt_out [OF assms(1,2) x(1)] t(1,2) recordReply_root c1 x(2) by simp
    then show ?thesis using assms(2) c1 by (simp add: recordReply_def stored_opt_out_def)
  qed
  then show ?thesis using save_keeps_opt_out [OF save assms(2)] save_then_load [OF assms(1) save] w' by simp
qed

text \<open>A call of \<open>classifyAndAct\<close> that did something, taken apart.\<close>

lemma classifyAndAct_acted:
  assumes "classifyAndAct dp ctx ids now c level w = (r, w')"
    and "(\<exists>res. r = Inr res \<and> ca_actionType res \<noteq> None) \<or> kw_conversations w' \<noteq> kw_conversations w"
  obtains c1 c2 changed c3 leads c4 rows where "\<not> cv_optedOut c" and "ensure_intent dp ctx ids now c = Inr c1"
    and "decideAction (kd_policy dp c1 level) (cx_correlationId ctx) (id_event ids 3) now c1 = (Ok (), c2)"
    and "act_on ctx ids now (kd_policy dp c1 level) c2 (kw_leads w) = Inr (changed, c3, leads)"
    and "cv_save ctx c3 (kw_conversations w) = Inr (c4, rows)" and "w' = w\<lparr>kw_leads := leads, kw_conversations := rows\<rparr>"
    and "\<exists>res. r = Inr res \<and> ca_leadStatusChanged res = changed"
proof -
  let ?a = "\<lambda>c1. kd_policy dp c1 level"
  have alive: "\<not> (cv_optedOut c \<or> cv_status c = CONV_DISQUALIFIED \<or> cv_status c = CONV_CLOSED)"
    using assms by (auto simp: classifyAndAct_def split: if_splits)
  note run = assms(1) [unfolded classifyAndAct_def if_not_P [OF alive] Let_def]
  obtain c1 where c1: "ensure_intent dp ctx ids now c = Inr c1" using run assms(2) by (cases "ensure_intent dp ctx ids now c") auto
  obtain d c2 where d: "decideAction (?a c1) (cx_correlationId ctx) (id_event ids 3) now c1 = (d, c2)" by (rule prod.exhaust)
  then have d_ok: "d = Ok ()" using run assms(2) c1 by (cases d) auto
  note c2 = d [unfolded d_ok]
  obtain changed c3 leads where c3: "act_on ctx ids now (?a c1) c2 (kw_leads w) = Inr (changed, c3, leads)"
    using run assms(2) c1 c2 by (cases "act_on ctx ids now (?a c1) c2 (kw_leads w)") auto
  obtain c4 rows where save: "cv_save ctx c3 (kw_conversations w) = Inr (c4, rows)"
    using run assms(2) c1 c2 c3 by (cases "cv_save ctx c3 (kw_conversations w)") auto
  have "w' = w\<lparr>kw_leads := leads, kw_conversations := rows\<rparr>" "\<exists>res. r = Inr res \<and> ca_leadStatusChanged res = changed"
    using run c1 c2 c3 save by auto
  then show thesis using that alive c1 c2 c3 save by blast
qed

lemma classifyAndAct_cases:
  assumes "classifyAndAct dp ctx ids now c level w = (r, w')"
  shows "kw_conversations w' = kw_conversations w
    \<or> \<not> cv_optedOut c \<and> (\<exists>c3 c4. conv_step\<^sup>*\<^sup>* c c3 \<and> cv_save ctx c3 (kw_conversations w) = Inr (c4, kw_conversations w'))"
proof (cases "kw_conversations w' = kw_conversations w")
  case False
  obtain c1 c2 changed c3 leads c4 rows where open_c: "\<not> cv_optedOut c" and c1: "ensure_intent dp ctx ids now c = Inr c1"
    and c2: "decideAction (kd_policy dp c1 level) (cx_correlationId ctx) (id_event ids 3) now c1 = (Ok (), c2)"
    and c3: "act_on ctx ids now (kd_policy dp c1 level) c2 (kw_leads w) = Inr (changed, c3, leads)"
    and save: "cv_save ctx c3 (kw_conversations w) = Inr (c4, rows)" and w': "w' = w\<lparr>kw_leads := leads, kw_conversations := rows\<rparr>"
    using classifyAndAct_acted [OF assms disjI2 [OF False]] by metis
  have "conv_step\<^sup>*\<^sup>* c c1" using c1 conv_step.intros(2)
    by (auto simp: ensure_intent_def split: if_splits sum.splits prod.splits result.splits intro!: r_into_rtranclp) (metis snd_conv)
  also have "conv_step\<^sup>*\<^sup>* c1 c2" using c2 conv_step.intros(3) by (metis r_into_rtranclp snd_conv)
  also have "conv_step\<^sup>*\<^sup>* c2 c3" using c3 conv_step.intros(4)
    by (auto simp: act_on_def split: if_splits sum.splits prod.splits intro!: r_into_rtranclp)
  finally show ?thesis using save w' open_c by auto
qed simp

text \<open>One reply after the other, each handled by the activity with any context, ids, time and level.\<close>

inductive reply_step :: "conv_deps \<Rightarrow> conv_world \<Rightarrow> conv_world \<Rightarrow> bool" for dp where
  reply_handled: "reply_step dp w (snd (interpretReply dp wired ctx ids now e level w))"

lemma persist_conversations [simp]: "kw_conversations (persistReplyBasedOptOut ctx now e w) = kw_conversations w"
  by (simp add: persistReplyBasedOptOut_def)

lemma reply_step_keeps_opt_out:
  assumes "reply_step dp w w'" and "keys_ok (kw_conversations w)" and "stored_opt_out k (kw_conversations w)"
  shows "keys_ok (kw_conversations w') \<and> stored_opt_out k (kw_conversations w')"
  using assms(1)
proof cases
  case (reply_handled wired ctx ids now e level)
  obtain r w1 where h: "handleReply dp ctx ids now e w = (r, w1)" by (rule prod.exhaust)
  note w1 = handleReply_keeps_opt_out [OF assms(2,3) h]
  have "kw_conversations w' = kw_conversations w1
    \<or> (\<exists>i c r2 w2. cv_load ctx (kw_conversations w1) i = Some c \<and> classifyAndAct dp ctx ids now c level w1 = (r2, w2)
          \<and> kw_conversations w' = kw_conversations w2)"
    using reply_handled h by (auto simp: interpretReply_def split: sum.splits option.splits prod.splits)
  then show ?thesis
  proof (elim disjE exE conjE)
    assume "kw_conversations w' = kw_conversations w1"
    then show ?thesis using w1 by simp
  next
    fix j c r2 w2 assume c: "cv_load ctx (kw_conversations w1) j = Some c"
      and act: "classifyAndAct dp ctx ids now c level w1 = (r2, w2)" and w': "kw_conversations w' = kw_conversations w2"
    obtain x where x: "x \<in> set (kw_conversations w1)" "c = cv_restore x"
      using c by (auto simp: cv_load_def dest: select_row_Some)
    show ?thesis
    proof (cases "kw_conversations w2 = kw_conversations w1")
      case True
      then show ?thesis using w1 w' by simp
    next
      case False
      then obtain c3 c4 where c3: "\<not> cv_optedOut c" "conv_step\<^sup>*\<^sup>* c c3"
        and save: "cv_save ctx c3 (kw_conversations w1) = Inr (c4, kw_conversations w2)"
        using classifyAndAct_cases [OF act] by blast
      have "c3 = k" if "tenantId c3 = tenantId k" "aggId c3 = aggId k"
        using that conv_log.run_frame [OF c3(2)] row_of_opt_out [OF w1 [THEN conjunct1] w1 [THEN conjunct2] x(1)] x(2) c3(1)
          w1 by (simp add: stored_opt_out_def)
      then show ?thesis using save_keeps_opt_out [OF save w1 [THEN conjunct2]] save_then_load [OF w1 [THEN conjunct1] save] w' by simp
    qed
  qed
qed

text \<open>
  (C31) Once a prospect has opted out, no later call of the activity, for any reply, lead or tenant, changes
  the stored conversation in anything: it is loaded afterwards as exactly the conversation it was, in
  version, status, messages, intent, confidence and action. (A stored confidence is a number of JSON.)
\<close>

theorem opted_out_conversation_stays_silent:
  assumes "(reply_step dp)\<^sup>*\<^sup>* w w'" and "keys_ok (kw_conversations w)" and "row \<in> set (kw_conversations w)"
    and "cv_optedOut (cv_restore row)" and "json_number (cv_latestConfidence (cv_restore row)) = cv_latestConfidence (cv_restore row)"
  shows "\<exists>row' \<in> set (kw_conversations w'). cv_restore row' = cv_restore row"
proof -
  have "stored_opt_out (cv_restore row) (kw_conversations w)" using assms(3-5) by (auto simp: stored_opt_out_def)
  with assms(1,2) have "keys_ok (kw_conversations w') \<and> stored_opt_out (cv_restore row) (kw_conversations w')"
    by (induction rule: rtranclp_induct) (auto dest: reply_step_keeps_opt_out)
  then show ?thesis by (auto simp: stored_opt_out_def)
qed

subsection \<open>Verdicts\<close>

lemma lead_save_stored:
  assumes "lead_save tenant l rows = Inr (l', rows')"
  shows "\<exists>r \<in> set rows'. aggId r = aggId l \<and> ld_status r = ld_status l"
proof (cases "loadedVersion l")
  case None
  then have "rows' = rows @ [ag_stored (version l) l]"
    using assms by (auto simp: lead_save_def ag_save_def split: if_splits option.splits)
  then show ?thesis by (auto simp: ag_stored_def setVersion_def clearDomainEvents_def)
next
  case (Some v)
  let ?t = "\<lambda>r. tenantId r = tenant \<and> aggId r = aggId l \<and> version r = v"
  have "list_ex ?t rows" and rows': "rows' = map (\<lambda>r. if ?t r then (ag_stored (version l) l)\<lparr>ld_workspaceId := ld_workspaceId r,
      ld_createdAt := ld_createdAt r\<rparr> else r) rows"
    using assms Some by (auto simp: lead_save_def ag_save_def Let_def split: if_splits option.splits)
  then obtain r where "r \<in> set rows" "?t r" by (auto simp: list_ex_iff)
  then show ?thesis unfolding rows' set_map bex_simps(7)
    by (intro bexI [of _ r]) (simp_all add: ag_stored_def setVersion_def clearDomainEvents_def)
qed

lemma updateLeadStatus_Inr:
  assumes "updateLeadStatus ctx i q reason ev now leads = Inr (changed, rows)"
  shows "if changed then \<exists>l \<in> set rows. aggId l = i \<and> ld_status l = (if q then LD_QUALIFIED else LD_NOT_QUALIFIED) else rows = leads"
proof (cases "lead_load (cx_tenantId ctx) i leads")
  case None
  then show ?thesis using assms by (simp add: updateLeadStatus_def)
next
  case (Some l)
  then have i: "aggId l = i" by (auto simp: lead_load_def ag_find_def dest: find_SomeD)
  obtain d l1 where d: "recordConversationOutcome q reason (cx_correlationId ctx) ev now l = (d, l1)" by (rule prod.exhaust)
  show ?thesis
  proof (cases d)
    case (Fail e)
    then show ?thesis using assms Some d by (simp add: updateLeadStatus_def)
  next
    case (Ok u)
    then have l1: "aggId l1 = i" "ld_status l1 = (if q then LD_QUALIFIED else LD_NOT_QUALIFIED)"
      using d i by (auto simp: recordConversationOutcome_def applyEvent_def Let_def split: if_splits)
    obtain l2 where save: "lead_save (cx_tenantId ctx) l1 leads = Inr (l2, rows)" "changed"
      using assms Some d Ok by (auto simp: updateLeadStatus_def split: sum.splits)
    then show ?thesis using lead_save_stored [OF save(1)] l1 by simp
  qed
qed

lemma step_lead: "conv_step a b \<Longrightarrow> cv_leadId b = cv_leadId a"
  by (induction rule: conv_step.induct) (auto simp: conv_op_defs)

lemma policy_cases:
  assumes "policy_decide c level = a" and "nb_actionType a \<noteq> NA_ESCALATE" and "nb_actionType a \<noteq> NA_CLOSE"
  shows "js_le (Fin (6/10)) (nullish (cv_latestConfidence c) (Fin 0)) \<or> nullish (cv_latestConfidence c) (Fin 0) = NaN"
    and "\<not> js_lt level (Fin 2)"
    and "nb_actionType a = NA_DISQUALIFY \<longleftrightarrow> cv_latestIntent c = Some RI_NEGATIVE"
  using assms
  by (auto simp: policy_decide_def best_action_def requiresEscalation_def Let_def split: if_splits option.splits reply_intent.splits;
      cases "nullish (cv_latestConfidence c) (Fin 0)"; simp)+

text \<open>
  With the policy of the package a call changes a lead only as the intent of the reply says: on a
  conversation that has not opted out, with a confidence that is not below 0.6 and a level of autonomy
  that is not below 2, the lead is stored as not qualified for a negative reply and as qualified for a
  positive one or a request for a meeting. Otherwise no lead is changed.
\<close>

theorem verdict_follows_intent:
  assumes "kd_policy dp = policy_decide" and "classifyAndAct dp ctx ids now c level w = (Inr r, w')"
  shows "if ca_leadStatusChanged r
    then \<not> cv_optedOut c \<and> \<not> js_lt level (Fin 2) \<and> (\<exists>c1 l. ensure_intent dp ctx ids now c = Inr c1
      \<and> \<not> js_lt (nullish (cv_latestConfidence c1) (Fin 0)) (Fin (6/10)) \<and> l \<in> set (kw_leads w') \<and> aggId l = cv_leadId c
      \<and> (cv_latestIntent c1 = Some RI_NEGATIVE \<and> ld_status l = LD_NOT_QUALIFIED
         \<or> cv_latestIntent c1 \<in> {Some RI_POSITIVE, Some RI_MEETING_REQUEST} \<and> ld_status l = LD_QUALIFIED))
    else kw_leads w' = kw_leads w"
proof (cases "ca_actionType r = None")
  case True
  then show ?thesis using assms(2)
    by (auto simp: classifyAndAct_def Let_def split: if_splits sum.splits prod.splits result.splits)
next
  case False
  then have acted: "\<exists>res. (Inr r :: conv_exn + act_result) = Inr res \<and> ca_actionType res \<noteq> None" by simp
  obtain c1 c2 changed c3 leads c4 rows where open_c: "\<not> cv_optedOut c" and c1: "ensure_intent dp ctx ids now c = Inr c1"
    and c2: "decideAction (kd_policy dp c1 level) (cx_correlationId ctx) (id_event ids 3) now c1 = (Ok (), c2)"
    and c3: "act_on ctx ids now (kd_policy dp c1 level) c2 (kw_leads w) = Inr (changed, c3, leads)"
    and "cv_save ctx c3 (kw_conversations w) = Inr (c4, rows)"
    and w': "w' = w\<lparr>kw_leads := leads, kw_conversations := rows\<rparr>"
    and res: "\<exists>res. (Inr r :: conv_exn + act_result) = Inr res \<and> ca_leadStatusChanged res = changed"
    by (rule classifyAndAct_acted [OF assms(2) disjI1 [OF acted]])
  have r: "ca_leadStatusChanged r = changed" using res by auto
  define a where "a = kd_policy dp c1 level"
  have "conv_step c1 c2" using c2 conv_step.intros(3) by (metis snd_conv)
  moreover have "c1 = c \<or> conv_step c c1" using c1 conv_step.intros(2)
    by (auto simp: ensure_intent_def split: if_splits sum.splits prod.splits result.splits) (metis snd_conv)
  ultimately have lead: "cv_leadId c2 = cv_leadId c" using step_lead by auto
  have same: "cv_latestIntent c2 = cv_latestIntent c1" "\<not> cv_optedOut c2"
    using c2 by (auto simp: decideAction_def cv_transitionTo_def applyEvent_def Let_def split: if_splits)
  note act = c3 [folded a_def, unfolded act_on_def]
  show ?thesis
  proof (cases changed)
    case False
    then have "leads = kw_leads w" using act
      by (auto dest!: updateLeadStatus_Inr split: if_splits sum.splits prod.splits)
    then show ?thesis using False r w' by simp
  next
    case True
    then have "nb_actionType a \<noteq> NA_ESCALATE" "nb_actionType a \<noteq> NA_CLOSE"
      using act same by (auto split: if_splits)
    note p = policy_cases [OF a_def [symmetric, unfolded assms(1)] this]
    have "\<exists>q reason. updateLeadStatus ctx (cv_leadId c2) q reason (id_event ids 4) now (kw_leads w) = Inr (True, leads)
        \<and> (if q then cv_latestIntent c2 \<in> {Some RI_POSITIVE, Some RI_MEETING_REQUEST} else nb_actionType a = NA_DISQUALIFY)"
    proof (cases "nb_actionType a = NA_DISQUALIFY")
      case dis: True
      then have "updateLeadStatus ctx (cv_leadId c2) False (nb_reason a) (id_event ids 4) now (kw_leads w) = Inr (True, leads)"
        using act True same(2) by (cases "updateLeadStatus ctx (cv_leadId c2) False (nb_reason a) (id_event ids 4) now (kw_leads w)") auto
      then show ?thesis using dis by (metis (full_types))
    next
      case keep: False
      let ?u = "updateLeadStatus ctx (cv_leadId c2) True ''Positive conversation outcome'' (id_event ids 4) now (kw_leads w)"
      have "cv_latestIntent c2 \<in> {Some RI_POSITIVE, Some RI_MEETING_REQUEST}" using act True same(2) keep by (auto split: if_splits)
      moreover have "?u = Inr (True, leads)" using act True same(2) keep by (cases ?u) (auto split: if_splits)
      ultimately show ?thesis by (metis (full_types))
    qed
    then obtain q reason where q: "updateLeadStatus ctx (cv_leadId c2) q reason (id_event ids 4) now (kw_leads w) = Inr (True, leads)"
      "if q then cv_latestIntent c2 \<in> {Some RI_POSITIVE, Some RI_MEETING_REQUEST} else nb_actionType a = NA_DISQUALIFY" by blast
    have "\<exists>l \<in> set leads. aggId l = cv_leadId c \<and> (cv_latestIntent c1 = Some RI_NEGATIVE \<and> ld_status l = LD_NOT_QUALIFIED
        \<or> cv_latestIntent c1 \<in> {Some RI_POSITIVE, Some RI_MEETING_REQUEST} \<and> ld_status l = LD_QUALIFIED)"
      using updateLeadStatus_Inr [OF q(1)] q(2) p(3) same(1) lead by (cases q) auto
    moreover have "\<not> js_lt (nullish (cv_latestConfidence c1) (Fin 0)) (Fin (6/10))"
      using p(1) by (cases "nullish (cv_latestConfidence c1) (Fin 0)") auto
    ultimately show ?thesis using True r w' open_c p(2) c1 by auto
  qed
qed

subsection \<open>Replies that the service loses\<close>

text \<open>
  After the first reply was acted upon, the status is \<open>FOLLOW_UP_SCHEDULED\<close> or \<open>ESCALATED\<close>; no operation leads
  back to a status that takes a reply, so a later reply is not recorded and the policy repeats an action
  that is refused.
\<close>

lemma later_reply_not_recorded:
  assumes "cv_status c \<in> {CONV_FOLLOW_UP_SCHEDULED, CONV_ESCALATED}" and "\<not> asks_opt_out (rm_content r)"
  shows "snd (recordReply r corr ev now c) = c"
  using assms by (auto simp: recordReply_def cv_transitionTo_def canTransitionConversation_def)

lemma later_follow_up_refused:
  assumes "cv_status c \<in> {CONV_FOLLOW_UP_SCHEDULED, CONV_ESCALATED}" and "\<not> cv_optedOut c" and "cv_latestIntent c = Some i"
    and "kd_policy dp c level = a" and "action_status (nb_actionType a) = CONV_FOLLOW_UP_SCHEDULED"
  shows "\<exists>e. classifyAndAct dp ctx ids now c level w = (Inl (CX_decide e), w)"
proof -
  have "nb_actionType a \<noteq> NA_ESCALATE" using assms(5) by auto
  then have "\<exists>e. decideAction a (cx_correlationId ctx) (id_event ids 3) now c = (Fail e, c)"
    using assms by (auto simp: decideAction_def cv_transitionTo_def canTransitionConversation_def Let_def)
  then show ?thesis using assms by (auto simp: classifyAndAct_def ensure_intent_def Let_def)
qed

text \<open>The classifier knows "stop" as an opt-out, the aggregate does not: the conversation is closed without the flag.\<close>

lemma stop_is_no_opt_out:
  "cl_intent (deterministic_classify ''please stop'') = RI_OPT_OUT \<and> \<not> asks_opt_out ''please stop''"
  by code_simp

subsection \<open>A reply, worked through\<close>

definition sample_conv_deps :: conv_deps where
  "sample_conv_deps = \<lparr>kd_classify = (\<lambda>content channel. Inr (deterministic_classify content)), kd_policy = policy_decide,
     kd_scrub = (\<lambda>s. s)\<rparr>"

definition sample_reply :: "string \<Rightarrow> reply_event" where
  "sample_reply content = \<lparr>re_leadId = ''l'', re_channel = ''email'', re_providerMessageId = ''p'', re_content = content,
     re_receivedAt = 1, re_campaignId = None, re_sequenceId = None, re_executionId = None, re_messageIdHeader = None,
     re_sender = Some ''a@b.io'', re_recipientAddress = None, re_subject = None, re_htmlBody = None, re_inReplyTo = None,
     re_references = None\<rparr>"

definition sample_call :: call_ids where
  "sample_call = \<lparr>id_conversation = ''c'', id_reply = ''r'', id_event = (\<lambda>n. ''e'')\<rparr>"

definition sample_conv_world :: conv_world where
  "sample_conv_world = \<lparr>kw_conversations = [], kw_leads = [], kw_suppressed = []\<rparr>"

definition after_opt_out :: "(conv_exn + interpret_result) \<times> conv_world" where
  "after_opt_out = interpretReply sample_conv_deps True sample_outreach_ctx sample_call 5 (sample_reply ''Unsubscribe me'') (Fin 2) sample_conv_world"

lemma sample_asks: "asks_opt_out ''Unsubscribe me''"
  by code_simp

lemmas sample_reply_defs = interpretReply_def handleReply_def Let_def findByLeadAndChannel_def new_conversation_def reply_of_def
  sample_conv_deps_def sample_reply_def sample_call_def sample_conv_world_def sample_outreach_ctx_def cv_create_def cv_construct_def
  conv_event_def recordReply_def cv_transitionTo_def canTransitionConversation_def applyEvent_def sample_asks cv_save_def
  guarded_save_def cas_write_def insert_row_def cv_snapshot_def setVersion_def persistReplyBasedOptOut_def suppress_def

lemma after_opt_out_ok: "\<exists>r. fst after_opt_out = Inr r"
  by (simp add: after_opt_out_def sample_reply_defs)

lemma after_opt_out_row: "\<exists>row. kw_conversations (snd after_opt_out) = [row] \<and> cv_optedOut (cv_restore row)
    \<and> cv_latestConfidence (cv_restore row) = None"
  by (simp add: after_opt_out_def sample_reply_defs cv_restore_def cv_reconstitute_def clearDomainEvents_def json_number_def)

theorem opt_out_reply_is_durable_witness:
  "isSuppressed ''t'' ''a@b.io'' (kw_suppressed (snd after_opt_out)) \<noteq> None
   \<and> (\<exists>c. cv_load sample_outreach_ctx (kw_conversations (snd after_opt_out)) ''c'' = Some c \<and> cv_optedOut c)"
proof -
  obtain r where r: "after_opt_out = (Inr r, snd after_opt_out)" using after_opt_out_ok by (metis prod.collapse)
  have "keys_ok (kw_conversations sample_conv_world)" by (simp add: sample_conv_world_def keys_ok_def)
  from opt_out_reply_is_durable [OF this r [unfolded after_opt_out_def], where s = "''a@b.io''"]
  have "isSuppressed ''t'' ''a@b.io'' (kw_suppressed (snd after_opt_out)) \<noteq> None"
    "\<exists>i c. ir_conversationId r = Some i \<and> cv_load sample_outreach_ctx (kw_conversations (snd after_opt_out)) i = Some c \<and> cv_optedOut c"
    using sample_asks by (simp_all add: after_opt_out_def sample_reply_def sample_conv_deps_def sample_outreach_ctx_def)
  moreover have "ir_conversationId r = Some ''c''"
    using r by (auto simp: after_opt_out_def sample_reply_defs)
  ultimately show ?thesis by simp
qed

lemma one_reply: "(reply_step dp)\<^sup>*\<^sup>* w (snd (interpretReply dp wired ctx ids now e level w))"
  by (rule r_into_rtranclp) (rule reply_handled)

theorem opted_out_conversation_stays_silent_witness:
  "\<exists>row row'. kw_conversations (snd after_opt_out) = [row] \<and> cv_restore row' = cv_restore row
     \<and> row' \<in> set (kw_conversations (snd (interpretReply sample_conv_deps True sample_outreach_ctx sample_call 6
         (sample_reply ''yes, tell me more'') (Fin 2) (snd after_opt_out))))"
proof -
  obtain row where r: "kw_conversations (snd after_opt_out) = [row]" "cv_optedOut (cv_restore row)" "cv_latestConfidence (cv_restore row) = None"
    using after_opt_out_row by blast
  have "keys_ok (kw_conversations (snd after_opt_out))" by (simp add: r(1) keys_ok_def)
  from opted_out_conversation_stays_silent [OF one_reply [of sample_conv_deps _ True sample_outreach_ctx sample_call 6
      "sample_reply ''yes, tell me more''" "Fin 2"] this, of row] show ?thesis using r by (auto simp: json_number_def)
qed

definition sample_classified :: conversation where
  "sample_classified = (cv_construct 1 \<lparr>vp_id = ''c'', vp_tenantId = ''t'', vp_workspaceId = ''w'', vp_leadId = ''l'', vp_channel = ''email'',
     vp_recipientAddress = None, vp_campaignId = None, vp_sequenceId = None, vp_executionId = None, vp_status = Some CONV_CLASSIFIED,
     vp_messages = None, vp_latestIntent = Some RI_NEGATIVE, vp_latestConfidence = Some (Fin (9/10)), vp_nextAction = None,
     vp_escalatedReason = None, vp_optedOut = None, vp_createdAt = None, vp_updatedAt = None\<rparr>)"

definition sample_negative :: "(conv_exn + act_result) \<times> conv_world" where
  "sample_negative = classifyAndAct sample_conv_deps sample_outreach_ctx sample_call 5 sample_classified (Fin 2)
     (sample_conv_world\<lparr>kw_leads := [ag_stored 1 sample_lead]\<rparr>)"

lemma sample_negative_ok: "\<exists>r. fst sample_negative = Inr r \<and> ca_leadStatusChanged r"
  by (simp add: sample_negative_def classifyAndAct_def sample_classified_def cv_construct_def ensure_intent_def sample_conv_deps_def
      policy_decide_def best_action_def requiresEscalation_def decideAction_def cv_transitionTo_def canTransitionConversation_def
      applyEvent_def act_on_def updateLeadStatus_def lead_load_def ag_find_def sample_lead_def ag_stored_def clearDomainEvents_def ld_create_def ld_construct_def
      sample_outreach_ctx_def recordConversationOutcome_def lead_save_def ag_save_def lead_clash_def cv_close_def cv_save_def
      guarded_save_def cas_write_def insert_row_def cv_snapshot_def setVersion_def sample_conv_world_def sample_call_def Let_def)

theorem verdict_follows_intent_witness:
  "\<exists>l \<in> set (kw_leads (snd sample_negative)). aggId l = ''l'' \<and> ld_status l = LD_NOT_QUALIFIED"
proof -
  obtain r where r: "sample_negative = (Inr r, snd sample_negative)" "ca_leadStatusChanged r"
    using sample_negative_ok by (metis prod.collapse)
  have "ensure_intent sample_conv_deps sample_outreach_ctx sample_call 5 sample_classified = Inr sample_classified"
    by (simp add: ensure_intent_def sample_classified_def cv_construct_def)
  moreover have "kd_policy sample_conv_deps = policy_decide" by (simp add: sample_conv_deps_def)
  note verdict_follows_intent [OF this r(1) [unfolded sample_negative_def]]
  moreover have "cv_latestIntent sample_classified = Some RI_NEGATIVE" "cv_leadId sample_classified = ''l''"
    by (simp_all add: sample_classified_def cv_construct_def)
  ultimately show ?thesis using r(2) by (auto simp: sample_negative_def)
qed

end
