(* ===== verification/OutreachDirectories.thy ===== *)
theory OutreachDirectories
  imports Contexts
begin

section \<open>Directories of outreach: recipients, mailboxes, subscriptions\<close>

text \<open>
  The Postgres repositories of \<open>packages/outreach\<close> that are tables with a key: the recipients a tenant allows,
  the mail configuration of a tenant with the registry that resolves a mailbox, the webhook subscriptions of
  Microsoft Graph, and \<open>graph-subscription-admin.service.ts\<close>, which manages these. Row level security is left out.
\<close>

subsection \<open>Keyed tables\<close>

text \<open>\<open>INSERT ... ON CONFLICT (key) DO UPDATE\<close>: \<open>merge old new\<close> is the row after the update.\<close>

definition put_row :: "('r \<Rightarrow> bool) \<Rightarrow> ('r \<Rightarrow> 'r \<Rightarrow> 'r) \<Rightarrow> 'r \<Rightarrow> 'r list \<Rightarrow> 'r list" where
  "put_row same merge row rows = (if list_ex same rows then map (\<lambda>r. if same r then merge r row else r) rows else rows @ [row])"

text \<open>
  What the clients of such a table rely on: after an upsert the key is found, with what was written; other
  keys are found as before; after a delete the key is gone.
\<close>

locale keyed_table =
  fixes key :: "'r \<Rightarrow> 'k"
    and merge :: "'r \<Rightarrow> 'r \<Rightarrow> 'r"
  assumes merge_key: "key a = key b \<Longrightarrow> key (merge a b) = key b"
begin

definition find_key :: "'k \<Rightarrow> 'r list \<Rightarrow> 'r option" where
  "find_key k rows = List.find (\<lambda>r. key r = k) rows"

definition put :: "'r \<Rightarrow> 'r list \<Rightarrow> 'r list" where
  "put row rows = put_row (\<lambda>r. key r = key row) merge row rows"

definition delete_key :: "'k \<Rightarrow> 'r list \<Rightarrow> 'r list" where
  "delete_key k rows = filter (\<lambda>r. key r \<noteq> k) rows"

lemma find_append: "find_key k (rows @ [row]) = (case find_key k rows of Some r \<Rightarrow> Some r | None \<Rightarrow> if key row = k then Some row else None)"
  by (induction rows) (auto simp: find_key_def)

lemma find_map_put:
  "find_key k (map (\<lambda>r. if key r = key row then merge r row else r) rows) =
     (if k = key row then map_option (\<lambda>r. merge r row) (find_key k rows) else find_key k rows)"
  by (induction rows) (auto simp: find_key_def dest: merge_key)

lemma find_None_ex: "find_key k rows = None \<longleftrightarrow> \<not> list_ex (\<lambda>r. key r = k) rows"
  by (auto simp: find_key_def find_None_iff list_ex_iff)

lemma find_put:
  "find_key k (put row rows) =
     (if k = key row then Some (case find_key k rows of Some r \<Rightarrow> merge r row | None \<Rightarrow> row) else find_key k rows)"
proof (cases "list_ex (\<lambda>r. key r = key row) rows")
  case True
  then have "find_key (key row) rows \<noteq> None" using find_None_ex by simp
  then show ?thesis using True by (auto simp: put_def put_row_def find_map_put)
next
  case False
  then have "find_key (key row) rows = None" using find_None_ex by simp
  then show ?thesis using False by (auto simp: put_def put_row_def find_append split: option.splits)
qed

lemma find_delete: "find_key k (delete_key j rows) = (if k = j then None else find_key k rows)"
  by (induction rows) (auto simp: find_key_def delete_key_def)

end

subsection \<open>Recipients a tenant allows\<close>

text \<open>The channel is passed through and not part of the key.\<close>

record allowed_recipient =
  al_tenant :: string
  al_address :: string
  al_displayName :: "string option"
  al_approvedBy :: string
  al_reason :: "string option"
  al_approvedAt :: int

definition isAllowed :: "tenant_context \<Rightarrow> string \<Rightarrow> allowed_recipient list \<Rightarrow> bool" where
  "isAllowed ctx address rows \<longleftrightarrow> list_ex (\<lambda>r. al_tenant r = cx_tenantId ctx \<and> al_address r = address) rows"

definition al_add ::
    "tenant_context \<Rightarrow> int \<Rightarrow> string \<Rightarrow> string option \<Rightarrow> string \<Rightarrow> string option \<Rightarrow> allowed_recipient list \<Rightarrow> allowed_recipient list" where
  "al_add ctx now address displayName approvedBy reason rows =
     put_row (\<lambda>r. al_tenant r = cx_tenantId ctx \<and> al_address r = address) (\<lambda>old new. new)
       \<lparr>al_tenant = cx_tenantId ctx, al_address = address, al_displayName = displayName, al_approvedBy = approvedBy,
        al_reason = reason, al_approvedAt = now\<rparr> rows"

definition al_remove :: "tenant_context \<Rightarrow> string \<Rightarrow> allowed_recipient list \<Rightarrow> allowed_recipient list" where
  "al_remove ctx address rows = filter (\<lambda>r. \<not> (al_tenant r = cx_tenantId ctx \<and> al_address r = address)) rows"

definition al_list :: "tenant_context \<Rightarrow> allowed_recipient list \<Rightarrow> allowed_recipient list" where
  "al_list ctx rows = filter (\<lambda>r. al_tenant r = cx_tenantId ctx) rows"

interpretation al_table: keyed_table "\<lambda>r :: allowed_recipient. (al_tenant r, al_address r)" "\<lambda>old new. new"
  by unfold_locales simp

lemma isAllowed_find: "isAllowed ctx address rows \<longleftrightarrow> al_table.find_key (cx_tenantId ctx, address) rows \<noteq> None"
  by (simp add: isAllowed_def al_table.find_None_ex)

lemma al_add_put: "al_add ctx now address n by why rows = al_table.put \<lparr>al_tenant = cx_tenantId ctx, al_address = address,
    al_displayName = n, al_approvedBy = by, al_reason = why, al_approvedAt = now\<rparr> rows"
  by (simp add: al_add_def al_table.put_def)

lemma al_remove_delete: "al_remove ctx address rows = al_table.delete_key (cx_tenantId ctx, address) rows"
  by (simp add: al_remove_def al_table.delete_key_def)

lemma allowed_after:
  "isAllowed c a (al_add ctx now address n why by rows) \<longleftrightarrow> cx_tenantId c = cx_tenantId ctx \<and> a = address \<or> isAllowed c a rows"
  "isAllowed c a (al_remove ctx address rows) \<longleftrightarrow> \<not> (cx_tenantId c = cx_tenantId ctx \<and> a = address) \<and> isAllowed c a rows"
  by (auto simp: isAllowed_find al_add_put al_remove_delete al_table.find_put al_table.find_delete)

subsection \<open>Mail configuration and the registry of mailboxes\<close>

record tenant_email_config =
  te_tenantId :: string
  te_providerId :: string
  te_channel :: string
  te_fromAddress :: string
  te_replyToAddress :: "string option"
  te_allowedDomains :: "string list"
  te_webhookSecretReference :: "string option"
  te_graphClientSecretReference :: "string option"

definition te_get :: "string \<Rightarrow> string \<Rightarrow> tenant_email_config list \<Rightarrow> tenant_email_config option" where
  "te_get tenant provider rows = List.find (\<lambda>r. te_tenantId r = tenant \<and> te_providerId r = provider) rows"

text \<open>\<open>outreach.resolve_inbound_mailbox\<close>: one row of the registry by its mailbox, as it is spelt there.\<close>

record mailbox_row =
  mb_mailbox :: string
  mb_tenant :: string
  mb_provider :: string

definition resolve_inbound_mailbox :: "string \<Rightarrow> mailbox_row list \<Rightarrow> mailbox_row option" where
  "resolve_inbound_mailbox mailbox rows = List.find (\<lambda>r. mb_mailbox r = mailbox) rows"

definition findByMailboxAddress :: "string \<Rightarrow> mailbox_row list \<Rightarrow> tenant_email_config list \<Rightarrow> tenant_email_config option" where
  "findByMailboxAddress address registry rows =
     (case resolve_inbound_mailbox address registry of
        None \<Rightarrow> None
      | Some m \<Rightarrow> te_get (mb_tenant m) (mb_provider m) rows)"

lemma findByMailboxAddress_Some:
  "findByMailboxAddress address registry rows = Some c \<Longrightarrow>
     c \<in> set rows \<and> (\<exists>m \<in> set registry. mb_mailbox m = address \<and> mb_tenant m = te_tenantId c)"
  by (auto simp: findByMailboxAddress_def resolve_inbound_mailbox_def te_get_def split: option.splits dest!: find_SomeD)

subsection \<open>Subscriptions\<close>

datatype subscription_scope = WORKSPACE_BOUND | LEGACY_UNBOUND

record graph_subscription =
  gs_tenantId :: string
  gs_workspaceId :: "string option"
  gs_scope :: subscription_scope
  gs_subscriptionId :: string
  gs_resource :: string
  gs_notificationUrl :: string
  gs_clientState :: string
  gs_expirationDateTime :: int
  gs_createdAt :: int
  gs_updatedAt :: int

definition gs_save :: "graph_subscription \<Rightarrow> graph_subscription list \<Rightarrow> graph_subscription list" where
  "gs_save s rows = put_row (\<lambda>r. gs_tenantId r = gs_tenantId s \<and> gs_subscriptionId r = gs_subscriptionId s)
     (\<lambda>old new. new\<lparr>gs_createdAt := gs_createdAt old\<rparr>) s rows"

definition gs_find :: "string \<Rightarrow> string \<Rightarrow> graph_subscription list \<Rightarrow> graph_subscription option" where
  "gs_find tenant i rows = List.find (\<lambda>r. gs_tenantId r = tenant \<and> gs_subscriptionId r = i) rows"

definition gs_delete :: "string \<Rightarrow> string \<Rightarrow> graph_subscription list \<Rightarrow> graph_subscription list" where
  "gs_delete tenant i rows = filter (\<lambda>r. \<not> (gs_tenantId r = tenant \<and> gs_subscriptionId r = i)) rows"

text \<open>\<open>ORDER BY created_at DESC\<close>; rows of one time stay in the order of the table.\<close>

definition gs_findByTenant :: "string \<Rightarrow> graph_subscription list \<Rightarrow> graph_subscription list" where
  "gs_findByTenant tenant rows = sort_key (\<lambda>r. - gs_createdAt r) (filter (\<lambda>r. gs_tenantId r = tenant) rows)"

interpretation gs_table: keyed_table "\<lambda>r :: graph_subscription. (gs_tenantId r, gs_subscriptionId r)" "\<lambda>old new. new\<lparr>gs_createdAt := gs_createdAt old\<rparr>"
  by unfold_locales simp

lemma gs_find_key: "gs_find tenant i rows = gs_table.find_key (tenant, i) rows"
  by (simp add: gs_find_def gs_table.find_key_def)

lemma gs_save_put: "gs_save s rows = gs_table.put s rows"
  by (simp add: gs_save_def gs_table.put_def)

lemma gs_delete_key: "gs_delete tenant i rows = gs_table.delete_key (tenant, i) rows"
  by (simp add: gs_delete_def gs_table.delete_key_def)

subsection \<open>Administration of subscriptions\<close>

text \<open>
  What Graph answers is an argument: the subscription it created or an error with its text, and of a
  deletion nothing or an error with its status code.
\<close>

record created_subscription =
  cs_id :: string
  cs_resource :: string
  cs_notificationUrl :: string
  cs_expirationDateTime :: int
  cs_clientState :: string

record subscription_world =
  sw_subscriptions :: "graph_subscription list"
  sw_audit :: "(string \<times> string option) list"

definition isNotificationUrlAllowed :: "string option \<Rightarrow> string \<Rightarrow> bool" where
  "isNotificationUrlAllowed allowed url \<longleftrightarrow> truthy allowed \<and> js_startsWith url (nullish allowed [])"

definition ga_create ::
    "string option \<Rightarrow> tenant_context \<Rightarrow> int \<Rightarrow> string \<Rightarrow> string \<Rightarrow> string + created_subscription \<Rightarrow> subscription_world
     \<Rightarrow> (string + graph_subscription) \<times> subscription_world" where
  "ga_create allowed ctx now workspaceId url answer w =
     (if \<not> isNotificationUrlAllowed allowed url
      then (Inl ''Notification URL does not match allowed callback configuration'', w)
      else case answer of
          Inl msg \<Rightarrow> (Inl msg, w\<lparr>sw_audit := sw_audit w @ [(''graph_subscription_create_failed'', Some msg)]\<rparr>)
        | Inr s \<Rightarrow>
            let r = \<lparr>gs_tenantId = cx_tenantId ctx, gs_workspaceId = Some workspaceId, gs_scope = WORKSPACE_BOUND,
                     gs_subscriptionId = cs_id s, gs_resource = cs_resource s, gs_notificationUrl = cs_notificationUrl s,
                     gs_clientState = cs_clientState s, gs_expirationDateTime = cs_expirationDateTime s,
                     gs_createdAt = now, gs_updatedAt = now\<rparr>
            in (Inr r, w\<lparr>sw_subscriptions := gs_save r (sw_subscriptions w),
                         sw_audit := sw_audit w @ [(''graph_subscription_created'', None)]\<rparr>))"

definition ga_delete ::
    "tenant_context \<Rightarrow> string \<Rightarrow> (nat option \<times> string) option \<Rightarrow> subscription_world \<Rightarrow> (string + unit) \<times> subscription_world" where
  "ga_delete ctx i failure w =
     (if gs_find (cx_tenantId ctx) i (sw_subscriptions w) = None then (Inl ''Subscription not found'', w)
      else case failure of
          Some (code, msg) \<Rightarrow>
            if code \<noteq> Some 404
            then (Inl msg, w\<lparr>sw_audit := sw_audit w @ [(''graph_subscription_delete_failed'', Some msg)]\<rparr>)
            else (Inr (), w\<lparr>sw_subscriptions := gs_delete (cx_tenantId ctx) i (sw_subscriptions w),
                            sw_audit := sw_audit w @ [(''graph_subscription_deleted'', None)]\<rparr>)
        | None \<Rightarrow> (Inr (), w\<lparr>sw_subscriptions := gs_delete (cx_tenantId ctx) i (sw_subscriptions w),
                              sw_audit := sw_audit w @ [(''graph_subscription_deleted'', None)]\<rparr>))"

text \<open>A subscription that was created is found, in its workspace; one that was deleted is not.\<close>

lemma created_is_found:
  assumes "ga_create allowed ctx now ws url answer w = (Inr r, w')"
  shows "\<exists>s. gs_find (cx_tenantId ctx) (gs_subscriptionId r) (sw_subscriptions w') = Some s \<and> gs_workspaceId s = Some ws
    \<and> gs_scope s = WORKSPACE_BOUND"
  using assms by (auto simp: ga_create_def Let_def gs_find_key gs_save_put gs_table.find_put split: if_splits sum.splits option.splits)

lemma deleted_is_gone:
  assumes "ga_delete ctx i failure w = (Inr u, w')"
  shows "gs_find (cx_tenantId ctx) i (sw_subscriptions w') = None"
  using assms by (auto simp: ga_delete_def gs_find_key gs_delete_key gs_table.find_delete split: if_splits option.splits prod.splits)

end
