(* ===== verification/GraphInbound.thy ===== *)
theory GraphInbound
  imports ConversationHandling OutreachDirectories Idempotency ResearchEngine Approval
begin

section \<open>Inbound mail: from a notification of Microsoft Graph to a reply\<close>

text \<open>
  \<open>packages/outreach/src/infrastructure/graph-inbound\<close>: the check of a notification, the tenant of a mailbox,
  the normalisation of a message, the search for the message it answers, the ingress that composes them, the
  poller that stands in for missed notifications, and \<open>processNotification\<close> of
  \<open>apps/api/src/graph-inbound\<close>, which hands the reply to the conversation. Secrets, the fetched messages, the
  HTML sanitizer, keyed fingerprints and the reading of dates are arguments; \<open>None\<close> of a secret or a fingerprint
  is an exception.
\<close>

subsection \<open>Notifications and messages\<close>

record graph_notification =
  gn_subscriptionId :: "string option"
  gn_clientState :: "string option"
  gn_changeType :: "string option"
  gn_resource :: "string option"
  gn_messageId :: "string option"

record graph_message =
  gm_id :: string
  gm_internetMessageId :: "string option"
  gm_subject :: "string option"
  gm_from :: "string option"
  gm_toRecipients :: "string option list option"
  gm_isHtml :: bool
  gm_content :: "string option"
  gm_bodyPreview :: "string option"
  gm_receivedDateTime :: "string option"
  gm_hasAttachments :: "bool option"
  gm_headers :: "(string \<times> string) list option"

datatype graph_rejection =
    GR_OVERSIZED | GR_MALFORMED string | GR_INVALID_CLIENT_STATE string | GR_TENANT_NOT_FOUND
  | GR_TENANT_SUBSCRIPTION_MISMATCH | GR_SUBSCRIPTION_RESOURCE_MISMATCH | GR_MESSAGE_NOT_FOUND

record graph_deps =
  gd_jsonBytes :: "graph_notification option \<Rightarrow> nat"
  gd_maxNotificationBytes :: "nat option"
  gd_secret :: "string \<Rightarrow> string option"
  gd_getMessage :: "string \<Rightarrow> string \<Rightarrow> string + graph_message option"
  gd_sanitizeHtml :: "string \<Rightarrow> string"
  gd_maxBodyLength :: "nat option"
  gd_parseDate :: "string \<Rightarrow> int option"
  gd_fingerprint :: "string \<Rightarrow> string \<Rightarrow> string \<Rightarrow> string option"

subsection \<open>The validator\<close>

definition DEFAULT_MAX_NOTIFICATION_BYTES :: nat where
  "DEFAULT_MAX_NOTIFICATION_BYTES = 256 * 1024"

definition validateShape :: "graph_deps \<Rightarrow> graph_notification option \<Rightarrow> graph_rejection option" where
  "validateShape dp notification =
     (if gd_jsonBytes dp notification > nullish (gd_maxNotificationBytes dp) DEFAULT_MAX_NOTIFICATION_BYTES then Some GR_OVERSIZED
      else case notification of
          None \<Rightarrow> Some (GR_MALFORMED ''Notification is not an object'')
        | Some n \<Rightarrow>
            if \<not> truthy (gn_subscriptionId n) then Some (GR_MALFORMED ''Missing subscriptionId'')
            else if \<not> truthy (gn_resource n) then Some (GR_MALFORMED ''Missing resource'')
            else if \<not> truthy (gn_changeType n) then Some (GR_MALFORMED ''Missing changeType'') else None)"

text \<open>\<open>Inl ()\<close>: the secrets provider threw.\<close>

definition validateClientState :: "graph_deps \<Rightarrow> graph_notification \<Rightarrow> string option \<Rightarrow> unit + graph_rejection option" where
  "validateClientState dp n secretRef =
     (if \<not> truthy secretRef then Inr (Some (GR_INVALID_CLIENT_STATE ''Tenant has no webhook secret configured''))
      else case gd_secret dp (nullish secretRef []) of
          None \<Rightarrow> Inl ()
        | Some expected \<Rightarrow>
            if \<not> truthy (gn_clientState n) \<or> length expected \<noteq> length (nullish (gn_clientState n) [])
               \<or> expected \<noteq> nullish (gn_clientState n) []
            then Inr (Some (GR_INVALID_CLIENT_STATE ''clientState does not match the registered secret''))
            else Inr None)"

subsection \<open>The tenant of a mailbox\<close>

text \<open>
  \<open>/users\/([^/]+)\/messages\//i\<close>: the leftmost match; a run without slashes that is not followed by a slash
  and \<open>messages/\<close> fails as a whole, because a shorter run is followed by one of its own characters.
\<close>

fun match_mailbox :: "string \<Rightarrow> string option" where
  "match_mailbox [] = None"
| "match_mailbox (c # s) =
     (let rest = drop 6 (c # s); m = takeWhile (\<lambda>x. x \<noteq> CHR ''/'') rest
      in if js_startsWith (js_lower (c # s)) ''users/'' \<and> m \<noteq> [] \<and> js_startsWith (js_lower (drop (length m) rest)) ''/messages/''
         then Some m else match_mailbox s)"

definition hex_digit :: "char \<Rightarrow> nat option" where
  "hex_digit c = (let n = of_char c :: nat in
     if 48 \<le> n \<and> n \<le> 57 then Some (n - 48) else if 65 \<le> n \<and> n \<le> 70 then Some (n - 55)
     else if 97 \<le> n \<and> n \<le> 102 then Some (n - 87) else None)"

text \<open>
  \<open>decodeURIComponent\<close> on the characters that the strings of the model have, up to U+00FF, whose second half
  is encoded in two bytes; \<open>None\<close> is the exception for a malformed sequence.
\<close>

fun decodeURIComponent :: "string \<Rightarrow> string option" where
  "decodeURIComponent [] = Some []"
| "decodeURIComponent (c # s) =
     (if c \<noteq> CHR ''%'' then map_option ((#) c) (decodeURIComponent s)
      else case s of
          a # b # s1 \<Rightarrow>
            (case (hex_digit a, hex_digit b) of
               (Some x, Some y) \<Rightarrow>
                 let n = 16 * x + y in
                 if n < 128 then map_option ((#) (char_of n)) (decodeURIComponent s1)
                 else if n = 194 \<or> n = 195
                 then (case s1 of
                         p # a2 # b2 # s2 \<Rightarrow>
                           (case (hex_digit a2, hex_digit b2) of
                              (Some x2, Some y2) \<Rightarrow>
                                let k = 16 * x2 + y2 in
                                if p = CHR ''%'' \<and> 128 \<le> k \<and> k < 192
                                then map_option ((#) (char_of ((n - 192) * 64 + (k - 128)))) (decodeURIComponent s2) else None
                            | _ \<Rightarrow> None)
                       | _ \<Rightarrow> None)
                 else None
             | _ \<Rightarrow> None)
        | _ \<Rightarrow> None)"

text \<open>The outer \<open>None\<close> is the exception, the inner one the \<open>null\<close> of the code.\<close>

definition extractMailbox :: "string \<Rightarrow> string option option" where
  "extractMailbox resource =
     (case match_mailbox resource of None \<Rightarrow> Some None | Some m \<Rightarrow> map_option Some (decodeURIComponent m))"

definition resolve_tenant ::
    "string \<Rightarrow> mailbox_row list \<Rightarrow> tenant_email_config list \<Rightarrow> tenant_email_config option option" where
  "resolve_tenant resource registry configs =
     (case extractMailbox resource of
        None \<Rightarrow> None
      | Some None \<Rightarrow> Some None
      | Some (Some mailbox) \<Rightarrow> if mailbox = [] then Some None else Some (findByMailboxAddress mailbox registry configs))"

subsection \<open>Normalisation\<close>

record normalized_reply =
  nr_channel :: string
  nr_providerMessageId :: string
  nr_content :: string
  nr_receivedAt :: int
  nr_messageIdHeader :: "string option"
  nr_sender :: "string option"
  nr_recipientAddress :: "string option"
  nr_subject :: "string option"
  nr_htmlBody :: "string option"
  nr_inReplyTo :: "string option"
  nr_references :: "string list option"
  nr_hadAttachments :: bool

definition DEFAULT_MAX_BODY_LENGTH :: nat where
  "DEFAULT_MAX_BODY_LENGTH = 200000"

definition findHeader :: "graph_message \<Rightarrow> string \<Rightarrow> string option" where
  "findHeader m name =
     (case gm_headers m of None \<Rightarrow> None
      | Some hs \<Rightarrow> map_option snd (List.find (\<lambda>(k, v). js_lower k = js_lower name) hs))"

text \<open>\<open>split(/\s+/)\<close> without the empty parts; \<open>w\<close> is the word being read.\<close>

fun words_from :: "string \<Rightarrow> string \<Rightarrow> string list" where
  "words_from w [] = (if w = [] then [] else [w])"
| "words_from w (c # s) = (if js_space c then (if w = [] then [] else [w]) @ words_from [] s else words_from (w @ [c]) s)"

definition parseReferences :: "string option \<Rightarrow> string list option" where
  "parseReferences header =
     (if \<not> truthy header then None
      else let refs = words_from [] (nullish header []) in if refs \<noteq> [] then Some refs else None)"

definition sanitizeInboundHtml :: "graph_deps \<Rightarrow> string \<Rightarrow> string" where
  "sanitizeInboundHtml dp raw = (if raw = [] then raw else gd_sanitizeHtml dp raw)"

definition graph_normalize :: "graph_deps \<Rightarrow> int \<Rightarrow> graph_message \<Rightarrow> graph_rejection + normalized_reply" where
  "graph_normalize dp now m =
     (if gm_id m = [] then Inl (GR_MALFORMED ''Message is missing an id'')
      else let raw = nullish (nullish_opt (gm_content m) (gm_bodyPreview m)) [] in
        if length raw > nullish (gd_maxBodyLength dp) DEFAULT_MAX_BODY_LENGTH then Inl GR_OVERSIZED
        else let html = (if gm_isHtml m then Some (sanitizeInboundHtml dp raw) else None);
                 content = (if gm_isHtml m then js_trim (collapse_spaces False (strip_tags False (nullish html []))) else raw)
             in case (if truthy (gm_receivedDateTime m) then gd_parseDate dp (nullish (gm_receivedDateTime m) []) else Some now) of
                  None \<Rightarrow> Inl (GR_MALFORMED ''Invalid receivedDateTime'')
                | Some receivedAt \<Rightarrow>
                    Inr \<lparr>nr_channel = ''email'', nr_providerMessageId = gm_id m, nr_content = content, nr_receivedAt = receivedAt,
                         nr_messageIdHeader = nullish_opt (gm_internetMessageId m) (findHeader m ''Message-ID''),
                         nr_sender = gm_from m,
                         nr_recipientAddress = (case gm_toRecipients m of Some (a # as) \<Rightarrow> a | _ \<Rightarrow> None),
                         nr_subject = gm_subject m, nr_htmlBody = html, nr_inReplyTo = findHeader m ''In-Reply-To'',
                         nr_references = parseReferences (findHeader m ''References''),
                         nr_hadAttachments = nullish (gm_hasAttachments m) False\<rparr>)"

definition toCanonicalReplyIngressEvent :: "normalized_reply \<Rightarrow> string \<Rightarrow> mex option \<Rightarrow> reply_event" where
  "toCanonicalReplyIngressEvent n lead execution =
     \<lparr>re_leadId = lead, re_channel = nr_channel n, re_providerMessageId = nr_providerMessageId n, re_content = nr_content n,
      re_receivedAt = nr_receivedAt n, re_campaignId = map_option mx_campaignId execution,
      re_sequenceId = map_option mx_sequenceId execution, re_executionId = map_option aggId execution,
      re_messageIdHeader = nr_messageIdHeader n, re_sender = nr_sender n, re_recipientAddress = nr_recipientAddress n,
      re_subject = nr_subject n, re_htmlBody = nr_htmlBody n, re_inReplyTo = nr_inReplyTo n, re_references = nr_references n\<rparr>"

subsection \<open>The correlator\<close>

datatype match_method = REFERENCES | IN_REPLY_TO | PROVIDER_MESSAGE_ID | SENDER_RECIPIENT_FALLBACK

datatype correlation =
    CORRELATED "mex option" string string match_method
  | NOT_CORRELATED string
  | AMBIGUOUS string nat

text \<open>
  \<open>findByProviderMessageId\<close> of the repository: the execution of the tenant, and of the workspace when the
  context has one, if there is exactly one.
\<close>

definition mx_findByProviderMessageId :: "tenant_context \<Rightarrow> execution_table \<Rightarrow> string \<Rightarrow> mex option" where
  "mx_findByProviderMessageId ctx rows i =
     (case filter (\<lambda>r. row_tenant r = cx_tenantId ctx \<and> mp_providerMessageId (row_payload r) = Some i
               \<and> (truthy (cx_workspaceId ctx) \<longrightarrow> row_workspace r = cx_workspaceId ctx)) rows of
        [r] \<Rightarrow> Some (mx_restore r) | _ \<Rightarrow> None)"

definition FALLBACK_STATUSES :: "mex_status list" where
  "FALLBACK_STATUSES = [MX_PROVIDER_ACCEPTED, MX_DELIVERY_PENDING, MX_DELIVERED, MX_OPENED, MX_REPLIED]"

text \<open>\<open>split('.')\<close>.\<close>

fun split_dot :: "string \<Rightarrow> string list" where
  "split_dot [] = [[]]"
| "split_dot (c # s) = (if c = CHR ''.'' then [] # split_dot s
     else case split_dot s of [] \<Rightarrow> [[c]] | w # ws \<Rightarrow> (c # w) # ws)"

definition extractKeyVersion :: "string \<Rightarrow> string option" where
  "extractKeyVersion fp =
     (let parts = split_dot fp in if length parts < 3 \<or> parts ! 0 \<noteq> ''h1'' then None else Some (parts ! 1))"

record id_match =
  im_execution :: mex
  im_matchedBy :: match_method
  im_inScope :: bool

definition id_scope :: "graph_subscription \<Rightarrow> mex \<Rightarrow> bool" where
  "id_scope s e \<longleftrightarrow> (gs_scope s = WORKSPACE_BOUND \<longrightarrow> mx_workspaceId e = nullish (gs_workspaceId s) [])"

definition candidate_ids :: "normalized_reply \<Rightarrow> string list" where
  "candidate_ids n = filter (\<lambda>v. v \<noteq> []) (nullish (nr_references n) [] @ (case nr_inReplyTo n of Some v \<Rightarrow> [v] | None \<Rightarrow> []))"

definition findByMessageIds :: "tenant_context \<Rightarrow> execution_table \<Rightarrow> graph_subscription \<Rightarrow> normalized_reply \<Rightarrow> id_match list" where
  "findByMessageIds ctx rows s n =
     concat (map (\<lambda>i. case mx_findByProviderMessageId ctx rows i of
          None \<Rightarrow> []
        | Some e \<Rightarrow> [\<lparr>im_execution = e, im_matchedBy = (if i \<in> set (nullish (nr_references n) []) then REFERENCES else IN_REPLY_TO),
                      im_inScope = id_scope s e\<rparr>]) (candidate_ids n))
     @ (if nr_providerMessageId n = [] then []
        else case mx_findByProviderMessageId ctx rows (nr_providerMessageId n) of
            None \<Rightarrow> []
          | Some e \<Rightarrow> [\<lparr>im_execution = e, im_matchedBy = PROVIDER_MESSAGE_ID, im_inScope = id_scope s e\<rparr>])"

definition toCorrelated :: "mex \<Rightarrow> match_method \<Rightarrow> correlation" where
  "toCorrelated e by_what = CORRELATED (Some e) (mx_leadId e) (mx_workspaceId e) by_what"

text \<open>The executions whose protected recipient is the sender, under the key version that protected it.\<close>

definition sender_matches :: "graph_deps \<Rightarrow> string \<Rightarrow> string \<Rightarrow> mex \<Rightarrow> bool" where
  "sender_matches dp tenant sender e \<longleftrightarrow>
     (case mx_recipientFingerprint e of
        None \<Rightarrow> False
      | Some fp \<Rightarrow> fp \<noteq> [] \<and> mx_recipientProtectionState e = PROTECTED
          \<and> (case extractKeyVersion fp of
               None \<Rightarrow> False
             | Some k \<Rightarrow> k \<noteq> [] \<and> gd_fingerprint dp tenant sender k = Some fp))"

definition senderRecipientFallback :: "graph_deps \<Rightarrow> tenant_context \<Rightarrow> execution_table \<Rightarrow> normalized_reply \<Rightarrow> correlation" where
  "senderRecipientFallback dp ctx rows n =
     (if \<not> truthy (nr_sender n) then NOT_CORRELATED ''Protected sender/recipient fallback requires a sender address''
      else case filter (sender_matches dp (cx_tenantId ctx) (nullish (nr_sender n) [])) (mx_findByStatus ctx rows FALLBACK_STATUSES) of
          [] \<Rightarrow> NOT_CORRELATED ''No protected sender/recipient match found''
        | e # es \<Rightarrow>
            if list_ex (\<lambda>x. mx_leadId x \<noteq> mx_leadId e) (e # es)
            then NOT_CORRELATED ''Sender/recipient fallback matches multiple Leads''
            else CORRELATED (if es = [] then Some e else None) (mx_leadId e) (mx_workspaceId e) SENDER_RECIPIENT_FALLBACK)"

definition correlate ::
    "graph_deps \<Rightarrow> tenant_context \<Rightarrow> execution_table \<Rightarrow> graph_subscription \<Rightarrow> normalized_reply \<Rightarrow> correlation" where
  "correlate dp ctx rows s n =
     (let matches = findByMessageIds ctx rows s n;
          inScope = filter im_inScope matches; outOfScope = filter (\<lambda>m. \<not> im_inScope m) matches in
      if gs_scope s = WORKSPACE_BOUND
      then if inScope = [] \<and> outOfScope \<noteq> []
           then NOT_CORRELATED ''Workspace A subscription cannot authorize workspace B execution''
           else (case inScope of
                   [] \<Rightarrow> if \<not> truthy (gs_workspaceId s)
                         then NOT_CORRELATED ''WORKSPACE_BOUND subscription has no authoritative workspace''
                         else senderRecipientFallback dp (ctx\<lparr>cx_workspaceId := gs_workspaceId s\<rparr>) rows n
                 | [m] \<Rightarrow> toCorrelated (im_execution m) (im_matchedBy m)
                 | m # m' # ms \<Rightarrow> AMBIGUOUS ''Multiple message-id-based matches in workspace'' (length inScope))
      else (case matches of
              [] \<Rightarrow> NOT_CORRELATED ''LEGACY_UNBOUND subscription does not permit sender/recipient fallback''
            | [m] \<Rightarrow> toCorrelated (im_execution m) (im_matchedBy m)
            | m # m' # ms \<Rightarrow> NOT_CORRELATED ''LEGACY_UNBOUND requires exactly one durable execution; multiple found''))"

subsection \<open>The ingress\<close>

record graph_world =
  gw_registry :: "mailbox_row list"
  gw_configs :: "tenant_email_config list"
  gw_subscriptions :: "graph_subscription list"
  gw_executions :: execution_table
  gw_idempotency :: idem_table

datatype ingress_outcome =
    IO_PROCESSED string string reply_event
  | IO_DUPLICATE
  | IO_REJECTED graph_rejection
  | IO_NOT_CORRELATED string
  | IO_AMBIGUOUS string

datatype graph_exn = GX_uri | GX_secret | GX_fetch string

definition INBOUND_SCOPE :: string where
  "INBOUND_SCOPE = ''outreach:inbound-email''"

definition system_ctx :: "string \<Rightarrow> string \<Rightarrow> tenant_context" where
  "system_ctx tenant corr = \<lparr>cx_tenantId = tenant, cx_workspaceId = None, cx_correlationId = corr, cx_userId = None,
     cx_agentId = None, cx_missionId = None\<rparr>"

definition covers :: "graph_subscription \<Rightarrow> string \<Rightarrow> bool" where
  "covers s resource \<longleftrightarrow> resource = gs_resource s \<or> js_startsWith resource (gs_resource s @ ''/'')"

text \<open>What follows the claim of the key; the claim stays whatever comes of it.\<close>

definition fetch_and_correlate ::
    "graph_deps \<Rightarrow> tenant_context \<Rightarrow> int \<Rightarrow> graph_subscription \<Rightarrow> string \<Rightarrow> string \<Rightarrow> graph_world \<Rightarrow> graph_exn + ingress_outcome" where
  "fetch_and_correlate dp ctx now s resource messageId w =
     (case extractMailbox resource of
        None \<Rightarrow> Inl GX_uri
      | Some None \<Rightarrow> Inr (IO_REJECTED (GR_MALFORMED ''Could not extract mailbox from resource''))
      | Some (Some mailbox) \<Rightarrow>
          if mailbox = [] then Inr (IO_REJECTED (GR_MALFORMED ''Could not extract mailbox from resource''))
          else case gd_getMessage dp mailbox messageId of
            Inl err \<Rightarrow> Inl (GX_fetch err)
          | Inr None \<Rightarrow> Inr (IO_REJECTED GR_MESSAGE_NOT_FOUND)
          | Inr (Some m) \<Rightarrow>
              (case graph_normalize dp now m of
                 Inl why \<Rightarrow> Inr (IO_REJECTED why)
               | Inr n \<Rightarrow>
                   (case correlate dp ctx (gw_executions w) s n of
                      NOT_CORRELATED why \<Rightarrow> Inr (IO_NOT_CORRELATED why)
                    | AMBIGUOUS why k \<Rightarrow> Inr (IO_AMBIGUOUS why)
                    | CORRELATED e lead ws by_what \<Rightarrow>
                        Inr (IO_PROCESSED (cx_tenantId ctx) ws (toCanonicalReplyIngressEvent n lead e)))))"

definition dedup_key :: "graph_notification \<Rightarrow> string" where
  "dedup_key n = nullish (gn_subscriptionId n) [] @ '':'' @ nullish (gn_messageId n) []"

definition ingest ::
    "graph_deps \<Rightarrow> int \<Rightarrow> graph_notification option \<Rightarrow> graph_world \<Rightarrow> (graph_exn + ingress_outcome) \<times> graph_world" where
  "ingest dp now notification w =
     (case validateShape dp notification of
        Some why \<Rightarrow> (Inr (IO_REJECTED why), w)
      | None \<Rightarrow>
          let n = the notification; resource = nullish (gn_resource n) []; subscription = nullish (gn_subscriptionId n) [] in
          (case resolve_tenant resource (gw_registry w) (gw_configs w) of
             None \<Rightarrow> (Inl GX_uri, w)
           | Some None \<Rightarrow> (Inr (IO_REJECTED GR_TENANT_NOT_FOUND), w)
           | Some (Some config) \<Rightarrow>
               (case gs_find (te_tenantId config) subscription (gw_subscriptions w) of
                  None \<Rightarrow> (Inr (IO_REJECTED GR_TENANT_SUBSCRIPTION_MISMATCH), w)
                | Some s \<Rightarrow>
                    if \<not> covers s resource then (Inr (IO_REJECTED GR_SUBSCRIPTION_RESOURCE_MISMATCH), w)
                    else case validateClientState dp n (te_webhookSecretReference config) of
                        Inl _ \<Rightarrow> (Inl GX_secret, w)
                      | Inr (Some why) \<Rightarrow> (Inr (IO_REJECTED why), w)
                      | Inr None \<Rightarrow>
                          if \<not> truthy (gn_messageId n)
                          then (Inr (IO_REJECTED (GR_MALFORMED ''Notification is missing resourceData.id'')), w)
                          else
                            let messageId = nullish (gn_messageId n) [];
                                ctx = system_ctx (te_tenantId config) (''graph-notification-'' @ subscription @ ''-'' @ messageId)
                            in (case pg_claim now ctx INBOUND_SCOPE (dedup_key n) (gw_idempotency w) of
                                  ((claimed, old), t) \<Rightarrow>
                                    if \<not> claimed then (Inr IO_DUPLICATE, w\<lparr>gw_idempotency := t\<rparr>)
                                    else (fetch_and_correlate dp ctx now s resource messageId w, w\<lparr>gw_idempotency := t\<rparr>)))))"

subsection \<open>The poller\<close>

text \<open>The checkpoints, by mailbox in lower case; \<open>changed\<close> is what Graph lists since a time, or \<open>Inl\<close> an exception.\<close>

record poll_result =
  pl_processed :: "(string \<times> string \<times> reply_event) list"
  pl_skippedDuplicates :: nat
  pl_notCorrelated :: nat
  pl_ambiguous :: nat

definition DEFAULT_INITIAL_LOOKBACK_MS :: int where
  "DEFAULT_INITIAL_LOOKBACK_MS = 60 * 60 * 1000"

definition reconciliation_subscription :: "tenant_email_config \<Rightarrow> int \<Rightarrow> graph_subscription" where
  "reconciliation_subscription c now =
     \<lparr>gs_tenantId = te_tenantId c, gs_workspaceId = None, gs_scope = LEGACY_UNBOUND,
      gs_subscriptionId = ''reconciliation:'' @ te_fromAddress c, gs_resource = ''/users/'' @ te_fromAddress c @ ''/messages'',
      gs_notificationUrl = [], gs_clientState = [], gs_expirationDateTime = now + 86400000, gs_createdAt = now, gs_updatedAt = now\<rparr>"

definition poll_ctx :: "tenant_email_config \<Rightarrow> tenant_context" where
  "poll_ctx c = system_ctx (te_tenantId c) (''graph-reconciliation-'' @ te_fromAddress c)"

definition later_checkpoint :: "graph_deps \<Rightarrow> graph_message \<Rightarrow> int \<Rightarrow> int" where
  "later_checkpoint dp m latest =
     (if truthy (gm_receivedDateTime m)
      then case gd_parseDate dp (nullish (gm_receivedDateTime m) []) of Some t \<Rightarrow> max latest t | None \<Rightarrow> latest
      else latest)"

definition poll_message ::
    "graph_deps \<Rightarrow> int \<Rightarrow> tenant_email_config \<Rightarrow> graph_message \<Rightarrow> graph_world \<times> poll_result \<times> int \<Rightarrow> graph_world \<times> poll_result \<times> int" where
  "poll_message dp now c m st =
     (case st of (w, r, latest) \<Rightarrow>
        case pg_claim now (poll_ctx c) INBOUND_SCOPE (''poll:'' @ gm_id m) (gw_idempotency w) of
          ((claimed, old), t) \<Rightarrow>
            let w1 = w\<lparr>gw_idempotency := t\<rparr> in
            if \<not> claimed then (w1, r\<lparr>pl_skippedDuplicates := Suc (pl_skippedDuplicates r)\<rparr>, latest)
            else case graph_normalize dp now m of
                Inl why \<Rightarrow> (w1, r, latest)
              | Inr n \<Rightarrow>
                  (case correlate dp (poll_ctx c) (gw_executions w) (reconciliation_subscription c now) n of
                     NOT_CORRELATED why \<Rightarrow> (w1, r\<lparr>pl_notCorrelated := Suc (pl_notCorrelated r)\<rparr>, latest)
                   | AMBIGUOUS why k \<Rightarrow> (w1, r\<lparr>pl_ambiguous := Suc (pl_ambiguous r)\<rparr>, latest)
                   | CORRELATED e lead ws by_what \<Rightarrow>
                       (w1, r\<lparr>pl_processed := pl_processed r @ [(te_tenantId c, ws, toCanonicalReplyIngressEvent n lead e)]\<rparr>,
                        later_checkpoint dp m latest)))"

definition pollMailbox ::
    "graph_deps \<Rightarrow> int option \<Rightarrow> (string \<Rightarrow> int \<Rightarrow> string + graph_message list) \<Rightarrow> int \<Rightarrow> tenant_email_config
     \<Rightarrow> (string \<times> int) list \<Rightarrow> graph_world \<Rightarrow> (string + poll_result) \<times> (string \<times> int) list \<times> graph_world" where
  "pollMailbox dp lookback changed now c checkpoints w =
     (let mailbox = te_fromAddress c;
          since = nullish (map_of checkpoints (js_lower mailbox)) (now - nullish lookback DEFAULT_INITIAL_LOOKBACK_MS)
      in case changed mailbox since of
           Inl err \<Rightarrow> (Inl err, checkpoints, w)
         | Inr ms \<Rightarrow>
             (case fold (poll_message dp now c) ms
                (w, \<lparr>pl_processed = [], pl_skippedDuplicates = 0, pl_notCorrelated = 0, pl_ambiguous = 0\<rparr>, since) of
                (w1, r, latest) \<Rightarrow> (Inr r, am_set (js_lower mailbox) latest checkpoints, w1)))"

subsection \<open>The orchestrator of the API\<close>

record inbound_world =
  iw_graph :: graph_world
  iw_conv :: conv_world
  iw_audit :: "(string \<times> string) list"
  iw_signals :: "string list"

datatype notification_outcome =
    NO_PROCESSED string "next_action option" bool bool "string option"
  | NO_OPTED_OUT string
  | NO_DUPLICATE
  | NO_REJECTED graph_rejection
  | NO_CONVERSATION_NOT_FOUND
  | NO_NOT_CORRELATED string
  | NO_AMBIGUOUS string

datatype inbound_exn = BX_ingress graph_exn | BX_conversation conv_exn

definition iw_record :: "string \<Rightarrow> string \<Rightarrow> inbound_world \<Rightarrow> inbound_world" where
  "iw_record action res w = w\<lparr>iw_audit := iw_audit w @ [(action, res)]\<rparr>"

definition ingress_result :: "ingress_outcome \<Rightarrow> string" where
  "ingress_result r = (case r of IO_PROCESSED t ws e \<Rightarrow> ''success'' | IO_DUPLICATE \<Rightarrow> ''success'' | _ \<Rightarrow> ''denied'')"

definition reply_ctx :: "string \<Rightarrow> string \<Rightarrow> reply_event \<Rightarrow> tenant_context" where
  "reply_ctx tenant ws e = (system_ctx tenant (''graph-reply-'' @ re_providerMessageId e))\<lparr>cx_workspaceId := Some ws\<rparr>"

text \<open>Telling the workflow of the sequence; \<open>dispatch\<close> answers the outcome.\<close>

definition signal_workflow :: "(string \<Rightarrow> string) \<Rightarrow> string \<Rightarrow> reply_event \<Rightarrow> inbound_world \<Rightarrow> string option \<times> inbound_world" where
  "signal_workflow dispatch tenant e w =
     (if \<not> truthy (re_sequenceId e) then (None, w)
      else let wf = forOutreachSequence tenant (nullish (re_sequenceId e) []); out = dispatch wf
           in (Some out, iw_record ''graph_inbound_signal_dispatch'' (if out = ''DISPATCHED'' then ''success'' else ''failure'')
                 (w\<lparr>iw_signals := iw_signals w @ [wf]\<rparr>)))"

definition handle_ingested ::
    "conv_deps \<Rightarrow> (string \<Rightarrow> string) \<Rightarrow> jsnum option \<Rightarrow> call_ids \<Rightarrow> int \<Rightarrow> string \<Rightarrow> string \<Rightarrow> reply_event \<Rightarrow> inbound_world
     \<Rightarrow> (inbound_exn + notification_outcome) \<times> inbound_world" where
  "handle_ingested cd dispatch level ids now tenant ws e w =
     (let ctx = reply_ctx tenant ws e in
      case handleReply cd ctx ids now e (iw_conv w) of
        (Inl err, v) \<Rightarrow> (Inl (BX_conversation err), w\<lparr>iw_conv := v\<rparr>)
      | (Inr h, v) \<Rightarrow>
          if hr_isOptOut h
          then (Inr (NO_OPTED_OUT (hr_conversationId h)),
                iw_record ''graph_inbound_opt_out'' ''success'' (w\<lparr>iw_conv := persistReplyBasedOptOut ctx now e v\<rparr>))
          else case cv_load ctx (kw_conversations v) (hr_conversationId h) of
              None \<Rightarrow> (Inr NO_CONVERSATION_NOT_FOUND, w\<lparr>iw_conv := v\<rparr>)
            | Some c \<Rightarrow>
                (case classifyAndAct cd ctx ids now c (nullish level (Fin 2)) v of
                   (Inl err, v1) \<Rightarrow> (Inl (BX_conversation err), w\<lparr>iw_conv := v1\<rparr>)
                 | (Inr a, v1) \<Rightarrow>
                     (case signal_workflow dispatch tenant e (w\<lparr>iw_conv := v1\<rparr>) of
                        (sig, w1) \<Rightarrow> (Inr (NO_PROCESSED (ca_conversationId a) (ca_actionType a) (ca_requiresApproval a)
                                       (ca_leadStatusChanged a) sig), w1))))"

definition processNotification ::
    "graph_deps \<Rightarrow> conv_deps \<Rightarrow> (string \<Rightarrow> string) \<Rightarrow> jsnum option \<Rightarrow> call_ids \<Rightarrow> int \<Rightarrow> graph_notification option \<Rightarrow> inbound_world
     \<Rightarrow> (inbound_exn + notification_outcome) \<times> inbound_world" where
  "processNotification dp cd dispatch level ids now n w =
     (case ingest dp now n (iw_graph w) of
        (Inl err, g) \<Rightarrow> (Inl (BX_ingress err), w\<lparr>iw_graph := g\<rparr>)
      | (Inr r, g) \<Rightarrow>
          let w1 = iw_record ''graph_inbound_ingress'' (ingress_result r) (w\<lparr>iw_graph := g\<rparr>) in
          (case r of
             IO_DUPLICATE \<Rightarrow> (Inr NO_DUPLICATE, w1)
           | IO_REJECTED why \<Rightarrow> (Inr (NO_REJECTED why), w1)
           | IO_NOT_CORRELATED why \<Rightarrow> (Inr (NO_NOT_CORRELATED why), w1)
           | IO_AMBIGUOUS why \<Rightarrow> (Inr (NO_AMBIGUOUS why), w1)
           | IO_PROCESSED tenant ws e \<Rightarrow> handle_ingested cd dispatch level ids now tenant ws e w1))"

subsection \<open>What the ingress lets through\<close>

lemma validateClientState_ok:
  "validateClientState dp n ref = Inr None \<Longrightarrow> \<exists>r x. ref = Some r \<and> gd_secret dp r = Some x \<and> gn_clientState n = Some x \<and> x \<noteq> []"
  by (cases ref; cases "gn_clientState n") (auto simp: validateClientState_def split: if_splits option.splits)

lemma resolve_tenant_config:
  "resolve_tenant resource registry configs = Some (Some c) \<Longrightarrow> c \<in> set configs
    \<and> (\<exists>mailbox. extractMailbox resource = Some (Some mailbox) \<and> (\<exists>m \<in> set registry. mb_mailbox m = mailbox \<and> mb_tenant m = te_tenantId c))"
  by (auto simp: resolve_tenant_def split: option.splits if_splits dest: findByMailboxAddress_Some)

text \<open>The call that got past every check, taken apart.\<close>

lemma ingest_processed:
  assumes "ingest dp now notification w = (Inr (IO_PROCESSED tenant ws e), w')"
  obtains n config s messageId where "notification = Some n"
    and "resolve_tenant (nullish (gn_resource n) []) (gw_registry w) (gw_configs w) = Some (Some config)" and "te_tenantId config = tenant"
    and "gs_find tenant (nullish (gn_subscriptionId n) []) (gw_subscriptions w) = Some s" and "covers s (nullish (gn_resource n) [])"
    and "validateClientState dp n (te_webhookSecretReference config) = Inr None" and "gn_messageId n = Some messageId"
    and "open_entry (map_of (gw_idempotency w) (tenant, INBOUND_SCOPE, dedup_key n))"
    and "\<not> open_entry (map_of (gw_idempotency w') (tenant, INBOUND_SCOPE, dedup_key n))"
    and "\<exists>ctx. cx_tenantId ctx = tenant \<and> cx_workspaceId ctx = None
      \<and> fetch_and_correlate dp ctx now s (nullish (gn_resource n) []) messageId w = Inr (IO_PROCESSED tenant ws e)"
proof -
  have shape: "validateShape dp notification = None" using assms by (auto simp: ingest_def split: option.splits)
  then obtain n where n: "notification = Some n" by (cases notification) (auto simp: validateShape_def split: if_splits)
  note run = assms [unfolded ingest_def n shape [unfolded n] option.case(1) option.sel Let_def]
  let ?res = "nullish (gn_resource n) []" and ?sub = "nullish (gn_subscriptionId n) []"
  obtain config where config: "resolve_tenant ?res (gw_registry w) (gw_configs w) = Some (Some config)"
    using run by (auto split: option.splits)
  let ?t = "te_tenantId config"
  obtain s where s: "gs_find ?t ?sub (gw_subscriptions w) = Some s" using run config by (auto split: option.splits)
  have cov: "covers s ?res" using run config s by (auto split: if_splits)
  have state: "validateClientState dp n (te_webhookSecretReference config) = Inr None"
    using run config s cov by (auto split: sum.splits option.splits)
  have id: "truthy (gn_messageId n)" using run config s cov state by (auto split: if_splits)
  then obtain mid where mid: "gn_messageId n = Some mid" by (cases "gn_messageId n") auto
  let ?ctx = "system_ctx ?t (''graph-notification-'' @ ?sub @ ''-'' @ mid)"
  obtain claimed old t where claim: "pg_claim now ?ctx INBOUND_SCOPE (dedup_key n) (gw_idempotency w) = ((claimed, old), t)"
    by (metis prod.exhaust)
  have won: claimed and fetched: "fetch_and_correlate dp ?ctx now s ?res mid w = Inr (IO_PROCESSED tenant ws e)"
    and w': "w' = w\<lparr>gw_idempotency := t\<rparr>"
    using run config s cov state id claim mid by (auto split: if_splits)
  have ctx: "cx_tenantId ?ctx = ?t" "cx_workspaceId ?ctx = None" by (simp_all add: system_ctx_def)
  have tenant: "?t = tenant" using fetched ctx(1)
    by (auto simp: fetch_and_correlate_def split: option.splits sum.splits correlation.splits if_splits)
  note facts = pg_claim_facts(1,2) [where now = now and ctx = ?ctx and scope = INBOUND_SCOPE and key = "dedup_key n" and t = "gw_idempotency w", unfolded claim ctx(1) fst_conv snd_conv]
  have "open_entry (map_of (gw_idempotency w) (?t, INBOUND_SCOPE, dedup_key n))" using facts(1) won by simp
  moreover from this obtain r where "map_of t (?t, INBOUND_SCOPE, dedup_key n) = Some r" "id_status r = ID_PENDING" using facts(2) by blast
  then have "\<not> open_entry (map_of (gw_idempotency w') (?t, INBOUND_SCOPE, dedup_key n))" using w' by (simp add: open_entry_def)
  ultimately show thesis using that [OF n config tenant] s cov state mid fetched ctx tenant by blast
qed

text \<open>The execution that a correlation rests on, and the workspace it may come from.\<close>

lemma found_execution:
  "mx_findByProviderMessageId ctx rows i = Some e \<Longrightarrow> \<exists>r \<in> set rows. row_tenant r = cx_tenantId ctx \<and> e = mx_restore r"
proof -
  let ?P = "\<lambda>r. row_tenant r = cx_tenantId ctx \<and> mp_providerMessageId (row_payload r) = Some i
      \<and> (truthy (cx_workspaceId ctx) \<longrightarrow> row_workspace r = cx_workspaceId ctx)"
  assume "mx_findByProviderMessageId ctx rows i = Some e"
  then obtain r where r: "filter ?P rows = [r]" "e = mx_restore r" by (auto simp: mx_findByProviderMessageId_def split: list.splits)
  then have "r \<in> set (filter ?P rows)" by simp
  then show ?thesis using r(2) by auto
qed

lemma matches_found:
  "m \<in> set (findByMessageIds ctx rows s n) \<Longrightarrow>
     (\<exists>r \<in> set rows. row_tenant r = cx_tenantId ctx \<and> im_execution m = mx_restore r) \<and> im_inScope m = id_scope s (im_execution m)"
  by (auto simp: findByMessageIds_def split: option.splits if_splits dest: found_execution dest!: found_execution [OF sym])

lemma mx_restore_workspace: "mx_workspaceId (mx_restore r) = nullish (row_workspace r) []"
  by (simp add: mx_restore_def mex_reconstitute_def mex_construct_def clearDomainEvents_def setVersion_def)

lemma correlated_execution:
  assumes "correlate dp ctx rows s n = CORRELATED e lead ws by_what"
  shows "(\<exists>r \<in> set rows. row_tenant r = cx_tenantId ctx \<and> mx_leadId (mx_restore r) = lead \<and> mx_workspaceId (mx_restore r) = ws)
    \<and> (gs_scope s = WORKSPACE_BOUND \<longrightarrow> ws = nullish (gs_workspaceId s) [])"
proof -
  have direct: "m \<in> set (findByMessageIds ctx rows s n) \<Longrightarrow> toCorrelated (im_execution m) (im_matchedBy m) = CORRELATED e lead ws by_what
      \<Longrightarrow> gs_scope s = WORKSPACE_BOUND \<longrightarrow> im_inScope m \<Longrightarrow> ?thesis" for m
    using matches_found [of m ctx rows s n] by (auto simp: toCorrelated_def id_scope_def)
  have fall: "senderRecipientFallback dp (ctx\<lparr>cx_workspaceId := gs_workspaceId s\<rparr>) rows n = CORRELATED e lead ws by_what \<Longrightarrow> ?thesis"
  proof -
    let ?c = "ctx\<lparr>cx_workspaceId := gs_workspaceId s\<rparr>"
    assume f: "senderRecipientFallback dp ?c rows n = CORRELATED e lead ws by_what"
    then obtain x xs where x: "filter (sender_matches dp (cx_tenantId ?c) (nullish (nr_sender n) [])) (mx_findByStatus ?c rows FALLBACK_STATUSES) = x # xs"
      and lead: "lead = mx_leadId x" "ws = mx_workspaceId x"
      by (auto simp: senderRecipientFallback_def split: if_splits list.splits)
    from x have "x \<in> set (mx_findByStatus ?c rows FALLBACK_STATUSES)" by (metis filter_is_subset list.set_intros(1) subsetD)
    then show ?thesis using lead by (auto simp: mx_findByStatus_def mx_restore_workspace)
  qed
  let ?ms = "findByMessageIds ctx rows s n"
  show ?thesis
  proof (cases "gs_scope s")
    case WORKSPACE_BOUND
    show ?thesis
    proof (cases "filter im_inScope ?ms")
      case Nil
      then show ?thesis using assms WORKSPACE_BOUND fall by (auto simp: correlate_def Let_def split: if_splits)
    next
      case (Cons m ms)
      then have "m \<in> set (filter im_inScope ?ms)" by simp
      then have "m \<in> set ?ms" "im_inScope m" by simp_all
      then show ?thesis using assms WORKSPACE_BOUND Cons direct by (auto simp: correlate_def Let_def split: list.splits)
    qed
  next
    case LEGACY_UNBOUND
    then show ?thesis using assms direct by (cases ?ms) (auto simp: correlate_def Let_def split: list.splits)
  qed
qed

lemma fetch_processed:
  assumes "fetch_and_correlate dp ctx now s resource mid w = Inr (IO_PROCESSED tenant ws e)"
  shows "\<exists>n x by_what. correlate dp ctx (gw_executions w) s n = CORRELATED x (re_leadId e) ws by_what \<and> tenant = cx_tenantId ctx"
  using assms
  by (auto simp: fetch_and_correlate_def toCanonicalReplyIngressEvent_def split: option.splits sum.splits correlation.splits if_splits) blast+

text \<open>
  (C32) A reply that \<open>ingest\<close> hands on passed every check: the mailbox in the resource of the notification is
  registered for the tenant, the notification carries the webhook secret of the configuration that
  \<open>resolve_tenant\<close> answers for this resource, its subscription belongs to that tenant and covers the
  resource, the reply is given the lead and the workspace of an execution of that tenant, a
  subscription bound to a workspace only ever yields that workspace, and the key of the message was free
  before and is taken afterwards.
\<close>

theorem inbound_reply_is_authentic:
  assumes "ingest dp now notification w = (Inr (IO_PROCESSED tenant ws e), w')"
  shows "\<exists>n config s ref secret. notification = Some n
    \<and> resolve_tenant (nullish (gn_resource n) []) (gw_registry w) (gw_configs w) = Some (Some config)
    \<and> config \<in> set (gw_configs w) \<and> te_tenantId config = tenant
    \<and> (\<exists>mailbox. extractMailbox (nullish (gn_resource n) []) = Some (Some mailbox)
         \<and> (\<exists>m \<in> set (gw_registry w). mb_mailbox m = mailbox \<and> mb_tenant m = tenant))
    \<and> te_webhookSecretReference config = Some ref \<and> gd_secret dp ref = Some secret \<and> gn_clientState n = Some secret \<and> secret \<noteq> []
    \<and> gs_find tenant (nullish (gn_subscriptionId n) []) (gw_subscriptions w) = Some s \<and> covers s (nullish (gn_resource n) [])
    \<and> (\<exists>r \<in> set (gw_executions w). row_tenant r = tenant \<and> mx_leadId (mx_restore r) = re_leadId e \<and> mx_workspaceId (mx_restore r) = ws)
    \<and> (gs_scope s = WORKSPACE_BOUND \<longrightarrow> ws = nullish (gs_workspaceId s) [])
    \<and> open_entry (map_of (gw_idempotency w) (tenant, INBOUND_SCOPE, dedup_key n))
    \<and> \<not> open_entry (map_of (gw_idempotency w') (tenant, INBOUND_SCOPE, dedup_key n))"
  using assms
proof (rule ingest_processed)
  fix n config s mid
  assume n: "notification = Some n"
    and config: "resolve_tenant (nullish (gn_resource n) []) (gw_registry w) (gw_configs w) = Some (Some config)" "te_tenantId config = tenant"
    and s: "gs_find tenant (nullish (gn_subscriptionId n) []) (gw_subscriptions w) = Some s" "covers s (nullish (gn_resource n) [])"
    and state: "validateClientState dp n (te_webhookSecretReference config) = Inr None"
    and key: "open_entry (map_of (gw_idempotency w) (tenant, INBOUND_SCOPE, dedup_key n))"
      "\<not> open_entry (map_of (gw_idempotency w') (tenant, INBOUND_SCOPE, dedup_key n))"
    and fetched: "\<exists>ctx. cx_tenantId ctx = tenant \<and> cx_workspaceId ctx = None
      \<and> fetch_and_correlate dp ctx now s (nullish (gn_resource n) []) mid w = Inr (IO_PROCESSED tenant ws e)"
  obtain nn x by_what ctx where "correlate dp ctx (gw_executions w) s nn = CORRELATED x (re_leadId e) ws by_what" "cx_tenantId ctx = tenant"
    using fetched fetch_processed by blast
  note from_row = correlated_execution [OF this(1), unfolded this(2)]
  show ?thesis using n config resolve_tenant_config [OF config(1)] s validateClientState_ok [OF state] key from_row by auto
qed

text \<open>What may happen between two notifications: other ones, polls, and any change of the other tables.\<close>

inductive inbound_step :: "graph_deps \<Rightarrow> graph_world \<Rightarrow> graph_world \<Rightarrow> bool" for dp where
  is_ingest: "inbound_step dp w (snd (ingest dp now notification w))"
| is_poll: "inbound_step dp w (snd (snd (pollMailbox dp lookback changed now c checkpoints w)))"
| is_other: "gw_idempotency w' = gw_idempotency w \<Longrightarrow> inbound_step dp w w'"

lemma claim_keeps_taken:
  "\<not> open_entry (map_of t k) \<Longrightarrow> \<not> open_entry (map_of (snd (pg_claim now ctx scope key t)) k)"
  using pg_claim_facts(3,4) [where now = now and ctx = ctx and scope = scope and key = key and t = t]
  by (cases "k = (cx_tenantId ctx, scope, key)") auto

lemma ingest_table:
  "gw_idempotency (snd (ingest dp now notification w)) = gw_idempotency w
   \<or> (\<exists>ctx key. gw_idempotency (snd (ingest dp now notification w)) = snd (pg_claim now ctx INBOUND_SCOPE key (gw_idempotency w)))"
  by (auto simp: ingest_def Let_def split: option.split sum.split prod.split) (metis snd_conv)+

lemma poll_message_taken:
  assumes "\<not> open_entry (map_of (gw_idempotency (fst st)) k)"
  shows "\<not> open_entry (map_of (gw_idempotency (fst (poll_message dp now c m st))) k)"
proof -
  obtain w r latest where st: "st = (w, r, latest)" by (metis prod.exhaust)
  have "gw_idempotency (fst (poll_message dp now c m st)) = snd (pg_claim now (poll_ctx c) INBOUND_SCOPE (''poll:'' @ gm_id m) (gw_idempotency w))"
    unfolding st by (auto simp: poll_message_def Let_def split: prod.split sum.split correlation.split)
  then show ?thesis using claim_keeps_taken assms st by simp
qed

lemma poll_messages_taken:
  "\<not> open_entry (map_of (gw_idempotency (fst st)) k) \<Longrightarrow>
     \<not> open_entry (map_of (gw_idempotency (fst (fold (poll_message dp now c) ms st))) k)"
proof (induction ms arbitrary: st)
  case (Cons m ms)
  show ?case using Cons.IH [OF poll_message_taken [OF Cons.prems]] by simp
qed simp

lemma inbound_step_taken:
  assumes "inbound_step dp w w'" and "\<not> open_entry (map_of (gw_idempotency w) k)"
  shows "\<not> open_entry (map_of (gw_idempotency w') k)"
  using assms(1)
proof cases
  case (is_ingest now notification)
  then show ?thesis using ingest_table [of dp now notification w] claim_keeps_taken assms(2) by metis
next
  case (is_poll lookback changed now c checkpoints)
  then show ?thesis
    using assms(2) poll_messages_taken [of "(w, \<lparr>pl_processed = [], pl_skippedDuplicates = 0, pl_notCorrelated = 0, pl_ambiguous = 0\<rparr>, s)" k for s]
    by (auto simp: pollMailbox_def Let_def split: sum.split prod.split) (metis fst_conv)+
qed (use assms(2) in simp)

text \<open>
  (C33) A message is handed on at most once for a subscription: after a notification was processed, however
  many notifications and polls follow, no later notification of the same subscription and message is
  processed for the tenant.
\<close>

theorem inbound_message_processed_once:
  assumes "ingest dp now (Some n) w0 = (Inr (IO_PROCESSED tenant ws e), w1)" and "(inbound_step dp)\<^sup>*\<^sup>* w1 w2"
    and "dedup_key n' = dedup_key n"
  shows "fst (ingest dp now' (Some n') w2) \<noteq> Inr (IO_PROCESSED tenant ws' e')"
proof
  assume later: "fst (ingest dp now' (Some n') w2) = Inr (IO_PROCESSED tenant ws' e')"
  have "\<not> open_entry (map_of (gw_idempotency w1) (tenant, INBOUND_SCOPE, dedup_key n))"
    using assms(1) by (rule ingest_processed) simp
  with assms(2) have "\<not> open_entry (map_of (gw_idempotency w2) (tenant, INBOUND_SCOPE, dedup_key n))"
    by (induction rule: rtranclp_induct) (auto dest: inbound_step_taken)
  moreover have "open_entry (map_of (gw_idempotency w2) (tenant, INBOUND_SCOPE, dedup_key n'))"
    using later by (cases "ingest dp now' (Some n') w2") (auto elim: ingest_processed)
  ultimately show False using assms(3) by simp
qed

text \<open>
  A reply with the usual headers is never correlated by them: when the message it answers stands in
  \<open>In-Reply-To\<close> and, as mail programs write it, in \<open>References\<close> too, the one execution is found twice and
  counts as an ambiguity, in a workspace as ambiguous and otherwise as not correlated.
\<close>

theorem usual_reply_is_not_correlated:
  assumes "mx_findByProviderMessageId ctx rows i = Some x" and "i \<noteq> []" and "nr_inReplyTo n = Some i"
    and "nr_references n = Some refs" and "i \<in> set refs" and "id_scope s x"
  shows "correlate dp ctx rows s n \<noteq> CORRELATED e lead ws by_what"
proof -
  let ?f = "\<lambda>j. case mx_findByProviderMessageId ctx rows j of None \<Rightarrow> []
      | Some e \<Rightarrow> [\<lparr>im_execution = e, im_matchedBy = (if j \<in> set refs then REFERENCES else IN_REPLY_TO), im_inScope = id_scope s e\<rparr>]"
  define m where "m = \<lparr>im_execution = x, im_matchedBy = REFERENCES, im_inScope = True\<rparr>"
  obtain a b where refs: "refs = a @ i # b" using assms(5) by (meson split_list)
  have f: "?f i = [m]" using assms(1,5,6) by (simp add: m_def)
  define A where "A = filter (\<lambda>v. v \<noteq> []) a"
  define B where "B = filter (\<lambda>v. v \<noteq> []) b"
  have cands: "candidate_ids n = A @ i # B @ [i]"
    using assms(2-4) refs by (simp add: candidate_ids_def A_def B_def)
  have "\<exists>r. findByMessageIds ctx rows s n = concat (map ?f (A @ i # B @ [i])) @ r"
    unfolding findByMessageIds_def cands assms(4) nullish.simps by (rule exI) (rule refl)
  then obtain r where "findByMessageIds ctx rows s n = concat (map ?f (A @ i # B @ [i])) @ r" ..
  moreover have "concat (map ?f (A @ i # B @ [i])) = concat (map ?f A) @ m # concat (map ?f B) @ [m]"
    unfolding map_append list.map(2) concat_append concat.simps f by simp
  ultimately have "findByMessageIds ctx rows s n = concat (map ?f A) @ m # concat (map ?f B) @ m # r" by simp
  then obtain p q r where ms: "findByMessageIds ctx rows s n = p @ m # q @ m # r" by blast
  have long: "2 \<le> length l \<Longrightarrow> \<exists>u v vs. l = u # v # vs" for l :: "id_match list" by (cases l; cases "tl l"; auto)
  have "im_inScope m" by (simp add: m_def)
  then have two: "\<exists>u v vs. filter im_inScope (p @ m # q @ m # r) = u # v # vs" "\<exists>u v vs. p @ m # q @ m # r = u # v # vs"
    by (intro long; simp)+
  show ?thesis
  proof (cases "gs_scope s")
    case WORKSPACE_BOUND
    then show ?thesis using two(1) by (auto simp: correlate_def ms Let_def)
  next
    case LEGACY_UNBOUND
    then show ?thesis using two(2) by (auto simp: correlate_def ms Let_def)
  qed
qed

subsection \<open>A concrete reply\<close>

text \<open>One mailbox, one subscription bound to its workspace, one execution, and a message that answers it.\<close>

definition sample_message :: "string list \<Rightarrow> graph_message" where
  "sample_message refs = \<lparr>gm_id = ''1'', gm_internetMessageId = None, gm_subject = None, gm_from = Some ''p@q'', gm_toRecipients = None,
     gm_isHtml = False, gm_content = Some ''yes'', gm_bodyPreview = None, gm_receivedDateTime = None, gm_hasAttachments = None,
     gm_headers = Some ((''In-Reply-To'', ''m1'') # map (\<lambda>r. (''References'', r)) refs)\<rparr>"

definition sample_graph_deps :: graph_deps where
  "sample_graph_deps = \<lparr>gd_jsonBytes = (\<lambda>n. 99), gd_maxNotificationBytes = None, gd_secret = (\<lambda>r. Some ''s3''),
     gd_getMessage = (\<lambda>mailbox i. Inr (Some (sample_message []))), gd_sanitizeHtml = (\<lambda>h. h), gd_maxBodyLength = None,
     gd_parseDate = (\<lambda>s. None), gd_fingerprint = (\<lambda>t s k. None)\<rparr>"

definition sample_subscription :: graph_subscription where
  "sample_subscription = \<lparr>gs_tenantId = ''t'', gs_workspaceId = Some ''w'', gs_scope = WORKSPACE_BOUND, gs_subscriptionId = ''sub'',
     gs_resource = ''users/a@b/messages'', gs_notificationUrl = [], gs_clientState = [], gs_expirationDateTime = 9, gs_createdAt = 0, gs_updatedAt = 0\<rparr>"

definition sample_execution_row :: "mex_props db_row" where
  "sample_execution_row = \<lparr>row_tenant = ''t'', row_workspace = Some ''w'', row_id = ''e1'',
     row_payload = sample_props\<lparr>mp_providerMessageId := Some ''m1''\<rparr>, row_version = 1\<rparr>"

definition sample_mail_config :: tenant_email_config where
  "sample_mail_config = \<lparr>te_tenantId = ''t'', te_providerId = ''graph'', te_channel = ''email'', te_fromAddress = ''a@b'', te_replyToAddress = None,
     te_allowedDomains = [], te_webhookSecretReference = Some ''ref'', te_graphClientSecretReference = None\<rparr>"

definition sample_graph_world :: graph_world where
  "sample_graph_world = \<lparr>gw_registry = [\<lparr>mb_mailbox = ''a@b'', mb_tenant = ''t'', mb_provider = ''graph''\<rparr>],
     gw_configs = [sample_mail_config], gw_subscriptions = [sample_subscription],
     gw_executions = [sample_execution_row], gw_idempotency = []\<rparr>"

definition sample_notification :: graph_notification where
  "sample_notification = \<lparr>gn_subscriptionId = Some ''sub'', gn_clientState = Some ''s3'', gn_changeType = Some ''created'',
     gn_resource = Some ''users/a@b/messages/1'', gn_messageId = Some ''1''\<rparr>"

lemma sample_mailbox: "extractMailbox ''users/a@b/messages/1'' = Some (Some ''a@b'')"
  by code_simp

lemma sample_covers: "covers sample_subscription ''users/a@b/messages/1''"
  by code_simp

definition sample_normalized :: "string list \<Rightarrow> normalized_reply" where
  "sample_normalized refs = (case graph_normalize sample_graph_deps 5 (sample_message refs) of Inr n \<Rightarrow> n)"

lemma sample_message_id: "nr_inReplyTo (sample_normalized []) = Some ''m1''" "nr_references (sample_normalized []) = None"
    "nr_providerMessageId (sample_normalized []) = ''1''"
  and sample_normalizes: "graph_normalize sample_graph_deps 5 (sample_message []) = Inr (sample_normalized [])"
  by (simp_all add: sample_normalized_def graph_normalize_def sample_message_def sample_graph_deps_def DEFAULT_MAX_BODY_LENGTH_def
      findHeader_def parseReferences_def js_lower_def)

lemma sample_correlates:
  "correlate sample_graph_deps (system_ctx ''t'' corr) [sample_execution_row] sample_subscription (sample_normalized [])
     = toCorrelated (mx_restore sample_execution_row) IN_REPLY_TO"
  by (simp add: correlate_def findByMessageIds_def candidate_ids_def sample_message_id mx_findByProviderMessageId_def system_ctx_def
      sample_execution_row_def id_scope_def sample_subscription_def mx_restore_def mex_reconstitute_def mex_construct_def sample_props_def
      clearDomainEvents_def setVersion_def)

lemma sample_resolves: "resolve_tenant ''users/a@b/messages/1'' (gw_registry sample_graph_world) (gw_configs sample_graph_world) = Some (Some sample_mail_config)"
  by (simp add: resolve_tenant_def sample_mailbox sample_graph_world_def findByMailboxAddress_def resolve_inbound_mailbox_def te_get_def
      sample_mail_config_def)

lemma sample_ingest:
  "\<exists>e. ingest sample_graph_deps 5 (Some sample_notification) sample_graph_world
     = (Inr (IO_PROCESSED ''t'' ''w'' e), snd (ingest sample_graph_deps 5 (Some sample_notification) sample_graph_world))"
proof -
  have shape: "validateShape sample_graph_deps (Some sample_notification) = None"
    by (simp add: validateShape_def sample_graph_deps_def DEFAULT_MAX_NOTIFICATION_BYTES_def sample_notification_def)
  have found: "gs_find ''t'' ''sub'' (gw_subscriptions sample_graph_world) = Some sample_subscription"
    by (simp add: gs_find_def sample_graph_world_def sample_subscription_def)
  have state: "validateClientState sample_graph_deps sample_notification (Some ''ref'') = Inr None"
    by (simp add: validateClientState_def sample_graph_deps_def sample_notification_def)
  have msg: "gd_getMessage sample_graph_deps ''a@b'' ''1'' = Inr (Some (sample_message []))"
    by (simp add: sample_graph_deps_def)
  have rows: "gw_executions sample_graph_world = [sample_execution_row]" "gw_idempotency sample_graph_world = []"
    by (simp_all add: sample_graph_world_def)
  have scoped: "cx_tenantId (system_ctx ''t'' c) = ''t''" for c by (simp add: system_ctx_def)
  have ws: "mx_workspaceId (mx_restore sample_execution_row) = ''w''"
    by (simp add: sample_execution_row_def mx_restore_def mex_reconstitute_def mex_construct_def sample_props_def
        clearDomainEvents_def setVersion_def)
  have config: "te_tenantId sample_mail_config = ''t''" "te_webhookSecretReference sample_mail_config = Some ''ref''"
    by (simp_all add: sample_mail_config_def)
  have n: "gn_resource sample_notification = Some ''users/a@b/messages/1''" "gn_subscriptionId sample_notification = Some ''sub''"
    "gn_messageId sample_notification = Some ''1''"
    by (simp_all add: sample_notification_def)
  show ?thesis
    by (simp add: ingest_def shape n sample_resolves config found sample_covers state Let_def pg_claim_def rows scoped ws
        fetch_and_correlate_def sample_mailbox msg sample_normalizes sample_correlates toCorrelated_def)
qed

theorem inbound_reply_is_authentic_witness:
  "\<exists>config \<in> set (gw_configs sample_graph_world). te_tenantId config = ''t''
    \<and> (\<exists>m \<in> set (gw_registry sample_graph_world). mb_tenant m = ''t'')"
proof -
  obtain e where "ingest sample_graph_deps 5 (Some sample_notification) sample_graph_world
     = (Inr (IO_PROCESSED ''t'' ''w'' e), snd (ingest sample_graph_deps 5 (Some sample_notification) sample_graph_world))"
    using sample_ingest by blast
  from inbound_reply_is_authentic [OF this] show ?thesis by blast
qed

theorem inbound_message_processed_once_witness:
  "fst (ingest sample_graph_deps 7 (Some sample_notification)
     (snd (ingest sample_graph_deps 5 (Some sample_notification) sample_graph_world))) \<noteq> Inr (IO_PROCESSED ''t'' ''w'' (sample_reply []))"
proof -
  obtain e where "ingest sample_graph_deps 5 (Some sample_notification) sample_graph_world
     = (Inr (IO_PROCESSED ''t'' ''w'' e), snd (ingest sample_graph_deps 5 (Some sample_notification) sample_graph_world))"
    using sample_ingest by blast
  from inbound_message_processed_once [OF this rtranclp.rtrancl_refl refl] show ?thesis by simp
qed

theorem usual_reply_is_not_correlated_witness:
  "correlate sample_graph_deps (system_ctx ''t'' []) [sample_execution_row] sample_subscription
     (sample_normalized []\<lparr>nr_references := Some [''m1'']\<rparr>) \<noteq> CORRELATED None ''l'' ''w'' REFERENCES"
  by (rule usual_reply_is_not_correlated [where i = "''m1''" and refs = "[''m1'']" and x = "mx_restore sample_execution_row"])
    (simp_all add: sample_message_id mx_findByProviderMessageId_def sample_execution_row_def system_ctx_def id_scope_def
      sample_subscription_def mx_restore_def mex_reconstitute_def mex_construct_def sample_props_def clearDomainEvents_def setVersion_def)

end
