(* ===== verification/ControlPlane.thy ===== *)
theory ControlPlane
  imports ToolGateway OutreachDirectories OutreachRepositories
begin

section \<open>The control plane: agent versions, policies and autonomy\<close>

text \<open>
  \<open>packages/control-plane\<close>: the lifecycle of agent versions and their registration, the rules from which the
  outcome of an execution is computed, the services over them (\<open>application.ts\<close>), the Postgres repositories
  with the row level security of their tables (\<open>infrastructure.ts\<close>, migrations 015 to 018), the registry of
  agents (\<open>integration.ts\<close>) and the seed of the system agents. Auditing is a list and is taken to succeed;
  times of rows are left out.
\<close>

subsection \<open>Lifecycles\<close>

datatype agent_lifecycle = AL_DRAFT | AL_TESTING | AL_APPROVED | AL_ACTIVE | AL_DEPRECATED | AL_RETIRED

fun ALLOWED_TRANSITIONS :: "agent_lifecycle \<Rightarrow> agent_lifecycle list" where
  "ALLOWED_TRANSITIONS AL_DRAFT = [AL_TESTING]"
| "ALLOWED_TRANSITIONS AL_TESTING = [AL_APPROVED, AL_DEPRECATED]"
| "ALLOWED_TRANSITIONS AL_APPROVED = [AL_ACTIVE, AL_DEPRECATED]"
| "ALLOWED_TRANSITIONS AL_ACTIVE = [AL_DEPRECATED]"
| "ALLOWED_TRANSITIONS AL_DEPRECATED = [AL_RETIRED]"
| "ALLOWED_TRANSITIONS AL_RETIRED = []"

definition canTransitionAgentLifecycle :: "agent_lifecycle \<Rightarrow> agent_lifecycle \<Rightarrow> bool" where
  "canTransitionAgentLifecycle from to \<longleftrightarrow> to \<in> set (ALLOWED_TRANSITIONS from)"

definition isMutableAgentLifecycle :: "agent_lifecycle \<Rightarrow> bool" where
  "isMutableAgentLifecycle l \<longleftrightarrow> l = AL_DRAFT \<or> l = AL_TESTING"

record agent_definition =
  df_name :: string
  df_role :: string
  df_description :: string
  df_capabilities :: "string list"
  df_tools :: "string list"
  df_policies :: json
  df_modelPolicy :: json
  df_memoryPolicy :: json
  df_knowledgePolicy :: json
  df_autonomyLevelDefault :: int
  df_evaluationPolicy :: json
  df_owner :: string

record agent_version =
  av_versionId :: string
  av_agentId :: string
  av_tenantId :: "string option"
  av_isSystem :: bool
  av_version :: string
  av_lifecycle :: agent_lifecycle
  av_implementationKey :: string
  av_definition :: agent_definition

subsection \<open>Outcomes\<close>

text \<open>\<open>OUTCOME_PRECEDENCE\<close>, as the order of the outcomes.\<close>

fun OUTCOME_PRECEDENCE :: "policy_verdict \<Rightarrow> nat" where
  "OUTCOME_PRECEDENCE PV_DENY = 2"
| "OUTCOME_PRECEDENCE PV_REQUIRE_APPROVAL = 1"
| "OUTCOME_PRECEDENCE PV_ALLOW = 0"

instantiation policy_verdict :: linorder
begin

definition less_eq_policy_verdict :: "policy_verdict \<Rightarrow> policy_verdict \<Rightarrow> bool" where
  "less_eq_policy_verdict a b \<longleftrightarrow> OUTCOME_PRECEDENCE a \<le> OUTCOME_PRECEDENCE b"

definition less_policy_verdict :: "policy_verdict \<Rightarrow> policy_verdict \<Rightarrow> bool" where
  "less_policy_verdict a b \<longleftrightarrow> OUTCOME_PRECEDENCE a < OUTCOME_PRECEDENCE b"

instance
proof
  fix a b :: policy_verdict
  show "a \<le> b \<Longrightarrow> b \<le> a \<Longrightarrow> a = b"
    by (cases a; cases b) (simp_all add: less_eq_policy_verdict_def)
qed (auto simp: less_eq_policy_verdict_def less_policy_verdict_def)

end

definition tightenOutcome :: "policy_verdict \<Rightarrow> policy_verdict \<Rightarrow> policy_verdict" where
  "tightenOutcome a b = (if OUTCOME_PRECEDENCE a \<ge> OUTCOME_PRECEDENCE b then a else b)"

lemma tightenOutcome_max [simp]: "tightenOutcome a b = max a b"
  by (cases a; cases b) (simp_all add: tightenOutcome_def max_def less_eq_policy_verdict_def)

lemma verdict_bounds [simp]: "PV_ALLOW \<le> v" "v \<le> PV_DENY" "v \<le> PV_ALLOW \<longleftrightarrow> v = PV_ALLOW" "PV_DENY \<le> v \<longleftrightarrow> v = PV_DENY"
  by (cases v; simp add: less_eq_policy_verdict_def)+

lemma verdict_max [simp]: "max PV_ALLOW v = v" "max v PV_ALLOW = v" "max PV_DENY v = PV_DENY" "max v PV_DENY = PV_DENY"
  by (simp_all add: max_def)

datatype policy_scope = PS_system | PS_tenant | PS_mission | PS_agent | PS_action

fun SCOPE_ORDER :: "policy_scope \<Rightarrow> nat" where
  "SCOPE_ORDER PS_system = 0"
| "SCOPE_ORDER PS_tenant = 1"
| "SCOPE_ORDER PS_mission = 2"
| "SCOPE_ORDER PS_agent = 3"
| "SCOPE_ORDER PS_action = 4"

record policy_rule =
  pol_policyId :: string
  pol_tenantId :: "string option"
  pol_isSystem :: bool
  pol_scope :: policy_scope
  pol_missionId :: "string option"
  pol_agentId :: "string option"
  pol_capability :: "string option"
  pol_toolId :: "string option"
  pol_riskCategory :: "string option"
  pol_outcome :: policy_verdict
  pol_policyVersion :: string
  pol_priority :: int

record autonomy_rule =
  aur_ruleId :: string
  aur_tenantId :: string
  aur_level :: int
  aur_riskCategory :: string
  aur_requiredOutcome :: policy_verdict
  aur_confidenceThreshold :: rat

definition mergePolicyOutcomes :: "policy_rule list \<Rightarrow> policy_verdict" where
  "mergePolicyOutcomes rules =
     foldl (\<lambda>ceiling r. tightenOutcome ceiling (pol_outcome r)) PV_ALLOW (sort_key (\<lambda>r. SCOPE_ORDER (pol_scope r)) rules)"

text \<open>
  \<open>toUpperCase\<close> on Latin-1: the sharp s becomes two letters; the micro sign and the y with diaeresis, whose
  capitals lie outside, stay as they are.
\<close>

definition js_upper :: "string \<Rightarrow> string" where
  "js_upper s = concat (map (\<lambda>c. let n = of_char c :: nat in
     if n = 223 then ''SS''
     else if 97 \<le> n \<and> n \<le> 122 \<or> 224 \<le> n \<and> n \<le> 254 \<and> n \<noteq> 247 then [char_of (n - 32)] else [c]) s)"

definition evaluateAutonomy :: "jsnum \<Rightarrow> string \<Rightarrow> jsnum \<Rightarrow> policy_verdict \<Rightarrow> policy_verdict" where
  "evaluateAutonomy level risk confidence cap =
     (if cap = PV_DENY then PV_DENY
      else if js_lt level (Fin 0) \<or> js_lt (Fin 5) level \<or> \<not> js_isInteger level then PV_DENY
      else if js_upper risk \<in> {''HIGH'', ''CRITICAL''} \<and> js_lt level (Fin 4) then tightenOutcome cap PV_REQUIRE_APPROVAL
      else if js_lt level (Fin 2) then tightenOutcome cap PV_REQUIRE_APPROVAL
      else if js_lt confidence (Fin (1 / 2)) then tightenOutcome cap PV_REQUIRE_APPROVAL
      else cap)"

definition isActiveAgentVersion :: "agent_version \<Rightarrow> bool" where
  "isActiveAgentVersion v \<longleftrightarrow> av_lifecycle v = AL_ACTIVE"

subsection \<open>Comparing definitions\<close>

text \<open>
  \<open>safeJson\<close> sorts the keys of every object and writes the text; numbers without a notation become \<open>null\<close>.
  Two values have the same text exactly when these trees are equal.
\<close>

definition key_codes :: "string \<Rightarrow> nat list" where
  "key_codes s = map of_char s"

fun insert_pair :: "string \<times> json \<Rightarrow> (string \<times> json) list \<Rightarrow> (string \<times> json) list" where
  "insert_pair p [] = [p]"
| "insert_pair p (q # qs) = (if lexordp_eq (key_codes (fst p)) (key_codes (fst q)) then p # q # qs else q # insert_pair p qs)"

fun safeJson :: "json \<Rightarrow> json" where
  "safeJson (JNum n) = (if js_isFinite n then JNum n else JNull)"
| "safeJson (JArr vs) = JArr (map safeJson vs)"
| "safeJson (JObj kvs) = JObj (foldr insert_pair (map (\<lambda>(k, v). (k, safeJson v)) kvs) [])"
| "safeJson v = v"

text \<open>The field that the message names first, or \<open>None\<close> for \<open>null\<close>.\<close>

definition areVersionDefinitionsEqual :: "agent_version \<Rightarrow> agent_version \<Rightarrow> string option" where
  "areVersionDefinitionsEqual a b =
     (let ad = av_definition a; bd = av_definition b;
          strs = (\<lambda>xs. safeJson (JArr (map JStr xs))) in
      if av_implementationKey a \<noteq> av_implementationKey b then Some ''implementationKey''
      else if av_tenantId a \<noteq> av_tenantId b then Some ''tenantId''
      else if av_isSystem a \<noteq> av_isSystem b then Some ''isSystem''
      else if df_name ad \<noteq> df_name bd then Some ''name''
      else if df_role ad \<noteq> df_role bd then Some ''role''
      else if df_description ad \<noteq> df_description bd then Some ''description''
      else if strs (df_capabilities ad) \<noteq> strs (df_capabilities bd) then Some ''capabilities''
      else if strs (df_tools ad) \<noteq> strs (df_tools bd) then Some ''tools''
      else if safeJson (df_policies ad) \<noteq> safeJson (df_policies bd) then Some ''policies''
      else if safeJson (df_modelPolicy ad) \<noteq> safeJson (df_modelPolicy bd) then Some ''modelPolicy''
      else if safeJson (df_memoryPolicy ad) \<noteq> safeJson (df_memoryPolicy bd) then Some ''memoryPolicy''
      else if safeJson (df_knowledgePolicy ad) \<noteq> safeJson (df_knowledgePolicy bd) then Some ''knowledgePolicy''
      else if df_autonomyLevelDefault ad \<noteq> df_autonomyLevelDefault bd then Some ''autonomyLevelDefault''
      else if safeJson (df_evaluationPolicy ad) \<noteq> safeJson (df_evaluationPolicy bd) then Some ''evaluationPolicy''
      else if df_owner ad \<noteq> df_owner bd then Some ''owner''
      else None)"

subsection \<open>The tables and their row level security\<close>

record emergency_stop =
  es_tenantId :: "string option"
  es_missionId :: "string option"
  es_agentId :: "string option"
  es_active :: bool

record cp_capability =
  cpb_capabilityId :: string
  cpb_name :: string
  cpb_description :: string
  cpb_riskCategory :: string
  cpb_allowedTools :: "string list"
  cpb_requiredPolicies :: "string list"

record cp_model =
  cmd_modelId :: string
  cmd_provider :: string
  cmd_family :: string
  cmd_capabilities :: "string list"
  cmd_latencyClass :: string
  cmd_costMetadata :: json
  cmd_healthMetadata :: json

record control_tables =
  ct_versions :: "agent_version list"
  ct_policies :: "policy_rule list"
  ct_autonomy :: "autonomy_rule list"
  ct_stops :: "emergency_stop list"
  ct_capabilities :: "cp_capability list"
  ct_models :: "cp_model list"
  ct_audit :: "(string \<times> string) list"

datatype control_error =
    CpNotFound | CpInvalidTransition agent_lifecycle agent_lifecycle | CpTransitionFailed | CpImmutable string
  | CpRowSecurity | CpDuplicate | CpBadInteger | CpCrossTenant | CpThrew | CpNoAgent | CpAmbiguous

definition rls_visible :: "tenant_context \<Rightarrow> bool \<Rightarrow> string option \<Rightarrow> bool" where
  "rls_visible ctx sys tenant \<longleftrightarrow> sys \<or> tenant = Some (cx_tenantId ctx)"

definition rls_writable :: "tenant_context \<Rightarrow> bool \<Rightarrow> string option \<Rightarrow> bool" where
  "rls_writable ctx sys tenant \<longleftrightarrow> (sys \<and> tenant = None) \<or> (\<not> sys \<and> tenant = Some (cx_tenantId ctx))"

definition cp_record :: "string \<Rightarrow> string \<Rightarrow> control_tables \<Rightarrow> control_tables" where
  "cp_record event result t = t\<lparr>ct_audit := ct_audit t @ [(event, result)]\<rparr>"

subsection \<open>Agent versions\<close>

definition stored_definition :: "agent_definition \<Rightarrow> agent_definition" where
  "stored_definition d = d\<lparr>df_policies := safeJson (df_policies d), df_modelPolicy := safeJson (df_modelPolicy d),
     df_memoryPolicy := safeJson (df_memoryPolicy d), df_knowledgePolicy := safeJson (df_knowledgePolicy d),
     df_evaluationPolicy := safeJson (df_evaluationPolicy d)\<rparr>"

definition or_default :: "json \<Rightarrow> (string \<times> json) list \<Rightarrow> json" where
  "or_default v kvs = (if v = JNull then JObj kvs else v)"

text \<open>The columns hold trees, not texts that would have to be parsed.\<close>

definition mapAgentVersion :: "agent_version \<Rightarrow> agent_version" where
  "mapAgentVersion r = (let d = av_definition r in r\<lparr>av_definition := d\<lparr>
     df_policies := (case df_policies d of JArr vs \<Rightarrow> JArr vs | _ \<Rightarrow> JArr []),
     df_modelPolicy := or_default (df_modelPolicy d)
       [(''preferredModelFamily'', JStr []), (''maxCostPerTaskUsd'', JNum (Fin 0)), (''maxTokensPerTask'', JNum (Fin 0))],
     df_memoryPolicy := or_default (df_memoryPolicy d) [(''read'', JArr []), (''write'', JArr []), (''validationRequired'', JBool False)],
     df_knowledgePolicy := or_default (df_knowledgePolicy d) [(''read'', JArr []), (''write'', JArr [])],
     df_evaluationPolicy := or_default (df_evaluationPolicy d) [(''criteria'', JArr []), (''minScore'', JNum (Fin 0))]\<rparr>\<rparr>)"

definition av_visible :: "tenant_context \<Rightarrow> agent_version \<Rightarrow> bool" where
  "av_visible ctx r \<longleftrightarrow> rls_visible ctx (av_isSystem r) (av_tenantId r)"

text \<open>\<open>ORDER BY version DESC LIMIT 1\<close> under the collation \<open>le\<close>; of equal ones the first.\<close>

definition highest_version :: "(string \<Rightarrow> string \<Rightarrow> bool) \<Rightarrow> agent_version list \<Rightarrow> agent_version option" where
  "highest_version le rs = List.find (\<lambda>r. list_all (\<lambda>q. le (av_version q) (av_version r)) rs) rs"

definition getActiveVersion ::
    "(string \<Rightarrow> string \<Rightarrow> bool) \<Rightarrow> tenant_context \<Rightarrow> string \<Rightarrow> string option \<Rightarrow> agent_version list \<Rightarrow> agent_version option" where
  "getActiveVersion le ctx agent ver rows =
     map_option mapAgentVersion (highest_version le (filter (\<lambda>r. av_agentId r = agent \<and> av_visible ctx r
       \<and> (if truthy ver then Some (av_version r) = ver else av_lifecycle r = AL_ACTIVE)) rows))"

text \<open>The order of the list is not modelled beyond that of the table.\<close>

definition listActiveVersions :: "tenant_context \<Rightarrow> agent_version list \<Rightarrow> agent_version list" where
  "listActiveVersions ctx rows = map mapAgentVersion (filter (\<lambda>r. av_visible ctx r \<and> av_lifecycle r = AL_ACTIVE) rows)"

definition saveVersion :: "tenant_context \<Rightarrow> agent_version \<Rightarrow> agent_version list \<Rightarrow> control_error + agent_version list" where
  "saveVersion ctx v rows =
     (case List.find (\<lambda>r. av_versionId r = av_versionId v \<and> av_visible ctx r) rows of
        Some row \<Rightarrow>
          (case areVersionDefinitionsEqual (mapAgentVersion row) v of
             None \<Rightarrow> Inr rows
           | Some diff \<Rightarrow>
               if \<not> isMutableAgentLifecycle (av_lifecycle row) then Inl (CpImmutable diff)
               else if \<not> rls_writable ctx (av_isSystem row) (av_tenantId row) then Inl CpRowSecurity
               else Inr (map (\<lambda>r. if av_versionId r = av_versionId v \<and> av_visible ctx r
                                   then r\<lparr>av_lifecycle := av_lifecycle v, av_definition := stored_definition (av_definition v),
                                          av_implementationKey := av_implementationKey v\<rparr> else r) rows))
      | None \<Rightarrow>
          if \<not> rls_writable ctx (av_isSystem v) (av_tenantId v) then Inl CpRowSecurity
          else if av_versionId v \<in> set (map av_versionId rows) then Inl CpDuplicate
          else Inr (rows @ [v\<lparr>av_definition := stored_definition (av_definition v)\<rparr>]))"

definition transitionLifecycle ::
    "tenant_context \<Rightarrow> string \<Rightarrow> string \<Rightarrow> agent_lifecycle \<Rightarrow> agent_lifecycle \<Rightarrow> agent_version list \<Rightarrow> control_error + agent_version list" where
  "transitionLifecycle ctx agent ver from to rows =
     (let hit = (\<lambda>r. av_agentId r = agent \<and> av_version r = ver \<and> av_lifecycle r = from \<and> av_visible ctx r) in
      if \<not> list_ex hit rows then Inl CpTransitionFailed
      else if list_ex (\<lambda>r. hit r \<and> \<not> rls_writable ctx (av_isSystem r) (av_tenantId r)) rows then Inl CpRowSecurity
      else Inr (map (\<lambda>r. if hit r then r\<lparr>av_lifecycle := to\<rparr> else r) rows))"

subsection \<open>Capabilities and models\<close>

definition getGlobalCapability :: "string \<Rightarrow> cp_capability list \<Rightarrow> cp_capability option" where
  "getGlobalCapability i rows = List.find (\<lambda>r. cpb_capabilityId r = i) rows"

definition saveCapability :: "cp_capability \<Rightarrow> cp_capability list \<Rightarrow> cp_capability list" where
  "saveCapability c rows = put_row (\<lambda>r. cpb_capabilityId r = cpb_capabilityId c) (\<lambda>old new. new) c rows"

definition getModel :: "string \<Rightarrow> cp_model list \<Rightarrow> cp_model option" where
  "getModel i rows = List.find (\<lambda>r. cmd_modelId r = i) rows"

definition saveModel :: "cp_model \<Rightarrow> cp_model list \<Rightarrow> cp_model list" where
  "saveModel m rows = put_row (\<lambda>r. cmd_modelId r = cmd_modelId m) (\<lambda>old new. new) m rows"

interpretation capability_table: keyed_table cpb_capabilityId "\<lambda>old new :: cp_capability. new"
  by unfold_locales simp

interpretation model_table: keyed_table cmd_modelId "\<lambda>old new :: cp_model. new"
  by unfold_locales simp

lemma saved_capability_found:
  "getGlobalCapability i (saveCapability c rows) = (if i = cpb_capabilityId c then Some c else getGlobalCapability i rows)"
  using capability_table.find_put [of i c rows]
  by (simp add: getGlobalCapability_def saveCapability_def capability_table.find_key_def capability_table.put_def split: option.splits)

lemma saved_model_found:
  "getModel i (saveModel m rows) = (if i = cmd_modelId m then Some m else getModel i rows)"
  using model_table.find_put [of i m rows]
  by (simp add: getModel_def saveModel_def model_table.find_key_def model_table.put_def split: option.splits)

subsection \<open>Policies, autonomy and emergency stops\<close>

record exec_budget =
  eb_maxTokens :: jsnum
  eb_maxCostUsd :: jsnum
  eb_maxDurationSeconds :: jsnum

text \<open>\<open>AIExecutionRequest\<close> as the control plane and the agent executor read it.\<close>

record ai_request =
  aq_executionId :: string
  aq_tenantId :: string
  aq_missionId :: string
  aq_agentId :: string
  aq_agentVersion :: string
  aq_taskId :: string
  aq_taskType :: string
  aq_correlationId :: string
  aq_context :: json
  aq_capabilities :: "string list"
  aq_autonomyLevel :: jsnum
  aq_riskCategory :: string
  aq_budget :: exec_budget
  aq_deadline :: "int option"
  aq_idempotencyKey :: string

definition rule_applies :: "tenant_context \<Rightarrow> ai_request \<Rightarrow> policy_rule \<Rightarrow> bool" where
  "rule_applies ctx q r \<longleftrightarrow> rls_visible ctx (pol_isSystem r) (pol_tenantId r)
     \<and> (pol_missionId r = None \<or> pol_missionId r = Some (aq_missionId q))
     \<and> (pol_agentId r = None \<or> pol_agentId r = Some (aq_agentId q))
     \<and> (case pol_capability r of None \<Rightarrow> True | Some c \<Rightarrow> c \<in> set (aq_capabilities q))
     \<and> (pol_riskCategory r = None \<or> pol_riskCategory r = Some (aq_riskCategory q))"

text \<open>\<open>ORDER BY priority, policy_id\<close>: by priority, and rows of one priority in the order of the table.\<close>

definition findRules :: "tenant_context \<Rightarrow> ai_request \<Rightarrow> policy_rule list \<Rightarrow> policy_rule list" where
  "findRules ctx q rows = sort_key pol_priority (filter (rule_applies ctx q) rows)"

definition pol_saveRule :: "tenant_context \<Rightarrow> policy_rule \<Rightarrow> policy_rule list \<Rightarrow> control_error + policy_rule list" where
  "pol_saveRule ctx rule rows =
     (let new = rule\<lparr>pol_isSystem := (pol_tenantId rule = None)\<rparr> in
      if \<not> rls_writable ctx (pol_isSystem new) (pol_tenantId new) then Inl CpRowSecurity
      else case List.find (\<lambda>r. pol_policyId r = pol_policyId rule) rows of
          None \<Rightarrow> Inr (rows @ [new])
        | Some r \<Rightarrow>
            if \<not> rls_visible ctx (pol_isSystem r) (pol_tenantId r) \<or> \<not> rls_writable ctx (pol_isSystem r) (pol_tenantId r)
            then Inl CpRowSecurity
            else Inr (map (\<lambda>r. if pol_policyId r = pol_policyId rule
                   then new\<lparr>pol_tenantId := pol_tenantId r, pol_isSystem := pol_isSystem r\<rparr> else r) rows))"

text \<open>
  \<open>level = $1\<close> on a column of 32 bits: another number is an error of the database. \<open>LIMIT 1\<close> without
  an order is taken to give the first row of the table that matches.
\<close>

definition getRule :: "tenant_context \<Rightarrow> jsnum \<Rightarrow> string \<Rightarrow> autonomy_rule list \<Rightarrow> control_error + autonomy_rule option" where
  "getRule ctx level risk rows =
     (if \<not> (js_isInteger level \<and> js_le (Fin (- (2 ^ 31))) level \<and> js_lt level (Fin (2 ^ 31))) then Inl CpBadInteger
      else Inr (List.find (\<lambda>r. aur_tenantId r = cx_tenantId ctx \<and> Fin (of_int (aur_level r)) = level \<and> aur_riskCategory r = risk) rows))"

definition aur_saveRule :: "tenant_context \<Rightarrow> autonomy_rule \<Rightarrow> autonomy_rule list \<Rightarrow> control_error + autonomy_rule list" where
  "aur_saveRule ctx rule rows =
     (if aur_tenantId rule \<noteq> cx_tenantId ctx then Inl CpRowSecurity
      else case List.find (\<lambda>r. aur_ruleId r = aur_ruleId rule) rows of
          None \<Rightarrow> Inr (rows @ [rule])
        | Some r \<Rightarrow>
            if aur_tenantId r \<noteq> cx_tenantId ctx then Inl CpRowSecurity
            else Inr (map (\<lambda>r. if aur_ruleId r = aur_ruleId rule
                   then r\<lparr>aur_requiredOutcome := aur_requiredOutcome rule, aur_confidenceThreshold := aur_confidenceThreshold rule\<rparr>
                   else r) rows))"

datatype stop_target = StopTenant | StopMission "string option" | StopAgent "string option"

definition stop_row_matches :: "tenant_context \<Rightarrow> stop_target \<Rightarrow> emergency_stop \<Rightarrow> bool" where
  "stop_row_matches ctx target r \<longleftrightarrow> es_tenantId r = Some (cx_tenantId ctx) \<and> es_active r \<and>
     (case target of StopTenant \<Rightarrow> True
      | StopMission i \<Rightarrow> truthy i \<longrightarrow> es_missionId r = i
      | StopAgent i \<Rightarrow> truthy i \<longrightarrow> es_agentId r = i)"

definition isStopped :: "tenant_context \<Rightarrow> stop_target \<Rightarrow> emergency_stop list \<Rightarrow> bool" where
  "isStopped ctx target rows = list_ex (stop_row_matches ctx target) rows"

subsection \<open>The evaluation of a request\<close>

text \<open>\<open>PolicyDecision\<close>.\<close>

record ruling =
  rl_decisionId :: string
  rl_tenantId :: string
  rl_capability :: "string option"
  rl_action :: "string option"
  rl_outcome :: policy_verdict
  rl_capabilities :: "string list"
  rl_autonomyLevel :: "jsnum option"
  rl_riskCategory :: "string option"
  rl_policyVersion :: "string option"
  rl_evaluatedAt :: int
  rl_expiresAt :: int

definition buildDecision :: "string \<Rightarrow> ai_request \<Rightarrow> policy_verdict \<Rightarrow> int \<Rightarrow> string option \<Rightarrow> ruling" where
  "buildDecision fresh q outcome now reason =
     \<lparr>rl_decisionId = fresh, rl_tenantId = aq_tenantId q, rl_capability = js_at (aq_capabilities q) 0, rl_action = Some (aq_taskType q),
      rl_outcome = outcome, rl_capabilities = aq_capabilities q, rl_autonomyLevel = Some (aq_autonomyLevel q),
      rl_riskCategory = Some (aq_riskCategory q), rl_policyVersion = Some (nullish reason ''1.0.0''),
      rl_evaluatedAt = now, rl_expiresAt = now + 60000\<rparr>"

definition audit_result :: "policy_verdict \<Rightarrow> string" where
  "audit_result v = (case v of PV_ALLOW \<Rightarrow> ''success'' | PV_DENY \<Rightarrow> ''denied'' | PV_REQUIRE_APPROVAL \<Rightarrow> ''failure'')"

text \<open>The ports of the service; \<open>Inl\<close> is an exception.\<close>

record policy_ports =
  pp_isStopped :: "tenant_context \<Rightarrow> stop_target \<Rightarrow> control_error + bool"
  pp_findRules :: "tenant_context \<Rightarrow> ai_request \<Rightarrow> control_error + policy_rule list"
  pp_getRule :: "tenant_context \<Rightarrow> jsnum \<Rightarrow> string \<Rightarrow> control_error + autonomy_rule option"

definition autonomy_outcome :: "autonomy_rule option \<Rightarrow> policy_verdict \<Rightarrow> policy_verdict" where
  "autonomy_outcome rule base = (case rule of None \<Rightarrow> base | Some r \<Rightarrow> tightenOutcome base (aur_requiredOutcome r))"

definition policy_evaluate ::
    "policy_ports \<Rightarrow> string \<Rightarrow> int \<Rightarrow> tenant_context \<Rightarrow> ai_request \<Rightarrow> (control_error + ruling) \<times> (string \<times> string) list" where
  "policy_evaluate pp fresh now ctx q =
     (if ensureSameTenant ctx (aq_tenantId q) \<noteq> None then (Inl CpCrossTenant, [])
      else case pp_isStopped pp ctx StopTenant of
          Inl _ \<Rightarrow> (Inr (buildDecision fresh q PV_DENY now (Some ''emergency-stop-state-unknown'')), [])
        | Inr True \<Rightarrow> (Inr (buildDecision fresh q PV_DENY now (Some ''emergency-stop-active'')), [])
        | Inr False \<Rightarrow>
            (case pp_findRules pp ctx q of
               Inl e \<Rightarrow> (Inl e, [])
             | Inr rules \<Rightarrow>
                 let policyCeiling = (if rules = [] then PV_ALLOW else mergePolicyOutcomes rules) in
                 (case pp_getRule pp ctx (aq_autonomyLevel q) (aq_riskCategory q) of
                    Inl e \<Rightarrow> (Inl e, [])
                  | Inr rule \<Rightarrow>
                      let base = evaluateAutonomy (aq_autonomyLevel q) (aq_riskCategory q) (Fin 1) PV_ALLOW;
                          final = tightenOutcome policyCeiling (autonomy_outcome rule base)
                      in (Inr (buildDecision fresh q final now None), [(''policy-evaluation'', audit_result final)]))))"

definition autonomy_evaluate ::
    "policy_ports \<Rightarrow> tenant_context \<Rightarrow> jsnum \<Rightarrow> string \<Rightarrow> jsnum \<Rightarrow> policy_verdict \<Rightarrow> control_error + policy_verdict" where
  "autonomy_evaluate pp ctx level risk confidence policyCeiling =
     (case pp_getRule pp ctx level risk of
        Inl e \<Rightarrow> Inl e
      | Inr rule \<Rightarrow> Inr (tightenOutcome policyCeiling (autonomy_outcome rule (evaluateAutonomy level risk confidence PV_ALLOW))))"

definition pg_policy_ports :: "control_tables \<Rightarrow> policy_ports" where
  "pg_policy_ports t = \<lparr>pp_isStopped = (\<lambda>ctx target. Inr (isStopped ctx target (ct_stops t))),
     pp_findRules = (\<lambda>ctx q. Inr (findRules ctx q (ct_policies t))),
     pp_getRule = (\<lambda>ctx level risk. getRule ctx level risk (ct_autonomy t))\<rparr>"

subsection \<open>The services\<close>

type_synonym control_call = "(control_error + unit) \<times> control_tables"

text \<open>A write of the versions followed by its audit entry.\<close>

definition with_versions :: "control_error + agent_version list \<Rightarrow> string \<Rightarrow> control_tables \<Rightarrow> control_call" where
  "with_versions saved event t =
     (case saved of Inl e \<Rightarrow> (Inl e, t) | Inr rows \<Rightarrow> (Inr (), cp_record event ''success'' (t\<lparr>ct_versions := rows\<rparr>)))"

definition lc_transition ::
    "(string \<Rightarrow> string \<Rightarrow> bool) \<Rightarrow> tenant_context \<Rightarrow> string \<Rightarrow> string \<Rightarrow> agent_lifecycle \<Rightarrow> control_tables \<Rightarrow> control_call" where
  "lc_transition le ctx agent ver to t =
     (case getActiveVersion le ctx agent (Some ver) (ct_versions t) of
        None \<Rightarrow> (Inl CpNotFound, t)
      | Some current \<Rightarrow>
          if \<not> canTransitionAgentLifecycle (av_lifecycle current) to then (Inl (CpInvalidTransition (av_lifecycle current) to), t)
          else with_versions (transitionLifecycle ctx agent ver (av_lifecycle current) to (ct_versions t))
                 ''agent-lifecycle-transition'' t)"

definition activateVersion :: "tenant_context \<Rightarrow> string \<Rightarrow> string \<Rightarrow> control_tables \<Rightarrow> control_call" where
  "activateVersion ctx agent ver t =
     with_versions (transitionLifecycle ctx agent ver AL_APPROVED AL_ACTIVE (ct_versions t)) ''agent-activated'' t"

definition registerAgentVersion ::
    "(string \<Rightarrow> string \<Rightarrow> bool) \<Rightarrow> tenant_context \<Rightarrow> agent_version \<Rightarrow> control_tables \<Rightarrow> control_call" where
  "registerAgentVersion le ctx v t =
     (let save = with_versions (saveVersion ctx v (ct_versions t)) ''agent-registered'' t in
      case getActiveVersion le ctx (av_agentId v) (Some (av_version v)) (ct_versions t) of
        None \<Rightarrow> save
      | Some existing \<Rightarrow>
          (case areVersionDefinitionsEqual existing v of
             None \<Rightarrow> (Inr (), cp_record ''agent-registered'' ''success'' t)
           | Some diff \<Rightarrow> if \<not> isMutableAgentLifecycle (av_lifecycle existing) then (Inl (CpImmutable diff), t) else save))"

definition registerCapability :: "cp_capability \<Rightarrow> control_tables \<Rightarrow> control_call" where
  "registerCapability c t =
     (Inr (), cp_record ''capability-registered'' ''success'' (t\<lparr>ct_capabilities := saveCapability c (ct_capabilities t)\<rparr>))"

definition registerModel :: "cp_model \<Rightarrow> control_tables \<Rightarrow> control_call" where
  "registerModel m t = (Inr (), cp_record ''model-registered'' ''success'' (t\<lparr>ct_models := saveModel m (ct_models t)\<rparr>))"

definition savePolicyRule :: "tenant_context \<Rightarrow> policy_rule \<Rightarrow> control_tables \<Rightarrow> control_call" where
  "savePolicyRule ctx rule t =
     (case pol_saveRule ctx rule (ct_policies t) of
        Inl e \<Rightarrow> (Inl e, t)
      | Inr rows \<Rightarrow> (Inr (), cp_record ''policy-created'' ''success'' (t\<lparr>ct_policies := rows\<rparr>)))"

definition saveAutonomyRule :: "tenant_context \<Rightarrow> autonomy_rule \<Rightarrow> control_tables \<Rightarrow> control_call" where
  "saveAutonomyRule ctx rule t =
     (case aur_saveRule ctx rule (ct_autonomy t) of
        Inl e \<Rightarrow> (Inl e, t)
      | Inr rows \<Rightarrow> (Inr (), cp_record ''autonomy-configured'' ''success'' (t\<lparr>ct_autonomy := rows\<rparr>)))"

subsection \<open>The registry of agents\<close>

record resolved_agent =
  ra_agentId :: string
  ra_version :: string
  ra_versionId :: string
  ra_tenantId :: "string option"
  ra_isSystem :: bool
  ra_lifecycle :: agent_lifecycle
  ra_implementationKey :: string
  ra_definition :: agent_definition

definition mapToResolvedAgent :: "agent_version \<Rightarrow> resolved_agent" where
  "mapToResolvedAgent v = \<lparr>ra_agentId = av_agentId v, ra_version = av_version v, ra_versionId = av_agentId v @ '':'' @ av_version v,
     ra_tenantId = av_tenantId v, ra_isSystem = av_isSystem v, ra_lifecycle = av_lifecycle v,
     ra_implementationKey = av_implementationKey v, ra_definition = av_definition v\<rparr>"

definition registry_getAgent ::
    "(string \<Rightarrow> string \<Rightarrow> bool) \<Rightarrow> tenant_context \<Rightarrow> string \<Rightarrow> string option \<Rightarrow> control_tables \<Rightarrow> resolved_agent option" where
  "registry_getAgent le ctx agent ver t = map_option mapToResolvedAgent (getActiveVersion le ctx agent ver (ct_versions t))"

definition getCapability :: "string \<Rightarrow> control_tables \<Rightarrow> (string \<times> string list) option" where
  "getCapability i t = map_option (\<lambda>c. (cpb_capabilityId c, cpb_allowedTools c)) (getGlobalCapability i (ct_capabilities t))"

definition selectActiveAgentForCapability :: "tenant_context \<Rightarrow> string \<Rightarrow> control_tables \<Rightarrow> control_error + resolved_agent" where
  "selectActiveAgentForCapability ctx c t =
     (case filter (\<lambda>v. c \<in> set (df_capabilities (av_definition v))) (listActiveVersions ctx (ct_versions t)) of
        [] \<Rightarrow> Inl CpNoAgent | [v] \<Rightarrow> Inr (mapToResolvedAgent v) | _ \<Rightarrow> Inl CpAmbiguous)"

subsection \<open>The seed of the system agents\<close>

text \<open>\<open>SpecialistDefinition\<close>: agent, implementation, version and contract; the list of them is an argument.\<close>

record specialist =
  sp_agentId :: string
  sp_implementationKey :: string
  sp_version :: string
  sp_definition :: agent_definition

definition buildCapability :: "string \<Rightarrow> specialist \<Rightarrow> cp_capability" where
  "buildCapability c d = \<lparr>cpb_capabilityId = c, cpb_name = c, cpb_description = df_name (sp_definition d) @ '' capability'',
     cpb_riskCategory = ''LOW'', cpb_allowedTools = df_tools (sp_definition d), cpb_requiredPolicies = []\<rparr>"

definition seed_version :: "specialist \<Rightarrow> agent_version" where
  "seed_version d = \<lparr>av_versionId = sp_agentId d @ '':'' @ sp_version d, av_agentId = sp_agentId d, av_tenantId = None, av_isSystem = True,
     av_version = sp_version d, av_lifecycle = AL_DRAFT, av_implementationKey = sp_implementationKey d, av_definition = sp_definition d\<rparr>"

fun seed_steps :: "agent_lifecycle \<Rightarrow> agent_lifecycle list" where
  "seed_steps AL_DRAFT = [AL_TESTING, AL_APPROVED, AL_ACTIVE]"
| "seed_steps AL_TESTING = [AL_APPROVED, AL_ACTIVE]"
| "seed_steps AL_APPROVED = [AL_ACTIVE]"
| "seed_steps _ = []"

text \<open>One call after the other, until one throws.\<close>

fun seq_calls :: "(control_tables \<Rightarrow> control_call) list \<Rightarrow> control_tables \<Rightarrow> control_call" where
  "seq_calls [] t = (Inr (), t)"
| "seq_calls (c # cs) t = (case c t of (Inl e, t') \<Rightarrow> (Inl e, t') | (Inr _, t') \<Rightarrow> seq_calls cs t')"

definition seed_agent :: "(string \<Rightarrow> string \<Rightarrow> bool) \<Rightarrow> tenant_context \<Rightarrow> specialist \<Rightarrow> control_tables \<Rightarrow> control_call" where
  "seed_agent le ctx d =
     seq_calls (map (\<lambda>c. registerCapability (buildCapability c d)) (df_capabilities (sp_definition d))
       @ [registerAgentVersion le ctx (seed_version d),
          \<lambda>t. case getActiveVersion le ctx (sp_agentId d) (Some (sp_version d)) (ct_versions t) of
                None \<Rightarrow> (Inr (), t)
              | Some existing \<Rightarrow>
                  seq_calls (map (lc_transition le ctx (sp_agentId d) (sp_version d)) (seed_steps (av_lifecycle existing))) t])"

definition seed :: "(string \<Rightarrow> string \<Rightarrow> bool) \<Rightarrow> tenant_context \<Rightarrow> specialist list \<Rightarrow> control_tables \<Rightarrow> control_call" where
  "seed le ctx defs = seq_calls (map (seed_agent le ctx) defs)"

subsection \<open>What an evaluation decides\<close>

lemma foldl_max: "foldl (\<lambda>a r. max a (f r)) (a :: 'v :: linorder) rs = Max (insert a (f ` set rs))"
proof (induction rs rule: rev_induct)
  case (snoc x rs)
  have "Max (insert a (f ` set (rs @ [x]))) = Max (insert (f x) (insert a (f ` set rs)))" by (simp add: insert_commute)
  also have "\<dots> = max (f x) (Max (insert a (f ` set rs)))" by (rule Max_insert) simp_all
  finally show ?case using snoc by (simp add: max.commute)
qed simp

lemma merge_is_max: "mergePolicyOutcomes rs = Max (insert PV_ALLOW (pol_outcome ` set rs))"
  by (simp add: mergePolicyOutcomes_def foldl_max)

lemma evaluate_allows:
  "evaluateAutonomy level risk confidence PV_ALLOW = PV_ALLOW \<Longrightarrow>
     js_isInteger level \<and> \<not> js_lt level (Fin 2) \<and> (js_upper risk \<in> {''HIGH'', ''CRITICAL''} \<longrightarrow> \<not> js_lt level (Fin 4))"
  by (auto simp: evaluateAutonomy_def split: if_splits)

subsection \<open>Runs of the control plane\<close>

text \<open>One operation of a tenant, whatever it answers.\<close>

inductive control_step :: "(string \<Rightarrow> string \<Rightarrow> bool) \<Rightarrow> tenant_context \<Rightarrow> control_tables \<Rightarrow> control_tables \<Rightarrow> bool" for le ctx where
  step_register: "t' = snd (registerAgentVersion le ctx v t) \<Longrightarrow> control_step le ctx t t'"
| step_transition: "t' = snd (lc_transition le ctx agent ver to t) \<Longrightarrow> control_step le ctx t t'"
| step_activate: "t' = snd (activateVersion ctx agent ver t) \<Longrightarrow> control_step le ctx t t'"
| step_capability: "t' = snd (registerCapability c t) \<Longrightarrow> control_step le ctx t t'"
| step_model: "t' = snd (registerModel m t) \<Longrightarrow> control_step le ctx t t'"
| step_policy: "t' = snd (savePolicyRule ctx rule t) \<Longrightarrow> control_step le ctx t t'"
| step_autonomy: "t' = snd (saveAutonomyRule ctx arule t) \<Longrightarrow> control_step le ctx t t'"

lemma cp_record_simps [simp]:
  "ct_versions (cp_record e r t) = ct_versions t" "ct_policies (cp_record e r t) = ct_policies t"
  "ct_autonomy (cp_record e r t) = ct_autonomy t" "ct_stops (cp_record e r t) = ct_stops t"
  by (simp_all add: cp_record_def)

lemma writable_visible: "rls_writable ctx sys tenant \<Longrightarrow> rls_visible ctx sys tenant"
  by (auto simp: rls_writable_def rls_visible_def)

text \<open>The versions after a step: unchanged, saved, or moved along the table of lifecycles.\<close>

lemma control_step_versions:
  assumes "control_step le ctx t t'"
  shows "ct_versions t' = ct_versions t
    \<or> (\<exists>v. saveVersion ctx v (ct_versions t) = Inr (ct_versions t'))
    \<or> (\<exists>agent ver src dst. canTransitionAgentLifecycle src dst
         \<and> transitionLifecycle ctx agent ver src dst (ct_versions t) = Inr (ct_versions t'))"
  using assms
proof (cases rule: control_step.cases)
  case (step_register v)
  then show ?thesis
    by (cases "saveVersion ctx v (ct_versions t)")
      (auto simp: registerAgentVersion_def with_versions_def Let_def split: option.splits)
next
  case (step_transition agent ver to)
  then show ?thesis
    by (fastforce simp: lc_transition_def with_versions_def split: option.splits if_splits sum.splits)
next
  case (step_activate agent ver)
  then show ?thesis
    by (cases "transitionLifecycle ctx agent ver AL_APPROVED AL_ACTIVE (ct_versions t)")
      (auto simp: activateVersion_def with_versions_def canTransitionAgentLifecycle_def)
qed (auto simp: registerCapability_def registerModel_def savePolicyRule_def saveAutonomyRule_def split: sum.splits)

lemma saveVersion_invisible:
  "saveVersion ctx v rows = Inr rows' \<Longrightarrow> filter (\<lambda>r. \<not> av_visible ctx r) rows' = filter (\<lambda>r. \<not> av_visible ctx r) rows"
proof -
  have upd: "filter (\<lambda>r. \<not> av_visible ctx r) (map (\<lambda>r. if P r \<and> av_visible ctx r then r\<lparr>av_lifecycle := l, av_definition := d,
      av_implementationKey := k\<rparr> else r) rs) = filter (\<lambda>r. \<not> av_visible ctx r) rs" for P l d k rs
    by (induction rs) (auto simp: av_visible_def)
  show "saveVersion ctx v rows = Inr rows' \<Longrightarrow> ?thesis"
    using upd by (auto simp: saveVersion_def av_visible_def dest: writable_visible split: option.splits if_splits)
qed

lemma transitionLifecycle_invisible:
  "transitionLifecycle ctx agent ver src dst rows = Inr rows' \<Longrightarrow>
     filter (\<lambda>r. \<not> av_visible ctx r) rows' = filter (\<lambda>r. \<not> av_visible ctx r) rows"
proof -
  have upd: "filter (\<lambda>r. \<not> av_visible ctx r) (map (\<lambda>r. if av_agentId r = agent \<and> av_version r = ver \<and> av_lifecycle r = src
      \<and> av_visible ctx r then r\<lparr>av_lifecycle := dst\<rparr> else r) rs) = filter (\<lambda>r. \<not> av_visible ctx r) rs" for rs
    by (induction rs) (auto simp: av_visible_def)
  show "transitionLifecycle ctx agent ver src dst rows = Inr rows' \<Longrightarrow> ?thesis"
    using upd by (auto simp: transitionLifecycle_def Let_def split: if_splits)
qed

lemma control_step_ids:
  assumes "control_step le ctx t t'" and "distinct (map av_versionId (ct_versions t))"
  shows "distinct (map av_versionId (ct_versions t'))"
proof -
  have same: "map av_versionId (map (\<lambda>r. if P r then f r else r) rs) = map av_versionId rs"
    if "\<And>r. av_versionId (f r) = av_versionId r" for P and f :: "agent_version \<Rightarrow> agent_version" and rs
    using that by (induction rs) auto
  from control_step_versions [OF assms(1)] show ?thesis
  proof (elim disjE exE conjE)
    fix v assume "saveVersion ctx v (ct_versions t) = Inr (ct_versions t')"
    then show ?thesis using assms(2)
      by (auto simp: saveVersion_def same split: option.splits if_splits simp del: map_map dest!: sym [of _ "ct_versions t'"])
  next
    fix agent ver src dst assume "transitionLifecycle ctx agent ver src dst (ct_versions t) = Inr (ct_versions t')"
    then show ?thesis using assms(2)
      by (auto simp: transitionLifecycle_def Let_def same split: if_splits simp del: map_map dest!: sym [of _ "ct_versions t'"])
  qed (use assms(2) in simp)
qed

lemma pol_saveRule_invisible:
  assumes "pol_saveRule ctx rule rows = Inr rows'" and "distinct (map pol_policyId rows)"
  shows "filter (\<lambda>r. \<not> rls_visible ctx (pol_isSystem r) (pol_tenantId r)) rows'
    = filter (\<lambda>r. \<not> rls_visible ctx (pol_isSystem r) (pol_tenantId r)) rows"
proof (cases "List.find (\<lambda>r. pol_policyId r = pol_policyId rule) rows")
  case None
  then show ?thesis using assms by (auto simp: pol_saveRule_def Let_def dest: writable_visible split: if_splits)
next
  case (Some q)
  have upd: "filter (\<lambda>r. \<not> rls_visible ctx (pol_isSystem r) (pol_tenantId r))
      (map (\<lambda>r. if pol_policyId r = i then n\<lparr>pol_tenantId := pol_tenantId r, pol_isSystem := pol_isSystem r\<rparr> else r) rs)
      = filter (\<lambda>r. \<not> rls_visible ctx (pol_isSystem r) (pol_tenantId r)) rs"
    if "\<And>r. r \<in> set rs \<Longrightarrow> pol_policyId r = i \<Longrightarrow> rls_visible ctx (pol_isSystem r) (pol_tenantId r)" for i n rs
    using that by (induction rs) auto
  have q: "q \<in> set rows" "pol_policyId q = pol_policyId rule" using Some find_SomeD by fastforce+
  have "r = q" if "r \<in> set rows" "pol_policyId r = pol_policyId rule" for r
    using that q assms(2) by (metis distinct_map inj_onD)
  then show ?thesis using assms(1) Some by (auto simp: pol_saveRule_def Let_def split: if_splits intro!: upd)
qed

lemma control_step_policies:
  assumes "control_step le ctx t t'" and "distinct (map pol_policyId (ct_policies t))"
  shows "filter (\<lambda>r. \<not> rls_visible ctx (pol_isSystem r) (pol_tenantId r)) (ct_policies t')
    = filter (\<lambda>r. \<not> rls_visible ctx (pol_isSystem r) (pol_tenantId r)) (ct_policies t)"
  using assms(1)
proof (cases rule: control_step.cases)
  case (step_policy rule)
  then show ?thesis using pol_saveRule_invisible [OF _ assms(2)] by (auto simp: savePolicyRule_def split: sum.splits)
qed (auto simp: registerAgentVersion_def lc_transition_def activateVersion_def with_versions_def registerCapability_def registerModel_def
    saveAutonomyRule_def Let_def split: sum.splits option.splits if_splits)

lemma aur_saveRule_invisible:
  assumes "aur_saveRule ctx rule rows = Inr rows'" and "distinct (map aur_ruleId rows)"
  shows "filter (\<lambda>r. aur_tenantId r \<noteq> cx_tenantId ctx) rows' = filter (\<lambda>r. aur_tenantId r \<noteq> cx_tenantId ctx) rows"
proof (cases "List.find (\<lambda>r. aur_ruleId r = aur_ruleId rule) rows")
  case None
  then show ?thesis using assms by (auto simp: aur_saveRule_def split: if_splits)
next
  case (Some q)
  have upd: "filter (\<lambda>r. aur_tenantId r \<noteq> cx_tenantId ctx)
      (map (\<lambda>r. if aur_ruleId r = i then r\<lparr>aur_requiredOutcome := o1, aur_confidenceThreshold := c\<rparr> else r) rs)
      = filter (\<lambda>r. aur_tenantId r \<noteq> cx_tenantId ctx) rs"
    if "\<And>r. r \<in> set rs \<Longrightarrow> aur_ruleId r = i \<Longrightarrow> aur_tenantId r = cx_tenantId ctx" for i o1 c rs
    using that by (induction rs) auto
  have q: "q \<in> set rows" "aur_ruleId q = aur_ruleId rule" using Some find_SomeD by fastforce+
  have "r = q" if "r \<in> set rows" "aur_ruleId r = aur_ruleId rule" for r
    using that q assms(2) by (metis distinct_map inj_onD)
  then show ?thesis using assms(1) Some by (auto simp: aur_saveRule_def split: if_splits intro!: upd)
qed

lemma control_step_autonomy:
  assumes "control_step le ctx t t'" and "distinct (map aur_ruleId (ct_autonomy t))"
  shows "filter (\<lambda>r. aur_tenantId r \<noteq> cx_tenantId ctx) (ct_autonomy t') = filter (\<lambda>r. aur_tenantId r \<noteq> cx_tenantId ctx) (ct_autonomy t)"
  using assms(1)
proof (cases rule: control_step.cases)
  case (step_autonomy rule)
  then show ?thesis using aur_saveRule_invisible [OF _ assms(2)] by (auto simp: saveAutonomyRule_def split: sum.splits)
qed (auto simp: registerAgentVersion_def lc_transition_def activateVersion_def with_versions_def registerCapability_def registerModel_def
    savePolicyRule_def Let_def split: sum.splits option.splits if_splits)

abbreviation lifecycle_path :: "agent_lifecycle \<Rightarrow> agent_lifecycle \<Rightarrow> bool" where
  "lifecycle_path \<equiv> (\<lambda>a b. canTransitionAgentLifecycle a b)\<^sup>*\<^sup>*"

text \<open>A version that has left testing: the row it was, up to the lifecycle it has moved to.\<close>

definition holds_version :: "agent_version \<Rightarrow> control_tables \<Rightarrow> bool" where
  "holds_version r t \<longleftrightarrow> (\<exists>l. r\<lparr>av_lifecycle := l\<rparr> \<in> set (ct_versions t) \<and> lifecycle_path (av_lifecycle r) l)"

lemma frozen_stays: "canTransitionAgentLifecycle a b \<Longrightarrow> \<not> isMutableAgentLifecycle a \<Longrightarrow> \<not> isMutableAgentLifecycle b"
  by (cases a) (auto simp: canTransitionAgentLifecycle_def isMutableAgentLifecycle_def)

lemma frozen_path: "lifecycle_path a b \<Longrightarrow> \<not> isMutableAgentLifecycle a \<Longrightarrow> \<not> isMutableAgentLifecycle b"
  by (induction rule: rtranclp_induct) (auto dest: frozen_stays)

lemma find_distinct:
  "distinct (map f rows) \<Longrightarrow> r \<in> set rows \<Longrightarrow> P r \<Longrightarrow> List.find (\<lambda>q. f q = f r \<and> P q) rows = Some r"
  by (induction rows) (auto simp: rev_image_eqI)

lemma saveVersion_frozen:
  assumes "saveVersion ctx v rows = Inr rows'" and "distinct (map av_versionId rows)" and "r \<in> set rows"
    and "\<not> isMutableAgentLifecycle (av_lifecycle r)"
  shows "r \<in> set rows'"
proof (cases "av_versionId r = av_versionId v \<and> av_visible ctx r")
  case True
  then have "List.find (\<lambda>q. av_versionId q = av_versionId v \<and> av_visible ctx q) rows = Some r"
    using find_distinct [OF assms(2,3), of "av_visible ctx"] by simp
  then show ?thesis using assms by (auto simp: saveVersion_def split: option.splits if_splits)
next
  case False
  then have "r \<in> set (map (\<lambda>q. if av_versionId q = av_versionId v \<and> av_visible ctx q then f q else q) rows)" for f
    using assms(3) by force
  then show ?thesis using assms(1,3) by (auto simp: saveVersion_def split: option.splits if_splits)
qed

lemma control_step_holds:
  assumes "control_step le ctx t t'" and "distinct (map av_versionId (ct_versions t))"
    and "\<not> isMutableAgentLifecycle (av_lifecycle r)" and "holds_version r t"
  shows "holds_version r t'"
proof -
  obtain l where l: "r\<lparr>av_lifecycle := l\<rparr> \<in> set (ct_versions t)" "lifecycle_path (av_lifecycle r) l"
    using assms(4) by (auto simp: holds_version_def)
  have frozen: "\<not> isMutableAgentLifecycle l" using frozen_path [OF l(2)] assms(3) by simp
  from control_step_versions [OF assms(1)] show ?thesis
  proof (elim disjE exE conjE)
    assume "ct_versions t' = ct_versions t"
    then show ?thesis using assms(4) by (simp add: holds_version_def)
  next
    fix v assume "saveVersion ctx v (ct_versions t) = Inr (ct_versions t')"
    then have "r\<lparr>av_lifecycle := l\<rparr> \<in> set (ct_versions t')" using saveVersion_frozen assms(2) l(1) frozen by simp
    then show ?thesis using l(2) by (auto simp: holds_version_def)
  next
    fix agent ver src dst
    assume can: "canTransitionAgentLifecycle src dst"
      and "transitionLifecycle ctx agent ver src dst (ct_versions t) = Inr (ct_versions t')"
    then have t': "ct_versions t' = map (\<lambda>q. if av_agentId q = agent \<and> av_version q = ver \<and> av_lifecycle q = src \<and> av_visible ctx q
        then q\<lparr>av_lifecycle := dst\<rparr> else q) (ct_versions t)"
      by (auto simp: transitionLifecycle_def Let_def split: if_splits)
    have "(if av_agentId r = agent \<and> av_version r = ver \<and> l = src \<and> av_visible ctx r
        then r\<lparr>av_lifecycle := dst\<rparr> else r\<lparr>av_lifecycle := l\<rparr>) \<in> set (ct_versions t')"
      unfolding t' set_map by (rule image_eqI [OF _ l(1)]) (simp add: av_visible_def)
    then show ?thesis using l(2) can by (auto simp: holds_version_def split: if_splits intro: rtranclp.rtrancl_into_rtrancl)
  qed
qed

text \<open>
  (C39) Once an agent version has left testing, no operation of any tenant changes what it is: its contract, its
  implementation and its owner stay, and its lifecycle only moves along the allowed transitions.
\<close>

theorem approved_versions_are_frozen:
  assumes "(\<lambda>t t'. \<exists>ctx. control_step le ctx t t')\<^sup>*\<^sup>* t t'" and "distinct (map av_versionId (ct_versions t))"
    and "r \<in> set (ct_versions t)" and "\<not> isMutableAgentLifecycle (av_lifecycle r)"
  shows "\<exists>l. r\<lparr>av_lifecycle := l\<rparr> \<in> set (ct_versions t') \<and> lifecycle_path (av_lifecycle r) l"
proof -
  have "r\<lparr>av_lifecycle := av_lifecycle r\<rparr> \<in> set (ct_versions t)" using assms(3) by simp
  then have "holds_version r t" by (auto simp only: holds_version_def intro!: exI [of _ "av_lifecycle r"])
  with assms(1,2) have "distinct (map av_versionId (ct_versions t')) \<and> holds_version r t'"
  proof (induction rule: rtranclp_induct)
    case (step y z)
    then show ?case using control_step_ids control_step_holds assms(4) by blast
  qed simp
  then show ?thesis by (simp add: holds_version_def)
qed

text \<open>
  (C40) No operation of a tenant changes or adds a row of another tenant: the versions, the policies and the
  autonomy rules that the tenant cannot see are the same before and after.
\<close>

theorem control_plane_keeps_other_tenants:
  assumes "control_step le ctx t t'" and "distinct (map pol_policyId (ct_policies t))" and "distinct (map aur_ruleId (ct_autonomy t))"
  shows "filter (\<lambda>r. \<not> av_visible ctx r) (ct_versions t') = filter (\<lambda>r. \<not> av_visible ctx r) (ct_versions t)
    \<and> filter (\<lambda>r. \<not> rls_visible ctx (pol_isSystem r) (pol_tenantId r)) (ct_policies t')
        = filter (\<lambda>r. \<not> rls_visible ctx (pol_isSystem r) (pol_tenantId r)) (ct_policies t)
    \<and> filter (\<lambda>r. aur_tenantId r \<noteq> cx_tenantId ctx) (ct_autonomy t') = filter (\<lambda>r. aur_tenantId r \<noteq> cx_tenantId ctx) (ct_autonomy t)"
proof -
  have "filter (\<lambda>r. \<not> av_visible ctx r) (ct_versions t') = filter (\<lambda>r. \<not> av_visible ctx r) (ct_versions t)"
    using control_step_versions [OF assms(1)] saveVersion_invisible transitionLifecycle_invisible by metis
  then show ?thesis using control_step_policies [OF assms(1,2)] control_step_autonomy [OF assms(1,3)] by simp
qed

text \<open>
  (C38) The evaluation of a request answers the strictest of what applies to it, whatever the order and the scope
  of the rules: the outcomes of the rules of the tenant and the system that match it, what its level of autonomy
  and its risk ask for, and the rule of the tenant for that level; an active emergency stop denies everything.
\<close>

theorem policy_evaluation_is_strictest:
  assumes "policy_evaluate (pg_policy_ports t) fresh now ctx q = (Inr r, entries)"
  shows "rl_outcome r = (if isStopped ctx StopTenant (ct_stops t) then PV_DENY
     else Max ({evaluateAutonomy (aq_autonomyLevel q) (aq_riskCategory q) (Fin 1) PV_ALLOW}
       \<union> pol_outcome ` {p \<in> set (ct_policies t). rule_applies ctx q p}
       \<union> aur_requiredOutcome ` set_option (List.find (\<lambda>a. aur_tenantId a = cx_tenantId ctx
           \<and> Fin (of_int (aur_level a)) = aq_autonomyLevel q \<and> aur_riskCategory a = aq_riskCategory q) (ct_autonomy t))))"
proof (cases "isStopped ctx StopTenant (ct_stops t)")
  case True
  then show ?thesis using assms by (auto simp: policy_evaluate_def pg_policy_ports_def buildDecision_def split: if_splits)
next
  case False
  let ?rules = "findRules ctx q (ct_policies t)"
  let ?base = "evaluateAutonomy (aq_autonomyLevel q) (aq_riskCategory q) (Fin 1) PV_ALLOW"
  let ?rule = "List.find (\<lambda>a. aur_tenantId a = cx_tenantId ctx \<and> Fin (of_int (aur_level a)) = aq_autonomyLevel q
      \<and> aur_riskCategory a = aq_riskCategory q) (ct_autonomy t)"
  have rules: "set ?rules = {p \<in> set (ct_policies t). rule_applies ctx q p}" by (auto simp: findRules_def)
  have cap: "(if ?rules = [] then PV_ALLOW else mergePolicyOutcomes ?rules) = Max (insert PV_ALLOW (pol_outcome ` set ?rules))"
    by (simp add: merge_is_max)
  have "rl_outcome r = max (Max (insert PV_ALLOW (pol_outcome ` set ?rules))) (autonomy_outcome ?rule ?base)"
    using assms False unfolding cap [symmetric]
    by (auto simp: policy_evaluate_def pg_policy_ports_def buildDecision_def getRule_def Let_def split: if_splits)
  also have "\<dots> = Max ({?base} \<union> pol_outcome ` set ?rules \<union> aur_requiredOutcome ` set_option ?rule)"
  proof -
    have one: "max (Max (insert PV_ALLOW A)) b = Max (insert b A)" if "finite A" for A and b :: policy_verdict
      using that by (cases "A = {}") (simp_all add: Max_insert max.commute)
    have two: "Max (insert (max b c) A) = max c (Max (insert b A))" if "finite A" for A and b c :: policy_verdict
      using that by (cases "A = {}") (simp_all add: max.commute max.left_commute)
    show ?thesis by (cases ?rule) (simp_all add: autonomy_outcome_def one two)
  qed
  finally show ?thesis using False unfolding rules by simp
qed

subsection \<open>Findings\<close>

text \<open>A system rule is a row that every tenant may write: any tenant turns its denial into a permission.\<close>

lemma system_rule_rewritten:
  assumes "pol_isSystem p" and "pol_tenantId p = None"
  shows "pol_saveRule ctx (p\<lparr>pol_outcome := PV_ALLOW\<rparr>) [p] = Inr [p\<lparr>pol_outcome := PV_ALLOW\<rparr>]"
  using assms by (cases p) (simp add: pol_saveRule_def Let_def rls_writable_def rls_visible_def)

text \<open>Stopping one mission or one agent stops every execution of the tenant.\<close>

lemma mission_stop_stops_tenant:
  "\<lparr>es_tenantId = Some (cx_tenantId ctx), es_missionId = Some m, es_agentId = None, es_active = True\<rparr> \<in> set rows \<Longrightarrow>
     isStopped ctx StopTenant rows"
  unfolding isStopped_def list_ex_iff by (erule bexI [rotated]) (simp add: stop_row_matches_def)

text \<open>A draft with a changed contract is stored with whatever lifecycle it names, past every transition.\<close>

lemma draft_saved_as_active:
  assumes "areVersionDefinitionsEqual (mapAgentVersion r) v \<noteq> None" and "av_versionId v = av_versionId r"
    and "av_lifecycle r = AL_DRAFT" and "av_lifecycle v = AL_ACTIVE" and "rls_writable ctx (av_isSystem r) (av_tenantId r)"
  shows "\<exists>r'. saveVersion ctx v [r] = Inr [r'] \<and> av_lifecycle r' = AL_ACTIVE"
  using assms by (auto simp: saveVersion_def av_visible_def isMutableAgentLifecycle_def writable_visible)

subsection \<open>Concrete tables\<close>

definition sample_definition :: agent_definition where
  "sample_definition = \<lparr>df_name = ''n'', df_role = ''r'', df_description = ''d'', df_capabilities = [''c''], df_tools = [],
     df_policies = JArr [], df_modelPolicy = JObj [], df_memoryPolicy = JObj [], df_knowledgePolicy = JObj [],
     df_autonomyLevelDefault = 1, df_evaluationPolicy = JObj [], df_owner = ''o''\<rparr>"

definition sample_version :: agent_version where
  "sample_version = \<lparr>av_versionId = ''a:1'', av_agentId = ''a'', av_tenantId = None, av_isSystem = True, av_version = ''1'',
     av_lifecycle = AL_APPROVED, av_implementationKey = ''k'', av_definition = sample_definition\<rparr>"

definition sample_policy :: policy_rule where
  "sample_policy = \<lparr>pol_policyId = ''p'', pol_tenantId = Some ''t'', pol_isSystem = False, pol_scope = PS_agent, pol_missionId = None,
     pol_agentId = Some ''a'', pol_capability = None, pol_toolId = None, pol_riskCategory = None, pol_outcome = PV_REQUIRE_APPROVAL,
     pol_policyVersion = ''1'', pol_priority = 0\<rparr>"

definition sample_tables :: control_tables where
  "sample_tables = \<lparr>ct_versions = [sample_version], ct_policies = [sample_policy], ct_autonomy = [], ct_stops = [], ct_capabilities = [],
     ct_models = [], ct_audit = []\<rparr>"

definition sample_ai_request :: ai_request where
  "sample_ai_request = \<lparr>aq_executionId = ''x'', aq_tenantId = ''t'', aq_missionId = ''m'', aq_agentId = ''a'', aq_agentVersion = ''1'',
     aq_taskId = ''k'', aq_taskType = ''research'', aq_correlationId = ''y'', aq_context = JNull, aq_capabilities = [''c''],
     aq_autonomyLevel = Fin 3, aq_riskCategory = ''LOW'',
     aq_budget = \<lparr>eb_maxTokens = Fin 100, eb_maxCostUsd = Fin 1, eb_maxDurationSeconds = Fin 60\<rparr>, aq_deadline = None, aq_idempotencyKey = ''i''\<rparr>"

theorem policy_evaluation_is_strictest_witness:
  "rl_outcome (projr (fst (policy_evaluate (pg_policy_ports sample_tables) ''f'' 0 sample_outreach_ctx sample_ai_request))) = PV_REQUIRE_APPROVAL"
proof -
  have e: "policy_evaluate (pg_policy_ports sample_tables) ''f'' 0 sample_outreach_ctx sample_ai_request
    = (Inr (buildDecision ''f'' sample_ai_request PV_REQUIRE_APPROVAL 0 None), [(''policy-evaluation'', ''failure'')])"
    by code_simp
  from policy_evaluation_is_strictest [OF e] show ?thesis using e by (simp add: buildDecision_def)
qed

theorem approved_versions_are_frozen_witness:
  "\<exists>l. sample_version\<lparr>av_lifecycle := l\<rparr> \<in> set (ct_versions (snd (activateVersion sample_outreach_ctx ''a'' ''1'' sample_tables)))
     \<and> lifecycle_path AL_APPROVED l"
proof -
  have "(\<lambda>t t'. \<exists>ctx. control_step (\<lambda>a b. True) ctx t t')\<^sup>*\<^sup>* sample_tables (snd (activateVersion sample_outreach_ctx ''a'' ''1'' sample_tables))"
    by (blast intro: step_activate)
  from approved_versions_are_frozen [OF this, of sample_version]
  show ?thesis by (simp add: sample_tables_def sample_version_def isMutableAgentLifecycle_def)
qed

theorem control_plane_keeps_other_tenants_witness:
  "filter (\<lambda>r. \<not> av_visible sample_outreach_ctx r)
     (ct_versions (snd (activateVersion sample_outreach_ctx ''a'' ''1'' sample_tables))) = []"
proof -
  have "control_step (\<lambda>a b. True) sample_outreach_ctx sample_tables (snd (activateVersion sample_outreach_ctx ''a'' ''1'' sample_tables))"
    by (rule step_activate) (rule refl)
  from control_plane_keeps_other_tenants [OF this] show ?thesis
    by (simp add: sample_tables_def sample_version_def av_visible_def rls_visible_def)
qed

end
