(* ===== verification/AgentExecution.thy ===== *)
theory AgentExecution
  imports ControlPlane MissionEngine
begin

section \<open>The execution of an agent\<close>

text \<open>
  \<open>packages/ai-runtime\<close>: \<open>execution-state.ts\<close>, \<open>policy-aware-decision-engine.ts\<close> and \<open>agent-executor.ts\<close>, which
  looks the agent up, asks the policy and the approvals, has the model reason, decides, and only then runs the
  implementation of the agent. The registry, the policy, the approvals, the assembly of the prompt, the model,
  the decision, the implementations and the store of checkpoints are functions of \<open>executor_deps\<close>; \<open>Inl\<close> is an
  exception. Spans of the telemetry run what they are given. The calls made are recorded in the world.
\<close>

subsection \<open>The state of an execution\<close>

datatype failure_class =
    FC_TRANSIENT_PROVIDER_ERROR | FC_TIMEOUT | FC_POLICY_DENIED | FC_VALIDATION_ERROR | FC_TOOL_FAILURE | FC_MALFORMED_OUTPUT
  | FC_BUDGET_EXHAUSTED | FC_AUTHORIZATION_FAILURE | FC_TENANT_CONTEXT_FAILURE | FC_NON_RETRYABLE_BUSINESS_FAILURE

record exec_failure =
  xf_message :: string
  xf_retryable :: bool
  xf_classification :: failure_class

record checkpoint =
  ck_step :: nat
  ck_status :: exec_status
  ck_recordedAt :: int
  ck_failure :: "exec_failure option"

record execution_state =
  xs_executionId :: string
  xs_tenantId :: string
  xs_missionId :: string
  xs_taskId :: string
  xs_agentId :: string
  xs_status :: exec_status
  xs_currentStep :: nat
  xs_checkpoints :: "checkpoint list"
  xs_toolHistory :: "(string \<times> string) list"
  xs_budgetConsumed :: exec_budget
  xs_failure :: "exec_failure option"

definition xs_new :: "ai_request \<Rightarrow> execution_state" where
  "xs_new q = \<lparr>xs_executionId = aq_executionId q, xs_tenantId = aq_tenantId q, xs_missionId = aq_missionId q, xs_taskId = aq_taskId q,
     xs_agentId = aq_agentId q, xs_status = XS_PENDING, xs_currentStep = 0, xs_checkpoints = [], xs_toolHistory = [],
     xs_budgetConsumed = \<lparr>eb_maxTokens = Fin 0, eb_maxCostUsd = Fin 0, eb_maxDurationSeconds = Fin 0\<rparr>, xs_failure = None\<rparr>"

definition xs_checkpoint :: "int \<Rightarrow> exec_status \<Rightarrow> exec_failure option \<Rightarrow> execution_state \<Rightarrow> execution_state" where
  "xs_checkpoint now status metadata s =
     s\<lparr>xs_checkpoints := xs_checkpoints s @ [\<lparr>ck_step = xs_currentStep s, ck_status = status, ck_recordedAt = now, ck_failure = metadata\<rparr>]\<rparr>"

definition xs_transition :: "int \<Rightarrow> exec_status \<Rightarrow> execution_state \<Rightarrow> execution_state" where
  "xs_transition now status s = xs_checkpoint now status None (s\<lparr>xs_status := status\<rparr>)"

definition nextStep :: "execution_state \<Rightarrow> execution_state" where
  "nextStep s = s\<lparr>xs_currentStep := Suc (xs_currentStep s)\<rparr>"

definition recordToolResult :: "string \<times> string \<Rightarrow> execution_state \<Rightarrow> execution_state" where
  "recordToolResult r s = s\<lparr>xs_toolHistory := xs_toolHistory s @ [r]\<rparr>"

definition consumeBudget :: "jsnum \<Rightarrow> jsnum \<Rightarrow> jsnum \<Rightarrow> execution_state \<Rightarrow> execution_state" where
  "consumeBudget tokens cost duration s =
     (let b = xs_budgetConsumed s in
      s\<lparr>xs_budgetConsumed := \<lparr>eb_maxTokens = js_add (eb_maxTokens b) tokens, eb_maxCostUsd = js_add (eb_maxCostUsd b) cost,
                             eb_maxDurationSeconds = js_add (eb_maxDurationSeconds b) duration\<rparr>\<rparr>)"

definition isWithinBudget :: "exec_budget \<Rightarrow> execution_state \<Rightarrow> bool" where
  "isWithinBudget b s \<longleftrightarrow> js_le (eb_maxTokens (xs_budgetConsumed s)) (eb_maxTokens b)
     \<and> js_le (eb_maxCostUsd (xs_budgetConsumed s)) (eb_maxCostUsd b)
     \<and> js_le (eb_maxDurationSeconds (xs_budgetConsumed s)) (eb_maxDurationSeconds b)"

definition markFailure :: "int \<Rightarrow> exec_failure \<Rightarrow> execution_state \<Rightarrow> execution_state" where
  "markFailure now f s = xs_checkpoint now XS_FAILED (Some f) (s\<lparr>xs_failure := Some f, xs_status := XS_FAILED\<rparr>)"

subsection \<open>Reasoning and decisions\<close>

record model_usage =
  mu_model :: string
  mu_inputTokens :: jsnum
  mu_outputTokens :: jsnum
  mu_costUsd :: jsnum

record reasoning_output =
  ro_rationale :: string
  ro_conclusion :: string
  ro_confidence :: jsnum
  ro_evidence :: "string list"
  ro_requiredApprovals :: "string list option"
  ro_modelUsage :: "model_usage option"

record decision_output =
  dc_outcome :: policy_verdict
  dc_allowedCapabilities :: "string list"
  dc_requiredApprovals :: "string list"
  dc_rationale :: string

text \<open>\<open>add\<close> of a \<open>Set\<close>, whose elements stay in the order of insertion.\<close>

definition set_add :: "string \<Rightarrow> string list \<Rightarrow> string list" where
  "set_add x xs = (if x \<in> set xs then xs else xs @ [x])"

definition highRiskCategories :: "string list" where
  "highRiskCategories = [''HIGH'', ''CRITICAL'']"

definition needed_approvals :: "ai_request \<Rightarrow> reasoning_output \<Rightarrow> ruling \<Rightarrow> string list" where
  "needed_approvals q ro rl =
     (let a0 = fold set_add (nullish (ro_requiredApprovals ro) []) [];
          a1 = (if rl_outcome rl = PV_REQUIRE_APPROVAL then set_add ''policy'' a0 else a0);
          a2 = (if aq_riskCategory q \<in> set highRiskCategories \<and> js_lt (aq_autonomyLevel q) (Fin 4)
                then set_add (''high-risk-'' @ js_lower (aq_riskCategory q)) a1 else a1);
          a3 = (if js_lt (aq_autonomyLevel q) (Fin 2) then set_add ''autonomy-level'' a2 else a2)
      in if js_lt (ro_confidence ro) (Fin (1 / 2)) then set_add ''low-confidence'' a3 else a3)"

definition policy_aware_decide :: "tenant_context \<Rightarrow> ai_request \<Rightarrow> reasoning_output \<Rightarrow> ruling \<Rightarrow> string + decision_output" where
  "policy_aware_decide ctx q ro rl =
     (if ensureSameTenant ctx (aq_tenantId q) \<noteq> None then Inl ''Cross-tenant access''
      else if rl_outcome rl = PV_DENY
      then Inr \<lparr>dc_outcome = PV_DENY, dc_allowedCapabilities = [], dc_requiredApprovals = [],
                dc_rationale = ''Policy denied execution; decision engine cannot override.''\<rparr>
      else let approvals = needed_approvals q ro rl in
        if approvals \<noteq> []
        then Inr \<lparr>dc_outcome = PV_REQUIRE_APPROVAL, dc_allowedCapabilities = rl_capabilities rl, dc_requiredApprovals = approvals,
                  dc_rationale = ''Execution requires explicit approval before proceeding.''\<rparr>
        else Inr \<lparr>dc_outcome = PV_ALLOW, dc_allowedCapabilities = rl_capabilities rl, dc_requiredApprovals = [],
                  dc_rationale = ''Policy allowed and all autonomy/confidence checks passed.''\<rparr>)"

subsection \<open>Ports and results\<close>

record ai_result =
  ar_executionId :: string
  ar_tenantId :: string
  ar_missionId :: string
  ar_status :: exec_status
  ar_outcome :: exec_outcome
  ar_modelUsage :: "model_usage option"
  ar_startedAt :: int
  ar_completedAt :: int
  ar_correlationId :: string
  ar_events :: "string list"

text \<open>The binding of approvals: absent, with the yes-or-no question only, or with the one that names the approval.\<close>

datatype approval_port =
    NoApprovalPort
  | HasApproval "tenant_context \<Rightarrow> approval_binding \<Rightarrow> string + bool"
  | ResolvesApproval "tenant_context \<Rightarrow> approval_binding \<Rightarrow> string + (string \<times> string) option"

record executor_deps =
  xd_getAgent :: "tenant_context \<Rightarrow> string \<Rightarrow> string option \<Rightarrow> string + resolved_agent option"
  xd_policy :: "tenant_context \<Rightarrow> ai_request \<Rightarrow> string + ruling"
  xd_approval :: approval_port
  xd_assemble :: "tenant_context \<Rightarrow> ai_request \<Rightarrow> string + string"
  xd_reason :: "tenant_context \<Rightarrow> ai_request \<Rightarrow> string \<Rightarrow> exec_budget \<Rightarrow> string + reasoning_output"
  xd_decide :: "tenant_context \<Rightarrow> ai_request \<Rightarrow> reasoning_output \<Rightarrow> ruling \<Rightarrow> string + decision_output"
  xd_implementation :: "string \<Rightarrow> (ai_request \<Rightarrow> string \<Rightarrow> reasoning_output \<Rightarrow> execution_state \<Rightarrow> (string + ai_result) \<times> execution_state) option"
  xd_save :: "execution_state \<Rightarrow> bool"

datatype exec_call = CL_agent | CL_policy | CL_approval | CL_assemble | CL_reason | CL_decide | CL_specialist string

record exec_world =
  xw_calls :: "exec_call list"
  xw_saved :: "execution_state list"

text \<open>The readings of the clock: at the start, around the reasoning, and when a result is built.\<close>

record exec_times =
  xt_started :: int
  xt_reasonStart :: int
  xt_reasonEnd :: int
  xt_completed :: int

subsection \<open>Sequencing\<close>

text \<open>An operation throws, returns the result of the whole execution, or goes on with a value.\<close>

datatype 'a xres = Threw string | Gave ai_result | Goes 'a

type_synonym exec_st = "execution_state \<times> exec_world"
type_synonym 'a xop = "exec_st \<Rightarrow> 'a xres \<times> exec_st"

definition xo_bind :: "'a xop \<Rightarrow> ('a \<Rightarrow> 'b xop) \<Rightarrow> 'b xop" where
  "xo_bind m f s = (case m s of (Goes a, s') \<Rightarrow> f a s' | (Gave r, s') \<Rightarrow> (Gave r, s') | (Threw e, s') \<Rightarrow> (Threw e, s'))"

definition xo_goes :: "'a \<Rightarrow> 'a xop" where
  "xo_goes a s = (Goes a, s)"

definition xo_gives :: "ai_result \<Rightarrow> 'a xop" where
  "xo_gives r s = (Gave r, s)"

definition xo_check :: "bool \<Rightarrow> string \<Rightarrow> unit xop" where
  "xo_check ok msg s = (if ok then (Goes (), s) else (Threw msg, s))"

text \<open>The call of a port, recorded before its answer is known.\<close>

definition xo_ask :: "exec_call \<Rightarrow> string + 'a \<Rightarrow> 'a xop" where
  "xo_ask call answer s = (case answer of Inl e \<Rightarrow> Threw e | Inr a \<Rightarrow> Goes a, fst s, (snd s)\<lparr>xw_calls := xw_calls (snd s) @ [call]\<rparr>)"

definition xo_state :: "(execution_state \<Rightarrow> execution_state) \<Rightarrow> unit xop" where
  "xo_state f s = (Goes (), f (fst s), snd s)"

definition store_checkpoint :: "executor_deps \<Rightarrow> exec_st \<Rightarrow> exec_st" where
  "store_checkpoint dp s = (if xd_save dp (fst s) then (fst s, (snd s)\<lparr>xw_saved := xw_saved (snd s) @ [fst s]\<rparr>) else s)"

definition saveCheckpoint :: "executor_deps \<Rightarrow> unit xop" where
  "saveCheckpoint dp s = (if xd_save dp (fst s) then Goes () else Threw ''checkpoint'', store_checkpoint dp s)"

subsection \<open>Results\<close>

definition policy_entry :: "ruling \<Rightarrow> (string \<times> json) list" where
  "policy_entry rl = [(''policyDecisionId'', JStr (rl_decisionId rl)), (''outcome'', JStr (verdict_name (rl_outcome rl)))]"

definition approval_entry :: "ruling \<Rightarrow> string \<times> string \<Rightarrow> json" where
  "approval_entry rl ev = JObj (policy_entry rl @
     [(''satisfiedByApprovalId'', JStr (fst ev)), (''approvalStatus'', JStr (snd ev)), (''approvalValidation'', JStr ''valid'')])"

definition exec_result_of ::
    "exec_times \<Rightarrow> execution_state \<Rightarrow> string \<Rightarrow> exec_status \<Rightarrow> string \<Rightarrow> ruling \<Rightarrow> string list \<Rightarrow> model_usage option
     \<Rightarrow> (string \<times> string) option \<Rightarrow> ai_result" where
  "exec_result_of tm s corr status summary rl evidence usage ev =
     \<lparr>ar_executionId = xs_executionId s, ar_tenantId = xs_tenantId s, ar_missionId = xs_missionId s, ar_status = status,
      ar_outcome = \<lparr>eo_summary = summary,
        eo_decisions = JObj (policy_entry rl) # (case ev of None \<Rightarrow> [] | Some e \<Rightarrow> [approval_entry rl e]),
        eo_actions = map (\<lambda>(i, st). JObj [(''toolCallId'', JStr i), (''status'', JStr st)]) (xs_toolHistory s),
        eo_evidence = map JStr evidence\<rparr>,
      ar_modelUsage = Some (nullish usage \<lparr>mu_model = ''unknown'', mu_inputTokens = eb_maxTokens (xs_budgetConsumed s),
        mu_outputTokens = Fin 0, mu_costUsd = eb_maxCostUsd (xs_budgetConsumed s)\<rparr>),
      ar_startedAt = xt_started tm, ar_completedAt = xt_completed tm, ar_correlationId = corr,
      ar_events = [''ExecutionStateChanged'']\<rparr>"

text \<open>The checkpoint of a failure is stored if it can be; its exception is dropped.\<close>

definition exec_fail ::
    "executor_deps \<Rightarrow> exec_times \<Rightarrow> string \<Rightarrow> failure_class \<Rightarrow> string \<Rightarrow> ruling \<Rightarrow> model_usage option \<Rightarrow> exec_st \<Rightarrow> ai_result \<times> exec_st" where
  "exec_fail dp tm corr cls msg rl usage s =
     (let st = markFailure (xt_completed tm) \<lparr>xf_message = msg, xf_retryable = False, xf_classification = cls\<rparr> (fst s)
      in (exec_result_of tm st corr XS_FAILED msg rl [] usage None, store_checkpoint dp (st, snd s)))"

definition xo_fail :: "executor_deps \<Rightarrow> exec_times \<Rightarrow> string \<Rightarrow> failure_class \<Rightarrow> string \<Rightarrow> ruling \<Rightarrow> model_usage option \<Rightarrow> 'a xop" where
  "xo_fail dp tm corr cls msg rl usage s = (case exec_fail dp tm corr cls msg rl usage s of (r, s') \<Rightarrow> (Gave r, s'))"

definition await_approval ::
    "executor_deps \<Rightarrow> exec_times \<Rightarrow> string \<Rightarrow> string \<Rightarrow> ruling \<Rightarrow> string list \<Rightarrow> model_usage option \<Rightarrow> 'a xop" where
  "await_approval dp tm corr summary rl evidence usage =
     xo_bind (xo_state (xs_transition (xt_completed tm) XS_AWAITING_APPROVAL)) (\<lambda>_.
     xo_bind (saveCheckpoint dp) (\<lambda>_ s.
     (Gave (exec_result_of tm (fst s) corr XS_AWAITING_APPROVAL summary rl evidence usage None), s)))"

subsection \<open>The steps of an execution\<close>

definition exec_ctx :: "ai_request \<Rightarrow> tenant_context" where
  "exec_ctx q = \<lparr>cx_tenantId = aq_tenantId q, cx_workspaceId = None, cx_correlationId = aq_correlationId q, cx_userId = None,
     cx_agentId = None, cx_missionId = None\<rparr>"

definition lifecycle_runs :: "agent_lifecycle \<Rightarrow> bool" where
  "lifecycle_runs l \<longleftrightarrow> l = AL_ACTIVE \<or> l = AL_APPROVED"

definition requireAgent :: "executor_deps \<Rightarrow> ai_request \<Rightarrow> resolved_agent xop" where
  "requireAgent dp q =
     xo_bind (xo_ask CL_agent (xd_getAgent dp (exec_ctx q) (aq_agentId q) (Some (aq_agentVersion q)))) (\<lambda>found.
     case found of
       None \<Rightarrow> (\<lambda>s. (Threw (''Agent '' @ aq_agentId q @ '' not found''), s))
     | Some a \<Rightarrow>
         xo_bind (xo_check (lifecycle_runs (ra_lifecycle a)) (''Agent '' @ aq_agentId q @ '' is not active'')) (\<lambda>_.
         xo_bind (xo_check (aq_agentVersion q = [] \<or> ra_version a = aq_agentVersion q) (''Agent '' @ aq_agentId q @ '' version mismatch'')) (\<lambda>_.
         xo_goes a)))"

definition missing_capabilities :: "resolved_agent \<Rightarrow> ai_request \<Rightarrow> string list" where
  "missing_capabilities a q = filter (\<lambda>c. c \<notin> set (df_capabilities (ra_definition a))) (aq_capabilities q)"

definition exec_checkBudget :: "exec_budget \<Rightarrow> unit xop" where
  "exec_checkBudget b =
     xo_bind (xo_check (\<not> js_le (eb_maxCostUsd b) (Fin 0)) ''budget exhausted (cost)'') (\<lambda>_.
     xo_bind (xo_check (\<not> js_le (eb_maxTokens b) (Fin 0)) ''budget exhausted (tokens)'') (\<lambda>_.
     xo_check (\<not> js_le (eb_maxDurationSeconds b) (Fin 0)) ''budget exhausted (time)''))"

definition exec_binding :: "ai_request \<Rightarrow> ruling \<Rightarrow> approval_binding" where
  "exec_binding q rl = \<lparr>bd_executionId = aq_executionId q, bd_idempotencyKey = aq_idempotencyKey q, bd_actionType = rl_action rl\<rparr>"

definition find_approval :: "approval_port \<Rightarrow> tenant_context \<Rightarrow> approval_binding \<Rightarrow> string + (string \<times> string) option" where
  "find_approval port ctx b =
     (case port of
        NoApprovalPort \<Rightarrow> Inr None
      | ResolvesApproval f \<Rightarrow> f ctx b
      | HasApproval f \<Rightarrow> (case f ctx b of Inl e \<Rightarrow> Inl e | Inr ok \<Rightarrow> Inr (if ok then Some (''unknown'', ''APPROVED'') else None)))"

text \<open>Everything before a model is called: the agent, the ruling, and the approval that satisfied it.\<close>

definition clearance ::
    "executor_deps \<Rightarrow> exec_times \<Rightarrow> ai_request \<Rightarrow> (resolved_agent \<times> ruling \<times> (string \<times> string) option) xop" where
  "clearance dp tm q =
     xo_bind (xo_check (ensureSameTenant (exec_ctx q) (aq_tenantId q) = None) ''Cross-tenant access'') (\<lambda>_.
     xo_bind (xo_check (case aq_deadline q of None \<Rightarrow> True | Some d \<Rightarrow> \<not> d < xt_started tm) ''Execution deadline has already passed'') (\<lambda>_.
     xo_bind (exec_checkBudget (aq_budget q)) (\<lambda>_.
     xo_bind (requireAgent dp q) (\<lambda>a.
     xo_bind (xo_check (missing_capabilities a q = []) (''Missing capabilities: '' @ js_join '', '' (missing_capabilities a q))) (\<lambda>_.
     xo_bind (xo_ask CL_policy (xd_policy dp (exec_ctx q) q)) (\<lambda>rl.
     case rl_outcome rl of
       PV_DENY \<Rightarrow> xo_fail dp tm (aq_correlationId q) FC_POLICY_DENIED ''Policy denied the execution before any model invocation'' rl None
     | PV_ALLOW \<Rightarrow> xo_goes (a, rl, None)
     | PV_REQUIRE_APPROVAL \<Rightarrow>
         xo_bind (xo_ask CL_approval (find_approval (xd_approval dp) (exec_ctx q) (exec_binding q rl))) (\<lambda>found.
         case found of
           None \<Rightarrow> await_approval dp tm (aq_correlationId q) ''Policy requires approval before any model invocation'' rl [] None
         | Some ev \<Rightarrow> xo_goes (a, rl, Some ev))))))))"

definition remainingBudget :: "exec_budget \<Rightarrow> exec_budget \<Rightarrow> exec_budget" where
  "remainingBudget b used = \<lparr>eb_maxTokens = js_sub (eb_maxTokens b) (eb_maxTokens used), eb_maxCostUsd = js_sub (eb_maxCostUsd b) (eb_maxCostUsd used),
     eb_maxDurationSeconds = js_sub (eb_maxDurationSeconds b) (eb_maxDurationSeconds used)\<rparr>"

definition seconds_between :: "int \<Rightarrow> int \<Rightarrow> jsnum" where
  "seconds_between a b = Fin (of_int (b - a) / 1000)"

definition no_usage :: model_usage where
  "no_usage = \<lparr>mu_model = ''unknown'', mu_inputTokens = Fin 0, mu_outputTokens = Fin 0, mu_costUsd = Fin 0\<rparr>"

definition consume_usage :: "model_usage \<Rightarrow> jsnum \<Rightarrow> execution_state \<Rightarrow> execution_state" where
  "consume_usage u seconds = consumeBudget (js_add (mu_inputTokens u) (mu_outputTokens u)) (mu_costUsd u) seconds"

definition exec_reason ::
    "executor_deps \<Rightarrow> exec_times \<Rightarrow> ai_request \<Rightarrow> ruling \<Rightarrow> (string \<times> reasoning_output) xop" where
  "exec_reason dp tm q rl =
     xo_bind (xo_ask CL_assemble (xd_assemble dp (exec_ctx q) q)) (\<lambda>prompt.
     xo_bind (\<lambda>s. xo_check (isWithinBudget (aq_budget q) (fst s)) ''budget exhausted before reasoning'' s) (\<lambda>_.
     xo_bind (\<lambda>s. xo_ask CL_reason (xd_reason dp (exec_ctx q) q prompt (remainingBudget (aq_budget q) (xs_budgetConsumed (fst s)))) s) (\<lambda>ro.
     xo_bind (xo_state (consume_usage (nullish (ro_modelUsage ro) no_usage) (seconds_between (xt_reasonStart tm) (xt_reasonEnd tm)))) (\<lambda>_ s.
     if \<not> isWithinBudget (aq_budget q) (fst s)
     then xo_fail dp tm (aq_correlationId q) FC_BUDGET_EXHAUSTED ''Reasoning consumed the remaining execution budget'' rl
            (Some (nullish (ro_modelUsage ro) no_usage)) s
     else (Goes (prompt, ro), s)))))"

text \<open>With a bound approval the decision is made on an outcome of ALLOW.\<close>

definition effective_ruling :: "ruling \<Rightarrow> (string \<times> string) option \<Rightarrow> ruling" where
  "effective_ruling rl ev = (if ev = None then rl else rl\<lparr>rl_outcome := PV_ALLOW\<rparr>)"

definition exec_decide ::
    "executor_deps \<Rightarrow> exec_times \<Rightarrow> ai_request \<Rightarrow> ruling \<Rightarrow> (string \<times> string) option \<Rightarrow> reasoning_output \<Rightarrow> unit xop" where
  "exec_decide dp tm q rl ev ro =
     xo_bind (xo_ask CL_decide (xd_decide dp (exec_ctx q) q ro (effective_ruling rl ev))) (\<lambda>d.
     case dc_outcome d of
       PV_DENY \<Rightarrow> xo_fail dp tm (aq_correlationId q) FC_POLICY_DENIED (dc_rationale d) rl (ro_modelUsage ro)
     | PV_REQUIRE_APPROVAL \<Rightarrow> await_approval dp tm (aq_correlationId q) (dc_rationale d) rl (ro_evidence ro) (ro_modelUsage ro)
     | PV_ALLOW \<Rightarrow> xo_goes ())"

definition with_approval :: "ruling \<Rightarrow> (string \<times> string) option \<Rightarrow> ai_result \<Rightarrow> ai_result" where
  "with_approval rl ev r =
     (case ev of None \<Rightarrow> r
      | Some e \<Rightarrow> r\<lparr>ar_outcome := (ar_outcome r)\<lparr>eo_decisions := eo_decisions (ar_outcome r) @ [approval_entry rl e]\<rparr>\<rparr>)"

definition exec_specialist ::
    "executor_deps \<Rightarrow> exec_times \<Rightarrow> ai_request \<Rightarrow> resolved_agent \<Rightarrow> ruling \<Rightarrow> (string \<times> string) option \<Rightarrow> string
     \<Rightarrow> reasoning_output \<Rightarrow> ai_result xop" where
  "exec_specialist dp tm q a rl ev prompt ro =
     (case xd_implementation dp (ra_implementationKey a) of
        None \<Rightarrow> xo_fail dp tm (aq_correlationId q) FC_NON_RETRYABLE_BUSINESS_FAILURE
                  (''Implementation not found for key '' @ ra_implementationKey a) rl None
      | Some run \<Rightarrow>
          xo_bind (\<lambda>s. case run q prompt ro (fst s) of
              (answer, st) \<Rightarrow> xo_ask (CL_specialist (ra_implementationKey a)) answer (st, snd s)) (\<lambda>r.
          xo_bind (xo_state (xs_transition (xt_completed tm) (ar_status r))) (\<lambda>_.
          xo_bind (saveCheckpoint dp) (\<lambda>_.
          xo_bind (xo_state (case ar_modelUsage r of None \<Rightarrow> id
              | Some u \<Rightarrow> consume_usage u (seconds_between (ar_startedAt r) (ar_completedAt r)))) (\<lambda>_ s.
          if \<not> isWithinBudget (aq_budget q) (fst s)
          then xo_fail dp tm (aq_correlationId q) FC_BUDGET_EXHAUSTED ''Specialist execution consumed the remaining budget'' rl
                 (nullish_opt (ar_modelUsage r) (ro_modelUsage ro)) s
          else (Goes (with_approval rl ev r), s))))))"

definition exec_body :: "executor_deps \<Rightarrow> exec_times \<Rightarrow> ai_request \<Rightarrow> ai_result xop" where
  "exec_body dp tm q =
     xo_bind (clearance dp tm q) (\<lambda>(a, rl, ev).
     xo_bind (exec_reason dp tm q rl) (\<lambda>(prompt, ro).
     xo_bind (exec_decide dp tm q rl ev ro) (\<lambda>_.
     exec_specialist dp tm q a rl ev prompt ro)))"

definition unknown_ruling :: "exec_times \<Rightarrow> ai_request \<Rightarrow> ruling" where
  "unknown_ruling tm q = \<lparr>rl_decisionId = ''unknown'', rl_tenantId = aq_tenantId q, rl_capability = None, rl_action = None, rl_outcome = PV_DENY,
     rl_capabilities = [], rl_autonomyLevel = None, rl_riskCategory = None, rl_policyVersion = None,
     rl_evaluatedAt = xt_completed tm, rl_expiresAt = xt_completed tm + 60000\<rparr>"

text \<open>Outside the \<open>try\<close> is only the first checkpoint.\<close>

definition agent_execute ::
    "executor_deps \<Rightarrow> exec_times \<Rightarrow> ai_request \<Rightarrow> exec_world \<Rightarrow> (string + ai_result) \<times> exec_st" where
  "agent_execute dp tm q w =
     (case saveCheckpoint dp (xs_transition (xt_started tm) XS_RUNNING (xs_new q), w) of
        (Threw e, s) \<Rightarrow> (Inl e, s)
      | (Gave r, s) \<Rightarrow> (Inr r, s)
      | (Goes _, s) \<Rightarrow>
          (case exec_body dp tm q s of
             (Goes r, s') \<Rightarrow> (Inr r, s')
           | (Gave r, s') \<Rightarrow> (Inr r, s')
           | (Threw e, s') \<Rightarrow>
               (case exec_fail dp tm (aq_correlationId q) FC_NON_RETRYABLE_BUSINESS_FAILURE e (unknown_ruling tm q) None s' of
                  (r, s'') \<Rightarrow> (Inr r, s''))))"

subsection \<open>Calls that an operation may make\<close>

definition adds :: "exec_call set \<Rightarrow> 'a xop \<Rightarrow> bool" where
  "adds P m \<longleftrightarrow> (\<forall>s. set (xw_calls (snd (snd (m s)))) \<subseteq> set (xw_calls (snd s)) \<union> P)"

named_theorems adds_intros

lemma adds_bind [adds_intros]: "adds P m \<Longrightarrow> (\<And>a. adds P (f a)) \<Longrightarrow> adds P (xo_bind m f)"
  unfolding adds_def xo_bind_def by (auto split: prod.splits xres.splits) (metis UnE snd_conv subsetD)+

lemma adds_plain [adds_intros]:
  "adds P (xo_goes a)" "adds P (xo_gives r)" "adds P (xo_check ok msg)" "adds P (xo_state g)" "adds P (saveCheckpoint dp)"
  "adds P (xo_fail dp tm corr cls msg rl usage)" "adds P (\<lambda>s. (Threw e, s))" "adds P (\<lambda>s. (Gave (h s), s))"
  "adds P (\<lambda>s. xo_check (ok' s) msg s)" "adds P (\<lambda>s. (Goes b, s))"
  by (auto simp: adds_def xo_goes_def xo_gives_def xo_check_def xo_state_def saveCheckpoint_def store_checkpoint_def xo_fail_def
      exec_fail_def Let_def)

lemma adds_ask [adds_intros]: "c \<in> P \<Longrightarrow> adds P (xo_ask c answer)" "c \<in> P \<Longrightarrow> adds P (\<lambda>s. xo_ask c (ans s) s)"
  by (auto simp: adds_def xo_ask_def)

lemma adds_if [adds_intros]: "adds P m \<Longrightarrow> adds P n \<Longrightarrow> adds P (\<lambda>s. if b s then m s else n s)"
  by (simp add: adds_def)

lemma adds_await [adds_intros]: "adds P (await_approval dp tm corr summary rl evidence usage)"
  unfolding await_approval_def by (intro adds_intros)

lemma adds_requireAgent: "CL_agent \<in> P \<Longrightarrow> adds P (requireAgent dp q)"
  unfolding requireAgent_def by (intro adds_intros) (auto split: option.split intro!: adds_intros)

lemma adds_clearance: "adds {CL_agent, CL_policy, CL_approval} (clearance dp tm q)"
  unfolding clearance_def exec_checkBudget_def
  by (intro adds_intros adds_requireAgent) (auto split: policy_verdict.split option.split intro!: adds_intros)

lemma adds_reason: "adds {CL_assemble, CL_reason} (exec_reason dp tm q rl)"
  unfolding exec_reason_def by (intro adds_intros) auto

lemma adds_decide: "adds {CL_decide} (exec_decide dp tm q rl ev ro)"
  unfolding exec_decide_def by (intro adds_intros) (auto split: policy_verdict.split intro!: adds_intros)

lemma addsD: "adds P m \<Longrightarrow> m s = (r, s') \<Longrightarrow> c \<in> set (xw_calls (snd s')) \<Longrightarrow> c \<notin> P \<Longrightarrow> c \<in> set (xw_calls (snd s))"
  unfolding adds_def by (drule spec [of _ s]) auto

subsection \<open>What an operation that went on has seen\<close>

lemma goes_bind: "xo_bind m f s = (Goes b, s') \<longleftrightarrow> (\<exists>a s1. m s = (Goes a, s1) \<and> f a s1 = (Goes b, s'))"
  by (auto simp: xo_bind_def split: prod.splits xres.splits)

lemma goes_plain:
  "xo_goes a s = (Goes b, s') \<longleftrightarrow> b = a \<and> s' = s"
  "xo_check ok msg s = (Goes u, s') \<longleftrightarrow> ok \<and> s' = s"
  "xo_ask c answer s = (Goes b, s') \<longleftrightarrow> answer = Inr b \<and> s' = (fst s, (snd s)\<lparr>xw_calls := xw_calls (snd s) @ [c]\<rparr>)"
  "xo_state g s = (Goes u, s') \<longleftrightarrow> s' = (g (fst s), snd s)"
  by (auto simp: xo_goes_def xo_check_def xo_ask_def xo_state_def split: sum.splits)

lemma goes_never:
  "xo_fail dp tm corr cls msg rl usage s \<noteq> (Goes b, s')" "await_approval dp tm corr summary rl evidence usage s \<noteq> (Goes b, s')"
  by (auto simp: xo_fail_def await_approval_def exec_fail_def xo_bind_def Let_def split: prod.splits xres.splits)

lemma clearance_went:
  assumes "clearance dp tm q s = (Goes (a, rl, ev), s')"
  shows "xd_getAgent dp (exec_ctx q) (aq_agentId q) (Some (aq_agentVersion q)) = Inr (Some a) \<and> lifecycle_runs (ra_lifecycle a)
    \<and> (aq_agentVersion q = [] \<or> ra_version a = aq_agentVersion q) \<and> set (aq_capabilities q) \<subseteq> set (df_capabilities (ra_definition a))
    \<and> xd_policy dp (exec_ctx q) q = Inr rl
    \<and> (rl_outcome rl = PV_ALLOW \<and> ev = None
       \<or> rl_outcome rl = PV_REQUIRE_APPROVAL \<and> ev \<noteq> None \<and> find_approval (xd_approval dp) (exec_ctx q) (exec_binding q rl) = Inr ev)
    \<and> fst s' = fst s"
  using assms unfolding clearance_def exec_checkBudget_def requireAgent_def
  by (auto simp: goes_bind goes_plain goes_never missing_capabilities_def filter_empty_conv split: option.splits policy_verdict.splits)

lemma reason_went:
  assumes "exec_reason dp tm q rl s = (Goes (prompt, ro), s')"
  shows "isWithinBudget (aq_budget q) (fst s') \<and> fst s' = consume_usage (nullish (ro_modelUsage ro) no_usage)
      (seconds_between (xt_reasonStart tm) (xt_reasonEnd tm)) (fst s)
    \<and> xd_assemble dp (exec_ctx q) q = Inr prompt
    \<and> xd_reason dp (exec_ctx q) q prompt (remainingBudget (aq_budget q) (xs_budgetConsumed (fst s))) = Inr ro"
  using assms unfolding exec_reason_def by (auto simp: goes_bind goes_plain goes_never split: if_splits)

lemma decide_went:
  assumes "exec_decide dp tm q rl ev ro s = (Goes u, s')"
  shows "\<exists>d. xd_decide dp (exec_ctx q) q ro (effective_ruling rl ev) = Inr d \<and> dc_outcome d = PV_ALLOW"
proof -
  obtain d s1 where d: "xd_decide dp (exec_ctx q) q ro (effective_ruling rl ev) = Inr d"
    and f: "(case dc_outcome d of
       PV_DENY \<Rightarrow> xo_fail dp tm (aq_correlationId q) FC_POLICY_DENIED (dc_rationale d) rl (ro_modelUsage ro)
     | PV_REQUIRE_APPROVAL \<Rightarrow> await_approval dp tm (aq_correlationId q) (dc_rationale d) rl (ro_evidence ro) (ro_modelUsage ro)
     | PV_ALLOW \<Rightarrow> xo_goes ()) s1 = (Goes u, s')"
    using assms unfolding exec_decide_def goes_bind goes_plain by blast
  from f have "dc_outcome d = PV_ALLOW" by (cases "dc_outcome d") (auto simp: goes_never)
  with d show ?thesis by blast
qed

lemma execute_calls:
  assumes "agent_execute dp tm q \<lparr>xw_calls = [], xw_saved = vs\<rparr> = (r, s')" and "c \<in> set (xw_calls (snd s'))"
  shows "\<exists>s s1 x. xw_calls (snd s) = [] \<and> exec_body dp tm q s = (x, s1) \<and> c \<in> set (xw_calls (snd s1))
    \<and> fst s = xs_transition (xt_started tm) XS_RUNNING (xs_new q)"
proof -
  let ?st = "xs_transition (xt_started tm) XS_RUNNING (xs_new q)"
  let ?w = "\<lparr>xw_calls = [], xw_saved = vs\<rparr>"
  have ok: "xd_save dp ?st"
  proof (rule ccontr)
    assume "\<not> xd_save dp ?st"
    then show False using assms by (auto simp: agent_execute_def saveCheckpoint_def store_checkpoint_def)
  qed
  let ?s = "(?st, ?w\<lparr>xw_saved := vs @ [?st]\<rparr>)"
  obtain x s1 where b: "exec_body dp tm q ?s = (x, s1)" by (cases "exec_body dp tm q ?s")
  have "snd s' = snd s1 \<or> xw_calls (snd s') = xw_calls (snd s1)"
    using assms(1) ok b
    by (cases x) (auto simp: agent_execute_def saveCheckpoint_def store_checkpoint_def exec_fail_def Let_def split: prod.splits if_splits)
  then have "c \<in> set (xw_calls (snd s1))" using assms(2) by auto
  then show ?thesis using b by (intro exI [of _ ?s] exI [of _ s1] exI [of _ x]) simp
qed

text \<open>A call that an operation does not make, seen after it and its successor: the operation went on.\<close>

lemma call_in_bind:
  assumes "adds P m" and "xo_bind m f s = (x, s')" and "c \<in> set (xw_calls (snd s'))" and "c \<notin> P" and "c \<notin> set (xw_calls (snd s))"
  shows "\<exists>a s1. m s = (Goes a, s1) \<and> f a s1 = (x, s') \<and> c \<notin> set (xw_calls (snd s1))"
proof -
  obtain y s1 where y: "m s = (y, s1)" by (cases "m s")
  have none: "c \<notin> set (xw_calls (snd s1))" using addsD [OF assms(1) y _ assms(4)] assms(5) by blast
  with y assms(2,3) show ?thesis by (cases y) (auto simp: xo_bind_def)
qed

lemma model_called:
  assumes "agent_execute dp tm q \<lparr>xw_calls = [], xw_saved = vs\<rparr> = (r, s')" and "c \<in> set (xw_calls (snd s'))"
    and "c \<notin> {CL_agent, CL_policy, CL_approval}"
  shows "\<exists>a rl ev s s1. clearance dp tm q s = (Goes (a, rl, ev), s1)"
proof -
  obtain s s1 x where s: "xw_calls (snd s) = []" "exec_body dp tm q s = (x, s1)" "c \<in> set (xw_calls (snd s1))"
    using execute_calls [OF assms(1,2)] by blast
  from call_in_bind [OF adds_clearance s(2) [unfolded exec_body_def] s(3) assms(3)] s(1) show ?thesis by fastforce
qed

lemma specialist_called:
  assumes "agent_execute dp tm q \<lparr>xw_calls = [], xw_saved = vs\<rparr> = (r, s')" and "CL_specialist k \<in> set (xw_calls (snd s'))"
  shows "\<exists>a rl ev prompt ro s0 s1 s2 s3. clearance dp tm q s0 = (Goes (a, rl, ev), s1)
    \<and> exec_reason dp tm q rl s1 = (Goes (prompt, ro), s2) \<and> exec_decide dp tm q rl ev ro s2 = (Goes (), s3) \<and> k = ra_implementationKey a
    \<and> fst s0 = xs_transition (xt_started tm) XS_RUNNING (xs_new q)"
proof -
  obtain s x s4 where s: "xw_calls (snd s) = []" "exec_body dp tm q s = (x, s4)" "CL_specialist k \<in> set (xw_calls (snd s4))"
    "fst s = xs_transition (xt_started tm) XS_RUNNING (xs_new q)"
    using execute_calls [OF assms] by blast
  from call_in_bind [OF adds_clearance s(2) [unfolded exec_body_def] s(3)] s(1)
  obtain a rl ev s1 where c: "clearance dp tm q s = (Goes (a, rl, ev), s1)" "CL_specialist k \<notin> set (xw_calls (snd s1))"
    and rest: "xo_bind (exec_reason dp tm q rl) (\<lambda>(prompt, ro). xo_bind (exec_decide dp tm q rl ev ro) (\<lambda>_.
      exec_specialist dp tm q a rl ev prompt ro)) s1 = (x, s4)"
    by fastforce
  from call_in_bind [OF adds_reason rest s(3)] c(2)
  obtain prompt ro s2 where r: "exec_reason dp tm q rl s1 = (Goes (prompt, ro), s2)" "CL_specialist k \<notin> set (xw_calls (snd s2))"
    and rest2: "xo_bind (exec_decide dp tm q rl ev ro) (\<lambda>_. exec_specialist dp tm q a rl ev prompt ro) s2 = (x, s4)"
    by fastforce
  from call_in_bind [OF adds_decide rest2 s(3)] r(2)
  obtain s3 where d: "exec_decide dp tm q rl ev ro s2 = (Goes (), s3)" "CL_specialist k \<notin> set (xw_calls (snd s3))"
    and rest3: "exec_specialist dp tm q a rl ev prompt ro s3 = (x, s4)"
    by fastforce
  have "adds {CL_specialist (ra_implementationKey a)} (exec_specialist dp tm q a rl ev prompt ro)"
  proof -
    have run: "adds {c} (\<lambda>s. case f (fst s) of (answer, st) \<Rightarrow> xo_ask c answer (st, snd s))" for c f
      by (auto simp: adds_def xo_ask_def split: prod.splits)
    show ?thesis unfolding exec_specialist_def
      by (cases "xd_implementation dp (ra_implementationKey a)") (auto intro!: adds_intros run)
  qed
  from addsD [OF this rest3 s(3)] d(2) have "k = ra_implementationKey a" by blast
  with c r d s(4) show ?thesis by blast
qed

subsection \<open>Governance\<close>

text \<open>The control plane as the policy and the registry of the executor, and the table of approvals as its binding.\<close>

definition policy_client :: "control_tables \<Rightarrow> string \<Rightarrow> int \<Rightarrow> tenant_context \<Rightarrow> ai_request \<Rightarrow> string + ruling" where
  "policy_client t fresh now ctx q =
     (case fst (policy_evaluate (pg_policy_ports t) fresh now ctx q) of Inl e \<Rightarrow> Inl ''policy'' | Inr rl \<Rightarrow> Inr rl)"

definition registry_client ::
    "(string \<Rightarrow> string \<Rightarrow> bool) \<Rightarrow> control_tables \<Rightarrow> tenant_context \<Rightarrow> string \<Rightarrow> string option \<Rightarrow> string + resolved_agent option" where
  "registry_client le t ctx agent ver = Inr (registry_getAgent le ctx agent ver t)"

definition approval_client :: "approval_table \<Rightarrow> int \<Rightarrow> approval_port" where
  "approval_client rows now =
     ResolvesApproval (\<lambda>ctx b. Inr (map_option (\<lambda>(i, st). (i, ''APPROVED'')) (resolveValidApproval rows now ctx b)))"

lemma execute_answers:
  "(\<exists>r. fst (agent_execute dp tm q w) = Inr r) \<longleftrightarrow> xd_save dp (xs_transition (xt_started tm) XS_RUNNING (xs_new q))"
  by (auto simp: agent_execute_def saveCheckpoint_def store_checkpoint_def exec_fail_def Let_def split: prod.splits xres.splits)

text \<open>
  (C34) No model is called, and no prompt is assembled for one, before governance has cleared the request: the
  agent is found, runs and has every capability asked for, and the policy allowed the execution or a valid
  approval bound to it was found.
\<close>

theorem models_are_called_after_clearance:
  assumes "agent_execute dp tm q \<lparr>xw_calls = [], xw_saved = vs\<rparr> = (r, s)"
    and "CL_assemble \<in> set (xw_calls (snd s)) \<or> CL_reason \<in> set (xw_calls (snd s))"
  shows "\<exists>a rl. xd_getAgent dp (exec_ctx q) (aq_agentId q) (Some (aq_agentVersion q)) = Inr (Some a) \<and> lifecycle_runs (ra_lifecycle a)
    \<and> set (aq_capabilities q) \<subseteq> set (df_capabilities (ra_definition a)) \<and> xd_policy dp (exec_ctx q) q = Inr rl
    \<and> (rl_outcome rl = PV_ALLOW \<or> rl_outcome rl = PV_REQUIRE_APPROVAL
         \<and> (\<exists>ev. find_approval (xd_approval dp) (exec_ctx q) (exec_binding q rl) = Inr (Some ev)))"
proof -
  obtain c where "c \<in> set (xw_calls (snd s))" "c \<notin> {CL_agent, CL_policy, CL_approval}" using assms(2) by auto
  from model_called [OF assms(1) this] obtain a rl ev s0 s1 where "clearance dp tm q s0 = (Goes (a, rl, ev), s1)" by blast
  from clearance_went [OF this] show ?thesis by blast
qed

text \<open>
  (C35) The implementation of an agent runs only after every check: the agent that was asked for was found, its
  lifecycle runs, it has the capabilities, the policy allowed the execution or required an approval and one that
  is bound to the execution was found, the reasoning on the assembled prompt was asked with the whole budget of
  the request and left the execution within it, and the decision on that reasoning, under the ruling or under
  the approval that was found, was to allow.
\<close>

theorem specialists_run_after_every_check:
  assumes "agent_execute dp tm q \<lparr>xw_calls = [], xw_saved = vs\<rparr> = (r, s)" and "CL_specialist k \<in> set (xw_calls (snd s))"
  shows "\<exists>a rl ev prompt ro d. let st = xs_transition (xt_started tm) XS_RUNNING (xs_new q) in
      xd_getAgent dp (exec_ctx q) (aq_agentId q) (Some (aq_agentVersion q)) = Inr (Some a) \<and> k = ra_implementationKey a
    \<and> lifecycle_runs (ra_lifecycle a) \<and> set (aq_capabilities q) \<subseteq> set (df_capabilities (ra_definition a))
    \<and> xd_policy dp (exec_ctx q) q = Inr rl
    \<and> (rl_outcome rl = PV_ALLOW \<and> ev = None
       \<or> rl_outcome rl = PV_REQUIRE_APPROVAL \<and> ev \<noteq> None \<and> find_approval (xd_approval dp) (exec_ctx q) (exec_binding q rl) = Inr ev)
    \<and> xd_assemble dp (exec_ctx q) q = Inr prompt
    \<and> xd_reason dp (exec_ctx q) q prompt (remainingBudget (aq_budget q) (xs_budgetConsumed st)) = Inr ro
    \<and> isWithinBudget (aq_budget q) (consume_usage (nullish (ro_modelUsage ro) no_usage)
          (seconds_between (xt_reasonStart tm) (xt_reasonEnd tm)) st)
    \<and> xd_decide dp (exec_ctx q) q ro (effective_ruling rl ev) = Inr d \<and> dc_outcome d = PV_ALLOW"
proof -
  obtain a rl ev prompt ro s0 s1 s2 s3 where c: "clearance dp tm q s0 = (Goes (a, rl, ev), s1)"
    and r: "exec_reason dp tm q rl s1 = (Goes (prompt, ro), s2)" and d: "exec_decide dp tm q rl ev ro s2 = (Goes (), s3)"
    and k: "k = ra_implementationKey a" and s0: "fst s0 = xs_transition (xt_started tm) XS_RUNNING (xs_new q)"
    using specialist_called [OF assms] by blast
  note c' = clearance_went [OF c] and r' = reason_went [OF r]
  have st: "fst s1 = xs_transition (xt_started tm) XS_RUNNING (xs_new q)" using c' s0 by simp
  obtain dd where dd: "xd_decide dp (exec_ctx q) q ro (effective_ruling rl ev) = Inr dd" "dc_outcome dd = PV_ALLOW"
    using decide_went [OF d] by blast
  have "isWithinBudget (aq_budget q) (consume_usage (nullish (ro_modelUsage ro) no_usage)
      (seconds_between (xt_reasonStart tm) (xt_reasonEnd tm)) (fst s1))" using r' by metis
  then show ?thesis
    using c' r' dd k unfolding Let_def st [symmetric] by (intro exI [of _ a] exI [of _ rl] exI [of _ ev] exI [of _ prompt] exI [of _ ro] exI [of _ dd]) simp
qed

text \<open>
  (C36) An emergency stop of the tenant is absolute: with the rules of the control plane no agent of a stopped
  tenant has a prompt assembled, a model called or an implementation run, whatever was approved.
\<close>

theorem emergency_stop_is_absolute:
  assumes "xd_policy dp = policy_client t fresh now"
    and "isStopped (exec_ctx q) StopTenant (ct_stops t)"
    and "agent_execute dp tm q \<lparr>xw_calls = [], xw_saved = vs\<rparr> = (r, s)"
  shows "set (xw_calls (snd s)) \<subseteq> {CL_agent, CL_policy, CL_approval}"
proof (rule subsetI, rule ccontr)
  fix c assume "c \<in> set (xw_calls (snd s))" and "c \<notin> {CL_agent, CL_policy, CL_approval}"
  from model_called [OF assms(3) this] obtain a rl ev s0 s1 where "clearance dp tm q s0 = (Goes (a, rl, ev), s1)" by blast
  from clearance_went [OF this] have "xd_policy dp (exec_ctx q) q = Inr rl" "rl_outcome rl \<noteq> PV_DENY" by auto
  moreover have "xd_policy dp (exec_ctx q) q = Inr (buildDecision fresh q PV_DENY now (Some ''emergency-stop-active''))"
    using assms(2) by (simp add: assms(1) policy_client_def policy_evaluate_def pg_policy_ports_def exec_ctx_def ensureSameTenant_def)
  ultimately show False by (auto simp: buildDecision_def)
qed

subsection \<open>Careful decisions\<close>

text \<open>
  What the executor may rely on in a decision engine: it allows only what the ruling allows, with autonomy for the
  risk, with confidence, and when the reasoning asks for no approval.
\<close>

locale careful_decisions =
  fixes decide :: "tenant_context \<Rightarrow> ai_request \<Rightarrow> reasoning_output \<Rightarrow> ruling \<Rightarrow> string + decision_output"
  assumes allowed: "decide ctx q ro rl = Inr d \<Longrightarrow> dc_outcome d = PV_ALLOW \<Longrightarrow>
      rl_outcome rl = PV_ALLOW \<and> \<not> js_lt (aq_autonomyLevel q) (Fin 2)
      \<and> (aq_riskCategory q \<in> set highRiskCategories \<longrightarrow> \<not> js_lt (aq_autonomyLevel q) (Fin 4))
      \<and> \<not> js_lt (ro_confidence ro) (Fin (1 / 2)) \<and> set (nullish (ro_requiredApprovals ro) []) = {}"
begin

definition too_little :: "ai_request \<Rightarrow> bool" where
  "too_little q \<longleftrightarrow> js_lt (aq_autonomyLevel q) (Fin 2)
     \<or> aq_riskCategory q \<in> set highRiskCategories \<and> js_lt (aq_autonomyLevel q) (Fin 4)"

lemma never_run:
  assumes "xd_decide dp = decide" and "too_little q" and "agent_execute dp tm q \<lparr>xw_calls = [], xw_saved = vs\<rparr> = (r, s)"
  shows "CL_specialist k \<notin> set (xw_calls (snd s))"
proof
  assume "CL_specialist k \<in> set (xw_calls (snd s))"
  from specialist_called [OF assms(3) this] obtain rl ev ro s2 s3 where "exec_decide dp tm q rl ev ro s2 = (Goes (), s3)" by blast
  from decide_went [OF this] obtain d where "decide (exec_ctx q) q ro (effective_ruling rl ev) = Inr d" "dc_outcome d = PV_ALLOW"
    using assms(1) by auto
  from allowed [OF this] assms(2) show False by (auto simp: too_little_def)
qed

end

lemma set_set_add [simp]: "set (set_add x xs) = insert x (set xs)"
  by (auto simp: set_add_def)

lemma set_fold_set_add [simp]: "set (fold set_add ys xs) = set ys \<union> set xs"
  by (induction ys arbitrary: xs) auto

lemma set_add_not_Nil [simp]: "set_add x xs \<noteq> []"
  by (auto simp: set_add_def)

lemma fold_set_add_Nil [simp]: "fold set_add ys xs = [] \<longleftrightarrow> ys = [] \<and> xs = []"
  by (metis set_fold_set_add set_empty Un_empty)

lemma needed_approvals_none:
  assumes "needed_approvals q ro rl = []"
  shows "rl_outcome rl \<noteq> PV_REQUIRE_APPROVAL \<and> \<not> js_lt (aq_autonomyLevel q) (Fin 2)
      \<and> (aq_riskCategory q \<in> set highRiskCategories \<longrightarrow> \<not> js_lt (aq_autonomyLevel q) (Fin 4))
      \<and> \<not> js_lt (ro_confidence ro) (Fin (1 / 2)) \<and> set (nullish (ro_requiredApprovals ro) []) = {}"
  using assms by (auto simp: needed_approvals_def Let_def split: if_splits)

interpretation policy_aware: careful_decisions policy_aware_decide
proof
  fix ctx q ro rl d
  assume "policy_aware_decide ctx q ro rl = Inr d" and "dc_outcome d = PV_ALLOW"
  then have "rl_outcome rl \<noteq> PV_DENY" "needed_approvals q ro rl = []"
    by (auto simp: policy_aware_decide_def Let_def split: if_splits)
  then show "rl_outcome rl = PV_ALLOW \<and> \<not> js_lt (aq_autonomyLevel q) (Fin 2)
      \<and> (aq_riskCategory q \<in> set highRiskCategories \<longrightarrow> \<not> js_lt (aq_autonomyLevel q) (Fin 4))
      \<and> \<not> js_lt (ro_confidence ro) (Fin (1 / 2)) \<and> set (nullish (ro_requiredApprovals ro) []) = {}"
    using needed_approvals_none [of q ro rl] by (cases "rl_outcome rl") auto
qed

text \<open>
  (C37) When the decision engine allows: the request is of the tenant of the caller, the ruling allows, the level
  of autonomy is not below 2, nor below 4 when the risk is high or critical, the confidence of the reasoning is
  not below one half, and the reasoning asks for no approval; and in no other case.
\<close>

theorem decision_allows_iff:
  "(\<exists>d. policy_aware_decide ctx q ro rl = Inr d \<and> dc_outcome d = PV_ALLOW) \<longleftrightarrow>
     cx_tenantId ctx = aq_tenantId q \<and> rl_outcome rl = PV_ALLOW \<and> \<not> js_lt (aq_autonomyLevel q) (Fin 2)
     \<and> (if aq_riskCategory q \<in> {''HIGH'', ''CRITICAL''} then \<not> js_lt (aq_autonomyLevel q) (Fin 4) else True)
     \<and> \<not> js_lt (ro_confidence ro) (Fin (1 / 2)) \<and> nullish (ro_requiredApprovals ro) [] = []"
proof -
  have "needed_approvals q ro rl = [] \<longleftrightarrow> rl_outcome rl \<noteq> PV_REQUIRE_APPROVAL \<and> \<not> js_lt (aq_autonomyLevel q) (Fin 2)
     \<and> (if aq_riskCategory q \<in> {''HIGH'', ''CRITICAL''} then \<not> js_lt (aq_autonomyLevel q) (Fin 4) else True)
     \<and> \<not> js_lt (ro_confidence ro) (Fin (1 / 2)) \<and> nullish (ro_requiredApprovals ro) [] = []"
    by (auto simp: needed_approvals_def Let_def highRiskCategories_def)
  then show ?thesis
    by (cases "rl_outcome rl") (auto simp: policy_aware_decide_def Let_def ensureSameTenant_def)
qed

text \<open>
  So an approval does not release an execution of little autonomy: below level 2, or below level 4 with a high
  risk, the implementation is never run, whatever approval is bound to the execution.
\<close>

lemma approval_never_releases_low_autonomy:
  assumes "xd_decide dp = policy_aware_decide"
    and "js_lt (aq_autonomyLevel q) (Fin 2) \<or> aq_riskCategory q \<in> {''HIGH'', ''CRITICAL''} \<and> js_lt (aq_autonomyLevel q) (Fin 4)"
    and "agent_execute dp tm q \<lparr>xw_calls = [], xw_saved = vs\<rparr> = (r, s)"
  shows "CL_specialist k \<notin> set (xw_calls (snd s))"
  using assms(2) policy_aware.never_run [OF assms(1) _ assms(3)] by (auto simp: policy_aware.too_little_def highRiskCategories_def)

subsection \<open>A concrete execution\<close>

definition sample_reasoning :: reasoning_output where
  "sample_reasoning = \<lparr>ro_rationale = [], ro_conclusion = [], ro_confidence = Fin 1, ro_evidence = [], ro_requiredApprovals = None,
     ro_modelUsage = Some \<lparr>mu_model = ''m'', mu_inputTokens = Fin 10, mu_outputTokens = Fin 5, mu_costUsd = Fin 0\<rparr>\<rparr>"

definition sample_exec_times :: exec_times where
  "sample_exec_times = \<lparr>xt_started = 0, xt_reasonStart = 0, xt_reasonEnd = 2000, xt_completed = 3000\<rparr>"

definition sample_result :: ai_result where
  "sample_result = \<lparr>ar_executionId = ''x'', ar_tenantId = ''t'', ar_missionId = ''m'', ar_status = XS_COMPLETED,
     ar_outcome = \<lparr>eo_summary = [], eo_decisions = [], eo_actions = [], eo_evidence = []\<rparr>, ar_modelUsage = None,
     ar_startedAt = 2000, ar_completedAt = 3000, ar_correlationId = ''y'', ar_events = []\<rparr>"

definition open_tables :: "emergency_stop list \<Rightarrow> control_tables" where
  "open_tables stops = \<lparr>ct_versions = [sample_version], ct_policies = [], ct_autonomy = [], ct_stops = stops, ct_capabilities = [],
     ct_models = [], ct_audit = []\<rparr>"

definition sample_executor :: "emergency_stop list \<Rightarrow> executor_deps" where
  "sample_executor stops = \<lparr>xd_getAgent = registry_client (\<lambda>a b. True) (open_tables stops), xd_policy = policy_client (open_tables stops) ''f'' 0,
     xd_approval = NoApprovalPort, xd_assemble = (\<lambda>ctx q. Inr ''p''), xd_reason = (\<lambda>ctx q p b. Inr sample_reasoning),
     xd_decide = policy_aware_decide, xd_implementation = (\<lambda>k. Some (\<lambda>q p ro st. (Inr sample_result, st))), xd_save = (\<lambda>s. True)\<rparr>"

definition sample_run :: "emergency_stop list \<Rightarrow> ai_request \<Rightarrow> (string + ai_result) \<times> exec_st" where
  "sample_run stops q = agent_execute (sample_executor stops) sample_exec_times q \<lparr>xw_calls = [], xw_saved = []\<rparr>"

lemma sample_run_calls:
  "xw_calls (snd (snd (sample_run [] sample_ai_request))) = [CL_agent, CL_policy, CL_assemble, CL_reason, CL_decide, CL_specialist ''k'']"
  by code_simp

lemma sample_run_pair: "agent_execute (sample_executor stops) sample_exec_times q \<lparr>xw_calls = [], xw_saved = []\<rparr>
    = (fst (sample_run stops q), snd (sample_run stops q))"
  by (simp add: sample_run_def)

theorem models_are_called_after_clearance_witness:
  "\<exists>rl. xd_policy (sample_executor []) (exec_ctx sample_ai_request) sample_ai_request = Inr rl \<and> rl_outcome rl \<noteq> PV_DENY"
  using models_are_called_after_clearance [OF sample_run_pair [of "[]" sample_ai_request]] sample_run_calls by auto

theorem specialists_run_after_every_check_witness:
  "\<exists>rl ev. xd_policy (sample_executor []) (exec_ctx sample_ai_request) sample_ai_request = Inr rl
     \<and> (rl_outcome rl = PV_ALLOW \<and> ev = None \<or> rl_outcome rl = PV_REQUIRE_APPROVAL \<and> ev \<noteq> None)"
  using specialists_run_after_every_check [OF sample_run_pair [of "[]" sample_ai_request], of "''k''"] sample_run_calls
  by (auto simp: Let_def)

theorem emergency_stop_is_absolute_witness:
  "CL_reason \<notin> set (xw_calls (snd (snd (sample_run [\<lparr>es_tenantId = Some ''t'', es_missionId = None, es_agentId = None, es_active = True\<rparr>]
     sample_ai_request))))"
proof -
  let ?stops = "[\<lparr>es_tenantId = Some ''t'', es_missionId = None, es_agentId = None, es_active = True\<rparr>]"
  have "xd_policy (sample_executor ?stops) = policy_client (open_tables ?stops) ''f'' 0" by (simp add: sample_executor_def)
  moreover have "isStopped (exec_ctx sample_ai_request) StopTenant (ct_stops (open_tables ?stops))" by code_simp
  ultimately show ?thesis using emergency_stop_is_absolute [OF _ _ sample_run_pair] by fastforce
qed

lemma approval_never_releases_low_autonomy_witness:
  "CL_specialist ''k'' \<notin> set (xw_calls (snd (snd (sample_run [] (sample_ai_request\<lparr>aq_autonomyLevel := Fin 1\<rparr>)))))"
  using approval_never_releases_low_autonomy [OF _ _ sample_run_pair [of "[]" "sample_ai_request\<lparr>aq_autonomyLevel := Fin 1\<rparr>"]]
  by (simp add: sample_executor_def)

end
