(* ===== verification/Spec2Isabelle.thy ===== *)
theory Spec2Isabelle
  imports Prelude Aggregate Contexts OutreachValues MessageExecution OutreachSequence Campaign
    MissionGraph Mission Repository Approval Idempotency SafetyGate OutreachRepositories OutreachExecution
    BudgetLedger LlmRouter ToolSchema ToolRegistry ToolGateway MissionRepository MissionPlanning MissionEngine
    MissionExecution MissionControl Leads Accounts Contacts Signals IcpProfiles ResearchRecords
    Scoring IntelligenceStores ResearchEngine Conversation ConversationHandling OutreachDirectories GraphInbound
    ControlPlane AgentExecution
begin

text \<open>
  A verification development for the revenue operations platform under \<open>src/\<close>: a TypeScript
  monorepo in which agents plan missions, research leads and send outreach messages, and in which
  nothing leaves the system without a human approval, a budget and a send that happens at most
  once. The development models that core: the aggregates of \<open>packages/domain\<close>, the approvals, the
  planner and the execution engine of \<open>packages/mission-orchestrator\<close>, the idempotency stores of
  \<open>packages/infrastructure\<close>, the safety gate and the execution service of \<open>packages/outreach\<close>, and
  the gateways through which agents reach tools (\<open>packages/tool-gateway\<close>) and language models
  (\<open>packages/llm-gateway\<close>).

  How the parts interact. A mission (\<open>Mission\<close>) owns a graph of tasks. A planner
  (\<open>MissionPlanning\<close>) proposes it, and the engine (\<open>MissionEngine\<close>) stores it
  (\<open>MissionRepository\<close>), takes one runnable task after the other, calls its agent and stores what came
  of it. The agents reach tools through the tool gateway (\<open>ToolGateway\<close>, which resolves them in
  \<open>ToolRegistry\<close> and checks their inputs with \<open>ToolSchema\<close>) and models through the router
  (\<open>LlmRouter\<close>, which charges the ledger of \<open>BudgetLedger\<close>). A task of the outreach kind
  creates a campaign (\<open>Campaign\<close>, which holds the budget) with a sequence of steps
  (\<open>OutreachSequence\<close>). For the current step \<open>prepareDraft\<close> creates a message execution
  (\<open>MessageExecution\<close>) with a draft; an approval is requested (\<open>Approval\<close>), a person decides, and
  \<open>executeApprovedSend\<close> loads execution, sequence and campaign (\<open>OutreachRepositories\<close>), asks the
  safety gate (\<open>SafetyGate\<close>), which verifies the approval and claims the idempotency key
  (\<open>Idempotency\<close>), hands the request to a provider, and stores what came of it
  (\<open>OutreachExecution\<close>). Whatever remains unknown is decided by an operator (\<open>reconcile\<close>).

  The theories, in order.

  \<^item> \<open>Prelude\<close>: \<open>Result\<close>, \<open>??\<close>, truthiness, numbers with \<open>NaN\<close> and infinities, strings, association
    lists for \<open>Map\<close>; the collection \<open>op_defs\<close>.
  \<^item> \<open>Aggregate\<close>: \<open>aggregate-root.ts\<close>, \<open>domain-event.ts\<close>; the locales \<open>lifecycle\<close> (a status that moves
    along a table; statuses closed under the table are never left) and \<open>event_sourced\<close> (operations
    only append events and count them in the version).
  \<^item> \<open>Contexts\<close>, \<open>OutreachValues\<close>: tenant contexts and checks, JSON, channels, protected recipients.
  \<^item> \<open>MessageExecution\<close>, \<open>OutreachSequence\<close>, \<open>Campaign\<close>: one record, one set of events and one definition per
    method of \<open>message-execution.ts\<close>, \<open>sequence.ts\<close>, \<open>campaign.ts\<close>; a step relation (\<open>mex_step\<close>,
    \<open>seq_step\<close>, \<open>cp_step\<close>) whose runs are all sequences of calls; interpretations of both locales.
  \<^item> \<open>MissionGraph\<close>, \<open>Mission\<close>: \<open>mission-task.ts\<close> and \<open>mission.ts\<close>: the plan check with its depth first
    search, and every method of the mission.
  \<^item> \<open>Repository\<close>: the table with optimistic concurrency that the Postgres repositories share, and the
    locale \<open>versioned_repository\<close> (a stale writer is refused; every save of a run moves the version on).
  \<^item> \<open>Approval\<close>: the approval aggregate, its repository, the two readers that decide whether an action
    is approved, and the application service that signals the workflows.
  \<^item> \<open>Idempotency\<close>: the Postgres and the in-memory store, two instances of \<open>idempotency_store\<close>.
  \<^item> \<open>SafetyGate\<close>: \<open>evaluate\<close> with all its checks, and the two rate limiters.
  \<^item> \<open>OutreachRepositories\<close>: snapshots and the three repositories of outreach, as instances of
    \<open>versioned_repository\<close>.
  \<^item> \<open>OutreachExecution\<close>: the execution service and the reconciliation service.
  \<^item> \<open>BudgetLedger\<close>, \<open>LlmRouter\<close>: the ledger of an execution (\<open>execution-budget-ledger\<close>) and the router
    of model calls with its ranking, its attempts and its reservations.
  \<^item> \<open>ToolSchema\<close>, \<open>ToolRegistry\<close>, \<open>ToolGateway\<close>: the validator of inputs and outputs, the in-memory and
    the Postgres registry with their lifecycles, and \<open>tool-gateway.ts\<close> with its checks, its claims and
    its retries.
  \<^item> \<open>MissionRepository\<close>: \<open>postgres-mission-repository.ts\<close> on the five tables of missions, plans, tasks,
    dependencies and execution states.
  \<^item> \<open>MissionPlanning\<close>: the contracts, \<open>mission-mapper.ts\<close> and the planners.
  \<^item> \<open>MissionEngine\<close>: every method of \<open>mission-execution-engine.ts\<close>; the locale \<open>mission_store\<close> states
    what the engine relies on in a repository, and \<open>pg\<close> interprets it on \<open>MissionRepository\<close>.
  \<^item> \<open>MissionExecution\<close>: what holds of the engine on the Postgres repository.
  \<^item> \<open>MissionControl\<close>: \<open>mission-orchestrator.service.ts\<close> with its retries and signals, and the workflow of
    \<open>apps/temporal-worker\<close> as a state machine over the engine.
  \<^item> \<open>Leads\<close>, \<open>Accounts\<close>, \<open>Contacts\<close>, \<open>Signals\<close>, \<open>IcpProfiles\<close>, \<open>ResearchRecords\<close>: the aggregates of
    \<open>packages/domain/src/intelligence\<close>, and the versioned table of the profiles.
  \<^item> \<open>Scoring\<close>, \<open>IntelligenceStores\<close>, \<open>ResearchEngine\<close>: \<open>scoring.ts\<close>, the repositories, caches and quotas of
    \<open>packages/intelligence\<close>, and \<open>research-engine.ts\<close>, whose operations are sequenced by \<open>rx_bind\<close>; the
    locale \<open>engine_frame\<close> lifts what every single write keeps to a whole run.
  \<^item> \<open>Conversation\<close>, \<open>ConversationHandling\<close>: the conversation with a prospect (\<open>packages/domain/src/conversation\<close>),
    and \<open>conversation-handling.service.ts\<close> with its repository, its classifier and policy, and the durable opt-out.
  \<^item> \<open>OutreachDirectories\<close>: the recipient allowlist, the mail configuration of the tenants and the Graph
    subscriptions, whose upserts are instances of the locale \<open>keyed_table\<close>.
  \<^item> \<open>GraphInbound\<close>: \<open>infrastructure/graph-inbound\<close>, from the notification of a mailbox to the reply it
    carries, the reconciliation poller, and the orchestrator of the API that hands the reply on.
  \<^item> \<open>ControlPlane\<close>: \<open>packages/control-plane\<close>, agent versions, policies, autonomy rules and emergency stops on
    tables with row level security; outcomes are a linear order, and the rules combine to its maximum.
  \<^item> \<open>AgentExecution\<close>: \<open>agent-executor.ts\<close> with \<open>execution-state.ts\<close> and the decision engine: a sequence of calls
    (\<open>xo_bind\<close>) that throws, returns or goes on; the locale \<open>careful_decisions\<close> states what it may rely on in a
    decision engine.

  What the lemmas show. Of each aggregate: which statuses its calls can reach and what holds there
  (approval and draft before a send, steps in order, budget, dependencies before tasks, decisions
  that are final), that its log replays, and which calls succeed. Of the plan check: it accepts
  exactly the well-formed acyclic plans, and its search always ends (by the number of tasks not
  on the stack). Of the repositories: what was saved is loaded, and of two writers of one version
  one is refused. Of the stores: a key is claimed at most once until a write says that nothing was
  submitted. Of the gate: it allows exactly when all checks pass. Of the send service: a request is
  handed over only after every check, at most one per call, and after a call that no other writer
  overlaps its key is taken unless the provider refused. Of the tool gateway: the checks before the
  claim pass exactly when each of them does, a keyed request reaches a provider at most once, and a
  bounded number of times in one call. Of the router and the ledger: what an execution spends, in cost
  and in tokens, is bounded by its budget and by what one attempt may exceed its estimate. Of the mission
  engine, for one worker on the Postgres tables: a run ends by itself, calls every task at most once and
  after its dependencies, and what planning stores is stated for both cases, a plan version that is new to
  the tables (the tasks of the plan, accepted by its check) and one that the mission has already (no tasks:
  such a mission completes without doing anything, \<open>plan_of_same_version_does_nothing\<close>). Of the conversations: an opt-out is durable and ends the conversation, and a verdict on a lead
  follows the intent of the reply. Of inbound mail: a reply gets through only with the secret, the
  subscription and the execution of one tenant, and once. Of the control plane: the strictest rule
  decides, approved versions are frozen, tenants do not touch the rows of others. Of the agent executor: no
  model is called before governance has cleared the request, and no implementation run before every check.
  Several properties state behaviour that the code's own comments do
  not intend; they are listed as findings in the manifest.

  How code became definitions. A class is a record, its constructor \<open>*_construct\<close>, its factories
  \<open>*_create\<close> and \<open>*_reconstitute\<close>. A method takes the values the code draws from outside as
  arguments: \<open>now\<close> for \<open>new Date()\<close> and \<open>Date.now()\<close> (milliseconds, one reading per call), \<open>ev\<close> for the
  event id, \<open>fresh\<close> for \<open>randomUUID()\<close>, and returns its result and the object after it; a thrown
  exception is \<open>Inl\<close>. An optional field is an \<open>option\<close>, with \<open>None\<close> for both \<open>undefined\<close> and \<open>null\<close>.
  Numbers that users or providers give are \<open>jsnum\<close>: exact rationals with \<open>NaN\<close> and the infinities,
  so rounding is not modelled; counters are \<open>nat\<close>. Branded ids are strings. A service is a function on
  a world of tables; each \<open>await\<close> on a table or a port is one atomic step and a call runs without
  interleaving, so concurrency appears where it matters: as two writers of one loaded version, and
  as arbitrary sequences of operations on a store. So a conflict that arises within one call, as between
  the load and the save of \<open>executeApprovedSend\<close> or of \<open>planMission\<close>, is not covered, except during the
  run of an agent, where \<open>ed_meanwhile\<close> lets others write; and a table refuses a write for the reasons of
  its code, never because the database is down. Ports whose code is outside the repository, or
  is pure I/O, are functions in a record of dependencies; what a property needs of them is a named
  hypothesis of it (\<open>quiet\<close>: nobody writes while an agent runs; \<open>agents_answer\<close>, \<open>agents_complete\<close>,
  \<open>compensates\<close>: the ports return; \<open>sole_member\<close>: the workspace resolver finds one row; \<open>sound_time\<close>,
  \<open>new_run_ids\<close>: the clock and the id generator). Every
  definition is total: the only numeric bounds are those of the code, the 1000 rounds of
  \<open>executeMission\<close> (\<open>mission_execution_ends\<close> shows that the number of pending tasks is enough), the
  three attempts of a save, and the attempts of the gateways, whose loops count them down.

  Not modelled: HTTP and Temporal bindings, network clients, SQL text, encryption, telemetry, and
  (yet) the packages that the manifest lists with the reason.
\<close>

end
